(* ===== verification/Prelude.thy ===== *)
theory Prelude
  imports Main "HOL-Library.Word" "HOL-Library.Monad_Syntax"
    "HOL-Library.Code_Target_Numeral"
begin

text \<open>
  What every component shares: the machine integers, results with a string error
  (Rust's \<open>Result<T, String>\<close>), and the operations of Rust's \<open>str\<close>
  the sources use. A \<open>string\<close> is the UTF-8 bytes of a Rust \<open>str\<close>, so
  \<open>length\<close> is \<open>str::len\<close>; operations over \<open>char\<close>s first group the
  bytes of each encoded character (\<open>utf8_chars\<close>).
\<close>

unbundle bit_operations_syntax

type_synonym u8 = "8 word"
type_synonym u16 = "16 word"
type_synonym u32 = "32 word"
type_synonym u64 = "64 word"
type_synonym u128 = "128 word"

type_synonym 'a res = "string + 'a"

named_theorems ok_simps \<open>when a result is a success\<close>
named_theorems split_simps \<open>splitting and joining strings\<close>

section \<open>Results\<close>

text \<open>The \<open>?\<close> operator, an early return of an error, and a loop of checks.\<close>

fun bindE :: "'e + 'a \<Rightarrow> ('a \<Rightarrow> 'e + 'b) \<Rightarrow> 'e + 'b" where
  "bindE (Inl e) f = Inl e"
| "bindE (Inr a) f = f a"

fun thenE :: "'e + unit \<Rightarrow> 'e + 'b \<Rightarrow> 'e + 'b" where
  "thenE (Inl e) m = Inl e"
| "thenE (Inr u) m = m"

definition failIf :: "bool \<Rightarrow> 'e \<Rightarrow> 'e + unit" where
  "failIf b e = (if b then Inl e else Inr ())"

definition ok_or :: "'a option \<Rightarrow> 'e \<Rightarrow> 'e + 'a" where
  "ok_or x e = (case x of None \<Rightarrow> Inl e | Some a \<Rightarrow> Inr a)"

fun eachE :: "('a \<Rightarrow> 'e + unit) \<Rightarrow> 'a list \<Rightarrow> 'e + unit" where
  "eachE f [] = Inr ()"
| "eachE f (x # xs) = thenE (f x) (eachE f xs)"

definition is_ok :: "'e + 'a \<Rightarrow> bool" where
  "is_ok r = (case r of Inl _ \<Rightarrow> False | Inr _ \<Rightarrow> True)"

definition ok_opt :: "'e + 'a \<Rightarrow> 'a option" where
  "ok_opt r = (case r of Inl _ \<Rightarrow> None | Inr a \<Rightarrow> Some a)"

lemma bindE_ok [ok_simps]: "bindE m f = Inr b \<longleftrightarrow> (\<exists>a. m = Inr a \<and> f a = Inr b)"
  by (cases m) auto

lemma thenE_ok [ok_simps]: "thenE m k = Inr b \<longleftrightarrow> m = Inr () \<and> k = Inr b"
  by (cases m) auto

lemma failIf_ok [ok_simps]: "failIf b e = Inr u \<longleftrightarrow> \<not> b"
  by (simp add: failIf_def)

lemma ok_or_ok [ok_simps]: "ok_or x e = Inr a \<longleftrightarrow> x = Some a"
  by (simp add: ok_or_def split: option.splits)

lemma eachE_ok [ok_simps]: "eachE f xs = Inr u \<longleftrightarrow> (\<forall>x \<in> set xs. f x = Inr ())"
  by (induction xs) (auto simp: thenE_ok)

lemma is_ok_simps [simp]: "is_ok (Inl e) = False" "is_ok (Inr a) = True"
  by (simp_all add: is_ok_def)

lemma is_ok_iff: "is_ok r \<longleftrightarrow> (\<exists>a. r = Inr a)"
  by (cases r) auto

lemma ok_opt_simps [simp]: "ok_opt (Inl e) = None" "ok_opt (Inr a) = Some a"
  by (simp_all add: ok_opt_def)

lemma ok_opt_Some [ok_simps]: "ok_opt r = Some a \<longleftrightarrow> r = Inr a"
  by (cases r) auto

text \<open>Rust's \<open>Vec::retain\<close>, \<open>Iterator::find\<close> and \<open>position\<close> are \<open>filter\<close>, \<open>List.find\<close> and:\<close>

fun position :: "('a \<Rightarrow> bool) \<Rightarrow> 'a list \<Rightarrow> nat option" where
  "position p [] = None"
| "position p (x # xs) = (if p x then Some 0 else map_option Suc (position p xs))"

lemma position_Some: "position p xs = Some i \<Longrightarrow> i < length xs \<and> p (xs ! i)"
  by (induction xs arbitrary: i) (auto split: if_splits)

lemma position_None: "position p xs = None \<longleftrightarrow> (\<forall>x \<in> set xs. \<not> p x)"
  by (induction xs) auto

text \<open>The \<open>i\<close>-th element, if there is one (\<open>slice::get\<close>, \<open>Iterator::nth\<close>).\<close>

definition nth_opt :: "'a list \<Rightarrow> nat \<Rightarrow> 'a option" where
  "nth_opt xs i = (if i < length xs then Some (xs ! i) else None)"

text \<open>Insertion into a \<open>HashSet\<close> in a loop that stops at the first duplicate.\<close>

lemma find_Some_set: "List.find p xs = Some x \<Longrightarrow> x \<in> set xs \<and> p x"
  by (induction xs) (auto split: if_splits)

lemma find_None_iff: "List.find p xs = None \<longleftrightarrow> (\<forall>x \<in> set xs. \<not> p x)"
  by (induction xs) auto

section \<open>Characters and strings\<close>

abbreviation nl :: string where "nl \<equiv> [CHR 0x0A]"

definition byte :: "char \<Rightarrow> nat" where
  "byte c = of_char c"

definition ascii_lower :: "char \<Rightarrow> bool" where
  "ascii_lower c \<longleftrightarrow> 97 \<le> byte c \<and> byte c \<le> 122"

definition ascii_upper :: "char \<Rightarrow> bool" where
  "ascii_upper c \<longleftrightarrow> 65 \<le> byte c \<and> byte c \<le> 90"

definition ascii_digit :: "char \<Rightarrow> bool" where
  "ascii_digit c \<longleftrightarrow> 48 \<le> byte c \<and> byte c \<le> 57"

definition ascii_alphanumeric :: "char \<Rightarrow> bool" where
  "ascii_alphanumeric c \<longleftrightarrow> ascii_lower c \<or> ascii_upper c \<or> ascii_digit c"

definition ascii_control :: "char \<Rightarrow> bool" where
  "ascii_control c \<longleftrightarrow> byte c < 32 \<or> byte c = 127"

definition to_ascii_lower :: "char \<Rightarrow> char" where
  "to_ascii_lower c = (if ascii_upper c then char_of (byte c + 32) else c)"

lemmas ascii_defs = ascii_lower_def ascii_upper_def ascii_digit_def ascii_alphanumeric_def
  ascii_control_def byte_def

text \<open>One encoded character is a lead byte and its continuation bytes (10xxxxxx).\<close>

definition cont_byte :: "char \<Rightarrow> bool" where
  "cont_byte c \<longleftrightarrow> 0x80 \<le> byte c \<and> byte c < 0xC0"

fun utf8_chars :: "string \<Rightarrow> string list" where
  "utf8_chars [] = []"
| "utf8_chars (c # s) =
     (case utf8_chars s of
        [] \<Rightarrow> [[c]]
      | g # gs \<Rightarrow> if cont_byte (hd g) then (c # g) # gs else [c] # g # gs)"

lemma utf8_chars_concat [simp]: "concat (utf8_chars s) = s"
  by (induction s) (auto split: list.splits)

lemma utf8_chars_nonempty: "g \<in> set (utf8_chars s) \<Longrightarrow> g \<noteq> []"
  by (induction s arbitrary: g) (auto split: list.splits if_splits)

lemma utf8_chars_ascii: "(\<forall>c \<in> set s. \<not> cont_byte c) \<Longrightarrow> utf8_chars s = map (\<lambda>c. [c]) s"
  by (induction s) (auto split: list.splits)

text \<open>Unicode's White_Space characters (\<open>char::is_whitespace\<close>), as their encodings.\<close>

definition white_space_chars :: "string list" where
  "white_space_chars =
     [[CHR 0x09], [CHR 0x0A], [CHR 0x0B], [CHR 0x0C], [CHR 0x0D], [CHR 0x20],
      [CHR 0xC2, CHR 0x85], [CHR 0xC2, CHR 0xA0], [CHR 0xE1, CHR 0x9A, CHR 0x80],
      [CHR 0xE2, CHR 0x80, CHR 0x80], [CHR 0xE2, CHR 0x80, CHR 0x81],
      [CHR 0xE2, CHR 0x80, CHR 0x82], [CHR 0xE2, CHR 0x80, CHR 0x83],
      [CHR 0xE2, CHR 0x80, CHR 0x84], [CHR 0xE2, CHR 0x80, CHR 0x85],
      [CHR 0xE2, CHR 0x80, CHR 0x86], [CHR 0xE2, CHR 0x80, CHR 0x87],
      [CHR 0xE2, CHR 0x80, CHR 0x88], [CHR 0xE2, CHR 0x80, CHR 0x89],
      [CHR 0xE2, CHR 0x80, CHR 0x8A], [CHR 0xE2, CHR 0x80, CHR 0xA8],
      [CHR 0xE2, CHR 0x80, CHR 0xA9], [CHR 0xE2, CHR 0x80, CHR 0xAF],
      [CHR 0xE2, CHR 0x81, CHR 0x9F], [CHR 0xE3, CHR 0x80, CHR 0x80]]"

definition white_space :: "string \<Rightarrow> bool" where
  "white_space g \<longleftrightarrow> g \<in> set white_space_chars"

text \<open>Unicode's Cc (\<open>char::is_control\<close>): C0, DEL and C1.\<close>

definition control_char :: "string \<Rightarrow> bool" where
  "control_char g \<longleftrightarrow>
     (case g of
        [c] \<Rightarrow> ascii_control c
      | [c, d] \<Rightarrow> byte c = 0xC2 \<and> 0x80 \<le> byte d \<and> byte d < 0xA0
      | _ \<Rightarrow> False)"

section \<open>Splitting, trimming, searching\<close>

fun split_when :: "('a \<Rightarrow> bool) \<Rightarrow> 'a list \<Rightarrow> 'a list list" where
  "split_when p [] = [[]]"
| "split_when p (x # xs) =
     (if p x then [] # split_when p xs
      else (case split_when p xs of [] \<Rightarrow> [[x]] | w # ws \<Rightarrow> (x # w) # ws))"

definition split_on :: "char \<Rightarrow> string \<Rightarrow> string list" where
  "split_on c s = split_when (\<lambda>x. x = c) s"

fun split_once :: "char \<Rightarrow> string \<Rightarrow> (string \<times> string) option" where
  "split_once c [] = None"
| "split_once c (x # xs) =
     (if x = c then Some ([], xs)
      else map_option (\<lambda>(a, b). (x # a, b)) (split_once c xs))"

definition rsplit_once :: "char \<Rightarrow> string \<Rightarrow> (string \<times> string) option" where
  "rsplit_once c s = map_option (\<lambda>(b, a). (rev a, rev b)) (split_once c (rev s))"

fun strip_prefix :: "string \<Rightarrow> string \<Rightarrow> string option" where
  "strip_prefix [] s = Some s"
| "strip_prefix (p # ps) [] = None"
| "strip_prefix (p # ps) (x # xs) = (if p = x then strip_prefix ps xs else None)"

definition starts_with :: "string \<Rightarrow> string \<Rightarrow> bool" where
  "starts_with p s \<longleftrightarrow> strip_prefix p s \<noteq> None"

fun contains_str :: "string \<Rightarrow> string \<Rightarrow> bool" where
  "contains_str p [] \<longleftrightarrow> p = []"
| "contains_str p (x # xs) \<longleftrightarrow> starts_with p (x # xs) \<or> contains_str p xs"

definition trim :: "string \<Rightarrow> string" where
  "trim s =
     concat (rev (dropWhile white_space (rev (dropWhile white_space (utf8_chars s)))))"

definition split_whitespace :: "string \<Rightarrow> string list" where
  "split_whitespace s =
     filter (\<lambda>w. w \<noteq> []) (map concat (split_when white_space (utf8_chars s)))"

text \<open>\<open>str::lines\<close>: a line ends at a newline, with a carriage return before it; the last
  piece is a line unless it is empty.\<close>

definition strip_cr :: "string \<Rightarrow> string" where
  "strip_cr l = (if l \<noteq> [] \<and> last l = CHR 0x0D then butlast l else l)"

definition lines_of :: "string \<Rightarrow> string list" where
  "lines_of s =
     (let ps = split_on (CHR 0x0A) s
      in map strip_cr (butlast ps) @ (if last ps = [] then [] else [last ps]))"

fun join_with :: "string \<Rightarrow> string list \<Rightarrow> string" where
  "join_with sep [] = []"
| "join_with sep [x] = x"
| "join_with sep (x # y # ys) = x @ sep @ join_with sep (y # ys)"

lemma split_when_nonempty [simp]: "split_when p xs \<noteq> []"
  by (induction xs) (auto split: list.splits)

lemma split_when_none [split_simps]: "(\<forall>x \<in> set xs. \<not> p x) \<Longrightarrow> split_when p xs = [xs]"
  by (induction xs) auto

lemma split_when_append [split_simps]:
  assumes "\<forall>x \<in> set xs. \<not> p x" and "p y"
  shows "split_when p (xs @ y # ys) = xs # split_when p ys"
  using assms by (induction xs) auto

lemma split_when_pieces: "w \<in> set (split_when p xs) \<Longrightarrow> x \<in> set w \<Longrightarrow> \<not> p x \<and> x \<in> set xs"
proof (induction xs arbitrary: w)
  case Nil
  then show ?case by simp
next
  case (Cons y ys)
  then show ?case
    by (cases "split_when p ys") (fastforce split: if_splits)+
qed

lemma split_once_none [split_simps]: "split_once c s = None \<longleftrightarrow> c \<notin> set s"
  by (induction s) auto

lemma split_once_Some: "split_once c s = Some (a, b) \<longleftrightarrow> s = a @ c # b \<and> c \<notin> set a"
proof (induction s arbitrary: a)
  case Nil
  then show ?case by simp
next
  case (Cons x xs)
  show ?case
  proof (cases a)
    case Nil
    then show ?thesis by auto
  next
    case (Cons y ys)
    then show ?thesis using Cons.IH by auto
  qed
qed

lemma split_once_append [split_simps]: "c \<notin> set a \<Longrightarrow> split_once c (a @ c # b) = Some (a, b)"
  by (simp add: split_once_Some)

lemma strip_prefix_Some: "strip_prefix p s = Some r \<longleftrightarrow> s = p @ r"
  by (induction p s rule: strip_prefix.induct) auto

lemma starts_with_iff: "starts_with p s \<longleftrightarrow> (\<exists>r. s = p @ r)"
  by (auto simp: starts_with_def strip_prefix_Some)

lemma split_on_slash_hd: "c \<notin> set a \<Longrightarrow> split_on c (a @ c # b) = a # split_on c b"
  unfolding split_on_def by (rule split_when_append) auto

lemma split_on_none [simp]: "c \<notin> set a \<Longrightarrow> split_on c a = [a]"
  by (auto simp: split_on_def intro!: split_when_none)

lemma split_on_nonempty [simp]: "split_on c s \<noteq> []"
  by (simp add: split_on_def)

section \<open>Words\<close>

text \<open>The grouping of bytes into characters is the only one of its shape, so that trimming
  keeps the words of a string.\<close>

definition grouped :: "string list \<Rightarrow> bool" where
  "grouped gs \<longleftrightarrow>
     (\<forall>g \<in> set gs. g \<noteq> [] \<and> (\<forall>c \<in> set (tl g). cont_byte c)) \<and> (\<forall>g \<in> set (tl gs). \<not> cont_byte (hd g))"

lemma grouped_utf8_chars: "grouped (utf8_chars s)"
proof (induction s)
  case Nil
  then show ?case by (simp add: grouped_def)
next
  case (Cons c s)
  show ?case
  proof (cases "utf8_chars s")
    case Nil
    then show ?thesis by (simp add: grouped_def)
  next
    case (Cons g gs)
    then have "g \<noteq> []" using utf8_chars_nonempty [of g s] by simp
    then show ?thesis using Cons Cons.IH by (cases g) (auto simp: grouped_def)
  qed
qed

lemma utf8_chars_group:
  assumes "g \<noteq> []" and "\<forall>c \<in> set (tl g). cont_byte c"
    and "s = [] \<or> \<not> cont_byte (hd s)"
  shows "utf8_chars (g @ s) = g # utf8_chars s"
  using assms
proof (induction g)
  case Nil
  then show ?case by simp
next
  case (Cons c g)
  show ?case
  proof (cases g)
    case Nil
    then show ?thesis using Cons.prems utf8_chars_concat [of s]
      by (cases s) (auto split: list.splits simp del: utf8_chars_concat
          dest: utf8_chars_nonempty [of "hd (utf8_chars s)" s])
  next
    case (Cons d h)
    then have "utf8_chars (g @ s) = g # utf8_chars s"
      using Cons.IH Cons.prems by auto
    then show ?thesis using Cons Cons.prems by auto
  qed
qed


lemma utf8_chars_grouped: "grouped gs \<Longrightarrow> utf8_chars (concat gs) = gs"
proof (induction gs)
  case Nil
  then show ?case by simp
next
  case (Cons g gs)
  have gs: "grouped gs"
    using Cons.prems by (cases gs) (auto simp: grouped_def)
  have "concat gs = [] \<or> \<not> cont_byte (hd (concat gs))"
    using Cons.prems by (cases gs) (auto simp: grouped_def)
  then show ?case
    using Cons.prems Cons.IH [OF gs] utf8_chars_group [of g "concat gs"]
    by (auto simp: grouped_def)
qed

lemma grouped_suffix: "grouped (xs @ ys) \<Longrightarrow> grouped ys"
  by (cases xs; cases ys) (auto simp: grouped_def)

lemma grouped_prefix: "grouped (xs @ ys) \<Longrightarrow> grouped xs"
  by (cases xs) (auto simp: grouped_def)

definition words_of :: "string list \<Rightarrow> string list" where
  "words_of gs = filter (\<lambda>w. w \<noteq> []) (map concat (split_when white_space gs))"

lemma split_whitespace_words: "split_whitespace s = words_of (utf8_chars s)"
  by (simp add: split_whitespace_def words_of_def)

lemma split_when_sep: "p y \<Longrightarrow> split_when p (xs @ y # ys) = split_when p xs @ split_when p ys"
  by (induction xs) (auto split: list.splits)

lemma words_of_sep: "white_space y \<Longrightarrow> words_of (xs @ y # ys) = words_of xs @ words_of ys"
  by (simp add: words_of_def split_when_sep)

lemma words_of_Nil [simp]: "words_of [] = []"
  by (simp add: words_of_def)

lemma words_of_spaces_left: "words_of (dropWhile white_space gs) = words_of gs"
proof (induction gs)
  case (Cons g gs)
  then show ?case using words_of_sep [of g "[]" gs] by auto
qed simp

lemma words_of_spaces_right: "words_of (rev (dropWhile white_space (rev gs))) = words_of gs"
proof (induction gs rule: rev_induct)
  case (snoc g gs)
  then show ?case using words_of_sep [of g gs "[]"] by auto
qed simp

lemma dropWhile_suffix: "\<exists>zs. xs = zs @ dropWhile p xs"
  by (metis takeWhile_dropWhile_id)

lemma utf8_chars_trim:
  "utf8_chars (trim s)
   = rev (dropWhile white_space (rev (dropWhile white_space (utf8_chars s))))" (is "_ = rev ?r")
proof -
  define l where "l = dropWhile white_space (utf8_chars s)"
  obtain zs where "utf8_chars s = zs @ l"
    using dropWhile_suffix unfolding l_def by blast
  then have "grouped l" using grouped_utf8_chars [of s] grouped_suffix by metis
  moreover obtain ws where "rev l = ws @ dropWhile white_space (rev l)"
    using dropWhile_suffix by blast
  then have "l = rev (dropWhile white_space (rev l)) @ rev ws"
    by (metis rev_append rev_rev_ident)
  ultimately have "grouped (rev (dropWhile white_space (rev l)))"
    using grouped_prefix by metis
  then show ?thesis
    by (simp add: trim_def l_def utf8_chars_grouped)
qed

lemma split_whitespace_trim [simp]: "split_whitespace (trim s) = split_whitespace s"
  by (simp add: split_whitespace_words utf8_chars_trim words_of_spaces_left words_of_spaces_right)

text \<open>ASCII strings, split at a space.\<close>

definition is_ascii :: "string \<Rightarrow> bool" where
  "is_ascii s \<longleftrightarrow> (\<forall>c \<in> set s. byte c < 128)"

lemma is_ascii_append [simp]: "is_ascii (a @ b) \<longleftrightarrow> is_ascii a \<and> is_ascii b"
  by (auto simp: is_ascii_def)

lemma is_ascii_Nil [simp]: "is_ascii []"
  by (simp add: is_ascii_def)

lemma is_ascii_Cons [simp]: "is_ascii (c # b) \<longleftrightarrow> byte c < 128 \<and> is_ascii b"
  by (auto simp: is_ascii_def)

lemma utf8_chars_is_ascii: "is_ascii s \<Longrightarrow> utf8_chars s = map (\<lambda>c. [c]) s"
  by (rule utf8_chars_ascii) (auto simp: is_ascii_def cont_byte_def)

lemma split_whitespace_space:
  assumes "is_ascii a" and "is_ascii b"
  shows "split_whitespace (a @ CHR '' '' # b) = split_whitespace a @ split_whitespace b"
proof -
  have "is_ascii (a @ CHR '' '' # b)" using assms by (simp add: byte_def)
  moreover have "white_space [CHR '' '']" by code_simp
  ultimately show ?thesis
    using assms by (simp add: split_whitespace_words utf8_chars_is_ascii words_of_sep)
qed

lemma concat_singletons: "concat (map (\<lambda>c. [c]) s) = s"
  by (induction s) auto

lemma split_whitespace_word:
  assumes "is_ascii w" and "w \<noteq> []" and "\<forall>c \<in> set w. \<not> white_space [c]"
  shows "split_whitespace w = [w]"
proof -
  have "split_when white_space (map (\<lambda>c. [c]) w) = [map (\<lambda>c. [c]) w]"
    by (rule split_when_none) (use assms in auto)
  then show ?thesis
    using assms by (simp add: split_whitespace_words utf8_chars_is_ascii words_of_def concat_singletons)
qed

end
