(* ===== verification/Ip.thy ===== *)
theory Ip
  imports Prelude
begin

text \<open>
  Integers and addresses as text: what the sources use of Rust's \<open>std\<close>. Decimal and
  hexadecimal printing, \<open>str::parse\<close> of unsigned integers, and \<open>std::net\<close>:
  \<open>Ipv4Addr\<close>, \<open>Ipv6Addr\<close> and \<open>IpAddr\<close> with their \<open>FromStr\<close> parser (read number,
  read separator, read groups, as the library has them), their \<open>Display\<close> and the
  predicates on them. The main facts: parsing what was printed gives the address back.
\<close>

section \<open>Numbers as text\<close>

definition digit_char :: "nat \<Rightarrow> char" where
  "digit_char d = (if d < 10 then char_of (48 + d) else char_of (87 + d))"

text \<open>\<open>char::to_digit\<close>: a digit of the radix, letters in either case.\<close>

definition digit_of :: "nat \<Rightarrow> char \<Rightarrow> nat option" where
  "digit_of radix c =
     (let b = byte c;
          v = (if 48 \<le> b \<and> b \<le> 57 then b - 48
               else if 97 \<le> b \<and> b \<le> 122 then b - 87
               else if 65 \<le> b \<and> b \<le> 90 then b - 55
               else radix)
      in if v < radix then Some v else None)"

definition is_digit :: "nat \<Rightarrow> char \<Rightarrow> bool" where
  "is_digit radix c \<longleftrightarrow> digit_of radix c \<noteq> None"

fun digits_val :: "nat \<Rightarrow> nat \<Rightarrow> string \<Rightarrow> nat" where
  "digits_val radix acc [] = acc"
| "digits_val radix acc (c # cs) =
     digits_val radix (acc * radix + (case digit_of radix c of None \<Rightarrow> 0 | Some d \<Rightarrow> d)) cs"

fun show_base :: "nat \<Rightarrow> nat \<Rightarrow> string" where
  "show_base radix n =
     (if radix < 2 \<or> n < radix then [digit_char n]
      else show_base radix (n div radix) @ [digit_char (n mod radix)])"

declare show_base.simps [simp del]

definition show_nat :: "nat \<Rightarrow> string" where
  "show_nat n = show_base 10 n"

definition show_hex :: "nat \<Rightarrow> string" where
  "show_hex n = show_base 16 n"

text \<open>\<open>str::parse\<close> of an unsigned integer with maximum \<open>m\<close>: an optional \<open>+\<close>, then
  decimal digits (leading zeros allowed), an error beyond \<open>m\<close>.\<close>

definition parse_uint :: "nat \<Rightarrow> string \<Rightarrow> nat option" where
  "parse_uint m s =
     (let ds = (case s of [] \<Rightarrow> [] | c # r \<Rightarrow> if c = CHR ''+'' then r else s)
      in if ds = [] \<or> \<not> list_all (is_digit 10) ds then None
         else let v = digits_val 10 0 ds in if v \<le> m then Some v else None)"

definition parse_u8 :: "string \<Rightarrow> nat option" where
  "parse_u8 s = parse_uint 255 s"

lemma digit_of_char: "d < radix \<Longrightarrow> radix \<le> 16 \<Longrightarrow> digit_of radix (digit_char d) = Some d"
  by (auto simp: digit_of_def digit_char_def byte_def Let_def of_char_of)

lemma digit_char_0 [simp]: "digit_char 0 = CHR ''0''"
  by code_simp

lemma digit_char_zero:
  assumes "d < radix" "radix \<le> 16"
  shows "digit_char d = CHR ''0'' \<longleftrightarrow> d = 0"
proof
  assume "digit_char d = CHR ''0''"
  with digit_of_char [OF assms] have "digit_of radix (CHR ''0'') = Some d" by simp
  with assms show "d = 0" by (simp add: digit_of_def byte_def split: if_splits)
qed simp

lemma is_digit_char [simp]: "d < radix \<Longrightarrow> radix \<le> 16 \<Longrightarrow> is_digit radix (digit_char d)"
  by (simp add: is_digit_def digit_of_char)

lemma digits_val_append:
  "digits_val radix acc (xs @ ys) = digits_val radix (digits_val radix acc xs) ys"
  by (induction xs arbitrary: acc) auto

lemma show_base_digits:
  "2 \<le> radix \<Longrightarrow> radix \<le> 16 \<Longrightarrow> list_all (is_digit radix) (show_base radix n)"
proof (induction radix n rule: show_base.induct)
  case (1 radix n)
  then show ?case by (subst show_base.simps) auto
qed

lemma show_base_val:
  "2 \<le> radix \<Longrightarrow> radix \<le> 16 \<Longrightarrow> digits_val radix 0 (show_base radix n) = n"
proof (induction radix n rule: show_base.induct)
  case (1 radix n)
  then show ?case
    by (subst show_base.simps) (auto simp: digits_val_append digit_of_char)
qed

lemma show_base_nonempty [simp]: "show_base radix n \<noteq> []"
  by (subst show_base.simps) auto

lemma show_base_length:
  "2 \<le> radix \<Longrightarrow> 0 < k \<Longrightarrow> n < radix ^ k \<Longrightarrow> length (show_base radix n) \<le> k"
proof (induction radix n arbitrary: k rule: show_base.induct)
  case (1 radix n)
  show ?case
  proof (cases "n < radix")
    case True
    with "1.prems" show ?thesis by (subst show_base.simps) simp
  next
    case False
    with "1.prems" obtain j where k: "k = Suc j" "0 < j"
      by (cases k) (auto, metis neq0_conv power_0 power_one_right mult.right_neutral)
    from "1.prems" k have "n div radix < radix ^ j"
      by (simp add: less_mult_imp_div_less mult.commute)
    with "1.IH" [of j] False "1.prems" k have "length (show_base radix (n div radix)) \<le> j"
      by simp
    with False "1.prems" k show ?thesis by (subst show_base.simps) simp
  qed
qed

lemma show_base_no_leading_zero:
  "2 \<le> radix \<Longrightarrow> radix \<le> 16 \<Longrightarrow> 1 < length (show_base radix n) \<Longrightarrow>
   hd (show_base radix n) \<noteq> CHR ''0''"
proof (induction radix n rule: show_base.induct)
  case (1 radix n)
  show ?case
  proof (cases "n < radix")
    case True
    with "1.prems" show ?thesis by (simp add: show_base.simps)
  next
    case False
    let ?h = "show_base radix (n div radix)"
    have eq: "show_base radix n = ?h @ [digit_char (n mod radix)]"
      using False "1.prems"(1) by (subst show_base.simps) simp
    show ?thesis
    proof (cases "n div radix < radix")
      case True
      moreover have "n div radix \<noteq> 0" using False "1.prems"(1) by (simp add: div_eq_0_iff)
      ultimately have "?h = [digit_char (n div radix)]" "digit_char (n div radix) \<noteq> CHR ''0''"
        using "1.prems"(2) by (auto simp: show_base.simps digit_char_zero)
      with eq show ?thesis by simp
    next
      case big: False
      then have "1 < length ?h"
        using "1.prems"(1) by (subst show_base.simps) simp
      with "1.IH" False "1.prems"(1,2) eq show ?thesis by simp
    qed
  qed
qed

lemma parse_uint_show [simp]: "n \<le> m \<Longrightarrow> parse_uint m (show_nat n) = Some n"
proof -
  assume "n \<le> m"
  moreover have "list_all (is_digit 10) (show_nat n)"
    unfolding show_nat_def by (rule show_base_digits) simp_all
  moreover have "digits_val 10 0 (show_nat n) = n"
    unfolding show_nat_def by (rule show_base_val) simp_all
  moreover have "is_digit 10 (CHR ''+'') = False"
    by (simp add: is_digit_def digit_of_def byte_def)
  ultimately show ?thesis
    by (cases "show_nat n")
      (auto simp: parse_uint_def Let_def show_nat_def)
qed

lemma parse_uint_bound: "parse_uint m s = Some v \<Longrightarrow> v \<le> m"
  by (auto simp: parse_uint_def Let_def split: if_splits list.splits)

section \<open>Addresses\<close>

datatype ip_addr = V4 u32 | V6 u128

fun is_ipv4 :: "ip_addr \<Rightarrow> bool" where
  "is_ipv4 (V4 _) = True"
| "is_ipv4 (V6 _) = False"

text \<open>Octets and groups, most significant first, and back.\<close>

definition be_value :: "nat \<Rightarrow> nat list \<Rightarrow> nat" where
  "be_value b ds = foldl (\<lambda>acc d. acc * b + d) 0 ds"

definition ipv4_octets :: "u32 \<Rightarrow> nat list" where
  "ipv4_octets a = map (\<lambda>k. unat a div 256 ^ k mod 256) [3, 2, 1, 0]"

definition ipv4_of :: "nat list \<Rightarrow> u32" where
  "ipv4_of os = word_of_nat (be_value 256 os)"

definition ipv6_segments :: "u128 \<Rightarrow> nat list" where
  "ipv6_segments a = map (\<lambda>k. unat a div 65536 ^ k mod 65536) [7, 6, 5, 4, 3, 2, 1, 0]"

definition ipv6_of :: "nat list \<Rightarrow> u128" where
  "ipv6_of gs = word_of_nat (be_value 65536 gs)"

definition ipv6_octets :: "u128 \<Rightarrow> u8 list" where
  "ipv6_octets a = map (\<lambda>k. ucast (drop_bit (8 * k) a)) [15, 14, 13, 12, 11, 10, 9, 8, 7, 6, 5, 4, 3, 2, 1, 0]"

definition ipv6_from_octets :: "u8 list \<Rightarrow> u128" where
  "ipv6_from_octets bs = foldl (\<lambda>acc b. push_bit 8 acc OR ucast b) 0 bs"

subsection \<open>Predicates\<close>

definition v4_loopback :: "u32 \<Rightarrow> bool" where
  "v4_loopback a \<longleftrightarrow> drop_bit 24 a = 127"
definition v4_multicast :: "u32 \<Rightarrow> bool" where
  "v4_multicast a \<longleftrightarrow> 224 \<le> drop_bit 24 a \<and> drop_bit 24 a \<le> 239"
definition v4_private :: "u32 \<Rightarrow> bool" where
  "v4_private a \<longleftrightarrow> drop_bit 24 a = 10 \<or> drop_bit 20 a = 0xAC1 \<or> drop_bit 16 a = 0xC0A8"
definition v6_link_local :: "u128 \<Rightarrow> bool" where
  "v6_link_local a \<longleftrightarrow> drop_bit 118 a = 0x3FA"
definition v6_multicast :: "u128 \<Rightarrow> bool" where
  "v6_multicast a \<longleftrightarrow> drop_bit 120 a = 0xFF"

fun ip_unspecified :: "ip_addr \<Rightarrow> bool" where
  "ip_unspecified (V4 a) = (a = 0)"
| "ip_unspecified (V6 a) = (a = 0)"

fun ip_multicast :: "ip_addr \<Rightarrow> bool" where
  "ip_multicast (V4 a) = v4_multicast a"
| "ip_multicast (V6 a) = v6_multicast a"

subsection \<open>The parser\<close>

type_synonym 'a reader = "string \<Rightarrow> ('a \<times> string) option"

fun read_char :: "char \<Rightarrow> unit reader" where
  "read_char c [] = None"
| "read_char c (x # xs) = (if x = c then Some ((), xs) else None)"

text \<open>\<open>read_number(radix, max_digits, allow_zero_prefix)\<close> into an integer of maximum
  \<open>bound\<close>: all the digits that follow, refused when there are none, too many, or a
  zero prefix that is not allowed.\<close>

definition read_number :: "nat \<Rightarrow> nat \<Rightarrow> nat \<Rightarrow> bool \<Rightarrow> nat reader" where
  "read_number radix maxd bound zero_ok s =
     (let ds = takeWhile (is_digit radix) s;
          v = digits_val radix 0 ds
      in if maxd < length ds \<or> ds = [] \<or> (\<not> zero_ok \<and> hd ds = CHR ''0'' \<and> 1 < length ds)
            \<or> bound < v
         then None else Some (v, dropWhile (is_digit radix) s))"

definition read_sep :: "char \<Rightarrow> nat \<Rightarrow> 'a reader \<Rightarrow> 'a reader" where
  "read_sep c i inner s =
     (if i = 0 then inner s
      else (case read_char c s of None \<Rightarrow> None | Some (_, r) \<Rightarrow> inner r))"

definition read_octet :: "nat reader" where
  "read_octet = read_number 10 3 255 False"

definition read_group :: "nat reader" where
  "read_group = read_number 16 4 65535 True"

definition read_ipv4 :: "nat list reader" where
  "read_ipv4 s = do {
     (a, s1) \<leftarrow> read_sep (CHR ''.'') 0 read_octet s;
     (b, s2) \<leftarrow> read_sep (CHR ''.'') 1 read_octet s1;
     (c, s3) \<leftarrow> read_sep (CHR ''.'') 2 read_octet s2;
     (d, s4) \<leftarrow> read_sep (CHR ''.'') 3 read_octet s3;
     Some ([a, b, c, d], s4) }"

text \<open>\<open>read_groups\<close>: the groups from index \<open>i\<close> of at most \<open>limit\<close>; an embedded
  IPv4 address ends them and fills two.\<close>

function read_groups :: "nat \<Rightarrow> nat \<Rightarrow> string \<Rightarrow> nat list \<times> bool \<times> string" where
  "read_groups i limit s =
     (if limit \<le> i then ([], False, s)
      else (case (if i < limit - 1 then read_sep (CHR '':'') i read_ipv4 s else None) of
              Some (os, r) \<Rightarrow> ([be_value 256 (take 2 os), be_value 256 (drop 2 os)], True, r)
            | None \<Rightarrow>
               (case read_sep (CHR '':'') i read_group s of
                  None \<Rightarrow> ([], False, s)
                | Some (g, r) \<Rightarrow>
                   (case read_groups (Suc i) limit r of (gs, v4, r') \<Rightarrow> (g # gs, v4, r')))))"
  by pat_completeness auto
termination
  by (relation "measure (\<lambda>(i, limit, s). limit - i)") auto

declare read_groups.simps [simp del]

definition read_ipv6 :: "nat list reader" where
  "read_ipv6 s =
     (case read_groups 0 8 s of (head, head_v4, r) \<Rightarrow>
        if length head = 8 then Some (head, r)
        else if head_v4 then None
        else do {
          (_, r1) \<leftarrow> read_char (CHR '':'') r;
          (_, r2) \<leftarrow> read_char (CHR '':'') r1;
          (case read_groups 0 (8 - (length head + 1)) r2 of (tail, _, r3) \<Rightarrow>
             Some (head @ replicate (8 - length head - length tail) 0 @ tail, r3)) })"

definition parse_with :: "'a reader \<Rightarrow> string \<Rightarrow> 'a option" where
  "parse_with p s = (case p s of Some (a, []) \<Rightarrow> Some a | _ \<Rightarrow> None)"

definition parse_ipv4 :: "string \<Rightarrow> u32 option" where
  "parse_ipv4 s = (if 15 < length s then None else map_option ipv4_of (parse_with read_ipv4 s))"

definition parse_ipv6 :: "string \<Rightarrow> u128 option" where
  "parse_ipv6 s = map_option ipv6_of (parse_with read_ipv6 s)"

definition read_ip :: "ip_addr reader" where
  "read_ip s =
     (case read_ipv4 s of
        Some (os, r) \<Rightarrow> Some (V4 (ipv4_of os), r)
      | None \<Rightarrow> map_option (\<lambda>(gs, r). (V6 (ipv6_of gs), r)) (read_ipv6 s))"

definition parse_ip :: "string \<Rightarrow> ip_addr option" where
  "parse_ip s = parse_with read_ip s"

subsection \<open>Display\<close>

definition show_ipv4 :: "u32 \<Rightarrow> string" where
  "show_ipv4 a = join_with ''.'' (map show_nat (ipv4_octets a))"

text \<open>The longest run of zero segments, the first one when several are as long.\<close>

fun longest_zeros :: "nat \<Rightarrow> nat list \<Rightarrow> nat \<times> nat \<Rightarrow> nat \<times> nat \<Rightarrow> nat \<times> nat" where
  "longest_zeros i [] cur best = best"
| "longest_zeros i (x # xs) cur best =
     (if x = 0 then
        (let cur' = (if snd cur = 0 then (i, 1) else (fst cur, snd cur + 1));
             best' = (if snd best < snd cur' then cur' else best)
         in longest_zeros (Suc i) xs cur' best')
      else longest_zeros (Suc i) xs (0, 0) best)"

definition show_groups :: "nat list \<Rightarrow> string" where
  "show_groups gs = join_with '':'' (map show_hex gs)"

definition show_ipv6 :: "u128 \<Rightarrow> string" where
  "show_ipv6 a =
     (let gs = ipv6_segments a
      in if take 6 gs = [0, 0, 0, 0, 0, 0xFFFF]
         then ''::ffff:'' @ show_ipv4 (ucast a)
         else (case longest_zeros 0 gs (0, 0) (0, 0) of (start, len) \<Rightarrow>
           if 1 < len
           then show_groups (take start gs) @ ''::'' @ show_groups (drop (start + len) gs)
           else show_groups gs))"

fun show_ip :: "ip_addr \<Rightarrow> string" where
  "show_ip (V4 a) = show_ipv4 a"
| "show_ip (V6 a) = show_ipv6 a"

section \<open>What was printed parses back\<close>

lemma be_value_acc: "foldl (\<lambda>acc d. acc * b + d) c ds = c * b ^ length ds + be_value b ds"
proof (induction ds arbitrary: c)
  case Nil
  then show ?case by (simp add: be_value_def)
next
  case (Cons d ds)
  have "be_value b (d # ds) = d * b ^ length ds + be_value b ds"
    using Cons.IH [of d] by (simp add: be_value_def)
  with Cons.IH [of "c * b + d"] show ?case by (simp add: algebra_simps)
qed

lemma be_value_Cons: "be_value b (d # ds) = d * b ^ length ds + be_value b ds"
  using be_value_acc [of b d ds] by (simp add: be_value_def)

lemma be_value_Nil [simp]: "be_value b [] = 0"
  by (simp add: be_value_def)

lemma be_value_digits: "be_value b (map (\<lambda>k. n div b ^ k mod b) (rev [0..<m])) = n mod b ^ m"
proof (induction m)
  case 0
  then show ?case by simp
next
  case (Suc m)
  have "n mod b ^ Suc m = (n div b ^ m mod b) * b ^ m + n mod b ^ m"
    using mod_mult2_eq [of n "b ^ m" b] by (simp add: mult.commute)
  with Suc show ?case by (simp add: be_value_Cons)
qed

lemma ipv4_of_octets [simp]: "ipv4_of (ipv4_octets a) = a"
proof -
  have "[3, 2, 1, 0] = rev [0..<4::nat]" by code_simp
  then have "be_value 256 (ipv4_octets a) = unat a mod 256 ^ 4"
    unfolding ipv4_octets_def by (simp only: be_value_digits)
  also have "\<dots> = unat a"
    using unsigned_less [of a, where 'a = nat] by simp
  finally show ?thesis by (simp add: ipv4_of_def)
qed

lemma ipv6_of_segments [simp]: "ipv6_of (ipv6_segments a) = a"
proof -
  have "[7, 6, 5, 4, 3, 2, 1, 0] = rev [0..<8::nat]" by code_simp
  then have "be_value 65536 (ipv6_segments a) = unat a mod 65536 ^ 8"
    unfolding ipv6_segments_def by (simp only: be_value_digits)
  also have "\<dots> = unat a"
    using unsigned_less [of a, where 'a = nat] by simp
  finally show ?thesis by (simp add: ipv6_of_def)
qed

lemma octets_bound: "d \<in> set (ipv4_octets a) \<Longrightarrow> d < 256"
  by (auto simp: ipv4_octets_def)

lemma segments_bound: "d \<in> set (ipv6_segments a) \<Longrightarrow> d < 65536"
  by (auto simp: ipv6_segments_def)

lemma length_octets [simp]: "length (ipv4_octets a) = 4"
  by (simp add: ipv4_octets_def)

lemma length_segments [simp]: "length (ipv6_segments a) = 8"
  by (simp add: ipv6_segments_def)

lemma takeWhile_digits:
  assumes "list_all p ds" and "r = [] \<or> \<not> p (hd r)"
  shows "takeWhile p (ds @ r) = ds" "dropWhile p (ds @ r) = r"
  using assms by (induction ds) (cases r; auto)+

lemma read_number_show:
  assumes "2 \<le> radix" "radix \<le> 16" "v \<le> bound" "length (show_base radix v) \<le> maxd"
    and "r = [] \<or> \<not> is_digit radix (hd r)"
  shows "read_number radix maxd bound z (show_base radix v @ r) = Some (v, r)"
  using assms
  by (auto simp: read_number_def Let_def takeWhile_digits show_base_digits show_base_val
      dest: show_base_no_leading_zero)

lemma read_octet_show:
  "v < 256 \<Longrightarrow> r = [] \<or> \<not> is_digit 10 (hd r) \<Longrightarrow> read_octet (show_nat v @ r) = Some (v, r)"
  unfolding read_octet_def show_nat_def
  by (rule read_number_show) (auto intro: show_base_length)

lemma read_group_show:
  "v < 65536 \<Longrightarrow> r = [] \<or> \<not> is_digit 16 (hd r) \<Longrightarrow> read_group (show_hex v @ r) = Some (v, r)"
  unfolding read_group_def show_hex_def
  by (rule read_number_show) (auto intro: show_base_length)

lemma not_digit_punct [simp]: "\<not> is_digit 10 (CHR ''.'')" "\<not> is_digit 10 (CHR '':'')"
  "\<not> is_digit 16 (CHR '':'')" "\<not> is_digit 10 (CHR ''/'')" "\<not> is_digit 16 (CHR ''/'')"
  by code_simp+

lemma read_ipv4_show:
  assumes "r = [] \<or> \<not> is_digit 10 (hd r)"
  shows "read_ipv4 (show_ipv4 a @ r) = Some (ipv4_octets a, r)"
proof -
  obtain o1 o2 o3 o4 where os: "ipv4_octets a = [o1, o2, o3, o4]"
    by (simp add: ipv4_octets_def)
  then have "o1 < 256" "o2 < 256" "o3 < 256" "o4 < 256"
    using octets_bound [of _ a] by auto
  with assms show ?thesis
    by (simp add: show_ipv4_def os read_ipv4_def read_sep_def read_octet_show)
qed

lemma length_show_ipv4: "length (show_ipv4 a) \<le> 15"
proof -
  obtain o1 o2 o3 o4 where os: "ipv4_octets a = [o1, o2, o3, o4]"
    by (simp add: ipv4_octets_def)
  have "length (show_nat v) \<le> 3" if "v \<in> set (ipv4_octets a)" for v
    unfolding show_nat_def using octets_bound [OF that] by (intro show_base_length) auto
  from this [of o1] this [of o2] this [of o3] this [of o4] os show ?thesis
    by (simp add: show_ipv4_def)
qed

lemma parse_show_ipv4 [simp]: "parse_ipv4 (show_ipv4 a) = Some a"
  using read_ipv4_show [of "[]" a] length_show_ipv4 [of a]
  by (simp add: parse_ipv4_def parse_with_def)

text \<open>A hexadecimal group that no dot follows is not the start of an IPv4 address.\<close>

lemma read_number_rest:
  "read_number radix m b z s = Some (v, r) \<Longrightarrow> r = dropWhile (is_digit radix) s"
  by (auto simp: read_number_def Let_def split: if_splits)

lemma read_ipv4_hex_None:
  assumes hex: "list_all (is_digit 16) ds" and r: "r = [] \<or> hd r = CHR '':''"
  shows "read_ipv4 (ds @ r) = None"
proof -
  have no_dot: "\<not> is_digit 16 (CHR ''.'')" by code_simp
  have "read_char (CHR ''.'') (dropWhile (is_digit 10) (ds @ r)) = None"
    using hex r no_dot by (induction ds) (cases r; auto)+
  then show ?thesis
    by (auto simp: read_ipv4_def read_sep_def read_octet_def
        dest!: read_number_rest split: Option.bind_splits)
qed

text \<open>The text of groups from index \<open>i\<close> on: a colon before each but the first of all.\<close>

fun groups_text :: "nat \<Rightarrow> nat list \<Rightarrow> string" where
  "groups_text i [] = []"
| "groups_text i (g # gs) = (if i = 0 then [] else '':'') @ show_hex g @ groups_text (Suc i) gs"

lemma show_groups_text: "show_groups gs = groups_text 0 gs"
proof -
  have join: "'':'' @ join_with '':'' (map show_hex (g # gs)) = groups_text (Suc i) (g # gs)" for g gs i
    by (induction gs arbitrary: g i) auto
  show ?thesis
  proof (cases gs)
    case (Cons g gs')
    then show ?thesis
      using join [of _ _ 0] by (cases gs') (auto simp: show_groups_def)
  qed (simp add: show_groups_def)
qed

lemma groups_text_hd:
  "r = [] \<or> hd r = CHR '':'' \<Longrightarrow> groups_text (Suc i) gs @ r = [] \<or> hd (groups_text (Suc i) gs @ r) = CHR '':''"
  by (cases gs) auto

lemma show_hex_digits: "list_all (is_digit 16) (show_hex g)"
  unfolding show_hex_def by (rule show_base_digits) auto

lemma read_colon_None [simp]:
  "read_ipv4 (CHR '':'' # r) = None" "read_group (CHR '':'' # r) = None"
  "read_ipv4 [] = None" "read_group [] = None"
  using read_ipv4_hex_None [of "[]" "CHR '':'' # r"] read_ipv4_hex_None [of "[]" "[]"]
  by (auto simp: read_group_def read_number_def Let_def)

lemma read_groups_text:
  assumes "\<forall>g \<in> set gs. g < 65536" "i + length gs \<le> limit" "r = [] \<or> (\<exists>r'. r = ''::'' @ r')"
  shows "read_groups i limit (groups_text i gs @ r) = (gs, False, r)"
  using assms
proof (induction gs arbitrary: i)
  case Nil
  then show ?case
    by (subst read_groups.simps) (auto simp: read_sep_def split: option.splits)
next
  case (Cons g gs)
  let ?rest = "groups_text (Suc i) gs @ r"
  have rest: "?rest = [] \<or> hd ?rest = CHR '':''"
    using Cons.prems(3) by (intro groups_text_hd) auto
  have v4: "read_sep (CHR '':'') i read_ipv4 (groups_text i (g # gs) @ r) = None"
    using read_ipv4_hex_None [OF show_hex_digits rest] by (cases i) (simp_all add: read_sep_def)
  have "read_group (show_hex g @ ?rest) = Some (g, ?rest)"
    using Cons.prems(1) rest by (intro read_group_show) auto
  then have grp: "read_sep (CHR '':'') i read_group (groups_text i (g # gs) @ r) = Some (g, ?rest)"
    by (cases i) (simp_all add: read_sep_def)
  have "read_groups (Suc i) limit ?rest = (gs, False, r)"
    using Cons.prems by (intro Cons.IH) auto
  with v4 grp Cons.prems(2) show ?case by (subst read_groups.simps) simp
qed

text \<open>What the zero-run scan maintains.\<close>

definition zero_run :: "nat list \<Rightarrow> nat \<times> nat \<Rightarrow> bool" where
  "zero_run gs r \<longleftrightarrow> fst r + snd r \<le> length gs \<and> (\<forall>j < snd r. gs ! (fst r + j) = 0)"

lemma longest_zeros_run:
  assumes "zero_run gs best" "i \<le> length gs"
    and "snd cur = 0 \<or> (fst cur + snd cur = i \<and> zero_run gs cur)"
  shows "zero_run gs (longest_zeros i (drop i gs) cur best)"
  using assms
proof (induction "length gs - i" arbitrary: i cur best)
  case 0
  then show ?case by simp
next
  case (Suc n)
  then have i: "i < length gs" by simp
  then have drop: "drop i gs = gs ! i # drop (Suc i) gs" by (simp add: Cons_nth_drop_Suc)
  let ?cur = "if snd cur = 0 then (i, 1) else (fst cur, snd cur + 1)"
  have cur: "fst ?cur + snd ?cur = Suc i \<and> zero_run gs ?cur" if "gs ! i = 0"
    using Suc.prems(3) that i by (auto simp: zero_run_def less_Suc_eq)
  show ?case
  proof (cases "gs ! i = 0")
    case True
    with drop cur Suc.hyps Suc.prems i show ?thesis
      by (simp add: Let_def)
  next
    case False
    with drop Suc.hyps Suc.prems i show ?thesis by simp
  qed
qed

lemma zero_run_split:
  assumes "zero_run gs (st, ln)"
  shows "gs = take st gs @ replicate ln 0 @ drop (st + ln) gs"
proof -
  have "take ln (drop st gs) = replicate ln 0"
    using assms by (intro nth_equalityI) (auto simp: zero_run_def)
  then show ?thesis
    by (metis append_take_drop_id drop_drop add.commute)
qed

lemma read_ipv6_compressed:
  assumes "zero_run gs (st, ln)" "length gs = 8" "1 < ln" "\<forall>g \<in> set gs. g < 65536"
  shows "read_ipv6 (show_groups (take st gs) @ ''::'' @ show_groups (drop (st + ln) gs)) = Some (gs, [])"
proof -
  let ?h = "take st gs" and ?t = "drop (st + ln) gs"
  have bnd: "\<forall>g \<in> set ?h. g < 65536" "\<forall>g \<in> set ?t. g < 65536"
    using assms(4) by (auto dest: in_set_takeD in_set_dropD)
  have len: "st + ln \<le> 8" "length ?h = st" "length ?t = 8 - st - ln"
    using assms(1,2) by (auto simp: zero_run_def)
  have h: "read_groups 0 8 (show_groups ?h @ ''::'' @ show_groups ?t) = (?h, False, ''::'' @ show_groups ?t)"
    unfolding show_groups_text [of ?h] using bnd len by (intro read_groups_text) auto
  have t: "read_groups 0 (8 - (length ?h + 1)) (show_groups ?t) = (?t, False, [])"
    using read_groups_text [of ?t 0 "8 - (length ?h + 1)" "[]"] bnd len assms(3)
    by (simp add: show_groups_text)
  have "?h @ replicate (8 - length ?h - length ?t) 0 @ ?t = gs"
    using zero_run_split [OF assms(1)] len by (metis diff_diff_cancel diff_diff_left le_add_diff_inverse2 add_le_imp_le_diff add.commute)
  with h t len assms(3) show ?thesis by (simp add: read_ipv6_def)
qed

lemma mapped_segments:
  assumes "take 6 (ipv6_segments a) = [0, 0, 0, 0, 0, 0xFFFF]"
  shows "ipv6_segments a = [0, 0, 0, 0, 0, 0xFFFF] @
     [be_value 256 (take 2 (ipv4_octets (ucast a))), be_value 256 (drop 2 (ipv4_octets (ucast a)))]"
proof -
  let ?n = "unat a" and ?m = "unat (ucast a :: u32)"
  have m: "?m = ?n mod 65536 ^ 2"
    by (simp add: unsigned_ucast_eq take_bit_eq_mod)
  have lo: "?n mod 65536 = ?m mod 65536"
    using m by (simp add: mod_mod_cancel)
  have hi: "?n div 65536 mod 65536 = ?m div 65536 mod 65536"
    using m mod_mult2_eq [of ?n 65536 65536] by (simp add: power2_eq_square)
  have two: "(k div 256 mod 256) * 256 + k mod 256 = k mod (65536::nat)" for k
    using mod_mult2_eq [of k 256 256] by simp
  have "be_value 256 (drop 2 (ipv4_octets (ucast a))) = ?n mod 65536"
    using two [of ?m] lo by (simp add: ipv4_octets_def be_value_Cons)
  moreover have "be_value 256 (take 2 (ipv4_octets (ucast a))) = ?n div 65536 mod 65536"
    using two [of "?m div 65536"] hi by (simp add: ipv4_octets_def be_value_Cons div_mult2_eq [symmetric])
  moreover have "ipv6_segments a = take 6 (ipv6_segments a) @ [?n div 65536 mod 65536, ?n mod 65536]"
    by (simp add: ipv6_segments_def)
  ultimately show ?thesis using assms by simp
qed

lemma read_ipv6_mapped:
  "read_ipv6 (''::ffff:'' @ show_ipv4 v) =
     Some ([0, 0, 0, 0, 0, 0xFFFF] @
       [be_value 256 (take 2 (ipv4_octets v)), be_value 256 (drop 2 (ipv4_octets v))], [])"
proof -
  have ffff: "''ffff'' = show_hex 65535" by code_simp
  let ?s = "''ffff'' @ CHR '':'' # show_ipv4 v"
  have head: "read_groups 0 8 (''::'' @ ?s) = ([], False, ''::'' @ ?s)"
    using read_groups_text [of "[]" 0 8 "''::'' @ ?s"] by simp
  have v4: "read_ipv4 ?s = None"
    by (rule read_ipv4_hex_None) (simp_all add: ffff show_hex_digits)
  have grp: "read_group ?s = Some (65535, CHR '':'' # show_ipv4 v)"
    unfolding ffff by (rule read_group_show) auto
  have "read_groups 1 7 (CHR '':'' # show_ipv4 v) =
      ([be_value 256 (take 2 (ipv4_octets v)), be_value 256 (drop 2 (ipv4_octets v))], True, [])"
    using read_ipv4_show [of "[]" v] by (subst read_groups.simps) (simp add: read_sep_def)
  with v4 grp have tail: "read_groups 0 7 ?s =
      (65535 # [be_value 256 (take 2 (ipv4_octets v)), be_value 256 (drop 2 (ipv4_octets v))], True, [])"
    by (subst read_groups.simps) (simp add: read_sep_def)
  have "replicate 5 (0::nat) = [0, 0, 0, 0, 0]" by code_simp
  with head tail show ?thesis by (simp add: read_ipv6_def)
qed

lemma read_show_ipv6: "read_ipv6 (show_ipv6 a) = Some (ipv6_segments a, [])"
proof -
  let ?gs = "ipv6_segments a"
  have bnd: "\<forall>g \<in> set ?gs. g < 65536" using segments_bound by blast
  obtain st ln where run: "longest_zeros 0 ?gs (0, 0) (0, 0) = (st, ln)" by fastforce
  then have zr: "zero_run ?gs (st, ln)"
    using longest_zeros_run [of ?gs "(0, 0)" 0 "(0, 0)"] by (simp add: zero_run_def)
  have plain: "read_ipv6 (show_groups ?gs) = Some (?gs, [])"
    using read_groups_text [of ?gs 0 8 "[]"] bnd by (simp add: show_groups_text read_ipv6_def)
  show ?thesis
  proof (cases "take 6 ?gs = [0, 0, 0, 0, 0, 0xFFFF]")
    case True
    then show ?thesis
      using read_ipv6_mapped [of "ucast a"] mapped_segments [OF True] by (simp add: show_ipv6_def)
  next
    case False
    then show ?thesis
      using read_ipv6_compressed [OF zr] plain bnd run by (simp add: show_ipv6_def Let_def)
  qed
qed

lemma parse_show_ipv6 [simp]: "parse_ipv6 (show_ipv6 a) = Some a"
  by (simp add: parse_ipv6_def parse_with_def read_show_ipv6)

lemma read_ipv4_show_ipv6: "read_ipv4 (show_ipv6 a) = None"
proof -
  have colon: "read_ipv4 (show_groups gs @ r) = None" if "r = [] \<or> hd r = CHR '':''" for gs r
    using that
  proof (cases gs)
    case Nil
    with that show ?thesis using read_ipv4_hex_None [of "[]" r] by (simp add: show_groups_def)
  next
    case (Cons g gs')
    then show ?thesis
      using that read_ipv4_hex_None [OF show_hex_digits groups_text_hd [OF that, of 0 gs'], of g]
      by (simp add: show_groups_text)
  qed
  show ?thesis
    using colon [of "[]"] colon [of _ _]
    by (auto simp: show_ipv6_def Let_def split: prod.splits)
qed

lemma parse_show_ip [simp]: "parse_ip (show_ip a) = Some a"
proof (cases a)
  case (V4 v)
  then show ?thesis
    using read_ipv4_show [of "[]" v] by (simp add: parse_ip_def read_ip_def parse_with_def)
next
  case (V6 v)
  then show ?thesis
    by (simp add: parse_ip_def read_ip_def parse_with_def read_ipv4_show_ipv6 read_show_ipv6)
qed

end
