(* ===== verification/Netmask.thy ===== *)
theory Netmask
  imports Ip
begin

text \<open>
  Prefix masks. The sources write \<open>if bits == 0 { 0 } else { MAX << (W - bits) }\<close> for
  an address of \<open>W\<close> bits wherever they compare networks; \<open>max_shl k\<close> is \<open>MAX << k\<close> and
  \<open>netmask\<close> is that value. The
  lemmas turn masked comparisons into comparisons of the high bits, and those into ranges.
\<close>

definition max_shl :: "nat \<Rightarrow> 'a::len word" where
  "max_shl k = push_bit k (- 1)"

definition netmask :: "nat \<Rightarrow> 'a::len word" where
  "netmask bits = (if bits = 0 then 0 else max_shl (LENGTH('a) - bits))"

lemma max_shl_code [code]: "max_shl k = NOT (mask k)"
  by (simp add: max_shl_def)

lemma bit_netmask:
  "bits \<le> LENGTH('a) \<Longrightarrow> bit (netmask bits :: 'a::len word) i \<longleftrightarrow> LENGTH('a) - bits \<le> i \<and> i < LENGTH('a)"
  by (auto simp: netmask_def max_shl_code bit_not_iff bit_mask_iff dest: bit_imp_le_length)

lemma and_netmask_eq:
  fixes a :: "'a::len word"
  assumes "bits \<le> LENGTH('a)"
  shows "a AND netmask bits = push_bit (LENGTH('a) - bits) (drop_bit (LENGTH('a) - bits) a)"
proof (rule bit_word_eqI)
  fix i assume "i < LENGTH('a)"
  then show "bit (a AND netmask bits) i =
      bit (push_bit (LENGTH('a) - bits) (drop_bit (LENGTH('a) - bits) a)) i"
    using assms by (auto simp: bit_and_iff bit_netmask bit_push_bit_iff bit_drop_bit_eq)
qed

lemma same_network_iff:
  fixes a b :: "'a::len word"
  assumes "bits \<le> LENGTH('a)"
  shows "a AND netmask bits = b AND netmask bits \<longleftrightarrow>
    drop_bit (LENGTH('a) - bits) a = drop_bit (LENGTH('a) - bits) b"
proof
  let ?k = "LENGTH('a) - bits"
  assume eq: "a AND netmask bits = b AND netmask bits"
  show "drop_bit ?k a = drop_bit ?k b"
  proof (rule bit_word_eqI)
    fix i assume "i < LENGTH('a)"
    have "bit (a AND netmask bits) j = bit (b AND netmask bits) j" for j
      using eq by simp
    then have "(bit a j \<and> ?k \<le> j \<and> j < LENGTH('a)) = (bit b j \<and> ?k \<le> j \<and> j < LENGTH('a))" for j
      using assms by (simp add: bit_and_iff bit_netmask)
    then have "?k \<le> j \<Longrightarrow> j < LENGTH('a) \<Longrightarrow> bit a j = bit b j" for j
      by blast
    then have "?k + i < LENGTH('a) \<Longrightarrow> bit a (?k + i) = bit b (?k + i)"
      using le_add1 by blast
    then show "bit (drop_bit ?k a) i = bit (drop_bit ?k b) i"
      by (auto simp: bit_drop_bit_eq dest: bit_imp_le_length)
  qed
next
  assume "drop_bit (LENGTH('a) - bits) a = drop_bit (LENGTH('a) - bits) b"
  with assms show "a AND netmask bits = b AND netmask bits"
    by (simp add: and_netmask_eq)
qed

lemma network_range:
  fixes a x b n :: "'a::len word"
  assumes "bits \<le> LENGTH('a)" "a \<le> x" "x \<le> b"
    and "a AND netmask bits = n AND netmask bits" "b AND netmask bits = n AND netmask bits"
  shows "x AND netmask bits = n AND netmask bits"
proof -
  let ?k = "LENGTH('a) - bits"
  have mono: "drop_bit ?k v \<le> drop_bit ?k w" if "v \<le> w" for v w :: "'a word"
    using that by (simp add: word_le_nat_alt unat_drop_bit_eq drop_bit_eq_div [of _ "unat _"] div_le_mono
        del: unsigned_drop_bit_eq)
  from assms have "drop_bit ?k a = drop_bit ?k n" "drop_bit ?k b = drop_bit ?k n"
    by (simp_all add: same_network_iff)
  with mono [OF assms(2)] mono [OF assms(3)] have "drop_bit ?k x = drop_bit ?k n" by simp
  with assms(1) show ?thesis by (simp add: same_network_iff)
qed

end
