(* ===== verification/Desired.thy ===== *)
theory Desired
  imports Prelude
begin

text \<open>
  The Desired state exchanged with netd and stored as TOML (\<open>src/desired.rs\<close>): one record
  per struct, one field per field. A field name that other records share carries its
  struct's name. Reading and writing the record as JSON or TOML is serde's work and stays a
  parameter of the components that store it.
\<close>

record iface =
  iface_name :: string
  placement :: string
  role :: "string option"
  iface_addresses :: "string list"
  vlan :: "u16 option"
  parent :: "string option"
  dhcp :: bool
  ipv6 :: "string option"
  request_pd :: bool

record wg =
  wg_name :: string
  private_key :: string
  listen_port :: "u16 option"
  wg_addresses :: "string list"

record static_route =
  route_to :: string
  via :: string
  route_dev :: "string option"

record qdisc =
  qdisc_dev :: string
  kind :: string

record desired_state =
  revision :: u64
  interfaces :: "iface list"
  wireguard :: "wg list"
  routes :: "static_route list"
  nft_extra :: "string list"
  qdiscs :: "qdisc list"
  hostname :: "string option"
  lan_prefix :: "string option"
  dhcp_pool :: "string option"
  wan_pd :: "string option"
  ui_exposure :: "string list"
  apply_confirmation :: bool

definition initial_revision :: u64 where
  "initial_revision = 1"

definition default_desired :: desired_state where
  "default_desired =
     \<lparr> revision = initial_revision, interfaces = [], wireguard = [], routes = [],
       nft_extra = [], qdiscs = [], hostname = None, lan_prefix = None, dhcp_pool = None,
       wan_pd = None, ui_exposure = [], apply_confirmation = False \<rparr>"

text \<open>\<open>role.as_deref() == Some("...")\<close>\<close>

abbreviation has_role :: "string \<Rightarrow> iface \<Rightarrow> bool" where
  "has_role r i \<equiv> role i = Some r"

end
