(* ===== verification/Bootstrap_Values.thy ===== *)
theory Bootstrap_Values
  imports Netmask Desired
begin

text \<open>
  The pure validation shared by the HTTPS Bootstrap boundary and netd
  (\<open>src/bootstrap_values.rs\<close>): interface names, VLANs and addresses; the LAN prefix, the
  DHCP pool and the delegated prefix; and where the LAN lies in a delegated prefix.
\<close>

section \<open>Definitions\<close>

definition interface_name :: "string \<Rightarrow> bool" where
  "interface_name name \<longleftrightarrow>
     name \<noteq> [] \<and> length name \<le> 15
     \<and> list_all (\<lambda>c. ascii_alphanumeric c \<or> c \<in> {CHR ''_'', CHR ''-'', CHR ''.''}) name"

definition cidr :: "string \<Rightarrow> (ip_addr \<times> nat) option" where
  "cidr value = do {
     (ip_text, len_text) \<leftarrow> split_once (CHR ''/'') value;
     ip \<leftarrow> parse_ip ip_text;
     len \<leftarrow> parse_u8 len_text;
     if (if is_ipv4 ip then 32 else 128) < len then None else Some (ip, len) }"

definition interface_values ::
    "string \<Rightarrow> string option \<Rightarrow> u16 option \<Rightarrow> string list \<Rightarrow> unit res" where
  "interface_values name par vid addresses =
     thenE (failIf (\<not> interface_name name) (''invalid interface name '' @ name))
    (thenE (case par of
              None \<Rightarrow> Inr ()
            | Some p \<Rightarrow>
                thenE (failIf (\<not> interface_name p \<or> p = name)
                         (''invalid parent for interface '' @ name))
                      (failIf (vid = None)
                         (''interface '' @ name @ '' has parent without VLAN'')))
    (thenE (case vid of
              None \<Rightarrow> Inr ()
            | Some v \<Rightarrow>
                thenE (failIf (\<not> (1 \<le> v \<and> v \<le> 4094))
                         (''VLAN ID '' @ show_nat (unat v) @ '' is outside 1-4094''))
                      (failIf (par = None \<and> CHR ''.'' \<notin> set name)
                         (''VLAN interface '' @ name @ '' needs a parent'')))
           (eachE (\<lambda>address. failIf (cidr address = None)
                     (''invalid interface address '' @ address)) addresses)))"

record delegated_lan =
  address_cidr :: string
  subnet_cidr :: string
  pool_start :: string
  pool_end :: string

definition delegated_lan_in :: "string \<Rightarrow> delegated_lan option" where
  "delegated_lan_in prefix =
     (case cidr prefix of
        Some (V6 address, len) \<Rightarrow>
          if 64 < len then None
          else
            (let subnet = address AND netmask len AND max_shl 64
             in Some \<lparr> address_cidr = show_ipv6 (subnet OR 1) @ ''/64'',
                       subnet_cidr = show_ipv6 subnet @ ''/64'',
                       pool_start = show_ipv6 (subnet OR 0x100),
                       pool_end = show_ipv6 (subnet OR 0x1ff) \<rparr>)
      | _ \<Rightarrow> None)"

text \<open>\<open>value.filter(|v| !v.is_empty())\<close>\<close>

definition filled :: "string option \<Rightarrow> string option" where
  "filled v = (case v of Some s \<Rightarrow> if s = [] then None else Some s | None \<Rightarrow> None)"

definition addressing_lan :: "string option \<Rightarrow> (u32 \<times> nat) option res" where
  "addressing_lan prefix =
     (case filled prefix of
        Some value \<Rightarrow>
          (case cidr value of
             Some (V4 ip, len) \<Rightarrow>
               if 1 \<le> len \<and> len \<le> 30 then Inr (Some (ip, len))
               else Inl ''invalid lan_prefix IPv4 CIDR''
           | _ \<Rightarrow> Inl ''invalid lan_prefix IPv4 CIDR'')
      | None \<Rightarrow> Inr None)"

definition addressing_pool :: "(u32 \<times> nat) option \<Rightarrow> string \<Rightarrow> unit res" where
  "addressing_pool lan pool =
     (case (case split_once (CHR ''-'') pool of Some p \<Rightarrow> p | None \<Rightarrow> (pool, pool)) of
        (first_text, last_text) \<Rightarrow>
        bindE (ok_or (parse_ipv4 (trim first_text)) ''invalid dhcp_pool start'') (\<lambda>first.
        bindE (ok_or (parse_ipv4 (trim last_text)) ''invalid dhcp_pool end'') (\<lambda>last.
        thenE (failIf (last < first) ''dhcp_pool start exceeds end'')
          (case (case lan of Some l \<Rightarrow> l | None \<Rightarrow> (first, 24)) of
             (base, len) \<Rightarrow>
               failIf (first AND netmask len \<noteq> base AND netmask len
                       \<or> last AND netmask len \<noteq> base AND netmask len)
                 ''dhcp_pool is outside lan_prefix''))))"

definition addressing :: "string option \<Rightarrow> string option \<Rightarrow> string option \<Rightarrow> unit res" where
  "addressing prefix pool pd =
     bindE (addressing_lan prefix) (\<lambda>lan.
     thenE (case filled pool of None \<Rightarrow> Inr () | Some p \<Rightarrow> addressing_pool lan p)
       (case filled pd of
          None \<Rightarrow> Inr ()
        | Some d \<Rightarrow> failIf (delegated_lan_in d = None) ''invalid wan_pd IPv6 prefix''))"

section \<open>Names and CIDR text\<close>

lemma show_base_no_slash: "2 \<le> radix \<Longrightarrow> radix \<le> 16 \<Longrightarrow> CHR ''/'' \<notin> set (show_base radix n)"
proof
  assume "2 \<le> radix" "radix \<le> 16" "CHR ''/'' \<in> set (show_base radix n)"
  moreover from this have "list_all (is_digit radix) (show_base radix n)"
    by (intro show_base_digits)
  ultimately have "is_digit radix (CHR ''/'')" by (auto simp: list_all_iff)
  with \<open>radix \<le> 16\<close> show False by (auto simp: is_digit_def digit_of_def byte_def)
qed

lemma join_with_set: "set (join_with sep xs) \<subseteq> set sep \<union> \<Union> (set ` set xs)"
  by (induction sep xs rule: join_with.induct) auto

lemma show_ip_no_slash [simp]:
  "CHR ''/'' \<notin> set (show_ipv4 a)" "CHR ''/'' \<notin> set (show_ipv6 b)"
proof -
  have nat_ns: "CHR ''/'' \<notin> set (show_nat n)" "CHR ''/'' \<notin> set (show_hex n)" for n
    by (simp_all add: show_nat_def show_hex_def show_base_no_slash)
  have v4: "CHR ''/'' \<notin> set (show_ipv4 a)" for a
    using join_with_set [of "''.''" "map show_nat (ipv4_octets a)"] nat_ns
    by (auto simp: show_ipv4_def)
  have gs: "CHR ''/'' \<notin> set (show_groups gs)" for gs
    using join_with_set [of "'':''" "map show_hex gs"] nat_ns by (auto simp: show_groups_def)
  show "CHR ''/'' \<notin> set (show_ipv4 a)" by (rule v4)
  show "CHR ''/'' \<notin> set (show_ipv6 b)"
    using v4 gs by (auto simp: show_ipv6_def Let_def split: prod.splits)
qed

lemma parse_ip_show_ipv6 [simp]: "parse_ip (show_ipv6 a) = Some (V6 a)"
  using parse_show_ip [of "V6 a"] by simp

lemma cidr_show_ipv6:
  assumes "parse_u8 len_text = Some len" "len \<le> 128"
  shows "cidr (show_ipv6 a @ CHR ''/'' # len_text) = Some (V6 a, len)"
  using assms by (simp add: cidr_def split_once_append)

lemma parse_64 [simp]: "parse_u8 ''64'' = Some 64"
  by code_simp

lemma cidr_bits: "cidr s = Some (ip, len) \<Longrightarrow> len \<le> (if is_ipv4 ip then 32 else 128)"
  by (auto simp: cidr_def split: Option.bind_splits if_splits)

section \<open>Where the LAN lies\<close>

lemma first_64:
  fixes a :: u128
  assumes "len \<le> 64"
  shows "a AND netmask len AND NOT (mask 64) = push_bit (128 - len) (drop_bit (128 - len) a)"
proof (rule bit_word_eqI)
  fix i assume "i < LENGTH(128)"
  then show "bit (a AND netmask len AND NOT (mask 64)) i =
      bit (push_bit (128 - len) (drop_bit (128 - len) a)) i"
    using assms
    by (auto simp: bit_and_iff bit_netmask bit_push_bit_iff bit_drop_bit_eq bit_not_iff bit_mask_iff)
qed

lemma host_in_first_64:
  fixes a h :: u128
  assumes "len \<le> 64" "drop_bit 64 h = 0"
  shows "drop_bit 64 (push_bit (128 - len) (drop_bit (128 - len) a) OR h)
    = drop_bit 64 (push_bit (128 - len) (drop_bit (128 - len) a))"
  using assms(2) by (simp add: bit_eq_iff bit_or_iff bit_drop_bit_eq)

lemma delegated_lan_in_Some:
  assumes "delegated_lan_in p = Some d"
  obtains a len where "cidr p = Some (V6 a, len)" "len \<le> 64"
    and "d = \<lparr> address_cidr = show_ipv6 (push_bit (128 - len) (drop_bit (128 - len) a) OR 1) @ ''/64'',
               subnet_cidr = show_ipv6 (push_bit (128 - len) (drop_bit (128 - len) a)) @ ''/64'',
               pool_start = show_ipv6 (push_bit (128 - len) (drop_bit (128 - len) a) OR 0x100),
               pool_end = show_ipv6 (push_bit (128 - len) (drop_bit (128 - len) a) OR 0x1ff) \<rparr>"
  using assms
  by (auto simp: delegated_lan_in_def Let_def max_shl_code first_64 split: option.splits ip_addr.splits if_splits)

text \<open>
  A delegated prefix of up to 64 bits places the LAN in its first /64: the subnet that
  is printed reads back as the prefix with every later bit zero, the LAN address is host 1
  of it, and the DHCPv6 pool \<open>::100\<close> to \<open>::1ff\<close> stays inside the same /64.
\<close>

theorem delegated_lan_is_first_subnet:
  assumes "delegated_lan_in p = Some d"
  shows "\<exists>a len n. cidr p = Some (V6 a, len) \<and> len \<le> 64
    \<and> n = push_bit (128 - len) (drop_bit (128 - len) a)
    \<and> cidr (subnet_cidr d) = Some (V6 n, 64)
    \<and> cidr (address_cidr d) = Some (V6 (n OR 1), 64)
    \<and> parse_ipv6 (pool_start d) = Some (n OR 0x100)
    \<and> parse_ipv6 (pool_end d) = Some (n OR 0x1ff)
    \<and> drop_bit 64 (n OR 1) = drop_bit 64 n
    \<and> drop_bit 64 (n OR 0x100) = drop_bit 64 n \<and> drop_bit 64 (n OR 0x1ff) = drop_bit 64 n"
proof -
  from assms obtain a len where d: "cidr p = Some (V6 a, len)" "len \<le> 64"
    and eq: "d = \<lparr> address_cidr = show_ipv6 (push_bit (128 - len) (drop_bit (128 - len) a) OR 1) @ ''/64'',
               subnet_cidr = show_ipv6 (push_bit (128 - len) (drop_bit (128 - len) a)) @ ''/64'',
               pool_start = show_ipv6 (push_bit (128 - len) (drop_bit (128 - len) a) OR 0x100),
               pool_end = show_ipv6 (push_bit (128 - len) (drop_bit (128 - len) a) OR 0x1ff) \<rparr>"
    by (rule delegated_lan_in_Some)
  let ?n = "push_bit (128 - len) (drop_bit (128 - len) a)"
  have low: "drop_bit 64 (?n OR h) = drop_bit 64 ?n" if "h \<in> {1, 0x100, 0x1ff}" for h
    using that d(2) by (intro host_in_first_64) auto
  have printed: "cidr (show_ipv6 v @ ''/64'') = Some (V6 v, 64)" for v
    by (rule cidr_show_ipv6) simp_all
  show ?thesis
    by (rule exI [of _ a], rule exI [of _ len], rule exI [of _ ?n])
      (simp only: eq printed d low insert_iff delegated_lan.simps parse_show_ipv6 simp_thms)
qed

theorem delegated_lan_is_first_subnet_witness:
  "\<exists>a len n. cidr ''fd53:1:1:ff::/56'' = Some (V6 a, len) \<and> len \<le> 64
    \<and> n = push_bit (128 - len) (drop_bit (128 - len) a)
    \<and> cidr ''fd53:1:1::/64'' = Some (V6 n, 64)
    \<and> cidr ''fd53:1:1::1/64'' = Some (V6 (n OR 1), 64)
    \<and> parse_ipv6 ''fd53:1:1::100'' = Some (n OR 0x100)
    \<and> parse_ipv6 ''fd53:1:1::1ff'' = Some (n OR 0x1ff)
    \<and> drop_bit 64 (n OR 1) = drop_bit 64 n
    \<and> drop_bit 64 (n OR 0x100) = drop_bit 64 n \<and> drop_bit 64 (n OR 0x1ff) = drop_bit 64 n"
proof -
  have "delegated_lan_in ''fd53:1:1:ff::/56'' =
      Some \<lparr> address_cidr = ''fd53:1:1::1/64'', subnet_cidr = ''fd53:1:1::/64'',
             pool_start = ''fd53:1:1::100'', pool_end = ''fd53:1:1::1ff'' \<rparr>"
    by code_simp
  from delegated_lan_is_first_subnet [OF this] show ?thesis
    by (simp only: delegated_lan.simps)
qed

section \<open>Accepted addressing and interfaces\<close>

lemma addressing_lan_Some:
  "addressing_lan lp = Inr (Some (ip, len)) \<Longrightarrow>
   1 \<le> len \<and> len \<le> 30 \<and> (\<exists>s. lp = Some s \<and> cidr s = Some (V4 ip, len))"
  by (auto simp: addressing_lan_def filled_def split: option.splits if_splits ip_addr.splits)

lemma addressing_pool_ok:
  assumes "addressing_pool lan pool = Inr ()"
  obtains ft lt first last base len
  where "(case split_once (CHR ''-'') pool of Some p \<Rightarrow> p | None \<Rightarrow> (pool, pool)) = (ft, lt)"
    and "parse_ipv4 (trim ft) = Some first" "parse_ipv4 (trim lt) = Some last" "first \<le> last"
    and "(case lan of Some l \<Rightarrow> l | None \<Rightarrow> (first, 24)) = (base, len)"
    and "first AND netmask len = base AND netmask len" "last AND netmask len = base AND netmask len"
proof -
  obtain ft lt where p: "(case split_once (CHR ''-'') pool of Some p \<Rightarrow> p | None \<Rightarrow> (pool, pool)) = (ft, lt)"
    by fastforce
  with assms obtain first last where fl: "parse_ipv4 (trim ft) = Some first"
      "parse_ipv4 (trim lt) = Some last" "first \<le> last"
    by (auto simp: addressing_pool_def ok_simps)
  obtain base len where bl: "(case lan of Some l \<Rightarrow> l | None \<Rightarrow> (first, 24)) = (base, len)"
    by fastforce
  show ?thesis
    using assms p fl bl that by (simp add: addressing_pool_def ok_simps ok_or_def)
qed

text \<open>
  When the addressing of a Desired state is accepted with a LAN prefix and a DHCP pool,
  the pool's bounds parse, are in order, and every address from the first to the last, not
  only the two bounds, lies in the network of the LAN prefix, which has between 1 and 30
  prefix bits.
\<close>

theorem accepted_pool_inside_lan:
  assumes "addressing (Some prefix) (Some pool) pd = Inr ()" "prefix \<noteq> []" "pool \<noteq> []"
  shows "\<exists>base len ft lt first last. cidr prefix = Some (V4 base, len) \<and> 1 \<le> len \<and> len \<le> 30
    \<and> (case split_once (CHR ''-'') pool of Some p \<Rightarrow> p | None \<Rightarrow> (pool, pool)) = (ft, lt)
    \<and> parse_ipv4 (trim ft) = Some first \<and> parse_ipv4 (trim lt) = Some last \<and> first \<le> last
    \<and> (\<forall>x. first \<le> x \<and> x \<le> last \<longrightarrow> x AND netmask len = base AND netmask len)"
proof -
  from assms obtain lan where lan: "addressing_lan (Some prefix) = Inr lan"
    and pool: "addressing_pool lan pool = Inr ()"
    by (auto simp: addressing_def filled_def ok_simps)
  from lan assms(2) obtain base len where l: "lan = Some (base, len)"
    by (auto simp: addressing_lan_def filled_def split: option.splits if_splits ip_addr.splits)
  with lan have base: "1 \<le> len" "len \<le> 30" "cidr prefix = Some (V4 base, len)"
    by (auto dest: addressing_lan_Some)
  from pool obtain ft lt first last
    where p: "(case split_once (CHR ''-'') pool of Some p \<Rightarrow> p | None \<Rightarrow> (pool, pool)) = (ft, lt)"
      "parse_ipv4 (trim ft) = Some first" "parse_ipv4 (trim lt) = Some last" "first \<le> last"
    and net: "first AND netmask len = base AND netmask len" "last AND netmask len = base AND netmask len"
    by (rule addressing_pool_ok) (simp add: l)
  have "x AND netmask len = base AND netmask len" if "first \<le> x" "x \<le> last" for x
    using network_range [OF _ that net] base(2) by simp
  with base p show ?thesis by blast
qed

theorem accepted_pool_inside_lan_witness:
  "\<exists>base len ft lt first last. cidr ''192.168.1.0/24'' = Some (V4 base, len)
    \<and> (ft, lt) = (''192.168.1.100'', ''192.168.1.200'')
    \<and> parse_ipv4 (trim ft) = Some first \<and> parse_ipv4 (trim lt) = Some last \<and> first \<le> last
    \<and> (\<forall>x. first \<le> x \<and> x \<le> last \<longrightarrow> x AND netmask len = base AND netmask len)"
proof -
  have ok: "addressing (Some ''192.168.1.0/24'') (Some ''192.168.1.100-192.168.1.200'') None = Inr ()"
    by code_simp
  have pair: "(case split_once (CHR ''-'') ''192.168.1.100-192.168.1.200'' of Some p \<Rightarrow> p
      | None \<Rightarrow> (''192.168.1.100-192.168.1.200'', ''192.168.1.100-192.168.1.200''))
      = (''192.168.1.100'', ''192.168.1.200'')"
    by code_simp
  show ?thesis
    using accepted_pool_inside_lan [OF ok] unfolding pair by (metis list.distinct(1))
qed

lemma interface_values_ok:
  "interface_values name par vid addresses = Inr () \<longleftrightarrow>
     interface_name name
     \<and> (\<forall>p. par = Some p \<longrightarrow> interface_name p \<and> p \<noteq> name \<and> vid \<noteq> None)
     \<and> (\<forall>v. vid = Some v \<longrightarrow> 1 \<le> v \<and> v \<le> 4094 \<and> (par \<noteq> None \<or> CHR ''.'' \<in> set name))
     \<and> (\<forall>a \<in> set addresses. cidr a \<noteq> None)"
  by (auto simp: interface_values_def ok_simps split: option.splits)

text \<open>An accepted name holds no space, quote, slash or control character: it cannot leave the
  quotes of a rule, the file name or the argument it is put in.\<close>

lemma interface_name_char:
  assumes "interface_name name" "c \<in> set name"
  shows "c \<notin> {CHR '' '', CHR 0x22, CHR ''/'', CHR 0x0A, CHR ''{'', CHR '';'', CHR ''%''}"
    and "\<not> ascii_control c"
proof -
  from assms have c: "ascii_alphanumeric c \<or> c \<in> {CHR ''_'', CHR ''-'', CHR ''.''}"
    by (auto simp: interface_name_def list_all_iff)
  then show "c \<notin> {CHR '' '', CHR 0x22, CHR ''/'', CHR 0x0A, CHR ''{'', CHR '';'', CHR ''%''}"
    by (auto simp: ascii_defs)
  from c show "\<not> ascii_control c"
    by (auto simp: ascii_defs)
qed

end
