(* ===== verification/Lan_Text.thy ===== *)
theory Lan_Text
  imports Bootstrap_Values
begin

text \<open>
  How netd reads the LAN's IPv4 prefix and DHCP pool out of their text (\<open>src/netd.rs\<close>:
  \<open>split_pool\<close>, \<open>prefix_from_pool\<close>, \<open>first_v4_host\<close>, \<open>ipv4_prefix\<close>, \<open>l2_key\<close>,
  \<open>lan_l2\<close>, \<open>lan_services_match_interface\<close>, \<open>merge_lan_prefix_addr\<close>) and the
  delegated prefix's parts. These work on the text, not on parsed addresses: octets that do
  not parse are dropped, as \<open>filter_map\<close> drops them.
\<close>

section \<open>Pools and prefixes\<close>

definition split_pool :: "string \<Rightarrow> string \<times> string" where
  "split_pool pool =
     (let p = filter (\<lambda>c. c \<noteq> CHR '' '') pool
      in case split_once (CHR ''-'') p of Some (a, b) \<Rightarrow> (a, b) | None \<Rightarrow> (p, p))"

text \<open>\<open>split('.').filter_map(|s| s.parse::<u8>().ok())\<close>\<close>

definition octets_of :: "string \<Rightarrow> nat list" where
  "octets_of s = List.map_filter parse_u8 (split_on (CHR ''.'') s)"

definition dotted :: "nat list \<Rightarrow> string" where
  "dotted os = join_with ''.'' (map show_nat os)"

definition prefix_from_pool :: "string \<Rightarrow> string option" where
  "prefix_from_pool pool =
     (let os = octets_of (fst (split_pool pool))
      in if length os \<noteq> 4 then None else Some (dotted (os[3 := 0]) @ ''/24''))"

definition first_v4_host :: "string \<Rightarrow> string option" where
  "first_v4_host cidr_text =
     (let os = octets_of (hd (split_on (CHR ''/'') cidr_text))
      in if length os \<noteq> 4 then None
         else Some (dotted (if os ! 3 = 0 then os[3 := 1] else os)))"

definition prefix_len_text :: "string \<Rightarrow> string" where
  "prefix_len_text prefix =
     (case nth_opt (split_on (CHR ''/'') prefix) 1 of Some t \<Rightarrow> t | None \<Rightarrow> ''24'')"

definition ipv4_prefix :: "string \<Rightarrow> (u32 \<times> nat) option" where
  "ipv4_prefix cidr_text = do {
     (address_text, bits_text) \<leftarrow> split_once (CHR ''/'') cidr_text;
     address \<leftarrow> parse_ipv4 address_text;
     bits \<leftarrow> parse_u8 bits_text;
     if 32 < bits then None else Some (address AND netmask bits, bits) }"

definition pd_lan_addr :: "string \<Rightarrow> string option" where
  "pd_lan_addr pd = map_option address_cidr (delegated_lan_in pd)"

definition pd_subnet64 :: "string \<Rightarrow> string option" where
  "pd_subnet64 pd = map_option subnet_cidr (delegated_lan_in pd)"

definition pd_pool :: "string \<Rightarrow> (string \<times> string) option" where
  "pd_pool pd = map_option (\<lambda>d. (pool_start d, pool_end d)) (delegated_lan_in pd)"

section \<open>The LAN of a Desired state\<close>

definition l2_key :: "iface \<Rightarrow> string \<times> u16 option" where
  "l2_key i =
     ((case parent i of
         Some p \<Rightarrow> p
       | None \<Rightarrow>
           if vlan i \<noteq> None
           then (case rsplit_once (CHR ''.'') (iface_name i) of Some (p, _) \<Rightarrow> p | None \<Rightarrow> iface_name i)
           else iface_name i),
      vlan i)"

definition lan_l2 :: "desired_state \<Rightarrow> iface option" where
  "lan_l2 st = List.find (has_role ''lan'') (interfaces st)"

definition static_lan_prefix :: "desired_state \<Rightarrow> string option" where
  "static_lan_prefix st = filled (wan_pd st)"

text \<open>The LAN's IPv4 prefix: configured, or the /24 of the DHCP pool's start.\<close>

definition lan_v4_prefix :: "desired_state \<Rightarrow> string option" where
  "lan_v4_prefix st =
     (case lan_prefix st of
        Some p \<Rightarrow> Some p
      | None \<Rightarrow> Option.bind (dhcp_pool st) prefix_from_pool)"

definition lan_interface_prefixes :: "iface \<Rightarrow> (u32 \<times> nat) list" where
  "lan_interface_prefixes i = List.map_filter ipv4_prefix (iface_addresses i)"

definition lan_services_match_interface :: "desired_state \<Rightarrow> unit res" where
  "lan_services_match_interface st =
     (case lan_l2 st of
        None \<Rightarrow> Inr ()
      | Some lan \<Rightarrow>
          (let prefixes = lan_interface_prefixes lan
           in if prefixes = [] then Inr ()
              else (case filled (lan_prefix st) of
                 Some prefix \<Rightarrow>
                   (case ipv4_prefix prefix of
                      None \<Rightarrow> Inl ''LAN prefix does not match a LAN interface address''
                    | Some expected \<Rightarrow>
                        failIf (expected \<notin> set prefixes)
                          ''LAN prefix does not match a LAN interface address'')
               | None \<Rightarrow>
                   (case filled (dhcp_pool st) of
                      None \<Rightarrow> Inr ()
                    | Some pool \<Rightarrow>
                        (case Option.bind (prefix_from_pool pool) ipv4_prefix of
                           None \<Rightarrow> Inl ''DHCP pool does not match a LAN interface address''
                         | Some implied \<Rightarrow>
                             failIf (implied \<notin> set prefixes)
                               ''DHCP pool does not match a LAN interface address'')))))"

text \<open>\<open>iter_mut().find(p)\<close> and a change of the element it found.\<close>

fun update_first :: "('a \<Rightarrow> bool) \<Rightarrow> ('a \<Rightarrow> 'a) \<Rightarrow> 'a list \<Rightarrow> 'a list" where
  "update_first p f [] = []"
| "update_first p f (x # xs) = (if p x then f x # xs else x # update_first p f xs)"

definition merge_lan_prefix_addr :: "desired_state \<Rightarrow> desired_state" where
  "merge_lan_prefix_addr st =
     (case lan_v4_prefix st of
        None \<Rightarrow> st
      | Some prefix \<Rightarrow>
          (case first_v4_host prefix of
             None \<Rightarrow> st
           | Some lan_v4 \<Rightarrow>
               (let text = lan_v4 @ ''/'' @ prefix_len_text prefix
                in st\<lparr>interfaces := update_first (has_role ''lan'')
                       (\<lambda>i. if \<exists>a \<in> set (iface_addresses i).
                                  a = text \<or> starts_with (lan_v4 @ ''/'') a
                            then i
                            else i\<lparr>iface_addresses := iface_addresses i @ [text]\<rparr>)
                       (interfaces st)\<rparr>)))"

section \<open>Lemmas\<close>

lemma update_first_find:
  "List.find p xs = None \<Longrightarrow> update_first p f xs = xs"
  by (induction xs) (auto split: if_splits)

lemma update_first_map:
  "(\<And>x. p x \<Longrightarrow> g (f x) = g x) \<Longrightarrow> map g (update_first p f xs) = map g xs"
  by (induction xs) auto

lemma update_first_set:
  "y \<in> set (update_first p f xs) \<Longrightarrow> y \<in> set xs \<or> (\<exists>x \<in> set xs. p x \<and> y = f x)"
  by (induction xs) (auto split: if_splits)

lemma lan_l2_Some: "lan_l2 st = Some i \<Longrightarrow> i \<in> set (interfaces st) \<and> role i = Some ''lan''"
  unfolding lan_l2_def by (rule find_Some_set)

text \<open>The merge only ever adds an address to the first LAN: names, roles, parents and VLANs
  stay, and so does everything outside the interface list.\<close>

lemma merge_lan_prefix_addr_frame:
  "map iface_name (interfaces (merge_lan_prefix_addr st)) = map iface_name (interfaces st)"
  "map role (interfaces (merge_lan_prefix_addr st)) = map role (interfaces st)"
  "map l2_key (interfaces (merge_lan_prefix_addr st)) = map l2_key (interfaces st)"
  "routes (merge_lan_prefix_addr st) = routes st" "revision (merge_lan_prefix_addr st) = revision st"
  "ui_exposure (merge_lan_prefix_addr st) = ui_exposure st"
  by (auto simp: merge_lan_prefix_addr_def Let_def l2_key_def intro!: update_first_map split: option.splits)

lemma merge_lan_prefix_addr_idem:
  "merge_lan_prefix_addr (merge_lan_prefix_addr st) = merge_lan_prefix_addr st"
proof -
  have twice: "update_first p f (update_first p f xs) = update_first p f xs"
    if "\<And>x. p x \<Longrightarrow> p (f x)" "\<And>x. f (f x) = f x" for p :: "iface \<Rightarrow> bool" and f xs
    using that by (induction xs) auto
  show ?thesis
    by (cases "lan_v4_prefix st"; cases "Option.bind (lan_v4_prefix st) first_v4_host")
      (auto simp: merge_lan_prefix_addr_def Let_def lan_v4_prefix_def twice split: option.splits)
qed

end
