(* ===== verification/Policy.thy ===== *)
theory Policy
  imports Lan_Text
begin

text \<open>
  The firewall of a Desired state (\<open>src/netd.rs\<close>): which operator rules are accepted
  (\<open>validate_policy_rule\<close>), which addresses the UI is exposed on, and the nft programs
  netd writes: the ruleset of a state with or without the recovery guard, the Host pull
  table and the first-boot tables. A program is the text netd writes to \<open>nft -f -\<close>; each
  chain is kept as the list of its rules, so that what a chain decides about a packet can be
  stated over an arbitrary reading of single rules.
\<close>

section \<open>Operator rules\<close>

definition policy_char :: "char \<Rightarrow> bool" where
  "policy_char c \<longleftrightarrow> ascii_alphanumeric c
     \<or> c \<in> {CHR '' '', CHR 0x22, CHR ''.'', CHR ''/'', CHR '':'', CHR ''-'', CHR ''_''}"

definition forbidden_tokens :: "string list" where
  "forbidden_tokens =
     [''flush'', ''table'', ''chain'', ''hook'', ''policy'', ''dnat'', ''snat'', ''masquerade'',
      ''redirect'', ''include'', ''define'', ''jump'', ''goto'']"

text \<open>\<open>rule.split(|c| !c.is_ascii_alphanumeric())\<close>\<close>

definition rule_tokens :: "string \<Rightarrow> string list" where
  "rule_tokens rule =
     map concat (split_when (\<lambda>g. \<not> list_all ascii_alphanumeric g) (utf8_chars rule))"

definition trim_quotes :: "string \<Rightarrow> string" where
  "trim_quotes s = (let q = (\<lambda>c. c = CHR 0x22) in rev (dropWhile q (rev (dropWhile q s))))"

definition policy_iifname :: "string \<Rightarrow> string option" where
  "policy_iifname rule = do {
     let parts = split_whitespace rule;
     pos \<leftarrow> position (\<lambda>part. part = ''iifname'') parts;
     part \<leftarrow> nth_opt parts (pos + 1);
     Some (trim_quotes part) }"

definition last_word :: "string \<Rightarrow> string" where
  "last_word rule = (let ws = split_whitespace rule in if ws = [] then [] else last ws)"

definition validate_policy_rule :: "desired_state \<Rightarrow> string \<Rightarrow> unit res" where
  "validate_policy_rule st raw =
     (let rule = trim raw; verdict = last_word rule in
      thenE (failIf (rule = [] \<or> \<not> list_all policy_char rule) ''invalid firewall policy'')
     (thenE (failIf (\<exists>t \<in> set (rule_tokens rule). map to_ascii_lower t \<in> set forbidden_tokens)
               ''invalid firewall policy'')
     (thenE (failIf (verdict \<notin> {''accept'', ''drop'', ''reject''})
               ''firewall policy needs a drop, reject, or accept verdict'')
     (thenE (failIf (length (split_whitespace rule) < 2)
               ''firewall policy needs an interface, source, or protocol match'')
        (case policy_iifname rule of
           Some name \<Rightarrow>
             (case List.find (\<lambda>i. iface_name i = name) (interfaces st) of
                None \<Rightarrow> Inl (''firewall policy uses unknown interface '' @ name)
              | Some i \<Rightarrow>
                  thenE (failIf (verdict = ''accept'' \<and> role i = Some ''wan'')
                           ''firewall policy must not accept WAN input'')
                        (failIf (verdict = ''accept'' \<and> role i \<notin> {Some ''lan'', Some ''mgmt''})
                           ''firewall accept must name a LAN or Management NIC''))
         | None \<Rightarrow>
             failIf (verdict = ''accept'') ''firewall accept must name a LAN or Management NIC'')))))"

definition validate_policy :: "desired_state \<Rightarrow> unit res" where
  "validate_policy st = eachE (validate_policy_rule st) (nft_extra st)"

section \<open>UI exposure\<close>

definition exposes_ui :: "desired_state \<Rightarrow> string \<Rightarrow> bool" where
  "exposes_ui st name \<longleftrightarrow> name \<in> set (ui_exposure st)"

definition ui_exposure_of :: "desired_state \<Rightarrow> (string \<times> string list) list" where
  "ui_exposure_of st =
     map (\<lambda>i. (iface_name i, iface_addresses i))
       (List.map_filter
          (\<lambda>name. List.find (\<lambda>i. iface_name i = name \<and> role i \<noteq> Some ''wan'') (interfaces st))
          (ui_exposure st))"

definition expose_allowed :: "string \<Rightarrow> bool" where
  "expose_allowed ip =
     (case parse_ipv4 ip of
        Some v4 \<Rightarrow>
          \<not> (v4_loopback v4 \<or> v4 = 0 \<or> v4_multicast v4 \<or> v4 = - 1)
          \<and> \<not> (take 3 (ipv4_octets v4) = [169, 254, 127])
      | None \<Rightarrow>
          (case parse_ipv6 ip of
             Some v6 \<Rightarrow> \<not> (v6 = 1 \<or> v6 = 0 \<or> v6_multicast v6)
           | None \<Rightarrow> False))"

fun expose_ips_from :: "string list \<Rightarrow> string list \<Rightarrow> string list" where
  "expose_ips_from out [] = out"
| "expose_ips_from out (c # cs) =
     (let ip = hd (split_on (CHR ''/'') c)
      in expose_ips_from (if expose_allowed ip \<and> ip \<notin> set out then out @ [ip] else out) cs)"

definition expose_ips :: "string list \<Rightarrow> string list" where
  "expose_ips cidrs = expose_ips_from [] cidrs"

text \<open>\<open>address.octets()[0] & 0xfe == 0xfc\<close>: unique local IPv6.\<close>

definition unique_local :: "u128 \<Rightarrow> bool" where
  "unique_local a \<longleftrightarrow> (drop_bit 120 a AND 0xfe) = 0xfc"

definition bootstrap_expose_ips :: "string list \<Rightarrow> string list" where
  "bootstrap_expose_ips cidrs =
     filter (\<lambda>ip. case parse_ip ip of
                    Some (V4 a) \<Rightarrow> v4_private a
                  | Some (V6 a) \<Rightarrow> unique_local a
                  | None \<Rightarrow> False) (expose_ips cidrs)"

section \<open>The nft programs\<close>

definition FWD_MGMT_VETH :: string where "FWD_MGMT_VETH = ''f0mgmt''"
definition MGMT_FWD_IP :: string where "MGMT_FWD_IP = ''169.254.127.6''"
definition MGMT_FWD_IP6 :: string where "MGMT_FWD_IP6 = ''fd53:1:1::6''"

definition quoted :: "string \<Rightarrow> string" where
  "quoted s = [CHR 0x22] @ s @ [CHR 0x22]"

definition rule_lines :: "string list \<Rightarrow> string" where
  "rule_lines rules = concat (map (\<lambda>r. ''    '' @ r @ nl) rules)"

definition nft_chain :: "string \<Rightarrow> string \<Rightarrow> string list \<Rightarrow> string" where
  "nft_chain name hook rules =
     ''  chain '' @ name @ '' {'' @ nl @ ''    '' @ hook @ nl @ rule_lines rules @ ''  }'' @ nl"

definition host_pull_nft :: string where
  "host_pull_nft =
     ''table ip fwos-pull {'' @ nl
     @ nft_chain ''postrouting'' ''type nat hook postrouting priority srcnat; policy accept;''
         [''ip saddr 169.254.127.0/30 masquerade'']
     @ ''}'' @ nl"

definition role_names :: "string \<Rightarrow> desired_state \<Rightarrow> string list" where
  "role_names r st = map iface_name (filter (has_role r) (interfaces st))"

definition wan_input_rules :: "string \<Rightarrow> string list" where
  "wan_input_rules wan =
     [''iifname '' @ quoted wan @ '' ct state established,related accept'',
      ''iifname '' @ quoted wan @ '' icmpv6 type { nd-neighbor-solicit, nd-neighbor-advert, nd-router-advert, packet-too-big, destination-unreachable, time-exceeded, parameter-problem } accept'',
      ''iifname '' @ quoted wan @ '' ip6 saddr fe80::/10 udp sport 547 udp dport 546 accept'',
      ''iifname '' @ quoted wan @ '' drop'']"

definition input_rules :: "desired_state \<Rightarrow> string list" where
  "input_rules st =
     [''iifname '' @ quoted ''lo'' @ '' accept''] @ nft_extra st
     @ concat (map wan_input_rules (role_names ''wan'' st))"

definition forward_rules :: "desired_state \<Rightarrow> bool \<Rightarrow> string list" where
  "forward_rules st recovery_required =
     (if recovery_required then [''drop''] else [])
     @ [''ct state established,related accept'',
        ''iifname '' @ quoted FWD_MGMT_VETH @ '' accept'']
     @ map (\<lambda>(name, _). ''iifname '' @ quoted name @ '' oifname '' @ quoted FWD_MGMT_VETH
                          @ '' tcp dport 443 accept'') (ui_exposure_of st)
     @ concat (map (\<lambda>m. [''iifname '' @ quoted m @ '' drop'', ''oifname '' @ quoted m @ '' drop''])
                (role_names ''mgmt'' st))
     @ map (\<lambda>wan. ''oifname '' @ quoted wan @ '' accept'') (role_names ''wan'' st)"

definition dnat_rule :: "string \<Rightarrow> string \<Rightarrow> string" where
  "dnat_rule name ip =
     (if CHR '':'' \<in> set ip
      then ''iifname '' @ quoted name @ '' ip6 daddr '' @ ip @ '' tcp dport 443 dnat ip6 to '' @ MGMT_FWD_IP6
      else ''iifname '' @ quoted name @ '' ip daddr '' @ ip @ '' tcp dport 443 dnat ip to '' @ MGMT_FWD_IP)"

definition prerouting_rules :: "desired_state \<Rightarrow> string list" where
  "prerouting_rules st =
     concat (map (\<lambda>(name, addrs).
       let ips = expose_ips addrs
       in if ips = []
          then [''iifname '' @ quoted name @ '' tcp dport 443 dnat ip to '' @ MGMT_FWD_IP]
          else map (dnat_rule name) ips) (ui_exposure_of st))"

definition postrouting_rules :: "desired_state \<Rightarrow> string list" where
  "postrouting_rules st =
     map (\<lambda>wan. ''oifname '' @ quoted wan @ '' meta nfproto ipv4 masquerade'') (role_names ''wan'' st)"

definition v4_wan :: "desired_state \<Rightarrow> bool" where
  "v4_wan st \<longleftrightarrow>
     (\<exists>i \<in> set (interfaces st). has_role ''wan'' i \<and> (\<exists>a \<in> set (iface_addresses i). CHR ''.'' \<in> set a))"

definition nft_rules_with_recovery_guard :: "desired_state \<Rightarrow> bool \<Rightarrow> string" where
  "nft_rules_with_recovery_guard st recovery_required =
     ''flush ruleset'' @ nl @ host_pull_nft @ ''table inet fwos {'' @ nl
     @ nft_chain ''input'' ''type filter hook input priority filter; policy accept;'' (input_rules st)
     @ nft_chain ''forward'' ''type filter hook forward priority filter; policy drop;''
         (forward_rules st recovery_required)
     @ (if ui_exposure_of st \<noteq> []
        then nft_chain ''prerouting'' ''type nat hook prerouting priority dstnat; policy accept;''
               (prerouting_rules st)
        else [])
     @ (if v4_wan st
        then nft_chain ''postrouting'' ''type nat hook postrouting priority srcnat; policy accept;''
               (postrouting_rules st)
        else [])
     @ ''}'' @ nl"

text \<open>The first-boot tables: the guard on the UI, then DNAT of the selected NIC's addresses.\<close>

definition first_boot_guard_rules :: "string \<Rightarrow> string list \<Rightarrow> string list" where
  "first_boot_guard_rules nic ips =
     map (\<lambda>ip. ''iifname '' @ quoted nic @ '' oifname '' @ quoted FWD_MGMT_VETH
                @ '' tcp dport 443 ct status dnat ct original ''
                @ (if CHR '':'' \<in> set ip then ''ip6'' else ''ip'') @ '' daddr '' @ ip @ '' accept'') ips
     @ [''oifname '' @ quoted FWD_MGMT_VETH @ '' tcp dport 443 drop'']"

definition first_boot_family :: "string \<Rightarrow> string \<Rightarrow> string list \<Rightarrow> string" where
  "first_boot_family family nic ips =
     (if ips = [] then []
      else ''table '' @ family @ '' fwos-first-boot {'' @ nl
        @ nft_chain ''prerouting'' ''type nat hook prerouting priority dstnat; policy accept;''
            (map (dnat_rule nic) ips)
        @ nft_chain ''forward'' ''type filter hook forward priority filter; policy accept;''
            [''iifname '' @ quoted nic @ '' oifname '' @ quoted FWD_MGMT_VETH @ '' tcp dport 443 accept'']
        @ ''}'' @ nl)"

definition first_boot_nft :: "string \<Rightarrow> string list \<Rightarrow> string" where
  "first_boot_nft nic ips =
     ''table inet fwos-first-boot {'' @ nl
     @ nft_chain ''forward'' ''type filter hook forward priority filter; policy accept;''
         (first_boot_guard_rules nic ips)
     @ ''}'' @ nl
     @ first_boot_family ''ip'' nic (filter (\<lambda>ip. CHR '':'' \<notin> set ip) ips)
     @ first_boot_family ''ip6'' nic (filter (\<lambda>ip. CHR '':'' \<in> set ip) ips)"

section \<open>What a chain decides\<close>

text \<open>
  nft evaluates a chain's rules in order. What single rules match is nft's business, the
  argument \<open>applies\<close>; the rules of the input and forward chains all end in their verdict,
  and the first that applies decides, else the chain's policy.
\<close>

definition chain_verdict :: "(string \<Rightarrow> bool) \<Rightarrow> string \<Rightarrow> string list \<Rightarrow> string" where
  "chain_verdict applies otherwise rules =
     (case List.find applies rules of None \<Rightarrow> otherwise | Some r \<Rightarrow> last_word r)"

lemma chain_verdict_Nil [simp]: "chain_verdict applies d [] = d"
  by (simp add: chain_verdict_def)

lemma chain_verdict_Cons [simp]:
  "chain_verdict applies d (r # rs) = (if applies r then last_word r else chain_verdict applies d rs)"
  by (simp add: chain_verdict_def)

lemma chain_verdict_skip:
  "\<forall>r \<in> set xs. \<not> applies r \<Longrightarrow> chain_verdict applies d (xs @ ys) = chain_verdict applies d ys"
  by (induction xs) auto

lemma chain_verdict_cases:
  "(\<exists>r \<in> set xs. applies r \<and> chain_verdict applies d (xs @ ys) = last_word r)
   \<or> (\<forall>r \<in> set xs. \<not> applies r) \<and> chain_verdict applies d (xs @ ys) = chain_verdict applies d ys"
  by (induction xs) auto

lemma last_word_drop [simp]: "last_word ''drop'' = ''drop''"
  by code_simp

text \<open>A rule whose words each hold their quoted text whole, so that no word stands inside a
  quoted string.\<close>

definition quotes_whole :: "string \<Rightarrow> bool" where
  "quotes_whole r \<longleftrightarrow>
     (\<forall>w \<in> set (split_whitespace r). even (length (filter (\<lambda>c. c = CHR 0x22) w)))"

section \<open>Accepted rules\<close>

lemma validate_policy_rule_accept:
  assumes "validate_policy_rule st raw = Inr ()" and "last_word (trim raw) = ''accept''"
  obtains i where "i \<in> set (interfaces st)" and "role i = Some ''lan'' \<or> role i = Some ''mgmt''"
    and "policy_iifname (trim raw) = Some (iface_name i)"
  using assms
  by (auto simp: validate_policy_rule_def Let_def ok_simps dest!: find_Some_set
      split: option.splits)

lemma validate_policy_rules: "validate_policy st = Inr () \<longleftrightarrow> (\<forall>r \<in> set (nft_extra st). validate_policy_rule st r = Inr ())"
  by (simp add: validate_policy_def ok_simps)

lemma validate_policy_verdict:
  "validate_policy_rule st raw = Inr () \<Longrightarrow> last_word (trim raw) \<in> {''accept'', ''drop'', ''reject''}"
  by (auto simp: validate_policy_rule_def Let_def ok_simps)

section \<open>The rules netd writes for an interface\<close>

text \<open>A name as \<open>bootstrap_values::interface\<close> accepts it: ASCII, no space, no quote.\<close>

definition plain_name :: "string \<Rightarrow> bool" where
  "plain_name w \<longleftrightarrow> w \<noteq> [] \<and> is_ascii w \<and> (\<forall>c \<in> set w. \<not> white_space [c] \<and> c \<noteq> CHR 0x22)"

lemma is_ascii_quoted: "plain_name w \<Longrightarrow> is_ascii (quoted w)"
  by (simp add: quoted_def plain_name_def byte_def)

lemma words_quoted:
  assumes "plain_name w"
  shows "split_whitespace (quoted w) = [quoted w]"
proof (rule split_whitespace_word [OF is_ascii_quoted [OF assms]])
  have "\<not> white_space [CHR 0x22]" by code_simp
  then show "\<forall>c \<in> set (quoted w). \<not> white_space [c]"
    using assms by (auto simp: quoted_def plain_name_def)
  show "quoted w \<noteq> []" by (simp add: quoted_def)
qed

lemma trim_quotes_quoted: "plain_name w \<Longrightarrow> trim_quotes (quoted w) = w"
proof -
  assume "plain_name w"
  then have "w \<noteq> []" and q: "\<forall>c \<in> set w. c \<noteq> CHR 0x22" by (auto simp: plain_name_def)
  have drop: "dropWhile (\<lambda>c. c = CHR 0x22) (xs @ ys) = xs @ ys"
    if "xs \<noteq> []" "\<forall>c \<in> set xs. c \<noteq> CHR 0x22" for xs ys
    using that by (cases xs) auto
  show ?thesis
    using drop [of w "[CHR 0x22]"] drop [of "rev w" "[]"] \<open>w \<noteq> []\<close> q
    by (simp add: trim_quotes_def quoted_def Let_def)
qed

lemma words_iifname:
  assumes "plain_name w" and "is_ascii rest"
  shows "split_whitespace (''iifname '' @ quoted w @ CHR '' '' # rest)
         = ''iifname'' # quoted w # split_whitespace rest"
proof -
  have "split_whitespace (''iifname'' @ CHR '' '' # (quoted w @ CHR '' '' # rest))
      = split_whitespace ''iifname'' @ split_whitespace (quoted w @ CHR '' '' # rest)"
    using assms is_ascii_quoted [of w]
    by (intro split_whitespace_space) (simp_all add: byte_def)
  moreover have "split_whitespace ''iifname'' = [''iifname'']" by code_simp
  ultimately show ?thesis
    using assms is_ascii_quoted [of w] by (simp add: split_whitespace_space words_quoted)
qed

lemma iifname_rule_name:
  assumes "plain_name w" and "is_ascii rest"
  shows "policy_iifname (''iifname '' @ quoted w @ CHR '' '' # rest) = Some w"
  by (simp only: policy_iifname_def words_iifname [OF assms] Let_def)
     (simp add: nth_opt_def trim_quotes_quoted [OF assms(1)])

lemma iifname_rule_verdict:
  assumes "plain_name w" and "is_ascii rest" and "split_whitespace rest \<noteq> []"
  shows "last_word (''iifname '' @ quoted w @ CHR '' '' # rest) = last_word rest"
  using words_iifname [OF assms(1,2)] assms(3) by (simp add: last_word_def Let_def)

lemma white_space_ascii:
  "white_space [c] \<longleftrightarrow> c \<in> {CHR 0x09, CHR 0x0A, CHR 0x0B, CHR 0x0C, CHR 0x0D, CHR 0x20}"
  by (simp add: white_space_def white_space_chars_def)

lemma interface_name_plain:
  assumes "interface_name w"
  shows "plain_name w"
proof -
  have "byte c < 128 \<and> \<not> white_space [c] \<and> c \<noteq> CHR 0x22" if "c \<in> set w" for c
  proof -
    have "ascii_alphanumeric c \<or> c \<in> {CHR ''_'', CHR ''-'', CHR ''.''}"
      using that assms by (auto simp: interface_name_def list_all_iff)
    then show ?thesis
      by (auto simp: ascii_defs white_space_ascii)
  qed
  then show ?thesis
    using assms by (auto simp: plain_name_def interface_name_def is_ascii_def)
qed

section \<open>WAN input\<close>

lemma wan_rule_names:
  assumes "plain_name w" and "r \<in> set (wan_input_rules w)"
  shows "policy_iifname r = Some w"
proof -
  obtain rest where "r = ''iifname '' @ quoted w @ CHR '' '' # rest" and "is_ascii rest"
    using assms(2) by (auto simp: wan_input_rules_def byte_def is_ascii_def)
  then show ?thesis using iifname_rule_name [OF assms(1)] by simp
qed

lemma wan_drop_verdict:
  assumes "plain_name w"
  shows "last_word (''iifname '' @ quoted w @ '' drop'') = ''drop''"
proof -
  have "split_whitespace ''drop'' \<noteq> []" by code_simp
  then show ?thesis
    using iifname_rule_verdict [OF assms, of "''drop''"] by (simp add: byte_def)
qed

lemma role_names_iff: "n \<in> set (role_names r st) \<longleftrightarrow> (\<exists>i \<in> set (interfaces st). has_role r i \<and> iface_name i = n)"
  by (auto simp: role_names_def)

lemma distinct_names_role:
  assumes "distinct (map iface_name (interfaces st))"
    and "i \<in> set (interfaces st)" and "j \<in> set (interfaces st)" and "iface_name i = iface_name j"
  shows "i = j"
  using assms by (simp add: distinct_map inj_on_def)

text \<open>What a rule with an interface match decides about a packet that arrived on
  \<open>arrives\<close>.\<close>

definition reads_iifname :: "(string \<Rightarrow> bool) \<Rightarrow> string \<Rightarrow> bool" where
  "reads_iifname applies arrives \<longleftrightarrow>
     (\<forall>r n. quotes_whole r \<and> policy_iifname r = Some n \<and> applies r \<longrightarrow> n = arrives)
     \<and> applies (''iifname '' @ quoted arrives @ '' drop'')"

lemma quoted_even: "plain_name w \<Longrightarrow> even (length (filter (\<lambda>c. c = CHR 0x22) (quoted w)))"
  by (auto simp: quoted_def plain_name_def filter_empty_conv)

lemma wan_input_section:
  assumes "plain_name w" and w: "w \<in> set names" and "\<forall>n \<in> set names. plain_name n"
    and "reads_iifname applies w" and "\<forall>n \<in> set names. \<forall>r \<in> set (wan_input_rules n). quotes_whole r"
    and none: "\<forall>r \<in> set (take 3 (wan_input_rules w)). \<not> applies r"
  shows "chain_verdict applies d (concat (map wan_input_rules names)) = ''drop''"
  using w assms(3,5)
proof (induction names)
  case (Cons n names)
  show ?case
  proof (cases "n = w")
    case True
    have "applies (''iifname '' @ quoted w @ '' drop'')"
      using assms(4) by (simp add: reads_iifname_def)
    then show ?thesis
      using True none wan_drop_verdict [OF assms(1)]
      by (auto simp: wan_input_rules_def numeral_3_eq_3)
  next
    case False
    have "\<not> applies r" if "r \<in> set (wan_input_rules n)" for r
      using that False Cons.prems wan_rule_names [of n r] assms(4)
      by (auto simp: reads_iifname_def)
    then show ?thesis
      using False Cons by (simp add: chain_verdict_skip)
  qed
qed simp

lemma quotes_whole_iifname:
  assumes "plain_name w" and "is_ascii rest" and "quotes_whole rest"
  shows "quotes_whole (''iifname '' @ quoted w @ CHR '' '' # rest)"
  unfolding quotes_whole_def words_iifname [OF assms(1,2)]
  using assms(3) quoted_even [OF assms(1)] by (auto simp: quotes_whole_def)

lemma wan_rules_whole:
  assumes "plain_name n" and "r \<in> set (wan_input_rules n)"
  shows "quotes_whole r"
proof -
  have whole: "quotes_whole ''ct state established,related accept''" "quotes_whole ''drop''"
    "quotes_whole ''icmpv6 type { nd-neighbor-solicit, nd-neighbor-advert, nd-router-advert, packet-too-big, destination-unreachable, time-exceeded, parameter-problem } accept''"
    "quotes_whole ''ip6 saddr fe80::/10 udp sport 547 udp dport 546 accept''"
    by code_simp+
  show ?thesis
    using assms(2) whole quotes_whole_iifname [OF assms(1)]
    by (auto simp: wan_input_rules_def is_ascii_def byte_def)
qed

lemma wan_input_not_opened:
  assumes policy: "validate_policy st = Inr ()"
    and whole: "\<forall>r \<in> set (nft_extra st). quotes_whole r"
    and names: "\<forall>i \<in> set (interfaces st). interface_name (iface_name i)"
    and dist: "distinct (map iface_name (interfaces st))"
    and wan: "wan \<in> set (role_names ''wan'' st)" and "wan \<noteq> ''lo''"
    and reads: "reads_iifname applies wan"
    and accepted: "chain_verdict applies ''accept'' (input_rules st) = ''accept''"
  shows "\<exists>r \<in> set (take 3 (wan_input_rules wan)). applies r"
proof (rule ccontr)
  assume none: "\<not> ?thesis"
  have plain: "\<forall>n \<in> set (role_names ''wan'' st). plain_name n"
    using names interface_name_plain by (auto simp: role_names_iff)
  have section_drop: "chain_verdict applies ''accept''
      (concat (map wan_input_rules (role_names ''wan'' st))) = ''drop''"
    using wan_input_section [OF _ wan plain reads] plain wan none wan_rules_whole by blast
  have lo: "\<not> applies (''iifname '' @ quoted ''lo'' @ '' accept'')"
  proof
    assume "applies (''iifname '' @ quoted ''lo'' @ '' accept'')"
    moreover have "quotes_whole (''iifname '' @ quoted ''lo'' @ '' accept'')"
      "policy_iifname (''iifname '' @ quoted ''lo'' @ '' accept'') = Some ''lo''"
      by code_simp+
    ultimately show False using reads \<open>wan \<noteq> ''lo''\<close> by (auto simp: reads_iifname_def)
  qed
  obtain r where r: "r \<in> set (nft_extra st)" "applies r" "last_word r = ''accept''"
    using accepted section_drop lo chain_verdict_cases [of "nft_extra st" applies "''accept''"
        "concat (map wan_input_rules (role_names ''wan'' st))"]
    by (auto simp: input_rules_def)
  have "validate_policy_rule st r = Inr ()" "last_word (trim r) = ''accept''"
    using policy r by (auto simp: validate_policy_rules last_word_def)
  then obtain i where i: "i \<in> set (interfaces st)" "role i = Some ''lan'' \<or> role i = Some ''mgmt''"
      "policy_iifname (trim r) = Some (iface_name i)"
    using validate_policy_rule_accept by metis
  have "policy_iifname r = Some (iface_name i)"
    using i(3) by (simp add: policy_iifname_def)
  then have "iface_name i = wan"
    using reads r whole by (auto simp: reads_iifname_def)
  moreover obtain j where "j \<in> set (interfaces st)" "role j = Some ''wan''" "iface_name j = wan"
    using wan by (auto simp: role_names_iff)
  ultimately show False
    using distinct_names_role [OF dist i(1)] i(2) by auto
qed

section \<open>Exposed addresses\<close>

lemma expose_ips_from_props:
  "distinct out \<Longrightarrow> distinct (expose_ips_from out cs)
   \<and> set (expose_ips_from out cs)
     = set out \<union> {ip. \<exists>c \<in> set cs. ip = hd (split_on (CHR ''/'') c) \<and> expose_allowed ip}"
proof (induction out cs rule: expose_ips_from.induct)
  case (2 out c cs)
  have "distinct (if expose_allowed (hd (split_on (CHR ''/'') c)) \<and> hd (split_on (CHR ''/'') c) \<notin> set out
           then out @ [hd (split_on (CHR ''/'') c)] else out)"
    using "2.prems" by simp
  from "2.IH" [OF refl this] show ?case by (auto simp: Let_def split: if_splits)
qed simp

end
