(* ===== verification/Validate.thy ===== *)
theory Validate
  imports Policy
begin

text \<open>
  \<open>validate\<close> of \<open>src/netd.rs\<close>: the check every Desired state passes before any of it is
  applied, cut where the source's loops cut it. Decoding base64 is the base64 crate's and
  stays the argument \<open>b64\<close>. The lemmas read an accepted state back: its topology, its
  routes, its WAN input and UI exposure.
\<close>

section \<open>IPv6 acquisition\<close>

definition validate_ipv6_iface :: "iface \<Rightarrow> unit res" where
  "validate_ipv6_iface i =
     thenE (case ipv6 i of
              None \<Rightarrow> Inr ()
            | Some mode \<Rightarrow>
                thenE (failIf (\<not> has_role ''wan'' i)
                         (''IPv6 acquisition on '' @ iface_name i @ '' is for only a WAN''))
                      (failIf (mode \<notin> {''slaac'', ''dhcpv6''})
                         (''unsupported IPv6 mode '' @ mode @ '' on '' @ iface_name i)))
           (failIf (request_pd i \<and> \<not> has_role ''wan'' i)
              (''prefix delegation on '' @ iface_name i @ '' is requested by only a WAN''))"

definition validate_ipv6 :: "desired_state \<Rightarrow> unit res" where
  "validate_ipv6 st =
     thenE (eachE validate_ipv6_iface (interfaces st))
     (let requesting = length (filter request_pd (interfaces st)) in
      thenE (failIf (1 < requesting) ''only one WAN can request prefix delegation'')
            (failIf (requesting = 1 \<and> static_lan_prefix st \<noteq> None)
               ''choose a static routed IPv6 prefix or prefix delegation, not both''))"

section \<open>Next hops\<close>

definition gateway_in_cidr :: "ip_addr \<Rightarrow> string \<Rightarrow> bool" where
  "gateway_in_cidr gateway cidr_text =
     (case split_once (CHR ''/'') cidr_text of
        None \<Rightarrow> False
      | Some (address_text, bits_text) \<Rightarrow>
          (case (parse_ip address_text, parse_u8 bits_text) of
             (Some address, Some bits) \<Rightarrow>
               gateway \<noteq> address
               \<and> (case (gateway, address) of
                    (V4 g, V4 a) \<Rightarrow> bits \<le> 32 \<and> g AND netmask bits = a AND netmask bits
                  | (V6 g, V6 a) \<Rightarrow> bits \<le> 128 \<and> g AND netmask bits = a AND netmask bits
                  | _ \<Rightarrow> False)
           | _ \<Rightarrow> False))"

definition management_gateway :: "desired_state \<Rightarrow> ip_addr \<Rightarrow> string option \<Rightarrow> bool" where
  "management_gateway st gateway device \<longleftrightarrow>
     (\<exists>i \<in> set (interfaces st). has_role ''mgmt'' i
        \<and> (device = Some (iface_name i) \<or> (\<exists>a \<in> set (iface_addresses i). gateway_in_cidr gateway a)))"

text \<open>The first LAN also has the address the services are given in its prefix.\<close>

definition first_lan_service_address :: "desired_state \<Rightarrow> string list" where
  "first_lan_service_address st =
     (case lan_prefix st of
        None \<Rightarrow> []
      | Some prefix \<Rightarrow>
          (case (first_v4_host prefix, split_once (CHR ''/'') prefix) of
             (Some host, Some (_, bits)) \<Rightarrow> [host @ ''/'' @ bits]
           | _ \<Rightarrow> []))"

definition on_link_addresses :: "desired_state \<Rightarrow> iface \<Rightarrow> string list" where
  "on_link_addresses st i =
     iface_addresses i
     @ (case List.find (has_role ''lan'') (interfaces st) of
          Some lan \<Rightarrow> if iface_name lan = iface_name i then first_lan_service_address st else []
        | None \<Rightarrow> [])"

definition route_next_hop_on_link :: "desired_state \<Rightarrow> ip_addr \<Rightarrow> string option \<Rightarrow> bool" where
  "route_next_hop_on_link st gateway device \<longleftrightarrow>
     (\<exists>i \<in> set (interfaces st). (device = None \<or> device = Some (iface_name i)) \<and> \<not> has_role ''mgmt'' i
        \<and> (\<exists>a \<in> set (on_link_addresses st i). gateway_in_cidr gateway a))
     \<or> (\<exists>w \<in> set (wireguard st). (device = None \<or> device = Some (wg_name w))
        \<and> (\<exists>a \<in> set (wg_addresses w). gateway_in_cidr gateway a))"

section \<open>Tunnels, queueing disciplines and routes\<close>

fun validate_wireguard ::
    "(string \<Rightarrow> string option) \<Rightarrow> string list \<Rightarrow> wg list \<Rightarrow> unit res" where
  "validate_wireguard b64 seen [] = Inr ()"
| "validate_wireguard b64 seen (w # ws) =
     thenE (failIf (wg_name w \<in> set seen) (''duplicate WireGuard '' @ wg_name w))
    (thenE (failIf (listen_port w = Some 0) (''WireGuard '' @ wg_name w @ '' needs a usable listen port''))
    (thenE (interface_values (wg_name w) None None (wg_addresses w))
    (thenE (failIf (case b64 (private_key w) of None \<Rightarrow> True | Some key \<Rightarrow> length key \<noteq> 32)
              (''WireGuard '' @ wg_name w @ '' has an invalid private key''))
           (validate_wireguard b64 (wg_name w # seen) ws))))"

definition known_device :: "desired_state \<Rightarrow> string \<Rightarrow> bool" where
  "known_device st dev \<longleftrightarrow>
     (\<exists>i \<in> set (interfaces st). iface_name i = dev) \<or> (\<exists>w \<in> set (wireguard st). wg_name w = dev)"

definition qdisc_kinds :: "string list" where
  "qdisc_kinds = [''fq_codel'', ''fq'', ''pfifo'', ''bfifo'', ''sfq'', ''cake'']"

definition validate_qdisc :: "desired_state \<Rightarrow> qdisc \<Rightarrow> unit res" where
  "validate_qdisc st q =
     failIf (\<not> known_device st (qdisc_dev q) \<or> kind q \<notin> set qdisc_kinds)
       (''unsupported qdisc '' @ kind q @ '' on '' @ qdisc_dev q)"

fun canonical :: "ip_addr \<Rightarrow> nat \<Rightarrow> bool" where
  "canonical (V4 a) bits \<longleftrightarrow> a AND netmask bits = a"
| "canonical (V6 a) bits \<longleftrightarrow> a AND netmask bits = a"

definition route_destination :: "static_route \<Rightarrow> (ip_addr \<times> nat) res" where
  "route_destination r =
     bindE (ok_or (split_once (CHR ''/'') (route_to r))
              (''route destination '' @ route_to r @ '' must be a CIDR prefix'')) (\<lambda>(address, prefix).
     bindE (ok_or (parse_ip address) (''invalid route destination '' @ route_to r)) (\<lambda>destination.
     bindE (ok_or (parse_u8 prefix) (''invalid route destination '' @ route_to r)) (\<lambda>bits.
     thenE (failIf ((if is_ipv4 destination then 32 else 128) < bits)
              (''invalid route destination '' @ route_to r))
           (Inr (destination, bits)))))"

definition validate_next_hop :: "desired_state \<Rightarrow> static_route \<Rightarrow> ip_addr \<Rightarrow> unit res" where
  "validate_next_hop st r destination =
     bindE (ok_or (parse_ip (via r)) (''invalid route next hop '' @ via r)) (\<lambda>gateway.
     thenE (failIf (is_ipv4 destination \<noteq> is_ipv4 gateway \<or> ip_unspecified gateway \<or> ip_multicast gateway)
              (''route '' @ route_to r @ '' needs a usable next hop of the same IP family''))
    (thenE (failIf ((case gateway of V6 a \<Rightarrow> v6_link_local a | V4 _ \<Rightarrow> False) \<and> route_dev r = None)
              (''route '' @ route_to r @ '' needs an interface for a link-local next hop''))
    (thenE (case route_dev r of
              None \<Rightarrow> Inr ()
            | Some dev \<Rightarrow> failIf (\<not> known_device st dev)
                            (''route '' @ route_to r @ '' uses unknown interface '' @ dev))
    (thenE (failIf (management_gateway st gateway (route_dev r)) ''Management NIC has no gateway'')
           (failIf (\<not> route_next_hop_on_link st gateway (route_dev r))
              (''route '' @ route_to r @ '' next hop '' @ via r
               @ '' needs a configured on-link interface address''))))))"

fun validate_routes :: "desired_state \<Rightarrow> (ip_addr \<times> nat) list \<Rightarrow> static_route list \<Rightarrow> unit res" where
  "validate_routes st seen [] = Inr ()"
| "validate_routes st seen (r # rs) =
     bindE (route_destination r) (\<lambda>key.
     thenE (failIf (\<not> canonical (fst key) (snd key) \<or> key \<in> set seen)
              (''invalid or duplicate route destination '' @ route_to r))
    (thenE (validate_next_hop st r (fst key))
           (validate_routes st (key # seen) rs)))"

section \<open>Roles and topology\<close>

definition validate_mgmt_iface :: "iface \<Rightarrow> unit res" where
  "validate_mgmt_iface i =
     thenE (failIf (vlan i \<noteq> None \<or> parent i \<noteq> None \<or> CHR ''.'' \<in> set (iface_name i))
              ''Management NIC owns the whole parent'')
    (thenE (failIf (dhcp i) ''Management NIC is on-link static; no DHCP'')
           (failIf (iface_addresses i = []) ''Management NIC needs an on-link static prefix''))"

definition validate_role :: "iface \<Rightarrow> unit res" where
  "validate_role i =
     thenE (failIf (placement i = ''mgmt'')
              ''placement=mgmt is not a contract; use roles and ui_exposure'')
    (thenE (case role i of
              None \<Rightarrow> Inr ()
            | Some r \<Rightarrow> failIf (r \<notin> {''wan'', ''lan'', ''unused'', ''stick'', ''mgmt''}) (''unknown role '' @ r))
           (if has_role ''mgmt'' i then validate_mgmt_iface i else Inr ()))"

definition with_role :: "string \<Rightarrow> desired_state \<Rightarrow> iface list" where
  "with_role r st = filter (has_role r) (interfaces st)"

definition validate_topology :: "desired_state \<Rightarrow> unit res" where
  "validate_topology st =
     (let wans = with_role ''wan'' st; lans = with_role ''lan'' st; mgmts = with_role ''mgmt'' st;
          mgmt_parents = map (fst \<circ> l2_key) mgmts in
      thenE (failIf (wans = []) ''need at least one WAN'')
     (thenE (failIf (lans = []) ''need at least one LAN'')
     (thenE (failIf (\<exists>w \<in> set wans. \<exists>l \<in> set lans. l2_key w = l2_key l)
               ''WAN and LAN must not share the same parent and tag'')
            (failIf (\<exists>i \<in> set (wans @ lans). fst (l2_key i) \<in> set mgmt_parents)
               ''WAN or LAN must not share a parent with a Management NIC''))))"

definition validate_exposed_name :: "desired_state \<Rightarrow> string \<Rightarrow> unit res" where
  "validate_exposed_name st name =
     bindE (ok_or (List.find (\<lambda>i. iface_name i = name) (interfaces st))
              (''ui_exposure '' @ name @ '' is not an interface'')) (\<lambda>i.
     failIf (has_role ''wan'' i) ''ui_exposure cannot include a WAN'')"

definition validate_exposure :: "desired_state \<Rightarrow> unit res" where
  "validate_exposure st =
     thenE (failIf (ui_exposure st = []) ''ui_exposure must not be empty'')
    (thenE (eachE (validate_exposed_name st) (ui_exposure st))
           (failIf (\<exists>m \<in> set (with_role ''mgmt'' st). iface_name m \<notin> set (ui_exposure st))
              ''Management NIC must be in ui_exposure''))"

definition validate_values :: "desired_state \<Rightarrow> unit res" where
  "validate_values st =
     thenE (eachE (\<lambda>i. interface_values (iface_name i) (parent i) (vlan i) (iface_addresses i))
              (interfaces st))
    (thenE (addressing (lan_prefix st) (dhcp_pool st) (wan_pd st))
    (thenE (lan_services_match_interface st)
    (thenE (validate_ipv6 st) (validate_policy st))))"

definition validate :: "(string \<Rightarrow> string option) \<Rightarrow> desired_state \<Rightarrow> unit res" where
  "validate b64 st =
     thenE (validate_values st)
    (thenE (validate_wireguard b64 [] (wireguard st))
    (thenE (eachE (validate_qdisc st) (qdiscs st))
    (thenE (validate_routes st [] (routes st))
    (thenE (eachE validate_role (interfaces st))
    (thenE (validate_topology st) (validate_exposure st))))))"

section \<open>What acceptance means\<close>

lemma validate_ok [ok_simps]:
  "validate b64 st = Inr () \<longleftrightarrow>
     validate_values st = Inr () \<and> validate_wireguard b64 [] (wireguard st) = Inr ()
     \<and> (\<forall>q \<in> set (qdiscs st). validate_qdisc st q = Inr ()) \<and> validate_routes st [] (routes st) = Inr ()
     \<and> (\<forall>i \<in> set (interfaces st). validate_role i = Inr ())
     \<and> validate_topology st = Inr () \<and> validate_exposure st = Inr ()"
  by (simp add: validate_def ok_simps)

lemma validate_values_ok [ok_simps]:
  "validate_values st = Inr () \<longleftrightarrow>
     (\<forall>i \<in> set (interfaces st).
        interface_values (iface_name i) (parent i) (vlan i) (iface_addresses i) = Inr ())
     \<and> addressing (lan_prefix st) (dhcp_pool st) (wan_pd st) = Inr ()
     \<and> lan_services_match_interface st = Inr () \<and> validate_ipv6 st = Inr ()
     \<and> validate_policy st = Inr ()"
  by (simp add: validate_values_def ok_simps)

lemma with_role_set [simp]: "set (with_role r st) = {i \<in> set (interfaces st). has_role r i}"
  by (auto simp: with_role_def)

lemma with_role_empty: "with_role r st \<noteq> [] \<longleftrightarrow> (\<exists>i \<in> set (interfaces st). has_role r i)"
  by (auto simp: with_role_def filter_empty_conv)

lemma validate_topology_ok [ok_simps]:
  "validate_topology st = Inr () \<longleftrightarrow>
     (\<exists>w \<in> set (interfaces st). has_role ''wan'' w) \<and> (\<exists>l \<in> set (interfaces st). has_role ''lan'' l)
     \<and> (\<forall>w \<in> set (interfaces st). \<forall>l \<in> set (interfaces st).
          has_role ''wan'' w \<longrightarrow> has_role ''lan'' l \<longrightarrow> l2_key w \<noteq> l2_key l)
     \<and> (\<forall>i \<in> set (interfaces st). \<forall>m \<in> set (interfaces st).
          has_role ''wan'' i \<or> has_role ''lan'' i \<longrightarrow> has_role ''mgmt'' m \<longrightarrow>
          fst (l2_key i) \<noteq> fst (l2_key m))"
  by (auto simp: validate_topology_def Let_def ok_simps with_role_empty image_iff)

lemma validate_role_ok [ok_simps]:
  "validate_role i = Inr () \<longleftrightarrow>
     placement i \<noteq> ''mgmt'' \<and> role i \<in> {None, Some ''wan'', Some ''lan'', Some ''unused'', Some ''stick'', Some ''mgmt''}
     \<and> (has_role ''mgmt'' i \<longrightarrow> vlan i = None \<and> parent i = None \<and> CHR ''.'' \<notin> set (iface_name i)
          \<and> \<not> dhcp i \<and> iface_addresses i \<noteq> [])"
  by (auto simp: validate_role_def validate_mgmt_iface_def ok_simps split: option.splits)

lemma validate_exposure_ok [ok_simps]:
  "validate_exposure st = Inr () \<longleftrightarrow>
     ui_exposure st \<noteq> []
     \<and> (\<forall>name \<in> set (ui_exposure st). \<exists>i. List.find (\<lambda>i. iface_name i = name) (interfaces st) = Some i
          \<and> \<not> has_role ''wan'' i)
     \<and> (\<forall>m \<in> set (interfaces st). has_role ''mgmt'' m \<longrightarrow> iface_name m \<in> set (ui_exposure st))"
  by (auto simp: validate_exposure_def validate_exposed_name_def ok_simps)

text \<open>
  A Desired state that validates has a WAN and a LAN, no WAN shares its parent link and
  VLAN tag with a LAN, no WAN or LAN sits on the parent of a Management NIC, every
  Management NIC is a whole untagged link with a static address and is in the UI exposure,
  and the UI is exposed on at least one interface, each of them in the state.
\<close>

theorem validate_topology_safe:
  assumes "validate b64 st = Inr ()"
  shows "(\<exists>w \<in> set (interfaces st). has_role ''wan'' w) \<and> (\<exists>l \<in> set (interfaces st). has_role ''lan'' l)
    \<and> (\<forall>w \<in> set (interfaces st). \<forall>l \<in> set (interfaces st).
         has_role ''wan'' w \<and> has_role ''lan'' l \<longrightarrow> l2_key w \<noteq> l2_key l)
    \<and> (\<forall>m \<in> set (interfaces st). has_role ''mgmt'' m \<longrightarrow>
         vlan m = None \<and> parent m = None \<and> \<not> dhcp m \<and> iface_addresses m \<noteq> []
         \<and> iface_name m \<in> set (ui_exposure st)
         \<and> (\<forall>i \<in> set (interfaces st). has_role ''wan'' i \<or> has_role ''lan'' i \<longrightarrow>
              fst (l2_key i) \<noteq> iface_name m))
    \<and> ui_exposure st \<noteq> [] \<and> set (ui_exposure st) \<subseteq> iface_name ` set (interfaces st)"
proof -
  have roles: "\<forall>i \<in> set (interfaces st). validate_role i = Inr ()"
    and topology: "validate_topology st = Inr ()" and exposure: "validate_exposure st = Inr ()"
    using assms by (simp_all add: validate_ok)
  have parent_key: "fst (l2_key m) = iface_name m" if "vlan m = None" "parent m = None" for m
    using that by (simp add: l2_key_def)
  have exposed: "set (ui_exposure st) \<subseteq> iface_name ` set (interfaces st)"
    using exposure find_Some_set by (fastforce simp: validate_exposure_ok)
  have mgmt: "vlan m = None \<and> parent m = None \<and> \<not> dhcp m \<and> iface_addresses m \<noteq> []"
    if "m \<in> set (interfaces st)" "has_role ''mgmt'' m" for m
    using roles that by (auto simp: validate_role_ok)
  have apart: "fst (l2_key i) \<noteq> iface_name m"
    if "m \<in> set (interfaces st)" "has_role ''mgmt'' m"
      and "i \<in> set (interfaces st)" "has_role ''wan'' i \<or> has_role ''lan'' i" for i m
  proof -
    have "fst (l2_key i) \<noteq> fst (l2_key m)"
      using topology that unfolding validate_topology_ok by blast
    then show ?thesis using mgmt [OF that(1,2)] parent_key [of m] by simp
  qed
  show ?thesis
    using topology exposure mgmt apart exposed
    by (auto simp: validate_topology_ok validate_exposure_ok)
qed

section \<open>Accepted routes\<close>

lemma validate_routes_ok:
  "validate_routes st seen rs = Inr () \<longleftrightarrow>
     (\<exists>keys. map route_destination rs = map Inr keys \<and> distinct keys \<and> set keys \<inter> set seen = {}
        \<and> (\<forall>(r, k) \<in> set (zip rs keys). canonical (fst k) (snd k) \<and> validate_next_hop st r (fst k) = Inr ()))"
proof (induction st seen rs rule: validate_routes.induct)
  case (2 st seen r rs)
  show ?case (is "?l = (\<exists>keys. ?p keys)")
  proof
    assume ?l
    then obtain key where key: "route_destination r = Inr key" "canonical (fst key) (snd key)"
        "key \<notin> set seen" "validate_next_hop st r (fst key) = Inr ()"
      and rest: "validate_routes st (key # seen) rs = Inr ()"
      by (auto simp: ok_simps)
    from rest "2.IH" obtain keys where "map route_destination rs = map Inr keys" "distinct keys"
        "set keys \<inter> set (key # seen) = {}"
        "\<forall>(r, k) \<in> set (zip rs keys). canonical (fst k) (snd k) \<and> validate_next_hop st r (fst k) = Inr ()"
      by blast
    with key have "?p (key # keys)" by auto
    then show "\<exists>keys. ?p keys" by (rule exI)
  next
    assume "\<exists>keys. ?p keys"
    then obtain ks where ks: "?p ks" by (rule exE)
    then obtain key keys where k: "ks = key # keys" by (cases ks) auto
    have "\<exists>keys. map route_destination rs = map Inr keys \<and> distinct keys \<and> set keys \<inter> set (key # seen) = {}
        \<and> (\<forall>(r, k) \<in> set (zip rs keys). canonical (fst k) (snd k) \<and> validate_next_hop st r (fst k) = Inr ())"
      using ks k by (intro exI [of _ keys]) auto
    then have "validate_routes st (key # seen) rs = Inr ()" using "2.IH" by blast
    then show ?l using ks k by (auto simp: ok_simps)
  qed
qed simp

lemma gateway_in_cidr_cases:
  assumes "gateway_in_cidr gateway text"
  obtains (v4) g a bits where "gateway = V4 g" "g \<noteq> a" "bits \<le> 32" "cidr text = Some (V4 a, bits)"
      "g AND netmask bits = a AND netmask bits"
    | (v6) g a bits where "gateway = V6 g" "g \<noteq> a" "bits \<le> 128" "cidr text = Some (V6 a, bits)"
      "g AND netmask bits = a AND netmask bits"
proof -
  from assms obtain at bt address bits
    where t: "split_once (CHR ''/'') text = Some (at, bt)" "parse_ip at = Some address" "parse_u8 bt = Some bits"
      and g: "gateway \<noteq> address" "case (gateway, address) of
           (V4 g, V4 a) \<Rightarrow> bits \<le> 32 \<and> g AND netmask bits = a AND netmask bits
         | (V6 g, V6 a) \<Rightarrow> bits \<le> 128 \<and> g AND netmask bits = a AND netmask bits
         | _ \<Rightarrow> False"
    by (auto simp: gateway_in_cidr_def split: option.split_asm prod.split_asm)
  have "cidr text = (if (if is_ipv4 address then 32 else 128) < bits then None else Some (address, bits))"
    using t by (simp add: cidr_def)
  then show ?thesis
    using g that by (cases gateway; cases address) auto
qed

text \<open>\<open>on_link st gateway dev\<close>: an address of an interface that is no Management NIC, or of
  a tunnel, of the device if one is named, has the next hop in its network.\<close>

definition in_network :: "ip_addr \<Rightarrow> string \<Rightarrow> bool" where
  "in_network gateway text \<longleftrightarrow>
     (\<exists>address bits. cidr text = Some (address, bits) \<and> gateway \<noteq> address
        \<and> (case (gateway, address) of
             (V4 g, V4 a) \<Rightarrow> drop_bit (32 - bits) g = drop_bit (32 - bits) a
           | (V6 g, V6 a) \<Rightarrow> drop_bit (128 - bits) g = drop_bit (128 - bits) a
           | _ \<Rightarrow> False))"

lemma gateway_in_network: "gateway_in_cidr gateway text \<Longrightarrow> in_network gateway text"
  by (erule gateway_in_cidr_cases) (auto simp: in_network_def same_network_iff)

lemma validate_next_hop_ok:
  "validate_next_hop st r destination = Inr () \<longleftrightarrow>
     (\<exists>gateway. parse_ip (via r) = Some gateway \<and> is_ipv4 destination = is_ipv4 gateway
        \<and> \<not> ip_unspecified gateway \<and> \<not> ip_multicast gateway
        \<and> ((case gateway of V6 a \<Rightarrow> v6_link_local a | V4 _ \<Rightarrow> False) \<longrightarrow> route_dev r \<noteq> None)
        \<and> (\<forall>dev. route_dev r = Some dev \<longrightarrow> known_device st dev)
        \<and> \<not> management_gateway st gateway (route_dev r)
        \<and> route_next_hop_on_link st gateway (route_dev r))"
  by (auto simp: validate_next_hop_def ok_simps split: option.splits)

text \<open>
  Every static route of a validated Desired state has a canonical destination prefix
  (no host bits) of its own, distinct from the other routes', and a next hop of the same
  family that is neither unspecified nor multicast, is not reachable over a Management NIC,
  and lies in the network of a configured address of another interface or of a tunnel (of
  the named device, when the route names one) without being that address itself.
\<close>

theorem validate_routes_sound:
  assumes "validate b64 st = Inr ()"
  shows "\<exists>keys. map route_destination (routes st) = map Inr keys \<and> distinct keys
    \<and> (\<forall>(r, k) \<in> set (zip (routes st) keys). canonical (fst k) (snd k)
        \<and> (\<exists>gateway. parse_ip (via r) = Some gateway \<and> is_ipv4 (fst k) = is_ipv4 gateway
             \<and> \<not> ip_unspecified gateway \<and> \<not> ip_multicast gateway
             \<and> (\<forall>i \<in> set (interfaces st). has_role ''mgmt'' i \<longrightarrow> route_dev r \<noteq> Some (iface_name i)
                  \<and> (\<forall>a \<in> set (iface_addresses i). \<not> gateway_in_cidr gateway a))
             \<and> ((\<exists>i \<in> set (interfaces st). \<not> has_role ''mgmt'' i \<and> route_dev r \<in> {None, Some (iface_name i)}
                    \<and> (\<exists>a \<in> set (on_link_addresses st i). in_network gateway a))
                \<or> (\<exists>w \<in> set (wireguard st). route_dev r \<in> {None, Some (wg_name w)}
                    \<and> (\<exists>a \<in> set (wg_addresses w). in_network gateway a)))))"
proof -
  from assms obtain keys where keys: "map route_destination (routes st) = map Inr keys" "distinct keys"
    and each: "\<forall>(r, k) \<in> set (zip (routes st) keys).
        canonical (fst k) (snd k) \<and> validate_next_hop st r (fst k) = Inr ()"
    unfolding validate_ok validate_routes_ok by auto
  have hop: "\<exists>gateway. parse_ip (via r) = Some gateway \<and> is_ipv4 d = is_ipv4 gateway
      \<and> \<not> ip_unspecified gateway \<and> \<not> ip_multicast gateway
      \<and> (\<forall>i \<in> set (interfaces st). has_role ''mgmt'' i \<longrightarrow> route_dev r \<noteq> Some (iface_name i)
           \<and> (\<forall>a \<in> set (iface_addresses i). \<not> gateway_in_cidr gateway a))
      \<and> ((\<exists>i \<in> set (interfaces st). \<not> has_role ''mgmt'' i \<and> route_dev r \<in> {None, Some (iface_name i)}
             \<and> (\<exists>a \<in> set (on_link_addresses st i). in_network gateway a))
         \<or> (\<exists>w \<in> set (wireguard st). route_dev r \<in> {None, Some (wg_name w)}
             \<and> (\<exists>a \<in> set (wg_addresses w). in_network gateway a)))"
    if "validate_next_hop st r d = Inr ()" for r d
  proof -
    from that obtain gateway where g: "parse_ip (via r) = Some gateway" "is_ipv4 d = is_ipv4 gateway"
        "\<not> ip_unspecified gateway" "\<not> ip_multicast gateway"
      and m: "\<not> management_gateway st gateway (route_dev r)"
      and l: "route_next_hop_on_link st gateway (route_dev r)"
      unfolding validate_next_hop_ok by auto
    from l have "(\<exists>i \<in> set (interfaces st). \<not> has_role ''mgmt'' i \<and> route_dev r \<in> {None, Some (iface_name i)}
             \<and> (\<exists>a \<in> set (on_link_addresses st i). in_network gateway a))
         \<or> (\<exists>w \<in> set (wireguard st). route_dev r \<in> {None, Some (wg_name w)}
             \<and> (\<exists>a \<in> set (wg_addresses w). in_network gateway a))"
      unfolding route_next_hop_on_link_def using gateway_in_network by blast
    with g m show ?thesis unfolding management_gateway_def by blast
  qed
  show ?thesis
    using keys each hop by (intro exI [of _ keys]) blast
qed

section \<open>WAN input and UI exposure of an accepted state\<close>

lemma validate_interface_names:
  "validate b64 st = Inr () \<Longrightarrow> \<forall>i \<in> set (interfaces st). interface_name (iface_name i)"
  by (simp add: ok_simps interface_values_ok)


lemma parse_ip_of_v4: "parse_ipv4 s = Some a \<Longrightarrow> parse_ip s = Some (V4 a)"
  by (auto simp: parse_ipv4_def parse_ip_def read_ip_def parse_with_def
      split: option.splits if_splits list.splits)

lemma read_ipv4_not_ipv6: "read_ipv4 s = Some p \<Longrightarrow> read_ipv6 s = None"
  by (cases p) (simp add: read_ipv6_def read_groups.simps [of 0] read_sep_def)

lemma parse_ip_of_v6: "parse_ipv6 s = Some a \<Longrightarrow> parse_ip s = Some (V6 a)"
  using read_ipv4_not_ipv6 [of s]
  by (auto simp: parse_ipv6_def parse_ip_def read_ip_def parse_with_def
      split: option.splits list.splits)

lemma expose_allowed_ip:
  assumes "expose_allowed ip"
  shows "\<exists>address. parse_ip ip = Some address \<and> \<not> ip_unspecified address \<and> \<not> ip_multicast address
      \<and> address \<noteq> V6 1 \<and> (\<forall>v4. address = V4 v4 \<longrightarrow> \<not> v4_loopback v4)"
  using assms
  by (auto simp: expose_allowed_def parse_ip_of_v4 parse_ip_of_v6 split: option.splits)

text \<open>
  C21. A validated Desired state with distinct interface names exposes the UI on exactly the
  interfaces its \<open>ui_exposure\<close> names, never on a WAN, and the addresses DNATed to the UI on
  each are distinct, parse as IP addresses of that interface and are neither loopback,
  unspecified nor multicast.
\<close>

theorem ui_exposed_never_on_wan:
  assumes "validate b64 st = Inr ()" and "distinct (map iface_name (interfaces st))"
  shows "map fst (ui_exposure_of st) = ui_exposure st
    \<and> set (ui_exposure st) \<inter> set (role_names ''wan'' st) = {}
    \<and> (\<forall>(name, addrs) \<in> set (ui_exposure_of st). distinct (expose_ips addrs)
        \<and> (\<forall>ip \<in> set (expose_ips addrs).
             (\<exists>a \<in> set addrs. ip = hd (split_on (CHR ''/'') a))
             \<and> (\<exists>address. parse_ip ip = Some address \<and> \<not> ip_unspecified address \<and> \<not> ip_multicast address
                  \<and> address \<noteq> V6 1 \<and> (\<forall>v4. address = V4 v4 \<longrightarrow> \<not> v4_loopback v4))))"
proof -
  let ?find = "\<lambda>name. List.find (\<lambda>i. iface_name i = name) (interfaces st)"
  have exposure: "\<forall>name \<in> set (ui_exposure st). \<exists>i. ?find name = Some i \<and> \<not> has_role ''wan'' i"
    using assms(1) by (auto simp: validate_ok validate_exposure_ok)
  have find: "List.find (\<lambda>i. iface_name i = name \<and> role i \<noteq> Some ''wan'') is = Some i"
    if "List.find (\<lambda>i. iface_name i = name) is = Some i" "\<not> has_role ''wan'' i" for name i "is"
    using that by (induction "is") (auto split: if_splits)
  have names: "map fst (map (\<lambda>i. (iface_name i, iface_addresses i))
      (List.map_filter (\<lambda>name. List.find (\<lambda>i. iface_name i = name \<and> role i \<noteq> Some ''wan'') (interfaces st)) ns)) = ns"
    if "\<forall>name \<in> set ns. \<exists>i. ?find name = Some i \<and> \<not> has_role ''wan'' i" for ns
    using that
  proof (induction ns)
    case (Cons n ns)
    then obtain i where "?find n = Some i" "\<not> has_role ''wan'' i" by auto
    moreover from this have "iface_name i = n" by (auto dest: find_Some_set)
    ultimately show ?case using Cons find [of n "interfaces st" i] by (simp add: List.map_filter_simps)
  qed (simp add: List.map_filter_simps)
  have wan: "set (ui_exposure st) \<inter> set (role_names ''wan'' st) = {}"
  proof -
    have False if n: "n \<in> set (ui_exposure st)" "n \<in> set (role_names ''wan'' st)" for n
    proof -
      obtain i where i: "?find n = Some i" "\<not> has_role ''wan'' i" using exposure n by blast
      obtain j where "j \<in> set (interfaces st)" "has_role ''wan'' j" "iface_name j = n"
        using n(2) by (auto simp: role_names_iff)
      then show False
        using i find_Some_set [OF i(1)] distinct_names_role [OF assms(2)] by metis
    qed
    then show ?thesis by blast
  qed
  have ips: "distinct (expose_ips addrs) \<and> (\<forall>ip \<in> set (expose_ips addrs).
        (\<exists>a \<in> set addrs. ip = hd (split_on (CHR ''/'') a)) \<and> expose_allowed ip)" for addrs
    using expose_ips_from_props [of "[]" addrs] by (auto simp: expose_ips_def)
  have allowed: "\<exists>address. parse_ip ip = Some address \<and> \<not> ip_unspecified address \<and> \<not> ip_multicast address
      \<and> address \<noteq> V6 1 \<and> (\<forall>v4. address = V4 v4 \<longrightarrow> \<not> v4_loopback v4)" if "expose_allowed ip" for ip
    using that expose_allowed_ip by blast
  show ?thesis
    using names [OF exposure] wan ips allowed by (auto simp: ui_exposure_of_def)
qed

section \<open>A sample state, and what validation does not refuse\<close>

definition plain_iface :: "string \<Rightarrow> string \<Rightarrow> string list \<Rightarrow> iface" where
  "plain_iface name r addrs =
     \<lparr> iface_name = name, placement = ''fwd'', role = Some r, iface_addresses = addrs, vlan = None,
       parent = None, dhcp = False, ipv6 = None, request_pd = False \<rparr>"

definition sample_state :: desired_state where
  "sample_state =
     default_desired\<lparr> interfaces := [plain_iface ''wan0'' ''wan'' [''203.0.113.2/24''],
                                     plain_iface ''lan0'' ''lan'' [''192.168.1.1/24''],
                                     plain_iface ''oob0'' ''mgmt'' [''10.9.0.1/24'']],
       routes := [\<lparr> route_to = ''10.20.0.0/16'', via = ''192.168.1.254'', route_dev = Some ''lan0'' \<rparr>],
       nft_extra := [''iifname oob0 tcp dport 22 accept''],
       ui_exposure := [''lan0'', ''oob0''] \<rparr>"

lemma sample_validates: "validate (\<lambda>_. None) sample_state = Inr ()"
  by code_simp

text \<open>Nothing reads a rule's quoted strings: a rule that accepts SSH from every interface
  passes as one that names a LAN.\<close>

theorem quoted_iifname_passes_as_lan_accept:
  "validate (\<lambda>_. None)
     (sample_state\<lparr> nft_extra := [''tcp dport 22 log prefix '' @ quoted ''a iifname lan0 b'' @ '' accept''] \<rparr>)
   = Inr ()"
  by code_simp

text \<open>Nothing refuses two interfaces of one name: the state below validates although its WAN
  input rule and its exposed interface are those of a WAN's name.\<close>

definition shared_name_state :: desired_state where
  "shared_name_state =
     sample_state\<lparr> interfaces :=
       [(plain_iface ''eth.7'' ''lan'' [''192.168.1.1/24''])\<lparr> vlan := Some 7, parent := Some ''eth0'' \<rparr>,
        (plain_iface ''eth.7'' ''wan'' [''203.0.113.2/24''])\<lparr> vlan := Some 7, parent := Some ''eth1'' \<rparr>],
       routes := [], nft_extra := [''iifname eth.7 tcp dport 22 accept''], ui_exposure := [''eth.7''] \<rparr>"

theorem shared_name_admits_wan_accept:
  "validate (\<lambda>_. None) shared_name_state = Inr ()
   \<and> ''eth.7'' \<in> set (role_names ''wan'' shared_name_state)
   \<and> policy_iifname ''iifname eth.7 tcp dport 22 accept'' = Some ''eth.7''
   \<and> map fst (ui_exposure_of shared_name_state) = [''eth.7'']"
  by code_simp

theorem first_v4_host_is_network_address:
  "first_v4_host ''10.0.0.128/25'' = Some ''10.0.0.128''
   \<and> addressing (Some ''10.0.0.128/25'') (Some ''10.0.0.130-10.0.0.200'') None = Inr ()"
  by code_simp

section \<open>Instances\<close>

theorem validate_topology_safe_witness:
  "validate (\<lambda>_. None) sample_state = Inr ()
   \<and> (\<exists>w \<in> set (interfaces sample_state). has_role ''wan'' w)
   \<and> set (ui_exposure sample_state) \<subseteq> iface_name ` set (interfaces sample_state)"
  using validate_topology_safe [OF sample_validates] sample_validates by blast

theorem validate_routes_sound_witness:
  "\<exists>keys. map route_destination (routes sample_state) = map Inr keys \<and> distinct keys"
  using validate_routes_sound [OF sample_validates] by blast

theorem ui_exposed_never_on_wan_witness:
  "map fst (ui_exposure_of sample_state) = ui_exposure sample_state
   \<and> set (ui_exposure sample_state) \<inter> set (role_names ''wan'' sample_state) = {}"
proof -
  have "distinct (map iface_name (interfaces sample_state))" by code_simp
  from ui_exposed_never_on_wan [OF sample_validates this] show ?thesis by blast
qed

text \<open>A reading of rules by their interface word alone, for a packet on \<open>wan0\<close> that belongs
  to an established connection.\<close>

definition sample_applies :: "string \<Rightarrow> bool" where
  "sample_applies r \<longleftrightarrow>
     policy_iifname r = Some ''wan0'' \<and> last_word r \<in> {''accept'', ''drop''} \<and> CHR ''e'' \<in> set r
     \<or> r = ''iifname '' @ quoted ''wan0'' @ '' drop''"


end
