(* ===== verification/Forwarding.thy ===== *)
theory Forwarding
  imports Validate
begin

text \<open>
  The forward chain netd writes (\<open>nft_rules_with_recovery_guard\<close> of \<open>src/netd.rs\<close>): what it
  accepts, and that the recovery guard closes it.
\<close>

section \<open>Verdicts of the rules\<close>

lemma last_word_suffix:
  assumes "is_ascii a" and "is_ascii b" and "split_whitespace b \<noteq> []"
  shows "last_word (a @ CHR '' '' # b) = last_word b"
  using assms split_whitespace_space [OF assms(1,2)] by (simp add: last_word_def Let_def)

lemma verdict_words: "last_word ''accept'' = ''accept''" "last_word ''drop'' = ''drop''"
  "split_whitespace ''accept'' \<noteq> []" "split_whitespace ''drop'' \<noteq> []"
  by code_simp+

lemma ascii_quoted: "interface_name w \<Longrightarrow> is_ascii (quoted w)"
  by (rule is_ascii_quoted [OF interface_name_plain])

lemma accept_suffix: "is_ascii a \<Longrightarrow> last_word (a @ '' tcp dport 443 accept'') = ''accept''"
  using last_word_suffix [of "a @ '' tcp dport 443''" "''accept''"] verdict_words by (simp add: byte_def)

lemma chain_accepts:
  assumes "\<forall>r \<in> set xs. last_word r = ''accept''"
  shows "chain_verdict applies d (xs @ ys) = ''accept'' \<longleftrightarrow>
    (\<exists>r \<in> set xs. applies r) \<or> chain_verdict applies d ys = ''accept''"
  using assms by (induction xs) auto

lemma chain_drops:
  assumes "\<forall>r \<in> set xs. last_word r = ''drop''"
  shows "chain_verdict applies d (xs @ ys) = ''accept'' \<longleftrightarrow>
    (\<forall>r \<in> set xs. \<not> applies r) \<and> chain_verdict applies d ys = ''accept''"
  using assms by (induction xs) auto

lemma set_map_filter: "set (List.map_filter f xs) = {y. \<exists>x \<in> set xs. f x = Some y}"
  by (induction xs) (auto simp: List.map_filter_simps split: option.splits)

lemma ui_exposure_interface:
  "n \<in> fst ` set (ui_exposure_of st) \<Longrightarrow> \<exists>i \<in> set (interfaces st). iface_name i = n"
  by (auto simp: ui_exposure_of_def set_map_filter dest!: find_Some_set)

section \<open>The property\<close>

definition ui_forward_rule :: "string \<Rightarrow> string" where
  "ui_forward_rule name =
     ''iifname '' @ quoted name @ '' oifname '' @ quoted FWD_MGMT_VETH @ '' tcp dport 443 accept''"

definition from_rule :: "string \<Rightarrow> string \<Rightarrow> string" where
  "from_rule name verdict = ''iifname '' @ quoted name @ CHR '' '' # verdict"

definition to_rule :: "string \<Rightarrow> string \<Rightarrow> string" where
  "to_rule name verdict = ''oifname '' @ quoted name @ CHR '' '' # verdict"

lemma forward_rules_rules:
  "forward_rules st guard =
     (if guard then [''drop''] else [])
     @ [''ct state established,related accept'', from_rule FWD_MGMT_VETH ''accept'']
     @ map (ui_forward_rule \<circ> fst) (ui_exposure_of st)
     @ concat (map (\<lambda>m. [from_rule m ''drop'', to_rule m ''drop'']) (role_names ''mgmt'' st))
     @ map (\<lambda>wan. to_rule wan ''accept'') (role_names ''wan'' st)"
  by (simp add: forward_rules_def from_rule_def to_rule_def ui_forward_rule_def comp_def split_def)

lemma rule_verdicts:
  assumes "interface_name n" and "v \<in> {''accept'', ''drop''}"
  shows "last_word (from_rule n v) = v" and "last_word (to_rule n v) = v"
    and "last_word (ui_forward_rule n) = ''accept''"
proof -
  have q: "is_ascii (quoted n)" "is_ascii (quoted FWD_MGMT_VETH)" using ascii_quoted [OF assms(1)] by (auto, code_simp)
  have "is_ascii (''iifname '' @ quoted n)" "is_ascii (''oifname '' @ quoted n)"
    using q by (simp_all add: byte_def)
  moreover have "is_ascii v" "split_whitespace v \<noteq> []" "last_word v = v"
    using assms(2) verdict_words by (auto simp: byte_def)
  ultimately show "last_word (from_rule n v) = v" and "last_word (to_rule n v) = v"
    using last_word_suffix [of "''iifname '' @ quoted n" v] last_word_suffix [of "''oifname '' @ quoted n" v]
    by (simp_all add: from_rule_def to_rule_def)
  show "last_word (ui_forward_rule n) = ''accept''"
    using accept_suffix [of "''iifname '' @ quoted n @ '' oifname '' @ quoted FWD_MGMT_VETH"] q
    by (simp add: ui_forward_rule_def byte_def)
qed



end
