(* ===== verification/Records.thy ===== *)
theory Records
  imports Desired
begin

text \<open>
  The records the daemons keep in files and exchange as JSON (\<open>src/netd.rs\<close>,
  \<open>src/identity.rs\<close>, \<open>src/update.rs\<close>, \<open>src/host_update.rs\<close>), and the codecs between them and
  text. The codecs are serde's (\<open>serde_json\<close>, \<open>toml\<close>, the derived implementations) and stay
  functions of the record \<open>codecs\<close>; \<open>lawful\<close> is what the components rely on: what one writes
  it reads back.
\<close>

section \<open>JSON values\<close>

text \<open>A JSON number is a natural number here: the sources read and write no other.\<close>

datatype json =
    JNull
  | JBool bool
  | JNum nat
  | JStr string
  | JArr "json list"
  | JObj "(string \<times> json) list"

text \<open>\<open>Value::get\<close>, \<open>as_str\<close>, \<open>as_u64\<close>, \<open>as_array\<close>; indexing gives \<open>Null\<close> for a missing key.\<close>

definition jget :: "json \<Rightarrow> string \<Rightarrow> json option" where
  "jget v key = (case v of JObj kvs \<Rightarrow> map_of kvs key | _ \<Rightarrow> None)"

definition jindex :: "json \<Rightarrow> string \<Rightarrow> json" where
  "jindex v key = (case jget v key of Some x \<Rightarrow> x | None \<Rightarrow> JNull)"

definition jstr :: "json \<Rightarrow> string option" where
  "jstr v = (case v of JStr s \<Rightarrow> Some s | _ \<Rightarrow> None)"

definition jnum :: "json \<Rightarrow> u64 option" where
  "jnum v = (case v of JNum n \<Rightarrow> if n < 2 ^ 64 then Some (of_nat n) else None | _ \<Rightarrow> None)"

definition jarr :: "json \<Rightarrow> json list option" where
  "jarr v = (case v of JArr xs \<Rightarrow> Some xs | _ \<Rightarrow> None)"

definition jopt :: "('a \<Rightarrow> json) \<Rightarrow> 'a option \<Rightarrow> json" where
  "jopt f x = (case x of None \<Rightarrow> JNull | Some a \<Rightarrow> f a)"

definition jword :: "u64 \<Rightarrow> json" where
  "jword n = JNum (unat n)"

section \<open>Identities\<close>

record principal =
  prin_source :: string
  prin_subject :: string
  prin_username :: string

section \<open>The apply journal\<close>

datatype apply_phase = Applying | Pending_confirmation | Accepted

datatype apply_intent = Ordinary | Recovery_restore

record apply_operation =
  phase :: apply_phase
  accepted :: desired_state
  previous_accepted :: "string option"
  previous_attribution :: "string option"
  proposed :: "desired_state option"
  confirmation_id :: "string option"
  op_applying :: "principal option"
  op_draft_version :: "string option"
  deadline_boot_ns :: "u64 option"
  expires_at_unix_ms :: "u64 option"

record draft_receipt =
  owner :: principal
  version :: string
  accepted_revision :: u64

record apply_attribution =
  attr_revision :: u64
  attr_applying :: "principal option"
  attr_confirming :: "principal option"
  attr_draft_version :: "string option"
  draft_receipts :: "draft_receipt list"

section \<open>First boot and Host update\<close>

record first_boot_opt =
  opt_nic :: string
  opt_mode :: string
  opt_cidr :: "string option"

record bootstrap_attempt =
  vlan_links :: "string list"

datatype network_restoration =
    Restored u64
  | Unchanged u64
  | Failed string

section \<open>Codecs\<close>

record codecs =
  base64 :: "string \<Rightarrow> string option"
  json_of_text :: "string \<Rightarrow> json res"
  toml_of_desired :: "desired_state \<Rightarrow> string res"
  desired_of_toml :: "string \<Rightarrow> desired_state res"
  json_of_desired :: "desired_state \<Rightarrow> json res"
  desired_of_json :: "json \<Rightarrow> desired_state res"
  text_of_operation :: "apply_operation \<Rightarrow> string res"
  operation_of_text :: "string \<Rightarrow> apply_operation res"
  text_of_attribution :: "apply_attribution \<Rightarrow> string res"
  attribution_of_text :: "string \<Rightarrow> apply_attribution res"
  principal_of_json :: "json \<Rightarrow> principal res"
  json_of_principal :: "principal \<Rightarrow> json"
  text_of_opt :: "first_boot_opt \<Rightarrow> string res"
  opt_of_text :: "string \<Rightarrow> first_boot_opt res"
  text_of_attempt :: "bootstrap_attempt \<Rightarrow> string res"
  attempt_of_text :: "string \<Rightarrow> bootstrap_attempt res"
  text_of_restoration :: "network_restoration \<Rightarrow> string res"

text \<open>What serde writes it reads back, and TOML is text.\<close>

definition lawful :: "codecs \<Rightarrow> bool" where
  "lawful c \<longleftrightarrow>
     (\<forall>st t. toml_of_desired c st = Inr t \<longrightarrow> desired_of_toml c t = Inr st)
     \<and> (\<forall>st v. json_of_desired c st = Inr v \<longrightarrow> desired_of_json c v = Inr st)
     \<and> (\<forall>op t. text_of_operation c op = Inr t \<longrightarrow> operation_of_text c t = Inr op)
     \<and> (\<forall>a t. text_of_attribution c a = Inr t \<longrightarrow> attribution_of_text c t = Inr a)"

lemma lawful_toml: "lawful c \<Longrightarrow> toml_of_desired c st = Inr t \<Longrightarrow> desired_of_toml c t = Inr st"
  by (simp add: lawful_def)

lemma lawful_operation: "lawful c \<Longrightarrow> text_of_operation c op = Inr t \<Longrightarrow> operation_of_text c t = Inr op"
  by (simp add: lawful_def)

lemma lawful_attribution:
  "lawful c \<Longrightarrow> text_of_attribution c a = Inr t \<Longrightarrow> attribution_of_text c t = Inr a"
  by (simp add: lawful_def)

end
