(* ===== verification/World.thy ===== *)
theory World
  imports Records "HOL-Library.State_Monad"
begin

text \<open>
  What the daemons act on. A \<open>world\<close> holds the files they keep under \<open>/var/lib/fwos\<close>, netd's
  one global flag, and the rest of the machine \<open>outside\<close>, which only the environment
  changes: every system call that can fail, run a program, read a clock, random bytes or a
  file of another program is a field of the record \<open>env\<close>, an arbitrary function of the
  outside. \<open>trail\<close> is every file map there has been, latest first, so that a power loss at
  any moment finds one of them. \<open>calls\<close> is every program run, latest first.

  The operations are in HOL-Library's state monad with \<open>res\<close> as value; \<open>tryE\<close> is \<open>?\<close>.
\<close>

section \<open>The machine\<close>

type_synonym files = "string \<Rightarrow> string option"

datatype io_op =
    Read string
  | Make_dir string
  | Create string
  | Persist string
  | Rename string string
  | Sync_dir string
  | Unlink string
  | Overwrite string
  | Chmod string

text \<open>A program fails to start, to take its input or to be waited for, or it exits; its output
  is the text of \<open>String::from_utf8_lossy\<close>.\<close>

datatype exec_result =
    Spawn_failed string
  | Input_failed string
  | Wait_failed string
  | Exited (ok: bool) (status_text: string) (stdout: string) (stderr: string)

text \<open>\<open>io_fault\<close> decides whether an operation on a file fails, with which error, and how many
  bytes of a write got through before. \<open>foreign_read\<close> tells a missing file (\<open>Inr None\<close>) from an
  error.\<close>

record 'k env =
  codec :: codecs
  io_fault :: "io_op \<Rightarrow> 'k \<Rightarrow> (string \<times> nat) option \<times> 'k"
  exec :: "string list \<Rightarrow> string \<Rightarrow> 'k \<Rightarrow> exec_result \<times> 'k"
  urandom :: "'k \<Rightarrow> u8 list option \<times> 'k"
  boottime_clock :: "'k \<Rightarrow> (u64 \<times> u64) res \<times> 'k"
  unix_ms :: "'k \<Rightarrow> nat \<times> 'k"
  deadline_passed :: "'k \<Rightarrow> bool \<times> 'k"
  foreign_read :: "string \<Rightarrow> 'k \<Rightarrow> string option res \<times> 'k"
  foreign_write :: "string \<Rightarrow> string \<Rightarrow> 'k \<Rightarrow> unit res \<times> 'k"
  foreign_remove :: "string \<Rightarrow> 'k \<Rightarrow> unit res \<times> 'k"
  foreign_dir :: "string \<Rightarrow> 'k \<Rightarrow> string list res \<times> 'k"

record 'k world =
  files :: files
  recovery_required :: bool
  trail :: "files list"
  calls :: "(string list \<times> string \<times> exec_result) list"
  outside :: 'k

type_synonym ('k, 'a) io = "('k world, 'a res) state"

section \<open>Sequencing\<close>

abbreviation ret :: "'a \<Rightarrow> ('s, 'a) state" where
  "ret \<equiv> State_Monad.return"

definition tryE :: "('s, 'a res) state \<Rightarrow> ('a \<Rightarrow> ('s, 'b res) state) \<Rightarrow> ('s, 'b res) state" where
  "tryE m f = do { r \<leftarrow> m; (case r of Inl e \<Rightarrow> ret (Inl e) | Inr a \<Rightarrow> f a) }"

abbreviation seqE :: "('s, unit res) state \<Rightarrow> ('s, 'b res) state \<Rightarrow> ('s, 'b res) state" where
  "seqE m k \<equiv> tryE m (\<lambda>_. k)"

abbreviation okE :: "'a \<Rightarrow> ('s, 'a res) state" where
  "okE a \<equiv> ret (Inr a)"

abbreviation errE :: "string \<Rightarrow> ('s, 'a res) state" where
  "errE e \<equiv> ret (Inl e)"

abbreviation liftE :: "'a res \<Rightarrow> ('s, 'a res) state" where
  "liftE r \<equiv> ret r"

text \<open>\<open>map_err\<close>\<close>

definition map_err :: "(string \<Rightarrow> string) \<Rightarrow> ('s, 'a res) state \<Rightarrow> ('s, 'a res) state" where
  "map_err g m = do { r \<leftarrow> m; ret (case r of Inl e \<Rightarrow> Inl (g e) | Inr a \<Rightarrow> Inr a) }"

text \<open>A loop that stops at the first error, and one over everything that goes on.\<close>

fun forE :: "('a \<Rightarrow> ('s, unit res) state) \<Rightarrow> 'a list \<Rightarrow> ('s, unit res) state" where
  "forE f [] = okE ()"
| "forE f (x # xs) = seqE (f x) (forE f xs)"

fun collect :: "('a \<Rightarrow> ('s, 'b list) state) \<Rightarrow> 'a list \<Rightarrow> ('s, 'b list) state" where
  "collect f [] = ret []"
| "collect f (x # xs) = do { ys \<leftarrow> f x; zs \<leftarrow> collect f xs; ret (ys @ zs) }"

fun collectE :: "('a \<Rightarrow> ('s, 'b list res) state) \<Rightarrow> 'a list \<Rightarrow> ('s, 'b list res) state" where
  "collectE f [] = okE []"
| "collectE f (x # xs) = tryE (f x) (\<lambda>ys. tryE (collectE f xs) (\<lambda>zs. okE (ys @ zs)))"

definition gets :: "('s \<Rightarrow> 'a) \<Rightarrow> ('s, 'a) state" where
  "gets f = do { s \<leftarrow> State_Monad.get; ret (f s) }"

definition asks :: "('k \<Rightarrow> 'a \<times> 'k) \<Rightarrow> ('k world, 'a) state" where
  "asks f = State (\<lambda>w. case f (outside w) of (a, k) \<Rightarrow> (a, w\<lparr>outside := k\<rparr>))"

section \<open>Files\<close>

definition set_files :: "files \<Rightarrow> ('k world, unit) state" where
  "set_files fs = State (\<lambda>w. ((), w\<lparr>files := fs, trail := fs # trail w\<rparr>))"

definition set_file :: "string \<Rightarrow> string option \<Rightarrow> ('k world, unit) state" where
  "set_file path v = do { fs \<leftarrow> gets files; set_files (fs(path := v)) }"

definition file_exists :: "string \<Rightarrow> ('k world, bool) state" where
  "file_exists path = gets (\<lambda>w. files w path \<noteq> None)"

definition fault :: "'k env \<Rightarrow> io_op \<Rightarrow> ('k world, (string \<times> nat) option) state" where
  "fault E op = asks (io_fault E op)"

text \<open>\<open>fs::read\<close>, a missing file being \<open>Inr None\<close>.\<close>

definition read_file :: "'k env \<Rightarrow> string \<Rightarrow> ('k, string option) io" where
  "read_file E path = do {
     e \<leftarrow> fault E (Read path);
     (case e of
        Some (err, _) \<Rightarrow> errE err
      | None \<Rightarrow> do { fs \<leftarrow> gets files; okE (fs path) }) }"

text \<open>\<open>fs::read_to_string\<close>: the bytes have to be UTF-8.\<close>

fun utf8_seq :: "nat list \<Rightarrow> nat" where
  "utf8_seq (a # b # c # d # _) =
     (if a < 0x80 then 1
      else if 0xC2 \<le> a \<and> a < 0xE0 \<and> 0x80 \<le> b \<and> b < 0xC0 then 2
      else if 0xE0 \<le> a \<and> a < 0xF0 \<and> (if a = 0xE0 then 0xA0 else 0x80) \<le> b
           \<and> b < (if a = 0xED then 0xA0 else 0xC0) \<and> 0x80 \<le> c \<and> c < 0xC0 then 3
      else if 0xF0 \<le> a \<and> a < 0xF5 \<and> (if a = 0xF0 then 0x90 else 0x80) \<le> b
           \<and> b < (if a = 0xF4 then 0x90 else 0xC0) \<and> 0x80 \<le> c \<and> c < 0xC0 \<and> 0x80 \<le> d \<and> d < 0xC0 then 4
      else 0)"
| "utf8_seq _ = 0"

function utf8_valid :: "nat list \<Rightarrow> bool" where
  "utf8_valid bs =
     (if bs = [] then True
      else (let n = utf8_seq (bs @ [0, 0, 0]) in
            if n = 0 then False else utf8_valid (drop n bs)))"
  by pat_completeness auto
termination
  by (relation "measure length") auto

definition is_utf8 :: "string \<Rightarrow> bool" where
  "is_utf8 s = utf8_valid (map byte s)"

definition read_text :: "'k env \<Rightarrow> string \<Rightarrow> ('k, string option) io" where
  "read_text E path = tryE (read_file E path) (\<lambda>v.
     case v of
       None \<Rightarrow> okE None
     | Some s \<Rightarrow> if is_utf8 s then okE (Some s) else errE ''stream did not contain valid UTF-8'')"

text \<open>\<open>fs::write\<close>: the file is truncated, then written; a failure can leave a part.\<close>

definition overwrite :: "'k env \<Rightarrow> string \<Rightarrow> string \<Rightarrow> ('k, unit) io" where
  "overwrite E path bytes = do {
     c \<leftarrow> fault E (Create path);
     (case c of
        Some (err, _) \<Rightarrow> errE err
      | None \<Rightarrow> do {
          set_file path (Some []);
          e \<leftarrow> fault E (Overwrite path);
          (case e of
             Some (err, n) \<Rightarrow> do { set_file path (Some (take n bytes)); errE err }
           | None \<Rightarrow> do { set_file path (Some bytes); okE () }) }) }"

definition simple_op :: "'k env \<Rightarrow> io_op \<Rightarrow> ('k, unit) io" where
  "simple_op E op = do { e \<leftarrow> fault E op; ret (case e of Some (err, _) \<Rightarrow> Inl err | None \<Rightarrow> Inr ()) }"

text \<open>\<open>OpenOptions::create_new\<close>, \<open>write_all\<close> and \<open>sync_all\<close>, \<open>rename\<close>, \<open>remove_file\<close>.\<close>

definition create_new :: "'k env \<Rightarrow> string \<Rightarrow> ('k, unit) io" where
  "create_new E path = do {
     present \<leftarrow> file_exists path;
     if present then errE ''File exists''
     else tryE (simple_op E (Create path)) (\<lambda>_. do { set_file path (Some []); okE () }) }"

definition write_sync :: "'k env \<Rightarrow> string \<Rightarrow> string \<Rightarrow> ('k, unit) io" where
  "write_sync E path bytes = do {
     e \<leftarrow> fault E (Persist path);
     (case e of
        Some (err, n) \<Rightarrow> do { set_file path (Some (take n bytes)); errE err }
      | None \<Rightarrow> do { set_file path (Some bytes); okE () }) }"

definition rename_file :: "'k env \<Rightarrow> string \<Rightarrow> string \<Rightarrow> ('k, unit) io" where
  "rename_file E old new =
     tryE (simple_op E (Rename old new)) (\<lambda>_. do {
       fs \<leftarrow> gets files; set_files (fs(old := None, new := fs old)); okE () })"

text \<open>\<open>Inr False\<close> when there was no such file.\<close>

definition unlink_file :: "'k env \<Rightarrow> string \<Rightarrow> ('k, bool) io" where
  "unlink_file E path = do {
     present \<leftarrow> file_exists path;
     if present
     then tryE (simple_op E (Unlink path)) (\<lambda>_. do { set_file path None; okE True })
     else okE False }"

section \<open>Random tokens, programs, clocks\<close>

definition hex_byte :: "u8 \<Rightarrow> string" where
  "hex_byte b =
     (let d = (\<lambda>n. ''0123456789abcdef'' ! n); v = unat b in [d (v div 16), d (v mod 16)])"

definition random_token :: "'k env \<Rightarrow> ('k, string) io" where
  "random_token E = do {
     r \<leftarrow> asks (urandom E);
     (case r of
        Some bytes \<Rightarrow> okE (concat (map hex_byte (take 32 bytes)))
      | None \<Rightarrow> errE ''secure randomness unavailable'') }"

definition run_program :: "'k env \<Rightarrow> string list \<Rightarrow> string \<Rightarrow> ('k world, exec_result) state" where
  "run_program E argv input = do {
     r \<leftarrow> asks (exec E argv input);
     State (\<lambda>w. ((), w\<lparr>calls := (argv, input, r) # calls w\<rparr>));
     ret r }"

text \<open>\<open>boot_time_ns\<close>: seconds and nanoseconds, saturating.\<close>

definition saturating_add :: "u64 \<Rightarrow> u64 \<Rightarrow> u64" where
  "saturating_add a b = (if unat a + unat b < 2 ^ 64 then a + b else - 1)"

definition saturating_mul :: "u64 \<Rightarrow> u64 \<Rightarrow> u64" where
  "saturating_mul a b = (if unat a * unat b < 2 ^ 64 then a * b else - 1)"

definition boot_time_ns :: "'k env \<Rightarrow> ('k, u64) io" where
  "boot_time_ns E = do {
     r \<leftarrow> asks (boottime_clock E);
     ret (case r of
            Inl e \<Rightarrow> Inl (''read monotonic Apply confirmation clock: '' @ e)
          | Inr (sec, nsec) \<Rightarrow> Inr (saturating_add (saturating_mul sec 1000000000) nsec)) }"

end
