(* ===== verification/Durable.thy ===== *)
theory Durable
  imports World
begin

text \<open>
  \<open>src/durable.rs\<close>: the two file operations of every commit point, and what a power loss can
  find of them. \<open>writes\<close> is the contract the components use: one path goes from its old
  contents to the new in one step, no other path changes but the temporary ones.
\<close>

section \<open>Definitions\<close>

definition parent_dir :: "string \<Rightarrow> string" where
  "parent_dir path = (case rsplit_once (CHR ''/'') path of Some (p, _) \<Rightarrow> p | None \<Rightarrow> [])"

definition base_name :: "string \<Rightarrow> string" where
  "base_name path = (case rsplit_once (CHR ''/'') path of Some (_, n) \<Rightarrow> n | None \<Rightarrow> path)"

definition temp_name :: "string \<Rightarrow> string \<Rightarrow> string" where
  "temp_name path token = parent_dir path @ ''/.'' @ base_name path @ ''-'' @ token @ ''.tmp''"

definition publish_temp :: "'k env \<Rightarrow> string \<Rightarrow> string \<Rightarrow> string \<Rightarrow> ('k, unit) io" where
  "publish_temp E path temp bytes =
     seqE (map_err (\<lambda>e. ''create '' @ temp @ '': '' @ e) (create_new E temp))
    (seqE (map_err (\<lambda>e. ''persist '' @ temp @ '': '' @ e) (write_sync E temp bytes))
    (seqE (map_err (\<lambda>e. ''publish '' @ path @ '': '' @ e) (rename_file E temp path))
          (map_err (\<lambda>e. ''persist '' @ parent_dir path @ '': '' @ e)
             (simple_op E (Sync_dir (parent_dir path))))))"

definition durable_write :: "'k env \<Rightarrow> string \<Rightarrow> string \<Rightarrow> ('k, unit) io" where
  "durable_write E path bytes =
     seqE (map_err (\<lambda>e. ''create '' @ parent_dir path @ '': '' @ e)
             (simple_op E (Make_dir (parent_dir path))))
    (tryE (random_token E) (\<lambda>token.
       (let temp = temp_name path token in do {
          result \<leftarrow> publish_temp E path temp bytes;
          (if is_ok result then ret result
           else do { unlink_file E temp; ret result }) })))"

definition durable_remove :: "'k env \<Rightarrow> string \<Rightarrow> ('k, unit) io" where
  "durable_remove E path =
     tryE (map_err (\<lambda>e. ''remove '' @ path @ '': '' @ e) (unlink_file E path)) (\<lambda>removed.
       if removed
       then map_err (\<lambda>e. ''persist '' @ parent_dir path @ '': '' @ e)
              (simple_op E (Sync_dir (parent_dir path)))
       else okE ())"

section \<open>Transition relations\<close>

text \<open>\<open>keeps R m\<close>: every run of \<open>m\<close> relates its first world to its last by \<open>R\<close>.\<close>

definition keeps :: "('s \<Rightarrow> 's \<Rightarrow> bool) \<Rightarrow> ('s, 'a) state \<Rightarrow> bool" where
  "keeps R m \<longleftrightarrow> (\<forall>w. R w (snd (run_state m w)))"

named_theorems keeps_intros \<open>programs that keep a relation\<close>

lemma keepsD: "keeps R m \<Longrightarrow> run_state m w = (a, w') \<Longrightarrow> R w w'"
  by (metis keeps_def snd_conv)

lemma keepsI: "(\<And>w a w'. run_state m w = (a, w') \<Longrightarrow> R w w') \<Longrightarrow> keeps R m"
  unfolding keeps_def by (metis prod.collapse)

lemma run_tryE: "run_state (tryE m f) w =
    (case run_state m w of (Inl e, w') \<Rightarrow> (Inl e, w') | (Inr a, w') \<Rightarrow> run_state (f a) w')"
  by (simp add: tryE_def split: prod.splits sum.splits)

lemma tryE_okE: "tryE (okE a) f = f a"
  by (simp add: tryE_def)

lemma run_map_err: "run_state (map_err g m) w =
    (case run_state m w of (Inl e, w') \<Rightarrow> (Inl (g e), w') | (Inr a, w') \<Rightarrow> (Inr a, w'))"
  by (simp add: map_err_def split: prod.splits sum.splits)

lemma run_gets [simp]: "run_state (gets f) w = (f w, w)"
  by (simp add: gets_def)

lemma run_asks: "run_state (asks f) w = (case f (outside w) of (a, k) \<Rightarrow> (a, w\<lparr>outside := k\<rparr>))"
  by (simp add: asks_def)

locale transition =
  fixes R :: "'s \<Rightarrow> 's \<Rightarrow> bool"
  assumes refl: "R w w" and trans: "R w w' \<Longrightarrow> R w' w'' \<Longrightarrow> R w w''"
begin

lemma keeps_ret: "keeps R (ret a)"
  by (simp add: keeps_def refl)

lemma keeps_gets: "keeps R (gets f)"
  by (simp add: keeps_def refl)

lemma keeps_bind:
  assumes "keeps R m" and "\<And>a. keeps R (f a)"
  shows "keeps R (State_Monad.bind m f)"
proof (rule keepsI)
  fix w b w'' assume "run_state (State_Monad.bind m f) w = (b, w'')"
  then obtain a w' where "run_state m w = (a, w')" "run_state (f a) w' = (b, w'')"
    by (auto split: prod.splits)
  then show "R w w''" using assms keepsD trans by metis
qed

lemma keeps_tryE: "keeps R m \<Longrightarrow> (\<And>a. keeps R (f a)) \<Longrightarrow> keeps R (tryE m f)"
  unfolding tryE_def by (rule keeps_bind) (auto split: sum.splits intro: keeps_ret)

lemma keeps_map_err: "keeps R m \<Longrightarrow> keeps R (map_err g m)"
  unfolding map_err_def by (rule keeps_bind) (auto intro: keeps_ret)

lemma keeps_forE: "(\<And>x. keeps R (f x)) \<Longrightarrow> keeps R (forE f xs)"
  by (induction xs) (auto intro: keeps_ret keeps_tryE)

lemma keeps_collect: "(\<And>x. keeps R (f x)) \<Longrightarrow> keeps R (collect f xs)"
  by (induction xs) (auto intro!: keeps_ret keeps_bind)

lemma keeps_collectE: "(\<And>x. keeps R (f x)) \<Longrightarrow> keeps R (collectE f xs)"
  by (induction xs) (auto intro!: keeps_ret keeps_tryE)

lemma keeps_if: "keeps R m \<Longrightarrow> keeps R m' \<Longrightarrow> keeps R (if b then m else m')"
  by simp

lemma keeps_option: "keeps R m \<Longrightarrow> (\<And>a. keeps R (f a)) \<Longrightarrow> keeps R (case x of None \<Rightarrow> m | Some a \<Rightarrow> f a)"
  by (cases x) auto

lemma keeps_sum: "(\<And>e. keeps R (g e)) \<Longrightarrow> (\<And>a. keeps R (f a)) \<Longrightarrow> keeps R (case x of Inl e \<Rightarrow> g e | Inr a \<Rightarrow> f a)"
  by (cases x) auto

lemma keeps_pair: "(\<And>a b. keeps R (f a b)) \<Longrightarrow> keeps R (case x of (a, b) \<Rightarrow> f a b)"
  by (cases x) auto

lemmas keeps_rules = keeps_ret keeps_gets keeps_bind keeps_tryE keeps_map_err keeps_forE
  keeps_collect keeps_collectE keeps_if keeps_option keeps_sum keeps_pair

end

text \<open>The paths in \<open>S\<close> keep their contents, at every moment; \<open>same_on\<close> keeps netd's flag too.\<close>

definition kept :: "string set \<Rightarrow> 'k world \<Rightarrow> 'k world \<Rightarrow> bool" where
  "kept S w w' \<longleftrightarrow>
     (\<exists>new. trail w' = new @ trail w \<and> (\<forall>f \<in> set (files w' # new). \<forall>p \<in> S. f p = files w p))"

definition same_on :: "string set \<Rightarrow> 'k world \<Rightarrow> 'k world \<Rightarrow> bool" where
  "same_on S w w' \<longleftrightarrow> recovery_required w' = recovery_required w \<and> kept S w w'"

lemma kept_refl: "kept S w w"
  by (auto simp: kept_def)

lemma kept_trans:
  assumes "kept S w w'" and "kept S w' w''"
  shows "kept S w w''"
proof -
  from assms obtain new new' where
      "trail w' = new @ trail w" "\<forall>f \<in> set (files w' # new). \<forall>p \<in> S. f p = files w p"
      "trail w'' = new' @ trail w'" "\<forall>f \<in> set (files w'' # new'). \<forall>p \<in> S. f p = files w' p"
    by (auto simp: kept_def)
  then show ?thesis
    unfolding kept_def by (intro exI [of _ "new' @ new"]) auto
qed

lemma same_on_kept: "same_on S w w' \<Longrightarrow> kept S w w'"
  by (simp add: same_on_def)

lemma keeps_kept: "keeps (same_on S) m \<Longrightarrow> keeps (kept S) m"
  by (simp add: keeps_def same_on_def)

interpretation kept: transition "kept S" for S
  by unfold_locales (blast intro: kept_refl kept_trans)+

interpretation same: transition "same_on S" for S
  by unfold_locales (auto simp: same_on_def intro: kept_refl kept_trans)

section \<open>The contract\<close>

definition is_temp :: "string \<Rightarrow> bool" where
  "is_temp p \<longleftrightarrow> (\<exists>q. p = q @ ''.tmp'')"

lemma is_temp_code [code]: "is_temp p \<longleftrightarrow> strip_prefix (rev ''.tmp'') (rev p) \<noteq> None"
proof -
  define tmp where "tmp = ''.tmp''"
  have "strip_prefix (rev tmp) (rev p) \<noteq> None \<longleftrightarrow> (\<exists>r. rev p = rev tmp @ r)"
    using starts_with_iff [of "rev tmp" "rev p"] by (simp add: starts_with_def)
  also have "\<dots> \<longleftrightarrow> (\<exists>r. p = rev r @ tmp)"
    by (metis rev_append rev_rev_ident)
  also have "\<dots> \<longleftrightarrow> (\<exists>q. p = q @ tmp)"
    by (metis rev_rev_ident)
  finally show ?thesis
    unfolding is_temp_def tmp_def by blast
qed

text \<open>\<open>writes p v\<close>: \<open>p\<close> holds its old contents and then \<open>v\<close>, or only its old contents; no
  other path changes but temporary ones.\<close>

definition changed_to :: "string \<Rightarrow> string option \<Rightarrow> files \<Rightarrow> files \<Rightarrow> bool" where
  "changed_to p v f g \<longleftrightarrow> g p \<in> {f p, v} \<and> (\<forall>q. q \<noteq> p \<and> \<not> is_temp q \<longrightarrow> g q = f q)"

definition writes :: "string \<Rightarrow> string option \<Rightarrow> 'k world \<Rightarrow> 'k world \<Rightarrow> bool" where
  "writes p v w w' \<longleftrightarrow>
     recovery_required w' = recovery_required w
     \<and> (\<exists>new. trail w' = new @ trail w \<and> (\<forall>f \<in> set (files w' # new). changed_to p v (files w) f))"

lemma writes_refl: "writes p v w w"
  by (auto simp: writes_def changed_to_def)

lemma changed_to_trans: "changed_to p v f g \<Longrightarrow> changed_to p v g h \<Longrightarrow> changed_to p v f h"
  by (auto simp: changed_to_def)

lemma writes_trans:
  assumes "writes p v w w'" and "writes p v w' w''"
  shows "writes p v w w''"
proof -
  from assms obtain new new' where
      n: "trail w' = new @ trail w" "\<forall>f \<in> set (files w' # new). changed_to p v (files w) f"
      "trail w'' = new' @ trail w'" "\<forall>f \<in> set (files w'' # new'). changed_to p v (files w') f"
    by (auto simp: writes_def)
  then have "changed_to p v (files w) f" if "f \<in> set (files w'' # new' @ new)" for f
    using that changed_to_trans [of p v "files w" "files w'"] by auto
  then show ?thesis
    using assms n unfolding writes_def by (intro conjI exI [of _ "new' @ new"]) auto
qed

interpretation writes: transition "writes p v" for p v
  by unfold_locales (blast intro: writes_refl writes_trans)+

text \<open>The primitives on a temporary file.\<close>

lemma keeps_asks: "keeps (writes p v) (asks f)"
  by (auto simp: keeps_def run_asks writes_def changed_to_def split: prod.splits)

lemma keeps_set_temp:
  "is_temp t \<Longrightarrow> \<not> is_temp p \<Longrightarrow> keeps (writes p v) (set_file t x)"
  by (auto simp: keeps_def set_file_def set_files_def writes_def changed_to_def)

lemma keeps_simple_op: "keeps (writes p v) (simple_op E op)"
  unfolding simple_op_def fault_def by (intro writes.keeps_rules keeps_asks)

lemma keeps_random_token: "keeps (writes p v) (random_token E)"
  unfolding random_token_def by (intro writes.keeps_rules keeps_asks)

lemma keeps_create_new:
  "is_temp t \<Longrightarrow> \<not> is_temp p \<Longrightarrow> keeps (writes p v) (create_new E t)"
  unfolding create_new_def file_exists_def
  by (intro writes.keeps_rules keeps_simple_op keeps_set_temp)

lemma keeps_write_sync:
  "is_temp t \<Longrightarrow> \<not> is_temp p \<Longrightarrow> keeps (writes p v) (write_sync E t bytes)"
  unfolding write_sync_def fault_def
  by (intro writes.keeps_rules keeps_asks keeps_set_temp)

lemma keeps_unlink_temp:
  "is_temp t \<Longrightarrow> \<not> is_temp p \<Longrightarrow> keeps (writes p v) (unlink_file E t)"
  unfolding unlink_file_def file_exists_def
  by (intro writes.keeps_rules keeps_simple_op keeps_set_temp)

lemma write_sync_ok:
  "run_state (write_sync E t bytes) w = (Inr u, w') \<Longrightarrow> files w' t = Some bytes"
  by (auto simp: write_sync_def fault_def run_asks set_file_def set_files_def
      split: prod.splits option.splits)

lemma simple_op_files: "run_state (simple_op E op) w = (r, w') \<Longrightarrow> files w' = files w"
  by (auto simp: simple_op_def fault_def run_asks split: prod.splits)

lemma rename_writes:
  assumes "files w t = Some b" and "is_temp t" and "\<not> is_temp p"
    and "run_state (rename_file E t p) w = (r, w')"
  shows "writes p (Some b) w w' \<and> (r = Inr () \<longrightarrow> files w' p = Some b)"
  using assms
  by (auto simp: rename_file_def run_tryE simple_op_def fault_def run_asks set_files_def writes_def
      changed_to_def split: prod.splits option.splits sum.splits)

lemma temp_name_is_temp: "is_temp (temp_name path token)"
  by (simp add: is_temp_def temp_name_def)

lemma publish_temp_writes:
  assumes "is_temp t" and "\<not> is_temp p" and "run_state (publish_temp E p t bytes) w = (r, w')"
  shows "writes p (Some bytes) w w' \<and> (r = Inr () \<longrightarrow> files w' p = Some bytes)"
proof -
  obtain r1 w1 where s1: "run_state (create_new E t) w = (r1, w1)" by fastforce
  obtain r2 w2 where s2: "run_state (write_sync E t bytes) w1 = (r2, w2)" by fastforce
  obtain r3 w3 where s3: "run_state (rename_file E t p) w2 = (r3, w3)" by fastforce
  obtain r4 w4 where s4: "run_state (simple_op E (Sync_dir (parent_dir p))) w3 = (r4, w4)" by fastforce
  have k1: "writes p (Some bytes) w w1" using keeps_create_new [OF assms(1,2)] s1 by (rule keepsD)
  have k2: "writes p (Some bytes) w1 w2" using keeps_write_sync [OF assms(1,2)] s2 by (rule keepsD)
  have k4: "writes p (Some bytes) w3 w4" using keeps_simple_op s4 by (rule keepsD)
  note trans = writes.trans [of p "Some bytes"]
  show ?thesis
  proof (cases r1; cases r2)
    fix u1 u2 assume ok: "r1 = Inr u1" "r2 = Inr u2"
    then have "files w2 t = Some bytes" using s2 write_sync_ok by metis
    from rename_writes [OF this assms(1,2) s3]
    have k3: "writes p (Some bytes) w2 w3" "r3 = Inr () \<longrightarrow> files w3 p = Some bytes" by auto
    show ?thesis
      using assms(3) s1 s2 s3 s4 ok k1 k2 k3 k4 simple_op_files [OF s4]
      by (auto simp: publish_temp_def run_tryE run_map_err split: sum.splits intro: trans)
  qed (use assms(3) s1 s2 k1 k2 trans in \<open>auto simp: publish_temp_def run_tryE run_map_err\<close>)
qed

lemma durable_write_writes:
  assumes p: "\<not> is_temp p" and run: "run_state (durable_write E p bytes) w = (r, w')"
  shows "writes p (Some bytes) w w' \<and> (r = Inr () \<longrightarrow> files w' p = Some bytes)"
proof -
  obtain r1 w1 where s1: "run_state (simple_op E (Make_dir (parent_dir p))) w = (r1, w1)" by fastforce
  obtain r2 w2 where s2: "run_state (random_token E) w1 = (r2, w2)" by fastforce
  have k1: "writes p (Some bytes) w w1" using keeps_simple_op s1 by (rule keepsD)
  have k2: "writes p (Some bytes) w1 w2" using keeps_random_token s2 by (rule keepsD)
  note trans = writes.trans [of p "Some bytes"]
  show ?thesis
  proof (cases r1; cases r2)
    fix u1 token assume ok: "r1 = Inr u1" "r2 = Inr token"
    let ?t = "temp_name p token"
    obtain r3 w3 where s3: "run_state (publish_temp E p ?t bytes) w2 = (r3, w3)" by fastforce
    obtain r4 w4 where s4: "run_state (unlink_file E ?t) w3 = (r4, w4)" by fastforce
    have k3: "writes p (Some bytes) w2 w3" "r3 = Inr () \<longrightarrow> files w3 p = Some bytes"
      using publish_temp_writes [OF temp_name_is_temp p s3] by auto
    have k4: "writes p (Some bytes) w3 w4"
      using keeps_unlink_temp [OF temp_name_is_temp p] s4 by (rule keepsD)
    show ?thesis
      using run s1 s2 s3 s4 ok k1 k2 k3 k4
      by (cases r3) (auto simp: durable_write_def run_tryE run_map_err Let_def intro: trans)
  qed (use run s1 s2 k1 k2 trans in \<open>auto simp: durable_write_def run_tryE run_map_err\<close>)
qed

lemma keeps_unlink: "keeps (writes p None) (unlink_file E p)"
proof -
  have "keeps (writes p None) (set_file p None)"
    by (auto simp: keeps_def set_file_def set_files_def writes_def changed_to_def)
  then show ?thesis
    unfolding unlink_file_def file_exists_def
    by (intro writes.keeps_rules keeps_simple_op)
qed

lemma unlink_ok: "run_state (unlink_file E p) w = (Inr b, w') \<Longrightarrow> files w' p = None"
  by (cases "files w p") (auto simp: unlink_file_def file_exists_def run_tryE set_file_def
      set_files_def split: prod.splits sum.splits)

lemma keeps_durable_remove: "keeps (writes p None) (durable_remove E p)"
  unfolding durable_remove_def
  by (intro writes.keeps_rules keeps_simple_op keeps_unlink)

lemma durable_remove_ok:
  assumes "run_state (durable_remove E p) w = (Inr u, w')"
  shows "files w' p = None"
proof -
  obtain r1 w1 where s1: "run_state (unlink_file E p) w = (r1, w1)" by fastforce
  obtain r2 w2 where s2: "run_state (simple_op E (Sync_dir (parent_dir p))) w1 = (r2, w2)" by fastforce
  show ?thesis
    using assms s1 s2 unlink_ok [of E p w] simple_op_files [OF s2]
    by (cases r1) (auto simp: durable_remove_def run_tryE run_map_err split: if_splits sum.splits)
qed

lemma durable_remove_writes:
  "run_state (durable_remove E p) w = (r, w') \<Longrightarrow>
   writes p None w w' \<and> (r = Inr () \<longrightarrow> files w' p = None)"
  using keepsD [OF keeps_durable_remove] durable_remove_ok by blast

text \<open>A change of one path leaves every set of other lasting paths as it was.\<close>

definition lasting :: "string set \<Rightarrow> bool" where
  "lasting S \<longleftrightarrow> (\<forall>p \<in> S. \<not> is_temp p)"

lemma writes_same_on:
  assumes "writes p v w w'" and "p \<notin> S" and "lasting S"
  shows "same_on S w w'"
  using assms unfolding writes_def same_on_def kept_def changed_to_def lasting_def by fastforce

lemma same_durable_remove: "p \<notin> S \<Longrightarrow> lasting S \<Longrightarrow> keeps (same_on S) (durable_remove E p)"
  using keeps_durable_remove [of p E] writes_same_on unfolding keeps_def by blast

lemma same_durable_write:
  assumes "p \<notin> S" and "lasting S" and "\<not> is_temp p"
  shows "keeps (same_on S) (durable_write E p bytes)"
  using assms durable_write_writes writes_same_on by (metis keepsI)

lemma same_set_file: "p \<notin> S \<Longrightarrow> keeps (same_on S) (set_file p v)"
  by (auto simp: keeps_def set_file_def set_files_def same_on_def kept_def)

section \<open>Clients of the contract\<close>

text \<open>
  A durable store over protected paths: \<open>put\<close> and \<open>delete\<close> change one path in one step. A
  property \<open>G\<close> of the protected contents that holds before and after the step holds at every
  moment of it.
\<close>

definition core :: "string set \<Rightarrow> 'k world \<Rightarrow> files" where
  "core S w = files w |` S"

definition always :: "string set \<Rightarrow> (files \<Rightarrow> bool) \<Rightarrow> 'k world \<Rightarrow> bool" where
  "always S G w \<longleftrightarrow> G (core S w) \<and> (\<forall>f \<in> set (trail w). G (f |` S))"

lemma core_at: "p \<in> S \<Longrightarrow> core S w p = files w p"
  by (simp add: core_def)

lemma upd_or_same: "g \<in> {c, c(p := v)} \<Longrightarrow> g p = v \<Longrightarrow> g = c(p := v)"
  by (auto simp: fun_upd_idem)

locale durable_store =
  fixes put :: "string \<Rightarrow> string \<Rightarrow> ('k, unit) io"
    and delete :: "string \<Rightarrow> ('k, unit) io"
    and protected :: "string set"
  assumes put_writes: "p \<in> protected \<Longrightarrow> run_state (put p b) w = (r, w') \<Longrightarrow>
      writes p (Some b) w w' \<and> (r = Inr () \<longrightarrow> files w' p = Some b)"
    and delete_writes: "p \<in> protected \<Longrightarrow> run_state (delete p) w = (r, w') \<Longrightarrow>
      writes p None w w' \<and> (r = Inr () \<longrightarrow> files w' p = None)"
    and no_temp: "p \<in> protected \<Longrightarrow> \<not> is_temp p"
begin

lemma changed_core:
  assumes "changed_to p v f g"
  shows "g |` protected \<in> {f |` protected, (f |` protected)(p := if p \<in> protected then v else None)}"
proof -
  have other: "q \<noteq> p \<Longrightarrow> (g |` protected) q = (f |` protected) q" for q
    using assms no_temp by (auto simp: changed_to_def restrict_map_def)
  show ?thesis
  proof (cases "g p = f p")
    case True
    then have "g |` protected = f |` protected"
      using other by (intro ext) (metis restrict_map_def)
    then show ?thesis by simp
  next
    case False
    then have "g p = v" using assms by (auto simp: changed_to_def)
    then have "g |` protected = (f |` protected)(p := if p \<in> protected then v else None)"
      using other by (intro ext) (auto simp: restrict_map_def)
    then show ?thesis by simp
  qed
qed

lemma writes_core:
  assumes "writes p v w w'" and "p \<in> protected"
  shows "core protected w' \<in> {core protected w, (core protected w)(p := v)}"
  using assms changed_core [of p v "files w" "files w'"] by (auto simp: writes_def core_def)

lemma writes_always:
  assumes "writes p v w w'" and "p \<in> protected" and "always protected G w"
    and "G ((core protected w)(p := v))"
  shows "always protected G w'"
proof -
  obtain new where t: "trail w' = new @ trail w" "\<forall>f \<in> set (files w' # new). changed_to p v (files w) f"
    using assms(1) by (auto simp: writes_def)
  have "G (f |` protected)" if "f \<in> set (files w' # new)" for f
    using changed_core [of p v "files w" f] t(2) that assms by (auto simp: always_def core_def)
  then show ?thesis
    using t(1) assms(3) by (auto simp: always_def core_def)
qed

lemma put_step:
  assumes "run_state (put p b) w = (r, w')" and "p \<in> protected" and "always protected G w"
    and "G ((core protected w)(p := Some b))"
  shows "always protected G w' \<and> core protected w' \<in> {core protected w, (core protected w)(p := Some b)}
    \<and> (r = Inr () \<longrightarrow> core protected w' = (core protected w)(p := Some b))
    \<and> recovery_required w' = recovery_required w"
proof -
  have w: "writes p (Some b) w w'" "r = Inr () \<longrightarrow> files w' p = Some b"
    using put_writes [OF assms(2,1)] by auto
  have "core protected w' = (core protected w)(p := Some b)" if "files w' p = Some b"
    using upd_or_same [OF writes_core [OF w(1) assms(2)]] that core_at [OF assms(2), of w'] by simp
  then show ?thesis
    using w writes_core [OF w(1) assms(2)] writes_always [OF w(1) assms(2-4)]
    by (auto simp: writes_def)
qed

lemma delete_step:
  assumes "run_state (delete p) w = (r, w')" and "p \<in> protected" and "always protected G w"
    and "G ((core protected w)(p := None))"
  shows "always protected G w' \<and> core protected w' \<in> {core protected w, (core protected w)(p := None)}
    \<and> (r = Inr () \<longrightarrow> core protected w' = (core protected w)(p := None))
    \<and> recovery_required w' = recovery_required w"
proof -
  have w: "writes p None w w'" "r = Inr () \<longrightarrow> files w' p = None"
    using delete_writes [OF assms(2,1)] by auto
  have "core protected w' = (core protected w)(p := None)" if "files w' p = None"
    using upd_or_same [OF writes_core [OF w(1) assms(2)]] that core_at [OF assms(2), of w'] by simp
  then show ?thesis
    using w writes_core [OF w(1) assms(2)] writes_always [OF w(1) assms(2-4)]
    by (auto simp: writes_def)
qed

lemma kept_step:
  assumes "kept protected w w'" and "always protected G w"
  shows "always protected G w' \<and> core protected w' = core protected w"
proof -
  obtain new where t: "trail w' = new @ trail w"
      "\<forall>f \<in> set (files w' # new). \<forall>p \<in> protected. f p = files w p"
    using assms(1) by (auto simp: kept_def)
  then have "f |` protected = files w |` protected" if "f \<in> set (files w' # new)" for f
    using that by (auto simp: restrict_map_def fun_eq_iff)
  then show ?thesis
    using t(1) assms(2) by (auto simp: always_def core_def)
qed

end

section \<open>The contract of the two operations\<close>

text \<open>
  A durable write is atomic: whatever fails, and at every moment of the run, the path holds
  its old contents or all of the new ones, and no other path but temporary ones has changed;
  when it reports success the new contents are there.
\<close>

theorem durable_write_atomic:
  assumes "\<not> is_temp p" and "run_state (durable_write E p bytes) w = (r, w')"
  shows "(\<exists>new. trail w' = new @ trail w
      \<and> (\<forall>f \<in> set (files w' # new). f p \<in> {files w p, Some bytes}
           \<and> (\<forall>q. q \<noteq> p \<and> \<not> is_temp q \<longrightarrow> f q = files w q)))
    \<and> (r = Inr () \<longrightarrow> files w' p = Some bytes)"
  using durable_write_writes [OF assms] by (auto simp: writes_def changed_to_def)

end
