(* ===== verification/Commands.thy ===== *)
theory Commands
  imports Durable Ip
begin

text \<open>
  The programs netd runs (\<open>src/network.rs\<close> and the helpers of \<open>src/netd.rs\<close>): their argument
  lists, what netd makes of their exit status and output, and the files it writes under
  \<open>/proc/sys\<close>. \<open>PATH\<close> is fixed by the sources and left out of the argument lists.
\<close>

section \<open>Running a program\<close>

definition exec_error :: "exec_result \<Rightarrow> string option" where
  "exec_error r =
     (case r of Spawn_failed e \<Rightarrow> Some e | Input_failed e \<Rightarrow> Some e | Wait_failed e \<Rightarrow> Some e
      | Exited _ _ _ _ \<Rightarrow> None)"

text \<open>\<open>Command::output\<close> with its error mapped; a run that ended gives status and output.\<close>

definition output_of :: "'k env \<Rightarrow> string list \<Rightarrow> string \<Rightarrow> ('k, exec_result) io" where
  "output_of E argv prefix = do {
     r \<leftarrow> run_program E argv [];
     ret (case exec_error r of Some e \<Rightarrow> Inl (prefix @ e) | None \<Rightarrow> Inr r) }"

definition run_ip :: "'k env \<Rightarrow> string list \<Rightarrow> ('k, unit) io" where
  "run_ip E args =
     tryE (output_of E (''ip'' # args) (''ip '' @ join_with '' '' args @ '': '')) (\<lambda>r.
       if ok r then okE ()
       else errE (''ip '' @ join_with '' '' args @ '' failed: '' @ trim (stderr r)))"

definition link_exists :: "'k env \<Rightarrow> string \<Rightarrow> ('k, bool) io" where
  "link_exists E name =
     tryE (output_of E [''ip'', ''link'', ''show'', ''dev'', name] (''ip link show '' @ name @ '': ''))
       (\<lambda>r. okE (ok r))"

definition add_addr :: "'k env \<Rightarrow> string \<Rightarrow> string \<Rightarrow> ('k, unit) io" where
  "add_addr E dev cidr_text =
     tryE (output_of E [''ip'', ''addr'', ''add'', cidr_text, ''dev'', dev]
             (''ip addr add '' @ cidr_text @ '' dev '' @ dev @ '': '')) (\<lambda>r.
       if ok r \<or> contains_str ''File exists'' (stderr r) \<or> contains_str ''already assigned'' (stderr r)
       then okE ()
       else errE (''ip addr add '' @ cidr_text @ '' dev '' @ dev @ '' failed: '' @ trim (stderr r)))"

definition write_sysctl :: "'k env \<Rightarrow> string \<Rightarrow> string \<Rightarrow> string \<Rightarrow> string \<Rightarrow> ('k, unit) io" where
  "write_sysctl E nic fam key val =
     (let path = ''/proc/sys/net/'' @ fam @ ''/conf/'' @ nic @ ''/'' @ key
      in map_err (\<lambda>e. ''write '' @ path @ '': '' @ e) (asks (foreign_write E path val)))"

definition lock_unopted :: "'k env \<Rightarrow> string \<Rightarrow> ('k, unit) io" where
  "lock_unopted E nic =
     seqE (write_sysctl E nic ''ipv6'' ''accept_ra'' ''0'')
    (seqE (write_sysctl E nic ''ipv6'' ''autoconf'' ''0'')
    (seqE (write_sysctl E nic ''ipv4'' ''rp_filter'' ''2'')
          (run_ip E [''addr'', ''flush'', ''dev'', nic])))"

section \<open>Traffic NICs\<close>

record link_entry =
  ifname :: string
  link_type :: string
  info_kind :: "string option"

definition required_str :: "json \<Rightarrow> string \<Rightarrow> string res" where
  "required_str v key = ok_or (Option.bind (jget v key) jstr) (''invalid field '' @ key)"

definition link_info_of_json :: "json option \<Rightarrow> string option res" where
  "link_info_of_json v =
     (case v of
        None \<Rightarrow> Inr None
      | Some (JObj kvs) \<Rightarrow>
          (case map_of kvs ''info_kind'' of
             None \<Rightarrow> Inr None
           | Some JNull \<Rightarrow> Inr None
           | Some (JStr s) \<Rightarrow> Inr (Some s)
           | Some _ \<Rightarrow> Inl ''invalid field info_kind'')
      | Some _ \<Rightarrow> Inl ''invalid field linkinfo'')"

definition link_of_json :: "json \<Rightarrow> link_entry res" where
  "link_of_json v =
     bindE (required_str v ''ifname'') (\<lambda>name.
     bindE (required_str v ''link_type'') (\<lambda>ty.
     bindE (link_info_of_json (jget v ''linkinfo'')) (\<lambda>info.
     Inr \<lparr> ifname = name, link_type = ty, info_kind = info \<rparr>)))"

fun all_ok :: "('a \<Rightarrow> 'b res) \<Rightarrow> 'a list \<Rightarrow> 'b list res" where
  "all_ok f [] = Inr []"
| "all_ok f (x # xs) = bindE (f x) (\<lambda>y. bindE (all_ok f xs) (\<lambda>ys. Inr (y # ys)))"

definition links_of_json :: "json \<Rightarrow> link_entry list res" where
  "links_of_json v =
     (case jarr v of None \<Rightarrow> Inl ''invalid type'' | Some xs \<Rightarrow> all_ok link_of_json xs)"

definition traffic_nics_of :: "link_entry list \<Rightarrow> string list" where
  "traffic_nics_of links =
     map ifname (filter (\<lambda>l. link_type l = ''ether'' \<and> info_kind l = None) links)"

definition traffic_nic_names :: "'k env \<Rightarrow> ('k, string list) io" where
  "traffic_nic_names E =
     tryE (output_of E [''ip'', ''-j'', ''-d'', ''link'', ''show''] ''list Traffic NICs: '') (\<lambda>r.
       if \<not> ok r then errE (''list Traffic NICs: '' @ trim (stderr r))
       else (case bindE (json_of_text (codec E) (stdout r)) links_of_json of
               Inl e \<Rightarrow> errE (''parse Traffic NIC metadata: '' @ e)
             | Inr links \<Rightarrow> okE (traffic_nics_of links)))"

section \<open>nft\<close>

definition nft_apply :: "'k env \<Rightarrow> string \<Rightarrow> ('k, unit) io" where
  "nft_apply E rules = do {
     r \<leftarrow> run_program E [''nft'', ''-f'', ''-''] rules;
     ret (case r of
            Spawn_failed e \<Rightarrow> Inl (''nft: '' @ e)
          | Input_failed e \<Rightarrow> Inl (''nft write: '' @ e)
          | Wait_failed e \<Rightarrow> Inl (''nft wait: '' @ e)
          | Exited success st _ _ \<Rightarrow> if success then Inr () else Inl (''nft -f failed ('' @ st @ '')'')) }"

definition nft_check :: "'k env \<Rightarrow> string \<Rightarrow> ('k, unit) io" where
  "nft_check E rules = do {
     r \<leftarrow> run_program E [''nft'', ''-c'', ''-f'', ''-''] rules;
     ret (case exec_error r of
            Some e \<Rightarrow> Inl (''validate firewall rules: '' @ e)
          | None \<Rightarrow> if ok r then Inr () else Inl ''invalid complete Desired state firewall rules'') }"

section \<open>Addresses in \<open>ip -o addr\<close> output\<close>

fun after_inet :: "string list \<Rightarrow> string option" where
  "after_inet [] = None"
| "after_inet (t # ts) =
     (if t = ''inet'' \<or> t = ''inet6'' then (case ts of [] \<Rightarrow> None | u # _ \<Rightarrow> Some u) else after_inet ts)"

definition addr_cidr :: "string \<Rightarrow> string option" where
  "addr_cidr line = after_inet (split_whitespace line)"

definition addr_dev :: "string \<Rightarrow> string" where
  "addr_dev line =
     (case nth_opt (split_whitespace line) 1 of None \<Rightarrow> [] | Some w \<Rightarrow> hd (split_on (CHR ''@'') w))"

fun distinct_cidrs :: "string list \<Rightarrow> string list \<Rightarrow> string list" where
  "distinct_cidrs out [] = out"
| "distinct_cidrs out (line # lines) =
     (case addr_cidr line of
        Some c \<Rightarrow> distinct_cidrs (if c \<in> set out then out else out @ [c]) lines
      | None \<Rightarrow> distinct_cidrs out lines)"

definition iface_cidrs :: "'k env \<Rightarrow> string \<Rightarrow> ('k, string list) io" where
  "iface_cidrs E name =
     tryE (output_of E [''ip'', ''-o'', ''addr'', ''show'', ''dev'', name] (''ip addr show '' @ name @ '': ''))
       (\<lambda>r. okE (distinct_cidrs [] (lines_of (stdout r))))"

definition default_gateway :: "string \<Rightarrow> string \<Rightarrow> string option" where
  "default_gateway name route =
     (if contains_str name route
      then nth_opt (dropWhile (\<lambda>w. w \<noteq> ''via'') (split_whitespace route)) 1
      else None)"

definition capture_ipv4 :: "'k env \<Rightarrow> string \<Rightarrow> ('k, string list \<times> string option) io" where
  "capture_ipv4 E name =
     tryE (output_of E [''ip'', ''-o'', ''addr'', ''show'', ''dev'', name] (''ip addr show '' @ name @ '': ''))
       (\<lambda>addr_out.
     tryE (output_of E [''ip'', ''-o'', ''route'', ''show'', ''default''] ''ip route: '') (\<lambda>route_out.
       okE (filter (\<lambda>w. CHR ''/'' \<in> set w \<and> CHR ''.'' \<in> set w) (split_whitespace (stdout addr_out)),
            default_gateway name (stdout route_out))))"

section \<open>Live addresses and queueing disciplines\<close>

definition json_flag_true :: "json \<Rightarrow> bool" where
  "json_flag_true v \<longleftrightarrow> v = JBool True"

definition has_live_address :: "json \<Rightarrow> ip_addr \<Rightarrow> nat \<Rightarrow> bool" where
  "has_live_address links address bits \<longleftrightarrow>
     (case jarr links of
        None \<Rightarrow> False
      | Some ls \<Rightarrow> (\<exists>l \<in> set ls. case jarr (jindex l ''addr_info'') of
          None \<Rightarrow> False
        | Some infos \<Rightarrow> (\<exists>live \<in> set infos.
            Option.bind (jstr (jindex live ''local'')) parse_ip = Some address
            \<and> jnum (jindex live ''prefixlen'') = Some (of_nat bits))))"

definition live_address :: "'k env \<Rightarrow> string \<Rightarrow> string \<Rightarrow> ('k, bool) io" where
  "live_address E dev cidr_text =
     (let invalid = ''invalid address prefix on '' @ dev in
      tryE (liftE (ok_or (split_once (CHR ''/'') cidr_text) invalid)) (\<lambda>(address_text, bits_text).
      tryE (liftE (ok_or (parse_ip address_text) invalid)) (\<lambda>address.
      tryE (liftE (ok_or (parse_u8 bits_text) invalid)) (\<lambda>bits.
      tryE (output_of E [''ip'', ''-j'', ''address'', ''show'', ''dev'', dev] (''inspect addresses on '' @ dev @ '': ''))
        (\<lambda>r.
      if \<not> ok r then errE (''inspect addresses on '' @ dev @ '' failed'')
      else (case json_of_text (codec E) (stdout r) of
              Inl e \<Rightarrow> errE (''decode addresses on '' @ dev @ '': '' @ e)
            | Inr links \<Rightarrow> okE (has_live_address links address bits)))))))"

record root_qdisc_entry =
  root_kind :: string
  root_options :: json

definition root_qdisc_in :: "json \<Rightarrow> root_qdisc_entry option" where
  "root_qdisc_in v =
     Option.bind (jarr v) (\<lambda>qs.
     Option.bind (List.find (\<lambda>q. json_flag_true (jindex q ''root'')) qs) (\<lambda>q.
     map_option (\<lambda>k. \<lparr> root_kind = k, root_options = jindex q ''options'' \<rparr>) (jstr (jindex q ''kind''))))"

definition root_qdisc :: "'k env \<Rightarrow> string \<Rightarrow> ('k, root_qdisc_entry option) io" where
  "root_qdisc E dev =
     tryE (output_of E [''tc'', ''-j'', ''qdisc'', ''show'', ''dev'', dev] (''inspect qdisc on '' @ dev @ '': ''))
       (\<lambda>r.
     if \<not> ok r then errE (''inspect qdisc on '' @ dev @ '' failed'')
     else (case json_of_text (codec E) (stdout r) of
             Inl e \<Rightarrow> errE (''decode qdisc on '' @ dev @ '': '' @ e)
           | Inr v \<Rightarrow> okE (root_qdisc_in v)))"

definition parse_u16 :: "string \<Rightarrow> u16 option" where
  "parse_u16 s = map_option of_nat (parse_uint 65535 s)"

definition wireguard_listen_port :: "'k env \<Rightarrow> string \<Rightarrow> ('k, u16) io" where
  "wireguard_listen_port E name =
     tryE (output_of E [''wg'', ''show'', name, ''listen-port'']
             (''inspect WireGuard listen port on '' @ name @ '': '')) (\<lambda>r.
     if \<not> ok r then errE (''inspect WireGuard listen port on '' @ name @ '' failed'')
     else (case parse_u16 (trim (stdout r)) of
             None \<Rightarrow> errE (''decode WireGuard listen port on '' @ name @ '': invalid port'')
           | Some p \<Rightarrow> okE p))"

section \<open>Programs leave the protected files alone\<close>

lemma same_asks: "keeps (same_on S) (asks f)"
  by (auto simp: keeps_def run_asks same_on_def kept_def split: prod.splits)

lemma same_run_program: "keeps (same_on S) (run_program E argv input)"
proof -
  have "keeps (same_on S) (State (\<lambda>w. ((), w\<lparr>calls := c w\<rparr>)))" for c
    by (auto simp: keeps_def same_on_def kept_def)
  then show ?thesis
    unfolding run_program_def by (intro same.keeps_rules same_asks)
qed

lemma same_output_of: "keeps (same_on S) (output_of E argv prefix)"
  unfolding output_of_def by (intro same.keeps_rules same_run_program)

lemma same_run_ip: "keeps (same_on S) (run_ip E args)"
  unfolding run_ip_def by (intro same.keeps_rules same_output_of)

lemma same_link_exists: "keeps (same_on S) (link_exists E name)"
  unfolding link_exists_def by (intro same.keeps_rules same_output_of)

lemma same_add_addr: "keeps (same_on S) (add_addr E dev c)"
  unfolding add_addr_def by (intro same.keeps_rules same_output_of)

lemma same_write_sysctl: "keeps (same_on S) (write_sysctl E nic fam key val)"
  unfolding write_sysctl_def Let_def by (intro same.keeps_rules same_asks)

lemma same_lock_unopted: "keeps (same_on S) (lock_unopted E nic)"
  unfolding lock_unopted_def by (intro same.keeps_rules same_write_sysctl same_run_ip)

lemma same_traffic_nic_names: "keeps (same_on S) (traffic_nic_names E)"
  unfolding traffic_nic_names_def by (intro same.keeps_rules same_output_of)

lemma same_nft_apply: "keeps (same_on S) (nft_apply E rules)"
  unfolding nft_apply_def by (intro same.keeps_rules same_run_program)

lemma same_nft_check: "keeps (same_on S) (nft_check E rules)"
  unfolding nft_check_def by (intro same.keeps_rules same_run_program)

lemma same_iface_cidrs: "keeps (same_on S) (iface_cidrs E name)"
  unfolding iface_cidrs_def by (intro same.keeps_rules same_output_of)

lemma same_capture_ipv4: "keeps (same_on S) (capture_ipv4 E name)"
  unfolding capture_ipv4_def by (intro same.keeps_rules same_output_of)

lemma same_live_address: "keeps (same_on S) (live_address E dev c)"
  unfolding live_address_def Let_def
  by (intro same.keeps_rules same_output_of)

lemma same_root_qdisc: "keeps (same_on S) (root_qdisc E dev)"
  unfolding root_qdisc_def by (intro same.keeps_rules same_output_of)

lemma same_wireguard_listen_port: "keeps (same_on S) (wireguard_listen_port E name)"
  unfolding wireguard_listen_port_def by (intro same.keeps_rules same_output_of)

lemmas same_commands = same_asks same_run_program same_output_of same_run_ip same_link_exists
  same_add_addr same_write_sysctl same_lock_unopted same_traffic_nic_names same_nft_apply
  same_nft_check same_iface_cidrs same_capture_ipv4 same_live_address same_root_qdisc
  same_wireguard_listen_port

lemma same_simple_op: "keeps (same_on S) (simple_op E op)"
  unfolding simple_op_def fault_def by (intro same.keeps_rules same_asks)

lemma same_overwrite: "p \<notin> S \<Longrightarrow> keeps (same_on S) (overwrite E p bytes)"
  unfolding overwrite_def fault_def by (intro same.keeps_rules same_asks same_set_file)

lemma same_read_file: "keeps (same_on S) (read_file E path)"
  unfolding read_file_def fault_def by (intro same.keeps_rules same_asks)

lemma same_read_text: "keeps (same_on S) (read_text E path)"
  unfolding read_text_def by (intro same.keeps_rules same_read_file)

lemma same_file_exists: "keeps (same_on S) (file_exists path)"
  unfolding file_exists_def by (intro same.keeps_rules)

lemmas same_ops = same_commands same_simple_op same_read_file same_read_text same_file_exists

end
