(* ===== verification/Lan_Services.thy ===== *)
theory Lan_Services
  imports Commands Lan_Text
begin

text \<open>
  The LAN services netd configures and the IPv6 of the LAN (\<open>src/netd.rs\<close>): the Kea and
  Unbound configurations, the routed LAN prefix, the addresses a Desired state gives its
  links, and the DHCPv6 client of a WAN.
\<close>

section \<open>Configuration files\<close>

definition KEA4 :: string where "KEA4 = ''/var/lib/fwos/kea/kea-dhcp4.conf''"
definition KEA6 :: string where "KEA6 = ''/var/lib/fwos/kea/kea-dhcp6.conf''"
definition UNBOUND :: string where "UNBOUND = ''/var/lib/fwos/unbound/unbound.conf''"
definition DHCP6_DIR :: string where "DHCP6_DIR = ''/var/lib/fwos/dhcp6''"

definition text_lines :: "string list \<Rightarrow> string" where
  "text_lines ls = concat (map (\<lambda>l. l @ nl) ls)"

definition qt :: "string \<Rightarrow> string" where
  "qt s = [CHR 0x22] @ s @ [CHR 0x22]"

definition json_field :: "string \<Rightarrow> string \<Rightarrow> string" where
  "json_field k v = qt k @ '': '' @ v"

definition kea_logger :: "string \<Rightarrow> string" where
  "kea_logger name =
     ''    '' @ json_field ''loggers''
       (''[ { '' @ json_field ''name'' (qt name) @ '', '' @ json_field ''severity'' (qt ''INFO'') @ '', ''
        @ json_field ''output-options'' (''[ { '' @ json_field ''output'' (qt ''stdout'') @ '' } ]'') @ '' } ]'')"

definition kea_interfaces :: "string \<Rightarrow> string" where
  "kea_interfaces dev =
     ''    '' @ json_field ''interfaces-config''
       (''{ '' @ json_field ''interfaces'' (''[ '' @ qt dev @ '' ]'') @ '', '' @ json_field ''re-detect'' ''true''
        @ '', '' @ json_field ''service-sockets-require-all'' ''true'' @ '' }'') @ '',''"

definition kea_leases :: "string \<Rightarrow> string" where
  "kea_leases path =
     ''    '' @ json_field ''lease-database''
       (''{ '' @ json_field ''type'' (qt ''memfile'') @ '', '' @ json_field ''persist'' ''false'' @ '', ''
        @ json_field ''name'' (qt path) @ '' }'') @ '',''"

definition kea_pools :: "string \<Rightarrow> string \<Rightarrow> string" where
  "kea_pools p1 p2 =
     ''      '' @ json_field ''pools'' (''[ { '' @ json_field ''pool'' (qt (p1 @ '' - '' @ p2)) @ '' } ]'')"

definition kea_dhcp4_conf :: "string \<Rightarrow> string \<Rightarrow> string \<Rightarrow> string \<Rightarrow> string \<Rightarrow> string" where
  "kea_dhcp4_conf dev prefix p1 p2 lan_v4 = text_lines
     [''{'',
      ''  '' @ json_field ''Dhcp4'' ''{'',
      kea_interfaces dev,
      kea_leases ''/tmp/dhcp4.leases'',
      ''    '' @ json_field ''valid-lifetime'' ''3600,'',
      ''    '' @ json_field ''subnet4'' ''[ {'',
      ''      '' @ json_field ''id'' ''1,'',
      ''      '' @ json_field ''subnet'' (qt prefix @ '',''),
      ''      '' @ json_field ''interface'' (qt dev @ '',''),
      kea_pools p1 p2 @ '','',
      ''      '' @ json_field ''option-data'' ''['',
      ''        { '' @ json_field ''name'' (qt ''routers'') @ '', '' @ json_field ''data'' (qt lan_v4) @ '' },'',
      ''        { '' @ json_field ''name'' (qt ''domain-name-servers'') @ '', '' @ json_field ''data'' (qt lan_v4) @ '' }'',
      ''      ]'',
      ''    } ],'',
      kea_logger ''kea-dhcp4'',
      ''  }'',
      ''}'']"

definition kea_dhcp6_conf :: "string \<Rightarrow> string \<Rightarrow> string \<Rightarrow> string \<Rightarrow> string" where
  "kea_dhcp6_conf dev subnet p1 p2 = text_lines
     [''{'',
      ''  '' @ json_field ''Dhcp6'' ''{'',
      kea_interfaces dev,
      kea_leases ''/tmp/dhcp6.leases'',
      ''    '' @ json_field ''server-id'' (''{ '' @ json_field ''type'' (qt ''LLT'') @ '', '' @ json_field ''persist'' ''false'' @ '' },''),
      ''    '' @ json_field ''subnet6'' ''[ {'',
      ''      '' @ json_field ''id'' ''1,'',
      ''      '' @ json_field ''subnet'' (qt subnet @ '',''),
      ''      '' @ json_field ''interface'' (qt dev @ '',''),
      kea_pools p1 p2,
      ''    } ],'',
      kea_logger ''kea-dhcp6'',
      ''  }'',
      ''}'']"

definition unbound_conf :: "string \<Rightarrow> string \<Rightarrow> string" where
  "unbound_conf lan_v4 prefix = text_lines
     [''server:'', ''  interface: '' @ lan_v4, ''  port: 53'', ''  access-control: '' @ prefix @ '' allow'',
      ''  access-control: 127.0.0.0/8 allow'', ''  local-zone: '' @ qt ''localhost.'' @ '' static'',
      ''  local-data: '' @ qt ''localhost. 10800 IN A 127.0.0.1'', ''  do-daemonize: no'',
      ''  username: '' @ qt [], ''  chroot: '' @ qt [], ''  directory: '' @ qt ''/tmp'',
      ''  pidfile: '' @ qt ''/tmp/unbound.pid'', ''  use-syslog: no'', ''  logfile: /dev/null'']"

section \<open>The routed LAN prefix\<close>

definition dhcp6_file :: "string \<Rightarrow> string \<Rightarrow> string" where
  "dhcp6_file dev k = DHCP6_DIR @ ''/'' @ dev @ ''.'' @ k"

text \<open>\<open>fs::read_to_string(path).ok()\<close> of a file another program writes.\<close>

definition foreign_text :: "'k env \<Rightarrow> string \<Rightarrow> ('k world, string option) state" where
  "foreign_text E path = do {
     r \<leftarrow> asks (foreign_read E path);
     ret (case r of Inl _ \<Rightarrow> None | Inr v \<Rightarrow> v) }"

definition acquired_prefix :: "'k env \<Rightarrow> desired_state \<Rightarrow> ('k world, string option) state" where
  "acquired_prefix E st =
     (case List.find (\<lambda>i. request_pd i \<and> has_role ''wan'' i) (interfaces st) of
        None \<Rightarrow> ret None
      | Some wan \<Rightarrow> do {
          raw \<leftarrow> foreign_text E (dhcp6_file (iface_name wan) ''pd'');
          ret (case raw of
                 None \<Rightarrow> None
               | Some text \<Rightarrow>
                   (let prefix = trim text
                    in if delegated_lan_in prefix = None then None else Some prefix)) })"

definition routed_lan_prefix :: "'k env \<Rightarrow> desired_state \<Rightarrow> ('k world, string option) state" where
  "routed_lan_prefix E st =
     (case static_lan_prefix st of Some pd \<Rightarrow> ret (Some pd) | None \<Rightarrow> acquired_prefix E st)"

text \<open>The routed /64s of the LAN links: the delegated or static one on the first LAN, then
  those of the LANs' own /64 addresses.\<close>

record lan_ipv6_info =
  lan_source :: string
  lan_prefixes :: "(string \<times> u128) list"
  lan_note :: string

definition delegated_network :: "desired_state \<Rightarrow> string option \<Rightarrow> (string \<times> u128) list" where
  "delegated_network st delegated =
     (case (lan_l2 st, Option.bind delegated delegated_lan_in) of
        (Some lan, Some pd) \<Rightarrow>
          (case split_once (CHR ''/'') (subnet_cidr pd) of
             None \<Rightarrow> []
           | Some (network, _) \<Rightarrow>
               (case parse_ipv6 network of None \<Rightarrow> [] | Some n \<Rightarrow> [(iface_name lan, n)]))
      | _ \<Rightarrow> [])"

definition address_network :: "string \<Rightarrow> u128 option" where
  "address_network cidr_text = do {
     (address_text, bits) \<leftarrow> split_once (CHR ''/'') cidr_text;
     address \<leftarrow> parse_ipv6 address_text;
     if bits \<noteq> ''64'' \<or> v6_link_local address \<or> v6_multicast address then None
     else Some (address AND max_shl 64) }"

fun add_networks ::
    "string \<times> (string \<times> u128) list \<Rightarrow> (string \<times> string) list \<Rightarrow> string \<times> (string \<times> u128) list" where
  "add_networks sp [] = sp"
| "add_networks (source, prefixes) ((dev, c) # rest) =
     (case address_network c of
        None \<Rightarrow> add_networks (source, prefixes) rest
      | Some n \<Rightarrow>
          if (dev, n) \<in> set prefixes then add_networks (source, prefixes) rest
          else add_networks (if source = ''none'' then ''interface'' else source, prefixes @ [(dev, n)]) rest)"

definition lan_ipv6 :: "desired_state \<Rightarrow> string option \<Rightarrow> lan_ipv6_info" where
  "lan_ipv6 st delegated =
     (let first = delegated_network st delegated;
          source = (if first = [] then ''none'' else if static_lan_prefix st \<noteq> None then ''static'' else ''delegated'');
          sp = add_networks (source, first)
            (concat (map (\<lambda>i. map (\<lambda>c. (iface_name i, c)) (iface_addresses i))
                       (filter (has_role ''lan'') (interfaces st))))
      in \<lparr> lan_source = fst sp, lan_prefixes = snd sp,
           lan_note = (if snd sp = []
             then ''No delegated or routed IPv6 prefix: the LAN has no global IPv6 and IPv6 is not forwarded. There is no NAT66, NPTv6, or NAT64.''
             else ''IPv6 from the LAN is routed to the WAN without translation.'') \<rparr>)"

definition dhclient6_args :: "iface \<Rightarrow> string list" where
  "dhclient6_args i =
     (if ipv6 i = Some ''dhcpv6'' then [''-N''] else []) @ (if request_pd i then [''-P''] else [])"

definition desired_addresses :: "'k env \<Rightarrow> desired_state \<Rightarrow> ('k world, (string \<times> string) list) state" where
  "desired_addresses E st = do {
     delegated \<leftarrow> (if lan_l2 st = None then ret None else routed_lan_prefix E st);
     ret (concat (map (\<lambda>i. map (\<lambda>c. (iface_name i, c)) (iface_addresses i)) (interfaces st))
          @ concat (map (\<lambda>w. map (\<lambda>c. (wg_name w, c)) (wg_addresses w)) (wireguard st))
          @ (case (lan_l2 st, Option.bind delegated pd_lan_addr) of
               (Some lan, Some pd) \<Rightarrow> [(iface_name lan, pd)]
             | _ \<Rightarrow> [])) }"

end
