(* ===== verification/Live.thy ===== *)
theory Live
  imports Lan_Services Validate
begin

text \<open>
  Programming the live network of a Desired state (\<open>apply\<close> of \<open>src/netd.rs\<close> and the steps it
  runs): links and VLANs, WAN IPv6, WireGuard, routes, queueing disciplines, the LAN
  services' configuration, the ruleset, and the first-boot selection it replaces. The
  programs and their order are the source's; the lemmas show which files a step can change.
\<close>

section \<open>Files\<close>

definition FWOS :: string where "FWOS = ''/var/lib/fwos/''"
definition DESIRED :: string where "DESIRED = FWOS @ ''desired.toml''"
definition APPLY_OPERATION :: string where "APPLY_OPERATION = FWOS @ ''apply-operation.json''"
definition APPLY_PREVIOUS :: string where "APPLY_PREVIOUS = FWOS @ ''apply-previous.toml''"
definition APPLY_ATTRIBUTION :: string where "APPLY_ATTRIBUTION = FWOS @ ''apply-attribution.json''"
definition PREVIOUS_ACCEPTED :: string where "PREVIOUS_ACCEPTED = FWOS @ ''previous-accepted.toml''"
definition PRE_UPDATE_ACCEPTED :: string where "PRE_UPDATE_ACCEPTED = FWOS @ ''pre-update-accepted.toml''"
definition LAN_SERVICES_READY :: string where "LAN_SERVICES_READY = FWOS @ ''lan-services-ready''"
definition LAN_SERVICES_RESULT :: string where "LAN_SERVICES_RESULT = FWOS @ ''lan-services-result''"
definition OPT_FILE :: string where "OPT_FILE = FWOS @ ''first-boot-opt.json''"
definition BOOTSTRAPPED :: string where "BOOTSTRAPPED = FWOS @ ''bootstrapped''"
definition BOOTSTRAP_ATTEMPT :: string where "BOOTSTRAP_ATTEMPT = FWOS @ ''bootstrap-attempt.json''"
definition IDENTITY :: string where "IDENTITY = FWOS @ ''identity.json''"
definition HOSTNAME :: string where "HOSTNAME = FWOS @ ''hostname''"
definition NETWORK_RESTORATION :: string where "NETWORK_RESTORATION = FWOS @ ''pre-update-network-restoration.json''"
definition RESTORE_PRE_UPDATE :: string where "RESTORE_PRE_UPDATE = FWOS @ ''restore-pre-update''"

lemmas path_defs = FWOS_def DESIRED_def APPLY_OPERATION_def APPLY_PREVIOUS_def APPLY_ATTRIBUTION_def
  PREVIOUS_ACCEPTED_def PRE_UPDATE_ACCEPTED_def LAN_SERVICES_READY_def LAN_SERVICES_RESULT_def
  OPT_FILE_def BOOTSTRAPPED_def BOOTSTRAP_ATTEMPT_def IDENTITY_def HOSTNAME_def
  NETWORK_RESTORATION_def RESTORE_PRE_UPDATE_def KEA4_def KEA6_def UNBOUND_def

section \<open>The first-boot selection\<close>

definition load_opt :: "'k env \<Rightarrow> ('k world, first_boot_opt option) state" where
  "load_opt E = do {
     r \<leftarrow> read_text E OPT_FILE;
     ret (case r of
            Inr (Some raw) \<Rightarrow> ok_opt (opt_of_text (codec E) raw)
          | _ \<Rightarrow> None) }"

definition stop_dhclient :: "'k env \<Rightarrow> ('k world, unit) state" where
  "stop_dhclient E = do {
     pid \<leftarrow> foreign_text E (FWOS @ ''dhclient.pid'');
     (case map_option trim pid of
        None \<Rightarrow> ret ()
      | Some p \<Rightarrow> if p = [] then ret ()
                  else do { run_program E [''kill'', ''-TERM'', p] []; ret () });
     asks (foreign_remove E (FWOS @ ''dhclient.pid''));
     ret () }"

definition first_boot_program :: "string \<Rightarrow> string list \<Rightarrow> string" where
  "first_boot_program nic cidrs =
     ''destroy table ip fwos-first-boot'' @ nl @ ''destroy table ip6 fwos-first-boot'' @ nl
     @ ''destroy table inet fwos-first-boot'' @ nl @ first_boot_nft nic (bootstrap_expose_ips cidrs)"

definition program_first_boot_nft :: "'k env \<Rightarrow> string \<Rightarrow> string list \<Rightarrow> ('k, unit) io" where
  "program_first_boot_nft E nic cidrs = nft_apply E (first_boot_program nic cidrs)"

definition teardown_opt :: "'k env \<Rightarrow> first_boot_opt \<Rightarrow> ('k, unit) io" where
  "teardown_opt E opt = do {
     stop_dhclient E;
     seqE (if opt_mode opt = ''slaac''
           then seqE (write_sysctl E (opt_nic opt) ''ipv6'' ''accept_ra'' ''0'')
                     (write_sysctl E (opt_nic opt) ''ipv6'' ''autoconf'' ''0'')
           else okE ())
    (tryE (link_exists E (opt_nic opt)) (\<lambda>there.
     seqE (if there
           then seqE (lock_unopted E (opt_nic opt))
                     (do { run_ip E [''link'', ''set'', opt_nic opt, ''up'']; okE () })
           else okE ())
          (program_first_boot_nft E [] []))) }"

definition suspend_opt :: "'k env \<Rightarrow> ('k, unit) io" where
  "suspend_opt E = do {
     opt \<leftarrow> load_opt E;
     seqE (case opt of Some o' \<Rightarrow> teardown_opt E o' | None \<Rightarrow> okE ())
          (nft_apply E (''destroy table inet fwos-first-boot'' @ nl)) }"

definition discard_opt :: "'k env \<Rightarrow> ('k, unit) io" where
  "discard_opt E = seqE (suspend_opt E) (durable_remove E OPT_FILE)"

section \<open>Links and VLANs\<close>

definition require_in_fwd :: "'k env \<Rightarrow> string \<Rightarrow> ('k, unit) io" where
  "require_in_fwd E name = tryE (link_exists E name) (\<lambda>there.
     if there then okE ()
     else errE (''Traffic NIC '' @ name @ '' is missing from fwd; Network startup preparation is incomplete''))"

definition program_vlan :: "'k env \<Rightarrow> iface \<Rightarrow> ('k, unit) io" where
  "program_vlan E i =
     (case vlan i of
        None \<Rightarrow> okE ()
      | Some vid \<Rightarrow>
          tryE (link_exists E (iface_name i)) (\<lambda>there.
          seqE (if there then okE ()
                else run_ip E [''link'', ''add'', ''link'', fst (l2_key i), ''name'', iface_name i,
                               ''type'', ''vlan'', ''id'', show_nat (unat vid)])
         (seqE (run_ip E [''link'', ''set'', iface_name i, ''up''])
               (forE (add_addr E (iface_name i)) (iface_addresses i)))))"

definition program_vlans :: "'k env \<Rightarrow> desired_state \<Rightarrow> ('k, unit) io" where
  "program_vlans E st = forE (program_vlan E) (interfaces st)"

section \<open>WAN IPv6\<close>

definition dhclient6_running :: "'k env \<Rightarrow> string \<Rightarrow> ('k world, bool) state" where
  "dhclient6_running E dev = do {
     pid \<leftarrow> foreign_text E (dhcp6_file dev ''pid'');
     (case pid of
        None \<Rightarrow> ret False
      | Some p \<Rightarrow> do {
          cmdline \<leftarrow> foreign_text E (''/proc/'' @ trim p @ ''/cmdline'');
          ret (case cmdline of None \<Rightarrow> False | Some c \<Rightarrow> contains_str ''dhclient'' c) }) }"

definition stop_dhclient6 :: "'k env \<Rightarrow> string \<Rightarrow> ('k world, unit) state" where
  "stop_dhclient6 E dev = do {
     running \<leftarrow> dhclient6_running E dev;
     (if running
      then do {
        pid \<leftarrow> foreign_text E (dhcp6_file dev ''pid'');
        (case pid of
           None \<Rightarrow> ret ()
         | Some p \<Rightarrow> do { run_program E [''kill'', ''-TERM'', trim p] []; ret () }) }
      else ret ());
     leased \<leftarrow> foreign_text E (dhcp6_file dev ''addr'');
     (case leased of
        None \<Rightarrow> ret ()
      | Some c \<Rightarrow> do { run_ip E [''-6'', ''addr'', ''del'', trim c, ''dev'', dev]; ret () });
     collect (\<lambda>k. do { asks (foreign_remove E (dhcp6_file dev k)); ret ([] :: unit list) })
       [''pid'', ''args'', ''pd'', ''addr'', ''dns''];
     ret () }"

text \<open>Five seconds in steps of 200 ms at least: 25 rounds reach the deadline.\<close>

fun wait_link_local_rounds :: "'k env \<Rightarrow> string \<Rightarrow> nat \<Rightarrow> ('k world, unit) state" where
  "wait_link_local_rounds E dev 0 = ret ()"
| "wait_link_local_rounds E dev (Suc n) = do {
     passed \<leftarrow> asks (deadline_passed E);
     (if passed then ret ()
      else do {
        r \<leftarrow> run_program E [''ip'', ''-6'', ''-o'', ''addr'', ''show'', ''dev'', dev, ''scope'', ''link'', ''-tentative''] [];
        (if exec_error r = None \<and> stdout r \<noteq> [] then ret () else wait_link_local_rounds E dev n) }) }"

definition wait_link_local :: "'k env \<Rightarrow> string \<Rightarrow> ('k world, unit) state" where
  "wait_link_local E dev = wait_link_local_rounds E dev 25"

definition script_var :: "string \<Rightarrow> string" where
  "script_var v = ''${'' @ v @ ''}''"

definition sq :: string where "sq = [CHR 0x27]"

definition dhclient6_script_in :: "string \<Rightarrow> string" where
  "dhclient6_script_in dir =
     (let v = script_var; q = (\<lambda>s. qt s);
          new_addr = v ''new_ip6_address'' @ ''/'' @ v ''new_ip6_prefixlen'';
          old_addr = v ''old_ip6_address'' @ ''/'' @ v ''old_ip6_prefixlen''
      in text_lines
     [''#!/bin/sh'', ''PATH=/usr/sbin:/usr/bin:/sbin:/bin'', ''set -f'',
      ''pd='' @ q (dir @ ''/'' @ v ''interface'' @ ''.pd''),
      ''addr='' @ q (dir @ ''/'' @ v ''interface'' @ ''.addr''),
      ''dns='' @ q (dir @ ''/'' @ v ''interface'' @ ''.dns''),
      ''case '' @ q (v ''reason'') @ '' in'',
      ''BOUND6|RENEW6|REBIND6|REBOOT6)'',
      ''  if [ -n '' @ q (v ''new_ip6_address'') @ '' ] && [ -n '' @ q (v ''new_ip6_prefixlen'') @ '' ]; then'',
      ''    if [ -n '' @ q (v ''old_ip6_address'') @ '' ] && [ '' @ q (v ''old_ip6_address'') @ '' != ''
        @ q (v ''new_ip6_address'') @ '' ]; then'',
      ''      ip -6 addr del '' @ q old_addr @ '' dev '' @ q (v ''interface''),
      ''    fi'',
      ''    ip -6 addr replace '' @ q new_addr @ '' dev '' @ q (v ''interface''),
      ''    printf '' @ sq @ ''%s'' @ [CHR 0x5C, CHR ''n''] @ sq @ '' '' @ q new_addr @ '' > '' @ q (v ''addr'' @ ''.tmp'')
        @ '' && mv -f '' @ q (v ''addr'' @ ''.tmp'') @ '' '' @ q (v ''addr''),
      ''  fi'',
      ''  if [ -n '' @ q (v ''new_ip6_prefix'') @ '' ]; then'',
      ''    printf '' @ sq @ ''%s'' @ nl @ sq @ '' '' @ q (v ''new_ip6_prefix'') @ '' > '' @ q (v ''pd'' @ ''.tmp'')
        @ '' && mv -f '' @ q (v ''pd'' @ ''.tmp'') @ '' '' @ q (v ''pd''),
      ''  fi'',
      ''  for server in '' @ v ''new_dhcp6_name_servers'' @ ''; do'',
      ''    case '' @ q (v ''server'') @ '' in'',
      ''    *[!0-9A-Fa-f:.]*) ;;'',
      ''    *:*) printf '' @ sq @ ''nameserver %s'' @ [CHR 0x5C, CHR ''n''] @ sq @ '' '' @ q (v ''server'') @ '' ;;'',
      ''    esac'',
      ''  done > '' @ q (v ''dns'' @ ''.$$'') @ '' && mv -f '' @ q (v ''dns'' @ ''.$$'') @ '' '' @ q (v ''dns''),
      ''  ;;'',
      ''EXPIRE6|RELEASE6|STOP6)'',
      ''  if [ -n '' @ q (v ''old_ip6_address'') @ '' ]; then'',
      ''    ip -6 addr del '' @ q old_addr @ '' dev '' @ q (v ''interface''),
      ''    rm -f '' @ q (v ''addr''),
      ''  fi'',
      ''  if [ -n '' @ q (v ''old_ip6_prefix'') @ '' ]; then'',
      ''    rm -f '' @ q (v ''pd''),
      ''  fi'',
      ''  rm -f '' @ q (v ''dns''),
      ''  ;;'', ''esac'', ''exit 0''])"

definition write_dhclient6_script :: "'k env \<Rightarrow> ('k, unit) io" where
  "write_dhclient6_script E =
     (let path = DHCP6_DIR @ ''/dhclient6-script'' in
      seqE (map_err (\<lambda>e. ''write dhclient6-script: '' @ e)
              (asks (foreign_write E path (dhclient6_script_in DHCP6_DIR))))
           (map_err (\<lambda>e. ''chmod dhclient6-script: '' @ e) (simple_op E (Chmod path))))"

definition start_dhclient6 :: "'k env \<Rightarrow> string \<Rightarrow> string list \<Rightarrow> ('k, unit) io" where
  "start_dhclient6 E dev modes = do {
     running \<leftarrow> dhclient6_running E dev;
     recorded \<leftarrow> (if running then foreign_text E (dhcp6_file dev ''args'') else ret None);
     (if running \<and> recorded = Some (join_with '' '' modes) then okE ()
      else do {
        stop_dhclient6 E dev;
        seqE (write_dhclient6_script E) (do {
          wait_link_local E dev;
          tryE (output_of E ([''dhclient'', ''-6'', ''-nw''] @ modes
                  @ [''-sf'', DHCP6_DIR @ ''/dhclient6-script'', ''-lf'', dhcp6_file dev ''leases'',
                     ''-pf'', dhcp6_file dev ''pid'', dev]) ''dhclient -6: '') (\<lambda>r.
            if ok r
            then map_err (\<lambda>e. ''record DHCPv6 on '' @ dev @ '': '' @ e)
                   (asks (foreign_write E (dhcp6_file dev ''args'') (join_with '' '' modes)))
            else errE (''DHCPv6 on '' @ dev @ '' failed: '' @ trim (stderr r))) }) }) }"

definition program_wan :: "'k env \<Rightarrow> iface \<Rightarrow> ('k, unit) io" where
  "program_wan E i =
     (let dev = iface_name i; mode = ipv6 i in
      seqE (write_sysctl E dev ''ipv6'' ''accept_ra'' (if mode \<noteq> None then ''2'' else ''0''))
     (seqE (write_sysctl E dev ''ipv6'' ''autoconf'' (if mode = Some ''slaac'' then ''1'' else ''0''))
     (seqE (if mode = None then run_ip E [''-6'', ''route'', ''flush'', ''dev'', dev, ''proto'', ''ra''] else okE ())
     (seqE (if mode \<noteq> Some ''slaac''
            then run_ip E [''-6'', ''addr'', ''flush'', ''dev'', dev, ''scope'', ''global'', ''dynamic'']
            else okE ())
           (if dhclient6_args i = [] then okE () else start_dhclient6 E dev (dhclient6_args i))))))"

definition strip_suffix :: "string \<Rightarrow> string \<Rightarrow> string option" where
  "strip_suffix suffix s = map_option rev (strip_prefix (rev suffix) (rev s))"

definition program_wan_ipv6 :: "'k env \<Rightarrow> desired_state \<Rightarrow> ('k, unit) io" where
  "program_wan_ipv6 E st =
     (let wans = filter (has_role ''wan'') (interfaces st);
          wanted = map iface_name (filter (\<lambda>i. dhclient6_args i \<noteq> []) wans) in
      seqE (map_err (\<lambda>e. ''mkdir '' @ DHCP6_DIR @ '': '' @ e) (simple_op E (Make_dir DHCP6_DIR)))
     (seqE (forE (program_wan E) wans)
     (tryE (map_err (\<lambda>e. ''read '' @ DHCP6_DIR @ '': '' @ e) (asks (foreign_dir E DHCP6_DIR))) (\<lambda>names. do {
        collect (\<lambda>name. (case strip_suffix ''.pid'' name of
                           Some dev \<Rightarrow> if dev \<in> set wanted then ret ([] :: unit list)
                                       else do { stop_dhclient6 E dev; ret [] }
                         | None \<Rightarrow> ret [])) names;
        okE () }))))"

section \<open>Tunnels, routes, queueing disciplines\<close>

definition wg_set :: "'k env \<Rightarrow> wg \<Rightarrow> ('k, unit) io" where
  "wg_set E w = do {
     r \<leftarrow> run_program E ([''wg'', ''set'', wg_name w, ''private-key'', ''/dev/stdin'']
            @ (case listen_port w of None \<Rightarrow> [] | Some p \<Rightarrow> [''listen-port'', show_nat (unat p)])) (private_key w);
     ret (case r of
            Spawn_failed e \<Rightarrow> Inl (''wg: '' @ e)
          | Input_failed e \<Rightarrow> Inl (''wg write: '' @ e)
          | Wait_failed e \<Rightarrow> Inl (''wg wait: '' @ e)
          | Exited success st _ _ \<Rightarrow>
              if success then Inr () else Inl (''wg set '' @ wg_name w @ '' failed ('' @ st @ '')'')) }"

definition program_tunnel :: "'k env \<Rightarrow> wg \<Rightarrow> ('k, unit) io" where
  "program_tunnel E w =
     tryE (link_exists E (wg_name w)) (\<lambda>there.
     seqE (if there then okE () else run_ip E [''link'', ''add'', wg_name w, ''type'', ''wireguard''])
    (seqE (wg_set E w)
    (seqE (run_ip E [''link'', ''set'', wg_name w, ''up''])
          (forE (add_addr E (wg_name w)) (wg_addresses w)))))"

definition program_wg :: "'k env \<Rightarrow> desired_state \<Rightarrow> ('k, unit) io" where
  "program_wg E st = forE (program_tunnel E) (wireguard st)"

definition route_args :: "string \<Rightarrow> static_route \<Rightarrow> string list" where
  "route_args verb r =
     [if CHR '':'' \<in> set (route_to r) then ''-6'' else ''-4'', ''route'', verb, route_to r, ''via'', via r]
     @ (case route_dev r of None \<Rightarrow> [] | Some dev \<Rightarrow> [''dev'', dev])"

definition program_routes :: "'k env \<Rightarrow> desired_state \<Rightarrow> ('k, unit) io" where
  "program_routes E st = forE (\<lambda>r. run_ip E (route_args ''replace'' r)) (routes st)"

text \<open>The routes of \<open>old\<close> whose destination \<open>new\<close> no longer has; one that is not there is no
  error.\<close>

definition remove_stale_route :: "'k env \<Rightarrow> static_route \<Rightarrow> ('k, unit) io" where
  "remove_stale_route E r = do {
     result \<leftarrow> run_ip E (route_args ''del'' r);
     ret (case result of
            Inl e \<Rightarrow> if contains_str ''No such process'' e then Inr () else Inl e
          | Inr u \<Rightarrow> Inr u) }"

definition stale_routes :: "desired_state \<Rightarrow> desired_state \<Rightarrow> static_route list" where
  "stale_routes old new =
     filter (\<lambda>r. \<not> (\<exists>n \<in> set (routes new). route_to n = route_to r)) (routes old)"

definition remove_stale_routes :: "'k env \<Rightarrow> desired_state \<Rightarrow> desired_state \<Rightarrow> ('k, unit) io" where
  "remove_stale_routes E old new = forE (remove_stale_route E) (stale_routes old new)"

definition program_qdisc :: "'k env \<Rightarrow> qdisc \<Rightarrow> ('k, unit) io" where
  "program_qdisc E q =
     tryE (output_of E [''tc'', ''qdisc'', ''replace'', ''dev'', qdisc_dev q, ''root'', kind q] ''tc qdisc: '')
       (\<lambda>r. if ok r then okE ()
            else errE (''tc qdisc replace dev '' @ qdisc_dev q @ '' root '' @ kind q @ '' failed: '' @ trim (stderr r)))"

definition program_qdiscs :: "'k env \<Rightarrow> desired_state \<Rightarrow> ('k, unit) io" where
  "program_qdiscs E st = forE (program_qdisc E) (qdiscs st)"

section \<open>LAN services\<close>

definition remove_lan_service_configs :: "'k env \<Rightarrow> ('k, unit) io" where
  "remove_lan_service_configs E = forE (durable_remove E) [KEA4, KEA6, UNBOUND]"

definition write_kea_dhcp6 :: "'k env \<Rightarrow> string \<Rightarrow> string option \<Rightarrow> ('k, unit) io" where
  "write_kea_dhcp6 E lan delegated =
     (case (Option.bind delegated pd_subnet64, Option.bind delegated pd_pool) of
        (Some v6_sub, Some (v6p1, v6p2)) \<Rightarrow>
          map_err (\<lambda>e. ''write kea-dhcp6: '' @ e) (overwrite E KEA6 (kea_dhcp6_conf lan v6_sub v6p1 v6p2))
      | _ \<Rightarrow> durable_remove E KEA6)"

definition write_lan_v4_services ::
    "'k env \<Rightarrow> string \<Rightarrow> string option \<Rightarrow> string option \<Rightarrow> string option \<Rightarrow> ('k, unit) io" where
  "write_lan_v4_services E lan prefix lan_v4 pool =
     (case (prefix, lan_v4, pool) of
        (Some p, Some v4, Some pl) \<Rightarrow>
          (case split_pool pl of (p1, p2) \<Rightarrow>
             seqE (map_err (\<lambda>e. ''write kea-dhcp4: '' @ e) (overwrite E KEA4 (kea_dhcp4_conf lan p p1 p2 v4)))
                  (map_err (\<lambda>e. ''write unbound: '' @ e) (overwrite E UNBOUND (unbound_conf v4 p))))
      | _ \<Rightarrow> seqE (durable_remove E KEA4) (durable_remove E UNBOUND))"

definition program_lan_services :: "'k env \<Rightarrow> desired_state \<Rightarrow> bool \<Rightarrow> ('k, unit) io" where
  "program_lan_services E st publish =
     (case lan_l2 st of
        None \<Rightarrow> if publish then remove_lan_service_configs E else okE ()
      | Some lan \<Rightarrow> do {
          delegated \<leftarrow> routed_lan_prefix E st;
          seqE (case Option.bind delegated pd_lan_addr of
                  Some v6 \<Rightarrow> add_addr E (iface_name lan) v6 | None \<Rightarrow> okE ())
         (tryE (case lan_v4_prefix st of
                  None \<Rightarrow> okE None
                | Some prefix \<Rightarrow>
                    tryE (liftE (ok_or (first_v4_host prefix) ''lan_prefix has no v4 host'')) (\<lambda>lan_v4.
                    seqE (add_addr E (iface_name lan) (lan_v4 @ ''/'' @ prefix_len_text prefix))
                         (okE (Some lan_v4)))) (\<lambda>lan_v4.
          if \<not> publish then okE ()
          else
            seqE (map_err (\<lambda>e. ''mkdir kea: '' @ e) (simple_op E (Make_dir ''/var/lib/fwos/kea'')))
           (seqE (map_err (\<lambda>e. ''mkdir unbound: '' @ e) (simple_op E (Make_dir ''/var/lib/fwos/unbound'')))
           (seqE (write_lan_v4_services E (iface_name lan) (lan_v4_prefix st) lan_v4 (dhcp_pool st))
                 (write_kea_dhcp6 E (iface_name lan) delegated))))) })"

section \<open>Applying a state\<close>

text \<open>\<open>nft_rules\<close> reads netd's flag.\<close>

definition nft_rules :: "desired_state \<Rightarrow> ('k world, string) state" where
  "nft_rules st = gets (\<lambda>w. nft_rules_with_recovery_guard st (recovery_required w))"

definition program_nft :: "'k env \<Rightarrow> desired_state \<Rightarrow> ('k, unit) io" where
  "program_nft E st = do { rules \<leftarrow> nft_rules st; nft_apply E rules }"

text \<open>The live IPv4 addresses of the untagged LAN and exposed links: an interface with none
  configured takes them over, and they are set again after the first-boot selection is gone.\<close>

definition captured :: "desired_state \<Rightarrow> iface \<Rightarrow> bool" where
  "captured st i \<longleftrightarrow>
     (\<exists>j \<in> set (interfaces st). vlan j = None \<and> (exposes_ui st (iface_name j) \<or> has_role ''lan'' j)
        \<and> iface_name j = iface_name i)"

definition capture_iface ::
    "'k env \<Rightarrow> desired_state \<Rightarrow> iface \<Rightarrow> ('k world, iface \<times> (string \<times> string list) list) state" where
  "capture_iface E st i =
     (if \<not> captured st i then ret (i, [])
      else do {
        r \<leftarrow> capture_ipv4 E (iface_name i);
        ret (case r of
               Inl _ \<Rightarrow> (i, [])
             | Inr (addrs, _) \<Rightarrow>
                 if addrs = [] then (i, [(iface_name i, iface_addresses i)])
                 else ((if iface_addresses i = [] then i\<lparr>iface_addresses := addrs\<rparr> else i),
                       [(iface_name i, addrs)])) })"

fun capture_ifaces ::
    "'k env \<Rightarrow> desired_state \<Rightarrow> iface list \<Rightarrow> ('k world, iface list \<times> (string \<times> string list) list) state" where
  "capture_ifaces E st [] = ret ([], [])"
| "capture_ifaces E st (i # is) = do {
     (j, saved) \<leftarrow> capture_iface E st i;
     (js, more) \<leftarrow> capture_ifaces E st is;
     ret (j # js, saved @ more) }"

definition program_link :: "'k env \<Rightarrow> (string \<times> string list) list \<Rightarrow> iface \<Rightarrow> ('k, unit) io" where
  "program_link E saved i =
     (if vlan i \<noteq> None then okE ()
      else
        seqE (require_in_fwd E (iface_name i))
       (seqE (run_ip E [''link'', ''set'', iface_name i, ''up''])
             (forE (add_addr E (iface_name i))
                ((case map_of saved (iface_name i) of None \<Rightarrow> [] | Some a \<Rightarrow> a) @ iface_addresses i))))"

definition program_state :: "'k env \<Rightarrow> desired_state \<Rightarrow> (string \<times> string list) list \<Rightarrow> ('k, unit) io" where
  "program_state E st saved =
     seqE (forE (program_link E saved) (interfaces st))
    (seqE (program_vlans E st)
    (seqE (program_wan_ipv6 E st)
    (seqE (program_wg E st)
    (seqE (program_routes E st)
    (seqE (program_qdiscs E st)
    (seqE (do { booted \<leftarrow> file_exists BOOTSTRAPPED; program_lan_services E st booted })
          (program_nft E st)))))))"

text \<open>\<open>apply(&mut state)\<close> returns the state it leaves and the result.\<close>

definition apply_state :: "'k env \<Rightarrow> desired_state \<Rightarrow> ('k world, desired_state \<times> unit res) state" where
  "apply_state E st =
     (case validate (base64 (codec E)) st of
        Inl e \<Rightarrow> ret (st, Inl e)
      | Inr _ \<Rightarrow> do {
          (ifs, saved) \<leftarrow> capture_ifaces E st (interfaces st);
          (let st' = merge_lan_prefix_addr (st\<lparr>interfaces := ifs\<rparr>) in do {
             r \<leftarrow> seqE (do { booted \<leftarrow> file_exists BOOTSTRAPPED;
                             if booted then discard_opt E else suspend_opt E })
                       (program_state E st' saved);
             ret (st', r) }) })"

section \<open>What applying leaves alone\<close>

text \<open>The files \<open>apply\<close> and its steps write: the services' configuration and the first-boot
  selection. Every other lasting file keeps its contents throughout.\<close>

definition apart_from_apply :: "string set \<Rightarrow> bool" where
  "apart_from_apply S \<longleftrightarrow> lasting S \<and> KEA4 \<notin> S \<and> KEA6 \<notin> S \<and> UNBOUND \<notin> S \<and> OPT_FILE \<notin> S"

lemma same_foreign_text: "keeps (same_on S) (foreign_text E path)"
  unfolding foreign_text_def by (intro same.keeps_rules same_asks)

lemma same_load_opt: "keeps (same_on S) (load_opt E)"
  unfolding load_opt_def by (intro same.keeps_rules same_ops)

lemma same_stop_dhclient: "keeps (same_on S) (stop_dhclient E)"
  unfolding stop_dhclient_def by (intro same.keeps_rules same_ops same_foreign_text)

lemma same_program_first_boot_nft: "keeps (same_on S) (program_first_boot_nft E nic cidrs)"
  unfolding program_first_boot_nft_def by (rule same_nft_apply)

lemma same_teardown_opt: "keeps (same_on S) (teardown_opt E opt)"
  unfolding teardown_opt_def
  by (intro same.keeps_rules same_ops same_stop_dhclient same_program_first_boot_nft)

lemma same_suspend_opt: "keeps (same_on S) (suspend_opt E)"
  unfolding suspend_opt_def by (intro same.keeps_rules same_ops same_load_opt same_teardown_opt)

lemma same_discard_opt: "apart_from_apply S \<Longrightarrow> keeps (same_on S) (discard_opt E)"
  unfolding discard_opt_def apart_from_apply_def
  by (intro same.keeps_rules same_suspend_opt same_durable_remove) auto

lemma same_require_in_fwd: "keeps (same_on S) (require_in_fwd E name)"
  unfolding require_in_fwd_def by (intro same.keeps_rules same_ops)

lemma same_program_vlans: "keeps (same_on S) (program_vlans E st)"
  unfolding program_vlans_def program_vlan_def by (intro same.keeps_rules same_ops)

lemma same_dhclient6_running: "keeps (same_on S) (dhclient6_running E dev)"
  unfolding dhclient6_running_def by (intro same.keeps_rules same_foreign_text)

lemma same_stop_dhclient6: "keeps (same_on S) (stop_dhclient6 E dev)"
  unfolding stop_dhclient6_def
  by (intro same.keeps_rules same_ops same_foreign_text same_dhclient6_running)

lemma same_wait_link_local: "keeps (same_on S) (wait_link_local E dev)"
proof -
  have "keeps (same_on S) (wait_link_local_rounds E dev n)" for n
    by (induction n) (auto intro!: same.keeps_rules same_ops simp del: bind_left_identity)
  then show ?thesis by (simp add: wait_link_local_def)
qed

lemma same_start_dhclient6: "keeps (same_on S) (start_dhclient6 E dev modes)"
  unfolding start_dhclient6_def write_dhclient6_script_def Let_def
  by (intro same.keeps_rules same_ops same_foreign_text same_dhclient6_running
      same_stop_dhclient6 same_wait_link_local)

lemma same_program_wan_ipv6: "keeps (same_on S) (program_wan_ipv6 E st)"
  unfolding program_wan_ipv6_def program_wan_def Let_def
  by (intro same.keeps_rules same_ops same_start_dhclient6 same_stop_dhclient6)

lemma same_program_wg: "keeps (same_on S) (program_wg E st)"
  unfolding program_wg_def program_tunnel_def wg_set_def by (intro same.keeps_rules same_ops)

lemma same_program_routes: "keeps (same_on S) (program_routes E st)"
  unfolding program_routes_def by (intro same.keeps_rules same_ops)

lemma same_remove_stale_routes: "keeps (same_on S) (remove_stale_routes E old new)"
  unfolding remove_stale_routes_def remove_stale_route_def by (intro same.keeps_rules same_ops)

lemma same_program_qdiscs: "keeps (same_on S) (program_qdiscs E st)"
  unfolding program_qdiscs_def program_qdisc_def by (intro same.keeps_rules same_ops)

lemma same_routed_lan_prefix: "keeps (same_on S) (routed_lan_prefix E st)"
  unfolding routed_lan_prefix_def acquired_prefix_def
  by (intro same.keeps_rules same_foreign_text)

lemma same_program_lan_services:
  assumes "apart_from_apply S"
  shows "keeps (same_on S) (program_lan_services E st publish)"
proof -
  have remove: "keeps (same_on S) (durable_remove E p)" if "p \<in> {KEA4, KEA6, UNBOUND}" for p
    using assms that by (auto simp: apart_from_apply_def intro: same_durable_remove)
  have rewrite: "keeps (same_on S) (overwrite E p b)" if "p \<in> {KEA4, KEA6, UNBOUND}" for p b
    using assms that by (auto simp: apart_from_apply_def intro: same_overwrite)
  show ?thesis
    unfolding program_lan_services_def write_lan_v4_services_def write_kea_dhcp6_def
      remove_lan_service_configs_def forE.simps
    by (intro same.keeps_rules same_ops same_routed_lan_prefix remove rewrite) simp_all
qed

lemma same_program_nft: "keeps (same_on S) (program_nft E st)"
  unfolding program_nft_def nft_rules_def by (intro same.keeps_rules same_ops)

lemma same_capture_ifaces: "keeps (same_on S) (capture_ifaces E st ifs)"
proof -
  have "keeps (same_on S) (capture_iface E st i)" for i
    unfolding capture_iface_def by (intro same.keeps_rules same_ops)
  then show ?thesis
    by (induction ifs) (auto intro!: same.keeps_rules)
qed

lemma same_program_state:
  "apart_from_apply S \<Longrightarrow> keeps (same_on S) (program_state E st saved)"
  unfolding program_state_def program_link_def
  by (intro same.keeps_rules same_ops same_require_in_fwd same_program_vlans same_program_wan_ipv6
      same_program_wg same_program_routes same_program_qdiscs same_program_lan_services same_program_nft)

lemma same_apply_state: "apart_from_apply S \<Longrightarrow> keeps (same_on S) (apply_state E st)"
  unfolding apply_state_def Let_def
  by (intro same.keeps_rules same_ops same_capture_ifaces same_discard_opt same_suspend_opt
      same_program_state)

text \<open>Applying changes addresses of interfaces at most.\<close>

definition only_addresses :: "desired_state \<Rightarrow> desired_state \<Rightarrow> bool" where
  "only_addresses st st' \<longleftrightarrow>
     st' = st\<lparr>interfaces := interfaces st'\<rparr>
     \<and> map (\<lambda>i. i\<lparr>iface_addresses := []\<rparr>) (interfaces st')
       = map (\<lambda>i. i\<lparr>iface_addresses := []\<rparr>) (interfaces st)"

lemma only_addresses_refl [simp]: "only_addresses st st"
  by (simp add: only_addresses_def)

lemma only_addresses_trans:
  "only_addresses a b \<Longrightarrow> only_addresses b c \<Longrightarrow> only_addresses a c"
  unfolding only_addresses_def by (metis desired_state.surjective desired_state.update_convs(2))

lemma only_addresses_fields:
  assumes "only_addresses st st'"
  shows "revision st' = revision st" and "routes st' = routes st" and "wireguard st' = wireguard st"
    and "apply_confirmation st' = apply_confirmation st" and "ui_exposure st' = ui_exposure st"
  using assms unfolding only_addresses_def by (metis desired_state.ext_inject desired_state.surjective
      desired_state.update_convs(2))+

lemma capture_iface_erase:
  "run_state (capture_iface E st i) w = ((j, saved), w') \<Longrightarrow>
   j\<lparr>iface_addresses := []\<rparr> = i\<lparr>iface_addresses := []\<rparr>"
  by (auto simp: capture_iface_def split: if_splits prod.splits sum.splits)

lemma capture_ifaces_erase:
  "run_state (capture_ifaces E st ifs) w = ((js, saved), w') \<Longrightarrow>
   map (\<lambda>i. i\<lparr>iface_addresses := []\<rparr>) js = map (\<lambda>i. i\<lparr>iface_addresses := []\<rparr>) ifs"
  by (induction ifs arbitrary: js saved w w')
    (auto split: prod.splits dest!: capture_iface_erase)

lemma merge_only_addresses: "only_addresses st (merge_lan_prefix_addr st)"
  unfolding merge_lan_prefix_addr_def only_addresses_def Let_def
  by (cases "lan_v4_prefix st"; cases "first_v4_host (the (lan_v4_prefix st))")
    (auto intro!: update_first_map)

lemma apply_state_only_addresses:
  assumes "run_state (apply_state E st) w = ((st', r), w')"
  shows "only_addresses st st'"
proof (cases "validate (base64 (codec E)) st")
  case (Inl e)
  then show ?thesis using assms by (simp add: apply_state_def)
next
  case (Inr u)
  obtain ifs saved w1 where c: "run_state (capture_ifaces E st (interfaces st)) w = ((ifs, saved), w1)"
    by (metis surj_pair)
  have "only_addresses st (st\<lparr>interfaces := ifs\<rparr>)"
    using capture_ifaces_erase [OF c] by (simp add: only_addresses_def)
  moreover have "st' = merge_lan_prefix_addr (st\<lparr>interfaces := ifs\<rparr>)"
    using assms Inr c by (auto simp: apply_state_def Let_def split: prod.splits)
  ultimately show ?thesis
    using only_addresses_trans merge_only_addresses by metis
qed

end
