(* ===== verification/Serde.thy ===== *)
theory Serde
  imports Records Ip
begin

text \<open>
  What \<open>#[derive(Serialize, Deserialize)]\<close> makes of a struct, as \<open>serde_json\<close> values: the
  readers of the field types, and the visitor of a struct, which takes an object key by key
  (an unknown key is an error where the struct denies them) or an array field by field.
  \<open>json_codec\<close> is the contract of a type that is written and read back.
\<close>

section \<open>Messages\<close>

text \<open>\<open>char::escape_debug\<close> and \<open>{:?}\<close> of a string\<close>

definition escape_debug :: "char \<Rightarrow> string" where
  "escape_debug c =
     (if c = CHR 0x22 \<or> c = CHR 0x5C then [CHR 0x5C, c]
      else if c = CHR 0x0A then [CHR 0x5C, CHR ''n'']
      else if c = CHR 0x0D then [CHR 0x5C, CHR ''r'']
      else if c = CHR 0x09 then [CHR 0x5C, CHR ''t'']
      else if c = CHR 0x00 then [CHR 0x5C, CHR ''0'']
      else if ascii_control c then [CHR 0x5C] @ ''u{'' @ show_hex (byte c) @ ''}''
      else [c])"

definition debug_str :: "string \<Rightarrow> string" where
  "debug_str s = [CHR 0x22] @ concat (map escape_debug s) @ [CHR 0x22]"

definition unexpected :: "json \<Rightarrow> string" where
  "unexpected v =
     (case v of
        JNull \<Rightarrow> ''null''
      | JBool b \<Rightarrow> ''boolean `'' @ (if b then ''true'' else ''false'') @ ''`''
      | JNum n \<Rightarrow> ''integer `'' @ show_nat n @ ''`''
      | JStr s \<Rightarrow> ''string '' @ debug_str s
      | JArr _ \<Rightarrow> ''sequence''
      | JObj _ \<Rightarrow> ''map'')"

definition invalid_type :: "json \<Rightarrow> string \<Rightarrow> 'a res" where
  "invalid_type v expected = Inl (''invalid type: '' @ unexpected v @ '', expected '' @ expected)"

section \<open>Values\<close>

type_synonym 'a json_reader = "json \<Rightarrow> 'a res"

definition read_str :: "string json_reader" where
  "read_str v = (case v of JStr s \<Rightarrow> Inr s | _ \<Rightarrow> invalid_type v ''a string'')"

definition read_bool :: "bool json_reader" where
  "read_bool v = (case v of JBool b \<Rightarrow> Inr b | _ \<Rightarrow> invalid_type v ''a boolean'')"

definition read_uint :: "nat \<Rightarrow> string \<Rightarrow> ('w::len) word json_reader" where
  "read_uint bound name v =
     (case v of
        JNum n \<Rightarrow> if n < bound then Inr (of_nat n)
                  else Inl (''invalid value: '' @ unexpected v @ '', expected '' @ name)
      | _ \<Rightarrow> invalid_type v name)"

definition read_u16 :: "u16 json_reader" where
  "read_u16 = read_uint 65536 ''u16''"

definition read_u64 :: "u64 json_reader" where
  "read_u64 = read_uint 18446744073709551616 ''u64''"

definition write_u16 :: "u16 \<Rightarrow> json" where
  "write_u16 n = JNum (unat n)"

fun mapE :: "('a \<Rightarrow> 'e + 'b) \<Rightarrow> 'a list \<Rightarrow> 'e + 'b list" where
  "mapE f [] = Inr []"
| "mapE f (x # xs) = bindE (f x) (\<lambda>y. bindE (mapE f xs) (\<lambda>ys. Inr (y # ys)))"

definition read_vec :: "'a json_reader \<Rightarrow> 'a list json_reader" where
  "read_vec r v = (case v of JArr xs \<Rightarrow> mapE r xs | _ \<Rightarrow> invalid_type v ''a sequence'')"

definition read_option :: "'a json_reader \<Rightarrow> 'a option json_reader" where
  "read_option r v = (if v = JNull then Inr None else bindE (r v) (\<lambda>a. Inr (Some a)))"

section \<open>Structs\<close>

text \<open>One check per field, in the order of the struct: the error of its reader.\<close>

type_synonym field_check = "string \<times> (json \<Rightarrow> string option)"

definition checks :: "'a json_reader \<Rightarrow> json \<Rightarrow> string option" where
  "checks r v = (case r v of Inl e \<Rightarrow> Some e | Inr _ \<Rightarrow> None)"

definition backquoted :: "string \<Rightarrow> string" where
  "backquoted s = ''`'' @ s @ ''`''"

text \<open>\<open>serde::de::Error::unknown_field\<close>\<close>

fun comma_separated :: "string list \<Rightarrow> string" where
  "comma_separated [] = []"
| "comma_separated [s] = s"
| "comma_separated (s # ss) = s @ '', '' @ comma_separated ss"

definition unknown_field :: "string \<Rightarrow> string list \<Rightarrow> string" where
  "unknown_field key names =
     ''unknown field '' @ backquoted key
     @ (case names of
          [] \<Rightarrow> '', there are no fields''
        | [a] \<Rightarrow> '', expected '' @ backquoted a
        | [a, b] \<Rightarrow> '', expected '' @ backquoted a @ '' or '' @ backquoted b
        | _ \<Rightarrow> '', expected one of '' @ comma_separated (map backquoted names))"

fun visit_fields :: "bool \<Rightarrow> field_check list \<Rightarrow> (string \<times> json) list \<Rightarrow> unit res" where
  "visit_fields deny fs [] = Inr ()"
| "visit_fields deny fs ((key, v) # kvs) =
     (case map_of fs key of
        None \<Rightarrow> if deny then Inl (unknown_field key (map fst fs)) else visit_fields deny fs kvs
      | Some check \<Rightarrow> (case check v of Some e \<Rightarrow> Inl e | None \<Rightarrow> visit_fields deny fs kvs))"

text \<open>What is left to build the struct from: its fields, and the error of an absent one.\<close>

type_synonym visited = "(string \<times> json) list \<times> (string \<Rightarrow> string)"

definition visit_struct :: "bool \<Rightarrow> string \<Rightarrow> field_check list \<Rightarrow> json \<Rightarrow> visited res" where
  "visit_struct deny name fs v =
     (case v of
        JObj kvs \<Rightarrow> bindE (visit_fields deny fs kvs) (\<lambda>_. Inr (kvs, \<lambda>n. ''missing field '' @ backquoted n))
      | JArr xs \<Rightarrow>
          (let kvs = zip (map fst fs) xs in
           bindE (visit_fields True fs kvs) (\<lambda>_.
             if length fs < length xs
             then Inl (''invalid length '' @ show_nat (length xs) @ '', expected fewer elements in array'')
             else Inr (kvs, \<lambda>_. ''invalid length '' @ show_nat (length xs) @ '', expected struct '' @ name
                              @ '' with '' @ show_nat (length fs) @ '' elements'')))
      | _ \<Rightarrow> invalid_type v (''struct '' @ name))"

definition need :: "string \<Rightarrow> 'a json_reader \<Rightarrow> visited \<Rightarrow> 'a res" where
  "need n r s = (case map_of (fst s) n of Some v \<Rightarrow> r v | None \<Rightarrow> Inl (snd s n))"

text \<open>\<open>#[serde(default)]\<close>, and \<open>Option\<close>, which an absent key leaves \<open>None\<close>.\<close>

definition or_default :: "'a \<Rightarrow> string \<Rightarrow> 'a json_reader \<Rightarrow> visited \<Rightarrow> 'a res" where
  "or_default d n r s = (case map_of (fst s) n of Some v \<Rightarrow> r v | None \<Rightarrow> Inr d)"

text \<open>\<open>skip_serializing_if\<close>\<close>

definition unless_empty :: "bool \<Rightarrow> string \<Rightarrow> json \<Rightarrow> (string \<times> json) list" where
  "unless_empty skip n v = (if skip then [] else [(n, v)])"

section \<open>The contract\<close>

locale json_codec =
  fixes w :: "'a \<Rightarrow> json" and r :: "'a json_reader"
  assumes reads: "r (w x) = Inr x"
begin

lemma checks_none: "checks r (w x) = None"
  by (simp add: checks_def reads)

lemma mapE_reads: "mapE r (map w xs) = Inr xs"
  by (induction xs) (simp_all add: reads)

lemma reads_vec: "read_vec r (JArr (map w xs)) = Inr xs"
  by (simp add: read_vec_def mapE_reads)

lemma checks_vec: "checks (read_vec r) (JArr (map w xs)) = None"
  by (simp add: checks_def reads_vec)

lemma injective: "w x = w y \<Longrightarrow> x = y"
  by (metis reads sum.inject(2))

end

locale solid_codec = json_codec +
  assumes solid: "w x \<noteq> JNull"
begin

lemma reads_option: "read_option r (jopt w x) = Inr x"
  by (cases x) (simp_all add: read_option_def jopt_def reads solid)

lemma checks_option: "checks (read_option r) (jopt w x) = None"
  by (simp add: checks_def reads_option)

end

interpretation str: solid_codec JStr read_str
  by unfold_locales (simp_all add: read_str_def)

interpretation bool: solid_codec JBool read_bool
  by unfold_locales (simp_all add: read_bool_def)

interpretation u16: solid_codec write_u16 read_u16
proof unfold_locales
  fix n :: u16
  have "unat n < 65536" using unsigned_less [of n] by simp
  then show "read_u16 (write_u16 n) = Inr n" by (simp add: read_u16_def read_uint_def write_u16_def)
qed (simp add: write_u16_def)

interpretation u64: solid_codec jword read_u64
proof unfold_locales
  fix n :: u64
  have "unat n < 18446744073709551616" using unsigned_less [of n] by simp
  then show "read_u64 (jword n) = Inr n" by (simp add: read_u64_def read_uint_def jword_def)
qed (simp add: jword_def)

lemmas codec_reads = str.reads bool.reads u16.reads u64.reads str.reads_vec
  str.reads_option u16.reads_option

lemmas codec_checks = str.checks_none bool.checks_none u16.checks_none u64.checks_none str.checks_vec
  str.checks_option u16.checks_option

end
