(* ===== verification/Journal.thy ===== *)
theory Journal
  imports Live Serde
begin

text \<open>
  The apply journal of netd (\<open>src/netd.rs\<close>): the record of an apply in flight, the draft
  receipts of the Accepted revision, the forwarding guard, the readiness of the LAN services,
  and the recovery of an interrupted apply.
\<close>

section \<open>Reading the journal\<close>

definition decoded_operation :: "'k env \<Rightarrow> string option res \<Rightarrow> apply_operation option" where
  "decoded_operation E r =
     (case r of Inr (Some raw) \<Rightarrow> ok_opt (operation_of_text (codec E) raw) | _ \<Rightarrow> None)"

definition operation_requires_recovery :: "'k env \<Rightarrow> ('k world, bool) state" where
  "operation_requires_recovery E = do {
     present \<leftarrow> file_exists APPLY_OPERATION;
     (if \<not> present then ret False
      else do {
        r \<leftarrow> read_file E APPLY_OPERATION;
        ret (case decoded_operation E r of Some op \<Rightarrow> phase op = Applying | None \<Rightarrow> True) }) }"

definition recovery_pending :: "'k env \<Rightarrow> ('k world, bool) state" where
  "recovery_pending E = do {
     flag \<leftarrow> gets recovery_required;
     (if flag then ret True
      else do {
        needed \<leftarrow> operation_requires_recovery E;
        (if needed then ret True else file_exists APPLY_PREVIOUS) }) }"

definition pending_operation :: "'k env \<Rightarrow> ('k, apply_operation option) io" where
  "pending_operation E =
     tryE (map_err (\<lambda>e. ''read Apply confirmation: '' @ e) (read_file E APPLY_OPERATION)) (\<lambda>v.
       case v of
         None \<Rightarrow> okE None
       | Some raw \<Rightarrow>
           (case operation_of_text (codec E) raw of
              Inl e \<Rightarrow> errE (''parse Apply confirmation: '' @ e)
            | Inr op \<Rightarrow> okE (if phase op = Pending_confirmation then Some op else None)))"

definition apply_busy :: "'k env \<Rightarrow> ('k world, bool) state" where
  "apply_busy E = do {
     recovering \<leftarrow> recovery_pending E;
     (if recovering then ret True
      else do { p \<leftarrow> pending_operation E; ret (p \<noteq> Inr None) }) }"

definition accepted_desired :: "'k env \<Rightarrow> ('k, desired_state) io" where
  "accepted_desired E =
     tryE (map_err (\<lambda>e. ''read Accepted Desired state: '' @ e) (read_text E DESIRED)) (\<lambda>v.
       case v of
         None \<Rightarrow> errE ''read Accepted Desired state: No such file or directory (os error 2)''
       | Some raw \<Rightarrow>
           (case desired_of_toml (codec E) raw of
              Inl e \<Rightarrow> errE (''parse Accepted Desired state: '' @ e)
            | Inr st \<Rightarrow> okE (if revision st = 0 then st\<lparr>revision := 1\<rparr> else st)))"

definition persist_at :: "'k env \<Rightarrow> string \<Rightarrow> desired_state \<Rightarrow> ('k, unit) io" where
  "persist_at E path st =
     (case toml_of_desired (codec E) st of
        Inl e \<Rightarrow> errE (''encode TOML: '' @ e)
      | Inr raw \<Rightarrow> durable_write E path raw)"

definition persist :: "'k env \<Rightarrow> desired_state \<Rightarrow> ('k, unit) io" where
  "persist E st = persist_at E DESIRED st"

section \<open>Attribution and draft receipts\<close>

definition same_owner :: "principal \<Rightarrow> principal \<Rightarrow> bool" where
  "same_owner l r \<longleftrightarrow> prin_source l = prin_source r \<and> prin_subject l = prin_subject r"

definition upsert_draft_receipt :: "draft_receipt list \<Rightarrow> draft_receipt \<Rightarrow> draft_receipt list" where
  "upsert_draft_receipt receipts r =
     filter (\<lambda>prior. \<not> same_owner (owner prior) (owner r)) receipts @ [r]"

definition add_receipt ::
    "principal option \<Rightarrow> string option \<Rightarrow> u64 \<Rightarrow> draft_receipt list \<Rightarrow> draft_receipt list" where
  "add_receipt actor draft rv receipts =
     (case (actor, draft) of
        (Some p, Some v) \<Rightarrow>
          upsert_draft_receipt receipts \<lparr> owner = p, version = v, accepted_revision = rv \<rparr>
      | _ \<Rightarrow> receipts)"

definition carried_receipts :: "apply_attribution \<Rightarrow> u64 \<Rightarrow> draft_receipt list" where
  "carried_receipts prior rv =
     (if attr_revision prior \<noteq> rv then []
      else add_receipt (attr_applying prior) (attr_draft_version prior) (attr_revision prior)
             (draft_receipts prior))"

definition accepted_draft_receipts ::
    "codecs \<Rightarrow> string option \<Rightarrow> u64 \<Rightarrow> principal option \<Rightarrow> string option \<Rightarrow> u64 \<Rightarrow> draft_receipt list res" where
  "accepted_draft_receipts c previous rv actor draft next_rev =
     bindE (case previous of
              None \<Rightarrow> Inr []
            | Some raw \<Rightarrow>
                (case attribution_of_text c raw of
                   Inl e \<Rightarrow> Inl (''parse prior Apply actors: '' @ e)
                 | Inr prior \<Rightarrow> Inr (carried_receipts prior rv)))
       (\<lambda>receipts. Inr (add_receipt actor draft next_rev receipts))"

definition write_attribution :: "'k env \<Rightarrow> apply_attribution \<Rightarrow> ('k, unit) io" where
  "write_attribution E record =
     (case text_of_attribution (codec E) record of
        Inl e \<Rightarrow> errE (''encode Apply actors: '' @ e)
      | Inr raw \<Rightarrow> durable_write E APPLY_ATTRIBUTION raw)"

definition restore_file :: "'k env \<Rightarrow> string \<Rightarrow> string option \<Rightarrow> ('k, unit) io" where
  "restore_file E path previous =
     (case previous of Some raw \<Rightarrow> durable_write E path raw | None \<Rightarrow> durable_remove E path)"

definition restore_attribution :: "'k env \<Rightarrow> string option \<Rightarrow> ('k, unit) io" where
  "restore_attribution E previous = restore_file E APPLY_ATTRIBUTION previous"

definition accepted_attribution :: "'k env \<Rightarrow> u64 \<Rightarrow> ('k world, apply_attribution option) state" where
  "accepted_attribution E rv = do {
     r \<leftarrow> read_file E APPLY_ATTRIBUTION;
     ret (case r of
            Inr (Some raw) \<Rightarrow>
              (case attribution_of_text (codec E) raw of
                 Inr a \<Rightarrow> if attr_revision a = rv then Some a else None
               | Inl _ \<Rightarrow> None)
          | _ \<Rightarrow> None) }"

section \<open>The recovery target\<close>

record recovery_target =
  operation :: apply_operation
  marker :: string
  restore_predecessor :: bool

definition legacy_operation :: "desired_state \<Rightarrow> apply_operation" where
  "legacy_operation st =
     \<lparr> phase = Applying, accepted = st, previous_accepted = None, previous_attribution = None,
       proposed = None, confirmation_id = None, op_applying = None, op_draft_version = None,
       deadline_boot_ns = None, expires_at_unix_ms = None \<rparr>"

definition read_recovery_target :: "'k env \<Rightarrow> ('k, recovery_target) io" where
  "read_recovery_target E = do {
     present \<leftarrow> file_exists APPLY_OPERATION;
     (if present
      then tryE (map_err (\<lambda>e. ''read in-flight apply operation: '' @ e) (read_file E APPLY_OPERATION)) (\<lambda>v.
        (case ok_or v ''read in-flight apply operation: No such file or directory (os error 2)'' of
           Inl e \<Rightarrow> errE e
         | Inr raw \<Rightarrow>
        (case operation_of_text (codec E) raw of
           Inl e \<Rightarrow> errE (''parse in-flight apply operation: '' @ e)
         | Inr op \<Rightarrow>
             if phase op = Accepted
             then errE ''apply operation is already Accepted; reboot to finish an indeterminate commit''
             else okE \<lparr> operation = op, marker = APPLY_OPERATION, restore_predecessor = True \<rparr>)))
      else tryE (map_err (\<lambda>e. ''read legacy in-flight Accepted recovery target: '' @ e)
                   (read_text E APPLY_PREVIOUS)) (\<lambda>v.
        (case ok_or v ''read legacy in-flight Accepted recovery target: No such file or directory (os error 2)'' of
           Inl e \<Rightarrow> errE e
         | Inr raw \<Rightarrow>
        (case desired_of_toml (codec E) raw of
           Inl e \<Rightarrow> errE (''parse legacy in-flight Accepted recovery target: '' @ e)
         | Inr st \<Rightarrow> okE \<lparr> operation = legacy_operation st, marker = APPLY_PREVIOUS,
                            restore_predecessor = False \<rparr>)))) }"

section \<open>The forwarding guard\<close>

definition set_recovery_required :: "bool \<Rightarrow> ('k world, unit) state" where
  "set_recovery_required b = State (\<lambda>w. ((), w\<lparr>recovery_required := b\<rparr>))"

definition recovery_lockdown :: string where
  "recovery_lockdown =
     ''flush ruleset'' @ nl @ host_pull_nft @ ''table inet fwos-recovery {'' @ nl
     @ nft_chain ''input'' ''type filter hook input priority filter; policy drop;''
         [''iifname '' @ quoted ''lo'' @ '' accept'']
     @ nft_chain ''forward'' ''type filter hook forward priority filter; policy drop;'' []
     @ ''}'' @ nl"

definition require_recovery_guard :: "'k env \<Rightarrow> ('k, unit) io" where
  "require_recovery_guard E = do {
     set_recovery_required True;
     target \<leftarrow> read_recovery_target E;
     guarded \<leftarrow> (case target of
                  Inl _ \<Rightarrow> ret False
                | Inr t \<Rightarrow> do { r \<leftarrow> program_nft E (accepted (operation t)); ret (is_ok r) });
     (if guarded then okE () else nft_apply E recovery_lockdown) }"

text \<open>\<open>{guard:?}\<close>\<close>

definition debug_result :: "unit res \<Rightarrow> string" where
  "debug_result r =
     (case r of
        Inr _ \<Rightarrow> ''Ok(())''
      | Inl e \<Rightarrow> ''Err('' @ qt (concat (map escape_debug e)) @ '')'')"

definition reopen_restored_forwarding :: "'k env \<Rightarrow> desired_state \<Rightarrow> ('k, unit) io" where
  "reopen_restored_forwarding E previous = do {
     r \<leftarrow> nft_apply E (nft_rules_with_recovery_guard previous False);
     (case r of
        Inl e \<Rightarrow> do {
          guard \<leftarrow> require_recovery_guard E;
          errE (''reopen restored forwarding: '' @ e @ ''; guard: '' @ debug_result guard) }
      | Inr _ \<Rightarrow> do { set_recovery_required False; okE () }) }"

definition finish_recovery :: "'k env \<Rightarrow> desired_state \<Rightarrow> string \<Rightarrow> ('k, unit) io" where
  "finish_recovery E previous path = do {
     r \<leftarrow> durable_remove E path;
     (case r of
        Inl e \<Rightarrow> do {
          guard \<leftarrow> require_recovery_guard E;
          errE (''complete interrupted apply recovery: '' @ e @ ''; guard: '' @ debug_result guard) }
      | Inr _ \<Rightarrow> reopen_restored_forwarding E previous) }"

section \<open>LAN service readiness\<close>

definition set_lan_services_ready :: "'k env \<Rightarrow> bool \<Rightarrow> ('k, string option) io" where
  "set_lan_services_ready E ready =
     tryE (if ready then tryE (random_token E) (\<lambda>g. okE (Some g)) else okE None) (\<lambda>generation. do {
       result \<leftarrow> restore_file E LAN_SERVICES_READY generation;
       tryE (map_err (\<lambda>e. ''inspect LAN service readiness: '' @ e) (read_text E LAN_SERVICES_READY)) (\<lambda>observed.
         if observed = generation then okE generation
         else errE (case result of
                      Inl e \<Rightarrow> e
                    | Inr _ \<Rightarrow> ''LAN service readiness did not reach requested state'')) })"

definition parse_lan_services_result :: "string \<Rightarrow> string \<Rightarrow> unit res option" where
  "parse_lan_services_result result generation =
     (case split_once (CHR '' '') (trim result) of
        None \<Rightarrow> None
      | Some (observed, status) \<Rightarrow>
          if observed \<noteq> generation then None
          else Some (if status = ''ok'' then Inr ()
                     else Inl (''Host LAN service reconciliation failed: '' @ status)))"

text \<open>24 seconds in steps of 100 ms at least: the 241st look is at the deadline.\<close>

fun wait_lan_services_rounds :: "'k env \<Rightarrow> string \<Rightarrow> nat \<Rightarrow> ('k, unit) io" where
  "wait_lan_services_rounds E generation 0 = errE ''Host LAN service reconciliation timed out''"
| "wait_lan_services_rounds E generation (Suc n) = do {
     r \<leftarrow> asks (foreign_read E LAN_SERVICES_RESULT);
     (case r of
        Inl e \<Rightarrow> errE (''read Host LAN service result: '' @ e)
      | Inr v \<Rightarrow>
          (case Option.bind v (\<lambda>result. parse_lan_services_result result generation) of
             Some outcome \<Rightarrow> ret outcome
           | None \<Rightarrow> do {
               passed \<leftarrow> asks (deadline_passed E);
               (if passed then errE ''Host LAN service reconciliation timed out''
                else wait_lan_services_rounds E generation n) })) }"

definition wait_lan_services :: "'k env \<Rightarrow> string \<Rightarrow> ('k, unit) io" where
  "wait_lan_services E generation = wait_lan_services_rounds E generation 241"

section \<open>Recovery of an interrupted apply\<close>

definition apply_unit :: "'k env \<Rightarrow> desired_state \<Rightarrow> ('k, desired_state) io" where
  "apply_unit E st = do {
     (st', r) \<leftarrow> apply_state E st;
     ret (case r of Inl e \<Rightarrow> Inl e | Inr _ \<Rightarrow> Inr st') }"

definition restore_kept :: "'k env \<Rightarrow> recovery_target \<Rightarrow> desired_state \<Rightarrow> ('k, unit) io" where
  "restore_kept E target previous =
     seqE (persist E previous)
       (if restore_predecessor target
        then seqE (restore_file E PREVIOUS_ACCEPTED (previous_accepted (operation target)))
                  (restore_attribution E (previous_attribution (operation target)))
        else okE ())"

definition resume_services :: "'k env \<Rightarrow> recovery_target \<Rightarrow> desired_state \<Rightarrow> ('k, u64) io" where
  "resume_services E target previous =
     tryE (set_lan_services_ready E True) (\<lambda>g.
     tryE (liftE (ok_or g ''LAN service generation was not published during recovery'')) (\<lambda>generation.
     seqE (wait_lan_services E generation)
    (seqE (finish_recovery E previous (marker target))
          (okE (revision previous)))))"

definition restore_from_target ::
    "'k env \<Rightarrow> recovery_target \<Rightarrow> ('k, u64) io" where
  "restore_from_target E target = do {
     current \<leftarrow> (case proposed (operation target) of
                   Some st \<Rightarrow> ret (Some st)
                 | None \<Rightarrow> do { r \<leftarrow> accepted_desired E; ret (ok_opt r) });
     tryE (set_lan_services_ready E False) (\<lambda>_.
     tryE (apply_unit E (accepted (operation target))) (\<lambda>previous.
     seqE (case current of Some t \<Rightarrow> remove_stale_routes E t previous | None \<Rightarrow> okE ())
    (seqE (restore_kept E target previous)
          (resume_services E target previous)))) }"

definition recover_interrupted_apply :: "'k env \<Rightarrow> ('k, u64) io" where
  "recover_interrupted_apply E = do {
     flag \<leftarrow> gets recovery_required;
     op_there \<leftarrow> file_exists APPLY_OPERATION;
     prev_there \<leftarrow> file_exists APPLY_PREVIOUS;
     (if flag \<and> \<not> op_there \<and> \<not> prev_there
      then tryE (accepted_desired E) (\<lambda>previous.
           seqE (reopen_restored_forwarding E previous) (okE (revision previous)))
      else seqE (require_recovery_guard E)
          (tryE (read_recovery_target E) (\<lambda>target. restore_from_target E target))) }"

section \<open>What these operations leave alone\<close>

lemma same_operation_requires_recovery: "keeps (same_on S) (operation_requires_recovery E)"
  unfolding operation_requires_recovery_def by (intro same.keeps_rules same_ops)

lemma same_recovery_pending: "keeps (same_on S) (recovery_pending E)"
  unfolding recovery_pending_def
  by (intro same.keeps_rules same_ops same_operation_requires_recovery)

lemma same_pending_operation: "keeps (same_on S) (pending_operation E)"
  unfolding pending_operation_def by (intro same.keeps_rules same_ops)

lemma same_apply_busy: "keeps (same_on S) (apply_busy E)"
  unfolding apply_busy_def by (intro same.keeps_rules same_recovery_pending same_pending_operation)

lemma same_accepted_desired: "keeps (same_on S) (accepted_desired E)"
  unfolding accepted_desired_def by (intro same.keeps_rules same_ops)

lemma same_accepted_attribution: "keeps (same_on S) (accepted_attribution E rv)"
  unfolding accepted_attribution_def by (intro same.keeps_rules same_ops)

lemma same_read_recovery_target: "keeps (same_on S) (read_recovery_target E)"
  unfolding read_recovery_target_def by (intro same.keeps_rules same_ops)

lemma same_wait_lan_services: "keeps (same_on S) (wait_lan_services E g)"
proof -
  have "keeps (same_on S) (wait_lan_services_rounds E g n)" for n
    by (induction n) (auto intro!: same.keeps_rules same_ops)
  then show ?thesis by (simp add: wait_lan_services_def)
qed

lemma ready_not_temp: "\<not> is_temp LAN_SERVICES_READY"
  by code_simp

lemma same_random_token: "keeps (same_on S) (random_token E)"
  unfolding random_token_def by (intro same.keeps_rules same_ops)

lemma same_set_lan_services_ready:
  assumes "lasting S" and "LAN_SERVICES_READY \<notin> S"
  shows "keeps (same_on S) (set_lan_services_ready E ready)"
  unfolding set_lan_services_ready_def restore_file_def
  using assms ready_not_temp
  by (intro same.keeps_rules same_ops same_random_token same_durable_write same_durable_remove)

lemma same_apply_unit: "apart_from_apply S \<Longrightarrow> keeps (same_on S) (apply_unit E st)"
  unfolding apply_unit_def by (intro same.keeps_rules same_apply_state)

lemma run_set_recovery_required [simp]:
  "run_state (set_recovery_required b) w = ((), w\<lparr>recovery_required := b\<rparr>)"
  by (simp add: set_recovery_required_def)

lemma kept_set_recovery_required: "keeps (kept S) (set_recovery_required b)"
  by (auto simp: keeps_def kept_def set_recovery_required_def)

lemma kept_require_recovery_guard: "keeps (kept S) (require_recovery_guard E)"
  unfolding require_recovery_guard_def
  by (intro kept.keeps_rules kept_set_recovery_required keeps_kept same_read_recovery_target
      same_program_nft same_nft_apply)

lemma kept_reopen_restored_forwarding: "keeps (kept S) (reopen_restored_forwarding E st)"
  unfolding reopen_restored_forwarding_def
  by (intro kept.keeps_rules kept_set_recovery_required kept_require_recovery_guard keeps_kept same_nft_apply)

lemma flag_same: "keeps (same_on S) m \<Longrightarrow> run_state m w = (r, w') \<Longrightarrow> recovery_required w' = recovery_required w"
  by (metis keepsD same_on_def)

lemma require_recovery_guard_flag:
  assumes "run_state (require_recovery_guard E) w = (r, w')"
  shows "recovery_required w'"
proof -
  let ?rest = "do {
     target \<leftarrow> read_recovery_target E;
     guarded \<leftarrow> (case target of
                  Inl _ \<Rightarrow> ret False
                | Inr t \<Rightarrow> do { r \<leftarrow> program_nft E (accepted (operation t)); ret (is_ok r) });
     (if guarded then okE () else nft_apply E recovery_lockdown) }"
  have "keeps (same_on {}) ?rest"
    by (intro same.keeps_rules same_read_recovery_target same_program_nft same_nft_apply)
  moreover have "run_state ?rest (w\<lparr>recovery_required := True\<rparr>) = (r, w')"
    using assms by (simp add: require_recovery_guard_def set_recovery_required_def)
  ultimately show ?thesis
    using flag_same by fastforce
qed

lemma reopen_restored_forwarding_flag:
  assumes "run_state (reopen_restored_forwarding E st) w = (r, w')"
  shows "recovery_required w' \<longleftrightarrow> r \<noteq> Inr ()"
proof -
  obtain r1 w1 where n: "run_state (nft_apply E (nft_rules_with_recovery_guard st False)) w = (r1, w1)"
    by fastforce
  obtain r2 w2 where g: "run_state (require_recovery_guard E) w1 = (r2, w2)" by fastforce
  show ?thesis
    using assms n g require_recovery_guard_flag [OF g]
    by (auto simp: reopen_restored_forwarding_def set_recovery_required_def split: sum.splits)
qed

end
