(* ===== verification/Footprint.thy ===== *)
theory Footprint
  imports Live
begin

text \<open>
  The rollback footprint of an apply (\<open>RollbackFootprint\<close> of \<open>src/netd.rs\<close>): what the attempt
  may add to the live network that was not there before, and its removal. Removal goes on
  after a failure and returns every failure.
\<close>

record footprint =
  fp_addresses :: "(string \<times> string) list"
  fp_links :: "string list"
  fp_qdiscs :: "(string \<times> root_qdisc_entry option \<times> bool) list"
  fp_wireguard_ports :: "(string \<times> u16) list"
  fp_lan_files :: "(string \<times> string option) list"

section \<open>Capture\<close>

definition capture_address ::
    "'k env \<Rightarrow> (string \<times> string) list \<Rightarrow> string \<times> string \<Rightarrow> ('k, (string \<times> string) list) io" where
  "capture_address E old dc =
     (if dc \<in> set old then okE []
      else (case dc of (dev, c) \<Rightarrow>
        tryE (link_exists E dev) (\<lambda>there.
        if \<not> there then okE []
        else tryE (live_address E dev c) (\<lambda>live. okE (if live then [] else [dc])))))"

definition capture_link :: "'k env \<Rightarrow> string \<Rightarrow> ('k, string list) io" where
  "capture_link E name = tryE (link_exists E name) (\<lambda>there. okE (if there then [] else [name]))"

definition capture_port :: "'k env \<Rightarrow> wg \<Rightarrow> ('k, (string \<times> u16) list) io" where
  "capture_port E w =
     tryE (link_exists E (wg_name w)) (\<lambda>there.
     if \<not> there then okE []
     else tryE (wireguard_listen_port E (wg_name w)) (\<lambda>p. okE [(wg_name w, p)]))"

definition capture_qdisc ::
    "'k env \<Rightarrow> desired_state \<Rightarrow> qdisc \<Rightarrow> ('k, (string \<times> root_qdisc_entry option \<times> bool) list) io" where
  "capture_qdisc E old q =
     tryE (link_exists E (qdisc_dev q)) (\<lambda>there.
     if \<not> there then okE []
     else tryE (root_qdisc E (qdisc_dev q)) (\<lambda>prior.
          okE [(qdisc_dev q, prior, \<not> (\<exists>p \<in> set (qdiscs old). qdisc_dev p = qdisc_dev q))]))"

definition capture_lan_file :: "'k env \<Rightarrow> string \<Rightarrow> ('k, (string \<times> string option) list) io" where
  "capture_lan_file E path =
     tryE (map_err (\<lambda>e. ''inspect LAN service configuration: '' @ e) (read_file E path))
       (\<lambda>contents. okE [(path, contents)])"

definition capture_footprint :: "'k env \<Rightarrow> desired_state \<Rightarrow> desired_state \<Rightarrow> ('k, footprint) io" where
  "capture_footprint E current proposal =
     (let old = merge_lan_prefix_addr current; new = merge_lan_prefix_addr proposal in do {
        old_addresses \<leftarrow> desired_addresses E old;
        new_addresses \<leftarrow> desired_addresses E new;
        tryE (collectE (capture_address E old_addresses) new_addresses) (\<lambda>addresses.
        tryE (collectE (\<lambda>i. if vlan i = None then okE [] else capture_link E (iface_name i)) (interfaces new))
          (\<lambda>vlans.
        tryE (collectE (\<lambda>w. capture_link E (wg_name w)) (wireguard new)) (\<lambda>tunnels.
        tryE (collectE (capture_port E) (wireguard old)) (\<lambda>ports.
        tryE (collectE (capture_qdisc E old) (qdiscs new)) (\<lambda>qs.
        tryE (collectE (capture_lan_file E) [KEA4, KEA6, UNBOUND]) (\<lambda>lan.
        okE \<lparr> fp_addresses = addresses, fp_links = vlans @ tunnels, fp_qdiscs = qs,
              fp_wireguard_ports = ports, fp_lan_files = lan \<rparr>)))))) })"

section \<open>Removal\<close>

text \<open>The failure of a step, under its prefix.\<close>

definition failures_of :: "string \<Rightarrow> 'a res \<Rightarrow> string list" where
  "failures_of prefix r = (case r of Inl e \<Rightarrow> [prefix @ e] | Inr _ \<Rightarrow> [])"

definition remove_address :: "'k env \<Rightarrow> string \<times> string \<Rightarrow> ('k world, string list) state" where
  "remove_address E dc = (case dc of (dev, c) \<Rightarrow> do {
     live \<leftarrow> live_address E dev c;
     (case live of
        Inr True \<Rightarrow> do {
          r \<leftarrow> run_ip E [''addr'', ''del'', c, ''dev'', dev];
          ret (failures_of (''remove tentative address on '' @ dev @ '': '') r) }
      | Inr False \<Rightarrow> ret []
      | Inl e \<Rightarrow> ret [''inspect tentative address on '' @ dev @ '': '' @ e]) })"

definition remove_link :: "'k env \<Rightarrow> string \<Rightarrow> ('k world, string list) state" where
  "remove_link E name = do {
     there \<leftarrow> link_exists E name;
     (case there of
        Inr True \<Rightarrow> do {
          r \<leftarrow> run_ip E [''link'', ''delete'', ''dev'', name];
          ret (failures_of (''remove tentative link '' @ name @ '': '') r) }
      | Inr False \<Rightarrow> ret []
      | Inl e \<Rightarrow> ret [''inspect tentative link '' @ name @ '': '' @ e]) }"

definition restore_port :: "'k env \<Rightarrow> string \<times> u16 \<Rightarrow> ('k world, string list) state" where
  "restore_port E np = (case np of (name, prior) \<Rightarrow> do {
     now \<leftarrow> wireguard_listen_port E name;
     (case now of
        Inl e \<Rightarrow> ret [''inspect WireGuard listen port on '' @ name @ '': '' @ e]
      | Inr port \<Rightarrow>
          if port = prior then ret []
          else do {
            out \<leftarrow> run_program E [''wg'', ''set'', name, ''listen-port'', show_nat (unat prior)] [];
            restored \<leftarrow> wireguard_listen_port E name;
            ret ((case exec_error out of
                    Some e \<Rightarrow> [''restore WireGuard listen port on '' @ name @ '': '' @ e]
                  | None \<Rightarrow> if ok out then []
                            else [''restore WireGuard listen port on '' @ name @ '': '' @ trim (stderr out)])
                 @ (case restored of
                      Inl e \<Rightarrow> [''verify WireGuard listen port on '' @ name @ '': '' @ e]
                    | Inr p \<Rightarrow> if p = prior then []
                               else [''WireGuard listen port on '' @ name @ '' was not restored''])) }) })"

definition qdisc_restore_args :: "string \<Rightarrow> root_qdisc_entry option \<Rightarrow> string list" where
  "qdisc_restore_args dev prior =
     (case prior of
        Some q \<Rightarrow>
          if root_kind q \<noteq> ''noqueue'' \<and> root_kind q \<noteq> ''mq''
          then [''tc'', ''qdisc'', ''replace'', ''dev'', dev, ''root'', root_kind q]
          else [''tc'', ''qdisc'', ''delete'', ''dev'', dev, ''root'']
      | None \<Rightarrow> [''tc'', ''qdisc'', ''delete'', ''dev'', dev, ''root''])"

definition restore_qdisc ::
    "'k env \<Rightarrow> string \<times> root_qdisc_entry option \<times> bool \<Rightarrow> ('k world, string list) state" where
  "restore_qdisc E dpu = (case dpu of (dev, prior, unconfigured) \<Rightarrow> do {
     now \<leftarrow> root_qdisc E dev;
     (case now of
        Inl e \<Rightarrow> ret [''inspect tentative qdisc on '' @ dev @ '': '' @ e]
      | Inr q \<Rightarrow>
          if q = prior then ret []
          else do {
            first \<leftarrow> (if \<not> unconfigured then ret []
                      else do {
                        out \<leftarrow> run_program E (qdisc_restore_args dev prior) [];
                        ret (case exec_error out of
                               Some e \<Rightarrow> [''restore qdisc on '' @ dev @ '': '' @ e]
                             | None \<Rightarrow> if ok out then []
                                       else [''restore qdisc on '' @ dev @ '': '' @ trim (stderr out)]) });
            restored \<leftarrow> root_qdisc E dev;
            ret (first @ (case restored of
                            Inl e \<Rightarrow> [''verify restored qdisc on '' @ dev @ '': '' @ e]
                          | Inr r \<Rightarrow> if r = prior then []
                                     else [''qdisc options on '' @ dev @ '' were not restored''])) }) })"

definition restore_lan_file :: "'k env \<Rightarrow> string \<times> string option \<Rightarrow> ('k world, string list) state" where
  "restore_lan_file E pc = (case pc of (path, contents) \<Rightarrow> do {
     r \<leftarrow> (case contents of
            Some c \<Rightarrow> map_err (\<lambda>e. ''restore LAN service configuration: '' @ e) (overwrite E path c)
          | None \<Rightarrow> durable_remove E path);
     ret (failures_of [] r) })"

definition remove_tentative_state :: "'k env \<Rightarrow> footprint \<Rightarrow> ('k world, string list) state" where
  "remove_tentative_state E fp = do {
     a \<leftarrow> collect (remove_address E) (fp_addresses fp);
     b \<leftarrow> collect (remove_link E) (fp_links fp);
     c \<leftarrow> collect (restore_port E) (fp_wireguard_ports fp);
     d \<leftarrow> collect (restore_qdisc E) (fp_qdiscs fp);
     e \<leftarrow> collect (restore_lan_file E) (fp_lan_files fp);
     ret (a @ b @ c @ d @ e) }"

section \<open>What the footprint leaves alone\<close>

lemma same_desired_addresses: "keeps (same_on S) (desired_addresses E st)"
  unfolding desired_addresses_def by (intro same.keeps_rules same_routed_lan_prefix)

lemma same_capture_footprint: "keeps (same_on S) (capture_footprint E a b)"
  unfolding capture_footprint_def capture_address_def capture_link_def capture_port_def
    capture_qdisc_def capture_lan_file_def Let_def
  by (intro same.keeps_rules same_ops same_desired_addresses)

text \<open>The captured files are the three service configurations.\<close>

definition service_files :: "footprint \<Rightarrow> bool" where
  "service_files fp \<longleftrightarrow> fst ` set (fp_lan_files fp) \<subseteq> {KEA4, KEA6, UNBOUND}"

lemma collectE_ok:
  assumes "\<And>x w ys w'. x \<in> set xs \<Longrightarrow> run_state (f x) w = (Inr ys, w') \<Longrightarrow> P ys"
    and "P []" and "\<And>a b. P a \<Longrightarrow> P b \<Longrightarrow> P (a @ b)"
    and "run_state (collectE f xs) w = (Inr zs, w')"
  shows "P zs"
  using assms(1,4)
proof (induction xs arbitrary: w zs)
  case Nil
  then show ?case using assms(2) by simp
next
  case (Cons x xs)
  then obtain ys us w1 where "run_state (f x) w = (Inr ys, w1)" "run_state (collectE f xs) w1 = (Inr us, w')"
      "zs = ys @ us"
    by (auto simp: run_tryE split: prod.splits sum.splits)
  then show ?case using Cons assms(3) by (metis list.set_intros)
qed

lemma run_tryE_ok:
  "run_state (tryE m f) w = (Inr b, w') \<longleftrightarrow>
   (\<exists>a w1. run_state m w = (Inr a, w1) \<and> run_state (f a) w1 = (Inr b, w'))"
  by (auto simp: run_tryE split: prod.splits sum.splits)

lemma capture_lan_file_path:
  "run_state (capture_lan_file E path) w = (Inr ys, w') \<Longrightarrow> fst ` set ys \<subseteq> {path}"
  by (auto simp: capture_lan_file_def run_tryE_ok)

lemma capture_service_files:
  assumes "run_state (capture_footprint E a b) w = (Inr fp, w')"
  shows "service_files fp"
proof -
  obtain lan w1 w2 where c: "run_state (collectE (capture_lan_file E) [KEA4, KEA6, UNBOUND]) w1 = (Inr lan, w2)"
      and "fp_lan_files fp = lan"
    using assms by (auto simp: capture_footprint_def Let_def run_tryE_ok split: prod.splits simp del: collectE.simps)
  moreover have "fst ` set lan \<subseteq> {KEA4, KEA6, UNBOUND}"
    using collectE_ok [where P = "\<lambda>ys. fst ` set ys \<subseteq> {KEA4, KEA6, UNBOUND}", OF _ _ _ c]
      capture_lan_file_path by fastforce
  ultimately show ?thesis by (simp add: service_files_def)
qed

lemma keeps_collect_on:
  assumes "\<And>x. x \<in> set xs \<Longrightarrow> keeps (same_on S) (f x)"
  shows "keeps (same_on S) (collect f xs)"
  using assms by (induction xs) (auto intro!: same.keeps_rules)

lemma same_remove_tentative_state:
  assumes "apart_from_apply S" and "service_files fp"
  shows "keeps (same_on S) (remove_tentative_state E fp)"
proof -
  have "keeps (same_on S) (restore_lan_file E pc)" if "pc \<in> set (fp_lan_files fp)" for pc
  proof -
    have "fst pc \<notin> S" "lasting S"
      using assms that by (auto simp: service_files_def apart_from_apply_def)
    then show ?thesis
      unfolding restore_lan_file_def
      by (cases pc) (auto intro!: same.keeps_rules same_overwrite same_durable_remove)
  qed
  then show ?thesis
    unfolding remove_tentative_state_def remove_address_def remove_link_def restore_port_def
      restore_qdisc_def
    by (intro same.keeps_rules same_ops keeps_collect_on)
      (auto intro!: same.keeps_rules same_ops split: bool.splits)
qed

end
