(* ===== verification/Apply.thy ===== *)
theory Apply
  imports Journal Footprint
begin

text \<open>
  The apply transaction of netd (\<open>apply_desired_request\<close> of \<open>src/netd.rs\<close>): the checks, the
  journal that retains the Accepted state and its predecessor, the attempt, its rollback, the
  wait for a confirmation, and the commit.
\<close>

section \<open>Replies\<close>

definition reply_failed :: "string \<Rightarrow> (string \<times> json) list \<Rightarrow> json" where
  "reply_failed outcome extra = JObj ([(''ok'', JBool False), (''outcome'', JStr outcome)] @ extra)"

definition reply_outcome :: "json \<Rightarrow> string option" where
  "reply_outcome v = jstr (jindex v ''outcome'')"

definition reply_restoration :: "json \<Rightarrow> string option" where
  "reply_restoration v = jstr (jindex v ''restoration'')"

section \<open>One attempt\<close>

record attempt =
  at_current :: desired_state
  at_footprint :: footprint
  at_ready_before :: bool
  at_predecessor :: "string option"
  at_attribution :: "string option"
  at_actor :: "principal option"
  at_draft :: "string option"
  at_intent :: apply_intent

definition journal_of :: "attempt \<Rightarrow> apply_phase \<Rightarrow> apply_operation" where
  "journal_of a ph =
     \<lparr> phase = ph, accepted = at_current a, previous_accepted = at_predecessor a,
       previous_attribution = at_attribution a, proposed = None, confirmation_id = None,
       op_applying = at_actor a, op_draft_version = at_draft a, deadline_boot_ns = None,
       expires_at_unix_ms = None \<rparr>"

definition needs_confirmation :: "attempt \<Rightarrow> bool" where
  "needs_confirmation a \<longleftrightarrow> apply_confirmation (at_current a) \<and> at_intent a = Ordinary"

definition revision_field :: "attempt \<Rightarrow> string \<times> json" where
  "revision_field a = (''revision'', jword (revision (at_current a)))"

text \<open>\<open>restore_failed_apply\<close>: every step is tried, and the failures decide.\<close>

definition restore_live :: "'k env \<Rightarrow> attempt \<Rightarrow> desired_state \<Rightarrow> ('k world, string list) state" where
  "restore_live E a proposal = do {
     g \<leftarrow> require_recovery_guard E;
     s \<leftarrow> set_lan_services_ready E False;
     (_, l) \<leftarrow> apply_state E (at_current a);
     t \<leftarrow> remove_stale_routes E proposal (at_current a);
     f \<leftarrow> remove_tentative_state E (at_footprint a);
     ret (failures_of ''block forwarding during recovery: '' g
          @ failures_of ''suspend tentative LAN services: '' s
          @ failures_of ''restore live Accepted state: '' l
          @ failures_of ''remove tentative routes: '' t @ f) }"

definition restore_durable :: "'k env \<Rightarrow> attempt \<Rightarrow> ('k world, string list) state" where
  "restore_durable E a = do {
     d \<leftarrow> persist E (at_current a);
     p \<leftarrow> restore_file E PREVIOUS_ACCEPTED (at_predecessor a);
     t \<leftarrow> restore_attribution E (at_attribution a);
     ret (failures_of ''restore durable Accepted state: '' d
          @ failures_of ''restore retained predecessor: '' p
          @ failures_of ''restore prior Apply actors: '' t) }"

definition restore_services :: "'k env \<Rightarrow> attempt \<Rightarrow> ('k world, string list) state" where
  "restore_services E a = do {
     r \<leftarrow> set_lan_services_ready E (at_ready_before a);
     (case r of
        Inr (Some generation) \<Rightarrow> do {
          w \<leftarrow> wait_lan_services E generation;
          ret (failures_of ''restore Host LAN services: '' w) }
      | Inr None \<Rightarrow> ret []
      | Inl e \<Rightarrow> ret [''restore LAN service readiness: '' @ e]) }"

definition restore_failed_apply ::
    "'k env \<Rightarrow> attempt \<Rightarrow> desired_state \<Rightarrow> string \<Rightarrow> ('k world, json) state" where
  "restore_failed_apply E a proposal error = do {
     live \<leftarrow> restore_live E a proposal;
     durable \<leftarrow> restore_durable E a;
     services \<leftarrow> (if live @ durable = [] then restore_services E a else ret []);
     finish \<leftarrow> (if live @ durable @ services = []
                then do { r \<leftarrow> finish_recovery E (at_current a) APPLY_OPERATION;
                          ret (failures_of ''complete recovery: '' r) }
                else ret []);
     (let failures = live @ durable @ services @ finish in
      if failures = []
      then ret (reply_failed ''failed''
             [(''status'', JStr ''restored''), (''restoration'', JStr ''restored''), (''applied'', JBool False),
              (''accepted'', JBool False), revision_field a, (''error'', JStr error)])
      else do {
        set_recovery_required True;
        ret (reply_failed ''failed''
             [(''status'', JStr ''recovery_required''), (''restoration'', JStr ''failed''), (''applied'', JBool False),
              (''accepted'', JBool False), revision_field a, (''error'', JStr error),
              (''recovery_error'', JStr (join_with ''; '' failures))]) }) }"

text \<open>The journal could not be written, or LAN services could not be suspended.\<close>

definition journal_failed :: "'k env \<Rightarrow> attempt \<Rightarrow> string \<Rightarrow> ('k world, json) state" where
  "journal_failed E a error = do {
     needed \<leftarrow> operation_requires_recovery E;
     (let message = ''could not retain Accepted Desired state before apply: '' @ error in
      if needed
      then do {
        guard \<leftarrow> require_recovery_guard E;
        ret (reply_failed ''failed''
          [(''restoration'', JStr ''required''), revision_field a, (''error'', JStr message),
           (''recovery_error'', JStr (''forwarding guard: '' @ debug_result guard))]) }
      else ret (reply_failed ''failed''
          [(''restoration'', JStr ''unchanged''), revision_field a, (''error'', JStr message)])) }"

definition suspend_guarded ::
    "'k env \<Rightarrow> attempt \<Rightarrow> string \<Rightarrow> string list \<Rightarrow> ('k world, json) state" where
  "suspend_guarded E a message failures = do {
     guard \<leftarrow> require_recovery_guard E;
     ret (reply_failed ''failed''
       [(''restoration'', JStr ''required''), revision_field a, (''error'', JStr message),
        (''recovery_error'', JStr (join_with ''; '' (failures @ failures_of ''block forwarding: '' guard)))]) }"

definition suspend_failed :: "'k env \<Rightarrow> attempt \<Rightarrow> string \<Rightarrow> ('k world, json) state" where
  "suspend_failed E a error =
     (let message = ''could not suspend LAN service activation: '' @ error in do {
        r \<leftarrow> set_lan_services_ready E (at_ready_before a);
        (case r of
           Inl cause \<Rightarrow> suspend_guarded E a message [''restore LAN service readiness: '' @ cause]
         | Inr _ \<Rightarrow> do {
             cleared \<leftarrow> durable_remove E APPLY_OPERATION;
             (case cleared of
                Inr _ \<Rightarrow> ret (reply_failed ''failed''
                  [(''restoration'', JStr ''unchanged''), revision_field a, (''error'', JStr message)])
              | Inl cause \<Rightarrow> do {
                  needed \<leftarrow> operation_requires_recovery E;
                  (if needed
                   then suspend_guarded E a message [''clear in-flight operation: '' @ cause]
                   else ret (reply_failed ''failed''
                     [(''restoration'', JStr ''unchanged''), revision_field a, (''error'', JStr message),
                      (''cleanup_error'', JStr cause)])) }) }) })"

text \<open>The attempt itself: \<open>proposal\<close> is what \<open>apply\<close> left of the proposed state.\<close>

definition commit_files :: "'k env \<Rightarrow> attempt \<Rightarrow> desired_state \<Rightarrow> ('k, unit) io" where
  "commit_files E a proposal =
     tryE (liftE (accepted_draft_receipts (codec E) (at_attribution a) (revision (at_current a)) (at_actor a)
             (at_draft a) (revision proposal))) (\<lambda>receipts.
     seqE (persist E proposal)
    (seqE (persist_at E PREVIOUS_ACCEPTED (at_current a))
          (write_attribution E
             \<lparr> attr_revision = revision proposal, attr_applying = at_actor a, attr_confirming = None,
               attr_draft_version = None, draft_receipts = receipts \<rparr>)))"

definition attempt_apply ::
    "'k env \<Rightarrow> attempt \<Rightarrow> desired_state \<Rightarrow> ('k world, desired_state \<times> unit res) state" where
  "attempt_apply E a start = do {
     (proposal, applied) \<leftarrow> apply_state E start;
     r \<leftarrow> seqE (ret applied)
       (seqE (remove_stale_routes E (at_current a) proposal)
       (tryE (set_lan_services_ready E True) (\<lambda>g.
        tryE (liftE (ok_or g ''LAN service generation was not published'')) (\<lambda>generation.
        seqE (wait_lan_services E generation)
          (if \<not> apply_confirmation (at_current a) \<or> at_intent a = Recovery_restore
           then commit_files E a proposal else okE ())))));
     ret (proposal, r) }"

definition await_confirmation ::
    "'k env \<Rightarrow> attempt \<Rightarrow> desired_state \<Rightarrow> u64 \<Rightarrow> ('k world, json) state" where
  "await_confirmation E a proposal base = do {
     token \<leftarrow> random_token E;
     (case token of
        Inl e \<Rightarrow> restore_failed_apply E a proposal e
      | Inr confirmation \<Rightarrow> do {
          now \<leftarrow> boot_time_ns E;
          (case now of
             Inl e \<Rightarrow> restore_failed_apply E a proposal e
           | Inr boot \<Rightarrow> do {
               ms \<leftarrow> asks (unix_ms E);
               (let expires = of_nat (ms + 120000) :: u64;
                    pending = (journal_of a Pending_confirmation)
                      \<lparr> proposed := Some proposal, confirmation_id := Some confirmation,
                        deadline_boot_ns := Some (saturating_add boot 120000000000),
                        expires_at_unix_ms := Some expires \<rparr> in do {
                  r \<leftarrow> (case text_of_operation (codec E) pending of
                         Inl e \<Rightarrow> errE (''encode pending Apply confirmation: '' @ e)
                       | Inr raw \<Rightarrow> durable_write E APPLY_OPERATION raw);
                  (case r of
                     Inl e \<Rightarrow> restore_failed_apply E a proposal (''retain pending Apply confirmation: '' @ e)
                   | Inr _ \<Rightarrow> ret (JObj
                       [(''ok'', JBool True), (''outcome'', JStr ''pending_confirmation''),
                        (''status'', JStr ''pending_confirmation''), (''applied'', JBool True),
                        (''accepted'', JBool False), (''revision'', jword (revision proposal)),
                        (''base_revision'', jword base),
                        (''applying'', jopt (json_of_principal (codec E)) (at_actor a)),
                        (''expires_at_unix_ms'', jword expires)])) }) }) }) }"

definition indeterminate :: "'k env \<Rightarrow> string \<Rightarrow> ('k world, json) state" where
  "indeterminate E error = do {
     guard \<leftarrow> require_recovery_guard E;
     ret (reply_failed ''indeterminate''
       [(''restoration'', JStr ''required''), (''error'', JStr error),
        (''recovery_error'', JStr (''forwarding guard: '' @ debug_result guard))]) }"

definition accept_proposal ::
    "'k env \<Rightarrow> attempt \<Rightarrow> desired_state \<Rightarrow> u64 \<Rightarrow> ('k world, json) state" where
  "accept_proposal E a proposal base =
     (case text_of_operation (codec E) (journal_of a Accepted) of
        Inl e \<Rightarrow> indeterminate E (''encode Accepted apply operation: '' @ e)
      | Inr raw \<Rightarrow> do {
          r \<leftarrow> durable_write E APPLY_OPERATION raw;
          (case r of
             Inl e \<Rightarrow> indeterminate E
               (''durably accept Desired state: '' @ e @ ''; reboot to resolve the operation'')
           | Inr _ \<Rightarrow> do {
               durable_remove E APPLY_OPERATION;
               ret (JObj
                 [(''ok'', JBool True), (''outcome'', JStr ''accepted''), (''status'', JStr ''accepted''),
                  (''applied'', JBool True), (''accepted'', JBool True),
                  (''revision'', jword (revision proposal)), (''base_revision'', jword base),
                  (''predecessor_revision'', jword (revision (at_current a))),
                  (''applying'', jopt (json_of_principal (codec E)) (at_actor a))]) }) })"

section \<open>The transaction\<close>

text \<open>From the durable journal on.\<close>

definition run_attempt ::
    "'k env \<Rightarrow> attempt \<Rightarrow> desired_state \<Rightarrow> u64 \<Rightarrow> ('k world, json) state" where
  "run_attempt E a start base = do {
     suspended \<leftarrow> set_lan_services_ready E False;
     (case suspended of
        Inl e \<Rightarrow> suspend_failed E a e
      | Inr _ \<Rightarrow> do {
          (proposal, r) \<leftarrow> attempt_apply E a start;
          (case r of
             Inl e \<Rightarrow> restore_failed_apply E a proposal e
           | Inr _ \<Rightarrow>
               if needs_confirmation a then await_confirmation E a proposal base
               else accept_proposal E a proposal base) }) }"

definition begin_attempt ::
    "'k env \<Rightarrow> attempt \<Rightarrow> desired_state \<Rightarrow> u64 \<Rightarrow> ('k world, json) state" where
  "begin_attempt E a start base =
     (case text_of_operation (codec E) (journal_of a Applying) of
        Inl e \<Rightarrow> ret (reply_failed ''failed''
          [(''restoration'', JStr ''unchanged''), revision_field a,
           (''error'', JStr (''encode apply operation: '' @ e))])
      | Inr journal \<Rightarrow> do {
          r \<leftarrow> durable_write E APPLY_OPERATION journal;
          (case r of
             Inl e \<Rightarrow> journal_failed E a e
           | Inr _ \<Rightarrow> run_attempt E a start base) })"

text \<open>Everything read before the journal: the live network, the predecessor, the actors.\<close>

definition prepare_attempt ::
    "'k env \<Rightarrow> desired_state \<Rightarrow> desired_state \<Rightarrow> principal option \<Rightarrow> string option \<Rightarrow> apply_intent
     \<Rightarrow> ('k world, json + attempt) state" where
  "prepare_attempt E current start actor draft intent = do {
     fp \<leftarrow> capture_footprint E current start;
     (case fp of
        Inl e \<Rightarrow> ret (Inl (reply_failed ''failed''
          [(''restoration'', JStr ''unchanged''), (''revision'', jword (revision current)),
           (''error'', JStr (''could not inspect live network before apply: '' @ e))]))
      | Inr footprint \<Rightarrow> do {
          p \<leftarrow> read_file E PREVIOUS_ACCEPTED;
          (case p of
             Inl e \<Rightarrow> ret (Inl (reply_failed ''failed''
               [(''revision'', jword (revision current)), (''error'', JStr (''read retained predecessor: '' @ e))]))
           | Inr predecessor \<Rightarrow> do {
               t \<leftarrow> read_file E APPLY_ATTRIBUTION;
               (case t of
                  Inl e \<Rightarrow> ret (Inl (reply_failed ''failed'' [(''error'', JStr (''read prior Apply actors: '' @ e))]))
                | Inr attribution \<Rightarrow> do {
                    ready \<leftarrow> file_exists LAN_SERVICES_READY;
                    ret (Inr \<lparr> at_current = current, at_footprint = footprint, at_ready_before = ready,
                               at_predecessor = predecessor, at_attribution = attribution,
                               at_actor = actor, at_draft = draft, at_intent = intent \<rparr>) }) }) }) }"

definition check_proposed :: "'k env \<Rightarrow> desired_state \<Rightarrow> ('k, unit) io" where
  "check_proposed E st =
     seqE (liftE (validate (base64 (codec E)) st))
          (do { rules \<leftarrow> nft_rules st; nft_check E rules })"

definition checked_succ :: "u64 \<Rightarrow> u64 option" where
  "checked_succ r = (if r = - 1 then None else Some (r + 1))"

definition rejected :: "u64 \<Rightarrow> string \<Rightarrow> json" where
  "rejected rv error = reply_failed ''rejected'' [(''revision'', jword rv), (''error'', JStr error)]"

definition apply_checked ::
    "'k env \<Rightarrow> desired_state \<Rightarrow> desired_state \<Rightarrow> u64 \<Rightarrow> principal option \<Rightarrow> string option \<Rightarrow> apply_intent
     \<Rightarrow> ('k world, json) state" where
  "apply_checked E current start base actor draft intent = do {
     checked \<leftarrow> check_proposed E start;
     (case checked of
        Inl e \<Rightarrow> ret (rejected (revision current) e)
      | Inr _ \<Rightarrow>
          (case checked_succ (revision current) of
             None \<Rightarrow> ret (reply_failed ''rejected'' [(''error'', JStr ''revision limit reached'')])
           | Some next_rv \<Rightarrow> do {
               prepared \<leftarrow> prepare_attempt E current (start\<lparr>revision := next_rv\<rparr>) actor draft intent;
               (case prepared of
                  Inl reply \<Rightarrow> ret reply
                | Inr a \<Rightarrow> begin_attempt E a (start\<lparr>revision := next_rv\<rparr>) base) })) }"

definition apply_desired_request ::
    "'k env \<Rightarrow> json \<Rightarrow> u64 option \<Rightarrow> principal option \<Rightarrow> string option \<Rightarrow> apply_intent
     \<Rightarrow> ('k world, json) state" where
  "apply_desired_request E input base_revision actor draft intent = do {
     busy \<leftarrow> apply_busy E;
     (if busy
      then ret (reply_failed ''busy''
        [(''error'', JStr ''another Desired state apply or recovery is in progress'')])
      else do {
        accepted_now \<leftarrow> accepted_desired E;
        (case accepted_now of
           Inl e \<Rightarrow> ret (reply_failed ''failed'' [(''error'', JStr e)])
         | Inr current \<Rightarrow>
             (let base = (case base_revision of Some b \<Rightarrow> b | None \<Rightarrow> revision current) in
              if base \<noteq> revision current
              then ret (rejected (revision current) ''Accepted Desired state changed; reload before applying'')
              else (case desired_of_json (codec E) input of
                 Inl e \<Rightarrow> ret (rejected (revision current) (''invalid complete Desired state: '' @ e))
               | Inr start \<Rightarrow> apply_checked E current start base actor draft intent))) }) }"

end
