(* ===== verification/Transaction.thy ===== *)
theory Transaction
  imports Apply
begin

text \<open>
  What an apply does to the durable state. \<open>boot_state\<close> is the abstraction of the journal
  files: the Accepted state, the retained predecessor and the attribution that the next start
  of netd keeps or restores. The transaction is shown to move it in one step, from the old
  Accepted state to the new, whatever fails and wherever power is lost.
\<close>

section \<open>The journal files\<close>

definition journal_paths :: "string set" where
  "journal_paths = {DESIRED, PREVIOUS_ACCEPTED, APPLY_ATTRIBUTION, APPLY_OPERATION, APPLY_PREVIOUS}"

lemma journal_lasting: "lasting journal_paths"
proof -
  have "list_all (\<lambda>p. \<not> is_temp p)
      [DESIRED, PREVIOUS_ACCEPTED, APPLY_ATTRIBUTION, APPLY_OPERATION, APPLY_PREVIOUS]"
    by code_simp
  then show ?thesis by (simp add: lasting_def journal_paths_def)
qed

lemma journal_others:
  "list_all (\<lambda>p. p \<notin> set [KEA4, KEA6, UNBOUND, OPT_FILE, LAN_SERVICES_READY, BOOTSTRAPPED, PRE_UPDATE_ACCEPTED])
     [DESIRED, PREVIOUS_ACCEPTED, APPLY_ATTRIBUTION, APPLY_OPERATION, APPLY_PREVIOUS]"
  by code_simp

lemma journal_apart: "apart_from_apply journal_paths"
  using journal_lasting journal_others by (auto simp: apart_from_apply_def journal_paths_def)

lemma in_journal [simp]:
  "DESIRED \<in> journal_paths" "PREVIOUS_ACCEPTED \<in> journal_paths" "APPLY_ATTRIBUTION \<in> journal_paths"
  "APPLY_OPERATION \<in> journal_paths" "APPLY_PREVIOUS \<in> journal_paths"
  "LAN_SERVICES_READY \<notin> journal_paths" "PRE_UPDATE_ACCEPTED \<notin> journal_paths"
  using journal_others by (auto simp: journal_paths_def)

lemma journal_neq [simp]:
  "DESIRED \<noteq> PREVIOUS_ACCEPTED" "DESIRED \<noteq> APPLY_ATTRIBUTION" "DESIRED \<noteq> APPLY_OPERATION"
  "DESIRED \<noteq> APPLY_PREVIOUS" "PREVIOUS_ACCEPTED \<noteq> DESIRED" "PREVIOUS_ACCEPTED \<noteq> APPLY_ATTRIBUTION"
  "PREVIOUS_ACCEPTED \<noteq> APPLY_OPERATION" "PREVIOUS_ACCEPTED \<noteq> APPLY_PREVIOUS"
  "APPLY_ATTRIBUTION \<noteq> DESIRED" "APPLY_ATTRIBUTION \<noteq> PREVIOUS_ACCEPTED"
  "APPLY_ATTRIBUTION \<noteq> APPLY_OPERATION" "APPLY_ATTRIBUTION \<noteq> APPLY_PREVIOUS"
  "APPLY_OPERATION \<noteq> DESIRED" "APPLY_OPERATION \<noteq> PREVIOUS_ACCEPTED"
  "APPLY_OPERATION \<noteq> APPLY_ATTRIBUTION" "APPLY_OPERATION \<noteq> APPLY_PREVIOUS"
  "APPLY_PREVIOUS \<noteq> DESIRED" "APPLY_PREVIOUS \<noteq> PREVIOUS_ACCEPTED"
  "APPLY_PREVIOUS \<noteq> APPLY_ATTRIBUTION" "APPLY_PREVIOUS \<noteq> APPLY_OPERATION"
  by code_simp+

interpretation dur: durable_store "durable_write E" "durable_remove E" journal_paths for E
proof unfold_locales
  show "p \<in> journal_paths \<Longrightarrow> \<not> is_temp p" for p
    using journal_lasting by (simp add: lasting_def)
  then show "p \<in> journal_paths \<Longrightarrow> run_state (durable_write E p b) w = (r, w') \<Longrightarrow>
      writes p (Some b) w w' \<and> (r = Inr () \<longrightarrow> files w' p = Some b)" for p b w r w'
    using durable_write_writes by blast
  show "p \<in> journal_paths \<Longrightarrow> run_state (durable_remove E p) w = (r, w') \<Longrightarrow>
      writes p None w w' \<and> (r = Inr () \<longrightarrow> files w' p = None)" for p w r w'
    using durable_remove_writes by blast
qed

section \<open>What the next start restores\<close>

type_synonym durable_state = "desired_state \<times> string option \<times> string option"

definition normal_revision :: "desired_state \<Rightarrow> desired_state" where
  "normal_revision st = (if revision st = 0 then st\<lparr>revision := 1\<rparr> else st)"

definition desired_file :: "codecs \<Rightarrow> string option \<Rightarrow> desired_state option" where
  "desired_file c f = Option.bind f (\<lambda>raw. map_option normal_revision (ok_opt (desired_of_toml c raw)))"

definition boot_state :: "codecs \<Rightarrow> files \<Rightarrow> durable_state option" where
  "boot_state c f =
     (let kept = map_option (\<lambda>st. (st, f PREVIOUS_ACCEPTED, f APPLY_ATTRIBUTION)) in
      case f APPLY_OPERATION of
        Some raw \<Rightarrow>
          (case operation_of_text c raw of
             Inl _ \<Rightarrow> None
           | Inr op \<Rightarrow>
               if phase op = Accepted then kept (desired_file c (f DESIRED))
               else Some (accepted op, previous_accepted op, previous_attribution op))
      | None \<Rightarrow>
          (case f APPLY_PREVIOUS of
             Some raw \<Rightarrow> kept (desired_file c (Some raw))
           | None \<Rightarrow> kept (desired_file c (f DESIRED))))"

lemma boot_state_restrict [simp]: "boot_state c (f |` journal_paths) = boot_state c f"
  unfolding boot_state_def by (simp only: restrict_in in_journal)

lemma boot_state_core: "boot_state c (core journal_paths w) = boot_state c (files w)"
  by (simp add: core_def)

section \<open>An attempt under its journal\<close>

definition old_state :: "attempt \<Rightarrow> durable_state" where
  "old_state a = (at_current a, at_predecessor a, at_attribution a)"

definition journaled :: "codecs \<Rightarrow> attempt \<Rightarrow> files \<Rightarrow> bool" where
  "journaled c a f \<longleftrightarrow>
     (\<exists>raw op. f APPLY_OPERATION = Some raw \<and> operation_of_text c raw = Inr op \<and> phase op \<noteq> Accepted
        \<and> accepted op = at_current a \<and> previous_accepted op = at_predecessor a
        \<and> previous_attribution op = at_attribution a)
     \<and> f APPLY_PREVIOUS = None"

lemma journaled_boot: "journaled c a f \<Longrightarrow> boot_state c f = Some (old_state a)"
  by (auto simp: journaled_def boot_state_def old_state_def)

lemma journaled_upd:
  "p \<notin> {APPLY_OPERATION, APPLY_PREVIOUS} \<Longrightarrow> journaled c a (f(p := v)) \<longleftrightarrow> journaled c a f"
  by (auto simp: journaled_def)

definition in_attempt :: "codecs \<Rightarrow> attempt \<Rightarrow> 'k world \<Rightarrow> bool" where
  "in_attempt c a w \<longleftrightarrow>
     always journal_paths (\<lambda>f. boot_state c f = Some (old_state a)) w
     \<and> journaled c a (core journal_paths w)"

abbreviation jcore :: "'k world \<Rightarrow> files" where
  "jcore \<equiv> core journal_paths"

lemma kept_attempt:
  assumes "kept journal_paths w w'"
  shows "jcore w' = jcore w" and "in_attempt c a w \<Longrightarrow> in_attempt c a w'"
proof -
  show core: "jcore w' = jcore w"
    using dur.kept_step [OF assms, of "\<lambda>_. True"] by (simp add: always_def)
  show "in_attempt c a w \<Longrightarrow> in_attempt c a w'"
    using dur.kept_step [OF assms] core by (auto simp: in_attempt_def)
qed

lemma put_attempt:
  assumes "run_state (durable_write E p b) w = (r, w')" and "p \<in> journal_paths" and "p \<notin> {APPLY_OPERATION, APPLY_PREVIOUS}"
    and "in_attempt c a w"
  shows "in_attempt c a w'" and "r = Inr () \<Longrightarrow> jcore w' = (jcore w)(p := Some b)"
    and "jcore w' \<in> {jcore w, (jcore w)(p := Some b)}" and "recovery_required w' = recovery_required w"
proof -
  have "journaled c a ((jcore w)(p := Some b))"
    using assms(3,4) by (simp add: in_attempt_def journaled_upd)
  then have step: "always journal_paths (\<lambda>f. boot_state c f = Some (old_state a)) w'
      \<and> jcore w' \<in> {jcore w, (jcore w)(p := Some b)}
      \<and> (r = Inr () \<longrightarrow> jcore w' = (jcore w)(p := Some b)) \<and> recovery_required w' = recovery_required w"
    using dur.put_step [OF assms(1,2)] assms(4) journaled_boot by (auto simp: in_attempt_def)
  then show "in_attempt c a w'"
    using assms(3,4) by (auto simp: in_attempt_def journaled_upd)
  show "r = Inr () \<Longrightarrow> jcore w' = (jcore w)(p := Some b)"
    and "jcore w' \<in> {jcore w, (jcore w)(p := Some b)}" and "recovery_required w' = recovery_required w"
    using step by auto
qed

lemma delete_attempt:
  assumes "run_state (durable_remove E p) w = (r, w')" and "p \<in> journal_paths" and "p \<notin> {APPLY_OPERATION, APPLY_PREVIOUS}"
    and "in_attempt c a w"
  shows "in_attempt c a w'" and "r = Inr () \<Longrightarrow> jcore w' = (jcore w)(p := None)"
    and "jcore w' \<in> {jcore w, (jcore w)(p := None)}" and "recovery_required w' = recovery_required w"
proof -
  have "journaled c a ((jcore w)(p := None))"
    using assms(3,4) by (simp add: in_attempt_def journaled_upd)
  then have step: "always journal_paths (\<lambda>f. boot_state c f = Some (old_state a)) w'
      \<and> jcore w' \<in> {jcore w, (jcore w)(p := None)}
      \<and> (r = Inr () \<longrightarrow> jcore w' = (jcore w)(p := None)) \<and> recovery_required w' = recovery_required w"
    using dur.delete_step [OF assms(1,2)] assms(4) journaled_boot by (auto simp: in_attempt_def)
  then show "in_attempt c a w'"
    using assms(3,4) by (auto simp: in_attempt_def journaled_upd)
  show "r = Inr () \<Longrightarrow> jcore w' = (jcore w)(p := None)"
    and "jcore w' \<in> {jcore w, (jcore w)(p := None)}" and "recovery_required w' = recovery_required w"
    using step by auto
qed

lemma kept_run:
  assumes "keeps (kept journal_paths) m" and "run_state m w = (r, w')"
  shows "jcore w' = jcore w" and "in_attempt c a w \<Longrightarrow> in_attempt c a w'"
  using kept_attempt keepsD [OF assms] by blast+

lemma same_run:
  assumes "keeps (same_on journal_paths) m" and "run_state m w = (r, w')"
  shows "jcore w' = jcore w" and "in_attempt c a w \<Longrightarrow> in_attempt c a w'"
    and "recovery_required w' = recovery_required w"
  using kept_run [OF keeps_kept [OF assms(1)] assms(2)] flag_same [OF assms] by blast+

lemmas same_journal = same_apply_state [OF journal_apart] same_apply_unit [OF journal_apart]
  same_set_lan_services_ready [OF journal_lasting in_journal(6)] same_remove_tentative_state [OF journal_apart]

section \<open>Triples\<close>

text \<open>\<open>triple P m Q F\<close>: from \<open>P\<close>, a success of \<open>m\<close> ends in \<open>Q\<close> and an error in \<open>F\<close>.\<close>

definition triple ::
    "('s \<Rightarrow> bool) \<Rightarrow> ('s, 'a res) state \<Rightarrow> ('a \<Rightarrow> 's \<Rightarrow> bool) \<Rightarrow> ('s \<Rightarrow> bool) \<Rightarrow> bool" where
  "triple P m Q F \<longleftrightarrow>
     (\<forall>w. P w \<longrightarrow> (case run_state m w of (Inr a, w') \<Rightarrow> Q a w' | (Inl e, w') \<Rightarrow> F w'))"

lemma triple_ok: "(\<And>w. P w \<Longrightarrow> Q a w) \<Longrightarrow> triple P (okE a) Q F"
  by (simp add: triple_def)

lemma triple_err: "(\<And>w. P w \<Longrightarrow> F w) \<Longrightarrow> triple P (errE e) Q F"
  by (simp add: triple_def)

lemma triple_ret: "(\<And>w a. P w \<Longrightarrow> v = Inr a \<Longrightarrow> Q a w) \<Longrightarrow> (\<And>w. P w \<Longrightarrow> F w) \<Longrightarrow> triple P (ret v) Q F"
  by (cases v) (auto simp: triple_def)

lemma triple_tryE:
  "triple P m M F \<Longrightarrow> (\<And>a. triple (M a) (f a) Q F) \<Longrightarrow> triple P (tryE m f) Q F"
  unfolding triple_def run_tryE by (fastforce split: prod.splits sum.splits)

lemma triple_map_err: "triple P m Q F \<Longrightarrow> triple P (map_err g m) Q F"
  unfolding triple_def run_map_err by (fastforce split: prod.splits sum.splits)

lemma triple_pre: "(\<And>w. P w \<Longrightarrow> P' w) \<Longrightarrow> triple P' m Q F \<Longrightarrow> triple P m Q F"
  by (simp add: triple_def)

lemma triple_run_ok: "triple P m Q F \<Longrightarrow> P w \<Longrightarrow> run_state m w = (Inr a, w') \<Longrightarrow> Q a w'"
  unfolding triple_def by fastforce

lemma triple_run_err: "triple P m Q F \<Longrightarrow> P w \<Longrightarrow> run_state m w = (Inl e, w') \<Longrightarrow> F w'"
  unfolding triple_def by fastforce

lemma triple_if: "triple P m Q F \<Longrightarrow> triple P m' Q F \<Longrightarrow> triple P (if b then m else m') Q F"
  by simp

text \<open>In an attempt, with the journal files exactly \<open>f\<close> or whatever they are, and the flag \<open>b\<close>.\<close>

definition inside :: "codecs \<Rightarrow> attempt \<Rightarrow> bool \<Rightarrow> 'k world \<Rightarrow> bool" where
  "inside c a b w \<longleftrightarrow> in_attempt c a w \<and> recovery_required w = b"

definition here :: "codecs \<Rightarrow> attempt \<Rightarrow> bool \<Rightarrow> files \<Rightarrow> 'k world \<Rightarrow> bool" where
  "here c a b f w \<longleftrightarrow> inside c a b w \<and> jcore w = f"

lemma triple_same:
  assumes "keeps (same_on journal_paths) m"
  shows "triple (here c a b f) m (\<lambda>_. here c a b f) (inside c a b)"
  unfolding triple_def here_def inside_def
  using same_run [OF assms] by (auto split: prod.splits sum.splits)

section \<open>The steps of an attempt\<close>

text \<open>Writing the three files of a commit, and putting them back.\<close>

lemma persist_at_attempt:
  assumes "run_state (persist_at E p st) w = (r, w')" and "p \<in> {DESIRED, PREVIOUS_ACCEPTED}"
    and "in_attempt c a w"
  shows "in_attempt c a w'" and "recovery_required w' = recovery_required w"
    and "r = Inr () \<Longrightarrow> \<exists>t. toml_of_desired (codec E) st = Inr t \<and> jcore w' = (jcore w)(p := Some t)"
  using assms put_attempt [of E p _ w r w' c a]
  by (auto simp: persist_at_def split: sum.splits)

lemma restore_file_attempt:
  assumes "run_state (restore_file E p v) w = (r, w')" and "p \<in> {PREVIOUS_ACCEPTED, APPLY_ATTRIBUTION}"
    and "in_attempt c a w"
  shows "in_attempt c a w'" and "recovery_required w' = recovery_required w"
    and "r = Inr () \<Longrightarrow> jcore w' = (jcore w)(p := v)"
    and "q \<noteq> p \<Longrightarrow> jcore w' q = jcore w q"
proof -
  have p: "p \<in> journal_paths" "p \<notin> {APPLY_OPERATION, APPLY_PREVIOUS}" using assms(2) by auto
  have "in_attempt c a w' \<and> recovery_required w' = recovery_required w
      \<and> (r = Inr () \<longrightarrow> jcore w' = (jcore w)(p := v)) \<and> jcore w' \<in> {jcore w, (jcore w)(p := v)}"
  proof (cases v)
    case None
    then have "run_state (durable_remove E p) w = (r, w')" using assms(1) by (simp add: restore_file_def)
    from delete_attempt [OF this p assms(3)] show ?thesis using None by blast
  next
    case (Some raw)
    then have "run_state (durable_write E p raw) w = (r, w')" using assms(1) by (simp add: restore_file_def)
    from put_attempt [OF this p assms(3)] show ?thesis using Some by blast
  qed
  then show "in_attempt c a w'" and "recovery_required w' = recovery_required w"
    and "r = Inr () \<Longrightarrow> jcore w' = (jcore w)(p := v)" and "q \<noteq> p \<Longrightarrow> jcore w' q = jcore w q"
    by auto
qed

text \<open>The state of the journal files after a commit of \<open>proposal\<close>.\<close>

definition committed :: "codecs \<Rightarrow> attempt \<Rightarrow> desired_state \<Rightarrow> files \<Rightarrow> files \<Rightarrow> bool" where
  "committed c a proposal f g \<longleftrightarrow>
     (\<exists>tb ta tt receipts. toml_of_desired c proposal = Inr tb \<and> toml_of_desired c (at_current a) = Inr ta
        \<and> accepted_draft_receipts c (at_attribution a) (revision (at_current a)) (at_actor a) (at_draft a)
            (revision proposal) = Inr receipts
        \<and> text_of_attribution c \<lparr> attr_revision = revision proposal, attr_applying = at_actor a,
             attr_confirming = None, attr_draft_version = None, draft_receipts = receipts \<rparr> = Inr tt
        \<and> g = f(DESIRED := Some tb, PREVIOUS_ACCEPTED := Some ta, APPLY_ATTRIBUTION := Some tt))"

lemma commit_files_attempt:
  assumes run: "run_state (commit_files E a proposal) w = (r, w')" and w: "in_attempt (codec E) a w"
  shows "in_attempt (codec E) a w'" and "recovery_required w' = recovery_required w"
    and "r = Inr () \<Longrightarrow> committed (codec E) a proposal (jcore w) (jcore w')"
proof -
  let ?c = "codec E"
  have "in_attempt ?c a w' \<and> recovery_required w' = recovery_required w
      \<and> (r = Inr () \<longrightarrow> committed ?c a proposal (jcore w) (jcore w'))"
  proof (cases "accepted_draft_receipts ?c (at_attribution a) (revision (at_current a)) (at_actor a)
            (at_draft a) (revision proposal)")
    case (Inl e)
    then show ?thesis using run w by (auto simp: commit_files_def run_tryE)
  next
    case (Inr receipts)
    let ?entry = "\<lparr> attr_revision = revision proposal, attr_applying = at_actor a, attr_confirming = None,
               attr_draft_version = None, draft_receipts = receipts \<rparr>"
    obtain r1 w1 where s1: "run_state (persist E proposal) w = (r1, w1)" by fastforce
    obtain r2 w2 where s2: "run_state (persist_at E PREVIOUS_ACCEPTED (at_current a)) w1 = (r2, w2)" by fastforce
    obtain r3 w3 where s3: "run_state (write_attribution E ?entry) w2 = (r3, w3)" by fastforce
    note p1 = persist_at_attempt [OF s1 [unfolded persist_def] _ w]
    have a1: "in_attempt ?c a w1" "recovery_required w1 = recovery_required w" using p1 by auto
    note p2 = persist_at_attempt [OF s2 _ a1(1)]
    have a2: "in_attempt ?c a w2" "recovery_required w2 = recovery_required w" using p2 a1 by auto
    have a3: "in_attempt ?c a w3 \<and> recovery_required w3 = recovery_required w
        \<and> (r3 = Inr () \<longrightarrow> (\<exists>t. text_of_attribution ?c ?entry = Inr t
             \<and> jcore w3 = (jcore w2)(APPLY_ATTRIBUTION := Some t)))"
      using s3 a2 put_attempt [of E APPLY_ATTRIBUTION _ w2 r3 w3 ?c a]
      by (auto simp: write_attribution_def split: sum.splits)
    show ?thesis
    proof (cases "\<exists>u v. r1 = Inr u \<and> r2 = Inr v")
      case True
      then have "jcore w3 = jcore w3 \<and> r = r3 \<and> w' = w3"
        using run Inr s1 s2 s3 by (auto simp: commit_files_def run_tryE)
      moreover obtain tb ta where "toml_of_desired ?c proposal = Inr tb" "jcore w1 = (jcore w)(DESIRED := Some tb)"
          "toml_of_desired ?c (at_current a) = Inr ta" "jcore w2 = (jcore w1)(PREVIOUS_ACCEPTED := Some ta)"
        using True p1(3) p2(3) by auto
      ultimately show ?thesis using a3 Inr by (auto simp: committed_def)
    next
      case False
      then show ?thesis
        using run Inr s1 s2 a1 a2 by (cases r1; cases r2) (auto simp: commit_files_def run_tryE)
    qed
  qed
  then show "in_attempt (codec E) a w'" and "recovery_required w' = recovery_required w"
    and "r = Inr () \<Longrightarrow> committed (codec E) a proposal (jcore w) (jcore w')" by blast+
qed

lemma triple_commit_files:
  "triple (here (codec E) a b f) (commit_files E a proposal)
     (\<lambda>_ w. inside (codec E) a b w \<and> committed (codec E) a proposal f (jcore w)) (inside (codec E) a b)"
  unfolding triple_def here_def inside_def
  using commit_files_attempt [of E a proposal] by (auto split: prod.splits sum.splits)

text \<open>Where a successful attempt leaves the journal files.\<close>

definition attempted :: "codecs \<Rightarrow> attempt \<Rightarrow> bool \<Rightarrow> files \<Rightarrow> desired_state \<Rightarrow> 'k world \<Rightarrow> bool" where
  "attempted c a b f proposal w \<longleftrightarrow> inside c a b w
     \<and> (if needs_confirmation a then jcore w = f else committed c a proposal f (jcore w))"

lemma attempt_apply_run:
  assumes run: "run_state (attempt_apply E a start) w = ((proposal, r), w')"
    and w: "here (codec E) a b f w"
  shows "only_addresses start proposal"
    and "r = Inr () \<Longrightarrow> attempted (codec E) a b f proposal w'" and "inside (codec E) a b w'"
proof -
  let ?c = "codec E"
  obtain st1 r1 w1 where s1: "run_state (apply_state E start) w = ((st1, r1), w1)" by (metis surj_pair)
  let ?m = "seqE (ret r1)
       (seqE (remove_stale_routes E (at_current a) st1)
       (tryE (set_lan_services_ready E True) (\<lambda>g.
        tryE (liftE (ok_or g ''LAN service generation was not published'')) (\<lambda>generation.
        seqE (wait_lan_services E generation)
          (if \<not> apply_confirmation (at_current a) \<or> at_intent a = Recovery_restore
           then commit_files E a st1 else okE ())))))"
  have m: "run_state ?m w1 = (r, w')" and p: "proposal = st1"
    using run s1 by (auto simp: attempt_apply_def split: prod.splits)
  show "only_addresses start proposal"
    using apply_state_only_addresses [OF s1] p by simp
  have w1: "here ?c a b f w1"
    using same_run [OF same_journal(1) s1] w by (simp add: here_def inside_def)
  have last: "triple (here ?c a b f)
      (if \<not> apply_confirmation (at_current a) \<or> at_intent a = Recovery_restore
       then commit_files E a st1 else okE ()) (\<lambda>_. attempted ?c a b f st1) (inside ?c a b)"
  proof (cases "needs_confirmation a")
    case True
    then show ?thesis
      by (auto simp: needs_confirmation_def attempted_def here_def intro!: triple_ok)
  next
    case False
    then have "\<not> apply_confirmation (at_current a) \<or> at_intent a = Recovery_restore"
      by (cases "at_intent a") (auto simp: needs_confirmation_def)
    then show ?thesis
      using triple_commit_files [of E a b f st1] False by (simp add: attempted_def [abs_def])
  qed
  have ret: "triple (here ?c a b f) (ret v) (\<lambda>_. here ?c a b f) (inside ?c a b)" for v :: "'z res"
    by (rule triple_ret) (auto simp: here_def)
  have t: "triple (here ?c a b f) ?m (\<lambda>_. attempted ?c a b f st1) (inside ?c a b)"
    by (intro triple_tryE [OF ret] triple_tryE [OF triple_same] same_remove_stale_routes
        same_journal(3) same_wait_lan_services last)
  show "r = Inr () \<Longrightarrow> attempted ?c a b f proposal w'"
    using triple_run_ok [OF t w1] m p by simp
  show "inside ?c a b w'"
  proof (cases r)
    case (Inl e)
    then show ?thesis using triple_run_err [OF t w1] m by simp
  next
    case (Inr u)
    then show ?thesis using triple_run_ok [OF t w1] m by (simp add: attempted_def)
  qed
qed

section \<open>The rollback\<close>

definition sound_attempt :: "codecs \<Rightarrow> attempt \<Rightarrow> bool" where
  "sound_attempt c a \<longleftrightarrow>
     lawful c \<and> revision (at_current a) \<noteq> 0 \<and> service_files (at_footprint a)"

definition restored :: "codecs \<Rightarrow> attempt \<Rightarrow> files \<Rightarrow> bool" where
  "restored c a f \<longleftrightarrow>
     (\<exists>ta. toml_of_desired c (at_current a) = Inr ta \<and> f DESIRED = Some ta)
     \<and> f PREVIOUS_ACCEPTED = at_predecessor a \<and> f APPLY_ATTRIBUTION = at_attribution a"

lemma restored_boot:
  assumes "sound_attempt c a" and "restored c a f" and "f APPLY_OPERATION = None" and "f APPLY_PREVIOUS = None"
  shows "boot_state c f = Some (old_state a)"
  using assms lawful_toml
  by (fastforce simp: sound_attempt_def restored_def boot_state_def desired_file_def normal_revision_def
      old_state_def)

lemma failures_of_Nil [simp]: "failures_of prefix r = [] \<longleftrightarrow> (\<exists>x. r = Inr x)"
  by (cases r) (auto simp: failures_of_def)

lemma restore_live_run:
  assumes run: "run_state (restore_live E a proposal) w = (fs, w')" and w: "in_attempt c a w"
    and sound: "sound_attempt c a"
  shows "inside c a True w'"
proof -
  obtain g w1 where s1: "run_state (require_recovery_guard E) w = (g, w1)" by fastforce
  let ?rest = "do {
     s \<leftarrow> set_lan_services_ready E False;
     (_, l) \<leftarrow> apply_state E (at_current a);
     t \<leftarrow> remove_stale_routes E proposal (at_current a);
     f \<leftarrow> remove_tentative_state E (at_footprint a);
     ret (failures_of ''block forwarding during recovery: '' g
          @ failures_of ''suspend tentative LAN services: '' s
          @ failures_of ''restore live Accepted state: '' l
          @ failures_of ''remove tentative routes: '' t @ f) }"
  have rest: "run_state ?rest w1 = (fs, w')"
    using run s1 by (simp add: restore_live_def)
  have "keeps (same_on journal_paths) ?rest"
    using sound by (intro same.keeps_rules same_journal same_remove_stale_routes) (simp_all add: sound_attempt_def)
  from same_run [OF this rest] kept_run [OF kept_require_recovery_guard s1] require_recovery_guard_flag [OF s1]
  show ?thesis using w by (simp add: inside_def)
qed

lemma restore_durable_run:
  assumes run: "run_state (restore_durable E a) w = (fs, w')" and w: "inside (codec E) a b w"
  shows "inside (codec E) a b w'" and "fs = [] \<Longrightarrow> restored (codec E) a (jcore w')"
proof -
  obtain d w1 where s1: "run_state (persist E (at_current a)) w = (d, w1)" by fastforce
  obtain p w2 where s2: "run_state (restore_file E PREVIOUS_ACCEPTED (at_predecessor a)) w1 = (p, w2)" by fastforce
  obtain t w3 where s3: "run_state (restore_file E APPLY_ATTRIBUTION (at_attribution a)) w2 = (t, w3)" by fastforce
  have fs: "w' = w3" "fs = failures_of ''restore durable Accepted state: '' d
      @ failures_of ''restore retained predecessor: '' p @ failures_of ''restore prior Apply actors: '' t"
    using run s1 s2 s3 by (auto simp: restore_durable_def restore_attribution_def)
  have p1: "inside (codec E) a b w1"
    "d = Inr () \<Longrightarrow> \<exists>t. toml_of_desired (codec E) (at_current a) = Inr t \<and> jcore w1 = (jcore w)(DESIRED := Some t)"
    using persist_at_attempt [OF s1 [unfolded persist_def], of "codec E" a] w by (simp_all add: inside_def)
  note p2 = restore_file_attempt [OF s2, of "codec E" a]
  note p3 = restore_file_attempt [OF s3, of "codec E" a]
  have i2: "inside (codec E) a b w2" using p2 p1 by (simp add: inside_def)
  have i3: "inside (codec E) a b w3" using p3 i2 by (simp add: inside_def)
  show "inside (codec E) a b w'" using i3 fs by simp
  assume "fs = []"
  then have ok: "d = Inr ()" "p = Inr ()" "t = Inr ()" using fs by auto
  obtain ta where "toml_of_desired (codec E) (at_current a) = Inr ta" "jcore w1 DESIRED = Some ta"
    using p1(2) [OF ok(1)] by auto
  moreover have "jcore w2 = (jcore w1)(PREVIOUS_ACCEPTED := at_predecessor a)"
    "jcore w3 = (jcore w2)(APPLY_ATTRIBUTION := at_attribution a)"
    using p2(3) [OF _ _ ok(2)] p3(3) [OF _ _ ok(3)] p1(1) i2 by (auto simp: inside_def)
  ultimately show "restored (codec E) a (jcore w')"
    using fs by (simp add: restored_def)
qed

lemma restore_services_same: "keeps (same_on journal_paths) (restore_services E a)"
  unfolding restore_services_def
  by (intro same.keeps_rules same_journal same_wait_lan_services)

abbreviation always_old :: "codecs \<Rightarrow> attempt \<Rightarrow> 'k world \<Rightarrow> bool" where
  "always_old c a \<equiv> always journal_paths (\<lambda>f. boot_state c f = Some (old_state a))"

lemma in_attempt_old: "in_attempt c a w \<Longrightarrow> always_old c a w"
  by (simp add: in_attempt_def)

lemma finish_recovery_run:
  assumes run: "run_state (finish_recovery E st APPLY_OPERATION) w = (r, w')"
    and w: "inside c a True w" and sound: "sound_attempt c a" and res: "restored c a (jcore w)"
  shows "always_old c a w'" and "r = Inr () \<longleftrightarrow> \<not> recovery_required w'"
proof -
  obtain d w1 where s1: "run_state (durable_remove E APPLY_OPERATION) w = (d, w1)" by fastforce
  obtain g w2 where s2: "run_state (require_recovery_guard E) w1 = (g, w2)" by fastforce
  obtain o1 w3 where s3: "run_state (reopen_restored_forwarding E st) w1 = (o1, w3)" by fastforce
  have "boot_state c ((jcore w)(APPLY_OPERATION := None)) = Some (old_state a)"
  proof (rule restored_boot [OF sound])
    show "restored c a ((jcore w)(APPLY_OPERATION := None))" using res by (simp add: restored_def)
    show "((jcore w)(APPLY_OPERATION := None)) APPLY_PREVIOUS = None"
      using w by (simp add: inside_def in_attempt_def journaled_def)
  qed simp
  then have a1: "always_old c a w1" "recovery_required w1"
    using dur.delete_step [OF s1, of "\<lambda>f. boot_state c f = Some (old_state a)"] w
    by (auto simp: inside_def in_attempt_def)
  have a2: "always_old c a w2" "always_old c a w3"
    using dur.kept_step [OF keepsD [OF kept_require_recovery_guard s2]]
      dur.kept_step [OF keepsD [OF kept_reopen_restored_forwarding s3]] a1 by blast+
  show "always_old c a w'" and "r = Inr () \<longleftrightarrow> \<not> recovery_required w'"
    using run s1 s2 s3 a2 require_recovery_guard_flag [OF s2] reopen_restored_forwarding_flag [OF s3]
    by (auto simp: finish_recovery_def split: sum.splits)
qed

lemma reply_failed_fields [simp]:
  "reply_outcome (reply_failed oc extra) = Some oc"
  "reply_restoration (reply_failed oc ((''restoration'', JStr x) # extra)) = Some x"
  "reply_restoration (reply_failed oc ((''status'', s) # (''restoration'', JStr x) # extra)) = Some x"
  by (simp_all add: reply_outcome_def reply_restoration_def reply_failed_def jindex_def jget_def jstr_def)

text \<open>A failed attempt: either everything is restored and the guard is gone, or the guard stays.\<close>

definition rolled_back :: "json \<Rightarrow> 'k world \<Rightarrow> bool" where
  "rolled_back v w \<longleftrightarrow>
     reply_outcome v = Some ''failed''
     \<and> (reply_restoration v = Some ''restored'' \<and> \<not> recovery_required w
        \<or> reply_restoration v \<in> {Some ''failed'', Some ''required''} \<and> recovery_required w)"

lemma restore_failed_apply_run:
  assumes run: "run_state (restore_failed_apply E a proposal error) w = (v, w')"
    and w: "in_attempt (codec E) a w" and sound: "sound_attempt (codec E) a"
  shows "always_old (codec E) a w' \<and> rolled_back v w'"
proof -
  let ?c = "codec E"
  obtain live w1 where s1: "run_state (restore_live E a proposal) w = (live, w1)" by fastforce
  obtain durable w2 where s2: "run_state (restore_durable E a) w1 = (durable, w2)" by fastforce
  obtain services w3 where s3: "run_state (if live @ durable = [] then restore_services E a else ret []) w2
      = (services, w3)" by fastforce
  obtain finish w4 where s4: "run_state (if live @ durable @ services = []
                then do { r \<leftarrow> finish_recovery E (at_current a) APPLY_OPERATION;
                          ret (failures_of ''complete recovery: '' r) }
                else ret []) w3 = (finish, w4)" by fastforce
  have i1: "inside ?c a True w1" by (rule restore_live_run [OF s1 w sound])
  note d = restore_durable_run [OF s2 i1]
  have "keeps (same_on journal_paths) (if live @ durable = [] then restore_services E a else ret [])"
    by (intro same.keeps_rules restore_services_same)
  from same_run [OF this s3] d(1) have i3: "inside ?c a True w3" "jcore w3 = jcore w2"
    by (simp_all add: inside_def)
  have i4: "always_old ?c a w4 \<and> (live @ durable @ services @ finish = [] \<longrightarrow> \<not> recovery_required w4)"
  proof (cases "live @ durable @ services = []")
    case True
    then obtain r where r: "run_state (finish_recovery E (at_current a) APPLY_OPERATION) w3 = (r, w4)"
        "finish = failures_of ''complete recovery: '' r"
      using s4 by (auto split: prod.splits)
    have "restored ?c a (jcore w3)" using d(2) True i3 by simp
    from finish_recovery_run [OF r(1) i3(1) sound this] show ?thesis using r(2) True by auto
  next
    case False
    then show ?thesis using s4 i3 in_attempt_old by (auto simp: inside_def)
  qed
  let ?fs = "live @ durable @ services @ finish"
  show ?thesis
  proof (cases "?fs = []")
    case True
    then have "w' = w4" "v = reply_failed ''failed''
             [(''status'', JStr ''restored''), (''restoration'', JStr ''restored''), (''applied'', JBool False),
              (''accepted'', JBool False), revision_field a, (''error'', JStr error)]"
      using run s1 s2 s3 s4 by (auto simp: restore_failed_apply_def Let_def)
    then show ?thesis using i4 True by (simp add: rolled_back_def)
  next
    case False
    let ?reply = "reply_failed ''failed''
             [(''status'', JStr ''recovery_required''), (''restoration'', JStr ''failed''), (''applied'', JBool False),
              (''accepted'', JBool False), revision_field a, (''error'', JStr error),
              (''recovery_error'', JStr (join_with ''; '' ?fs))]"
    have "run_state (do { set_recovery_required True; ret ?reply }) w4 = (v, w')"
      using run unfolding restore_failed_apply_def run_state_bind s1 s2 s3 s4 prod.case Let_def
        if_not_P [OF False] by simp
    then have "v = ?reply" "w' = w4\<lparr>recovery_required := True\<rparr>"
      by auto
    then show ?thesis using i4 by (simp add: rolled_back_def always_def core_def)
  qed
qed

section \<open>The commit\<close>

definition new_state :: "codecs \<Rightarrow> attempt \<Rightarrow> desired_state \<Rightarrow> durable_state option \<Rightarrow> bool" where
  "new_state c a proposal x \<longleftrightarrow>
     (\<exists>ta tt receipts. x = Some (proposal, Some ta, Some tt) \<and> toml_of_desired c (at_current a) = Inr ta
        \<and> accepted_draft_receipts c (at_attribution a) (revision (at_current a)) (at_actor a) (at_draft a)
            (revision proposal) = Inr receipts
        \<and> text_of_attribution c \<lparr> attr_revision = revision proposal, attr_applying = at_actor a,
             attr_confirming = None, attr_draft_version = None, draft_receipts = receipts \<rparr> = Inr tt)"

definition accepted_journal :: "codecs \<Rightarrow> string option \<Rightarrow> bool" where
  "accepted_journal c v \<longleftrightarrow>
     v = None \<or> (\<exists>raw op. v = Some raw \<and> operation_of_text c raw = Inr op \<and> phase op = Accepted)"

lemma accepted_journal_boot:
  "accepted_journal c (f APPLY_OPERATION) \<Longrightarrow> f APPLY_PREVIOUS = None \<Longrightarrow>
   boot_state c f = map_option (\<lambda>st. (st, f PREVIOUS_ACCEPTED, f APPLY_ATTRIBUTION)) (desired_file c (f DESIRED))"
  by (auto simp: accepted_journal_def boot_state_def)

lemma committed_new:
  assumes "lawful c" and "committed c a proposal f g" and "revision proposal \<noteq> 0"
    and "accepted_journal c v" and "g APPLY_PREVIOUS = None"
  shows "new_state c a proposal (boot_state c (g(APPLY_OPERATION := v)))"
  using assms lawful_toml [OF assms(1)]
  by (auto simp: accepted_journal_boot committed_def new_state_def desired_file_def normal_revision_def)

lemma indeterminate_run:
  assumes run: "run_state (indeterminate E e) w = (v, w')" and w: "always journal_paths G w"
  shows "always journal_paths G w'" and "jcore w' = jcore w" and "recovery_required w'"
    and "reply_outcome v = Some ''indeterminate''"
proof -
  obtain g w1 where s1: "run_state (require_recovery_guard E) w = (g, w1)" by fastforce
  then have v: "w' = w1" "reply_outcome v = Some ''indeterminate''"
    using run by (auto simp: indeterminate_def)
  from v s1 show "always journal_paths G w'" and "jcore w' = jcore w"
    using dur.kept_step [OF keepsD [OF kept_require_recovery_guard s1] w] by auto
  from v s1 require_recovery_guard_flag [OF s1] show "recovery_required w'" by simp
  from v show "reply_outcome v = Some ''indeterminate''" by simp
qed

definition either :: "codecs \<Rightarrow> attempt \<Rightarrow> desired_state \<Rightarrow> files \<Rightarrow> bool" where
  "either c a proposal f \<longleftrightarrow>
     boot_state c f = Some (old_state a) \<or> new_state c a proposal (boot_state c f)"

lemma always_mono: "always S G w \<Longrightarrow> (\<And>f. G f \<Longrightarrow> G' f) \<Longrightarrow> always S G' w"
  by (auto simp: always_def)

lemma accept_proposal_run:
  assumes run: "run_state (accept_proposal E a proposal base) w = (v, w')"
    and w: "inside (codec E) a b w" and sound: "sound_attempt (codec E) a"
    and com: "committed (codec E) a proposal f (jcore w)" and rv: "revision proposal \<noteq> 0"
  shows "always journal_paths (either (codec E) a proposal) w'"
    and "reply_outcome v = Some ''indeterminate'' \<and> recovery_required w'
      \<or> reply_outcome v = Some ''accepted'' \<and> recovery_required w' = b
        \<and> new_state (codec E) a proposal (boot_state (codec E) (files w'))"
proof -
  let ?c = "codec E" and ?op = "journal_of a Accepted"
  have law: "lawful ?c" using sound by (simp add: sound_attempt_def)
  have prev: "jcore w APPLY_PREVIOUS = None"
    using w by (simp add: inside_def in_attempt_def journaled_def)
  have old: "always journal_paths (either ?c a proposal) w"
    using w by (auto simp: inside_def in_attempt_def either_def elim: always_mono)
  have new: "new_state ?c a proposal (boot_state ?c ((jcore w)(APPLY_OPERATION := x)))"
    if "accepted_journal ?c x" for x
    by (rule committed_new [OF law com rv that prev])
  have "always journal_paths (either ?c a proposal) w'
    \<and> (reply_outcome v = Some ''indeterminate'' \<and> recovery_required w'
      \<or> reply_outcome v = Some ''accepted'' \<and> recovery_required w' = b
        \<and> new_state ?c a proposal (boot_state ?c (files w')))"
  proof (cases "text_of_operation ?c ?op")
    case (Inl e)
    then show ?thesis
      using run indeterminate_run [of E _ w v w', OF _ old] by (auto simp: accept_proposal_def)
  next
    case (Inr raw)
    have acc: "accepted_journal ?c (Some raw)"
      using lawful_operation [OF law Inr] by (auto simp: accepted_journal_def journal_of_def)
    obtain r1 w1 where s1: "run_state (durable_write E APPLY_OPERATION raw) w = (r1, w1)" by fastforce
    have st1: "always journal_paths (either ?c a proposal) w1" "recovery_required w1 = b"
        "r1 = Inr () \<longrightarrow> jcore w1 = (jcore w)(APPLY_OPERATION := Some raw)"
      using dur.put_step [OF s1 _ old] new [OF acc] w by (auto simp: either_def inside_def)
    show ?thesis
    proof (cases r1)
      case (Inl e)
      then show ?thesis
        using run Inr s1 indeterminate_run [of E _ w1 v w', OF _ st1(1)] by (auto simp: accept_proposal_def)
    next
      case ok: (Inr u)
      obtain r2 w2 where s2: "run_state (durable_remove E APPLY_OPERATION) w1 = (r2, w2)" by fastforce
      have j1: "jcore w1 = (jcore w)(APPLY_OPERATION := Some raw)" using st1(3) ok by simp
      have n: "new_state ?c a proposal (boot_state ?c ((jcore w1)(APPLY_OPERATION := None)))"
        using new [of None] j1 by (simp add: accepted_journal_def)
      have st2: "always journal_paths (either ?c a proposal) w2" "recovery_required w2 = b"
          "jcore w2 \<in> {jcore w1, (jcore w1)(APPLY_OPERATION := None)}"
        using dur.delete_step [OF s2 _ st1(1)] n st1(2) by (auto simp: either_def)
      have "new_state ?c a proposal (boot_state ?c (jcore w2))"
        using st2(3) n new [OF acc] j1 by auto
      then have "new_state ?c a proposal (boot_state ?c (files w2))"
        by (simp add: boot_state_core)
      moreover have "w' = w2" "reply_outcome v = Some ''accepted''"
        using run Inr s1 s2 ok
        by (auto simp: accept_proposal_def reply_outcome_def jindex_def jget_def jstr_def)
      ultimately show ?thesis using st2 by auto
    qed
  qed
  then show "always journal_paths (either ?c a proposal) w'"
    and "reply_outcome v = Some ''indeterminate'' \<and> recovery_required w'
      \<or> reply_outcome v = Some ''accepted'' \<and> recovery_required w' = b
        \<and> new_state ?c a proposal (boot_state ?c (files w'))" by blast+
qed

text \<open>The journal of a revision that waits for its confirmation.\<close>

definition awaiting :: "codecs \<Rightarrow> attempt \<Rightarrow> desired_state \<Rightarrow> files \<Rightarrow> bool" where
  "awaiting c a proposal f \<longleftrightarrow>
     (\<exists>raw op. f APPLY_OPERATION = Some raw \<and> operation_of_text c raw = Inr op
        \<and> phase op = Pending_confirmation \<and> accepted op = at_current a
        \<and> previous_accepted op = at_predecessor a \<and> previous_attribution op = at_attribution a
        \<and> proposed op = Some proposal \<and> op_applying op = at_actor a \<and> op_draft_version op = at_draft a
        \<and> (\<exists>deadline. deadline_boot_ns op = Some deadline))"

lemma awaiting_journaled:
  "awaiting c a proposal f \<Longrightarrow> f APPLY_PREVIOUS = None \<Longrightarrow> journaled c a f"
  unfolding awaiting_def journaled_def by (metis apply_phase.distinct(5))

lemma write_pending_run:
  assumes run: "run_state (case text_of_operation c op of Inl e \<Rightarrow> errE (g e)
            | Inr raw \<Rightarrow> durable_write E APPLY_OPERATION raw) w = (r, w')"
    and w: "inside c a b w" and law: "lawful c"
    and op: "\<And>raw. operation_of_text c raw = Inr op \<Longrightarrow> awaiting c a proposal ((jcore w)(APPLY_OPERATION := Some raw))"
  shows "inside c a b w'" and "r = Inr () \<Longrightarrow> awaiting c a proposal (jcore w')"
proof -
  have "inside c a b w' \<and> (r = Inr () \<longrightarrow> awaiting c a proposal (jcore w'))"
  proof (cases "text_of_operation c op")
    case (Inl e)
    then show ?thesis using run w by auto
  next
    case (Inr raw)
    have wait: "awaiting c a proposal ((jcore w)(APPLY_OPERATION := Some raw))"
      using op lawful_operation [OF law Inr] by simp
    have j: "journaled c a ((jcore w)(APPLY_OPERATION := Some raw))"
      using awaiting_journaled [OF wait] w by (simp add: inside_def in_attempt_def journaled_def)
    have s: "run_state (durable_write E APPLY_OPERATION raw) w = (r, w')" using run Inr by simp
    have "always_old c a w" using w by (simp add: inside_def in_attempt_def)
    from dur.put_step [OF s _ this] journaled_boot [OF j] have st: "always_old c a w'"
        "jcore w' \<in> {jcore w, (jcore w)(APPLY_OPERATION := Some raw)}"
        "r = Inr () \<longrightarrow> jcore w' = (jcore w)(APPLY_OPERATION := Some raw)"
        "recovery_required w' = recovery_required w" by auto
    then show ?thesis using w j wait by (auto simp: inside_def in_attempt_def)
  qed
  then show "inside c a b w'" and "r = Inr () \<Longrightarrow> awaiting c a proposal (jcore w')" by blast+
qed

text \<open>How an attempt can end.\<close>

definition ended :: "codecs \<Rightarrow> attempt \<Rightarrow> desired_state \<Rightarrow> bool \<Rightarrow> json \<Rightarrow> 'k world \<Rightarrow> bool" where
  "ended c a proposal b v w \<longleftrightarrow>
     always_old c a w \<and> rolled_back v w
     \<or> always_old c a w \<and> reply_outcome v = Some ''failed'' \<and> reply_restoration v = Some ''unchanged''
       \<and> recovery_required w = b
     \<or> always_old c a w \<and> reply_outcome v = Some ''pending_confirmation'' \<and> recovery_required w = b
       \<and> awaiting c a proposal (jcore w)
     \<or> always journal_paths (either c a proposal) w
       \<and> (reply_outcome v = Some ''indeterminate'' \<and> recovery_required w
          \<or> reply_outcome v = Some ''accepted'' \<and> recovery_required w = b
            \<and> new_state c a proposal (boot_state c (files w)))"

lemma ended_rolled_back:
  "run_state (restore_failed_apply E a proposal error) w = (v, w') \<Longrightarrow> in_attempt (codec E) a w \<Longrightarrow>
   sound_attempt (codec E) a \<Longrightarrow> ended (codec E) a p b v w'"
  using restore_failed_apply_run unfolding ended_def by blast

lemma same_boot_time: "keeps (same_on S) (boot_time_ns E)"
  unfolding boot_time_ns_def by (intro same.keeps_rules same_ops)

lemma await_confirmation_run:
  assumes run: "run_state (await_confirmation E a proposal base) w = (v, w')"
    and w: "inside (codec E) a b w" and sound: "sound_attempt (codec E) a"
  shows "ended (codec E) a proposal b v w'"
proof -
  let ?c = "codec E"
  have law: "lawful ?c" using sound by (simp add: sound_attempt_def)
  obtain t w1 where s1: "run_state (random_token E) w = (t, w1)" by fastforce
  have i1: "inside ?c a b w1" using same_run [OF same_random_token s1] w by (simp add: inside_def)
  show ?thesis
  proof (cases t)
    case (Inl e)
    then have "run_state (restore_failed_apply E a proposal e) w1 = (v, w')"
      using run s1 by (simp add: await_confirmation_def)
    then show ?thesis using ended_rolled_back i1 sound by (auto simp: inside_def)
  next
    case token: (Inr confirmation)
    obtain n w2 where s2: "run_state (boot_time_ns E) w1 = (n, w2)" by fastforce
    have i2: "inside ?c a b w2" using same_run [OF same_boot_time s2] i1 by (simp add: inside_def)
    show ?thesis
    proof (cases n)
      case (Inl e)
      then have "run_state (restore_failed_apply E a proposal e) w2 = (v, w')"
        using run s1 s2 token by (simp add: await_confirmation_def)
      then show ?thesis using ended_rolled_back i2 sound by (auto simp: inside_def)
    next
      case now: (Inr boot)
      obtain ms w3 where s3: "run_state (asks (unix_ms E)) w2 = (ms, w3)" by fastforce
      have i3: "inside ?c a b w3" "jcore w3 = jcore w2"
        using same_run [OF same_asks s3] i2 by (simp_all add: inside_def)
      define pending where "pending = (journal_of a Pending_confirmation)
          \<lparr> proposed := Some proposal, confirmation_id := Some confirmation,
            deadline_boot_ns := Some (saturating_add boot 120000000000),
            expires_at_unix_ms := Some (of_nat (ms + 120000)) \<rparr>"
      obtain r w4 where s4: "run_state (case text_of_operation ?c pending of
             Inl e \<Rightarrow> errE (''encode pending Apply confirmation: '' @ e)
           | Inr raw \<Rightarrow> durable_write E APPLY_OPERATION raw) w3 = (r, w4)" by fastforce
      have "awaiting ?c a proposal ((jcore w3)(APPLY_OPERATION := Some raw))"
        if "operation_of_text ?c raw = Inr pending" for raw
        using that by (simp add: awaiting_def pending_def journal_of_def)
      from write_pending_run [OF s4 i3(1) law this]
      have i4: "inside ?c a b w4" "r = Inr () \<Longrightarrow> awaiting ?c a proposal (jcore w4)" by auto
      show ?thesis
      proof (cases r)
        case (Inl e)
        then have "run_state (restore_failed_apply E a proposal (''retain pending Apply confirmation: '' @ e)) w4 = (v, w')"
          using run s1 s2 s3 s4 token now by (simp add: await_confirmation_def pending_def Let_def)
        then show ?thesis using ended_rolled_back i4 sound by (auto simp: inside_def)
      next
        case (Inr u)
        then have "w' = w4" "reply_outcome v = Some ''pending_confirmation''"
          using run s1 s2 s3 s4 token now
          by (auto simp: await_confirmation_def pending_def Let_def reply_outcome_def jindex_def jget_def jstr_def)
        then show ?thesis using i4 Inr by (simp add: ended_def inside_def in_attempt_def)
      qed
    qed
  qed
qed

section \<open>The whole transaction\<close>

lemma suspend_guarded_run:
  assumes run: "run_state (suspend_guarded E a m fs) w = (v, w')" and w: "always_old c a w"
  shows "always_old c a w' \<and> rolled_back v w'"
proof -
  obtain g w1 where s1: "run_state (require_recovery_guard E) w = (g, w1)" by fastforce
  have "w' = w1 \<and> reply_outcome v = Some ''failed'' \<and> reply_restoration v = Some ''required''"
    using run s1 by (auto simp: suspend_guarded_def)
  then show ?thesis
    using dur.kept_step [OF keepsD [OF kept_require_recovery_guard s1] w] require_recovery_guard_flag [OF s1]
    by (simp add: rolled_back_def)
qed

lemma suspend_failed_run:
  assumes run: "run_state (suspend_failed E a error) w = (v, w')" and w: "inside c a b w"
    and clear: "boot_state c ((jcore w)(APPLY_OPERATION := None)) = Some (old_state a)"
  shows "ended c a proposal b v w'"
proof -
  obtain r w1 where s1: "run_state (set_lan_services_ready E (at_ready_before a)) w = (r, w1)" by fastforce
  have i1: "inside c a b w1" "jcore w1 = jcore w"
    using same_run [OF same_journal(3) s1] w by (simp_all add: inside_def)
  have o1: "always_old c a w1" using i1 by (simp add: inside_def in_attempt_def)
  show ?thesis
  proof (cases r)
    case (Inl e)
    then show ?thesis
      using run s1 suspend_guarded_run [OF _ o1] by (auto simp: suspend_failed_def Let_def ended_def)
  next
    case (Inr g)
    obtain d w2 where s2: "run_state (durable_remove E APPLY_OPERATION) w1 = (d, w2)" by fastforce
    have o2: "always_old c a w2" "recovery_required w2 = b"
      using dur.delete_step [OF s2 _ o1] clear i1 by (auto simp: inside_def)
    show ?thesis
    proof (cases d)
      case ok: (Inr u)
      then show ?thesis
        using run s1 s2 Inr o2 by (auto simp: suspend_failed_def Let_def ended_def)
    next
      case (Inl cause)
      obtain needed w3 where s3: "run_state (operation_requires_recovery E) w2 = (needed, w3)" by fastforce
      have o3: "always_old c a w3" "recovery_required w3 = b"
        using dur.kept_step [OF same_on_kept [OF keepsD [OF same_operation_requires_recovery s3]] o2(1)]
          flag_same [OF same_operation_requires_recovery s3] o2 by auto
      show ?thesis
        using run s1 s2 s3 Inr Inl o3 suspend_guarded_run [OF _ o3(1)]
        by (cases needed) (auto simp: suspend_failed_def Let_def ended_def)
    qed
  qed
qed

lemma journal_failed_run:
  assumes run: "run_state (journal_failed E a error) w = (v, w')" and w: "always_old c a w"
    and flag: "recovery_required w = b"
  shows "ended c a proposal b v w'"
proof -
  obtain needed w1 where s1: "run_state (operation_requires_recovery E) w = (needed, w1)" by fastforce
  have o1: "always_old c a w1" "recovery_required w1 = b"
    using dur.kept_step [OF same_on_kept [OF keepsD [OF same_operation_requires_recovery s1]] w]
      flag_same [OF same_operation_requires_recovery s1] flag by auto
  obtain g w2 where s2: "run_state (require_recovery_guard E) w1 = (g, w2)" by fastforce
  show ?thesis
    using run s1 s2 o1 dur.kept_step [OF keepsD [OF kept_require_recovery_guard s2] o1(1)]
      require_recovery_guard_flag [OF s2]
    by (cases needed) (auto simp: journal_failed_def Let_def ended_def rolled_back_def)
qed

lemma run_attempt_run:
  assumes run: "run_state (run_attempt E a start base) w = (v, w')"
    and w: "inside (codec E) a b w" and sound: "sound_attempt (codec E) a" and rv: "revision start \<noteq> 0"
    and clear: "boot_state (codec E) ((jcore w)(APPLY_OPERATION := None)) = Some (old_state a)"
  shows "\<exists>proposal. only_addresses start proposal \<and> ended (codec E) a proposal b v w'"
proof -
  let ?c = "codec E"
  obtain r w1 where s1: "run_state (set_lan_services_ready E False) w = (r, w1)" by fastforce
  have i1: "inside ?c a b w1" "jcore w1 = jcore w"
    using same_run [OF same_journal(3) s1] w by (simp_all add: inside_def)
  show ?thesis
  proof (cases r)
    case (Inl e)
    then have "run_state (suspend_failed E a e) w1 = (v, w')"
      using run s1 by (simp add: run_attempt_def)
    from suspend_failed_run [OF this i1(1)] clear i1(2) show ?thesis
      using only_addresses_refl by metis
  next
    case (Inr g)
    obtain proposal q w2 where s2: "run_state (attempt_apply E a start) w1 = ((proposal, q), w2)"
      by (metis surj_pair)
    have "here ?c a b (jcore w) w1" using i1 by (simp add: here_def)
    note at = attempt_apply_run [OF s2 this]
    have rp: "revision proposal \<noteq> 0" using only_addresses_fields(1) [OF at(1)] rv by simp
    have "ended ?c a proposal b v w'"
    proof (cases q)
      case (Inl e)
      then have "run_state (restore_failed_apply E a proposal e) w2 = (v, w')"
        using run s1 s2 Inr by (simp add: run_attempt_def)
      then show ?thesis using ended_rolled_back at(3) sound by (auto simp: inside_def)
    next
      case ok: (Inr u)
      then have fin: "attempted ?c a b (jcore w) proposal w2" using at(2) by simp
      show ?thesis
      proof (cases "needs_confirmation a")
        case True
        then have "run_state (await_confirmation E a proposal base) w2 = (v, w')"
          using run s1 s2 Inr ok by (simp add: run_attempt_def)
        then show ?thesis using await_confirmation_run at(3) sound by blast
      next
        case False
        then have "run_state (accept_proposal E a proposal base) w2 = (v, w')"
          using run s1 s2 Inr ok by (simp add: run_attempt_def)
        from accept_proposal_run [OF this at(3) sound _ rp] fin False show ?thesis
          by (auto simp: attempted_def ended_def)
      qed
    qed
    then show ?thesis using at(1) by blast
  qed
qed

text \<open>Before the journal: no apply in flight, and the old state in the Accepted files.\<close>

definition quiet :: "codecs \<Rightarrow> attempt \<Rightarrow> files \<Rightarrow> bool" where
  "quiet c a f \<longleftrightarrow>
     accepted_journal c (f APPLY_OPERATION) \<and> f APPLY_PREVIOUS = None \<and> boot_state c f = Some (old_state a)"

lemma quiet_clear:
  "quiet c a f \<Longrightarrow> boot_state c (f(APPLY_OPERATION := None)) = Some (old_state a)"
  using accepted_journal_boot [of c f] accepted_journal_boot [of c "f(APPLY_OPERATION := None)"]
  by (simp add: quiet_def accepted_journal_def [of c None])

lemma begin_attempt_run:
  assumes run: "run_state (begin_attempt E a start base) w = (v, w')"
    and w: "always_old (codec E) a w" "quiet (codec E) a (jcore w)" and flag: "recovery_required w = b"
    and sound: "sound_attempt (codec E) a" and rv: "revision start \<noteq> 0"
  shows "\<exists>proposal. only_addresses start proposal \<and> ended (codec E) a proposal b v w'"
proof -
  let ?c = "codec E" and ?op = "journal_of a Applying"
  have law: "lawful ?c" using sound by (simp add: sound_attempt_def)
  show ?thesis
  proof (cases "text_of_operation ?c ?op")
    case (Inl e)
    then have "ended ?c a start b v w'"
      using run w flag by (auto simp: begin_attempt_def ended_def)
    then show ?thesis using only_addresses_refl by blast
  next
    case (Inr raw)
    have j: "journaled ?c a ((jcore w)(APPLY_OPERATION := Some raw))"
      using lawful_operation [OF law Inr] w(2) by (simp add: journaled_def journal_of_def quiet_def)
    obtain r w1 where s1: "run_state (durable_write E APPLY_OPERATION raw) w = (r, w1)" by fastforce
    have st: "always_old ?c a w1" "recovery_required w1 = b"
        "r = Inr () \<longrightarrow> jcore w1 = (jcore w)(APPLY_OPERATION := Some raw)"
      using dur.put_step [OF s1 _ w(1)] journaled_boot [OF j] flag by auto
    show ?thesis
    proof (cases r)
      case (Inl e)
      then have "ended ?c a start b v w'"
        using run Inr s1 journal_failed_run [OF _ st(1,2)] by (auto simp: begin_attempt_def)
      then show ?thesis using only_addresses_refl by blast
    next
      case ok: (Inr u)
      then have "run_state (run_attempt E a start base) w1 = (v, w')" "inside ?c a b w1"
          "boot_state ?c ((jcore w1)(APPLY_OPERATION := None)) = Some (old_state a)"
        using run Inr s1 st j quiet_clear [OF w(2)] by (auto simp: begin_attempt_def inside_def in_attempt_def)
      then show ?thesis using run_attempt_run sound rv by blast
    qed
  qed
qed

section \<open>Before the journal\<close>

lemma read_file_run:
  assumes "run_state (read_file E p) w = (r, w')"
  shows "files w' = files w" and "r = Inr v \<Longrightarrow> v = files w p"
  using assms by (auto simp: read_file_def fault_def run_asks split: prod.splits option.splits)

lemma operation_requires_recovery_run:
  assumes "run_state (operation_requires_recovery E) w = (False, w')"
  shows "files w APPLY_OPERATION = None \<or>
    (\<exists>raw op. files w APPLY_OPERATION = Some raw \<and> operation_of_text (codec E) raw = Inr op \<and> phase op \<noteq> Applying)"
proof (cases "files w APPLY_OPERATION")
  case (Some raw)
  obtain r w1 where s1: "run_state (read_file E APPLY_OPERATION) w = (r, w1)" by fastforce
  have "\<exists>op. decoded_operation E r = Some op \<and> phase op \<noteq> Applying"
    using assms s1 Some
    by (auto simp: operation_requires_recovery_def file_exists_def split: option.splits)
  then show ?thesis
    using read_file_run(2) [OF s1]
    by (auto simp: decoded_operation_def ok_opt_def split: sum.splits option.splits)
qed simp

lemma pending_operation_run:
  assumes "run_state (pending_operation E) w = (Inr x, w')"
  shows "files w APPLY_OPERATION = None \<and> x = None \<or>
    (\<exists>raw op. files w APPLY_OPERATION = Some raw \<and> operation_of_text (codec E) raw = Inr op
       \<and> x = (if phase op = Pending_confirmation then Some op else None))"
proof -
  obtain r w1 where s1: "run_state (read_file E APPLY_OPERATION) w = (r, w1)" by fastforce
  show ?thesis
    using assms s1 read_file_run(2) [OF s1]
    by (auto simp: pending_operation_def run_tryE run_map_err split: sum.splits option.splits)
qed

lemma apply_busy_run:
  assumes run: "run_state (apply_busy E) w = (False, w')"
  shows "\<not> recovery_required w" and "accepted_journal (codec E) (files w APPLY_OPERATION)"
    and "files w APPLY_PREVIOUS = None"
proof -
  obtain n w1 where s1: "run_state (operation_requires_recovery E) w = (n, w1)" by fastforce
  obtain p w2 where s2: "run_state (pending_operation E) w1 = (p, w2)" by fastforce
  have f1: "files w1 APPLY_OPERATION = files w APPLY_OPERATION" "files w1 APPLY_PREVIOUS = files w APPLY_PREVIOUS"
    using same_run(1) [OF same_operation_requires_recovery s1]
    by (metis core_at in_journal(4), metis core_at in_journal(5))
  have all: "\<not> recovery_required w \<and> \<not> n \<and> files w APPLY_PREVIOUS = None \<and> p = Inr None"
    using run s1 s2 f1 by (auto simp: apply_busy_def recovery_pending_def file_exists_def split: if_splits)
  then show "\<not> recovery_required w" and "files w APPLY_PREVIOUS = None" by auto
  have "run_state (operation_requires_recovery E) w = (False, w1)" using s1 all by simp
  note req = operation_requires_recovery_run [OF this]
  have "run_state (pending_operation E) w1 = (Inr None, w2)" using s2 all by simp
  note pend = pending_operation_run [OF this]
  show "accepted_journal (codec E) (files w APPLY_OPERATION)"
  proof (cases "files w APPLY_OPERATION")
    case (Some raw)
    with req obtain op where op: "operation_of_text (codec E) raw = Inr op" "phase op \<noteq> Applying" by auto
    with pend Some f1 have "phase op \<noteq> Pending_confirmation" by auto
    then have "phase op = Accepted" using op by (cases "phase op") auto
    then show ?thesis using Some op by (auto simp: accepted_journal_def)
  qed (simp add: accepted_journal_def)
qed

lemma accepted_desired_run:
  assumes run: "run_state (accepted_desired E) w = (Inr st, w')"
  shows "desired_file (codec E) (files w DESIRED) = Some st" and "revision st \<noteq> 0"
proof -
  obtain r w1 where s1: "run_state (read_file E DESIRED) w = (r, w1)" by fastforce
  then show "desired_file (codec E) (files w DESIRED) = Some st" and "revision st \<noteq> 0"
    using run read_file_run(2) [OF s1]
    by (auto simp: accepted_desired_def read_text_def run_tryE run_map_err desired_file_def
        normal_revision_def split: sum.splits option.splits if_splits)
qed

lemma same_prepare_attempt: "keeps (same_on S) (prepare_attempt E cur start actor draft intent)"
  unfolding prepare_attempt_def by (intro same.keeps_rules same_ops same_capture_footprint)

lemma prepare_attempt_run:
  assumes run: "run_state (prepare_attempt E cur start actor draft intent) w = (Inr a, w')"
  shows "old_state a = (cur, files w PREVIOUS_ACCEPTED, files w APPLY_ATTRIBUTION)"
    and "at_current a = cur" and "at_actor a = actor" and "at_draft a = draft" and "at_intent a = intent"
    and "service_files (at_footprint a)"
proof -
  obtain fp w1 where s1: "run_state (capture_footprint E cur start) w = (fp, w1)" by fastforce
  obtain p w2 where s2: "run_state (read_file E PREVIOUS_ACCEPTED) w1 = (p, w2)" by fastforce
  obtain t w3 where s3: "run_state (read_file E APPLY_ATTRIBUTION) w2 = (t, w3)" by fastforce
  have f: "files w1 PREVIOUS_ACCEPTED = files w PREVIOUS_ACCEPTED"
    "files w1 APPLY_ATTRIBUTION = files w APPLY_ATTRIBUTION"
    using same_run(1) [OF same_capture_footprint s1]
    by (metis core_at in_journal(2), metis core_at in_journal(3))
  have "\<exists>footprint predecessor attribution ready. fp = Inr footprint \<and> p = Inr predecessor \<and> t = Inr attribution
      \<and> a = \<lparr> at_current = cur, at_footprint = footprint, at_ready_before = ready,
               at_predecessor = predecessor, at_attribution = attribution,
               at_actor = actor, at_draft = draft, at_intent = intent \<rparr>"
    using run s1 s2 s3
    by (auto simp: prepare_attempt_def file_exists_def split: sum.splits)
  then obtain footprint predecessor attribution ready where r: "fp = Inr footprint" "p = Inr predecessor"
      "t = Inr attribution"
      and "a = \<lparr> at_current = cur, at_footprint = footprint, at_ready_before = ready,
               at_predecessor = predecessor, at_attribution = attribution,
               at_actor = actor, at_draft = draft, at_intent = intent \<rparr>" by blast
  then have sel: "at_current a = cur" "at_footprint a = footprint" "at_predecessor a = predecessor"
      "at_attribution a = attribution" by simp_all
  have "at_predecessor a = files w PREVIOUS_ACCEPTED" "at_attribution a = files w APPLY_ATTRIBUTION"
    using read_file_run(2) [OF s2 r(2)] read_file_run(2) [OF s3 r(3)] read_file_run(1) [OF s2] f sel by auto
  then show "old_state a = (cur, files w PREVIOUS_ACCEPTED, files w APPLY_ATTRIBUTION)"
    using sel by (simp add: old_state_def)
  show "service_files (at_footprint a)"
    using capture_service_files s1 r(1) sel by metis
qed (use assms in \<open>auto simp: prepare_attempt_def split: sum.splits prod.splits\<close>)

lemma same_check_proposed: "keeps (same_on S) (check_proposed E st)"
  unfolding check_proposed_def nft_rules_def by (intro same.keeps_rules same_ops)

lemma check_proposed_run:
  "run_state (check_proposed E st) w = (Inr u, w') \<Longrightarrow> validate (base64 (codec E)) st = Inr ()"
  by (auto simp: check_proposed_def run_tryE split: sum.splits)

text \<open>A request that is not accepted for an attempt touches nothing; one that is names the
  Accepted revision, validates, and its attempt ends as above.\<close>

definition untouched :: "json \<Rightarrow> 'k world \<Rightarrow> 'k world \<Rightarrow> bool" where
  "untouched v w w' \<longleftrightarrow>
     same_on journal_paths w w' \<and> reply_outcome v \<in> {Some ''busy'', Some ''rejected'', Some ''failed''}
     \<and> reply_restoration v \<in> {None, Some ''unchanged''}"

definition attempted_request ::
    "codecs \<Rightarrow> json \<Rightarrow> u64 option \<Rightarrow> principal option \<Rightarrow> json \<Rightarrow> 'k world \<Rightarrow> 'k world \<Rightarrow> bool" where
  "attempted_request c input base actor v w w' \<longleftrightarrow>
     (\<exists>a start proposal. boot_state c (files w) = Some (old_state a) \<and> at_actor a = actor
        \<and> base \<in> {None, Some (revision (at_current a))}
        \<and> desired_of_json c input = Inr start \<and> validate (base64 c) start = Inr ()
        \<and> revision (at_current a) \<noteq> - 1
        \<and> only_addresses (start\<lparr>revision := revision (at_current a) + 1\<rparr>) proposal
        \<and> lawful c \<and> ended c a proposal False v w')"

lemma reply_restoration_simps [simp]:
  "reply_restoration (reply_failed oc [(''error'', e)]) = None"
  "reply_restoration (reply_failed oc [(''revision'', n), (''error'', e)]) = None"
  by (simp_all add: reply_restoration_def reply_failed_def jindex_def jget_def jstr_def)

lemma rejected_fields [simp]:
  "reply_outcome (rejected n e) = Some ''rejected''" "reply_restoration (rejected n e) = None"
  by (simp_all add: rejected_def)

lemma prepare_attempt_reply:
  assumes "run_state (prepare_attempt E cur start actor draft intent) w = (Inl v, w')"
  shows "reply_outcome v = Some ''failed''" and "reply_restoration v \<in> {None, Some ''unchanged''}"
  using assms by (auto simp: prepare_attempt_def split: sum.splits prod.splits)

lemma always_of_trail:
  "trail w = [] \<Longrightarrow> boot_state c (files w) = x \<Longrightarrow> always journal_paths (\<lambda>f. boot_state c f = x) w"
  by (simp add: always_def core_def)

lemma apply_checked_run:
  assumes run: "run_state (apply_checked E cur start base actor draft intent) w = (v, w')"
    and law: "lawful (codec E)" and cur: "revision cur \<noteq> 0"
    and boot: "boot_state (codec E) (files w) = Some (cur, files w PREVIOUS_ACCEPTED, files w APPLY_ATTRIBUTION)"
    and old: "always journal_paths (\<lambda>f. boot_state (codec E) f = boot_state (codec E) (files w)) w"
    and acc: "accepted_journal (codec E) (files w APPLY_OPERATION)" and none: "files w APPLY_PREVIOUS = None"
    and flag: "\<not> recovery_required w"
  shows "untouched v w w' \<or>
    (\<exists>a proposal. old_state a = (cur, files w PREVIOUS_ACCEPTED, files w APPLY_ATTRIBUTION) \<and> at_actor a = actor
       \<and> validate (base64 (codec E)) start = Inr () \<and> revision cur \<noteq> - 1
       \<and> only_addresses (start\<lparr>revision := revision cur + 1\<rparr>) proposal \<and> ended (codec E) a proposal False v w')"
proof -
  let ?c = "codec E"
  obtain ch w1 where s1: "run_state (check_proposed E start) w = (ch, w1)" by fastforce
  have k1: "same_on journal_paths w w1" by (rule keepsD [OF same_check_proposed s1])
  show ?thesis
  proof (cases "\<exists>u. ch = Inr u \<and> revision cur \<noteq> - 1")
    case False
    then have "untouched v w w'"
      using run s1 k1 by (cases ch) (auto simp: apply_checked_def checked_succ_def untouched_def)
    then show ?thesis ..
  next
    case True
    let ?target = "start\<lparr>revision := revision cur + 1\<rparr>"
    obtain pr w2 where s2: "run_state (prepare_attempt E cur ?target actor draft intent) w1 = (pr, w2)" by fastforce
    have k2: "same_on journal_paths w w2"
      using same.trans [OF k1 keepsD [OF same_prepare_attempt s2]] .
    have valid: "validate (base64 ?c) start = Inr ()" using True s1 check_proposed_run by blast
    show ?thesis
    proof (cases pr)
      case (Inl reply)
      then have "run_state (ret reply) w2 = (v, w')"
        using run s1 s2 True by (auto simp: apply_checked_def checked_succ_def)
      then have "untouched v w w'"
        using k2 prepare_attempt_reply [of E cur ?target actor draft intent w1 reply w2] s2 Inl
        by (auto simp: untouched_def)
      then show ?thesis ..
    next
      case (Inr a)
      then have b: "run_state (begin_attempt E a ?target base) w2 = (v, w')"
        using run s1 s2 True by (auto simp: apply_checked_def checked_succ_def)
      note pa = prepare_attempt_run [OF s2 [unfolded Inr]]
      have j1: "jcore w1 = jcore w" and j2: "jcore w2 = jcore w"
        using kept_attempt(1) [OF same_on_kept [OF k1]] kept_attempt(1) [OF same_on_kept [OF k2]] by auto
      have same: "files w1 p = files w p" if "p \<in> journal_paths" for p
        using j1 core_at [OF that] by metis
      have os: "old_state a = (cur, files w PREVIOUS_ACCEPTED, files w APPLY_ATTRIBUTION)"
        using pa(1) same by simp
      have "always_old ?c a w2"
        using dur.kept_step [OF same_on_kept [OF k2] old] boot os by simp
      moreover have "quiet ?c a (jcore w2)"
        using acc none boot os j2 by (simp add: quiet_def core_at boot_state_core)
      moreover have "recovery_required w2 = False" using k2 flag by (simp add: same_on_def)
      moreover have "sound_attempt ?c a" using law cur pa by (simp add: sound_attempt_def)
      moreover have "revision ?target \<noteq> 0"
        using True by (simp add: eq_neg_iff_add_eq_0)
      ultimately obtain proposal where "only_addresses ?target proposal" "ended ?c a proposal False v w'"
        using begin_attempt_run [OF b] by blast
      then show ?thesis using os pa(3) valid True by blast
    qed
  qed
qed

lemma apply_desired_request_run:
  assumes run: "run_state (apply_desired_request E input base actor draft intent) w = (v, w')"
    and law: "lawful (codec E)" and tr: "trail w = []"
  shows "untouched v w w' \<or> attempted_request (codec E) input base actor v w w'"
proof -
  let ?c = "codec E"
  obtain bz w1 where s1: "run_state (apply_busy E) w = (bz, w1)" by fastforce
  obtain ad w2 where s2: "run_state (accepted_desired E) w1 = (ad, w2)" by fastforce
  have k1: "same_on journal_paths w w1" by (rule keepsD [OF same_apply_busy s1])
  have k2: "same_on journal_paths w w2" by (rule same.trans [OF k1 keepsD [OF same_accepted_desired s2]])
  show ?thesis
  proof (cases "bz \<or> (\<exists>e. ad = Inl e)")
    case True
    then have "untouched v w w'"
      using run s1 s2 k1 k2 by (cases bz) (auto simp: apply_desired_request_def untouched_def)
    then show ?thesis ..
  next
    case False
    then obtain cur where cur: "bz = False" "ad = Inr cur" by (cases ad) auto
    note nb = apply_busy_run [OF s1 [unfolded cur(1)]]
    note ac = accepted_desired_run [OF s2 [unfolded cur(2)]]
    have j1: "files w1 p = files w p" and j2: "files w2 p = files w p" if "p \<in> journal_paths" for p
      using kept_attempt(1) [OF same_on_kept [OF k1]] kept_attempt(1) [OF same_on_kept [OF k2]] core_at [OF that]
      by metis+
    have boot: "boot_state ?c (files w) = Some (cur, files w PREVIOUS_ACCEPTED, files w APPLY_ATTRIBUTION)"
      using accepted_journal_boot [OF nb(2,3)] ac(1) j1 by simp
    have boot2: "boot_state ?c (files w2) = boot_state ?c (files w)"
      using kept_attempt(1) [OF same_on_kept [OF k2]] boot_state_core by metis
    have old2: "always journal_paths (\<lambda>f. boot_state ?c f = boot_state ?c (files w2)) w2"
      using dur.kept_step [OF same_on_kept [OF k2] always_of_trail [OF tr refl]] boot2 by simp
    show ?thesis
    proof (cases "base \<in> {None, Some (revision cur)} \<and> (\<exists>start. desired_of_json ?c input = Inr start)")
      case False
      then have "untouched v w w'"
        using run s1 s2 cur k2
        by (auto simp: apply_desired_request_def Let_def untouched_def split: option.splits sum.splits if_splits)
      then show ?thesis ..
    next
      case True
      then obtain start where start: "desired_of_json ?c input = Inr start" by blast
      have r: "run_state (apply_checked E cur start (case base of Some b \<Rightarrow> b | None \<Rightarrow> revision cur) actor draft intent)
          w2 = (v, w')"
        using run s1 s2 cur True start
        by (auto simp: apply_desired_request_def Let_def split: option.splits)
      have "untouched v w2 w' \<or> (\<exists>a proposal. old_state a = (cur, files w2 PREVIOUS_ACCEPTED, files w2 APPLY_ATTRIBUTION)
         \<and> at_actor a = actor \<and> validate (base64 ?c) start = Inr () \<and> revision cur \<noteq> - 1
         \<and> only_addresses (start\<lparr>revision := revision cur + 1\<rparr>) proposal \<and> ended ?c a proposal False v w')"
        by (rule apply_checked_run [OF r law ac(2) _ old2])
          (use boot boot2 j2 nb k2 in \<open>simp_all add: same_on_def\<close>)
      then show ?thesis
      proof
        assume "untouched v w2 w'"
        then have "untouched v w w'" using same.trans [OF k2] by (auto simp: untouched_def)
        then show ?thesis ..
      next
        assume "\<exists>a proposal. old_state a = (cur, files w2 PREVIOUS_ACCEPTED, files w2 APPLY_ATTRIBUTION)
         \<and> at_actor a = actor \<and> validate (base64 ?c) start = Inr () \<and> revision cur \<noteq> - 1
         \<and> only_addresses (start\<lparr>revision := revision cur + 1\<rparr>) proposal \<and> ended ?c a proposal False v w'"
        then obtain a proposal where a: "old_state a = (cur, files w PREVIOUS_ACCEPTED, files w APPLY_ATTRIBUTION)"
            "at_actor a = actor" "validate (base64 ?c) start = Inr ()" "revision cur \<noteq> - 1"
            "only_addresses (start\<lparr>revision := revision cur + 1\<rparr>) proposal" "ended ?c a proposal False v w'"
          using j2 by auto
        moreover have "at_current a = cur" using a(1) by (simp add: old_state_def)
        ultimately have "attempted_request ?c input base actor v w w'"
          using boot start True law unfolding attempted_request_def by (intro exI [of _ a] exI [of _ start] exI [of _ proposal]) auto
        then show ?thesis ..
      qed
    qed
  qed
qed

end
