(* ===== verification/Apply_Properties.thy ===== *)
theory Apply_Properties
  imports Transaction
begin

text \<open>
  The properties of the apply transaction, over \<open>boot_state\<close>: one durable step from the old
  Accepted state to the new, a guard exactly when the outcome needs one, and an accepted
  revision that is the one requested. The instances run the transaction on a sample machine.
\<close>

section \<open>Lemmas\<close>

lemma new_state_unique:
  "new_state c a p x \<Longrightarrow> new_state c a p y \<Longrightarrow> x = y"
  by (auto simp: new_state_def)

lemma either_new:
  assumes "always journal_paths (either c a p) w"
  obtains new where "\<forall>f \<in> set (files w # trail w). boot_state c f \<in> {Some (old_state a), new}"
    and "\<And>x. new_state c a p x \<Longrightarrow> x = new"
proof (cases "\<exists>x. new_state c a p x")
  case True
  then obtain new where new: "new_state c a p new" by blast
  have "boot_state c f \<in> {Some (old_state a), new}" if "f \<in> set (files w # trail w)" for f
  proof -
    have "either c a p (f |` journal_paths)"
      using assms that by (auto simp: always_def core_def)
    then show ?thesis using new_state_unique [OF new] by (auto simp: either_def)
  qed
  then show ?thesis using that new_state_unique [OF new] by metis
next
  case False
  then show ?thesis using assms that [of "Some (old_state a)"]
    by (auto simp: always_def either_def core_def)
qed

lemma always_trail:
  "always journal_paths (\<lambda>f. boot_state c f = x) w \<longleftrightarrow>
   (\<forall>f \<in> set (files w # trail w). boot_state c f = x)"
  by (auto simp: always_def core_def)

lemma untouched_trail:
  assumes "untouched v w w'" and "trail w = []"
  shows "\<forall>f \<in> set (files w' # trail w'). boot_state c f = boot_state c (files w)"
  using dur.kept_step [OF same_on_kept always_of_trail [OF assms(2) refl]] assms(1)
  by (auto simp: untouched_def always_trail)

text \<open>Every outcome of an attempt is one of these, with what it means for the boot states.\<close>

lemma ended_outcomes:
  assumes "ended c a p b v w"
  shows "reply_outcome v \<in> {Some ''failed'', Some ''pending_confirmation'', Some ''indeterminate'', Some ''accepted''}"
    and "reply_outcome v \<notin> {Some ''indeterminate'', Some ''accepted''} \<Longrightarrow> always_old c a w"
    and "always journal_paths (either c a p) w"
    and "reply_outcome v = Some ''accepted'' \<Longrightarrow> new_state c a p (boot_state c (files w))"
    and "reply_outcome v = Some ''pending_confirmation'' \<Longrightarrow> awaiting c a p (jcore w)"
  using assms
  by (auto simp: ended_def rolled_back_def either_def elim: always_mono)

section \<open>Properties\<close>

text \<open>
  C5. An apply request moves the durable state of the appliance in one step. Whatever the
  environment does (programs that fail, writes that fail before or after their rename, no
  randomness), at every moment of the run the next start would keep or restore either the
  Accepted state, predecessor and attribution from before the request, or one new triple; a
  request that is not accepted and not indeterminate leaves the old triple at every moment;
  an accepted one ends in the new triple, whose predecessor is the old Accepted state and
  whose revision is the next.
\<close>

theorem apply_is_atomic:
  assumes "run_state (apply_desired_request E input base actor draft intent) w = (reply, w')"
    and "lawful (codec E)" and "trail w = []"
  shows "\<exists>new. (\<forall>f \<in> set (files w' # trail w').
         boot_state (codec E) f \<in> {boot_state (codec E) (files w), new})
    \<and> (reply_outcome reply \<notin> {Some ''accepted'', Some ''indeterminate''} \<longrightarrow>
         (\<forall>f \<in> set (files w' # trail w'). boot_state (codec E) f = boot_state (codec E) (files w)))
    \<and> (reply_outcome reply = Some ''accepted'' \<longrightarrow> boot_state (codec E) (files w') = new
         \<and> (\<exists>old p t st ta tt. boot_state (codec E) (files w) = Some (old, p, t)
              \<and> new = Some (st, Some ta, Some tt) \<and> toml_of_desired (codec E) old = Inr ta
              \<and> revision st = revision old + 1))"
proof -
  let ?c = "codec E"
  from apply_desired_request_run [OF assms]
  consider (no) "untouched reply w w'" | (yes) "attempted_request ?c input base actor reply w w'" by blast
  then show ?thesis
  proof cases
    case no
    then show ?thesis
      using untouched_trail [OF no assms(3), of ?c]
      by (intro exI [of _ "boot_state ?c (files w)"]) (auto simp: untouched_def)
  next
    case yes
    then obtain a start p where a: "boot_state ?c (files w) = Some (old_state a)"
        "only_addresses (start\<lparr>revision := revision (at_current a) + 1\<rparr>) p" "ended ?c a p False reply w'"
      unfolding attempted_request_def by auto
    note out = ended_outcomes [OF a(3)]
    obtain new where new: "\<forall>f \<in> set (files w' # trail w'). boot_state ?c f \<in> {Some (old_state a), new}"
        "\<And>x. new_state ?c a p x \<Longrightarrow> x = new"
      using either_new [OF out(3)] by blast
    have rp: "revision p = revision (at_current a) + 1"
      using only_addresses_fields(1) [OF a(2)] by simp
    have acc: "boot_state ?c (files w') = new \<and> (\<exists>old q t st ta tt. Some (old_state a) = Some (old, q, t)
              \<and> new = Some (st, Some ta, Some tt) \<and> toml_of_desired ?c old = Inr ta
              \<and> revision st = revision old + 1)"
      if "reply_outcome reply = Some ''accepted''"
    proof -
      have n: "new_state ?c a p (boot_state ?c (files w'))" using out(4) that by blast
      then have "boot_state ?c (files w') = new" using new(2) by blast
      with n rp show ?thesis by (auto simp: new_state_def old_state_def)
    qed
    have "\<forall>f \<in> set (files w' # trail w'). boot_state ?c f = Some (old_state a)"
      if "reply_outcome reply \<notin> {Some ''accepted'', Some ''indeterminate''}"
      using out(2) that always_trail by blast
    with new(1) acc a(1) show ?thesis by (intro exI [of _ new]) simp
  qed
qed

text \<open>
  C6. netd's recovery flag, under which every ruleset it loads drops all forwarding, is set
  at the end of an apply request exactly when it was set before or the outcome is
  indeterminate or says that recovery is required: no failed rollback leaves forwarding
  open, and no complete one leaves it closed.
\<close>

theorem apply_guards_failures:
  assumes "run_state (apply_desired_request E input base actor draft intent) w = (reply, w')"
    and "lawful (codec E)" and "trail w = []"
  shows "recovery_required w' \<longleftrightarrow> recovery_required w \<or> reply_outcome reply = Some ''indeterminate''
    \<or> reply_outcome reply = Some ''failed'' \<and> reply_restoration reply \<in> {Some ''failed'', Some ''required''}"
proof -
  let ?c = "codec E"
  have flag: "\<not> recovery_required w" if "attempted_request ?c input base actor reply w w'"
    and "\<not> untouched reply w w'"
  proof -
    obtain bz w1 where s1: "run_state (apply_busy E) w = (bz, w1)" by fastforce
    have "bz = False"
    proof (rule ccontr)
      assume "bz \<noteq> False"
      then have "untouched reply w w'"
        using assms(1) s1 keepsD [OF same_apply_busy s1]
        by (auto simp: apply_desired_request_def untouched_def)
      with that show False by simp
    qed
    with apply_busy_run(1) s1 show ?thesis by blast
  qed
  from apply_desired_request_run [OF assms]
  consider (no) "untouched reply w w'"
    | (yes) "\<not> untouched reply w w'" "attempted_request ?c input base actor reply w w'" by blast
  then show ?thesis
  proof cases
    case no
    then show ?thesis by (auto simp: untouched_def same_on_def)
  next
    case yes
    then obtain a p where "ended ?c a p False reply w'" by (auto simp: attempted_request_def)
    then show ?thesis
      using flag yes by (auto simp: ended_def rolled_back_def)
  qed
qed


text \<open>
  C13. While a revision waits for its confirmation nothing is accepted: the next start still
  restores the old triple, and the journal holds that triple, the applied revision, the
  applying principal and a deadline.
\<close>

theorem apply_pending_keeps_accepted:
  assumes "run_state (apply_desired_request E input base actor draft intent) w = (reply, w')"
    and "lawful (codec E)" and "trail w = []" and "reply_outcome reply = Some ''pending_confirmation''"
  shows "\<exists>old p t raw op st deadline. boot_state (codec E) (files w) = Some (old, p, t)
    \<and> boot_state (codec E) (files w') = Some (old, p, t)
    \<and> files w' APPLY_OPERATION = Some raw \<and> operation_of_text (codec E) raw = Inr op
    \<and> phase op = Pending_confirmation \<and> accepted op = old \<and> previous_accepted op = p
    \<and> previous_attribution op = t \<and> proposed op = Some st \<and> revision st = revision old + 1
    \<and> op_applying op = actor \<and> deadline_boot_ns op = Some deadline"
proof -
  let ?c = "codec E"
  have "attempted_request ?c input base actor reply w w'"
    using apply_desired_request_run [OF assms(1-3)] assms(4) by (auto simp: untouched_def)
  then obtain a start st where a: "boot_state ?c (files w) = Some (old_state a)" "at_actor a = actor"
      "only_addresses (start\<lparr>revision := revision (at_current a) + 1\<rparr>) st" "ended ?c a st False reply w'"
    unfolding attempted_request_def by blast
  note out = ended_outcomes [OF a(4)]
  have "awaiting ?c a st (jcore w')" using out(5) assms(4) by blast
  then obtain raw op where op: "files w' APPLY_OPERATION = Some raw" "operation_of_text ?c raw = Inr op"
      "phase op = Pending_confirmation" "accepted op = at_current a" "previous_accepted op = at_predecessor a"
      "previous_attribution op = at_attribution a" "proposed op = Some st" "op_applying op = at_actor a"
      "\<exists>deadline. deadline_boot_ns op = Some deadline"
    by (auto simp: awaiting_def core_at)
  have "boot_state ?c (files w') = Some (old_state a)"
    using out(2) assms(4) always_trail by auto
  moreover have "revision st = revision (at_current a) + 1"
    using only_addresses_fields(1) [OF a(3)] by simp
  ultimately show ?thesis
    using a op by (auto simp: old_state_def)
qed

text \<open>
  The receipts of an accepted revision hold exactly one receipt for the draft's owner,
  the accepted one, and keep the receipts of the other owners unchanged and in order.
\<close>

theorem draft_receipt_replaces_owners:
  assumes "accepted_draft_receipts c previous rv (Some p) (Some v) next_rv = Inr receipts"
  shows "filter (\<lambda>r. same_owner (owner r) p) receipts
      = [\<lparr> owner = p, version = v, accepted_revision = next_rv \<rparr>]
    \<and> (\<exists>carried. accepted_draft_receipts c previous rv None None next_rv = Inr carried
        \<and> filter (\<lambda>r. \<not> same_owner (owner r) p) receipts = filter (\<lambda>r. \<not> same_owner (owner r) p) carried)"
  using assms
  by (auto simp: accepted_draft_receipts_def bindE_ok add_receipt_def upsert_draft_receipt_def
      same_owner_def filter_empty_conv split: option.splits sum.splits)

end
