(* ===== verification/Apply_Success.thy ===== *)
theory Apply_Success
  imports Transaction
begin

text \<open>
  The apply transaction on a machine where nothing fails: programs exit with success, files
  can be read and written, the Host answers the LAN services' generation. Every step then
  succeeds, so that a request the transaction checks is not refused for nothing.
\<close>

section \<open>A machine where nothing fails\<close>

definition wg_port_query :: "string list \<Rightarrow> bool" where
  "wg_port_query argv \<longleftrightarrow> (\<exists>name. argv = [''wg'', ''show'', name, ''listen-port''])"

definition good_output :: "'k env \<Rightarrow> string list \<Rightarrow> exec_result \<Rightarrow> bool" where
  "good_output E argv r \<longleftrightarrow>
     exec_error r = None \<and> ok r \<and> is_ok (json_of_text (codec E) (stdout r))
     \<and> (wg_port_query argv \<longrightarrow> parse_u16 (trim (stdout r)) \<noteq> None)"

definition faultless :: "'k env \<Rightarrow> bool" where
  "faultless E \<longleftrightarrow>
     (\<forall>op k. fst (io_fault E op k) = None)
     \<and> (\<forall>argv input k. good_output E argv (fst (exec E argv input k)))
     \<and> (\<forall>k. fst (urandom E k) \<noteq> None)
     \<and> (\<forall>k. is_ok (fst (boottime_clock E k)))
     \<and> (\<forall>p t k. is_ok (fst (foreign_write E p t k)))
     \<and> (\<forall>p k. is_ok (fst (foreign_dir E p k)))"

text \<open>The Host's answer to the one generation that the machine's random bytes give.\<close>

definition token_of :: "u8 list \<Rightarrow> string" where
  "token_of bytes = concat (map hex_byte (take 32 bytes))"

definition answers :: "'k env \<Rightarrow> u8 list \<Rightarrow> bool" where
  "answers E bytes \<longleftrightarrow>
     (\<forall>k. fst (urandom E k) = Some bytes)
     \<and> (\<forall>k. \<exists>result. fst (foreign_read E LAN_SERVICES_RESULT k) = Inr (Some result)
          \<and> parse_lan_services_result result (token_of bytes) = Some (Inr ()))"

text \<open>No temporary file is left over: a success leaves none.\<close>

definition tidy :: "'k world \<Rightarrow> bool" where
  "tidy w \<longleftrightarrow> (\<forall>p. is_temp p \<longrightarrow> files w p = None)"

section \<open>Total correctness\<close>

text \<open>\<open>gives m P\<close>: from a tidy world \<open>m\<close> succeeds with a value in \<open>P\<close> and leaves it tidy.\<close>

definition gives :: "('k, 'a) io \<Rightarrow> ('a \<Rightarrow> bool) \<Rightarrow> bool" where
  "gives m P \<longleftrightarrow> (\<forall>w. tidy w \<longrightarrow> (\<exists>a w'. run_state m w = (Inr a, w') \<and> tidy w' \<and> P a))"

abbreviation fine :: "('k, 'a) io \<Rightarrow> bool" where
  "fine m \<equiv> gives m (\<lambda>_. True)"

definition stays :: "'k world \<Rightarrow> 'k world \<Rightarrow> bool" where
  "stays w w' \<longleftrightarrow> (tidy w \<longrightarrow> tidy w')"

interpretation stays: transition stays
  by unfold_locales (auto simp: stays_def)

lemma gives_stays: "gives m P \<Longrightarrow> keeps stays m"
  unfolding gives_def keeps_def stays_def by (metis snd_conv)

lemma gives_ok: "P a \<Longrightarrow> gives (okE a) P"
  by (simp add: gives_def)

lemma gives_liftE: "r = Inr a \<Longrightarrow> P a \<Longrightarrow> gives (liftE r) P"
  by (simp add: gives_def)

lemma gives_tryE: "gives m M \<Longrightarrow> (\<And>a. M a \<Longrightarrow> gives (f a) Q) \<Longrightarrow> gives (tryE m f) Q"
  unfolding gives_def run_tryE by fastforce

lemma gives_seqE: "fine m \<Longrightarrow> (\<And>a. gives (f a) Q) \<Longrightarrow> gives (tryE m f) Q"
  by (rule gives_tryE)

lemma gives_map_err: "gives m Q \<Longrightarrow> gives (map_err g m) Q"
  unfolding gives_def run_map_err by fastforce

lemma gives_bind: "keeps stays m \<Longrightarrow> (\<And>a. gives (f a) Q) \<Longrightarrow> gives (State_Monad.bind m f) Q"
  unfolding gives_def keeps_def stays_def by (force split: prod.splits)

lemma gives_bind_with:
  assumes "keeps stays m" and "\<And>w a w'. run_state m w = (a, w') \<Longrightarrow> P a" and "\<And>a. P a \<Longrightarrow> gives (f a) Q"
  shows "gives (State_Monad.bind m f) Q"
  unfolding gives_def
proof (intro allI impI)
  fix w :: "'a world" assume "tidy w"
  moreover obtain a w' where "run_state m w = (a, w')" by fastforce
  ultimately show "\<exists>b w''. run_state (State_Monad.bind m f) w = (Inr b, w'') \<and> tidy w'' \<and> Q b"
    using assms keepsD [of stays m w a w'] by (simp add: gives_def stays_def)
qed

lemma fine_forE: "(\<And>x. fine (f x)) \<Longrightarrow> fine (forE f xs)"
  by (induction xs) (auto intro: gives_ok gives_seqE)

lemma fine_collectE: "(\<And>x. x \<in> set xs \<Longrightarrow> fine (f x)) \<Longrightarrow> fine (collectE f xs)"
  by (induction xs) (auto intro!: gives_ok gives_seqE)

lemma gives_if: "gives m Q \<Longrightarrow> gives m' Q \<Longrightarrow> gives (if b then m else m') Q"
  by simp

lemma gives_option: "gives m Q \<Longrightarrow> (\<And>a. gives (f a) Q) \<Longrightarrow> gives (case x of None \<Rightarrow> m | Some a \<Rightarrow> f a) Q"
  by (cases x) auto

lemma gives_pair: "(\<And>a b. gives (f a b) Q) \<Longrightarrow> gives (case x of (a, b) \<Rightarrow> f a b) Q"
  by (cases x) auto

lemma fine_okE: "fine (okE a)"
  by (rule gives_ok) simp

lemmas fine_rules = fine_okE gives_seqE gives_map_err gives_bind fine_forE fine_collectE gives_if
  gives_option gives_pair

section \<open>The operations of a faultless machine\<close>

lemma stays_asks: "keeps stays (asks f)"
  by (auto simp: keeps_def stays_def tidy_def run_asks split: prod.splits)

lemma stays_files: "(\<And>w. files (snd (run_state m w)) = files w) \<Longrightarrow> keeps stays m"
  by (simp add: keeps_def stays_def tidy_def)

lemma fine_asks:
  assumes "\<And>k. is_ok (fst (f k))"
  shows "fine (asks f)"
  unfolding gives_def
proof (intro allI impI)
  fix w :: "'a world" assume w: "tidy w"
  obtain a k where "f (outside w) = (Inr a, k)" using assms by (metis is_ok_iff prod.collapse)
  then show "\<exists>a w'. run_state (asks f) w = (Inr a, w') \<and> tidy w' \<and> True"
    using w by (simp add: run_asks tidy_def)
qed

lemma run_run_program:
  obtains w' where "run_state (run_program E argv input) w = (fst (exec E argv input (outside w)), w')"
    and "files w' = files w"
  by (cases "exec E argv input (outside w)") (auto simp: run_program_def run_asks)

lemma stays_run_program: "keeps stays (run_program E argv input)"
  by (rule stays_files) (auto simp: run_program_def run_asks split: prod.splits)

lemma gives_program:
  assumes "faultless E" and "\<And>r. good_output E argv r \<Longrightarrow> \<exists>a. g r = Inr a \<and> P a"
  shows "gives (do { r \<leftarrow> run_program E argv input; ret (g r) }) P"
  unfolding gives_def
proof (intro allI impI)
  fix w :: "'a world" assume w: "tidy w"
  obtain w' where "run_state (run_program E argv input) w = (fst (exec E argv input (outside w)), w')"
      "files w' = files w" by (rule run_run_program)
  moreover have "good_output E argv (fst (exec E argv input (outside w)))"
    using assms(1) by (simp add: faultless_def)
  ultimately show "\<exists>a w'. run_state (do { r \<leftarrow> run_program E argv input; ret (g r) }) w = (Inr a, w') \<and> tidy w' \<and> P a"
    using assms(2) w by (fastforce simp: tidy_def)
qed

lemma gives_output_of: "faultless E \<Longrightarrow> gives (output_of E argv prefix) (good_output E argv)"
  unfolding output_of_def by (rule gives_program) (auto simp: good_output_def)

lemma fine_run_ip: "faultless E \<Longrightarrow> fine (run_ip E args)"
  unfolding run_ip_def by (rule gives_tryE [OF gives_output_of]) (auto simp: good_output_def intro: gives_ok)

lemma gives_link_exists: "faultless E \<Longrightarrow> gives (link_exists E name) (\<lambda>b. b)"
  unfolding link_exists_def by (rule gives_tryE [OF gives_output_of]) (auto simp: good_output_def intro: gives_ok)

lemma fine_link_exists: "faultless E \<Longrightarrow> fine (link_exists E name)"
  using gives_link_exists unfolding gives_def by fastforce

lemma fine_add_addr: "faultless E \<Longrightarrow> fine (add_addr E dev c)"
  unfolding add_addr_def by (rule gives_tryE [OF gives_output_of]) (auto simp: good_output_def intro: gives_ok)

lemma fine_write_sysctl: "faultless E \<Longrightarrow> fine (write_sysctl E nic fam key val)"
  unfolding write_sysctl_def Let_def by (intro gives_map_err fine_asks) (simp add: faultless_def)

lemma fine_lock_unopted: "faultless E \<Longrightarrow> fine (lock_unopted E nic)"
  unfolding lock_unopted_def by (intro fine_rules fine_write_sysctl fine_run_ip)

lemma good_output_Exited: "good_output E argv r \<Longrightarrow> \<exists>st out err. r = Exited True st out err"
  by (cases r) (auto simp: good_output_def exec_error_def)

lemma fine_nft_apply: "faultless E \<Longrightarrow> fine (nft_apply E rules)"
  unfolding nft_apply_def by (rule gives_program) (auto dest: good_output_Exited)

lemma fine_nft_check: "faultless E \<Longrightarrow> fine (nft_check E rules)"
  unfolding nft_check_def by (rule gives_program) (auto simp: good_output_def)

lemma fine_wg_set: "faultless E \<Longrightarrow> fine (wg_set E w)"
  unfolding wg_set_def by (rule gives_program) (auto dest: good_output_Exited)

lemma fine_root_qdisc: "faultless E \<Longrightarrow> fine (root_qdisc E dev)"
  unfolding root_qdisc_def
  by (rule gives_tryE [OF gives_output_of]) (auto simp: good_output_def is_ok_iff intro: gives_ok)

lemma fine_listen_port: "faultless E \<Longrightarrow> fine (wireguard_listen_port E name)"
  unfolding wireguard_listen_port_def
  by (rule gives_tryE [OF gives_output_of]) (auto simp: good_output_def wg_port_query_def intro: gives_ok)

definition readable :: "string \<Rightarrow> bool" where
  "readable c \<longleftrightarrow>
     (case split_once (CHR ''/'') c of None \<Rightarrow> False | Some (a, b) \<Rightarrow> parse_ip a \<noteq> None \<and> parse_u8 b \<noteq> None)"

lemma cidr_readable: "cidr c \<noteq> None \<Longrightarrow> readable c"
  by (auto simp: cidr_def readable_def split: option.splits bind_splits)

lemma fine_live_address:
  assumes "faultless E" and "readable c"
  shows "fine (live_address E dev c)"
proof -
  obtain a b ip n where c: "split_once (CHR ''/'') c = Some (a, b)" "parse_ip a = Some ip" "parse_u8 b = Some n"
    using assms(2) by (auto simp: readable_def split: option.splits)
  show ?thesis
    unfolding live_address_def Let_def c ok_or_def option.case tryE_okE prod.case
    by (rule gives_tryE [OF gives_output_of [OF assms(1)]]) (auto simp: good_output_def is_ok_iff intro: gives_ok)
qed

section \<open>Files\<close>

lemma run_fault:
  assumes "faultless E"
  obtains w' where "run_state (fault E op) w = (None, w')" and "files w' = files w"
proof -
  have "fst (io_fault E op (outside w)) = None" using assms by (simp add: faultless_def)
  then obtain k where "io_fault E op (outside w) = (None, k)"
    by (cases "io_fault E op (outside w)") simp
  then show ?thesis using that by (simp add: fault_def run_asks)
qed

lemma run_simple_op:
  assumes "faultless E"
  obtains w' where "run_state (simple_op E op) w = (Inr (), w')" and "files w' = files w"
proof -
  obtain v where "run_state (fault E op) w = (None, v)" and "files v = files w"
    using assms by (rule run_fault)
  then show ?thesis using that by (simp add: simple_op_def)
qed

lemma tidy_files: "files w' = files w \<Longrightarrow> tidy w \<Longrightarrow> tidy w'"
  by (simp add: tidy_def)

lemma fine_run:
  assumes "\<And>w. \<exists>a w'. run_state m w = (Inr a, w') \<and> files w' = files w"
  shows "fine m"
  using assms unfolding gives_def by (blast intro: tidy_files)

lemma fine_simple_op:
  assumes "faultless E"
  shows "fine (simple_op E op)"
proof (rule fine_run)
  fix w
  obtain w' where "run_state (simple_op E op) w = (Inr (), w')" "files w' = files w"
    using assms by (rule run_simple_op)
  then show "\<exists>a w'. run_state (simple_op E op) w = (Inr a, w') \<and> files w' = files w" by blast
qed

lemma run_read_file:
  assumes "faultless E"
  obtains w' where "run_state (read_file E p) w = (Inr (files w p), w')" and "files w' = files w"
proof -
  obtain w' where "run_state (fault E (Read p)) w = (None, w')" "files w' = files w"
    using assms by (rule run_fault)
  then show ?thesis using that by (simp add: read_file_def)
qed

lemma fine_read_file:
  assumes "faultless E"
  shows "fine (read_file E p)"
proof (rule fine_run)
  fix w
  obtain w' where "run_state (read_file E p) w = (Inr (files w p), w')" "files w' = files w"
    using assms by (rule run_read_file)
  then show "\<exists>a w'. run_state (read_file E p) w = (Inr a, w') \<and> files w' = files w" by blast
qed

lemma stays_read_file: "faultless E \<Longrightarrow> keeps stays (read_file E p)"
  by (rule gives_stays [OF fine_read_file])

lemma stays_read_text: "faultless E \<Longrightarrow> keeps stays (read_text E p)"
  unfolding read_text_def by (intro stays.keeps_rules stays_read_file)

lemma stays_set_file: "\<not> is_temp p \<Longrightarrow> keeps stays (set_file p v)"
  by (auto simp: keeps_def stays_def tidy_def set_file_def set_files_def)

lemma fine_overwrite:
  assumes "faultless E" and "\<not> is_temp p"
  shows "fine (overwrite E p b)"
  unfolding gives_def
proof (intro allI impI)
  fix w :: "'a world" assume w: "tidy w"
  obtain w1 where 1: "run_state (fault E (Create p)) w = (None, w1)" "files w1 = files w"
    using assms(1) by (rule run_fault)
  obtain w2 where 2: "run_state (set_file p (Some [])) w1 = ((), w2)" "files w2 = (files w1)(p := Some [])"
    by (simp add: set_file_def set_files_def)
  obtain w3 where 3: "run_state (fault E (Overwrite p)) w2 = (None, w3)" "files w3 = files w2"
    using assms(1) by (rule run_fault)
  obtain w4 where 4: "run_state (set_file p (Some b)) w3 = ((), w4)" "files w4 = (files w3)(p := Some b)"
    by (simp add: set_file_def set_files_def)
  have "tidy w4" using w assms(2) 1 2 3 4 by (auto simp: tidy_def)
  then show "\<exists>a w'. run_state (overwrite E p b) w = (Inr a, w') \<and> tidy w' \<and> True"
    using 1 2 3 4 by (simp add: overwrite_def)
qed

lemma run_publish_temp:
  assumes "faultless E" and "tidy w" and "is_temp t" and "\<not> is_temp p"
  obtains w' where "run_state (publish_temp E p t b) w = (Inr (), w')" and "tidy w'"
proof -
  obtain w1 where 1: "run_state (create_new E t) w = (Inr (), w1)" "files w1 = (files w)(t := Some [])"
  proof -
    obtain v where "run_state (simple_op E (Create t)) w = (Inr (), v)" "files v = files w"
      using assms(1) by (rule run_simple_op)
    then show ?thesis
      using that assms(2,3) by (simp add: create_new_def file_exists_def run_tryE tidy_def set_file_def set_files_def)
  qed
  obtain w2 where 2: "run_state (write_sync E t b) w1 = (Inr (), w2)" "files w2 = (files w1)(t := Some b)"
  proof -
    obtain v where "run_state (fault E (Persist t)) w1 = (None, v)" "files v = files w1"
      using assms(1) by (rule run_fault)
    then show ?thesis using that by (simp add: write_sync_def set_file_def set_files_def)
  qed
  obtain w3 where 3: "run_state (rename_file E t p) w2 = (Inr (), w3)" "files w3 = (files w2)(t := None, p := Some b)"
  proof -
    obtain v where "run_state (simple_op E (Rename t p)) w2 = (Inr (), v)" "files v = files w2"
      using assms(1) by (rule run_simple_op)
    then show ?thesis using that 2 by (simp add: rename_file_def run_tryE set_files_def)
  qed
  obtain w4 where 4: "run_state (simple_op E (Sync_dir (parent_dir p))) w3 = (Inr (), w4)" "files w4 = files w3"
    using assms(1) by (rule run_simple_op)
  have "tidy w4" using assms 1 2 3 4 by (auto simp: tidy_def)
  then show ?thesis using that 1 2 3 4 by (simp add: publish_temp_def run_tryE run_map_err)
qed

lemma fine_random_token: "faultless E \<Longrightarrow> fine (random_token E)"
  unfolding gives_def
proof (intro allI impI)
  fix w :: "'a world" assume E: "faultless E" and w: "tidy w"
  obtain b k where "urandom E (outside w) = (Some b, k)"
    using E unfolding faultless_def by (metis option.exhaust prod.collapse)
  then show "\<exists>a w'. run_state (random_token E) w = (Inr a, w') \<and> tidy w' \<and> True"
    using w by (simp add: random_token_def run_asks tidy_def)
qed

lemma fine_durable_write:
  assumes "faultless E" and "\<not> is_temp p"
  shows "fine (durable_write E p b)"
  unfolding durable_write_def
proof (intro gives_seqE [OF gives_map_err [OF fine_simple_op [OF assms(1)]]] gives_seqE [OF fine_random_token [OF assms(1)]])
  fix token
  show "fine (let temp = temp_name p token in do {
          result \<leftarrow> publish_temp E p temp b;
          (if is_ok result then ret result
           else do { unlink_file E temp; ret result }) })"
    unfolding gives_def Let_def
  proof (intro allI impI)
    fix w :: "'a world" assume "tidy w"
    from run_publish_temp [OF assms(1) this temp_name_is_temp assms(2)] obtain w' where
      "run_state (publish_temp E p (temp_name p token) b) w = (Inr (), w')" "tidy w'" by metis
    then show "\<exists>a w'. run_state (do {
          result \<leftarrow> publish_temp E p (temp_name p token) b;
          (if is_ok result then ret result
           else do { unlink_file E (temp_name p token); ret result }) }) w = (Inr a, w') \<and> tidy w' \<and> True"
      by simp
  qed
qed

lemma fine_unlink_file: "faultless E \<Longrightarrow> fine (unlink_file E p)"
  unfolding gives_def
proof (intro allI impI)
  fix w :: "'a world" assume E: "faultless E" and w: "tidy w"
  obtain v where "run_state (simple_op E (Unlink p)) w = (Inr (), v)" "files v = files w"
    using E by (rule run_simple_op)
  then show "\<exists>a w'. run_state (unlink_file E p) w = (Inr a, w') \<and> tidy w' \<and> True"
    using w by (auto simp: unlink_file_def file_exists_def run_tryE tidy_def set_file_def set_files_def)
qed

lemma fine_durable_remove: "faultless E \<Longrightarrow> fine (durable_remove E p)"
  unfolding durable_remove_def by (intro fine_rules fine_unlink_file fine_simple_op)

lemma fine_persist_at:
  "faultless E \<Longrightarrow> \<not> is_temp p \<Longrightarrow> is_ok (toml_of_desired (codec E) st) \<Longrightarrow> fine (persist_at E p st)"
  by (auto simp: persist_at_def is_ok_iff intro: fine_durable_write)

section \<open>Applying\<close>

lemma stays_foreign_text: "keeps stays (foreign_text E p)"
  unfolding foreign_text_def by (intro stays.keeps_rules stays_asks)

lemma stays_output_of: "keeps stays (output_of E argv prefix)"
  unfolding output_of_def by (intro stays.keeps_rules stays_run_program)

lemma stays_run_ip: "keeps stays (run_ip E args)"
  unfolding run_ip_def by (intro stays.keeps_rules stays_output_of)

lemma stays_file_exists: "keeps stays (file_exists p)"
  unfolding file_exists_def by (intro stays.keeps_rules)

lemma stays_load_opt: "faultless E \<Longrightarrow> keeps stays (load_opt E)"
  unfolding load_opt_def by (intro stays.keeps_rules stays_read_text)

lemma stays_stop_dhclient: "keeps stays (stop_dhclient E)"
  unfolding stop_dhclient_def by (intro stays.keeps_rules stays_foreign_text stays_run_program stays_asks)

lemma stays_dhclient6_running: "keeps stays (dhclient6_running E dev)"
  unfolding dhclient6_running_def by (intro stays.keeps_rules stays_foreign_text)

lemma stays_stop_dhclient6: "keeps stays (stop_dhclient6 E dev)"
  unfolding stop_dhclient6_def
  by (intro stays.keeps_rules stays_foreign_text stays_run_program stays_asks stays_run_ip stays_dhclient6_running)

lemma stays_wait_link_local: "keeps stays (wait_link_local E dev)"
proof -
  have "keeps stays (wait_link_local_rounds E dev n)" for n
    by (induction n) (auto intro!: stays.keeps_rules stays_asks stays_run_program simp del: bind_left_identity)
  then show ?thesis by (simp add: wait_link_local_def)
qed

lemma stays_routed_lan_prefix: "keeps stays (routed_lan_prefix E st)"
  unfolding routed_lan_prefix_def acquired_prefix_def by (intro stays.keeps_rules stays_foreign_text)

lemma stays_capture_ifaces: "keeps stays (capture_ifaces E st ifs)"
proof -
  have "keeps stays (capture_iface E st i)" for i
    unfolding capture_iface_def capture_ipv4_def by (intro stays.keeps_rules stays_output_of)
  then show ?thesis
    by (induction ifs) (auto intro!: stays.keeps_rules)
qed

lemmas fine_ops = fine_run_ip fine_link_exists fine_add_addr fine_write_sysctl fine_lock_unopted fine_nft_apply
  fine_nft_check fine_wg_set fine_root_qdisc fine_listen_port fine_simple_op fine_durable_remove

lemma fine_suspend_opt:
  assumes "faultless E"
  shows "fine (suspend_opt E)"
  unfolding suspend_opt_def teardown_opt_def program_first_boot_nft_def
  by (intro fine_rules fine_ops [OF assms] stays_load_opt [OF assms] stays_stop_dhclient stays_run_ip)

lemma fine_discard_opt: "faultless E \<Longrightarrow> fine (discard_opt E)"
  unfolding discard_opt_def by (intro fine_rules fine_suspend_opt fine_durable_remove)

lemma fine_require_in_fwd: "faultless E \<Longrightarrow> fine (require_in_fwd E name)"
  unfolding require_in_fwd_def by (rule gives_tryE [OF gives_link_exists]) (auto intro: gives_ok)

lemma fine_program_vlans: "faultless E \<Longrightarrow> fine (program_vlans E st)"
  unfolding program_vlans_def program_vlan_def by (intro fine_rules fine_ops)

lemma fine_foreign_write: "faultless E \<Longrightarrow> fine (asks (foreign_write E p t))"
  by (rule fine_asks) (simp add: faultless_def)

lemma gives_checked_output:
  "faultless E \<Longrightarrow> (\<And>r. gives (f r) Q) \<Longrightarrow>
   gives (tryE (output_of E argv prefix) (\<lambda>r. if ok r then f r else errE (g r))) Q"
  by (rule gives_tryE [OF gives_output_of]) (auto simp: good_output_def)

lemma fine_dhclient6_script: "faultless E \<Longrightarrow> fine (write_dhclient6_script E)"
  unfolding write_dhclient6_script_def Let_def by (intro fine_rules fine_foreign_write fine_simple_op)

lemma fine_start_dhclient6: "faultless E \<Longrightarrow> fine (start_dhclient6 E dev modes)"
  unfolding start_dhclient6_def
  by (intro gives_bind gives_if fine_okE gives_seqE [OF fine_dhclient6_script] gives_checked_output gives_map_err
      fine_foreign_write stays_dhclient6_running stays_foreign_text stays.keeps_if stays.keeps_ret
      stays_stop_dhclient6 stays_wait_link_local)

lemma fine_program_wan_ipv6: "faultless E \<Longrightarrow> fine (program_wan_ipv6 E st)"
  unfolding program_wan_ipv6_def program_wan_def Let_def
  by (intro fine_rules fine_ops fine_start_dhclient6 stays_stop_dhclient6 stays.keeps_rules fine_asks)
    (auto simp: faultless_def)

lemma fine_program_wg: "faultless E \<Longrightarrow> fine (program_wg E st)"
  unfolding program_wg_def program_tunnel_def by (intro fine_rules fine_ops)

lemma fine_program_routes: "faultless E \<Longrightarrow> fine (program_routes E st)"
  unfolding program_routes_def by (intro fine_rules fine_ops)

lemma fine_program_qdiscs: "faultless E \<Longrightarrow> fine (program_qdiscs E st)"
  unfolding program_qdiscs_def program_qdisc_def
  by (intro fine_forE gives_checked_output fine_okE)

section \<open>The LAN services\<close>

definition lan_host_known :: "desired_state \<Rightarrow> bool" where
  "lan_host_known st \<longleftrightarrow>
     (case lan_v4_prefix st of
        None \<Rightarrow> True
      | Some p \<Rightarrow> (case first_v4_host p of None \<Rightarrow> False | Some h \<Rightarrow> readable (h @ ''/'' @ prefix_len_text p)))"

lemma lan_host_interfaces [simp]: "lan_host_known (st\<lparr>interfaces := ifs\<rparr>) = lan_host_known st"
  by (cases "lan_prefix st") (simp_all add: lan_host_known_def lan_v4_prefix_def)

lemma lan_host_same:
  assumes "only_addresses st st'"
  shows "lan_host_known st' = lan_host_known st"
  using assms lan_host_interfaces unfolding only_addresses_def by metis

lemma service_paths: "\<not> is_temp KEA4 \<and> \<not> is_temp KEA6 \<and> \<not> is_temp UNBOUND"
  by code_simp

lemma fine_write_lan_v4:
  "faultless E \<Longrightarrow> fine (write_lan_v4_services E lan prefix v4 pool)"
  unfolding write_lan_v4_services_def
  by (intro gives_pair gives_option gives_seqE gives_map_err fine_overwrite fine_durable_remove)
    (simp_all add: service_paths)

lemma fine_write_kea_dhcp6: "faultless E \<Longrightarrow> fine (write_kea_dhcp6 E lan delegated)"
  unfolding write_kea_dhcp6_def
  by (intro gives_pair gives_option gives_map_err fine_overwrite fine_durable_remove)
    (simp_all add: service_paths)

lemma fine_program_lan_services:
  assumes "faultless E" and "lan_host_known st"
  shows "fine (program_lan_services E st publish)"
proof -
  have v4: "fine (case lan_v4_prefix st of
                  None \<Rightarrow> okE None
                | Some prefix \<Rightarrow>
                    tryE (liftE (ok_or (first_v4_host prefix) ''lan_prefix has no v4 host'')) (\<lambda>lan_v4.
                    seqE (add_addr E (iface_name lan) (lan_v4 @ ''/'' @ prefix_len_text prefix))
                         (okE (Some lan_v4))))" for lan
    using assms(2) fine_add_addr [OF assms(1)]
    by (auto simp: lan_host_known_def ok_or_def tryE_okE split: option.splits
        intro!: gives_seqE fine_okE)
  show ?thesis
    unfolding program_lan_services_def remove_lan_service_configs_def
    by (intro gives_option gives_if fine_forE fine_durable_remove [OF assms(1)] gives_bind stays_routed_lan_prefix
        gives_seqE [OF v4] gives_seqE gives_map_err fine_okE fine_add_addr [OF assms(1)] fine_simple_op [OF assms(1)]
        fine_write_lan_v4 [OF assms(1)] fine_write_kea_dhcp6 [OF assms(1)])
qed

lemma fine_program_nft: "faultless E \<Longrightarrow> fine (program_nft E st)"
  unfolding program_nft_def nft_rules_def by (intro gives_bind stays.keeps_gets fine_nft_apply)

lemma fine_program_link: "faultless E \<Longrightarrow> fine (program_link E saved i)"
  unfolding program_link_def
  by (intro gives_if gives_seqE fine_okE fine_require_in_fwd fine_run_ip fine_forE fine_add_addr)

lemma fine_program_state: "faultless E \<Longrightarrow> lan_host_known st \<Longrightarrow> fine (program_state E st saved)"
  unfolding program_state_def
  by (intro gives_seqE fine_forE fine_program_link fine_program_vlans fine_program_wan_ipv6 fine_program_wg
      fine_program_routes fine_program_qdiscs gives_bind stays_file_exists fine_program_lan_services fine_program_nft)

lemma run_fine: "fine m \<Longrightarrow> tidy w \<Longrightarrow> \<exists>a w'. run_state m w = (Inr a, w') \<and> tidy w'"
  by (simp add: gives_def)

lemma run_apply_state:
  assumes "faultless E" and "validate (base64 (codec E)) st = Inr ()" and "lan_host_known st" and "tidy w"
  obtains st' w' where "run_state (apply_state E st) w = ((st', Inr ()), w')" and "tidy w'" and "only_addresses st st'"
proof -
  obtain ifs saved w1 where c: "run_state (capture_ifaces E st (interfaces st)) w = ((ifs, saved), w1)"
    by (metis surj_pair)
  have w1: "tidy w1" using keepsD [OF stays_capture_ifaces c] assms(4) by (simp add: stays_def)
  let ?st = "merge_lan_prefix_addr (st\<lparr>interfaces := ifs\<rparr>)"
  have "lan_host_known ?st"
    using assms(3) lan_host_same [OF merge_only_addresses] lan_host_interfaces by metis
  then have "fine (seqE (do { booted \<leftarrow> file_exists BOOTSTRAPPED; if booted then discard_opt E else suspend_opt E })
      (program_state E ?st saved))"
    by (intro gives_seqE gives_bind stays_file_exists gives_if fine_discard_opt fine_suspend_opt
        fine_program_state assms(1))
  from run_fine [OF this w1] obtain w2 where "run_state (seqE (do { booted \<leftarrow> file_exists BOOTSTRAPPED;
      if booted then discard_opt E else suspend_opt E }) (program_state E ?st saved)) w1 = (Inr (), w2)" "tidy w2"
    by auto
  then have "run_state (apply_state E st) w = ((?st, Inr ()), w2)" "tidy w2"
    using assms(2) c by (simp_all add: apply_state_def Let_def)
  then show ?thesis using that apply_state_only_addresses by metis
qed

section \<open>Before the journal\<close>

definition tunnels_readable :: "desired_state \<Rightarrow> bool" where
  "tunnels_readable st \<longleftrightarrow> (\<forall>w \<in> set (wireguard st). \<forall>c \<in> set (wg_addresses w). readable c)"

definition links_readable :: "desired_state \<Rightarrow> bool" where
  "links_readable st \<longleftrightarrow> (\<forall>i \<in> set (interfaces st). \<forall>c \<in> set (iface_addresses i). readable c)"

lemma validate_links_readable: "validate b64 st = Inr () \<Longrightarrow> links_readable st"
  by (auto simp: links_readable_def validate_ok validate_values_ok interface_values_ok intro!: cidr_readable)

lemma validate_tunnels_readable:
  assumes "validate b64 st = Inr ()"
  shows "tunnels_readable st"
proof -
  have "validate_wireguard b64 seen ws = Inr () \<Longrightarrow> \<forall>w \<in> set ws. \<forall>c \<in> set (wg_addresses w). cidr c \<noteq> None" for seen ws
    by (induction ws arbitrary: seen) (simp_all add: ok_simps interface_values_ok, blast)
  then show ?thesis using assms unfolding tunnels_readable_def validate_ok by (meson cidr_readable)
qed

lemma merge_links_readable:
  assumes "links_readable st" and "lan_host_known st"
  shows "links_readable (merge_lan_prefix_addr st)"
proof (cases "lan_v4_prefix st")
  case (Some p)
  then obtain h where "first_v4_host p = Some h" "readable (h @ ''/'' @ prefix_len_text p)"
    using assms(2) by (auto simp: lan_host_known_def split: option.splits)
  then show ?thesis
    using assms(1) Some
    by (fastforce simp: links_readable_def merge_lan_prefix_addr_def Let_def dest!: update_first_set split: if_splits)
qed (use assms in \<open>simp add: merge_lan_prefix_addr_def\<close>)

lemma pd_lan_addr_readable: "pd_lan_addr pd = Some c \<Longrightarrow> readable c"
  by (auto simp: pd_lan_addr_def readable_def split_once_append parse_ip_of_v6 elim!: delegated_lan_in_Some)

lemma desired_addresses_readable:
  assumes "links_readable st" and "tunnels_readable st" and "run_state (desired_addresses E st) w = (ds, w')"
    and "d \<in> set ds"
  shows "readable (snd d)"
  using assms pd_lan_addr_readable
  by (auto simp: desired_addresses_def links_readable_def tunnels_readable_def bind_eq_Some_conv
      split: prod.splits option.splits)

lemma stays_desired_addresses: "keeps stays (desired_addresses E st)"
  unfolding desired_addresses_def by (intro stays.keeps_rules stays_routed_lan_prefix)

lemma fine_capture_address:
  assumes "faultless E" and "readable (snd d)"
  shows "fine (capture_address E old d)"
  using assms unfolding capture_address_def
  by (cases d) (auto intro!: gives_seqE fine_link_exists fine_okE fine_live_address)

lemma merge_tunnels: "tunnels_readable (merge_lan_prefix_addr st) = tunnels_readable st"
  using only_addresses_fields(3) [OF merge_only_addresses] by (simp add: tunnels_readable_def)

lemma fine_capture_link: "faultless E \<Longrightarrow> fine (capture_link E n)"
  unfolding capture_link_def by (intro gives_seqE fine_link_exists fine_okE)

lemma fine_capture_port: "faultless E \<Longrightarrow> fine (capture_port E n)"
  unfolding capture_port_def by (intro gives_seqE gives_if fine_link_exists fine_listen_port fine_okE)

lemma fine_capture_qdisc: "faultless E \<Longrightarrow> fine (capture_qdisc E old q)"
  unfolding capture_qdisc_def by (intro gives_seqE gives_if fine_link_exists fine_root_qdisc fine_okE)

lemma fine_capture_lan_file: "faultless E \<Longrightarrow> fine (capture_lan_file E path)"
  unfolding capture_lan_file_def by (intro gives_seqE gives_map_err fine_read_file fine_okE)

lemma fine_capture_footprint:
  assumes "faultless E" and "links_readable new" and "tunnels_readable new" and "lan_host_known new"
  shows "fine (capture_footprint E old new)"
  unfolding capture_footprint_def Let_def
proof (rule gives_bind [OF stays_desired_addresses])
  fix old_addresses
  have links: "links_readable (merge_lan_prefix_addr new)" "tunnels_readable (merge_lan_prefix_addr new)"
    using assms merge_links_readable by (simp_all add: merge_tunnels)
  let ?rest = "\<lambda>ds. tryE (collectE (capture_address E old_addresses) ds) (\<lambda>addresses.
        tryE (collectE (\<lambda>i. if vlan i = None then okE [] else capture_link E (iface_name i))
               (interfaces (merge_lan_prefix_addr new))) (\<lambda>vlans.
        tryE (collectE (\<lambda>w. capture_link E (wg_name w)) (wireguard (merge_lan_prefix_addr new))) (\<lambda>tunnels.
        tryE (collectE (capture_port E) (wireguard (merge_lan_prefix_addr old))) (\<lambda>ports.
        tryE (collectE (capture_qdisc E (merge_lan_prefix_addr old)) (qdiscs (merge_lan_prefix_addr new))) (\<lambda>qs.
        tryE (collectE (capture_lan_file E) [KEA4, KEA6, UNBOUND]) (\<lambda>lan.
        okE \<lparr> fp_addresses = addresses, fp_links = vlans @ tunnels, fp_qdiscs = qs,
              fp_wireguard_ports = ports, fp_lan_files = lan \<rparr>))))))"
  have "fine (?rest ds)" if "\<forall>d \<in> set ds. readable (snd d)" for ds
    using that assms(1)
    by (intro gives_seqE fine_collectE fine_capture_address gives_if fine_okE fine_capture_link
        fine_capture_port fine_capture_qdisc fine_capture_lan_file) auto
  then show "fine (do { ds \<leftarrow> desired_addresses E (merge_lan_prefix_addr new); ?rest ds })"
    using desired_addresses_readable [OF links]
    by (intro gives_bind_with [OF stays_desired_addresses, where P = "\<lambda>ds. \<forall>d \<in> set ds. readable (snd d)"]) blast+
qed

section \<open>The attempt\<close>

lemma byte_bound: "byte c < 256"
  by (simp add: byte_def)

lemma utf8_valid_ascii: "\<forall>b \<in> set bs. b < 0x80 \<Longrightarrow> utf8_valid bs"
proof (induction bs)
  case (Cons b bs)
  have "utf8_seq ((b # bs) @ [0, 0, 0]) = 1"
    using Cons.prems by (cases bs; cases "tl bs"; cases "tl (tl bs)") auto
  then show ?case
    using Cons by (subst utf8_valid.simps) (simp add: Let_def)
qed simp

lemma token_utf8: "is_utf8 (token_of bytes)"
proof -
  have digit: "byte (''0123456789abcdef'' ! n) < 0x80" if "n < 16" for n
  proof -
    have "list_all (\<lambda>c. byte c < 0x80) ''0123456789abcdef''" by code_simp
    then show ?thesis using that by (simp add: list_all_length)
  qed
  have "byte c < 0x80" if "c \<in> set (hex_byte b)" for b c
  proof -
    have "unat b < 256" using unsigned_less [of b, where 'a = nat] by simp
    then have "unat b div 16 < 16" by simp
    then show ?thesis using that digit by (auto simp: hex_byte_def Let_def)
  qed
  then show ?thesis
    unfolding is_utf8_def token_of_def by (intro utf8_valid_ascii) auto
qed

lemma run_random_token:
  assumes "answers E bytes"
  obtains w' where "run_state (random_token E) w = (Inr (token_of bytes), w')" and "files w' = files w"
proof -
  have "fst (urandom E (outside w)) = Some bytes" using assms by (simp add: answers_def)
  then show ?thesis
    using that by (cases "urandom E (outside w)") (simp add: random_token_def run_asks token_of_def)
qed

lemma gives_read_text:
  assumes "faultless E" and "files w p = Some t" and "is_utf8 t"
  obtains w' where "run_state (read_text E p) w = (Inr (Some t), w')" and "files w' = files w"
proof -
  obtain w' where "run_state (read_file E p) w = (Inr (files w p), w')" "files w' = files w"
    using assms(1) by (rule run_read_file)
  then show ?thesis using that assms by (simp add: read_text_def run_tryE)
qed

lemma gives_ready:
  assumes "faultless E" and "answers E bytes"
  shows "gives (set_lan_services_ready E b) (\<lambda>g. g = (if b then Some (token_of bytes) else None))"
  unfolding gives_def
proof (intro allI impI)
  fix w :: "'a world" assume w: "tidy w"
  let ?g = "if b then Some (token_of bytes) else None"
  obtain w1 where 1: "run_state (if b then tryE (random_token E) (\<lambda>g. okE (Some g)) else okE None) w = (Inr ?g, w1)"
      "files w1 = files w"
  proof -
    obtain v where "run_state (random_token E) w = (Inr (token_of bytes), v)" "files v = files w"
      using assms(2) by (rule run_random_token)
    then show ?thesis using that by (cases b) (simp_all add: run_tryE)
  qed
  have t1: "tidy w1" using w 1 by (rule_tac tidy_files)
  obtain w2 where 2: "run_state (restore_file E LAN_SERVICES_READY ?g) w1 = (Inr (), w2)" "tidy w2"
      "files w2 LAN_SERVICES_READY = ?g"
  proof (cases b)
    case True
    obtain w2 where "run_state (durable_write E LAN_SERVICES_READY (token_of bytes)) w1 = (Inr (), w2)" "tidy w2"
      using run_fine [OF fine_durable_write [OF assms(1) ready_not_temp] t1] by auto
    then show ?thesis using that True durable_write_writes [OF ready_not_temp] by (fastforce simp: restore_file_def)
  next
    case False
    obtain w2 where "run_state (durable_remove E LAN_SERVICES_READY) w1 = (Inr (), w2)" "tidy w2"
      using run_fine [OF fine_durable_remove [OF assms(1)] t1] by auto
    then show ?thesis using that False durable_remove_ok by (fastforce simp: restore_file_def)
  qed
  obtain w3 where 3: "run_state (read_text E LAN_SERVICES_READY) w2 = (Inr ?g, w3)" "files w3 = files w2"
  proof -
    obtain w3 where "run_state (read_file E LAN_SERVICES_READY) w2 = (Inr (files w2 LAN_SERVICES_READY), w3)"
        "files w3 = files w2"
      using assms(1) by (rule run_read_file)
    then show ?thesis using that 2 token_utf8 by (simp add: read_text_def run_tryE)
  qed
  show "\<exists>g w'. run_state (set_lan_services_ready E b) w = (Inr g, w') \<and> tidy w' \<and> g = ?g"
    using 1 2 3 tidy_files [OF 3(2) 2(2)] by (simp add: set_lan_services_ready_def run_tryE run_map_err)
qed

lemma fine_wait:
  assumes "faultless E" and "answers E bytes"
  shows "fine (wait_lan_services E (token_of bytes))"
  unfolding gives_def
proof (intro allI impI)
  fix w :: "'a world" assume w: "tidy w"
  obtain result k where "foreign_read E LAN_SERVICES_RESULT (outside w) = (Inr (Some result), k)"
      "parse_lan_services_result result (token_of bytes) = Some (Inr ())"
    using assms(2) unfolding answers_def by (metis prod.collapse)
  then show "\<exists>a w'. run_state (wait_lan_services E (token_of bytes)) w = (Inr a, w') \<and> tidy w' \<and> True"
    using w by (simp add: wait_lan_services_def numeral_eq_Suc run_asks tidy_def)
qed

text \<open>Validation does not look at the revision.\<close>

lemma revision_parts [simp]:
  "lan_l2 (st\<lparr>revision := n\<rparr>) = lan_l2 st" "static_lan_prefix (st\<lparr>revision := n\<rparr>) = static_lan_prefix st"
  "known_device (st\<lparr>revision := n\<rparr>) = known_device st" "with_role r (st\<lparr>revision := n\<rparr>) = with_role r st"
  "management_gateway (st\<lparr>revision := n\<rparr>) = management_gateway st"
  "lan_v4_prefix (st\<lparr>revision := n\<rparr>) = lan_v4_prefix st"
  "validate_qdisc (st\<lparr>revision := n\<rparr>) = validate_qdisc st"
  "validate_ipv6 (st\<lparr>revision := n\<rparr>) = validate_ipv6 st"
  "exposes_ui (st\<lparr>revision := n\<rparr>) = exposes_ui st"
  "validate_topology (st\<lparr>revision := n\<rparr>) = validate_topology st"
  "validate_exposed_name (st\<lparr>revision := n\<rparr>) = validate_exposed_name st"
  by (simp_all add: lan_l2_def static_lan_prefix_def known_device_def with_role_def management_gateway_def
      lan_v4_prefix_def validate_qdisc_def validate_ipv6_def exposes_ui_def validate_topology_def
      validate_exposed_name_def Let_def fun_eq_iff cong: option.case_cong)

lemma revision_exposure [simp]: "validate_exposure (st\<lparr>revision := n\<rparr>) = validate_exposure st"
  by (simp add: validate_exposure_def)

lemma revision_services [simp]:
  "lan_services_match_interface (st\<lparr>revision := n\<rparr>) = lan_services_match_interface st"
  "first_lan_service_address (st\<lparr>revision := n\<rparr>) = first_lan_service_address st"
  "validate_policy_rule (st\<lparr>revision := n\<rparr>) = validate_policy_rule st"
  by (simp_all add: lan_services_match_interface_def first_lan_service_address_def validate_policy_rule_def
      Let_def fun_eq_iff cong: option.case_cong if_cong)

lemma revision_routes [simp]: "validate_routes (st\<lparr>revision := n\<rparr>) seen rs = validate_routes st seen rs"
proof -
  have "on_link_addresses (st\<lparr>revision := n\<rparr>) = on_link_addresses st"
    by (simp add: on_link_addresses_def fun_eq_iff cong: option.case_cong if_cong)
  then have "validate_next_hop (st\<lparr>revision := n\<rparr>) = validate_next_hop st"
    by (simp add: validate_next_hop_def route_next_hop_on_link_def fun_eq_iff cong: option.case_cong)
  then show ?thesis
    by (induction rs arbitrary: seen) simp_all
qed

lemma revision_validates [simp]: "validate b64 (st\<lparr>revision := n\<rparr>) = validate b64 st"
  by (simp add: validate_def validate_values_def validate_policy_def)

lemma revision_lan_host [simp]: "lan_host_known (st\<lparr>revision := n\<rparr>) = lan_host_known st"
  by (simp add: lan_host_known_def)

section \<open>The transaction\<close>

definition encodes :: "codecs \<Rightarrow> bool" where
  "encodes c \<longleftrightarrow>
     (\<forall>st. is_ok (toml_of_desired c st)) \<and> (\<forall>op. is_ok (text_of_operation c op))
     \<and> (\<forall>a. is_ok (text_of_attribution c a))"

lemma fine_remove_stale_routes: "faultless E \<Longrightarrow> fine (remove_stale_routes E old new)"
  unfolding remove_stale_routes_def remove_stale_route_def
proof (rule fine_forE)
  fix r assume E: "faultless E"
  show "fine (do { result \<leftarrow> run_ip E (route_args ''del'' r);
     ret (case result of
            Inl e \<Rightarrow> if contains_str ''No such process'' e then Inr () else Inl e
          | Inr u \<Rightarrow> Inr u) })"
    unfolding gives_def
  proof (intro allI impI)
    fix w :: "'a world" assume "tidy w"
    from run_fine [OF fine_run_ip [OF E] this] obtain w' where
      "run_state (run_ip E (route_args ''del'' r)) w = (Inr (), w')" "tidy w'" by auto
    then show "\<exists>a w'. run_state (do { result \<leftarrow> run_ip E (route_args ''del'' r);
     ret (case result of
            Inl e \<Rightarrow> if contains_str ''No such process'' e then Inr () else Inl e
          | Inr u \<Rightarrow> Inr u) }) w = (Inr a, w') \<and> tidy w' \<and> True" by simp
  qed
qed

lemma fine_boot_time: "faultless E \<Longrightarrow> fine (boot_time_ns E)"
  unfolding gives_def
proof (intro allI impI)
  fix w :: "'a world" assume E: "faultless E" and w: "tidy w"
  obtain s n k where "boottime_clock E (outside w) = (Inr (s, n), k)"
    using E unfolding faultless_def is_ok_iff by (metis prod.collapse)
  then show "\<exists>a w'. run_state (boot_time_ns E) w = (Inr a, w') \<and> tidy w' \<and> True"
    using w by (simp add: boot_time_ns_def run_asks tidy_def)
qed

lemma journal_not_temp: "p \<in> journal_paths \<Longrightarrow> \<not> is_temp p"
  using journal_lasting by (simp add: lasting_def)

lemma encodesE:
  assumes "encodes c"
  obtains t op_text attr_text where "toml_of_desired c st = Inr t" and "text_of_operation c op = Inr op_text"
    and "text_of_attribution c a = Inr attr_text"
  using assms unfolding encodes_def is_ok_iff by blast

lemma run_durable_write:
  assumes "faultless E" and "p \<in> journal_paths" and "tidy w"
  obtains w' where "run_state (durable_write E p t) w = (Inr (), w')" and "tidy w'"
  using run_fine [OF fine_durable_write [OF assms(1) journal_not_temp [OF assms(2)]] assms(3), of t] by auto

lemma fine_persist:
  "faultless E \<Longrightarrow> encodes (codec E) \<Longrightarrow> p \<in> journal_paths \<Longrightarrow> fine (persist_at E p st)"
  by (rule fine_persist_at) (simp_all add: journal_not_temp encodes_def)

lemma fine_write_attribution: "faultless E \<Longrightarrow> encodes (codec E) \<Longrightarrow> fine (write_attribution E a)"
proof -
  assume E: "faultless E" "encodes (codec E)"
  obtain t where "text_of_attribution (codec E) a = Inr t" using E(2) by (rule encodesE)
  then show ?thesis
    using E by (simp add: write_attribution_def fine_durable_write journal_not_temp)
qed

lemma fine_commit_files:
  assumes "faultless E" and "encodes (codec E)"
    and "\<forall>raw. at_attribution a = Some raw \<longrightarrow> is_ok (attribution_of_text (codec E) raw)"
  shows "fine (commit_files E a proposal)"
proof -
  obtain receipts where "accepted_draft_receipts (codec E) (at_attribution a) (revision (at_current a)) (at_actor a)
             (at_draft a) (revision proposal) = Inr receipts"
    using assms(3)
    by (cases "at_attribution a") (auto simp: accepted_draft_receipts_def is_ok_iff bindE_ok)
  then show ?thesis
    using fine_persist [OF assms(1,2)] fine_write_attribution [OF assms(1,2)]
    by (simp add: commit_files_def tryE_okE persist_def gives_seqE)
qed

lemma fine_then:
  assumes "gives m P" and "tidy w" and "\<And>a w'. run_state m w = (Inr a, w') \<Longrightarrow> tidy w' \<Longrightarrow> P a \<Longrightarrow> thesis"
  shows thesis
  using assms unfolding gives_def by blast

lemma run_attempt_apply:
  assumes E: "faultless E" "encodes (codec E)" "answers E bytes" and w: "tidy w"
    and st: "validate (base64 (codec E)) start = Inr ()" "lan_host_known start"
    and att: "\<forall>raw. at_attribution a = Some raw \<longrightarrow> is_ok (attribution_of_text (codec E) raw)"
  obtains proposal w' where "run_state (attempt_apply E a start) w = ((proposal, Inr ()), w')" and "tidy w'"
proof -
  obtain proposal w1 where 1: "run_state (apply_state E start) w = ((proposal, Inr ()), w1)" "tidy w1"
    using run_apply_state [OF E(1) st w] by blast
  let ?rest = "seqE (ret (Inr ()))
       (seqE (remove_stale_routes E (at_current a) proposal)
       (tryE (set_lan_services_ready E True) (\<lambda>g.
        tryE (liftE (ok_or g ''LAN service generation was not published'')) (\<lambda>generation.
        seqE (wait_lan_services E generation)
          (if \<not> apply_confirmation (at_current a) \<or> at_intent a = Recovery_restore
           then commit_files E a proposal else okE ())))))"
  have "fine ?rest"
    unfolding tryE_okE
    by (intro gives_seqE [OF fine_remove_stale_routes [OF E(1)]] gives_tryE [OF gives_ready [OF E(1,3)]])
      (auto simp: ok_or_def tryE_okE intro!: gives_seqE fine_wait E fine_commit_files att fine_okE)
  from run_fine [OF this 1(2)] obtain w2 where "run_state ?rest w1 = (Inr (), w2)" "tidy w2" by auto
  then show ?thesis using that 1 by (simp add: attempt_apply_def)
qed

lemma await_pends:
  assumes E: "faultless E" "encodes (codec E)" and w: "tidy w"
  shows "reply_outcome (fst (run_state (await_confirmation E a proposal base) w)) = Some ''pending_confirmation''"
proof -
  obtain token w1 where 1: "run_state (random_token E) w = (Inr token, w1)" "tidy w1"
    using run_fine [OF fine_random_token [OF E(1)] w] by blast
  obtain boot w2 where 2: "run_state (boot_time_ns E) w1 = (Inr boot, w2)" "tidy w2"
    using run_fine [OF fine_boot_time [OF E(1)] 1(2)] by blast
  obtain ms w3 where 3: "run_state (asks (unix_ms E)) w2 = (ms, w3)" "tidy w3"
    using 2(2) keepsD [OF stays_asks] by (metis stays_def surj_pair)
  obtain t where t: "text_of_operation (codec E) ((journal_of a Pending_confirmation)
                      \<lparr> proposed := Some proposal, confirmation_id := Some token,
                        deadline_boot_ns := Some (saturating_add boot 120000000000),
                        expires_at_unix_ms := Some (of_nat (ms + 120000)) \<rparr>) = Inr t"
    using E(2) by (rule encodesE)
  obtain w4 where "run_state (durable_write E APPLY_OPERATION t) w3 = (Inr (), w4)"
    using run_durable_write [OF E(1) in_journal(4) 3(2)] by blast
  then show ?thesis
    using 1 2 3 t
    by (auto simp: await_confirmation_def Let_def reply_outcome_def jindex_def jget_def jstr_def
        split: prod.splits sum.splits)
qed

lemma accept_accepts:
  assumes E: "faultless E" "encodes (codec E)" and w: "tidy w"
  shows "reply_outcome (fst (run_state (accept_proposal E a proposal base) w)) = Some ''accepted''"
proof -
  obtain t where t: "text_of_operation (codec E) (journal_of a Accepted) = Inr t"
    using E(2) by (rule encodesE)
  obtain w1 where "run_state (durable_write E APPLY_OPERATION t) w = (Inr (), w1)"
    using run_durable_write [OF E(1) in_journal(4) w] by blast
  then show ?thesis
    using t by (auto simp: accept_proposal_def reply_outcome_def jindex_def jget_def jstr_def
        split: prod.splits sum.splits)
qed

definition expected_outcome :: "desired_state \<Rightarrow> apply_intent \<Rightarrow> string" where
  "expected_outcome current intent =
     (if apply_confirmation current \<and> intent = Ordinary then ''pending_confirmation'' else ''accepted'')"

lemma run_attempt_outcome:
  assumes E: "faultless E" "encodes (codec E)" "answers E bytes" and w: "tidy w"
    and st: "validate (base64 (codec E)) start = Inr ()" "lan_host_known start"
    and att: "\<forall>raw. at_attribution a = Some raw \<longrightarrow> is_ok (attribution_of_text (codec E) raw)"
  shows "reply_outcome (fst (run_state (run_attempt E a start base) w)) =
    Some (expected_outcome (at_current a) (at_intent a))"
proof -
  obtain g w1 where 1: "run_state (set_lan_services_ready E False) w = (Inr g, w1)" "tidy w1"
    using gives_ready [OF E(1,3), of False] w unfolding gives_def by blast
  obtain proposal w2 where 2: "run_state (attempt_apply E a start) w1 = ((proposal, Inr ()), w2)" "tidy w2"
    using run_attempt_apply [OF E 1(2) st att] by blast
  show ?thesis
    using 1 2 await_pends [OF E(1,2) 2(2)] accept_accepts [OF E(1,2) 2(2)]
    by (auto simp: run_attempt_def needs_confirmation_def expected_outcome_def)
qed

lemma begin_attempt_outcome:
  assumes E: "faultless E" "encodes (codec E)" "answers E bytes" and w: "tidy w"
    and st: "validate (base64 (codec E)) start = Inr ()" "lan_host_known start"
    and att: "\<forall>raw. at_attribution a = Some raw \<longrightarrow> is_ok (attribution_of_text (codec E) raw)"
  shows "reply_outcome (fst (run_state (begin_attempt E a start base) w)) =
    Some (expected_outcome (at_current a) (at_intent a))"
proof -
  obtain t where t: "text_of_operation (codec E) (journal_of a Applying) = Inr t"
    using E(2) by (rule encodesE)
  obtain w1 where 1: "run_state (durable_write E APPLY_OPERATION t) w = (Inr (), w1)" "tidy w1"
    using run_durable_write [OF E(1) in_journal(4) w] by blast
  show ?thesis
    using t 1 run_attempt_outcome [OF E 1(2) st att] by (simp add: begin_attempt_def)
qed

lemma run_read_file_tidy:
  assumes "faultless E" and "tidy w"
  obtains w' where "run_state (read_file E p) w = (Inr (files w p), w')" and "files w' = files w" and "tidy w'"
proof -
  obtain w' where "run_state (read_file E p) w = (Inr (files w p), w')" "files w' = files w"
    using assms(1) by (rule run_read_file)
  then show ?thesis using that tidy_files assms(2) by metis
qed

lemma run_prepare_attempt:
  assumes E: "faultless E" and w: "tidy w"
    and new: "links_readable start" "tunnels_readable start" "lan_host_known start"
  obtains a w' where "run_state (prepare_attempt E current start actor draft intent) w = (Inr a, w')" and "tidy w'"
    and "at_current a = current" and "at_intent a = intent" and "at_attribution a = files w APPLY_ATTRIBUTION"
proof -
  obtain fp w1 where 1: "run_state (capture_footprint E current start) w = (Inr fp, w1)" "tidy w1"
    using run_fine [OF fine_capture_footprint [OF E new] w] by blast
  obtain w2 where 2: "run_state (read_file E PREVIOUS_ACCEPTED) w1 = (Inr (files w1 PREVIOUS_ACCEPTED), w2)"
      "files w2 = files w1" "tidy w2"
    using run_read_file_tidy [OF E 1(2)] .
  obtain w3 where 3: "run_state (read_file E APPLY_ATTRIBUTION) w2 = (Inr (files w2 APPLY_ATTRIBUTION), w3)"
      "files w3 = files w2" "tidy w3"
    using run_read_file_tidy [OF E 2(3)] .
  have "files w1 APPLY_ATTRIBUTION = files w APPLY_ATTRIBUTION"
    using same_run(1) [OF same_capture_footprint 1(1)] by (metis core_at in_journal(3))
  then show ?thesis
    using that 1 2 3 by (simp add: prepare_attempt_def file_exists_def)
qed

lemma apply_checked_outcome:
  assumes E: "faultless E" "encodes (codec E)" "answers E bytes" and w: "tidy w"
    and st: "validate (base64 (codec E)) start = Inr ()" "lan_host_known start" and rv: "revision current \<noteq> - 1"
    and att: "\<forall>raw. files w APPLY_ATTRIBUTION = Some raw \<longrightarrow> is_ok (attribution_of_text (codec E) raw)"
  shows "reply_outcome (fst (run_state (apply_checked E current start base actor draft intent) w)) =
    Some (expected_outcome current intent)"
proof -
  let ?start = "start\<lparr>revision := revision current + 1\<rparr>"
  have new: "validate (base64 (codec E)) ?start = Inr ()" "lan_host_known ?start" using st by simp_all
  have "fine (check_proposed E start)"
    unfolding check_proposed_def nft_rules_def st(1) tryE_okE
    by (intro gives_bind stays.keeps_gets fine_nft_check E(1))
  from run_fine [OF this w] obtain w1 where 1: "run_state (check_proposed E start) w = (Inr (), w1)" "tidy w1"
    by auto
  obtain a w2 where 2: "run_state (prepare_attempt E current ?start actor draft intent) w1 = (Inr a, w2)" "tidy w2"
      "at_current a = current" "at_intent a = intent" "at_attribution a = files w1 APPLY_ATTRIBUTION"
    using run_prepare_attempt [OF E(1) 1(2) validate_links_readable [OF new(1)]
        validate_tunnels_readable [OF new(1)] new(2)] .
  have "files w1 APPLY_ATTRIBUTION = files w APPLY_ATTRIBUTION"
    using same_run(1) [OF same_check_proposed 1(1)] by (metis core_at in_journal(3))
  then have "\<forall>raw. at_attribution a = Some raw \<longrightarrow> is_ok (attribution_of_text (codec E) raw)"
    using att 2(5) by simp
  from begin_attempt_outcome [OF E 2(2) new this] show ?thesis
    using 1 2 rv by (simp add: apply_checked_def checked_succ_def)
qed

section \<open>The property\<close>

text \<open>An idle appliance with its Accepted state: no journal, no guard.\<close>

definition idle_with :: "codecs \<Rightarrow> desired_state \<Rightarrow> 'k world \<Rightarrow> bool" where
  "idle_with c current w \<longleftrightarrow>
     tidy w \<and> \<not> recovery_required w \<and> files w APPLY_OPERATION = None \<and> files w APPLY_PREVIOUS = None
     \<and> (\<exists>raw. files w DESIRED = Some raw \<and> is_utf8 raw \<and> desired_of_toml c raw = Inr current)
     \<and> revision current \<noteq> 0 \<and> revision current \<noteq> - 1
     \<and> (\<forall>raw. files w APPLY_ATTRIBUTION = Some raw \<longrightarrow> is_ok (attribution_of_text c raw))"

lemma run_apply_busy:
  assumes "faultless E" and "idle_with (codec E) current w"
  obtains w' where "run_state (apply_busy E) w = (False, w')" and "files w' = files w" and "tidy w'"
proof -
  have w: "tidy w" "files w APPLY_OPERATION = None" "files w APPLY_PREVIOUS = None" "\<not> recovery_required w"
    using assms(2) by (simp_all add: idle_with_def)
  obtain w' where "run_state (read_file E APPLY_OPERATION) w = (Inr None, w')" "files w' = files w" "tidy w'"
    using run_read_file_tidy [OF assms(1) w(1), of APPLY_OPERATION] w(2) by metis
  then show ?thesis
    using that w by (simp add: apply_busy_def recovery_pending_def operation_requires_recovery_def
        file_exists_def pending_operation_def run_tryE run_map_err)
qed

lemma run_accepted_desired:
  assumes "faultless E" and "idle_with (codec E) current w"
  obtains w' where "run_state (accepted_desired E) w = (Inr current, w')" and "files w' = files w" and "tidy w'"
proof -
  obtain raw where w: "tidy w" "files w DESIRED = Some raw" "is_utf8 raw" "desired_of_toml (codec E) raw = Inr current"
      "revision current \<noteq> 0"
    using assms(2) by (auto simp: idle_with_def)
  obtain w' where "run_state (read_text E DESIRED) w = (Inr (Some raw), w')" "files w' = files w"
    using gives_read_text [OF assms(1) w(2,3)] .
  then show ?thesis
    using that w tidy_files by (auto simp: accepted_desired_def run_tryE run_map_err)
qed

lemma apply_desired_outcome:
  assumes "faultless E" and "encodes (codec E)" and "answers E bytes" and "idle_with (codec E) current w"
    and "base \<in> {None, Some (revision current)}" and "desired_of_json (codec E) input = Inr start"
    and "validate (base64 (codec E)) start = Inr ()" and "lan_host_known start"
  shows "reply_outcome (fst (run_state (apply_desired_request E input base actor draft intent) w)) =
    Some (expected_outcome current intent)"
proof -
  obtain w1 where 1: "run_state (apply_busy E) w = (False, w1)" "files w1 = files w" "tidy w1"
    using run_apply_busy [OF assms(1,4)] .
  have "recovery_required w1 = recovery_required w"
    using keepsD [OF same_apply_busy 1(1), of "{}"] by (simp add: same_on_def)
  then have idle1: "idle_with (codec E) current w1"
    using assms(4) 1 by (simp add: idle_with_def)
  obtain w2 where 2: "run_state (accepted_desired E) w1 = (Inr current, w2)" "files w2 = files w1" "tidy w2"
    using run_accepted_desired [OF assms(1) idle1] .
  have "revision current \<noteq> - 1" "\<forall>raw. files w2 APPLY_ATTRIBUTION = Some raw \<longrightarrow> is_ok (attribution_of_text (codec E) raw)"
    using assms(4) 1 2 by (simp_all add: idle_with_def)
  note checked = apply_checked_outcome [OF assms(1-3) 2(3) assms(7,8) this]
  show ?thesis
    using assms(5,6) 1 2 checked
    by (auto simp: apply_desired_request_def Let_def split: option.splits)
qed


end
