(* ===== verification/Sample.thy ===== *)
theory Sample
  imports Apply_Properties Apply_Success "HOL-Library.Countable"
begin

text \<open>
  A sample machine for the instances: codecs that number the values of each type and write
  the number in unary, programs that succeed and print \<open>[]\<close>, a Host that answers, and an
  idle appliance whose Accepted state is the sample state of \<open>Validate\<close>.
\<close>

section \<open>Numbering the records\<close>

instance word :: (len) countable
  by (rule countable_classI [of unat]) (rule unsigned_word_eqI)

instance json :: countable
  by countable_datatype

instance iface_ext :: (countable) countable
  by (rule countable_classI [of "\<lambda>i. to_nat (iface_name i, placement i, role i, iface_addresses i, vlan i,
        parent i, dhcp i, ipv6 i, request_pd i, iface.more i)"])
    (simp add: iface.equality)

instance wg_ext :: (countable) countable
  by (rule countable_classI [of "\<lambda>w. to_nat (wg_name w, private_key w, listen_port w, wg_addresses w, wg.more w)"])
    (simp add: wg.equality)

instance static_route_ext :: (countable) countable
  by (rule countable_classI [of "\<lambda>r. to_nat (route_to r, via r, route_dev r, static_route.more r)"])
    (simp add: static_route.equality)

instance qdisc_ext :: (countable) countable
  by (rule countable_classI [of "\<lambda>q. to_nat (qdisc_dev q, kind q, qdisc.more q)"])
    (simp add: qdisc.equality)

instance desired_state_ext :: (countable) countable
  by (rule countable_classI [of "\<lambda>s. to_nat (revision s, interfaces s, wireguard s, routes s, nft_extra s,
        qdiscs s, hostname s, lan_prefix s, dhcp_pool s, wan_pd s, ui_exposure s, apply_confirmation s,
        desired_state.more s)"])
    (simp add: desired_state.equality)

instance principal_ext :: (countable) countable
  by (rule countable_classI [of "\<lambda>p. to_nat (prin_source p, prin_subject p, prin_username p, principal.more p)"])
    (simp add: principal.equality)

instance apply_phase :: countable
  by countable_datatype

instance apply_operation_ext :: (countable) countable
  by (rule countable_classI [of "\<lambda>p. to_nat (phase p, accepted p, previous_accepted p, previous_attribution p,
        proposed p, confirmation_id p, op_applying p, op_draft_version p, deadline_boot_ns p,
        expires_at_unix_ms p, apply_operation.more p)"])
    (simp add: apply_operation.equality)

instance draft_receipt_ext :: (countable) countable
  by (rule countable_classI [of "\<lambda>r. to_nat (owner r, version r, accepted_revision r, draft_receipt.more r)"])
    (simp add: draft_receipt.equality)

instance apply_attribution_ext :: (countable) countable
  by (rule countable_classI [of "\<lambda>a. to_nat (attr_revision a, attr_applying a, attr_confirming a,
        attr_draft_version a, draft_receipts a, apply_attribution.more a)"])
    (simp add: apply_attribution.equality)

section \<open>Unary codecs\<close>

definition unary :: "'a::countable \<Rightarrow> string" where
  "unary x = replicate (to_nat x) (CHR ''1'')"

definition of_unary :: "string \<Rightarrow> 'a::countable" where
  "of_unary t = from_nat (length t)"

lemma of_unary_unary [simp]: "of_unary (unary x) = x"
  by (simp add: of_unary_def unary_def)

lemma unary_utf8: "is_utf8 (unary x)"
  unfolding is_utf8_def unary_def by (rule utf8_valid_ascii) (auto simp: byte_def)

definition unary_json :: "json \<Rightarrow> 'a::countable res" where
  "unary_json v = (case v of JStr t \<Rightarrow> Inr (of_unary t) | _ \<Rightarrow> Inl ''invalid type'')"

definition unary_codecs :: codecs where
  "unary_codecs =
     \<lparr> base64 = (\<lambda>_. None),
       json_of_text = (\<lambda>t. Inr (of_unary t)),
       toml_of_desired = (\<lambda>x. Inr (unary x)), desired_of_toml = (\<lambda>t. Inr (of_unary t)),
       json_of_desired = (\<lambda>x. Inr (JStr (unary x))), desired_of_json = unary_json,
       text_of_operation = (\<lambda>x. Inr (unary x)), operation_of_text = (\<lambda>t. Inr (of_unary t)),
       text_of_attribution = (\<lambda>x. Inr (unary x)), attribution_of_text = (\<lambda>t. Inr (of_unary t)),
       principal_of_json = unary_json, json_of_principal = (\<lambda>p. JStr (unary p)),
       text_of_opt = (\<lambda>_. Inl ''unsupported value''), opt_of_text = (\<lambda>_. Inl ''expected value''),
       text_of_attempt = (\<lambda>_. Inl ''unsupported value''), attempt_of_text = (\<lambda>_. Inl ''expected value''),
       text_of_restoration = (\<lambda>_. Inl ''unsupported value'') \<rparr>"

lemma unary_lawful: "lawful unary_codecs"
  by (auto simp: lawful_def unary_codecs_def unary_json_def)

lemma unary_encodes: "encodes unary_codecs"
  by (simp add: encodes_def unary_codecs_def)

section \<open>The machine\<close>

definition zeros :: "u8 list" where
  "zeros = replicate 32 0"

definition sample_env :: "unit env" where
  "sample_env =
     \<lparr> codec = unary_codecs,
       io_fault = (\<lambda>op k. (None, k)),
       exec = (\<lambda>argv input k. (Exited True ''exit status: 0'' ''0'' [], k)),
       urandom = (\<lambda>k. (Some zeros, k)),
       boottime_clock = (\<lambda>k. (Inr (7, 0), k)),
       unix_ms = (\<lambda>k. (9, k)),
       deadline_passed = (\<lambda>k. (False, k)),
       foreign_read = (\<lambda>path k. (Inr (if path = LAN_SERVICES_RESULT then Some (token_of zeros @ '' ok'') else None), k)),
       foreign_write = (\<lambda>path text k. (Inr (), k)),
       foreign_remove = (\<lambda>path k. (Inr (), k)),
       foreign_dir = (\<lambda>path k. (Inr [], k)) \<rparr>"

lemma sample_faultless: "faultless sample_env"
proof -
  have "parse_u16 (trim ''0'') \<noteq> None" by code_simp
  then show ?thesis
    by (simp add: faultless_def sample_env_def good_output_def exec_error_def unary_codecs_def)
qed

lemma sample_answers: "answers sample_env zeros"
proof -
  have "parse_lan_services_result (token_of zeros @ '' ok'') (token_of zeros) = Some (Inr ())" by code_simp
  then show ?thesis by (simp add: answers_def sample_env_def)
qed

lemma sample_codec [simp]: "codec sample_env = unary_codecs"
  by (simp add: sample_env_def)

text \<open>An appliance that has nothing but its Accepted state.\<close>

definition sample_world :: "desired_state \<Rightarrow> unit world" where
  "sample_world current =
     \<lparr> files = [DESIRED \<mapsto> unary current], recovery_required = False, trail = [], calls = [], outside = () \<rparr>"

lemma sample_trail [simp]: "trail (sample_world st) = []"
  by (simp add: sample_world_def)

lemma sample_idle:
  assumes "revision current \<noteq> 0" and "revision current \<noteq> - 1"
  shows "idle_with unary_codecs current (sample_world current)"
proof -
  have "\<not> is_temp DESIRED" using journal_lasting by (simp add: lasting_def)
  then show ?thesis
    using assms unary_utf8 by (auto simp: idle_with_def sample_world_def tidy_def unary_codecs_def)
qed

definition operator :: principal where
  "operator = \<lparr> prin_source = ''local'', prin_subject = ''u1'', prin_username = ''alice'' \<rparr>"

definition sample_request :: "desired_state \<Rightarrow> json \<times> unit world" where
  "sample_request current =
     run_state (apply_desired_request sample_env (JStr (unary sample_state)) None (Some operator) None Ordinary)
       (sample_world current)"

section \<open>Instances\<close>

definition confirmed_state :: desired_state where
  "confirmed_state = sample_state\<lparr> apply_confirmation := True \<rparr>"

lemma sample_revisions:
  "revision sample_state \<noteq> 0 \<and> revision sample_state \<noteq> - 1 \<and> revision confirmed_state \<noteq> 0 \<and> revision confirmed_state \<noteq> - 1"
  by code_simp

lemma sample_lan_host: "lan_host_known sample_state"
  by code_simp

text \<open>An empty LAN prefix passes validation as an absent one, but the LAN services take it as
  present and find no host in it.\<close>

lemma empty_lan_prefix_validates:
  "validate (\<lambda>_. None) (sample_state\<lparr>lan_prefix := Some []\<rparr>) = Inr ()
   \<and> \<not> lan_host_known (sample_state\<lparr>lan_prefix := Some []\<rparr>)"
  by code_simp

lemma sample_input: "desired_of_json unary_codecs (JStr (unary st)) = Inr st"
  by (simp add: unary_codecs_def unary_json_def)

lemma sample_valid: "validate (base64 unary_codecs) sample_state = Inr ()"
  using sample_validates by (simp add: unary_codecs_def)

lemma sample_confirms: "\<not> apply_confirmation sample_state" "apply_confirmation confirmed_state"
  by (simp_all add: sample_state_def default_desired_def confirmed_state_def)

lemma sample_idles:
  "idle_with unary_codecs sample_state (sample_world sample_state)"
  "idle_with unary_codecs confirmed_state (sample_world confirmed_state)"
  using sample_idle sample_revisions by simp_all


text \<open>The other properties of the transaction on the same two requests.\<close>

lemma sample_outcome:
  assumes "idle_with unary_codecs current (sample_world current)"
  shows "reply_outcome (fst (sample_request current)) = Some (expected_outcome current Ordinary)"
  unfolding sample_request_def
  using apply_desired_outcome [OF sample_faultless _ sample_answers _ _ _ _ sample_lan_host, where base = None]
    assms unary_encodes sample_input sample_valid by simp

lemma sample_accepted: "reply_outcome (fst (sample_request sample_state)) = Some ''accepted''"
  and sample_pending: "reply_outcome (fst (sample_request confirmed_state)) = Some ''pending_confirmation''"
  using sample_outcome sample_idles sample_confirms by (simp_all add: expected_outcome_def)

lemma sample_run:
  "run_state (apply_desired_request sample_env (JStr (unary sample_state)) None (Some operator) None Ordinary)
     (sample_world current) = (fst (sample_request current), snd (sample_request current))"
  by (simp add: sample_request_def)

lemma sample_codecs_lawful: "lawful (codec sample_env)"
  by (simp add: unary_lawful)

lemma sample_boot:
  "revision current \<noteq> 0 \<Longrightarrow>
   boot_state unary_codecs (files (sample_world current)) = Some (current, None, None)"
  using journal_neq by (simp add: boot_state_def sample_world_def desired_file_def unary_codecs_def normal_revision_def)

theorem apply_is_atomic_witness:
  "\<exists>st ta tt. boot_state unary_codecs (files (snd (sample_request sample_state))) = Some (st, Some ta, Some tt)
     \<and> toml_of_desired unary_codecs sample_state = Inr ta \<and> revision st = revision sample_state + 1"
  using apply_is_atomic [OF sample_run sample_codecs_lawful sample_trail, of sample_state]
    sample_accepted sample_boot [of sample_state] sample_revisions by auto

theorem apply_guards_failures_witness:
  "\<not> recovery_required (snd (sample_request sample_state))"
  using apply_guards_failures [OF sample_run sample_codecs_lawful sample_trail, of sample_state]
    sample_accepted by (simp add: sample_world_def)


theorem apply_pending_keeps_accepted_witness:
  "boot_state unary_codecs (files (snd (sample_request confirmed_state))) = Some (confirmed_state, None, None)"
  using apply_pending_keeps_accepted [OF sample_run sample_codecs_lawful sample_trail sample_pending]
    sample_boot [of confirmed_state] sample_revisions by auto

theorem draft_receipt_replaces_owners_witness:
  "filter (\<lambda>r. same_owner (owner r) operator)
     (case accepted_draft_receipts unary_codecs None 1 (Some operator) (Some ''v2'') 2 of Inr rs \<Rightarrow> rs | Inl _ \<Rightarrow> [])
   = [\<lparr> owner = operator, version = ''v2'', accepted_revision = 2 \<rparr>]"
proof -
  have "accepted_draft_receipts unary_codecs None 1 (Some operator) (Some ''v2'') 2 =
      Inr [\<lparr> owner = operator, version = ''v2'', accepted_revision = 2 \<rparr>]"
    by (simp add: accepted_draft_receipts_def add_receipt_def upsert_draft_receipt_def)
  from draft_receipt_replaces_owners [OF this] this show ?thesis by simp
qed

theorem durable_write_atomic_witness:
  "files (snd (run_state (durable_write sample_env DESIRED ''new'') (sample_world sample_state))) DESIRED
     \<in> {Some (unary sample_state), Some ''new''}"
proof -
  have "\<not> is_temp DESIRED" using journal_lasting by (simp add: lasting_def)
  from durable_write_atomic [OF this prod.collapse [symmetric], of sample_env "''new''" "sample_world sample_state"]
  show ?thesis by (simp add: sample_world_def)
qed

end
