(* ===== verification/Desired_Json.thy ===== *)
theory Desired_Json
  imports Serde
begin

text \<open>
  The Desired state as JSON (the derived \<open>Serialize\<close> and \<open>Deserialize\<close> of \<open>src/desired.rs\<close>):
  which keys a struct is written with, which may be missing, and that no other key is taken.
  The main facts: reading back what was written gives the same state, and a document with a
  key the code does not know is refused.
\<close>

section \<open>Interfaces\<close>

definition write_iface :: "iface \<Rightarrow> json" where
  "write_iface i = JObj
     ([(''name'', JStr (iface_name i))]
      @ unless_empty (placement i = []) ''placement'' (JStr (placement i))
      @ [(''role'', jopt JStr (role i)),
         (''addresses'', JArr (map JStr (iface_addresses i))),
         (''vlan'', jopt write_u16 (vlan i)),
         (''parent'', jopt JStr (parent i)),
         (''dhcp'', JBool (dhcp i))]
      @ unless_empty (ipv6 i = None) ''ipv6'' (jopt JStr (ipv6 i))
      @ unless_empty (\<not> request_pd i) ''request_pd'' (JBool (request_pd i)))"

definition iface_fields :: "field_check list" where
  "iface_fields =
     [(''name'', checks read_str), (''placement'', checks read_str), (''role'', checks (read_option read_str)),
      (''addresses'', checks (read_vec read_str)), (''vlan'', checks (read_option read_u16)),
      (''parent'', checks (read_option read_str)), (''dhcp'', checks read_bool),
      (''ipv6'', checks (read_option read_str)), (''request_pd'', checks read_bool)]"

definition read_iface :: "iface json_reader" where
  "read_iface v =
     bindE (visit_struct True ''Iface'' iface_fields v) (\<lambda>s.
     bindE (need ''name'' read_str s) (\<lambda>n.
     bindE (or_default [] ''placement'' read_str s) (\<lambda>p.
     bindE (or_default None ''role'' (read_option read_str) s) (\<lambda>r.
     bindE (or_default [] ''addresses'' (read_vec read_str) s) (\<lambda>a.
     bindE (or_default None ''vlan'' (read_option read_u16) s) (\<lambda>t.
     bindE (or_default None ''parent'' (read_option read_str) s) (\<lambda>up.
     bindE (or_default False ''dhcp'' read_bool s) (\<lambda>d.
     bindE (or_default None ''ipv6'' (read_option read_str) s) (\<lambda>six.
     bindE (or_default False ''request_pd'' read_bool s) (\<lambda>pd.
       Inr \<lparr> iface_name = n, placement = p, role = r, iface_addresses = a, vlan = t, parent = up,
             dhcp = d, ipv6 = six, request_pd = pd \<rparr>))))))))))"

section \<open>Tunnels, routes and queueing disciplines\<close>

definition write_wg :: "wg \<Rightarrow> json" where
  "write_wg t = JObj
     [(''name'', JStr (wg_name t)), (''private_key'', JStr (private_key t)),
      (''listen_port'', jopt write_u16 (listen_port t)), (''addresses'', JArr (map JStr (wg_addresses t)))]"

definition wg_fields :: "field_check list" where
  "wg_fields =
     [(''name'', checks read_str), (''private_key'', checks read_str),
      (''listen_port'', checks (read_option read_u16)), (''addresses'', checks (read_vec read_str))]"

definition read_wg :: "wg json_reader" where
  "read_wg v =
     bindE (visit_struct True ''Wg'' wg_fields v) (\<lambda>s.
     bindE (need ''name'' read_str s) (\<lambda>n.
     bindE (need ''private_key'' read_str s) (\<lambda>k.
     bindE (or_default None ''listen_port'' (read_option read_u16) s) (\<lambda>p.
     bindE (or_default [] ''addresses'' (read_vec read_str) s) (\<lambda>a.
       Inr \<lparr> wg_name = n, private_key = k, listen_port = p, wg_addresses = a \<rparr>)))))"

definition write_route :: "static_route \<Rightarrow> json" where
  "write_route r = JObj
     [(''to'', JStr (route_to r)), (''via'', JStr (via r)), (''dev'', jopt JStr (route_dev r))]"

definition route_fields :: "field_check list" where
  "route_fields = [(''to'', checks read_str), (''via'', checks read_str), (''dev'', checks (read_option read_str))]"

definition read_route :: "static_route json_reader" where
  "read_route v =
     bindE (visit_struct True ''StaticRoute'' route_fields v) (\<lambda>s.
     bindE (need ''to'' read_str s) (\<lambda>t.
     bindE (need ''via'' read_str s) (\<lambda>g.
     bindE (or_default None ''dev'' (read_option read_str) s) (\<lambda>d.
       Inr \<lparr> route_to = t, via = g, route_dev = d \<rparr>))))"

definition write_qdisc :: "qdisc \<Rightarrow> json" where
  "write_qdisc q = JObj [(''dev'', JStr (qdisc_dev q)), (''kind'', JStr (kind q))]"

definition qdisc_fields :: "field_check list" where
  "qdisc_fields = [(''dev'', checks read_str), (''kind'', checks read_str)]"

definition read_qdisc :: "qdisc json_reader" where
  "read_qdisc v =
     bindE (visit_struct True ''Qdisc'' qdisc_fields v) (\<lambda>s.
     bindE (need ''dev'' read_str s) (\<lambda>d.
     bindE (need ''kind'' read_str s) (\<lambda>k.
       Inr \<lparr> qdisc_dev = d, kind = k \<rparr>)))"

lemmas visit_simps = visit_struct_def need_def or_default_def unless_empty_def codec_checks codec_reads

interpretation iface: solid_codec write_iface read_iface
  by unfold_locales (simp_all add: write_iface_def read_iface_def iface_fields_def visit_simps)

interpretation wg: solid_codec write_wg read_wg
  by unfold_locales (simp_all add: write_wg_def read_wg_def wg_fields_def visit_simps)

interpretation route: solid_codec write_route read_route
  by unfold_locales (simp_all add: write_route_def read_route_def route_fields_def visit_simps)

interpretation qdisc: solid_codec write_qdisc read_qdisc
  by unfold_locales (simp_all add: write_qdisc_def read_qdisc_def qdisc_fields_def visit_simps)

section \<open>The Desired state\<close>

definition write_desired :: "desired_state \<Rightarrow> json" where
  "write_desired st = JObj
     [(''revision'', jword (revision st)),
      (''interfaces'', JArr (map write_iface (interfaces st))),
      (''wireguard'', JArr (map write_wg (wireguard st))),
      (''routes'', JArr (map write_route (routes st))),
      (''nft_extra'', JArr (map JStr (nft_extra st))),
      (''qdiscs'', JArr (map write_qdisc (qdiscs st))),
      (''hostname'', jopt JStr (hostname st)),
      (''lan_prefix'', jopt JStr (lan_prefix st)),
      (''dhcp_pool'', jopt JStr (dhcp_pool st)),
      (''wan_pd'', jopt JStr (wan_pd st)),
      (''ui_exposure'', JArr (map JStr (ui_exposure st))),
      (''apply_confirmation'', JBool (apply_confirmation st))]"

definition desired_fields :: "field_check list" where
  "desired_fields =
     [(''revision'', checks read_u64), (''interfaces'', checks (read_vec read_iface)),
      (''wireguard'', checks (read_vec read_wg)), (''routes'', checks (read_vec read_route)),
      (''nft_extra'', checks (read_vec read_str)), (''qdiscs'', checks (read_vec read_qdisc)),
      (''hostname'', checks (read_option read_str)), (''lan_prefix'', checks (read_option read_str)),
      (''dhcp_pool'', checks (read_option read_str)), (''wan_pd'', checks (read_option read_str)),
      (''ui_exposure'', checks (read_vec read_str)), (''apply_confirmation'', checks read_bool)]"

definition read_desired :: "desired_state json_reader" where
  "read_desired v =
     bindE (visit_struct True ''DesiredState'' desired_fields v) (\<lambda>s.
     bindE (or_default initial_revision ''revision'' read_u64 s) (\<lambda>n.
     bindE (or_default [] ''interfaces'' (read_vec read_iface) s) (\<lambda>ifs.
     bindE (or_default [] ''wireguard'' (read_vec read_wg) s) (\<lambda>ts.
     bindE (or_default [] ''routes'' (read_vec read_route) s) (\<lambda>rs.
     bindE (or_default [] ''nft_extra'' (read_vec read_str) s) (\<lambda>x.
     bindE (or_default [] ''qdiscs'' (read_vec read_qdisc) s) (\<lambda>qs.
     bindE (or_default None ''hostname'' (read_option read_str) s) (\<lambda>h.
     bindE (or_default None ''lan_prefix'' (read_option read_str) s) (\<lambda>l.
     bindE (or_default None ''dhcp_pool'' (read_option read_str) s) (\<lambda>p.
     bindE (or_default None ''wan_pd'' (read_option read_str) s) (\<lambda>w.
     bindE (or_default [] ''ui_exposure'' (read_vec read_str) s) (\<lambda>u.
     bindE (or_default False ''apply_confirmation'' read_bool s) (\<lambda>c.
       Inr \<lparr> revision = n, interfaces = ifs, wireguard = ts, routes = rs, nft_extra = x, qdiscs = qs,
             hostname = h, lan_prefix = l, dhcp_pool = p, wan_pd = w, ui_exposure = u,
             apply_confirmation = c \<rparr>)))))))))))))"

lemmas vec_reads = iface.reads_vec wg.reads_vec route.reads_vec qdisc.reads_vec
lemmas vec_checks = iface.checks_vec wg.checks_vec route.checks_vec qdisc.checks_vec

interpretation desired: solid_codec write_desired read_desired
  by unfold_locales
    (simp_all add: write_desired_def read_desired_def desired_fields_def visit_simps vec_reads vec_checks)

section \<open>Properties\<close>

text \<open>
  JSON keeps a complete Desired state: what serde writes for it reads back as the same
  state, and two states that are written alike are the same. So comparing two states as
  JSON, as the pre-update restoration does, compares every field of them.
\<close>

theorem desired_json_round_trip:
  "read_desired (write_desired st) = Inr st \<and> (write_desired st = write_desired st' \<longleftrightarrow> st = st')"
  using desired.reads desired.injective by blast

lemma visit_fields_known:
  "visit_fields True fs kvs = Inr () \<Longrightarrow> k \<in> fst ` set kvs \<Longrightarrow> k \<in> fst ` set fs"
proof (induction True fs kvs rule: visit_fields.induct)
  case (2 fs key v kvs)
  then show ?case by (auto split: option.splits dest: map_of_SomeD intro: rev_image_eqI)
qed simp

lemma mapE_ok: "mapE f xs = Inr ys \<Longrightarrow> x \<in> set xs \<Longrightarrow> \<exists>y. f x = Inr y"
  by (induction xs arbitrary: ys) (auto simp: bindE_ok)

lemma visit_object:
  assumes "visit_struct True name fs (JObj kvs) = Inr s"
  shows "fst ` set kvs \<subseteq> fst ` set fs" and "fst s = kvs"
proof -
  have "visit_fields True fs kvs = Inr () \<and> fst s = kvs"
    using assms unfolding visit_struct_def json.case bindE_ok by auto
  then show "fst ` set kvs \<subseteq> fst ` set fs" and "fst s = kvs"
    using visit_fields_known by blast+
qed

lemma read_iface_keys:
  assumes "read_iface (JObj ms) = Inr i"
  shows "fst ` set ms \<subseteq> fst ` set iface_fields"
proof -
  obtain s where "visit_struct True ''Iface'' iface_fields (JObj ms) = Inr s"
    using assms unfolding read_iface_def bindE_ok by blast
  then show ?thesis by (rule visit_object)
qed

lemma read_desired_parts:
  assumes "read_desired (JObj kvs) = Inr st"
  shows "fst ` set kvs \<subseteq> fst ` set desired_fields"
    and "map_of kvs ''interfaces'' = Some v \<Longrightarrow> \<exists>ifs. read_vec read_iface v = Inr ifs"
proof -
  obtain s ifs where s: "visit_struct True ''DesiredState'' desired_fields (JObj kvs) = Inr s"
      and i: "or_default [] ''interfaces'' (read_vec read_iface) s = Inr ifs"
    using assms unfolding read_desired_def bindE_ok by blast
  show "fst ` set kvs \<subseteq> fst ` set desired_fields"
    using s by (rule visit_object)
  show "\<exists>ifs. read_vec read_iface v = Inr ifs" if "map_of kvs ''interfaces'' = Some v"
    using i that unfolding or_default_def visit_object(2) [OF s] option.case by auto
qed

text \<open>
  An imported Desired state is taken only when every key is one the code knows: with
  any other key in the document, or in one of its interfaces, reading fails, so a misspelt
  setting is never ignored.
\<close>

theorem desired_json_denies_unknown_keys:
  assumes "read_desired (JObj kvs) = Inr st"
  shows "fst ` set kvs \<subseteq> {''revision'', ''interfaces'', ''wireguard'', ''routes'', ''nft_extra'', ''qdiscs'',
      ''hostname'', ''lan_prefix'', ''dhcp_pool'', ''wan_pd'', ''ui_exposure'', ''apply_confirmation''}
    \<and> (\<forall>ifs ms. map_of kvs ''interfaces'' = Some (JArr ifs) \<longrightarrow> JObj ms \<in> set ifs \<longrightarrow>
        fst ` set ms \<subseteq> {''name'', ''placement'', ''role'', ''addresses'', ''vlan'', ''parent'', ''dhcp'', ''ipv6'',
          ''request_pd''})"
proof (intro conjI allI impI)
  show "fst ` set kvs \<subseteq> {''revision'', ''interfaces'', ''wireguard'', ''routes'', ''nft_extra'', ''qdiscs'',
      ''hostname'', ''lan_prefix'', ''dhcp_pool'', ''wan_pd'', ''ui_exposure'', ''apply_confirmation''}"
    using read_desired_parts(1) [OF assms] by (simp add: desired_fields_def)
next
  fix ifs ms
  assume "map_of kvs ''interfaces'' = Some (JArr ifs)" and "JObj ms \<in> set ifs"
  then obtain i where "read_iface (JObj ms) = Inr i"
    using read_desired_parts(2) [OF assms] mapE_ok by (fastforce simp: read_vec_def)
  from read_iface_keys [OF this]
  show "fst ` set ms \<subseteq> {''name'', ''placement'', ''role'', ''addresses'', ''vlan'', ''parent'', ''dhcp'', ''ipv6'',
      ''request_pd''}"
    by (simp add: iface_fields_def)
qed

text \<open>The instance: a document with one interface, and the same with a misspelt key.\<close>

definition sample_document :: "(string \<times> json) list" where
  "sample_document =
     [(''revision'', JNum 4), (''interfaces'', JArr [JObj [(''name'', JStr ''eth0''), (''dhcp'', JBool True)]])]"

theorem desired_json_denies_unknown_keys_witness:
  "is_ok (read_desired (JObj sample_document))
   \<and> fst ` set sample_document \<subseteq> {''revision'', ''interfaces'', ''wireguard'', ''routes'', ''nft_extra'', ''qdiscs'',
      ''hostname'', ''lan_prefix'', ''dhcp_pool'', ''wan_pd'', ''ui_exposure'', ''apply_confirmation''}"
proof -
  have ok: "is_ok (read_desired (JObj sample_document))" by code_simp
  then obtain st where "read_desired (JObj sample_document) = Inr st" by (auto simp: is_ok_iff)
  from desired_json_denies_unknown_keys [OF this] ok show ?thesis by blast
qed

lemma misspelt_key_refused:
  "read_desired (JObj [(''interfaces'', JArr [JObj [(''name'', JStr ''eth0''), (''dchp'', JBool True)]])])
   = Inl ''unknown field `dchp`, expected one of `name`, `placement`, `role`, `addresses`, `vlan`, `parent`, `dhcp`, `ipv6`, `request_pd`''"
  by code_simp

end
