(* ===== verification/Confirm.thy ===== *)
theory Confirm
  imports Transaction Desired_Json
begin

text \<open>
  What netd does with an applied revision that waits for its confirmation, and with the
  Accepted revisions it keeps (\<open>src/netd.rs\<close>): confirming, expiring, the previous Accepted
  revision, the target a Host update preserves and restores, and the questions about them.
\<close>

section \<open>Replies\<close>

definition reply_error :: "string \<Rightarrow> json" where
  "reply_error e = JObj [(''ok'', JBool False), (''error'', JStr e)]"

definition reply_ok :: "(string \<times> json) list \<Rightarrow> json" where
  "reply_ok kvs = JObj ((''ok'', JBool True) # kvs)"

definition required_or_restored :: "'a res \<Rightarrow> json" where
  "required_or_restored r = JStr (if is_ok r then ''restored'' else ''required'')"

text \<open>\<open>request.get("...")\<close> as a number, a string, an identity\<close>

definition get_u64 :: "json \<Rightarrow> string \<Rightarrow> u64 option" where
  "get_u64 v k = Option.bind (jget v k) jnum"

definition get_str :: "json \<Rightarrow> string \<Rightarrow> string option" where
  "get_str v k = Option.bind (jget v k) jstr"

definition get_principal :: "codecs \<Rightarrow> json \<Rightarrow> string \<Rightarrow> principal option" where
  "get_principal c v k = Option.bind (jget v k) (\<lambda>x. ok_opt (principal_of_json c x))"

section \<open>Status of a pending confirmation\<close>

definition review_projection :: "desired_state \<Rightarrow> json" where
  "review_projection st = JObj
     [(''apply_confirmation'', JBool (apply_confirmation st)),
      (''hostname'', jopt JStr (hostname st)),
      (''interfaces'', JArr (map write_iface (interfaces st))),
      (''routes'', JArr (map write_route (routes st))),
      (''ui_exposure'', JArr (map JStr (ui_exposure st))),
      (''lan_prefix'', jopt JStr (lan_prefix st)),
      (''dhcp_pool'', jopt JStr (dhcp_pool st)),
      (''wan_pd'', jopt JStr (wan_pd st)),
      (''nft_extra'', JArr (map JStr (nft_extra st))),
      (''qdiscs'', JArr (map write_qdisc (qdiscs st))),
      (''wireguard'', JArr (map (\<lambda>t. JObj
         [(''name'', JStr (wg_name t)), (''listen_port'', jopt write_u16 (listen_port t)),
          (''addresses'', JArr (map JStr (wg_addresses t)))]) (wireguard st)))]"

definition pending_json :: "codecs \<Rightarrow> apply_operation \<Rightarrow> desired_state \<Rightarrow> json" where
  "pending_json c op st = JObj
     [(''revision'', jword (revision st)),
      (''confirmation_id'', jopt JStr (confirmation_id op)),
      (''base_revision'', jword (revision (accepted op))),
      (''routes'', JArr (map write_route (routes st))),
      (''applying'', jopt (json_of_principal c) (op_applying op)),
      (''expires_at_unix_ms'', jopt jword (expires_at_unix_ms op)),
      (''accepted_review'', review_projection (accepted op)),
      (''proposed_review'', review_projection st)]"

definition attribution_json :: "codecs \<Rightarrow> apply_attribution \<Rightarrow> json" where
  "attribution_json c a = JObj
     [(''revision'', jword (attr_revision a)),
      (''applying'', jopt (json_of_principal c) (attr_applying a)),
      (''confirming'', jopt (json_of_principal c) (attr_confirming a))]"

definition confirmation_reply ::
    "'k env \<Rightarrow> desired_state \<Rightarrow> json \<Rightarrow> ('k world, json) state" where
  "confirmation_reply E current pending = do {
     last \<leftarrow> accepted_attribution E (revision current);
     ret (reply_ok
       [(''enabled'', JBool (apply_confirmation current)),
        (''accepted_revision'', jword (revision current)), (''pending'', pending),
        (''last_accepted'', jopt (attribution_json (codec E)) last)]) }"

definition apply_confirmation_status :: "'k env \<Rightarrow> ('k world, json) state" where
  "apply_confirmation_status E = do {
     r \<leftarrow> accepted_desired E;
     (case r of
        Inl e \<Rightarrow> ret (reply_error e)
      | Inr current \<Rightarrow> do {
          p \<leftarrow> pending_operation E;
          (case p of
             Inl e \<Rightarrow> ret (reply_error e)
           | Inr None \<Rightarrow> confirmation_reply E current JNull
           | Inr (Some op) \<Rightarrow>
               (case proposed op of
                  None \<Rightarrow> ret (reply_error ''pending Apply revision is missing'')
                | Some st \<Rightarrow> confirmation_reply E current (pending_json (codec E) op st))) }) }"

section \<open>Host update health\<close>

definition accepted_state_restored ::
    "bool \<Rightarrow> bool \<Rightarrow> string option \<Rightarrow> string option \<Rightarrow> unit res" where
  "accepted_state_restored bootstrapped recovering lan_ready lan_result =
     thenE (failIf (\<not> bootstrapped) ''Bootstrap has not completed'')
    (thenE (failIf recovering ''Accepted Desired state needs recovery'')
    (case map_option trim lan_ready of
       None \<Rightarrow> Inl ''LAN services are not ready''
     | Some generation \<Rightarrow>
         if generation = [] then Inl ''LAN services are not ready''
         else (case Option.bind lan_result (\<lambda>result. parse_lan_services_result result generation) of
                 Some outcome \<Rightarrow> outcome
               | None \<Rightarrow> Inl ''LAN services are starting'')))"

definition restoration_reply :: "u64 res \<Rightarrow> json" where
  "restoration_reply r =
     (case r of
        Inr n \<Rightarrow> reply_ok [(''restored'', JBool True), (''revision'', jword n)]
      | Inl reason \<Rightarrow> reply_ok [(''restored'', JBool False), (''reason'', JStr reason)])"

definition restoration_status :: "'k env \<Rightarrow> ('k world, json) state" where
  "restoration_status E = do {
     ready \<leftarrow> read_text E LAN_SERVICES_READY;
     result \<leftarrow> foreign_text E LAN_SERVICES_RESULT;
     bootstrapped \<leftarrow> file_exists BOOTSTRAPPED;
     recovering \<leftarrow> recovery_pending E;
     (case accepted_state_restored bootstrapped recovering (Option.bind (ok_opt ready) id) result of
        Inl e \<Rightarrow> ret (restoration_reply (Inl e))
      | Inr _ \<Rightarrow> do {
          r \<leftarrow> accepted_desired E;
          ret (restoration_reply (case r of Inl e \<Rightarrow> Inl e | Inr st \<Rightarrow> Inr (revision st))) }) }"

definition preserve_pre_update :: "'k env \<Rightarrow> ('k world, json) state" where
  "preserve_pre_update E = do {
     bootstrapped \<leftarrow> file_exists BOOTSTRAPPED;
     (if \<not> bootstrapped then ret (reply_error ''complete Bootstrap before a Host update'')
      else do {
        recovering \<leftarrow> recovery_pending E;
        (if recovering then ret (reply_error ''Accepted Desired state needs recovery before a Host update'')
         else do {
           r \<leftarrow> tryE (accepted_desired E) (\<lambda>st.
                seqE (persist_at E PRE_UPDATE_ACCEPTED st)
               (seqE (durable_remove E NETWORK_RESTORATION)
                     (okE (revision st))));
           ret (case r of
                  Inr n \<Rightarrow> reply_ok [(''revision'', jword n)]
                | Inl e \<Rightarrow> reply_error e) }) }) }"

section \<open>The state a Host update preserved\<close>

definition read_pre_update_accepted :: "'k env \<Rightarrow> ('k, desired_state) io" where
  "read_pre_update_accepted E =
     tryE (map_err (\<lambda>e. ''read pre-update Accepted Desired state: '' @ e) (read_text E PRE_UPDATE_ACCEPTED)) (\<lambda>v.
       case v of
         None \<Rightarrow> errE ''read pre-update Accepted Desired state: No such file or directory (os error 2)''
       | Some raw \<Rightarrow>
           (case desired_of_toml (codec E) raw of
              Inl e \<Rightarrow> errE (''parse pre-update Accepted Desired state: '' @ e)
            | Inr st \<Rightarrow> okE st))"

definition stage_unreadable_accepted_restoration :: "'k env \<Rightarrow> ('k world, bool) state" where
  "stage_unreadable_accepted_restoration E = do {
     current \<leftarrow> accepted_desired E;
     operation_there \<leftarrow> file_exists APPLY_OPERATION;
     previous_there \<leftarrow> file_exists APPLY_PREVIOUS;
     (if is_ok current \<or> operation_there \<or> previous_there then ret False
      else do {
        staged \<leftarrow> tryE (read_pre_update_accepted E) (\<lambda>st.
                    persist_at E APPLY_PREVIOUS (st\<lparr>revision := saturating_add (revision st) 1\<rparr>));
        ret (is_ok staged) }) }"

definition same_network_ignoring_revision ::
    "codecs \<Rightarrow> desired_state \<Rightarrow> desired_state \<Rightarrow> bool res" where
  "same_network_ignoring_revision c l r =
     (let without = (\<lambda>st. case json_of_desired c (st\<lparr>revision := 0\<rparr>) of
                            Inl e \<Rightarrow> Inl (''compare Desired state: '' @ e)
                          | Inr v \<Rightarrow> Inr v) in
      bindE (without l) (\<lambda>a. bindE (without r) (\<lambda>b. Inr (a = b))))"

definition restoration_of_reply :: "json \<Rightarrow> network_restoration" where
  "restoration_of_reply reply =
     (let failed = Failed (case jstr (jindex reply ''error'') of
                             Some e \<Rightarrow> e | None \<Rightarrow> ''apply of the pre-update network failed'') in
      case jnum (jindex reply ''revision'') of
        Some n \<Rightarrow> if jindex reply ''ok'' = JBool True then Restored n else failed
      | None \<Rightarrow> failed)"

definition restore_preserved ::
    "'k env \<Rightarrow> bool \<Rightarrow> desired_state \<Rightarrow> desired_state \<Rightarrow> ('k world, network_restoration) state" where
  "restore_preserved E restored_at_recovery preserved current =
     (case same_network_ignoring_revision (codec E) preserved current of
        Inl e \<Rightarrow> ret (Failed e)
      | Inr True \<Rightarrow> ret ((if restored_at_recovery then Restored else Unchanged) (revision current))
      | Inr False \<Rightarrow>
          (case json_of_desired (codec E) preserved of
             Inl e \<Rightarrow> ret (Failed (''encode pre-update network: '' @ e))
           | Inr input \<Rightarrow> do {
               reply \<leftarrow> apply_desired_request E input (Some (revision current)) None None Recovery_restore;
               ret (restoration_of_reply reply) }))"

definition restore_pre_update :: "'k env \<Rightarrow> bool \<Rightarrow> ('k world, network_restoration) state" where
  "restore_pre_update E restored_at_recovery = do {
     p \<leftarrow> read_pre_update_accepted E;
     (case p of
        Inl e \<Rightarrow> ret (Failed e)
      | Inr preserved \<Rightarrow> do {
          recovering \<leftarrow> recovery_pending E;
          (if recovering then ret (Failed ''Accepted Desired state needs recovery from the Appliance console'')
           else do {
             r \<leftarrow> accepted_desired E;
             (case r of
                Inl e \<Rightarrow> ret (Failed e)
              | Inr current \<Rightarrow> restore_preserved E restored_at_recovery preserved current) }) }) }"

definition finish_pre_update_restoration :: "'k env \<Rightarrow> bool \<Rightarrow> ('k world, unit) state" where
  "finish_pre_update_restoration E restored_at_recovery = do {
     outcome \<leftarrow> restore_pre_update E restored_at_recovery;
     (case outcome of
        Failed _ \<Rightarrow> ret ()
      | _ \<Rightarrow> do { durable_remove E PRE_UPDATE_ACCEPTED; ret () });
     written \<leftarrow> (case text_of_restoration (codec E) outcome of
                   Inl e \<Rightarrow> errE (''encode pre-update network restoration: '' @ e)
                 | Inr raw \<Rightarrow> durable_write E NETWORK_RESTORATION raw);
     (case written of
        Inl _ \<Rightarrow> ret ()
      | Inr _ \<Rightarrow> do { durable_remove E RESTORE_PRE_UPDATE; ret () }) }"

section \<open>Was a draft accepted?\<close>

definition receipt_matches :: "principal \<Rightarrow> string \<Rightarrow> u64 \<Rightarrow> draft_receipt \<Rightarrow> bool" where
  "receipt_matches who v rv r \<longleftrightarrow> same_owner (owner r) who \<and> version r = v \<and> accepted_revision r \<le> rv"

definition attribution_matches :: "principal \<Rightarrow> string \<Rightarrow> u64 \<Rightarrow> apply_attribution \<Rightarrow> bool" where
  "attribution_matches who v rv a \<longleftrightarrow>
     list_ex (receipt_matches who v rv) (draft_receipts a)
     \<or> attr_draft_version a = Some v
       \<and> (case attr_applying a of Some actor \<Rightarrow> same_owner actor who | None \<Rightarrow> False)"

definition was_draft_accepted :: "'k env \<Rightarrow> json \<Rightarrow> ('k world, json) state" where
  "was_draft_accepted E request = do {
     recovering \<leftarrow> recovery_pending E;
     (if recovering then ret (reply_error ''Accepted Desired state is unavailable during recovery'')
      else case get_u64 request ''revision'' of
        None \<Rightarrow> ret (reply_error ''Accepted revision is required'')
      | Some rv \<Rightarrow>
      (case get_str request ''draft_version'' of
        None \<Rightarrow> ret (reply_error ''draft version is required'')
      | Some v \<Rightarrow>
      (case get_principal (codec E) request ''owner'' of
        None \<Rightarrow> ret (reply_error ''draft owner is required'')
      | Some who \<Rightarrow> do {
          r \<leftarrow> accepted_desired E;
          (case r of
             Inl e \<Rightarrow> ret (reply_error e)
           | Inr current \<Rightarrow>
               if revision current \<noteq> rv then ret (reply_ok [(''accepted'', JBool False)])
               else do {
                 a \<leftarrow> accepted_attribution E rv;
                 ret (reply_ok [(''accepted'', JBool
                   (case a of None \<Rightarrow> False | Some t \<Rightarrow> attribution_matches who v (revision current) t))]) }) }))) }"

section \<open>Confirming and expiring\<close>

definition pending_expired :: "'k env \<Rightarrow> apply_operation \<Rightarrow> ('k, bool) io" where
  "pending_expired E op =
     tryE (liftE (ok_or (deadline_boot_ns op) ''pending Apply deadline is missing'')) (\<lambda>deadline.
     tryE (boot_time_ns E) (\<lambda>now. okE (deadline \<le> now)))"

text \<open>\<open>unwrap_or(true)\<close>\<close>

definition taken_as_expired :: "bool res \<Rightarrow> bool" where
  "taken_as_expired r = (case r of Inl _ \<Rightarrow> True | Inr b \<Rightarrow> b)"

definition expire_pending_confirmation :: "'k env \<Rightarrow> ('k world, unit) state" where
  "expire_pending_confirmation E = do {
     p \<leftarrow> pending_operation E;
     (case p of
        Inl _ \<Rightarrow> do { require_recovery_guard E; ret () }
      | Inr None \<Rightarrow> ret ()
      | Inr (Some op) \<Rightarrow> do {
          x \<leftarrow> pending_expired E op;
          (if taken_as_expired x then do { recover_interrupted_apply E; ret () } else ret ()) }) }"

definition accepted_journal_of :: "apply_operation \<Rightarrow> apply_operation" where
  "accepted_journal_of op =
     op\<lparr> phase := Accepted, proposed := None, confirmation_id := None, deadline_boot_ns := None,
         expires_at_unix_ms := None \<rparr>"

definition commit_confirmed ::
    "'k env \<Rightarrow> apply_operation \<Rightarrow> desired_state \<Rightarrow> principal \<Rightarrow> ('k, unit) io" where
  "commit_confirmed E op st confirming =
     tryE (liftE (accepted_draft_receipts (codec E) (previous_attribution op) (revision (accepted op))
             (op_applying op) (op_draft_version op) (revision st))) (\<lambda>receipts.
     seqE (write_attribution E
             \<lparr> attr_revision = revision st, attr_applying = op_applying op, attr_confirming = Some confirming,
               attr_draft_version = None, draft_receipts = receipts \<rparr>)
    (seqE (persist E st)
    (seqE (persist_at E PREVIOUS_ACCEPTED (accepted op))
    (tryE (liftE (case text_of_operation (codec E) (accepted_journal_of op) of
                    Inl e \<Rightarrow> Inl (''encode accepted Apply: '' @ e)
                  | Inr raw \<Rightarrow> Inr raw)) (\<lambda>raw.
     durable_write E APPLY_OPERATION raw)))))"

definition confirm_pending ::
    "'k env \<Rightarrow> apply_operation \<Rightarrow> desired_state \<Rightarrow> principal \<Rightarrow> ('k world, json) state" where
  "confirm_pending E op st confirming = do {
     r \<leftarrow> commit_confirmed E op st confirming;
     (case r of
        Inl e \<Rightarrow> do {
          recovery \<leftarrow> recover_interrupted_apply E;
          ret (reply_failed ''failed''
            [(''error'', JStr e), (''restoration'', required_or_restored recovery),
             (''recovery_error'', (case recovery of Inl c \<Rightarrow> JStr c | Inr _ \<Rightarrow> JNull))]) }
      | Inr _ \<Rightarrow> do {
          durable_remove E APPLY_OPERATION;
          ret (reply_ok
            [(''outcome'', JStr ''accepted''), (''status'', JStr ''accepted''), (''revision'', jword (revision st)),
             (''applying'', jopt (json_of_principal (codec E)) (op_applying op)),
             (''confirming'', json_of_principal (codec E) confirming)]) }) }"

definition reject :: "string \<Rightarrow> json" where
  "reject e = reply_failed ''rejected'' [(''error'', JStr e)]"

definition confirm_matching ::
    "'k env \<Rightarrow> u64 \<Rightarrow> string \<Rightarrow> principal \<Rightarrow> apply_operation \<Rightarrow> ('k world, json) state" where
  "confirm_matching E rv token confirming op =
     (case proposed op of
        None \<Rightarrow> do {
          require_recovery_guard E;
          ret (reply_failed ''failed'' [(''error'', JStr ''pending Apply revision is missing'')]) }
      | Some st \<Rightarrow>
          if rv \<noteq> revision st \<or> confirmation_id op \<noteq> Some token
          then ret (reject ''pending Apply operation changed'')
          else do {
            x \<leftarrow> pending_expired E op;
            (if taken_as_expired x
             then do {
               recovered \<leftarrow> recover_interrupted_apply E;
               ret (reply_failed ''rejected''
                 [(''error'', JStr ''Apply confirmation expired''), (''restoration'', required_or_restored recovered)]) }
             else confirm_pending E op st confirming) })"

definition confirm_apply :: "'k env \<Rightarrow> json \<Rightarrow> ('k world, json) state" where
  "confirm_apply E request =
     (case get_u64 request ''revision'' of
        None \<Rightarrow> ret (reject ''pending revision is required'')
      | Some rv \<Rightarrow>
     (case get_str request ''confirmation_id'' of
        None \<Rightarrow> ret (reject ''Apply confirmation ID is required'')
      | Some token \<Rightarrow>
     (case get_principal (codec E) request ''confirming'' of
        None \<Rightarrow> ret (reject ''current administrator identity is required'')
      | Some confirming \<Rightarrow> do {
          recovering \<leftarrow> recovery_pending E;
          (if recovering then ret (reject ''Apply recovery is in progress'')
           else do {
             p \<leftarrow> pending_operation E;
             (case p of
                Inl e \<Rightarrow> ret (reply_failed ''failed'' [(''error'', JStr e)])
              | Inr None \<Rightarrow> ret (reject ''no Apply confirmation is pending'')
              | Inr (Some op) \<Rightarrow> confirm_matching E rv token confirming op) }) })))"

section \<open>Restoring the previous Accepted revision\<close>

definition failed_at :: "desired_state \<Rightarrow> string \<Rightarrow> json" where
  "failed_at current e =
     reply_failed ''failed'' [(''revision'', jword (revision current)), (''error'', JStr e)]"

definition restore_predecessor_of ::
    "'k env \<Rightarrow> principal option \<Rightarrow> desired_state \<Rightarrow> ('k world, json) state" where
  "restore_predecessor_of E actor current = do {
     r \<leftarrow> read_text E PREVIOUS_ACCEPTED;
     (case r of
        Inl e \<Rightarrow> ret (failed_at current (''read previous Accepted network revision: '' @ e))
      | Inr None \<Rightarrow> ret (rejected (revision current) ''no previous Accepted network revision is available'')
      | Inr (Some raw) \<Rightarrow>
          (case desired_of_toml (codec E) raw of
             Inl e \<Rightarrow> ret (failed_at current (''parse previous Accepted network revision: '' @ e))
           | Inr previous \<Rightarrow>
               if revision previous = 0 \<or> revision current \<le> revision previous
               then ret (failed_at current ''previous Accepted network revision is not older than the current revision'')
               else (case json_of_desired (codec E) previous of
                       Inl e \<Rightarrow> ret (failed_at current (''encode previous Accepted network revision: '' @ e))
                     | Inr input \<Rightarrow>
                         apply_desired_request E input (Some (revision current)) actor None Recovery_restore))) }"

definition restore_previous_request :: "'k env \<Rightarrow> principal option \<Rightarrow> ('k world, json) state" where
  "restore_previous_request E actor = do {
     bootstrapped \<leftarrow> file_exists BOOTSTRAPPED;
     (if \<not> bootstrapped then ret (reject ''complete Bootstrap before restoring Desired state'')
      else do {
        recovering \<leftarrow> recovery_pending E;
        (if recovering
         then do {
           r \<leftarrow> recover_interrupted_apply E;
           ret (case r of
                  Inr n \<Rightarrow> reply_ok [(''outcome'', JStr ''restored''), (''restoration'', JStr ''restored''),
                                     (''revision'', jword n)]
                | Inl e \<Rightarrow> reply_failed ''failed'' [(''restoration'', JStr ''required''), (''error'', JStr e)]) }
         else do {
           p \<leftarrow> pending_operation E;
           (if p \<noteq> Inr None then ret (reject ''Apply confirmation is pending'')
            else do {
              r \<leftarrow> accepted_desired E;
              (case r of
                 Inl e \<Rightarrow> ret (reply_failed ''failed'' [(''error'', JStr e)])
               | Inr current \<Rightarrow> restore_predecessor_of E actor current) }) }) }) }"

definition validate_desired_request :: "'k env \<Rightarrow> json \<Rightarrow> ('k world, json) state" where
  "validate_desired_request E input =
     (case desired_of_json (codec E) input of
        Inl e \<Rightarrow> ret (reject (''invalid complete Desired state: '' @ e))
      | Inr st \<Rightarrow> do {
          r \<leftarrow> check_proposed E st;
          ret (case r of Inr _ \<Rightarrow> reply_ok [] | Inl e \<Rightarrow> reject e) }) "

end
