(* ===== verification/Recovery.thy ===== *)
theory Recovery
  imports Transaction
begin

text \<open>
  The recovery of an interrupted apply (\<open>recover_interrupted_apply\<close> of \<open>src/netd.rs\<close>) over
  \<open>boot_state\<close>: whatever fails, the Accepted state that the next start restores stays the
  same but for the addresses its interfaces were found with, and netd's guard is lifted
  exactly when the recovery succeeds.
\<close>

section \<open>States that differ in found addresses\<close>

fun refreshed :: "durable_state option \<Rightarrow> durable_state option \<Rightarrow> bool" where
  "refreshed None None = True"
| "refreshed (Some (st, p, t)) (Some (st', p', t')) =
     (p' = p \<and> t' = t \<and> only_addresses (normal_revision st) (normal_revision st'))"
| "refreshed _ _ = False"

lemma refreshed_refl [simp]: "refreshed x x"
  by (cases x) auto

lemma refreshed_trans: "refreshed x y \<Longrightarrow> refreshed y z \<Longrightarrow> refreshed x z"
  by (cases "(x, y)" rule: refreshed.cases; cases z) (auto intro: only_addresses_trans)

lemma normal_only_addresses:
  assumes "only_addresses st st'"
  shows "only_addresses (normal_revision st) (normal_revision st')"
  using assms only_addresses_fields(1) [OF assms]
  by (cases st; cases st') (auto simp: only_addresses_def normal_revision_def)

lemma normal_revision_idem [simp]: "normal_revision (normal_revision st) = normal_revision st"
  by (simp add: normal_revision_def)

section \<open>Steps that keep a journal\<close>

text \<open>\<open>under G K b\<close>: \<open>G\<close> held of the journal files at every moment so far, \<open>K\<close> holds of them
  now, and the flag is \<open>b\<close>; \<open>at_files\<close> says in addition what they are.\<close>

definition under :: "(files \<Rightarrow> bool) \<Rightarrow> (files \<Rightarrow> bool) \<Rightarrow> bool \<Rightarrow> 'k world \<Rightarrow> bool" where
  "under G K b w \<longleftrightarrow> always journal_paths G w \<and> K (jcore w) \<and> recovery_required w = b"

definition at_files :: "(files \<Rightarrow> bool) \<Rightarrow> (files \<Rightarrow> bool) \<Rightarrow> bool \<Rightarrow> files \<Rightarrow> 'k world \<Rightarrow> bool" where
  "at_files G K b f w \<longleftrightarrow> under G K b w \<and> jcore w = f"

lemma at_files_under: "at_files G K b f w \<Longrightarrow> under G K b w"
  by (simp add: at_files_def)

lemma triple_at_same:
  assumes "keeps (same_on journal_paths) m"
  shows "triple (at_files G K b f) m (\<lambda>_. at_files G K b f) (under G K b)"
proof -
  have "at_files G K b f w'" if "at_files G K b f w" and "run_state m w = (r, w')" for r w w'
    using that keepsD [OF assms that(2)] dur.kept_step [of w w' G]
    by (auto simp: at_files_def under_def same_on_def)
  then show ?thesis
    unfolding triple_def by (auto split: prod.splits sum.splits intro: at_files_under)
qed

definition insensitive :: "(files \<Rightarrow> bool) \<Rightarrow> string \<Rightarrow> bool" where
  "insensitive K p \<longleftrightarrow> p \<in> journal_paths \<and> (\<forall>f v. K f \<longrightarrow> K (f(p := v)))"

lemma under_step:
  assumes "always journal_paths G w' \<and> jcore w' \<in> {jcore w, (jcore w)(p := v)}
      \<and> (r = Inr () \<longrightarrow> jcore w' = (jcore w)(p := v)) \<and> recovery_required w' = recovery_required w"
    and "at_files G K b f w" and "insensitive K p"
  shows "under G K b w' \<and> (r = Inr () \<longrightarrow> at_files G K b (f(p := v)) w')"
  using assms by (auto simp: at_files_def under_def insensitive_def)

lemma triple_put:
  assumes "insensitive K p" and "K \<le> G"
  shows "triple (at_files G K b f) (durable_write E p v) (\<lambda>_. at_files G K b (f(p := Some v))) (under G K b)"
proof -
  have "under G K b w' \<and> (r = Inr () \<longrightarrow> at_files G K b (f(p := Some v)) w')"
    if "at_files G K b f w" and "run_state (durable_write E p v) w = (r, w')" for r w w'
    by (rule under_step [OF dur.put_step [OF that(2)] that(1) assms(1)])
      (use that assms in \<open>auto simp: at_files_def under_def insensitive_def le_fun_def\<close>)
  then show ?thesis
    unfolding triple_def by (fastforce split: prod.splits sum.splits)
qed

lemma triple_delete:
  assumes "insensitive K p" and "K \<le> G"
  shows "triple (at_files G K b f) (durable_remove E p) (\<lambda>_. at_files G K b (f(p := None))) (under G K b)"
proof -
  have "under G K b w' \<and> (r = Inr () \<longrightarrow> at_files G K b (f(p := None)) w')"
    if "at_files G K b f w" and "run_state (durable_remove E p) w = (r, w')" for r w w'
    by (rule under_step [OF dur.delete_step [OF that(2)] that(1) assms(1)])
      (use that assms in \<open>auto simp: at_files_def under_def insensitive_def le_fun_def\<close>)
  then show ?thesis
    unfolding triple_def by (fastforce split: prod.splits sum.splits)
qed

lemma triple_restore_file:
  assumes "insensitive K p" and "K \<le> G"
  shows "triple (at_files G K b f) (restore_file E p v) (\<lambda>_. at_files G K b (f(p := v))) (under G K b)"
  unfolding restore_file_def
  by (cases v) (simp_all add: triple_put [OF assms] triple_delete [OF assms])

lemma triple_ex:
  assumes "\<And>x. A x \<Longrightarrow> triple (P x) m Q F"
  shows "triple (\<lambda>w. \<exists>x. A x \<and> P x w) m Q F"
  unfolding triple_def
proof (intro allI impI)
  fix w assume "\<exists>x. A x \<and> P x w"
  then obtain x where "A x" "P x w" by blast
  then show "case run_state m w of (Inl e, w') \<Rightarrow> F w' | (Inr a, w') \<Rightarrow> Q a w'"
    using assms [of x] by (simp add: triple_def)
qed

lemma triple_at_err: "triple (at_files G K b f) (errE e) Q (under G K b)"
  by (rule triple_err) (rule at_files_under)

lemma triple_persist_at:
  assumes "insensitive K p" and "K \<le> G"
  shows "triple (at_files G K b f) (persist_at E p st)
    (\<lambda>_ w. \<exists>raw. toml_of_desired (codec E) st = Inr raw \<and> at_files G K b (f(p := Some raw)) w) (under G K b)"
proof (cases "toml_of_desired (codec E) st")
  case (Inl e)
  then show ?thesis by (simp add: persist_at_def triple_at_err)
next
  case (Inr raw)
  then show ?thesis using triple_put [OF assms] by (simp add: persist_at_def)
qed

lemma triple_weaken: "triple P m Q F \<Longrightarrow> (\<And>a w. Q a w \<Longrightarrow> Q' a w) \<Longrightarrow> (\<And>w. F w \<Longrightarrow> F' w) \<Longrightarrow> triple P m Q' F'"
  unfolding triple_def by (fastforce split: prod.splits sum.splits)

lemma triple_and: "triple P m Q F \<Longrightarrow> triple P m Q' F' \<Longrightarrow> triple P m (\<lambda>a w. Q a w \<and> Q' a w) (\<lambda>w. F w \<and> F' w)"
  unfolding triple_def by (fastforce split: prod.splits sum.splits)

section \<open>The target\<close>

definition single_journal :: "files \<Rightarrow> bool" where
  "single_journal f \<longleftrightarrow> f APPLY_OPERATION = None \<or> f APPLY_PREVIOUS = None"

text \<open>The files hold the target, with the predecessor \<open>p\<close> and attribution \<open>t\<close> to restore.\<close>

definition held :: "codecs \<Rightarrow> recovery_target \<Rightarrow> string option \<Rightarrow> string option \<Rightarrow> files \<Rightarrow> bool" where
  "held c tgt p t f \<longleftrightarrow>
     (if restore_predecessor tgt
      then f APPLY_PREVIOUS = None
        \<and> (\<exists>raw. f APPLY_OPERATION = Some raw \<and> operation_of_text c raw = Inr (operation tgt))
        \<and> phase (operation tgt) \<noteq> Accepted
        \<and> p = previous_accepted (operation tgt) \<and> t = previous_attribution (operation tgt)
      else f APPLY_OPERATION = None
        \<and> (\<exists>raw. f APPLY_PREVIOUS = Some raw \<and> desired_of_toml c raw = Inr (accepted (operation tgt)))
        \<and> p = f PREVIOUS_ACCEPTED \<and> t = f APPLY_ATTRIBUTION)
     \<and> marker tgt = (if restore_predecessor tgt then APPLY_OPERATION else APPLY_PREVIOUS)"

lemma held_boot:
  "held c tgt p t f \<Longrightarrow> refreshed (boot_state c f) (Some (accepted (operation tgt), p, t))
     \<and> refreshed (Some (accepted (operation tgt), p, t)) (boot_state c f)"
  by (auto simp: held_def boot_state_def desired_file_def split: if_splits)

lemma held_desired: "held c tgt p t f \<Longrightarrow> held c tgt p t (f(DESIRED := v))"
  by (simp add: held_def)

lemma held_predecessor:
  "restore_predecessor tgt \<Longrightarrow> q \<in> {PREVIOUS_ACCEPTED, APPLY_ATTRIBUTION} \<Longrightarrow> held c tgt p t f \<Longrightarrow>
   held c tgt p t (f(q := v))"
  by (auto simp: held_def)

lemma held_single: "held c tgt p t f \<Longrightarrow> single_journal f"
  by (auto simp: held_def single_journal_def split: if_splits)

lemma read_recovery_target_run:
  assumes run: "run_state (read_recovery_target E) w = (Inr tgt, w')" and single: "single_journal (jcore w)"
  shows "\<exists>p t. held (codec E) tgt p t (jcore w)"
proof (cases "files w APPLY_OPERATION")
  case (Some raw)
  obtain r w1 where s: "run_state (read_file E APPLY_OPERATION) w = (r, w1)" by fastforce
  have "r = Inr (Some raw)"
    using run s read_file_run(2) [OF s] Some
    by (cases r) (auto simp: read_recovery_target_def file_exists_def run_tryE run_map_err)
  then have "\<exists>op. operation_of_text (codec E) raw = Inr op \<and> phase op \<noteq> Accepted
      \<and> tgt = \<lparr> operation = op, marker = APPLY_OPERATION, restore_predecessor = True \<rparr>"
    using run s Some
    by (auto simp: read_recovery_target_def file_exists_def run_tryE run_map_err ok_or_def split: sum.splits if_splits)
  then show ?thesis using Some single by (auto simp: held_def single_journal_def core_at)
next
  case None
  obtain r w1 where s: "run_state (read_text E APPLY_PREVIOUS) w = (r, w1)" by fastforce
  have r: "r = Inr v \<Longrightarrow> files w APPLY_PREVIOUS = v" for v
    using s read_file_run(2) [of E APPLY_PREVIOUS w]
    by (auto simp: read_text_def run_tryE split: prod.splits sum.splits option.splits if_splits)
  have "\<exists>raw st. r = Inr (Some raw) \<and> desired_of_toml (codec E) raw = Inr st
      \<and> tgt = \<lparr> operation = legacy_operation st, marker = APPLY_PREVIOUS, restore_predecessor = False \<rparr>"
    using run s None
    by (auto simp: read_recovery_target_def file_exists_def run_tryE run_map_err ok_or_def split: sum.splits option.splits)
  then show ?thesis using None r by (auto simp: held_def core_at legacy_operation_def)
qed

section \<open>The recovery\<close>

text \<open>At every moment: the state \<open>x\<close> to recover, or what \<open>H\<close> says of the time before.\<close>

definition recovering ::
    "(files \<Rightarrow> bool) \<Rightarrow> durable_state option \<Rightarrow> codecs \<Rightarrow> files \<Rightarrow> bool" where
  "recovering H x c f \<longleftrightarrow> H f \<or> refreshed x (boot_state c f)"

definition recoverable :: "durable_state option \<Rightarrow> codecs \<Rightarrow> files \<Rightarrow> bool" where
  "recoverable x c f \<longleftrightarrow> single_journal f \<and> refreshed x (boot_state c f)"

text \<open>What a recovery that ended in \<open>r\<close> leaves.\<close>

definition recovered :: "(files \<Rightarrow> bool) \<Rightarrow> durable_state option \<Rightarrow> codecs \<Rightarrow> u64 res \<Rightarrow> 'k world \<Rightarrow> bool" where
  "recovered H x c r w \<longleftrightarrow>
     always journal_paths (recovering H x c) w \<and> (is_ok r \<longleftrightarrow> \<not> recovery_required w)
     \<and> recoverable x c (jcore w)
     \<and> (\<forall>n. r = Inr n \<longrightarrow> jcore w APPLY_OPERATION = None \<and> jcore w APPLY_PREVIOUS = None
          \<and> (\<exists>st p t. boot_state c (jcore w) = Some (st, p, t) \<and> revision st = (if n = 0 then 1 else n)))"

lemma held_refreshed:
  assumes "held c tgt p t f" and "refreshed x (Some (accepted (operation tgt), p, t))"
  shows "refreshed x (boot_state c f)"
  using refreshed_trans [OF assms(2) conjunct2 [OF held_boot [OF assms(1)]]] .

lemma held_le: "refreshed x (Some (accepted (operation tgt), p, t)) \<Longrightarrow> held c tgt p t \<le> recoverable x c"
  by (auto simp: recoverable_def intro: held_single held_refreshed)

lemma held_recovering:
  "refreshed x (Some (accepted (operation tgt), p, t)) \<Longrightarrow> held c tgt p t \<le> recovering H x c"
  by (auto simp: recovering_def intro: held_refreshed)

lemma restored_target_boot:
  assumes "held c tgt p t f" and "lawful c" and "toml_of_desired c st = Inr raw"
    and "only_addresses (accepted (operation tgt)) st" and "f DESIRED = Some raw"
    and "f PREVIOUS_ACCEPTED = p" and "f APPLY_ATTRIBUTION = t"
  shows "boot_state c (f(marker tgt := None)) = Some (normal_revision st, p, t)"
    and "refreshed (boot_state c f) (Some (normal_revision st, p, t))"
proof -
  let ?g = "f(marker tgt := None)"
  have "?g APPLY_OPERATION = None \<and> ?g APPLY_PREVIOUS = None" and m: "marker tgt \<in> {APPLY_OPERATION, APPLY_PREVIOUS}"
    using assms(1) unfolding held_def by (auto split: if_splits)
  then have "boot_state c ?g = map_option (\<lambda>st. (st, ?g PREVIOUS_ACCEPTED, ?g APPLY_ATTRIBUTION)) (desired_file c (?g DESIRED))"
    by (simp add: boot_state_def)
  moreover have "?g PREVIOUS_ACCEPTED = p" "?g APPLY_ATTRIBUTION = t" "?g DESIRED = Some raw"
    using m assms(5-7) by auto
  ultimately show "boot_state c (f(marker tgt := None)) = Some (normal_revision st, p, t)"
    using lawful_toml [OF assms(2,3)] by (simp add: desired_file_def)
  have "refreshed (Some (accepted (operation tgt), p, t)) (Some (normal_revision st, p, t))"
    using normal_only_addresses [OF assms(4)] by simp
  with conjunct1 [OF held_boot [OF assms(1)]] show "refreshed (boot_state c f) (Some (normal_revision st, p, t))"
    by (rule refreshed_trans)
qed

lemma finish_recovery_target:
  assumes run: "run_state (finish_recovery E st (marker tgt)) w = (r, w')"
    and at: "at_files (recovering H x (codec E)) (held (codec E) tgt p t) True f w"
    and law: "lawful (codec E)" and raw: "toml_of_desired (codec E) st = Inr raw"
    and st: "only_addresses (accepted (operation tgt)) st" and f: "f DESIRED = Some raw"
    "f PREVIOUS_ACCEPTED = p" "f APPLY_ATTRIBUTION = t"
    and hx: "refreshed x (Some (accepted (operation tgt), p, t))"
  shows "recovered H x (codec E) (case r of Inl e \<Rightarrow> Inl e | Inr _ \<Rightarrow> Inr (revision st)) w'"
proof -
  let ?c = "codec E" and ?G = "recovering H x (codec E)"
  have w: "held ?c tgt p t f" "jcore w = f" "always journal_paths ?G w" "recovery_required w"
    using at by (auto simp: at_files_def under_def)
  obtain d w1 where s1: "run_state (durable_remove E (marker tgt)) w = (d, w1)" by fastforce
  obtain g w2 where s2: "run_state (require_recovery_guard E) w1 = (g, w2)" by fastforce
  obtain o1 w3 where s3: "run_state (reopen_restored_forwarding E st) w1 = (o1, w3)" by fastforce
  note b = restored_target_boot [OF w(1) law raw st f]
  have m: "marker tgt \<in> journal_paths" using w(1) by (auto simp: held_def)
  have x: "refreshed x (boot_state ?c f)" by (rule held_refreshed [OF w(1) hx])
  then have "?G ((jcore w)(marker tgt := None))"
    using b w(2) refreshed_trans by (auto simp: recovering_def)
  from dur.delete_step [OF s1 m w(3) this] have a1: "always journal_paths ?G w1"
      "jcore w1 \<in> {f, f(marker tgt := None)}" "d = Inr () \<longrightarrow> jcore w1 = f(marker tgt := None)" "recovery_required w1"
    using w by auto
  have "single_journal (jcore w1)"
    using a1(2) w(1) held_single [OF w(1)] by (auto simp: single_journal_def held_def split: if_splits)
  moreover have "refreshed x (boot_state ?c (jcore w1))"
    using a1(2) x b refreshed_trans [OF x] by auto
  ultimately have sj: "recoverable x ?c (jcore w1)" by (simp add: recoverable_def)
  note k2 = dur.kept_step [OF keepsD [OF kept_require_recovery_guard s2] a1(1)]
  note k3 = dur.kept_step [OF keepsD [OF kept_reopen_restored_forwarding s3] a1(1)]
  show ?thesis
  proof (cases d)
    case (Inl e)
    then have "w' = w2 \<and> (\<exists>m. r = Inl m)" using run s1 s2 by (auto simp: finish_recovery_def)
    then show ?thesis
      using k2 sj require_recovery_guard_flag [OF s2] by (auto simp: recovered_def)
  next
    case (Inr u)
    then have e: "w' = w3" "r = o1" using run s1 s3 by (auto simp: finish_recovery_def)
    have j: "jcore w3 = f(marker tgt := None)" using k3 a1(3) Inr by simp
    have none: "jcore w3 APPLY_OPERATION = None" "jcore w3 APPLY_PREVIOUS = None"
      using j w(1) by (auto simp: held_def split: if_splits)
    show ?thesis
      using e k3 sj reopen_restored_forwarding_flag [OF s3] none b(1) j
      by (cases o1) (auto simp: recovered_def normal_revision_def)
  qed
qed

section \<open>The whole recovery\<close>

abbreviation failed_recovery :: "(files \<Rightarrow> bool) \<Rightarrow> durable_state option \<Rightarrow> codecs \<Rightarrow> 'k world \<Rightarrow> bool" where
  "failed_recovery H x c \<equiv> recovered H x c (Inl [])"

lemma recovered_error: "recovered H x c (Inl e) w \<Longrightarrow> failed_recovery H x c w"
  by (simp add: recovered_def)

lemma under_failed:
  "K \<le> recoverable x c \<Longrightarrow> under (recovering H x c) K True w \<Longrightarrow> failed_recovery H x c w"
  by (auto simp: under_def recovered_def le_fun_def)

lemma triple_seq_okE:
  assumes "\<And>w r w'. P w \<Longrightarrow> run_state m w = (r, w') \<Longrightarrow> (case r of Inl e \<Rightarrow> F w' | Inr _ \<Rightarrow> Q a w')"
  shows "triple P (seqE m (okE a)) Q F"
  unfolding triple_def run_tryE
proof (intro allI impI)
  fix w assume "P w"
  moreover obtain r w' where "run_state m w = (r, w')" by fastforce
  ultimately show "case (case run_state m w of (Inl e, w') \<Rightarrow> (Inl e, w') | (Inr _, w') \<Rightarrow> run_state (okE a) w') of
      (Inl e, w') \<Rightarrow> F w' | (Inr b, w') \<Rightarrow> Q b w'"
    using assms by (cases r) fastforce+
qed

lemma triple_finish:
  assumes "lawful (codec E)" and "toml_of_desired (codec E) st = Inr raw"
    and "only_addresses (accepted (operation tgt)) st" and "f DESIRED = Some raw"
    and "f PREVIOUS_ACCEPTED = p" and "f APPLY_ATTRIBUTION = t"
    and hx: "refreshed x (Some (accepted (operation tgt), p, t))"
  shows "triple (at_files (recovering H x (codec E)) (held (codec E) tgt p t) True f)
    (seqE (finish_recovery E st (marker tgt)) (okE (revision st)))
    (\<lambda>n. recovered H x (codec E) (Inr n)) (failed_recovery H x (codec E))"
proof (rule triple_seq_okE)
  fix w r w'
  assume "at_files (recovering H x (codec E)) (held (codec E) tgt p t) True f w"
    and "run_state (finish_recovery E st (marker tgt)) w = (r, w')"
  from finish_recovery_target [OF this(2,1) assms]
  show "case r of Inl e \<Rightarrow> failed_recovery H x (codec E) w' | Inr _ \<Rightarrow> recovered H x (codec E) (Inr (revision st)) w'"
    by (cases r) (auto intro: recovered_error)
qed

lemma triple_at_recovery:
  assumes "keeps (same_on journal_paths) m" and "K \<le> recoverable x c"
  shows "triple (at_files (recovering H x c) K True f) m (\<lambda>_. at_files (recovering H x c) K True f) (failed_recovery H x c)"
  by (rule triple_weaken [OF triple_at_same [OF assms(1)]]) (auto intro: under_failed [OF assms(2)])

text \<open>The services come up, and the journal goes.\<close>

lemma triple_services:
  assumes "lawful (codec E)" and "toml_of_desired (codec E) st = Inr raw"
    and "only_addresses (accepted (operation tgt)) st" and "f DESIRED = Some raw"
    and "f PREVIOUS_ACCEPTED = p" and "f APPLY_ATTRIBUTION = t"
    and hx: "refreshed x (Some (accepted (operation tgt), p, t))"
  shows "triple (at_files (recovering H x (codec E)) (held (codec E) tgt p t) True f) (resume_services E tgt st)
    (\<lambda>n. recovered H x (codec E) (Inr n)) (failed_recovery H x (codec E))"
  unfolding resume_services_def
  apply (rule triple_tryE [OF triple_at_recovery [OF same_journal(3) held_le [OF hx]]])
  apply (rule triple_tryE [OF triple_at_recovery [OF same.keeps_ret held_le [OF hx]]])
  apply (rule triple_tryE [OF triple_at_recovery [OF same_wait_lan_services held_le [OF hx]]])
  by (rule triple_finish) (fact assms)+

lemma triple_apply_unit:
  "triple (at_files G K b f) (apply_unit E st)
     (\<lambda>st' w. only_addresses st st' \<and> at_files G K b f w) (under G K b)"
proof -
  have "triple (at_files G K b f) (apply_unit E st) (\<lambda>_. at_files G K b f) (under G K b)"
    by (intro triple_at_same same_journal)
  moreover have "only_addresses st st'" if "run_state (apply_unit E st) w = (Inr st', w')" for w st' w'
    using that apply_state_only_addresses [of E st w]
    by (auto simp: apply_unit_def split: prod.splits sum.splits)
  ultimately show ?thesis
    unfolding triple_def by (fastforce split: prod.splits sum.splits)
qed

lemma triple_fact: "(A \<Longrightarrow> triple P m Q F) \<Longrightarrow> triple (\<lambda>w. A \<and> P w) m Q F"
  by (auto simp: triple_def)

text \<open>The Accepted state, the predecessor and the attribution go back where the target has them.\<close>

lemma triple_predecessor:
  assumes "held c tgt p t f" and "held c tgt p t \<le> G"
  shows "triple (at_files G (held c tgt p t) b f)
    (if restore_predecessor tgt
     then seqE (restore_file E PREVIOUS_ACCEPTED (previous_accepted (operation tgt)))
               (restore_attribution E (previous_attribution (operation tgt)))
     else okE ())
    (\<lambda>_. at_files G (held c tgt p t) b (f(PREVIOUS_ACCEPTED := p, APPLY_ATTRIBUTION := t)))
    (under G (held c tgt p t) b)"
proof (cases "restore_predecessor tgt")
  case True
  then have "insensitive (held c tgt p t) PREVIOUS_ACCEPTED" "insensitive (held c tgt p t) APPLY_ATTRIBUTION"
    by (auto simp: insensitive_def held_predecessor)
  then have "triple (at_files G (held c tgt p t) b f)
      (seqE (restore_file E PREVIOUS_ACCEPTED p) (restore_file E APPLY_ATTRIBUTION t))
      (\<lambda>_. at_files G (held c tgt p t) b (f(PREVIOUS_ACCEPTED := p, APPLY_ATTRIBUTION := t)))
      (under G (held c tgt p t) b)"
    by (intro triple_tryE [OF triple_restore_file] triple_restore_file assms(2))
  then show ?thesis
    using True assms(1) by (simp add: held_def restore_attribution_def)
next
  case False
  then have "f(PREVIOUS_ACCEPTED := p, APPLY_ATTRIBUTION := t) = f" using assms(1) by (auto simp: held_def)
  then show ?thesis using False by (simp add: triple_ok)
qed

lemma triple_kept:
  assumes "held (codec E) tgt p t f" and "held (codec E) tgt p t \<le> G"
  shows "triple (at_files G (held (codec E) tgt p t) b f) (restore_kept E tgt st)
    (\<lambda>_ w. \<exists>raw. toml_of_desired (codec E) st = Inr raw \<and> at_files G (held (codec E) tgt p t) b
       (f(DESIRED := Some raw, PREVIOUS_ACCEPTED := p, APPLY_ATTRIBUTION := t)) w)
    (under G (held (codec E) tgt p t) b)"
  unfolding restore_kept_def persist_def
proof (rule triple_tryE [OF triple_persist_at triple_ex])
  show "insensitive (held (codec E) tgt p t) DESIRED" by (simp add: insensitive_def held_desired)
  fix raw assume raw: "toml_of_desired (codec E) st = Inr raw"
  show "triple (at_files G (held (codec E) tgt p t) b (f(DESIRED := Some raw)))
      (if restore_predecessor tgt
       then seqE (restore_file E PREVIOUS_ACCEPTED (previous_accepted (operation tgt)))
                 (restore_attribution E (previous_attribution (operation tgt)))
       else okE ())
      (\<lambda>_ w. \<exists>raw. toml_of_desired (codec E) st = Inr raw \<and> at_files G (held (codec E) tgt p t) b
         (f(DESIRED := Some raw, PREVIOUS_ACCEPTED := p, APPLY_ATTRIBUTION := t)) w)
      (under G (held (codec E) tgt p t) b)"
    by (rule triple_weaken [OF triple_predecessor [OF held_desired [OF assms(1)] assms(2)]]) (use raw in auto)
qed (rule assms(2))

lemma triple_tail:
  assumes "lawful (codec E)" and "held (codec E) tgt p t f" and hx: "refreshed x (Some (accepted (operation tgt), p, t))"
    and st: "only_addresses (accepted (operation tgt)) st"
  shows "triple (at_files (recovering H x (codec E)) (held (codec E) tgt p t) True f)
    (seqE (restore_kept E tgt st) (resume_services E tgt st))
    (\<lambda>n. recovered H x (codec E) (Inr n)) (failed_recovery H x (codec E))"
proof (rule triple_tryE)
  show "triple (at_files (recovering H x (codec E)) (held (codec E) tgt p t) True f) (restore_kept E tgt st)
      (\<lambda>_ w. \<exists>raw. toml_of_desired (codec E) st = Inr raw
        \<and> at_files (recovering H x (codec E)) (held (codec E) tgt p t) True
            (f(DESIRED := Some raw, PREVIOUS_ACCEPTED := p, APPLY_ATTRIBUTION := t)) w) (failed_recovery H x (codec E))"
    by (rule triple_weaken [OF triple_kept [OF assms(2) held_recovering [OF hx]]]) (auto intro: under_failed [OF held_le [OF hx]])
  show "triple (\<lambda>w. \<exists>raw. toml_of_desired (codec E) st = Inr raw
        \<and> at_files (recovering H x (codec E)) (held (codec E) tgt p t) True
            (f(DESIRED := Some raw, PREVIOUS_ACCEPTED := p, APPLY_ATTRIBUTION := t)) w)
     (resume_services E tgt st) (\<lambda>n. recovered H x (codec E) (Inr n)) (failed_recovery H x (codec E))"
    by (intro triple_ex triple_services assms(1) st hx) simp_all
qed

lemma triple_restore:
  assumes "lawful (codec E)" and "held (codec E) tgt p t f" and hx: "refreshed x (Some (accepted (operation tgt), p, t))"
  shows "triple (at_files (recovering H x (codec E)) (held (codec E) tgt p t) True f)
    (tryE (set_lan_services_ready E False) (\<lambda>_.
     tryE (apply_unit E (accepted (operation tgt))) (\<lambda>previous.
     seqE (case current of Some s \<Rightarrow> remove_stale_routes E s previous | None \<Rightarrow> okE ())
    (seqE (restore_kept E tgt previous) (resume_services E tgt previous)))))
    (\<lambda>n. recovered H x (codec E) (Inr n)) (failed_recovery H x (codec E))"
proof (rule triple_tryE [OF triple_at_recovery [OF same_journal(3) held_le [OF hx]]])
  let ?at = "at_files (recovering H x (codec E)) (held (codec E) tgt p t) True f"
  have unit: "triple ?at (apply_unit E (accepted (operation tgt)))
      (\<lambda>st w. only_addresses (accepted (operation tgt)) st \<and> ?at w) (failed_recovery H x (codec E))"
    by (rule triple_weaken [OF triple_apply_unit]) (auto intro: under_failed [OF held_le [OF hx]])
  show "triple ?at (tryE (apply_unit E (accepted (operation tgt))) (\<lambda>previous.
     seqE (case current of Some s \<Rightarrow> remove_stale_routes E s previous | None \<Rightarrow> okE ())
    (seqE (restore_kept E tgt previous) (resume_services E tgt previous))))
    (\<lambda>n. recovered H x (codec E) (Inr n)) (failed_recovery H x (codec E))"
  proof (rule triple_tryE [OF unit], rule triple_fact)
    fix st assume st: "only_addresses (accepted (operation tgt)) st"
    have k: "keeps (same_on journal_paths) (case current of Some s \<Rightarrow> remove_stale_routes E s st | None \<Rightarrow> okE ())"
      by (intro same.keeps_rules same_remove_stale_routes)
    show "triple ?at (seqE (case current of Some s \<Rightarrow> remove_stale_routes E s st | None \<Rightarrow> okE ())
      (seqE (restore_kept E tgt st) (resume_services E tgt st)))
      (\<lambda>n. recovered H x (codec E) (Inr n)) (failed_recovery H x (codec E))"
      by (rule triple_tryE [OF triple_at_recovery [OF k held_le [OF hx]]]) (rule triple_tail [OF assms st])
  qed
qed

lemma triple_run:
  assumes "triple P m (\<lambda>a. Q (Inr a)) F" and "P w" and "run_state m w = (r, w')" and "\<And>e. F w' \<Longrightarrow> Q (Inl e) w'"
  shows "Q r w'"
  using assms triple_run_ok [OF assms(1,2)] triple_run_err [OF assms(1,2)] by (cases r) auto

lemma restore_from_target_run:
  assumes run: "run_state (restore_from_target E tgt) w = (r, w')" and law: "lawful (codec E)"
    and held: "held (codec E) tgt p t (jcore w)" and flag: "recovery_required w"
    and old: "always journal_paths (recovering H x (codec E)) w" and x: "refreshed x (boot_state (codec E) (jcore w))"
  shows "recovered H x (codec E) r w'"
proof -
  let ?c = "codec E"
  have hx: "refreshed x (Some (accepted (operation tgt), p, t))"
    using refreshed_trans [OF x conjunct1 [OF held_boot [OF held]]] .
  define m where "m = (\<lambda>current. tryE (set_lan_services_ready E False) (\<lambda>_.
     tryE (apply_unit E (accepted (operation tgt))) (\<lambda>previous.
     seqE (case current of Some s \<Rightarrow> remove_stale_routes E s previous | None \<Rightarrow> okE ())
    (seqE (restore_kept E tgt previous) (resume_services E tgt previous)))))"
  define look where "look = (case proposed (operation tgt) of
                   Some st \<Rightarrow> ret (Some st)
                 | None \<Rightarrow> do { r \<leftarrow> accepted_desired E; ret (ok_opt r) })"
  obtain current w1 where s1: "run_state look w = (current, w1)" by fastforce
  have m: "run_state (m current) w1 = (r, w')"
    using run s1 by (simp add: restore_from_target_def m_def look_def)
  have "keeps (same_on journal_paths) look"
    unfolding look_def by (intro same.keeps_rules same_accepted_desired)
  then have at: "at_files (recovering H x ?c) (held ?c tgt p t) True (jcore w) w1"
    using keepsD [OF _ s1, of "same_on journal_paths"] dur.kept_step [of w w1 "recovering H x ?c"] old held flag
    by (auto simp: at_files_def under_def same_on_def)
  have "triple (at_files (recovering H x ?c) (held ?c tgt p t) True (jcore w)) (m current)
      (\<lambda>n. recovered H x ?c (Inr n)) (failed_recovery H x ?c)"
    unfolding m_def by (rule triple_restore [OF law held hx])
  from triple_run [where Q = "recovered H x ?c", OF this at m] show ?thesis
    by (simp add: recovered_def)
qed

lemma recover_interrupted_apply_run:
  assumes run: "run_state (recover_interrupted_apply E) w = (r, w')" and law: "lawful (codec E)"
    and single: "recoverable x (codec E) (jcore w)" and old: "always journal_paths (recovering H x (codec E)) w"
  shows "recovered H x (codec E) r w'"
proof (cases "recovery_required w \<and> files w APPLY_OPERATION = None \<and> files w APPLY_PREVIOUS = None")
  case True
  obtain a w1 where s1: "run_state (accepted_desired E) w = (a, w1)" by fastforce
  have k1: "jcore w1 = jcore w" "recovery_required w1" "always journal_paths (recovering H x (codec E)) w1"
    using keepsD [OF same_accepted_desired s1, of journal_paths] dur.kept_step [OF _ old, of w1] True
    by (auto simp: same_on_def)
  show ?thesis
  proof (cases a)
    case (Inl e)
    then show ?thesis
      using run s1 True k1 single by (auto simp: recover_interrupted_apply_def file_exists_def run_tryE recovered_def)
  next
    case (Inr st)
    obtain o1 w2 where s2: "run_state (reopen_restored_forwarding E st) w1 = (o1, w2)" by fastforce
    note k2 = dur.kept_step [OF keepsD [OF kept_reopen_restored_forwarding s2] k1(3)]
    note acc = accepted_desired_run [OF s1 [unfolded Inr]]
    have "boot_state (codec E) (jcore w) = Some (st, jcore w PREVIOUS_ACCEPTED, jcore w APPLY_ATTRIBUTION)"
      using True acc(1) by (simp add: boot_state_def core_at)
    then show ?thesis
      using run s1 s2 True Inr k1 k2 single acc(2) reopen_restored_forwarding_flag [OF s2]
      by (cases o1) (auto simp: recover_interrupted_apply_def file_exists_def run_tryE recovered_def core_at)
  qed
next
  case False
  obtain g w1 where s1: "run_state (require_recovery_guard E) w = (g, w1)" by fastforce
  obtain q w2 where s2: "run_state (read_recovery_target E) w1 = (q, w2)" by fastforce
  have k1: "jcore w1 = jcore w" "recovery_required w1" "always journal_paths (recovering H x (codec E)) w1"
    using dur.kept_step [OF keepsD [OF kept_require_recovery_guard s1] old] require_recovery_guard_flag [OF s1] by auto
  have k2: "jcore w2 = jcore w" "recovery_required w2" "always journal_paths (recovering H x (codec E)) w2"
    using keepsD [OF same_read_recovery_target s2, of journal_paths] dur.kept_step [OF _ k1(3), of w2] k1
    by (auto simp: same_on_def)
  have run2: "run_state (seqE (require_recovery_guard E)
          (tryE (read_recovery_target E) (\<lambda>target. restore_from_target E target))) w = (r, w')"
    using run False by (auto simp: recover_interrupted_apply_def file_exists_def)
  show ?thesis
  proof (cases "\<exists>u tgt. g = Inr u \<and> q = Inr tgt")
    case True
    then obtain tgt where tgt: "q = Inr tgt" "run_state (restore_from_target E tgt) w2 = (r, w')"
      using run2 s1 s2 by (auto simp: run_tryE)
    obtain p t where "held (codec E) tgt p t (jcore w1)"
      using read_recovery_target_run [OF s2 [unfolded tgt(1)]] single k1 by (auto simp: recoverable_def)
    then show ?thesis
      using restore_from_target_run [OF tgt(2) law _ k2(2,3)] k1 k2 single unfolding recoverable_def by metis
  next
    case False
    then have "(\<exists>e. r = Inl e) \<and> w' \<in> {w1, w2}"
      using run2 s1 s2 by (cases g; cases q) (auto simp: run_tryE)
    then show ?thesis using k1 k2 single by (auto simp: recovered_def)
  qed
qed

section \<open>The property\<close>

lemma jcore_single: "single_journal (jcore w) \<longleftrightarrow> single_journal (files w)"
  by (simp add: single_journal_def core_at)

lemma recovering_trail:
  assumes "trail w = []"
  shows "always journal_paths (recovering (\<lambda>_. False) (boot_state c (files w)) c) w"
  using assms by (simp add: always_def recovering_def boot_state_core)

lemma recovered_trail:
  assumes "recovered (\<lambda>_. False) x c r w"
  shows "\<forall>f \<in> set (files w # trail w). refreshed x (boot_state c f)"
  using assms by (auto simp: recovered_def always_def recovering_def core_def)


end
