(* ===== verification/Confirm_Properties.thy ===== *)
theory Confirm_Properties
  imports Confirm Recovery Apply_Properties
begin

text \<open>
  Confirming a pending revision (\<open>confirm_apply\<close>) over \<open>boot_state\<close>: the commit is one durable
  step, it needs the revision, the token and an administrator before the deadline, and a
  failure recovers the Accepted state.
\<close>

section \<open>The commit\<close>

definition pending_target :: "apply_operation \<Rightarrow> recovery_target" where
  "pending_target op = \<lparr> operation = op, marker = APPLY_OPERATION, restore_predecessor = True \<rparr>"

abbreviation pending_journal :: "codecs \<Rightarrow> apply_operation \<Rightarrow> files \<Rightarrow> bool" where
  "pending_journal c op \<equiv> held c (pending_target op) (previous_accepted op) (previous_attribution op)"

text \<open>The durable state of a confirmed revision.\<close>

definition confirmed ::
    "codecs \<Rightarrow> apply_operation \<Rightarrow> desired_state \<Rightarrow> principal \<Rightarrow> durable_state option \<Rightarrow> bool" where
  "confirmed c op st who y \<longleftrightarrow>
     (\<exists>ta tt receipts. y = Some (normal_revision st, Some ta, Some tt) \<and> toml_of_desired c (accepted op) = Inr ta
        \<and> accepted_draft_receipts c (previous_attribution op) (revision (accepted op)) (op_applying op)
            (op_draft_version op) (revision st) = Inr receipts
        \<and> text_of_attribution c \<lparr> attr_revision = revision st, attr_applying = op_applying op,
             attr_confirming = Some who, attr_draft_version = None, draft_receipts = receipts \<rparr> = Inr tt)"

lemma confirmed_unique: "confirmed c op st who x \<Longrightarrow> confirmed c op st who y \<Longrightarrow> x = y"
  by (auto simp: confirmed_def)

definition committing ::
    "durable_state option \<Rightarrow> codecs \<Rightarrow> apply_operation \<Rightarrow> desired_state \<Rightarrow> principal \<Rightarrow> files \<Rightarrow> bool" where
  "committing x c op st who = recovering (\<lambda>f. confirmed c op st who (boot_state c f)) x c"

text \<open>The journal says Accepted: the commit is made, with or without its journal.\<close>

definition made :: "codecs \<Rightarrow> apply_operation \<Rightarrow> desired_state \<Rightarrow> principal \<Rightarrow> files \<Rightarrow> bool" where
  "made c op st who f \<longleftrightarrow>
     (\<exists>raw j. f APPLY_OPERATION = Some raw \<and> operation_of_text c raw = Inr j \<and> phase j = Accepted)
     \<and> f APPLY_PREVIOUS = None
     \<and> confirmed c op st who (boot_state c f) \<and> confirmed c op st who (boot_state c (f(APPLY_OPERATION := None)))"

definition half_made ::
    "durable_state option \<Rightarrow> codecs \<Rightarrow> apply_operation \<Rightarrow> desired_state \<Rightarrow> principal \<Rightarrow> bool \<Rightarrow> 'k world \<Rightarrow> bool" where
  "half_made x c op st who b w \<longleftrightarrow>
     always journal_paths (committing x c op st who) w \<and> recovery_required w = b
     \<and> (pending_journal c op (jcore w) \<or> made c op st who (jcore w))"

lemma pending_insensitive:
  assumes "p \<in> {DESIRED, PREVIOUS_ACCEPTED, APPLY_ATTRIBUTION}"
  shows "insensitive (pending_journal c op) p"
  using assms by (auto simp: insensitive_def pending_target_def intro: held_desired held_predecessor)

lemma under_half:
  "under (committing x c op st who) (pending_journal c op) b w \<Longrightarrow> half_made x c op st who b w"
  by (simp add: under_def half_made_def)

lemma written_commit_made:
  assumes "lawful c" and "pending_journal c op f" and "toml_of_desired c st = Inr tb"
    and "toml_of_desired c (accepted op) = Inr ta"
    and "accepted_draft_receipts c (previous_attribution op) (revision (accepted op)) (op_applying op)
            (op_draft_version op) (revision st) = Inr receipts"
    and "text_of_attribution c \<lparr> attr_revision = revision st, attr_applying = op_applying op,
             attr_confirming = Some who, attr_draft_version = None, draft_receipts = receipts \<rparr> = Inr tt"
    and "text_of_operation c (accepted_journal_of op) = Inr raw"
    and g: "g = f(APPLY_ATTRIBUTION := Some tt, DESIRED := Some tb, PREVIOUS_ACCEPTED := Some ta, APPLY_OPERATION := Some raw)"
  shows "made c op st who g"
proof -
  have j: "operation_of_text c raw = Inr (accepted_journal_of op)" "phase (accepted_journal_of op) = Accepted"
    using lawful_operation [OF assms(1,7)] by (simp_all add: accepted_journal_of_def)
  have prev: "g APPLY_PREVIOUS = None" using assms(2) g by (simp add: held_def pending_target_def)
  have "boot_state c (g(APPLY_OPERATION := v)) = Some (normal_revision st, Some ta, Some tt)" if "accepted_journal c v" for v
    using accepted_journal_boot [of c "g(APPLY_OPERATION := v)"] that prev g lawful_toml [OF assms(1,3)]
    by (simp add: desired_file_def)
  from this [of "Some raw"] this [of None] have
    "boot_state c g = Some (normal_revision st, Some ta, Some tt)"
    "boot_state c (g(APPLY_OPERATION := None)) = Some (normal_revision st, Some ta, Some tt)"
    using j g by (auto simp: accepted_journal_def)
  then show ?thesis
    using assms j prev g by (auto simp: made_def confirmed_def)
qed

lemma triple_write_attribution:
  assumes "insensitive K APPLY_ATTRIBUTION" and "K \<le> G"
  shows "triple (at_files G K b f) (write_attribution E a)
    (\<lambda>_ w. \<exists>tt. text_of_attribution (codec E) a = Inr tt \<and> at_files G K b (f(APPLY_ATTRIBUTION := Some tt)) w) (under G K b)"
proof (cases "text_of_attribution (codec E) a")
  case (Inl e)
  then show ?thesis by (simp add: write_attribution_def triple_at_err)
next
  case (Inr tt)
  then show ?thesis using triple_put [OF assms] by (simp add: write_attribution_def)
qed

lemma triple_publish_accepted:
  assumes "made c op st who (f(APPLY_OPERATION := Some raw))"
  shows "triple (at_files (committing x c op st who) (pending_journal c op) b f) (durable_write E APPLY_OPERATION raw)
    (\<lambda>_ w. half_made x c op st who b w \<and> made c op st who (jcore w)) (half_made x c op st who b)"
proof -
  have "half_made x c op st who b w' \<and> (r = Inr () \<longrightarrow> made c op st who (jcore w'))"
    if "at_files (committing x c op st who) (pending_journal c op) b f w"
      and "run_state (durable_write E APPLY_OPERATION raw) w = (r, w')" for r w w'
  proof -
    have w: "always journal_paths (committing x c op st who) w" "jcore w = f" "pending_journal c op f"
        "recovery_required w = b" using that(1) by (auto simp: at_files_def under_def)
    have "committing x c op st who ((jcore w)(APPLY_OPERATION := Some raw))"
      using assms w(2) by (simp add: committing_def recovering_def made_def)
    from dur.put_step [OF that(2) in_journal(4) w(1) this] show ?thesis
      using w assms by (auto simp: half_made_def)
  qed
  then show ?thesis unfolding triple_def by (fastforce split: prod.splits sum.splits)
qed

lemma pending_le:
  assumes "refreshed x (Some (accepted op, previous_accepted op, previous_attribution op))"
  shows "pending_journal c op \<le> committing x c op st who"
  unfolding committing_def by (rule held_recovering) (simp add: pending_target_def assms)

lemma triple_half:
  assumes "triple P m Q (under (committing x c op st who) (pending_journal c op) b)"
  shows "triple P m Q (half_made x c op st who b)"
  by (rule triple_weaken [OF assms]) (auto intro: under_half)

lemma triple_commit:
  assumes "lawful (codec E)" and "pending_journal (codec E) op f"
    and x: "refreshed x (Some (accepted op, previous_accepted op, previous_attribution op))"
  shows "triple (at_files (committing x (codec E) op st who) (pending_journal (codec E) op) b f)
    (commit_confirmed E op st who)
    (\<lambda>_ w. half_made x (codec E) op st who b w \<and> made (codec E) op st who (jcore w))
    (half_made x (codec E) op st who b)"
proof -
  let ?c = "codec E"
  let ?G = "committing x ?c op st who" and ?K = "pending_journal ?c op"
  note le = pending_le [OF x, of ?c st who]
  have err: "triple (at_files ?G ?K b g) (errE e) Q (half_made x ?c op st who b)"
    for g e and Q :: "unit \<Rightarrow> 'a world \<Rightarrow> bool"
    by (rule triple_half [OF triple_at_err])
  show ?thesis
  proof (cases "accepted_draft_receipts ?c (previous_attribution op) (revision (accepted op)) (op_applying op)
            (op_draft_version op) (revision st)")
    case (Inl e)
    then show ?thesis using err by (simp add: commit_confirmed_def tryE_def)
  next
    case receipts: (Inr receipts)
    show ?thesis
      unfolding commit_confirmed_def receipts tryE_okE
    proof (rule triple_tryE [OF triple_half [OF triple_write_attribution [OF pending_insensitive le]] triple_ex], simp,
        unfold persist_def,
        rule triple_tryE [OF triple_half [OF triple_persist_at [OF pending_insensitive le]] triple_ex], simp,
        rule triple_tryE [OF triple_half [OF triple_persist_at [OF pending_insensitive le]] triple_ex], simp)
      fix tt tb ta
      assume texts: "text_of_attribution ?c \<lparr> attr_revision = revision st, attr_applying = op_applying op,
             attr_confirming = Some who, attr_draft_version = None, draft_receipts = receipts \<rparr> = Inr tt"
        "toml_of_desired ?c st = Inr tb" "toml_of_desired ?c (accepted op) = Inr ta"
      let ?f = "f(APPLY_ATTRIBUTION := Some tt, DESIRED := Some tb, PREVIOUS_ACCEPTED := Some ta)"
      show "triple (at_files ?G ?K b ?f)
         (tryE (liftE (case text_of_operation ?c (accepted_journal_of op) of
                    Inl e \<Rightarrow> Inl (''encode accepted Apply: '' @ e)
                  | Inr raw \<Rightarrow> Inr raw)) (\<lambda>raw. durable_write E APPLY_OPERATION raw))
         (\<lambda>_ w. half_made x ?c op st who b w \<and> made ?c op st who (jcore w)) (half_made x ?c op st who b)"
      proof (cases "text_of_operation ?c (accepted_journal_of op)")
        case (Inl e)
        then show ?thesis using err by (simp add: tryE_def)
      next
        case (Inr raw)
        have "made ?c op st who (?f(APPLY_OPERATION := Some raw))"
          by (rule written_commit_made [OF assms(1,2) texts(2,3) receipts texts(1) Inr refl])
        from triple_publish_accepted [OF this] show ?thesis using Inr by (simp add: tryE_okE)
      qed
    qed
  qed
qed

section \<open>The handler\<close>

lemma recover_made:
  assumes run: "run_state (recover_interrupted_apply E) w = (r, w')" and m: "made (codec E) op st who (jcore w)"
  shows "\<not> is_ok r"
proof -
  obtain raw j where j: "files w APPLY_OPERATION = Some raw" "operation_of_text (codec E) raw = Inr j" "phase j = Accepted"
    using m by (auto simp: made_def core_at)
  obtain g w1 where s1: "run_state (require_recovery_guard E) w = (g, w1)" by fastforce
  obtain q w2 where s2: "run_state (read_recovery_target E) w1 = (q, w2)" by fastforce
  have k: "jcore w1 = jcore w"
    using kept_run(1) [OF kept_require_recovery_guard s1] .
  have q: "\<exists>e. q = Inl e"
  proof (cases q)
    case (Inr tgt)
    have "single_journal (jcore w1)" using m k by (simp add: made_def single_journal_def)
    from read_recovery_target_run [OF s2 [unfolded Inr] this] have False
      using j k by (auto simp: held_def core_at split: if_splits)
    then show ?thesis ..
  qed simp
  then show ?thesis
    using run s1 s2 j(1)
    by (cases g) (auto simp: recover_interrupted_apply_def file_exists_def run_tryE)
qed

lemma confirmed_choice:
  obtains y where "\<And>z. confirmed c op st who z \<Longrightarrow> z = y"
proof (cases "\<exists>z. confirmed c op st who z")
  case True
  then show ?thesis using that confirmed_unique by metis
qed (use that in auto)

text \<open>How the commit of a confirmation ends: made, or recovered.\<close>

definition commit_ended ::
    "durable_state option \<Rightarrow> codecs \<Rightarrow> apply_operation \<Rightarrow> desired_state \<Rightarrow> principal \<Rightarrow> json \<Rightarrow> 'k world \<Rightarrow> bool" where
  "commit_ended x c op st who v w \<longleftrightarrow>
     reply_outcome v = Some ''accepted'' \<and> confirmed c op st who (boot_state c (files w)) \<and> \<not> recovery_required w
     \<or> reply_outcome v = Some ''failed''
       \<and> (reply_restoration v = Some ''restored'' \<and> \<not> recovery_required w \<and> refreshed x (boot_state c (files w))
          \<or> reply_restoration v = Some ''required'' \<and> recovery_required w)"

lemma commit_made:
  assumes run: "run_state (durable_remove E APPLY_OPERATION) w = (r, w')"
    and w: "half_made x (codec E) op st who False w" "made (codec E) op st who (jcore w)"
  shows "always journal_paths (committing x (codec E) op st who) w'"
    and "confirmed (codec E) op st who (boot_state (codec E) (files w'))" and "\<not> recovery_required w'"
proof -
  let ?c = "codec E"
  have G: "committing x ?c op st who ((jcore w)(APPLY_OPERATION := None))"
    using w(2) by (simp add: committing_def recovering_def made_def)
  have a: "always journal_paths (committing x ?c op st who) w" using w(1) by (simp add: half_made_def)
  note d = dur.delete_step [OF run in_journal(4) a G]
  show "always journal_paths (committing x ?c op st who) w'" using d by blast
  show "\<not> recovery_required w'" using d w(1) by (simp add: half_made_def)
  have "confirmed ?c op st who (boot_state ?c (jcore w'))" using d w(2) by (auto simp: made_def)
  then show "confirmed ?c op st who (boot_state ?c (files w'))" by (simp add: boot_state_core)
qed

lemma commit_recovered:
  assumes run: "run_state (recover_interrupted_apply E) w = (r, w')" and law: "lawful (codec E)"
    and w: "half_made x (codec E) op st who b w"
    and x: "refreshed x (Some (accepted op, previous_accepted op, previous_attribution op))"
  shows "\<forall>f \<in> set (files w' # trail w'). refreshed x (boot_state (codec E) f)
      \<or> (\<exists>z. confirmed (codec E) op st who z \<and> refreshed z (boot_state (codec E) f))"
    and "is_ok r \<longleftrightarrow> \<not> recovery_required w'"
    and "is_ok r \<Longrightarrow> refreshed x (boot_state (codec E) (files w'))"
proof -
  let ?c = "codec E" and ?y = "boot_state (codec E) (jcore w)"
  have y: "refreshed x ?y \<or> confirmed ?c op st who ?y" and single: "single_journal (jcore w)"
    and px: "pending_journal ?c op (jcore w) \<Longrightarrow> refreshed x ?y"
    using w held_refreshed [of ?c "pending_target op"] x held_single
    by (fastforce simp: half_made_def made_def pending_target_def single_journal_def)+
  have "recoverable ?y ?c (jcore w)" using single by (simp add: recoverable_def)
  moreover have "always journal_paths (recovering (committing x ?c op st who) ?y ?c) w"
    using w by (auto simp: half_made_def recovering_def elim: always_mono)
  ultimately have rec: "recovered (committing x ?c op st who) ?y ?c r w'"
    using recover_interrupted_apply_run [OF run law] by blast
  have "refreshed x (boot_state ?c f) \<or> (\<exists>z. confirmed ?c op st who z \<and> refreshed z (boot_state ?c f))"
    if "f \<in> set (files w' # trail w')" for f
  proof -
    have "recovering (committing x ?c op st who) ?y ?c (f |` journal_paths)"
      using rec that by (auto simp: recovered_def always_def core_def)
    then show ?thesis
      using y refreshed_trans by (fastforce simp: recovering_def committing_def)
  qed
  then show "\<forall>f \<in> set (files w' # trail w'). refreshed x (boot_state ?c f)
      \<or> (\<exists>z. confirmed ?c op st who z \<and> refreshed z (boot_state ?c f))" by blast
  show "is_ok r \<longleftrightarrow> \<not> recovery_required w'" using rec by (simp add: recovered_def)
  assume "is_ok r"
  then have "pending_journal ?c op (jcore w)" using w recover_made [OF run] by (auto simp: half_made_def)
  from px [OF this] show "refreshed x (boot_state ?c (files w'))"
    using rec refreshed_trans by (auto simp: recovered_def recoverable_def boot_state_core)
qed

lemma confirm_pending_run:
  assumes run: "run_state (confirm_pending E op st who) w = (v, w')" and law: "lawful (codec E)"
    and w: "always journal_paths (recovering (\<lambda>_. False) x (codec E)) w" "pending_journal (codec E) op (jcore w)"
      "\<not> recovery_required w"
    and x: "refreshed x (Some (accepted op, previous_accepted op, previous_attribution op))"
  shows "\<forall>f \<in> set (files w' # trail w'). refreshed x (boot_state (codec E) f)
      \<or> (\<exists>z. confirmed (codec E) op st who z \<and> refreshed z (boot_state (codec E) f))"
    and "commit_ended x (codec E) op st who v w'"
proof -
  let ?c = "codec E"
  have at: "at_files (committing x ?c op st who) (pending_journal ?c op) False (jcore w) w"
    using w by (auto simp: at_files_def under_def committing_def recovering_def elim: always_mono)
  note t = triple_commit [OF law w(2) x, of st who False]
  obtain r w1 where s1: "run_state (commit_confirmed E op st who) w = (r, w1)" by fastforce
  have "(\<forall>f \<in> set (files w' # trail w'). refreshed x (boot_state ?c f)
      \<or> (\<exists>z. confirmed ?c op st who z \<and> refreshed z (boot_state ?c f))) \<and> commit_ended x ?c op st who v w'"
  proof (cases r)
    case (Inr u)
    have h: "half_made x ?c op st who False w1" "made ?c op st who (jcore w1)"
      using triple_run_ok [OF t at s1 [unfolded Inr]] by auto
    obtain d w2 where s2: "run_state (durable_remove E APPLY_OPERATION) w1 = (d, w2)" by fastforce
    note m = commit_made [OF s2 h]
    have e: "w' = w2" "reply_outcome v = Some ''accepted''"
      using run s1 s2 Inr by (auto simp: confirm_pending_def reply_ok_def reply_outcome_def jindex_def jget_def jstr_def)
    have "\<forall>f \<in> set (files w2 # trail w2). committing x ?c op st who (f |` journal_paths)"
      using m(1) by (auto simp: always_def core_def)
    then show ?thesis
      using m e by (fastforce simp: commit_ended_def committing_def recovering_def)
  next
    case (Inl e)
    have h: "half_made x ?c op st who False w1"
      using triple_run_err [OF t at s1 [unfolded Inl]] .
    obtain q w2 where s2: "run_state (recover_interrupted_apply E) w1 = (q, w2)" by fastforce
    note m = commit_recovered [OF s2 law h x]
    have e: "w' = w2" "v = reply_failed ''failed''
            [(''error'', JStr e), (''restoration'', required_or_restored q),
             (''recovery_error'', (case q of Inl c \<Rightarrow> JStr c | Inr _ \<Rightarrow> JNull))]"
      using run s1 s2 Inl by (auto simp: confirm_pending_def)
    have "reply_outcome v = Some ''failed''"
      "reply_restoration v = Some (if is_ok q then ''restored'' else ''required'')"
      unfolding e(2) required_or_restored_def
      by (simp_all add: reply_outcome_def reply_restoration_def reply_failed_def jindex_def jget_def jstr_def)
    then show ?thesis using m e(1) by (auto simp: commit_ended_def)
  qed
  then show "\<forall>f \<in> set (files w' # trail w'). refreshed x (boot_state ?c f)
      \<or> (\<exists>z. confirmed ?c op st who z \<and> refreshed z (boot_state ?c f))"
    and "commit_ended x ?c op st who v w'" by blast+
qed

lemma recovery_pending_run:
  assumes "run_state (recovery_pending E) w = (False, w')"
  shows "\<not> recovery_required w" and "files w APPLY_PREVIOUS = None"
proof -
  obtain n w1 where s1: "run_state (operation_requires_recovery E) w = (n, w1)" by fastforce
  have "files w1 APPLY_PREVIOUS = files w APPLY_PREVIOUS"
    using same_run(1) [OF same_operation_requires_recovery s1] by (metis core_at in_journal(5))
  then show "\<not> recovery_required w" and "files w APPLY_PREVIOUS = None"
    using assms s1 by (auto simp: recovery_pending_def file_exists_def split: if_splits)
qed

text \<open>What the handler leaves when it confirms nothing.\<close>

definition unconfirmed :: "json \<Rightarrow> codecs \<Rightarrow> 'k world \<Rightarrow> 'k world \<Rightarrow> bool" where
  "unconfirmed v c w w' \<longleftrightarrow>
     reply_outcome v \<in> {Some ''rejected'', Some ''failed''}
     \<and> (\<forall>f \<in> set (files w' # trail w'). refreshed (boot_state c (files w)) (boot_state c f))"

lemma kept_unconfirmed:
  assumes "kept journal_paths w w'" and "trail w = []" and "reply_outcome v \<in> {Some ''rejected'', Some ''failed''}"
  shows "unconfirmed v c w w'"
proof -
  have "always journal_paths (\<lambda>f. boot_state c f = boot_state c (files w)) w'"
    using dur.kept_step [OF assms(1) always_of_trail [OF assms(2) refl]] by blast
  then show ?thesis using assms(3) by (auto simp: unconfirmed_def always_trail)
qed

lemma reject_outcome [simp]: "reply_outcome (reject e) = Some ''rejected''"
  by (simp add: reject_def)

text \<open>The request names the pending revision and its token, and comes before the deadline.\<close>

definition names_pending ::
    "'k env \<Rightarrow> json \<Rightarrow> apply_operation \<Rightarrow> desired_state \<Rightarrow> principal \<Rightarrow> bool" where
  "names_pending E request op st who \<longleftrightarrow>
     phase op = Pending_confirmation \<and> proposed op = Some st
     \<and> get_u64 request ''revision'' = Some (revision st)
     \<and> confirmation_id op \<noteq> None \<and> get_str request ''confirmation_id'' = confirmation_id op
     \<and> get_principal (codec E) request ''confirming'' = Some who
     \<and> (\<exists>deadline now w1 w2. deadline_boot_ns op = Some deadline
          \<and> run_state (boot_time_ns E) w1 = (Inr now, w2) \<and> now < deadline)"

lemma pending_expired_run:
  assumes "run_state (pending_expired E op) w = (r, w')" and "\<not> taken_as_expired r"
  shows "\<exists>deadline now w1 w2. deadline_boot_ns op = Some deadline
          \<and> run_state (boot_time_ns E) w1 = (Inr now, w2) \<and> now < deadline"
proof (cases "deadline_boot_ns op")
  case None
  then show ?thesis
    using assms by (auto simp: pending_expired_def ok_or_def tryE_def taken_as_expired_def)
next
  case (Some d)
  obtain t w1 where s: "run_state (boot_time_ns E) w = (t, w1)" by fastforce
  then have "\<exists>now. t = Inr now \<and> now < d"
    using assms Some
    by (cases t) (auto simp: pending_expired_def ok_or_def run_tryE taken_as_expired_def not_le)
  then show ?thesis using s Some by blast
qed

lemma same_pending_expired: "keeps (same_on S) (pending_expired E op)"
  unfolding pending_expired_def by (intro same.keeps_rules same_boot_time)

definition confirm_result :: "'k env \<Rightarrow> json \<Rightarrow> json \<Rightarrow> 'k world \<Rightarrow> 'k world \<Rightarrow> bool" where
  "confirm_result E request v w w' \<longleftrightarrow>
     unconfirmed v (codec E) w w'
     \<or> (\<exists>raw op st who. files w APPLY_OPERATION = Some raw \<and> operation_of_text (codec E) raw = Inr op
          \<and> names_pending E request op st who
          \<and> boot_state (codec E) (files w) = Some (accepted op, previous_accepted op, previous_attribution op)
          \<and> (\<forall>f \<in> set (files w' # trail w'). refreshed (boot_state (codec E) (files w)) (boot_state (codec E) f)
               \<or> (\<exists>z. confirmed (codec E) op st who z \<and> refreshed z (boot_state (codec E) f)))
          \<and> commit_ended (boot_state (codec E) (files w)) (codec E) op st who v w')"

lemma confirm_matching_run:
  assumes run: "run_state (confirm_matching E rv token who op) w1 = (v, w')" and law: "lawful (codec E)"
    and same: "same_on journal_paths w w1" and tr: "trail w = []" and flag: "\<not> recovery_required w"
    and j: "files w APPLY_OPERATION = Some raw" "operation_of_text (codec E) raw = Inr op" "phase op = Pending_confirmation"
      "files w APPLY_PREVIOUS = None"
    and req: "get_u64 request ''revision'' = Some rv" "get_str request ''confirmation_id'' = Some token"
      "get_principal (codec E) request ''confirming'' = Some who"
  shows "confirm_result E request v w w'"
proof -
  let ?c = "codec E" and ?x = "boot_state (codec E) (files w)"
  have x: "?x = Some (accepted op, previous_accepted op, previous_attribution op)"
    using j by (simp add: boot_state_def)
  have core1: "jcore w1 = jcore w" and old1: "always journal_paths (recovering (\<lambda>_. False) ?x ?c) w1"
    using dur.kept_step [OF same_on_kept [OF same] recovering_trail [OF tr]] by auto
  show ?thesis
  proof (cases "\<exists>st. proposed op = Some st \<and> rv = revision st \<and> confirmation_id op = Some token")
    case False
    have "kept journal_paths w1 w' \<and> reply_outcome v \<in> {Some ''rejected'', Some ''failed''}"
    proof (cases "proposed op")
      case None
      obtain g w2 where s: "run_state (require_recovery_guard E) w1 = (g, w2)" by fastforce
      then show ?thesis
        using run None keepsD [OF kept_require_recovery_guard s] by (auto simp: confirm_matching_def)
    next
      case (Some st)
      then have "v = reject ''pending Apply operation changed'' \<and> w' = w1"
        using run False by (auto simp: confirm_matching_def split: if_splits)
      then show ?thesis by (simp add: kept_refl)
    qed
    then have "unconfirmed v ?c w w'"
      using kept_unconfirmed [OF kept_trans [OF same_on_kept [OF same]] tr] by blast
    then show ?thesis by (simp add: confirm_result_def)
  next
    case True
    then obtain st where st: "proposed op = Some st" "rv = revision st" "confirmation_id op = Some token" by blast
    obtain q w2 where s2: "run_state (pending_expired E op) w1 = (q, w2)" by fastforce
    have k2: "same_on journal_paths w1 w2" by (rule keepsD [OF same_pending_expired s2])
    have core2: "jcore w2 = jcore w" "always journal_paths (recovering (\<lambda>_. False) ?x ?c) w2" "\<not> recovery_required w2"
      using dur.kept_step [OF same_on_kept [OF k2] old1] core1 same k2 flag by (auto simp: same_on_def)
    show ?thesis
    proof (cases "taken_as_expired q")
      case True
      obtain r w3 where s3: "run_state (recover_interrupted_apply E) w2 = (r, w3)" by fastforce
      have e: "w' = w3" "v = reply_failed ''rejected''
                 [(''error'', JStr ''Apply confirmation expired''), (''restoration'', required_or_restored r)]"
        using run st s2 s3 True by (auto simp: confirm_matching_def)
      have "recoverable ?x ?c (jcore w2)"
        using core2 j(4) by (simp add: recoverable_def single_journal_def core_at boot_state_core)
      from recovered_trail [OF recover_interrupted_apply_run [OF s3 law this core2(2)]]
      have "unconfirmed v ?c w w'" using e by (simp add: unconfirmed_def)
      then show ?thesis by (simp add: confirm_result_def)
    next
      case False
      have c: "run_state (confirm_pending E op st who) w2 = (v, w')"
        using run st s2 False by (simp add: confirm_matching_def)
      have p: "pending_journal ?c op (jcore w2)"
        using core2(1) j by (simp add: held_def pending_target_def core_at)
      have "names_pending E request op st who"
        using j st req pending_expired_run [OF s2 False] by (simp add: names_pending_def)
      then show ?thesis
        using confirm_pending_run [OF c law core2(2) p core2(3)] j x by (auto simp: confirm_result_def)
    qed
  qed
qed

lemma confirm_apply_run:
  assumes run: "run_state (confirm_apply E request) w = (v, w')" and law: "lawful (codec E)" and tr: "trail w = []"
  shows "confirm_result E request v w w'"
proof -
  let ?c = "codec E"
  obtain b w1 where s1: "run_state (recovery_pending E) w = (b, w1)" by fastforce
  obtain p w2 where s2: "run_state (pending_operation E) w1 = (p, w2)" by fastforce
  have k1: "same_on journal_paths w w1" by (rule keepsD [OF same_recovery_pending s1])
  have k2: "same_on journal_paths w w2" by (rule same.trans [OF k1 keepsD [OF same_pending_operation s2]])
  show ?thesis
  proof (cases "\<exists>rv token who op. get_u64 request ''revision'' = Some rv
      \<and> get_str request ''confirmation_id'' = Some token \<and> get_principal ?c request ''confirming'' = Some who
      \<and> \<not> b \<and> p = Inr (Some op)")
    case False
    have "w' \<in> {w, w1, w2} \<and> reply_outcome v \<in> {Some ''rejected'', Some ''failed''}"
      using run s1 s2 False
      by (auto simp: confirm_apply_def split: option.splits if_splits sum.splits)
    then have "unconfirmed v ?c w w'"
      using kept_unconfirmed [OF _ tr] same_on_kept [OF k1] same_on_kept [OF k2] kept_refl by blast
    then show ?thesis by (simp add: confirm_result_def)
  next
    case True
    then obtain rv token who op where req: "get_u64 request ''revision'' = Some rv"
      "get_str request ''confirmation_id'' = Some token" "get_principal ?c request ''confirming'' = Some who"
      and b: "b = False" and p: "p = Inr (Some op)" by blast
    note rp = recovery_pending_run [OF s1 [unfolded b]]
    have "files w1 APPLY_OPERATION = files w APPLY_OPERATION"
      using kept_attempt(1) [OF same_on_kept [OF k1]] by (metis core_at in_journal(4))
    then obtain raw where j: "files w APPLY_OPERATION = Some raw" "operation_of_text ?c raw = Inr op"
        "phase op = Pending_confirmation"
      using pending_operation_run [OF s2 [unfolded p]] by (auto split: if_splits)
    have "run_state (confirm_matching E rv token who op) w2 = (v, w')"
      using run s1 s2 b p req by (simp add: confirm_apply_def)
    from confirm_matching_run [OF this law k2 tr rp(1) j rp(2) req] show ?thesis .
  qed
qed

section \<open>Properties\<close>

lemma confirm_result_choice:
  assumes "\<forall>f \<in> F. refreshed x (boot_state c f) \<or> (\<exists>z. confirmed c op st who z \<and> refreshed z (boot_state c f))"
  obtains y where "\<forall>f \<in> F. refreshed x (boot_state c f) \<or> refreshed y (boot_state c f)"
    and "\<And>z. confirmed c op st who z \<Longrightarrow> z = y"
proof -
  obtain y where y: "\<And>z. confirmed c op st who z \<Longrightarrow> z = y" using confirmed_choice by blast
  then have "\<forall>f \<in> F. refreshed x (boot_state c f) \<or> refreshed y (boot_state c f)" using assms by blast
  then show ?thesis using that y by blast
qed


text \<open>
  C12. Only the pending revision can be confirmed, and only by a request that names it: an
  accepted confirmation carries the revision and the confirmation token of the journal and
  an identity, and the clock was read before the deadline. The new Accepted state is the
  proposed one, its predecessor the one accepted before, and its attribution names who
  applied and who confirmed it.
\<close>

theorem confirm_accepts_the_pending:
  assumes "run_state (confirm_apply E request) w = (reply, w')"
    and "lawful (codec E)" and "trail w = []" and "reply_outcome reply = Some ''accepted''"
  shows "\<exists>raw op st who ta tt attribution. files w APPLY_OPERATION = Some raw
    \<and> operation_of_text (codec E) raw = Inr op \<and> names_pending E request op st who
    \<and> boot_state (codec E) (files w') = Some (normal_revision st, Some ta, Some tt)
    \<and> toml_of_desired (codec E) (accepted op) = Inr ta
    \<and> attribution_of_text (codec E) tt = Inr attribution
    \<and> attr_revision attribution = revision st \<and> attr_applying attribution = op_applying op
    \<and> attr_confirming attribution = Some who \<and> \<not> recovery_required w'"
proof -
  let ?c = "codec E"
  have "\<not> unconfirmed reply ?c w w'" using assms(4) by (auto simp: unconfirmed_def)
  then obtain raw op st who where j: "files w APPLY_OPERATION = Some raw" "operation_of_text ?c raw = Inr op"
      "names_pending E request op st who" and e: "commit_ended (boot_state ?c (files w)) ?c op st who reply w'"
    using confirm_apply_run [OF assms(1-3)] unfolding confirm_result_def by blast
  have c: "confirmed ?c op st who (boot_state ?c (files w'))" and flag: "\<not> recovery_required w'"
    using e assms(4) by (auto simp: commit_ended_def)
  then show ?thesis
    using j lawful_attribution [OF assms(2)] by (fastforce simp: confirmed_def)
qed

end
