(* ===== verification/Restore_Properties.thy ===== *)
theory Restore_Properties
  imports Confirm_Properties
begin

text \<open>
  The Accepted revisions netd keeps besides the current one: restoring the previous one is a
  new revision with the old contents, a Host update preserves the Accepted state as it is,
  and the draft receipts of a revision answer which draft it came from.
\<close>

section \<open>Operations that only read\<close>

definition reads :: "'k world \<Rightarrow> 'k world \<Rightarrow> bool" where
  "reads w w' \<longleftrightarrow> files w' = files w \<and> trail w' = trail w \<and> recovery_required w' = recovery_required w"

interpretation reads: transition reads
  by unfold_locales (auto simp: reads_def)

lemma reads_asks: "keeps reads (asks f)"
  by (auto simp: keeps_def reads_def run_asks split: prod.splits)

lemma reads_file_exists: "keeps reads (file_exists p)"
  unfolding file_exists_def by (intro reads.keeps_rules)

lemma reads_read_file: "keeps reads (read_file E p)"
  unfolding read_file_def fault_def by (intro reads.keeps_rules reads_asks)

lemma reads_read_text: "keeps reads (read_text E p)"
  unfolding read_text_def by (intro reads.keeps_rules reads_read_file)

lemma reads_operation_requires_recovery: "keeps reads (operation_requires_recovery E)"
  unfolding operation_requires_recovery_def by (intro reads.keeps_rules reads_file_exists reads_read_file)

lemma reads_recovery_pending: "keeps reads (recovery_pending E)"
  unfolding recovery_pending_def
  by (intro reads.keeps_rules reads_file_exists reads_operation_requires_recovery)

lemma reads_pending_operation: "keeps reads (pending_operation E)"
  unfolding pending_operation_def by (intro reads.keeps_rules reads_read_file)

lemma reads_accepted_desired: "keeps reads (accepted_desired E)"
  unfolding accepted_desired_def by (intro reads.keeps_rules reads_read_text)

lemma reads_same: "reads w w' \<Longrightarrow> same_on S w w'"
  by (auto simp: reads_def same_on_def kept_def)

lemma read_text_run: "run_state (read_text E p) w = (Inr v, w') \<Longrightarrow> v = files w p"
  using read_file_run(2) [of E p w]
  by (auto simp: read_text_def run_tryE split: prod.splits sum.splits option.splits if_splits)

section \<open>The previous Accepted revision\<close>

definition restores_predecessor :: "codecs \<Rightarrow> principal option \<Rightarrow> 'k world \<Rightarrow> 'k world \<Rightarrow> bool" where
  "restores_predecessor c actor w w' \<longleftrightarrow>
     (\<exists>current p t raw previous st ta tt attribution. boot_state c (files w) = Some (current, p, t)
        \<and> p = Some raw \<and> desired_of_toml c raw = Inr previous
        \<and> revision previous \<noteq> 0 \<and> revision previous < revision current
        \<and> boot_state c (files w') = Some (st, Some ta, Some tt)
        \<and> only_addresses (previous\<lparr>revision := revision current + 1\<rparr>) st
        \<and> toml_of_desired c current = Inr ta
        \<and> attribution_of_text c tt = Inr attribution \<and> attr_applying attribution = actor)"

lemma failed_at_outcome [simp]: "reply_outcome (failed_at current e) = Some ''failed''"
  by (simp add: failed_at_def)

lemma reply_ok_outcome [simp]: "reply_outcome (reply_ok ((''outcome'', JStr x) # kvs)) = Some x"
  by (simp add: reply_ok_def reply_outcome_def jindex_def jget_def jstr_def)

lemma apply_accepted_lemma:
  assumes "run_state (apply_desired_request E input base actor draft intent) w = (reply, w')"
    and "lawful (codec E)" and "trail w = []" and "reply_outcome reply = Some ''accepted''"
  obtains a start st ta tt attribution where "boot_state (codec E) (files w) = Some (old_state a)"
    and "desired_of_json (codec E) input = Inr start"
    and "boot_state (codec E) (files w') = Some (st, Some ta, Some tt)"
    and "only_addresses (start\<lparr>revision := revision (at_current a) + 1\<rparr>) st"
    and "toml_of_desired (codec E) (at_current a) = Inr ta"
    and "attribution_of_text (codec E) tt = Inr attribution" and "attr_applying attribution = actor"
proof -
  let ?c = "codec E"
  have "attempted_request ?c input base actor reply w w'"
    using apply_desired_request_run [OF assms(1-3)] assms(4) by (auto simp: untouched_def)
  then obtain a start st where a: "boot_state ?c (files w) = Some (old_state a)" "at_actor a = actor"
      "desired_of_json ?c input = Inr start"
      "only_addresses (start\<lparr>revision := revision (at_current a) + 1\<rparr>) st" "ended ?c a st False reply w'"
    unfolding attempted_request_def by blast
  obtain ta tt receipts where n: "boot_state ?c (files w') = Some (st, Some ta, Some tt)"
      "toml_of_desired ?c (at_current a) = Inr ta"
      "text_of_attribution ?c \<lparr> attr_revision = revision st, attr_applying = at_actor a,
             attr_confirming = None, attr_draft_version = None, draft_receipts = receipts \<rparr> = Inr tt"
    using ended_outcomes(4) [OF a(5) assms(4)] by (auto simp: new_state_def)
  show ?thesis
    by (rule that [OF a(1,3) n(1) a(4) n(2) lawful_attribution [OF assms(2) n(3)]]) (simp add: a(2))
qed

lemma restore_predecessor_run:
  assumes run: "run_state (restore_predecessor_of E actor current) w = (reply, w')" and law: "lawful (codec E)"
    and tr: "trail w = []" and acc: "reply_outcome reply = Some ''accepted''"
    and cur: "desired_file (codec E) (files w DESIRED) = Some current"
    and idle: "accepted_journal (codec E) (files w APPLY_OPERATION)" "files w APPLY_PREVIOUS = None"
  shows "restores_predecessor (codec E) actor w w'"
proof -
  let ?c = "codec E"
  obtain r w1 where s1: "run_state (read_text E PREVIOUS_ACCEPTED) w = (r, w1)" by fastforce
  have k: "reads w w1" by (rule keepsD [OF reads_read_text s1])
  obtain raw previous input where p: "r = Inr (Some raw)" "desired_of_toml ?c raw = Inr previous"
      "revision previous \<noteq> 0" "revision previous < revision current" "json_of_desired ?c previous = Inr input"
      and a: "run_state (apply_desired_request E input (Some (revision current)) actor None Recovery_restore) w1 = (reply, w')"
    using run s1 acc
    by (auto simp: restore_predecessor_of_def not_le split: sum.splits option.splits if_splits)
  have b: "boot_state ?c (files w) = Some (current, files w PREVIOUS_ACCEPTED, files w APPLY_ATTRIBUTION)"
    using accepted_journal_boot [OF idle] cur by simp
  have f: "files w1 = files w" "trail w1 = []" using k tr by (simp_all add: reads_def)
  obtain a start st ta tt attribution where n: "boot_state ?c (files w) = Some (old_state a)"
    "desired_of_json ?c input = Inr start" "boot_state ?c (files w') = Some (st, Some ta, Some tt)"
    "only_addresses (start\<lparr>revision := revision (at_current a) + 1\<rparr>) st" "toml_of_desired ?c (at_current a) = Inr ta"
    "attribution_of_text ?c tt = Inr attribution" "attr_applying attribution = actor"
    using apply_accepted_lemma [OF a law f(2) acc] f(1) by metis
  have "start = previous" using law p(5) n(2) by (auto simp: lawful_def)
  moreover have "at_current a = current" using n(1) b by (simp add: old_state_def)
  moreover have "files w PREVIOUS_ACCEPTED = Some raw" using read_text_run s1 p(1) by metis
  ultimately show ?thesis
    using b n p unfolding restores_predecessor_def by auto
qed

text \<open>
  Restoring the previous Accepted revision on request is not a file copy: when it is
  accepted, the state in the retained predecessor, an older revision, becomes the Accepted
  one under the next revision number, and the state it displaces is the predecessor
  retained now, with the acting principal as the one who applied it.
\<close>

theorem restore_previous_is_next_revision:
  assumes "run_state (restore_previous_request E actor) w = (reply, w')"
    and "lawful (codec E)" and "trail w = []" and "reply_outcome reply = Some ''accepted''"
  shows "\<exists>current p t raw previous st ta tt attribution. boot_state (codec E) (files w) = Some (current, p, t)
        \<and> p = Some raw \<and> desired_of_toml (codec E) raw = Inr previous
        \<and> revision previous \<noteq> 0 \<and> revision previous < revision current
        \<and> boot_state (codec E) (files w') = Some (st, Some ta, Some tt)
        \<and> only_addresses (previous\<lparr>revision := revision current + 1\<rparr>) st
        \<and> toml_of_desired (codec E) current = Inr ta
        \<and> attribution_of_text (codec E) tt = Inr attribution \<and> attr_applying attribution = actor"
proof -
  let ?c = "codec E"
  obtain b w1 where s1: "run_state (recovery_pending E) w = (b, w1)" by fastforce
  obtain p w2 where s2: "run_state (pending_operation E) w1 = (p, w2)" by fastforce
  obtain a w3 where s3: "run_state (accepted_desired E) w2 = (a, w3)" by fastforce
  have "b = False"
  proof (rule ccontr)
    assume "b \<noteq> False"
    then show False
      using assms(1,4) s1
      by (cases "files w BOOTSTRAPPED = None")
        (auto simp: restore_previous_request_def file_exists_def split: sum.splits prod.splits)
  qed
  moreover have p: "p = Inr None" and "\<exists>current. a = Inr current"
    using assms(1,4) s1 s2 s3 \<open>b = False\<close>
    by (auto simp: restore_previous_request_def file_exists_def split: if_splits sum.splits)
  ultimately obtain current where a: "a = Inr current"
      and r: "run_state (restore_predecessor_of E actor current) w3 = (reply, w')"
    using assms(1,4) s1 s2 s3
    by (auto simp: restore_previous_request_def file_exists_def split: if_splits)
  have k: "reads w w1" "reads w1 w2" "reads w2 w3"
    using keepsD [OF reads_recovery_pending s1] keepsD [OF reads_pending_operation s2]
      keepsD [OF reads_accepted_desired s3] by auto
  have f: "files w1 = files w" "files w3 = files w" "trail w3 = []" "files w2 = files w"
    using k assms(3) by (simp_all add: reads_def)
  have busy: "run_state (apply_busy E) w = (False, w2)"
    using s1 s2 p \<open>b = False\<close> by (simp add: apply_busy_def)
  have "restores_predecessor ?c actor w3 w'"
    using restore_predecessor_run [OF r assms(2) f(3) assms(4)] accepted_desired_run(1) [OF s3 [unfolded a]]
      apply_busy_run [OF busy] f by simp
  then show ?thesis using f(2) by (simp add: restores_predecessor_def)
qed

section \<open>What a Host update preserves\<close>

lemma update_paths:
  "PRE_UPDATE_ACCEPTED \<noteq> NETWORK_RESTORATION" "NETWORK_RESTORATION \<notin> journal_paths"
  "\<not> is_temp PRE_UPDATE_ACCEPTED" "\<not> is_temp NETWORK_RESTORATION"
proof -
  have "list_all (\<lambda>p. p \<noteq> NETWORK_RESTORATION \<and> \<not> is_temp p)
      [DESIRED, PREVIOUS_ACCEPTED, APPLY_ATTRIBUTION, APPLY_OPERATION, APPLY_PREVIOUS, PRE_UPDATE_ACCEPTED]
    \<and> \<not> is_temp NETWORK_RESTORATION"
    by code_simp
  then show "PRE_UPDATE_ACCEPTED \<noteq> NETWORK_RESTORATION" "NETWORK_RESTORATION \<notin> journal_paths"
    "\<not> is_temp PRE_UPDATE_ACCEPTED" "\<not> is_temp NETWORK_RESTORATION"
    by (auto simp: journal_paths_def)
qed

lemma durable_write_run:
  assumes "run_state (durable_write E p b) w = (Inr (), w')" and "\<not> is_temp p"
  shows "files w' p = Some b" and "\<not> is_temp q \<Longrightarrow> q \<noteq> p \<Longrightarrow> files w' q = files w q"
  using durable_write_writes [OF assms(2,1)] by (auto simp: writes_def changed_to_def)

lemma durable_remove_run:
  assumes "run_state (durable_remove E p) w = (Inr (), w')"
  shows "files w' p = None" and "\<not> is_temp q \<Longrightarrow> q \<noteq> p \<Longrightarrow> files w' q = files w q"
  using durable_remove_writes [OF assms] by (auto simp: writes_def changed_to_def)

lemma persist_at_run:
  assumes "run_state (persist_at E p st) w = (Inr (), w')" and "\<not> is_temp p"
  shows "\<exists>t. toml_of_desired (codec E) st = Inr t \<and> files w' p = Some t"
    and "\<not> is_temp q \<Longrightarrow> q \<noteq> p \<Longrightarrow> files w' q = files w q"
proof -
  obtain t where t: "toml_of_desired (codec E) st = Inr t" "run_state (durable_write E p t) w = (Inr (), w')"
    using assms(1) by (auto simp: persist_at_def split: sum.splits)
  then show "\<exists>t. toml_of_desired (codec E) st = Inr t \<and> files w' p = Some t"
    using durable_write_run(1) [OF t(2) assms(2)] by blast
  show "\<not> is_temp q \<Longrightarrow> q \<noteq> p \<Longrightarrow> files w' q = files w q"
    using durable_write_run(2) [OF t(2) assms(2)] .
qed

lemma same_preserve: "keeps (same_on journal_paths) (preserve_pre_update E)"
  unfolding preserve_pre_update_def persist_at_def
  using update_paths journal_lasting
  by (intro same.keeps_rules same_ops same_recovery_pending same_accepted_desired same_durable_write
      same_durable_remove) auto

definition says_ok :: "json \<Rightarrow> bool" where
  "says_ok v \<longleftrightarrow> jindex v ''ok'' = JBool True"

lemma says_ok_simps [simp]:
  "says_ok (reply_ok kvs)" "\<not> says_ok (reply_error e)" "\<not> says_ok (reply_failed oc kvs)"
  by (simp_all add: says_ok_def reply_ok_def reply_error_def reply_failed_def jindex_def jget_def)

text \<open>
  Before a Host update netd keeps the Accepted state so that it reads back as it is: when
  the request succeeds, the preserved file decodes to the Accepted state, an outcome left by
  an earlier update is gone, and the state the next start restores has not changed.
\<close>

theorem preserve_keeps_accepted:
  assumes "run_state (preserve_pre_update E) w = (reply, w')" and "lawful (codec E)" and "says_ok reply"
  shows "\<exists>st t. desired_file (codec E) (files w DESIRED) = Some st
    \<and> files w' PRE_UPDATE_ACCEPTED = Some t \<and> desired_of_toml (codec E) t = Inr st
    \<and> files w' NETWORK_RESTORATION = None
    \<and> boot_state (codec E) (files w') = boot_state (codec E) (files w)"
proof -
  let ?c = "codec E"
  obtain b w1 where s1: "run_state (recovery_pending E) w = (b, w1)" by fastforce
  obtain a w2 where s2: "run_state (accepted_desired E) w1 = (a, w2)" by fastforce
  have k: "files w1 = files w"
    using keepsD [OF reads_recovery_pending s1] by (simp add: reads_def)
  let ?keep = "\<lambda>st. seqE (persist_at E PRE_UPDATE_ACCEPTED st) (seqE (durable_remove E NETWORK_RESTORATION) (okE (revision st)))"
  have "\<not> b" using assms(1,3) s1 by (auto simp: preserve_pre_update_def file_exists_def split: if_splits)
  then obtain st n where st: "a = Inr st" "run_state (?keep st) w2 = (Inr n, w')"
    using assms(1,3) s1 s2
    by (auto simp: preserve_pre_update_def file_exists_def run_tryE split: if_splits sum.splits prod.splits)
  obtain w3 where s3: "run_state (persist_at E PRE_UPDATE_ACCEPTED st) w2 = (Inr (), w3)"
      and s4: "run_state (durable_remove E NETWORK_RESTORATION) w3 = (Inr (), w')"
    using st(2) by (auto simp: run_tryE split: prod.splits sum.splits)
  obtain t where t: "toml_of_desired ?c st = Inr t" "files w3 PRE_UPDATE_ACCEPTED = Some t"
    using persist_at_run(1) [OF s3 update_paths(3)] by blast
  have "files w' PRE_UPDATE_ACCEPTED = Some t"
    using durable_remove_run(2) [OF s4 update_paths(3,1)] t(2) by simp
  moreover have "boot_state ?c (files w') = boot_state ?c (files w)"
    using kept_attempt(1) [OF same_on_kept [OF keepsD [OF same_preserve assms(1)]]] boot_state_core by metis
  ultimately show ?thesis
    using accepted_desired_run(1) [OF s2 [unfolded st(1)]] k lawful_toml [OF assms(2) t(1)]
      durable_remove_run(1) [OF s4] by auto
qed

section \<open>Drafts\<close>

lemma same_owner_trans: "same_owner p q \<Longrightarrow> same_owner r p = same_owner r q"
  by (auto simp: same_owner_def)

text \<open>
  The attribution written for a revision answers which draft of its owner it came from:
  for the owner of the applied draft, whatever their name is now, exactly the applied version
  matches, and an earlier version of theirs no longer does.
\<close>

theorem accepted_draft_is_found:
  assumes "accepted_draft_receipts c previous base (Some p) (Some v) rv = Inr receipts"
    and "same_owner p q"
  shows "attribution_matches q u rv
      \<lparr> attr_revision = rv, attr_applying = Some p, attr_confirming = confirming,
        attr_draft_version = None, draft_receipts = receipts \<rparr> \<longleftrightarrow> u = v"
proof -
  obtain carried where "receipts = filter (\<lambda>r. \<not> same_owner (owner r) p) carried
      @ [\<lparr> owner = p, version = v, accepted_revision = rv \<rparr>]"
    using assms(1) by (auto simp: accepted_draft_receipts_def bindE_ok add_receipt_def upsert_draft_receipt_def)
  then show ?thesis
    using assms(2) same_owner_trans [OF assms(2)]
    by (auto simp: attribution_matches_def receipt_matches_def list_ex_iff)
qed

text \<open>
  A Host update is told that the network is restored exactly when Bootstrap is complete,
  no recovery is pending, and the Host has reconciled the very generation of LAN services
  that netd published.
\<close>

theorem restored_iff:
  "accepted_state_restored bootstrapped guarded ready result = Inr () \<longleftrightarrow>
   bootstrapped \<and> \<not> guarded
   \<and> (\<exists>published answer. ready = Some published \<and> result = Some answer \<and> trim published \<noteq> []
        \<and> split_once (CHR '' '') (trim answer) = Some (trim published, ''ok''))"
  by (auto simp: accepted_state_restored_def thenE_ok failIf_ok parse_lan_services_result_def
      split: option.splits if_splits prod.splits bind_splits)

end
