(* ===== verification/Confirm_Success.thy ===== *)
theory Confirm_Success
  imports Restore_Properties Apply_Success
begin

text \<open>
  Confirming and recovering on a machine where nothing fails: a request that names the
  pending revision before its deadline is accepted, and an interrupted apply is recovered.
\<close>

section \<open>Confirming\<close>

definition waits_with :: "codecs \<Rightarrow> apply_operation \<Rightarrow> 'k world \<Rightarrow> bool" where
  "waits_with c op w \<longleftrightarrow>
     tidy w \<and> \<not> recovery_required w \<and> files w APPLY_PREVIOUS = None
     \<and> (\<exists>raw. files w APPLY_OPERATION = Some raw \<and> operation_of_text c raw = Inr op)
     \<and> phase op = Pending_confirmation
     \<and> (\<forall>raw. previous_attribution op = Some raw \<longrightarrow> is_ok (attribution_of_text c raw))"

text \<open>The boot clock stays before the deadline.\<close>

definition before :: "'k env \<Rightarrow> u64 \<Rightarrow> bool" where
  "before E deadline \<longleftrightarrow> (\<forall>k. \<exists>s n. fst (boottime_clock E k) = Inr (s, n)
     \<and> saturating_add (saturating_mul s 1000000000) n < deadline)"

lemma gives_boot_time: "before E deadline \<Longrightarrow> gives (boot_time_ns E) (\<lambda>now. now < deadline)"
  unfolding gives_def
proof (intro allI impI)
  fix w :: "'a world" assume "before E deadline" and w: "tidy w"
  then obtain s n k where "boottime_clock E (outside w) = (Inr (s, n), k)"
      "saturating_add (saturating_mul s 1000000000) n < deadline"
    unfolding before_def by (metis prod.collapse)
  then show "\<exists>a w'. run_state (boot_time_ns E) w = (Inr a, w') \<and> tidy w' \<and> a < deadline"
    using w by (simp add: boot_time_ns_def run_asks tidy_def)
qed

lemma gives_pending_expired:
  assumes "deadline_boot_ns op = Some deadline" and "before E deadline"
  shows "gives (pending_expired E op) (\<lambda>b. b = False)"
  unfolding pending_expired_def assms(1) ok_or_def option.case tryE_okE
  by (rule gives_tryE [OF gives_boot_time [OF assms(2)]]) (auto intro: gives_ok)

lemma fine_commit_confirmed:
  assumes "faultless E" and "encodes (codec E)"
    and "\<forall>raw. previous_attribution op = Some raw \<longrightarrow> is_ok (attribution_of_text (codec E) raw)"
  shows "fine (commit_confirmed E op st who)"
proof -
  obtain receipts where "accepted_draft_receipts (codec E) (previous_attribution op) (revision (accepted op))
             (op_applying op) (op_draft_version op) (revision st) = Inr receipts"
    using assms(3) by (cases "previous_attribution op") (auto simp: accepted_draft_receipts_def is_ok_iff bindE_ok)
  moreover obtain raw where "text_of_operation (codec E) (accepted_journal_of op) = Inr raw"
    using assms(2) by (rule encodesE)
  ultimately show ?thesis
    using fine_persist [OF assms(1,2)] fine_write_attribution [OF assms(1,2)]
      fine_durable_write [OF assms(1) journal_not_temp]
    by (simp add: commit_confirmed_def tryE_okE persist_def gives_seqE)
qed

lemma confirm_pending_accepts:
  assumes "faultless E" and "encodes (codec E)"
    and "\<forall>raw. previous_attribution op = Some raw \<longrightarrow> is_ok (attribution_of_text (codec E) raw)" and "tidy w"
  shows "reply_outcome (fst (run_state (confirm_pending E op st who) w)) = Some ''accepted''"
proof -
  obtain w1 where "run_state (commit_confirmed E op st who) w = (Inr (), w1)"
    using run_fine [OF fine_commit_confirmed [OF assms(1-3)] assms(4), of st who] by auto
  then show ?thesis
    by (auto simp: confirm_pending_def split: prod.splits)
qed

lemma run_recovery_pending:
  assumes "faultless E" and "waits_with (codec E) op w"
  obtains w' where "run_state (recovery_pending E) w = (False, w')" and "files w' = files w" and "tidy w'"
proof -
  obtain raw where w: "tidy w" "files w APPLY_OPERATION = Some raw" "files w APPLY_PREVIOUS = None" "\<not> recovery_required w"
      "operation_of_text (codec E) raw = Inr op" "phase op \<noteq> Applying"
    using assms(2) by (auto simp: waits_with_def)
  obtain w' where "run_state (read_file E APPLY_OPERATION) w = (Inr (Some raw), w')" "files w' = files w" "tidy w'"
    using run_read_file_tidy [OF assms(1) w(1), of APPLY_OPERATION] w(2) by metis
  then show ?thesis
    using that w by (simp add: recovery_pending_def operation_requires_recovery_def file_exists_def decoded_operation_def)
qed

lemma run_pending_operation:
  assumes "faultless E" and "waits_with (codec E) op w" and "files w1 = files w" and "tidy w1"
  obtains w' where "run_state (pending_operation E) w1 = (Inr (Some op), w')" and "tidy w'"
proof -
  obtain raw where w: "files w1 APPLY_OPERATION = Some raw" "operation_of_text (codec E) raw = Inr op"
      "phase op = Pending_confirmation"
    using assms(2,3) by (auto simp: waits_with_def)
  obtain w' where "run_state (read_file E APPLY_OPERATION) w1 = (Inr (Some raw), w')" "tidy w'"
    using run_read_file_tidy [OF assms(1,4), of APPLY_OPERATION] w(1) by metis
  then show ?thesis
    using that w by (simp add: pending_operation_def run_tryE run_map_err)
qed

lemma confirm_apply_accepts:
  assumes E: "faultless E" "encodes (codec E)" and w: "waits_with (codec E) op w"
    and op: "proposed op = Some st" "deadline_boot_ns op = Some deadline" "before E deadline"
    and req: "get_u64 request ''revision'' = Some (revision st)"
      "get_str request ''confirmation_id'' = Some token" "confirmation_id op = Some token"
      "get_principal (codec E) request ''confirming'' = Some who"
  shows "reply_outcome (fst (run_state (confirm_apply E request) w)) = Some ''accepted''"
proof -
  obtain w1 where 1: "run_state (recovery_pending E) w = (False, w1)" "files w1 = files w" "tidy w1"
    using run_recovery_pending [OF E(1) w] .
  obtain w2 where 2: "run_state (pending_operation E) w1 = (Inr (Some op), w2)" "tidy w2"
    using run_pending_operation [OF E(1) w 1(2,3)] .
  obtain w3 where 3: "run_state (pending_expired E op) w2 = (Inr False, w3)" "tidy w3"
    using gives_pending_expired [OF op(2,3)] 2(2) unfolding gives_def by blast
  have "\<forall>raw. previous_attribution op = Some raw \<longrightarrow> is_ok (attribution_of_text (codec E) raw)"
    using w by (auto simp: waits_with_def)
  note accepts = confirm_pending_accepts [OF E this 3(2)]
  show ?thesis
    using 1 2 3 op req accepts by (simp add: confirm_apply_def confirm_matching_def taken_as_expired_def)
qed

section \<open>Recovering\<close>

definition interrupted_with :: "codecs \<Rightarrow> apply_operation \<Rightarrow> 'k world \<Rightarrow> bool" where
  "interrupted_with c op w \<longleftrightarrow>
     tidy w \<and> (\<exists>raw. files w APPLY_OPERATION = Some raw \<and> operation_of_text c raw = Inr op) \<and> phase op \<noteq> Accepted"

lemma gives_apply_unit:
  assumes "faultless E" and "validate (base64 (codec E)) st = Inr ()" and "lan_host_known st"
  shows "gives (apply_unit E st) (only_addresses st)"
  unfolding gives_def
proof (intro allI impI)
  fix w :: "'a world" assume "tidy w"
  then obtain st' w' where "run_state (apply_state E st) w = ((st', Inr ()), w')" "tidy w'" "only_addresses st st'"
    using run_apply_state [OF assms] by blast
  then show "\<exists>a w'. run_state (apply_unit E st) w = (Inr a, w') \<and> tidy w' \<and> only_addresses st a"
    by (simp add: apply_unit_def)
qed

lemma stays_accepted_desired: "faultless E \<Longrightarrow> keeps stays (accepted_desired E)"
  unfolding accepted_desired_def by (intro stays.keeps_rules stays_read_text)

lemma fine_restore_kept:
  assumes "faultless E" and "encodes (codec E)"
  shows "fine (restore_kept E target st)"
  unfolding restore_kept_def restore_attribution_def restore_file_def persist_def
  by (intro gives_seqE gives_if gives_option fine_okE fine_persist [OF assms] fine_durable_remove [OF assms(1)]
      fine_durable_write [OF assms(1)]) (simp_all add: journal_not_temp)

lemma fine_reopen: "faultless E \<Longrightarrow> fine (reopen_restored_forwarding E st)"
  unfolding gives_def
proof (intro allI impI)
  fix w :: "'a world" assume E: "faultless E" and w: "tidy w"
  from run_fine [OF fine_nft_apply [OF E] w] obtain w1 where
    "run_state (nft_apply E (nft_rules_with_recovery_guard st False)) w = (Inr (), w1)" "tidy w1" by fastforce
  then show "\<exists>a w'. run_state (reopen_restored_forwarding E st) w = (Inr a, w') \<and> tidy w' \<and> True"
    by (simp add: reopen_restored_forwarding_def set_recovery_required_def tidy_def)
qed

lemma fine_finish_recovery: "faultless E \<Longrightarrow> fine (finish_recovery E st path)"
  unfolding gives_def
proof (intro allI impI)
  fix w :: "'a world" assume E: "faultless E" and w: "tidy w"
  from run_fine [OF fine_durable_remove [OF E] w] obtain w1 where
    1: "run_state (durable_remove E path) w = (Inr (), w1)" "tidy w1" by fastforce
  from run_fine [OF fine_reopen [OF E] 1(2)] 1
  show "\<exists>a w'. run_state (finish_recovery E st path) w = (Inr a, w') \<and> tidy w' \<and> True"
    by (fastforce simp: finish_recovery_def)
qed

lemma gives_resume_services:
  assumes "faultless E" and "answers E bytes"
  shows "gives (resume_services E target st) (\<lambda>n. n = revision st)"
  unfolding resume_services_def
  by (rule gives_tryE [OF gives_ready [OF assms]])
    (auto simp: ok_or_def tryE_okE intro!: gives_seqE fine_wait assms fine_finish_recovery gives_ok)

lemma gives_restore_from_target:
  assumes E: "faultless E" "encodes (codec E)" "answers E bytes"
    and st: "validate (base64 (codec E)) (accepted (operation target)) = Inr ()"
      "lan_host_known (accepted (operation target))"
  shows "gives (restore_from_target E target) (\<lambda>n. n = revision (accepted (operation target)))"
  unfolding restore_from_target_def
proof (rule gives_bind)
  show "keeps stays (case proposed (operation target) of Some st \<Rightarrow> ret (Some st)
                 | None \<Rightarrow> do { r \<leftarrow> accepted_desired E; ret (ok_opt r) })"
    by (intro stays.keeps_rules stays_accepted_desired [OF E(1)])
next
  fix current
  have "gives (seqE (case current of Some t \<Rightarrow> remove_stale_routes E t st' | None \<Rightarrow> okE ())
      (seqE (restore_kept E target st') (resume_services E target st')))
      (\<lambda>n. n = revision (accepted (operation target)))" if "only_addresses (accepted (operation target)) st'" for st'
  proof -
    have "revision st' = revision (accepted (operation target))"
      using only_addresses_fields(1) [OF that] .
    then show ?thesis
      by (intro gives_seqE gives_option fine_okE fine_remove_stale_routes fine_restore_kept E(1,2))
        (use gives_resume_services [OF E(1,3), of target st'] in simp)
  qed
  then show "gives (tryE (set_lan_services_ready E False) (\<lambda>_.
     tryE (apply_unit E (accepted (operation target))) (\<lambda>previous.
     seqE (case current of Some t \<Rightarrow> remove_stale_routes E t previous | None \<Rightarrow> okE ())
    (seqE (restore_kept E target previous)
          (resume_services E target previous))))) (\<lambda>n. n = revision (accepted (operation target)))"
    by (intro gives_tryE [OF gives_ready [OF E(1,3)]] gives_tryE [OF gives_apply_unit [OF E(1) st]])
qed

lemma run_read_target:
  assumes "faultless E" and "interrupted_with (codec E) op w"
  obtains w' where "run_state (read_recovery_target E) w = (Inr (pending_target op), w')" and "files w' = files w"
proof -
  obtain raw where w: "tidy w" "files w APPLY_OPERATION = Some raw" "operation_of_text (codec E) raw = Inr op"
      "phase op \<noteq> Accepted"
    using assms(2) by (auto simp: interrupted_with_def)
  obtain w' where "run_state (read_file E APPLY_OPERATION) w = (Inr (Some raw), w')" "files w' = files w"
    using run_read_file_tidy [OF assms(1) w(1), of APPLY_OPERATION] w(2) by metis
  then show ?thesis
    using that w by (simp add: read_recovery_target_def file_exists_def run_tryE run_map_err ok_or_def pending_target_def)
qed

lemma run_guard:
  assumes "faultless E" and "interrupted_with (codec E) op w"
  obtains w' where "run_state (require_recovery_guard E) w = (Inr (), w')" and "interrupted_with (codec E) op w'"
proof -
  let ?w = "w\<lparr>recovery_required := True\<rparr>"
  have i: "interrupted_with (codec E) op ?w" using assms(2) by (simp add: interrupted_with_def tidy_def)
  obtain w1 where 1: "run_state (read_recovery_target E) ?w = (Inr (pending_target op), w1)" "files w1 = files ?w"
    using run_read_target [OF assms(1) i] .
  have "tidy w1" using 1(2) assms(2) tidy_files by (simp add: interrupted_with_def tidy_def)
  from run_fine [OF fine_program_nft [OF assms(1)] this] obtain w2 where
    2: "run_state (program_nft E (accepted op)) w1 = (Inr (), w2)" "tidy w2" by fastforce
  have run: "run_state (require_recovery_guard E) w = (Inr (), w2)"
    using 1 2 by (simp add: require_recovery_guard_def set_recovery_required_def pending_target_def)
  have "files w2 APPLY_OPERATION = files w APPLY_OPERATION"
    using kept_run(1) [OF kept_require_recovery_guard run] by (metis core_at in_journal(4))
  then show ?thesis using that run 2 assms(2) by (simp add: interrupted_with_def)
qed

lemma recover_interrupted_succeeds:
  assumes "faultless E" and "encodes (codec E)" and "answers E bytes" and "interrupted_with (codec E) op w"
    and "validate (base64 (codec E)) (accepted op) = Inr ()" and "lan_host_known (accepted op)"
  obtains w' where "run_state (recover_interrupted_apply E) w = (Inr (revision (accepted op)), w')"
proof -
  obtain w1 where 1: "run_state (require_recovery_guard E) w = (Inr (), w1)" "interrupted_with (codec E) op w1"
    using run_guard [OF assms(1,4)] .
  obtain w2 where 2: "run_state (read_recovery_target E) w1 = (Inr (pending_target op), w2)" "files w2 = files w1"
    using run_read_target [OF assms(1) 1(2)] .
  have "tidy w2" using 1(2) 2(2) tidy_files by (simp add: interrupted_with_def tidy_def)
  then obtain n w3 where 3: "run_state (restore_from_target E (pending_target op)) w2 = (Inr n, w3)"
      "n = revision (accepted op)"
    using gives_restore_from_target [OF assms(1-3), of "pending_target op"] assms(5,6)
    unfolding gives_def by (auto simp: pending_target_def)
  have "\<exists>raw. files w APPLY_OPERATION = Some raw" using assms(4) by (auto simp: interrupted_with_def)
  then show ?thesis
    using that 1 2 3 by (auto simp: recover_interrupted_apply_def file_exists_def run_tryE)
qed

section \<open>Restoring the previous revision\<close>

lemma idle_files:
  assumes "idle_with c current w" and "files w' = files w" and "recovery_required w' = recovery_required w"
  shows "idle_with c current w'"
  using assms tidy_files [OF assms(2)] by (simp add: idle_with_def)

lemma idle_reads: "idle_with c current w \<Longrightarrow> reads w w' \<Longrightarrow> idle_with c current w'"
  by (rule idle_files) (auto simp: reads_def)

lemma restore_previous_accepts:
  assumes E: "faultless E" "encodes (codec E)" "answers E bytes" and law: "lawful (codec E)"
    and w: "idle_with (codec E) current w" "files w BOOTSTRAPPED \<noteq> None"
    and prev: "files w PREVIOUS_ACCEPTED = Some raw" "is_utf8 raw" "desired_of_toml (codec E) raw = Inr previous"
      "revision previous \<noteq> 0" "revision previous < revision current" "json_of_desired (codec E) previous = Inr input"
    and st: "validate (base64 (codec E)) previous = Inr ()" "lan_host_known previous"
  shows "reply_outcome (fst (run_state (restore_previous_request E actor) w)) = Some ''accepted''"
proof -
  obtain b w1 p w2 where 1: "run_state (recovery_pending E) w = (b, w1)" and 2: "run_state (pending_operation E) w1 = (p, w2)"
    by (metis surj_pair)
  have r: "reads w w1" "reads w1 w2"
    using keepsD [OF reads_recovery_pending 1] keepsD [OF reads_pending_operation 2] by auto
  obtain v where "run_state (apply_busy E) w = (False, v)"
    using run_apply_busy [OF E(1) w(1)] .
  then have bp: "b = False" "p = Inr None"
    using 1 2 by (auto simp: apply_busy_def split: if_splits)
  have i2: "idle_with (codec E) current w2" using idle_reads [OF idle_reads [OF w(1) r(1)] r(2)] .
  obtain w3 where 3: "run_state (accepted_desired E) w2 = (Inr current, w3)" "files w3 = files w2"
    using run_accepted_desired [OF E(1) i2] .
  have i3: "idle_with (codec E) current w3"
    using idle_reads [OF i2 keepsD [OF reads_accepted_desired 3(1)]] .
  have "files w3 PREVIOUS_ACCEPTED = Some raw" using 3(2) r prev(1) by (simp add: reads_def)
  then obtain w4 where 4: "run_state (read_text E PREVIOUS_ACCEPTED) w3 = (Inr (Some raw), w4)"
    using gives_read_text [OF E(1) _ prev(2)] by metis
  have i4: "idle_with (codec E) current w4"
    using idle_reads [OF i3 keepsD [OF reads_read_text 4]] .
  have "desired_of_json (codec E) input = Inr previous" using law prev(6) by (auto simp: lawful_def)
  from apply_desired_outcome [OF E i4 _ this st, of "Some (revision current)"]
  have "reply_outcome (fst (run_state (apply_desired_request E input (Some (revision current)) actor None
      Recovery_restore) w4)) = Some ''accepted''"
    by (simp add: expected_outcome_def)
  then show ?thesis
    using 1 2 3 4 bp w(2) prev(3-6)
    by (simp add: restore_previous_request_def restore_predecessor_of_def file_exists_def not_le)
qed

section \<open>Properties\<close>

text \<open>
  On a machine where nothing fails, an administrator who confirms the pending revision by
  its number and token before the deadline gets it accepted, whatever else the request
  and the files hold: none of the checks refuses such a request, and none of the five writes
  of the commit fails.
\<close>

theorem confirm_succeeds:
  assumes "faultless E" and "encodes (codec E)" and "waits_with (codec E) op w"
    and "proposed op = Some st" and "deadline_boot_ns op = Some deadline" and "before E deadline"
    and "get_u64 request ''revision'' = Some (revision st)"
    and "get_str request ''confirmation_id'' = Some token" and "confirmation_id op = Some token"
    and "get_principal (codec E) request ''confirming'' = Some who"
  shows "reply_outcome (fst (run_state (confirm_apply E request) w)) = Some ''accepted''"
  by (rule confirm_apply_accepts) (fact assms)+

text \<open>
  An interrupted apply is recovered: on a machine where nothing fails, a journal in any
  phase but Accepted leads back to its Accepted revision, the guard is lifted, no journal is
  left, and the next start restores the state the journal held.
\<close>

theorem recovery_succeeds:
  assumes "faultless E" and "encodes (codec E)" and "answers E bytes" and "lawful (codec E)" and "trail w = []"
    and "interrupted_with (codec E) op w" and "files w APPLY_PREVIOUS = None"
    and "validate (base64 (codec E)) (accepted op) = Inr ()" and "lan_host_known (accepted op)"
  shows "\<exists>w'. run_state (recover_interrupted_apply E) w = (Inr (revision (accepted op)), w')
    \<and> \<not> recovery_required w' \<and> files w' APPLY_OPERATION = None
    \<and> refreshed (boot_state (codec E) (files w)) (boot_state (codec E) (files w'))"
proof -
  let ?c = "codec E" and ?x = "boot_state (codec E) (files w)"
  obtain w' where run: "run_state (recover_interrupted_apply E) w = (Inr (revision (accepted op)), w')"
    using recover_interrupted_succeeds [OF assms(1-3,6,8,9)] .
  have "recoverable ?x ?c (jcore w)"
    using assms(7) by (simp add: recoverable_def single_journal_def core_at boot_state_core)
  from recover_interrupted_apply_run [OF run assms(4) this recovering_trail [OF assms(5)]]
  have "recovered (\<lambda>_. False) ?x ?c (Inr (revision (accepted op))) w'" .
  then show ?thesis
    using run by (auto simp: recovered_def recoverable_def core_at boot_state_core)
qed

end
