(* ===== verification/Confirm_Sample.thy ===== *)
theory Confirm_Sample
  imports Sample Confirm_Success
begin

text \<open>
  The properties of confirming, recovering and restoring on the sample machine: an appliance
  whose sample revision waits for confirmation, and one that keeps a previous revision.
\<close>

section \<open>A revision that waits\<close>

definition sample_pending_operation :: apply_operation where
  "sample_pending_operation =
     \<lparr> phase = Pending_confirmation, accepted = confirmed_state, previous_accepted = None,
       previous_attribution = None, proposed = Some (sample_state\<lparr>revision := 5\<rparr>),
       confirmation_id = Some ''t1'', op_applying = Some operator, op_draft_version = None,
       deadline_boot_ns = Some 8000000000, expires_at_unix_ms = Some 9 \<rparr>"

definition waiting_world :: "unit world" where
  "waiting_world =
     \<lparr> files = [DESIRED \<mapsto> unary confirmed_state, APPLY_OPERATION \<mapsto> unary sample_pending_operation],
       recovery_required = False, trail = [], calls = [], outside = () \<rparr>"

definition confirmation :: json where
  "confirmation = JObj [(''revision'', JNum 5), (''confirmation_id'', JStr ''t1''), (''confirming'', JStr (unary operator))]"

lemma confirmation_fields:
  "get_u64 confirmation ''revision'' = Some 5" "get_str confirmation ''confirmation_id'' = Some ''t1''"
  "get_principal unary_codecs confirmation ''confirming'' = Some operator"
  by (simp_all add: confirmation_def get_u64_def get_str_def get_principal_def jget_def jnum_def jstr_def ok_opt_def
      unary_codecs_def unary_json_def)

lemma waiting_tidy: "tidy waiting_world"
  using journal_lasting by (auto simp: tidy_def waiting_world_def lasting_def journal_paths_def)

lemma waiting_previous: "files waiting_world APPLY_PREVIOUS = None" "trail waiting_world = []"
  using journal_neq by (simp_all add: waiting_world_def)

lemma waiting_journal:
  "files waiting_world APPLY_OPERATION = Some (unary sample_pending_operation)"
  "operation_of_text unary_codecs (unary op) = Inr op"
  using journal_neq by (simp_all add: waiting_world_def unary_codecs_def)

lemma waiting: "waits_with unary_codecs sample_pending_operation waiting_world"
  using waiting_tidy waiting_previous waiting_journal
  by (auto simp: waits_with_def) (simp_all add: waiting_world_def sample_pending_operation_def)

lemma sample_before: "before sample_env 8000000000"
  unfolding before_def by (simp add: sample_env_def saturating_mul_def saturating_add_def)

lemma waiting_parts:
  "proposed sample_pending_operation = Some (sample_state\<lparr>revision := 5\<rparr>)"
  "deadline_boot_ns sample_pending_operation = Some 8000000000"
  "confirmation_id sample_pending_operation = Some ''t1''" "phase sample_pending_operation = Pending_confirmation"
  "accepted sample_pending_operation = confirmed_state" "op_applying sample_pending_operation = Some operator"
  by (simp_all add: sample_pending_operation_def)

definition sample_confirmation :: "json \<times> unit world" where
  "sample_confirmation = run_state (confirm_apply sample_env confirmation) waiting_world"

lemma confirmation_run:
  "run_state (confirm_apply sample_env confirmation) waiting_world = (fst sample_confirmation, snd sample_confirmation)"
  by (simp add: sample_confirmation_def)

lemma confirmation_accepted: "reply_outcome (fst sample_confirmation) = Some ''accepted''"
  unfolding sample_confirmation_def
  using confirm_apply_accepts [OF sample_faultless _ _ waiting_parts(1,2) sample_before _ _ waiting_parts(3)]
    unary_encodes waiting confirmation_fields by simp

theorem confirm_succeeds_witness:
  "reply_outcome (fst (run_state (confirm_apply sample_env confirmation) waiting_world)) = Some ''accepted''"
  using confirm_succeeds [OF sample_faultless _ _ waiting_parts(1,2) sample_before _ _ waiting_parts(3)]
    unary_encodes waiting confirmation_fields by simp


theorem confirm_accepts_the_pending_witness:
  "\<exists>ta tt attribution. boot_state unary_codecs (files (snd sample_confirmation))
        = Some (normal_revision (sample_state\<lparr>revision := 5\<rparr>), Some ta, Some tt)
     \<and> attribution_of_text unary_codecs tt = Inr attribution
     \<and> attr_applying attribution = Some operator \<and> attr_confirming attribution = Some operator"
proof -
  from confirm_accepts_the_pending [OF confirmation_run sample_codecs_lawful waiting_previous(2) confirmation_accepted]
  obtain raw op st who ta tt attribution where n: "files waiting_world APPLY_OPERATION = Some raw"
    "operation_of_text unary_codecs raw = Inr op" "names_pending sample_env confirmation op st who"
    "boot_state unary_codecs (files (snd sample_confirmation)) = Some (normal_revision st, Some ta, Some tt)"
    "attribution_of_text unary_codecs tt = Inr attribution" "attr_applying attribution = op_applying op"
    "attr_confirming attribution = Some who" by auto
  have "op = sample_pending_operation"
    using n(1,2) waiting_journal(1) waiting_journal(2) [of sample_pending_operation] by auto
  then show ?thesis
    using n(3-) waiting_parts confirmation_fields(3) by (auto simp: names_pending_def)
qed

section \<open>An interrupted apply\<close>

lemma confirmed_valid: "validate (base64 unary_codecs) confirmed_state = Inr ()" "lan_host_known confirmed_state"
proof -
  have "validate (\<lambda>_. None) confirmed_state = Inr ()" by code_simp
  then show "validate (base64 unary_codecs) confirmed_state = Inr ()" by (simp add: unary_codecs_def)
  show "lan_host_known confirmed_state" by code_simp
qed

lemma waiting_interrupted: "interrupted_with unary_codecs sample_pending_operation waiting_world"
  using waiting_tidy waiting_journal waiting_parts(4) by (auto simp: interrupted_with_def)

theorem recovery_succeeds_witness:
  "\<exists>w'. run_state (recover_interrupted_apply sample_env) waiting_world = (Inr (revision confirmed_state), w')
     \<and> \<not> recovery_required w' \<and> files w' APPLY_OPERATION = None"
  using recovery_succeeds [OF sample_faultless _ sample_answers sample_codecs_lawful waiting_previous(2) _ waiting_previous(1),
      of sample_pending_operation]
    unary_encodes waiting_interrupted confirmed_valid waiting_parts(5) by auto


section \<open>A previous revision\<close>

definition kept_world :: "unit world" where
  "kept_world =
     \<lparr> files = [DESIRED \<mapsto> unary (sample_state\<lparr>revision := 5\<rparr>), PREVIOUS_ACCEPTED \<mapsto> unary sample_state,
         BOOTSTRAPPED \<mapsto> ''ok''],
       recovery_required = False, trail = [], calls = [], outside = () \<rparr>"

lemma kept_paths:
  "BOOTSTRAPPED \<notin> {DESIRED, PREVIOUS_ACCEPTED, APPLY_OPERATION, APPLY_PREVIOUS, APPLY_ATTRIBUTION}" "\<not> is_temp BOOTSTRAPPED"
  by code_simp+

lemma kept_files:
  "files kept_world DESIRED = Some (unary (sample_state\<lparr>revision := 5\<rparr>))"
  "files kept_world PREVIOUS_ACCEPTED = Some (unary sample_state)" "files kept_world BOOTSTRAPPED \<noteq> None"
  "files kept_world APPLY_OPERATION = None" "files kept_world APPLY_PREVIOUS = None"
  "files kept_world APPLY_ATTRIBUTION = None" "trail kept_world = []" "\<not> recovery_required kept_world"
  using journal_neq kept_paths(1) by (auto simp: kept_world_def)

lemma kept_tidy: "tidy kept_world"
  using journal_lasting kept_paths(2) by (auto simp: tidy_def kept_world_def lasting_def journal_paths_def)

lemma unary_toml: "desired_of_toml unary_codecs (unary st) = Inr st" "json_of_desired unary_codecs st = Inr (JStr (unary st))"
  by (simp_all add: unary_codecs_def)

lemma kept_idle: "idle_with unary_codecs (sample_state\<lparr>revision := 5\<rparr>) kept_world"
  using kept_tidy kept_files unary_toml unary_utf8 by (auto simp: idle_with_def)

lemma sample_revision: "revision sample_state = 1"
  by code_simp

definition sample_restore :: "json \<times> unit world" where
  "sample_restore = run_state (restore_previous_request sample_env (Some operator)) kept_world"

lemma restore_run:
  "run_state (restore_previous_request sample_env (Some operator)) kept_world = (fst sample_restore, snd sample_restore)"
  by (simp add: sample_restore_def)

lemma restore_accepted: "reply_outcome (fst sample_restore) = Some ''accepted''"
  unfolding sample_restore_def
  using restore_previous_accepts [OF sample_faultless _ sample_answers sample_codecs_lawful _ kept_files(3,2) unary_utf8
      _ _ _ _ _ sample_lan_host, of "sample_state\<lparr>revision := 5\<rparr>" "JStr (unary sample_state)" "Some operator"]
    unary_encodes kept_idle unary_toml sample_revision sample_valid by simp

theorem restore_previous_is_next_revision_witness:
  "\<exists>st ta tt. boot_state unary_codecs (files (snd sample_restore)) = Some (st, Some ta, Some tt)
     \<and> only_addresses (sample_state\<lparr>revision := 6\<rparr>) st"
proof -
  have "boot_state unary_codecs (files kept_world) = Some (sample_state\<lparr>revision := 5\<rparr>, Some (unary sample_state), None)"
    using kept_files unary_toml by (simp add: boot_state_def desired_file_def normal_revision_def)
  then show ?thesis
    using restore_previous_is_next_revision [OF restore_run sample_codecs_lawful kept_files(7) restore_accepted]
      unary_toml by auto
qed

lemma run_preserve:
  "\<exists>w'. run_state (preserve_pre_update sample_env) kept_world = (reply_ok [(''revision'', jword 5)], w')"
proof -
  obtain v where "run_state (apply_busy sample_env) kept_world = (False, v)"
    using run_apply_busy [OF sample_faultless, of "sample_state\<lparr>revision := 5\<rparr>" kept_world] kept_idle by auto
  then obtain w1 where 1: "run_state (recovery_pending sample_env) kept_world = (False, w1)"
    by (auto simp: apply_busy_def split: prod.splits if_splits)
  have i1: "idle_with unary_codecs (sample_state\<lparr>revision := 5\<rparr>) w1"
    using idle_reads [OF kept_idle keepsD [OF reads_recovery_pending 1]] .
  obtain w2 where 2: "run_state (accepted_desired sample_env) w1 = (Inr (sample_state\<lparr>revision := 5\<rparr>), w2)" "tidy w2"
    using run_accepted_desired [OF sample_faultless, of "sample_state\<lparr>revision := 5\<rparr>" w1] i1 by auto
  have "fine (persist_at sample_env PRE_UPDATE_ACCEPTED (sample_state\<lparr>revision := 5\<rparr>))"
    using fine_persist_at [OF sample_faultless update_paths(3)] unary_encodes by (simp add: encodes_def)
  from run_fine [OF this 2(2)] obtain w3 where
    3: "run_state (persist_at sample_env PRE_UPDATE_ACCEPTED (sample_state\<lparr>revision := 5\<rparr>)) w2 = (Inr (), w3)" "tidy w3"
    by auto
  from run_fine [OF fine_durable_remove [OF sample_faultless] 3(2)] obtain w4 where
    4: "run_state (durable_remove sample_env NETWORK_RESTORATION) w3 = (Inr (), w4)" by fastforce
  show ?thesis
    using 1 2 3 4 kept_files(3) by (simp add: preserve_pre_update_def file_exists_def run_tryE)
qed

theorem preserve_keeps_accepted_witness:
  "\<exists>t. files (snd (run_state (preserve_pre_update sample_env) kept_world)) PRE_UPDATE_ACCEPTED = Some t
     \<and> desired_of_toml unary_codecs t = Inr (sample_state\<lparr>revision := 5\<rparr>)"
proof -
  obtain w' where run: "run_state (preserve_pre_update sample_env) kept_world = (reply_ok [(''revision'', jword 5)], w')"
    using run_preserve by blast
  have "desired_file unary_codecs (files kept_world DESIRED) = Some (sample_state\<lparr>revision := 5\<rparr>)"
    using kept_files unary_toml by (simp add: desired_file_def normal_revision_def)
  then show ?thesis
    using preserve_keeps_accepted [OF run sample_codecs_lawful] run by auto
qed

theorem accepted_draft_is_found_witness:
  "attribution_matches (operator\<lparr>prin_username := ''alicia''\<rparr>) ''v2'' 2
      \<lparr> attr_revision = 2, attr_applying = Some operator, attr_confirming = None, attr_draft_version = None,
        draft_receipts = [\<lparr> owner = operator, version = ''v2'', accepted_revision = 2 \<rparr>] \<rparr>"
proof -
  have "accepted_draft_receipts unary_codecs None 1 (Some operator) (Some ''v2'') 2 =
      Inr [\<lparr> owner = operator, version = ''v2'', accepted_revision = 2 \<rparr>]"
    by (simp add: accepted_draft_receipts_def add_receipt_def upsert_draft_receipt_def)
  from accepted_draft_is_found [OF this] show ?thesis by (simp add: same_owner_def)
qed

end
