(* ===== verification/Identity.thy ===== *)
theory Identity
  imports Durable Serde "HOL-Library.Char_ord" "HOL-Library.List_Lexorder"
begin

text \<open>
  The Identity configuration (\<open>src/identity.rs\<close>): local accounts, who is authenticated and
  who is authorized, and the operations on accounts. libxcrypt's \<open>crypt\<close> and its salt are
  parameters, as is serde's reading and writing of the configuration; the account lock
  only orders the operations, which are single steps here.
\<close>

section \<open>The configuration\<close>

datatype assurance = Password | Multi_factor

text \<open>\<open>derive(PartialOrd, Ord)\<close> orders the variants as they are declared.\<close>

instantiation assurance :: linorder
begin

definition less_eq_assurance :: "assurance \<Rightarrow> assurance \<Rightarrow> bool" where
  "less_eq_assurance a b \<longleftrightarrow> a = Password \<or> b = Multi_factor"

definition less_assurance :: "assurance \<Rightarrow> assurance \<Rightarrow> bool" where
  "less_assurance a b \<longleftrightarrow> a = Password \<and> b = Multi_factor"

instance
proof
  fix a b c :: assurance
  show "a < b \<longleftrightarrow> a \<le> b \<and> \<not> b \<le> a"
    by (cases a; cases b) (simp_all add: less_eq_assurance_def less_assurance_def)
  show "a \<le> a" by (cases a) (simp_all add: less_eq_assurance_def)
  show "a \<le> b \<Longrightarrow> b \<le> c \<Longrightarrow> a \<le> c"
    by (cases a; cases b; cases c) (simp_all add: less_eq_assurance_def)
  show "a \<le> b \<Longrightarrow> b \<le> a \<Longrightarrow> a = b"
    by (cases a; cases b) (simp_all add: less_eq_assurance_def)
  show "a \<le> b \<or> b \<le> a" by (cases a; cases b) (simp_all add: less_eq_assurance_def)
qed

end

record authentication =
  auth_principal :: principal
  auth_assurance :: assurance
  auth_version :: u64

datatype authentication_result =
    Authenticated authentication
  | Challenge string assurance
  | Denied

datatype source_kind = Local_password

record auth_source =
  source_id :: string
  source_kind :: source_kind

record local_account =
  subject :: string
  source :: string
  username :: string
  password_hash :: string
  credential_version :: u64
  administrator :: bool

record identity_configuration =
  config_version :: u32
  sources :: "auth_source list"
  required_assurance :: assurance
  accounts :: "local_account list"

definition LOCAL_SOURCE :: string where "LOCAL_SOURCE = ''local''"
definition IDENTITY_FILE :: string where "IDENTITY_FILE = ''/var/lib/fwos/identity.json''"
definition OWNED_FILE :: string where "OWNED_FILE = ''/var/lib/fwos/bootstrapped''"

text \<open>The machine with libxcrypt and the codec of the configuration.\<close>

record 'k identity_env =
  machine :: "'k env"
  crypt :: "string \<Rightarrow> string \<Rightarrow> string option"
  gensalt :: "'k \<Rightarrow> string option \<times> 'k"
  text_of_config :: "identity_configuration \<Rightarrow> string res"
  config_of_text :: "string \<Rightarrow> identity_configuration res"

section \<open>Names and passwords\<close>

definition username_char :: "char \<Rightarrow> bool" where
  "username_char c \<longleftrightarrow> ascii_lower c \<or> ascii_digit c \<or> c = CHR ''_'' \<or> c = CHR ''-''"

definition valid_username :: "string \<Rightarrow> bool" where
  "valid_username name =
     (case name of
        [] \<Rightarrow> False
      | first # rest \<Rightarrow>
          (ascii_lower first \<or> first = CHR ''_'') \<and> length name \<le> 32 \<and> name \<noteq> ''root''
          \<and> list_all username_char rest)"

definition valid_password :: "string \<Rightarrow> bool" where
  "valid_password pw \<longleftrightarrow> pw \<noteq> [] \<and> length pw \<le> 511 \<and> \<not> list_ex ascii_control pw"

definition YESCRYPT :: string where "YESCRYPT = ''$y$''"

definition is_yescrypt :: "string \<Rightarrow> bool" where
  "is_yescrypt h = starts_with YESCRYPT h"

text \<open>\<open>CString::new\<close> refuses a NUL.\<close>

definition has_nul :: "string \<Rightarrow> bool" where
  "has_nul s = list_ex (\<lambda>c. c = CHR 0x00) s"

definition crypt_password :: "'k identity_env \<Rightarrow> string \<Rightarrow> string \<Rightarrow> string res" where
  "crypt_password X pw setting =
     thenE (failIf (has_nul pw) ''invalid password'')
    (thenE (failIf (has_nul setting) ''invalid password hash'')
    (case crypt X pw setting of
       None \<Rightarrow> Inl ''password hashing failed''
     | Some encoded \<Rightarrow> if is_yescrypt encoded then Inr encoded else Inl ''password hashing failed''))"

definition hash_password :: "'k identity_env \<Rightarrow> string \<Rightarrow> ('k, string) io" where
  "hash_password X pw = do {
     setting \<leftarrow> asks (gensalt X);
     (case setting of
        None \<Rightarrow> errE ''generate password salt''
      | Some s \<Rightarrow> ret (crypt_password X pw s)) }"

text \<open>\<open>eq_ct\<close>: the difference of every pair of bytes is collected.\<close>

fun difference :: "u8 \<Rightarrow> string \<Rightarrow> string \<Rightarrow> u8" where
  "difference d (a # as) (b # bs) = difference (or d (xor (of_nat (byte a)) (of_nat (byte b)))) as bs"
| "difference d _ _ = d"

definition eq_ct :: "string \<Rightarrow> string \<Rightarrow> bool" where
  "eq_ct a b \<longleftrightarrow> length a = length b \<and> difference 0 a b = 0"

section \<open>Reading and writing\<close>

fun sources_ok :: "string list \<Rightarrow> auth_source list \<Rightarrow> bool" where
  "sources_ok seen [] = True"
| "sources_ok seen (s # ss) =
     (source_id s \<noteq> [] \<and> source_id s \<notin> set seen \<and> sources_ok (source_id s # seen) ss)"

definition account_ok :: "string list \<Rightarrow> local_account \<Rightarrow> bool" where
  "account_ok ids a \<longleftrightarrow>
     source a \<in> set ids \<and> subject a \<noteq> [] \<and> valid_username (username a)
     \<and> credential_version a \<noteq> 0 \<and> is_yescrypt (password_hash a)"

fun accounts_ok ::
    "string list \<Rightarrow> (string \<times> string) list \<Rightarrow> (string \<times> string) list \<Rightarrow> local_account list \<Rightarrow> bool" where
  "accounts_ok ids subjects usernames [] = True"
| "accounts_ok ids subjects usernames (a # as) =
     (account_ok ids a \<and> (source a, subject a) \<notin> set subjects \<and> (source a, username a) \<notin> set usernames
      \<and> accounts_ok ids ((source a, subject a) # subjects) ((source a, username a) # usernames) as)"

definition check_config :: "identity_configuration \<Rightarrow> unit res" where
  "check_config cfg =
     thenE (failIf (config_version cfg \<noteq> 1) ''unsupported Identity configuration version'')
    (thenE (failIf (\<not> sources_ok [] (sources cfg)) ''invalid Authentication sources'')
           (failIf (\<not> accounts_ok (map source_id (sources cfg)) [] [] (accounts cfg)) ''invalid local accounts''))"

definition read_config :: "'k identity_env \<Rightarrow> ('k, identity_configuration) io" where
  "read_config X = do {
     r \<leftarrow> read_file (machine X) IDENTITY_FILE;
     (case r of
        Inr (Some raw) \<Rightarrow>
          (case config_of_text X raw of
             Inl _ \<Rightarrow> errE ''Identity configuration invalid''
           | Inr cfg \<Rightarrow> seqE (liftE (check_config cfg)) (okE cfg))
      | _ \<Rightarrow> errE ''Identity configuration unavailable'') }"

definition write_all :: "'k env \<Rightarrow> string \<Rightarrow> string \<Rightarrow> ('k, unit) io" where
  "write_all E path bytes = do {
     e \<leftarrow> fault E (Overwrite path);
     (case e of
        Some (err, n) \<Rightarrow> do { set_file path (Some (take n bytes)); errE err }
      | None \<Rightarrow> do { set_file path (Some bytes); okE () }) }"

definition publish_config :: "'k env \<Rightarrow> string \<Rightarrow> string \<Rightarrow> ('k, unit) io" where
  "publish_config E temp raw =
     seqE (map_err (\<lambda>_. ''create Identity configuration'') (create_new E temp))
    (seqE (map_err (\<lambda>_. ''write Identity configuration'') (write_all E temp raw))
    (seqE (map_err (\<lambda>_. ''persist Identity configuration'') (simple_op E (Persist temp)))
    (seqE (map_err (\<lambda>_. ''publish Identity configuration'') (rename_file E temp IDENTITY_FILE))
          (map_err (\<lambda>_. ''persist Identity directory'') (simple_op E (Sync_dir (parent_dir IDENTITY_FILE)))))))"

definition identity_temp :: "string \<Rightarrow> string" where
  "identity_temp token = parent_dir IDENTITY_FILE @ ''/.identity-'' @ token @ ''.tmp''"

definition write_configuration :: "'k identity_env \<Rightarrow> identity_configuration \<Rightarrow> ('k, unit) io" where
  "write_configuration X cfg =
     (case text_of_config X cfg of
        Inl _ \<Rightarrow> errE ''encode Identity configuration''
      | Inr raw \<Rightarrow>
          seqE (map_err (\<lambda>_. ''create Identity directory'')
                  (simple_op (machine X) (Make_dir (parent_dir IDENTITY_FILE))))
         (tryE (random_token (machine X)) (\<lambda>token. do {
            result \<leftarrow> publish_config (machine X) (identity_temp token) raw;
            (if is_ok result then ret result
             else do { unlink_file (machine X) (identity_temp token); ret result }) })))"

section \<open>The first administrator\<close>

definition is_local_admin :: "local_account \<Rightarrow> bool" where
  "is_local_admin a \<longleftrightarrow> source a = LOCAL_SOURCE \<and> administrator a"

definition first_local_administrator_subject :: "identity_configuration \<Rightarrow> string option" where
  "first_local_administrator_subject cfg = map_option subject (List.find is_local_admin (accounts cfg))"

definition tentative_first_administrator_subject :: "'k identity_env \<Rightarrow> ('k world, string option) state" where
  "tentative_first_administrator_subject X = do {
     r \<leftarrow> read_config X;
     ret (case r of Inl _ \<Rightarrow> None | Inr cfg \<Rightarrow> first_local_administrator_subject cfg) }"

definition tentative_first_administrator_exists :: "'k identity_env \<Rightarrow> ('k world, bool) state" where
  "tentative_first_administrator_exists X = do {
     s \<leftarrow> tentative_first_administrator_subject X; ret (s \<noteq> None) }"

definition new_account :: "string \<Rightarrow> string \<Rightarrow> string \<Rightarrow> local_account" where
  "new_account token name hash =
     \<lparr> subject = token, source = LOCAL_SOURCE, username = name, password_hash = hash,
       credential_version = 1, administrator = True \<rparr>"

definition first_configuration :: "local_account \<Rightarrow> identity_configuration" where
  "first_configuration a =
     \<lparr> config_version = 1, sources = [\<lparr> source_id = LOCAL_SOURCE, source_kind = Local_password \<rparr>],
       required_assurance = Password, accounts = [a] \<rparr>"

definition create_first_administrator :: "'k identity_env \<Rightarrow> string \<Rightarrow> string \<Rightarrow> ('k, unit) io" where
  "create_first_administrator X name pw = do {
     owned \<leftarrow> file_exists OWNED_FILE;
     (if owned then errE ''already bootstrapped''
      else if \<not> valid_username name \<or> \<not> valid_password pw then errE ''invalid administrator credentials''
      else tryE (random_token (machine X)) (\<lambda>token.
           tryE (hash_password X pw) (\<lambda>hash.
           write_configuration X (first_configuration (new_account token name hash))))) }"

section \<open>Authentication and authorization\<close>

text \<open>The hash for unknown accounts is made once in a process: \<open>cache\<close> is its cell.\<close>

definition unknown_account_hash ::
    "'k identity_env \<Rightarrow> string res option \<Rightarrow> ('k world, string res) state" where
  "unknown_account_hash X cache =
     (case cache of Some r \<Rightarrow> ret r | None \<Rightarrow> hash_password X ''FWOS unmapped identity'')"

definition verified ::
    "identity_configuration \<Rightarrow> string \<Rightarrow> local_account option \<Rightarrow> bool \<Rightarrow> authentication_result" where
  "verified cfg src account matches =
     (if \<not> matches then Denied
      else case account of
        None \<Rightarrow> Denied
      | Some a \<Rightarrow>
          if Password < required_assurance cfg then Challenge src (required_assurance cfg)
          else Authenticated
            \<lparr> auth_principal = \<lparr> prin_source = src, prin_subject = subject a, prin_username = username a \<rparr>,
              auth_assurance = Password, auth_version = credential_version a \<rparr>)"

definition authenticate ::
    "'k identity_env \<Rightarrow> string res option \<Rightarrow> string \<Rightarrow> string \<Rightarrow> string
     \<Rightarrow> ('k world, authentication_result \<times> string res option) state" where
  "authenticate X cache src name pw = do {
     owned \<leftarrow> file_exists OWNED_FILE;
     (if \<not> owned \<or> \<not> valid_password pw then ret (Denied, cache)
      else do {
        r \<leftarrow> read_config X;
        (case r of
           Inl _ \<Rightarrow> ret (Denied, cache)
         | Inr cfg \<Rightarrow>
             (case List.find (\<lambda>s. source_id s = src) (sources cfg) of
                None \<Rightarrow> ret (Denied, cache)
              | Some provider \<Rightarrow> do {
                  dummy \<leftarrow> unknown_account_hash X cache;
                  (case dummy of
                     Inl _ \<Rightarrow> ret (Denied, Some dummy)
                   | Inr unknown \<Rightarrow>
                       (let account = List.find (\<lambda>a. source a = src \<and> username a = name) (accounts cfg);
                            expected = (case account of Some a \<Rightarrow> password_hash a | None \<Rightarrow> unknown) in
                        case crypt_password X pw expected of
                          Inl _ \<Rightarrow> ret (Denied, Some dummy)
                        | Inr candidate \<Rightarrow>
                            ret (verified cfg src account (eq_ct candidate expected), Some dummy))) })) }) }"

definition holds_grant :: "authentication \<Rightarrow> local_account \<Rightarrow> bool" where
  "holds_grant t a \<longleftrightarrow>
     source a = prin_source (auth_principal t) \<and> subject a = prin_subject (auth_principal t)
     \<and> username a = prin_username (auth_principal t) \<and> credential_version a = auth_version t
     \<and> administrator a"

definition authorized_in :: "identity_configuration \<Rightarrow> authentication \<Rightarrow> bool" where
  "authorized_in cfg t \<longleftrightarrow>
     required_assurance cfg \<le> auth_assurance t
     \<and> list_ex (\<lambda>s. source_id s = prin_source (auth_principal t)) (sources cfg)
     \<and> list_ex (holds_grant t) (accounts cfg)"

definition authorize_administrator :: "'k identity_env \<Rightarrow> authentication \<Rightarrow> ('k world, bool) state" where
  "authorize_administrator X t = do {
     owned \<leftarrow> file_exists OWNED_FILE;
     (if \<not> owned then ret False
      else do {
        r \<leftarrow> read_config X;
        ret (case r of Inl _ \<Rightarrow> False | Inr cfg \<Rightarrow> authorized_in cfg t) }) }"

section \<open>Accounts\<close>

datatype account_error =
    Forbidden | Invalid_credentials | Already_exists | Not_found | Last_administrator | Storage

type_synonym ('k, 'a) account_op = "('k world, account_error + 'a) state"

text \<open>Every operation starts alike: owned, a readable configuration, an administrator.\<close>

definition as_administrator ::
    "'k identity_env \<Rightarrow> authentication \<Rightarrow> (identity_configuration \<Rightarrow> ('k, 'a) account_op) \<Rightarrow> ('k, 'a) account_op" where
  "as_administrator X t f = do {
     owned \<leftarrow> file_exists OWNED_FILE;
     (if \<not> owned then ret (Inl Forbidden)
      else do {
        r \<leftarrow> read_config X;
        (case r of
           Inl _ \<Rightarrow> ret (Inl Storage)
         | Inr cfg \<Rightarrow> if authorized_in cfg t then f cfg else ret (Inl Forbidden)) }) }"

definition or_storage :: "('k, 'a) io \<Rightarrow> ('k, 'a) account_op" where
  "or_storage m = do { r \<leftarrow> m; ret (case r of Inl _ \<Rightarrow> Inl Storage | Inr a \<Rightarrow> Inr a) }"

definition list_local_administrators ::
    "'k identity_env \<Rightarrow> authentication \<Rightarrow> ('k, string list) account_op" where
  "list_local_administrators X t = as_administrator X t (\<lambda>cfg.
     ret (Inr (sort (map username (filter is_local_admin (accounts cfg))))))"

definition add_administrator ::
    "'k identity_env \<Rightarrow> string \<Rightarrow> string \<Rightarrow> identity_configuration \<Rightarrow> ('k, unit) account_op" where
  "add_administrator X name pw cfg =
     (if \<not> list_ex (\<lambda>s. source_id s = LOCAL_SOURCE \<and> source_kind s = Local_password) (sources cfg)
      then ret (Inl Storage)
      else if list_ex (\<lambda>a. source a = LOCAL_SOURCE \<and> username a = name) (accounts cfg)
      then ret (Inl Already_exists)
      else or_storage
        (tryE (random_token (machine X)) (\<lambda>token.
         tryE (hash_password X pw) (\<lambda>hash.
         write_configuration X (cfg\<lparr> accounts := accounts cfg @ [new_account token name hash] \<rparr>)))))"

definition create_local_administrator ::
    "'k identity_env \<Rightarrow> authentication \<Rightarrow> string \<Rightarrow> string \<Rightarrow> ('k, unit) account_op" where
  "create_local_administrator X t name pw =
     (if \<not> valid_username name \<or> \<not> valid_password pw then ret (Inl Invalid_credentials)
      else as_administrator X t (add_administrator X name pw))"

definition names_admin :: "string \<Rightarrow> local_account \<Rightarrow> bool" where
  "names_admin name a \<longleftrightarrow> source a = LOCAL_SOURCE \<and> username a = name \<and> administrator a"

definition set_password ::
    "'k identity_env \<Rightarrow> string \<Rightarrow> string \<Rightarrow> identity_configuration \<Rightarrow> ('k, unit) account_op" where
  "set_password X name pw cfg =
     (case position (names_admin name) (accounts cfg) of
        None \<Rightarrow> ret (Inl Not_found)
      | Some i \<Rightarrow>
          (let a = accounts cfg ! i in
           if credential_version a = - 1 then ret (Inl Storage)
           else or_storage
             (tryE (hash_password X pw) (\<lambda>hash.
              write_configuration X (cfg\<lparr> accounts := (accounts cfg)
                [i := a\<lparr> password_hash := hash, credential_version := credential_version a + 1 \<rparr>] \<rparr>)))))"

definition change_local_administrator_password ::
    "'k identity_env \<Rightarrow> authentication \<Rightarrow> string \<Rightarrow> string \<Rightarrow> ('k, unit) account_op" where
  "change_local_administrator_password X t name pw =
     (if \<not> valid_password pw then ret (Inl Invalid_credentials)
      else as_administrator X t (set_password X name pw))"

definition remove_at :: "nat \<Rightarrow> 'a list \<Rightarrow> 'a list" where
  "remove_at i xs = take i xs @ drop (Suc i) xs"

definition drop_administrator ::
    "'k identity_env \<Rightarrow> string \<Rightarrow> identity_configuration \<Rightarrow> ('k, unit) account_op" where
  "drop_administrator X name cfg =
     (case position (names_admin name) (accounts cfg) of
        None \<Rightarrow> ret (Inl Not_found)
      | Some i \<Rightarrow>
          if length (filter is_local_admin (accounts cfg)) \<le> 1 then ret (Inl Last_administrator)
          else or_storage (write_configuration X (cfg\<lparr> accounts := remove_at i (accounts cfg) \<rparr>)))"

definition remove_local_administrator ::
    "'k identity_env \<Rightarrow> authentication \<Rightarrow> string \<Rightarrow> ('k, unit) account_op" where
  "remove_local_administrator X t name = as_administrator X t (drop_administrator X name)"

end
