(* ===== verification/Identity_Properties.thy ===== *)
theory Identity_Properties
  imports Identity
begin

text \<open>
  The properties of the Identity configuration: the constant-time comparison is equality, a
  configuration the operations write is one they read again and still has an administrator,
  and no session outlives the credentials it was made with.
\<close>

section \<open>The comparison\<close>

lemma byte_word_inject: "(of_nat (byte a) :: u8) = of_nat (byte b) \<longleftrightarrow> a = b"
proof -
  have "unat (of_nat (byte c) :: u8) = byte c" for c
    by (simp add: unat_of_nat byte_def take_bit_eq_mod)
  then show ?thesis by (metis byte_def char_of_char)
qed

lemma xor_zero: "(xor (a :: u8) b = 0) \<longleftrightarrow> a = b"
  by (metis xor.assoc xor.left_neutral xor.right_neutral xor_self_eq)

lemma difference_zero:
  "length as = length bs \<Longrightarrow> difference d as bs = 0 \<longleftrightarrow> d = 0 \<and> as = bs"
proof (induction d as bs rule: difference.induct)
  case (1 d a as b bs)
  then show ?case by (auto simp: byte_word_inject or_eq_0_iff xor_zero)
qed auto

lemma eq_ct_is_equality_lemma: "eq_ct a b \<longleftrightarrow> a = b"
  by (auto simp: eq_ct_def difference_zero)

section \<open>Valid configurations\<close>

lemma sources_ok_iff:
  "sources_ok seen ss \<longleftrightarrow>
   (\<forall>s \<in> set ss. source_id s \<noteq> []) \<and> source_id ` set ss \<inter> set seen = {} \<and> distinct (map source_id ss)"
  by (induction seen ss rule: sources_ok.induct) auto

definition by_subject :: "local_account \<Rightarrow> string \<times> string" where
  "by_subject a = (source a, subject a)"

definition by_username :: "local_account \<Rightarrow> string \<times> string" where
  "by_username a = (source a, username a)"

lemma accounts_ok_iff:
  "accounts_ok ids subs names as \<longleftrightarrow>
   (\<forall>a \<in> set as. account_ok ids a)
   \<and> by_subject ` set as \<inter> set subs = {} \<and> by_username ` set as \<inter> set names = {}
   \<and> distinct (map by_subject as) \<and> distinct (map by_username as)"
proof (induction as arbitrary: subs names)
  case (Cons a as)
  show ?case
    by (simp add: Cons.IH by_subject_def [of a] by_username_def [of a]) blast
qed simp

definition valid_config :: "identity_configuration \<Rightarrow> bool" where
  "valid_config cfg \<longleftrightarrow> check_config cfg = Inr ()"

lemma valid_config_iff:
  "valid_config cfg \<longleftrightarrow>
   config_version cfg = 1 \<and> (\<forall>s \<in> set (sources cfg). source_id s \<noteq> []) \<and> distinct (map source_id (sources cfg))
   \<and> (\<forall>a \<in> set (accounts cfg). account_ok (map source_id (sources cfg)) a)
   \<and> distinct (map by_subject (accounts cfg)) \<and> distinct (map by_username (accounts cfg))"
  by (auto simp: valid_config_def check_config_def thenE_ok failIf_ok sources_ok_iff accounts_ok_iff)

definition owned_config :: "identity_configuration \<Rightarrow> bool" where
  "owned_config cfg \<longleftrightarrow> valid_config cfg \<and> (\<exists>a \<in> set (accounts cfg). is_local_admin a)"

lemma add_account_owned:
  assumes "owned_config cfg" and "account_ok (map source_id (sources cfg)) b"
    and "by_subject b \<notin> by_subject ` set (accounts cfg)" and "by_username b \<notin> by_username ` set (accounts cfg)"
  shows "owned_config (cfg\<lparr>accounts := accounts cfg @ [b]\<rparr>)"
  using assms by (auto simp: owned_config_def valid_config_iff)

lemma update_account_owned:
  assumes "owned_config cfg" and "i < length (accounts cfg)"
    and "account_ok (map source_id (sources cfg)) b"
    and "by_subject b = by_subject (accounts cfg ! i)" and "by_username b = by_username (accounts cfg ! i)"
    and "is_local_admin b"
  shows "owned_config (cfg\<lparr>accounts := (accounts cfg)[i := b]\<rparr>)"
proof -
  have "map by_subject ((accounts cfg)[i := b]) = map by_subject (accounts cfg)"
    and "map by_username ((accounts cfg)[i := b]) = map by_username (accounts cfg)"
    using assms(2,4,5) by (auto intro!: nth_equalityI simp: nth_list_update)
  moreover have "b \<in> set ((accounts cfg)[i := b])" using assms(2) by (simp add: set_update_memI)
  ultimately show ?thesis
    using assms set_update_subset_insert [of "accounts cfg" i b]
    by (fastforce simp: owned_config_def valid_config_iff)
qed

lemma map_remove_at: "map f (remove_at i xs) = remove_at i (map f xs)"
  by (simp add: remove_at_def take_map drop_map)

lemma set_remove_at: "set (remove_at i xs) \<subseteq> set xs"
  by (auto simp: remove_at_def dest: in_set_takeD in_set_dropD)

lemma distinct_remove_at: "distinct xs \<Longrightarrow> distinct (remove_at i xs)"
  unfolding remove_at_def
  using set_take_disj_set_drop_if_distinct [of xs i "Suc i"] by simp

lemma remove_admin_owned:
  assumes "owned_config cfg" and "i < length (accounts cfg)" and "1 < length (filter is_local_admin (accounts cfg))"
  shows "owned_config (cfg\<lparr>accounts := remove_at i (accounts cfg)\<rparr>)"
proof -
  let ?as = "accounts cfg"
  have "filter is_local_admin ?as = filter is_local_admin (take i ?as) @
      (if is_local_admin (?as ! i) then [?as ! i] else []) @ filter is_local_admin (drop (Suc i) ?as)"
    by (subst id_take_nth_drop [OF assms(2)]) simp
  then have "filter is_local_admin (remove_at i ?as) \<noteq> []"
    using assms(3) by (auto simp: remove_at_def split: if_splits)
  then have "\<exists>a \<in> set (remove_at i (accounts cfg)). is_local_admin a"
    by (simp add: filter_empty_conv)
  moreover have "valid_config (cfg\<lparr>accounts := remove_at i (accounts cfg)\<rparr>)"
    using assms(1) set_remove_at [of i "accounts cfg"]
    by (auto simp: owned_config_def valid_config_iff map_remove_at intro: distinct_remove_at)
  ultimately show ?thesis by (simp add: owned_config_def)
qed

section \<open>Writing the configuration\<close>

lemma identity_paths: "\<not> is_temp IDENTITY_FILE" "\<not> is_temp OWNED_FILE" "OWNED_FILE \<noteq> IDENTITY_FILE"
  by code_simp+

lemma identity_temp_is_temp: "is_temp (identity_temp token)"
  by (simp add: is_temp_def identity_temp_def)

lemma keeps_write_all:
  "is_temp t \<Longrightarrow> \<not> is_temp p \<Longrightarrow> keeps (writes p v) (write_all E t bytes)"
  unfolding write_all_def fault_def
  by (intro writes.keeps_rules keeps_asks keeps_set_temp)

lemma write_all_ok:
  "run_state (write_all E t bytes) w = (Inr u, w') \<Longrightarrow> files w' t = Some bytes"
  by (auto simp: write_all_def fault_def run_asks set_file_def set_files_def split: prod.splits option.splits)

lemma publish_config_writes:
  assumes t: "is_temp t" and run: "run_state (publish_config E t raw) w = (r, w')"
  shows "writes IDENTITY_FILE (Some raw) w w' \<and> (r = Inr () \<longrightarrow> files w' IDENTITY_FILE = Some raw)"
proof -
  let ?p = IDENTITY_FILE
  obtain r1 w1 where s1: "run_state (create_new E t) w = (r1, w1)" by fastforce
  obtain r2 w2 where s2: "run_state (write_all E t raw) w1 = (r2, w2)" by fastforce
  obtain r3 w3 where s3: "run_state (simple_op E (Persist t)) w2 = (r3, w3)" by fastforce
  obtain r4 w4 where s4: "run_state (rename_file E t ?p) w3 = (r4, w4)" by fastforce
  obtain r5 w5 where s5: "run_state (simple_op E (Sync_dir (parent_dir ?p))) w4 = (r5, w5)" by fastforce
  note trans = writes.trans [of ?p "Some raw"]
  have k1: "writes ?p (Some raw) w w1" using keeps_create_new [OF t identity_paths(1)] s1 by (rule keepsD)
  have k2: "writes ?p (Some raw) w w2"
    using trans [OF k1 keepsD [OF keeps_write_all [OF t identity_paths(1)] s2]] .
  have k3: "writes ?p (Some raw) w w3" using trans [OF k2 keepsD [OF keeps_simple_op s3]] .
  show ?thesis
  proof (cases "\<exists>a b c. r1 = Inr a \<and> r2 = Inr b \<and> r3 = Inr c")
    case True
    then have "files w3 t = Some raw"
      using s2 write_all_ok simple_op_files [OF s3] by metis
    from rename_writes [OF this t identity_paths(1) s4]
    have k4: "writes ?p (Some raw) w w4" "r4 = Inr () \<longrightarrow> files w4 ?p = Some raw" using trans [OF k3] by auto
    have k5: "writes ?p (Some raw) w w5" using trans [OF k4(1) keepsD [OF keeps_simple_op s5]] .
    show ?thesis
      using run s1 s2 s3 s4 s5 True k4 k5 simple_op_files [OF s5]
      by (auto simp: publish_config_def run_tryE run_map_err split: sum.splits)
  next
    case False
    have "w' \<in> {w1, w2, w3} \<and> r \<noteq> Inr ()"
      using run s1 s2 s3 False
      by (cases r1; cases r2; cases r3) (auto simp: publish_config_def run_tryE run_map_err)
    then show ?thesis using k1 k2 k3 by auto
  qed
qed

lemma write_configuration_writes:
  assumes run: "run_state (write_configuration X cfg) w = (r, w')"
  shows "w' = w \<and> r \<noteq> Inr () \<or> (\<exists>raw. text_of_config X cfg = Inr raw \<and> writes IDENTITY_FILE (Some raw) w w'
      \<and> (r = Inr () \<longrightarrow> files w' IDENTITY_FILE = Some raw))"
proof (cases "text_of_config X cfg")
  case (Inl e)
  then show ?thesis using run by (auto simp: write_configuration_def)
next
  case (Inr raw)
  let ?W = "writes IDENTITY_FILE (Some raw)"
  let ?E = "machine X"
  obtain r1 w1 where s1: "run_state (simple_op ?E (Make_dir (parent_dir IDENTITY_FILE))) w = (r1, w1)" by fastforce
  obtain r2 w2 where s2: "run_state (random_token ?E) w1 = (r2, w2)" by fastforce
  have k1: "?W w w1" using keeps_simple_op s1 by (rule keepsD)
  have k2: "?W w w2" using writes.trans [OF k1 keepsD [OF keeps_random_token s2]] .
  show ?thesis
  proof (cases "\<exists>u token. r1 = Inr u \<and> r2 = Inr token")
    case True
    then obtain token where tok: "r2 = Inr token" by blast
    let ?t = "identity_temp token"
    obtain r3 w3 where s3: "run_state (publish_config ?E ?t raw) w2 = (r3, w3)" by fastforce
    obtain r4 w4 where s4: "run_state (unlink_file ?E ?t) w3 = (r4, w4)" by fastforce
    note p = publish_config_writes [OF identity_temp_is_temp s3]
    have k3: "?W w w3" using writes.trans [OF k2] p by blast
    have k4: "?W w w4"
      using writes.trans [OF k3 keepsD [OF keeps_unlink_temp [OF identity_temp_is_temp identity_paths(1)] s4]] .
    have "r = r3 \<and> (w' = w3 \<or> w' = w4 \<and> r \<noteq> Inr ())"
      using run Inr s1 s2 s3 s4 True tok
      by (auto simp: write_configuration_def run_tryE run_map_err is_ok_def split: sum.splits)
    then show ?thesis using Inr k3 k4 p by auto
  next
    case False
    then have "w' \<in> {w1, w2} \<and> r \<noteq> Inr ()"
      using run Inr s1 s2 by (cases r1; cases r2) (auto simp: write_configuration_def run_tryE run_map_err)
    then show ?thesis using Inr k1 k2 by auto
  qed
qed

section \<open>Ownership of the appliance\<close>

definition lawful_config :: "'k identity_env \<Rightarrow> bool" where
  "lawful_config X \<longleftrightarrow> (\<forall>cfg t. text_of_config X cfg = Inr t \<longrightarrow> config_of_text X t = Inr cfg)"

definition stored :: "'k identity_env \<Rightarrow> files \<Rightarrow> identity_configuration option" where
  "stored X f = Option.bind (f IDENTITY_FILE) (\<lambda>raw.
     Option.bind (ok_opt (config_of_text X raw)) (\<lambda>cfg. if valid_config cfg then Some cfg else None))"

lemma read_config_run:
  assumes "run_state (read_config X) w = (r, w')"
  shows "files w' = files w \<and> trail w' = trail w \<and> (\<forall>cfg. r = Inr cfg \<longrightarrow> stored X (files w) = Some cfg)"
proof -
  obtain q k where s: "io_fault (machine X) (Read IDENTITY_FILE) (outside w) = (q, k)" by fastforce
  show ?thesis
    using assms s
    by (auto simp: read_config_def read_file_def fault_def run_asks tryE_def stored_def valid_config_def
        split: option.splits sum.splits)
qed

text \<open>A write changes what is stored to the new configuration, or not at all, in one step.\<close>

definition moves_to :: "'k identity_env \<Rightarrow> identity_configuration set \<Rightarrow> 'k world \<Rightarrow> 'k world \<Rightarrow> bool" where
  "moves_to X C w w' \<longleftrightarrow>
     (\<exists>new. trail w' = new @ trail w
        \<and> (\<forall>f \<in> set (files w' # new). f OWNED_FILE = files w OWNED_FILE
             \<and> stored X f \<in> {stored X (files w)} \<union> Some ` C))"

lemma moves_to_reads:
  "files w1 = files w \<Longrightarrow> trail w1 = trail w \<Longrightarrow> moves_to X C w1 w' \<Longrightarrow> moves_to X C w w'"
  by (simp add: moves_to_def)

lemma moves_to_same: "files w' = files w \<Longrightarrow> trail w' = trail w \<Longrightarrow> moves_to X C w w'"
  by (auto simp: moves_to_def)

lemma write_configuration_moves:
  assumes run: "run_state (write_configuration X cfg) w = (r, w')"
    and "lawful_config X" and "valid_config cfg"
  shows "moves_to X {cfg} w w'" and "r = Inr () \<Longrightarrow> stored X (files w') = Some cfg"
proof -
  have new: "stored X f = Some cfg" if "f IDENTITY_FILE = Some raw" "text_of_config X cfg = Inr raw" for f raw
    using that assms(2,3) by (simp add: stored_def lawful_config_def)
  from write_configuration_writes [OF run]
  show "moves_to X {cfg} w w'"
  proof (elim disjE exE conjE)
    fix raw assume raw: "text_of_config X cfg = Inr raw" and "writes IDENTITY_FILE (Some raw) w w'"
    then obtain new where n: "trail w' = new @ trail w"
        "\<forall>f \<in> set (files w' # new). changed_to IDENTITY_FILE (Some raw) (files w) f"
      by (auto simp: writes_def)
    have "f OWNED_FILE = files w OWNED_FILE \<and> stored X f \<in> {stored X (files w)} \<union> Some ` {cfg}"
      if "f \<in> set (files w' # new)" for f
    proof -
      have c: "changed_to IDENTITY_FILE (Some raw) (files w) f" using n(2) that by blast
      then have "f IDENTITY_FILE = files w IDENTITY_FILE \<or> f IDENTITY_FILE = Some raw"
        by (auto simp: changed_to_def)
      then have "stored X f = stored X (files w) \<or> stored X f = Some cfg"
        using new [OF _ raw] by (auto simp: stored_def)
      then show ?thesis using c identity_paths by (auto simp: changed_to_def)
    qed
    with n(1) show ?thesis unfolding moves_to_def by blast
  qed (auto intro: moves_to_same)
  show "r = Inr () \<Longrightarrow> stored X (files w') = Some cfg"
    using write_configuration_writes [OF run] new by blast
qed

section \<open>The account operations\<close>

datatype account_request =
    Create_account string string
  | Change_password string string
  | Remove_account string

definition account_request :: "'k identity_env \<Rightarrow> authentication \<Rightarrow> account_request \<Rightarrow> ('k, unit) account_op" where
  "account_request X t request =
     (case request of
        Create_account name pw \<Rightarrow> create_local_administrator X t name pw
      | Change_password name pw \<Rightarrow> change_local_administrator_password X t name pw
      | Remove_account name \<Rightarrow> remove_local_administrator X t name)"

text \<open>What each request may make of a configuration.\<close>

definition changed_by :: "identity_configuration \<Rightarrow> account_request \<Rightarrow> identity_configuration \<Rightarrow> bool" where
  "changed_by cfg request cfg' \<longleftrightarrow>
     (case request of
        Create_account name pw \<Rightarrow> \<exists>token hash. cfg' = cfg\<lparr>accounts := accounts cfg @ [new_account token name hash]\<rparr>
      | Change_password name pw \<Rightarrow> \<exists>i hash. position (names_admin name) (accounts cfg) = Some i
          \<and> credential_version (accounts cfg ! i) \<noteq> - 1
          \<and> cfg' = cfg\<lparr>accounts := (accounts cfg)[i := (accounts cfg ! i)
              \<lparr>password_hash := hash, credential_version := credential_version (accounts cfg ! i) + 1\<rparr>]\<rparr>
      | Remove_account name \<Rightarrow> \<exists>i. position (names_admin name) (accounts cfg) = Some i
          \<and> 1 < length (filter is_local_admin (accounts cfg))
          \<and> cfg' = cfg\<lparr>accounts := remove_at i (accounts cfg)\<rparr>)"

text \<open>No random token names an account that is there.\<close>

definition fresh_tokens :: "'k identity_env \<Rightarrow> identity_configuration \<Rightarrow> bool" where
  "fresh_tokens X cfg \<longleftrightarrow>
     (\<forall>w token w'. run_state (random_token (machine X)) w = (Inr token, w') \<longrightarrow>
        token \<noteq> [] \<and> (LOCAL_SOURCE, token) \<notin> by_subject ` set (accounts cfg))"

lemma random_token_files:
  "run_state (random_token E) w = (r, w') \<Longrightarrow> files w' = files w \<and> trail w' = trail w"
  by (auto simp: random_token_def run_asks split: prod.splits option.splits)

lemma hash_password_run:
  assumes "run_state (hash_password X pw) w = (r, w')"
  shows "files w' = files w \<and> trail w' = trail w \<and> (\<forall>h. r = Inr h \<longrightarrow> is_yescrypt h)"
  using assms
  by (auto simp: hash_password_def run_asks crypt_password_def thenE_ok failIf_ok
      split: prod.splits option.splits if_splits)

lemma file_exists_run [simp]: "run_state (file_exists p) w = (files w p \<noteq> None, w)"
  by (simp add: file_exists_def)

lemma as_administrator_run:
  assumes "run_state (as_administrator X t f) w = (r, w')"
  shows "files w' = files w \<and> trail w' = trail w \<and> (r = Inl Forbidden \<or> r = Inl Storage)
    \<or> (\<exists>cfg w1. files w OWNED_FILE \<noteq> None \<and> files w1 = files w \<and> trail w1 = trail w
         \<and> stored X (files w) = Some cfg \<and> authorized_in cfg t \<and> run_state (f cfg) w1 = (r, w'))"
proof -
  obtain q w1 where s: "run_state (read_config X) w = (q, w1)" by fastforce
  show ?thesis
    using assms s read_config_run [OF s]
    by (cases q) (auto simp: as_administrator_def split: if_splits)
qed

lemma or_storage_run:
  assumes "run_state (or_storage m) w = (r, w')"
  shows "\<exists>q. run_state m w = (q, w') \<and> (r = Inr a \<longleftrightarrow> q = Inr a)"
  using assms by (auto simp: or_storage_def split: prod.splits sum.splits)

definition moved :: "'k identity_env \<Rightarrow> identity_configuration \<Rightarrow> account_request \<Rightarrow> account_error + unit \<Rightarrow> 'k world \<Rightarrow> 'k world \<Rightarrow> bool" where
  "moved X cfg request r w w' \<longleftrightarrow>
     files w' = files w \<and> trail w' = trail w \<and> r \<noteq> Inr ()
     \<or> (\<exists>cfg'. changed_by cfg request cfg' \<and> owned_config cfg' \<and> moves_to X {cfg'} w w'
         \<and> (r = Inr () \<longrightarrow> stored X (files w') = Some cfg'))"

lemma stored_write:
  assumes run: "run_state (write_configuration X cfg') w1 = (q, w')" and law: "lawful_config X"
    and "owned_config cfg'" and "changed_by cfg request cfg'" and f: "files w1 = files w" "trail w1 = trail w"
    and "r = Inr () \<longleftrightarrow> q = Inr ()"
  shows "moved X cfg request r w w'"
proof -
  have v: "valid_config cfg'" using assms(3) by (simp add: owned_config_def)
  note m = write_configuration_moves [OF run law v]
  have "r = Inr () \<longrightarrow> stored X (files w') = Some cfg'" using m(2) assms(7) by simp
  with moves_to_reads [OF f m(1)] assms(3,4) show ?thesis unfolding moved_def by blast
qed

lemma create_run:
  assumes run: "run_state (or_storage
          (tryE (random_token (machine X)) (\<lambda>token.
           tryE (hash_password X pw) (\<lambda>hash.
           write_configuration X (cfg\<lparr> accounts := accounts cfg @ [new_account token name hash] \<rparr>))))) w = (r, w')"
    and law: "lawful_config X" and owned: "owned_config cfg" and fresh: "fresh_tokens X cfg"
    and src: "list_ex (\<lambda>s. source_id s = LOCAL_SOURCE \<and> source_kind s = Local_password) (sources cfg)"
    and absent: "\<not> list_ex (\<lambda>a. source a = LOCAL_SOURCE \<and> username a = name) (accounts cfg)"
    and name: "valid_username name"
  shows "moved X cfg (Create_account name pw) r w w'"
proof -
  obtain q where q: "run_state (tryE (random_token (machine X)) (\<lambda>token.
           tryE (hash_password X pw) (\<lambda>hash.
           write_configuration X (cfg\<lparr> accounts := accounts cfg @ [new_account token name hash] \<rparr>)))) w = (q, w')"
      "r = Inr () \<longleftrightarrow> q = Inr ()"
    using or_storage_run [OF run, of "()"] by (elim exE conjE) (rule that)
  obtain r1 w1 where s1: "run_state (random_token (machine X)) w = (r1, w1)" by fastforce
  obtain r2 w2 where s2: "run_state (hash_password X pw) w1 = (r2, w2)" by fastforce
  have f: "files w1 = files w" "trail w1 = trail w" "files w2 = files w" "trail w2 = trail w"
    using random_token_files [OF s1] hash_password_run [OF s2] by auto
  show ?thesis
  proof (cases "\<exists>token hash. r1 = Inr token \<and> r2 = Inr hash")
    case True
    then obtain token hash where th: "r1 = Inr token" "r2 = Inr hash" by blast
    let ?b = "new_account token name hash"
    have run3: "run_state (write_configuration X (cfg\<lparr> accounts := accounts cfg @ [?b] \<rparr>)) w2 = (q, w')"
      using q(1) s1 s2 th by (simp add: run_tryE)
    have "token \<noteq> []" "(LOCAL_SOURCE, token) \<notin> by_subject ` set (accounts cfg)"
      using fresh s1 th by (auto simp: fresh_tokens_def)
    moreover have "is_yescrypt hash" using hash_password_run [OF s2] th by blast
    moreover have "LOCAL_SOURCE \<in> source_id ` set (sources cfg)" using src by (auto simp: list_ex_iff intro: rev_image_eqI)
    ultimately have "owned_config (cfg\<lparr> accounts := accounts cfg @ [?b] \<rparr>)"
      using absent name
      by (intro add_account_owned [OF owned])
        (auto simp: account_ok_def new_account_def by_subject_def by_username_def list_ex_iff)
    moreover have "changed_by cfg (Create_account name pw) (cfg\<lparr> accounts := accounts cfg @ [?b] \<rparr>)"
      by (auto simp: changed_by_def)
    ultimately show ?thesis by (rule stored_write [OF run3 law _ _ f(3,4) q(2)])
  next
    case False
    then have "w' \<in> {w1, w2} \<and> q \<noteq> Inr ()" using q(1) s1 s2 by (cases r1; cases r2) (auto simp: run_tryE)
    then show ?thesis using f q(2) by (auto simp: moved_def)
  qed
qed

lemma position_admin:
  assumes "position (names_admin name) as = Some i"
  shows "i < length as" and "source (as ! i) = LOCAL_SOURCE" and "username (as ! i) = name"
    and "administrator (as ! i)" and "as ! i \<in> set as"
  using position_Some [OF assms] by (auto simp: names_admin_def)

lemma change_run:
  assumes run: "run_state (or_storage
         (tryE (hash_password X pw) (\<lambda>hash.
          write_configuration X (cfg\<lparr> accounts := (accounts cfg)
            [i := (accounts cfg ! i)\<lparr> password_hash := hash,
               credential_version := credential_version (accounts cfg ! i) + 1 \<rparr>] \<rparr>)))) w = (r, w')"
    and law: "lawful_config X" and owned: "owned_config cfg"
    and i: "position (names_admin name) (accounts cfg) = Some i"
    and ver: "credential_version (accounts cfg ! i) \<noteq> - 1"
  shows "moved X cfg (Change_password name pw) r w w'"
proof -
  let ?a = "accounts cfg ! i"
  obtain q where q: "run_state (tryE (hash_password X pw) (\<lambda>hash.
          write_configuration X (cfg\<lparr> accounts := (accounts cfg)
            [i := ?a\<lparr> password_hash := hash, credential_version := credential_version ?a + 1 \<rparr>] \<rparr>))) w = (q, w')"
      "r = Inr () \<longleftrightarrow> q = Inr ()"
    using or_storage_run [OF run, of "()"] by (elim exE conjE) (rule that)
  obtain r2 w2 where s2: "run_state (hash_password X pw) w = (r2, w2)" by fastforce
  note h = hash_password_run [OF s2]
  show ?thesis
  proof (cases r2)
    case (Inr hash)
    let ?b = "?a\<lparr> password_hash := hash, credential_version := credential_version ?a + 1 \<rparr>"
    have run3: "run_state (write_configuration X (cfg\<lparr> accounts := (accounts cfg)[i := ?b] \<rparr>)) w2 = (q, w')"
      using q(1) s2 Inr by (simp add: run_tryE)
    have "account_ok (map source_id (sources cfg)) ?a"
      using owned position_admin(5) [OF i] by (simp add: owned_config_def valid_config_iff)
    then have ok: "account_ok (map source_id (sources cfg)) ?b"
      using h Inr ver by (auto simp: account_ok_def eq_neg_iff_add_eq_0)
    have "owned_config (cfg\<lparr> accounts := (accounts cfg)[i := ?b] \<rparr>)"
      by (rule update_account_owned [OF owned position_admin(1) [OF i] ok])
        (simp_all add: by_subject_def by_username_def is_local_admin_def position_admin [OF i])
    moreover have "changed_by cfg (Change_password name pw) (cfg\<lparr> accounts := (accounts cfg)[i := ?b] \<rparr>)"
      using i ver by (auto simp: changed_by_def)
    ultimately show ?thesis using h by (intro stored_write [OF run3 law _ _ _ _ q(2)]) simp_all
  next
    case (Inl e)
    then have "w' = w2 \<and> q \<noteq> Inr ()" using q(1) s2 by (auto simp: run_tryE)
    then show ?thesis using h q(2) by (auto simp: moved_def)
  qed
qed

lemma remove_run:
  assumes run: "run_state (or_storage (write_configuration X (cfg\<lparr> accounts := remove_at i (accounts cfg) \<rparr>))) w = (r, w')"
    and law: "lawful_config X" and owned: "owned_config cfg"
    and i: "position (names_admin name) (accounts cfg) = Some i"
    and two: "1 < length (filter is_local_admin (accounts cfg))"
  shows "moved X cfg (Remove_account name) r w w'"
proof -
  obtain q where q: "run_state (write_configuration X (cfg\<lparr> accounts := remove_at i (accounts cfg) \<rparr>)) w = (q, w')"
      "r = Inr () \<longleftrightarrow> q = Inr ()"
    using or_storage_run [OF run, of "()"] by (elim exE conjE) (rule that)
  have "owned_config (cfg\<lparr> accounts := remove_at i (accounts cfg) \<rparr>)"
    by (rule remove_admin_owned [OF owned position_admin(1) [OF i] two])
  moreover have "changed_by cfg (Remove_account name) (cfg\<lparr> accounts := remove_at i (accounts cfg) \<rparr>)"
    using i two by (auto simp: changed_by_def)
  ultimately show ?thesis by (rule stored_write [OF q(1) law _ _ refl refl q(2)])
qed

lemma add_administrator_run:
  assumes "run_state (add_administrator X name pw cfg) w = (r, w')" and "lawful_config X"
    and "owned_config cfg" and "fresh_tokens X cfg" and "valid_username name"
  shows "moved X cfg (Create_account name pw) r w w'"
proof (cases "list_ex (\<lambda>s. source_id s = LOCAL_SOURCE \<and> source_kind s = Local_password) (sources cfg)
    \<and> \<not> list_ex (\<lambda>a. source a = LOCAL_SOURCE \<and> username a = name) (accounts cfg)")
  case True
  then show ?thesis
    using assms(1) by (intro create_run [OF _ assms(2-4) _ _ assms(5)]) (simp_all add: add_administrator_def)
next
  case False
  then show ?thesis using assms(1) by (auto simp: add_administrator_def moved_def split: if_splits)
qed

lemma set_password_run:
  assumes "run_state (set_password X name pw cfg) w = (r, w')" and "lawful_config X" and "owned_config cfg"
  shows "moved X cfg (Change_password name pw) r w w'"
proof (cases "\<exists>i. position (names_admin name) (accounts cfg) = Some i \<and> credential_version (accounts cfg ! i) \<noteq> - 1")
  case True
  then obtain i where i: "position (names_admin name) (accounts cfg) = Some i" "credential_version (accounts cfg ! i) \<noteq> - 1"
    by blast
  then show ?thesis
    using assms(1) by (intro change_run [OF _ assms(2,3) i]) (simp add: set_password_def Let_def)
next
  case False
  then show ?thesis using assms(1) by (auto simp: set_password_def moved_def Let_def split: if_splits option.splits)
qed

lemma drop_administrator_run:
  assumes "run_state (drop_administrator X name cfg) w = (r, w')" and "lawful_config X" and "owned_config cfg"
  shows "moved X cfg (Remove_account name) r w w'"
proof (cases "\<exists>i. position (names_admin name) (accounts cfg) = Some i \<and> 1 < length (filter is_local_admin (accounts cfg))")
  case True
  then obtain i where i: "position (names_admin name) (accounts cfg) = Some i" "1 < length (filter is_local_admin (accounts cfg))"
    by blast
  then show ?thesis
    using assms(1) by (intro remove_run [OF _ assms(2,3) i]) (simp add: drop_administrator_def)
next
  case False
  then show ?thesis using assms(1) by (auto simp: drop_administrator_def moved_def split: if_splits option.splits)
qed

definition request_ended ::
    "'k identity_env \<Rightarrow> authentication \<Rightarrow> account_request \<Rightarrow> account_error + unit \<Rightarrow> 'k world \<Rightarrow> 'k world \<Rightarrow> bool" where
  "request_ended X t request r w w' \<longleftrightarrow>
     files w' = files w \<and> trail w' = trail w \<and> r \<noteq> Inr ()
     \<or> (\<exists>cfg cfg'. files w OWNED_FILE \<noteq> None \<and> stored X (files w) = Some cfg \<and> authorized_in cfg t
          \<and> changed_by cfg request cfg' \<and> owned_config cfg' \<and> moves_to X {cfg'} w w'
          \<and> (r = Inr () \<longrightarrow> stored X (files w') = Some cfg'))"

lemma as_administrator_ended:
  assumes run: "run_state (as_administrator X t f) w = (r, w')"
    and m: "\<And>cfg w1. stored X (files w) = Some cfg \<Longrightarrow> run_state (f cfg) w1 = (r, w') \<Longrightarrow> moved X cfg request r w1 w'"
  shows "request_ended X t request r w w'"
  using as_administrator_run [OF run]
proof (elim disjE exE conjE)
  fix cfg w1 assume c: "files w OWNED_FILE \<noteq> None" "files w1 = files w" "trail w1 = trail w"
    "stored X (files w) = Some cfg" "authorized_in cfg t" "run_state (f cfg) w1 = (r, w')"
  from m [OF c(4,6)] consider "files w' = files w1" "trail w' = trail w1" "r \<noteq> Inr ()"
    | cfg' where "changed_by cfg request cfg'" "owned_config cfg'" "moves_to X {cfg'} w1 w'"
        "r = Inr () \<longrightarrow> stored X (files w') = Some cfg'"
    unfolding moved_def by blast
  then show ?thesis
  proof cases
    case 1
    then show ?thesis using c by (simp add: request_ended_def)
  next
    case 2
    then show ?thesis using c moves_to_reads [OF c(2,3)] unfolding request_ended_def by blast
  qed
qed (simp_all add: request_ended_def)

lemma account_request_run:
  assumes run: "run_state (account_request X t request) w = (r, w')" and law: "lawful_config X"
    and owned: "\<And>cfg. stored X (files w) = Some cfg \<Longrightarrow> owned_config cfg \<and> fresh_tokens X cfg"
  shows "request_ended X t request r w w'"
proof (cases request)
  case (Create_account name pw)
  show ?thesis
  proof (cases "valid_username name \<and> valid_password pw")
    case True
    then have "run_state (as_administrator X t (add_administrator X name pw)) w = (r, w')"
      using run Create_account by (simp add: account_request_def create_local_administrator_def)
    then show ?thesis
      by (rule as_administrator_ended) (use True Create_account owned law add_administrator_run in blast)
  next
    case False
    then show ?thesis
      using run Create_account by (auto simp: account_request_def create_local_administrator_def request_ended_def)
  qed
next
  case (Change_password name pw)
  show ?thesis
  proof (cases "valid_password pw")
    case True
    then have "run_state (as_administrator X t (set_password X name pw)) w = (r, w')"
      using run Change_password by (simp add: account_request_def change_local_administrator_password_def)
    then show ?thesis
      by (rule as_administrator_ended) (use Change_password owned law set_password_run in blast)
  next
    case False
    then show ?thesis
      using run Change_password
      by (auto simp: account_request_def change_local_administrator_password_def request_ended_def)
  qed
next
  case (Remove_account name)
  then have "run_state (as_administrator X t (drop_administrator X name)) w = (r, w')"
    using run by (simp add: account_request_def remove_local_administrator_def)
  then show ?thesis
    by (rule as_administrator_ended) (use Remove_account owned law drop_administrator_run in blast)
qed

section \<open>Properties\<close>

text \<open>
  C10. No account operation locks the administrators out. Whatever fails and wherever power is
  lost, the stored configuration is at every moment one that the code reads again, with at
  least one local administrator in it; so the last administrator is never removed.
\<close>

theorem administrators_never_locked_out:
  assumes "run_state (account_request X t request) w = (r, w')" and "lawful_config X"
    and "stored X (files w) = Some cfg" and "owned_config cfg" and "fresh_tokens X cfg" and "trail w = []"
  shows "\<forall>f \<in> set (files w' # trail w'). \<exists>c. stored X f = Some c \<and> owned_config c"
proof -
  have "request_ended X t request r w w'"
    using account_request_run [OF assms(1,2)] assms(3-5) by auto
  then show ?thesis
    unfolding request_ended_def
  proof (elim disjE exE conjE)
    fix c cfg' assume "owned_config cfg'" "moves_to X {cfg'} w w'"
    then show ?thesis using assms(3,4,6) by (auto simp: moves_to_def)
  qed (use assms in auto)
qed

lemma authorize_run:
  assumes "run_state (authorize_administrator X t) w = (True, w')"
  shows "files w OWNED_FILE \<noteq> None \<and> (\<exists>cfg. stored X (files w) = Some cfg \<and> authorized_in cfg t)"
proof -
  obtain q w1 where s: "run_state (read_config X) w = (q, w1)" by fastforce
  show ?thesis
    using assms s read_config_run [OF s] by (cases q) (auto simp: authorize_administrator_def split: if_splits)
qed

lemma same_username:
  assumes "valid_config cfg" and "a \<in> set (accounts cfg)" and "b \<in> set (accounts cfg)" and "by_username a = by_username b"
  shows "a = b"
  using assms by (auto simp: valid_config_iff distinct_map inj_on_def)

lemma remove_at_notin:
  assumes "distinct xs" and "i < length xs"
  shows "xs ! i \<notin> set (remove_at i xs)"
proof -
  have "distinct (take i xs @ xs ! i # drop (Suc i) xs)"
    using assms id_take_nth_drop by metis
  then show ?thesis by (auto simp: remove_at_def)
qed

lemma removed_ungranted:
  assumes "valid_config cfg" and "position (names_admin name) (accounts cfg) = Some i"
    and "prin_source (auth_principal s) = LOCAL_SOURCE" and "prin_username (auth_principal s) = name"
  shows "\<not> authorized_in (cfg\<lparr>accounts := remove_at i (accounts cfg)\<rparr>) s"
proof
  assume "authorized_in (cfg\<lparr>accounts := remove_at i (accounts cfg)\<rparr>) s"
  then obtain a where a: "a \<in> set (remove_at i (accounts cfg))" "holds_grant s a"
    by (auto simp: authorized_in_def list_ex_iff)
  have b: "by_username a = by_username (accounts cfg ! i)"
    using a(2) assms(3,4) position_admin [OF assms(2)] by (simp add: holds_grant_def by_username_def)
  have "a = accounts cfg ! i"
    using same_username [OF assms(1) _ position_admin(5) [OF assms(2)] b] subsetD [OF set_remove_at a(1)] by blast
  moreover have "distinct (accounts cfg)"
    using assms(1) by (auto simp: valid_config_iff distinct_map)
  ultimately show False
    using a(1) remove_at_notin position_admin(1) [OF assms(2)] by metis
qed

lemma changed_ungranted:
  assumes v: "valid_config cfg" and i: "position (names_admin name) (accounts cfg) = Some i"
    and s: "prin_source (auth_principal s) = LOCAL_SOURCE" "prin_username (auth_principal s) = name"
    and before: "authorized_in cfg s"
  shows "\<not> authorized_in (cfg\<lparr>accounts := (accounts cfg)[i := (accounts cfg ! i)
      \<lparr>password_hash := hash, credential_version := credential_version (accounts cfg ! i) + 1\<rparr>]\<rparr>) s"
proof
  let ?a = "accounts cfg ! i"
  let ?b = "?a\<lparr>password_hash := hash, credential_version := credential_version ?a + 1\<rparr>"
  note p = position_admin [OF i]
  have named: "c = ?a" if "c \<in> set (accounts cfg)" "holds_grant s c" for c
  proof -
    have "by_username c = by_username ?a" using that s p by (simp add: holds_grant_def by_username_def)
    then show ?thesis using same_username [OF v that(1) p(5)] by simp
  qed
  obtain c where "c \<in> set (accounts cfg)" "holds_grant s c"
    using before by (auto simp: authorized_in_def list_ex_iff)
  then have old: "auth_version s = credential_version ?a" using named by (auto simp: holds_grant_def)
  assume "authorized_in (cfg\<lparr>accounts := (accounts cfg)[i := ?b]\<rparr>) s"
  then obtain j where j: "j < length (accounts cfg)" "holds_grant s ((accounts cfg)[i := ?b] ! j)"
    by (auto simp: authorized_in_def list_ex_iff in_set_conv_nth)
  show False
  proof (cases "j = i")
    case True
    then show ?thesis using j old p(1) by (simp add: holds_grant_def)
  next
    case False
    then have "holds_grant s (accounts cfg ! j)" using j by simp
    then have e: "accounts cfg ! j = ?a" using named j(1) nth_mem by blast
    have "distinct (accounts cfg)" using v by (auto simp: valid_config_iff distinct_map)
    then show ?thesis using e False j(1) p(1) nth_eq_iff_index_eq by blast
  qed
qed

text \<open>
  C14. Changing an account's password or removing the account ends every session made with it:
  once the request has succeeded, no session of that account that was authorized before is
  authorized any more.
\<close>

theorem credential_change_ends_sessions:
  assumes "run_state (account_request X t request) w = (Inr (), w')" and "lawful_config X"
    and "stored X (files w) = Some cfg" and "owned_config cfg" and "fresh_tokens X cfg"
    and "request = Change_password name pw \<or> request = Remove_account name"
    and "authorized_in cfg session" and "auth_principal session = \<lparr> prin_source = LOCAL_SOURCE,
      prin_subject = sub, prin_username = name \<rparr>"
  shows "\<not> fst (run_state (authorize_administrator X session) w')"
proof
  assume "fst (run_state (authorize_administrator X session) w')"
  then obtain w2 where "run_state (authorize_administrator X session) w' = (True, w2)" by (metis prod.collapse)
  then obtain now where now: "stored X (files w') = Some now" "authorized_in now session"
    using authorize_run by blast
  have "request_ended X t request (Inr ()) w w'"
    using account_request_run [OF assms(1,2)] assms(3-5) by auto
  then have c: "changed_by cfg request now"
    using assms(3) now(1) by (auto simp: request_ended_def)
  have v: "valid_config cfg" using assms(4) by (simp add: owned_config_def)
  have s: "prin_source (auth_principal session) = LOCAL_SOURCE" "prin_username (auth_principal session) = name"
    using assms(8) by simp_all
  from assms(6) show False
  proof
    assume "request = Change_password name pw"
    then obtain i hash where "position (names_admin name) (accounts cfg) = Some i"
      "now = cfg\<lparr>accounts := (accounts cfg)[i := (accounts cfg ! i)
              \<lparr>password_hash := hash, credential_version := credential_version (accounts cfg ! i) + 1\<rparr>]\<rparr>"
      using c by (auto simp: changed_by_def)
    then show False using changed_ungranted [OF v _ s assms(7)] now(2) by blast
  next
    assume "request = Remove_account name"
    then obtain i where "position (names_admin name) (accounts cfg) = Some i"
      "now = cfg\<lparr>accounts := remove_at i (accounts cfg)\<rparr>"
      using c by (auto simp: changed_by_def)
    then show False using removed_ungranted [OF v _ s] now(2) by blast
  qed
qed

lemma authenticated_run:
  assumes "run_state (authenticate X cache src name pw) w = ((Authenticated session, cache'), w')"
  shows "\<exists>cfg a. files w OWNED_FILE \<noteq> None \<and> stored X (files w) = Some cfg \<and> a \<in> set (accounts cfg)
    \<and> source a = src \<and> username a = name \<and> valid_password pw
    \<and> crypt X pw (password_hash a) = Some (password_hash a)
    \<and> required_assurance cfg = Password
    \<and> (authorized_in cfg session \<longleftrightarrow> administrator a)
    \<and> auth_principal session = \<lparr> prin_source = src, prin_subject = subject a, prin_username = name \<rparr>"
proof -
  obtain q w1 where s: "run_state (read_config X) w = (q, w1)" by fastforce
  obtain h w2 where s2: "run_state (unknown_account_hash X cache) w1 = (h, w2)" by fastforce
  have owned: "files w OWNED_FILE \<noteq> None" "valid_password pw"
    using assms by (auto simp: authenticate_def split: if_splits)
  then obtain cfg provider where cfg: "q = Inr cfg" and prov: "List.find (\<lambda>s. source_id s = src) (sources cfg) = Some provider"
    using assms s by (auto simp: authenticate_def split: sum.splits option.splits)
  then obtain unknown where h: "h = Inr unknown"
    using assms s s2 owned by (cases h) (auto simp: authenticate_def)
  let ?account = "List.find (\<lambda>a. source a = src \<and> username a = name) (accounts cfg)"
  let ?expected = "case ?account of Some a \<Rightarrow> password_hash a | None \<Rightarrow> unknown"
  obtain candidate where c: "crypt_password X pw ?expected = Inr candidate"
      "verified cfg src ?account (eq_ct candidate ?expected) = Authenticated session"
    using assms s s2 owned cfg prov h by (auto simp: authenticate_def Let_def split: sum.splits)
  then obtain a where a: "?account = Some a" and eq: "eq_ct candidate (password_hash a)"
      and req: "\<not> Password < required_assurance cfg"
      and ses: "session = \<lparr> auth_principal = \<lparr> prin_source = src, prin_subject = subject a, prin_username = username a \<rparr>,
              auth_assurance = Password, auth_version = credential_version a \<rparr>"
    by (auto simp: verified_def split: if_splits option.splits)
  have mem: "a \<in> set (accounts cfg)" "source a = src" "username a = name"
    using find_Some_set [OF a] by auto
  have pw: "required_assurance cfg = Password"
    using req by (cases "required_assurance cfg") (simp_all add: less_assurance_def)
  have st: "stored X (files w) = Some cfg" using read_config_run [OF s] cfg by blast
  have "candidate = password_hash a" using eq by (simp add: eq_ct_is_equality_lemma)
  then have "crypt X pw (password_hash a) = Some (password_hash a)"
    using c(1) a by (auto simp: crypt_password_def thenE_ok failIf_ok split: option.splits if_splits)
  moreover have "authorized_in cfg session \<longleftrightarrow> administrator a"
  proof
    assume "authorized_in cfg session"
    then obtain b where b: "b \<in> set (accounts cfg)" "holds_grant session b"
      by (auto simp: authorized_in_def list_ex_iff)
    have "valid_config cfg" using st by (auto simp: stored_def split: bind_splits if_splits)
    then have "b = a"
      using b mem ses by (intro same_username [of cfg]) (auto simp: holds_grant_def by_username_def)
    then show "administrator a" using b(2) by (simp add: holds_grant_def)
  next
    assume "administrator a"
    then show "authorized_in cfg session"
      using mem pw ses find_Some_set [OF prov]
      by (auto simp: authorized_in_def list_ex_iff holds_grant_def less_eq_assurance_def)
  qed
  moreover have "auth_principal session = \<lparr> prin_source = src, prin_subject = subject a, prin_username = name \<rparr>"
    using ses mem by simp
  ultimately show ?thesis using owned st mem pw by blast
qed

text \<open>
  C13. Who is authenticated knows the password. \<open>authenticate\<close> answers Authenticated only on
  an owned appliance, for an account of that source and name in the stored configuration
  whose hash is what \<open>crypt\<close> makes of the password with it, and only if the configuration
  asks for no second factor; the session it makes is authorized exactly when the account is
  an administrator.
\<close>

theorem authenticated_knows_password:
  assumes "run_state (authenticate X cache src name pw) w = ((Authenticated session, cache'), w')"
  shows "\<exists>cfg a. files w OWNED_FILE \<noteq> None \<and> stored X (files w) = Some cfg \<and> a \<in> set (accounts cfg)
    \<and> source a = src \<and> username a = name \<and> valid_password pw
    \<and> crypt X pw (password_hash a) = Some (password_hash a)
    \<and> required_assurance cfg = Password
    \<and> (authorized_in cfg session \<longleftrightarrow> administrator a)"
  using authenticated_run [OF assms] by blast

text \<open>
  A configuration that asks for a second factor, which no release implements, fails
  closed: nobody is authenticated, and no session made with a password is authorized.
\<close>

theorem second_factor_fails_closed:
  assumes "stored X (files w) = Some cfg" and "required_assurance cfg = Multi_factor"
  shows "(\<forall>session. fst (fst (run_state (authenticate X cache src name pw) w)) \<noteq> Authenticated session)
    \<and> (\<forall>session. auth_assurance session = Password \<longrightarrow>
         \<not> fst (run_state (authorize_administrator X session) w))"
proof (intro conjI allI impI notI)
  fix session assume "fst (fst (run_state (authenticate X cache src name pw) w)) = Authenticated session"
  then obtain cache' w' where "run_state (authenticate X cache src name pw) w = ((Authenticated session, cache'), w')"
    by (metis prod.collapse)
  from authenticated_run [OF this] show False using assms by auto
next
  fix session assume "auth_assurance session = Password" and "fst (run_state (authorize_administrator X session) w)"
  moreover from this(2) obtain w' where "run_state (authorize_administrator X session) w = (True, w')"
    by (metis prod.collapse)
  ultimately show False
    using authorize_run assms by (fastforce simp: authorized_in_def less_eq_assurance_def)
qed

end
