(* ===== verification/Identity_Sample.thy ===== *)
theory Identity_Sample
  imports Sample Identity_Properties
begin

text \<open>
  The properties of the Identity configuration on a sample appliance with two
  administrators, a \<open>crypt\<close> that keeps the password, and the machine of \<open>Sample\<close>.
\<close>

section \<open>The sample\<close>

instance assurance :: countable
  by countable_datatype

instance source_kind :: countable
  by countable_datatype

instance auth_source_ext :: (countable) countable
  by (rule countable_classI [of "\<lambda>s. to_nat (source_id s, source_kind s, auth_source.more s)"])
    (simp add: auth_source.equality)

instance local_account_ext :: (countable) countable
  by (rule countable_classI [of "\<lambda>a. to_nat (subject a, source a, username a, password_hash a,
        credential_version a, administrator a, local_account.more a)"])
    (simp add: local_account.equality)

instance identity_configuration_ext :: (countable) countable
  by (rule countable_classI [of "\<lambda>c. to_nat (config_version c, sources c, required_assurance c, accounts c,
        identity_configuration.more c)"])
    (simp add: identity_configuration.equality)

definition sample_identity :: "unit identity_env" where
  "sample_identity =
     \<lparr> machine = sample_env, crypt = (\<lambda>pw setting. Some (YESCRYPT @ pw)), gensalt = (\<lambda>k. (Some YESCRYPT, k)),
       text_of_config = (\<lambda>c. Inr (unary c)), config_of_text = (\<lambda>t. Inr (of_unary t)) \<rparr>"

definition local_admin :: "string \<Rightarrow> string \<Rightarrow> string \<Rightarrow> local_account" where
  "local_admin sub name pw = (new_account sub name (YESCRYPT @ pw))"

definition two_admins :: identity_configuration where
  "two_admins = (first_configuration (local_admin ''s1'' ''alice'' ''secret''))
     \<lparr> accounts := [local_admin ''s1'' ''alice'' ''secret'', local_admin ''s2'' ''bob'' ''hidden''] \<rparr>"

definition identity_world :: "identity_configuration \<Rightarrow> unit world" where
  "identity_world cfg =
     \<lparr> files = [IDENTITY_FILE \<mapsto> unary cfg, OWNED_FILE \<mapsto> ''ok''], recovery_required = False, trail = [],
       calls = [], outside = () \<rparr>"

definition session_of :: "string \<Rightarrow> string \<Rightarrow> authentication" where
  "session_of sub name =
     \<lparr> auth_principal = \<lparr> prin_source = LOCAL_SOURCE, prin_subject = sub, prin_username = name \<rparr>,
       auth_assurance = Password, auth_version = 1 \<rparr>"

lemma sample_identity_fields [simp]:
  "machine sample_identity = sample_env" "text_of_config sample_identity c = Inr (unary c)"
  "config_of_text sample_identity t = Inr (of_unary t)"
  by (simp_all add: sample_identity_def)

lemma sample_lawful_config: "lawful_config sample_identity"
  by (simp add: lawful_config_def)

lemma two_admins_owned: "owned_config two_admins"
proof -
  have "check_config two_admins = Inr ()" by code_simp
  moreover have "list_ex is_local_admin (accounts two_admins)" by code_simp
  ultimately show ?thesis by (auto simp: owned_config_def valid_config_def list_ex_iff)
qed

lemma two_admins_stored: "stored sample_identity (files (identity_world two_admins)) = Some two_admins"
  using two_admins_owned identity_paths by (simp add: stored_def identity_world_def owned_config_def)

lemma sample_token: "run_state (random_token sample_env) w = (Inr token, w') \<Longrightarrow> token = token_of zeros"
  by (auto simp: random_token_def run_asks sample_env_def token_of_def)

lemma two_admins_fresh: "fresh_tokens sample_identity two_admins"
proof -
  have "token_of zeros \<noteq> [] \<and> (LOCAL_SOURCE, token_of zeros) \<notin> by_subject ` set (accounts two_admins)"
    by code_simp
  then show ?thesis using sample_token by (auto simp: fresh_tokens_def)
qed

lemma identity_tidy: "tidy (identity_world cfg)"
  using identity_paths by (auto simp: tidy_def identity_world_def)

section \<open>Success on a machine without faults\<close>

lemma fine_publish_config:
  assumes "faultless E" and "is_temp t" and w: "tidy w"
  shows "\<exists>w'. run_state (publish_config E t raw) w = (Inr (), w') \<and> tidy w'"
proof -
  obtain w1 where 1: "run_state (create_new E t) w = (Inr (), w1)" "files w1 = (files w)(t := Some [])"
  proof -
    obtain v where "run_state (simple_op E (Create t)) w = (Inr (), v)" "files v = files w"
      using assms(1) by (rule run_simple_op)
    then show ?thesis
      using that assms(2) w by (simp add: create_new_def run_tryE tidy_def set_file_def set_files_def)
  qed
  obtain w2 where 2: "run_state (write_all E t raw) w1 = (Inr (), w2)" "files w2 = (files w1)(t := Some raw)"
  proof -
    obtain v where "run_state (fault E (Overwrite t)) w1 = (None, v)" "files v = files w1"
      using assms(1) by (rule run_fault)
    then show ?thesis using that by (simp add: write_all_def set_file_def set_files_def)
  qed
  obtain w3 where 3: "run_state (simple_op E (Persist t)) w2 = (Inr (), w3)" "files w3 = files w2"
    using assms(1) by (rule run_simple_op)
  obtain w4 where 4: "run_state (rename_file E t IDENTITY_FILE) w3 = (Inr (), w4)"
      "files w4 = (files w3)(t := None, IDENTITY_FILE := Some raw)"
  proof -
    obtain v where "run_state (simple_op E (Rename t IDENTITY_FILE)) w3 = (Inr (), v)" "files v = files w3"
      using assms(1) by (rule run_simple_op)
    then show ?thesis using that 2 3 by (simp add: rename_file_def run_tryE set_files_def)
  qed
  obtain w5 where 5: "run_state (simple_op E (Sync_dir (parent_dir IDENTITY_FILE))) w4 = (Inr (), w5)" "files w5 = files w4"
    using assms(1) by (rule run_simple_op)
  have "tidy w5" using w assms(2) 1 2 3 4 5 identity_paths(1) by (auto simp: tidy_def)
  then show ?thesis using 1 2 3 4 5 by (simp add: publish_config_def run_tryE run_map_err)
qed

lemma fine_write_configuration:
  assumes "faultless (machine X)" and "text_of_config X cfg = Inr raw"
  shows "fine (write_configuration X cfg)"
  unfolding gives_def
proof (intro allI impI)
  fix w :: "'a world" assume w: "tidy w"
  obtain w1 where 1: "run_state (simple_op (machine X) (Make_dir (parent_dir IDENTITY_FILE))) w = (Inr (), w1)"
      "files w1 = files w" using assms(1) by (rule run_simple_op)
  obtain token w2 where 2: "run_state (random_token (machine X)) w1 = (Inr token, w2)" "tidy w2"
    using run_fine [OF fine_random_token [OF assms(1)]] w 1 tidy_files by metis
  obtain w3 where 3: "run_state (publish_config (machine X) (identity_temp token) raw) w2 = (Inr (), w3)" "tidy w3"
    using fine_publish_config [OF assms(1) identity_temp_is_temp 2(2)] by blast
  show "\<exists>a w'. run_state (write_configuration X cfg) w = (Inr a, w') \<and> tidy w' \<and> True"
    using 1 2 3 assms(2) by (simp add: write_configuration_def run_tryE run_map_err)
qed

lemma sample_read_config:
  "run_state (read_config sample_identity) (identity_world two_admins) = (Inr two_admins, identity_world two_admins)"
  using two_admins_owned
  by (simp add: read_config_def read_file_def fault_def run_asks sample_env_def identity_world_def
      identity_paths identity_paths(3) [symmetric] owned_config_def valid_config_def tryE_def)

lemma sample_removal:
  "\<exists>w'. run_state (account_request sample_identity (session_of ''s1'' ''alice'') (Remove_account ''bob''))
      (identity_world two_admins) = (Inr (), w')"
proof -
  have pos: "position (names_admin ''bob'') (accounts two_admins) = Some 1"
    and len: "\<not> length (filter is_local_admin (accounts two_admins)) \<le> 1"
    and auth: "authorized_in two_admins (session_of ''s1'' ''alice'')"
    by code_simp+
  obtain a w' where "run_state (write_configuration sample_identity
      (two_admins\<lparr>accounts := remove_at 1 (accounts two_admins)\<rparr>)) (identity_world two_admins) = (Inr a, w')"
    using run_fine [OF fine_write_configuration [OF _ sample_identity_fields(2)] identity_tidy] sample_faultless
    by (metis sample_identity_fields(1))
  then show ?thesis
    using pos len auth sample_read_config
    by (simp add: account_request_def remove_local_administrator_def as_administrator_def drop_administrator_def
        or_storage_def identity_world_def)
qed

section \<open>Instances\<close>

theorem administrators_never_locked_out_witness:
  "\<exists>c. stored sample_identity (files (snd (run_state (account_request sample_identity (session_of ''s1'' ''alice'')
      (Create_account ''carol'' ''pw'')) (identity_world two_admins)))) = Some c \<and> owned_config c"
proof -
  have "trail (identity_world two_admins) = []" by (simp add: identity_world_def)
  from administrators_never_locked_out [OF prod.collapse [symmetric] sample_lawful_config two_admins_stored
      two_admins_owned two_admins_fresh this]
  show ?thesis by simp
qed

theorem credential_change_ends_sessions_witness:
  "\<not> fst (run_state (authorize_administrator sample_identity (session_of ''s2'' ''bob''))
      (snd (run_state (account_request sample_identity (session_of ''s1'' ''alice'') (Remove_account ''bob''))
         (identity_world two_admins))))"
proof -
  obtain w' where run: "run_state (account_request sample_identity (session_of ''s1'' ''alice'') (Remove_account ''bob''))
      (identity_world two_admins) = (Inr (), w')" using sample_removal by blast
  have auth: "authorized_in two_admins (session_of ''s2'' ''bob'')" by code_simp
  have prin: "auth_principal (session_of ''s2'' ''bob'') = \<lparr> prin_source = LOCAL_SOURCE, prin_subject = ''s2'',
      prin_username = ''bob'' \<rparr>" by (simp add: session_of_def)
  from credential_change_ends_sessions [OF run sample_lawful_config two_admins_stored two_admins_owned
      two_admins_fresh disjI2 [OF refl] auth prin] run
  show ?thesis by simp
qed

text \<open>Alice signs in.\<close>

definition alice :: authentication where
  "alice = session_of ''s1'' ''alice''"

lemma sample_crypt:
  "has_nul ''secret'' = False" "has_nul (YESCRYPT @ ''secret'') = False" "has_nul YESCRYPT = False"
  "has_nul ''FWOS unmapped identity'' = False" "is_yescrypt (YESCRYPT @ ''secret'') = True"
  "is_yescrypt (YESCRYPT @ ''FWOS unmapped identity'') = True" "valid_password ''secret'' = True"
  by code_simp+

lemma sample_accounts:
  "List.find (\<lambda>s. source_id s = LOCAL_SOURCE) (sources two_admins) = Some \<lparr> source_id = LOCAL_SOURCE, source_kind = Local_password \<rparr>"
  "List.find (\<lambda>a. source a = LOCAL_SOURCE \<and> username a = ''alice'') (accounts two_admins) = Some (local_admin ''s1'' ''alice'' ''secret'')"
  "required_assurance two_admins = Password" "authorized_in two_admins alice"
  by code_simp+

lemma alice_authenticates:
  "\<exists>c. run_state (authenticate sample_identity None LOCAL_SOURCE ''alice'' ''secret'') (identity_world two_admins)
     = ((Authenticated alice, c), identity_world two_admins)"
proof -
  have hash: "run_state (hash_password sample_identity ''FWOS unmapped identity'') w =
      (Inr (YESCRYPT @ ''FWOS unmapped identity''), w)" for w
    using sample_crypt by (simp add: hash_password_def run_asks sample_identity_def crypt_password_def failIf_def)
  have "crypt_password sample_identity ''secret'' (password_hash (local_admin ''s1'' ''alice'' ''secret''))
      = Inr (YESCRYPT @ ''secret'')"
    using sample_crypt by (simp add: crypt_password_def sample_identity_def failIf_def local_admin_def new_account_def)
  moreover have "files (identity_world two_admins) OWNED_FILE \<noteq> None" by (simp add: identity_world_def)
  ultimately show ?thesis
    using sample_crypt sample_accounts hash sample_read_config
    by (simp add: authenticate_def unknown_account_hash_def Let_def verified_def eq_ct_is_equality_lemma
        local_admin_def new_account_def alice_def session_of_def)
qed

lemma sample_granted:
  "run_state (authorize_administrator sample_identity alice) (identity_world two_admins) = (True, identity_world two_admins)"
  using sample_accounts sample_read_config by (simp add: authorize_administrator_def identity_world_def file_exists_def)

lemma sample_login:
  "\<exists>session cache w'. run_state (authenticate sample_identity None LOCAL_SOURCE ''alice'' ''secret'') (identity_world two_admins)
     = ((Authenticated session, cache), w')"
  using alice_authenticates by blast

theorem authenticated_knows_password_witness:
  "\<exists>a \<in> set (accounts two_admins). username a = ''alice''
     \<and> crypt sample_identity ''secret'' (password_hash a) = Some (password_hash a)"
proof -
  obtain session cache w' where "run_state (authenticate sample_identity None LOCAL_SOURCE ''alice'' ''secret'')
      (identity_world two_admins) = ((Authenticated session, cache), w')" using sample_login by blast
  from authenticated_knows_password [OF this] show ?thesis using two_admins_stored by auto
qed

theorem second_factor_fails_closed_witness:
  "\<not> fst (run_state (authorize_administrator sample_identity (session_of ''s1'' ''alice''))
      (identity_world (two_admins\<lparr>required_assurance := Multi_factor\<rparr>)))"
proof -
  let ?cfg = "two_admins\<lparr>required_assurance := Multi_factor\<rparr>"
  have "check_config ?cfg = Inr ()" by code_simp
  then have "stored sample_identity (files (identity_world ?cfg)) = Some ?cfg"
    using identity_paths by (simp add: stored_def identity_world_def valid_config_def)
  moreover have "auth_assurance (session_of ''s1'' ''alice'') = Password" by (simp add: session_of_def)
  ultimately show ?thesis
    using second_factor_fails_closed [of sample_identity "identity_world ?cfg" ?cfg] by simp
qed

end
