(* ===== verification/Bootstrap.thy ===== *)
theory Bootstrap
  imports Confirm Identity
begin

text \<open>
  First boot in netd (\<open>src/netd.rs\<close>): selecting a Traffic NIC before the appliance is owned,
  the Bootstrap transaction that makes the first Desired state and the administrator the
  appliance's owner, and the recovery of a Bootstrap that did not complete.
\<close>

section \<open>Selecting a Traffic NIC\<close>

definition trimmed_field :: "json \<Rightarrow> string \<Rightarrow> string" where
  "trimmed_field v k = (case get_str v k of Some s \<Rightarrow> trim s | None \<Rightarrow> [])"

definition parse_opt :: "json \<Rightarrow> first_boot_opt res" where
  "parse_opt v =
     (let nic = trimmed_field v ''nic''; mode = trimmed_field v ''mode'';
          cidr_text = (case get_str v ''cidr'' of
                         Some s \<Rightarrow> if trim s = [] then None else Some (trim s)
                       | None \<Rightarrow> None) in
      thenE (failIf (nic = []) ''missing nic'')
     (thenE (failIf (mode \<notin> {''static'', ''dhcp'', ''slaac''}) ''mode must be static, dhcp, or slaac'')
     (thenE (failIf (mode = ''static'' \<and> cidr_text = None) ''static opt needs a cidr'')
            (Inr \<lparr> opt_nic = nic, opt_mode = mode, opt_cidr = cidr_text \<rparr>))))"

definition dhclient_script :: string where
  "dhclient_script =
     ''#!/bin/sh'' @ nl
     @ ''case '' @ qt ''${reason}'' @ '' in'' @ nl
     @ ''BOUND|RENEW|REBIND|REBOOT)'' @ nl
     @ ''  ip addr replace '' @ qt ''${new_ip_address}/${new_subnet_mask}'' @ '' dev '' @ qt ''${interface}'' @ nl
     @ ''  if [ -n '' @ qt ''${new_routers}'' @ '' ]; then'' @ nl
     @ ''    gw=$(echo '' @ qt ''${new_routers}'' @ '' | awk '' @ [CHR 0x27] @ ''{print $1}'' @ [CHR 0x27] @ '')'' @ nl
     @ ''    ip route replace default via '' @ qt ''${gw}'' @ '' dev '' @ qt ''${interface}'' @ nl
     @ ''  fi'' @ nl @ ''  ;;'' @ nl @ ''esac'' @ nl @ ''exit 0'' @ nl"

definition write_dhclient_script :: "'k env \<Rightarrow> ('k, unit) io" where
  "write_dhclient_script E =
     (let path = FWOS @ ''dhclient-script'' in
      seqE (map_err (\<lambda>e. ''write dhclient-script: '' @ e) (asks (foreign_write E path dhclient_script)))
           (map_err (\<lambda>e. ''chmod dhclient-script: '' @ e) (simple_op E (Chmod path))))"

definition ephemeral_dhcp :: "'k env \<Rightarrow> string \<Rightarrow> ('k, unit) io" where
  "ephemeral_dhcp E nic = do {
     stop_dhclient E;
     seqE (write_dhclient_script E)
    (tryE (output_of E [''dhclient'', ''-1'', ''-sf'', FWOS @ ''dhclient-script'', ''-lf'', FWOS @ ''dhclient.leases'',
             ''-pf'', FWOS @ ''dhclient.pid'', nic] ''dhclient: '') (\<lambda>r.
       if ok r then okE () else errE (''dhcp on '' @ nic @ '' failed: '' @ trim (stderr r)))) }"

text \<open>Eight seconds in steps of 200 ms at least: the 41st look is at the deadline.\<close>

fun wait_expose_rounds :: "'k env \<Rightarrow> string \<Rightarrow> nat \<Rightarrow> ('k, string list) io" where
  "wait_expose_rounds E nic 0 = iface_cidrs E nic"
| "wait_expose_rounds E nic (Suc n) = tryE (iface_cidrs E nic) (\<lambda>addrs.
     if bootstrap_expose_ips addrs \<noteq> [] then okE addrs
     else do {
       passed \<leftarrow> asks (deadline_passed E);
       (if passed then okE addrs else wait_expose_rounds E nic n) })"

definition wait_expose_cidrs :: "'k env \<Rightarrow> string \<Rightarrow> ('k, string list) io" where
  "wait_expose_cidrs E nic = wait_expose_rounds E nic 40"

definition same_opt :: "first_boot_opt \<Rightarrow> first_boot_opt \<Rightarrow> bool" where
  "same_opt a b \<longleftrightarrow> opt_nic a = opt_nic b \<and> opt_mode a = opt_mode b \<and> opt_cidr a = opt_cidr b"

definition start_opt :: "'k env \<Rightarrow> first_boot_opt \<Rightarrow> ('k, unit) io" where
  "start_opt E opt =
     (if opt_mode opt = ''static''
      then tryE (liftE (ok_or (opt_cidr opt) ''static opt needs a cidr'')) (\<lambda>c. add_addr E (opt_nic opt) c)
      else if opt_mode opt = ''dhcp'' then ephemeral_dhcp E (opt_nic opt)
      else if opt_mode opt = ''slaac''
      then seqE (write_sysctl E (opt_nic opt) ''ipv6'' ''accept_ra'' ''2'')
                (write_sysctl E (opt_nic opt) ''ipv6'' ''autoconf'' ''1'')
      else errE (''unknown opt mode '' @ opt_mode opt))"

definition apply_opt :: "'k env \<Rightarrow> first_boot_opt \<Rightarrow> ('k, unit) io" where
  "apply_opt E opt = tryE (traffic_nic_names E) (\<lambda>nics.
     if opt_nic opt \<notin> set nics then errE (opt_nic opt @ '' is not a Traffic NIC'')
     else do {
       prev \<leftarrow> load_opt E;
       seqE (case prev of
               Some p \<Rightarrow> if same_opt p opt then okE () else teardown_opt E p
             | None \<Rightarrow> okE ())
      (seqE (require_in_fwd E (opt_nic opt))
      (seqE (run_ip E [''link'', ''set'', opt_nic opt, ''up''])
      (seqE (start_opt E opt)
      (tryE (if opt_mode opt = ''slaac'' then wait_expose_cidrs E (opt_nic opt) else iface_cidrs E (opt_nic opt))
         (\<lambda>addrs. program_first_boot_nft E (opt_nic opt) addrs))))) })"

text \<open>The \<open>sync\<close> calls after the write have no effect that netd observes.\<close>

definition persist_opt :: "'k env \<Rightarrow> first_boot_opt \<Rightarrow> ('k, unit) io" where
  "persist_opt E opt =
     (case text_of_opt (codec E) opt of
        Inl e \<Rightarrow> errE (''encode opt: '' @ e)
      | Inr raw \<Rightarrow>
          seqE (map_err (\<lambda>e. ''mkdir '' @ parent_dir OPT_FILE @ '': '' @ e)
                  (simple_op E (Make_dir (parent_dir OPT_FILE))))
               (map_err (\<lambda>e. ''write '' @ OPT_FILE @ '': '' @ e) (overwrite E OPT_FILE raw)))"

definition apply_and_persist_opt :: "'k env \<Rightarrow> first_boot_opt \<Rightarrow> ('k, unit) io" where
  "apply_and_persist_opt E opt = do {
     owned \<leftarrow> file_exists BOOTSTRAPPED;
     (if owned then errE ''already bootstrapped''
      else seqE (apply_opt E opt) (persist_opt E opt)) }"

text \<open>The exposure follows the addresses of the selected NIC until the appliance is owned.\<close>

definition refresh_bootstrap_exposure ::
    "'k env \<Rightarrow> (string \<times> string list) option \<Rightarrow> ('k, (string \<times> string list) option) io" where
  "refresh_bootstrap_exposure E observed = do {
     configured \<leftarrow> file_exists DESIRED;
     owned \<leftarrow> file_exists BOOTSTRAPPED;
     (if configured \<or> owned then okE None
      else do {
        opt \<leftarrow> load_opt E;
        (case opt of
           None \<Rightarrow> okE None
         | Some p \<Rightarrow> tryE (iface_cidrs E (opt_nic p)) (\<lambda>cidrs.
             (let current = (opt_nic p, sort (bootstrap_expose_ips cidrs)) in
              if observed = Some current then okE observed
              else seqE (program_first_boot_nft E (fst current) (snd current)) (okE (Some current))))) }) }"

section \<open>The Bootstrap transaction\<close>

datatype bootstrap_failure = Incomplete string | Owned string | Indeterminate string

text \<open>\<open>From<String>\<close>: a plain error is an incomplete Bootstrap.\<close>

definition incomplete :: "('k, 'a) io \<Rightarrow> ('k world, bootstrap_failure + 'a) state" where
  "incomplete m = do { r \<leftarrow> m; ret (case r of Inl e \<Rightarrow> Inl (Incomplete e) | Inr a \<Rightarrow> Inr a) }"

definition fetch_admin :: "'k identity_env \<Rightarrow> string \<Rightarrow> string \<Rightarrow> ('k, unit) io" where
  "fetch_admin X admin_subject message = do {
     s \<leftarrow> tentative_first_administrator_subject X;
     ret (if s = Some admin_subject then Inr () else Inl message) }"

definition hostname_durable :: "'k env \<Rightarrow> string \<Rightarrow> string \<Rightarrow> ('k, unit) io" where
  "hostname_durable E name message = do {
     r \<leftarrow> read_text E HOSTNAME;
     ret (if map_option trim (Option.bind (ok_opt r) id) = Some name then Inr () else Inl message) }"

definition check_bootstrap :: "codecs \<Rightarrow> desired_state \<Rightarrow> unit res" where
  "check_bootstrap c st =
     thenE (validate (base64 c) st)
    (thenE (eachE (\<lambda>i. interface_values (iface_name i) (parent i) (vlan i) (iface_addresses i)) (interfaces st))
    (thenE (addressing (lan_prefix st) (dhcp_pool st) (wan_pd st))
           (lan_services_match_interface st)))"

definition attempt_of :: "desired_state \<Rightarrow> bootstrap_attempt" where
  "attempt_of st = \<lparr> vlan_links = map iface_name (filter (\<lambda>i. vlan i \<noteq> None) (interfaces st)) \<rparr>"

text \<open>Up to the ownership marker: the checks, the record of the attempt, the network, and the
  checks of the administrator and the hostname again.\<close>

definition prepare_bootstrap ::
    "'k identity_env \<Rightarrow> string \<Rightarrow> desired_state \<Rightarrow> ('k, desired_state) io" where
  "prepare_bootstrap X admin_subject start =
     seqE (liftE (check_bootstrap (codec (machine X)) start))
    (seqE (fetch_admin X admin_subject ''Bootstrap administrator changed before apply'')
    (tryE (liftE (ok_or (hostname start) ''missing Bootstrap hostname'')) (\<lambda>name.
     seqE (hostname_durable (machine X) name ''Bootstrap hostname is not durable'')
    (tryE (liftE (case text_of_attempt (codec (machine X)) (attempt_of start) of
                    Inl e \<Rightarrow> Inl (''encode Bootstrap attempt: '' @ e) | Inr raw \<Rightarrow> Inr raw)) (\<lambda>raw.
     seqE (durable_write (machine X) BOOTSTRAP_ATTEMPT raw)
    (tryE (apply_unit (machine X) start) (\<lambda>st.
     seqE (persist (machine X) st)
    (seqE (fetch_admin X admin_subject ''Bootstrap administrator changed during apply'')
    (seqE (hostname_durable (machine X) name ''Bootstrap hostname changed during apply'')
          (okE st))))))))))"

definition commit_bootstrap_marker :: "'k env \<Rightarrow> ('k world, bootstrap_failure + unit) state" where
  "commit_bootstrap_marker E = do {
     r \<leftarrow> durable_write E BOOTSTRAPPED (''ok'' @ nl);
     (case r of
        Inr _ \<Rightarrow> ret (Inr ())
      | Inl e \<Rightarrow> do {
          there \<leftarrow> file_exists BOOTSTRAPPED;
          synced \<leftarrow> (if there then do { s \<leftarrow> simple_op E (Sync_dir (parent_dir BOOTSTRAPPED)); ret (is_ok s) }
                     else ret False);
          (if synced then ret (Inr ())
           else do {
             d \<leftarrow> durable_remove E BOOTSTRAPPED;
             ret (Inl (case d of
                    Inr _ \<Rightarrow> Incomplete (''Bootstrap marker was not durable: '' @ e)
                  | Inl cleanup \<Rightarrow> Indeterminate
                      (''Bootstrap marker durability is uncertain: '' @ e @ ''; cleanup: '' @ cleanup))) }) }) }"

definition finish_bootstrap :: "'k env \<Rightarrow> desired_state \<Rightarrow> ('k, unit) io" where
  "finish_bootstrap E st =
     seqE (program_lan_services E st True)
    (tryE (set_lan_services_ready E True) (\<lambda>_. do {
       durable_remove E OPT_FILE;
       durable_remove E BOOTSTRAP_ATTEMPT;
       okE () }))"

definition bootstrap_apply_inner ::
    "'k identity_env \<Rightarrow> json \<Rightarrow> ('k world, bootstrap_failure + unit) state" where
  "bootstrap_apply_inner X request =
     (case get_str request ''admin_subject'' of
        None \<Rightarrow> ret (Inl (Incomplete ''missing Bootstrap administrator binding''))
      | Some admin_subject \<Rightarrow>
     (case jget request ''desired'' of
        None \<Rightarrow> ret (Inl (Incomplete ''missing Bootstrap Desired state''))
      | Some input \<Rightarrow>
     (case desired_of_json (codec (machine X)) input of
        Inl e \<Rightarrow> ret (Inl (Incomplete (''invalid Bootstrap Desired state: '' @ e)))
      | Inr start \<Rightarrow> do {
          r \<leftarrow> prepare_bootstrap X admin_subject start;
          (case r of
             Inl e \<Rightarrow> ret (Inl (Incomplete e))
           | Inr st \<Rightarrow> do {
               m \<leftarrow> commit_bootstrap_marker (machine X);
               (case m of
                  Inl f \<Rightarrow> ret (Inl f)
                | Inr _ \<Rightarrow> incomplete (finish_bootstrap (machine X) st)) }) })))"

section \<open>A Bootstrap that did not complete\<close>

definition clear_attempt :: "'k env \<Rightarrow> bootstrap_attempt \<Rightarrow> ('k, unit) io" where
  "clear_attempt E a = do {
     stop_dhclient E;
     seqE (forE (\<lambda>name. tryE (link_exists E name) (\<lambda>there.
             if there then run_ip E [''link'', ''delete'', ''dev'', name] else okE ())) (vlan_links a))
    (tryE (traffic_nic_names E) (\<lambda>nics.
     seqE (forE (\<lambda>nic. seqE (lock_unopted E nic) (run_ip E [''link'', ''set'', nic, ''up''])) nics)
    (seqE (nft_apply E (''flush ruleset'' @ nl))
          (nft_apply E host_pull_nft)))) }"

definition tentative_files :: "string list" where
  "tentative_files = [DESIRED, IDENTITY, HOSTNAME, KEA4, KEA6, UNBOUND, BOOTSTRAP_ATTEMPT]"

definition read_attempt :: "'k env \<Rightarrow> ('k, bootstrap_attempt option) io" where
  "read_attempt E = tryE (map_err (\<lambda>e. ''read Bootstrap attempt: '' @ e) (read_file E BOOTSTRAP_ATTEMPT)) (\<lambda>v.
     case v of
       None \<Rightarrow> okE None
     | Some raw \<Rightarrow>
         (case attempt_of_text (codec E) raw of
            Inl e \<Rightarrow> errE (''parse Bootstrap attempt: '' @ e)
          | Inr a \<Rightarrow> okE (Some a)))"

definition reselect_opt :: "'k env \<Rightarrow> ('k, unit) io" where
  "reselect_opt E = do {
     opt \<leftarrow> load_opt E;
     (case opt of Some p \<Rightarrow> apply_opt E p | None \<Rightarrow> program_first_boot_nft E [] []) }"

definition recover_incomplete_bootstrap :: "'k env \<Rightarrow> ('k, unit) io" where
  "recover_incomplete_bootstrap E = do {
     owned \<leftarrow> file_exists BOOTSTRAPPED;
     (if owned then okE ()
      else tryE (read_attempt E) (\<lambda>a.
        seqE (case a of Some b \<Rightarrow> clear_attempt E b | None \<Rightarrow> okE ())
       (seqE (forE (durable_remove E) tentative_files)
             (if a = None then okE () else reselect_opt E)))) }"

definition fail_bootstrap_attempt :: "'k env \<Rightarrow> string \<Rightarrow> ('k world, string) state" where
  "fail_bootstrap_attempt E error = do {
     r \<leftarrow> recover_incomplete_bootstrap E;
     ret (case r of Inr _ \<Rightarrow> error | Inl e \<Rightarrow> error @ ''; Bootstrap recovery failed: '' @ e) }"

definition bootstrap_apply :: "'k identity_env \<Rightarrow> json \<Rightarrow> ('k world, bootstrap_failure + unit) state" where
  "bootstrap_apply X request = do {
     owned \<leftarrow> file_exists BOOTSTRAPPED;
     (if owned then ret (Inl (Owned ''already bootstrapped''))
      else do {
        r \<leftarrow> bootstrap_apply_inner X request;
        (case r of
           Inl (Incomplete error) \<Rightarrow> do {
             now_owned \<leftarrow> file_exists BOOTSTRAPPED;
             (if now_owned then ret (Inl (Owned (''Bootstrap ownership is recorded; '' @ error)))
              else do { e \<leftarrow> fail_bootstrap_attempt (machine X) error; ret (Inl (Incomplete e)) }) }
         | _ \<Rightarrow> ret r) }) }"

end
