(* ===== verification/Bootstrap_Properties.thy ===== *)
theory Bootstrap_Properties
  imports Bootstrap Identity_Properties Restore_Properties
begin

text \<open>
  What Bootstrap promises: the appliance is owned only once its administrator, its hostname
  and its Accepted state are on disk, at every moment of the request, and an attempt that
  did not complete leaves nothing of itself.
\<close>

section \<open>The files of ownership\<close>

definition ownership_paths :: "string set" where
  "ownership_paths = {DESIRED, IDENTITY_FILE, HOSTNAME, BOOTSTRAPPED}"

lemma ownership_others:
  "list_all (\<lambda>p. p \<notin> set [KEA4, KEA6, UNBOUND, OPT_FILE, LAN_SERVICES_READY, BOOTSTRAP_ATTEMPT] \<and> \<not> is_temp p)
     [DESIRED, IDENTITY_FILE, HOSTNAME, BOOTSTRAPPED]
   \<and> BOOTSTRAPPED \<notin> {DESIRED, IDENTITY_FILE, HOSTNAME} \<and> OWNED_FILE = BOOTSTRAPPED
   \<and> \<not> is_temp BOOTSTRAP_ATTEMPT \<and> \<not> is_temp OPT_FILE"
  by code_simp

lemma ownership_lasting: "lasting ownership_paths"
  using ownership_others by (simp add: lasting_def ownership_paths_def)

lemma ownership_apart: "apart_from_apply ownership_paths" "apart_from_apply {BOOTSTRAPPED}"
  using ownership_others by (auto simp: apart_from_apply_def ownership_paths_def lasting_def)

lemma marker_lasting: "lasting {BOOTSTRAPPED}"
  using ownership_others by (simp add: lasting_def)

lemma ownership_not_temp: "p \<in> ownership_paths \<Longrightarrow> \<not> is_temp p"
  using ownership_lasting by (simp add: lasting_def)

interpretation own: durable_store "durable_write E" "durable_remove E" ownership_paths for E
  by unfold_locales (erule durable_write_writes [OF ownership_not_temp], assumption,
      erule durable_remove_writes, erule ownership_not_temp)

definition ready :: "'k identity_env \<Rightarrow> string \<Rightarrow> desired_state \<Rightarrow> files \<Rightarrow> bool" where
  "ready X sub start f \<longleftrightarrow>
     (\<exists>cfg. stored X f = Some cfg \<and> first_local_administrator_subject cfg = Some sub)
     \<and> (\<exists>raw. f HOSTNAME = Some raw \<and> hostname start = Some (trim raw))
     \<and> (\<exists>t st. f DESIRED = Some t \<and> desired_of_toml (codec (machine X)) t = Inr st \<and> only_addresses start st)"

text \<open>Owned only when ready.\<close>

definition owned_ready :: "'k identity_env \<Rightarrow> string \<Rightarrow> desired_state \<Rightarrow> files \<Rightarrow> bool" where
  "owned_ready X sub start f \<longleftrightarrow> f BOOTSTRAPPED = None \<or> ready X sub start f"

lemma ready_restrict [simp]: "ready X sub start (f |` ownership_paths) = ready X sub start f"
  by (simp add: ready_def stored_def ownership_paths_def)

lemma owned_ready_restrict [simp]: "owned_ready X sub start (f |` ownership_paths) = owned_ready X sub start f"
  by (simp add: owned_ready_def) (simp add: ownership_paths_def)

lemma always_owned:
  "always ownership_paths (owned_ready X sub start) w \<longleftrightarrow> (\<forall>f \<in> set (files w # trail w). owned_ready X sub start f)"
  by (simp add: always_def core_def)

lemma ready_marker [simp]: "ready X sub start (f(BOOTSTRAPPED := v)) = ready X sub start f"
  using ownership_others by (auto simp: ready_def stored_def)

section \<open>Up to the marker\<close>

lemma same_read_config: "keeps (same_on S) (read_config X)"
  unfolding read_config_def by (intro same.keeps_rules same_ops)

lemma same_fetch_admin: "keeps (same_on S) (fetch_admin X sub message)"
  unfolding fetch_admin_def tentative_first_administrator_subject_def by (intro same.keeps_rules same_read_config)

lemma same_hostname_durable: "keeps (same_on S) (hostname_durable E name message)"
  unfolding hostname_durable_def by (intro same.keeps_rules same_ops)

lemma same_prepare: "keeps (same_on {BOOTSTRAPPED}) (prepare_bootstrap X sub start)"
  unfolding prepare_bootstrap_def persist_def persist_at_def
  using ownership_others
  by (intro same.keeps_rules same_fetch_admin same_hostname_durable same_durable_write marker_lasting
      same_apply_unit ownership_apart) auto

lemma run_tryE_okE:
  assumes "run_state (tryE m f) w = (Inr b, w'')"
  obtains a w' where "run_state m w = (Inr a, w')" and "run_state (f a) w' = (Inr b, w'')"
  using assms by (auto simp: run_tryE split: prod.splits sum.splits)

lemma fetch_admin_run:
  assumes "run_state (fetch_admin X sub message) w = (Inr (), w')"
  shows "files w' = files w" and "\<exists>cfg. stored X (files w) = Some cfg \<and> first_local_administrator_subject cfg = Some sub"
proof -
  obtain r w1 where s: "run_state (read_config X) w = (r, w1)" by fastforce
  show "files w' = files w" and "\<exists>cfg. stored X (files w) = Some cfg \<and> first_local_administrator_subject cfg = Some sub"
    using assms s read_config_run [OF s]
    by (auto simp: fetch_admin_def tentative_first_administrator_subject_def split: sum.splits if_splits)
qed

lemma hostname_durable_run:
  assumes "run_state (hostname_durable E name message) w = (Inr (), w')"
  shows "files w' = files w" and "\<exists>raw. files w HOSTNAME = Some raw \<and> trim raw = name"
proof -
  obtain r w1 where s: "run_state (read_text E HOSTNAME) w = (r, w1)" by fastforce
  have "files w1 = files w" using keepsD [OF reads_read_text s] by (simp add: reads_def)
  then show "files w' = files w" and "\<exists>raw. files w HOSTNAME = Some raw \<and> trim raw = name"
    using assms s read_text_run [of E HOSTNAME w _ w1]
    by (auto simp: hostname_durable_def ok_opt_def split: sum.splits if_splits option.splits)
qed

lemma apply_unit_run: "run_state (apply_unit E st) w = (Inr st', w') \<Longrightarrow> only_addresses st st'"
  using apply_state_only_addresses [of E st w]
  by (auto simp: apply_unit_def split: prod.splits sum.splits)

lemma persist_run:
  assumes "run_state (persist E st) w = (Inr (), w')"
  shows "\<exists>t. toml_of_desired (codec E) st = Inr t \<and> files w' DESIRED = Some t"
    and "p \<in> ownership_paths \<Longrightarrow> p \<noteq> DESIRED \<Longrightarrow> files w' p = files w p"
  using persist_at_run [OF assms [unfolded persist_def]] ownership_not_temp
  by (simp_all add: ownership_paths_def)

lemma prepare_ready:
  assumes run: "run_state (prepare_bootstrap X sub start) w = (Inr st, w')" and law: "lawful (codec (machine X))"
  shows "ready X sub start (files w')"
proof -
  let ?c = "codec (machine X)"
  obtain name raw w1 w2 w3 w4 w5 where n: "hostname start = Some name"
    and a: "run_state (apply_unit (machine X) start) w1 = (Inr st, w2)"
    and p: "run_state (persist (machine X) st) w2 = (Inr (), w3)"
    and f: "run_state (fetch_admin X sub ''Bootstrap administrator changed during apply'') w3 = (Inr (), w4)"
    and h: "run_state (hostname_durable (machine X) name ''Bootstrap hostname changed during apply'') w4 = (Inr (), w')"
    using run unfolding prepare_bootstrap_def
    by (elim run_tryE_okE) (auto simp: ok_or_def split: option.splits)
  obtain t where t: "toml_of_desired ?c st = Inr t" "files w3 DESIRED = Some t" using persist_run(1) [OF p] by blast
  have "files w' = files w4" "files w4 = files w3" using fetch_admin_run(1) [OF f] hostname_durable_run(1) [OF h] by auto
  then show ?thesis
    using fetch_admin_run(2) [OF f] hostname_durable_run(2) [OF h] n t lawful_toml [OF law t(1)] apply_unit_run [OF a]
    by (auto simp: ready_def)
qed

lemma marker_kept:
  assumes "kept {BOOTSTRAPPED} w w'" and "files w BOOTSTRAPPED = None" and "always ownership_paths (owned_ready X sub start) w"
  shows "always ownership_paths (owned_ready X sub start) w' \<and> files w' BOOTSTRAPPED = None"
  using assms unfolding always_owned by (auto simp: kept_def owned_ready_def)

section \<open>The marker and after\<close>

lemma commit_marker_run:
  assumes run: "run_state (commit_bootstrap_marker E) w = (r, w')"
    and w: "ready X sub start (files w)" "always ownership_paths (owned_ready X sub start) w"
  shows "always ownership_paths (owned_ready X sub start) w'"
    and "r = Inr () \<Longrightarrow> files w' BOOTSTRAPPED \<noteq> None"
    and "r = Inl (Incomplete e) \<Longrightarrow> files w' BOOTSTRAPPED = None"
    and "r \<noteq> Inl (Owned e)" and "ready X sub start (files w')"
proof -
  let ?G = "owned_ready X sub start"
  have m: "BOOTSTRAPPED \<in> ownership_paths" by (simp add: ownership_paths_def)
  have core: "ready X sub start (core ownership_paths v) = ready X sub start (files v)" for v :: "'a world"
    by (simp add: core_def)
  have G: "?G ((core ownership_paths v)(BOOTSTRAPPED := x))" if "ready X sub start (files v)" for v :: "'a world" and x
    using that by (simp add: owned_ready_def core_def)
  obtain r1 w1 where 1: "run_state (durable_write E BOOTSTRAPPED (''ok'' @ nl)) w = (r1, w1)" by fastforce
  note s1 = own.put_step [OF 1 m w(2) G [OF w(1)]]
  have ready1: "ready X sub start (files w1)"
    using s1 w(1) core [of w] core [of w1] ready_marker by (metis insertE singletonD)
  have marked: "files v BOOTSTRAPPED = (core ownership_paths v) BOOTSTRAPPED" for v :: "'a world"
    by (simp add: core_at [OF m])
  obtain r2 w2 where 2: "run_state (simple_op E (Sync_dir (parent_dir BOOTSTRAPPED))) w1 = (r2, w2)" by fastforce
  have k2: "kept ownership_paths w1 w2" using keepsD [OF keeps_kept [OF same_simple_op] 2] .
  note s2 = own.kept_step [OF k2 conjunct1 [OF s1]]
  have ready2: "ready X sub start (files w2)" and f2: "files w2 BOOTSTRAPPED = files w1 BOOTSTRAPPED"
    using s2 ready1 core [of w1] core [of w2] marked by metis+
  define w3 where "w3 = (if files w1 BOOTSTRAPPED = None then w1 else w2)"
  have w3: "always ownership_paths ?G w3" "ready X sub start (files w3)"
    using s1 s2 ready1 ready2 by (auto simp: w3_def)
  obtain r4 w4 where 4: "run_state (durable_remove E BOOTSTRAPPED) w3 = (r4, w4)" by fastforce
  note s4 = own.delete_step [OF 4 m w3(1) G [OF w3(2)]]
  have ready4: "ready X sub start (files w4)"
    using s4 w3(2) core [of w3] core [of w4] ready_marker by (metis insertE singletonD)
  consider (written) "r = Inr ()" "w' = w1" "r1 = Inr ()"
    | (synced) "r = Inr ()" "w' = w2" "files w1 BOOTSTRAPPED \<noteq> None"
    | (removed) "\<exists>e. r = Inl (Incomplete e)" "w' = w4" "r4 = Inr ()"
    | (unclear) "\<exists>e. r = Inl (Indeterminate e)" "w' = w4"
    using run 1 2 4
    by (cases r1; cases r2; cases r4) (auto simp: commit_bootstrap_marker_def file_exists_def w3_def split: if_splits)
  then have "always ownership_paths ?G w' \<and> (r = Inr () \<longrightarrow> files w' BOOTSTRAPPED \<noteq> None)
      \<and> (r = Inl (Incomplete e) \<longrightarrow> files w' BOOTSTRAPPED = None) \<and> r \<noteq> Inl (Owned e) \<and> ready X sub start (files w')"
    by cases (use s1 s2 s4 f2 marked [of w1] marked [of w4] ready1 ready2 ready4 in auto)
  then show "always ownership_paths ?G w'" "r = Inr () \<Longrightarrow> files w' BOOTSTRAPPED \<noteq> None"
    "r = Inl (Incomplete e) \<Longrightarrow> files w' BOOTSTRAPPED = None" "r \<noteq> Inl (Owned e)" "ready X sub start (files w')"
    by blast+
qed

lemma same_finish: "keeps (same_on ownership_paths) (finish_bootstrap E st)"
proof -
  have "LAN_SERVICES_READY \<notin> ownership_paths" "OPT_FILE \<notin> ownership_paths" "BOOTSTRAP_ATTEMPT \<notin> ownership_paths"
    using ownership_others by (auto simp: ownership_paths_def)
  then show ?thesis
    unfolding finish_bootstrap_def
    by (intro same.keeps_rules same_program_lan_services same_set_lan_services_ready same_durable_remove
        ownership_lasting ownership_apart)
qed

section \<open>An attempt that did not complete\<close>

lemma same_ephemeral_dhcp: "keeps (same_on S) (ephemeral_dhcp E nic)"
  unfolding ephemeral_dhcp_def write_dhclient_script_def Let_def
  by (intro same.keeps_rules same_ops same_stop_dhclient)

lemma same_start_opt: "keeps (same_on S) (start_opt E opt)"
  unfolding start_opt_def by (intro same.keeps_rules same_ops same_ephemeral_dhcp)

lemma same_wait_expose: "keeps (same_on S) (wait_expose_cidrs E nic)"
proof -
  have "keeps (same_on S) (wait_expose_rounds E nic n)" for n
    by (induction n) (auto intro!: same.keeps_rules same_ops)
  then show ?thesis by (simp add: wait_expose_cidrs_def)
qed

lemma same_apply_opt: "keeps (same_on S) (apply_opt E opt)"
  unfolding apply_opt_def
  by (intro same.keeps_rules same_ops same_load_opt same_teardown_opt same_require_in_fwd same_start_opt
      same_wait_expose same_program_first_boot_nft)

lemma same_clear_attempt: "keeps (same_on S) (clear_attempt E a)"
  unfolding clear_attempt_def by (intro same.keeps_rules same_ops same_stop_dhclient)

lemma same_read_attempt: "keeps (same_on S) (read_attempt E)"
  unfolding read_attempt_def by (intro same.keeps_rules same_ops)

lemma tentative_others: "BOOTSTRAPPED \<notin> set tentative_files" "\<forall>p \<in> set tentative_files. \<not> is_temp p"
proof -
  have "list_all (\<lambda>p. p \<noteq> BOOTSTRAPPED \<and> \<not> is_temp p) tentative_files" by code_simp
  then show "BOOTSTRAPPED \<notin> set tentative_files" "\<forall>p \<in> set tentative_files. \<not> is_temp p"
    by (auto simp: list_all_iff)
qed

lemma same_remove_all: "q \<notin> set ps \<Longrightarrow> lasting {q} \<Longrightarrow> keeps (same_on {q}) (forE (durable_remove E) ps)"
  by (induction ps) (auto intro!: same.keeps_rules same_durable_remove)

lemma remove_all_run:
  assumes "run_state (forE (durable_remove E) ps) w = (Inr (), w')" and "\<forall>p \<in> set ps. \<not> is_temp p"
    and "\<forall>q \<in> Q. files w q = None \<and> \<not> is_temp q"
  shows "\<forall>q \<in> Q \<union> set ps. files w' q = None"
  using assms
proof (induction ps arbitrary: w Q)
  case (Cons p ps)
  obtain w1 where 1: "run_state (durable_remove E p) w = (Inr (), w1)"
      and rest: "run_state (forE (durable_remove E) ps) w1 = (Inr (), w')"
    using Cons.prems(1) by (auto elim!: run_tryE_okE)
  have "\<forall>q \<in> insert p Q. files w1 q = None \<and> \<not> is_temp q"
    using durable_remove_run [OF 1] Cons.prems(2,3) by (metis insert_iff list.set_intros(1))
  from Cons.IH [OF rest _ this] Cons.prems(2) show ?case by auto
qed auto

lemma same_reselect_opt: "keeps (same_on S) (reselect_opt E)"
  unfolding reselect_opt_def
  by (intro same.keeps_rules same_load_opt same_apply_opt same_program_first_boot_nft)

lemma same_recover_incomplete: "keeps (same_on {BOOTSTRAPPED}) (recover_incomplete_bootstrap E)"
  unfolding recover_incomplete_bootstrap_def
  by (intro same.keeps_rules same_ops same_read_attempt same_clear_attempt same_remove_all tentative_others(1)
      marker_lasting same_reselect_opt)

lemma recover_incomplete_clears:
  assumes run: "run_state (recover_incomplete_bootstrap E) w = (Inr (), w')" and w: "files w BOOTSTRAPPED = None"
  shows "\<forall>p \<in> set tentative_files. files w' p = None"
proof -
  obtain a :: "bootstrap_attempt option" and w1 w2 where r: "run_state (forE (durable_remove E) tentative_files) w1 = (Inr (), w2)"
    and m: "run_state (if a = None then okE () else reselect_opt E) w2 = (Inr (), w')"
    using run w unfolding recover_incomplete_bootstrap_def
    by (auto elim!: run_tryE_okE)
  have "\<forall>p \<in> set tentative_files. files w2 p = None"
    using remove_all_run [OF r tentative_others(2), of "{}"] by simp
  moreover have "keeps (same_on (set tentative_files)) (if a = None then okE () else reselect_opt E)"
    by (intro same.keeps_rules same_reselect_opt)
  ultimately show ?thesis
    using keepsD [OF _ m] by (fastforce simp: same_on_def kept_def)
qed

section \<open>The request\<close>

definition asks_for :: "codecs \<Rightarrow> json \<Rightarrow> string \<Rightarrow> desired_state \<Rightarrow> bool" where
  "asks_for c request sub start \<longleftrightarrow>
     get_str request ''admin_subject'' = Some sub
     \<and> (\<exists>input. jget request ''desired'' = Some input \<and> desired_of_json c input = Inr start)
     \<and> validate (base64 c) start = Inr ()"

text \<open>How the request stands when it ends in \<open>r\<close>.\<close>

definition bootstrap_ended ::
    "'k identity_env \<Rightarrow> json \<Rightarrow> string \<Rightarrow> desired_state \<Rightarrow> bootstrap_failure + unit \<Rightarrow> 'k world \<Rightarrow> bool" where
  "bootstrap_ended X request sub start r w \<longleftrightarrow>
     always ownership_paths (owned_ready X sub start) w
     \<and> ((\<forall>f \<in> set (files w # trail w). f BOOTSTRAPPED = None) \<or> asks_for (codec (machine X)) request sub start)
     \<and> (r = Inr () \<longrightarrow> files w BOOTSTRAPPED \<noteq> None)"

lemma unowned_ended:
  assumes "kept {BOOTSTRAPPED} w w'" and "files w BOOTSTRAPPED = None" and "trail w = []" and "r \<noteq> Inr ()"
  shows "bootstrap_ended X request sub start r w'"
  using assms unfolding bootstrap_ended_def always_owned by (auto simp: kept_def owned_ready_def)

lemma prepare_checked:
  "run_state (prepare_bootstrap X sub start) w = (Inr st, w') \<Longrightarrow> validate (base64 (codec (machine X))) start = Inr ()"
  unfolding prepare_bootstrap_def by (elim run_tryE_okE) (auto simp: check_bootstrap_def thenE_ok)

lemma bootstrap_inner_run:
  assumes run: "run_state (bootstrap_apply_inner X request) w = (r, w')" and law: "lawful (codec (machine X))"
    and w: "files w BOOTSTRAPPED = None" "trail w = []"
  shows "(\<exists>sub start. bootstrap_ended X request sub start r w') \<and> (\<forall>e. r \<noteq> Inl (Owned e))"
proof (cases "\<exists>sub input start. get_str request ''admin_subject'' = Some sub \<and> jget request ''desired'' = Some input
    \<and> desired_of_json (codec (machine X)) input = Inr start")
  case False
  then have "w' = w \<and> (\<exists>e. r = Inl (Incomplete e))"
    using run by (auto simp: bootstrap_apply_inner_def split: option.splits sum.splits)
  then show ?thesis using unowned_ended [OF kept_refl w] by auto
next
  case True
  then obtain sub input start where req: "get_str request ''admin_subject'' = Some sub"
    "jget request ''desired'' = Some input" "desired_of_json (codec (machine X)) input = Inr start" by blast
  obtain p w1 where 1: "run_state (prepare_bootstrap X sub start) w = (p, w1)" by fastforce
  have k1: "kept {BOOTSTRAPPED} w w1" using keepsD [OF same_prepare 1] by (simp add: same_on_def)
  show ?thesis
  proof (cases p)
    case (Inl e)
    then have "w' = w1" "r = Inl (Incomplete e)"
      using run req 1 by (auto simp: bootstrap_apply_inner_def)
    then show ?thesis using unowned_ended [OF k1 w] by auto
  next
    case (Inr st)
    have ask: "asks_for (codec (machine X)) request sub start"
      using req prepare_checked [OF 1 [unfolded Inr]] by (auto simp: asks_for_def)
    have own1: "always ownership_paths (owned_ready X sub start) w1"
      using marker_kept [OF k1 w(1)] w unfolding always_owned by (auto simp: owned_ready_def)
    obtain m w2 where 2: "run_state (commit_bootstrap_marker (machine X)) w1 = (m, w2)" by fastforce
    note c = commit_marker_run [OF 2 prepare_ready [OF 1 [unfolded Inr] law] own1]
    obtain f w3 where 3: "run_state (finish_bootstrap (machine X) st) w2 = (f, w3)" by fastforce
    have k3: "kept ownership_paths w2 w3" using keepsD [OF same_finish 3] by (simp add: same_on_def)
    note s3 = own.kept_step [OF k3 c(1)]
    have "files w3 BOOTSTRAPPED = files w2 BOOTSTRAPPED"
      using s3 core_at [of BOOTSTRAPPED ownership_paths] by (metis insertCI ownership_paths_def)
    moreover have "m = Inr () \<Longrightarrow> w' = w3 \<and> (\<forall>e. r \<noteq> Inl (Owned e))" and "m \<noteq> Inr () \<Longrightarrow> w' = w2 \<and> r = m"
      using run req 1 2 3 Inr by (auto simp: bootstrap_apply_inner_def incomplete_def split: sum.splits)
    ultimately show ?thesis
      using c s3 ask unfolding bootstrap_ended_def by (cases "m = Inr ()") auto
  qed
qed

text \<open>
  C9. Nobody owns an appliance without an administrator. When a Bootstrap request runs on an
  unowned appliance, then at every moment, whatever fails and wherever power is lost, the
  ownership marker is on disk only beside the identity file whose first local administrator is
  the one the request is bound to, the hostname of the requested state, and the requested
  state itself, which passed validation. The request succeeds only with the marker in place,
  and one that ends as incomplete leaves no marker.
\<close>

theorem ownership_only_when_ready:
  assumes "run_state (bootstrap_apply X request) w = (r, w')" and "lawful (codec (machine X))"
    and "files w BOOTSTRAPPED = None" and "trail w = []"
  shows "\<exists>sub start. (\<forall>f \<in> set (files w' # trail w'). f BOOTSTRAPPED \<noteq> None \<longrightarrow>
        asks_for (codec (machine X)) request sub start \<and> ready X sub start f)
    \<and> (r = Inr () \<longrightarrow> files w' BOOTSTRAPPED \<noteq> None)
    \<and> (\<forall>e. r = Inl (Incomplete e) \<longrightarrow> files w' BOOTSTRAPPED = None)"
proof -
  obtain r1 w1 where 1: "run_state (bootstrap_apply_inner X request) w = (r1, w1)" by fastforce
  obtain sub start where e: "bootstrap_ended X request sub start r1 w1" and no: "\<forall>e. r1 \<noteq> Inl (Owned e)"
    using bootstrap_inner_run [OF 1 assms(2-4)] by blast
  obtain q w2 where 2: "run_state (recover_incomplete_bootstrap (machine X)) w1 = (q, w2)" by fastforce
  have k: "kept {BOOTSTRAPPED} w1 w2" using keepsD [OF same_recover_incomplete 2] by (simp add: same_on_def)
  consider (ended) "w' = w1" "r = Inr () \<longrightarrow> r1 = Inr ()" "\<forall>e. r \<noteq> Inl (Incomplete e)"
    | (undone) "w' = w2" "r \<noteq> Inr ()" "files w1 BOOTSTRAPPED = None"
    using assms(1,3) 1 2 no
    by (cases r1) (auto simp: bootstrap_apply_def fail_bootstrap_attempt_def file_exists_def
        split: bootstrap_failure.splits if_splits)
  then show ?thesis
  proof cases
    case ended
    then show ?thesis
      using e unfolding bootstrap_ended_def always_owned
      by (intro exI [of _ sub] exI [of _ start]) (auto simp: owned_ready_def)
  next
    case undone
    have "files w2 BOOTSTRAPPED = None" using k undone(3) by (auto simp: kept_def)
    moreover have "f BOOTSTRAPPED = None \<or> f \<in> set (files w1 # trail w1)" if "f \<in> set (files w2 # trail w2)" for f
      using k undone(3) that unfolding kept_def by fastforce
    ultimately show ?thesis
      using e undone unfolding bootstrap_ended_def always_owned
      by (intro exI [of _ sub] exI [of _ start]) (fastforce simp: owned_ready_def)
  qed
qed

text \<open>
  Recovery of an incomplete Bootstrap touches no owned appliance, and never owns one: with
  the marker it does nothing at all; without it the marker stays absent at every moment, and
  when it succeeds the tentative Desired state, identity, hostname, LAN service files and the
  record of the attempt are all gone.
\<close>

theorem incomplete_bootstrap_is_cleared:
  assumes "run_state (recover_incomplete_bootstrap E) w = (r, w')" and "trail w = []"
  shows "(files w BOOTSTRAPPED \<noteq> None \<longrightarrow> r = Inr () \<and> w' = w)
    \<and> (files w BOOTSTRAPPED = None \<longrightarrow>
         (\<forall>f \<in> set (files w' # trail w'). f BOOTSTRAPPED = None)
         \<and> (r = Inr () \<longrightarrow> (\<forall>p \<in> {DESIRED, IDENTITY, HOSTNAME, KEA4, KEA6, UNBOUND, BOOTSTRAP_ATTEMPT}. files w' p = None)))"
proof (cases "files w BOOTSTRAPPED = None")
  case True
  have "kept {BOOTSTRAPPED} w w'" using keepsD [OF same_recover_incomplete assms(1)] by (simp add: same_on_def)
  then have "\<forall>f \<in> set (files w' # trail w'). f BOOTSTRAPPED = None" using True assms(2) by (auto simp: kept_def)
  moreover have "set tentative_files = {DESIRED, IDENTITY, HOSTNAME, KEA4, KEA6, UNBOUND, BOOTSTRAP_ATTEMPT}"
    by (auto simp: tentative_files_def)
  ultimately show ?thesis
    using True recover_incomplete_clears [of E w w'] assms(1) by auto
next
  case False
  then show ?thesis
    using assms(1) by (auto simp: recover_incomplete_bootstrap_def file_exists_def)
qed

end
