(* ===== verification/Bootstrap_Success.thy ===== *)
theory Bootstrap_Success
  imports Bootstrap_Properties Confirm_Success Identity_Sample
begin

text \<open>
  A Bootstrap on a machine where nothing fails, and the sample appliance that is bootstrapped.
\<close>

section \<open>Success\<close>

text \<open>The tentative administrator and hostname, before the request.\<close>

definition candidate :: "'k identity_env \<Rightarrow> string \<Rightarrow> string \<Rightarrow> 'k world \<Rightarrow> bool" where
  "candidate X sub name w \<longleftrightarrow>
     tidy w \<and> (\<exists>cfg. stored X (files w) = Some cfg \<and> first_local_administrator_subject cfg = Some sub)
     \<and> (\<exists>raw. files w HOSTNAME = Some raw \<and> is_utf8 raw \<and> trim raw = name)"

lemma candidate_kept:
  assumes "candidate X sub name w" and "kept {IDENTITY_FILE, HOSTNAME} w w'" and "tidy w'"
  shows "candidate X sub name w'"
  using assms by (auto simp: candidate_def kept_def stored_def)

lemma candidate_step:
  assumes "candidate X sub name w" and "gives m P" and "keeps (same_on {IDENTITY_FILE, HOSTNAME}) m"
  obtains a w' where "run_state m w = (Inr a, w')" and "candidate X sub name w'" and "P a"
proof -
  have "tidy w" using assms(1) by (simp add: candidate_def)
  then obtain a w' where m: "run_state m w = (Inr a, w')" "tidy w'" "P a" using assms(2) unfolding gives_def by blast
  then show ?thesis
    using that candidate_kept [OF assms(1) _ m(2)] keepsD [OF assms(3) m(1)] by (auto simp: same_on_def)
qed

lemma fetch_admin_finds:
  assumes "faultless (machine X)" and "candidate X sub name w"
  obtains w' where "run_state (fetch_admin X sub message) w = (Inr (), w')" and "candidate X sub name w'"
proof -
  obtain cfg raw where c: "tidy w" "files w IDENTITY_FILE = Some raw" "config_of_text X raw = Inr cfg" "check_config cfg = Inr ()"
      "first_local_administrator_subject cfg = Some sub"
    using assms(2) by (auto simp: candidate_def stored_def valid_config_def ok_opt_def split: sum.splits if_splits bind_splits)
  obtain w' where w': "run_state (read_file (machine X) IDENTITY_FILE) w = (Inr (Some raw), w')" "files w' = files w" "tidy w'"
    using run_read_file_tidy [OF assms(1) c(1), of IDENTITY_FILE] c(2) by metis
  then have run: "run_state (fetch_admin X sub message) w = (Inr (), w')"
    using c by (simp add: fetch_admin_def tentative_first_administrator_subject_def read_config_def tryE_def)
  show ?thesis
    using that [OF run] assms(2) w' by (simp add: candidate_def)
qed

lemma hostname_found:
  assumes "faultless (machine X)" and "candidate X sub name w"
  obtains w' where "run_state (hostname_durable (machine X) name message) w = (Inr (), w')" and "candidate X sub name w'"
proof -
  obtain raw where c: "tidy w" "files w HOSTNAME = Some raw" "is_utf8 raw" "trim raw = name"
    using assms(2) by (auto simp: candidate_def)
  obtain w' where w': "run_state (read_text (machine X) HOSTNAME) w = (Inr (Some raw), w')" "files w' = files w"
    using gives_read_text [OF assms(1) c(2,3)] .
  have run: "run_state (hostname_durable (machine X) name message) w = (Inr (), w')"
    using w' c by (simp add: hostname_durable_def ok_opt_def)
  show ?thesis
    using that [OF run] assms(2) w' tidy_files [OF w'(2)] by (simp add: candidate_def)
qed

lemma candidate_apart: "apart_from_apply {IDENTITY_FILE, HOSTNAME}" "lasting {IDENTITY_FILE, HOSTNAME}"
  "DESIRED \<notin> {IDENTITY_FILE, HOSTNAME}" "BOOTSTRAP_ATTEMPT \<notin> {IDENTITY_FILE, HOSTNAME}"
proof -
  have "DESIRED \<noteq> IDENTITY_FILE \<and> DESIRED \<noteq> HOSTNAME" by code_simp
  then show "apart_from_apply {IDENTITY_FILE, HOSTNAME}" "lasting {IDENTITY_FILE, HOSTNAME}"
    "DESIRED \<notin> {IDENTITY_FILE, HOSTNAME}" "BOOTSTRAP_ATTEMPT \<notin> {IDENTITY_FILE, HOSTNAME}"
    using ownership_others by (auto simp: apart_from_apply_def lasting_def)
qed

lemma prepare_succeeds:
  assumes E: "faultless (machine X)" "encodes (codec (machine X))" and c: "candidate X sub name w"
    and st: "check_bootstrap (codec (machine X)) start = Inr ()" "lan_host_known start" "hostname start = Some name"
    and raw: "text_of_attempt (codec (machine X)) (attempt_of start) = Inr raw"
  obtains st w' where "run_state (prepare_bootstrap X sub start) w = (Inr st, w')" and "tidy w'" and "only_addresses start st"
proof -
  let ?E = "machine X"
  have attempt: "\<not> is_temp BOOTSTRAP_ATTEMPT" using ownership_others by simp
  have valid: "validate (base64 (codec ?E)) start = Inr ()" using st(1) by (simp add: check_bootstrap_def thenE_ok)
  obtain w1 where 1: "run_state (fetch_admin X sub ''Bootstrap administrator changed before apply'') w = (Inr (), w1)"
      "candidate X sub name w1" using fetch_admin_finds [OF E(1) c] .
  obtain w2 where 2: "run_state (hostname_durable ?E name ''Bootstrap hostname is not durable'') w1 = (Inr (), w2)"
      "candidate X sub name w2" using hostname_found [OF E(1) 1(2)] .
  obtain w3 where 3: "run_state (durable_write ?E BOOTSTRAP_ATTEMPT raw) w2 = (Inr (), w3)" "candidate X sub name w3"
    using candidate_step [OF 2(2) fine_durable_write [OF E(1) attempt] same_durable_write [OF candidate_apart(4,2) attempt]]
    by (metis (full_types) unit.exhaust)
  obtain s w4 where 4: "run_state (apply_unit ?E start) w3 = (Inr s, w4)" "candidate X sub name w4" "only_addresses start s"
    using candidate_step [OF 3(2) gives_apply_unit [OF E(1) valid st(2)] same_apply_unit [OF candidate_apart(1)]] .
  have same: "keeps (same_on {IDENTITY_FILE, HOSTNAME}) (persist ?E s)"
    unfolding persist_def persist_at_def
    by (intro same.keeps_rules same_durable_write candidate_apart) (simp add: journal_not_temp)
  obtain w5 where 5: "run_state (persist ?E s) w4 = (Inr (), w5)" "candidate X sub name w5"
    using candidate_step [OF 4(2) _ same] fine_persist [OF E in_journal(1)] unfolding persist_def by (metis (full_types) unit.exhaust)
  obtain w6 where 6: "run_state (fetch_admin X sub ''Bootstrap administrator changed during apply'') w5 = (Inr (), w6)"
      "candidate X sub name w6" using fetch_admin_finds [OF E(1) 5(2)] .
  obtain w7 where 7: "run_state (hostname_durable ?E name ''Bootstrap hostname changed during apply'') w6 = (Inr (), w7)"
      "candidate X sub name w7" using hostname_found [OF E(1) 6(2)] .
  have "run_state (prepare_bootstrap X sub start) w = (Inr s, w7)"
    using st raw 1 2 3 4 5 6 7 by (simp add: prepare_bootstrap_def ok_or_def run_tryE tryE_okE)
  then show ?thesis using that 7(2) 4(3) by (simp add: candidate_def)
qed

lemma stays_durable_remove: "faultless E \<Longrightarrow> keeps stays (durable_remove E p)"
  by (rule gives_stays [OF fine_durable_remove])

lemma fine_finish_bootstrap:
  assumes "faultless E" and "answers E bytes" and "lan_host_known st"
  shows "fine (finish_bootstrap E st)"
  unfolding finish_bootstrap_def
  by (intro gives_seqE [OF fine_program_lan_services [OF assms(1,3)]] gives_tryE [OF gives_ready [OF assms(1,2)]]
      gives_bind stays_durable_remove fine_okE assms(1))

lemma bootstrap_run:
  assumes E: "faultless (machine X)" "encodes (codec (machine X))" "answers (machine X) bytes"
    and c: "candidate X sub name w" "files w BOOTSTRAPPED = None"
    and st: "check_bootstrap (codec (machine X)) start = Inr ()" "lan_host_known start" "hostname start = Some name"
    and raw: "text_of_attempt (codec (machine X)) (attempt_of start) = Inr raw"
    and req: "get_str request ''admin_subject'' = Some sub" "jget request ''desired'' = Some input"
      "desired_of_json (codec (machine X)) input = Inr start"
  shows "fst (run_state (bootstrap_apply X request) w) = Inr ()"
proof -
  obtain s w1 where 1: "run_state (prepare_bootstrap X sub start) w = (Inr s, w1)" "tidy w1" "only_addresses start s"
    using prepare_succeeds [OF E(1,2) c(1) st raw] .
  have "\<not> is_temp BOOTSTRAPPED" using marker_lasting by (simp add: lasting_def)
  from run_fine [OF fine_durable_write [OF E(1) this] 1(2)] obtain w2 where
    2: "run_state (durable_write (machine X) BOOTSTRAPPED (''ok'' @ nl)) w1 = (Inr (), w2)" "tidy w2" by fastforce
  have "lan_host_known s" using st(2) lan_host_same [OF 1(3)] by simp
  from run_fine [OF fine_finish_bootstrap [OF E(1,3) this] 2(2)] obtain w3 where
    3: "run_state (finish_bootstrap (machine X) s) w2 = (Inr (), w3)" by fastforce
  show ?thesis
    using c(2) req 1 2 3
    by (simp add: bootstrap_apply_def bootstrap_apply_inner_def commit_bootstrap_marker_def incomplete_def file_exists_def)
qed


section \<open>The sample\<close>

definition fresh_env :: "unit env" where
  "fresh_env = sample_env\<lparr> codec := unary_codecs\<lparr> text_of_attempt := (\<lambda>_. Inr ''{}'') \<rparr> \<rparr>"

definition fresh_identity :: "unit identity_env" where
  "fresh_identity = sample_identity\<lparr> machine := fresh_env \<rparr>"

definition named_state :: desired_state where
  "named_state = sample_state\<lparr> hostname := Some ''fw'' \<rparr>"

definition fresh_world :: "unit world" where
  "fresh_world =
     \<lparr> files = [IDENTITY_FILE \<mapsto> unary two_admins, HOSTNAME \<mapsto> ''fw''], recovery_required = False, trail = [],
       calls = [], outside = () \<rparr>"

definition bootstrap_request :: json where
  "bootstrap_request = JObj [(''admin_subject'', JStr ''s1''), (''desired'', JStr (unary named_state))]"

lemma fresh_fields [simp]:
  "machine fresh_identity = fresh_env" "codec fresh_env = unary_codecs\<lparr> text_of_attempt := (\<lambda>_. Inr ''{}'') \<rparr>"
  "config_of_text fresh_identity = (\<lambda>t. Inr (of_unary t))"
  by (simp_all add: fresh_identity_def fresh_env_def sample_identity_def)

lemma fresh_machine: "faultless fresh_env" "answers fresh_env zeros" "encodes (codec fresh_env)" "lawful (codec fresh_env)"
proof -
  have same: "io_fault fresh_env = io_fault sample_env" "exec fresh_env = exec sample_env"
    "json_of_text (codec fresh_env) = json_of_text (codec sample_env)" "urandom fresh_env = urandom sample_env"
    "boottime_clock fresh_env = boottime_clock sample_env" "unix_ms fresh_env = unix_ms sample_env"
    "deadline_passed fresh_env = deadline_passed sample_env" "foreign_read fresh_env = foreign_read sample_env"
    "foreign_write fresh_env = foreign_write sample_env" "foreign_remove fresh_env = foreign_remove sample_env"
    "foreign_dir fresh_env = foreign_dir sample_env"
    by (simp_all add: fresh_env_def)
  show "faultless fresh_env" using sample_faultless unfolding faultless_def good_output_def same by simp
  show "answers fresh_env zeros" using sample_answers unfolding answers_def same by simp
  show "encodes (codec fresh_env)" using unary_encodes by (simp add: encodes_def)
  show "lawful (codec fresh_env)" using unary_lawful by (simp add: lawful_def)
qed

lemma named_checks: "check_bootstrap (codec fresh_env) named_state = Inr ()" "lan_host_known named_state" "hostname named_state = Some ''fw''"
proof -
  have "validate (\<lambda>_. None) named_state = Inr ()" by code_simp
  moreover have "eachE (\<lambda>i. interface_values (iface_name i) (parent i) (vlan i) (iface_addresses i)) (interfaces named_state) = Inr ()"
    by code_simp
  moreover have "addressing (lan_prefix named_state) (dhcp_pool named_state) (wan_pd named_state) = Inr ()"
    by code_simp
  moreover have "lan_services_match_interface named_state = Inr ()"
    by code_simp
  ultimately show "check_bootstrap (codec fresh_env) named_state = Inr ()"
    by (simp add: check_bootstrap_def thenE_ok unary_codecs_def)
  show "lan_host_known named_state" by code_simp
  show "hostname named_state = Some ''fw''" by (simp add: named_state_def)
qed

lemma fresh_request:
  "get_str bootstrap_request ''admin_subject'' = Some ''s1''" "jget bootstrap_request ''desired'' = Some (JStr (unary named_state))"
  "desired_of_json (codec fresh_env) (JStr (unary named_state)) = Inr named_state"
  by (simp_all add: bootstrap_request_def get_str_def jget_def jstr_def unary_codecs_def unary_json_def)

lemma fresh_files: "files fresh_world BOOTSTRAPPED = None" "trail fresh_world = []" "candidate fresh_identity ''s1'' ''fw'' fresh_world"
proof -
  have p: "HOSTNAME \<noteq> IDENTITY_FILE" "\<not> is_temp HOSTNAME" by code_simp+
  show "files fresh_world BOOTSTRAPPED = None" "trail fresh_world = []"
    using ownership_others by (auto simp: fresh_world_def)
  have "first_local_administrator_subject two_admins = Some ''s1''" "is_utf8 ''fw''" "trim ''fw'' = ''fw''" by code_simp+
  moreover have "stored fresh_identity (files fresh_world) = Some two_admins"
    using two_admins_owned p by (simp add: stored_def fresh_world_def owned_config_def)
  ultimately show "candidate fresh_identity ''s1'' ''fw'' fresh_world"
    using p identity_paths by (auto simp: candidate_def fresh_world_def tidy_def)
qed

lemma fresh_run: "fst (run_state (bootstrap_apply fresh_identity bootstrap_request) fresh_world) = Inr ()"
  using bootstrap_run [of fresh_identity, OF _ _ _ fresh_files(3,1) _ named_checks(2,3) _ fresh_request(1,2)]
    fresh_machine named_checks(1) fresh_request(3) by simp


theorem ownership_only_when_ready_witness:
  "ready fresh_identity ''s1'' named_state
     (files (snd (run_state (bootstrap_apply fresh_identity bootstrap_request) fresh_world)))"
proof -
  have law: "lawful (codec (machine fresh_identity))" using fresh_machine(4) by simp
  obtain sub start where n: "\<forall>f \<in> set (files (snd (run_state (bootstrap_apply fresh_identity bootstrap_request) fresh_world))
       # trail (snd (run_state (bootstrap_apply fresh_identity bootstrap_request) fresh_world))). f BOOTSTRAPPED \<noteq> None \<longrightarrow>
        asks_for (codec (machine fresh_identity)) bootstrap_request sub start \<and> ready fresh_identity sub start f"
      "files (snd (run_state (bootstrap_apply fresh_identity bootstrap_request) fresh_world)) BOOTSTRAPPED \<noteq> None"
    using ownership_only_when_ready [OF prod.collapse [symmetric] law fresh_files(1,2), of bootstrap_request] fresh_run
    by blast
  then have r: "asks_for (codec fresh_env) bootstrap_request sub start"
      "ready fresh_identity sub start (files (snd (run_state (bootstrap_apply fresh_identity bootstrap_request) fresh_world)))"
    by simp_all
  have "sub = ''s1''" "start = named_state"
    using r(1) fresh_request by (auto simp: asks_for_def)
  then show ?thesis using r(2) by simp
qed

theorem incomplete_bootstrap_is_cleared_witness:
  "files (snd (run_state (recover_incomplete_bootstrap fresh_env) fresh_world)) BOOTSTRAPPED = None"
  using incomplete_bootstrap_is_cleared [OF prod.collapse [symmetric] fresh_files(2)] fresh_files(1) by simp

end
