(* ===== verification/Resolvers.thy ===== *)
theory Resolvers
  imports Durable Ip
begin

text \<open>
  The DNS resolvers of the Forwarding namespace (\<open>src/fwd_resolvers.rs\<close>) and the image
  references of a Host update (\<open>src/host_image.rs\<close>).
\<close>

section \<open>Definitions\<close>

definition RESOLVERS :: string where "RESOLVERS = ''/var/lib/fwos/fwd-resolv.conf''"

definition LEASE_EXTENSION :: string where "LEASE_EXTENSION = ''dns''"

definition lease_file :: "string \<Rightarrow> string \<Rightarrow> string" where
  "lease_file dir wan = dir @ ''/'' @ wan @ ''.'' @ LEASE_EXTENSION"

definition MAX_NAMESERVERS :: nat where "MAX_NAMESERVERS = 3"

definition scope_char :: "char \<Rightarrow> bool" where
  "scope_char c \<longleftrightarrow> ascii_alphanumeric c \<or> c \<in> {CHR ''.'', CHR ''_'', CHR ''-''}"

text \<open>An address, or a link-local one scoped to its interface.\<close>

definition nameserver :: "string \<Rightarrow> string option" where
  "nameserver word =
     (case parse_ip word of
        Some (V6 a) \<Rightarrow> if v6_link_local a then None else Some word
      | Some (V4 _) \<Rightarrow> Some word
      | None \<Rightarrow>
          (case split_once (CHR ''%'') word of
             None \<Rightarrow> None
           | Some (address, scope) \<Rightarrow>
               (case parse_ipv6 address of
                  None \<Rightarrow> None
                | Some a \<Rightarrow> if v6_link_local a \<and> scope \<noteq> [] \<and> list_all scope_char scope then Some word else None)))"

definition server_of_line :: "string \<Rightarrow> string option" where
  "server_of_line line =
     (case split_whitespace line of
        [keyword, word] \<Rightarrow> if keyword = ''nameserver'' then nameserver word else None
      | _ \<Rightarrow> None)"

fun learned_servers :: "string list \<Rightarrow> string list \<Rightarrow> string list" where
  "learned_servers servers [] = servers"
| "learned_servers servers (line # ls) =
     learned_servers
       (case server_of_line line of
          Some s \<Rightarrow> if s \<in> set servers then servers else servers @ [s]
        | None \<Rightarrow> servers) ls"

definition nameserver_line :: "string \<Rightarrow> string" where
  "nameserver_line s = ''nameserver '' @ s @ nl"

definition resolv_conf :: "string \<Rightarrow> string" where
  "resolv_conf learned =
     (let servers = learned_servers [] (lines_of learned) in
      if servers = [] then ''# No WAN resolver learned in the Forwarding netns'' @ nl
      else concat (map nameserver_line (take MAX_NAMESERVERS servers)))"

definition has_resolver :: "string \<Rightarrow> bool" where
  "has_resolver conf = list_ex (starts_with ''nameserver '') (lines_of conf)"

definition publish_resolvers :: "'k env \<Rightarrow> string \<Rightarrow> string \<Rightarrow> ('k, unit) io" where
  "publish_resolvers E path conf = durable_write E path conf"

text \<open>\<open>chars().any(|c| c.is_whitespace() || c.is_control())\<close> of an image reference\<close>

definition valid_reference :: "string \<Rightarrow> bool" where
  "valid_reference img \<longleftrightarrow>
     img \<noteq> [] \<and> length img \<le> 512 \<and> \<not> starts_with ''-'' img
     \<and> \<not> list_ex (\<lambda>g. white_space g \<or> control_char g) (utf8_chars img)"

section \<open>What is published\<close>

lemma set_learned_servers:
  "set (learned_servers servers ls) = set servers \<union> {s. \<exists>line \<in> set ls. server_of_line line = Some s}"
  by (induction servers ls rule: learned_servers.induct) (auto split: option.splits)

lemma distinct_learned_servers: "distinct servers \<Longrightarrow> distinct (learned_servers servers ls)"
  by (induction servers ls rule: learned_servers.induct) (auto split: option.splits)

lemma nameserver_same: "nameserver w = Some s \<Longrightarrow> s = w"
  by (auto simp: nameserver_def split: option.splits ip_addr.splits if_splits)

lemma server_of_line_word:
  "server_of_line line = Some s \<Longrightarrow> split_whitespace line = [''nameserver'', s] \<and> nameserver s = Some s"
  unfolding server_of_line_def by (simp split: list.splits if_splits) (use nameserver_same in blast)

lemma lines_first:
  assumes "\<not> list_ex (\<lambda>c. c = CHR 0x0A) p"
  shows "\<exists>rest. hd (split_on (CHR 0x0A) (p @ s)) = p @ rest"
  using assms unfolding split_on_def by (induction p) (auto split: list.splits)

lemma first_line_starts:
  assumes "\<not> list_ex (\<lambda>c. c = CHR 0x0A) p" and "p \<noteq> []" and "last p \<noteq> CHR 0x0D"
  shows "\<exists>line \<in> set (lines_of (p @ s)). starts_with p line"
proof -
  obtain rest where r: "hd (split_on (CHR 0x0A) (p @ s)) = p @ rest" using lines_first [OF assms(1)] by blast
  have n: "split_on (CHR 0x0A) (p @ s) \<noteq> []" by (simp add: split_on_def)
  obtain q qs where ps: "split_on (CHR 0x0A) (p @ s) = q # qs" using n by (cases "split_on (CHR 0x0A) (p @ s)") auto
  have q: "q = p @ rest" using r ps by simp
  have "strip_cr q = p @ (if rest = [] then [] else strip_cr rest)"
    using assms(2,3) q by (auto simp: strip_cr_def butlast_append)
  then have both: "starts_with p (strip_cr q)" "starts_with p q"
    using q starts_with_iff by metis+
  show ?thesis
  proof (cases qs)
    case Nil
    then have "q \<in> set (lines_of (p @ s))" using ps assms(2) q by (simp add: lines_of_def Let_def)
    then show ?thesis using both by blast
  next
    case (Cons a list)
    then have "strip_cr q \<in> set (lines_of (p @ s))" using ps by (simp add: lines_of_def Let_def)
    then show ?thesis using both by blast
  qed
qed

lemma has_resolver_nameserver: "has_resolver (nameserver_line s @ rest)"
proof -
  have "\<not> list_ex (\<lambda>c. c = CHR 0x0A) ''nameserver ''" "''nameserver '' \<noteq> []" "last ''nameserver '' \<noteq> CHR 0x0D"
    by code_simp+
  from first_line_starts [OF this, of "s @ nl @ rest"] show ?thesis
    by (auto simp: has_resolver_def nameserver_line_def list_ex_iff)
qed

lemma no_resolver: "\<not> has_resolver (''# No WAN resolver learned in the Forwarding netns'' @ nl)"
  by code_simp

text \<open>
  C33. The file published for \<open>fwd\<close> names a resolver exactly when one of the learned lines is a
  well-formed \<open>nameserver\<close> line, and every resolver it names, at most three and each once, is
  one of those. A line with an unscoped link-local address or a third word is none.
\<close>

theorem resolvers_published_iff:
  "(has_resolver (resolv_conf learned) \<longleftrightarrow> (\<exists>line \<in> set (lines_of learned). server_of_line line \<noteq> None))
   \<and> (\<exists>servers. resolv_conf learned \<in> {concat (map nameserver_line servers), ''# No WAN resolver learned in the Forwarding netns'' @ nl}
        \<and> length servers \<le> 3 \<and> distinct servers
        \<and> set servers \<subseteq> {s. \<exists>line \<in> set (lines_of learned). split_whitespace line = [''nameserver'', s] \<and> nameserver s = Some s})"
proof -
  let ?servers = "learned_servers [] (lines_of learned)"
  have set: "set ?servers = {s. \<exists>line \<in> set (lines_of learned). server_of_line line = Some s}"
    using set_learned_servers [of "[]"] by simp
  have "has_resolver (resolv_conf learned) \<longleftrightarrow> ?servers \<noteq> []"
  proof (cases ?servers)
    case (Cons s ss)
    then show ?thesis
      by (simp add: resolv_conf_def MAX_NAMESERVERS_def numeral_eq_Suc has_resolver_nameserver)
  qed (use no_resolver in \<open>simp add: resolv_conf_def\<close>)
  also have "\<dots> \<longleftrightarrow> (\<exists>line \<in> set (lines_of learned). server_of_line line \<noteq> None)"
    unfolding set_empty [symmetric] set by auto
  finally have iff: "has_resolver (resolv_conf learned) \<longleftrightarrow> (\<exists>line \<in> set (lines_of learned). server_of_line line \<noteq> None)" .
  have "resolv_conf learned \<in> {concat (map nameserver_line (take 3 ?servers)),
      ''# No WAN resolver learned in the Forwarding netns'' @ nl}"
    by (simp add: resolv_conf_def MAX_NAMESERVERS_def Let_def)
  moreover have "length (take 3 ?servers) \<le> 3 \<and> distinct (take 3 ?servers)"
    using distinct_learned_servers [of "[]"] by simp
  moreover have "set (take 3 ?servers) \<subseteq> {s. \<exists>line \<in> set (lines_of learned). split_whitespace line = [''nameserver'', s] \<and> nameserver s = Some s}"
  proof
    fix s assume "s \<in> set (take 3 ?servers)"
    then obtain line where "line \<in> set (lines_of learned)" "server_of_line line = Some s"
      using set in_set_takeD by fastforce
    then show "s \<in> {s. \<exists>line \<in> set (lines_of learned). split_whitespace line = [''nameserver'', s] \<and> nameserver s = Some s}"
      using server_of_line_word by blast
  qed
  ultimately show ?thesis
    using iff by (intro conjI exI [of _ "take 3 ?servers"]) (rule iff, simp_all only:)
qed

end
