(* ===== verification/Update.thy ===== *)
theory Update
  imports Confirm Resolvers
begin

text \<open>
  The Host update program (\<open>src/update.rs\<close>): staging a Release with \<open>bootc\<close>, the health check
  of an update boot, manual and automatic rollback of the Host image, and the request to netd
  to restore the network of before the update. \<open>bootc\<close>, \<open>systemctl\<close> and netd are the
  environment; netd is a function of the world, since both programs share \<open>/var/lib/fwos\<close>.
\<close>

section \<open>Deployments\<close>

record deployment_id =
  dep_image :: string
  dep_digest :: string

record deployments =
  booted :: deployment_id
  staged :: deployment_id
  rollback :: deployment_id
  rollback_queued :: bool

definition no_deployment :: deployment_id where
  "no_deployment = \<lparr> dep_image = [], dep_digest = [] \<rparr>"

definition no_deployments :: deployments where
  "no_deployments =
     \<lparr> booted = no_deployment, staged = no_deployment, rollback = no_deployment, rollback_queued = False \<rparr>"

definition is_deployed :: "deployment_id \<Rightarrow> bool" where
  "is_deployed d \<longleftrightarrow> dep_image d \<noteq> []"

text \<open>\<open>norm\<close>: the reference without its transport and digest\<close>

definition normal_image :: "string \<Rightarrow> string" where
  "normal_image s =
     (let s = (case strip_prefix ''docker://'' s of Some r \<Rightarrow> r | None \<Rightarrow> s)
      in hd (split_on (CHR ''@'') s))"

definition pending_is_this_boot :: "string \<Rightarrow> string \<Rightarrow> bool" where
  "pending_is_this_boot pending this_boot \<longleftrightarrow>
     normal_image pending \<noteq> [] \<and> normal_image this_boot \<noteq> [] \<and> normal_image pending = normal_image this_boot"

definition same_deployment :: "deployment_id \<Rightarrow> deployment_id \<Rightarrow> bool" where
  "same_deployment d e \<longleftrightarrow>
     (if dep_digest d \<noteq> [] \<and> dep_digest e \<noteq> [] then dep_digest d = dep_digest e
      else pending_is_this_boot (dep_image d) (dep_image e))"

record update_record =
  previous_release :: deployment_id
  update_release :: deployment_id

definition returned_from_update :: "update_record \<Rightarrow> deployments \<Rightarrow> bool" where
  "returned_from_update r d \<longleftrightarrow>
     same_deployment (previous_release r) (booted d) \<and> same_deployment (update_release r) (rollback d)"

record manual_rollback_record =
  rolled_from :: deployment_id
  rolled_to :: deployment_id

section \<open>Outcomes\<close>

datatype update_result = Update_accepted | Rolled_back

record manual_outcome =
  manual_to :: string
  pre_update_network :: bool

record update_outcome =
  outcome_release :: string
  outcome_result :: update_result
  outcome_reason :: "string option"
  outcome_manual :: "manual_outcome option"

section \<open>The operation\<close>

datatype update_operation =
    Idle
  | Staging (staging_image: string) (before_staging: deployments)
  | Stage_failed string string

definition check_idle :: "update_operation \<Rightarrow> unit res" where
  "check_idle op =
     (case op of
        Staging img _ \<Rightarrow> Inl (''Host update staging of '' @ img @ '' is already in progress'')
      | _ \<Rightarrow> Inr ())"

definition begin_staging :: "update_operation \<Rightarrow> string \<Rightarrow> deployments \<Rightarrow> update_operation res" where
  "begin_staging op img before = thenE (check_idle op) (Inr (Staging img before))"

definition finish_staging :: "string \<Rightarrow> unit res \<Rightarrow> update_operation" where
  "finish_staging img result = (case result of Inr _ \<Rightarrow> Idle | Inl e \<Rightarrow> Stage_failed img e)"

definition operation_json :: "update_operation \<Rightarrow> json" where
  "operation_json op =
     (case op of
        Idle \<Rightarrow> JObj [(''state'', JStr ''idle'')]
      | Staging img _ \<Rightarrow> JObj [(''state'', JStr ''staging''), (''image'', JStr img)]
      | Stage_failed img e \<Rightarrow> JObj [(''state'', JStr ''failed''), (''image'', JStr img), (''error'', JStr e)])"

section \<open>The environment\<close>

datatype worker_call =
    Unshare_mounts
  | Make_slave string
  | Join_netns string
  | Mount_tmpfs string
  | Bind_mount string string
  | Exec_program "string list"

text \<open>\<open>netd_call\<close> is the whole exchange on netd's socket. \<open>worker_call\<close> gives the error of a
  system call; of \<open>Exec_program\<close> only an error comes back.\<close>

record request =
  req_op :: string
  req_image :: string

record 'k update_env =
  host :: "'k env"
  netd_call :: "json \<Rightarrow> ('k world, json res) state"
  worker_system :: "worker_call \<Rightarrow> 'k \<Rightarrow> unit res \<times> 'k"
  path_exists :: "string \<Rightarrow> 'k \<Rightarrow> bool \<times> 'k"
  netns_inode :: "string \<Rightarrow> 'k \<Rightarrow> u64 option \<times> 'k"
  read_link :: "string \<Rightarrow> 'k \<Rightarrow> string option \<times> 'k"
  worker_program :: string
  send_reply :: "json \<Rightarrow> 'k \<Rightarrow> unit res \<times> 'k"
  request_of_text :: "string \<Rightarrow> request res"
  text_of_update :: "update_record \<Rightarrow> string res"
  update_of_text :: "string \<Rightarrow> update_record res"
  text_of_rollback :: "manual_rollback_record \<Rightarrow> string res"
  rollback_of_text :: "string \<Rightarrow> manual_rollback_record res"
  text_of_outcome :: "update_outcome \<Rightarrow> string res"
  outcome_of_text :: "string \<Rightarrow> update_outcome res"
  json_of_outcome :: "update_outcome \<Rightarrow> json res"
  restoration_of_text :: "string \<Rightarrow> network_restoration res"
  json_of_restoration :: "network_restoration \<Rightarrow> json res"

definition UPDATE_PENDING :: string where "UPDATE_PENDING = FWOS @ ''health-pending''"
definition UPDATE_RECORD :: string where "UPDATE_RECORD = FWOS @ ''host-update.json''"
definition UPDATE_OUTCOME :: string where "UPDATE_OUTCOME = FWOS @ ''host-update-outcome.json''"
definition MANUAL_ROLLBACK :: string where "MANUAL_ROLLBACK = FWOS @ ''host-image-rollback.json''"
definition REGISTRIES_DROPIN :: string where
  "REGISTRIES_DROPIN = ''/etc/containers/registries.conf.d/fwos-update.conf''"
definition HEALTH_UNIT :: string where "HEALTH_UNIT = ''fwos-health.service''"
definition FWD_NETNS :: string where "FWD_NETNS = ''/run/netns/fwd''"
definition WORKER_RESOLVER_DIR :: string where "WORKER_RESOLVER_DIR = ''/run/systemd/resolve''"
definition RESOLV_CONF :: string where "RESOLV_CONF = ''/etc/resolv.conf''"
definition WORKER_NETNS_MARKER :: string where "WORKER_NETNS_MARKER = ''fwos-update worker netns ''"

section \<open>What bootc reports\<close>

fun jpath :: "json \<Rightarrow> string list \<Rightarrow> json" where
  "jpath v [] = v"
| "jpath v (key # keys) = jpath (jindex v key) keys"

definition nonempty_str :: "json \<Rightarrow> string option" where
  "nonempty_str v = (case jstr v of Some s \<Rightarrow> if s = [] then None else Some s | None \<Rightarrow> None)"

definition image_paths :: "string \<Rightarrow> string list list" where
  "image_paths which =
     [[''status'', which, ''image'', ''image'', ''image''], [''status'', which, ''image'', ''image''],
      [which, ''image'', ''image'', ''image''], [which, ''image'', ''image'']]"

definition image_ref :: "json \<Rightarrow> string \<Rightarrow> string" where
  "image_ref status which =
     (case List.find (\<lambda>x. x \<noteq> None) (map (\<lambda>p. nonempty_str (jpath status p)) (image_paths which)) of
        Some (Some s) \<Rightarrow> s
      | _ \<Rightarrow> [])"

definition deployment_of :: "json \<Rightarrow> string \<Rightarrow> deployment_id" where
  "deployment_of status which =
     \<lparr> dep_image = image_ref status which,
       dep_digest = (case jstr (jpath status [''status'', which, ''image'', ''imageDigest'']) of
                       Some s \<Rightarrow> s | None \<Rightarrow> []) \<rparr>"

definition deployments_of :: "json \<Rightarrow> deployments" where
  "deployments_of status =
     \<lparr> booted = deployment_of status ''booted'', staged = deployment_of status ''staged'',
       rollback = deployment_of status ''rollback'',
       rollback_queued = (jpath status [''status'', ''rollbackQueued''] = JBool True) \<rparr>"

text \<open>Ten looks at \<open>bootc status\<close>; an answer without a booted deployment is no answer.\<close>

fun bootc_status_rounds :: "'k update_env \<Rightarrow> nat \<Rightarrow> string \<Rightarrow> ('k, deployments) io" where
  "bootc_status_rounds X 0 l = errE (''bootc status unavailable: '' @ l)"
| "bootc_status_rounds X (Suc n) l = do {
     r \<leftarrow> run_program (host X) [''bootc'', ''status'', ''--format'', ''json''] [];
     (case exec_error r of
        Some e \<Rightarrow> bootc_status_rounds X n e
      | None \<Rightarrow>
          (let found = deployments_of (case json_of_text (codec (host X)) (stdout r) of Inr v \<Rightarrow> v | Inl _ \<Rightarrow> JNull) in
           if is_deployed (booted found) then okE found
           else bootc_status_rounds X n (trim (stderr r)))) }"

definition bootc_status :: "'k update_env \<Rightarrow> ('k, deployments) io" where
  "bootc_status X = bootc_status_rounds X 10 []"

definition bootc_images :: "'k update_env \<Rightarrow> ('k world, deployments) state" where
  "bootc_images X = do {
     r \<leftarrow> bootc_status X;
     ret (case r of Inr d \<Rightarrow> d | Inl _ \<Rightarrow> no_deployments) }"

definition bootc_rollback :: "'k update_env \<Rightarrow> ('k, unit) io" where
  "bootc_rollback X =
     tryE (output_of (host X) [''bootc'', ''rollback''] ''bootc rollback: '') (\<lambda>r.
       if ok r then okE ()
       else errE (''bootc rollback failed: '' @ trim (stdout r) @ '' '' @ trim (stderr r)))"

definition request_reboot :: "'k update_env \<Rightarrow> ('k world, unit) state" where
  "request_reboot X = do { run_program (host X) [''systemctl'', ''reboot'', ''--no-block''] []; ret () }"

section \<open>The health-pending record\<close>

definition write_pending :: "'k update_env \<Rightarrow> string \<Rightarrow> ('k, unit) io" where
  "write_pending X img =
     seqE (map_err (\<lambda>e. ''create '' @ parent_dir UPDATE_PENDING @ '': '' @ e)
             (simple_op (host X) (Make_dir (parent_dir UPDATE_PENDING))))
          (map_err (\<lambda>e. ''write '' @ UPDATE_PENDING @ '': '' @ e) (overwrite (host X) UPDATE_PENDING (img @ nl)))"

definition read_pending :: "'k update_env \<Rightarrow> ('k world, string) state" where
  "read_pending X = do {
     r \<leftarrow> read_text (host X) UPDATE_PENDING;
     ret (case r of Inr (Some s) \<Rightarrow> trim s | _ \<Rightarrow> []) }"

definition clear_pending :: "'k update_env \<Rightarrow> ('k world, unit) state" where
  "clear_pending X = do { unlink_file (host X) UPDATE_PENDING; ret () }"

definition missing_pending_record :: "string \<Rightarrow> string \<Rightarrow> string option" where
  "missing_pending_record pending staged_image =
     (if pending = [] \<and> staged_image \<noteq> [] then Some staged_image else None)"

definition record_staged_for_health :: "'k update_env \<Rightarrow> ('k world, unit) state" where
  "record_staged_for_health X = do {
     d \<leftarrow> bootc_images X;
     pending \<leftarrow> read_pending X;
     (case missing_pending_record pending (dep_image (staged d)) of
        None \<Rightarrow> ret ()
      | Some img \<Rightarrow> do { write_pending X img; ret () }) }"

section \<open>Records and outcomes\<close>

definition write_update_record :: "'k update_env \<Rightarrow> update_record \<Rightarrow> ('k, unit) io" where
  "write_update_record X r =
     (case text_of_update X r of
        Inl e \<Rightarrow> errE (''encode Host update record: '' @ e)
      | Inr raw \<Rightarrow> durable_write (host X) UPDATE_RECORD raw)"

definition read_json :: "'k update_env \<Rightarrow> (string \<Rightarrow> 'a res) \<Rightarrow> string \<Rightarrow> ('k world, 'a option) state" where
  "read_json X decode path = do {
     r \<leftarrow> read_file (host X) path;
     ret (case r of Inr (Some raw) \<Rightarrow> ok_opt (decode raw) | _ \<Rightarrow> None) }"

definition read_update_record :: "'k update_env \<Rightarrow> ('k world, update_record option) state" where
  "read_update_record X = read_json X (update_of_text X) UPDATE_RECORD"

definition write_outcome :: "'k update_env \<Rightarrow> update_outcome \<Rightarrow> ('k world, unit) state" where
  "write_outcome X t =
     (case text_of_outcome X t of
        Inl _ \<Rightarrow> ret ()
      | Inr raw \<Rightarrow> do { durable_write (host X) UPDATE_OUTCOME raw; ret () })"

text \<open>\<open>v["key"] = x\<close> on an object\<close>

definition jset :: "json \<Rightarrow> string \<Rightarrow> json \<Rightarrow> json" where
  "jset v key x = (case v of JObj kvs \<Rightarrow> JObj (filter (\<lambda>kv. fst kv \<noteq> key) kvs @ [(key, x)]) | _ \<Rightarrow> JObj [(key, x)])"

definition restores_network :: "update_outcome \<Rightarrow> bool" where
  "restores_network t \<longleftrightarrow>
     outcome_result t = Rolled_back
     \<and> (case outcome_manual t of None \<Rightarrow> True | Some m \<Rightarrow> pre_update_network m)"

definition last_update_json ::
    "'k update_env \<Rightarrow> update_outcome option \<Rightarrow> network_restoration option \<Rightarrow> json option" where
  "last_update_json X t network =
     (case t of
        None \<Rightarrow> None
      | Some t \<Rightarrow>
          (let network = (if restores_network t then network else None) in
           case json_of_outcome X t of
             Inl _ \<Rightarrow> None
           | Inr v \<Rightarrow>
               (case network of
                  None \<Rightarrow> Some (jset v ''network'' JNull)
                | Some n \<Rightarrow>
                    (case json_of_restoration X n of
                       Inl _ \<Rightarrow> None
                     | Inr j \<Rightarrow> Some (jset v ''network'' j)))))"

definition last_update :: "'k update_env \<Rightarrow> ('k world, json option) state" where
  "last_update X = do {
     t \<leftarrow> read_json X (outcome_of_text X) UPDATE_OUTCOME;
     n \<leftarrow> read_json X (restoration_of_text X) NETWORK_RESTORATION;
     ret (last_update_json X t n) }"

section \<open>Status\<close>

definition status_reply :: "deployments \<Rightarrow> update_operation \<Rightarrow> json option \<Rightarrow> json" where
  "status_reply d op last_one =
     reply_ok
       [(''reboot_required'', JBool (is_deployed (staged d) \<or> rollback_queued d)),
        (''rollback_queued'', JBool (rollback_queued d)),
        (''booted'', JStr (dep_image (booted d))), (''staged'', JStr (dep_image (staged d))),
        (''rollback'', JStr (dep_image (rollback d))), (''operation'', operation_json op),
        (''last_update'', jopt id last_one)]"

text \<open>\<open>worker\<close> is where the last download ran (\<open>LAST_WORKER\<close>).\<close>

definition current_status :: "'k update_env \<Rightarrow> update_operation \<Rightarrow> json option \<Rightarrow> ('k world, json) state" where
  "current_status X op worker = do {
     d \<leftarrow> (case op of Staging _ before \<Rightarrow> okE before | _ \<Rightarrow> bootc_status X);
     (case d of
        Inl e \<Rightarrow> ret (reply_error e)
      | Inr d \<Rightarrow> do {
          l \<leftarrow> last_update X;
          ret (jset (status_reply d op l) ''worker_network'' (jopt id worker)) }) }"

section \<open>Registries and the download worker\<close>

definition without_docker :: "string \<Rightarrow> string" where
  "without_docker img = (case strip_prefix ''docker://'' img of Some r \<Rightarrow> r | None \<Rightarrow> img)"

definition registry_host :: "string \<Rightarrow> string" where
  "registry_host img =
     (case split_once (CHR ''/'') (without_docker img) of
        Some (h, _) \<Rightarrow>
          if CHR ''.'' \<in> set h \<or> CHR '':'' \<in> set h \<or> h = ''localhost'' then h else ''docker.io''
      | None \<Rightarrow> ''docker.io'')"

definition trim_start :: "char \<Rightarrow> string \<Rightarrow> string" where
  "trim_start c s = dropWhile (\<lambda>x. x = c) s"

definition trim_end :: "char \<Rightarrow> string \<Rightarrow> string" where
  "trim_end c s = rev (dropWhile (\<lambda>x. x = c) (rev s))"

definition local_registry_host :: "string \<Rightarrow> string option" where
  "local_registry_host img =
     (let h = hd (split_on (CHR ''/'') (without_docker img)) in
      if h = [] then None
      else (let name = trim_end (CHR '']'') (trim_start (CHR ''['')
                         (case rsplit_once (CHR '':'') h of Some (a, _) \<Rightarrow> a | None \<Rightarrow> h)) in
            if name = ''localhost'' \<or> parse_ip name \<noteq> None then Some h else None))"

definition resolvable :: "string \<Rightarrow> string option \<Rightarrow> unit res" where
  "resolvable img published =
     (if local_registry_host img \<noteq> None \<or> (case published of Some c \<Rightarrow> has_resolver c | None \<Rightarrow> False) then Inr ()
      else Inl (''no DNS resolver learned from any WAN, so the registry name '' @ registry_host img
                @ '' cannot be resolved''))"

definition insecure_registry :: "string \<Rightarrow> string" where
  "insecure_registry h =
     ''[[registry]]'' @ nl @ ''location = '' @ quoted h @ nl @ ''insecure = true'' @ nl"

definition allow_insecure_local_registry :: "'k update_env \<Rightarrow> string \<Rightarrow> ('k, unit) io" where
  "allow_insecure_local_registry X img =
     (case local_registry_host img of
        None \<Rightarrow> okE ()
      | Some h \<Rightarrow>
          seqE (map_err (\<lambda>e. ''create '' @ parent_dir REGISTRIES_DROPIN @ '': '' @ e)
                  (simple_op (host X) (Make_dir (parent_dir REGISTRIES_DROPIN))))
               (map_err (\<lambda>e. ''write '' @ REGISTRIES_DROPIN @ '': '' @ e)
                  (overwrite (host X) REGISTRIES_DROPIN (insecure_registry h))))"

definition worker_netns :: "string \<Rightarrow> u64 option" where
  "worker_netns err =
     (case List.find (\<lambda>l. starts_with WORKER_NETNS_MARKER l) (lines_of err) of
        None \<Rightarrow> None
      | Some l \<Rightarrow>
          (case strip_prefix WORKER_NETNS_MARKER l of
             None \<Rightarrow> None
           | Some inode \<Rightarrow> map_option of_nat (parse_uint (2 ^ 64 - 1) (trim inode))))"

definition placement :: "u64 option \<Rightarrow> u64 option \<Rightarrow> u64 option \<Rightarrow> u64 option \<Rightarrow> json" where
  "placement worker fwd controller hostns =
     JObj [(''controller'', JStr (if controller \<noteq> None \<and> controller = hostns then ''host'' else ''other'')),
           (''worker'', JStr (case worker of
                                None \<Rightarrow> ''not started''
                              | Some inode \<Rightarrow> if Some inode = fwd then ''fwd'' else ''other''))]"

definition switch_command :: "'k update_env \<Rightarrow> string \<Rightarrow> string list" where
  "switch_command X img = [worker_program X, ''worker'', ''bootc'', ''switch'', ''--quiet'', img]"

text \<open>The second component of the result is where the worker ran, once it has run.\<close>

definition switch_failed :: "exec_result \<Rightarrow> string" where
  "switch_failed r =
     ''bootc switch failed: '' @ trim (stdout r) @ '' ''
     @ trim (join_with nl (filter (\<lambda>l. \<not> starts_with WORKER_NETNS_MARKER l) (lines_of (stderr r))))"

definition bootc_switch :: "'k update_env \<Rightarrow> string \<Rightarrow> ('k world, unit res \<times> json option) state" where
  "bootc_switch X img = do {
     allowed \<leftarrow> allow_insecure_local_registry X img;
     (case allowed of
        Inl e \<Rightarrow> ret (Inl e, None)
      | Inr _ \<Rightarrow> do {
          r \<leftarrow> run_program (host X) (switch_command X img) [];
          (case exec_error r of
             Some e \<Rightarrow> ret (Inl (''bootc switch: '' @ e), None)
           | None \<Rightarrow> do {
               fwd \<leftarrow> asks (netns_inode X FWD_NETNS);
               controller \<leftarrow> asks (netns_inode X ''/proc/self/ns/net'');
               hostns \<leftarrow> asks (netns_inode X ''/proc/1/ns/net'');
               ret (if ok r then Inr () else Inl (switch_failed r),
                    Some (placement (worker_netns (stderr r)) fwd controller hostns)) }) }) }"

text \<open>The components of a path under \<open>/etc\<close>; an absolute one starts anew.\<close>

fun path_step :: "string list \<Rightarrow> string \<Rightarrow> string list" where
  "path_step dirs part =
     (if part = [] \<or> part = ''.'' then dirs
      else if part = ''..'' then butlast dirs else dirs @ [part])"

definition path_text :: "string list \<Rightarrow> string" where
  "path_text dirs = ''/'' @ join_with ''/'' dirs"

definition resolv_conf_target :: "string option \<Rightarrow> string" where
  "resolv_conf_target link =
     (case link of
        None \<Rightarrow> RESOLV_CONF
      | Some l \<Rightarrow> path_text (foldl path_step (if starts_with ''/'' l then [] else [''etc'']) (split_on (CHR ''/'') l)))"

text \<open>\<open>Path::starts_with\<close> compares whole components.\<close>

definition under_dir :: "string \<Rightarrow> string \<Rightarrow> bool" where
  "under_dir dir path \<longleftrightarrow> path = dir \<or> starts_with (dir @ ''/'') path"

definition sysE :: "'k update_env \<Rightarrow> worker_call \<Rightarrow> string \<Rightarrow> ('k, unit) io" where
  "sysE X c what = map_err (\<lambda>e. what @ '': '' @ e) (asks (worker_system X c))"

definition use_fwd_resolvers :: "'k update_env \<Rightarrow> ('k, unit) io" where
  "use_fwd_resolvers X = do {
     hidden \<leftarrow> asks (path_exists X WORKER_RESOLVER_DIR);
     seqE (if hidden then sysE X (Mount_tmpfs WORKER_RESOLVER_DIR) (''mount '' @ WORKER_RESOLVER_DIR) else okE ())
       (do {
          published \<leftarrow> file_exists RESOLVERS;
          (if \<not> published then okE ()
           else do {
             link \<leftarrow> asks (read_link X RESOLV_CONF);
             (let target = resolv_conf_target link; bind = sysE X (Bind_mount RESOLVERS RESOLV_CONF) (''mount '' @ RESOLV_CONF) in
              if hidden \<and> under_dir WORKER_RESOLVER_DIR target
              then seqE (map_err (\<lambda>e. ''create '' @ target @ '': '' @ e) (asks (foreign_write (host X) target []))) bind
              else do {
                present \<leftarrow> asks (path_exists X target);
                (if present then bind else okE ()) }) }) }) }"

definition enter_fwd_networking :: "'k update_env \<Rightarrow> ('k, unit) io" where
  "enter_fwd_networking X = do {
     present \<leftarrow> asks (path_exists X FWD_NETNS);
     (if \<not> present then errE (''open '' @ FWD_NETNS)
      else seqE (sysE X Unshare_mounts ''unshare mount namespace'')
          (seqE (sysE X (Make_slave ''/'') ''mount /'')
          (seqE (sysE X (Join_netns FWD_NETNS) ''join the fwd network namespace'')
                (use_fwd_resolvers X)))) }"

definition run_worker :: "'k update_env \<Rightarrow> string list \<Rightarrow> ('k, unit) io" where
  "run_worker X program =
     (case program of
        [] \<Rightarrow> errE ''worker needs a program to run''
      | name # _ \<Rightarrow>
          seqE (enter_fwd_networking X) (sysE X (Exec_program program) (''exec '' @ name)))"

section \<open>Staging\<close>

definition says_yes :: "json \<Rightarrow> string \<Rightarrow> bool" where
  "says_yes v key \<longleftrightarrow> jindex v key = JBool True"

definition error_or :: "json \<Rightarrow> string \<Rightarrow> string" where
  "error_or v d = (case jstr (jindex v ''error'') of Some e \<Rightarrow> e | None \<Rightarrow> d)"

definition preserve_network :: "'k update_env \<Rightarrow> ('k, unit) io" where
  "preserve_network X = do {
     r \<leftarrow> netd_call X (JObj [(''op'', JStr ''preserve_pre_update'')]);
     ret (case r of
            Inr reply \<Rightarrow>
              if says_yes reply ''ok'' then Inr ()
              else Inl (''could not preserve the Accepted network before the update: '' @ error_or reply ''netd refused'')
          | Inl e \<Rightarrow> Inl (''could not preserve the Accepted network before the update: '' @ e)) }"

definition refresh_pre_update :: "'k update_env \<Rightarrow> ('k world, unit) state" where
  "refresh_pre_update X = do {
     d \<leftarrow> bootc_images X;
     (if is_deployed (staged d) then do { preserve_network X; ret () } else ret ()) }"

definition record_staged :: "'k update_env \<Rightarrow> string \<Rightarrow> deployments \<Rightarrow> deployments \<Rightarrow> ('k, unit) io" where
  "record_staged X img before after =
     (if \<not> is_deployed (staged after)
      then errE (''no deployment was staged; '' @ img @ '' may already be active'')
      else seqE (write_update_record X \<lparr> previous_release = booted before, update_release = staged after \<rparr>)
                (write_pending X (dep_image (staged after))))"

definition switch_and_record :: "'k update_env \<Rightarrow> string \<Rightarrow> deployments \<Rightarrow> ('k world, unit res \<times> json option) state" where
  "switch_and_record X img before = do {
     (switched, worker) \<leftarrow> bootc_switch X img;
     (case switched of
        Inl e \<Rightarrow> ret (Inl e, worker)
      | Inr _ \<Rightarrow> do {
          r \<leftarrow> tryE (bootc_status X) (\<lambda>after. record_staged X img before after);
          ret (r, worker) }) }"

definition prepare_stage :: "'k update_env \<Rightarrow> string \<Rightarrow> ('k, deployments) io" where
  "prepare_stage X img = do {
     published \<leftarrow> read_text (host X) RESOLVERS;
     seqE (liftE (resolvable img (Option.bind (ok_opt published) id)))
          (seqE (preserve_network X) (bootc_status X)) }"

definition stage :: "'k update_env \<Rightarrow> string \<Rightarrow> ('k world, unit res \<times> json option) state" where
  "stage X img = do {
     before \<leftarrow> prepare_stage X img;
     (case before of
        Inl e \<Rightarrow> ret (Inl e, None)
      | Inr d \<Rightarrow> switch_and_record X img d) }"

definition bootstrap_completed :: "('k world, bool) state" where
  "bootstrap_completed = file_exists BOOTSTRAPPED"

definition NOT_BOOTSTRAPPED :: string where
  "NOT_BOOTSTRAPPED = ''Host update refused until Bootstrap has completed''"

definition claim_staging :: "'k update_env \<Rightarrow> update_operation \<Rightarrow> string \<Rightarrow> ('k, update_operation) io" where
  "claim_staging X op img = do {
     owned \<leftarrow> bootstrap_completed;
     (if \<not> owned then errE NOT_BOOTSTRAPPED
      else if \<not> valid_reference img then errE ''one Release image reference required''
      else do { d \<leftarrow> bootc_images X; ret (begin_staging op img d) }) }"

section \<open>Manual rollback\<close>

datatype manual_rollback = Image_rollback | Unaccepted_update

definition manual_rollback_kind :: "bool \<Rightarrow> bool \<Rightarrow> manual_rollback res" where
  "manual_rollback_kind update_boot_pending finished =
     (if update_boot_pending
      then (if finished then Inr Unaccepted_update
            else Inl (''appliance health has not finished checking this Host update boot and rolls it ''
                      @ ''back automatically if it fails; try again when it has finished (within 180 seconds)''))
      else Inr Image_rollback)"

definition exited_this_boot :: "string \<Rightarrow> bool" where
  "exited_this_boot stamp = (case parse_uint (2 ^ 64 - 1) (trim stamp) of Some n \<Rightarrow> 0 < n | None \<Rightarrow> False)"

definition health_finished :: "'k update_env \<Rightarrow> ('k world, bool) state" where
  "health_finished X = do {
     r \<leftarrow> run_program (host X)
            [''systemctl'', ''show'', ''--property=ExecMainExitTimestampMonotonic'', ''--value'', HEALTH_UNIT] [];
     ret (exec_error r = None \<and> exited_this_boot (stdout r)) }"

definition cancel_rollback :: "'k update_env \<Rightarrow> deployments \<Rightarrow> ('k, deployments \<times> bool) io" where
  "cancel_rollback X before = do {
     manual \<leftarrow> file_exists MANUAL_ROLLBACK;
     (if \<not> manual
      then errE ''the queued Host image rollback was not requested manually and cannot be cancelled''
      else seqE (bootc_rollback X)
          (seqE (durable_remove (host X) MANUAL_ROLLBACK)
                (okE (before, False)))) }"

definition queue_rollback :: "'k update_env \<Rightarrow> deployments \<Rightarrow> manual_rollback \<Rightarrow> ('k, deployments \<times> bool) io" where
  "queue_rollback X before how =
     (case text_of_rollback X \<lparr> rolled_from = booted before, rolled_to = rollback before \<rparr> of
        Inl e \<Rightarrow> errE (''encode rollback record: '' @ e)
      | Inr raw \<Rightarrow>
          seqE (durable_write (host X) MANUAL_ROLLBACK raw) (do {
            r \<leftarrow> bootc_rollback X;
            (case r of
               Inl e \<Rightarrow> do { durable_remove (host X) MANUAL_ROLLBACK; errE e }
             | Inr _ \<Rightarrow> do {
                 (if how = Image_rollback then clear_pending X else ret ());
                 okE (before, how = Unaccepted_update) }) }))"

definition manual_rollback_step :: "'k update_env \<Rightarrow> ('k, deployments \<times> bool) io" where
  "manual_rollback_step X =
     tryE (bootc_status X) (\<lambda>before. do {
       pending \<leftarrow> read_pending X;
       finished \<leftarrow> health_finished X;
       (case manual_rollback_kind (pending_is_this_boot pending (dep_image (booted before))) finished of
          Inl e \<Rightarrow> errE e
        | Inr how \<Rightarrow>
            if rollback_queued before then cancel_rollback X before else queue_rollback X before how) })"

definition manual_rollback_outcome ::
    "manual_rollback_record \<Rightarrow> deployments \<Rightarrow> bool \<Rightarrow> update_outcome option" where
  "manual_rollback_outcome r d network =
     (if same_deployment (rolled_to r) (booted d) \<and> same_deployment (rolled_from r) (rollback d)
      then Some \<lparr> outcome_release = dep_image (rolled_from r), outcome_result = Rolled_back,
                  outcome_reason = Some ''manual rollback'',
                  outcome_manual = Some \<lparr> manual_to = dep_image (rolled_to r), pre_update_network = network \<rparr> \<rparr>
      else None)"

definition rollback_reply :: "deployments \<Rightarrow> bool \<Rightarrow> json \<Rightarrow> json" where
  "rollback_reply before network status =
     (if \<not> says_yes status ''ok'' then status
      else (let status = (if is_deployed (staged before) \<and> jindex status ''staged'' = JStr []
                          then jset status ''discarded_staged'' (JStr (dep_image (staged before))) else status) in
            jset status ''restores_pre_update_network'' (JBool (network \<and> says_yes status ''rollback_queued''))))"

section \<open>Appliance health\<close>

datatype appliance_health =
    Healthy
  | Default_target_not_reached
  | Fwd_missing
  | Mgmt_missing
  | Netd_not_running
  | Desired_state_not_restored string
  | Ui_not_running

definition describe :: "appliance_health \<Rightarrow> string" where
  "describe h =
     (case h of
        Healthy \<Rightarrow> ''ok''
      | Default_target_not_reached \<Rightarrow> ''default target not reached''
      | Fwd_missing \<Rightarrow> ''fwd missing''
      | Mgmt_missing \<Rightarrow> ''mgmt missing''
      | Netd_not_running \<Rightarrow> ''netd not running''
      | Desired_state_not_restored reason \<Rightarrow> ''Desired state not restored: '' @ reason
      | Ui_not_running \<Rightarrow> ''UI not running'')"

datatype netd_restoration = Not_running | Unrestored string | Network_restored

definition netd_restoration_of :: "json res \<Rightarrow> netd_restoration" where
  "netd_restoration_of r =
     (case r of
        Inl _ \<Rightarrow> Not_running
      | Inr v \<Rightarrow>
          if says_yes v ''ok'' \<and> says_yes v ''restored'' then Network_restored
          else Unrestored (case jstr (jindex v ''reason'') of
                             Some e \<Rightarrow> e
                           | None \<Rightarrow> error_or v ''netd did not report restoration''))"

record health_checks =
  default_target :: bool
  fwd_there :: bool
  mgmt_there :: bool
  netd_restored :: netd_restoration
  ui_running :: bool

definition assess_health :: "health_checks \<Rightarrow> appliance_health" where
  "assess_health c =
     (if \<not> default_target c then Default_target_not_reached
      else if \<not> fwd_there c then Fwd_missing
      else if \<not> mgmt_there c then Mgmt_missing
      else case netd_restored c of
        Not_running \<Rightarrow> Netd_not_running
      | Unrestored reason \<Rightarrow> Desired_state_not_restored reason
      | Network_restored \<Rightarrow> if ui_running c then Healthy else Ui_not_running)"

definition should_auto_rollback :: "bool \<Rightarrow> bool \<Rightarrow> appliance_health \<Rightarrow> bool" where
  "should_auto_rollback this_boot has_rollback h \<longleftrightarrow> this_boot \<and> has_rollback \<and> h \<noteq> Healthy"

definition unit_active :: "'k update_env \<Rightarrow> string \<Rightarrow> ('k world, bool) state" where
  "unit_active X u = do {
     r \<leftarrow> run_program (host X) [''systemctl'', ''is-active'', ''--quiet'', u] [];
     ret (exec_error r = None \<and> ok r) }"

definition netns_exists :: "'k update_env \<Rightarrow> string \<Rightarrow> ('k world, bool) state" where
  "netns_exists X name = asks (path_exists X (''/run/netns/'' @ name))"

definition look_at_health :: "'k update_env \<Rightarrow> ('k world, appliance_health) state" where
  "look_at_health X = do {
     target \<leftarrow> unit_active X ''default.target'';
     fwd \<leftarrow> netns_exists X ''fwd'';
     mgmt \<leftarrow> netns_exists X ''mgmt'';
     r \<leftarrow> netd_call X (JObj [(''op'', JStr ''restoration_status'')]);
     ui \<leftarrow> unit_active X ''fwos-ui-mgmt.service'';
     ret (assess_health \<lparr> default_target = target, fwd_there = fwd, mgmt_there = mgmt,
            netd_restored = netd_restoration_of r, ui_running = ui \<rparr>) }"

definition accept_update :: "'k update_env \<Rightarrow> string \<Rightarrow> ('k world, unit) state" where
  "accept_update X this_boot = do {
     netd_call X (JObj [(''op'', JStr ''discard_pre_update'')]);
     durable_remove (host X) UPDATE_RECORD;
     write_outcome X \<lparr> outcome_release = this_boot, outcome_result = Update_accepted, outcome_reason = None,
                       outcome_manual = None \<rparr> }"

definition auto_rollback :: "'k update_env \<Rightarrow> string \<Rightarrow> appliance_health \<Rightarrow> ('k, unit) io" where
  "auto_rollback X this_boot h = do {
     write_outcome X \<lparr> outcome_release = this_boot, outcome_result = Rolled_back, outcome_reason = Some (describe h),
                       outcome_manual = None \<rparr>;
     seqE (bootc_rollback X) (do {
       clear_pending X;
       request_reboot X;
       okE () }) }"

text \<open>At the deadline, one way or another.\<close>

definition health_deadline :: "'k update_env \<Rightarrow> string \<Rightarrow> bool \<Rightarrow> bool \<Rightarrow> appliance_health \<Rightarrow> ('k, unit) io" where
  "health_deadline X this_boot pending_here has_rollback h =
     (if should_auto_rollback pending_here has_rollback h then auto_rollback X this_boot h
      else if pending_here then do { clear_pending X; okE () }
      else okE ())"

text \<open>One look a second for 180 seconds: the 181st look is at the deadline.\<close>

fun health_rounds :: "'k update_env \<Rightarrow> string \<Rightarrow> nat \<Rightarrow> ('k, unit) io" where
  "health_rounds X pending n = do {
     d \<leftarrow> bootc_images X;
     (let this_boot = dep_image (booted d) in
      if this_boot \<noteq> [] \<and> \<not> pending_is_this_boot pending this_boot then okE ()
      else do {
        h \<leftarrow> look_at_health X;
        (if pending_is_this_boot pending this_boot \<and> h = Healthy
         then do {
           accept_update X this_boot;
           clear_pending X;
           okE () }
         else do {
           passed \<leftarrow> asks (deadline_passed (host X));
           (if passed \<or> n = 0
            then health_deadline X this_boot (pending_is_this_boot pending this_boot) (is_deployed (rollback d)) h
            else health_rounds X pending (n - 1)) }) }) }"

declare health_rounds.simps [simp del]

definition run_health :: "'k update_env \<Rightarrow> ('k, unit) io" where
  "run_health X = do {
     pending \<leftarrow> read_pending X;
     (if pending = [] then okE () else health_rounds X pending 180) }"

section \<open>At the start of the previous Release\<close>

definition finish_manual_rollback ::
    "'k update_env \<Rightarrow> manual_rollback_record option \<Rightarrow> deployments \<Rightarrow> bool \<Rightarrow> ('k, unit) io" where
  "finish_manual_rollback X manual d returned =
     (case manual of
        None \<Rightarrow> okE ()
      | Some m \<Rightarrow> do {
          (case manual_rollback_outcome m d returned of
             Some t \<Rightarrow> write_outcome X t
           | None \<Rightarrow> ret ());
          durable_remove (host X) MANUAL_ROLLBACK })"

definition ask_restoration :: "'k update_env \<Rightarrow> update_record \<Rightarrow> ('k, unit) io" where
  "ask_restoration X r =
     seqE (durable_write (host X) RESTORE_PRE_UPDATE (dep_image (update_release r)))
          (durable_remove (host X) UPDATE_RECORD)"

definition run_restore_check :: "'k update_env \<Rightarrow> ('k, unit) io" where
  "run_restore_check X = do {
     manual \<leftarrow> read_json X (rollback_of_text X) MANUAL_ROLLBACK;
     r \<leftarrow> read_update_record X;
     (if manual = None \<and> r = None then okE ()
      else tryE (bootc_status X) (\<lambda>d.
        (let returned = (case r of Some u \<Rightarrow> returned_from_update u d | None \<Rightarrow> False) in
         seqE (finish_manual_rollback X manual d returned)
              (case r of
                 Some u \<Rightarrow> if returned then ask_restoration X u else okE ()
               | None \<Rightarrow> okE ())))) }"

section \<open>Requests\<close>

text \<open>The process holds the operation and where the last worker ran; a stage that has been
  claimed runs in a thread of its own and ends the operation.\<close>

record controller =
  operation_of :: update_operation
  last_worker :: "json option"

definition rollback_request :: "'k update_env \<Rightarrow> controller \<Rightarrow> ('k world, json) state" where
  "rollback_request X c = do {
     owned \<leftarrow> bootstrap_completed;
     (if \<not> owned then ret (reply_error NOT_BOOTSTRAPPED)
      else case check_idle (operation_of c) of
        Inl e \<Rightarrow> ret (reply_error e)
      | Inr _ \<Rightarrow> do {
          r \<leftarrow> manual_rollback_step X;
          (case r of
             Inl e \<Rightarrow> ret (reply_error e)
           | Inr (before, network) \<Rightarrow> do {
               status \<leftarrow> current_status X (operation_of c) (last_worker c);
               ret (rollback_reply before network status) }) }) }"

definition reboot_request :: "'k update_env \<Rightarrow> controller \<Rightarrow> ('k world, json) state" where
  "reboot_request X c = do {
     owned \<leftarrow> bootstrap_completed;
     (if \<not> owned then ret (reply_error NOT_BOOTSTRAPPED)
      else case check_idle (operation_of c) of
        Inl e \<Rightarrow> ret (reply_error e)
      | Inr _ \<Rightarrow> do {
          refresh_pre_update X;
          ret (reply_ok [(''rebooting'', JBool True)]) }) }"

text \<open>The third component is the image of the thread that a claimed stage starts.\<close>

definition start_stage_request ::
    "'k update_env \<Rightarrow> controller \<Rightarrow> string \<Rightarrow> ('k world, json \<times> controller \<times> string option) state" where
  "start_stage_request X c img = do {
     r \<leftarrow> claim_staging X (operation_of c) img;
     (case r of
        Inl e \<Rightarrow> ret (reply_error e, c, None)
      | Inr op \<Rightarrow> do {
          status \<leftarrow> current_status X op (last_worker c);
          ret (jset status ''staging'' (JBool True), c\<lparr> operation_of := op \<rparr>, Some img) }) }"

definition handle_update_request ::
    "'k update_env \<Rightarrow> controller \<Rightarrow> request \<Rightarrow> ('k world, json \<times> controller \<times> string option) state" where
  "handle_update_request X c q =
     (if req_op q = ''status'' then do { v \<leftarrow> current_status X (operation_of c) (last_worker c); ret (v, c, None) }
      else if req_op q = ''reboot'' then do { v \<leftarrow> reboot_request X c; ret (v, c, None) }
      else if req_op q = ''rollback'' then do { v \<leftarrow> rollback_request X c; ret (v, c, None) }
      else if req_op q = ''start_stage'' then start_stage_request X c (req_image q)
      else ret (reply_error (''unknown op '' @ req_op q), c, None))"

definition handle_update_client ::
    "'k update_env \<Rightarrow> controller \<Rightarrow> string \<Rightarrow> ('k world, controller \<times> string option) state" where
  "handle_update_client X c bytes =
     (case request_of_text X bytes of
        Inl e \<Rightarrow> do { asks (send_reply X (reply_error e)); ret (c, None) }
      | Inr q \<Rightarrow> do {
          (v, c', started) \<leftarrow> handle_update_request X c q;
          sent \<leftarrow> asks (send_reply X v);
          (if is_ok sent \<and> req_op q = ''reboot'' \<and> says_yes v ''ok'' then request_reboot X else ret ());
          ret (c', started) })"

text \<open>The thread of a claimed stage.\<close>

definition run_stage :: "'k update_env \<Rightarrow> controller \<Rightarrow> string \<Rightarrow> ('k world, controller) state" where
  "run_stage X c img = do {
     (r, worker) \<leftarrow> stage X img;
     ret \<lparr> operation_of = finish_staging img r,
           last_worker = (case worker of Some w \<Rightarrow> Some w | None \<Rightarrow> last_worker c) \<rparr> }"

text \<open>The controller's start: nothing is in progress.\<close>

definition start_controller :: "'k update_env \<Rightarrow> ('k world, controller) state" where
  "start_controller X = do {
     record_staged_for_health X;
     ret \<lparr> operation_of = Idle, last_worker = None \<rparr> }"

definition wheel_gid_of :: "string \<Rightarrow> nat option" where
  "wheel_gid_of listing =
     (case List.find (\<lambda>l. hd (split_on (CHR 0x3A) l) = ''wheel'') (lines_of listing) of
        None \<Rightarrow> None
      | Some l \<Rightarrow> Option.bind (nth_opt (split_on (CHR 0x3A) l) 2) (parse_uint (2 ^ 32 - 1)))"

end
