(* ===== verification/Update_Properties.thy ===== *)
theory Update_Properties
  imports Update Restore_Properties
begin

text \<open>
  What the Host update program promises: an update that boots is checked and its network can
  be restored, the request to restore it is never lost, one stage runs at a time, and a
  rollback has its reasons.
\<close>

section \<open>The files of an update\<close>

definition update_files :: "string set" where
  "update_files = {UPDATE_PENDING, UPDATE_RECORD, UPDATE_OUTCOME, MANUAL_ROLLBACK, RESTORE_PRE_UPDATE}"

lemma update_names:
  "distinct [UPDATE_PENDING, UPDATE_RECORD, UPDATE_OUTCOME, MANUAL_ROLLBACK, RESTORE_PRE_UPDATE, REGISTRIES_DROPIN,
     PRE_UPDATE_ACCEPTED, NETWORK_RESTORATION, RESOLVERS, DESIRED]
   \<and> list_all (\<lambda>p. \<not> is_temp p) [UPDATE_PENDING, UPDATE_RECORD, UPDATE_OUTCOME, MANUAL_ROLLBACK, RESTORE_PRE_UPDATE]"
  by code_simp

lemma update_lasting: "S \<subseteq> update_files \<Longrightarrow> lasting S"
  using update_names by (auto simp: lasting_def update_files_def)

lemma update_not_temp: "p \<in> update_files \<Longrightarrow> \<not> is_temp p"
  using update_names by (auto simp: update_files_def)

lemma in_update_files [simp]:
  "UPDATE_PENDING \<in> update_files" "UPDATE_RECORD \<in> update_files" "UPDATE_OUTCOME \<in> update_files"
  "MANUAL_ROLLBACK \<in> update_files" "RESTORE_PRE_UPDATE \<in> update_files"
  by (simp_all add: update_files_def)

lemma update_neq [simp]:
  "UPDATE_PENDING \<noteq> UPDATE_RECORD" "UPDATE_RECORD \<noteq> UPDATE_PENDING" "UPDATE_PENDING \<noteq> RESTORE_PRE_UPDATE"
  "RESTORE_PRE_UPDATE \<noteq> UPDATE_PENDING" "UPDATE_RECORD \<noteq> RESTORE_PRE_UPDATE" "RESTORE_PRE_UPDATE \<noteq> UPDATE_RECORD"
  "MANUAL_ROLLBACK \<noteq> UPDATE_PENDING" "UPDATE_OUTCOME \<noteq> UPDATE_PENDING" "MANUAL_ROLLBACK \<noteq> UPDATE_RECORD"
  "UPDATE_OUTCOME \<noteq> UPDATE_RECORD" "MANUAL_ROLLBACK \<noteq> RESTORE_PRE_UPDATE" "UPDATE_OUTCOME \<noteq> RESTORE_PRE_UPDATE"
  "REGISTRIES_DROPIN \<notin> update_files" "REGISTRIES_DROPIN \<noteq> UPDATE_PENDING"
  using update_names by (auto simp: update_files_def)

text \<open>What the program relies on in netd: a request leaves the files of the update alone.\<close>

definition netd_leaves :: "'k update_env \<Rightarrow> bool" where
  "netd_leaves X \<longleftrightarrow> (\<forall>body. keeps (kept update_files) (netd_call X body))"

lemma kept_subset: "S \<subseteq> T \<Longrightarrow> kept T w w' \<Longrightarrow> kept S w w'"
  unfolding kept_def by blast

lemma keeps_subset: "S \<subseteq> T \<Longrightarrow> keeps (kept T) m \<Longrightarrow> keeps (kept S) m"
  unfolding keeps_def by (blast intro: kept_subset)

lemma kept_netd: "netd_leaves X \<Longrightarrow> S \<subseteq> update_files \<Longrightarrow> keeps (kept S) (netd_call X body)"
  unfolding netd_leaves_def by (blast intro: keeps_subset)

section \<open>What the steps leave alone\<close>

lemma same_bootc_status: "keeps (same_on S) (bootc_status X)"
proof -
  have "keeps (same_on S) (bootc_status_rounds X n l)" for n l
    by (induction n arbitrary: l) (auto intro!: same.keeps_rules same_ops simp: Let_def)
  then show ?thesis by (simp add: bootc_status_def)
qed

lemma same_bootc_images: "keeps (same_on S) (bootc_images X)"
  unfolding bootc_images_def by (intro same.keeps_rules same_bootc_status)

lemma same_bootc_rollback: "keeps (same_on S) (bootc_rollback X)"
  unfolding bootc_rollback_def by (intro same.keeps_rules same_ops)

lemma same_read_pending: "keeps (same_on S) (read_pending X)"
  unfolding read_pending_def by (intro same.keeps_rules same_ops)

lemma same_read_json: "keeps (same_on S) (read_json X decode p)"
  unfolding read_json_def by (intro same.keeps_rules same_ops)

lemma same_health_finished: "keeps (same_on S) (health_finished X)"
  unfolding health_finished_def by (intro same.keeps_rules same_ops)

lemma same_last_update: "keeps (same_on S) (last_update X)"
  unfolding last_update_def by (intro same.keeps_rules same_read_json)

lemma same_current_status: "keeps (same_on S) (current_status X op worker)"
  unfolding current_status_def
  by (cases op) (simp_all add: same.keeps_rules same_bootc_status same_last_update)

lemma same_allow_insecure: "REGISTRIES_DROPIN \<notin> S \<Longrightarrow> keeps (same_on S) (allow_insecure_local_registry X img)"
  unfolding allow_insecure_local_registry_def by (intro same.keeps_rules same_ops same_overwrite)

lemma same_bootc_switch: "REGISTRIES_DROPIN \<notin> S \<Longrightarrow> keeps (same_on S) (bootc_switch X img)"
  unfolding bootc_switch_def by (intro same.keeps_rules same_ops same_allow_insecure)

lemma same_write_update_record:
  "UPDATE_RECORD \<notin> S \<Longrightarrow> lasting S \<Longrightarrow> keeps (same_on S) (write_update_record X r)"
  unfolding write_update_record_def by (intro same.keeps_rules same_durable_write update_not_temp) simp_all

lemma same_write_pending: "UPDATE_PENDING \<notin> S \<Longrightarrow> keeps (same_on S) (write_pending X img)"
  unfolding write_pending_def by (intro same.keeps_rules same_ops same_overwrite)

lemma same_write_outcome:
  "UPDATE_OUTCOME \<notin> S \<Longrightarrow> lasting S \<Longrightarrow> keeps (same_on S) (write_outcome X t)"
  unfolding write_outcome_def by (intro same.keeps_rules same_durable_write update_not_temp) simp_all

section \<open>Staging\<close>

text \<open>Two phases: the first leaves \<open>p\<close>, the second \<open>q\<close>.\<close>

lemma two_phases:
  assumes "kept {p} w w1" and "kept {q} w1 w'" and "trail w = []"
  shows "\<forall>f \<in> set (files w' # trail w'). f p = files w p \<or> f q = files w1 q"
  using assms by (fastforce simp: kept_def)

definition recorded :: "'k update_env \<Rightarrow> files \<Rightarrow> bool" where
  "recorded X f \<longleftrightarrow> (\<exists>r raw. f UPDATE_RECORD = Some raw \<and> text_of_update X r = Inr raw \<and> is_deployed (update_release r))"

text \<open>A pending record that has changed stands beside the record of its update.\<close>

definition pending_recorded :: "'k update_env \<Rightarrow> string option \<Rightarrow> 'k world \<Rightarrow> bool" where
  "pending_recorded X old w \<longleftrightarrow> (\<forall>f \<in> set (files w # trail w). f UPDATE_PENDING = old \<or> recorded X f)"

lemma overwrite_run:
  "run_state (overwrite E p b) w = (Inr u, w') \<Longrightarrow> files w' p = Some b"
  by (auto simp: overwrite_def fault_def run_asks set_file_def set_files_def split: prod.splits option.splits)

lemma pending_written:
  "run_state (write_pending X img) w = (Inr u, w') \<Longrightarrow> files w' UPDATE_PENDING = Some (img @ nl)"
  unfolding write_pending_def by (auto simp: run_tryE run_map_err overwrite_run split: prod.splits sum.splits)

lemma record_staged_run:
  assumes run: "run_state (record_staged X img before after) w1 = (r, w')"
    and k: "kept {UPDATE_PENDING} w w1" and tr: "trail w = []"
  shows "pending_recorded X (files w UPDATE_PENDING) w'
    \<and> (r = Inr () \<longrightarrow> recorded X (files w') \<and> is_deployed (staged after)
         \<and> files w' UPDATE_PENDING = Some (dep_image (staged after) @ nl))"
proof (cases "is_deployed (staged after)")
  case False
  then show ?thesis
    using run k tr by (auto simp: record_staged_def pending_recorded_def kept_def)
next
  case True
  let ?rec = "\<lparr> previous_release = booted before, update_release = staged after \<rparr>"
  obtain q w2 where 2: "run_state (write_update_record X ?rec) w1 = (q, w2)" by fastforce
  have k2: "kept {UPDATE_PENDING} w w2"
    using kept_trans [OF k] keepsD [OF same_write_update_record 2, of "{UPDATE_PENDING}"] update_lasting
    by (simp add: same_on_def)
  show ?thesis
  proof (cases q)
    case (Inl e)
    then show ?thesis
      using run True 2 k2 tr by (auto simp: record_staged_def run_tryE pending_recorded_def kept_def)
  next
    case (Inr u)
    obtain raw where raw: "text_of_update X ?rec = Inr raw" "run_state (durable_write (host X) UPDATE_RECORD raw) w1 = (Inr (), w2)"
      using 2 Inr by (auto simp: write_update_record_def split: sum.splits)
    have rec: "files w2 UPDATE_RECORD = Some raw"
      using durable_write_run(1) [OF raw(2) update_not_temp] by simp
    have recd: "recorded X f" if "f UPDATE_RECORD = Some raw" for f
      using that raw(1) True unfolding recorded_def by (intro exI [of _ ?rec] exI [of _ raw]) simp
    have 3: "run_state (write_pending X (dep_image (staged after))) w2 = (r, w')"
      using run True 2 Inr by (simp add: record_staged_def run_tryE)
    have k3: "kept {UPDATE_RECORD} w2 w'"
      using keepsD [OF same_write_pending 3, of "{UPDATE_RECORD}"] by (simp add: same_on_def)
    have "files w' UPDATE_RECORD = Some raw" using k3 rec by (auto simp: kept_def)
    then show ?thesis
      using two_phases [OF k2 k3 tr] rec recd True pending_written [of X _ w2] 3
      unfolding pending_recorded_def by fastforce
  qed
qed

lemma kept_prepare_stage: "netd_leaves X \<Longrightarrow> S \<subseteq> update_files \<Longrightarrow> keeps (kept S) (prepare_stage X img)"
  unfolding prepare_stage_def preserve_network_def
  by (intro kept.keeps_rules keeps_kept same_read_text same_bootc_status kept_netd)

lemma stage_run:
  assumes run: "run_state (stage X img) w = ((r, wk), w')" and netd: "netd_leaves X" and tr: "trail w = []"
  shows "pending_recorded X (files w UPDATE_PENDING) w'
    \<and> (r = Inr () \<longrightarrow> recorded X (files w') \<and> (\<exists>image. image \<noteq> [] \<and> files w' UPDATE_PENDING = Some (image @ nl)))"
proof -
  let ?S = "{UPDATE_PENDING}"
  obtain before w1 where 1: "run_state (prepare_stage X img) w = (before, w1)" by fastforce
  have k1: "kept ?S w w1" using keepsD [OF kept_prepare_stage [OF netd] 1] by simp
  have idle: "pending_recorded X (files w UPDATE_PENDING) v" if "kept ?S w v" for v
    using that tr by (auto simp: pending_recorded_def kept_def)
  show ?thesis
  proof (cases before)
    case (Inl e)
    then have "w' = w1" "r = Inl e" using run 1 by (auto simp: stage_def)
    then show ?thesis using idle [OF k1] by simp
  next
    case (Inr d)
    then have rest: "run_state (switch_and_record X img d) w1 = ((r, wk), w')"
      using run 1 by (auto simp: stage_def)
    obtain sw k where 2: "run_state (bootc_switch X img) w1 = (sw, k)" by fastforce
    have k2: "kept ?S w k"
      using kept_trans [OF k1] keepsD [OF same_bootc_switch 2, of ?S] by (simp add: same_on_def)
    obtain st k3w where 3: "run_state (bootc_status X) k = (st, k3w)" by fastforce
    have k3: "kept ?S w k3w"
      using kept_trans [OF k2] keepsD [OF same_bootc_status 3, of ?S] by (simp add: same_on_def)
    show ?thesis
    proof (cases "fst sw")
      case (Inl e)
      then have "w' = k" "r = Inl e" using rest 2 by (auto simp: switch_and_record_def split: prod.splits)
      then show ?thesis using idle [OF k2] by simp
    next
      case ok: (Inr u)
      show ?thesis
      proof (cases st)
        case (Inl e)
        then have "w' = k3w" "r = Inl e"
          using rest 2 3 ok by (auto simp: switch_and_record_def run_tryE split: prod.splits)
        then show ?thesis using idle [OF k3] by simp
      next
        case (Inr after)
        then have "run_state (record_staged X img d after) k3w = (r, w')"
          using rest 2 3 ok by (auto simp: switch_and_record_def run_tryE split: prod.splits)
        from record_staged_run [OF this k3 tr] show ?thesis
          by (auto simp: is_deployed_def)
      qed
    qed
  qed
qed

text \<open>
  No update boots unchecked and unrestorable: while a stage runs, at every moment, the
  health-pending record is the one from before, or the record of the update, with the
  deployments to come back to, is on disk beside it. A stage that succeeds leaves both.
\<close>

theorem stage_records_first:
  assumes "run_state (stage X img) w = ((r, worker), w')" and "netd_leaves X" and "trail w = []"
  shows "(\<forall>f \<in> set (files w' # trail w'). f UPDATE_PENDING = files w UPDATE_PENDING
        \<or> (\<exists>rec raw. f UPDATE_RECORD = Some raw \<and> text_of_update X rec = Inr raw \<and> is_deployed (update_release rec)))
    \<and> (r = Inr () \<longrightarrow> (\<exists>rec raw pending. files w' UPDATE_RECORD = Some raw \<and> text_of_update X rec = Inr raw
         \<and> files w' UPDATE_PENDING = Some (pending @ nl) \<and> pending \<noteq> []))"
  using stage_run [OF assms] unfolding pending_recorded_def recorded_def by blast

section \<open>The request to restore the network\<close>

lemma same_finish_manual:
  "UPDATE_OUTCOME \<notin> S \<Longrightarrow> MANUAL_ROLLBACK \<notin> S \<Longrightarrow> lasting S \<Longrightarrow> keeps (same_on S) (finish_manual_rollback X manual d returned)"
  unfolding finish_manual_rollback_def
  by (intro same.keeps_rules same_write_outcome same_durable_remove)

lemma ask_restoration_run:
  assumes run: "run_state (ask_restoration X u) w1 = (r, w')" and k: "kept {UPDATE_RECORD, RESTORE_PRE_UPDATE} w w1"
    and tr: "trail w = []"
  shows "(\<forall>f \<in> set (files w' # trail w'). f UPDATE_RECORD = files w UPDATE_RECORD
        \<or> f RESTORE_PRE_UPDATE = Some (dep_image (update_release u)))
    \<and> (r = Inr () \<longrightarrow> files w' RESTORE_PRE_UPDATE = Some (dep_image (update_release u)) \<and> files w' UPDATE_RECORD = None)"
proof -
  let ?img = "dep_image (update_release u)"
  obtain q w2 where 2: "run_state (durable_write (host X) RESTORE_PRE_UPDATE ?img) w1 = (q, w2)" by fastforce
  have l: "lasting {UPDATE_RECORD}" "lasting {RESTORE_PRE_UPDATE}" using update_lasting by auto
  have k2: "kept {UPDATE_RECORD} w w2"
    using kept_trans [OF kept_subset [OF _ k]] l(1) keepsD [OF same_durable_write 2, of "{UPDATE_RECORD}"]
    by (simp add: same_on_def update_not_temp)
  show ?thesis
  proof (cases q)
    case (Inl e)
    then show ?thesis using run 2 k2 tr by (auto simp: ask_restoration_def run_tryE kept_def)
  next
    case (Inr v)
    have at: "files w2 RESTORE_PRE_UPDATE = Some ?img"
      using durable_write_run(1) [of "host X" RESTORE_PRE_UPDATE ?img w1 w2] update_not_temp 2 Inr by simp
    have 3: "run_state (durable_remove (host X) UPDATE_RECORD) w2 = (r, w')"
      using run 2 Inr by (simp add: ask_restoration_def run_tryE)
    have k3: "kept {RESTORE_PRE_UPDATE} w2 w'"
      using l(2) keepsD [OF same_durable_remove 3, of "{RESTORE_PRE_UPDATE}"] by (simp add: same_on_def)
    have "files w' RESTORE_PRE_UPDATE = Some ?img" using k3 at by (auto simp: kept_def)
    then show ?thesis
      using two_phases [OF k2 k3 tr] at durable_remove_ok 3 by fastforce
  qed
qed

lemma read_update_run:
  assumes "run_state (read_update_record X) w = (Some u, w')"
  shows "\<exists>raw. files w UPDATE_RECORD = Some raw \<and> update_of_text X raw = Inr u"
proof -
  obtain q w1 where s: "run_state (read_file (host X) UPDATE_RECORD) w = (q, w1)" by fastforce
  then show ?thesis
    using assms read_file_run(2) [OF s]
    by (auto simp: read_update_record_def read_json_def ok_opt_def split: sum.splits option.splits)
qed

text \<open>
  C19. The request to restore the network of before an update is never lost: while the previous
  Release checks at its start, at every moment either the record of the update is on disk as
  it was, or netd's request is, and it names the update of that record. A new request is made
  only for a record on disk whose Release is the rollback deployment while its predecessor is
  booted, and then a check that succeeds has removed the record.
\<close>

theorem restoration_never_lost:
  assumes "run_state (run_restore_check X) w = (r, w')" and "trail w = []"
  shows "(\<forall>f \<in> set (files w' # trail w'). f UPDATE_RECORD = files w UPDATE_RECORD
        \<or> (\<exists>raw u. files w UPDATE_RECORD = Some raw \<and> update_of_text X raw = Inr u
             \<and> f RESTORE_PRE_UPDATE = Some (dep_image (update_release u))))
    \<and> (\<forall>f \<in> set (files w' # trail w'). f RESTORE_PRE_UPDATE \<noteq> files w RESTORE_PRE_UPDATE \<longrightarrow>
         (\<exists>raw u d w1 w2. files w UPDATE_RECORD = Some raw \<and> update_of_text X raw = Inr u
            \<and> run_state (bootc_status X) w1 = (Inr d, w2) \<and> returned_from_update u d
            \<and> (r = Inr () \<longrightarrow> files w' UPDATE_RECORD = None)))"
proof -
  let ?S = "{UPDATE_RECORD, RESTORE_PRE_UPDATE}"
  obtain manual w1 where 1: "run_state (read_json X (rollback_of_text X) MANUAL_ROLLBACK) w = (manual, w1)" by fastforce
  obtain rec w2 where 2: "run_state (read_update_record X) w1 = (rec, w2)" by fastforce
  obtain st w3 where 3: "run_state (bootc_status X) w2 = (st, w3)" by fastforce
  have k1: "kept ?S w w1" and k2: "kept ?S w w2" and k3: "kept ?S w w3"
    using keepsD [OF same_read_json 1, of ?S] keepsD [OF same_read_json 2 [unfolded read_update_record_def], of ?S]
      keepsD [OF same_bootc_status 3, of ?S] kept_trans by (auto simp: same_on_def) blast+
  have idle: ?thesis if "kept ?S w w'"
    using that assms(2) by (fastforce simp: kept_def)
  show ?thesis
  proof (cases "\<exists>d u. st = Inr d \<and> rec = Some u \<and> returned_from_update u d")
    case False
    obtain q w4 where 4: "run_state (finish_manual_rollback X manual (case st of Inr d \<Rightarrow> d | Inl _ \<Rightarrow> no_deployments) False) w3 = (q, w4)"
      by fastforce
    have k4: "kept ?S w w4"
      using kept_trans [OF k3] keepsD [OF same_finish_manual 4, of ?S] update_lasting by (auto simp: same_on_def)
    have "w' \<in> {w2, w3, w4}"
      using assms(1) 1 2 3 4 False
      by (cases st; cases rec; cases q) (auto simp: run_restore_check_def run_tryE split: if_splits)
    then show ?thesis using idle k2 k3 k4 by auto
  next
    case True
    then obtain d u where u: "st = Inr d" "rec = Some u" "returned_from_update u d" by blast
    obtain q w4 where 4: "run_state (finish_manual_rollback X manual d True) w3 = (q, w4)" by fastforce
    have k4: "kept ?S w w4"
      using kept_trans [OF k3] keepsD [OF same_finish_manual 4, of ?S] update_lasting by (auto simp: same_on_def)
    obtain raw where raw: "files w UPDATE_RECORD = Some raw" "update_of_text X raw = Inr u"
      using read_update_run [OF 2 [unfolded u(2)]] k1 by (auto simp: kept_def)
    show ?thesis
    proof (cases q)
      case (Inl e)
      then have "w' = w4" using assms(1) 1 2 3 4 u by (auto simp: run_restore_check_def run_tryE split: if_splits)
      then show ?thesis using idle k4 by simp
    next
      case (Inr v)
      then have "run_state (ask_restoration X u) w4 = (r, w')"
        using assms(1) 1 2 3 4 u by (auto simp: run_restore_check_def run_tryE split: if_splits)
      from ask_restoration_run [OF this k4 assms(2)] show ?thesis
        using raw 3 u by fastforce
    qed
  qed
qed

end
