(* ===== verification/Controller.thy ===== *)
theory Controller
  imports Update_Properties
begin

text \<open>
  The Host update controller as a process: clients' requests, the threads of claimed stages, and
  everything else that happens on the machine in between, as a step relation. The operation's
  lock makes each request that changes it one step.
\<close>

section \<open>Steps\<close>

text \<open>
  A state is the controller's memory, the images of the running stage threads, and the world.
  While a thread runs its effects are part of \<open>Elsewhere\<close>, which lets the world change in any
  way; its end takes the result from whatever the thread saw.
\<close>

type_synonym 'k controller_state = "controller \<times> string list \<times> 'k world"

inductive controller_step :: "'k update_env \<Rightarrow> 'k controller_state \<Rightarrow> 'k controller_state \<Rightarrow> bool" for X where
  Request: "run_state (handle_update_client X c bytes) w = ((c', started), w')
    \<Longrightarrow> controller_step X (c, threads, w) (c', (case started of None \<Rightarrow> threads | Some img \<Rightarrow> img # threads), w')"
| Stage_ends: "img \<in> set threads \<Longrightarrow> run_state (run_stage X c img) seen = (c', left)
    \<Longrightarrow> controller_step X (c, threads, w) (c', remove1 img threads, w')"
| Elsewhere: "controller_step X (c, threads, w) (c, threads, w')"

inductive controller_reachable :: "'k update_env \<Rightarrow> 'k controller_state \<Rightarrow> bool" for X where
  Start: "run_state (start_controller X) w = (c, w') \<Longrightarrow> controller_reachable X (c, [], w')"
| Step: "controller_reachable X s \<Longrightarrow> controller_step X s s' \<Longrightarrow> controller_reachable X s'"

inductive_cases controller_stepE: "controller_step X (c, threads, w) (c', threads', w')"

section \<open>One stage at a time\<close>

lemma one_word: "valid_reference img \<Longrightarrow> img \<noteq> [] \<and> hd img \<noteq> CHR ''-'' \<and> split_whitespace img = [img]"
proof -
  assume v: "valid_reference img"
  have "split_when white_space (utf8_chars img) = [utf8_chars img]"
    using v by (intro split_when_none) (auto simp: valid_reference_def list_ex_iff)
  moreover have "hd img \<noteq> CHR ''-''" using v by (cases img) (auto simp: valid_reference_def starts_with_iff)
  ultimately show ?thesis using v by (simp add: split_whitespace_def valid_reference_def)
qed

definition one_stage :: "update_operation \<Rightarrow> string list \<Rightarrow> bool" where
  "one_stage op threads \<longleftrightarrow>
     (case op of Staging img _ \<Rightarrow> threads = [img] \<and> valid_reference img | _ \<Rightarrow> threads = [])"

lemma claim_staging_run:
  assumes "run_state (claim_staging X op img) w = (r, w')"
  shows "(\<exists>e. r = Inl e) \<or> (\<exists>d. r = Inr (Staging img d) \<and> check_idle op = Inr () \<and> valid_reference img \<and> files w BOOTSTRAPPED \<noteq> None)"
  using assms
  by (auto simp: claim_staging_def bootstrap_completed_def file_exists_def gets_def begin_staging_def check_idle_def
      split: if_splits prod.splits sum.splits update_operation.splits)

lemma start_stage_run:
  assumes "run_state (start_stage_request X c img) w = ((v, c', started), w')"
  shows "(c' = c \<and> started = None)
    \<or> (\<exists>d. c' = c\<lparr> operation_of := Staging img d \<rparr> \<and> started = Some img \<and> check_idle (operation_of c) = Inr ()
         \<and> valid_reference img \<and> files w BOOTSTRAPPED \<noteq> None)"
proof -
  obtain r w1 where 1: "run_state (claim_staging X (operation_of c) img) w = (r, w1)" by fastforce
  from claim_staging_run [OF this] show ?thesis
    using assms 1 by (auto simp: start_stage_request_def split: prod.splits)
qed

lemma handle_update_request_run:
  assumes "run_state (handle_update_request X c q) w = ((v, c', started), w')"
  shows "(c' = c \<and> started = None)
    \<or> (\<exists>d. c' = c\<lparr> operation_of := Staging (req_image q) d \<rparr> \<and> started = Some (req_image q) \<and> req_op q = ''start_stage''
         \<and> check_idle (operation_of c) = Inr () \<and> valid_reference (req_image q) \<and> files w BOOTSTRAPPED \<noteq> None)"
  using assms start_stage_run [of X c "req_image q" w v c' started w']
  by (auto simp: handle_update_request_def split: if_splits prod.splits)

lemma handle_update_client_run:
  assumes "run_state (handle_update_client X c bytes) w = ((c', started), w')"
  shows "(c' = c \<and> started = None)
    \<or> (\<exists>img d. c' = c\<lparr> operation_of := Staging img d \<rparr> \<and> started = Some img
         \<and> check_idle (operation_of c) = Inr () \<and> valid_reference img)"
proof (cases "request_of_text X bytes")
  case (Inl e)
  then show ?thesis using assms by (auto simp: handle_update_client_def split: prod.splits)
next
  case (Inr q)
  obtain v k s w1 where 1: "run_state (handle_update_request X c q) w = ((v, k, s), w1)" by (metis prod.exhaust)
  then have "c' = k" "started = s"
    using assms Inr by (auto simp: handle_update_client_def split: prod.splits if_splits)
  then show ?thesis using handle_update_request_run [OF 1] by blast
qed

lemma one_stage_request:
  assumes "run_state (handle_update_client X c bytes) w = ((c', started), w')" and "one_stage (operation_of c) threads"
  shows "one_stage (operation_of c') (case started of None \<Rightarrow> threads | Some img \<Rightarrow> img # threads)"
  using handle_update_client_run [OF assms(1)] assms(2)
  by (auto simp: one_stage_def check_idle_def split: update_operation.splits)

lemma one_stage_end:
  assumes "run_state (run_stage X c img) seen = (c', left)" and "one_stage (operation_of c) threads" and "img \<in> set threads"
  shows "one_stage (operation_of c') (remove1 img threads)"
proof -
  obtain r where "operation_of c' = finish_staging img r"
    using assms(1) by (auto simp: run_stage_def split: prod.splits)
  moreover have "threads = [img]" using assms(2,3) by (auto simp: one_stage_def split: update_operation.splits)
  ultimately show ?thesis by (auto simp: one_stage_def finish_staging_def split: sum.splits)
qed

lemma one_stage_step:
  assumes "controller_step X (c, threads, w) (c', threads', w')" and "one_stage (operation_of c) threads"
  shows "one_stage (operation_of c') threads'"
  using assms by (elim controller_stepE) (simp_all add: one_stage_request one_stage_end)

text \<open>
  C21. At most one stage runs: in every state the controller can reach, whatever its clients ask
  and whatever happens in between, a stage thread runs exactly while the operation says so, it
  is the only one, it pulls the image that was claimed, and that image is one word that bootc
  cannot take for an option.
\<close>

theorem one_stage_at_a_time:
  assumes "controller_reachable X (c, threads, w)"
  shows "case operation_of c of
      Staging img before \<Rightarrow> threads = [img] \<and> img \<noteq> [] \<and> hd img \<noteq> CHR ''-'' \<and> split_whitespace img = [img]
    | _ \<Rightarrow> threads = []"
proof -
  have inv: "controller_reachable X s \<Longrightarrow> one_stage (operation_of (fst s)) (fst (snd s))" for s
  proof (induction rule: controller_reachable.induct)
    case (Start w c w')
    then show ?case by (auto simp: start_controller_def one_stage_def split: prod.splits)
  next
    case (Step s s')
    then show ?case using one_stage_step [of X] by (cases s; cases s') auto
  qed
  show ?thesis
    using inv [OF assms] one_word by (auto simp: one_stage_def split: update_operation.splits)
qed

section \<open>Refusals\<close>

lemma files_of_same: "keeps (same_on UNIV) m \<Longrightarrow> run_state m w = (r, w') \<Longrightarrow> files w' = files w"
  by (drule (1) keepsD) (auto simp: same_on_def kept_def)

text \<open>
  Before Bootstrap has completed, and while a stage runs, a reboot, a rollback and another
  stage are refused: the controller stays as it is, no thread is started, no file changes, and
  but for the look at the deployments that a claim takes, nothing is done.
\<close>

theorem refused_requests_change_nothing:
  assumes "run_state (handle_update_request X c q) w = ((v, c', started), w')"
    and "files w BOOTSTRAPPED = None \<or> check_idle (operation_of c) \<noteq> Inr ()"
    and "req_op q \<in> {''reboot'', ''rollback'', ''start_stage''}"
  shows "(\<exists>e. v = reply_error e) \<and> c' = c \<and> started = None
    \<and> files w' = files w \<and> (w' = w \<or> req_op q = ''start_stage'' \<and> (\<exists>d. run_state (bootc_images X) w = (d, w')))"
proof -
  obtain d k where d: "run_state (bootc_images X) w = (d, k)" by fastforce
  have "files k = files w" by (rule files_of_same [OF same_bootc_images d])
  then show ?thesis
    using assms d
    by (auto simp: handle_update_request_def reboot_request_def rollback_request_def start_stage_request_def claim_staging_def
        bootstrap_completed_def file_exists_def gets_def begin_staging_def thenE_ok split: prod.splits sum.splits if_splits)
qed

end
