(* ===== verification/Health_Properties.thy ===== *)
theory Health_Properties
  imports Update_Properties
begin

text \<open>
  The health check of an update boot: what it may do to the boot order and to the record that
  leads back to the previous Release, and on what grounds.
\<close>

section \<open>Commands that change what boots\<close>

definition BOOTC_ROLLBACK :: "string list" where
  "BOOTC_ROLLBACK = [''bootc'', ''rollback'']"

definition REBOOT :: "string list" where
  "REBOOT = [''systemctl'', ''reboot'', ''--no-block'']"

text \<open>The rollbacks and reboots asked for so far, with their results, latest first.\<close>

definition boot_changes :: "'k world \<Rightarrow> (string list \<times> exec_result) list" where
  "boot_changes w = map (\<lambda>(argv, _, r). (argv, r)) (filter (\<lambda>(argv, _). argv \<in> {BOOTC_ROLLBACK, REBOOT}) (calls w))"

definition quiet :: "'k world \<Rightarrow> 'k world \<Rightarrow> bool" where
  "quiet w w' \<longleftrightarrow> boot_changes w' = boot_changes w"

interpretation quiet: transition quiet
  by unfold_locales (auto simp: quiet_def)

lemma quiet_asks: "keeps quiet (asks f)"
  by (auto simp: keeps_def run_asks quiet_def boot_changes_def split: prod.splits)

lemma quiet_set_files: "keeps quiet (set_files f)"
  by (auto simp: keeps_def set_files_def quiet_def boot_changes_def)

lemma quiet_set_file: "keeps quiet (set_file p v)"
  unfolding set_file_def by (intro quiet.keeps_rules quiet_set_files)

lemma program_called:
  "run_state (run_program E argv input) w = (r, w') \<Longrightarrow>
     calls w' = (argv, input, r) # calls w \<and> files w' = files w \<and> trail w' = trail w"
  by (auto simp: run_program_def run_asks split: prod.splits)

lemma quiet_run_program: "argv \<notin> {BOOTC_ROLLBACK, REBOOT} \<Longrightarrow> keeps quiet (run_program E argv input)"
  by (rule keepsI) (auto simp: quiet_def boot_changes_def dest: program_called)

lemma quiet_file_exists: "keeps quiet (file_exists p)"
  unfolding file_exists_def by (intro quiet.keeps_rules)

lemma quiet_simple_op: "keeps quiet (simple_op E op)"
  unfolding simple_op_def fault_def by (intro quiet.keeps_rules quiet_asks)

lemma quiet_read_file: "keeps quiet (read_file E p)"
  unfolding read_file_def fault_def by (intro quiet.keeps_rules quiet_asks)

lemma quiet_read_text: "keeps quiet (read_text E p)"
  unfolding read_text_def by (intro quiet.keeps_rules quiet_read_file)

lemma quiet_unlink_file: "keeps quiet (unlink_file E p)"
  unfolding unlink_file_def by (intro quiet.keeps_rules quiet_file_exists quiet_simple_op quiet_set_file)

lemma quiet_durable_remove: "keeps quiet (durable_remove E p)"
  unfolding durable_remove_def by (intro quiet.keeps_rules quiet_unlink_file quiet_simple_op)

lemma quiet_durable_write: "keeps quiet (durable_write E p b)"
  unfolding durable_write_def publish_temp_def create_new_def write_sync_def rename_file_def random_token_def fault_def Let_def
  by (intro quiet.keeps_rules quiet_file_exists quiet_simple_op quiet_set_file quiet_set_files quiet_asks quiet_unlink_file)

lemma harmless_commands:
  "[''bootc'', ''status'', ''--format'', ''json''] \<notin> {BOOTC_ROLLBACK, REBOOT}"
  "[''systemctl'', ''is-active'', ''--quiet'', u] \<notin> {BOOTC_ROLLBACK, REBOOT}"
  "BOOTC_ROLLBACK \<noteq> REBOOT"
  by (simp_all add: BOOTC_ROLLBACK_def REBOOT_def)

lemma quiet_bootc_images: "keeps quiet (bootc_images X)"
proof -
  have "keeps quiet (bootc_status_rounds X n l)" for n l
    by (induction n arbitrary: l)
      (auto intro!: quiet.keeps_rules quiet_run_program harmless_commands simp del: insert_iff simp: Let_def)
  then show ?thesis unfolding bootc_images_def bootc_status_def by (intro quiet.keeps_rules)
qed

lemma quiet_read_pending: "keeps quiet (read_pending X)"
  unfolding read_pending_def by (intro quiet.keeps_rules quiet_read_text)

lemma quiet_clear_pending: "keeps quiet (clear_pending X)"
  unfolding clear_pending_def by (intro quiet.keeps_rules quiet_unlink_file)

lemma quiet_write_outcome: "keeps quiet (write_outcome X t)"
  unfolding write_outcome_def by (intro quiet.keeps_rules quiet_durable_write)

text \<open>What the check relies on in netd: its programs change nothing of what boots.\<close>

definition netd_quiet :: "'k update_env \<Rightarrow> bool" where
  "netd_quiet X \<longleftrightarrow> (\<forall>body. keeps quiet (netd_call X body))"

lemma quiet_look_at_health: "netd_quiet X \<Longrightarrow> keeps quiet (look_at_health X)"
  unfolding look_at_health_def unit_active_def netns_exists_def netd_quiet_def
  by (intro quiet.keeps_rules quiet_run_program quiet_asks harmless_commands) blast

lemma quiet_accept_update: "netd_quiet X \<Longrightarrow> keeps quiet (accept_update X img)"
  unfolding accept_update_def netd_quiet_def
  by (intro quiet.keeps_rules quiet_durable_remove quiet_write_outcome) blast

section \<open>The decision\<close>

lemma kept_look_at_health: "netd_leaves X \<Longrightarrow> S \<subseteq> update_files \<Longrightarrow> keeps (kept S) (look_at_health X)"
  unfolding look_at_health_def unit_active_def netns_exists_def
  by (intro kept.keeps_rules keeps_kept same_run_program same_asks kept_netd)

text \<open>What one run of the check has done: nothing that counts, or it has decided, on the last
  look, about the Release that is booted.\<close>

definition undecided :: "'k world \<Rightarrow> 'k world \<Rightarrow> bool" where
  "undecided w w' \<longleftrightarrow> quiet w w' \<and> kept {UPDATE_RECORD} w w'"

interpretation undecided: transition undecided
  by unfold_locales (auto simp: undecided_def quiet_def kept_refl intro: kept_trans)

definition rolled_back :: "'k world \<Rightarrow> unit res \<Rightarrow> 'k world \<Rightarrow> bool" where
  "rolled_back w r w' \<longleftrightarrow> files w' UPDATE_RECORD = files w UPDATE_RECORD
     \<and> (\<exists>out. if r = Inr () then exec_error out = None \<and> ok out \<and> (\<exists>out'. boot_changes w' = (REBOOT, out') # (BOOTC_ROLLBACK, out) # boot_changes w)
              else boot_changes w' = (BOOTC_ROLLBACK, out) # boot_changes w)"

definition grounds :: "'k update_env \<Rightarrow> string \<Rightarrow> appliance_health \<Rightarrow> deployments \<Rightarrow> bool" where
  "grounds X pending h d \<longleftrightarrow> pending_is_this_boot pending (dep_image (booted d))
     \<and> (\<exists>w1 w2 w3. run_state (bootc_images X) w1 = (d, w2) \<and> run_state (look_at_health X) w2 = (h, w3))"

definition decided :: "'k update_env \<Rightarrow> string \<Rightarrow> 'k world \<Rightarrow> unit res \<Rightarrow> 'k world \<Rightarrow> bool" where
  "decided X pending w r w' \<longleftrightarrow>
     undecided w w'
     \<or> (\<exists>d. grounds X pending Healthy d \<and> quiet w w')
     \<or> (\<exists>d h. grounds X pending h d \<and> h \<noteq> Healthy \<and> is_deployed (rollback d) \<and> rolled_back w r w')"

lemma bootc_rollback_run:
  assumes "run_state (bootc_rollback X) w = (r, w')"
  shows "\<exists>out. boot_changes w' = (BOOTC_ROLLBACK, out) # boot_changes w \<and> files w' = files w \<and> (r = Inr () \<longrightarrow> exec_error out = None \<and> ok out)"
proof -
  obtain out w1 where 1: "run_state (run_program (host X) BOOTC_ROLLBACK []) w = (out, w1)" by fastforce
  then have "w' = w1 \<and> (r = Inr () \<longrightarrow> exec_error out = None \<and> ok out)"
    using assms by (cases "exec_error out") (auto simp: bootc_rollback_def output_of_def BOOTC_ROLLBACK_def run_tryE split: if_splits)
  then show ?thesis using program_called [OF 1] by (auto simp: boot_changes_def)
qed

lemma kept_record:
  "keeps (same_on {UPDATE_RECORD}) m \<Longrightarrow> run_state m w = (r, w') \<Longrightarrow> files w' UPDATE_RECORD = files w UPDATE_RECORD"
  by (drule (1) keepsD) (auto simp: same_on_def kept_def)

lemma same_unlink_file: "p \<notin> S \<Longrightarrow> keeps (same_on S) (unlink_file E p)"
  unfolding unlink_file_def by (intro same.keeps_rules same_ops same_set_file)

lemma same_clear_pending: "UPDATE_PENDING \<notin> S \<Longrightarrow> keeps (same_on S) (clear_pending X)"
  unfolding clear_pending_def by (intro same.keeps_rules same_unlink_file)

lemma auto_rollback_run:
  assumes "run_state (auto_rollback X img h) w = (r, w')"
  shows "rolled_back w r w'"
proof -
  let ?t = "\<lparr> outcome_release = img, outcome_result = Rolled_back, outcome_reason = Some (describe h), outcome_manual = None \<rparr>"
  obtain w1 where 1: "run_state (write_outcome X ?t) w = ((), w1)" by (cases "run_state (write_outcome X ?t) w") auto
  obtain q w2 where 2: "run_state (bootc_rollback X) w1 = (q, w2)" by fastforce
  have q1: "boot_changes w1 = boot_changes w" using keepsD [OF quiet_write_outcome 1] by (simp add: quiet_def)
  have f1: "files w1 UPDATE_RECORD = files w UPDATE_RECORD"
    by (rule kept_record [OF same_write_outcome 1]) (use update_lasting in auto)
  obtain out where out: "boot_changes w2 = (BOOTC_ROLLBACK, out) # boot_changes w" "files w2 UPDATE_RECORD = files w UPDATE_RECORD"
      "q = Inr () \<Longrightarrow> exec_error out = None \<and> ok out"
    using bootc_rollback_run [OF 2] q1 f1 by auto
  show ?thesis
  proof (cases q)
    case (Inl e)
    then have "w' = w2" "r = Inl e" using assms 1 2 by (auto simp: auto_rollback_def run_tryE)
    then show ?thesis using out by (auto simp: rolled_back_def)
  next
    case (Inr v)
    obtain w3 where 3: "run_state (clear_pending X) w2 = ((), w3)" by (cases "run_state (clear_pending X) w2") auto
    obtain o' w4 where 4: "run_state (run_program (host X) REBOOT []) w3 = (o', w4)" by fastforce
    have "w' = w4" "r = Inr ()"
      using assms 1 2 3 4 Inr by (auto simp: auto_rollback_def run_tryE request_reboot_def REBOOT_def)
    moreover have "boot_changes w3 = boot_changes w2" using keepsD [OF quiet_clear_pending 3] by (simp add: quiet_def)
    moreover have "files w3 UPDATE_RECORD = files w2 UPDATE_RECORD" by (rule kept_record [OF same_clear_pending 3]) simp
    moreover have "boot_changes w4 = (REBOOT, o') # boot_changes w3" "files w4 = files w3"
      using program_called [OF 4] by (auto simp: boot_changes_def)
    ultimately show ?thesis using out Inr by (auto simp: rolled_back_def)
  qed
qed

lemma rolled_back_after: "undecided w w1 \<Longrightarrow> rolled_back w1 r w' \<Longrightarrow> rolled_back w r w'"
  by (auto simp: rolled_back_def undecided_def quiet_def kept_def split: if_splits)

lemma decided_after:
  assumes "undecided w w1" and "decided X pending w1 r w'"
  shows "decided X pending w r w'"
proof -
  have "quiet w w1" using assms(1) by (simp add: undecided_def)
  then show ?thesis
    using assms(2) undecided.trans [OF assms(1)] quiet.trans rolled_back_after [OF assms(1)]
    unfolding decided_def by blast
qed

lemma undecided_images: "keeps undecided (bootc_images X)"
  using quiet_bootc_images same_bootc_images unfolding keeps_def undecided_def same_on_def by blast

lemma undecided_read_pending: "keeps undecided (read_pending X)"
  using quiet_read_pending same_read_pending unfolding keeps_def undecided_def same_on_def by blast

lemma undecided_clear_pending: "keeps undecided (clear_pending X)"
  using quiet_clear_pending [of X] same_clear_pending [of "{UPDATE_RECORD}" X] unfolding keeps_def undecided_def same_on_def by simp

lemma undecided_asks: "keeps undecided (asks f)"
  using quiet_asks same_asks unfolding keeps_def undecided_def same_on_def by blast

lemma undecided_look: "netd_leaves X \<Longrightarrow> netd_quiet X \<Longrightarrow> keeps undecided (look_at_health X)"
  using quiet_look_at_health [of X] kept_look_at_health [of X "{UPDATE_RECORD}"] unfolding keeps_def undecided_def by simp

lemma health_deadline_run:
  assumes run: "run_state (health_deadline X img (pending_is_this_boot pending img) has h) w = (r, w')"
    and seen: "run_state (bootc_images X) w1 = (d, w2)" "run_state (look_at_health X) w2 = (h, w3)"
    and "img = dep_image (booted d)" "has = is_deployed (rollback d)"
  shows "decided X pending w r w'"
proof (cases "should_auto_rollback (pending_is_this_boot pending img) has h")
  case True
  then have "rolled_back w r w'" using run auto_rollback_run by (simp add: health_deadline_def)
  moreover have "grounds X pending h d" "h \<noteq> Healthy" "is_deployed (rollback d)"
    using True assms by (auto simp: should_auto_rollback_def grounds_def)
  ultimately show ?thesis unfolding decided_def by blast
next
  case False
  then have "undecided w w'"
    using run keepsD [OF undecided_clear_pending]
    by (auto simp: health_deadline_def undecided.refl split: if_splits prod.splits)
  then show ?thesis by (simp add: decided_def)
qed

lemma health_round:
  assumes "run_state (bootc_images X) w = (d, w2)" and "run_state (look_at_health X) w2 = (h, w3)"
    and "run_state (asks (deadline_passed (host X))) w3 = (passed, w4)" and "img = dep_image (booted d)"
  shows "run_state (health_rounds X pending n) w =
    (if img \<noteq> [] \<and> \<not> pending_is_this_boot pending img then (Inr (), w2)
     else if pending_is_this_boot pending img \<and> h = Healthy
     then run_state (do { accept_update X img; clear_pending X; okE () }) w3
     else if passed \<or> n = 0
     then run_state (health_deadline X img (pending_is_this_boot pending img) (is_deployed (rollback d)) h) w4
     else run_state (health_rounds X pending (n - 1)) w4)"
  using assms by (simp add: health_rounds.simps [of X pending n] Let_def)

lemma health_rounds_decide:
  assumes netd: "netd_leaves X" "netd_quiet X"
  shows "run_state (health_rounds X pending n) w = (r, w') \<Longrightarrow> decided X pending w r w'"
proof (induction n arbitrary: w rule: less_induct)
  case (less n)
  obtain d w2 where 1: "run_state (bootc_images X) w = (d, w2)" by fastforce
  obtain h w3 where 2: "run_state (look_at_health X) w2 = (h, w3)" by fastforce
  obtain passed w4 where 3: "run_state (asks (deadline_passed (host X))) w3 = (passed, w4)" by fastforce
  let ?img = "dep_image (booted d)"
  note round = health_round [OF 1 2 3 refl, of pending n]
  have u2: "undecided w w2" using keepsD [OF undecided_images 1] .
  have u3: "undecided w w3" using undecided.trans [OF u2 keepsD [OF undecided_look [OF netd] 2]] .
  have u4: "undecided w w4" using undecided.trans [OF u3 keepsD [OF undecided_asks 3]] .
  consider (other) "?img \<noteq> [] \<and> \<not> pending_is_this_boot pending ?img"
    | (healthy) "\<not> (?img \<noteq> [] \<and> \<not> pending_is_this_boot pending ?img)" "pending_is_this_boot pending ?img" "h = Healthy"
    | (late) "\<not> (?img \<noteq> [] \<and> \<not> pending_is_this_boot pending ?img)" "\<not> (pending_is_this_boot pending ?img \<and> h = Healthy)" "passed \<or> n = 0"
    | (again) "\<not> (?img \<noteq> [] \<and> \<not> pending_is_this_boot pending ?img)" "\<not> (pending_is_this_boot pending ?img \<and> h = Healthy)" "\<not> passed" "n \<noteq> 0"
    by blast
  then show ?case
  proof cases
    case other
    then have "w' = w2" using less.prems round by simp
    then show ?thesis using u2 by (simp add: decided_def)
  next
    case healthy
    obtain w5 where 5: "run_state (accept_update X ?img) w3 = ((), w5)" by (cases "run_state (accept_update X ?img) w3") auto
    obtain w6 where 6: "run_state (clear_pending X) w5 = ((), w6)" by (cases "run_state (clear_pending X) w5") auto
    have "w' = w6" using less.prems 5 6 healthy round by simp
    moreover have "quiet w w6"
      using u3 keepsD [OF quiet_accept_update [OF netd(2)] 5] keepsD [OF quiet_clear_pending 6]
      by (simp add: undecided_def quiet_def)
    moreover have "grounds X pending Healthy d" using healthy 1 2 by (auto simp: grounds_def)
    ultimately show ?thesis unfolding decided_def by blast
  next
    case late
    then have "run_state (health_deadline X ?img (pending_is_this_boot pending ?img) (is_deployed (rollback d)) h) w4 = (r, w')"
      using less.prems round by auto
    then show ?thesis
      using decided_after [OF u4 health_deadline_run [OF _ 1 2 refl refl]] by blast
  next
    case again
    then have "run_state (health_rounds X pending (n - 1)) w4 = (r, w')"
      using less.prems round by auto
    then show ?thesis using decided_after [OF u4] less.IH [of "n - 1"] again by simp
  qed
qed

lemma read_pending_value:
  assumes "run_state (read_pending X) w = (p, w')" and "p \<noteq> []"
  shows "\<exists>raw. files w UPDATE_PENDING = Some raw \<and> p = trim raw"
proof -
  obtain q w1 where s: "run_state (read_file (host X) UPDATE_PENDING) w = (q, w1)" by fastforce
  then show ?thesis
    using assms read_file_run(2) [OF s]
    by (auto simp: read_pending_def read_text_def run_tryE split: sum.splits option.splits if_splits)
qed

text \<open>
  C20. The health check turns an update down only on good grounds, and never twice: its command
  to boot the previous Release is given at most once, after a look at the appliance that was
  not healthy, on a boot of the very image the pending record names, with a deployment to go
  back to; the reboot follows only when bootc has accepted it, and the record that leads back
  to the old network stays. The record goes only after a look that was healthy, and then nothing
  is rolled back.
\<close>

theorem update_turned_down_on_grounds:
  assumes "run_state (run_health X) w = (r, w')" and "netd_leaves X" and "netd_quiet X"
  shows "(boot_changes w' = boot_changes w \<and> files w' UPDATE_RECORD = files w UPDATE_RECORD)
    \<or> (\<exists>raw d h w1 w2 w3. files w UPDATE_PENDING = Some raw \<and> pending_is_this_boot (trim raw) (dep_image (booted d))
         \<and> run_state (bootc_images X) w1 = (d, w2) \<and> run_state (look_at_health X) w2 = (h, w3)
         \<and> (if h = Healthy then boot_changes w' = boot_changes w
            else is_deployed (rollback d) \<and> files w' UPDATE_RECORD = files w UPDATE_RECORD
              \<and> (\<exists>out. if r = Inr ()
                    then exec_error out = None \<and> ok out
                      \<and> (\<exists>out'. boot_changes w' = (REBOOT, out') # (BOOTC_ROLLBACK, out) # boot_changes w)
                    else boot_changes w' = (BOOTC_ROLLBACK, out) # boot_changes w)))"
proof -
  obtain p w1 where 1: "run_state (read_pending X) w = (p, w1)" by fastforce
  have u1: "undecided w w1" using keepsD [OF undecided_read_pending 1] .
  have idle: ?thesis if "undecided w w'" using that by (auto simp: undecided_def quiet_def kept_def)
  show ?thesis
  proof (cases "p = []")
    case True
    then show ?thesis using assms(1) 1 u1 idle by (simp add: run_health_def)
  next
    case False
    then obtain raw where raw: "files w UPDATE_PENDING = Some raw" "p = trim raw"
      using read_pending_value [OF 1] by blast
    have "run_state (health_rounds X p 180) w1 = (r, w')" using assms(1) 1 False by (simp add: run_health_def)
    then have "decided X p w r w'" using decided_after [OF u1] health_rounds_decide [OF assms(2,3)] by blast
    then show ?thesis
      using idle raw unfolding decided_def grounds_def rolled_back_def quiet_def by (elim disjE) (blast, metis, metis)
  qed
qed

end
