(* ===== verification/Update_Sample.thy ===== *)
theory Update_Sample
  imports Controller Health_Properties Sample
begin

text \<open>
  The properties of a Host update on a sample machine: the Release \<open>q.io/fwos:2\<close> is booted,
  \<open>q.io/fwos:1\<close> is the deployment to go back to, and \<open>bootc\<close> and netd answer as they do when
  nothing fails.
\<close>

section \<open>The machine\<close>

definition sample_deployment :: "string \<Rightarrow> json" where
  "sample_deployment img = JObj [(''image'', JObj [(''image'', JObj [(''image'', JStr img)])])]"

definition sample_status :: json where
  "sample_status = JObj [(''status'', JObj [(''booted'', sample_deployment ''q.io/fwos:2''),
     (''rollback'', sample_deployment ''q.io/fwos:1'')])]"

definition sample_deployments :: deployments where
  "sample_deployments = no_deployments
     \<lparr> booted := \<lparr> dep_image = ''q.io/fwos:2'', dep_digest = [] \<rparr>,
       rollback := \<lparr> dep_image = ''q.io/fwos:1'', dep_digest = [] \<rparr> \<rparr>"

lemma sample_deployments_of: "deployments_of sample_status = sample_deployments"
  by code_simp

definition sample_record :: update_record where
  "sample_record = \<lparr> previous_release = \<lparr> dep_image = ''q.io/fwos:2'', dep_digest = [] \<rparr>,
     update_release = \<lparr> dep_image = ''q.io/fwos:1'', dep_digest = [] \<rparr> \<rparr>"

definition sample_update_env :: "unit update_env" where
  "sample_update_env =
     \<lparr> host = sample_env\<lparr> codec := unary_codecs\<lparr> json_of_text := (\<lambda>_. Inr sample_status) \<rparr> \<rparr>,
       netd_call = (\<lambda>_. ret (Inr (JObj [(''ok'', JBool True)]))),
       worker_system = (\<lambda>_ k. (Inr (), k)),
       path_exists = (\<lambda>_ k. (True, k)),
       netns_inode = (\<lambda>_ k. (Some 7, k)),
       read_link = (\<lambda>_ k. (None, k)),
       worker_program = ''/usr/bin/fwos-update'',
       send_reply = (\<lambda>_ k. (Inr (), k)),
       request_of_text = (\<lambda>t. Inr \<lparr> req_op = t, req_image = ''q.io/fwos:3'' \<rparr>),
       text_of_update = (\<lambda>_. Inr ''update''),
       update_of_text = (\<lambda>_. Inr sample_record),
       text_of_rollback = (\<lambda>_. Inr ''rollback''),
       rollback_of_text = (\<lambda>_. Inl ''expected value''),
       text_of_outcome = (\<lambda>_. Inr ''outcome''),
       outcome_of_text = (\<lambda>_. Inl ''expected value''),
       json_of_outcome = (\<lambda>_. Inr (JObj [])),
       restoration_of_text = (\<lambda>_. Inl ''expected value''),
       json_of_restoration = (\<lambda>_. Inr JNull) \<rparr>"

definition update_world :: "(string \<times> string) list \<Rightarrow> unit world" where
  "update_world kvs = \<lparr> files = map_of kvs, recovery_required = False, trail = [], calls = [], outside = () \<rparr>"

lemma sample_netd: "netd_leaves sample_update_env" "netd_quiet sample_update_env"
  by (simp_all add: netd_leaves_def netd_quiet_def sample_update_env_def kept.keeps_ret quiet.keeps_ret)

lemma update_world_trail [simp]: "trail (update_world kvs) = []"
  by (simp add: update_world_def)

lemma sample_bootc_status: "\<exists>w'. run_state (bootc_status sample_update_env) w = (Inr sample_deployments, w') \<and> files w' = files w"
proof -
  have "is_deployed (booted sample_deployments)" by (simp add: is_deployed_def sample_deployments_def no_deployments_def)
  then show ?thesis
    by (simp add: bootc_status_def numeral_eq_Suc run_program_def run_asks sample_update_env_def sample_env_def exec_error_def
        sample_deployments_of Let_def)
qed

section \<open>Instances\<close>

theorem stage_records_first_witness:
  "(let w' = snd (run_state (stage sample_update_env ''q.io/fwos:3'') (update_world [])) in
    list_all (\<lambda>f. f UPDATE_PENDING = None \<or> f UPDATE_RECORD \<noteq> None) (files w' # trail w'))"
proof -
  obtain r k w' where run: "run_state (stage sample_update_env ''q.io/fwos:3'') (update_world []) = ((r, k), w')"
    by (metis prod.exhaust)
  show ?thesis
    using stage_records_first [OF run sample_netd(1)] run by (fastforce simp: list_all_iff Let_def update_world_def)
qed

theorem restoration_never_lost_witness:
  "(let w = update_world [(UPDATE_RECORD, ''update'')]; w' = snd (run_state (run_restore_check sample_update_env) w) in
    list_all (\<lambda>f. f UPDATE_RECORD = Some ''update'' \<or> f RESTORE_PRE_UPDATE = Some ''q.io/fwos:1'') (files w' # trail w'))"
proof -
  let ?w = "update_world [(UPDATE_RECORD, ''update'')]"
  obtain r w' where run: "run_state (run_restore_check sample_update_env) ?w = (r, w')" by fastforce
  have names: "dep_image (update_release u) = ''q.io/fwos:1''" if "update_of_text sample_update_env raw = Inr u" for raw u
    using that by (auto simp: sample_update_env_def sample_record_def)
  have "files ?w UPDATE_RECORD = Some ''update''" by (simp add: update_world_def)
  then have "f UPDATE_RECORD = Some ''update'' \<or> f RESTORE_PRE_UPDATE = Some ''q.io/fwos:1''"
    if "f \<in> set (files w' # trail w')" for f
    using conjunct1 [OF restoration_never_lost [OF run update_world_trail]] that names by metis
  then show ?thesis unfolding Let_def run snd_conv by (simp only: list_all_iff) blast
qed

theorem update_turned_down_on_grounds_witness:
  "(let w' = snd (run_state (run_health sample_update_env)
        (update_world [(UPDATE_PENDING, ''q.io/fwos:2''), (UPDATE_RECORD, ''update'')])) in
    boot_changes w' = [] \<or> files w' UPDATE_RECORD = Some ''update'')"
proof -
  let ?w = "update_world [(UPDATE_PENDING, ''q.io/fwos:2''), (UPDATE_RECORD, ''update'')]"
  obtain r w' where run: "run_state (run_health sample_update_env) ?w = (r, w')" by fastforce
  have "boot_changes ?w = []" "files ?w UPDATE_RECORD = Some ''update''"
    by (simp_all add: update_world_def boot_changes_def)
  then have "boot_changes w' = [] \<or> files w' UPDATE_RECORD = Some ''update''"
    using update_turned_down_on_grounds [OF run sample_netd] by metis
  then show ?thesis unfolding Let_def run snd_conv .
qed

theorem refused_requests_change_nothing_witness:
  "snd (snd (fst (run_state (handle_update_request sample_update_env \<lparr> operation_of = Idle, last_worker = None \<rparr>
     \<lparr> req_op = ''start_stage'', req_image = ''q.io/fwos:3'' \<rparr>) (update_world [])))) = None"
proof -
  obtain v c s w' where run: "run_state (handle_update_request sample_update_env \<lparr> operation_of = Idle, last_worker = None \<rparr>
     \<lparr> req_op = ''start_stage'', req_image = ''q.io/fwos:3'' \<rparr>) (update_world []) = ((v, c, s), w')"
    by (metis prod.exhaust)
  show ?thesis
    using refused_requests_change_nothing [OF run] run by (simp add: update_world_def)
qed

definition idle_controller :: controller where
  "idle_controller = \<lparr> operation_of = Idle, last_worker = None \<rparr>"

lemma sample_start: "\<exists>w'. run_state (start_controller sample_update_env) w = (idle_controller, w') \<and> files w' = files w"
proof -
  obtain w1 where 1: "run_state (bootc_status sample_update_env) w = (Inr sample_deployments, w1)" "files w1 = files w"
    using sample_bootc_status by blast
  obtain p w2 where 2: "run_state (read_pending sample_update_env) w1 = (p, w2)" by fastforce
  have "files w2 = files w1" by (rule files_of_same [OF same_read_pending 2])
  moreover have "dep_image (staged sample_deployments) = []"
    by (simp add: sample_deployments_def no_deployments_def no_deployment_def)
  ultimately show ?thesis
    using 1 2 by (simp add: start_controller_def record_staged_for_health_def bootc_images_def missing_pending_record_def idle_controller_def)
qed

lemma sample_claim:
  assumes "files w BOOTSTRAPPED \<noteq> None"
  shows "\<exists>w'. run_state (handle_update_client sample_update_env idle_controller ''start_stage'') w
    = ((idle_controller\<lparr> operation_of := Staging ''q.io/fwos:3'' sample_deployments \<rparr>, Some ''q.io/fwos:3''), w')"
proof -
  obtain w1 where 1: "run_state (bootc_status sample_update_env) w = (Inr sample_deployments, w1)"
    using sample_bootc_status by blast
  have v: "valid_reference ''q.io/fwos:3''" by code_simp
  have c: "run_state (claim_staging sample_update_env Idle ''q.io/fwos:3'') w = (Inr (Staging ''q.io/fwos:3'' sample_deployments), w1)"
    using assms v 1
    by (auto simp: claim_staging_def bootstrap_completed_def file_exists_def bootc_images_def begin_staging_def check_idle_def)
  have q: "request_of_text sample_update_env ''start_stage'' = Inr \<lparr> req_op = ''start_stage'', req_image = ''q.io/fwos:3'' \<rparr>"
    by (simp add: sample_update_env_def)
  show ?thesis
    using c q by (simp add: handle_update_client_def handle_update_request_def start_stage_request_def idle_controller_def split_def)
qed

theorem one_stage_at_a_time_witness:
  "\<exists>w. controller_reachable sample_update_env
     (idle_controller\<lparr> operation_of := Staging ''q.io/fwos:3'' sample_deployments \<rparr>, [''q.io/fwos:3''], w)
   \<and> split_whitespace ''q.io/fwos:3'' = [''q.io/fwos:3'']"
proof -
  let ?w = "update_world [(BOOTSTRAPPED, [])]"
  obtain w1 where 1: "run_state (start_controller sample_update_env) ?w = (idle_controller, w1)" "files w1 = files ?w"
    using sample_start by blast
  then have "files w1 BOOTSTRAPPED \<noteq> None" by (simp add: update_world_def)
  then obtain w2 where 2: "run_state (handle_update_client sample_update_env idle_controller ''start_stage'') w1
      = ((idle_controller\<lparr> operation_of := Staging ''q.io/fwos:3'' sample_deployments \<rparr>, Some ''q.io/fwos:3''), w2)"
    using sample_claim by blast
  have "controller_reachable sample_update_env
      (idle_controller\<lparr> operation_of := Staging ''q.io/fwos:3'' sample_deployments \<rparr>, [''q.io/fwos:3''], w2)"
    using controller_reachable.Step [OF controller_reachable.Start [OF 1(1)] controller_step.Request [OF 2, of "[]"]] by simp
  moreover from one_stage_at_a_time [OF this] have "split_whitespace ''q.io/fwos:3'' = [''q.io/fwos:3'']" by simp
  ultimately show ?thesis by blast
qed

end
