(* ===== verification/Ra.thy ===== *)
theory Ra
  imports Commands
begin

text \<open>
  Router advertisements (\<open>src/ra.rs\<close>): the packet, one link's schedule, the advertiser that
  follows the LANs, and the listener that learns DNS resolvers on the WANs. Raw sockets are the
  environment, which also holds the packets a socket has waiting; instants are nanoseconds.
\<close>

unbundle bit_operations_syntax

section \<open>Bytes\<close>

text \<open>\<open>to_be_bytes\<close> and \<open>from_be_bytes\<close>\<close>

fun be_bytes :: "nat \<Rightarrow> nat \<Rightarrow> u8 list" where
  "be_bytes 0 v = []"
| "be_bytes (Suc n) v = of_nat (v div 256 ^ n) # be_bytes n v"

definition be_value :: "u8 list \<Rightarrow> nat" where
  "be_value bs = foldl (\<lambda>v b. v * 256 + unat b) 0 bs"

lemma be_bytes_length [simp]: "length (be_bytes n v) = n"
  by (induction n) auto

lemma be_value_bytes: "foldl (\<lambda>v b. v * 256 + unat b) acc (be_bytes n v) = acc * 256 ^ n + v mod 256 ^ n"
proof (induction n arbitrary: acc)
  case (Suc n)
  have "v mod 256 ^ Suc n = (v div 256 ^ n mod 256) * 256 ^ n + v mod 256 ^ n"
    by (metis div_mult_mod_eq mod_mult2_eq mult.commute power_Suc2 add.commute)
  then show ?case using Suc.IH by (simp add: unat_of_nat algebra_simps)
qed simp

lemma be_value_of_bytes: "v < 256 ^ n \<Longrightarrow> be_value (be_bytes n v) = v"
  using be_value_bytes [of 0 n v] by (simp add: be_value_def)

section \<open>The advertisement\<close>

definition ROUTER_LIFETIME :: u16 where "ROUTER_LIFETIME = 1800"
definition VALID_LIFETIME :: u32 where "VALID_LIFETIME = 3600"
definition PREFERRED_LIFETIME :: u32 where "PREFERRED_LIFETIME = 1800"
definition ROUTER_SOLICIT :: u8 where "ROUTER_SOLICIT = 133"
definition ROUTER_ADVERT :: u8 where "ROUTER_ADVERT = 134"
definition RDNSS :: u8 where "RDNSS = 25"

text \<open>Instants and durations in nanoseconds\<close>

definition seconds :: "nat \<Rightarrow> nat" where "seconds n = n * 1000000000"

definition UNSOLICITED_INTERVAL :: nat where "UNSOLICITED_INTERVAL = seconds 30"
definition INITIAL_INTERVAL :: nat where "INITIAL_INTERVAL = seconds 1"
definition INITIAL_ADVERTISEMENTS :: u8 where "INITIAL_ADVERTISEMENTS = 3"
definition MIN_SOLICITED_GAP :: nat where "MIN_SOLICITED_GAP = seconds 1"

record ra_lan =
  ra_dev :: string
  ra_prefixes :: "u128 list"
  ra_managed :: bool

definition advertisement_header :: "bool \<Rightarrow> bool \<Rightarrow> u8 list" where
  "advertisement_header managed withdraw =
     [ROUTER_ADVERT, 0, 0, 0, 64, if managed then 0x80 else 0]
     @ be_bytes 2 (unat (if withdraw then 0 else ROUTER_LIFETIME)) @ replicate 8 0"

definition prefix_option :: "u32 \<Rightarrow> u32 \<Rightarrow> u128 \<Rightarrow> u8 list" where
  "prefix_option valid preferred prefix =
     [3, 4, 64, 0x80 OR 0x40] @ be_bytes 4 (unat valid) @ be_bytes 4 (unat preferred) @ replicate 4 0
     @ be_bytes 16 (unat prefix)"

definition advertisement :: "u128 list \<Rightarrow> bool \<Rightarrow> u8 list option \<Rightarrow> bool \<Rightarrow> u8 list" where
  "advertisement prefixes managed mac withdraw =
     (let valid = (if withdraw then 0 else VALID_LIFETIME);
          preferred = (if withdraw then 0 else PREFERRED_LIFETIME)
      in advertisement_header managed withdraw
         @ (case mac of Some m \<Rightarrow> [1, 1] @ m | None \<Rightarrow> [])
         @ concat (map (prefix_option valid preferred) prefixes))"

section \<open>Resolvers in an advertisement\<close>

text \<open>\<open>chunks_exact(16)\<close>: a shorter rest is dropped.\<close>

function chunks16 :: "'a list \<Rightarrow> 'a list list" where
  "chunks16 xs = (if length xs < 16 then [] else take 16 xs # chunks16 (drop 16 xs))"
  by pat_completeness auto
termination
  by (relation "measure length") auto

declare chunks16.simps [simp del]

text \<open>The addresses and lifetime of one option.\<close>

definition option_servers :: "u8 list \<Rightarrow> (u128 \<times> u32) list" where
  "option_servers opt =
     (if hd opt = RDNSS \<and> 24 \<le> length opt
      then (let lifetime = of_nat (be_value (take 4 (drop 4 opt)))
            in map (\<lambda>address. (of_nat (be_value address), lifetime)) (chunks16 (drop 8 opt)))
      else [])"

text \<open>The loop over the options: the second byte is the length in units of eight; a length of
  zero or past the end stops it.\<close>

function walk_options :: "u8 list \<Rightarrow> (u128 \<times> u32) list" where
  "walk_options opts =
     (if length opts < 8 then []
      else (let n = unat (opts ! 1) * 8 in
            if n = 0 \<or> length opts < n then []
            else option_servers (take n opts) @ walk_options (drop n opts)))"
  by pat_completeness auto
termination
  by (relation "measure length") auto

declare walk_options.simps [simp del]

definition rdnss_servers :: "u8 list \<Rightarrow> (u128 \<times> u32) list" where
  "rdnss_servers packet =
     (if packet = [] \<or> hd packet \<noteq> ROUTER_ADVERT \<or> length packet < 16 then []
      else walk_options (drop 16 packet))"

section \<open>Sockets\<close>

datatype socket_option =
    Bind_to_device string
  | Multicast_hops nat
  | Unicast_hops nat
  | Multicast_loop nat
  | Icmp6_filter "u32 list"
  | Join_all_routers u32

text \<open>\<open>waiting\<close> is what successive reads of a socket return until one returns nothing, with the
  address of the sender; a read returns at most 1500 bytes and at least one.\<close>

record 'k radio =
  link_index :: "string \<Rightarrow> 'k \<Rightarrow> u32 \<times> 'k"
  raw_socket :: "'k \<Rightarrow> nat res \<times> 'k"
  set_socket :: "nat \<Rightarrow> socket_option \<Rightarrow> 'k \<Rightarrow> unit res \<times> 'k"
  send_packet :: "nat \<Rightarrow> u32 \<Rightarrow> u8 list \<Rightarrow> 'k \<Rightarrow> unit res \<times> 'k"
  waiting :: "nat \<Rightarrow> 'k \<Rightarrow> (u128 \<times> u8 list) list \<times> 'k"
  instant :: "'k \<Rightarrow> nat \<times> 'k"

definition set_option :: "'k radio \<Rightarrow> nat \<Rightarrow> socket_option \<Rightarrow> ('k, unit) io" where
  "set_option R fd opt = map_err (\<lambda>e. ''RA socket option: '' @ e) (asks (set_socket R fd opt))"

text \<open>A filter that passes one ICMPv6 type: its bit is clear, all others are set.\<close>

definition pass_only :: "u8 \<Rightarrow> u32 list" where
  "pass_only t =
     (let i = unat (drop_bit 5 t) in
      (replicate 8 (- 1))[i := (- 1) AND NOT (push_bit (unat (t AND 31)) 1)])"

text \<open>\<open>u8::from_str_radix(_, 16)\<close>\<close>

definition parse_hex_u8 :: "string \<Rightarrow> u8 option" where
  "parse_hex_u8 s =
     (let ds = (case s of [] \<Rightarrow> [] | c # r \<Rightarrow> if c = CHR ''+'' then r else s)
      in if ds = [] \<or> \<not> list_all (is_digit 16) ds \<or> 255 < digits_val 16 0 ds then None
         else Some (of_nat (digits_val 16 0 ds)))"

definition mac_of_text :: "string \<Rightarrow> u8 list option" where
  "mac_of_text text =
     (let bytes = concat (map (\<lambda>p. case parse_hex_u8 p of Some b \<Rightarrow> [b] | None \<Rightarrow> []) (split_on (CHR '':'') text))
      in if length bytes = 6 then Some bytes else None)"

definition link_mac :: "'k env \<Rightarrow> string \<Rightarrow> ('k world, u8 list option) state" where
  "link_mac E dev = do {
     r \<leftarrow> run_program E [''ip'', ''-j'', ''link'', ''show'', ''dev'', dev] [];
     ret (if exec_error r \<noteq> None then None
          else case json_of_text (codec E) (stdout r) of
            Inl _ \<Rightarrow> None
          | Inr v \<Rightarrow>
              (case v of
                 JArr (first # _) \<Rightarrow> Option.bind (Option.bind (jget first ''address'') jstr) mac_of_text
               | _ \<Rightarrow> None)) }"

section \<open>One advertised link\<close>

record ra_link =
  ra_lan_of :: ra_lan
  ra_socket :: nat
  ra_index :: u32
  ra_mac :: "u8 list option"
  initial_left :: u8
  next_unsolicited :: nat
  last_sent :: "nat option"

definition has_nul_char :: "string \<Rightarrow> bool" where
  "has_nul_char s \<longleftrightarrow> CHR 0x00 \<in> set s"

definition new_link :: "ra_lan \<Rightarrow> nat \<Rightarrow> u32 \<Rightarrow> u8 list option \<Rightarrow> nat \<Rightarrow> ra_link" where
  "new_link lan fd index mac now =
     \<lparr> ra_lan_of = lan, ra_socket = fd, ra_index = index, ra_mac = mac,
       initial_left = INITIAL_ADVERTISEMENTS, next_unsolicited = now, last_sent = None \<rparr>"

definition prepare_socket :: "'k radio \<Rightarrow> nat \<Rightarrow> string \<Rightarrow> ('k, unit) io" where
  "prepare_socket R fd dev = forE (set_option R fd)
     [Bind_to_device dev, Multicast_hops 255, Unicast_hops 255, Multicast_loop 0, Icmp6_filter (pass_only ROUTER_SOLICIT)]"

definition open_link :: "'k env \<Rightarrow> 'k radio \<Rightarrow> ra_lan \<Rightarrow> ('k, ra_link) io" where
  "open_link E R lan =
     (if has_nul_char (ra_dev lan) then errE (''invalid LAN name '' @ ra_dev lan)
      else do {
        index \<leftarrow> asks (link_index R (ra_dev lan));
        (if index = 0 then errE (''RA link '' @ ra_dev lan @ '' is missing'')
         else tryE (map_err (\<lambda>e. ''RA socket on '' @ ra_dev lan @ '': '' @ e) (asks (raw_socket R))) (\<lambda>fd.
           seqE (prepare_socket R fd (ra_dev lan)) (do {
             asks (set_socket R fd (Join_all_routers index));
             now \<leftarrow> asks (instant R);
             mac \<leftarrow> link_mac E (ra_dev lan);
             okE (new_link lan fd index mac now) }))) })"

text \<open>What \<open>send\<close> does to the link, whether or not the packet went out.\<close>

definition after_send :: "nat \<Rightarrow> ra_link \<Rightarrow> ra_link" where
  "after_send now l =
     (let left = (if 0 < initial_left l then initial_left l - 1 else initial_left l) in
      l\<lparr> last_sent := Some now, initial_left := left,
         next_unsolicited := now + (if 0 < left then INITIAL_INTERVAL else UNSOLICITED_INTERVAL) \<rparr>)"

definition link_packet :: "ra_link \<Rightarrow> bool \<Rightarrow> u8 list" where
  "link_packet l withdraw =
     advertisement (ra_prefixes (ra_lan_of l)) (ra_managed (ra_lan_of l)) (ra_mac l) withdraw"

definition send_link :: "'k radio \<Rightarrow> nat \<Rightarrow> bool \<Rightarrow> ra_link \<Rightarrow> ('k world, ra_link) state" where
  "send_link R now withdraw l = do {
     asks (send_packet R (ra_socket l) (ra_index l) (link_packet l withdraw));
     ret (after_send now l) }"

definition is_solicitation :: "u8 list \<Rightarrow> bool" where
  "is_solicitation packet \<longleftrightarrow> packet \<noteq> [] \<and> hd packet = ROUTER_SOLICIT"

text \<open>\<open>now >= next_unsolicited\<close>, or a solicitation and the gap since the last one.\<close>

definition due :: "nat \<Rightarrow> bool \<Rightarrow> ra_link \<Rightarrow> bool" where
  "due now solicited l \<longleftrightarrow>
     (solicited \<and> (case last_sent l of None \<Rightarrow> True | Some sent \<Rightarrow> MIN_SOLICITED_GAP \<le> now - sent))
     \<or> next_unsolicited l \<le> now"

definition was_solicited :: "'k radio \<Rightarrow> ra_link \<Rightarrow> ('k world, bool) state" where
  "was_solicited R l = do {
     packets \<leftarrow> asks (waiting R (ra_socket l));
     ret (list_ex (\<lambda>p. is_solicitation (snd p)) packets) }"

definition poll_link :: "'k radio \<Rightarrow> nat \<Rightarrow> ra_link \<Rightarrow> ('k world, ra_link) state" where
  "poll_link R now l = do {
     asked \<leftarrow> was_solicited R l;
     (if due now asked l then send_link R now False l else ret l) }"

section \<open>The advertiser\<close>

record advertiser =
  ra_links :: "ra_link list"
  ra_failed :: "string list"

definition no_advertiser :: advertiser where
  "no_advertiser = \<lparr> ra_links = [], ra_failed = [] \<rparr>"

text \<open>A link whose LAN is gone or has changed is withdrawn.\<close>

definition keep_link :: "'k radio \<Rightarrow> ra_lan list \<Rightarrow> nat \<Rightarrow> ra_link \<Rightarrow> ('k world, ra_link list) state" where
  "keep_link R lans now l =
     (if List.find (\<lambda>lan. ra_dev lan = ra_dev (ra_lan_of l)) lans = Some (ra_lan_of l) then ret [l]
      else do { send_link R now True l; ret [] })"

fun open_lans :: "'k env \<Rightarrow> 'k radio \<Rightarrow> ra_lan list \<Rightarrow> advertiser \<Rightarrow> ('k world, advertiser) state" where
  "open_lans E R [] a = ret a"
| "open_lans E R (lan # lans) a =
     (if list_ex (\<lambda>l. ra_dev (ra_lan_of l) = ra_dev lan) (ra_links a) then open_lans E R lans a
      else do {
        r \<leftarrow> open_link E R lan;
        (case r of
           Inr l \<Rightarrow> open_lans E R lans
             (a\<lparr> ra_links := ra_links a @ [l], ra_failed := filter (\<lambda>d. d \<noteq> ra_dev lan) (ra_failed a) \<rparr>)
         | Inl _ \<Rightarrow> open_lans E R lans
             (if ra_dev lan \<in> set (ra_failed a) then a else a\<lparr> ra_failed := ra_failed a @ [ra_dev lan] \<rparr>)) })"

definition configure_lans :: "'k env \<Rightarrow> 'k radio \<Rightarrow> ra_lan list \<Rightarrow> advertiser \<Rightarrow> ('k world, advertiser) state" where
  "configure_lans E R lans a = do {
     now \<leftarrow> asks (instant R);
     (let lans = filter (\<lambda>lan. ra_prefixes lan \<noteq> []) lans in do {
        kept \<leftarrow> collect (keep_link R lans now) (ra_links a);
        open_lans E R lans (a\<lparr> ra_links := kept \<rparr>) }) }"

definition poll_advertiser :: "'k radio \<Rightarrow> advertiser \<Rightarrow> ('k world, advertiser) state" where
  "poll_advertiser R a = do {
     now \<leftarrow> asks (instant R);
     links \<leftarrow> collect (\<lambda>l. do { l' \<leftarrow> poll_link R now l; ret [l'] }) (ra_links a);
     ret (a\<lparr> ra_links := links \<rparr>) }"

section \<open>The listener\<close>

record rdnss_listener =
  rdnss_links :: "(string \<times> nat) list"
  rdnss_learned :: "(string \<times> u128 \<times> nat) list"
  rdnss_failed :: "string list"

definition no_listener :: rdnss_listener where
  "no_listener = \<lparr> rdnss_links = [], rdnss_learned = [], rdnss_failed = [] \<rparr>"

definition rdnss_socket :: "'k radio \<Rightarrow> string \<Rightarrow> ('k, nat) io" where
  "rdnss_socket R dev =
     (if has_nul_char dev then errE (''invalid WAN name '' @ dev)
      else tryE (map_err (\<lambda>e. ''RDNSS socket on '' @ dev @ '': '' @ e) (asks (raw_socket R))) (\<lambda>fd.
        seqE (forE (set_option R fd) [Bind_to_device dev, Icmp6_filter (pass_only ROUTER_ADVERT)]) (okE fd)))"

fun open_wans :: "'k radio \<Rightarrow> string list \<Rightarrow> rdnss_listener \<Rightarrow> ('k world, rdnss_listener) state" where
  "open_wans R [] s = ret s"
| "open_wans R (wan # wans) s =
     (if list_ex (\<lambda>l. fst l = wan) (rdnss_links s) then open_wans R wans s
      else do {
        r \<leftarrow> rdnss_socket R wan;
        (case r of
           Inr fd \<Rightarrow> open_wans R wans
             (s\<lparr> rdnss_links := rdnss_links s @ [(wan, fd)], rdnss_failed := filter (\<lambda>d. d \<noteq> wan) (rdnss_failed s) \<rparr>)
         | Inl _ \<Rightarrow> open_wans R wans
             (if wan \<in> set (rdnss_failed s) then s else s\<lparr> rdnss_failed := rdnss_failed s @ [wan] \<rparr>)) })"

definition configure_wans :: "'k radio \<Rightarrow> string list \<Rightarrow> rdnss_listener \<Rightarrow> ('k world, rdnss_listener) state" where
  "configure_wans R wans s = open_wans R wans
     (s\<lparr> rdnss_links := filter (\<lambda>l. fst l \<in> set wans) (rdnss_links s),
         rdnss_learned := filter (\<lambda>x. fst x \<in> set wans) (rdnss_learned s) \<rparr>)"

definition learn_server :: "string \<Rightarrow> nat \<Rightarrow> (string \<times> u128 \<times> nat) list \<Rightarrow> u128 \<times> u32 \<Rightarrow> (string \<times> u128 \<times> nat) list" where
  "learn_server dev now learned sl =
     filter (\<lambda>(d, s, _). \<not> (d = dev \<and> s = fst sl)) learned
     @ (if 0 < snd sl then [(dev, fst sl, now + seconds (unat (snd sl)))] else [])"

definition learn :: "nat \<Rightarrow> rdnss_listener \<Rightarrow> string \<times> u8 list \<Rightarrow> rdnss_listener" where
  "learn now s dp = s\<lparr> rdnss_learned := foldl (learn_server (fst dp) now) (rdnss_learned s) (rdnss_servers (snd dp)) \<rparr>"

text \<open>Only advertisements from a link-local address count.\<close>

definition poll_listener :: "'k radio \<Rightarrow> rdnss_listener \<Rightarrow> ('k world, rdnss_listener) state" where
  "poll_listener R s = do {
     now \<leftarrow> asks (instant R);
     received \<leftarrow> collect (\<lambda>l. do {
        packets \<leftarrow> asks (waiting R (snd l));
        ret (map (\<lambda>p. (fst l, snd p)) (filter (\<lambda>p. v6_link_local (fst p)) packets)) }) (rdnss_links s);
     ret (foldl (learn now) s received) }"

definition server_text :: "string \<Rightarrow> u128 \<Rightarrow> string" where
  "server_text dev s = (if v6_link_local s then show_ipv6 s @ ''%'' @ dev else show_ipv6 s)"

definition known_servers :: "nat \<Rightarrow> string \<Rightarrow> rdnss_listener \<Rightarrow> string list" where
  "known_servers now dev s =
     map (\<lambda>(_, server, _). server_text dev server)
       (filter (\<lambda>(d, _, expires). d = dev \<and> now < expires) (rdnss_learned s))"

definition servers_on :: "'k radio \<Rightarrow> string \<Rightarrow> rdnss_listener \<Rightarrow> ('k world, string list) state" where
  "servers_on R dev s = do { now \<leftarrow> asks (instant R); ret (known_servers now dev s) }"

end
