(* ===== verification/Netd.thy ===== *)
theory Netd
  imports Bootstrap Ra Resolvers
begin

text \<open>
  netd as a process (\<open>src/netd.rs\<close>): the IPv6 runtime that follows delegated prefixes and learned
  resolvers, the read-only replies, the dispatch of a request, the start, and one round of the
  main loop.
\<close>

section \<open>The environment\<close>

datatype 'a poll_result =
    Poll_failed string
  | Interrupted
  | Timed_out
  | Accept_failed string
  | Connected 'a

text \<open>\<open>poll_client\<close> waits for a client and reads its request: \<open>Inl\<close> is a failed or late read.
  \<open>json_of_request\<close> decodes the bytes, whatever they are.\<close>

record 'k netd_env =
  accounts :: "'k identity_env"
  radio_of :: "'k radio"
  bind_socket :: "'k \<Rightarrow> unit res \<times> 'k"
  chown_socket :: "nat \<Rightarrow> 'k \<Rightarrow> unit res \<times> 'k"
  group_file :: "'k \<Rightarrow> string option \<times> 'k"
  poll_client :: "'k \<Rightarrow> string res poll_result \<times> 'k"
  answer_client :: "json \<Rightarrow> 'k \<Rightarrow> unit res \<times> 'k"

definition env_of :: "'k netd_env \<Rightarrow> 'k env" where
  "env_of N = machine (accounts N)"

definition SOCK :: string where "SOCK = FWOS @ ''netd.sock''"

section \<open>The IPv6 runtime\<close>

record ipv6_runtime =
  advertising :: advertiser
  listening :: rdnss_listener
  resolvers_published :: "string option"
  observed_lan :: "(string option \<times> (string \<times> string) option) option"

definition no_runtime :: ipv6_runtime where
  "no_runtime = \<lparr> advertising = no_advertiser, listening = no_listener, resolvers_published = None, observed_lan = None \<rparr>"

definition learned_on :: "'k netd_env \<Rightarrow> rdnss_listener \<Rightarrow> string \<Rightarrow> ('k world, string list) state" where
  "learned_on N s wan = do {
     lease \<leftarrow> foreign_text (env_of N) (lease_file DHCP6_DIR wan);
     servers \<leftarrow> servers_on (radio_of N) wan s;
     ret [(case lease of Some t \<Rightarrow> t | None \<Rightarrow> []) @ concat (map nameserver_line servers)] }"

definition learned_resolvers :: "'k netd_env \<Rightarrow> string list \<Rightarrow> rdnss_listener \<Rightarrow> ('k world, string) state" where
  "learned_resolvers N wans s = do {
     learned \<leftarrow> collect (learned_on N s) wans;
     ret (resolv_conf (concat learned)) }"

definition follow_wan_resolvers :: "'k netd_env \<Rightarrow> desired_state \<Rightarrow> ipv6_runtime \<Rightarrow> ('k world, ipv6_runtime) state" where
  "follow_wan_resolvers N st rt =
     (let wans = filter (has_role ''wan'') (interfaces st) in do {
        s \<leftarrow> configure_wans (radio_of N) (map iface_name (filter (\<lambda>w. ipv6 w \<noteq> None) wans)) (listening rt);
        conf \<leftarrow> learned_resolvers N (map iface_name wans) s;
        (let rt = rt\<lparr> listening := s \<rparr> in
         if resolvers_published rt = Some conf then ret rt
         else do {
           r \<leftarrow> publish_resolvers (env_of N) RESOLVERS conf;
           ret (if is_ok r then rt\<lparr> resolvers_published := Some conf \<rparr> else rt) }) })"

text \<open>The state whose network is live: a revision that awaits confirmation, or the Accepted one.\<close>

definition followed_state :: "'k env \<Rightarrow> ('k world, desired_state option) state" where
  "followed_state E = do {
     p \<leftarrow> pending_operation E;
     (case p of
        Inl _ \<Rightarrow> ret None
      | Inr (Some op) \<Rightarrow> ret (proposed op)
      | Inr None \<Rightarrow> do { r \<leftarrow> accepted_desired E; ret (ok_opt r) }) }"

definition delegated_address :: "desired_state \<Rightarrow> string option \<Rightarrow> (string \<times> string) option" where
  "delegated_address st delegated =
     (case (lan_l2 st, Option.bind delegated pd_lan_addr) of
        (Some lan, Some c) \<Rightarrow> Some (iface_name lan, c)
      | _ \<Rightarrow> None)"

definition drop_address :: "'k env \<Rightarrow> (string \<times> string) option \<Rightarrow> (string \<times> string) option \<Rightarrow> ('k world, unit) state" where
  "drop_address E old address =
     (case old of
        None \<Rightarrow> ret ()
      | Some (dev, c) \<Rightarrow>
          if old = address then ret ()
          else do { run_ip E [''addr'', ''del'', c, ''dev'', dev]; ret () })"

definition follow_prefix ::
    "'k env \<Rightarrow> desired_state \<Rightarrow> (string option \<times> (string \<times> string) option) option \<Rightarrow> string option
     \<Rightarrow> (string \<times> string) option \<Rightarrow> ('k, unit) io" where
  "follow_prefix E st observed delegated address =
     (case observed of
        None \<Rightarrow> okE ()
      | Some (previous, old) \<Rightarrow>
          if previous = delegated then okE ()
          else do {
            drop_address E old address;
            seqE (program_lan_services E st True) (tryE (set_lan_services_ready E True) (\<lambda>_. okE ())) })"

text \<open>One advertised LAN per device, its prefixes in order.\<close>

fun push_prefix :: "(string \<Rightarrow> bool) \<Rightarrow> ra_lan list \<Rightarrow> string \<times> u128 \<Rightarrow> ra_lan list" where
  "push_prefix managed [] (dev, prefix) = [\<lparr> ra_dev = dev, ra_prefixes = [prefix], ra_managed = managed dev \<rparr>]"
| "push_prefix managed (lan # lans) (dev, prefix) =
     (if ra_dev lan = dev then lan\<lparr> ra_prefixes := ra_prefixes lan @ [prefix] \<rparr> # lans
      else lan # push_prefix managed lans (dev, prefix))"

definition advertised_lans :: "desired_state \<Rightarrow> string option \<Rightarrow> ra_lan list" where
  "advertised_lans st delegated =
     foldl (push_prefix (\<lambda>dev. delegated \<noteq> None \<and> (case lan_l2 st of Some lan \<Rightarrow> iface_name lan = dev | None \<Rightarrow> False)))
       [] (lan_prefixes (lan_ipv6 st delegated))"

definition refresh_followed :: "'k netd_env \<Rightarrow> desired_state \<Rightarrow> ipv6_runtime \<Rightarrow> ('k world, ipv6_runtime) state" where
  "refresh_followed N st rt = do {
     rt \<leftarrow> follow_wan_resolvers N st rt;
     delegated \<leftarrow> routed_lan_prefix (env_of N) st;
     (let address = delegated_address st delegated in do {
        r \<leftarrow> follow_prefix (env_of N) st (observed_lan rt) delegated address;
        (case r of
           Inl _ \<Rightarrow> ret rt
         | Inr _ \<Rightarrow> do {
             a \<leftarrow> configure_lans (env_of N) (radio_of N) (advertised_lans st delegated) (advertising rt);
             ret (rt\<lparr> observed_lan := Some (delegated, address), advertising := a \<rparr>) }) }) }"

definition refresh_runtime :: "'k netd_env \<Rightarrow> ipv6_runtime \<Rightarrow> ('k world, ipv6_runtime) state" where
  "refresh_runtime N rt = do {
     owned \<leftarrow> file_exists BOOTSTRAPPED;
     recovering \<leftarrow> (if owned then recovery_pending (env_of N) else ret False);
     (if \<not> owned \<or> recovering then ret rt
      else do {
        st \<leftarrow> followed_state (env_of N);
        (case st of None \<Rightarrow> ret rt | Some st \<Rightarrow> refresh_followed N st rt) }) }"

section \<open>Replies that only read\<close>

definition opt_json :: "first_boot_opt \<Rightarrow> json" where
  "opt_json p = JObj ([(''nic'', JStr (opt_nic p)), (''mode'', JStr (opt_mode p))]
     @ (case opt_cidr p of Some c \<Rightarrow> [(''cidr'', JStr c)] | None \<Rightarrow> []))"

text \<open>\<open>nics.iter_mut().find\<close>, then a push unless it is there.\<close>

fun add_nic_address :: "(string \<times> string list) list \<Rightarrow> string \<Rightarrow> (string \<times> string list) list" where
  "add_nic_address [] line = []"
| "add_nic_address ((n, addrs) # nics) line =
     (if n = addr_dev line
      then (n, case addr_cidr line of Some c \<Rightarrow> if c \<in> set addrs then addrs else addrs @ [c] | None \<Rightarrow> addrs) # nics
      else (n, addrs) # add_nic_address nics line)"

definition list_ethernet_json :: "'k env \<Rightarrow> ('k world, json list) state" where
  "list_ethernet_json E = do {
     names \<leftarrow> traffic_nic_names E;
     (case names of
        Inl _ \<Rightarrow> ret []
      | Inr names \<Rightarrow> do {
          r \<leftarrow> run_program E [''ip'', ''-o'', ''addr'', ''show''] [];
          (let nics = map (\<lambda>n. (n, [])) names;
               nics = (if exec_error r = None then foldl add_nic_address nics (lines_of (stdout r)) else nics)
           in ret (map (\<lambda>(n, addrs). JObj [(''name'', JStr n), (''addresses'', JArr (map JStr addrs))]) nics)) }) }"

definition list_nics_reply :: "'k env \<Rightarrow> ('k world, json) state" where
  "list_nics_reply E = do {
     nics \<leftarrow> list_ethernet_json E;
     p \<leftarrow> load_opt E;
     ret (reply_ok [(''nics'', JArr nics), (''opt'', jopt opt_json p)]) }"

definition global_v6 :: "string \<Rightarrow> bool" where
  "global_v6 c = (case parse_ipv6 (hd (split_on (CHR ''/'') c)) of Some a \<Rightarrow> \<not> v6_link_local a | None \<Rightarrow> False)"

definition wan_status :: "'k env \<Rightarrow> iface \<Rightarrow> ('k world, json list) state" where
  "wan_status E i = do {
     cidrs \<leftarrow> iface_cidrs E (iface_name i);
     r \<leftarrow> run_program E [''ip'', ''-6'', ''route'', ''show'', ''default'', ''dev'', iface_name i] [];
     acquired \<leftarrow> (if request_pd i then foreign_text E (dhcp6_file (iface_name i) ''pd'') else ret None);
     ret [JObj
       [(''name'', JStr (iface_name i)),
        (''mode'', JStr (case ipv6 i of Some m \<Rightarrow> m | None \<Rightarrow> ''static'')),
        (''request_pd'', JBool (request_pd i)),
        (''addresses'', JArr (map JStr (filter global_v6 (case cidrs of Inr cs \<Rightarrow> cs | Inl _ \<Rightarrow> [])))),
        (''default_route'', JBool (exec_error r = None \<and> stdout r \<noteq> [])),
        (''delegated_prefix'', jopt (\<lambda>t. JStr (trim t)) acquired)]] }"

definition ipv6_status :: "'k env \<Rightarrow> ('k world, json) state" where
  "ipv6_status E = do {
     r \<leftarrow> accepted_desired E;
     (case r of
        Inl e \<Rightarrow> ret (reply_error e)
      | Inr st \<Rightarrow> do {
          delegated \<leftarrow> routed_lan_prefix E st;
          wans \<leftarrow> collect (wan_status E) (filter (has_role ''wan'') (interfaces st));
          (let lan = lan_ipv6 st delegated in
           ret (reply_ok
             [(''revision'', jword (revision st)), (''wans'', JArr wans),
              (''lan'', jopt (\<lambda>l. JStr (iface_name l)) (lan_l2 st)), (''lan_source'', JStr (lan_source lan)),
              (''lan_prefixes'', JArr (map (\<lambda>(dev, p). JObj
                 [(''dev'', JStr dev), (''prefix'', JStr (show_ipv6 p @ ''/64''))]) (lan_prefixes lan))),
              (''translation'', JStr ''none''), (''note'', JStr (lan_note lan))])) }) }"

definition live_qdisc_show :: "'k env \<Rightarrow> ('k, string) io" where
  "live_qdisc_show E =
     tryE (output_of E [''tc'', ''qdisc'', ''show''] ''tc qdisc show: '') (\<lambda>r.
       if ok r then okE (trim (stdout r))
       else errE (''tc qdisc show failed: '' @ trim (stderr r)))"

definition get_desired_reply :: "'k env \<Rightarrow> ('k world, json) state" where
  "get_desired_reply E = do {
     recovering \<leftarrow> recovery_pending E;
     (if recovering
      then ret (JObj [(''ok'', JBool False), (''outcome'', JStr ''recovery_required''),
        (''error'', JStr ''the previous Desired state apply needs recovery before Accepted state is available'')])
      else do {
        r \<leftarrow> accepted_desired E;
        ret (case r of
               Inl e \<Rightarrow> reply_error e
             | Inr st \<Rightarrow>
                 (case json_of_desired (codec E) st of
                    Inl e \<Rightarrow> reply_error e
                  | Inr v \<Rightarrow> reply_ok [(''desired'', v), (''revision'', jword (revision st))])) }) }"

section \<open>Dispatch\<close>

definition unit_reply :: "unit res \<Rightarrow> json" where
  "unit_reply r = (case r of Inr _ \<Rightarrow> reply_ok [] | Inl e \<Rightarrow> reply_error e)"

definition bootstrap_reply :: "bootstrap_failure + unit \<Rightarrow> json" where
  "bootstrap_reply r =
     (case r of
        Inr _ \<Rightarrow> reply_ok []
      | Inl (Owned e) \<Rightarrow> JObj [(''ok'', JBool False), (''bootstrapped'', JBool True), (''error'', JStr e),
          (''next_action'', JStr ''sign in to review and repair configuration'')]
      | Inl (Indeterminate e) \<Rightarrow> JObj [(''ok'', JBool False), (''bootstrapped'', JNull), (''outcome'', JStr ''indeterminate''),
          (''error'', JStr e), (''next_action'', JStr ''do not retry; reboot and check Appliance status or console'')]
      | Inl (Incomplete e) \<Rightarrow> JObj [(''ok'', JBool False), (''bootstrapped'', JBool False), (''error'', JStr e)])"

definition not_applied :: "string \<Rightarrow> json" where
  "not_applied e = JObj [(''ok'', JBool False), (''outcome'', JStr ''rejected''), (''error'', JStr e)]"

definition apply_request :: "'k env \<Rightarrow> json \<Rightarrow> ('k world, json) state" where
  "apply_request E v = do {
     owned \<leftarrow> file_exists BOOTSTRAPPED;
     (if \<not> owned then ret (not_applied ''complete Bootstrap before applying Desired state'')
      else case get_u64 v ''base_revision'' of
        None \<Rightarrow> ret (not_applied ''base_revision is required'')
      | Some base \<Rightarrow>
          apply_desired_request E (jindex v ''desired'') (Some base) (get_principal (codec E) v ''applying'')
            (get_str v ''draft_version'') Ordinary) }"

definition handle_cmd :: "'k netd_env \<Rightarrow> json \<Rightarrow> ('k world, json) state" where
  "handle_cmd N v =
     (let E = env_of N; q = (case get_str v ''op'' of Some q \<Rightarrow> q | None \<Rightarrow> []) in
      if q = ''list'' then list_nics_reply E
      else if q = ''ipv6_status'' then ipv6_status E
      else if q = ''opt'' then do { r \<leftarrow> tryE (liftE (parse_opt v)) (apply_and_persist_opt E); ret (unit_reply r) }
      else if q = ''bootstrap_apply'' then do { r \<leftarrow> bootstrap_apply (accounts N) v; ret (bootstrap_reply r) }
      else if q = ''get_desired'' then get_desired_reply E
      else if q = ''get_apply_confirmation'' then apply_confirmation_status E
      else if q = ''restoration_status'' then restoration_status E
      else if q = ''preserve_pre_update'' then preserve_pre_update E
      else if q = ''discard_pre_update'' then do { r \<leftarrow> durable_remove E PRE_UPDATE_ACCEPTED; ret (unit_reply r) }
      else if q = ''qdisc_show'' then do {
        r \<leftarrow> live_qdisc_show E;
        ret (case r of Inr t \<Rightarrow> reply_ok [(''qdiscs'', JStr t)] | Inl e \<Rightarrow> reply_error e) }
      else if q = ''validate_desired'' then validate_desired_request E (jindex v ''desired'')
      else if q = ''was_draft_accepted'' then was_draft_accepted E v
      else if q = ''confirm_apply'' then confirm_apply E v
      else if q = ''restore_previous'' then restore_previous_request E (get_principal (codec E) v ''applying'')
      else if q = ''apply_desired'' then apply_request E v
      else ret (reply_error (''unknown op '' @ q)))"

definition socket_reply :: "'k netd_env \<Rightarrow> string \<Rightarrow> ('k world, json) state" where
  "socket_reply N bytes =
     (case json_of_text (codec (env_of N)) bytes of
        Inl e \<Rightarrow> ret (reply_error e)
      | Inr v \<Rightarrow> if get_str v ''op'' \<noteq> None then handle_cmd N v else ret (reply_error ''request names no op''))"

section \<open>The start\<close>

definition program_host_pull :: "'k env \<Rightarrow> ('k, unit) io" where
  "program_host_pull E = seqE (nft_apply E (''destroy table ip fwos-pull'' @ nl)) (nft_apply E host_pull_nft)"

text \<open>Whether the Host update asks for the network of before, and whether recovery will bring it.\<close>

definition restoration_asked :: "'k env \<Rightarrow> ('k world, bool \<times> bool) state" where
  "restoration_asked E = do {
     owned \<leftarrow> file_exists BOOTSTRAPPED;
     asked \<leftarrow> (if owned then file_exists RESTORE_PRE_UPDATE else ret False);
     staged \<leftarrow> (if asked then stage_unreadable_accepted_restoration E else ret False);
     ret (asked, staged) }"

definition apply_interrupted :: "'k env \<Rightarrow> ('k world, bool) state" where
  "apply_interrupted E = do {
     owned \<leftarrow> file_exists BOOTSTRAPPED;
     (if \<not> owned then ret False
      else do {
        required \<leftarrow> operation_requires_recovery E;
        (if required then ret True
         else do {
           p \<leftarrow> pending_operation E;
           (if p \<noteq> Inr None then ret True else file_exists APPLY_PREVIOUS) }) }) }"

text \<open>Without an interrupted apply the Accepted state is applied and, with the addresses it was
  given, persisted.\<close>

definition services_at_start :: "'k env \<Rightarrow> ('k, unit) io" where
  "services_at_start E = do {
     owned \<leftarrow> file_exists BOOTSTRAPPED;
     recovering \<leftarrow> (if owned then recovery_pending E else ret True);
     (if recovering then okE () else tryE (set_lan_services_ready E True) (\<lambda>_. okE ())) }"

definition drop_accepted_journal :: "'k env \<Rightarrow> ('k, unit) io" where
  "drop_accepted_journal E = do {
     present \<leftarrow> file_exists APPLY_OPERATION;
     required \<leftarrow> (if present then operation_requires_recovery E else ret True);
     (if required then okE () else do { durable_remove E APPLY_OPERATION; okE () }) }"

definition read_at_start :: "'k env \<Rightarrow> ('k, desired_state) io" where
  "read_at_start E =
     tryE (map_err (\<lambda>e. ''read '' @ DESIRED @ '': '' @ e) (read_text E DESIRED)) (\<lambda>raw.
       case raw of
         None \<Rightarrow> errE (''read '' @ DESIRED @ '': No such file or directory'')
       | Some t \<Rightarrow>
           (case desired_of_toml (codec E) t of
              Inl e \<Rightarrow> errE (''parse '' @ DESIRED @ '': '' @ e)
            | Inr st \<Rightarrow> okE st))"

definition restart_accepted :: "'k env \<Rightarrow> ('k, unit) io" where
  "restart_accepted E = tryE (read_at_start E) (\<lambda>st. do {
     (st', r) \<leftarrow> apply_state E st;
     seqE (ret r)
    (seqE (persist E st')
    (seqE (services_at_start E) (drop_accepted_journal E))) })"

definition first_boot_network :: "'k env \<Rightarrow> ('k, unit) io" where
  "first_boot_network E = seqE (program_first_boot_nft E [] []) (do {
     p \<leftarrow> load_opt E;
     (case p of Some p \<Rightarrow> apply_opt E p | None \<Rightarrow> okE ()) })"

definition network_at_start :: "'k env \<Rightarrow> bool \<Rightarrow> ('k, unit) io" where
  "network_at_start E interrupted =
     (if interrupted then do { recover_interrupted_apply E; okE () }
      else do {
        configured \<leftarrow> file_exists DESIRED;
        (if configured then restart_accepted E else first_boot_network E) })"

definition start_network :: "'k env \<Rightarrow> ('k, unit) io" where
  "start_network E = do {
     interrupted \<leftarrow> apply_interrupted E;
     seqE (if interrupted then require_recovery_guard E else okE ())
    (seqE (program_host_pull E) (do {
       owned \<leftarrow> file_exists BOOTSTRAPPED;
       seqE (if owned then okE () else recover_incomplete_bootstrap E)
            (network_at_start E interrupted) })) }"

text \<open>\<open>wheel_gid\<close> of \<open>/etc/group\<close>, ten without one.\<close>

definition wheel_gid :: "'k netd_env \<Rightarrow> ('k world, nat option) state" where
  "wheel_gid N = do {
     listing \<leftarrow> asks (group_file N);
     ret (Option.bind listing (\<lambda>t.
       case List.find (\<lambda>l. hd (split_on (CHR 0x3A) l) = ''wheel'') (lines_of t) of
         None \<Rightarrow> None
       | Some l \<Rightarrow> Option.bind (nth_opt (split_on (CHR 0x3A) l) 2) (parse_uint (2 ^ 32 - 1)))) }"

definition open_socket :: "'k netd_env \<Rightarrow> ('k, unit) io" where
  "open_socket N =
     seqE (map_err (\<lambda>e. ''create '' @ parent_dir SOCK @ '': '' @ e) (simple_op (env_of N) (Make_dir (parent_dir SOCK)))) (do {
       asks (foreign_remove (env_of N) SOCK);
       seqE (map_err (\<lambda>e. ''bind '' @ SOCK @ '': '' @ e) (asks (bind_socket N)))
      (seqE (map_err (\<lambda>e. ''chmod '' @ SOCK @ '': '' @ e) (simple_op (env_of N) (Chmod SOCK))) (do {
         gid \<leftarrow> wheel_gid N;
         map_err (\<lambda>e. ''chown '' @ SOCK @ '': '' @ e)
           (asks (chown_socket N (case gid of Some g \<Rightarrow> g | None \<Rightarrow> 10))) })) })"

definition netd_start :: "'k netd_env \<Rightarrow> ('k, unit) io" where
  "netd_start N = do {
     (asked, staged) \<leftarrow> restoration_asked (env_of N);
     seqE (start_network (env_of N)) (do {
       (if asked then finish_pre_update_restoration (env_of N) staged else ret ());
       open_socket N }) }"

section \<open>The main loop\<close>

record netd_memory =
  exposure :: "(string \<times> string list) option"
  runtime :: ipv6_runtime
  refresh_at :: nat

definition first_memory :: "'k netd_env \<Rightarrow> ('k, netd_memory) io" where
  "first_memory N = do {
     now \<leftarrow> asks (instant (radio_of N));
     okE \<lparr> exposure = None, runtime = no_runtime, refresh_at = now \<rparr> }"

definition refresh_round :: "'k netd_env \<Rightarrow> netd_memory \<Rightarrow> ('k, netd_memory) io" where
  "refresh_round N m = do {
     now \<leftarrow> asks (instant (radio_of N));
     (if now < refresh_at m then okE m
      else tryE (refresh_bootstrap_exposure (env_of N) (exposure m)) (\<lambda>observed. do {
        rt \<leftarrow> refresh_runtime N (runtime m);
        later \<leftarrow> asks (instant (radio_of N));
        okE \<lparr> exposure = observed, runtime = rt, refresh_at = later + seconds 1 \<rparr> })) }"

definition poll_radio :: "'k netd_env \<Rightarrow> ipv6_runtime \<Rightarrow> ('k world, ipv6_runtime) state" where
  "poll_radio N rt = do {
     a \<leftarrow> poll_advertiser (radio_of N) (advertising rt);
     s \<leftarrow> poll_listener (radio_of N) (listening rt);
     ret (rt\<lparr> advertising := a, listening := s \<rparr>) }"

text \<open>The round before a client is waited for.\<close>

definition loop_round :: "'k netd_env \<Rightarrow> netd_memory \<Rightarrow> ('k, netd_memory) io" where
  "loop_round N m = do {
     expire_pending_confirmation (env_of N);
     tryE (refresh_round N m) (\<lambda>m. do {
       rt \<leftarrow> poll_radio N (runtime m);
       okE (m\<lparr> runtime := rt \<rparr>) }) }"

definition answer_request :: "'k netd_env \<Rightarrow> string \<Rightarrow> ('k world, unit) state" where
  "answer_request N bytes =
     (if bytes = [] then ret ()
      else do {
        v \<leftarrow> socket_reply N bytes;
        asks (answer_client N v);
        ret () })"

definition handle_client :: "'k netd_env \<Rightarrow> string res \<Rightarrow> ('k world, unit) state" where
  "handle_client N request =
     (case request of
        Inl _ \<Rightarrow> ret ()
      | Inr bytes \<Rightarrow> do {
          expire_pending_confirmation (env_of N);
          answer_request N bytes })"

definition serve_round :: "'k netd_env \<Rightarrow> netd_memory \<Rightarrow> ('k, netd_memory) io" where
  "serve_round N m = tryE (loop_round N m) (\<lambda>m. do {
     p \<leftarrow> asks (poll_client N);
     (case p of
        Poll_failed e \<Rightarrow> errE (''poll '' @ SOCK @ '': '' @ e)
      | Accept_failed e \<Rightarrow> errE (''accept '' @ SOCK @ '': '' @ e)
      | Interrupted \<Rightarrow> okE m
      | Timed_out \<Rightarrow> okE m
      | Connected request \<Rightarrow> do { handle_client N request; okE m }) })"

end
