(* ===== verification/Steady.thy ===== *)
theory Steady
  imports Restore_Properties Bootstrap_Properties Netd
begin

text \<open>
  What the operations of netd leave alone on an owned appliance: the ownership marker, and a
  journal that is not there. \<open>tame J\<close> keeps the marker and the absence of the journals in \<open>J\<close>
  at every moment.
\<close>

section \<open>Tame runs\<close>

definition journals :: "string set" where
  "journals = {APPLY_OPERATION, APPLY_PREVIOUS}"

definition tame :: "string set \<Rightarrow> 'k world \<Rightarrow> 'k world \<Rightarrow> bool" where
  "tame J w w' \<longleftrightarrow>
     (\<exists>new. trail w' = new @ trail w
        \<and> (\<forall>f \<in> set (files w' # new). f BOOTSTRAPPED = files w BOOTSTRAPPED
             \<and> (\<forall>p \<in> J. files w p = None \<longrightarrow> f p = None)))"

lemma tame_refl: "tame J w w"
  by (simp add: tame_def)

lemma tame_trans:
  assumes "tame J w w'" and "tame J w' w''"
  shows "tame J w w''"
proof -
  obtain new where 1: "trail w' = new @ trail w" "\<forall>f \<in> set (files w' # new). f BOOTSTRAPPED = files w BOOTSTRAPPED
      \<and> (\<forall>p \<in> J. files w p = None \<longrightarrow> f p = None)" using assms(1) by (auto simp: tame_def)
  obtain new' where 2: "trail w'' = new' @ trail w'" "\<forall>f \<in> set (files w'' # new'). f BOOTSTRAPPED = files w' BOOTSTRAPPED
      \<and> (\<forall>p \<in> J. files w' p = None \<longrightarrow> f p = None)" using assms(2) by (auto simp: tame_def)
  have "\<forall>f \<in> set (files w'' # new' @ new). f BOOTSTRAPPED = files w BOOTSTRAPPED \<and> (\<forall>p \<in> J. files w p = None \<longrightarrow> f p = None)"
    using 1(2) 2(2) by auto
  then show ?thesis unfolding tame_def using 1(1) 2(1) by (intro exI [of _ "new' @ new"]) simp
qed

interpretation tame: transition "tame J" for J
  by unfold_locales (blast intro: tame_refl tame_trans)+

lemma kept_tame: "kept S w w' \<Longrightarrow> insert BOOTSTRAPPED J \<subseteq> S \<Longrightarrow> tame J w w'"
  unfolding kept_def tame_def by (elim exE, rule exI) auto

lemma keeps_tame: "keeps (kept (insert BOOTSTRAPPED J)) m \<Longrightarrow> keeps (tame J) m"
  unfolding keeps_def using kept_tame by blast

lemma same_tame: "keeps (same_on (insert BOOTSTRAPPED J)) m \<Longrightarrow> keeps (tame J) m"
  by (intro keeps_tame keeps_kept)

lemma tame_bootstrapped: "tame J w w' \<Longrightarrow> f \<in> set (files w' # trail w') \<Longrightarrow> f \<in> set (trail w) \<or> f BOOTSTRAPPED = files w BOOTSTRAPPED"
  unfolding tame_def by auto

lemma changed_tame:
  assumes "changed_to p None f g" and "p \<noteq> BOOTSTRAPPED" and "\<not> is_temp BOOTSTRAPPED" and "lasting J"
  shows "g BOOTSTRAPPED = f BOOTSTRAPPED \<and> (\<forall>q \<in> J. f q = None \<longrightarrow> g q = None)"
proof -
  have "g q = None" if "q \<in> J" "f q = None" for q
    using assms that by (cases "q = p") (auto simp: changed_to_def lasting_def)
  then show ?thesis using assms by (simp add: changed_to_def)
qed

lemma writes_tame:
  assumes "writes p None w w'" and "p \<noteq> BOOTSTRAPPED" and "\<not> is_temp BOOTSTRAPPED" and "lasting J"
  shows "tame J w w'"
proof -
  obtain new where "trail w' = new @ trail w" "\<forall>f \<in> set (files w' # new). changed_to p None (files w) f"
    using assms(1) by (auto simp: writes_def)
  then show ?thesis
    unfolding tame_def using changed_tame [OF _ assms(2-4)] by blast
qed

section \<open>The paths\<close>

lemma owner_paths: "BOOTSTRAPPED \<notin> journal_paths" "\<not> is_temp BOOTSTRAPPED" "BOOTSTRAPPED \<notin> {LAN_SERVICES_READY, PRE_UPDATE_ACCEPTED, NETWORK_RESTORATION, RESTORE_PRE_UPDATE, OPT_FILE}"
proof -
  show "BOOTSTRAPPED \<notin> journal_paths" using journal_others by (auto simp: journal_paths_def)
  show "\<not> is_temp BOOTSTRAPPED" by code_simp
  show "BOOTSTRAPPED \<notin> {LAN_SERVICES_READY, PRE_UPDATE_ACCEPTED, NETWORK_RESTORATION, RESTORE_PRE_UPDATE, OPT_FILE}"
    by code_simp
qed

lemma owner_neq [simp]:
  "DESIRED \<noteq> BOOTSTRAPPED" "PREVIOUS_ACCEPTED \<noteq> BOOTSTRAPPED" "APPLY_ATTRIBUTION \<noteq> BOOTSTRAPPED"
  "APPLY_OPERATION \<noteq> BOOTSTRAPPED" "APPLY_PREVIOUS \<noteq> BOOTSTRAPPED" "LAN_SERVICES_READY \<noteq> BOOTSTRAPPED"
  "PRE_UPDATE_ACCEPTED \<noteq> BOOTSTRAPPED" "NETWORK_RESTORATION \<noteq> BOOTSTRAPPED" "RESTORE_PRE_UPDATE \<noteq> BOOTSTRAPPED"
  using owner_paths in_journal by (metis insertI1 insert_subset order_refl)+

lemma tame_paths:
  assumes "J \<subseteq> journals"
  shows "lasting (insert BOOTSTRAPPED J)" "apart_from_apply (insert BOOTSTRAPPED J)" "lasting J"
    "DESIRED \<notin> insert BOOTSTRAPPED J" "PREVIOUS_ACCEPTED \<notin> insert BOOTSTRAPPED J" "APPLY_ATTRIBUTION \<notin> insert BOOTSTRAPPED J"
    "LAN_SERVICES_READY \<notin> insert BOOTSTRAPPED J" "PRE_UPDATE_ACCEPTED \<notin> insert BOOTSTRAPPED J"
proof -
  have j: "J \<subseteq> journal_paths" using assms by (auto simp: journals_def)
  show l: "lasting (insert BOOTSTRAPPED J)" "lasting J"
    using j journal_lasting owner_paths(2) by (auto simp: lasting_def)
  show "apart_from_apply (insert BOOTSTRAPPED J)"
    using journal_apart j ownership_apart(2) l by (auto simp: apart_from_apply_def)
  show "DESIRED \<notin> insert BOOTSTRAPPED J" "PREVIOUS_ACCEPTED \<notin> insert BOOTSTRAPPED J" "APPLY_ATTRIBUTION \<notin> insert BOOTSTRAPPED J"
    using assms by (auto simp: journals_def)
  show "LAN_SERVICES_READY \<notin> insert BOOTSTRAPPED J" "PRE_UPDATE_ACCEPTED \<notin> insert BOOTSTRAPPED J"
    using j in_journal(6,7) by auto
qed

section \<open>Writing and removing\<close>

lemma tame_write:
  assumes "J \<subseteq> journals" and "p \<notin> insert BOOTSTRAPPED J" and "\<not> is_temp p"
  shows "keeps (tame J) (durable_write E p b)"
  by (intro same_tame same_durable_write) (use assms tame_paths [OF assms(1)] in auto)

lemma tame_remove:
  assumes "J \<subseteq> journals" and "p \<noteq> BOOTSTRAPPED"
  shows "keeps (tame J) (durable_remove E p)"
proof (cases "p \<in> J")
  case True
  then show ?thesis
    using keeps_durable_remove [of p E] writes_tame [of p _ _ J] owner_paths(2) tame_paths(3) [OF assms(1)] assms(2)
    unfolding keeps_def by blast
next
  case False
  then show ?thesis
    by (intro same_tame same_durable_remove tame_paths(1) [OF assms(1)]) (use assms(2) in simp)
qed

lemma journal_path_lasting: "p \<in> journal_paths \<Longrightarrow> \<not> is_temp p"
  using journal_lasting by (simp add: lasting_def)

lemma tame_persist_at:
  assumes "J \<subseteq> journals" and "p \<in> journal_paths" and "p \<notin> J"
  shows "keeps (tame J) (persist_at E p st)"
  unfolding persist_at_def
  by (intro tame.keeps_rules tame_write assms journal_path_lasting) (use assms owner_paths(1) in auto)

lemma tame_restore_file:
  assumes "J \<subseteq> journals" and "p \<in> journal_paths" and "p \<notin> J"
  shows "keeps (tame J) (restore_file E p v)"
  unfolding restore_file_def
  by (intro tame.keeps_rules tame_write tame_remove assms journal_path_lasting) (use assms owner_paths(1) in auto)

lemma tame_write_attribution: "J \<subseteq> journals \<Longrightarrow> keeps (tame J) (write_attribution E r)"
  unfolding write_attribution_def
  by (intro tame.keeps_rules tame_write journal_path_lasting) (use tame_paths in auto)

lemma tame_journal: "J \<subseteq> journals \<Longrightarrow> p \<in> {DESIRED, PREVIOUS_ACCEPTED, APPLY_ATTRIBUTION} \<Longrightarrow> p \<notin> J \<and> p \<in> journal_paths"
  by (auto simp: journals_def)

lemma tame_ready: "J \<subseteq> journals \<Longrightarrow> keeps (tame J) (set_lan_services_ready E b)"
  by (intro same_tame same_set_lan_services_ready) (use tame_paths in auto)

lemma tame_guard: "keeps (tame J) (require_recovery_guard E)" "keeps (tame J) (reopen_restored_forwarding E st)"
    "keeps (tame J) (set_recovery_required b)"
  by (intro keeps_tame kept_require_recovery_guard kept_reopen_restored_forwarding kept_set_recovery_required)+

lemma tame_reads: "keeps (tame J) (operation_requires_recovery E)" "keeps (tame J) (recovery_pending E)"
    "keeps (tame J) (pending_operation E)" "keeps (tame J) (apply_busy E)" "keeps (tame J) (accepted_desired E)"
    "keeps (tame J) (read_recovery_target E)" "keeps (tame J) (wait_lan_services E g)" "keeps (tame J) (random_token E)"
    "keeps (tame J) (remove_stale_routes E a b)" "keeps (tame J) (boot_time_ns E)" "keeps (tame J) (asks h)"
    "keeps (tame J) (pending_expired E op)" "keeps (tame J) (read_text E q)" "keeps (tame J) (read_file E q)"
    "keeps (tame J) (file_exists q)" "keeps (tame J) (check_proposed E st)"
    "keeps (tame J) (prepare_attempt E st st' actor draft intent)"
  by (intro same_tame same_operation_requires_recovery same_recovery_pending same_pending_operation same_apply_busy
      same_accepted_desired same_read_recovery_target same_wait_lan_services same_random_token same_remove_stale_routes
      same_boot_time same_pending_expired same_ops same_check_proposed same_prepare_attempt)+

lemma tame_applies: "J \<subseteq> journals \<Longrightarrow> keeps (tame J) (apply_state E st)" "J \<subseteq> journals \<Longrightarrow> keeps (tame J) (apply_unit E st)"
  by (intro same_tame same_apply_state same_apply_unit tame_paths; assumption)+

lemmas tame_ops = tame_guard tame_reads tame_applies tame_ready tame_write_attribution tame_remove

section \<open>Recovery\<close>

lemma tame_restore_attribution: "J \<subseteq> journals \<Longrightarrow> keeps (tame J) (restore_attribution E v)"
  unfolding restore_attribution_def by (intro tame_restore_file) (use tame_journal in auto)

lemma tame_restore_kept: "J \<subseteq> journals \<Longrightarrow> keeps (tame J) (restore_kept E tgt st)"
  unfolding restore_kept_def persist_def
  by (intro tame.keeps_rules tame_persist_at tame_restore_file tame_restore_attribution) (use tame_journal in auto)

lemma tame_finish: "J \<subseteq> journals \<Longrightarrow> p \<noteq> BOOTSTRAPPED \<Longrightarrow> keeps (tame J) (finish_recovery E st p)"
  unfolding finish_recovery_def by (intro tame.keeps_rules tame_ops)

lemma tame_restore_from_target:
  "J \<subseteq> journals \<Longrightarrow> marker tgt \<noteq> BOOTSTRAPPED \<Longrightarrow> keeps (tame J) (restore_from_target E tgt)"
  unfolding restore_from_target_def resume_services_def
  by (intro tame.keeps_rules tame_ops tame_restore_kept tame_finish)

lemma target_marker:
  "run_state (read_recovery_target E) w = (Inr tgt, w') \<Longrightarrow> marker tgt \<noteq> BOOTSTRAPPED"
  by (cases "files w APPLY_OPERATION")
    (auto simp: read_recovery_target_def file_exists_def run_tryE run_map_err ok_or_def
      split: prod.splits sum.splits option.splits if_splits)

lemma keeps_tryE_on:
  assumes "keeps (tame J) m" and "\<And>w a w'. run_state m w = (Inr a, w') \<Longrightarrow> keeps (tame J) (f a)"
  shows "keeps (tame J) (tryE m f)"
proof (rule keepsI)
  fix w r w' assume run: "run_state (tryE m f) w = (r, w')"
  obtain x w1 where 1: "run_state m w = (x, w1)" by fastforce
  show "tame J w w'"
  proof (cases x)
    case (Inl e)
    then show ?thesis using run 1 keepsD [OF assms(1) 1] by (simp add: run_tryE)
  next
    case (Inr a)
    then show ?thesis
      using run 1 tame_trans [OF keepsD [OF assms(1) 1]] keepsD [OF assms(2) [OF 1 [unfolded Inr]]]
      by (simp add: run_tryE)
  qed
qed

lemma tame_recover: "J \<subseteq> journals \<Longrightarrow> keeps (tame J) (recover_interrupted_apply E)"
  unfolding recover_interrupted_apply_def
  by (intro tame.keeps_rules tame_ops keeps_tryE_on tame_restore_from_target) (auto dest: target_marker)

lemma tame_expire: "J \<subseteq> journals \<Longrightarrow> keeps (tame J) (expire_pending_confirmation E)"
  unfolding expire_pending_confirmation_def
  by (intro tame.keeps_rules tame_ops tame_recover)

section \<open>Confirming\<close>

lemma previous_journal: "{APPLY_PREVIOUS} \<subseteq> journals" "APPLY_OPERATION \<notin> insert BOOTSTRAPPED {APPLY_PREVIOUS}"
  by (simp_all add: journals_def)

lemma tame_journal_write: "keeps (tame {APPLY_PREVIOUS}) (durable_write E APPLY_OPERATION b)"
  by (intro tame_write previous_journal journal_path_lasting) simp

lemma tame_commit_confirmed: "keeps (tame {APPLY_PREVIOUS}) (commit_confirmed E op st who)"
  unfolding commit_confirmed_def persist_def
  by (intro tame.keeps_rules tame_ops tame_persist_at tame_journal_write previous_journal) simp_all

lemma tame_confirm: "keeps (tame {APPLY_PREVIOUS}) (confirm_apply E v)"
  unfolding confirm_apply_def confirm_matching_def confirm_pending_def
  by (intro tame.keeps_rules tame_ops tame_recover tame_commit_confirmed previous_journal) simp_all

section \<open>Applying\<close>

lemma tame_remove_tentative: "service_files fp \<Longrightarrow> keeps (tame {APPLY_PREVIOUS}) (remove_tentative_state E fp)"
  by (intro same_tame same_remove_tentative_state tame_paths previous_journal)

lemma tame_restore_failed:
  "service_files (at_footprint a) \<Longrightarrow> keeps (tame {APPLY_PREVIOUS}) (restore_failed_apply E a proposal e)"
  unfolding restore_failed_apply_def restore_live_def restore_durable_def restore_services_def persist_def Let_def
  by (intro tame.keeps_rules tame_ops tame_persist_at tame_restore_file tame_restore_attribution tame_finish
      tame_remove_tentative previous_journal) simp_all

lemma tame_commit_files: "keeps (tame {APPLY_PREVIOUS}) (commit_files E a proposal)"
  unfolding commit_files_def persist_def
  by (intro tame.keeps_rules tame_ops tame_persist_at previous_journal) simp_all

lemma tame_begin:
  "service_files (at_footprint a) \<Longrightarrow> keeps (tame {APPLY_PREVIOUS}) (begin_attempt E a start base)"
  unfolding begin_attempt_def run_attempt_def journal_failed_def suspend_failed_def suspend_guarded_def attempt_apply_def
    await_confirmation_def accept_proposal_def indeterminate_def Let_def
  by (intro tame.keeps_rules tame_ops tame_journal_write tame_restore_failed tame_commit_files previous_journal; (assumption | simp))

lemma tame_apply_checked: "keeps (tame {APPLY_PREVIOUS}) (apply_checked E cur start base actor draft intent)"
proof (rule keepsI)
  fix w v w' assume run: "run_state (apply_checked E cur start base actor draft intent) w = (v, w')"
  let ?target = "start\<lparr>revision := revision cur + 1\<rparr>"
  obtain ch w1 where 1: "run_state (check_proposed E start) w = (ch, w1)" by fastforce
  obtain p w2 where 2: "run_state (prepare_attempt E cur ?target actor draft intent) w1 = (p, w2)" by fastforce
  have k: "tame {APPLY_PREVIOUS} w w1" "tame {APPLY_PREVIOUS} w w2"
    using keepsD [OF tame_reads(16) 1] tame_trans keepsD [OF tame_reads(17) 2] by blast+
  show "tame {APPLY_PREVIOUS} w w'"
  proof (cases "\<exists>u a. ch = Inr u \<and> p = Inr a \<and> revision cur \<noteq> - 1")
    case False
    then have "w' \<in> {w1, w2}"
      using run 1 2 by (auto simp: apply_checked_def checked_succ_def split: sum.splits if_splits)
    then show ?thesis using k by auto
  next
    case True
    then obtain a where a: "p = Inr a" and b: "run_state (begin_attempt E a ?target base) w2 = (v, w')"
      using run 1 2 by (auto simp: apply_checked_def checked_succ_def)
    have "service_files (at_footprint a)" using prepare_attempt_run(6) 2 a by metis
    from tame_trans [OF k(2) keepsD [OF tame_begin [OF this] b]] show ?thesis .
  qed
qed

lemma tame_apply: "keeps (tame {APPLY_PREVIOUS}) (apply_desired_request E input base actor draft intent)"
  unfolding apply_desired_request_def Let_def
  by (intro tame.keeps_rules tame_ops tame_apply_checked)

lemma tame_restore_previous: "keeps (tame {APPLY_PREVIOUS}) (restore_previous_request E actor)"
  unfolding restore_previous_request_def restore_predecessor_of_def
  by (intro tame.keeps_rules tame_ops tame_apply tame_recover previous_journal)

end
