(* ===== verification/Appliance.thy ===== *)
theory Appliance
  imports Steady
begin

text \<open>
  netd over the life of an owned appliance: starts, rounds of its loop, requests, power losses at
  any moment, and whatever other programs do, as a step relation, with the invariant that there is
  always an Accepted state to boot from.
\<close>

section \<open>Operations that leave the journal and the ownership alone\<close>

definition owned_paths :: "string set" where
  "owned_paths = insert BOOTSTRAPPED journal_paths"

lemma owned_lasting: "lasting owned_paths"
  using journal_lasting owner_paths(2) by (auto simp: owned_paths_def lasting_def)

lemma owned_apart: "apart_from_apply owned_paths"
  using journal_apart ownership_apart(2) owned_lasting by (auto simp: apart_from_apply_def owned_paths_def)

lemma other_paths:
  "p \<in> {LAN_SERVICES_READY, PRE_UPDATE_ACCEPTED, NETWORK_RESTORATION, RESTORE_PRE_UPDATE, RESOLVERS} \<Longrightarrow> p \<notin> owned_paths \<and> \<not> is_temp p"
proof -
  have "list_all (\<lambda>p. list_all (\<lambda>q. p \<noteq> q) [BOOTSTRAPPED, DESIRED, PREVIOUS_ACCEPTED, APPLY_ATTRIBUTION, APPLY_OPERATION, APPLY_PREVIOUS]
      \<and> \<not> is_temp p) [LAN_SERVICES_READY, PRE_UPDATE_ACCEPTED, NETWORK_RESTORATION, RESTORE_PRE_UPDATE, RESOLVERS]"
    by code_simp
  then show "p \<in> {LAN_SERVICES_READY, PRE_UPDATE_ACCEPTED, NETWORK_RESTORATION, RESTORE_PRE_UPDATE, RESOLVERS} \<Longrightarrow> p \<notin> owned_paths \<and> \<not> is_temp p"
    by (auto simp: owned_paths_def journal_paths_def)
qed

abbreviation calm :: "('k world, 'a) state \<Rightarrow> bool" where
  "calm m \<equiv> keeps (same_on owned_paths) m"

text \<open>One of its operations also sets the guard, which is no file.\<close>

abbreviation mild :: "('k world, 'a) state \<Rightarrow> bool" where
  "mild m \<equiv> keeps (kept owned_paths) m"

lemma calm_write: "p \<in> {PRE_UPDATE_ACCEPTED, NETWORK_RESTORATION, RESOLVERS} \<Longrightarrow> calm (durable_write E p b)"
  using other_paths [of p] by (intro same_durable_write owned_lasting) auto

lemma calm_remove: "p \<in> {PRE_UPDATE_ACCEPTED, NETWORK_RESTORATION, RESTORE_PRE_UPDATE} \<Longrightarrow> calm (durable_remove E p)"
  using other_paths [of p] by (intro same_durable_remove owned_lasting) auto

lemma calm_ready: "calm (set_lan_services_ready E b)"
  using other_paths [of LAN_SERVICES_READY] by (intro same_set_lan_services_ready owned_lasting) auto

lemmas calm_reads = same_operation_requires_recovery same_recovery_pending same_pending_operation same_apply_busy
  same_accepted_desired same_accepted_attribution same_foreign_text same_load_opt same_routed_lan_prefix
  same_iface_cidrs same_traffic_nic_names same_check_proposed same_ops

lemmas calm_ops = calm_reads calm_ready calm_write calm_remove same_program_lan_services [OF owned_apart]
  same_program_first_boot_nft same_apply_state [OF owned_apart]

subsection \<open>Router advertisements and resolvers\<close>

lemma calm_set_option: "calm (set_option R fd opt)"
  unfolding set_option_def by (intro same.keeps_rules calm_ops)

lemma calm_open_link: "calm (open_link E R lan)"
  unfolding open_link_def prepare_socket_def link_mac_def by (intro same.keeps_rules calm_ops calm_set_option)

lemma calm_send_link: "calm (send_link R now b l)"
  unfolding send_link_def by (intro same.keeps_rules calm_ops)

lemma calm_open_lans: "calm (open_lans E R lans a)"
proof (induction lans arbitrary: a)
  case (Cons lan lans)
  show ?case by (simp only: open_lans.simps) (intro same.keeps_rules calm_open_link Cons.IH)
qed (simp add: same.keeps_ret)

lemma calm_configure_lans: "calm (configure_lans E R lans a)"
  unfolding configure_lans_def keep_link_def Let_def
  by (intro same.keeps_rules calm_ops calm_send_link calm_open_lans)

lemma calm_poll_advertiser: "calm (poll_advertiser R a)"
  unfolding poll_advertiser_def poll_link_def was_solicited_def
  by (intro same.keeps_rules calm_ops calm_send_link)

lemma calm_open_wans: "calm (open_wans R wans s)"
proof (induction wans arbitrary: s)
  case (Cons wan wans)
  have "calm (rdnss_socket R wan)"
    unfolding rdnss_socket_def by (intro same.keeps_rules calm_ops calm_set_option)
  then show ?case by (simp only: open_wans.simps) (intro same.keeps_rules Cons.IH)
qed (simp add: same.keeps_ret)

lemma calm_configure_wans: "calm (configure_wans R wans s)"
  unfolding configure_wans_def by (intro same.keeps_rules calm_ops calm_open_wans)

lemma calm_poll_listener: "calm (poll_listener R s)"
  unfolding poll_listener_def by (intro same.keeps_rules calm_ops)

lemma calm_follow_resolvers: "calm (follow_wan_resolvers N st rt)"
  unfolding follow_wan_resolvers_def learned_resolvers_def learned_on_def servers_on_def publish_resolvers_def Let_def
  by (intro same.keeps_rules calm_ops calm_configure_wans) simp_all

lemma calm_refresh_followed: "calm (refresh_followed N st rt)"
  unfolding refresh_followed_def follow_prefix_def drop_address_def Let_def
  by (intro same.keeps_rules calm_ops calm_follow_resolvers calm_configure_lans)

lemma calm_refresh_runtime: "calm (refresh_runtime N rt)"
  unfolding refresh_runtime_def followed_state_def
  by (intro same.keeps_rules calm_ops calm_refresh_followed)

lemma calm_refresh_round: "calm (refresh_round N m)"
  unfolding refresh_round_def refresh_bootstrap_exposure_def Let_def
  by (intro same.keeps_rules calm_ops calm_refresh_runtime)

lemma calm_poll_radio: "calm (poll_radio N rt)"
  unfolding poll_radio_def by (intro same.keeps_rules calm_poll_advertiser calm_poll_listener)

subsection \<open>Requests\<close>

lemma calm_preserve: "calm (preserve_pre_update E)"
  unfolding preserve_pre_update_def persist_at_def
  by (intro same.keeps_rules calm_ops) simp_all

lemma calm_discard: "calm (durable_remove E PRE_UPDATE_ACCEPTED)"
  by (intro calm_remove) simp

lemma calm_statuses: "calm (list_nics_reply E)" "calm (ipv6_status E)" "calm (get_desired_reply E)"
    "calm (apply_confirmation_status E)" "calm (restoration_status E)" "calm (live_qdisc_show E)"
    "calm (validate_desired_request E v)" "calm (was_draft_accepted E v)"
  unfolding list_nics_reply_def list_ethernet_json_def ipv6_status_def wan_status_def get_desired_reply_def
    apply_confirmation_status_def confirmation_reply_def restoration_status_def live_qdisc_show_def validate_desired_request_def was_draft_accepted_def Let_def
  by (intro same.keeps_rules calm_ops)+

text \<open>A first network or a Bootstrap is refused on an owned appliance.\<close>

lemma owned_opt:
  "files w BOOTSTRAPPED \<noteq> None \<Longrightarrow> snd (run_state (tryE (liftE r) (apply_and_persist_opt E)) w) = w"
  by (cases r) (simp_all add: apply_and_persist_opt_def file_exists_def tryE_def)

lemma owned_bootstrap: "files w BOOTSTRAPPED \<noteq> None \<Longrightarrow> snd (run_state (bootstrap_apply X v) w) = w"
  by (simp add: bootstrap_apply_def file_exists_def)

definition changing :: "string set" where
  "changing = {''confirm_apply'', ''restore_previous'', ''apply_desired''}"

definition request_op :: "json \<Rightarrow> string" where
  "request_op v = (case get_str v ''op'' of Some q \<Rightarrow> q | None \<Rightarrow> [])"

lemma handle_cmd_calm:
  assumes "files w BOOTSTRAPPED \<noteq> None" and "request_op v \<notin> changing" and "run_state (handle_cmd N v) w = (r, w')"
  shows "same_on owned_paths w w'"
proof -
  let ?E = "env_of N" and ?q = "request_op v"
  have q: "?q \<noteq> ''confirm_apply''" "?q \<noteq> ''restore_previous''" "?q \<noteq> ''apply_desired''"
    using assms(2) by (auto simp: changing_def)
  consider (opt) "?q = ''opt''" | (boot) "?q = ''bootstrap_apply''" | (other) "?q \<notin> {''opt'', ''bootstrap_apply''}" by blast
  then show ?thesis
  proof cases
    case opt
    then have "w' = snd (run_state (tryE (liftE (parse_opt v)) (apply_and_persist_opt ?E)) w)"
      using assms(3) by (auto simp: handle_cmd_def request_op_def Let_def split: prod.splits)
    then show ?thesis using owned_opt [OF assms(1)] same.refl by metis
  next
    case boot
    then have "w' = snd (run_state (bootstrap_apply (accounts N) v) w)"
      using assms(3) by (auto simp: handle_cmd_def request_op_def Let_def split: prod.splits)
    then show ?thesis using owned_bootstrap [OF assms(1)] same.refl by metis
  next
    case other
    define m where "m = (if ?q = ''list'' then list_nics_reply ?E
      else if ?q = ''ipv6_status'' then ipv6_status ?E
      else if ?q = ''get_desired'' then get_desired_reply ?E
      else if ?q = ''get_apply_confirmation'' then apply_confirmation_status ?E
      else if ?q = ''restoration_status'' then restoration_status ?E
      else if ?q = ''preserve_pre_update'' then preserve_pre_update ?E
      else if ?q = ''discard_pre_update'' then do { r \<leftarrow> durable_remove ?E PRE_UPDATE_ACCEPTED; ret (unit_reply r) }
      else if ?q = ''qdisc_show'' then do {
        r \<leftarrow> live_qdisc_show ?E;
        ret (case r of Inr t \<Rightarrow> reply_ok [(''qdiscs'', JStr t)] | Inl e \<Rightarrow> reply_error e) }
      else if ?q = ''validate_desired'' then validate_desired_request ?E (jindex v ''desired'')
      else if ?q = ''was_draft_accepted'' then was_draft_accepted ?E v
      else ret (reply_error (''unknown op '' @ ?q)))"
    have "handle_cmd N v = m"
      using q other by (simp add: handle_cmd_def m_def request_op_def [symmetric] Let_def)
    moreover have "calm m"
      unfolding m_def by (intro same.keeps_rules calm_statuses calm_preserve calm_discard)
    ultimately show ?thesis using keepsD assms(3) by metis
  qed
qed

section \<open>The boot state at rest\<close>

text \<open>So far the boot state was always \<open>x\<close>, up to found addresses, and a recovery leads to it.\<close>

definition resting :: "durable_state option \<Rightarrow> codecs \<Rightarrow> 'k world \<Rightarrow> bool" where
  "resting x c w \<longleftrightarrow> always journal_paths (\<lambda>f. refreshed x (boot_state c f)) w \<and> single_journal (files w)"

lemma recovering_none: "recovering (\<lambda>_. False) x c = (\<lambda>f. refreshed x (boot_state c f))"
  by (auto simp: recovering_def)

lemma resting_start: "trail w = [] \<Longrightarrow> single_journal (files w) \<Longrightarrow> resting (boot_state c (files w)) c w"
  by (simp add: resting_def always_def core_def)

lemma resting_kept:
  assumes "kept journal_paths w w'" and "resting x c w"
  shows "resting x c w'"
proof -
  have "jcore w' = jcore w" using dur.kept_step [OF assms(1)] assms(2) by (auto simp: resting_def)
  then have "single_journal (files w')" using assms(2) jcore_single unfolding resting_def by metis
  then show ?thesis using dur.kept_step [OF assms(1)] assms(2) by (auto simp: resting_def)
qed

lemma resting_recover:
  assumes "run_state (recover_interrupted_apply E) w = (r, w')" and "lawful (codec E)" and "resting x (codec E) w"
  shows "resting x (codec E) w'"
proof -
  have "recoverable x (codec E) (jcore w)"
    using assms(3) by (auto simp: resting_def recoverable_def jcore_single always_def)
  moreover have "always journal_paths (recovering (\<lambda>_. False) x (codec E)) w"
    using assms(3) by (simp add: resting_def recovering_none)
  ultimately have "recovered (\<lambda>_. False) x (codec E) r w'"
    by (rule recover_interrupted_apply_run [OF assms(1,2)])
  then show ?thesis by (auto simp: recovered_def recovering_none resting_def recoverable_def jcore_single)
qed

definition rests :: "codecs \<Rightarrow> 'k world \<Rightarrow> 'k world \<Rightarrow> bool" where
  "rests c w w' \<longleftrightarrow> (\<forall>x. resting x c w \<longrightarrow> resting x c w')"

interpretation rests: transition "rests c" for c
  by unfold_locales (auto simp: rests_def)

lemma rests_kept: "keeps (kept journal_paths) m \<Longrightarrow> keeps (rests c) m"
  unfolding keeps_def rests_def using resting_kept by blast

lemma rests_same: "keeps (same_on journal_paths) m \<Longrightarrow> keeps (rests c) m"
  by (intro rests_kept keeps_kept)

lemma rests_recover: "lawful (codec E) \<Longrightarrow> keeps (rests (codec E)) (recover_interrupted_apply E)"
  using resting_recover [of E] by (intro keepsI) (auto simp: rests_def)

lemma owned_subset: "journal_paths \<subseteq> owned_paths" "insert BOOTSTRAPPED J \<subseteq> owned_paths \<longleftrightarrow> J \<subseteq> owned_paths"
  by (auto simp: owned_paths_def)

lemma kept_fewer: "S \<subseteq> T \<Longrightarrow> kept T w w' \<Longrightarrow> kept S w w'"
  unfolding kept_def by (elim exE, rule exI) blast

lemma rests_mild: "mild m \<Longrightarrow> keeps (rests c) m"
  by (rule rests_kept) (use kept_fewer [OF owned_subset(1)] in \<open>auto simp: keeps_def\<close>)

lemma rests_expire: "lawful (codec E) \<Longrightarrow> keeps (rests (codec E)) (expire_pending_confirmation E)"
  unfolding expire_pending_confirmation_def
  by (intro rests.keeps_rules rests_recover rests_kept [OF kept_require_recovery_guard]
      rests_same same_pending_operation same_pending_expired)

section \<open>The start\<close>

text \<open>No apply in flight: the next start takes the Accepted state as it is.\<close>

definition settled :: "codecs \<Rightarrow> files \<Rightarrow> bool" where
  "settled c f \<longleftrightarrow> accepted_journal c (f APPLY_OPERATION) \<and> f APPLY_PREVIOUS = None"

lemma settled_core: "settled c (jcore w) \<longleftrightarrow> settled c (files w)"
  by (simp add: settled_def core_at)

lemma settled_kept: "kept journal_paths w w' \<Longrightarrow> settled c (files w) \<Longrightarrow> settled c (files w')"
  unfolding kept_def settled_def by (auto simp: in_journal)

lemma only_accepted: "ph \<noteq> Pending_confirmation \<Longrightarrow> ph \<noteq> Applying \<Longrightarrow> ph = Accepted"
  by (cases ph) simp_all

lemma apply_not_interrupted:
  assumes "run_state (apply_interrupted E) w = (False, w')" and "files w BOOTSTRAPPED \<noteq> None"
  shows "settled (codec E) (files w)"
proof -
  obtain n w1 where 1: "run_state (operation_requires_recovery E) w = (n, w1)" by fastforce
  obtain p w2 where 2: "run_state (pending_operation E) w1 = (p, w2)" by fastforce
  have k: "reads w w1" "reads w1 w2"
    using keepsD [OF reads_operation_requires_recovery 1] keepsD [OF reads_pending_operation 2] by auto
  have np: "n = False" "p = Inr None" "files w APPLY_PREVIOUS = None"
    using assms 1 2 k by (auto simp: apply_interrupted_def file_exists_def reads_def split: if_splits)
  then show ?thesis
    using operation_requires_recovery_run [OF 1 [unfolded np(1)]] pending_operation_run [OF 2 [unfolded np(2)]] k
    by (auto simp: settled_def accepted_journal_def reads_def only_accepted split: if_splits)
qed

lemma desired_boot:
  "settled c f \<Longrightarrow> boot_state c f = map_option (\<lambda>st. (st, f PREVIOUS_ACCEPTED, f APPLY_ATTRIBUTION)) (desired_file c (f DESIRED))"
  by (simp add: settled_def accepted_journal_boot)

lemma settled_persist:
  assumes "run_state (persist E st') w = (r, w')" and "lawful (codec E)" and "resting x (codec E) w" and "settled (codec E) (files w)"
    and "desired_of_toml (codec E) raw = Inr st" and "files w DESIRED = Some raw" and "only_addresses st st'"
  shows "resting x (codec E) w' \<and> settled (codec E) (files w')"
proof (cases "toml_of_desired (codec E) st'")
  case (Inl e)
  then show ?thesis using assms by (auto simp: persist_def persist_at_def)
next
  case (Inr raw')
  let ?c = "codec E" and ?f = "(jcore w)(DESIRED := Some raw')"
  have d: "run_state (durable_write E DESIRED raw') w = (r, w')"
    using assms(1) Inr by (simp add: persist_def persist_at_def)
  have st: "boot_state ?c (jcore w) = Some (normal_revision st, files w PREVIOUS_ACCEPTED, files w APPLY_ATTRIBUTION)"
    using assms(4-6) by (simp add: boot_state_core desired_boot desired_file_def)
  have s: "settled ?c ?f" using assms(4) by (simp add: settled_def core_at)
  have "boot_state ?c ?f = Some (normal_revision st', files w PREVIOUS_ACCEPTED, files w APPLY_ATTRIBUTION)"
    using s lawful_toml [OF assms(2) Inr] by (simp add: desired_boot desired_file_def core_at)
  then have "refreshed (boot_state ?c (jcore w)) (boot_state ?c ?f)"
    using st normal_only_addresses [OF assms(7)] by simp
  moreover have "refreshed x (boot_state ?c (jcore w))" using assms(3) by (simp add: resting_def always_def)
  ultimately have G: "refreshed x (boot_state ?c ?f)" by (rule refreshed_trans [rotated])
  have w': "always journal_paths (\<lambda>f. refreshed x (boot_state ?c f)) w' \<and> jcore w' \<in> {jcore w, ?f}"
    using dur.put_step [where G = "\<lambda>f. refreshed x (boot_state ?c f)", OF d _ _ G] assms(3) by (auto simp: resting_def)
  have "settled ?c (jcore w)" using assms(4) by (simp add: settled_core)
  then have "settled ?c (jcore w')" using w' s by auto
  then have "settled ?c (files w')" using settled_core by blast
  then show ?thesis using w' by (simp add: resting_def settled_def single_journal_def)
qed

lemma settled_drop:
  assumes "run_state (drop_accepted_journal E) w = (r, w')" and "resting x (codec E) w" and "settled (codec E) (files w)"
  shows "resting x (codec E) w'"
proof (cases "files w APPLY_OPERATION = None")
  case True
  then show ?thesis using assms by (simp add: drop_accepted_journal_def file_exists_def)
next
  case False
  let ?c = "codec E" and ?f = "(jcore w)(APPLY_OPERATION := None)"
  obtain n w1 where 1: "run_state (operation_requires_recovery E) w = (n, w1)" by fastforce
  have k: "kept journal_paths w w1" using keepsD [OF same_operation_requires_recovery 1] by (simp add: same_on_kept)
  have r1: "resting x ?c w1" "settled ?c (files w1)" "jcore w1 = jcore w"
    using resting_kept [OF k assms(2)] settled_kept [OF k assms(3)] kept_attempt(1) [OF k] by auto
  show ?thesis
  proof (cases n)
    case True
    then show ?thesis using assms(1) False 1 r1 by (simp add: drop_accepted_journal_def file_exists_def)
  next
    case n: False
    obtain d where d: "run_state (durable_remove E APPLY_OPERATION) w1 = (d, w')"
      using assms(1) False 1 n by (auto simp: drop_accepted_journal_def file_exists_def split: prod.splits)
    have "settled ?c ((jcore w1)(APPLY_OPERATION := None))"
      using r1(2) by (simp add: settled_def accepted_journal_def core_at)
    then have "boot_state ?c ((jcore w1)(APPLY_OPERATION := None)) = boot_state ?c (jcore w1)"
      using r1(2) by (simp add: desired_boot settled_core)
    moreover have a: "always journal_paths (\<lambda>f. refreshed x (boot_state ?c f)) w1" using r1(1) by (simp add: resting_def)
    ultimately have G: "refreshed x (boot_state ?c ((jcore w1)(APPLY_OPERATION := None)))"
      by (simp add: always_def)
    have w': "always journal_paths (\<lambda>f. refreshed x (boot_state ?c f)) w' \<and> jcore w' \<in> {jcore w1, (jcore w1)(APPLY_OPERATION := None)}"
      using dur.delete_step [where G = "\<lambda>f. refreshed x (boot_state ?c f)", OF d _ a G] by auto
    moreover have "single_journal (jcore w1)" using r1(1) by (simp add: resting_def jcore_single)
    then have "single_journal (jcore w')" using w' by (auto simp: single_journal_def)
    ultimately show ?thesis by (simp add: resting_def jcore_single)
  qed
qed

lemma read_at_start_run:
  assumes "run_state (read_at_start E) w = (Inr st, w')"
  shows "\<exists>raw. files w DESIRED = Some raw \<and> desired_of_toml (codec E) raw = Inr st"
proof -
  obtain r w1 where 1: "run_state (read_text E DESIRED) w = (r, w1)" by fastforce
  then have "\<exists>raw. r = Inr (Some raw) \<and> desired_of_toml (codec E) raw = Inr st"
    using assms by (cases r) (auto simp: read_at_start_def run_tryE run_map_err split: option.splits sum.splits)
  then show ?thesis using read_text_run 1 by metis
qed

lemma calm_read_at_start: "calm (read_at_start E)"
  unfolding read_at_start_def by (intro same.keeps_rules calm_ops)

lemma calm_services_at_start: "calm (services_at_start E)"
  unfolding services_at_start_def by (intro same.keeps_rules calm_ops)

lemma mild_resting: "keeps (kept owned_paths) m \<Longrightarrow> run_state m w = (r, w') \<Longrightarrow> resting x c w \<Longrightarrow> resting x c w'"
  using resting_kept kept_fewer [OF owned_subset(1)] keepsD by metis

lemma mild_settled: "keeps (kept owned_paths) m \<Longrightarrow> run_state m w = (r, w') \<Longrightarrow> settled c (files w) \<Longrightarrow> settled c (files w')"
  using settled_kept kept_fewer [OF owned_subset(1)] keepsD by metis

lemma mild_files: "keeps (kept owned_paths) m \<Longrightarrow> run_state m w = (r, w') \<Longrightarrow> p \<in> owned_paths \<Longrightarrow> files w' p = files w p"
  by (drule (1) keepsD) (auto simp: kept_def)

lemma restart_accepted_run:
  assumes "run_state (restart_accepted E) w = (r, w')" and "lawful (codec E)" and "resting x (codec E) w" and "settled (codec E) (files w)"
  shows "resting x (codec E) w'"
proof -
  let ?c = "codec E"
  obtain q w1 where 1: "run_state (read_at_start E) w = (q, w1)" by fastforce
  note k1 = keeps_kept [OF calm_read_at_start]
  have r1: "resting x ?c w1" "settled ?c (files w1)"
    using mild_resting [OF k1 1 assms(3)] mild_settled [OF k1 1 assms(4)] by auto
  show ?thesis
  proof (cases q)
    case (Inl e)
    then show ?thesis using assms(1) 1 r1 by (simp add: restart_accepted_def run_tryE)
  next
    case (Inr st)
    obtain raw where raw: "files w1 DESIRED = Some raw" "desired_of_toml ?c raw = Inr st"
      using read_at_start_run [OF 1 [unfolded Inr]] mild_files [OF k1 1, of DESIRED] by (auto simp: owned_paths_def)
    obtain st' a w2 where 2: "run_state (apply_state E st) w1 = ((st', a), w2)" by (metis prod.exhaust)
    note k2 = keeps_kept [OF same_apply_state [OF owned_apart]]
    have r2: "resting x ?c w2" "settled ?c (files w2)" "files w2 DESIRED = Some raw" "only_addresses st st'"
      using mild_resting [OF k2 2 r1(1)] mild_settled [OF k2 2 r1(2)] mild_files [OF k2 2, of DESIRED] raw apply_state_only_addresses [OF 2]
      by (auto simp: owned_paths_def)
    obtain p w3 where 3: "run_state (persist E st') w2 = (p, w3)" by fastforce
    have r3: "resting x ?c w3" "settled ?c (files w3)"
      using settled_persist [OF 3 assms(2) r2(1,2) raw(2) r2(3,4)] by auto
    obtain s w4 where 4: "run_state (services_at_start E) w3 = (s, w4)" by fastforce
    note k4 = keeps_kept [OF calm_services_at_start]
    have r4: "resting x ?c w4" "settled ?c (files w4)"
      using mild_resting [OF k4 4 r3(1)] mild_settled [OF k4 4 r3(2)] by auto
    obtain d w5 where 5: "run_state (drop_accepted_journal E) w4 = (d, w5)" by fastforce
    note r5 = settled_drop [OF 5 r4]
    have "w' \<in> {w2, w3, w4, w5}"
      using assms(1) 1 2 3 4 5 Inr
      by (auto simp: restart_accepted_def run_tryE split: sum.splits)
    then show ?thesis using r2(1) r3(1) r4(1) r5 by auto
  qed
qed

lemma calm_first_boot: "calm (first_boot_network E)"
  unfolding first_boot_network_def by (intro same.keeps_rules same_apply_opt calm_ops)

lemma network_at_start_run:
  assumes "run_state (network_at_start E interrupted) w = (r, w')" and "lawful (codec E)" and "resting x (codec E) w"
    and "\<not> interrupted \<Longrightarrow> settled (codec E) (files w)"
  shows "resting x (codec E) w'"
proof (cases interrupted)
  case True
  then obtain n where "run_state (recover_interrupted_apply E) w = (n, w')"
    using assms(1) by (auto simp: network_at_start_def split: prod.splits)
  then show ?thesis using resting_recover assms(2,3) by blast
next
  case False
  then show ?thesis
    using assms restart_accepted_run [of E w r w' x] mild_resting [OF keeps_kept [OF calm_first_boot], of E w r w' x "codec E"]
    by (auto simp: network_at_start_def file_exists_def split: if_splits)
qed

lemma calm_interrupted: "calm (apply_interrupted E)"
  unfolding apply_interrupted_def by (intro same.keeps_rules calm_ops)

lemma calm_host_pull: "calm (program_host_pull E)"
  unfolding program_host_pull_def by (intro same.keeps_rules calm_ops)

lemma start_network_run:
  assumes "run_state (start_network E) w = (r, w')" and "lawful (codec E)" and "resting x (codec E) w"
    and "files w BOOTSTRAPPED \<noteq> None"
  shows "resting x (codec E) w'"
proof -
  let ?c = "codec E"
  obtain i w1 where 1: "run_state (apply_interrupted E) w = (i, w1)" by fastforce
  note k1 = keeps_kept [OF calm_interrupted]
  let ?guard = "if i then require_recovery_guard E else okE ()"
  obtain g w2 where 2: "run_state ?guard w1 = (g, w2)" by fastforce
  have k2: "mild ?guard" by (intro kept.keeps_rules kept_require_recovery_guard)
  obtain h w3 where 3: "run_state (program_host_pull E) w2 = (h, w3)" by fastforce
  note k3 = keeps_kept [OF calm_host_pull]
  obtain n w4 where 4: "run_state (network_at_start E i) w3 = (n, w4)" by fastforce
  have r: "resting x ?c w1" "resting x ?c w2" "resting x ?c w3" "files w3 BOOTSTRAPPED \<noteq> None"
    using mild_resting [OF k1 1 assms(3)] mild_resting [OF k2 2] mild_resting [OF k3 3]
      mild_files [OF k1 1, of BOOTSTRAPPED] mild_files [OF k2 2, of BOOTSTRAPPED] mild_files [OF k3 3, of BOOTSTRAPPED] assms(4)
    by (auto simp: owned_paths_def)
  have s: "settled ?c (files w3)" if "\<not> i"
  proof -
    have "settled ?c (files w)" using apply_not_interrupted [of E w w1] 1 that assms(4) by simp
    then show ?thesis using mild_settled [OF k1 1] mild_settled [OF k2 2] mild_settled [OF k3 3] by blast
  qed
  have n: "resting x ?c w4" by (rule network_at_start_run [OF 4 assms(2) r(3) s])
  have "w' \<in> {w2, w3, w4}"
    using assms(1) 1 2 3 4 r(4)
    by (auto simp: start_network_def run_tryE file_exists_def split: sum.splits)
  then show ?thesis using r n by auto
qed

lemma tame_restart: "J \<subseteq> journals \<Longrightarrow> keeps (tame J) (restart_accepted E)"
proof -
  assume J: "J \<subseteq> journals"
  have "keeps (tame J) (read_at_start E)" unfolding read_at_start_def by (intro tame.keeps_rules tame_ops)
  moreover have "keeps (tame J) (services_at_start E)"
    unfolding services_at_start_def using J by (intro tame.keeps_rules tame_ops)
  moreover have "keeps (tame J) (drop_accepted_journal E)"
    unfolding drop_accepted_journal_def by (intro tame.keeps_rules tame_ops) (use J in simp_all)
  ultimately show ?thesis
    unfolding restart_accepted_def persist_def using J
    by (intro tame.keeps_rules tame_ops tame_persist_at) (use tame_journal in auto)
qed

lemma tame_start_network:
  assumes "J \<subseteq> journals" and "run_state (start_network E) w = (r, w')" and "files w BOOTSTRAPPED \<noteq> None"
  shows "tame J w w'"
proof -
  define m where "m = do {
     interrupted \<leftarrow> apply_interrupted E;
     seqE (if interrupted then require_recovery_guard E else okE ())
    (seqE (program_host_pull E) (network_at_start E interrupted)) }"
  have sub: "insert BOOTSTRAPPED J \<subseteq> owned_paths" using assms(1) by (auto simp: owned_paths_def journals_def)
  have calm: "calm q \<Longrightarrow> keeps (tame J) q" for q :: "('a world, 'b) state"
    unfolding keeps_def using kept_tame sub same_on_kept by blast
  have net: "keeps (tame J) (network_at_start E i)" for i
    unfolding network_at_start_def using assms(1)
    by (intro tame.keeps_rules tame_ops tame_recover tame_restart calm [OF calm_first_boot])
  have "keeps (tame J) m"
    unfolding m_def by (intro tame.keeps_rules tame_ops net calm [OF calm_interrupted] calm [OF calm_host_pull])
  moreover have "run_state m w = (r, w')"
  proof -
    obtain i w1 where 1: "run_state (apply_interrupted E) w = (i, w1)" by fastforce
    let ?guard = "if i then require_recovery_guard E else okE ()"
    obtain g w2 where 2: "run_state ?guard w1 = (g, w2)" by fastforce
    have k2: "mild ?guard" by (intro kept.keeps_rules kept_require_recovery_guard)
    obtain h w3 where 3: "run_state (program_host_pull E) w2 = (h, w3)" by fastforce
    have "files w3 BOOTSTRAPPED \<noteq> None"
      using mild_files [OF keeps_kept [OF calm_interrupted] 1, of BOOTSTRAPPED] mild_files [OF k2 2, of BOOTSTRAPPED]
        mild_files [OF keeps_kept [OF calm_host_pull] 3, of BOOTSTRAPPED] assms(3) by (auto simp: owned_paths_def)
    then show ?thesis
      using assms(2) 1 2 3 by (auto simp: start_network_def m_def run_tryE file_exists_def split: sum.splits)
  qed
  ultimately show ?thesis by (rule keepsD)
qed

section \<open>An installed appliance\<close>

text \<open>It is owned, there is an Accepted state to boot from, and one journal at most.\<close>

definition boots :: "codecs \<Rightarrow> files \<Rightarrow> bool" where
  "boots c f \<longleftrightarrow> boot_state c f \<noteq> None"

definition installed :: "codecs \<Rightarrow> files \<Rightarrow> bool" where
  "installed c f \<longleftrightarrow> f BOOTSTRAPPED \<noteq> None \<and> boots c f \<and> single_journal f"

definition moments :: "'k world \<Rightarrow> files set" where
  "moments w = set (files w # trail w)"

definition booted :: "codecs \<Rightarrow> 'k world \<Rightarrow> bool" where
  "booted c w \<longleftrightarrow> (\<forall>f \<in> moments w. boots c f)"

definition unmoved :: "codecs \<Rightarrow> durable_state option \<Rightarrow> 'k world \<Rightarrow> bool" where
  "unmoved c x w \<longleftrightarrow> (\<forall>f \<in> moments w. refreshed x (boot_state c f))"

lemma refreshed_some: "refreshed (Some x) y \<Longrightarrow> y \<noteq> None"
  by (cases x; cases y) auto

lemma resting_unmoved: "resting x c w \<Longrightarrow> unmoved c x w"
  by (auto simp: resting_def unmoved_def moments_def always_def core_def)

lemma unmoved_booted: "unmoved c x w \<Longrightarrow> x \<noteq> None \<Longrightarrow> booted c w"
  using refreshed_some by (auto simp: unmoved_def booted_def boots_def)

lemma booted_always: "always journal_paths (boots c) w \<longleftrightarrow> booted c w"
  by (simp add: always_def core_def booted_def moments_def boots_def)

lemma booted_kept: "kept journal_paths w w' \<Longrightarrow> booted c w \<Longrightarrow> booted c w'"
  using dur.kept_step [of w w' "boots c"] by (simp add: booted_always)

lemma mild_booted: "mild m \<Longrightarrow> run_state m w = (r, w') \<Longrightarrow> booted c w \<Longrightarrow> booted c w'"
  using booted_kept kept_fewer [OF owned_subset(1)] keepsD by metis

lemma tame_installed:
  assumes "tame J w w'" and "trail w = []" and "installed c (files w)" and "booted c w'"
    and "p \<in> J" and "p \<in> journals" and "files w p = None"
  shows "\<forall>f \<in> moments w'. installed c f"
proof -
  have "installed c f" if "f \<in> moments w'" for f
  proof -
    have "f BOOTSTRAPPED = files w BOOTSTRAPPED" "f p = None"
      using assms(1,2,5,7) that by (auto simp: tame_def moments_def)
    moreover have "boots c f" using assms(4) that by (simp add: booted_def)
    ultimately show ?thesis
      using assms(3,6) by (auto simp: installed_def single_journal_def journals_def)
  qed
  then show ?thesis by blast
qed

lemma absent_journal: "installed c f \<Longrightarrow> \<exists>p \<in> journals. f p = None"
  by (auto simp: installed_def single_journal_def journals_def)

lemma resting_installed:
  assumes "resting (boot_state c (files w)) c w'" and "\<And>J. J \<subseteq> journals \<Longrightarrow> tame J w w'" and "trail w = []" and "installed c (files w)"
  shows "(\<forall>f \<in> moments w'. installed c f) \<and> unmoved c (boot_state c (files w)) w'"
proof -
  have u: "unmoved c (boot_state c (files w)) w'" by (rule resting_unmoved [OF assms(1)])
  then have "booted c w'" by (rule unmoved_booted) (use assms(4) in \<open>simp add: installed_def boots_def\<close>)
  then show ?thesis
    using u absent_journal [OF assms(4)] tame_installed [OF assms(2) assms(3,4), of "{_}"] by blast
qed

lemma mild_installed:
  assumes "kept owned_paths w w'" and "trail w = []" and "installed c (files w)"
  shows "(\<forall>f \<in> moments w'. installed c f) \<and> unmoved c (boot_state c (files w)) w'"
proof (rule resting_installed [OF _ _ assms(2,3)])
  show "resting (boot_state c (files w)) c w'"
    using resting_kept [OF kept_fewer [OF owned_subset(1) assms(1)] resting_start [OF assms(2)]] assms(3)
    by (simp add: installed_def)
  show "tame J w w'" if "J \<subseteq> journals" for J
    by (rule kept_tame [OF assms(1)]) (use that in \<open>auto simp: owned_paths_def journals_def\<close>)
qed

section \<open>Requests that change the Accepted state\<close>

lemma apply_booted:
  assumes "run_state (apply_desired_request E input base actor draft intent) w = (v, w')" and "lawful (codec E)"
    and "trail w = []" and "boots (codec E) (files w)"
  shows "booted (codec E) w'"
  using apply_desired_request_run [OF assms(1-3)]
proof
  assume "untouched v w w'"
  then show ?thesis
    using untouched_trail [of v w w' "codec E"] assms(3,4) by (simp add: booted_def moments_def boots_def)
next
  assume "attempted_request (codec E) input base actor v w w'"
  then obtain a p where "always journal_paths (either (codec E) a p) w'"
    unfolding attempted_request_def using ended_outcomes(3) by blast
  then have "always journal_paths (boots (codec E)) w'"
    by (rule always_mono) (auto simp: either_def new_state_def boots_def simp del: not_None_eq)
  then show ?thesis by (simp add: booted_always)
qed

lemma confirm_booted:
  assumes "run_state (confirm_apply E request) w = (v, w')" and "lawful (codec E)"
    and "trail w = []" and "boots (codec E) (files w)"
  shows "booted (codec E) w'"
proof -
  have "boots (codec E) f" if "f \<in> moments w'" for f
  proof -
    have "refreshed (boot_state (codec E) (files w)) (boot_state (codec E) f)
        \<or> (\<exists>op st who z. confirmed (codec E) op st who z \<and> refreshed z (boot_state (codec E) f))"
      using confirm_apply_run [OF assms(1-3)] that unfolding confirm_result_def unconfirmed_def moments_def by blast
    then show ?thesis
      using assms(4) refreshed_some unfolding boots_def confirmed_def by (metis not_None_eq)
  qed
  then show ?thesis by (simp add: booted_def)
qed

lemma apply_with_previous:
  assumes "run_state (apply_desired_request E input base actor draft intent) w = (v, w')" and "files w APPLY_PREVIOUS \<noteq> None"
  shows "same_on owned_paths w w'"
proof -
  obtain b w1 where 1: "run_state (apply_busy E) w = (b, w1)" by fastforce
  then have "b" using apply_busy_run(3) [of E w w1] assms(2) by (cases b) auto
  then have "w' = w1" using assms(1) 1 by (simp add: apply_desired_request_def)
  then show ?thesis using keepsD [OF same_apply_busy 1] by simp
qed

lemma confirm_with_previous:
  assumes "run_state (confirm_apply E v) w = (r, w')" and "files w APPLY_PREVIOUS \<noteq> None"
  shows "same_on owned_paths w w'"
proof -
  obtain b w1 where 1: "run_state (recovery_pending E) w = (b, w1)" by fastforce
  then have "b" using recovery_pending_run(2) [of E w w1] assms(2) by (cases b) auto
  then have "w' \<in> {w, w1}"
    using assms(1) 1 by (auto simp: confirm_apply_def split: option.splits)
  then show ?thesis using keepsD [OF same_recovery_pending 1] same.refl by auto
qed

lemma apply_installed:
  assumes "run_state (apply_desired_request E input base actor draft intent) w = (v, w')" and "lawful (codec E)"
    and "trail w = []" and "installed (codec E) (files w)"
  shows "\<forall>f \<in> moments w'. installed (codec E) f"
proof (cases "files w APPLY_PREVIOUS")
  case None
  have "booted (codec E) w'" using apply_booted [OF assms(1-3)] assms(4) by (simp add: installed_def)
  from tame_installed [OF keepsD [OF tame_apply assms(1)] assms(3,4) this, of APPLY_PREVIOUS] None
  show ?thesis by (simp add: journals_def)
next
  case (Some x)
  then show ?thesis
    using mild_installed [OF same_on_kept [OF apply_with_previous [OF assms(1)]] assms(3,4)] by simp
qed

lemma confirm_installed:
  assumes "run_state (confirm_apply E request) w = (v, w')" and "lawful (codec E)"
    and "trail w = []" and "installed (codec E) (files w)"
  shows "\<forall>f \<in> moments w'. installed (codec E) f"
proof (cases "files w APPLY_PREVIOUS")
  case None
  have "booted (codec E) w'" using confirm_booted [OF assms(1-3)] assms(4) by (simp add: installed_def)
  from tame_installed [OF keepsD [OF tame_confirm assms(1)] assms(3,4) this, of APPLY_PREVIOUS] None
  show ?thesis by (simp add: journals_def)
next
  case (Some x)
  then show ?thesis
    using mild_installed [OF same_on_kept [OF confirm_with_previous [OF assms(1)]] assms(3,4)] by simp
qed

lemma reads_fresh: "reads w w1 \<Longrightarrow> files w1 = files w \<and> trail w1 = trail w"
  by (simp add: reads_def)

lemma restore_previous_installed:
  assumes "run_state (restore_previous_request E actor) w = (v, w')" and "lawful (codec E)"
    and "trail w = []" and "installed (codec E) (files w)"
  shows "\<forall>f \<in> moments w'. installed (codec E) f"
proof -
  let ?c = "codec E"
  obtain b w1 where 1: "run_state (recovery_pending E) w = (b, w1)" by fastforce
  obtain p w2 where 2: "run_state (pending_operation E) w1 = (p, w2)" by fastforce
  obtain a w3 where 3: "run_state (accepted_desired E) w2 = (a, w3)" by fastforce
  obtain t w4 where 4: "run_state (read_text E PREVIOUS_ACCEPTED) w3 = (t, w4)" by fastforce
  have k: "reads w w1" "reads w w2" "reads w w3" "reads w w4"
    using keepsD [OF reads_recovery_pending 1] keepsD [OF reads_pending_operation 2]
      keepsD [OF reads_accepted_desired 3] keepsD [OF reads_read_text 4] reads.trans by blast+
  note f = k [THEN reads_fresh]
  have quiet: "\<forall>f \<in> moments w'. installed ?c f" if "w' \<in> {w, w1, w2, w3, w4}"
    using that f assms(3,4) by (auto simp: moments_def)
  have owned: "files w BOOTSTRAPPED \<noteq> None" using assms(4) by (simp add: installed_def)
  show ?thesis
  proof (cases b)
    case True
    obtain n w5 where 5: "run_state (recover_interrupted_apply E) w1 = (n, w5)" by fastforce
    have "w' = w5"
      using assms(1) 1 5 True owned by (auto simp: restore_previous_request_def file_exists_def split: prod.splits)
    moreover have "resting (boot_state ?c (files w)) ?c w1"
      using f(1) assms(3,4) resting_start [of w1 ?c] by (simp add: installed_def)
    ultimately have "resting (boot_state ?c (files w1)) ?c w'" using resting_recover [OF 5 assms(2)] f(1) by simp
    then show ?thesis
      using resting_installed [of ?c w1 w'] keepsD [OF tame_recover 5] f(1) assms(3,4) \<open>w' = w5\<close> by simp
  next
    case b: False
    show ?thesis
    proof (cases "p = Inr None \<and> is_ok a")
      case False
      then have "w' \<in> {w2, w3}"
        using assms(1) 1 2 3 b owned
        by (auto simp: restore_previous_request_def file_exists_def split: if_splits sum.splits)
      then show ?thesis using quiet by auto
    next
      case True
      then obtain current where r: "run_state (restore_predecessor_of E actor current) w3 = (v, w')"
        using assms(1) 1 2 3 b owned
        by (cases a) (auto simp: restore_previous_request_def file_exists_def)
      then consider "w' = w4" | input where
          "run_state (apply_desired_request E input (Some (revision current)) actor None Recovery_restore) w4 = (v, w')"
        using 4 by (auto simp: restore_predecessor_of_def split: sum.splits option.splits if_splits)
      then show ?thesis
      proof cases
        case 1
        then show ?thesis using quiet by simp
      next
        case (2 input)
        show ?thesis by (rule apply_installed [OF 2 assms(2)]) (use f(4) assms(3,4) in simp_all)
      qed
    qed
  qed
qed

section \<open>The network of before a Host update\<close>

lemma restore_pre_update_installed:
  assumes "run_state (restore_pre_update E back) w = (v, w')" and "lawful (codec E)"
    and "trail w = []" and "installed (codec E) (files w)"
  shows "\<forall>f \<in> moments w'. installed (codec E) f"
proof -
  have pre: "keeps reads (read_pre_update_accepted E)"
    unfolding read_pre_update_accepted_def by (intro reads.keeps_rules reads_read_text)
  obtain p w1 where 1: "run_state (read_pre_update_accepted E) w = (p, w1)" by fastforce
  obtain b w2 where 2: "run_state (recovery_pending E) w1 = (b, w2)" by fastforce
  obtain a w3 where 3: "run_state (accepted_desired E) w2 = (a, w3)" by fastforce
  have k: "reads w w1" "reads w w2" "reads w w3"
    using keepsD [OF pre 1] keepsD [OF reads_recovery_pending 2] keepsD [OF reads_accepted_desired 3] reads.trans by blast+
  note f = k [THEN reads_fresh]
  consider "w' \<in> {w1, w2, w3}" | preserved current where "run_state (restore_preserved E back preserved current) w3 = (v, w')"
    using assms(1) 1 2 3 by (auto simp: restore_pre_update_def split: sum.splits if_splits)
  then have "w' \<in> {w1, w2, w3} \<or> (\<exists>input rv actor reply.
      run_state (apply_desired_request E input rv actor None Recovery_restore) w3 = (reply, w'))"
    by cases (auto simp: restore_preserved_def split: sum.splits bool.splits prod.splits)
  then show ?thesis
  proof (elim disjE exE)
    assume "w' \<in> {w1, w2, w3}"
    then show ?thesis using f assms(3,4) by (auto simp: moments_def)
  next
    fix input rv actor reply
    assume "run_state (apply_desired_request E input rv actor None Recovery_restore) w3 = (reply, w')"
    then show ?thesis by (rule apply_installed [OF _ assms(2)]) (use f(3) assms(3,4) in simp_all)
  qed
qed

lemma moments_kept:
  assumes "kept owned_paths w w'" and "\<forall>f \<in> moments w. installed c f"
  shows "\<forall>f \<in> moments w'. installed c f"
proof
  fix f assume "f \<in> moments w'"
  then consider "f \<in> moments w" | "\<forall>p \<in> owned_paths. f p = files w p"
    using assms(1) by (auto simp: kept_def moments_def)
  then show "installed c f"
  proof cases
    case 2
    then have "f |` journal_paths = files w |` journal_paths" "f BOOTSTRAPPED = files w BOOTSTRAPPED"
      by (auto simp: owned_paths_def restrict_map_def fun_eq_iff)
    then have "boot_state c f = boot_state c (files w)" "single_journal f = single_journal (files w)"
      using 2 boot_state_restrict by (metis, auto simp: single_journal_def owned_paths_def)
    then show ?thesis
      using assms(2) \<open>f BOOTSTRAPPED = files w BOOTSTRAPPED\<close> by (simp add: installed_def boots_def moments_def)
  qed (use assms(2) in blast)
qed

definition after_restoration :: "'k env \<Rightarrow> network_restoration \<Rightarrow> ('k world, unit) state" where
  "after_restoration E outcome = do {
     (case outcome of
        Failed _ \<Rightarrow> ret ()
      | _ \<Rightarrow> do { durable_remove E PRE_UPDATE_ACCEPTED; ret () });
     written \<leftarrow> (case text_of_restoration (codec E) outcome of
                   Inl e \<Rightarrow> errE (''encode pre-update network restoration: '' @ e)
                 | Inr raw \<Rightarrow> durable_write E NETWORK_RESTORATION raw);
     (case written of
        Inl _ \<Rightarrow> ret ()
      | Inr _ \<Rightarrow> do { durable_remove E RESTORE_PRE_UPDATE; ret () }) }"

lemma calm_after_restoration: "calm (after_restoration E outcome)"
proof -
  have "calm (case outcome of Failed _ \<Rightarrow> ret () | _ \<Rightarrow> do { durable_remove E PRE_UPDATE_ACCEPTED; ret () })"
    by (cases outcome) (simp_all add: same.keeps_ret, (intro same.keeps_rules calm_remove, simp)+)
  then show ?thesis
    unfolding after_restoration_def
    by (intro same.keeps_rules calm_ops; (assumption | simp))
qed

lemma finish_restoration_installed:
  assumes "run_state (finish_pre_update_restoration E back) w = (u, w')" and "lawful (codec E)"
    and "trail w = []" and "installed (codec E) (files w)"
  shows "\<forall>f \<in> moments w'. installed (codec E) f"
proof -
  obtain v w1 where 1: "run_state (restore_pre_update E back) w = (v, w1)" by fastforce
  have "run_state (after_restoration E v) w1 = (u, w')"
    using assms(1) 1 by (simp add: finish_pre_update_restoration_def after_restoration_def)
  from same_on_kept [OF keepsD [OF calm_after_restoration this]] restore_pre_update_installed [OF 1 assms(2-4)]
  show ?thesis by (rule moments_kept)
qed

text \<open>Staging the preserved network as the target of a recovery: only where there is no journal, so
  its journal is the only one.\<close>

lemma staged_boots:
  assumes "toml_of_desired c st = Inr t" and "lawful c" and "f APPLY_OPERATION = None"
  shows "boots c (f(APPLY_PREVIOUS := Some t))"
  using assms lawful_toml [OF assms(2,1)] by (simp add: boots_def boot_state_def desired_file_def)

lemma persist_previous_installed:
  assumes "run_state (persist_at E APPLY_PREVIOUS st) w = (r, w')" and "lawful (codec E)"
    and "trail w = []" and "installed (codec E) (files w)" and "files w APPLY_OPERATION = None"
  shows "\<forall>f \<in> moments w'. installed (codec E) f"
proof (cases "toml_of_desired (codec E) st")
  case (Inl e)
  then show ?thesis using assms by (simp add: persist_at_def moments_def)
next
  case (Inr t)
  let ?c = "codec E"
  have d: "run_state (durable_write E APPLY_PREVIOUS t) w = (r, w')"
    using assms(1) Inr by (simp add: persist_at_def)
  have b: "always journal_paths (boots ?c) w"
    using assms(3,4) by (simp add: booted_always booted_def moments_def installed_def)
  have "boots ?c ((jcore w)(APPLY_PREVIOUS := Some t))"
    by (rule staged_boots [OF Inr assms(2)]) (simp add: core_at assms(5))
  then have "booted ?c w'" using dur.put_step [OF d _ b] by (simp add: booted_always)
  moreover have "tame {APPLY_OPERATION} w w'"
    using keepsD [OF tame_write d] by (simp add: journals_def journal_path_lasting)
  ultimately show ?thesis
    using tame_installed [of "{APPLY_OPERATION}" w w' ?c APPLY_OPERATION] assms(3-5) by (simp add: journals_def)
qed

lemma restoration_asked_installed:
  assumes "run_state (restoration_asked E) w = (r, w')" and "lawful (codec E)"
    and "trail w = []" and "installed (codec E) (files w)"
  shows "\<forall>f \<in> moments w'. installed (codec E) f"
proof -
  have pre: "keeps reads (read_pre_update_accepted E)"
    unfolding read_pre_update_accepted_def by (intro reads.keeps_rules reads_read_text)
  obtain a w1 where 1: "run_state (accepted_desired E) w = (a, w1)" by fastforce
  obtain p w2 where 2: "run_state (read_pre_update_accepted E) w1 = (p, w2)" by fastforce
  have k: "reads w w1" "reads w w2"
    using keepsD [OF reads_accepted_desired 1] keepsD [OF pre 2] reads.trans by blast+
  note f = k [THEN reads_fresh]
  have "w' \<in> {w, w1, w2} \<or> (\<exists>st u. run_state (persist_at E APPLY_PREVIOUS st) w2 = (u, w') \<and> files w APPLY_OPERATION = None)"
    using assms(1) 1 2 f
    by (auto simp: restoration_asked_def file_exists_def stage_unreadable_accepted_restoration_def run_tryE
        split: if_splits sum.splits prod.splits)
  then show ?thesis
  proof (elim disjE exE conjE)
    assume "w' \<in> {w, w1, w2}"
    then show ?thesis using f assms(3,4) by (auto simp: moments_def)
  next
    fix st u assume "run_state (persist_at E APPLY_PREVIOUS st) w2 = (u, w')" "files w APPLY_OPERATION = None"
    from persist_previous_installed [OF this(1) assms(2)] this(2) f(2) assms(3,4) show ?thesis by simp
  qed
qed

end
