(* ===== verification/Life.thy ===== *)
theory Life
  imports Appliance
begin

text \<open>
  The life of an owned appliance as a step relation. Each step is one piece of \<open>run\<close> of
  \<open>src/netd.rs\<close> in the order of the code, with the moments of its run in the trail; in between,
  power may be lost at any of them, and other programs change what is not netd's.
\<close>

section \<open>Steps\<close>

datatype netd_stage =
    Off
  | Asked bool bool
  | Networked bool bool
  | Restored_network
  | Serving netd_memory
  | Polling netd_memory
  | Called netd_memory string
  | Answering netd_memory string

definition fresh :: "'k world \<Rightarrow> 'k world" where
  "fresh w = w\<lparr> trail := [] \<rparr>"

text \<open>A new process: nothing is remembered in \<open>RECOVERY_REQUIRED\<close>.\<close>

definition new_process :: "'k world \<Rightarrow> 'k world" where
  "new_process w = (fresh w)\<lparr> recovery_required := False \<rparr>"

fun after_poll :: "netd_memory \<Rightarrow> string res poll_result \<Rightarrow> netd_stage" where
  "after_poll m (Poll_failed _) = Off"
| "after_poll m (Accept_failed _) = Off"
| "after_poll m Interrupted = Serving m"
| "after_poll m Timed_out = Serving m"
| "after_poll m (Connected (Inl _)) = Serving m"
| "after_poll m (Connected (Inr bytes)) = Called m bytes"

inductive netd_step :: "'k netd_env \<Rightarrow> 'k world \<times> netd_stage \<Rightarrow> 'k world \<times> netd_stage \<Rightarrow> bool" for N where
  Boot: "run_state (restoration_asked (env_of N)) (new_process w) = ((asked, staged), w')
    \<Longrightarrow> netd_step N (w, Off) (w', Asked asked staged)"
| Network: "run_state (start_network (env_of N)) (fresh w) = (r, w')
    \<Longrightarrow> netd_step N (w, Asked asked staged) (w', if is_ok r then Networked asked staged else Off)"
| Restore: "run_state (if asked then finish_pre_update_restoration (env_of N) staged else ret ()) (fresh w) = (u, w')
    \<Longrightarrow> netd_step N (w, Networked asked staged) (w', Restored_network)"
| Listen: "run_state (seqE (open_socket N) (first_memory N)) (fresh w) = (r, w')
    \<Longrightarrow> netd_step N (w, Restored_network) (w', case r of Inr m \<Rightarrow> Serving m | Inl _ \<Rightarrow> Off)"
| Round: "run_state (loop_round N m) (fresh w) = (r, w')
    \<Longrightarrow> netd_step N (w, Serving m) (w', case r of Inr m' \<Rightarrow> Polling m' | Inl _ \<Rightarrow> Off)"
| Poll: "run_state (asks (poll_client N)) (fresh w) = (p, w')
    \<Longrightarrow> netd_step N (w, Polling m) (w', after_poll m p)"
| Expire: "run_state (expire_pending_confirmation (env_of N)) (fresh w) = (u, w')
    \<Longrightarrow> netd_step N (w, Called m bytes) (w', Answering m bytes)"
| Answer: "run_state (answer_request N bytes) (fresh w) = (u, w')
    \<Longrightarrow> netd_step N (w, Answering m bytes) (w', Serving m)"
| Power_loss: "f \<in> moments w \<Longrightarrow> netd_step N (w, s) (w\<lparr> files := f, outside := k \<rparr>, Off)"
| Others: "(\<forall>p \<in> owned_paths. g p = files w p) \<Longrightarrow> netd_step N (w, s) (w\<lparr> files := g, outside := k \<rparr>, s)"

inductive netd_reachable :: "'k netd_env \<Rightarrow> 'k world \<Rightarrow> 'k world \<times> netd_stage \<Rightarrow> bool" for N w0 where
  Installed: "netd_reachable N w0 (fresh w0, Off)"
| Step: "netd_reachable N w0 a \<Longrightarrow> netd_step N a b \<Longrightarrow> netd_reachable N w0 b"

section \<open>Every step keeps the appliance installed\<close>

definition all_installed :: "codecs \<Rightarrow> 'k world \<Rightarrow> bool" where
  "all_installed c w \<longleftrightarrow> (\<forall>f \<in> moments w. installed c f)"

lemma fresh_simps [simp]: "files (fresh w) = files w" "trail (fresh w) = []" "files (new_process w) = files w"
    "trail (new_process w) = []"
  by (simp_all add: fresh_def new_process_def)

lemma all_installed_files: "all_installed c w \<Longrightarrow> installed c (files w)"
  by (simp add: all_installed_def moments_def)

text \<open>What a step that is asked for no change leaves.\<close>

definition undisturbed :: "codecs \<Rightarrow> 'k world \<Rightarrow> 'k world \<Rightarrow> bool" where
  "undisturbed c w w' \<longleftrightarrow> all_installed c w' \<and> unmoved c (boot_state c (files w)) w'"

lemma mild_undisturbed:
  "mild m \<Longrightarrow> run_state m (fresh w) = (r, w') \<Longrightarrow> installed c (files w) \<Longrightarrow> undisturbed c w w'"
  using mild_installed [of "fresh w" w' c] keepsD [of "kept owned_paths" m "fresh w" r w']
  by (simp add: undisturbed_def all_installed_def)

lemma expire_run:
  assumes "run_state (expire_pending_confirmation E) w = (u, w')" and "lawful (codec E)" and "trail w = []" and "installed (codec E) (files w)"
  shows "resting (boot_state (codec E) (files w)) (codec E) w' \<and> (\<forall>J. J \<subseteq> journals \<longrightarrow> tame J w w')"
proof -
  have "resting (boot_state (codec E) (files w)) (codec E) w"
    using resting_start [OF assms(3)] assms(4) by (simp add: installed_def)
  then show ?thesis
    using keepsD [OF rests_expire [OF assms(2)] assms(1)] keepsD [OF tame_expire assms(1)] by (auto simp: rests_def)
qed

lemma expire_undisturbed:
  assumes "run_state (expire_pending_confirmation E) (fresh w) = (u, w')" and "lawful (codec E)" and "installed (codec E) (files w)"
  shows "undisturbed (codec E) w w'"
  using resting_installed [of "codec E" "fresh w" w'] expire_run [OF assms(1,2)] assms(3)
  by (simp add: undisturbed_def all_installed_def)

lemma network_undisturbed:
  assumes "run_state (start_network E) (fresh w) = (r, w')" and "lawful (codec E)" and "installed (codec E) (files w)"
  shows "undisturbed (codec E) w w'"
proof -
  have "resting (boot_state (codec E) (files w)) (codec E) (fresh w)"
    using resting_start [of "fresh w" "codec E"] assms(3) by (simp add: installed_def)
  then have "resting (boot_state (codec E) (files w)) (codec E) w'"
    using start_network_run [OF assms(1,2)] assms(3) by (simp add: installed_def)
  moreover have "tame J (fresh w) w'" if "J \<subseteq> journals" for J
    using tame_start_network [OF that assms(1)] assms(3) by (simp add: installed_def)
  ultimately show ?thesis
    using resting_installed [of "codec E" "fresh w" w'] assms(3) by (simp add: undisturbed_def all_installed_def)
qed

lemma calm_rest_of_round: "calm (tryE (refresh_round N m) (\<lambda>m. do { rt \<leftarrow> poll_radio N (runtime m); okE (m\<lparr> runtime := rt \<rparr>) }))"
  by (intro same.keeps_rules calm_refresh_round calm_poll_radio)

lemma round_undisturbed:
  assumes "run_state (loop_round N m) (fresh w) = (r, w')" and "lawful (codec (env_of N))" and "installed (codec (env_of N)) (files w)"
  shows "undisturbed (codec (env_of N)) w w'"
proof -
  let ?c = "codec (env_of N)"
  let ?rest = "tryE (refresh_round N m) (\<lambda>m. do { rt \<leftarrow> poll_radio N (runtime m); okE (m\<lparr> runtime := rt \<rparr>) })"
  obtain w1 where 1: "run_state (expire_pending_confirmation (env_of N)) (fresh w) = ((), w1)"
    by (cases "run_state (expire_pending_confirmation (env_of N)) (fresh w)") auto
  have 2: "run_state ?rest w1 = (r, w')" using assms(1) 1 by (simp add: loop_round_def)
  have e: "resting (boot_state ?c (files w)) ?c w1" "J \<subseteq> journals \<Longrightarrow> tame J (fresh w) w1" for J
    using expire_run [OF 1 assms(2)] assms(3) by auto
  have k: "kept owned_paths w1 w'" by (rule keepsD [OF keeps_kept [OF calm_rest_of_round] 2])
  have "tame J w1 w'" if "J \<subseteq> journals" for J
    by (rule kept_tame [OF k]) (use that in \<open>auto simp: owned_paths_def journals_def\<close>)
  then have "tame J (fresh w) w'" if "J \<subseteq> journals" for J using tame_trans e(2) that by blast
  moreover have "resting (boot_state ?c (files w)) ?c w'"
    using resting_kept [OF kept_fewer [OF owned_subset(1) k] e(1)] .
  ultimately show ?thesis
    using resting_installed [of ?c "fresh w" w'] assms(3) by (simp add: undisturbed_def all_installed_def)
qed

lemma calm_listen: "calm (seqE (open_socket N) (first_memory N))"
  unfolding open_socket_def wheel_gid_def first_memory_def
  by (intro same.keeps_rules same_ops)

text \<open>A request that asks for another Accepted state.\<close>

definition changing_request :: "'k netd_env \<Rightarrow> string \<Rightarrow> bool" where
  "changing_request N bytes \<longleftrightarrow>
     (case json_of_text (codec (env_of N)) bytes of Inl _ \<Rightarrow> False | Inr v \<Rightarrow> request_op v \<in> changing)"

lemma apply_request_installed:
  assumes "run_state (apply_request E v) w = (r, w')" and "lawful (codec E)" and "trail w = []" and "installed (codec E) (files w)"
  shows "all_installed (codec E) w'"
proof (cases "get_u64 v ''base_revision''")
  case None
  then have "w' = w" using assms(1) by (auto simp: apply_request_def file_exists_def split: if_splits)
  then show ?thesis using assms(3,4) by (simp add: all_installed_def moments_def)
next
  case (Some base)
  have "files w BOOTSTRAPPED \<noteq> None" using assms(4) by (simp add: installed_def)
  then have "run_state (apply_desired_request E (jindex v ''desired'') (Some base) (get_principal (codec E) v ''applying'')
            (get_str v ''draft_version'') Ordinary) w = (r, w')"
    using assms(1) Some by (auto simp: apply_request_def file_exists_def)
  then show ?thesis unfolding all_installed_def by (rule apply_installed [OF _ assms(2-4)])
qed

lemma handle_cmd_installed:
  assumes "run_state (handle_cmd N v) w = (r, w')" and "lawful (codec (env_of N))" and "trail w = []" and "installed (codec (env_of N)) (files w)"
  shows "all_installed (codec (env_of N)) w'"
proof -
  let ?E = "env_of N"
  have owned: "files w BOOTSTRAPPED \<noteq> None" using assms(4) by (simp add: installed_def)
  consider (confirm) "request_op v = ''confirm_apply''" | (previous) "request_op v = ''restore_previous''"
    | (applying) "request_op v = ''apply_desired''" | (other) "request_op v \<notin> changing"
    by (auto simp: changing_def)
  then show ?thesis
  proof cases
    case confirm
    then have "run_state (confirm_apply ?E v) w = (r, w')"
      using assms(1) by (simp add: handle_cmd_def request_op_def Let_def)
    then show ?thesis unfolding all_installed_def by (rule confirm_installed [OF _ assms(2-4)])
  next
    case previous
    then have "run_state (restore_previous_request ?E (get_principal (codec ?E) v ''applying'')) w = (r, w')"
      using assms(1) by (simp add: handle_cmd_def request_op_def Let_def)
    then show ?thesis unfolding all_installed_def by (rule restore_previous_installed [OF _ assms(2-4)])
  next
    case applying
    then have "run_state (apply_request ?E v) w = (r, w')"
      using assms(1) by (simp add: handle_cmd_def request_op_def Let_def)
    then show ?thesis by (rule apply_request_installed [OF _ assms(2-4)])
  next
    case other
    from mild_installed [OF same_on_kept [OF handle_cmd_calm [OF owned other assms(1)]] assms(3,4)]
    show ?thesis by (simp add: all_installed_def)
  qed
qed

definition answered :: "'k netd_env \<Rightarrow> json \<Rightarrow> ('k world, unit) state" where
  "answered N v = do { asks (answer_client N v); ret () }"

lemma calm_answered: "calm (answered N v)"
  unfolding answered_def by (intro same.keeps_rules same_ops)

lemma answer_cases:
  assumes "run_state (answer_request N bytes) w = (u, w')"
  obtains "w' = w" | v where "run_state (answered N v) w = ((), w')"
    | v r w1 where "json_of_text (codec (env_of N)) bytes = Inr v" "run_state (handle_cmd N v) w = (r, w1)"
        "run_state (answered N r) w1 = ((), w')"
proof (cases "bytes = []")
  case True
  then show ?thesis using assms that(1) by (simp add: answer_request_def)
next
  case False
  obtain r w1 where 1: "run_state (socket_reply N bytes) w = (r, w1)" by fastforce
  have a: "run_state (answered N r) w1 = ((), w')"
    using assms False 1 by (auto simp: answer_request_def answered_def split: prod.splits)
  show ?thesis
  proof (cases "\<exists>v. json_of_text (codec (env_of N)) bytes = Inr v \<and> get_str v ''op'' \<noteq> None")
    case True
    then obtain v where "json_of_text (codec (env_of N)) bytes = Inr v" "run_state (handle_cmd N v) w = (r, w1)"
      using 1 by (auto simp: socket_reply_def)
    then show ?thesis using that(3) a by blast
  next
    case no: False
    then have "w1 = w" using 1 by (auto simp: socket_reply_def split: sum.splits if_splits)
    then show ?thesis using that(2) a by blast
  qed
qed

lemma answer_installed:
  assumes "run_state (answer_request N bytes) (fresh w) = (u, w')" and "lawful (codec (env_of N))" and "installed (codec (env_of N)) (files w)"
  shows "all_installed (codec (env_of N)) w'"
proof (rule answer_cases [OF assms(1)])
  let ?c = "codec (env_of N)"
  assume "w' = fresh w"
  then show ?thesis using assms(3) by (simp add: all_installed_def moments_def)
next
  fix v assume "run_state (answered N v) (fresh w) = ((), w')"
  then show ?thesis
    using mild_undisturbed [OF keeps_kept [OF calm_answered] _ assms(3)] by (simp add: undisturbed_def)
next
  fix v r w1 assume h: "run_state (handle_cmd N v) (fresh w) = (r, w1)" and a: "run_state (answered N r) w1 = ((), w')"
  have "all_installed (codec (env_of N)) w1"
    by (rule handle_cmd_installed [OF h assms(2)]) (use assms(3) in simp_all)
  then show ?thesis
    using moments_kept [OF keepsD [OF keeps_kept [OF calm_answered] a]] by (simp add: all_installed_def)
qed

lemma answer_undisturbed:
  assumes "run_state (answer_request N bytes) (fresh w) = (u, w')" and "installed (codec (env_of N)) (files w)"
    and "\<not> changing_request N bytes"
  shows "undisturbed (codec (env_of N)) w w'"
proof -
  have "kept owned_paths (fresh w) w'"
  proof (rule answer_cases [OF assms(1)])
    assume "w' = fresh w" then show ?thesis by (simp add: kept_refl)
  next
    fix v assume "run_state (answered N v) (fresh w) = ((), w')"
    then show ?thesis by (rule keepsD [OF keeps_kept [OF calm_answered]])
  next
    fix v r w1 assume j: "json_of_text (codec (env_of N)) bytes = Inr v"
      and h: "run_state (handle_cmd N v) (fresh w) = (r, w1)" and a: "run_state (answered N r) w1 = ((), w')"
    have "request_op v \<notin> changing" using assms(3) j by (simp add: changing_request_def)
    then have "kept owned_paths (fresh w) w1"
      using handle_cmd_calm [OF _ _ h] assms(2) by (simp add: installed_def same_on_def)
    then show ?thesis using kept_trans keepsD [OF keeps_kept [OF calm_answered] a] by blast
  qed
  then show ?thesis using mild_installed [of "fresh w" w'] assms(2) by (simp add: undisturbed_def all_installed_def)
qed

lemma others_same:
  assumes "\<forall>p \<in> owned_paths. g p = f p"
  shows "boot_state c g = boot_state c f" and "installed c g = installed c f"
proof -
  have r: "g |` journal_paths = f |` journal_paths" using assms by (auto simp: owned_paths_def restrict_map_def fun_eq_iff)
  then show b: "boot_state c g = boot_state c f" using boot_state_restrict by metis
  have "g BOOTSTRAPPED = f BOOTSTRAPPED" "g APPLY_OPERATION = f APPLY_OPERATION" "g APPLY_PREVIOUS = f APPLY_PREVIOUS"
    using assms by (simp_all add: owned_paths_def)
  then show "installed c g = installed c f" by (simp add: installed_def boots_def b single_journal_def)
qed

section \<open>The invariant\<close>

lemma step_installed:
  assumes "netd_step N a b" and "lawful (codec (env_of N))" and "all_installed (codec (env_of N)) (fst a)"
  shows "all_installed (codec (env_of N)) (fst b)"
  using assms(1)
proof cases
  note i = all_installed_files [OF assms(3)]
  case (Boot w asked staged w')
  then show ?thesis
    using restoration_asked_installed [OF Boot(3) assms(2)] i by (simp add: all_installed_def)
next
  note i = all_installed_files [OF assms(3)]
  case (Network w r w' asked staged)
  then show ?thesis using network_undisturbed [OF Network(3) assms(2)] i by (simp add: undisturbed_def)
next
  note i = all_installed_files [OF assms(3)]
  case (Restore asked staged w u w')
  show ?thesis
  proof (cases asked)
    case True
    then show ?thesis
      using finish_restoration_installed [of "env_of N" staged "fresh w" u w'] Restore assms(2) i by (simp add: all_installed_def)
  next
    case False
    then show ?thesis using Restore i by (auto simp: all_installed_def moments_def)
  qed
next
  note i = all_installed_files [OF assms(3)]
  case (Listen w r w')
  then show ?thesis using mild_undisturbed [OF keeps_kept [OF calm_listen] Listen(3)] i by (simp add: undisturbed_def)
next
  note i = all_installed_files [OF assms(3)]
  case (Round m w r w')
  then show ?thesis using round_undisturbed [OF Round(3) assms(2)] i by (simp add: undisturbed_def)
next
  note i = all_installed_files [OF assms(3)]
  case (Poll w p w' m)
  then show ?thesis using mild_undisturbed [OF keeps_kept [OF same_asks] Poll(3)] i by (simp add: undisturbed_def)
next
  note i = all_installed_files [OF assms(3)]
  case (Expire w u w' m bytes)
  then show ?thesis using expire_undisturbed [OF Expire(3) assms(2)] i by (simp add: undisturbed_def)
next
  note i = all_installed_files [OF assms(3)]
  case (Answer bytes w u w' m)
  then show ?thesis using answer_installed [OF Answer(3) assms(2)] i by simp
next
  case (Power_loss f w s k)
  then show ?thesis using assms(3) by (auto simp: all_installed_def moments_def)
next
  case (Others g w s k)
  then show ?thesis using assms(3) others_same [OF Others(3)] by (auto simp: all_installed_def moments_def)
qed

lemma reachable_installed:
  assumes "netd_reachable N w0 a" and "lawful (codec (env_of N))" and "installed (codec (env_of N)) (files w0)"
  shows "all_installed (codec (env_of N)) (fst a)"
  using assms(1)
proof induction
  case Installed
  then show ?case using assms(3) by (simp add: all_installed_def moments_def)
next
  case (Step a b)
  then show ?case using step_installed assms(2) by blast
qed

text \<open>
  C1. An owned appliance always has an Accepted state to boot from. From any state in which
  there is one, whatever requests come, whatever programs and file operations fail, whenever
  deadlines pass and wherever power is lost, each file map a start could find has the ownership
  marker, a boot state, and at most one journal to recover from.
\<close>

theorem always_an_accepted_state:
  assumes "netd_reachable N w0 (w, s)" and "lawful (codec (env_of N))"
    and "files w0 BOOTSTRAPPED \<noteq> None" and "boot_state (codec (env_of N)) (files w0) \<noteq> None"
    and "files w0 APPLY_OPERATION = None \<or> files w0 APPLY_PREVIOUS = None"
  shows "\<forall>f \<in> set (files w # trail w). f BOOTSTRAPPED \<noteq> None
    \<and> (\<exists>st p t. boot_state (codec (env_of N)) f = Some (st, p, t))
    \<and> (f APPLY_OPERATION = None \<or> f APPLY_PREVIOUS = None)"
proof -
  have "installed (codec (env_of N)) (files w0)"
    using assms(3-5) by (simp add: installed_def boots_def single_journal_def)
  from reachable_installed [OF assms(1,2) this] show ?thesis
    by (simp add: all_installed_def moments_def installed_def boots_def single_journal_def)
qed

text \<open>When a step is asked for another Accepted state: by an administrator's request, or by the
  Host update's request to restore the network of before.\<close>

fun asked_to_change :: "'k netd_env \<Rightarrow> 'k world \<times> netd_stage \<Rightarrow> bool" where
  "asked_to_change N (w, Answering m bytes) = changing_request N bytes"
| "asked_to_change N (w, Off) = (files w RESTORE_PRE_UPDATE \<noteq> None)"
| "asked_to_change N (w, Networked asked staged) = asked"
| "asked_to_change N _ = False"

lemma restoration_not_asked:
  "run_state (restoration_asked E) w = (r, w') \<Longrightarrow> files w RESTORE_PRE_UPDATE = None \<Longrightarrow> w' = w"
  by (auto simp: restoration_asked_def file_exists_def split: if_splits)

lemma unasked_step:
  assumes "netd_step N a b" and "lawful (codec (env_of N))" and "installed (codec (env_of N)) (files (fst a))"
    and "\<not> asked_to_change N a"
  shows "\<forall>f \<in> moments (fst b). f \<in> moments (fst a)
    \<or> refreshed (boot_state (codec (env_of N)) (files (fst a))) (boot_state (codec (env_of N)) f)"
  using assms(1)
proof cases
  case (Boot w asked staged w')
  then have "w' = new_process w" using restoration_not_asked [OF Boot(3)] assms(4) by simp
  then show ?thesis using Boot by (simp add: moments_def)
next
  case (Network w r w' asked staged)
  then show ?thesis using network_undisturbed [OF Network(3) assms(2)] assms(3) by (simp add: undisturbed_def unmoved_def)
next
  case (Restore asked staged w u w')
  then show ?thesis using assms(4) by (auto simp: moments_def)
next
  case (Listen w r w')
  then show ?thesis
    using mild_undisturbed [OF keeps_kept [OF calm_listen] Listen(3)] assms(3) by (simp add: undisturbed_def unmoved_def)
next
  case (Round m w r w')
  then show ?thesis using round_undisturbed [OF Round(3) assms(2)] assms(3) by (simp add: undisturbed_def unmoved_def)
next
  case (Poll w p w' m)
  then show ?thesis
    using mild_undisturbed [OF keeps_kept [OF same_asks] Poll(3)] assms(3) by (simp add: undisturbed_def unmoved_def)
next
  case (Expire w u w' m bytes)
  then show ?thesis using expire_undisturbed [OF Expire(3) assms(2)] assms(3) by (simp add: undisturbed_def unmoved_def)
next
  case (Answer bytes w u w' m)
  then show ?thesis using answer_undisturbed [OF Answer(3)] assms(3,4) by (simp add: undisturbed_def unmoved_def)
next
  case (Power_loss f w s k)
  then show ?thesis by (auto simp: moments_def)
next
  case (Others g w s k)
  then show ?thesis using others_same(1) [OF Others(3)] by (auto simp: moments_def)
qed

text \<open>
  The Accepted state changes only where it is asked for. In every reachable state, a step
  that is neither the answer to an apply, confirmation or restore request nor the restoration
  a Host update left a request for keeps the boot state at every moment, but for the addresses
  interfaces are found with; a power loss only goes back to a moment of the step before it.
\<close>

theorem changes_only_when_asked:
  assumes "netd_reachable N w0 (w, s)" and "netd_step N (w, s) (w', s')" and "lawful (codec (env_of N))"
    and "files w0 BOOTSTRAPPED \<noteq> None" and "boot_state (codec (env_of N)) (files w0) \<noteq> None"
    and "files w0 APPLY_OPERATION = None \<or> files w0 APPLY_PREVIOUS = None"
    and "\<not> asked_to_change N (w, s)"
  shows "\<forall>f \<in> set (files w' # trail w'). f \<in> set (files w # trail w)
    \<or> refreshed (boot_state (codec (env_of N)) (files w)) (boot_state (codec (env_of N)) f)"
proof -
  have "installed (codec (env_of N)) (files w0)"
    using assms(4-6) by (simp add: installed_def boots_def single_journal_def)
  from reachable_installed [OF assms(1,3) this] have "installed (codec (env_of N)) (files w)"
    using all_installed_files by simp
  from unasked_step [OF assms(2,3) _ assms(7)] this show ?thesis
    unfolding moments_def by simp
qed

end
