(* ===== verification/Accountability.thy ===== *)
theory Accountability
  imports Life
begin

text \<open>
  Who changed the Accepted state. Each change an answered request makes bears, in the
  attribution kept beside the Accepted state, the principal the request named.
\<close>

section \<open>Signed states\<close>

definition signed_by :: "codecs \<Rightarrow> principal option \<Rightarrow> principal option \<Rightarrow> durable_state option \<Rightarrow> bool" where
  "signed_by c applying confirming x \<longleftrightarrow>
     (\<exists>st p tt attribution. x = Some (st, p, Some tt) \<and> attribution_of_text c tt = Inr attribution
        \<and> attr_applying attribution = applying \<and> attr_confirming attribution = confirming)"

lemma signed_refreshed: "signed_by c a k x \<Longrightarrow> refreshed x y \<Longrightarrow> signed_by c a k y"
  by (cases y) (auto simp: signed_by_def)

definition answers_for :: "codecs \<Rightarrow> json \<Rightarrow> durable_state option \<Rightarrow> bool" where
  "answers_for c v x \<longleftrightarrow>
     request_op v \<in> {''apply_desired'', ''restore_previous''} \<and> signed_by c (get_principal c v ''applying'') None x
     \<or> request_op v = ''confirm_apply''
       \<and> (\<exists>applying who. get_principal c v ''confirming'' = Some who \<and> signed_by c applying (Some who) x)"

lemma answers_refreshed: "answers_for c v x \<Longrightarrow> refreshed x y \<Longrightarrow> answers_for c v y"
  unfolding answers_for_def using signed_refreshed by blast

definition answered_for :: "codecs \<Rightarrow> json \<Rightarrow> 'k world \<Rightarrow> 'k world \<Rightarrow> bool" where
  "answered_for c v w w' \<longleftrightarrow> (\<forall>f \<in> moments w'.
     refreshed (boot_state c (files w)) (boot_state c f) \<or> answers_for c v (boot_state c f))"

lemma unchanged_answered:
  "files w' = files w \<Longrightarrow> trail w' = [] \<Longrightarrow> answered_for c v w w'"
  by (simp add: answered_for_def moments_def)

lemma kept_answered:
  assumes "kept owned_paths w w'" and "trail w = []"
  shows "answered_for c v w w'"
proof -
  have "always journal_paths (\<lambda>f. boot_state c f = boot_state c (files w)) w'"
    using dur.kept_step [OF kept_fewer [OF owned_subset(1) assms(1)] always_of_trail [OF assms(2) refl]] by blast
  then show ?thesis unfolding answered_for_def moments_def always_trail by simp
qed

section \<open>Requests\<close>

lemma apply_signed:
  assumes "run_state (apply_desired_request E input base actor draft intent) w = (reply, w')"
    and "lawful (codec E)" and "trail w = []" and "f \<in> moments w'"
  shows "boot_state (codec E) f = boot_state (codec E) (files w) \<or> signed_by (codec E) actor None (boot_state (codec E) f)"
  using apply_desired_request_run [OF assms(1-3)]
proof
  assume "untouched reply w w'"
  then show ?thesis using untouched_trail [of reply w w' "codec E"] assms(3,4) by (auto simp: moments_def)
next
  assume "attempted_request (codec E) input base actor reply w w'"
  then obtain a p where a: "boot_state (codec E) (files w) = Some (old_state a)" "at_actor a = actor"
      "always journal_paths (either (codec E) a p) w'"
    unfolding attempted_request_def using ended_outcomes(3) by blast
  then have "either (codec E) a p (f |` journal_paths)"
    using assms(4) by (auto simp: always_def core_def moments_def)
  then show ?thesis
    using a lawful_attribution [OF assms(2)] by (fastforce simp: either_def new_state_def signed_by_def)
qed

lemma apply_answered:
  assumes "run_state (apply_desired_request E input base (get_principal (codec E) v ''applying'') draft intent) w1 = (reply, w')"
    and "lawful (codec E)" and "trail w1 = []" and "files w1 = files w"
    and "request_op v \<in> {''apply_desired'', ''restore_previous''}"
  shows "answered_for (codec E) v w w'"
  unfolding answered_for_def
proof
  fix f assume "f \<in> moments w'"
  from apply_signed [OF assms(1-3) this] assms(4,5)
  show "refreshed (boot_state (codec E) (files w)) (boot_state (codec E) f) \<or> answers_for (codec E) v (boot_state (codec E) f)"
    unfolding answers_for_def by (metis refreshed_refl)
qed

lemma confirm_signed:
  assumes "run_state (confirm_apply E v) w = (reply, w')" and "lawful (codec E)" and "trail w = []"
    and "request_op v = ''confirm_apply''"
  shows "answered_for (codec E) v w w'"
proof -
  let ?c = "codec E"
  have signed: "signed_by ?c (op_applying op) (Some who) z" if "confirmed ?c op st who z" for op st who z
    using that lawful_attribution [OF assms(2)] by (fastforce simp: confirmed_def signed_by_def)
  from confirm_apply_run [OF assms(1-3)]
  consider "unconfirmed reply ?c w w'"
    | op st who where "names_pending E v op st who"
        "\<forall>f \<in> set (files w' # trail w'). refreshed (boot_state ?c (files w)) (boot_state ?c f)
          \<or> (\<exists>z. confirmed ?c op st who z \<and> refreshed z (boot_state ?c f))"
    unfolding confirm_result_def by blast
  then show ?thesis
  proof cases
    case 1
    then show ?thesis by (simp add: unconfirmed_def answered_for_def moments_def)
  next
    case (2 op st who)
    have "get_principal ?c v ''confirming'' = Some who" using 2(1) by (simp add: names_pending_def)
    then have "answers_for ?c v (boot_state ?c f)" if "confirmed ?c op st who z" "refreshed z (boot_state ?c f)" for z f
      using signed_refreshed [OF signed [OF that(1)] that(2)] assms(4) unfolding answers_for_def by blast
    then show ?thesis using 2(2) unfolding answered_for_def moments_def by blast
  qed
qed

text \<open>The reads a restoration begins with, and what it comes to.\<close>

lemma restore_previous_cases:
  assumes "run_state (restore_previous_request E actor) w = (v, w')" and "trail w = []" and "files w BOOTSTRAPPED \<noteq> None"
  obtains (quiet) "files w' = files w" "trail w' = []"
  | (recovery) w1 r where "files w1 = files w" "trail w1 = []" "run_state (recover_interrupted_apply E) w1 = (r, w')"
  | (applied) w1 input base where "files w1 = files w" "trail w1 = []"
      "run_state (apply_desired_request E input base actor None Recovery_restore) w1 = (v, w')"
proof -
  obtain b w1 where 1: "run_state (recovery_pending E) w = (b, w1)" by fastforce
  obtain p w2 where 2: "run_state (pending_operation E) w1 = (p, w2)" by fastforce
  obtain a w3 where 3: "run_state (accepted_desired E) w2 = (a, w3)" by fastforce
  obtain t w4 where 4: "run_state (read_text E PREVIOUS_ACCEPTED) w3 = (t, w4)" by fastforce
  have k: "reads w w1" "reads w w2" "reads w w3" "reads w w4"
    using keepsD [OF reads_recovery_pending 1] keepsD [OF reads_pending_operation 2]
      keepsD [OF reads_accepted_desired 3] keepsD [OF reads_read_text 4] reads.trans by blast+
  note f = k [THEN reads_fresh]
  show ?thesis
  proof (cases b)
    case True
    obtain n w5 where 5: "run_state (recover_interrupted_apply E) w1 = (n, w5)" by fastforce
    have "w' = w5"
      using assms(1,3) 1 5 True by (auto simp: restore_previous_request_def file_exists_def split: prod.splits)
    then show ?thesis using recovery [of w1 n] 5 f assms(2) by simp
  next
    case False
    then consider "w' \<in> {w2, w3}" | current where "run_state (restore_predecessor_of E actor current) w3 = (v, w')"
      using assms(1,3) 1 2 3
      by (auto simp: restore_previous_request_def file_exists_def split: if_splits sum.splits)
    then show ?thesis
    proof cases
      case 1
      then show ?thesis using quiet f assms(2) by auto
    next
      case (2 current)
      then consider "w' = w4" | input where
          "run_state (apply_desired_request E input (Some (revision current)) actor None Recovery_restore) w4 = (v, w')"
        using 4 by (auto simp: restore_predecessor_of_def split: sum.splits option.splits if_splits)
      then show ?thesis using quiet applied [of w4] f assms(2) by cases auto
    qed
  qed
qed

lemma restore_previous_signed:
  assumes "run_state (restore_previous_request E (get_principal (codec E) v ''applying'')) w = (reply, w')"
    and "lawful (codec E)" and "trail w = []" and "installed (codec E) (files w)" and "request_op v = ''restore_previous''"
  shows "answered_for (codec E) v w w'"
proof -
  have owned: "files w BOOTSTRAPPED \<noteq> None" using assms(4) by (simp add: installed_def)
  show ?thesis
  proof (rule restore_previous_cases [OF assms(1,3) owned])
    assume "files w' = files w" "trail w' = []"
    then show ?thesis by (rule unchanged_answered)
  next
    fix w1 r assume w1: "files w1 = files w" "trail w1 = []" and r: "run_state (recover_interrupted_apply E) w1 = (r, w')"
    have "resting (boot_state (codec E) (files w)) (codec E) w1"
      using resting_start [of w1 "codec E"] w1 assms(4) by (simp add: installed_def)
    from resting_unmoved [OF resting_recover [OF r assms(2) this]]
    show ?thesis by (simp add: unmoved_def answered_for_def)
  next
    fix w1 input base assume w1: "files w1 = files w" "trail w1 = []"
      and r: "run_state (apply_desired_request E input base (get_principal (codec E) v ''applying'') None Recovery_restore) w1 = (reply, w')"
    show ?thesis by (rule apply_answered [OF r assms(2) w1(2,1)]) (simp add: assms(5))
  qed
qed

lemma handle_cmd_signed:
  assumes "run_state (handle_cmd N v) w = (r, w')" and "lawful (codec (env_of N))" and "trail w = []"
    and "installed (codec (env_of N)) (files w)"
  shows "answered_for (codec (env_of N)) v w w'"
proof -
  let ?E = "env_of N"
  have owned: "files w BOOTSTRAPPED \<noteq> None" using assms(4) by (simp add: installed_def)
  consider (confirm) "request_op v = ''confirm_apply''" | (previous) "request_op v = ''restore_previous''"
    | (applying) "request_op v = ''apply_desired''" | (other) "request_op v \<notin> changing"
    by (auto simp: changing_def)
  then show ?thesis
  proof cases
    case confirm
    then have "run_state (confirm_apply ?E v) w = (r, w')"
      using assms(1) by (simp add: handle_cmd_def request_op_def Let_def)
    from confirm_signed [OF this assms(2,3) confirm] show ?thesis .
  next
    case previous
    then have "run_state (restore_previous_request ?E (get_principal (codec ?E) v ''applying'')) w = (r, w')"
      using assms(1) by (simp add: handle_cmd_def request_op_def Let_def)
    from restore_previous_signed [OF this assms(2-4) previous] show ?thesis .
  next
    case applying
    then have a: "run_state (apply_request ?E v) w = (r, w')"
      using assms(1) by (simp add: handle_cmd_def request_op_def Let_def)
    show ?thesis
    proof (cases "get_u64 v ''base_revision''")
      case None
      then have "w' = w" using a by (auto simp: apply_request_def file_exists_def split: if_splits)
      then show ?thesis using unchanged_answered assms(3) by blast
    next
      case (Some base)
      then have "run_state (apply_desired_request ?E (jindex v ''desired'') (Some base) (get_principal (codec ?E) v ''applying'')
            (get_str v ''draft_version'') Ordinary) w = (r, w')"
        using a owned by (auto simp: apply_request_def file_exists_def)
      from apply_answered [OF this assms(2,3) refl] applying show ?thesis by simp
    qed
  next
    case other
    show ?thesis by (rule kept_answered [OF same_on_kept [OF handle_cmd_calm [OF owned other assms(1)]] assms(3)])
  qed
qed

section \<open>The life of the appliance\<close>

lemma answer_signed:
  assumes "run_state (answer_request N bytes) (fresh w) = (u, w')" and "lawful (codec (env_of N))"
    and "installed (codec (env_of N)) (files w)" and "f \<in> moments w'"
  shows "refreshed (boot_state (codec (env_of N)) (files w)) (boot_state (codec (env_of N)) f)
    \<or> (\<exists>v. json_of_text (codec (env_of N)) bytes = Inr v \<and> answers_for (codec (env_of N)) v (boot_state (codec (env_of N)) f))"
    (is "refreshed ?x (?b f) \<or> _")
proof (rule answer_cases [OF assms(1)])
  assume "w' = fresh w"
  then show ?thesis using assms(4) by (simp add: moments_def)
next
  fix v assume "run_state (answered N v) (fresh w) = ((), w')"
  from mild_undisturbed [OF keeps_kept [OF calm_answered] this assms(3)] assms(4)
  show ?thesis by (simp add: undisturbed_def unmoved_def)
next
  fix v r w1 assume j: "json_of_text (codec (env_of N)) bytes = Inr v"
    and h: "run_state (handle_cmd N v) (fresh w) = (r, w1)" and a: "run_state (answered N r) w1 = ((), w')"
  have s: "answered_for (codec (env_of N)) v (fresh w) w1"
    by (rule handle_cmd_signed [OF h assms(2)]) (use assms(3) in simp_all)
  have k: "kept owned_paths w1 w'" by (rule keepsD [OF keeps_kept [OF calm_answered] a])
  obtain g where g: "g \<in> moments w1" "?b f = ?b g"
  proof (cases "f \<in> moments w1")
    case False
    then have "\<forall>p \<in> owned_paths. f p = files w1 p" using k assms(4) by (auto simp: kept_def moments_def)
    from others_same(1) [OF this] show ?thesis by (intro that [of "files w1"]) (auto simp: moments_def)
  qed (use that in blast)
  then show ?thesis using s j unfolding answered_for_def by auto
qed


end
