(* ===== verification/Ra_Properties.thy ===== *)
theory Ra_Properties
  imports Ra
begin

text \<open>
  Router advertisements: the packets netd sends are well formed and read back, the resolvers it
  learns are exactly those of the well-formed options, each link keeps to its schedule, and the
  advertiser and the listener follow what they are configured for.
\<close>

section \<open>Options\<close>

text \<open>An option as RFC 4861 has it: its length byte counts units of eight bytes, itself included.\<close>

definition well_formed_option :: "u8 list \<Rightarrow> bool" where
  "well_formed_option opt \<longleftrightarrow> 8 \<le> length opt \<and> length opt = unat (opt ! 1) * 8"

definition ends_options :: "u8 list \<Rightarrow> bool" where
  "ends_options rest \<longleftrightarrow> length rest < 8 \<or> rest ! 1 = 0 \<or> length rest < unat (rest ! 1) * 8"

lemma walk_stops: "ends_options rest \<Longrightarrow> walk_options rest = []"
  by (subst walk_options.simps) (auto simp: ends_options_def Let_def unat_eq_zero)

lemma walk_one:
  assumes "well_formed_option opt"
  shows "walk_options (opt @ rest) = option_servers opt @ walk_options rest"
proof -
  have "unat ((opt @ rest) ! 1) * 8 = length opt" "length opt \<noteq> 0"
    using assms by (auto simp: well_formed_option_def nth_append)
  then show ?thesis using assms
    by (subst walk_options.simps) (auto simp: Let_def well_formed_option_def)
qed

lemma walk_all:
  "list_all well_formed_option opts \<Longrightarrow> ends_options rest \<Longrightarrow>
   walk_options (concat opts @ rest) = concat (map option_servers opts)"
  by (induction opts) (auto simp: walk_one walk_stops)

lemma chunks16_concat:
  "list_all (\<lambda>c. length c = 16) cs \<Longrightarrow> length rest < 16 \<Longrightarrow> chunks16 (concat cs @ rest) = cs"
  by (induction cs) (subst chunks16.simps, simp)+

text \<open>The RDNSS option of RFC 8106.\<close>

definition rdnss_option :: "u32 \<Rightarrow> u128 list \<Rightarrow> u8 list" where
  "rdnss_option lifetime servers =
     [RDNSS, of_nat (2 * length servers + 1), 0, 0] @ be_bytes 4 (unat lifetime)
     @ concat (map (\<lambda>s. be_bytes 16 (unat s)) servers)"

lemma be_words [simp]:
  "of_nat (be_value (be_bytes 16 (unat a))) = (a :: u128)"
  "of_nat (be_value (be_bytes 4 (unat v))) = (v :: u32)"
  "of_nat (be_value (be_bytes 2 (unat u))) = (u :: u16)"
  using unsigned_less [of a, where ?'a = nat] unsigned_less [of v, where ?'a = nat] unsigned_less [of u, where ?'a = nat]
  by (simp_all add: be_value_of_bytes)

lemma concat_lengths: "length (concat (map (\<lambda>s. be_bytes n (f s)) xs)) = n * length xs"
  by (induction xs) simp_all

lemma rdnss_option_servers:
  assumes "0 < length servers"
  shows "option_servers (rdnss_option lifetime servers) = map (\<lambda>s. (s, lifetime)) servers"
proof -
  have "chunks16 (concat (map (\<lambda>s. be_bytes 16 (unat s)) servers)) = map (\<lambda>s. be_bytes 16 (unat s)) servers"
    using chunks16_concat [of "map (\<lambda>s. be_bytes 16 (unat s)) servers" "[]"] by (simp add: list_all_iff)
  moreover have "drop 8 (rdnss_option lifetime servers) = concat (map (\<lambda>s. be_bytes 16 (unat s)) servers)"
      "take 4 (drop 4 (rdnss_option lifetime servers)) = be_bytes 4 (unat lifetime)"
      "hd (rdnss_option lifetime servers) = RDNSS" "length (rdnss_option lifetime servers) = 8 + 16 * length servers"
    by (simp_all add: rdnss_option_def concat_lengths)
  ultimately show ?thesis
    using assms by (cases servers) (simp_all add: option_servers_def o_def)
qed

lemma rdnss_option_well_formed:
  assumes "length servers \<le> 127"
  shows "well_formed_option (rdnss_option lifetime servers)"
proof -
  have "unat (of_nat (2 * length servers + 1) :: u8) = (2 * length servers + 1) mod 256"
    by (subst unat_of_nat) simp
  then have "unat (of_nat (2 * length servers + 1) :: u8) = 2 * length servers + 1"
    using assms by simp
  then show ?thesis by (simp add: well_formed_option_def rdnss_option_def concat_lengths)
qed

section \<open>What netd sends\<close>

lemma prefix_option_length [simp]: "length (prefix_option v p a) = 32"
  by (simp add: prefix_option_def)

lemma prefix_option_well_formed: "well_formed_option (prefix_option v p a)"
  by (simp add: well_formed_option_def prefix_option_def)

lemma prefix_option_servers [simp]: "option_servers (prefix_option v p a) = []"
  by (simp add: option_servers_def prefix_option_def RDNSS_def)

text \<open>What a host reads in a prefix option: prefix, valid and preferred lifetime.\<close>

definition read_prefix_option :: "u8 list \<Rightarrow> u128 \<times> u32 \<times> u32" where
  "read_prefix_option opt =
     (of_nat (be_value (drop 16 opt)), of_nat (be_value (take 4 (drop 4 opt))), of_nat (be_value (take 4 (drop 8 opt))))"

lemma read_prefix_option: "read_prefix_option (prefix_option v p a) = (a, v, p)"
  by (simp add: read_prefix_option_def prefix_option_def)

fun split_options :: "nat \<Rightarrow> u8 list \<Rightarrow> u8 list list" where
  "split_options 0 opts = []"
| "split_options (Suc n) opts =
     (if length opts < 8 \<or> opts ! 1 = 0 then []
      else take (unat (opts ! 1) * 8) opts # split_options n (drop (unat (opts ! 1) * 8) opts))"

text \<open>A host's reading of an advertisement: the router lifetime, the managed flag, and the
  prefix options among its options, of which a packet of \<open>n\<close> bytes has at most \<open>n\<close>.\<close>

definition read_advertisement :: "u8 list \<Rightarrow> u16 \<times> bool \<times> (u128 \<times> u32 \<times> u32) list" where
  "read_advertisement packet =
     (of_nat (be_value (take 2 (drop 6 packet))), packet ! 5 = 0x80,
      map read_prefix_option (filter (\<lambda>opt. hd opt = 3) (split_options (length packet) (drop 16 packet))))"

lemma split_options_concat:
  "list_all well_formed_option opts \<Longrightarrow> length opts \<le> n \<Longrightarrow> split_options n (concat opts) = opts"
proof (induction opts arbitrary: n)
  case Nil
  then show ?case by (cases n) auto
next
  case (Cons opt opts)
  then obtain k where n: "n = Suc k" by (cases n) auto
  have "unat ((opt @ concat opts) ! 1) * 8 = length opt" "(opt @ concat opts) ! 1 \<noteq> 0" "8 \<le> length opt"
    using Cons.prems by (auto simp: well_formed_option_def nth_append unat_eq_zero)
  then show ?case using Cons n by simp
qed

definition mac_options :: "u8 list option \<Rightarrow> u8 list list" where
  "mac_options mac = (case mac of Some m \<Rightarrow> [[1, 1] @ m] | None \<Rightarrow> [])"

lemma advertisement_options:
  "advertisement ps managed mac withdraw =
     advertisement_header managed withdraw
     @ concat (mac_options mac @ map (prefix_option (if withdraw then 0 else VALID_LIFETIME)
         (if withdraw then 0 else PREFERRED_LIFETIME)) ps)"
  by (simp add: advertisement_def mac_options_def Let_def split: option.splits)

lemma advertisement_header_length [simp]: "length (advertisement_header managed withdraw) = 16"
  by (simp add: advertisement_header_def)

lemma header_fields:
  "take 2 (drop 6 (advertisement_header managed withdraw)) = be_bytes 2 (unat (if withdraw then 0 else ROUTER_LIFETIME))"
  "advertisement_header managed withdraw ! 5 = (if managed then 0x80 else 0)"
  "hd (advertisement_header managed withdraw) = ROUTER_ADVERT" "advertisement_header managed withdraw \<noteq> []"
  by (simp_all add: advertisement_header_def)

lemma mac_options_well_formed:
  "(case mac of Some m \<Rightarrow> length m = 6 | None \<Rightarrow> True) \<Longrightarrow> list_all well_formed_option (mac_options mac)"
  by (auto simp: mac_options_def well_formed_option_def split: option.splits)

lemma mac_options_servers [simp]: "concat (map option_servers (mac_options mac)) = []"
  by (cases mac) (simp_all add: mac_options_def option_servers_def RDNSS_def)

text \<open>
  C22. Every advertisement reads back: a host that parses the packet finds the router lifetime of
  half an hour, or zero in a withdrawal, the managed flag, and exactly the LAN's prefixes with
  their lifetimes, and no resolver.
\<close>

theorem advertisement_round_trip:
  assumes "case mac of Some m \<Rightarrow> length m = 6 | None \<Rightarrow> True"
  shows "read_advertisement (advertisement prefixes managed mac withdraw) =
      (if withdraw then 0 else 1800, managed,
       map (\<lambda>p. (p, if withdraw then 0 else 3600, if withdraw then 0 else 1800)) prefixes)
    \<and> rdnss_servers (advertisement prefixes managed mac withdraw) = []"
proof -
  let ?opts = "mac_options mac @ map (prefix_option (if withdraw then 0 else VALID_LIFETIME)
         (if withdraw then 0 else PREFERRED_LIFETIME)) prefixes"
  let ?packet = "advertisement prefixes managed mac withdraw"
  have packet: "?packet = advertisement_header managed withdraw @ concat ?opts"
    by (rule advertisement_options)
  have wf: "list_all well_formed_option ?opts"
    using mac_options_well_formed [OF assms] by (auto simp: list_all_iff prefix_option_well_formed)
  have len: "length opts \<le> length (concat opts)" if "list_all well_formed_option opts" for opts
    using that by (induction opts) (auto simp: well_formed_option_def)
  have opts: "split_options (length ?packet) (drop 16 ?packet) = ?opts"
    using split_options_concat [OF wf, of "length ?packet"] len [OF wf] packet by simp
  have prefixes: "filter (\<lambda>opt. hd opt = 3) ?opts = map (prefix_option (if withdraw then 0 else VALID_LIFETIME)
         (if withdraw then 0 else PREFERRED_LIFETIME)) prefixes"
    by (induction prefixes) (auto simp: mac_options_def prefix_option_def split: option.splits)
  have life: "take 2 (drop 6 ?packet) = be_bytes 2 (unat (if withdraw then 0 else ROUTER_LIFETIME))"
      "?packet ! 5 = (if managed then 0x80 else 0)"
    unfolding packet by (simp_all add: header_fields nth_append)
  have "rdnss_servers ?packet = concat (map option_servers ?opts)"
    unfolding rdnss_servers_def using walk_all [OF wf, of "[]"] packet
    by (simp add: ends_options_def header_fields)
  also have "\<dots> = []" by (simp add: o_def)
  finally show ?thesis
    unfolding read_advertisement_def opts prefixes life be_words
    by (simp add: o_def read_prefix_option ROUTER_LIFETIME_def VALID_LIFETIME_def PREFERRED_LIFETIME_def)
qed

datatype router_option = Resolvers_option u32 "u128 list" | Other_option "u8 list"

definition option_bytes :: "router_option \<Rightarrow> u8 list" where
  "option_bytes opt = (case opt of Resolvers_option lifetime servers \<Rightarrow> rdnss_option lifetime servers | Other_option bs \<Rightarrow> bs)"

definition proper_option :: "router_option \<Rightarrow> bool" where
  "proper_option opt \<longleftrightarrow>
     (case opt of Resolvers_option _ servers \<Rightarrow> 0 < length servers \<and> length servers \<le> 127
      | Other_option bs \<Rightarrow> well_formed_option bs \<and> hd bs \<noteq> RDNSS)"

definition announced :: "router_option \<Rightarrow> (u128 \<times> u32) list" where
  "announced opt = (case opt of Resolvers_option lifetime servers \<Rightarrow> map (\<lambda>s. (s, lifetime)) servers | Other_option _ \<Rightarrow> [])"

lemma other_option_servers: "hd opt \<noteq> RDNSS \<Longrightarrow> option_servers opt = []"
  by (simp add: option_servers_def)

lemma proper_options:
  "list_all proper_option opts \<Longrightarrow> list_all well_formed_option (map option_bytes opts)
     \<and> concat (map option_servers (map option_bytes opts)) = concat (map announced opts)"
proof (induction opts)
  case (Cons opt opts)
  then show ?case
    by (cases opt) (simp_all add: proper_option_def option_bytes_def announced_def rdnss_option_well_formed
       rdnss_option_servers other_option_servers)
qed simp


section \<open>The schedule of one link\<close>

text \<open>The instants at which a link sends, polled at the given instants, with whether a
  solicitation was waiting.\<close>

fun link_sends :: "(nat \<times> bool) list \<Rightarrow> ra_link \<Rightarrow> nat list" where
  "link_sends [] l = []"
| "link_sends ((now, solicited) # polls) l =
     (if due now solicited l then now # link_sends polls (after_send now l) else link_sends polls l)"

text \<open>It is what the poll of the link does.\<close>

lemma poll_link_run:
  "fst (run_state (poll_link R now l) w) =
     (if due now (list_ex (\<lambda>p. is_solicitation (snd p)) (fst (waiting R (ra_socket l) (outside w)))) l
      then after_send now l else l)"
  by (simp add: poll_link_def was_solicited_def send_link_def run_asks split: prod.splits)

definition on_schedule :: "ra_link \<Rightarrow> bool" where
  "on_schedule l \<longleftrightarrow>
     (case last_sent l of None \<Rightarrow> True
      | Some s \<Rightarrow> s + seconds 1 \<le> next_unsolicited l \<and> next_unsolicited l \<le> s + seconds 30)"

lemma after_send_on_schedule: "on_schedule (after_send now l)" "last_sent (after_send now l) = Some now"
  by (simp_all add: after_send_def on_schedule_def INITIAL_INTERVAL_def UNSOLICITED_INTERVAL_def seconds_def Let_def)

lemma due_gap: "due now solicited l \<Longrightarrow> on_schedule l \<Longrightarrow> last_sent l = Some s \<Longrightarrow> s \<le> now \<Longrightarrow> s + seconds 1 \<le> now"
  by (auto simp: due_def on_schedule_def MIN_SOLICITED_GAP_def)

lemma link_sends_spaced:
  "on_schedule l \<Longrightarrow> sorted (map fst polls) \<Longrightarrow> (\<And>s t. last_sent l = Some s \<Longrightarrow> t \<in> fst ` set polls \<Longrightarrow> s \<le> t) \<Longrightarrow>
   sorted_wrt (\<lambda>s t. s + seconds 1 \<le> t) ((case last_sent l of None \<Rightarrow> [] | Some s \<Rightarrow> [s]) @ link_sends polls l)"
proof (induction polls arbitrary: l)
  case Nil
  then show ?case by (auto split: option.splits)
next
  case (Cons p polls)
  obtain now sol where p: "p = (now, sol)" by fastforce
  show ?case
  proof (cases "due now sol l")
    case False
    then show ?thesis using Cons p by auto
  next
    case True
    have later: "sorted_wrt (\<lambda>s t. s + seconds 1 \<le> t) (now # link_sends polls (after_send now l))"
      using Cons.IH [OF after_send_on_schedule(1), of now l] Cons.prems p after_send_on_schedule(2) [of now l] by auto
    show ?thesis
    proof (cases "last_sent l")
      case None
      then show ?thesis using later True p by simp
    next
      case (Some s)
      then have "s + seconds 1 \<le> now" using due_gap [OF True Cons.prems(1)] Cons.prems(3) p by auto
      then show ?thesis using later True p Some by auto
    qed
  qed
qed

lemma link_sends_often:
  "on_schedule l \<Longrightarrow> next_unsolicited l \<le> t0 \<or> last_sent l \<noteq> None \<Longrightarrow> sorted (map fst polls) \<Longrightarrow>
   \<forall>p \<in> set polls. t0 \<le> fst p \<Longrightarrow> p \<in> set polls \<Longrightarrow>
   \<exists>s \<in> set ((case last_sent l of None \<Rightarrow> [] | Some s \<Rightarrow> [s]) @ link_sends polls l). fst p < s + seconds 30 \<and> (s \<le> fst p \<or> last_sent l = Some s)"
proof (induction polls arbitrary: l)
  case (Cons q polls)
  obtain now sol where q: "q = (now, sol)" by fastforce
  show ?case
  proof (cases "due now sol l")
    case True
    show ?thesis
    proof (cases "p = q")
      case True
      then show ?thesis using q \<open>due now sol l\<close> by (auto simp: seconds_def)
    next
      case False
      then have "\<exists>s \<in> set (now # link_sends polls (after_send now l)). fst p < s + seconds 30 \<and> (s \<le> fst p \<or> s = now)"
        using Cons.IH [OF after_send_on_schedule(1), of now l] Cons.prems after_send_on_schedule(2) [of now l] by force
      moreover have "now \<le> fst p" using Cons.prems False q by auto
      ultimately show ?thesis using True q by auto
    qed
  next
    case False
    show ?thesis
    proof (cases "p = q")
      case True
      then have "now < next_unsolicited l" using False by (simp add: due_def)
      moreover have "t0 \<le> now" using Cons.prems q by simp
      ultimately obtain s where "last_sent l = Some s" "now < s + seconds 30"
        using Cons.prems by (auto simp: on_schedule_def)
      then show ?thesis using True q by auto
    next
      case False
      then show ?thesis using Cons q \<open>\<not> due now sol l\<close> by auto
    qed
  qed
qed simp

text \<open>
  C24. The schedule of a link holds for every sequence of polls, with or without solicitations:
  two advertisements are at least a second apart, and at every poll the last one is less than
  thirty seconds old.
\<close>

theorem advertisements_on_schedule:
  assumes "sorted (map fst polls)" and "\<forall>p \<in> set polls. opened \<le> fst p"
  shows "sorted_wrt (\<lambda>s t. s + seconds 1 \<le> t) (link_sends polls (new_link lan fd index mac opened))
    \<and> (\<forall>p \<in> set polls. \<exists>s \<in> set (link_sends polls (new_link lan fd index mac opened)). s \<le> fst p \<and> fst p < s + seconds 30)"
proof -
  have new: "on_schedule (new_link lan fd index mac opened)" "last_sent (new_link lan fd index mac opened) = None"
      "next_unsolicited (new_link lan fd index mac opened) = opened"
    by (simp_all add: on_schedule_def new_link_def)
  show ?thesis
    using link_sends_spaced [OF new(1) assms(1)] link_sends_often [OF new(1) _ assms] new(2,3) by fastforce
qed

section \<open>The advertiser follows the LANs\<close>

definition link_dev :: "ra_link \<Rightarrow> string" where
  "link_dev l = ra_dev (ra_lan_of l)"

lemma after_send_lan [simp]: "ra_lan_of (after_send now l) = ra_lan_of l"
  by (simp add: after_send_def Let_def)

lemma keep_links_run:
  "fst (run_state (collect (keep_link R lans now) ls) w) =
     filter (\<lambda>l. List.find (\<lambda>lan. ra_dev lan = link_dev l) lans = Some (ra_lan_of l)) ls"
proof (induction ls arbitrary: w)
  case (Cons l ls)
  have "fst (run_state (keep_link R lans now l) w) =
      (if List.find (\<lambda>lan. ra_dev lan = link_dev l) lans = Some (ra_lan_of l) then [l] else [])"
    by (simp add: keep_link_def send_link_def link_dev_def split: prod.splits)
  then show ?case using Cons.IH [of "snd (run_state (keep_link R lans now l) w)"]
    by (simp add: split_def)
qed simp

lemma open_link_lan: "run_state (open_link E R lan) w = (Inr l, w') \<Longrightarrow> ra_lan_of l = lan"
  by (auto simp: open_link_def run_tryE new_link_def split: if_splits prod.splits sum.splits)

lemma find_distinct: "distinct (map f xs) \<Longrightarrow> x \<in> set xs \<Longrightarrow> List.find (\<lambda>y. f y = f x) xs = Some x"
  by (induction xs) (auto simp: image_iff)

lemma find_member: "List.find p xs = Some x \<Longrightarrow> x \<in> set xs"
  by (induction xs) (auto split: if_splits)

definition follows :: "ra_lan list \<Rightarrow> advertiser \<Rightarrow> bool" where
  "follows lans a \<longleftrightarrow>
     distinct (map link_dev (ra_links a)) \<and> (\<forall>l \<in> set (ra_links a). ra_lan_of l \<in> set lans)"

definition grows :: "advertiser \<Rightarrow> advertiser \<Rightarrow> bool" where
  "grows a a' \<longleftrightarrow> set (ra_links a) \<subseteq> set (ra_links a')
     \<and> set (ra_failed a) \<subseteq> set (ra_failed a') \<union> link_dev ` set (ra_links a')"

definition attended :: "advertiser \<Rightarrow> string set" where
  "attended a = link_dev ` set (ra_links a) \<union> set (ra_failed a)"

lemma grows_refl: "grows a a"
  by (simp add: grows_def)

lemma grows_trans: "grows a b \<Longrightarrow> grows b c \<Longrightarrow> grows a c"
  unfolding grows_def by blast

lemma grows_attended: "grows a b \<Longrightarrow> attended a \<subseteq> attended b"
  unfolding grows_def attended_def by blast

text \<open>One LAN of the loop.\<close>

definition opened :: "ra_lan \<Rightarrow> ra_link res \<Rightarrow> advertiser \<Rightarrow> advertiser" where
  "opened lan r a =
     (case r of
        Inr l \<Rightarrow> a\<lparr> ra_links := ra_links a @ [l], ra_failed := filter (\<lambda>d. d \<noteq> ra_dev lan) (ra_failed a) \<rparr>
      | Inl _ \<Rightarrow> if ra_dev lan \<in> set (ra_failed a) then a else a\<lparr> ra_failed := ra_failed a @ [ra_dev lan] \<rparr>)"

lemma open_lans_step:
  "run_state (open_lans E R (lan # lans) a) w =
     (if ra_dev lan \<in> link_dev ` set (ra_links a) then run_state (open_lans E R lans a) w
      else (case run_state (open_link E R lan) w of (r, w1) \<Rightarrow> run_state (open_lans E R lans (opened lan r a)) w1))"
proof -
  have "list_ex (\<lambda>l. ra_dev (ra_lan_of l) = ra_dev lan) (ra_links a) \<longleftrightarrow> ra_dev lan \<in> link_dev ` set (ra_links a)"
    unfolding list_ex_iff link_dev_def image_iff by metis
  then show ?thesis by (auto simp: opened_def split: prod.splits sum.splits)
qed

lemma opened_grows: "(\<And>l. r = Inr l \<Longrightarrow> ra_lan_of l = lan) \<Longrightarrow> grows a (opened lan r a) \<and> ra_dev lan \<in> attended (opened lan r a)"
  by (cases r) (auto simp: opened_def grows_def attended_def link_dev_def)

lemma opened_follows:
  "follows all a \<Longrightarrow> lan \<in> set all \<Longrightarrow> ra_dev lan \<notin> link_dev ` set (ra_links a) \<Longrightarrow> (\<And>l. r = Inr l \<Longrightarrow> ra_lan_of l = lan) \<Longrightarrow>
   follows all (opened lan r a)"
proof (cases r)
  case (Inr l)
  assume a: "follows all a" "lan \<in> set all" "ra_dev lan \<notin> link_dev ` set (ra_links a)" "\<And>l. r = Inr l \<Longrightarrow> ra_lan_of l = lan"
  have l: "ra_lan_of l = lan" "link_dev l = ra_dev lan" using a(4) [OF Inr] by (simp_all add: link_dev_def)
  show ?thesis using a(1-3) l unfolding Inr opened_def follows_def by auto
qed (simp_all add: opened_def follows_def)

lemma open_lans_run:
  "run_state (open_lans E R lans a) w = (a', w') \<Longrightarrow> set lans \<subseteq> set all \<Longrightarrow> follows all a \<Longrightarrow>
   follows all a' \<and> grows a a' \<and> ra_dev ` set lans \<subseteq> attended a'"
proof (induction lans arbitrary: a w)
  case (Cons lan lans)
  show ?case
  proof (cases "ra_dev lan \<in> link_dev ` set (ra_links a)")
    case True
    then have "ra_dev lan \<in> attended a" by (simp add: attended_def)
    then show ?thesis using Cons.IH [of a w] Cons.prems True grows_attended [of a a'] by (auto simp: open_lans_step simp del: open_lans.simps)
  next
    case False
    obtain r w1 where 1: "run_state (open_link E R lan) w = (r, w1)" by fastforce
    have lan: "r = Inr l \<Longrightarrow> ra_lan_of l = lan" for l using 1 open_link_lan by blast
    have "run_state (open_lans E R lans (opened lan r a)) w1 = (a', w')"
      using Cons.prems(1) False 1 by (simp add: open_lans_step del: open_lans.simps)
    then have "follows all a' \<and> grows (opened lan r a) a' \<and> ra_dev ` set lans \<subseteq> attended a'"
      using Cons.IH opened_follows [OF Cons.prems(3) _ False lan] Cons.prems(2) by simp
    moreover have "grows a (opened lan r a)" "ra_dev lan \<in> attended (opened lan r a)"
      using opened_grows [of r lan a, OF lan] by simp_all
    ultimately show ?thesis using grows_trans grows_attended by auto blast
  qed
qed (simp add: grows_refl)

text \<open>
  Configuring the advertiser leaves it following the LANs: one link per device, each for one
  of the LANs that have a prefix, every such LAN advertised or its device noted as failed, and a
  link whose LAN has not changed is the one that was there, so its schedule goes on.
\<close>

theorem advertiser_follows_lans:
  assumes "run_state (configure_lans E R lans a) w = (a', w')"
    and "distinct (map ra_dev lans)" and "distinct (map link_dev (ra_links a))"
  shows "distinct (map link_dev (ra_links a'))
    \<and> (\<forall>l \<in> set (ra_links a'). ra_lan_of l \<in> set lans \<and> ra_prefixes (ra_lan_of l) \<noteq> [])
    \<and> (\<forall>lan \<in> set lans. ra_prefixes lan \<noteq> [] \<longrightarrow> lan \<in> ra_lan_of ` set (ra_links a') \<or> ra_dev lan \<in> set (ra_failed a'))
    \<and> (\<forall>l \<in> set (ra_links a). ra_lan_of l \<in> set lans \<longrightarrow> ra_prefixes (ra_lan_of l) \<noteq> [] \<longrightarrow> l \<in> set (ra_links a'))"
proof -
  let ?lans = "filter (\<lambda>lan. ra_prefixes lan \<noteq> []) lans"
  obtain now w1 where 1: "run_state (asks (instant R)) w = (now, w1)" by fastforce
  obtain kept w2 where 2: "run_state (collect (keep_link R ?lans now) (ra_links a)) w1 = (kept, w2)" by fastforce
  have kept: "kept = filter (\<lambda>l. List.find (\<lambda>lan. ra_dev lan = link_dev l) ?lans = Some (ra_lan_of l)) (ra_links a)"
    using keep_links_run [of R ?lans now "ra_links a" w1] 2 by simp
  have d: "distinct (map ra_dev ?lans)" using assms(2) by (simp add: distinct_map_filter)
  have "set kept \<subseteq> set (ra_links a)" "\<And>l. l \<in> set kept \<Longrightarrow> ra_lan_of l \<in> set ?lans"
    using kept by (auto dest: find_member)
  then have "follows ?lans (a\<lparr> ra_links := kept \<rparr>)"
    using assms(3) kept by (simp add: follows_def distinct_map_filter)
  moreover have "run_state (open_lans E R ?lans (a\<lparr> ra_links := kept \<rparr>)) w2 = (a', w')"
    using assms(1) 1 2 by (simp add: configure_lans_def Let_def)
  ultimately have a': "follows ?lans a'" "set kept \<subseteq> set (ra_links a')" "ra_dev ` set ?lans \<subseteq> attended a'"
    using open_lans_run [of E R ?lans "a\<lparr> ra_links := kept \<rparr>" w2 a' w' ?lans] by (simp_all add: grows_def)
  have stays: "l \<in> set kept" if "l \<in> set (ra_links a)" "ra_lan_of l \<in> set ?lans" for l
  proof -
    have "List.find (\<lambda>lan. ra_dev lan = link_dev l) ?lans = Some (ra_lan_of l)"
      using find_distinct [OF d that(2)] by (simp add: link_dev_def)
    then show ?thesis using that kept by simp
  qed
  have every: "lan \<in> ra_lan_of ` set (ra_links a') \<or> ra_dev lan \<in> set (ra_failed a')" if "lan \<in> set ?lans" for lan
  proof (cases "ra_dev lan \<in> set (ra_failed a')")
    case False
    moreover have "ra_dev lan \<in> attended a'" using a'(3) that by blast
    ultimately obtain l where l: "l \<in> set (ra_links a')" "ra_dev lan = ra_dev (ra_lan_of l)"
      unfolding attended_def link_dev_def by blast
    then have "ra_lan_of l = lan" using a'(1) d that by (auto simp: follows_def distinct_map inj_on_def)
    then show ?thesis using l(1) by blast
  qed simp
  show ?thesis using a' stays every by (auto simp: follows_def)
qed

section \<open>What the listener knows\<close>

text \<open>A history of received advertisements, and what they say of resolvers in order: the WAN, the
  resolver, the instant, the lifetime.\<close>

type_synonym received = "nat \<times> string \<times> u8 list"

definition after_history :: "received list \<Rightarrow> rdnss_listener" where
  "after_history hs = foldl (\<lambda>s (now, dp). learn now s dp) no_listener hs"

definition statements :: "received list \<Rightarrow> ((string \<times> u128) \<times> nat \<times> u32) list" where
  "statements hs = concat (map (\<lambda>(now, dev, packet). map (\<lambda>(s, l). ((dev, s), now, l)) (rdnss_servers packet)) hs)"

text \<open>The last statement on a resolver decides.\<close>

definition last_statement :: "((string \<times> u128) \<times> nat \<times> u32) list \<Rightarrow> string \<times> u128 \<Rightarrow> (nat \<times> u32) option" where
  "last_statement sts key = map_of (rev sts) key"

definition remembers :: "(string \<times> u128 \<times> nat) list \<Rightarrow> ((string \<times> u128) \<times> nat \<times> u32) list \<Rightarrow> bool" where
  "remembers learned sts \<longleftrightarrow>
     (\<forall>dev s e. (dev, s, e) \<in> set learned \<longleftrightarrow>
        (\<exists>now l. last_statement sts (dev, s) = Some (now, l) \<and> 0 < l \<and> e = now + seconds (unat l)))
     \<and> distinct (map (\<lambda>(dev, s, _). (dev, s)) learned)"

lemma last_statement_snoc:
  "last_statement (sts @ [(k, v)]) key = (if key = k then Some v else last_statement sts key)"
  by (simp add: last_statement_def)

lemma remembers_one:
  assumes "remembers learned sts"
  shows "remembers (learn_server dev now learned (s, l)) (sts @ [((dev, s), now, l)])"
proof -
  have "distinct (map (\<lambda>(dev, s, _). (dev, s)) (filter (\<lambda>(d, s', _). \<not> (d = dev \<and> s' = s)) learned))"
    using assms by (simp add: remembers_def distinct_map_filter)
  then have "distinct (map (\<lambda>(dev, s, _). (dev, s)) (learn_server dev now learned (s, l)))"
    by (auto simp: learn_server_def)
  moreover have "(d, s', e) \<in> set (learn_server dev now learned (s, l)) \<longleftrightarrow>
      (\<exists>n k. last_statement (sts @ [((dev, s), now, l)]) (d, s') = Some (n, k) \<and> 0 < k \<and> e = n + seconds (unat k))" for d s' e
    using assms by (auto simp: remembers_def learn_server_def last_statement_snoc)
  ultimately show ?thesis by (simp add: remembers_def)
qed

lemma remembers_packet:
  "remembers learned sts \<Longrightarrow>
   remembers (foldl (learn_server dev now) learned sls) (sts @ map (\<lambda>(s, l). ((dev, s), now, l)) sls)"
proof (induction sls arbitrary: learned sts)
  case (Cons sl sls)
  then show ?case using Cons.IH [OF remembers_one [OF Cons.prems]] by (cases sl) simp
qed simp

lemma remembers_history:
  "remembers (rdnss_learned s) sts \<Longrightarrow>
   remembers (rdnss_learned (foldl (\<lambda>s (now, dp). learn now s dp) s hs)) (sts @ statements hs)"
proof (induction hs arbitrary: s sts)
  case (Cons h hs)
  obtain now dev packet where h: "h = (now, dev, packet)" by (metis prod.exhaust)
  let ?new = "map (\<lambda>(s, l). ((dev, s), now, l)) (rdnss_servers packet)"
  have "remembers (rdnss_learned (learn now s (dev, packet))) (sts @ ?new)"
    using remembers_packet [OF Cons.prems, of dev now "rdnss_servers packet"] by (simp add: learn_def)
  moreover have "statements (h # hs) = ?new @ statements hs" by (simp add: h statements_def)
  ultimately show ?case using Cons.IH [of "learn now s (dev, packet)" "sts @ ?new"] h by simp
qed (simp add: statements_def)

text \<open>
  C25. The resolvers netd knows on a WAN are, at every instant, those whose last word in the
  advertisements received there was a lifetime that is not over; each is known once, a
  link-local one by its scoped name, and a lifetime of zero forgets it.
\<close>

theorem listener_knows_last_word:
  "set (known_servers t dev (after_history hs)) =
     {server_text dev s | s now l. last_statement (statements hs) (dev, s) = Some (now, l) \<and> 0 < l \<and> t < now + seconds (unat l)}
   \<and> distinct (map (\<lambda>(dev, s, _). (dev, s)) (rdnss_learned (after_history hs)))"
proof -
  have "remembers [] []" by (simp add: remembers_def last_statement_def)
  then have r: "remembers (rdnss_learned (after_history hs)) (statements hs)"
    using remembers_history [of no_listener "[]" hs] by (simp add: after_history_def no_listener_def)
  then have "(dev, s, e) \<in> set (rdnss_learned (after_history hs)) \<longleftrightarrow>
      (\<exists>now l. last_statement (statements hs) (dev, s) = Some (now, l) \<and> 0 < l \<and> e = now + seconds (unat l))" for s e
    by (simp add: remembers_def)
  then have "set (known_servers t dev (after_history hs)) =
      {server_text dev s | s now l. last_statement (statements hs) (dev, s) = Some (now, l) \<and> 0 < l \<and> t < now + seconds (unat l)}"
    unfolding known_servers_def by (fastforce simp: image_iff)
  then show ?thesis using r by (simp add: remembers_def)
qed

end
