(* ===== verification/Ra_Sample.thy ===== *)
theory Ra_Sample
  imports Ra_Properties Sample
begin

text \<open>The properties of router advertisements at concrete packets, polls and links.\<close>

section \<open>Instances\<close>

theorem advertisement_round_trip_witness:
  "read_advertisement (advertisement [1, 2] True (Some [1, 2, 3, 4, 5, 6]) False) = (1800, True, [(1, 3600, 1800), (2, 3600, 1800)])"
  using advertisement_round_trip [of "Some [1, 2, 3, 4, 5, 6]" "[1, 2]" True False] by simp


theorem advertisements_on_schedule_witness:
  "(\<exists>s \<in> set (link_sends [(5, False), (7, True)] (new_link \<lparr> ra_dev = ''lan'', ra_prefixes = [1], ra_managed = False \<rparr> 3 2 None 4)).
     s \<le> 7 \<and> 7 < s + seconds 30)"
proof -
  have "sorted (map fst [(5::nat, False), (7, True)])" "\<forall>p \<in> set [(5::nat, False), (7, True)]. 4 \<le> fst p" by simp_all
  from advertisements_on_schedule [OF this, of "\<lparr> ra_dev = ''lan'', ra_prefixes = [1], ra_managed = False \<rparr>" 3 2 None]
  show ?thesis by simp
qed

definition sample_radio :: "unit radio" where
  "sample_radio =
     \<lparr> link_index = (\<lambda>_ k. (2, k)), raw_socket = (\<lambda>k. (Inr 3, k)), set_socket = (\<lambda>_ _ k. (Inr (), k)),
       send_packet = (\<lambda>_ _ _ k. (Inr (), k)), waiting = (\<lambda>_ k. ([], k)), instant = (\<lambda>k. (4, k)) \<rparr>"

theorem advertiser_follows_lans_witness:
  "(let lan = \<lparr> ra_dev = ''lan'', ra_prefixes = [1], ra_managed = False \<rparr>;
        a = fst (run_state (configure_lans sample_env sample_radio [lan] no_advertiser) (sample_world sample_state)) in
    lan \<in> ra_lan_of ` set (ra_links a) \<or> ''lan'' \<in> set (ra_failed a))"
proof -
  let ?lan = "\<lparr> ra_dev = ''lan'', ra_prefixes = [1], ra_managed = False \<rparr>"
  obtain a w' where run: "run_state (configure_lans sample_env sample_radio [?lan] no_advertiser) (sample_world sample_state) = (a, w')" by fastforce
  have "distinct (map ra_dev [?lan])" "distinct (map link_dev (ra_links no_advertiser))"
    by (simp_all add: no_advertiser_def)
  from advertiser_follows_lans [OF run this]
  have "\<forall>lan \<in> set [?lan]. ra_prefixes lan \<noteq> [] \<longrightarrow> lan \<in> ra_lan_of ` set (ra_links a) \<or> ra_dev lan \<in> set (ra_failed a)"
    by blast
  then show ?thesis unfolding Let_def run by simp
qed

end
