(* ===== verification/Life_Sample.thy ===== *)
theory Life_Sample
  imports Accountability Confirm_Sample Identity_Sample Ra_Sample
begin

text \<open>The life of the sample appliance that keeps a previous revision: its first steps.\<close>

section \<open>The appliance\<close>

definition sample_netd :: "unit netd_env" where
  "sample_netd =
     \<lparr> accounts = sample_identity, radio_of = sample_radio, bind_socket = (\<lambda>k. (Inr (), k)),
       chown_socket = (\<lambda>_ k. (Inr (), k)), group_file = (\<lambda>k. (Some ''wheel:x:10:'', k)),
       poll_client = (\<lambda>k. (Timed_out, k)), answer_client = (\<lambda>_ k. (Inr (), k)) \<rparr>"

lemma sample_env_of: "env_of sample_netd = sample_env"
  by (simp add: env_of_def sample_netd_def)

lemma restore_path: "RESTORE_PRE_UPDATE \<notin> {DESIRED, PREVIOUS_ACCEPTED, BOOTSTRAPPED}"
  by code_simp

lemma kept_unrestored: "files kept_world RESTORE_PRE_UPDATE = None"
  using restore_path by (simp add: kept_world_def)

lemma kept_process: "new_process kept_world = kept_world" "fresh kept_world = kept_world"
  by (simp_all add: new_process_def fresh_def kept_world_def)

lemma sample_boots: "netd_step sample_netd (kept_world, Off) (kept_world, Asked False False)"
proof (rule Boot)
  show "run_state (restoration_asked (env_of sample_netd)) (new_process kept_world) = ((False, False), kept_world)"
    using kept_files(3) kept_unrestored kept_process by (auto simp: restoration_asked_def file_exists_def)
qed

lemma sample_off: "netd_reachable sample_netd kept_world (kept_world, Off)"
  using Installed [of sample_netd kept_world] by (simp add: kept_process)

definition started :: "unit res \<times> unit world" where
  "started = run_state (start_network sample_env) kept_world"

lemma sample_starts:
  "netd_step sample_netd (kept_world, Asked False False) (snd started, if is_ok (fst started) then Networked False False else Off)"
  by (rule Network) (simp add: sample_env_of started_def kept_process)

lemma kept_boot: "boot_state (codec (env_of sample_netd)) (files kept_world) \<noteq> None"
  using kept_files unary_toml by (simp add: sample_env_of boot_state_def desired_file_def)

theorem always_an_accepted_state_witness:
  "files (snd started) BOOTSTRAPPED \<noteq> None \<and> (\<exists>st p t. boot_state unary_codecs (files (snd started)) = Some (st, p, t))"
proof -
  note r = Step [OF Step [OF sample_off sample_boots] sample_starts]
  have "lawful (codec (env_of sample_netd))" by (simp add: sample_env_of unary_lawful)
  from always_an_accepted_state [OF r this kept_files(3) kept_boot] kept_files(4) show ?thesis
    by (simp add: sample_env_of)
qed


end
