(* ===== verification/Ui_Sections.thy ===== *)
theory Ui_Sections
  imports Lan_Text Identity Desired_Json
begin

text \<open>
  What the Web UI proposes (\<open>src/ui.rs\<close>): the sections of a Desired state its pages edit,
  how each is stored, the private draft, and what a draft becomes when it is saved,
  reconciled with a newer Accepted state, or imported. All of it is pure; \<open>Ui\<close> runs it.
\<close>

section \<open>Where a draft is kept\<close>

definition DRAFT_DIR :: string where "DRAFT_DIR = ''/var/lib/fwos/drafts''"

text \<open>\<open>Path::join\<close>\<close>

definition path_join :: "string \<Rightarrow> string \<Rightarrow> string" where
  "path_join a b =
     (if starts_with ''/'' b then b
      else if a = [] \<or> last a = CHR ''/'' then a @ b
      else a @ ''/'' @ b)"

definition hex_component :: "string \<Rightarrow> string" where
  "hex_component value = concat (map (\<lambda>c. hex_byte (of_nat (byte c))) value)"

definition draft_path :: "principal \<Rightarrow> string" where
  "draft_path p =
     path_join (path_join DRAFT_DIR (hex_component (prin_source p)))
       (hex_component (prin_subject p) @ ''.json'')"

section \<open>LAN services\<close>

record lan_services =
  services_prefix :: string
  services_pool :: string
  services_pd :: string

definition blank_to_none :: "string \<Rightarrow> string option" where
  "blank_to_none value = (let v = trim value in if v = [] then None else Some v)"

definition store_lan_services :: "desired_state \<Rightarrow> lan_services \<Rightarrow> desired_state" where
  "store_lan_services st s =
     st\<lparr> lan_prefix := blank_to_none (services_prefix s),
         dhcp_pool := blank_to_none (services_pool s),
         wan_pd := blank_to_none (services_pd s) \<rparr>"

section \<open>Interfaces\<close>

definition ipv4_network :: "string \<Rightarrow> (u32 \<times> nat) option" where
  "ipv4_network text = do {
     (address_text, bits_text) \<leftarrow> split_once (CHR ''/'') text;
     address \<leftarrow> parse_ipv4 address_text;
     bits \<leftarrow> parse_u8 bits_text;
     if 32 < bits then None else Some (address, bits) }"

definition dhcp_pool_inside :: "string \<Rightarrow> string \<Rightarrow> bool" where
  "dhcp_pool_inside prefix pool =
     (case ipv4_network prefix of
        None \<Rightarrow> False
      | Some (base, bits) \<Rightarrow>
          (case (case split_once (CHR ''-'') pool of Some p \<Rightarrow> p | None \<Rightarrow> (pool, pool)) of
             (first_text, last_text) \<Rightarrow>
               (case (parse_ipv4 (trim first_text), parse_ipv4 (trim last_text)) of
                  (Some low, Some high) \<Rightarrow>
                    low AND netmask bits = base AND netmask bits
                    \<and> high AND netmask bits = base AND netmask bits
                | _ \<Rightarrow> False)))"

definition ipv4_prefix_host :: "string \<Rightarrow> string option" where
  "ipv4_prefix_host prefix =
     (let os = octets_of (hd (split_on (CHR ''/'') prefix))
      in if length os \<noteq> 4 then None
         else Some (dotted (if os ! 3 = 0 then os[3 := 1] else os)))"

definition ipv4_network_prefix :: "string \<Rightarrow> string option" where
  "ipv4_network_prefix text = do {
     (address_text, bits_text) \<leftarrow> split_once (CHR ''/'') text;
     address \<leftarrow> parse_ipv4 address_text;
     bits \<leftarrow> parse_u8 bits_text;
     if 32 < bits then None
     else Some (show_ipv4 (address AND netmask bits) @ ''/'' @ show_nat bits) }"

text \<open>The LAN address the prefix follows: the one of the prefix's own host, or the first IPv4 one.\<close>

definition matched_address :: "string option \<Rightarrow> string list \<Rightarrow> string option" where
  "matched_address prefix addresses =
     Option.bind (Option.bind prefix ipv4_prefix_host) (\<lambda>host.
       List.find (starts_with (host @ ''/'')) addresses)"

definition has_ipv4 :: "string \<Rightarrow> bool" where
  "has_ipv4 address =
     (case split_once (CHR ''/'') address of Some (ip, _) \<Rightarrow> parse_ipv4 ip \<noteq> None | None \<Rightarrow> False)"

definition prefix_address :: "string option \<Rightarrow> string list \<Rightarrow> string option" where
  "prefix_address prefix addresses =
     (case matched_address prefix addresses of
        Some a \<Rightarrow> Some a
      | None \<Rightarrow> List.find has_ipv4 addresses)"

definition sync_lan_prefix_from_first_lan :: "desired_state \<Rightarrow> desired_state" where
  "sync_lan_prefix_from_first_lan st =
     (case List.find (has_role ''lan'') (interfaces st) of
        None \<Rightarrow> st
      | Some lan \<Rightarrow>
          (case Option.bind (prefix_address (lan_prefix st) (iface_addresses lan)) ipv4_network_prefix of
             None \<Rightarrow> st
           | Some prefix \<Rightarrow>
               if lan_prefix st = Some prefix then st
               else st\<lparr> lan_prefix := Some prefix,
                        dhcp_pool := (case dhcp_pool st of
                            Some pool \<Rightarrow> if dhcp_pool_inside prefix pool then Some pool else None
                          | None \<Rightarrow> None) \<rparr>))"

text \<open>The IPv6 page owns how a WAN acquires IPv6: an interface edit keeps it.\<close>

definition keep_wan_ipv6 :: "iface list \<Rightarrow> iface \<Rightarrow> iface" where
  "keep_wan_ipv6 old i =
     (let prev = List.find (\<lambda>p. iface_name p = iface_name i) old in
      if has_role ''wan'' i
      then i\<lparr> ipv6 := Option.bind prev ipv6,
              request_pd := (case prev of Some p \<Rightarrow> request_pd p | None \<Rightarrow> False) \<rparr>
      else i\<lparr> ipv6 := None, request_pd := False \<rparr>)"

definition store_interface_section :: "desired_state \<Rightarrow> iface list \<Rightarrow> string list \<Rightarrow> desired_state" where
  "store_interface_section st ifs exposure =
     sync_lan_prefix_from_first_lan
       (st\<lparr> interfaces := map (keep_wan_ipv6 (interfaces st)) ifs, ui_exposure := exposure \<rparr>)"

section \<open>WireGuard\<close>

record wg_input =
  input_name :: string
  input_key :: string
  input_port :: "u16 option"
  input_addresses :: "string list"
  input_to :: string
  input_via :: string

definition redacted :: "wg \<Rightarrow> json" where
  "redacted t = JObj
     [(''name'', JStr (wg_name t)), (''listen_port'', jopt write_u16 (listen_port t)),
      (''addresses'', JArr (map JStr (wg_addresses t))), (''private_key_set'', JBool (private_key t \<noteq> []))]"

definition redacted_wireguard :: "wg list \<Rightarrow> json" where
  "redacted_wireguard ts = JArr (map redacted ts)"

text \<open>The routes of one tunnel: none, or one through it; half a route is an error.\<close>

definition tunnel_route :: "wg_input \<Rightarrow> static_route list res" where
  "tunnel_route t =
     (let to = trim (input_to t); gw = trim (input_via t) in
      if (to = []) \<noteq> (gw = [])
      then Inl (''WireGuard '' @ input_name t @ '' route needs both a destination and a next hop'')
      else Inr (if to = [] then [] else [\<lparr> route_to = to, via = gw, route_dev = Some (input_name t) \<rparr>]))"

definition edit_tunnel :: "wg_input \<Rightarrow> wg \<Rightarrow> wg" where
  "edit_tunnel t old =
     old\<lparr> private_key := (if trim (input_key t) \<noteq> [] then input_key t else private_key old),
          listen_port := (if input_port t \<noteq> None then input_port t else listen_port old),
          wg_addresses := (if input_addresses t \<noteq> [] then input_addresses t else wg_addresses old) \<rparr>"

definition new_tunnel :: "wg_input \<Rightarrow> wg" where
  "new_tunnel t =
     \<lparr> wg_name = input_name t, private_key = input_key t, listen_port = input_port t,
       wg_addresses = input_addresses t \<rparr>"

definition put_tunnel :: "wg_input \<Rightarrow> wg list \<Rightarrow> wg list" where
  "put_tunnel t ts =
     (if list_ex (\<lambda>x. wg_name x = input_name t) ts
      then update_first (\<lambda>x. wg_name x = input_name t) (edit_tunnel t) ts
      else ts @ [new_tunnel t])"

fun store_tunnels :: "wg_input list \<Rightarrow> wg list \<Rightarrow> static_route list \<Rightarrow> (wg list \<times> static_route list) res" where
  "store_tunnels [] next rs = Inr (next, rs)"
| "store_tunnels (t # ts) next rs =
     bindE (tunnel_route t) (\<lambda>new. store_tunnels ts (put_tunnel t next) (rs @ new))"

definition put_route :: "static_route \<Rightarrow> static_route list \<Rightarrow> static_route list" where
  "put_route r rs =
     filter (\<lambda>x. \<not> (route_to x = route_to r \<and> route_dev x = route_dev r)) rs @ [r]"

definition store_wireguard :: "desired_state \<Rightarrow> wg_input list \<Rightarrow> wg list \<Rightarrow> desired_state res" where
  "store_wireguard st ts preserved =
     bindE (store_tunnels ts preserved []) (\<lambda>(next, new).
       Inr (st\<lparr> wireguard := next, routes := fold put_route new (routes st) \<rparr>))"

section \<open>Queueing disciplines and IPv6\<close>

definition put_qdisc :: "qdisc \<Rightarrow> qdisc list \<Rightarrow> qdisc list" where
  "put_qdisc q qs =
     (if list_ex (\<lambda>x. qdisc_dev x = qdisc_dev q) qs
      then update_first (\<lambda>x. qdisc_dev x = qdisc_dev q) (\<lambda>x. x\<lparr> kind := kind q \<rparr>) qs
      else qs @ [q])"

definition store_qdiscs :: "desired_state \<Rightarrow> qdisc list \<Rightarrow> desired_state res" where
  "store_qdiscs st qs =
     thenE (eachE (\<lambda>q. failIf (trim (qdisc_dev q) = [] \<or> trim (kind q) = [])
                    ''qdisc needs an interface and a kind'') qs)
       (Inr (st\<lparr> qdiscs := fold put_qdisc qs (qdiscs st) \<rparr>))"

record wan_ipv6 =
  wan_name :: string
  wan_mode :: string
  wan_request_pd :: bool

definition wan_ipv6_settings :: "desired_state \<Rightarrow> wan_ipv6 list" where
  "wan_ipv6_settings st =
     map (\<lambda>i. \<lparr> wan_name = iface_name i,
                wan_mode = (case ipv6 i of Some m \<Rightarrow> m | None \<Rightarrow> ''static''),
                wan_request_pd = request_pd i \<rparr>)
       (filter (has_role ''wan'') (interfaces st))"

definition is_wan_named :: "string \<Rightarrow> iface \<Rightarrow> bool" where
  "is_wan_named n i \<longleftrightarrow> iface_name i = n \<and> has_role ''wan'' i"

definition set_wan :: "wan_ipv6 \<Rightarrow> iface \<Rightarrow> iface" where
  "set_wan s i =
     i\<lparr> ipv6 := (if wan_mode s = ''static'' \<or> wan_mode s = [] then None else Some (wan_mode s)),
        request_pd := wan_request_pd s \<rparr>"

fun set_wans :: "wan_ipv6 list \<Rightarrow> iface list \<Rightarrow> iface list res" where
  "set_wans [] ifs = Inr ifs"
| "set_wans (s # ss) ifs =
     (if list_ex (is_wan_named (wan_name s)) ifs
      then set_wans ss (update_first (is_wan_named (wan_name s)) (set_wan s) ifs)
      else Inl (wan_name s @ '' is not a WAN''))"

definition store_ipv6 :: "desired_state \<Rightarrow> wan_ipv6 list \<Rightarrow> desired_state res" where
  "store_ipv6 st ss = bindE (set_wans ss (interfaces st)) (\<lambda>ifs. Inr (st\<lparr> interfaces := ifs \<rparr>))"

section \<open>Drafts\<close>

record draft =
  draft_base :: u64
  draft_tag :: string
  draft_desired :: desired_state
  draft_sections :: "string list"
  wireguard_edits :: "string list"

text \<open>The eight sections a request may carry.\<close>

record section_values =
  new_routes :: "static_route list option"
  new_interfaces :: "iface list option"
  new_exposure :: "string list option"
  new_services :: "lan_services option"
  new_firewall :: "string list option"
  new_wireguard :: "wg_input list option"
  new_qdiscs :: "qdisc list option"
  new_ipv6 :: "wan_ipv6 list option"

definition effective_sections :: "draft \<Rightarrow> string list" where
  "effective_sections d = (if draft_sections d = [] then [''routes''] else draft_sections d)"

definition remember_section :: "string \<Rightarrow> string list \<Rightarrow> string list" where
  "remember_section name ss = (if name \<in> set ss then ss else ss @ [name])"

definition no_sections :: "section_values \<Rightarrow> bool" where
  "no_sections c \<longleftrightarrow>
     new_routes c = None \<and> new_interfaces c = None \<and> new_exposure c = None \<and> new_services c = None
     \<and> new_firewall c = None \<and> new_wireguard c = None \<and> new_qdiscs c = None \<and> new_ipv6 c = None"

definition adds_route :: "wg_input \<Rightarrow> bool" where
  "adds_route t \<longleftrightarrow> trim (input_to t) \<noteq> [] \<and> trim (input_via t) \<noteq> []"

type_synonym sectioned = "desired_state \<times> string list"

text \<open>One section of a saved draft: stored, and remembered.\<close>

definition drafted ::
    "'a option \<Rightarrow> string \<Rightarrow> (desired_state \<Rightarrow> 'a \<Rightarrow> desired_state res) \<Rightarrow> sectioned \<Rightarrow> sectioned res" where
  "drafted value name store s =
     (case value of
        None \<Rightarrow> Inr s
      | Some v \<Rightarrow> bindE (store (fst s) v) (\<lambda>st. Inr (st, remember_section name (snd s))))"

definition draft_interfaces :: "section_values \<Rightarrow> sectioned \<Rightarrow> sectioned res" where
  "draft_interfaces c s =
     (case (new_interfaces c, new_exposure c) of
        (None, None) \<Rightarrow> Inr s
      | (Some ifs, Some exposure) \<Rightarrow>
          Inr (store_interface_section (fst s) ifs exposure, remember_section ''interfaces'' (snd s))
      | _ \<Rightarrow> Inl ''interfaces and ui_exposure are saved together'')"

definition draft_wireguard :: "section_values \<Rightarrow> sectioned \<Rightarrow> sectioned res" where
  "draft_wireguard c s =
     bindE (drafted (new_wireguard c) ''wireguard'' (\<lambda>st v. store_wireguard st v (wireguard st)) s) (\<lambda>s.
       Inr (if (case new_wireguard c of Some ts \<Rightarrow> list_ex adds_route ts | None \<Rightarrow> False)
            then (fst s, remember_section ''routes'' (snd s)) else s))"

definition apply_draft_sections :: "section_values \<Rightarrow> sectioned \<Rightarrow> sectioned res" where
  "apply_draft_sections c s =
     (if no_sections c then Inl ''invalid draft change''
      else bindE (drafted (new_routes c) ''routes'' (\<lambda>st v. Inr (st\<lparr> routes := v \<rparr>)) s) (\<lambda>s.
           bindE (draft_interfaces c s) (\<lambda>s.
           bindE (drafted (new_services c) ''services'' (\<lambda>st v. Inr (store_lan_services st v)) s) (\<lambda>s.
           bindE (drafted (new_firewall c) ''firewall'' (\<lambda>st v. Inr (st\<lparr> nft_extra := v \<rparr>)) s) (\<lambda>s.
           bindE (draft_wireguard c s) (\<lambda>s.
           bindE (drafted (new_qdiscs c) ''qdiscs'' store_qdiscs s) (\<lambda>s.
                 drafted (new_ipv6 c) ''ipv6'' store_ipv6 s)))))))"

text \<open>One section of a reviewed draft: required when the draft has it, ignored otherwise.\<close>

definition reviewed ::
    "string list \<Rightarrow> string \<Rightarrow> 'a option \<Rightarrow> string \<Rightarrow> (desired_state \<Rightarrow> 'a \<Rightarrow> desired_state res)
     \<Rightarrow> desired_state \<Rightarrow> desired_state res" where
  "reviewed ss name value missing store st =
     (if name \<notin> set ss then Inr st
      else case value of None \<Rightarrow> Inl missing | Some v \<Rightarrow> store st v)"

definition both :: "'a option \<Rightarrow> 'b option \<Rightarrow> ('a \<times> 'b) option" where
  "both x y = (case (x, y) of (Some a, Some b) \<Rightarrow> Some (a, b) | _ \<Rightarrow> None)"

type_synonym review = "string list \<Rightarrow> section_values \<Rightarrow> desired_state \<Rightarrow> desired_state res"

definition review_routes :: review where
  "review_routes ss c =
     reviewed ss ''routes'' (new_routes c) ''Draft routes changed; review them again''
       (\<lambda>st v. Inr (st\<lparr> routes := v \<rparr>))"

definition review_interfaces :: review where
  "review_interfaces ss c =
     reviewed ss ''interfaces'' (both (new_interfaces c) (new_exposure c)) ''Draft interfaces changed; review them again''
       (\<lambda>st v. Inr (store_interface_section st (fst v) (snd v)))"

definition review_services :: review where
  "review_services ss c =
     reviewed ss ''services'' (new_services c) ''Draft LAN services changed; review them again''
       (\<lambda>st v. Inr (store_lan_services st v))"

definition review_firewall :: review where
  "review_firewall ss c =
     reviewed ss ''firewall'' (new_firewall c) ''Draft firewall policy changed; review it again''
       (\<lambda>st v. Inr (st\<lparr> nft_extra := v \<rparr>))"

definition review_wireguard :: review where
  "review_wireguard ss c =
     reviewed ss ''wireguard'' (new_wireguard c) ''Draft WireGuard changed; review it again''
       (\<lambda>st v. store_wireguard st v (wireguard st))"

definition review_qdiscs :: review where
  "review_qdiscs ss c =
     reviewed ss ''qdiscs'' (new_qdiscs c) ''Draft qdiscs changed; review them again''
       store_qdiscs"

definition review_ipv6 :: review where
  "review_ipv6 ss c =
     reviewed ss ''ipv6'' (new_ipv6 c) ''Draft IPv6 settings changed; review them again''
       store_ipv6"

definition apply_reviewed_sections :: review where
  "apply_reviewed_sections ss c st =
     bindE (review_routes ss c st) (\<lambda>st.
     bindE (review_interfaces ss c st) (\<lambda>st.
     bindE (review_services ss c st) (\<lambda>st.
     bindE (review_firewall ss c st) (\<lambda>st.
     bindE (review_wireguard ss c st) (\<lambda>st.
     bindE (review_qdiscs ss c st) (\<lambda>st.
       review_ipv6 ss c st))))))"

section \<open>Reconciliation\<close>

definition edited_tunnel :: "draft \<Rightarrow> string \<Rightarrow> bool" where
  "edited_tunnel d name \<longleftrightarrow> wireguard_edits d = [] \<or> name \<in> set (wireguard_edits d)"

definition carry_tunnel :: "wg \<Rightarrow> wg list \<Rightarrow> wg list" where
  "carry_tunnel t ts =
     (if list_ex (\<lambda>x. wg_name x = wg_name t) ts
      then update_first (\<lambda>x. wg_name x = wg_name t) (\<lambda>_. t) ts
      else ts @ [t])"

definition carry_wireguard_edits :: "desired_state \<Rightarrow> draft \<Rightarrow> desired_state" where
  "carry_wireguard_edits st d =
     st\<lparr> wireguard :=
           fold (\<lambda>t ts. if edited_tunnel d (wg_name t) then carry_tunnel t ts else ts)
             (wireguard (draft_desired d)) (wireguard st) \<rparr>"

definition keep_edited :: "draft \<Rightarrow> section_values \<Rightarrow> section_values" where
  "keep_edited d c =
     c\<lparr> new_wireguard := map_option (filter (\<lambda>t. edited_tunnel d (input_name t))) (new_wireguard c) \<rparr>"

definition reconciled_desired :: "draft \<Rightarrow> desired_state \<Rightarrow> section_values \<Rightarrow> desired_state res" where
  "reconciled_desired d base c =
     (let ss = effective_sections d in
      if ''import'' \<in> set ss then Inr ((draft_desired d)\<lparr> revision := revision base \<rparr>)
      else if ''wireguard'' \<in> set ss
      then apply_reviewed_sections ss (keep_edited d c) (carry_wireguard_edits base d)
      else apply_reviewed_sections ss c base)"

section \<open>Export and import\<close>

definition EXPORT_FORMAT :: string where "EXPORT_FORMAT = ''fwos-network-desired-state''"

definition EXPORT_WARNING :: string where
  "EXPORT_WARNING =
     ''# SENSITIVE: plaintext FWOS network Desired state export.'' @ nl
     @ ''# It contains network secrets such as WireGuard private keys; store it like a password.'' @ nl
     @ ''# It contains no administrator accounts, passwords, or Authentication settings.'' @ nl"

record network_export =
  export_format :: string
  export_version :: u32
  export_desired :: desired_state

text \<open>\<open>toml\<close> of the export file, and \<open>age\<close> with a passphrase.\<close>

record export_codec =
  text_of_export :: "network_export \<Rightarrow> string res"
  export_of_text :: "string \<Rightarrow> network_export res"
  age_decrypt :: "string \<Rightarrow> string \<Rightarrow> string res"

definition network_export :: "export_codec \<Rightarrow> desired_state \<Rightarrow> string res" where
  "network_export C st =
     (case text_of_export C \<lparr> export_format = EXPORT_FORMAT, export_version = 1, export_desired = st \<rparr> of
        Inl _ \<Rightarrow> Inl ''encode network export''
      | Inr body \<Rightarrow> Inr (EXPORT_WARNING @ body))"

definition parse_network_export :: "export_codec \<Rightarrow> string \<Rightarrow> desired_state res" where
  "parse_network_export C s =
     (case export_of_text C s of
        Inl e \<Rightarrow> Inl (''invalid network export: '' @ e)
      | Inr file \<Rightarrow>
          if export_format file \<noteq> EXPORT_FORMAT \<or> export_version file \<noteq> 1
          then Inl ''not an FWOS network Desired state export (format version 1)''
          else Inr (export_desired file))"

definition text_start :: "string \<Rightarrow> string" where
  "text_start s = concat (dropWhile white_space (utf8_chars s))"

definition is_encrypted_export :: "string \<Rightarrow> bool" where
  "is_encrypted_export s \<longleftrightarrow>
     starts_with ''-----BEGIN AGE ENCRYPTED FILE-----'' (text_start s)
     \<or> starts_with ''age-encryption.org/'' (text_start s)"

definition decode_network_import :: "export_codec \<Rightarrow> string \<Rightarrow> string option \<Rightarrow> desired_state res" where
  "decode_network_import C content passphrase =
     (if \<not> is_encrypted_export content then parse_network_export C content
      else case filled passphrase of
        None \<Rightarrow> Inl ''this export is encrypted; enter its passphrase''
      | Some p \<Rightarrow>
          (case age_decrypt C p (text_start content) of
             Inl _ \<Rightarrow> Inl ''wrong passphrase or damaged encrypted export''
           | Inr plain \<Rightarrow>
               if is_utf8 plain then parse_network_export C plain
               else Inl ''decrypted export is not a network export''))"

definition imported_draft :: "desired_state \<Rightarrow> u64 \<Rightarrow> string \<Rightarrow> draft" where
  "imported_draft st base tag =
     \<lparr> draft_base = base, draft_tag = tag, draft_desired = st\<lparr> revision := base \<rparr>,
       draft_sections = [''import''], wireguard_edits = map wg_name (wireguard st) \<rparr>"

end
