(* ===== verification/Ui_Drafts.thy ===== *)
theory Ui_Drafts
  imports Ui_Sections Identity_Properties
begin

text \<open>
  What a draft may change: a section that is not named in it stays as the state the draft
  started from (\<open>unchanged_but\<close>), through every save and through reconciliation with a newer
  Accepted state; tunnels keep the keys nobody replaced, and lists of them show no key.
\<close>

section \<open>The sections of a state\<close>

text \<open>A field is the same unless one of its sections is among those named.\<close>

definition same_unless :: "string list \<Rightarrow> string list \<Rightarrow> (desired_state \<Rightarrow> 'a) \<Rightarrow> desired_state \<Rightarrow> desired_state \<Rightarrow> bool" where
  "same_unless names ss f st st' \<longleftrightarrow> list_ex (\<lambda>n. n \<in> set ss) names \<or> f st' = f st"

lemma same_unless_refl: "same_unless names ss f st st"
  by (simp add: same_unless_def)

lemma same_unless_trans:
  "same_unless names ss f st st' \<Longrightarrow> same_unless names ss f st' st'' \<Longrightarrow> same_unless names ss f st st''"
  by (auto simp: same_unless_def)

lemma same_unless_more:
  "set ss \<subseteq> set ss' \<Longrightarrow> same_unless names ss f st st' \<Longrightarrow> same_unless names ss' f st st'"
  by (auto simp: same_unless_def list_ex_iff)

definition unchanged_but :: "string list \<Rightarrow> desired_state \<Rightarrow> desired_state \<Rightarrow> bool" where
  "unchanged_but ss st st' \<longleftrightarrow>
     same_unless [] ss revision st st' \<and> same_unless [] ss hostname st st'
     \<and> same_unless [] ss apply_confirmation st st'
     \<and> same_unless [''routes'', ''wireguard''] ss routes st st'
     \<and> same_unless [''wireguard''] ss wireguard st st'
     \<and> same_unless [''firewall''] ss nft_extra st st'
     \<and> same_unless [''qdiscs''] ss qdiscs st st'
     \<and> same_unless [''interfaces''] ss ui_exposure st st'
     \<and> same_unless [''interfaces'', ''ipv6''] ss interfaces st st'
     \<and> same_unless [''interfaces'', ''services''] ss lan_prefix st st'
     \<and> same_unless [''interfaces'', ''services''] ss dhcp_pool st st'
     \<and> same_unless [''services''] ss wan_pd st st'"

lemma unchanged_refl [simp]: "unchanged_but ss st st"
  by (simp add: unchanged_but_def same_unless_refl)

lemma unchanged_trans:
  "unchanged_but ss st st' \<Longrightarrow> unchanged_but ss st' st'' \<Longrightarrow> unchanged_but ss st st''"
  unfolding unchanged_but_def by (elim conjE, intro conjI) (erule (1) same_unless_trans)+

lemma unchanged_more: "set ss \<subseteq> set ss' \<Longrightarrow> unchanged_but ss st st' \<Longrightarrow> unchanged_but ss' st st'"
  unfolding unchanged_but_def by (elim conjE, intro conjI) (erule (1) same_unless_more)+

lemmas frame_simps = unchanged_but_def same_unless_def

section \<open>What each store changes\<close>

named_theorems stores \<open>the sections a store changes\<close>

lemma sync_frame:
  "unchanged_but [''services''] st (sync_lan_prefix_from_first_lan st)"
  by (auto simp: sync_lan_prefix_from_first_lan_def frame_simps split: option.splits)

lemma sync_keeps_pd: "wan_pd (sync_lan_prefix_from_first_lan st) = wan_pd st"
  by (auto simp: sync_lan_prefix_from_first_lan_def split: option.splits)

lemma store_interfaces_frame [stores]: "unchanged_but [''interfaces''] st (store_interface_section st ifs e)"
  using sync_frame [of "st\<lparr> interfaces := map (keep_wan_ipv6 (interfaces st)) ifs, ui_exposure := e \<rparr>"]
  by (simp add: store_interface_section_def frame_simps sync_keeps_pd)

lemma store_services_frame [stores]: "unchanged_but [''services''] st (store_lan_services st v)"
  by (simp add: store_lan_services_def frame_simps)

lemma store_wireguard_frame [stores]:
  "store_wireguard st ts p = Inr st' \<Longrightarrow> unchanged_but [''wireguard''] st st'"
  by (auto simp: store_wireguard_def bindE_ok frame_simps)

lemma store_qdiscs_frame [stores]: "store_qdiscs st qs = Inr st' \<Longrightarrow> unchanged_but [''qdiscs''] st st'"
  by (auto simp: store_qdiscs_def thenE_ok frame_simps)

lemma store_ipv6_frame [stores]: "store_ipv6 st v = Inr st' \<Longrightarrow> unchanged_but [''ipv6''] st st'"
  by (auto simp: store_ipv6_def bindE_ok frame_simps)

lemma store_routes_frame [stores]: "unchanged_but [''routes''] st (st\<lparr> routes := v \<rparr>)"
  by (simp add: frame_simps)

lemma store_firewall_frame [stores]: "unchanged_but [''firewall''] st (st\<lparr> nft_extra := v \<rparr>)"
  by (simp add: frame_simps)

text \<open>Tunnels without a route add none.\<close>

lemma tunnel_route_none: "tunnel_route t = Inr rs \<Longrightarrow> \<not> adds_route t \<Longrightarrow> rs = []"
  by (auto simp: tunnel_route_def adds_route_def Let_def split: if_splits)

lemma store_tunnels_routes:
  "store_tunnels ts old rs = Inr (old', rs') \<Longrightarrow> \<not> list_ex adds_route ts \<Longrightarrow> rs' = rs"
  by (induction ts arbitrary: old rs) (auto simp: bindE_ok dest: tunnel_route_none)

lemma store_wireguard_routes:
  "store_wireguard st ts p = Inr st' \<Longrightarrow> \<not> list_ex adds_route ts \<Longrightarrow> routes st' = routes st"
  by (auto simp: store_wireguard_def bindE_ok dest: store_tunnels_routes)

section \<open>Saving a draft\<close>

text \<open>What a draft on the state \<open>base\<close> keeps: its sections name every change, routes included.\<close>

definition covered :: "desired_state \<Rightarrow> sectioned \<Rightarrow> bool" where
  "covered base s \<longleftrightarrow>
     unchanged_but (snd s) base (fst s) \<and> (''routes'' \<in> set (snd s) \<or> routes (fst s) = routes base)"

lemma set_remember [simp]: "set (remember_section n ss) = insert n (set ss)"
  by (auto simp: remember_section_def)

lemma covered_step:
  assumes "covered base s" and "unchanged_but [n] (fst s) st'"
    and "set (snd s) \<subseteq> set ss'" and "n \<in> set ss'"
    and "''routes'' \<in> set ss' \<or> routes st' = routes (fst s)"
  shows "covered base (st', ss')"
proof -
  have "unchanged_but ss' base (fst s)"
    using assms(1,3) unchanged_more unfolding covered_def by blast
  moreover have "unchanged_but ss' (fst s) st'"
    by (rule unchanged_more [OF _ assms(2)]) (use assms(4) in simp)
  ultimately have "unchanged_but ss' base st'" by (rule unchanged_trans)
  then show ?thesis
    using assms(1,3,5) unfolding covered_def by auto
qed

lemma drafted_covered:
  assumes "drafted v n store s = Inr s'" and "covered base s"
    and "\<And>x st'. store (fst s) x = Inr st' \<Longrightarrow>
           unchanged_but [n] (fst s) st' \<and> (n = ''routes'' \<or> routes st' = routes (fst s))"
  shows "covered base s'"
proof (cases v)
  case None
  then show ?thesis using assms by (simp add: drafted_def)
next
  case (Some x)
  then obtain st' where "store (fst s) x = Inr st'" "s' = (st', remember_section n (snd s))"
    using assms(1) by (auto simp: drafted_def bindE_ok)
  then show ?thesis
    using assms(3) [of x st'] covered_step [OF assms(2), of n st' "remember_section n (snd s)"] by auto
qed

lemma draft_interfaces_covered:
  assumes "draft_interfaces c s = Inr s'" and "covered base s"
  shows "covered base s'"
proof (cases "s' = s")
  case False
  then obtain ifs e where "s' = (store_interface_section (fst s) ifs e, remember_section ''interfaces'' (snd s))"
    using assms(1) by (auto simp: draft_interfaces_def split: option.splits)
  moreover have "routes (store_interface_section (fst s) ifs e) = routes (fst s)"
    using store_interfaces_frame [of "fst s" ifs e] by (simp add: frame_simps)
  ultimately show ?thesis
    using covered_step [OF assms(2) store_interfaces_frame, of "remember_section ''interfaces'' (snd s)"]
    by auto
qed (use assms in simp)

lemma draft_wireguard_covered:
  assumes "draft_wireguard c s = Inr s'" and "covered base s"
  shows "covered base s'"
proof (cases "new_wireguard c")
  case None
  then show ?thesis using assms by (simp add: draft_wireguard_def drafted_def)
next
  case (Some ts)
  then obtain st' where st: "store_wireguard (fst s) ts (wireguard (fst s)) = Inr st'"
    and s': "s' = (if list_ex adds_route ts
                   then (st', remember_section ''routes'' (remember_section ''wireguard'' (snd s)))
                   else (st', remember_section ''wireguard'' (snd s)))"
    using assms(1) by (auto simp: draft_wireguard_def drafted_def bindE_ok)
  show ?thesis
    using s' store_wireguard_routes [OF st] covered_step [OF assms(2) store_wireguard_frame [OF st], of "snd s'"]
    by (auto split: if_splits)
qed

lemma save_covered:
  assumes "apply_draft_sections c s = Inr s'" and "covered base s"
  shows "covered base s'"
proof -
  obtain s1 s2 s3 s4 s5 s6 where
      s1: "drafted (new_routes c) ''routes'' (\<lambda>st v. Inr (st\<lparr> routes := v \<rparr>)) s = Inr s1"
    and s2: "draft_interfaces c s1 = Inr s2"
    and s3: "drafted (new_services c) ''services'' (\<lambda>st v. Inr (store_lan_services st v)) s2 = Inr s3"
    and s4: "drafted (new_firewall c) ''firewall'' (\<lambda>st v. Inr (st\<lparr> nft_extra := v \<rparr>)) s3 = Inr s4"
    and s5: "draft_wireguard c s4 = Inr s5"
    and s6: "drafted (new_qdiscs c) ''qdiscs'' store_qdiscs s5 = Inr s6"
    and s7: "drafted (new_ipv6 c) ''ipv6'' store_ipv6 s6 = Inr s'"
    using assms(1) by (auto simp: apply_draft_sections_def bindE_ok split: if_splits)
  have "covered base s1" by (rule drafted_covered [OF s1 assms(2)]) (auto intro: stores)
  then have "covered base s2" by (rule draft_interfaces_covered [OF s2])
  then have "covered base s3"
    by (rule drafted_covered [OF s3]) (use store_services_frame in \<open>auto simp: store_lan_services_def\<close>)
  then have "covered base s4" by (rule drafted_covered [OF s4]) (auto intro: stores)
  then have "covered base s5" by (rule draft_wireguard_covered [OF s5])
  then have "covered base s6"
    by (rule drafted_covered [OF s6]) (auto dest: store_qdiscs_frame simp: frame_simps)
  then show ?thesis
    by (rule drafted_covered [OF s7]) (auto dest: store_ipv6_frame simp: frame_simps)
qed

section \<open>Reconciling a draft\<close>

lemma reviewed_frame:
  assumes "reviewed ss n v m store st = Inr st'"
    and "\<And>x st'. store st x = Inr st' \<Longrightarrow> unchanged_but [n] st st'"
  shows "unchanged_but ss st st'"
proof (cases "n \<in> set ss")
  case True
  then obtain x where "store st x = Inr st'"
    using assms(1) by (auto simp: reviewed_def split: option.splits)
  then show ?thesis using assms(2) unchanged_more [of "[n]" ss] True by auto
next
  case False
  then show ?thesis using assms(1) by (simp add: reviewed_def)
qed

lemma review_routes_frame: "review_routes ss c st = Inr st' \<Longrightarrow> unchanged_but ss st st'"
  unfolding review_routes_def by (erule reviewed_frame) (auto intro: stores)

lemma review_interfaces_frame: "review_interfaces ss c st = Inr st' \<Longrightarrow> unchanged_but ss st st'"
  unfolding review_interfaces_def by (erule reviewed_frame) (auto intro: stores)

lemma review_services_frame: "review_services ss c st = Inr st' \<Longrightarrow> unchanged_but ss st st'"
  unfolding review_services_def by (erule reviewed_frame) (auto intro: stores)

lemma review_firewall_frame: "review_firewall ss c st = Inr st' \<Longrightarrow> unchanged_but ss st st'"
  unfolding review_firewall_def by (erule reviewed_frame) (auto intro: stores)

lemma review_wireguard_frame: "review_wireguard ss c st = Inr st' \<Longrightarrow> unchanged_but ss st st'"
  unfolding review_wireguard_def by (erule reviewed_frame) (erule store_wireguard_frame)

lemma review_qdiscs_frame: "review_qdiscs ss c st = Inr st' \<Longrightarrow> unchanged_but ss st st'"
  unfolding review_qdiscs_def by (erule reviewed_frame) (erule store_qdiscs_frame)

lemma review_ipv6_frame: "review_ipv6 ss c st = Inr st' \<Longrightarrow> unchanged_but ss st st'"
  unfolding review_ipv6_def by (erule reviewed_frame) (erule store_ipv6_frame)

lemmas review_frames = review_routes_frame review_interfaces_frame review_services_frame
  review_firewall_frame review_wireguard_frame review_qdiscs_frame review_ipv6_frame

lemma reviewed_sections_steps:
  assumes "apply_reviewed_sections ss c st = Inr st'"
  obtains s1 s2 s3 s4 s5 s6 where
      "review_routes ss c st = Inr s1" and "review_interfaces ss c s1 = Inr s2"
    and "review_services ss c s2 = Inr s3" and "review_firewall ss c s3 = Inr s4"
    and "review_wireguard ss c s4 = Inr s5" and "review_qdiscs ss c s5 = Inr s6"
    and "review_ipv6 ss c s6 = Inr st'"
  using assms unfolding apply_reviewed_sections_def bindE_ok by blast

lemma reviewed_sections_frame:
  assumes "apply_reviewed_sections ss c st = Inr st'"
  shows "unchanged_but ss st st'"
  using reviewed_sections_steps [OF assms] review_frames unchanged_trans by metis

lemma carry_frame: "unchanged_but [''wireguard''] st (carry_wireguard_edits st d)"
  by (simp add: carry_wireguard_edits_def frame_simps)

section \<open>Tunnels\<close>

lemma update_first_other: "x \<in> set xs \<Longrightarrow> \<not> p x \<Longrightarrow> x \<in> set (update_first p f xs)"
  by (induction xs) auto

lemma put_tunnel_other: "u \<in> set ts \<Longrightarrow> wg_name u \<noteq> input_name t \<Longrightarrow> u \<in> set (put_tunnel t ts)"
  by (auto simp: put_tunnel_def intro: update_first_other)

lemma store_tunnels_other:
  "store_tunnels ts old rs = Inr (old', rs') \<Longrightarrow> u \<in> set old \<Longrightarrow> wg_name u \<notin> input_name ` set ts
   \<Longrightarrow> u \<in> set old'"
  by (induction ts arbitrary: old rs) (auto simp: bindE_ok intro: put_tunnel_other)

lemma store_wireguard_other:
  "store_wireguard st ts p = Inr st' \<Longrightarrow> u \<in> set p \<Longrightarrow> wg_name u \<notin> input_name ` set ts
   \<Longrightarrow> u \<in> set (wireguard st')"
  by (auto simp: store_wireguard_def bindE_ok dest: store_tunnels_other)

lemma carry_tunnel_other: "u \<in> set ts \<Longrightarrow> wg_name u \<noteq> wg_name t \<Longrightarrow> u \<in> set (carry_tunnel t ts)"
  by (auto simp: carry_tunnel_def intro: update_first_other)

lemma carry_edits_other:
  assumes "u \<in> set (wireguard st)" and "\<not> edited_tunnel d (wg_name u)"
  shows "u \<in> set (wireguard (carry_wireguard_edits st d))"
proof -
  have "u \<in> set ts \<Longrightarrow>
      u \<in> set (fold (\<lambda>t ts. if edited_tunnel d (wg_name t) then carry_tunnel t ts else ts) es ts)" for es ts
  proof (induction es arbitrary: ts)
    case (Cons e es)
    then show ?case using assms(2) carry_tunnel_other [of u ts e] by (cases "wg_name u = wg_name e") auto
  qed simp
  then show ?thesis using assms(1) by (simp add: carry_wireguard_edits_def)
qed

text \<open>Only the WireGuard review touches the tunnels.\<close>

lemma reviews_keep_tunnels:
  "review_routes ss c st = Inr st' \<Longrightarrow> wireguard st' = wireguard st"
  "review_interfaces ss c st = Inr st' \<Longrightarrow> wireguard st' = wireguard st"
  "review_services ss c st = Inr st' \<Longrightarrow> wireguard st' = wireguard st"
  "review_firewall ss c st = Inr st' \<Longrightarrow> wireguard st' = wireguard st"
  "review_qdiscs ss c st = Inr st' \<Longrightarrow> wireguard st' = wireguard st"
  "review_ipv6 ss c st = Inr st' \<Longrightarrow> wireguard st' = wireguard st"
  using store_interfaces_frame store_services_frame
  by (auto simp: review_routes_def review_interfaces_def review_services_def review_firewall_def
      review_qdiscs_def review_ipv6_def reviewed_def frame_simps
      dest!: store_qdiscs_frame store_ipv6_frame split: if_splits option.splits)

lemma review_wireguard_other:
  assumes "review_wireguard ss (keep_edited d c) st = Inr st'"
    and "u \<in> set (wireguard st)" and "\<not> edited_tunnel d (wg_name u)"
  shows "u \<in> set (wireguard st')"
proof (cases "''wireguard'' \<in> set ss")
  case True
  then obtain ts where "store_wireguard st ts (wireguard st) = Inr st'"
      "\<forall>t \<in> set ts. edited_tunnel d (input_name t)"
    using assms(1) by (auto simp: review_wireguard_def reviewed_def keep_edited_def split: option.splits)
  then show ?thesis using assms(2,3) store_wireguard_other by fastforce
qed (use assms in \<open>simp add: review_wireguard_def reviewed_def\<close>)

lemma reconciled_other_tunnel:
  assumes "reconciled_desired d base c = Inr st" and "''import'' \<notin> set (effective_sections d)"
    and "u \<in> set (wireguard base)" and "\<not> edited_tunnel d (wg_name u)"
  shows "u \<in> set (wireguard st)"
proof (cases "''wireguard'' \<in> set (effective_sections d)")
  case False
  then have "unchanged_but (effective_sections d) base st"
    using assms(1,2) reviewed_sections_frame by (auto simp: reconciled_desired_def Let_def)
  then show ?thesis using False assms(3) by (simp add: frame_simps)
next
  case True
  define carried where "carried = carry_wireguard_edits base d"
  have "apply_reviewed_sections (effective_sections d) (keep_edited d c) carried = Inr st"
    using assms(1,2) True by (simp add: reconciled_desired_def carried_def Let_def)
  from reviewed_sections_steps [OF this] obtain s4 s5 where
      before: "wireguard s4 = wireguard carried"
    and review: "review_wireguard (effective_sections d) (keep_edited d c) s4 = Inr s5"
    and after: "wireguard st = wireguard s5"
    by (metis (no_types) reviews_keep_tunnels)
  have "u \<in> set (wireguard s4)"
    using before carry_edits_other [OF assms(3,4)] by (simp add: carried_def)
  then show ?thesis
    using review_wireguard_other [OF review _ assms(4)] after by simp
qed

lemma reconciled_frame:
  assumes "reconciled_desired d base c = Inr st" and "''import'' \<notin> set (effective_sections d)"
  shows "unchanged_but (effective_sections d) base st"
proof (cases "''wireguard'' \<in> set (effective_sections d)")
  case False
  then show ?thesis
    using assms reviewed_sections_frame by (auto simp: reconciled_desired_def Let_def)
next
  case True
  then have "unchanged_but (effective_sections d) (carry_wireguard_edits base d) st"
    using assms reviewed_sections_frame by (auto simp: reconciled_desired_def Let_def)
  moreover have "unchanged_but (effective_sections d) base (carry_wireguard_edits base d)"
    by (rule unchanged_more [OF _ carry_frame]) (use True in simp)
  ultimately show ?thesis using unchanged_trans by blast
qed

section \<open>Keys\<close>

text \<open>The key of the first tunnel of a name, which is the one an edit finds.\<close>

definition stored_key :: "string \<Rightarrow> wg list \<Rightarrow> string option" where
  "stored_key name ts = map_option private_key (List.find (\<lambda>t. wg_name t = name) ts)"

lemma edit_tunnel_name [simp]: "wg_name (edit_tunnel t x) = wg_name x"
  by (simp add: edit_tunnel_def)

lemma update_first_find_name:
  "(\<And>x. wg_name (f x) = wg_name x) \<Longrightarrow> List.find (\<lambda>t. wg_name t = n) (update_first (\<lambda>x. wg_name x = m) f ts)
   = map_option (\<lambda>x. if n = m then f x else x) (List.find (\<lambda>t. wg_name t = n) ts)"
  by (induction ts) (auto simp: option.map_ident)

lemma find_append_Some: "List.find p xs = Some x \<Longrightarrow> List.find p (xs @ ys) = Some x"
  by (induction xs) auto

lemma put_tunnel_key:
  assumes "stored_key n ts = Some k" and "input_name t = n \<longrightarrow> trim (input_key t) = []"
  shows "stored_key n (put_tunnel t ts) = Some k"
proof -
  obtain x where "List.find (\<lambda>t. wg_name t = n) ts = Some x" "private_key x = k"
    using assms(1) by (auto simp: stored_key_def)
  then show ?thesis
    using assms(2)
    by (auto simp: stored_key_def put_tunnel_def update_first_find_name find_append_Some edit_tunnel_def)
qed

lemma store_tunnels_key:
  "store_tunnels ts old rs = Inr (old', rs') \<Longrightarrow> stored_key n old = Some k
   \<Longrightarrow> list_all (\<lambda>t. input_name t = n \<longrightarrow> trim (input_key t) = []) ts \<Longrightarrow> stored_key n old' = Some k"
  by (induction ts arbitrary: old rs) (auto simp: bindE_ok dest: put_tunnel_key)

lemma redacted_any_key:
  "(k = []) = (private_key t = []) \<Longrightarrow> redacted (t\<lparr> private_key := k \<rparr>) = redacted t"
  by (simp add: redacted_def)

section \<open>Owners\<close>

definition hex_char :: "nat \<Rightarrow> char" where
  "hex_char n = ''0123456789abcdef'' ! n"

lemma hex_char_eq: "list_all (\<lambda>i. list_all (\<lambda>j. (hex_char i = hex_char j) = (i = j)) [0..<16]) [0..<16]"
  by code_simp

lemma hex_char_other: "list_all (\<lambda>i. hex_char i \<noteq> CHR ''/'' \<and> hex_char i \<noteq> CHR ''.'') [0..<16]"
  by code_simp

lemma hex_char_inject: "i < 16 \<Longrightarrow> j < 16 \<Longrightarrow> hex_char i = hex_char j \<longleftrightarrow> i = j"
  using hex_char_eq by (simp add: list_all_iff)

lemma hex_byte_chars: "hex_byte b = [hex_char (unat b div 16), hex_char (unat b mod 16)]"
  by (simp add: hex_byte_def hex_char_def Let_def)

lemma unat_u8: "unat (b :: u8) div 16 < 16"
proof -
  have "unat b < 256" using unsigned_less [of b] by simp
  then show ?thesis by simp
qed

lemma hex_byte_inject: "hex_byte a = hex_byte b \<longleftrightarrow> a = b"
proof
  assume "hex_byte a = hex_byte b"
  then have "unat a div 16 = unat b div 16" "unat a mod 16 = unat b mod 16"
    using unat_u8 by (auto simp: hex_byte_chars hex_char_inject)
  then have "unat a = unat b" by (metis mult_div_mod_eq)
  then show "a = b" by (simp add: unsigned_word_eqI)
qed simp

lemma hex_component_inject: "hex_component a = hex_component b \<longleftrightarrow> a = b"
proof (induction a arbitrary: b)
  case Nil
  then show ?case by (cases b) (simp_all add: hex_component_def hex_byte_chars)
next
  case (Cons x xs)
  have cons: "hex_component (y # ys) = hex_byte (of_nat (byte y)) @ hex_component ys" for y ys
    by (simp add: hex_component_def)
  have len: "length (hex_byte y) = 2" for y by (simp add: hex_byte_chars)
  show ?case
  proof (cases b)
    case Nil
    then show ?thesis by (simp add: hex_component_def hex_byte_chars)
  next
    case (Cons y ys)
    then show ?thesis
      using Cons.IH [of ys] by (simp add: cons append_eq_append_conv len hex_byte_inject byte_word_inject)
  qed
qed

lemma hex_char_slash: "i < 16 \<Longrightarrow> hex_char i \<noteq> CHR ''/''"
  using hex_char_other by (simp add: list_all_iff)

lemma hex_component_chars: "CHR ''/'' \<notin> set (hex_component v)"
proof -
  have "CHR ''/'' \<notin> set (hex_byte b)" for b
    using hex_char_slash [of "unat b div 16"] hex_char_slash [of "unat b mod 16"] unat_u8 [of b]
    by (auto simp: hex_byte_chars)
  then show ?thesis by (simp add: hex_component_def)
qed

lemma hex_component_Nil [simp]: "hex_component v = [] \<longleftrightarrow> v = []"
  using hex_component_inject [of v "[]"] by (simp add: hex_component_def)

lemma draft_dir_last: "DRAFT_DIR \<noteq> []" "last DRAFT_DIR \<noteq> CHR ''/''"
  by (simp_all add: DRAFT_DIR_def)

lemma draft_path_parts:
  "draft_path p =
     DRAFT_DIR @ ''/'' @ (if prin_source p = [] then [] else hex_component (prin_source p) @ ''/'')
     @ hex_component (prin_subject p) @ ''.json''"
proof -
  have slash: "starts_with ''/'' s \<Longrightarrow> CHR ''/'' \<in> set s" for s
    unfolding starts_with_iff by force
  have rel: "\<not> starts_with ''/'' (hex_component v @ ''.json'')" "\<not> starts_with ''/'' (hex_component v)" for v
    using hex_component_chars [of v] slash [of "hex_component v @ ''.json''"] slash [of "hex_component v"]
    by auto
  have tip: "hex_component v \<noteq> [] \<Longrightarrow> last (hex_component v) \<noteq> CHR ''/''" for v
    using hex_component_chars [of v] last_in_set [of "hex_component v"] by metis
  show ?thesis
    using draft_dir_last tip [of "prin_source p"]
    by (cases "prin_source p = []") (simp_all add: draft_path_def path_join_def rel)
qed

lemma slash_parts:
  fixes c :: char
  assumes "c \<notin> set a" and "c \<notin> set b"
  shows "a @ c # x = b @ c # y \<longleftrightarrow> a = b \<and> x = y"
proof
  assume "a @ c # x = b @ c # y"
  then have "split_once c (a @ c # x) = split_once c (b @ c # y)" by simp
  then show "a = b \<and> x = y" using assms by (simp add: split_once_append)
qed simp

lemma slash_none: "c \<notin> set b \<Longrightarrow> a @ c # x \<noteq> b" "c \<notin> set b \<Longrightarrow> b \<noteq> a @ c # x"
  by auto

lemma draft_path_owner:
  "draft_path p = draft_path q \<longleftrightarrow> prin_source p = prin_source q \<and> prin_subject p = prin_subject q"
  using hex_component_chars
  by (cases "prin_source p = []"; cases "prin_source q = []")
    (simp_all add: draft_path_parts hex_component_inject slash_parts slash_none)

section \<open>Export and import\<close>

lemma warning_kept: "text_start (EXPORT_WARNING @ s) = EXPORT_WARNING @ s"
proof -
  obtain t where t: "EXPORT_WARNING @ s = CHR ''#'' # CHR '' '' # t"
    by (simp add: EXPORT_WARNING_def)
  have "utf8_chars ([CHR ''#''] @ CHR '' '' # t) = [CHR ''#''] # utf8_chars (CHR '' '' # t)"
    by (rule utf8_chars_group) (simp_all add: cont_byte_def byte_def)
  moreover have "\<not> white_space [CHR ''#'']" by code_simp
  ultimately have "dropWhile white_space (utf8_chars (EXPORT_WARNING @ s)) = utf8_chars (EXPORT_WARNING @ s)"
    by (simp add: t del: utf8_chars.simps)
  then show ?thesis by (simp add: text_start_def)
qed

lemma warning_plain: "\<not> is_encrypted_export (EXPORT_WARNING @ s)"
  by (simp add: is_encrypted_export_def warning_kept) (simp add: EXPORT_WARNING_def starts_with_def)

text \<open>TOML skips the comment lines of the warning.\<close>

definition reads_exports :: "export_codec \<Rightarrow> bool" where
  "reads_exports C \<longleftrightarrow>
     (\<forall>file body. text_of_export C file = Inr body \<longrightarrow> export_of_text C (EXPORT_WARNING @ body) = Inr file)"

lemma parse_exported:
  "reads_exports C \<Longrightarrow> network_export C st = Inr content \<Longrightarrow> parse_network_export C content = Inr st"
  by (auto simp: reads_exports_def network_export_def parse_network_export_def split: sum.splits)

lemma exported_plain: "network_export C st = Inr content \<Longrightarrow> \<not> is_encrypted_export content"
  by (auto simp: network_export_def warning_plain split: sum.splits)

section \<open>Properties\<close>

text \<open>A draft through any number of saves.\<close>

fun saves :: "section_values list \<Rightarrow> sectioned \<Rightarrow> sectioned res" where
  "saves [] s = Inr s"
| "saves (c # cs) s = bindE (apply_draft_sections c s) (saves cs)"

lemma saves_covered: "saves cs s = Inr s' \<Longrightarrow> covered base s \<Longrightarrow> covered base s'"
  by (induction cs arbitrary: s) (auto simp: bindE_ok dest: save_covered)

text \<open>
  C29. However often a draft is saved, its sections name everything it changes: a field of
  the state it was started from is the same in the draft unless a section it belongs to is
  listed, the routes also when a tunnel brings one, and the revision, the hostname and the
  confirmation setting are never changed by it.
\<close>

theorem draft_names_its_changes:
  assumes "saves cs (base, []) = Inr (st, ss)"
  shows "unchanged_but ss base st \<and> same_unless [''routes''] ss routes base st"
  using saves_covered [OF assms, of base] by (simp add: covered_def same_unless_def)

text \<open>
  C30. A reconciled draft is the newer Accepted state in everything but the draft's own
  sections, at the newer revision; a tunnel the draft did not edit stays exactly as Accepted.
  Only a draft of an import, which proposes the whole network, keeps its own contents.
\<close>

theorem reconciliation_keeps_the_rest:
  assumes "reconciled_desired d base c = Inr st"
  shows "(if ''import'' \<in> set (effective_sections d)
          then st = (draft_desired d)\<lparr> revision := revision base \<rparr>
          else unchanged_but (effective_sections d) base st
               \<and> set (filter (\<lambda>t. \<not> edited_tunnel d (wg_name t)) (wireguard base)) \<subseteq> set (wireguard st))
         \<and> revision st = revision base"
proof (cases "''import'' \<in> set (effective_sections d)")
  case True
  then show ?thesis using assms by (auto simp: reconciled_desired_def Let_def)
next
  case False
  have frame: "unchanged_but (effective_sections d) base st"
    by (rule reconciled_frame [OF assms False])
  then have "revision st = revision base" unfolding frame_simps by simp
  then show ?thesis
    using False frame reconciled_other_tunnel [OF assms False] by auto
qed


text \<open>
  C32. An exported network state imports back as it was, in plain text or opened with the
  passphrase, and the draft made of it proposes exactly that state on the Accepted base. An
  encrypted file without a passphrase is refused.
\<close>

theorem exports_import_back:
  assumes "reads_exports C" and "network_export C st = Inr content"
    and "is_encrypted_export sealed" and "age_decrypt C p (text_start sealed) = Inr content"
    and "is_utf8 content" and "p \<noteq> []"
  shows "decode_network_import C content None = Inr st
         \<and> decode_network_import C sealed (Some p) = Inr st
         \<and> decode_network_import C sealed None = Inl ''this export is encrypted; enter its passphrase''
         \<and> draft_desired (imported_draft st base tag) = st\<lparr> revision := base \<rparr>"
  using assms exported_plain [OF assms(2)] parse_exported [OF assms(1,2)]
  by (simp add: decode_network_import_def filled_def imported_draft_def)

end
