(* ===== verification/Ui_Lan.thy ===== *)
theory Ui_Lan
  imports Ui_Drafts Validate
begin

text \<open>
  The interface page keeps the LAN services in step with the LAN's address
  (\<open>sync_lan_prefix_from_first_lan\<close> in \<open>src/ui.rs\<close>): what it stores passes netd's own check
  that they match, \<open>lan_services_match_interface\<close> of \<open>src/netd.rs\<close>.
\<close>

section \<open>Dotted quads\<close>

lemma parse_dotted:
  assumes "length os = 4" and "list_all (\<lambda>d. d < 256) os"
  shows "parse_ipv4 (dotted os) = Some (ipv4_of os)"
proof -
  obtain o1 o2 o3 o4 where os: "os = [o1, o2, o3, o4]"
    using assms(1) by (auto simp: numeral_eq_Suc length_Suc_conv)
  then have small: "o1 < 256" "o2 < 256" "o3 < 256" "o4 < 256" using assms(2) by auto
  have "length (show_nat v) \<le> 3" if "v < 256" for v
    unfolding show_nat_def using that by (intro show_base_length) auto
  from this [OF small(1)] this [OF small(2)] this [OF small(3)] this [OF small(4)]
  have "length (dotted os) \<le> 15" by (simp add: os dotted_def)
  moreover have "read_ipv4 (dotted os) = Some (os, [])"
    using small read_octet_show [of o4 "[]"]
    by (simp add: dotted_def os read_ipv4_def read_sep_def read_octet_show)
  ultimately show ?thesis by (simp add: parse_ipv4_def parse_with_def)
qed

lemma dotted_no_slash: "CHR ''/'' \<notin> set (dotted os)"
proof -
  have "CHR ''/'' \<notin> set (show_nat n)" for n
    unfolding show_nat_def by (rule show_base_no_slash) auto
  then have "CHR ''/'' \<notin> set (join_with ''.'' (map show_nat os))"
    by (induction os rule: induct_list012) auto
  then show ?thesis by (simp add: dotted_def)
qed

lemma octets_of_small: "d \<in> set (octets_of s) \<Longrightarrow> d < 256"
  using parse_uint_bound [of 255]
  by (fastforce simp: octets_of_def List.map_filter_def parse_u8_def)

lemma prefix_host_parses:
  assumes "ipv4_prefix_host prefix = Some host"
  shows "parse_ipv4 host \<noteq> None \<and> CHR ''/'' \<notin> set host"
proof -
  define os where "os = octets_of (hd (split_on (CHR ''/'') prefix))"
  have len: "length os = 4" and host: "host = dotted (if os ! 3 = 0 then os[3 := 1] else os)"
    using assms by (auto simp: ipv4_prefix_host_def os_def Let_def split: if_splits)
  have small: "list_all (\<lambda>d. d < 256) os"
    using octets_of_small by (auto simp: list_all_iff os_def)
  then have "list_all (\<lambda>d. d < 256) (os[3 := 1])"
    using set_update_subset_insert [of os 3 1] by (auto simp: list_all_iff)
  then show ?thesis
    using host len small parse_dotted dotted_no_slash by auto
qed

section \<open>The address the prefix follows\<close>

lemma starts_with_split:
  assumes "starts_with (host @ ''/'') a" and "CHR ''/'' \<notin> set host"
  shows "\<exists>r. split_once (CHR ''/'') a = Some (host, r)"
  using assms by (auto simp: starts_with_iff split_once_append)

lemma prefix_address_v4:
  assumes "prefix_address prefix addresses = Some a"
  shows "a \<in> set addresses \<and> has_ipv4 a"
proof (cases "matched_address prefix addresses")
  case None
  then show ?thesis
    using assms by (auto simp: prefix_address_def dest: find_Some_set)
next
  case (Some b)
  then obtain host where "ipv4_prefix_host (the prefix) = Some host"
      "List.find (starts_with (host @ ''/'')) addresses = Some a"
    using assms by (auto simp: prefix_address_def matched_address_def Option.bind_eq_Some_conv)
  moreover from this have "a \<in> set addresses" "starts_with (host @ ''/'') a"
    using find_Some_set by fastforce+
  ultimately show ?thesis
    using prefix_host_parses starts_with_split by (fastforce simp: has_ipv4_def)
qed

lemma prefix_address_found: "a \<in> set addresses \<Longrightarrow> has_ipv4 a \<Longrightarrow> prefix_address prefix addresses \<noteq> None"
  using find_None_iff [of has_ipv4 addresses] by (auto simp: prefix_address_def split: option.split)

lemma valid_v4:
  assumes "has_ipv4 a" and "cidr a \<noteq> None"
  obtains address bits where "ipv4_prefix a = Some (address AND netmask bits, bits)"
    and "ipv4_network_prefix a = Some (show_ipv4 (address AND netmask bits) @ ''/'' @ show_nat bits)"
    and "bits \<le> 32"
proof -
  obtain ip r address where "split_once (CHR ''/'') a = Some (ip, r)" "parse_ipv4 ip = Some address"
    using assms(1) by (auto simp: has_ipv4_def split: option.splits)
  moreover from this obtain bits where "parse_u8 r = Some bits" "bits \<le> 32"
    using assms(2) parse_ip_of_v4 [of ip address]
    by (auto simp: cidr_def Option.bind_eq_Some_conv split: if_splits)
  ultimately show thesis
    using that by (simp add: ipv4_prefix_def ipv4_network_prefix_def)
qed

lemma prefix_of_shown:
  "bits \<le> 32 \<Longrightarrow> ipv4_prefix (show_ipv4 a @ ''/'' @ show_nat bits) = Some (a AND netmask bits, bits)"
proof -
  have "CHR ''/'' \<notin> set (show_ipv4 a)"
    using dotted_no_slash by (simp add: show_ipv4_def dotted_def)
  then show "bits \<le> 32 \<Longrightarrow> ?thesis"
    by (simp add: ipv4_prefix_def split_once_append parse_u8_def)
qed

lemma ipv4_prefix_has: "ipv4_prefix a = Some p \<Longrightarrow> has_ipv4 a"
  by (auto simp: ipv4_prefix_def has_ipv4_def Option.bind_eq_Some_conv split: option.splits)

section \<open>What the sync leaves\<close>

lemma sync_prefix:
  assumes "List.find (has_role ''lan'') (interfaces st) = Some lan"
    and "\<forall>a \<in> set (iface_addresses lan). cidr a \<noteq> None"
    and "lan_interface_prefixes lan \<noteq> []"
  obtains prefix p where "lan_prefix (sync_lan_prefix_from_first_lan st) = Some prefix"
    and "prefix \<noteq> []" and "ipv4_prefix prefix = Some p" and "p \<in> set (lan_interface_prefixes lan)"
proof -
  obtain a where "a \<in> set (iface_addresses lan)" "has_ipv4 a"
    using assms(3) ipv4_prefix_has
    by (auto simp: lan_interface_prefixes_def List.map_filter_def filter_empty_conv)
  then obtain b where b: "prefix_address (lan_prefix st) (iface_addresses lan) = Some b"
    using prefix_address_found by blast
  then have mem: "b \<in> set (iface_addresses lan)" "has_ipv4 b" using prefix_address_v4 by blast+
  then obtain address bits where v: "ipv4_prefix b = Some (address AND netmask bits, bits)"
      "ipv4_network_prefix b = Some (show_ipv4 (address AND netmask bits) @ ''/'' @ show_nat bits)" "bits \<le> 32"
    using valid_v4 assms(2) by metis
  have "(address AND netmask bits, bits) \<in> set (lan_interface_prefixes lan)"
    using v(1) mem(1) by (force simp: lan_interface_prefixes_def List.map_filter_def)
  moreover have "lan_prefix (sync_lan_prefix_from_first_lan st)
      = Some (show_ipv4 (address AND netmask bits) @ ''/'' @ show_nat bits)"
    using assms(1) b v(2) by (simp add: sync_lan_prefix_from_first_lan_def)
  ultimately show thesis
    using that [of "show_ipv4 (address AND netmask bits) @ ''/'' @ show_nat bits"] prefix_of_shown [OF v(3)]
    by (simp add: and.assoc)
qed

lemma sync_interfaces [simp]: "interfaces (sync_lan_prefix_from_first_lan st) = interfaces st"
  by (simp add: sync_lan_prefix_from_first_lan_def split: option.splits)

lemma keep_wan_simps [simp]:
  "role (keep_wan_ipv6 old i) = role i" "iface_addresses (keep_wan_ipv6 old i) = iface_addresses i"
  by (simp_all add: keep_wan_ipv6_def Let_def)

lemma find_map: "List.find p (map f xs) = map_option f (List.find (p \<circ> f) xs)"
  by (induction xs) auto

lemma sync_pool:
  "lan_prefix (sync_lan_prefix_from_first_lan st) = lan_prefix st \<and> dhcp_pool (sync_lan_prefix_from_first_lan st) = dhcp_pool st
   \<or> dhcp_pool (sync_lan_prefix_from_first_lan st) = None
   \<or> dhcp_pool (sync_lan_prefix_from_first_lan st) = dhcp_pool st
     \<and> dhcp_pool_inside (the (lan_prefix (sync_lan_prefix_from_first_lan st))) (the (dhcp_pool st))"
  by (auto simp: sync_lan_prefix_from_first_lan_def split: option.splits)

lemma stored_services_match:
  assumes "List.find (has_role ''lan'') ifs = Some lan"
    and "list_all (\<lambda>a. cidr a \<noteq> None) (iface_addresses lan)"
  shows "lan_services_match_interface (store_interface_section st ifs e) = Inr ()"
proof -
  define st0 where "st0 = st\<lparr> interfaces := map (keep_wan_ipv6 (interfaces st)) ifs, ui_exposure := e \<rparr>"
  define lan' where "lan' = keep_wan_ipv6 (interfaces st) lan"
  have found: "List.find (has_role ''lan'') (interfaces st0) = Some lan'"
    using assms(1) by (simp add: st0_def lan'_def find_map comp_def)
  have valid: "\<forall>a \<in> set (iface_addresses lan'). cidr a \<noteq> None"
    using assms(2) by (auto simp: lan'_def list_all_iff)
  show ?thesis
  proof (cases "lan_interface_prefixes lan' = []")
    case True
    then show ?thesis
      using found by (simp add: store_interface_section_def lan_services_match_interface_def lan_l2_def
          flip: st0_def)
  next
    case False
    obtain prefix p where "lan_prefix (sync_lan_prefix_from_first_lan st0) = Some prefix" "prefix \<noteq> []"
        "ipv4_prefix prefix = Some p" "p \<in> set (lan_interface_prefixes lan')"
      using sync_prefix [OF found valid False] by blast
    then show ?thesis
      using found False
      by (simp add: store_interface_section_def lan_services_match_interface_def lan_l2_def filled_def
          failIf_def Let_def flip: st0_def)
  qed
qed

text \<open>
  Whatever interfaces the operator stores, when the first LAN's addresses are readable
  the LAN services they leave pass netd's check that they match it; the DHCP pool is the one
  there was, inside the new prefix where that changed, or it is dropped. So an edit of the
  LAN's address is never refused for the services of the old one.
\<close>

theorem interface_edits_keep_services_matching:
  assumes "List.find (has_role ''lan'') ifs = Some lan"
    and "list_all (\<lambda>a. cidr a \<noteq> None) (iface_addresses lan)"
  shows "lan_services_match_interface (store_interface_section st ifs e) = Inr ()
         \<and> (dhcp_pool (store_interface_section st ifs e) = None
            \<or> dhcp_pool (store_interface_section st ifs e) = dhcp_pool st
              \<and> (lan_prefix (store_interface_section st ifs e) = lan_prefix st
                 \<or> dhcp_pool_inside (the (lan_prefix (store_interface_section st ifs e))) (the (dhcp_pool st))))"
  using stored_services_match [OF assms]
    sync_pool [of "st\<lparr> interfaces := map (keep_wan_ipv6 (interfaces st)) ifs, ui_exposure := e \<rparr>"]
  by (auto simp: store_interface_section_def)

end
