(* ===== verification/Ui_Bootstrap.thy ===== *)
theory Ui_Bootstrap
  imports Ui_Lan
begin

text \<open>
  The first-boot form (\<open>src/ui.rs\<close>: \<open>Bootstrap\<close>, \<open>BootIface\<close>, \<open>validate_bootstrap\<close>), the Desired
  state it sends to netd as JSON, and how its checks compare with netd's \<open>validate\<close>.
\<close>

section \<open>The form\<close>

record boot_iface =
  boot_name :: string
  boot_placement :: string
  boot_role :: "string option"
  boot_addresses :: "string list"
  boot_vlan :: "u16 option"
  boot_parent :: "string option"
  boot_dhcp :: bool

record bootstrap_form =
  form_hostname :: string
  form_admin :: string
  form_password :: string
  form_interfaces :: "boot_iface list"
  form_exposure :: "string list"
  form_prefix :: string
  form_pool :: string
  form_pd :: string

abbreviation boots_as :: "string \<Rightarrow> boot_iface \<Rightarrow> bool" where
  "boots_as r i \<equiv> boot_role i = Some r"

definition boot_l2_key :: "boot_iface \<Rightarrow> string \<times> u16 option" where
  "boot_l2_key i =
     ((case boot_parent i of
         Some p \<Rightarrow> p
       | None \<Rightarrow>
           if boot_vlan i \<noteq> None
           then (case rsplit_once (CHR ''.'') (boot_name i) of Some (p, _) \<Rightarrow> p | None \<Rightarrow> boot_name i)
           else boot_name i),
      boot_vlan i)"

definition valid_hostname :: "string \<Rightarrow> bool" where
  "valid_hostname name =
     (case name of
        [] \<Rightarrow> False
      | first # _ \<Rightarrow>
          ascii_alphanumeric first \<and> length name \<le> 253
          \<and> list_all (\<lambda>c. ascii_alphanumeric c \<or> c = CHR ''-'' \<or> c = CHR ''.'') name
          \<and> first \<noteq> CHR ''-'' \<and> last name \<noteq> CHR ''-'')"

definition check_boot_mgmt :: "boot_iface \<Rightarrow> unit res" where
  "check_boot_mgmt i =
     thenE (failIf (boot_vlan i \<noteq> None \<or> boot_parent i \<noteq> None) ''Management NIC owns the whole parent'')
    (thenE (failIf (boot_dhcp i) ''Management NIC is on-link static; no DHCP'')
           (failIf (boot_addresses i = []) ''Management NIC needs an on-link static prefix''))"

definition check_boot_iface :: "boot_iface \<Rightarrow> unit res" where
  "check_boot_iface i =
     thenE (interface_values (boot_name i) (boot_parent i) (boot_vlan i) (boot_addresses i))
    (thenE (failIf (trim (boot_name i) = []) ''missing NIC name'')
    (thenE (failIf (boot_placement i = ''mgmt'')
              ''placement=mgmt is not a contract; use roles and ui_exposure'')
    (thenE (failIf (boot_placement i \<noteq> [] \<and> boot_placement i \<noteq> ''fwd'')
              ''placement is not a contract; use roles and ui_exposure'')
    (thenE (case boot_role i of
              None \<Rightarrow> Inr ()
            | Some r \<Rightarrow> failIf (r \<notin> {''wan'', ''lan'', ''unused'', ''stick'', ''mgmt''}) (''unknown role '' @ r))
           (if boots_as ''mgmt'' i then check_boot_mgmt i else Inr ())))))"

definition check_boot_topology :: "boot_iface list \<Rightarrow> unit res" where
  "check_boot_topology ifs =
     (let mgmt_parents = map (fst \<circ> boot_l2_key) (filter (boots_as ''mgmt'') ifs) in
      thenE (failIf (\<not> list_ex (boots_as ''wan'') ifs) ''need at least one WAN'')
     (thenE (failIf (\<not> list_ex (boots_as ''lan'') ifs) ''need at least one LAN'')
     (thenE (failIf (list_ex (\<lambda>w. list_ex (\<lambda>l. boot_l2_key w = boot_l2_key l) (filter (boots_as ''lan'') ifs))
                       (filter (boots_as ''wan'') ifs))
               ''WAN and LAN must not share the same parent and tag'')
            (failIf (list_ex (\<lambda>i. fst (boot_l2_key i) \<in> set mgmt_parents)
                       (filter (\<lambda>i. boots_as ''wan'' i \<or> boots_as ''lan'' i) ifs))
               ''WAN or LAN must not share a parent with a Management NIC''))))"

definition check_boot_exposed :: "boot_iface list \<Rightarrow> string \<Rightarrow> unit res" where
  "check_boot_exposed ifs name =
     (case List.find (\<lambda>i. boot_name i = name) ifs of
        None \<Rightarrow> Inl (''ui_exposure '' @ name @ '' is not an interface'')
      | Some i \<Rightarrow> failIf (boots_as ''wan'' i) ''ui_exposure cannot include a WAN'')"

definition validate_bootstrap :: "bootstrap_form \<Rightarrow> unit res" where
  "validate_bootstrap f =
     thenE (eachE check_boot_iface (form_interfaces f))
    (thenE (check_boot_topology (form_interfaces f))
    (thenE (failIf (form_exposure f = []) ''ui_exposure must not be empty'')
    (thenE (eachE (check_boot_exposed (form_interfaces f)) (form_exposure f))
    (thenE (failIf (list_ex (\<lambda>m. boot_name m \<notin> set (form_exposure f))
                      (filter (boots_as ''mgmt'') (form_interfaces f)))
              ''Management NIC must be in ui_exposure'')
           (addressing (Some (trim (form_prefix f))) (Some (trim (form_pool f))) (Some (trim (form_pd f))))))))"

section \<open>What it sends\<close>

definition write_boot_iface :: "boot_iface \<Rightarrow> json" where
  "write_boot_iface i = JObj
     ([(''name'', JStr (boot_name i))]
      @ unless_empty (boot_placement i = []) ''placement'' (JStr (boot_placement i))
      @ unless_empty (boot_role i = None) ''role'' (jopt JStr (boot_role i))
      @ unless_empty (boot_addresses i = []) ''addresses'' (JArr (map JStr (boot_addresses i)))
      @ unless_empty (boot_vlan i = None) ''vlan'' (jopt write_u16 (boot_vlan i))
      @ unless_empty (boot_parent i = None) ''parent'' (jopt JStr (boot_parent i))
      @ unless_empty (\<not> boot_dhcp i) ''dhcp'' (JBool (boot_dhcp i)))"

definition form_json :: "bootstrap_form \<Rightarrow> json" where
  "form_json f = JObj
     ([(''hostname'', JStr (trim (form_hostname f))),
       (''interfaces'', JArr (map write_boot_iface (form_interfaces f))),
       (''ui_exposure'', JArr (map JStr (form_exposure f)))]
      @ unless_empty (trim (form_prefix f) = []) ''lan_prefix'' (JStr (trim (form_prefix f)))
      @ unless_empty (trim (form_pool f) = []) ''dhcp_pool'' (JStr (trim (form_pool f)))
      @ unless_empty (trim (form_pd f) = []) ''wan_pd'' (JStr (trim (form_pd f))))"

text \<open>The interface and the state netd reads out of it.\<close>

definition booted_iface :: "boot_iface \<Rightarrow> iface" where
  "booted_iface i =
     \<lparr> iface_name = boot_name i, placement = boot_placement i, role = boot_role i,
       iface_addresses = boot_addresses i, vlan = boot_vlan i, parent = boot_parent i,
       dhcp = boot_dhcp i, ipv6 = None, request_pd = False \<rparr>"

definition form_desired :: "bootstrap_form \<Rightarrow> desired_state" where
  "form_desired f = default_desired
     \<lparr> hostname := Some (trim (form_hostname f)), interfaces := map booted_iface (form_interfaces f),
       ui_exposure := form_exposure f, lan_prefix := blank_to_none (form_prefix f),
       dhcp_pool := blank_to_none (form_pool f), wan_pd := blank_to_none (form_pd f) \<rparr>"

lemma read_boot_iface: "read_iface (write_boot_iface i) = Inr (booted_iface i)"
proof -
  have "checks (read_option read_str) (JStr s) = None" "read_option read_str (JStr s) = Inr (Some s)"
      "checks (read_option read_u16) (write_u16 n) = None" "read_option read_u16 (write_u16 n) = Inr (Some n)" for s n
    using str.checks_option [of "Some s"] str.reads_option [of "Some s"]
      u16.checks_option [of "Some n"] u16.reads_option [of "Some n"] by (simp_all add: jopt_def)
  then show ?thesis
    by (cases "boot_role i"; cases "boot_vlan i"; cases "boot_parent i")
      (simp_all add: write_boot_iface_def booted_iface_def read_iface_def iface_fields_def visit_simps jopt_def)
qed

lemma read_boot_ifaces: "read_vec read_iface (JArr (map write_boot_iface is)) = Inr (map booted_iface is)"
proof -
  have "mapE read_iface (map write_boot_iface is) = Inr (map booted_iface is)"
    by (induction "is") (simp_all add: read_boot_iface)
  then show ?thesis by (simp add: read_vec_def)
qed

lemma read_form: "read_desired (form_json f) = Inr (form_desired f)"
proof -
  have "checks (read_option read_str) (JStr s) = None" "read_option read_str (JStr s) = Inr (Some s)" for s
    using str.checks_option [of "Some s"] str.reads_option [of "Some s"] by (simp_all add: jopt_def)
  moreover have "checks (read_vec read_iface) (JArr (map write_boot_iface is)) = None" for "is"
    by (simp add: checks_def read_boot_ifaces)
  ultimately show ?thesis
    by (simp add: form_json_def form_desired_def read_desired_def desired_fields_def visit_simps
        read_boot_ifaces blank_to_none_def Let_def default_desired_def)
qed

section \<open>The form's checks and netd's\<close>

lemma utf8_plain: "list_all (\<lambda>c. byte c < 128) s \<Longrightarrow> utf8_chars s = map (\<lambda>c. [c]) s"
  by (rule utf8_chars_ascii) (auto simp: cont_byte_def list_all_iff)

lemma name_char_plain:
  "ascii_alphanumeric c \<or> c \<in> {CHR ''_'', CHR ''-'', CHR ''.''} \<Longrightarrow> byte c < 128 \<and> \<not> white_space [c]"
  by (auto simp: ascii_defs white_space_def white_space_chars_def)

lemma trim_name: "interface_name n \<Longrightarrow> trim n \<noteq> []"
proof -
  assume n: "interface_name n"
  then have plain: "\<forall>c \<in> set n. byte c < 128 \<and> \<not> white_space [c]"
    unfolding interface_name_def list_all_iff using name_char_plain by blast
  then have "utf8_chars n = map (\<lambda>c. [c]) n" by (intro utf8_plain) (simp add: list_all_iff)
  moreover have "dropWhile white_space (map (\<lambda>c. [c]) n) = map (\<lambda>c. [c]) n"
    using plain by (cases n) auto
  moreover have "dropWhile white_space (rev (map (\<lambda>c. [c]) n)) = rev (map (\<lambda>c. [c]) n)"
    using plain by (cases n rule: rev_cases) auto
  ultimately have "trim n = concat (map (\<lambda>c. [c]) n)" by (simp add: trim_def)
  then show "trim n \<noteq> []" using n by (cases n) (auto simp: interface_name_def)
qed

lemma booted_simps [simp]:
  "iface_name (booted_iface i) = boot_name i" "placement (booted_iface i) = boot_placement i"
  "role (booted_iface i) = boot_role i" "iface_addresses (booted_iface i) = boot_addresses i"
  "vlan (booted_iface i) = boot_vlan i" "parent (booted_iface i) = boot_parent i"
  "dhcp (booted_iface i) = boot_dhcp i" "ipv6 (booted_iface i) = None" "request_pd (booted_iface i) = False"
  by (simp_all add: booted_iface_def)

lemma booted_l2_key [simp]: "l2_key (booted_iface i) = boot_l2_key i"
  by (cases "boot_vlan i"; cases "boot_parent i") (simp_all add: l2_key_def boot_l2_key_def split: option.split)

lemma form_simps [simp]:
  "interfaces (form_desired f) = map booted_iface (form_interfaces f)"
  "ui_exposure (form_desired f) = form_exposure f" "wireguard (form_desired f) = []"
  "routes (form_desired f) = []" "qdiscs (form_desired f) = []" "nft_extra (form_desired f) = []"
  "lan_prefix (form_desired f) = blank_to_none (form_prefix f)"
  "dhcp_pool (form_desired f) = blank_to_none (form_pool f)"
  "wan_pd (form_desired f) = blank_to_none (form_pd f)"
  by (simp_all add: form_desired_def default_desired_def)

definition mgmt_dotted :: "boot_iface \<Rightarrow> bool" where
  "mgmt_dotted i \<longleftrightarrow> boots_as ''mgmt'' i \<and> CHR ''.'' \<in> set (boot_name i)"

definition plain_placement :: "boot_iface \<Rightarrow> bool" where
  "plain_placement i \<longleftrightarrow> boot_placement i = [] \<or> boot_placement i = ''fwd''"

lemma check_iface_iff:
  "check_boot_iface i = Inr () \<and> \<not> mgmt_dotted i \<longleftrightarrow>
     interface_values (boot_name i) (boot_parent i) (boot_vlan i) (boot_addresses i) = Inr ()
     \<and> validate_role (booted_iface i) = Inr () \<and> plain_placement i"
proof -
  have "interface_values (boot_name i) p v a = Inr () \<Longrightarrow> trim (boot_name i) \<noteq> []" for p v a
    using trim_name by (auto simp: interface_values_def ok_simps)
  then show ?thesis
    by (auto simp: check_boot_iface_def check_boot_mgmt_def validate_role_def validate_mgmt_iface_def
        mgmt_dotted_def plain_placement_def ok_simps split: option.splits)
qed

lemma form_with_role: "with_role r (form_desired f) = map booted_iface (filter (boots_as r) (form_interfaces f))"
  by (simp add: with_role_def filter_map comp_def)

lemma check_topology_iff:
  "check_boot_topology (form_interfaces f) = Inr () \<longleftrightarrow> validate_topology (form_desired f) = Inr ()"
  unfolding check_boot_topology_def validate_topology_def Let_def form_with_role thenE_ok failIf_ok
  by (simp add: list_ex_iff filter_empty_conv comp_def bex_Un image_image) blast

lemma check_exposed_iff:
  "check_boot_exposed (form_interfaces f) n = Inr () \<longleftrightarrow> validate_exposed_name (form_desired f) n = Inr ()"
  by (auto simp: check_boot_exposed_def validate_exposed_name_def ok_simps find_map comp_def
      split: option.splits)

lemma check_exposure_iff:
  "validate_exposure (form_desired f) = Inr () \<longleftrightarrow>
     form_exposure f \<noteq> [] \<and> eachE (check_boot_exposed (form_interfaces f)) (form_exposure f) = Inr ()
     \<and> \<not> list_ex (\<lambda>m. boot_name m \<notin> set (form_exposure f)) (filter (boots_as ''mgmt'') (form_interfaces f))"
  by (auto simp: validate_exposure_def ok_simps check_exposed_iff list_ex_iff)

lemma form_values_iff:
  "validate_values (form_desired f) = Inr () \<longleftrightarrow>
     (\<forall>i \<in> set (form_interfaces f).
        interface_values (boot_name i) (boot_parent i) (boot_vlan i) (boot_addresses i) = Inr ())
     \<and> addressing (Some (trim (form_prefix f))) (Some (trim (form_pool f))) (Some (trim (form_pd f))) = Inr ()
     \<and> lan_services_match_interface (form_desired f) = Inr ()"
proof -
  have fill: "filled (blank_to_none v) = filled (Some (trim v))" for v
    by (simp add: filled_def blank_to_none_def Let_def)
  have "addressing (blank_to_none a) (blank_to_none b) (blank_to_none c)
      = addressing (Some (trim a)) (Some (trim b)) (Some (trim c))" for a b c
    by (simp add: addressing_def addressing_lan_def fill)
  moreover have "validate_ipv6 (form_desired f) = Inr ()"
    by (simp add: validate_ipv6_def validate_ipv6_iface_def ok_simps Let_def)
  moreover have "validate_policy (form_desired f) = Inr ()"
    by (simp add: validate_policy_def ok_simps)
  ultimately show ?thesis
    by (auto simp: ok_simps)
qed

text \<open>
  C33. The form's checks are netd's: for the state the form sends, netd's validation accepts
  exactly what the form accepts, but for three points. netd also wants the LAN services to
  match the LAN's addresses and a Management NIC's name to have no dot; the form also
  refuses placements other than none or fwd. So the form accepts a Bootstrap netd refuses
  only for the first two reasons.
\<close>

theorem form_checks_are_netds:
  "read_desired (form_json f) = Inr (form_desired f)
   \<and> (validate_bootstrap f = Inr () \<and> lan_services_match_interface (form_desired f) = Inr ()
        \<and> \<not> list_ex mgmt_dotted (form_interfaces f)
      \<longleftrightarrow> validate b64 (form_desired f) = Inr () \<and> list_all plain_placement (form_interfaces f))"
proof -
  have ifs: "(\<forall>i \<in> set (form_interfaces f). check_boot_iface i = Inr ()) \<and> \<not> list_ex mgmt_dotted (form_interfaces f)
      \<longleftrightarrow> (\<forall>i \<in> set (form_interfaces f).
             interface_values (boot_name i) (boot_parent i) (boot_vlan i) (boot_addresses i) = Inr ()
             \<and> validate_role (booted_iface i) = Inr () \<and> plain_placement i)"
    using check_iface_iff by (fastforce simp: list_ex_iff)
  have "validate b64 (form_desired f) = Inr () \<longleftrightarrow>
      validate_values (form_desired f) = Inr ()
      \<and> (\<forall>i \<in> set (form_interfaces f). validate_role (booted_iface i) = Inr ())
      \<and> validate_topology (form_desired f) = Inr () \<and> validate_exposure (form_desired f) = Inr ()"
    by (simp add: validate_ok)
  moreover have "validate_bootstrap f = Inr () \<longleftrightarrow>
      (\<forall>i \<in> set (form_interfaces f). check_boot_iface i = Inr ())
      \<and> check_boot_topology (form_interfaces f) = Inr () \<and> form_exposure f \<noteq> []
      \<and> eachE (check_boot_exposed (form_interfaces f)) (form_exposure f) = Inr ()
      \<and> \<not> list_ex (\<lambda>m. boot_name m \<notin> set (form_exposure f)) (filter (boots_as ''mgmt'') (form_interfaces f))
      \<and> addressing (Some (trim (form_prefix f))) (Some (trim (form_pool f))) (Some (trim (form_pd f))) = Inr ()"
    by (simp add: validate_bootstrap_def thenE_ok failIf_ok eachE_ok)
  ultimately show ?thesis
    using ifs read_form by (auto simp: check_topology_iff check_exposure_iff form_values_iff list_all_iff)
qed

end
