(* ===== verification/Http.thy ===== *)
theory Http
  imports World Serde
begin

text \<open>
  The HTTP/1.1 of the Web UI (\<open>src/ui.rs\<close>): one request read from a TLS stream, one response
  written. A stream is the list of what its reads return, each a chunk of at most 2048 bytes
  or an error; after the list, and at an empty chunk, the peer has closed it. TLS and the
  sockets are outside. The main fact: how the bytes of a request are cut into chunks does
  not change what is read.
\<close>

section \<open>Requests\<close>

record http_request =
  req_method :: string
  req_path :: string
  req_body :: string
  req_headers :: "(string \<times> string) list"

type_synonym stream = "string res list"

abbreviation crlf :: string where "crlf \<equiv> [CHR 0x0D, CHR 0x0A]"

definition MAX_HEADERS :: nat where "MAX_HEADERS = 65536"
definition MAX_BODY :: nat where "MAX_BODY = 1048576"

fun find_headers_end :: "string \<Rightarrow> nat option" where
  "find_headers_end [] = None"
| "find_headers_end (c # s) =
     (if starts_with (crlf @ crlf) (c # s) then Some 0 else map_option Suc (find_headers_end s))"

fun read_head :: "string \<Rightarrow> stream \<Rightarrow> (string \<times> nat \<times> stream) res" where
  "read_head buf [] = Inl ''client closed during headers''"
| "read_head buf (Inl e # cs) = Inl (''read request: '' @ e)"
| "read_head buf (Inr c # cs) =
     (if c = [] then Inl ''client closed during headers''
      else let buf = buf @ c in
        case find_headers_end buf of
          Some pos \<Rightarrow> if MAX_HEADERS < pos then Inl ''headers too large'' else Inr (buf, pos, cs)
        | None \<Rightarrow> if MAX_HEADERS < length buf then Inl ''headers too large'' else read_head buf cs)"

fun read_body :: "nat \<Rightarrow> string \<Rightarrow> stream \<Rightarrow> string res" where
  "read_body n body cs =
     (if n \<le> length body then Inr (take n body)
      else case cs of
        [] \<Rightarrow> Inl ''client closed during body''
      | Inl e # cs \<Rightarrow> Inl (''read body: '' @ e)
      | Inr c # cs \<Rightarrow> if c = [] then Inl ''client closed during body'' else read_body n (body @ c) cs)"

declare read_body.simps [simp del]

text \<open>\<open>str::split("\r\n")\<close>\<close>

fun split_crlf :: "string \<Rightarrow> string list" where
  "split_crlf [] = [[]]"
| "split_crlf [c] = [[c]]"
| "split_crlf (c # d # s) =
     (if c = CHR 0x0D \<and> d = CHR 0x0A then [] # split_crlf s
      else (case split_crlf (d # s) of [] \<Rightarrow> [[c]] | l # ls \<Rightarrow> (c # l) # ls))"

fun read_headers :: "(string \<times> string) list \<Rightarrow> string list \<Rightarrow> (string \<times> string) list res" where
  "read_headers hs [] = Inr hs"
| "read_headers hs (line # lines) =
     (case split_once (CHR '':'') line of
        None \<Rightarrow> Inl ''invalid request header''
      | Some (name, value) \<Rightarrow>
          (let name = map to_ascii_lower name in
           if name \<in> fst ` set hs then Inl ''duplicate request header''
           else read_headers ((name, trim value) # hs) lines))"

definition content_length :: "(string \<times> string) list \<Rightarrow> nat res" where
  "content_length hs =
     (if map_of hs ''transfer-encoding'' \<noteq> None then Inl ''unsupported transfer encoding''
      else case map_of hs ''content-length'' of
        None \<Rightarrow> Inr 0
      | Some v \<Rightarrow>
          (case parse_uint (2 ^ 64 - 1) v of
             None \<Rightarrow> Inl ''invalid content length''
           | Some n \<Rightarrow> if MAX_BODY < n then Inl ''body too large'' else Inr n))"

text \<open>The request line, its first two words, and the headers.\<close>

definition parse_head :: "string \<Rightarrow> (string \<times> string \<times> (string \<times> string) list \<times> nat) res" where
  "parse_head head =
     (if \<not> is_utf8 head then Inl ''headers were not UTF-8''
      else let lines = split_crlf head;
               words = split_whitespace (hd lines);
               method = (case nth_opt words 0 of Some m \<Rightarrow> m | None \<Rightarrow> []);
               path = (case nth_opt words 1 of Some p \<Rightarrow> p | None \<Rightarrow> ''/'') in
        bindE (read_headers [] (tl lines)) (\<lambda>hs.
        bindE (content_length hs) (\<lambda>n. Inr (method, path, hs, n))))"

definition read_request :: "stream \<Rightarrow> http_request res" where
  "read_request cs =
     bindE (read_head [] cs) (\<lambda>(buf, pos, rest).
     bindE (parse_head (take pos buf)) (\<lambda>(method, path, hs, n).
     bindE (read_body n (drop (pos + 4) buf) rest) (\<lambda>body.
       Inr \<lparr> req_method = method, req_path = path, req_body = body, req_headers = hs \<rparr>)))"

definition header :: "http_request \<Rightarrow> string \<Rightarrow> string option" where
  "header req name = map_of (req_headers req) name"

section \<open>Where a request comes from\<close>

definition eq_ignore_case :: "string \<Rightarrow> string \<Rightarrow> bool" where
  "eq_ignore_case a b \<longleftrightarrow> map to_ascii_lower a = map to_ascii_lower b"

definition same_origin_json :: "http_request \<Rightarrow> bool" where
  "same_origin_json req \<longleftrightarrow>
     (case header req ''content-type'' of
        None \<Rightarrow> False
      | Some v \<Rightarrow> eq_ignore_case (trim (hd (split_on (CHR '';'') v))) ''application/json'')
     \<and> (case header req ''origin'' of
          None \<Rightarrow> True
        | Some origin \<Rightarrow>
            (case header req ''host'' of None \<Rightarrow> False | Some host \<Rightarrow> origin = ''https://'' @ host))
     \<and> header req ''sec-fetch-site'' \<noteq> Some ''cross-site''"

definition SESSION_COOKIE :: string where "SESSION_COOKIE = ''__Host-fwos''"

definition hex_digit :: "char \<Rightarrow> bool" where
  "hex_digit c \<longleftrightarrow> ascii_digit c \<or> 97 \<le> byte c \<and> byte c \<le> 102 \<or> 65 \<le> byte c \<and> byte c \<le> 70"

definition cookie_token :: "string \<Rightarrow> string option" where
  "cookie_token cookie =
     (case split_once (CHR ''='') (trim cookie) of
        None \<Rightarrow> None
      | Some (name, value) \<Rightarrow>
          if name = SESSION_COOKIE \<and> length value = 64 \<and> list_all hex_digit value then Some value else None)"

text \<open>One session cookie, or none: two of them are not trusted.\<close>

definition session_token :: "http_request \<Rightarrow> string option" where
  "session_token req =
     (case header req ''cookie'' of
        None \<Rightarrow> None
      | Some v \<Rightarrow>
          (case List.map_filter cookie_token (split_on (CHR '';'') v) of
             [token] \<Rightarrow> Some token
           | _ \<Rightarrow> None))"

section \<open>Responses\<close>

text \<open>The body is a JSON value before \<open>to_string\<close>, or bytes.\<close>

datatype content = Json json | Bytes string

record http_response =
  status :: nat
  ctype :: string
  content :: content
  extra_headers :: "(string \<times> string) list"

definition JSON_TYPE :: string where "JSON_TYPE = ''application/json; charset=utf-8''"
definition TEXT_TYPE :: string where "TEXT_TYPE = ''text/plain; charset=utf-8''"

definition json_response :: "nat \<Rightarrow> json \<Rightarrow> http_response" where
  "json_response code v = \<lparr> status = code, ctype = JSON_TYPE, content = Json v, extra_headers = [] \<rparr>"

definition text_response :: "nat \<Rightarrow> string \<Rightarrow> http_response" where
  "text_response code s = \<lparr> status = code, ctype = TEXT_TYPE, content = Bytes s, extra_headers = [] \<rparr>"

text \<open>\<open>json!({"ok": false, "error": ...})\<close>, with which most refusals answer.\<close>

definition failed :: "string \<Rightarrow> json" where
  "failed e = JObj [(''ok'', JBool False), (''error'', JStr e)]"

definition refused :: "nat \<Rightarrow> string \<Rightarrow> http_response" where
  "refused code e = json_response code (failed e)"

definition reason :: "nat \<Rightarrow> string" where
  "reason code =
     (case map_of
        [(200, ''OK''), (400, ''Bad Request''), (401, ''Unauthorized''), (403, ''Forbidden''),
         (404, ''Not Found''), (405, ''Method Not Allowed''), (409, ''Conflict''),
         (415, ''Unsupported Media Type''), (429, ''Too Many Requests''), (502, ''Bad Gateway''),
         (503, ''Service Unavailable'')] code of
        Some r \<Rightarrow> r
      | None \<Rightarrow> ''Error'')"

definition write_response :: "(json \<Rightarrow> string) \<Rightarrow> http_response \<Rightarrow> string" where
  "write_response text_of_json r =
     (let body = (case content r of Json v \<Rightarrow> text_of_json v | Bytes b \<Rightarrow> b) in
      ''HTTP/1.1 '' @ show_nat (status r) @ '' '' @ reason (status r) @ crlf
      @ ''Content-Type: '' @ ctype r @ crlf
      @ ''Content-Length: '' @ show_nat (length body) @ crlf
      @ ''Connection: close'' @ crlf
      @ ''Cache-Control: no-store'' @ crlf
      @ ''X-Content-Type-Options: nosniff'' @ crlf
      @ ''Content-Security-Policy: default-src 'self'; style-src 'self' 'unsafe-inline'; frame-ancestors 'none'; base-uri 'none'' @ [CHR 0x27] @ crlf
      @ concat (map (\<lambda>(name, value). name @ '': '' @ value @ crlf) (extra_headers r))
      @ crlf @ body)"

definition mime :: "string \<Rightarrow> string" where
  "mime name =
     (if starts_with (rev ''.js'') (rev name) then ''application/javascript; charset=utf-8''
      else ''text/html; charset=utf-8'')"

section \<open>Chunks\<close>

lemma starts_with_append: "starts_with p s \<Longrightarrow> starts_with p (s @ t)"
  by (auto simp: starts_with_iff)

lemma starts_with_prefix: "starts_with p (s @ t) \<Longrightarrow> length p \<le> length s \<Longrightarrow> starts_with p s"
  by (auto simp: starts_with_iff append_eq_append_conv2)

lemma starts_with_short: "starts_with p s \<Longrightarrow> length p \<le> length s"
  by (auto simp: starts_with_iff)

lemma find_headers_bound: "find_headers_end s = Some pos \<Longrightarrow> pos + 4 \<le> length s"
  by (induction s arbitrary: pos) (auto split: if_splits dest!: starts_with_short)

lemma find_headers_append:
  "find_headers_end (s @ t) = Some pos \<Longrightarrow> pos + 4 \<le> length s \<Longrightarrow> find_headers_end s = Some pos"
proof (induction s arbitrary: pos)
  case (Cons c s)
  then show ?case
    using starts_with_prefix [of "crlf @ crlf" "c # s" t] starts_with_append [of "crlf @ crlf" "c # s" t]
    by (auto split: if_splits)
qed simp

lemma find_headers_more: "find_headers_end s = Some pos \<Longrightarrow> find_headers_end (s @ t) = Some pos"
proof (induction s arbitrary: pos)
  case (Cons c s)
  then show ?case
    using find_headers_bound [OF Cons.prems] starts_with_prefix [of "crlf @ crlf" "c # s" t]
      starts_with_append [of "crlf @ crlf" "c # s" t]
    by (auto split: if_splits)
qed simp

text \<open>A whole message, in one piece.\<close>

definition parse_message :: "string \<Rightarrow> http_request res" where
  "parse_message bytes =
     (case find_headers_end bytes of
        None \<Rightarrow> Inl ''client closed during headers''
      | Some pos \<Rightarrow>
          bindE (parse_head (take pos bytes)) (\<lambda>(method, path, hs, n).
            let rest = drop (pos + 4) bytes in
            if length rest < n then Inl ''client closed during body''
            else Inr \<lparr> req_method = method, req_path = path, req_body = take n rest, req_headers = hs \<rparr>))"

lemma read_head_chunks:
  assumes "list_all (\<lambda>c. c \<noteq> []) cs" and "find_headers_end (buf @ concat cs) = Some pos"
    and "find_headers_end buf = None" and "pos + 3 \<le> MAX_HEADERS"
  shows "\<exists>got rest. read_head buf (map Inr cs) = Inr (got, pos, map Inr rest)
           \<and> got @ concat rest = buf @ concat cs \<and> pos + 4 \<le> length got \<and> list_all (\<lambda>c. c \<noteq> []) rest"
  using assms
proof (induction cs arbitrary: buf)
  case Nil
  then show ?case by simp
next
  case (Cons c cs)
  show ?case
  proof (cases "find_headers_end (buf @ c)")
    case None
    then have "length (buf @ c) < pos + 4"
      using find_headers_append [of "buf @ c" "concat cs" pos] Cons.prems(2) by fastforce
    then have "length (buf @ c) \<le> MAX_HEADERS" using Cons.prems(4) by simp
    then show ?thesis
      using Cons.IH [of "buf @ c"] Cons.prems None by (auto simp: Let_def)
  next
    case (Some p)
    then have "find_headers_end (buf @ c @ concat cs) = Some p"
      using find_headers_more [of "buf @ c" p "concat cs"] by simp
    then have "p = pos" using Cons.prems(2) by simp
    then show ?thesis
      using Cons.prems Some find_headers_bound [OF Some]
      by (intro exI [of _ "buf @ c"] exI [of _ cs]) (auto simp: Let_def)
  qed
qed

lemma read_body_chunks:
  assumes "list_all (\<lambda>c. c \<noteq> []) cs"
  shows "read_body n body (map Inr cs) =
     (if length (body @ concat cs) < n then Inl ''client closed during body'' else Inr (take n (body @ concat cs)))"
  using assms
proof (induction cs arbitrary: body)
  case Nil
  then show ?case by (auto simp: read_body.simps)
next
  case (Cons c cs)
  then show ?case
    by (subst read_body.simps) (auto simp: Cons.IH)
qed

lemma read_request_chunks:
  assumes "list_all (\<lambda>c. c \<noteq> []) cs" and "find_headers_end (concat cs) = Some pos"
    and "pos + 3 \<le> MAX_HEADERS"
  shows "read_request (map Inr cs) = parse_message (concat cs)"
proof -
  obtain got rest where head: "read_head [] (map Inr cs) = Inr (got, pos, map Inr rest)"
    and all: "got @ concat rest = concat cs" and len: "pos + 4 \<le> length got"
    and ne: "list_all (\<lambda>c. c \<noteq> []) rest"
    using read_head_chunks [of cs "[]" pos] assms by auto
  have "take pos (concat cs) = take pos got" "drop (pos + 4) (concat cs) = drop (pos + 4) got @ concat rest"
    using all len by (auto simp flip: all)
  then show ?thesis
    using assms(2) head read_body_chunks [OF ne]
    by (cases "parse_head (take pos got)") (auto simp: read_request_def parse_message_def)
qed

text \<open>
  C40. A request is read the same however the network cuts its bytes into chunks: from any
  non-empty chunks it is the message of their concatenation, as long as the header section
  ends within 64 KiB. A body shorter than announced is an error, a longer one is cut.
\<close>

theorem requests_do_not_depend_on_chunks:
  assumes "list_all (\<lambda>c. c \<noteq> []) cs" and "find_headers_end (concat cs) = Some pos"
    and "pos + 3 \<le> MAX_HEADERS"
  shows "read_request (map Inr cs) = parse_message (concat cs)
         \<and> read_request [Inr (concat cs)] = parse_message (concat cs)"
proof -
  have "concat cs \<noteq> []" using assms(2) by (cases "concat cs = []") simp_all
  then have "list_all (\<lambda>c. c \<noteq> []) [concat cs]" by simp
  then have "read_request (map Inr [concat cs]) = parse_message (concat [concat cs])"
    using assms(2,3) by (intro read_request_chunks [of _ pos]) simp_all
  then show ?thesis using read_request_chunks [OF assms] by simp
qed

theorem requests_do_not_depend_on_chunks_witness:
  "read_request [Inr (''GET / HTTP/1.1'' @ [CHR 0x0D]), Inr ([CHR 0x0A] @ ''Host: fwos'' @ crlf @ [CHR 0x0D]), Inr [CHR 0x0A]]
   = parse_message (''GET / HTTP/1.1'' @ crlf @ ''Host: fwos'' @ crlf @ crlf)"
proof -
  define cs where "cs = [''GET / HTTP/1.1'' @ [CHR 0x0D], [CHR 0x0A] @ ''Host: fwos'' @ crlf @ [CHR 0x0D], [CHR 0x0A]]"
  have "list_all (\<lambda>c. c \<noteq> []) cs" by (simp add: cs_def)
  moreover have "find_headers_end (concat cs) = Some 26" unfolding cs_def by code_simp
  moreover have "26 + 3 \<le> MAX_HEADERS" by (simp add: MAX_HEADERS_def)
  ultimately have "read_request (map Inr cs) = parse_message (concat cs)"
    using requests_do_not_depend_on_chunks by blast
  then show ?thesis by (simp add: cs_def)
qed

end
