(* ===== verification/Ui.thy ===== *)
theory Ui
  imports Ui_Bootstrap Http Resolvers
begin

text \<open>
  The Web UI as a program (\<open>src/ui.rs\<close>): drafts and their files, the pages that read and
  apply, exports and imports, Host update and Bootstrap requests. A handler acts on the
  machine; netd and the Host update program are reached by \<open>exchange\<close>, a function of the
  world, since all three share \<open>/var/lib/fwos\<close>. A request is handled as one step: the draft,
  login and Bootstrap locks only order requests. Sessions and the dispatch are in \<open>Ui_Server\<close>.
\<close>

section \<open>Requests\<close>

type_synonym 'a change = "u64 \<times> 'a"

record login_form =
  login_source :: string
  login_username :: string
  login_password :: string

record account_form =
  account_username :: string
  account_password :: string

datatype standalone_route =
    Add_route u64 static_route
  | Change_route u64 static_route static_route
  | Remove_route u64 static_route

datatype route_request =
    Reviewed_routes "static_route list change"
  | Standalone standalone_route

record draft_change =
  change_base :: u64
  change_version :: "string option"
  change_sections :: section_values

record draft_reconciliation =
  reconcile_base :: u64
  reconcile_version :: string
  reconcile_accepted :: u64
  reconcile_sections :: section_values

record import_request =
  import_base :: u64
  import_content :: string
  import_passphrase :: "string option"

text \<open>\<open>serde_json::from_slice\<close> at each of them, and of the draft file.\<close>

record ui_forms =
  read_login :: "string \<Rightarrow> login_form res"
  read_account :: "string \<Rightarrow> account_form res"
  read_removal :: "string \<Rightarrow> string res"
  read_setting :: "string \<Rightarrow> bool change res"
  read_confirmation :: "string \<Rightarrow> (u64 \<times> string) res"
  read_routes :: "string \<Rightarrow> static_route list change res"
  read_standalone :: "string \<Rightarrow> standalone_route res"
  read_interfaces :: "string \<Rightarrow> (iface list \<times> string list) change res"
  read_services :: "string \<Rightarrow> lan_services change res"
  read_policy :: "string \<Rightarrow> string list change res"
  read_tunnels :: "string \<Rightarrow> wg_input list change res"
  read_qdiscs :: "string \<Rightarrow> qdisc list change res"
  read_ipv6_change :: "string \<Rightarrow> wan_ipv6 list change res"
  read_draft_change :: "string \<Rightarrow> draft_change res"
  read_reference :: "string \<Rightarrow> (u64 \<times> string) res"
  read_reconciliation :: "string \<Rightarrow> draft_reconciliation res"
  read_export :: "string \<Rightarrow> (bool \<times> string option) res"
  read_import :: "string \<Rightarrow> import_request res"
  read_stage :: "string \<Rightarrow> string res"
  read_bootstrap :: "string \<Rightarrow> bootstrap_form res"
  text_of_draft :: "draft \<Rightarrow> string res"
  draft_of_text :: "string \<Rightarrow> draft res"

section \<open>The environment\<close>

text \<open>\<open>exchange\<close> connects to a socket, writes the request, and reads the reply to its end.
  \<open>toml_value\<close> is a TOML document as \<open>serde_json::to_value\<close> gives it; \<open>instant\<close> is the
  monotonic clock in nanoseconds; \<open>login_busy\<close> whether another login holds the lock.\<close>

record 'k ui_env =
  ident :: "'k identity_env"
  forms :: ui_forms
  files_of :: export_codec
  age_encrypt :: "string \<Rightarrow> string \<Rightarrow> 'k \<Rightarrow> string res \<times> 'k"
  exchange :: "string \<Rightarrow> json \<Rightarrow> ('k world, string res) state"
  netd_listens :: "'k \<Rightarrow> bool \<times> 'k"
  toml_value :: "string \<Rightarrow> json option"
  lossy :: "string \<Rightarrow> string"
  instant :: "'k \<Rightarrow> nat \<times> 'k"
  login_busy :: "'k \<Rightarrow> bool \<times> 'k"

definition host_of :: "'k ui_env \<Rightarrow> 'k env" where
  "host_of U = machine (ident U)"

definition principal_json :: "'k ui_env \<Rightarrow> principal \<Rightarrow> json" where
  "principal_json U p = json_of_principal (codec (host_of U)) p"

definition NETD_SOCK :: string where "NETD_SOCK = ''/var/lib/fwos/netd.sock''"
definition UPDATE_SOCK :: string where "UPDATE_SOCK = ''/var/lib/fwos/update.sock''"
definition UI_DESIRED :: string where "UI_DESIRED = ''/var/lib/fwos/desired.toml''"
definition UI_ATTEMPT :: string where "UI_ATTEMPT = ''/var/lib/fwos/bootstrap-attempt.json''"
definition HOSTNAME_FILE :: string where "HOSTNAME_FILE = ''/var/lib/fwos/hostname''"
definition STATIC_DIR :: string where "STATIC_DIR = ''/usr/share/fwos-ui''"

type_synonym 'k handler = "('k world, http_response) state"

definition socket_cmd :: "'k ui_env \<Rightarrow> string \<Rightarrow> json \<Rightarrow> ('k, json) io" where
  "socket_cmd U sock v = tryE (exchange U sock v) (\<lambda>raw.
     case json_of_text (codec (host_of U)) raw of
       Inl e \<Rightarrow> errE (''parse '' @ sock @ '' reply: '' @ e)
     | Inr reply \<Rightarrow> okE reply)"

abbreviation netd_cmd :: "'k ui_env \<Rightarrow> json \<Rightarrow> ('k, json) io" where
  "netd_cmd U \<equiv> socket_cmd U NETD_SOCK"

definition op_json :: "string \<Rightarrow> (string \<times> json) list \<Rightarrow> json" where
  "op_json name kvs = JObj ((''op'', JStr name) # kvs)"

definition is_true :: "json \<Rightarrow> string \<Rightarrow> bool" where
  "is_true v key \<longleftrightarrow> jindex v key = JBool True"

definition says :: "json \<Rightarrow> string \<Rightarrow> string \<Rightarrow> bool" where
  "says v key text \<longleftrightarrow> jindex v key = JStr text"

text \<open>A step that can fail, answered with 502 and its error.\<close>

definition or_gateway :: "('k, 'a) io \<Rightarrow> ('a \<Rightarrow> 'k handler) \<Rightarrow> 'k handler" where
  "or_gateway m f = do { r \<leftarrow> m; (case r of Inl e \<Rightarrow> ret (refused 502 e) | Inr a \<Rightarrow> f a) }"

definition rejected_json :: "string \<Rightarrow> json" where
  "rejected_json e = JObj [(''ok'', JBool False), (''outcome'', JStr ''rejected''), (''error'', JStr e)]"

definition rejected_at :: "u64 \<Rightarrow> string \<Rightarrow> json" where
  "rejected_at n e =
     JObj [(''ok'', JBool False), (''outcome'', JStr ''rejected''), (''revision'', jword n), (''error'', JStr e)]"

definition indeterminate_json :: "string \<Rightarrow> json" where
  "indeterminate_json e =
     JObj [(''ok'', JBool False), (''outcome'', JStr ''indeterminate''), (''error'', JStr e)]"

section \<open>The Accepted state\<close>

definition complete_desired :: "'k ui_env \<Rightarrow> ('k, desired_state) io" where
  "complete_desired U = tryE (netd_cmd U (op_json ''get_desired'' [])) (\<lambda>reply.
     if \<not> is_true reply ''ok''
     then errE (case jstr (jindex reply ''error'') of Some e \<Rightarrow> e | None \<Rightarrow> ''Desired state unavailable'')
     else case read_desired (jindex reply ''desired'') of
       Inl e \<Rightarrow> errE (''decode Desired state: '' @ e)
     | Inr st \<Rightarrow> okE st)"

definition accepted_snapshot_for_drafting :: "'k ui_env \<Rightarrow> ('k, desired_state) io" where
  "accepted_snapshot_for_drafting U = do {
     r \<leftarrow> read_text (host_of U) UI_DESIRED;
     (case r of
        Inr (Some raw) \<Rightarrow>
          (case desired_of_toml (codec (host_of U)) raw of
             Inl _ \<Rightarrow> errE ''Accepted Desired state is invalid''
           | Inr st \<Rightarrow> okE (if revision st = 0 then st\<lparr> revision := 1 \<rparr> else st))
      | _ \<Rightarrow> errE ''Accepted Desired state is unavailable'') }"

section \<open>Draft files\<close>

definition read_draft :: "'k ui_env \<Rightarrow> string \<Rightarrow> ('k, draft option) io" where
  "read_draft U path = do {
     r \<leftarrow> read_file (host_of U) path;
     (case r of
        Inl _ \<Rightarrow> errE ''saved Draft Desired state is unavailable''
      | Inr None \<Rightarrow> okE None
      | Inr (Some raw) \<Rightarrow>
          (case draft_of_text (forms U) raw of
             Inl _ \<Rightarrow> errE ''saved Draft Desired state is invalid''
           | Inr d \<Rightarrow> okE (Some d))) }"

definition was_accepted :: "'k ui_env \<Rightarrow> principal \<Rightarrow> u64 \<Rightarrow> string \<Rightarrow> ('k world, bool) state" where
  "was_accepted U own n tag = do {
     r \<leftarrow> netd_cmd U (op_json ''was_draft_accepted''
            [(''revision'', jword n), (''owner'', principal_json U own), (''draft_version'', JStr tag)]);
     ret (case r of Inr reply \<Rightarrow> is_true reply ''ok'' \<and> is_true reply ''accepted'' | Inl _ \<Rightarrow> False) }"

text \<open>A draft netd has accepted in the meantime is cleared; any doubt keeps it.\<close>

definition clear_accepted ::
    "'k ui_env \<Rightarrow> string \<Rightarrow> principal \<Rightarrow> desired_state \<Rightarrow> draft \<Rightarrow> ('k, draft option) io" where
  "clear_accepted U path own snapshot d = do {
     s \<leftarrow> complete_desired U;
     (case s of
        Inl _ \<Rightarrow> okE (Some d)
      | Inr now \<Rightarrow>
          if revision now \<noteq> revision snapshot then okE (Some d)
          else do {
            accepted \<leftarrow> was_accepted U own (revision now) (draft_tag d);
            (if \<not> accepted then okE (Some d)
             else tryE (durable_remove (host_of U) path) (\<lambda>_. okE None)) }) }"

definition read_draft_reconciled ::
    "'k ui_env \<Rightarrow> string \<Rightarrow> principal \<Rightarrow> desired_state option \<Rightarrow> ('k, draft option) io" where
  "read_draft_reconciled U path own snapshot = tryE (read_draft U path) (\<lambda>d.
     case d of
       None \<Rightarrow> okE None
     | Some d \<Rightarrow>
         (case snapshot of
            None \<Rightarrow> okE (Some d)
          | Some s \<Rightarrow>
              if revision s = draft_base d then okE (Some d) else clear_accepted U path own s d))"

definition write_draft :: "'k ui_env \<Rightarrow> string \<Rightarrow> draft \<Rightarrow> ('k, unit) io" where
  "write_draft U path d =
     seqE (map_err (\<lambda>_. ''create private draft directory'') (simple_op (host_of U) (Make_dir (parent_dir path))))
    (seqE (map_err (\<lambda>_. ''protect draft directory'') (simple_op (host_of U) (Chmod DRAFT_DIR)))
    (seqE (map_err (\<lambda>_. ''protect owner draft directory'') (simple_op (host_of U) (Chmod (parent_dir path))))
    (case text_of_draft (forms U) d of
       Inl _ \<Rightarrow> errE ''encode Draft Desired state''
     | Inr raw \<Rightarrow> durable_write (host_of U) path raw)))"

section \<open>Who may ask\<close>

definition signed_in :: "authentication option \<Rightarrow> (authentication \<Rightarrow> 'k handler) \<Rightarrow> 'k handler" where
  "signed_in a f = (case a of None \<Rightarrow> ret (refused 401 ''sign in required'') | Some t \<Rightarrow> f t)"

definition bootstrapped_only :: "'k handler \<Rightarrow> 'k handler" where
  "bootstrapped_only m = do {
     owned \<leftarrow> file_exists OWNED_FILE;
     (if owned then m else ret (refused 409 ''complete Bootstrap first'')) }"

definition operator_session :: "authentication option \<Rightarrow> (authentication \<Rightarrow> 'k handler) \<Rightarrow> 'k handler" where
  "operator_session a f = signed_in a (\<lambda>t. bootstrapped_only (f t))"

text \<open>A body that has to be of a form.\<close>

definition with_form :: "'a res \<Rightarrow> (string \<Rightarrow> http_response) \<Rightarrow> ('a \<Rightarrow> 'k handler) \<Rightarrow> 'k handler" where
  "with_form r bad f = (case r of Inl e \<Rightarrow> ret (bad e) | Inr a \<Rightarrow> f a)"

definition bad_change :: "string \<Rightarrow> string \<Rightarrow> http_response" where
  "bad_change what e = json_response 400 (rejected_json (''invalid '' @ what @ '': '' @ e))"

end
