(* ===== verification/Ui_Pages.thy ===== *)
theory Ui_Pages
  imports Ui
begin

text \<open>
  The pages of the Web UI that read or apply one section (\<open>src/ui.rs\<close>). Every apply page has
  the same shape (\<open>apply_page\<close>): no private draft may be pending, the Accepted state has to
  be at the revision the page was made from, and what goes to netd is that state with the
  page's section stored in it.
\<close>

section \<open>Submitting\<close>

definition apply_message :: "'k ui_env \<Rightarrow> desired_state \<Rightarrow> u64 \<Rightarrow> principal \<Rightarrow> (string \<times> json) list \<Rightarrow> json" where
  "apply_message U st base actor extra = op_json ''apply_desired''
     ([(''base_revision'', jword base), (''desired'', write_desired st), (''applying'', principal_json U actor)] @ extra)"

definition submit_desired_apply :: "'k ui_env \<Rightarrow> desired_state \<Rightarrow> u64 \<Rightarrow> principal \<Rightarrow> 'k handler" where
  "submit_desired_apply U st base actor = do {
     r \<leftarrow> netd_cmd U (apply_message U st base actor []);
     ret (case r of
            Inl e \<Rightarrow> json_response 502 (indeterminate_json (''netd apply outcome unavailable: '' @ e))
          | Inr reply \<Rightarrow>
              json_response
                (if is_true reply ''ok'' then 200
                 else if says reply ''outcome'' ''rejected'' then 400
                 else if says reply ''outcome'' ''busy'' then 409
                 else 502) reply) }"

definition PENDING_DRAFT :: string where
  "PENDING_DRAFT = ''Private pending draft exists; review and apply or reconcile it first''"

definition apply_page ::
    "'k ui_env \<Rightarrow> authentication \<Rightarrow> u64 \<Rightarrow> (desired_state \<Rightarrow> http_response + desired_state)
     \<Rightarrow> (desired_state \<Rightarrow> 'k handler) \<Rightarrow> 'k handler" where
  "apply_page U t base store send = do {
     snapshot \<leftarrow> accepted_snapshot_for_drafting U;
     or_gateway (read_draft_reconciled U (draft_path (auth_principal t)) (auth_principal t) (ok_opt snapshot)) (\<lambda>d.
       case d of
         Some _ \<Rightarrow> ret (json_response 409 (rejected_json PENDING_DRAFT))
       | None \<Rightarrow> or_gateway (complete_desired U) (\<lambda>st.
           if revision st \<noteq> base
           then ret (json_response 409 (rejected_at (revision st) ''Accepted Desired state changed; reload before applying''))
           else case store st of Inl response \<Rightarrow> ret response | Inr st \<Rightarrow> send st)) }"

text \<open>The pages whose section is stored or refused with 400.\<close>

definition or_rejected :: "desired_state res \<Rightarrow> http_response + desired_state" where
  "or_rejected r = (case r of Inl e \<Rightarrow> Inl (json_response 400 (rejected_json e)) | Inr st \<Rightarrow> Inr st)"

definition section_page ::
    "'k ui_env \<Rightarrow> authentication option \<Rightarrow> string \<Rightarrow> 'a change res \<Rightarrow> (desired_state \<Rightarrow> 'a \<Rightarrow> desired_state res)
     \<Rightarrow> 'k handler" where
  "section_page U a what form store = operator_session a (\<lambda>t.
     with_form form (bad_change what) (\<lambda>(base, v).
       apply_page U t base (\<lambda>st. or_rejected (store st v))
         (\<lambda>st. submit_desired_apply U st base (auth_principal t))))"

section \<open>The apply pages\<close>

definition apply_interfaces :: "'k ui_env \<Rightarrow> http_request \<Rightarrow> authentication option \<Rightarrow> 'k handler" where
  "apply_interfaces U req a = section_page U a ''interface change'' (read_interfaces (forms U) (req_body req))
     (\<lambda>st (ifs, exposure). Inr (store_interface_section st ifs exposure))"

definition apply_lan_services :: "'k ui_env \<Rightarrow> http_request \<Rightarrow> authentication option \<Rightarrow> 'k handler" where
  "apply_lan_services U req a = section_page U a ''LAN service change'' (read_services (forms U) (req_body req))
     (\<lambda>st v. Inr (store_lan_services st v))"

definition apply_firewall :: "'k ui_env \<Rightarrow> http_request \<Rightarrow> authentication option \<Rightarrow> 'k handler" where
  "apply_firewall U req a = section_page U a ''firewall policy'' (read_policy (forms U) (req_body req))
     (\<lambda>st rules. Inr (st\<lparr> nft_extra := rules \<rparr>))"

definition apply_wireguard :: "'k ui_env \<Rightarrow> http_request \<Rightarrow> authentication option \<Rightarrow> 'k handler" where
  "apply_wireguard U req a = section_page U a ''WireGuard change'' (read_tunnels (forms U) (req_body req))
     (\<lambda>st ts. store_wireguard st ts (wireguard st))"

definition apply_qdiscs :: "'k ui_env \<Rightarrow> http_request \<Rightarrow> authentication option \<Rightarrow> 'k handler" where
  "apply_qdiscs U req a = section_page U a ''qdisc change'' (read_qdiscs (forms U) (req_body req)) store_qdiscs"

definition apply_ipv6 :: "'k ui_env \<Rightarrow> http_request \<Rightarrow> authentication option \<Rightarrow> 'k handler" where
  "apply_ipv6 U req a = section_page U a ''IPv6 change'' (read_ipv6_change (forms U) (req_body req)) store_ipv6"

text \<open>Routes: all of them reviewed, or one added, changed or removed. A route that is to be
  changed or removed has to be in the Accepted state exactly once.\<close>

definition only_match :: "static_route \<Rightarrow> static_route list \<Rightarrow> nat option" where
  "only_match original rs =
     (case filter (\<lambda>i. rs ! i = original) [0..<length rs] of [i] \<Rightarrow> Some i | _ \<Rightarrow> None)"

definition route_gone :: "desired_state \<Rightarrow> http_response" where
  "route_gone st =
     json_response 409 (rejected_at (revision st) ''Selected Accepted route changed; reload before applying'')"

definition store_route :: "standalone_route \<Rightarrow> desired_state \<Rightarrow> http_response + desired_state" where
  "store_route change st =
     (case change of
        Add_route _ r \<Rightarrow> Inr (st\<lparr> routes := routes st @ [r] \<rparr>)
      | Change_route _ original r \<Rightarrow>
          (case only_match original (routes st) of
             None \<Rightarrow> Inl (route_gone st)
           | Some i \<Rightarrow> Inr (st\<lparr> routes := (routes st)[i := r] \<rparr>))
      | Remove_route _ original \<Rightarrow>
          (case only_match original (routes st) of
             None \<Rightarrow> Inl (route_gone st)
           | Some i \<Rightarrow> Inr (st\<lparr> routes := remove_at i (routes st) \<rparr>)))"

definition route_base :: "route_request \<Rightarrow> u64" where
  "route_base request =
     (case request of
        Reviewed_routes (base, _) \<Rightarrow> base
      | Standalone (Add_route base _) \<Rightarrow> base
      | Standalone (Change_route base _ _) \<Rightarrow> base
      | Standalone (Remove_route base _) \<Rightarrow> base)"

definition apply_route_change :: "'k ui_env \<Rightarrow> authentication \<Rightarrow> route_request \<Rightarrow> 'k handler" where
  "apply_route_change U t request =
     apply_page U t (route_base request)
       (\<lambda>st. case request of
          Reviewed_routes (_, rs) \<Rightarrow> Inr (st\<lparr> routes := rs \<rparr>)
        | Standalone change \<Rightarrow> store_route change st)
       (\<lambda>st. submit_desired_apply U st (route_base request) (auth_principal t))"

definition apply_routes :: "'k ui_env \<Rightarrow> http_request \<Rightarrow> authentication option \<Rightarrow> 'k handler" where
  "apply_routes U req a = operator_session a (\<lambda>t.
     with_form (read_routes (forms U) (req_body req)) (bad_change ''route change'') (\<lambda>change.
       apply_route_change U t (Reviewed_routes change)))"

definition save_and_apply_route :: "'k ui_env \<Rightarrow> http_request \<Rightarrow> authentication option \<Rightarrow> 'k handler" where
  "save_and_apply_route U req a = operator_session a (\<lambda>t.
     with_form (read_standalone (forms U) (req_body req)) (bad_change ''standalone route change'') (\<lambda>change.
       apply_route_change U t (Standalone change)))"

section \<open>Apply confirmation\<close>

definition confirmation_page :: "'k ui_env \<Rightarrow> 'k handler" where
  "confirmation_page U = bootstrapped_only (or_gateway (netd_cmd U (op_json ''get_apply_confirmation'' [])) (\<lambda>reply.
     ret (json_response (if is_true reply ''ok'' then 200 else 502) reply)))"

text \<open>The setting is applied like a page, but every refusal of netd is a conflict.\<close>

definition submit_setting :: "'k ui_env \<Rightarrow> desired_state \<Rightarrow> u64 \<Rightarrow> principal \<Rightarrow> 'k handler" where
  "submit_setting U st base actor = do {
     r \<leftarrow> netd_cmd U (apply_message U st base actor []);
     ret (case r of
            Inl e \<Rightarrow> json_response 502 (indeterminate_json e)
          | Inr reply \<Rightarrow>
              json_response
                (if is_true reply ''ok'' then 200
                 else if says reply ''outcome'' ''rejected'' \<or> says reply ''outcome'' ''busy'' then 409
                 else 502) reply) }"

definition configure_apply_confirmation :: "'k ui_env \<Rightarrow> http_request \<Rightarrow> authentication option \<Rightarrow> 'k handler" where
  "configure_apply_confirmation U req a = signed_in a (\<lambda>t.
     with_form (read_setting (forms U) (req_body req)) (\<lambda>_. refused 400 ''invalid Apply confirmation setting'') (\<lambda>(base, on).
       apply_page U t base (\<lambda>st. Inr (st\<lparr> apply_confirmation := on \<rparr>))
         (\<lambda>st. submit_setting U st base (auth_principal t))))"

definition confirm_apply_page :: "'k ui_env \<Rightarrow> http_request \<Rightarrow> authentication option \<Rightarrow> 'k handler" where
  "confirm_apply_page U req a = signed_in a (\<lambda>t.
     with_form (read_confirmation (forms U) (req_body req))
       (\<lambda>_. refused 400 ''pending revision and confirmation ID are required'') (\<lambda>(n, token). do {
         r \<leftarrow> netd_cmd U (op_json ''confirm_apply''
                [(''revision'', jword n), (''confirmation_id'', JStr token),
                 (''confirming'', principal_json U (auth_principal t))]);
         ret (case r of
                Inl e \<Rightarrow> json_response 502 (indeterminate_json e)
              | Inr reply \<Rightarrow>
                  json_response
                    (if is_true reply ''ok'' then 200
                     else if says reply ''outcome'' ''rejected'' then 409
                     else 502) reply) }))"

section \<open>The pages that read\<close>

text \<open>A page over the Accepted state: its status and revision, then what it shows.\<close>

definition accepted_page :: "'k ui_env \<Rightarrow> (desired_state \<Rightarrow> ('k world, (string \<times> json) list) state) \<Rightarrow> 'k handler" where
  "accepted_page U show = bootstrapped_only (or_gateway (complete_desired U) (\<lambda>st. do {
     kvs \<leftarrow> show st;
     ret (json_response 200 (JObj ([(''ok'', JBool True), (''status'', JStr ''accepted''),
       (''revision'', jword (revision st))] @ kvs))) }))"

definition list_nics :: "'k ui_env \<Rightarrow> ('k world, json list) state" where
  "list_nics U = do {
     r \<leftarrow> netd_cmd U (op_json ''list'' []);
     ret (case r of
            Inl _ \<Rightarrow> []
          | Inr reply \<Rightarrow> (case Option.bind (jget reply ''nics'') jarr of Some xs \<Rightarrow> xs | None \<Rightarrow> [])) }"

definition jstrs :: "string list \<Rightarrow> json" where
  "jstrs ss = JArr (map JStr ss)"

definition wan_ipv6_json :: "wan_ipv6 \<Rightarrow> json" where
  "wan_ipv6_json s =
     JObj [(''name'', JStr (wan_name s)), (''ipv6'', JStr (wan_mode s)), (''request_pd'', JBool (wan_request_pd s))]"

definition routes_page :: "'k ui_env \<Rightarrow> 'k handler" where
  "routes_page U = accepted_page U (\<lambda>st. ret
     [(''routes'', JArr (map write_route (routes st))), (''interfaces'', jstrs (map iface_name (interfaces st)))])"

definition interfaces_page :: "'k ui_env \<Rightarrow> 'k handler" where
  "interfaces_page U = accepted_page U (\<lambda>st. do {
     nics \<leftarrow> list_nics U;
     ret [(''interfaces'', JArr (map write_iface (interfaces st))), (''ui_exposure'', jstrs (ui_exposure st)),
          (''lan_prefix'', jopt JStr (lan_prefix st)), (''nics'', JArr nics)] })"

definition lan_services_page :: "'k ui_env \<Rightarrow> 'k handler" where
  "lan_services_page U = accepted_page U (\<lambda>st. ret
     [(''lan_prefix'', jopt JStr (lan_prefix st)), (''dhcp_pool'', jopt JStr (dhcp_pool st)),
      (''wan_pd'', jopt JStr (wan_pd st)),
      (''lan'', jopt (\<lambda>i. JStr (iface_name i)) (List.find (has_role ''lan'') (interfaces st)))])"

definition firewall_page :: "'k ui_env \<Rightarrow> 'k handler" where
  "firewall_page U = accepted_page U (\<lambda>st. ret
     [(''rules'', jstrs (nft_extra st)),
      (''interfaces'', JArr (map (\<lambda>i. JObj [(''name'', JStr (iface_name i)), (''role'', jopt JStr (role i))])
         (interfaces st)))])"

definition wireguard_page :: "'k ui_env \<Rightarrow> 'k handler" where
  "wireguard_page U = accepted_page U (\<lambda>st. ret [(''wireguard'', redacted_wireguard (wireguard st))])"

fun add_name :: "string list \<Rightarrow> string list \<Rightarrow> string list" where
  "add_name devices [] = devices"
| "add_name devices (n # ns) = add_name (if n \<in> set devices then devices else devices @ [n]) ns"

definition qdiscs_page :: "'k ui_env \<Rightarrow> 'k handler" where
  "qdiscs_page U = accepted_page U (\<lambda>st. do {
     r \<leftarrow> netd_cmd U (op_json ''qdisc_show'' []);
     ret [(''qdiscs'', JArr (map write_qdisc (qdiscs st))),
          (''interfaces'', jstrs (add_name (map iface_name (interfaces st)) (map wg_name (wireguard st)))),
          (''effective'', JStr (case r of
             Inl _ \<Rightarrow> []
           | Inr reply \<Rightarrow> (case Option.bind (jget reply ''qdiscs'') jstr of Some s \<Rightarrow> s | None \<Rightarrow> [])))] })"

definition ipv6_page :: "'k ui_env \<Rightarrow> 'k handler" where
  "ipv6_page U = accepted_page U (\<lambda>st. do {
     live \<leftarrow> netd_cmd U (op_json ''ipv6_status'' []);
     ret [(''wans'', JArr (map wan_ipv6_json (wan_ipv6_settings st))), (''wan_pd'', jopt JStr (wan_pd st)),
          (''live'', case live of Inr v \<Rightarrow> v | Inl e \<Rightarrow> failed e)] })"

end
