(* ===== verification/Ui_Draft_Pages.thy ===== *)
theory Ui_Draft_Pages
  imports Ui_Pages
begin

text \<open>
  The requests on a private draft (\<open>src/ui.rs\<close>): showing, saving, applying and reconciling it,
  and exporting or importing the whole network state. A draft is found by its owner alone,
  and every change of it needs the version the owner last saw.
\<close>

section \<open>Showing\<close>

definition draft_json :: "draft \<Rightarrow> u64 \<Rightarrow> json" where
  "draft_json d now =
     (let st = draft_desired d in JObj
       [(''ok'', JBool True), (''status'', JStr ''pending''), (''base_revision'', jword (draft_base d)),
        (''accepted_revision'', jword now), (''stale'', JBool (draft_base d \<noteq> now)),
        (''version'', JStr (draft_tag d)), (''sections'', jstrs (effective_sections d)),
        (''routes'', JArr (map write_route (routes st))), (''interfaces'', JArr (map write_iface (interfaces st))),
        (''ui_exposure'', jstrs (ui_exposure st)), (''lan_prefix'', jopt JStr (lan_prefix st)),
        (''dhcp_pool'', jopt JStr (dhcp_pool st)), (''wan_pd'', jopt JStr (wan_pd st)),
        (''firewall'', jstrs (nft_extra st)), (''wireguard'', redacted_wireguard (wireguard st)),
        (''qdiscs'', JArr (map write_qdisc (qdiscs st))),
        (''ipv6'', JArr (map wan_ipv6_json (wan_ipv6_settings st))), (''hostname'', jopt JStr (hostname st)),
        (''apply_confirmation'', JBool (apply_confirmation st))])"

definition draft_status :: "'k ui_env \<Rightarrow> authentication option \<Rightarrow> 'k handler" where
  "draft_status U a = operator_session a (\<lambda>t.
     or_gateway (accepted_snapshot_for_drafting U) (\<lambda>now.
     or_gateway (read_draft_reconciled U (draft_path (auth_principal t)) (auth_principal t) (Some now)) (\<lambda>d.
       ret (json_response 200
         (case d of
            Some d \<Rightarrow> draft_json d (revision now)
          | None \<Rightarrow> JObj [(''ok'', JBool True), (''status'', JStr ''none''), (''accepted_revision'', jword (revision now))])))))"

section \<open>Saving\<close>

definition draft_saved :: "draft \<Rightarrow> http_response" where
  "draft_saved d = json_response 200 (JObj
     [(''ok'', JBool True), (''status'', JStr ''pending''), (''base_revision'', jword (draft_base d)),
      (''version'', JStr (draft_tag d))])"

text \<open>A new version of a draft, written over the old one.\<close>

definition store_draft :: "'k ui_env \<Rightarrow> string \<Rightarrow> (string \<Rightarrow> draft) \<Rightarrow> (draft \<Rightarrow> http_response) \<Rightarrow> 'k handler" where
  "store_draft U path build answer =
     or_gateway (random_token (host_of U)) (\<lambda>tag.
     or_gateway (write_draft U path (build tag)) (\<lambda>_. ret (answer (build tag))))"

text \<open>What the change is made on: the draft of the version named, or the Accepted state.\<close>

definition draft_ground ::
    "draft_change \<Rightarrow> draft option \<Rightarrow> desired_state res
     \<Rightarrow> http_response + u64 \<times> desired_state \<times> string list \<times> string list" where
  "draft_ground c existing snapshot =
     (case existing of
        Some d \<Rightarrow>
          if change_version c = Some (draft_tag d)
          then Inr (draft_base d, draft_desired d, effective_sections d, wireguard_edits d)
          else Inl (refused 409 ''Draft changed; review it again'')
      | None \<Rightarrow>
          if change_version c \<noteq> None then Inl (refused 409 ''Draft no longer exists; reload before saving'')
          else case snapshot of
            Inl e \<Rightarrow> Inl (refused 502 e)
          | Inr st \<Rightarrow> Inr (revision st, st, [], []))"

definition edits_after :: "draft_change \<Rightarrow> string list \<Rightarrow> string list" where
  "edits_after c edits =
     fold (\<lambda>t es. remember_section (input_name t) es)
       (case new_wireguard (change_sections c) of Some ts \<Rightarrow> ts | None \<Rightarrow> []) edits"

definition save_on ::
    "'k ui_env \<Rightarrow> string \<Rightarrow> draft_change \<Rightarrow> u64 \<times> desired_state \<times> string list \<times> string list \<Rightarrow> 'k handler" where
  "save_on U path c ground =
     (case ground of (base, st, ss, edits) \<Rightarrow>
        if change_base c \<noteq> base then ret (refused 409 ''Draft base changed; reload before saving'')
        else case apply_draft_sections (change_sections c) (st, ss) of
          Inl e \<Rightarrow> ret (refused 400 e)
        | Inr (st', ss') \<Rightarrow>
            store_draft U path
              (\<lambda>tag. \<lparr> draft_base = base, draft_tag = tag, draft_desired = st', draft_sections = ss',
                       wireguard_edits = edits_after c edits \<rparr>) draft_saved)"

definition save_draft :: "'k ui_env \<Rightarrow> http_request \<Rightarrow> authentication option \<Rightarrow> 'k handler" where
  "save_draft U req a = operator_session a (\<lambda>t.
     with_form (read_draft_change (forms U) (req_body req)) (\<lambda>_. refused 400 ''invalid draft change'') (\<lambda>c.
       let path = draft_path (auth_principal t) in do {
         snapshot \<leftarrow> accepted_snapshot_for_drafting U;
         or_gateway (read_draft_reconciled U path (auth_principal t) (ok_opt snapshot)) (\<lambda>existing.
           case draft_ground c existing snapshot of
             Inl response \<Rightarrow> ret response
           | Inr ground \<Rightarrow> save_on U path c ground) }))"

section \<open>Applying\<close>

definition NO_DRAFT :: http_response where "NO_DRAFT = refused 404 ''no private pending draft''"

definition applied_status :: "json \<Rightarrow> u64 \<Rightarrow> nat" where
  "applied_status reply base =
     (if (case jnum (jindex reply ''revision'') of Some n \<Rightarrow> n \<noteq> base | None \<Rightarrow> False) then 409
      else if says reply ''outcome'' ''rejected'' then 400
      else if says reply ''outcome'' ''busy'' then 409
      else 502)"

text \<open>The draft is removed only for a reply that it was accepted for good.\<close>

definition conclude_draft :: "'k ui_env \<Rightarrow> string \<Rightarrow> draft \<Rightarrow> json res \<Rightarrow> 'k handler" where
  "conclude_draft U path d r =
     (case r of
        Inl e \<Rightarrow> ret (json_response 502 (indeterminate_json (''netd apply outcome unavailable; draft retained: '' @ e)))
      | Inr reply \<Rightarrow>
          if \<not> is_true reply ''ok'' then ret (json_response (applied_status reply (draft_base d)) reply)
          else if says reply ''outcome'' ''pending_confirmation'' then ret (json_response 200 reply)
          else do {
            removed \<leftarrow> durable_remove (host_of U) path;
            ret (json_response 200
              (case removed of
                 Inl e \<Rightarrow> JObj [(''ok'', JBool True), (''outcome'', JStr ''accepted''), (''status'', JStr ''accepted''),
                   (''revision'', jindex reply ''revision''),
                   (''warning'', JStr (''Accepted, but private draft cleanup failed: '' @ e))]
               | Inr _ \<Rightarrow> reply)) })"

definition stale_json :: "u64 \<Rightarrow> json" where
  "stale_json n = JObj
     [(''ok'', JBool False), (''outcome'', JStr ''rejected''), (''status'', JStr ''stale''), (''revision'', jword n),
      (''error'', JStr ''Accepted Desired state changed; private draft retained for reconciliation'')]"

definition apply_draft :: "'k ui_env \<Rightarrow> http_request \<Rightarrow> authentication option \<Rightarrow> 'k handler" where
  "apply_draft U req a = operator_session a (\<lambda>t.
     with_form (read_reference (forms U) (req_body req)) (\<lambda>_. refused 400 ''invalid draft reference'') (\<lambda>(base, tag).
       let path = draft_path (auth_principal t) in do {
         snapshot \<leftarrow> accepted_snapshot_for_drafting U;
         or_gateway (read_draft_reconciled U path (auth_principal t) (ok_opt snapshot)) (\<lambda>d.
           case d of
             None \<Rightarrow> ret NO_DRAFT
           | Some d \<Rightarrow>
               if draft_base d \<noteq> base \<or> draft_tag d \<noteq> tag
               then ret (json_response 409 (rejected_json ''Draft changed; review it again''))
               else or_gateway (complete_desired U) (\<lambda>now.
                 if revision now \<noteq> draft_base d then ret (json_response 409 (stale_json (revision now)))
                 else do {
                   r \<leftarrow> netd_cmd U (apply_message U (draft_desired d) (draft_base d) (auth_principal t)
                          [(''draft_version'', JStr (draft_tag d))]);
                   conclude_draft U path d r })) }))"

section \<open>Reconciling\<close>

definition reconcile_on ::
    "'k ui_env \<Rightarrow> string \<Rightarrow> draft_reconciliation \<Rightarrow> desired_state res \<Rightarrow> draft \<Rightarrow> 'k handler" where
  "reconcile_on U path c snapshot d =
     (if reconcile_base c \<noteq> draft_base d \<or> reconcile_version c \<noteq> draft_tag d
      then ret (refused 409 ''Draft changed; review it again'')
      else case snapshot of
        Inl e \<Rightarrow> ret (refused 502 e)
      | Inr now \<Rightarrow>
          if reconcile_accepted c \<noteq> revision now \<or> reconcile_base c = revision now
          then ret (refused 409 ''Accepted revision changed; review reconciliation again'')
          else case reconciled_desired d now (reconcile_sections c) of
            Inl e \<Rightarrow> ret (refused 409 e)
          | Inr st \<Rightarrow>
              store_draft U path
                (\<lambda>tag. \<lparr> draft_base = revision st, draft_tag = tag, draft_desired = st,
                         draft_sections = effective_sections d, wireguard_edits = wireguard_edits d \<rparr>) draft_saved)"

definition reconcile_draft :: "'k ui_env \<Rightarrow> http_request \<Rightarrow> authentication option \<Rightarrow> 'k handler" where
  "reconcile_draft U req a = operator_session a (\<lambda>t.
     with_form (read_reconciliation (forms U) (req_body req)) (\<lambda>_. refused 400 ''invalid reconciliation'') (\<lambda>c.
       let path = draft_path (auth_principal t) in do {
         snapshot \<leftarrow> accepted_snapshot_for_drafting U;
         or_gateway (read_draft_reconciled U path (auth_principal t) (ok_opt snapshot)) (\<lambda>d.
           case d of None \<Rightarrow> ret NO_DRAFT | Some d \<Rightarrow> reconcile_on U path c snapshot d) }))"

section \<open>Export and import\<close>

definition encrypt_network_export :: "'k ui_env \<Rightarrow> string \<Rightarrow> string \<Rightarrow> ('k, string) io" where
  "encrypt_network_export U plain passphrase =
     (if passphrase = [] then errE ''enter a passphrase to encrypt the export''
      else map_err (\<lambda>_. ''encrypt network export'') (asks (age_encrypt U passphrase plain)))"

definition export_json :: "desired_state \<Rightarrow> bool \<Rightarrow> string \<Rightarrow> json" where
  "export_json st encrypted body = JObj
     [(''ok'', JBool True), (''revision'', jword (revision st)), (''encrypted'', JBool encrypted),
      (''filename'', JStr (''fwos-network-r'' @ show_nat (unat (revision st)) @ ''.toml''
                           @ (if encrypted then ''.age'' else []))),
      (''content'', JStr body)]"

definition export_desired :: "'k ui_env \<Rightarrow> http_request \<Rightarrow> authentication option \<Rightarrow> 'k handler" where
  "export_desired U req a = operator_session a (\<lambda>_.
     with_form (read_export (forms U) (req_body req)) (\<lambda>_. refused 400 ''invalid export request'') (\<lambda>(acknowledged, passphrase).
       if \<not> acknowledged then ret (refused 400 ''acknowledge that the export contains network secrets'')
       else or_gateway (complete_desired U) (\<lambda>st.
            or_gateway (liftE (network_export (files_of U) st)) (\<lambda>plain.
              case passphrase of
                None \<Rightarrow> ret (json_response 200 (export_json st False plain))
              | Some p \<Rightarrow> do {
                  sealed \<leftarrow> encrypt_network_export U plain p;
                  ret (case sealed of
                         Inl e \<Rightarrow> refused 400 e
                       | Inr body \<Rightarrow> json_response 200 (export_json st True body)) }))))"

definition import_saved :: "bool \<Rightarrow> draft \<Rightarrow> http_response" where
  "import_saved encrypted d = json_response 200 (JObj
     [(''ok'', JBool True), (''status'', JStr ''pending''), (''base_revision'', jword (draft_base d)),
      (''version'', JStr (draft_tag d)), (''encrypted'', JBool encrypted)])"

definition import_on :: "'k ui_env \<Rightarrow> principal \<Rightarrow> import_request \<Rightarrow> desired_state \<Rightarrow> 'k handler" where
  "import_on U own c st =
     (let path = draft_path own in
      or_gateway (accepted_snapshot_for_drafting U) (\<lambda>now.
      or_gateway (read_draft_reconciled U path own (Some now)) (\<lambda>d.
        case d of
          Some _ \<Rightarrow> ret (json_response 409
            (rejected_json ''Private pending draft exists; review and apply or reconcile it before importing''))
        | None \<Rightarrow>
            if import_base c \<noteq> revision now
            then ret (json_response 409 (rejected_at (revision now) ''Accepted Desired state changed; reload before importing''))
            else store_draft U path (imported_draft st (revision now))
                   (import_saved (is_encrypted_export (import_content c))))))"

definition import_desired :: "'k ui_env \<Rightarrow> http_request \<Rightarrow> authentication option \<Rightarrow> 'k handler" where
  "import_desired U req a = operator_session a (\<lambda>t.
     with_form (read_import (forms U) (req_body req)) (\<lambda>_. refused 400 ''invalid network import'') (\<lambda>c.
       case decode_network_import (files_of U) (import_content c) (import_passphrase c) of
         Inl e \<Rightarrow> ret (json_response 400 (rejected_json e))
       | Inr st \<Rightarrow>
           or_gateway (netd_cmd U (op_json ''validate_desired'' [(''desired'', write_desired st)])) (\<lambda>reply.
             if is_true reply ''ok'' then import_on U (auth_principal t) c st
             else ret (json_response 400 (rejected_json
               (case jstr (jindex reply ''error'') of Some e \<Rightarrow> e | None \<Rightarrow> ''imported Desired state is invalid''))))))"

end
