(* ===== verification/Ui_Server.thy ===== *)
theory Ui_Server
  imports Ui_Draft_Pages
begin

text \<open>
  The Web UI's sessions, accounts, first boot and status (\<open>src/ui.rs\<close>), and the dispatch of a
  request. Its state is the machine with the table of sessions, which only lives as long as
  the process, and the cell of the hash for unknown accounts.
\<close>

section \<open>The state\<close>

record session =
  session_auth :: authentication
  session_expires :: nat

record 'k server =
  machine_of :: "'k world"
  sessions :: "(string \<times> session) list"
  unknown_hash :: "string res option"

type_synonym ('k, 'a) serving = "('k server, 'a) state"

text \<open>30 minutes, on a clock of nanoseconds.\<close>

definition SESSION_SECONDS :: nat where "SESSION_SECONDS = 30 * 60"
definition SESSION_LIFETIME :: nat where "SESSION_LIFETIME = SESSION_SECONDS * 1000000000"
definition MAX_SESSIONS :: nat where "MAX_SESSIONS = 1024"

definition on_machine :: "('k world, 'a) state \<Rightarrow> ('k, 'a) serving" where
  "on_machine m = State (\<lambda>s. case run_state m (machine_of s) of (a, w) \<Rightarrow> (a, s\<lparr> machine_of := w \<rparr>))"

definition set_sessions :: "(string \<times> session) list \<Rightarrow> ('k, unit) serving" where
  "set_sessions t = State (\<lambda>s. ((), s\<lparr> sessions := t \<rparr>))"

definition live_sessions :: "nat \<Rightarrow> (string \<times> session) list \<Rightarrow> (string \<times> session) list" where
  "live_sessions now t = filter (\<lambda>(_, s). now < session_expires s) t"

definition drop_session :: "string \<Rightarrow> (string \<times> session) list \<Rightarrow> (string \<times> session) list" where
  "drop_session token t = filter (\<lambda>(k, _). k \<noteq> token) t"

section \<open>Sessions\<close>

definition authenticated :: "'k ui_env \<Rightarrow> http_request \<Rightarrow> ('k, authentication option) serving" where
  "authenticated U req =
     (case session_token req of
        None \<Rightarrow> ret None
      | Some token \<Rightarrow> do {
          now \<leftarrow> on_machine (asks (instant U));
          t \<leftarrow> gets sessions;
          set_sessions (live_sessions now t);
          (case map_of (live_sessions now t) token of
             None \<Rightarrow> ret None
           | Some s \<Rightarrow> do {
               granted \<leftarrow> on_machine (authorize_administrator (ident U) (session_auth s));
               ret (if granted then Some (session_auth s) else None) }) })"

definition set_cookie :: "string \<Rightarrow> nat \<Rightarrow> string \<times> string" where
  "set_cookie value age =
     (''Set-Cookie'', SESSION_COOKIE @ ''='' @ value @ ''; Path=/; Secure; HttpOnly; SameSite=Strict; Max-Age='' @ show_nat age)"

text \<open>A session for whoever proved who they are; the one they came with ends.\<close>

definition open_session :: "'k ui_env \<Rightarrow> http_request \<Rightarrow> authentication \<Rightarrow> ('k, http_response) serving" where
  "open_session U req t = do {
     r \<leftarrow> on_machine (random_token (host_of U));
     (case r of
        Inl _ \<Rightarrow> ret (refused 503 ''login unavailable'')
      | Inr token \<Rightarrow> do {
          now \<leftarrow> on_machine (asks (instant U));
          old \<leftarrow> gets sessions;
          (let kept = (case session_token req of
                         Some prev \<Rightarrow> drop_session prev (live_sessions now old)
                       | None \<Rightarrow> live_sessions now old) in
           if MAX_SESSIONS \<le> length kept
           then do { set_sessions kept; ret (refused 503 ''session capacity reached'') }
           else do {
             set_sessions ((token, \<lparr> session_auth = t, session_expires = now + SESSION_LIFETIME \<rparr>)
               # drop_session token kept);
             ret ((json_response 200 (JObj
               [(''ok'', JBool True), (''principal'', principal_json U (auth_principal t))]))
               \<lparr> extra_headers := [set_cookie token SESSION_SECONDS] \<rparr>) }) }) }"

definition check_password :: "'k ui_env \<Rightarrow> login_form \<Rightarrow> ('k, authentication_result) serving" where
  "check_password U f = do {
     cache \<leftarrow> gets unknown_hash;
     r \<leftarrow> on_machine (authenticate (ident U) cache (login_source f) (login_username f) (login_password f));
     State (\<lambda>s. (fst r, s\<lparr> unknown_hash := snd r \<rparr>)) }"

definition assurance_json :: "assurance \<Rightarrow> json" where
  "assurance_json a = JStr (case a of Password \<Rightarrow> ''password'' | Multi_factor \<Rightarrow> ''multi_factor'')"

definition challenge_json :: "string \<Rightarrow> assurance \<Rightarrow> json" where
  "challenge_json src a = JObj [(''source'', JStr src), (''required_assurance'', assurance_json a)]"

definition login :: "'k ui_env \<Rightarrow> http_request \<Rightarrow> ('k, http_response) serving" where
  "login U req =
     (case read_login (forms U) (req_body req) of
        Inl _ \<Rightarrow> ret (refused 400 ''invalid login request'')
      | Inr f \<Rightarrow> do {
          busy \<leftarrow> on_machine (asks (login_busy U));
          (if busy then ret (refused 429 ''login busy; retry shortly'')
           else do {
             r \<leftarrow> check_password U f;
             (case r of
                Authenticated t \<Rightarrow> do {
                  granted \<leftarrow> on_machine (authorize_administrator (ident U) t);
                  (if granted then open_session U req t else ret (refused 401 ''login failed'')) }
              | Challenge src a \<Rightarrow> ret (json_response 403 (JObj
                  [(''ok'', JBool False), (''challenge'', challenge_json src a),
                   (''error'', JStr ''additional authentication required'')]))
              | Denied \<Rightarrow> ret (refused 401 ''login failed'')) }) })"

definition logout :: "http_request \<Rightarrow> ('k, http_response) serving" where
  "logout req = do {
     t \<leftarrow> gets sessions;
     (case session_token req of None \<Rightarrow> ret () | Some token \<Rightarrow> set_sessions (drop_session token t));
     ret ((json_response 200 (JObj [(''ok'', JBool True)])) \<lparr> extra_headers := [set_cookie [] 0] \<rparr>) }"

section \<open>Accounts\<close>

definition account_error_response :: "account_error \<Rightarrow> http_response" where
  "account_error_response e =
     (case e of
        Forbidden \<Rightarrow> refused 403 ''administrator access required''
      | Invalid_credentials \<Rightarrow> refused 400 ''invalid administrator credentials''
      | Already_exists \<Rightarrow> refused 409 ''administrator already exists''
      | Not_found \<Rightarrow> refused 404 ''administrator not found''
      | Last_administrator \<Rightarrow> refused 409 ''cannot remove the final administrator''
      | Storage \<Rightarrow> refused 503 ''Identity configuration unavailable'')"

definition account_page ::
    "authentication option \<Rightarrow> (authentication \<Rightarrow> 'k handler) \<Rightarrow> 'k handler" where
  "account_page a f = (case a of None \<Rightarrow> ret (account_error_response Forbidden) | Some t \<Rightarrow> f t)"

definition account_answer :: "('k, 'a) account_op \<Rightarrow> ('a \<Rightarrow> json) \<Rightarrow> 'k handler" where
  "account_answer m show = do {
     r \<leftarrow> m;
     ret (case r of Inl e \<Rightarrow> account_error_response e | Inr a \<Rightarrow> json_response 200 (show a)) }"

definition ok_json :: json where "ok_json = JObj [(''ok'', JBool True)]"

definition administrators :: "'k ui_env \<Rightarrow> authentication option \<Rightarrow> 'k handler" where
  "administrators U a = account_page a (\<lambda>t. account_answer (list_local_administrators (ident U) t)
     (\<lambda>names. JObj [(''ok'', JBool True), (''administrators'', jstrs names)]))"

definition create_administrator :: "'k ui_env \<Rightarrow> http_request \<Rightarrow> authentication option \<Rightarrow> 'k handler" where
  "create_administrator U req a = account_page a (\<lambda>t.
     with_form (read_account (forms U) (req_body req)) (\<lambda>_. refused 400 ''invalid administrator request'') (\<lambda>f.
       account_answer (create_local_administrator (ident U) t (account_username f) (account_password f)) (\<lambda>_. ok_json)))"

definition change_administrator_password :: "'k ui_env \<Rightarrow> http_request \<Rightarrow> authentication option \<Rightarrow> 'k handler" where
  "change_administrator_password U req a = account_page a (\<lambda>t.
     with_form (read_account (forms U) (req_body req)) (\<lambda>_. refused 400 ''invalid password-change request'') (\<lambda>f.
       account_answer (change_local_administrator_password (ident U) t (account_username f) (account_password f)) (\<lambda>_. ok_json)))"

definition remove_administrator :: "'k ui_env \<Rightarrow> http_request \<Rightarrow> authentication option \<Rightarrow> 'k handler" where
  "remove_administrator U req a = account_page a (\<lambda>t.
     with_form (read_removal (forms U) (req_body req)) (\<lambda>_. refused 400 ''invalid administrator-removal request'') (\<lambda>name.
       account_answer (remove_local_administrator (ident U) t name) (\<lambda>_. ok_json)))"

section \<open>First boot\<close>

definition set_hostname :: "'k ui_env \<Rightarrow> string \<Rightarrow> ('k, unit) io" where
  "set_hostname U name = durable_write (host_of U) HOSTNAME_FILE (name @ nl)"

text \<open>\<open>from_slice(&reply).or_else(...)\<close>: a reply that is not JSON is shown as its text.\<close>

definition netd_bootstrap :: "'k ui_env \<Rightarrow> json \<Rightarrow> string \<Rightarrow> ('k, json) io" where
  "netd_bootstrap U desired subj =
     tryE (exchange U NETD_SOCK (op_json ''bootstrap_apply'' [(''desired'', desired), (''admin_subject'', JStr subj)])) (\<lambda>raw.
       okE (case json_of_text (codec (host_of U)) raw of
              Inr reply \<Rightarrow> reply
            | Inl _ \<Rightarrow> failed (lossy U raw)))"

definition check_form :: "bootstrap_form \<Rightarrow> unit res" where
  "check_form f =
     thenE (failIf (\<not> valid_hostname (trim (form_hostname f))) ''invalid hostname'')
    (thenE (failIf (\<not> valid_username (trim (form_admin f))) ''invalid admin'')
    (thenE (failIf (\<not> valid_password (form_password f))
              (''password must contain 1'' @ [CHR 0xE2, CHR 0x80, CHR 0x93] @ ''511 bytes without ASCII control characters''))
    (thenE (failIf (form_interfaces f = []) ''missing interfaces'')
           (validate_bootstrap f))))"

text \<open>What is tentative is removed again when the administrator could not be stored.\<close>

definition clear_tentative :: "'k ui_env \<Rightarrow> http_response \<Rightarrow> 'k handler" where
  "clear_tentative U response = do {
     durable_remove (host_of U) HOSTNAME_FILE;
     durable_remove (host_of U) IDENTITY_FILE;
     ret response }"

definition answer_bootstrap :: "json res \<Rightarrow> 'k handler" where
  "answer_bootstrap r =
     (case r of
        Inr reply \<Rightarrow> ret (if is_true reply ''ok'' then json_response 200 ok_json else json_response 502 reply)
      | Inl e \<Rightarrow> do {
          owned \<leftarrow> file_exists OWNED_FILE;
          ret (json_response 502
            (if owned
             then JObj [(''ok'', JBool False), (''bootstrapped'', JBool True), (''error'', JStr e),
                        (''next_action'', JStr ''sign in to review and repair configuration'')]
             else failed (''Bootstrap outcome not confirmed: '' @ e
                          @ ''; check status or the Appliance console before retrying''))) })"

definition run_bootstrap :: "'k ui_env \<Rightarrow> bootstrap_form \<Rightarrow> 'k handler" where
  "run_bootstrap U f = do {
     h \<leftarrow> set_hostname U (trim (form_hostname f));
     (case h of
        Inl e \<Rightarrow> do { durable_remove (host_of U) HOSTNAME_FILE; ret (refused 502 e) }
      | Inr _ \<Rightarrow> do {
          c \<leftarrow> create_first_administrator (ident U) (trim (form_admin f)) (form_password f);
          (case c of
             Inl e \<Rightarrow> clear_tentative U (refused 502 e)
           | Inr _ \<Rightarrow> do {
               s \<leftarrow> tentative_first_administrator_subject (ident U);
               (case s of
                  None \<Rightarrow> clear_tentative U (refused 502 ''first administrator is not durable'')
                | Some subj \<Rightarrow> do { r \<leftarrow> netd_bootstrap U (form_json f) subj; answer_bootstrap r }) }) }) }"

definition bootstrap :: "'k ui_env \<Rightarrow> string \<Rightarrow> 'k handler" where
  "bootstrap U body = do {
     owned \<leftarrow> file_exists OWNED_FILE;
     attempt \<leftarrow> file_exists UI_ATTEMPT;
     (if owned then ret (refused 409 ''already bootstrapped'')
      else if attempt then ret (refused 409 ''Bootstrap apply is already in progress'')
      else case read_bootstrap (forms U) body of
        Inl e \<Rightarrow> ret (refused 400 e)
      | Inr f \<Rightarrow> (case check_form f of Inl e \<Rightarrow> ret (refused 400 e) | Inr _ \<Rightarrow> run_bootstrap U f)) }"

section \<open>Status\<close>

definition known_hostname :: "'k ui_env \<Rightarrow> ('k world, string option) state" where
  "known_hostname U = do {
     r \<leftarrow> read_text (host_of U) HOSTNAME_FILE;
     ret (case r of Inr (Some s) \<Rightarrow> blank_to_none s | _ \<Rightarrow> None) }"

definition keep_key :: "json \<Rightarrow> string \<Rightarrow> (string \<times> json) option" where
  "keep_key v key = map_option (Pair key) (jget v key)"

definition shown_iface :: "json \<Rightarrow> json" where
  "shown_iface v = JObj
     (List.map_filter (keep_key v) [''name'', ''role'', ''vlan'', ''parent'', ''addresses'']
      @ (if jget v ''dhcp'' = Some (JBool True) then [(''dhcp'', JBool True)] else []))"

text \<open>A string of the document, or what is shown without it.\<close>

definition shown_str :: "json option \<Rightarrow> string \<Rightarrow> json" where
  "shown_str doc key =
     (case Option.bind (Option.bind doc (\<lambda>v. jget v key)) jstr of Some s \<Rightarrow> JStr s | None \<Rightarrow> JNull)"

definition status_values :: "bool \<Rightarrow> string option \<Rightarrow> json list \<Rightarrow> json option \<Rightarrow> (string \<times> json) list" where
  "status_values owned name nics doc =
     [(''bootstrapped'', JBool owned),
      (''hostname'', case name of Some n \<Rightarrow> JStr n | None \<Rightarrow> shown_str doc ''hostname''),
      (''nics'', JArr nics),
      (''interfaces'', case Option.bind (Option.bind doc (\<lambda>v. jget v ''interfaces'')) jarr of
          Some ifs \<Rightarrow> JArr (map shown_iface ifs)
        | None \<Rightarrow> JArr []),
      (''ui_exposure'', case Option.bind doc (\<lambda>v. jget v ''ui_exposure'') of Some e \<Rightarrow> e | None \<Rightarrow> JArr []),
      (''lan_prefix'', shown_str doc ''lan_prefix''), (''dhcp_pool'', shown_str doc ''dhcp_pool''),
      (''wan_pd'', shown_str doc ''wan_pd'')]"

definition status_json :: "'k ui_env \<Rightarrow> ('k world, (string \<times> json) list) state" where
  "status_json U = do {
     owned \<leftarrow> file_exists OWNED_FILE;
     name \<leftarrow> known_hostname U;
     nics \<leftarrow> list_nics U;
     raw \<leftarrow> read_text (host_of U) UI_DESIRED;
     ret (status_values owned name nics (case raw of Inr (Some t) \<Rightarrow> toml_value U t | _ \<Rightarrow> None)) }"

definition status_page :: "'k ui_env \<Rightarrow> authentication option \<Rightarrow> 'k handler" where
  "status_page U a = do {
     kvs \<leftarrow> status_json U;
     ret (json_response 200 (JObj (kvs @ (case a of
            Some t \<Rightarrow> [(''principal'', principal_json U (auth_principal t))]
          | None \<Rightarrow> [])))) }"

definition read_static :: "'k ui_env \<Rightarrow> string \<Rightarrow> ('k, string) io" where
  "read_static U name =
     (if contains_str ''..'' name \<or> CHR ''/'' \<in> set name \<or> CHR 0x5C \<in> set name then errE ''not found''
      else do {
        r \<leftarrow> asks (foreign_read (host_of U) (path_join STATIC_DIR name));
        ret (case r of
               Inr (Some s) \<Rightarrow> Inr s
             | Inr None \<Rightarrow> Inl (''read '' @ path_join STATIC_DIR name @ '': No such file or directory (os error 2)'')
             | Inl e \<Rightarrow> Inl (''read '' @ path_join STATIC_DIR name @ '': '' @ e)) })"

definition static_response :: "'k ui_env \<Rightarrow> string \<Rightarrow> 'k handler" where
  "static_response U name = do {
     r \<leftarrow> read_static U name;
     ret (case r of
            Inl _ \<Rightarrow> text_response 404 ''not found''
          | Inr body \<Rightarrow> \<lparr> status = 200, ctype = mime name, content = Bytes body, extra_headers = [] \<rparr>) }"

section \<open>Host update\<close>

definition update_unavailable :: http_response where
  "update_unavailable = refused 503 ''Host update program unavailable''"

definition passed_error :: "nat \<Rightarrow> json \<Rightarrow> http_response" where
  "passed_error code reply = json_response code (JObj [(''ok'', JBool False), (''error'', jindex reply ''error'')])"

definition update_action :: "'k ui_env \<Rightarrow> json \<Rightarrow> (json \<Rightarrow> http_response) \<Rightarrow> 'k handler" where
  "update_action U v answer = do {
     r \<leftarrow> socket_cmd U UPDATE_SOCK v;
     ret (case r of
            Inl _ \<Rightarrow> update_unavailable
          | Inr reply \<Rightarrow> if is_true reply ''ok'' then answer reply else passed_error 409 reply) }"

definition host_update_status :: "'k ui_env \<Rightarrow> authentication option \<Rightarrow> 'k handler" where
  "host_update_status U a = operator_session a (\<lambda>_. do {
     r \<leftarrow> socket_cmd U UPDATE_SOCK (op_json ''status'' []);
     ret (case r of
            Inl _ \<Rightarrow> update_unavailable
          | Inr reply \<Rightarrow> if is_true reply ''ok'' then json_response 200 reply else passed_error 503 reply) })"

definition stage_host_update :: "'k ui_env \<Rightarrow> http_request \<Rightarrow> authentication option \<Rightarrow> 'k handler" where
  "stage_host_update U req a = operator_session a (\<lambda>_.
     let img = (case read_stage (forms U) (req_body req) of Inr s \<Rightarrow> trim s | Inl _ \<Rightarrow> []) in
     if \<not> valid_reference img then ret (refused 400 ''one Release image reference required'')
     else update_action U (op_json ''start_stage'' [(''image'', JStr img)]) (json_response 202))"

definition reboot_host :: "'k ui_env \<Rightarrow> authentication option \<Rightarrow> 'k handler" where
  "reboot_host U a = operator_session a (\<lambda>_.
     update_action U (op_json ''reboot'' [])
       (\<lambda>_. json_response 200 (JObj [(''ok'', JBool True), (''rebooting'', JBool True)])))"

section \<open>Dispatch\<close>

definition plain_path :: "http_request \<Rightarrow> string" where
  "plain_path req = hd (split_on (CHR ''?'') (req_path req))"

definition is_api :: "string \<Rightarrow> bool" where
  "is_api path \<longleftrightarrow> starts_with ''/api/'' path"

definition bootstrap_route :: "string \<Rightarrow> bool" where
  "bootstrap_route path \<longleftrightarrow> path \<in> {''/'', ''/index.html'', ''/app.js'', ''/api/status'', ''/api/bootstrap''}"

definition get_page :: "'k ui_env \<Rightarrow> authentication option \<Rightarrow> string \<Rightarrow> 'k handler" where
  "get_page U a path =
     (if path = ''/'' \<or> path = ''/index.html'' then static_response U ''index.html''
      else if path = ''/app.js'' then static_response U ''app.js''
      else if path = ''/api/status'' then status_page U a
      else if path = ''/api/administrators'' then administrators U a
      else if path = ''/api/routes'' then routes_page U
      else if path = ''/api/interfaces'' then interfaces_page U
      else if path = ''/api/lan-services'' then lan_services_page U
      else if path = ''/api/firewall'' then firewall_page U
      else if path = ''/api/wireguard'' then wireguard_page U
      else if path = ''/api/qdiscs'' then qdiscs_page U
      else if path = ''/api/ipv6'' then ipv6_page U
      else if path = ''/api/apply-confirmation'' then confirmation_page U
      else if path = ''/api/draft'' then draft_status U a
      else if path = ''/api/host-update'' then host_update_status U a
      else if is_api path then ret (refused 404 ''not found'')
      else ret (text_response 404 ''not found''))"

definition post_page :: "'k ui_env \<Rightarrow> http_request \<Rightarrow> authentication option \<Rightarrow> string \<Rightarrow> 'k handler" where
  "post_page U req a path =
     (if path = ''/api/apply-confirmation/configure'' then configure_apply_confirmation U req a
      else if path = ''/api/apply-confirmation/confirm'' then confirm_apply_page U req a
      else if path = ''/api/draft/save'' then save_draft U req a
      else if path = ''/api/draft/apply'' then apply_draft U req a
      else if path = ''/api/draft/reconcile'' then reconcile_draft U req a
      else if path = ''/api/desired-state/export'' then export_desired U req a
      else if path = ''/api/desired-state/import'' then import_desired U req a
      else if path = ''/api/routes/apply'' then apply_routes U req a
      else if path = ''/api/routes/save-and-apply'' then save_and_apply_route U req a
      else if path = ''/api/interfaces/apply'' \<or> path = ''/api/interfaces/save-and-apply'' then apply_interfaces U req a
      else if path = ''/api/lan-services/apply'' \<or> path = ''/api/lan-services/save-and-apply'' then apply_lan_services U req a
      else if path = ''/api/firewall/apply'' \<or> path = ''/api/firewall/save-and-apply'' then apply_firewall U req a
      else if path = ''/api/wireguard/apply'' \<or> path = ''/api/wireguard/save-and-apply'' then apply_wireguard U req a
      else if path = ''/api/qdiscs/apply'' \<or> path = ''/api/qdiscs/save-and-apply'' then apply_qdiscs U req a
      else if path = ''/api/ipv6/apply'' \<or> path = ''/api/ipv6/save-and-apply'' then apply_ipv6 U req a
      else if path = ''/api/administrators'' then create_administrator U req a
      else if path = ''/api/administrators/password'' then change_administrator_password U req a
      else if path = ''/api/administrators/remove'' then remove_administrator U req a
      else if path = ''/api/host-update/stage'' then stage_host_update U req a
      else if path = ''/api/host-update/reboot'' then reboot_host U a
      else if path = ''/api/bootstrap'' then bootstrap U (req_body req)
      else ret (refused 404 ''not found''))"

definition answer_page :: "'k ui_env \<Rightarrow> http_request \<Rightarrow> authentication option \<Rightarrow> string \<Rightarrow> ('k, http_response) serving" where
  "answer_page U req a path =
     (if req_method req = ''GET'' then on_machine (get_page U a path)
      else if req_method req = ''POST''
      then (if path = ''/api/login'' then login U req
            else if path = ''/api/logout'' then logout req
            else on_machine (post_page U req a path))
      else ret (text_response 405 ''method not allowed''))"

definition sign_in_required :: "bool \<Rightarrow> http_response" where
  "sign_in_required owned = json_response 401 (JObj
     [(''ok'', JBool False), (''bootstrapped'', JBool owned), (''error'', JStr ''sign in required'')])"

text \<open>The guards of a request, in the order they are tried.\<close>

definition needs_session :: "bool \<Rightarrow> string \<Rightarrow> bool" where
  "needs_session owned path \<longleftrightarrow>
     is_api path \<and> path \<noteq> ''/api/bootstrap'' \<and> path \<noteq> ''/api/login'' \<and> (owned \<or> path = ''/api/logout'')"

definition recovering_response :: http_response where
  "recovering_response = json_response 503 (JObj
     [(''ok'', JBool False), (''bootstrapped'', JBool False), (''error'', JStr ''Bootstrap recovery in progress'')])"

definition dispatch :: "'k ui_env \<Rightarrow> http_request \<Rightarrow> ('k, http_response) serving" where
  "dispatch U req =
     (let path = plain_path req in do {
        owned \<leftarrow> on_machine (file_exists OWNED_FILE);
        ready \<leftarrow> (if bootstrap_route path \<and> \<not> owned then on_machine (asks (netd_listens U)) else ret True);
        (if \<not> ready then ret recovering_response
         else if req_method req = ''POST'' \<and> is_api path \<and> \<not> same_origin_json req
         then ret (refused 403 ''same-origin JSON required'')
         else do {
           a \<leftarrow> authenticated U req;
           (if needs_session owned path \<and> a = None then ret (sign_in_required owned)
            else answer_page U req a path) }) })"

text \<open>One connection: what is sent back, if a request could be read.\<close>

definition handle_conn :: "'k ui_env \<Rightarrow> (json \<Rightarrow> string) \<Rightarrow> stream \<Rightarrow> ('k, string res) serving" where
  "handle_conn U text_of_json cs =
     tryE (ret (read_request cs)) (\<lambda>req. do {
       response \<leftarrow> dispatch U req;
       ret (Inr (write_response text_of_json response)) })"

end
