(* ===== verification/Looking.thy ===== *)
theory Looking
  imports Identity_Properties
begin

text \<open>
  Runs that only look: they change no file, run no program and leave netd's flag. Reading
  the Identity configuration, authenticating and authorizing are of this kind, so the Web UI
  and the console rely on what they found.
\<close>

section \<open>Runs that only look\<close>

definition inert :: "'k world \<Rightarrow> 'k world \<Rightarrow> bool" where
  "inert w w' \<longleftrightarrow>
     files w' = files w \<and> trail w' = trail w \<and> calls w' = calls w
     \<and> recovery_required w' = recovery_required w"

interpretation inert: transition inert
  by unfold_locales (auto simp: inert_def)

lemma inert_asks: "keeps inert (asks f)"
  by (auto simp: keeps_def run_asks inert_def split: prod.splits)

lemma inert_file_exists: "keeps inert (file_exists p)"
  unfolding file_exists_def by (rule inert.keeps_gets)

lemma inert_read_file: "keeps inert (read_file E p)"
  unfolding read_file_def fault_def by (intro inert.keeps_rules inert_asks)

lemma inert_read_text: "keeps inert (read_text E p)"
  unfolding read_text_def by (intro inert.keeps_rules inert_read_file)

lemma inert_random_token: "keeps inert (random_token E)"
  unfolding random_token_def by (intro inert.keeps_rules inert_asks)

lemma inert_read_config: "keeps inert (read_config X)"
  unfolding read_config_def by (intro inert.keeps_rules inert_read_file)

lemma inert_authorize: "keeps inert (authorize_administrator X t)"
  unfolding authorize_administrator_def by (intro inert.keeps_rules inert_file_exists inert_read_config)

lemma inert_hash_password: "keeps inert (hash_password X pw)"
  unfolding hash_password_def by (intro inert.keeps_rules inert_asks)

lemma inert_authenticate: "keeps inert (authenticate X cache src name pw)"
  unfolding authenticate_def unknown_account_hash_def Let_def
  by (intro inert.keeps_rules inert_file_exists inert_read_config inert_hash_password)

lemmas inert_looks = inert_asks inert_file_exists inert_read_file inert_read_text inert_random_token
  inert_read_config inert_authorize inert_hash_password inert_authenticate

end
