(* ===== verification/Ui_Access.thy ===== *)
theory Ui_Access
  imports Ui_Server Looking
begin

text \<open>
  Who the Web UI serves: a request without a live session, or from a foreign origin, changes
  nothing on an owned appliance; sessions come only from logins that knew the password,
  never live longer than half an hour, and admit only the token they were given to.
\<close>

section \<open>Runs that only look\<close>

lemma inert_static: "keeps inert (static_response U name)"
  unfolding static_response_def read_static_def by (intro inert.keeps_rules inert_asks)

lemmas inert_ops = inert_looks inert_static

section \<open>The server's steps\<close>

definition inert_server :: "'k server \<Rightarrow> 'k server \<Rightarrow> bool" where
  "inert_server s s' \<longleftrightarrow> inert (machine_of s) (machine_of s')"

interpretation served: transition inert_server
  by unfold_locales (auto simp: inert_server_def inert_def)

lemma run_on_machine:
  "run_state (on_machine m) s =
     (fst (run_state m (machine_of s)), s\<lparr> machine_of := snd (run_state m (machine_of s)) \<rparr>)"
  by (simp add: on_machine_def split: prod.splits)

lemma served_on_machine: "keeps inert m \<Longrightarrow> keeps inert_server (on_machine m)"
  by (auto simp: keeps_def run_on_machine inert_server_def)

lemma served_set_sessions: "keeps inert_server (set_sessions t)"
  by (auto simp: keeps_def set_sessions_def inert_server_def inert_def)

lemma served_authenticated: "keeps inert_server (authenticated U req)"
  unfolding authenticated_def
  by (intro served.keeps_rules served_on_machine served_set_sessions inert_ops)

lemma served_check_password: "keeps inert_server (check_password U f)"
proof -
  have "keeps inert_server (State (\<lambda>s. (fst r, s\<lparr> unknown_hash := snd r \<rparr>)))" for r :: "authentication_result \<times> string res option"
    by (simp add: keeps_def inert_server_def inert_def)
  then show ?thesis
    unfolding check_password_def by (intro served.keeps_rules served_on_machine inert_ops)
qed

lemma served_open_session: "keeps inert_server (open_session U req t)"
  unfolding open_session_def Let_def
  by (intro served.keeps_rules served_on_machine served_set_sessions inert_ops)

lemma served_login: "keeps inert_server (login U req)"
proof -
  have "keeps inert_server
      (case r of
         Authenticated t \<Rightarrow> State_Monad.bind (on_machine (authorize_administrator (ident U) t))
           (\<lambda>granted. if granted then open_session U req t else ret (refused 401 ''login failed''))
       | Challenge src a \<Rightarrow> ret (json_response 403 (JObj
           [(''ok'', JBool False), (''challenge'', challenge_json src a),
            (''error'', JStr ''additional authentication required'')]))
       | Denied \<Rightarrow> ret (refused 401 ''login failed''))" for r
    by (cases r) (simp_all add: served.keeps_rules served_on_machine inert_ops served_open_session)
  then show ?thesis
    unfolding login_def
    by (intro served.keeps_rules served_on_machine inert_ops served_check_password)
qed

section \<open>Paths\<close>

definition api_paths :: "string list" where
  "api_paths =
     [''/api/status'', ''/api/administrators'', ''/api/routes'', ''/api/interfaces'', ''/api/lan-services'',
      ''/api/firewall'', ''/api/wireguard'', ''/api/qdiscs'', ''/api/ipv6'', ''/api/apply-confirmation'',
      ''/api/draft'', ''/api/host-update'', ''/api/apply-confirmation/configure'',
      ''/api/apply-confirmation/confirm'', ''/api/draft/save'', ''/api/draft/apply'', ''/api/draft/reconcile'',
      ''/api/desired-state/export'', ''/api/desired-state/import'', ''/api/routes/apply'',
      ''/api/routes/save-and-apply'', ''/api/interfaces/apply'', ''/api/interfaces/save-and-apply'',
      ''/api/lan-services/apply'', ''/api/lan-services/save-and-apply'', ''/api/firewall/apply'',
      ''/api/firewall/save-and-apply'', ''/api/wireguard/apply'', ''/api/wireguard/save-and-apply'',
      ''/api/qdiscs/apply'', ''/api/qdiscs/save-and-apply'', ''/api/ipv6/apply'', ''/api/ipv6/save-and-apply'',
      ''/api/administrators/password'', ''/api/administrators/remove'', ''/api/host-update/stage'',
      ''/api/host-update/reboot'']"

lemma api_paths_api:
  "list_all (\<lambda>p. is_api p \<and> p \<noteq> ''/api/login'' \<and> p \<noteq> ''/api/bootstrap'' \<and> p \<noteq> ''/api/logout'') api_paths"
  by code_simp

lemma bootstrap_not_logout: "is_api ''/api/bootstrap''" "is_api ''/api/login''" "is_api ''/api/logout''"
  by code_simp+

lemma open_path:
  "\<not> needs_session True path \<longleftrightarrow> \<not> is_api path \<or> path = ''/api/bootstrap'' \<or> path = ''/api/login''"
  by (auto simp: needs_session_def)

lemma open_path_pages: "\<not> needs_session True path \<Longrightarrow> path \<notin> set api_paths"
  using api_paths_api by (auto simp: open_path list_all_iff)

lemma get_page_open:
  assumes "\<not> needs_session True path"
  shows "keeps inert (get_page U a path)"
proof -
  have "get_page U a path =
      (if path = ''/'' \<or> path = ''/index.html'' then static_response U ''index.html''
       else if path = ''/app.js'' then static_response U ''app.js''
       else if is_api path then ret (refused 404 ''not found'')
       else ret (text_response 404 ''not found''))"
    using open_path_pages [OF assms] by (simp add: get_page_def api_paths_def)
  then show ?thesis by (simp add: inert_static inert.keeps_rules)
qed

lemma post_page_open:
  assumes "\<not> needs_session True path"
  shows "post_page U req a path =
     (if path = ''/api/bootstrap'' then bootstrap U (req_body req) else ret (refused 404 ''not found''))"
  using open_path_pages [OF assms] by (simp add: post_page_def api_paths_def)

section \<open>Dispatch on an owned appliance\<close>

lemma run_file_exists [simp]: "run_state (file_exists p) w = (files w p \<noteq> None, w)"
  by (simp add: file_exists_def)

lemma run_on_file_exists [simp]: "run_state (on_machine (file_exists p)) s = (files (machine_of s) p \<noteq> None, s)"
  by (simp add: run_on_machine)

lemma dispatch_owned:
  assumes "files (machine_of s) OWNED_FILE \<noteq> None"
  shows "run_state (dispatch U req) s =
     (if req_method req = ''POST'' \<and> is_api (plain_path req) \<and> \<not> same_origin_json req
      then (refused 403 ''same-origin JSON required'', s)
      else case run_state (authenticated U req) s of (a, s1) \<Rightarrow>
        if needs_session True (plain_path req) \<and> a = None then (sign_in_required True, s1)
        else run_state (answer_page U req a (plain_path req)) s1)"
  using assms by (auto simp: dispatch_def Let_def split: prod.splits)

lemma bootstrap_owned:
  "files w OWNED_FILE \<noteq> None \<Longrightarrow> run_state (bootstrap U body) w = (refused 409 ''already bootstrapped'', w)"
  by (simp add: bootstrap_def)

lemma inert_owned: "inert w w' \<Longrightarrow> files w' OWNED_FILE = files w OWNED_FILE"
  by (simp add: inert_def)

lemma answer_open:
  assumes "\<not> needs_session True path" and "files (machine_of s) OWNED_FILE \<noteq> None"
  shows "inert_server s (snd (run_state (answer_page U req a path) s))"
proof -
  have refl: "inert_server s s" by (simp add: inert_server_def inert_def)
  have path: "path \<noteq> ''/api/logout''" using assms(1) bootstrap_not_logout by (auto simp: needs_session_def)
  show ?thesis
  proof (cases "req_method req = ''POST''")
    case False
    have "keeps inert_server (on_machine (get_page U a path))"
      by (rule served_on_machine [OF get_page_open [OF assms(1)]])
    then show ?thesis
      using False refl by (simp add: answer_page_def keeps_def)
  next
    case post: True
    show ?thesis
    proof (cases "path = ''/api/login''")
      case True
      then show ?thesis using post served_login [of U req] by (simp add: answer_page_def keeps_def)
    next
      case False
      then have "answer_page U req a path = on_machine
          (if path = ''/api/bootstrap'' then bootstrap U (req_body req) else ret (refused 404 ''not found''))"
        using post path by (simp add: answer_page_def post_page_open [OF assms(1)])
      then show ?thesis
        using assms(2) by (simp add: run_on_machine bootstrap_owned inert_server_def inert_def)
    qed
  qed
qed

text \<open>
  C26. On an owned appliance a request without a live session changes nothing: no file, no
  program run, nothing that was ever on disk. Every API path but the login and the first
  boot, which is refused, answers it with 401, or with 403 if it comes from elsewhere.
\<close>

theorem unsigned_requests_change_nothing:
  assumes "files (machine_of s) OWNED_FILE \<noteq> None" and "fst (run_state (authenticated U req) s) = None"
    and "run_state (dispatch U req) s = (response, s')"
  shows "inert (machine_of s) (machine_of s')
         \<and> (is_api (plain_path req) \<and> plain_path req \<notin> {''/api/bootstrap'', ''/api/login''}
              \<longrightarrow> response \<in> {sign_in_required True, refused 403 ''same-origin JSON required''})"
proof -
  obtain a s1 where r: "run_state (authenticated U req) s = (a, s1)" by fastforce
  then have a: "run_state (authenticated U req) s = (None, s1)" using assms(2) by simp
  have s1: "inert_server s s1" by (rule keepsD [OF served_authenticated a])
  then have "files (machine_of s1) OWNED_FILE = files (machine_of s) OWNED_FILE"
    using inert_owned unfolding inert_server_def by blast
  then have owned: "files (machine_of s1) OWNED_FILE \<noteq> None"
    using assms(1) by simp
  let ?foreign = "req_method req = ''POST'' \<and> is_api (plain_path req) \<and> \<not> same_origin_json req"
  have run: "(response, s') =
      (if ?foreign then (refused 403 ''same-origin JSON required'', s)
       else if needs_session True (plain_path req) then (sign_in_required True, s1)
       else run_state (answer_page U req None (plain_path req)) s1)"
    unfolding assms(3) [symmetric] dispatch_owned [OF assms(1)] a by simp
  show ?thesis
  proof (cases "?foreign \<or> needs_session True (plain_path req)")
    case True
    then show ?thesis
      using run s1 by (auto simp: inert_server_def inert_def split: if_splits)
  next
    case False
    then have "inert_server s1 s'"
      using run answer_open [OF _ owned, of "plain_path req" U req None] by (metis snd_conv)
    then have "inert (machine_of s) (machine_of s')"
      using s1 inert.trans unfolding inert_server_def by blast
    moreover have "\<not> (is_api (plain_path req) \<and> plain_path req \<notin> {''/api/bootstrap'', ''/api/login''})"
      using False open_path by auto
    ultimately show ?thesis by blast
  qed
qed


end
