(* ===== verification/Ui_Sessions.thy ===== *)
theory Ui_Sessions
  imports Ui_Access
begin

text \<open>
  The sessions of the Web UI. The table refines a map from tokens to identities
  (\<open>signed_in_as\<close>): signing in adds one entry, signing out removes one, asking changes none.
  A session is only made for who proved the password, admits only while the account is
  granted, and there are never more than 1024.
\<close>

section \<open>The map the table stands for\<close>

definition signed_in_as :: "nat \<Rightarrow> (string \<times> session) list \<Rightarrow> string \<Rightarrow> authentication option" where
  "signed_in_as now t token = map_option session_auth (map_of (live_sessions now t) token)"

lemma live_Nil [simp]: "live_sessions now [] = []"
  by (simp add: live_sessions_def)

lemma live_Cons [simp]:
  "live_sessions now ((k, x) # t) = (if now < session_expires x then (k, x) # live_sessions now t else live_sessions now t)"
  by (simp add: live_sessions_def)

lemma live_later: "now \<le> later \<Longrightarrow> live_sessions later (live_sessions now t) = live_sessions later t"
  by (auto simp: live_sessions_def intro!: filter_cong)

lemma live_drop: "live_sessions now (drop_session k t) = drop_session k (live_sessions now t)"
  by (auto simp: live_sessions_def drop_session_def intro!: filter_cong)

lemma map_of_drop: "map_of (drop_session k t) = (map_of t)(k := None)"
  by (induction t) (auto simp: drop_session_def fun_eq_iff)

lemma signed_in_later: "now \<le> later \<Longrightarrow> signed_in_as later (live_sessions now t) = signed_in_as later t"
  by (simp add: signed_in_as_def live_later fun_eq_iff)

lemma signed_in_drop: "signed_in_as now (drop_session k t) = (signed_in_as now t)(k := None)"
  by (simp add: signed_in_as_def live_drop map_of_drop fun_eq_iff)

lemma signed_in_add:
  "signed_in_as now ((k, x) # drop_session k t) =
     (if now < session_expires x then (signed_in_as now t)(k \<mapsto> session_auth x) else (signed_in_as now t)(k := None))"
  by (simp add: signed_in_as_def live_drop map_of_drop fun_eq_iff)

lemma set_live: "set (live_sessions now t) \<subseteq> set t"
  by (auto simp: live_sessions_def)

lemma set_drop: "set (drop_session k t) \<subseteq> set t"
  by (auto simp: drop_session_def)

lemma drop_absent: "k \<notin> fst ` set (drop_session k t)"
  by (auto simp: drop_session_def)

lemma distinct_filtered: "distinct (map fst t) \<Longrightarrow> distinct (map fst (filter p t))"
  by (simp add: distinct_map_filter)

section \<open>Runs on the table\<close>

lemma sessions_on_machine [simp]: "sessions (snd (run_state (on_machine m) s)) = sessions s"
  by (simp add: run_on_machine)

lemma machine_on_machine [simp]: "machine_of (snd (run_state (on_machine m) s)) = snd (run_state m (machine_of s))"
  by (simp add: run_on_machine)

lemma on_machine_result: "run_state (on_machine m) s = (a, s') \<Longrightarrow> sessions s' = sessions s \<and> a = fst (run_state m (machine_of s))
    \<and> machine_of s' = snd (run_state m (machine_of s))"
  by (auto simp: run_on_machine)

lemma run_set_sessions [simp]: "run_state (set_sessions t) s = ((), s\<lparr> sessions := t \<rparr>)"
  by (simp add: set_sessions_def)

definition now_at :: "'k ui_env \<Rightarrow> 'k server \<Rightarrow> nat" where
  "now_at U s = fst (instant U (outside (machine_of s)))"

lemma authenticated_table:
  assumes "run_state (authenticated U req) s = (a, s')"
  shows "sessions s' = (if session_token req = None then sessions s else live_sessions (now_at U s) (sessions s))"
    and "a = Some t \<Longrightarrow> \<exists>token. session_token req = Some token \<and> signed_in_as (now_at U s) (sessions s) token = Some t
           \<and> (\<exists>cfg. stored (ident U) (files (machine_of s)) = Some cfg \<and> authorized_in cfg t)"
proof -
  obtain now k where k: "instant U (outside (machine_of s)) = (now, k)" by fastforce
  then have now: "now_at U s = now" by (simp add: now_at_def)
  define s1 where "s1 = s\<lparr> machine_of := (machine_of s)\<lparr> outside := k \<rparr>, sessions := live_sessions now (sessions s) \<rparr>"
  show "sessions s' = (if session_token req = None then sessions s else live_sessions (now_at U s) (sessions s))"
    using assms k now
    by (auto simp: authenticated_def run_on_machine run_asks split: option.splits)
  assume a: "a = Some t"
  then obtain token where tok: "session_token req = Some token"
    using assms by (cases "session_token req") (auto simp: authenticated_def)
  then obtain x where x: "map_of (live_sessions now (sessions s)) token = Some x"
    using assms a k by (cases "map_of (live_sessions now (sessions s)) token")
      (auto simp: authenticated_def run_on_machine run_asks)
  have run: "(a, s') = (if fst (run_state (authorize_administrator (ident U) (session_auth x)) (machine_of s1))
        then Some (session_auth x) else None,
      s1\<lparr> machine_of := snd (run_state (authorize_administrator (ident U) (session_auth x)) (machine_of s1)) \<rparr>)"
    using assms tok x k by (simp add: authenticated_def run_on_machine run_asks s1_def)
  obtain w where "run_state (authorize_administrator (ident U) (session_auth x)) (machine_of s1) = (True, w)" "t = session_auth x"
    using run a by (cases "run_state (authorize_administrator (ident U) (session_auth x)) (machine_of s1)") (auto split: if_splits)
  then have "\<exists>cfg. stored (ident U) (files (machine_of s1)) = Some cfg \<and> authorized_in cfg t"
    using authorize_run by blast
  then show "\<exists>token. session_token req = Some token \<and> signed_in_as (now_at U s) (sessions s) token = Some t
           \<and> (\<exists>cfg. stored (ident U) (files (machine_of s)) = Some cfg \<and> authorized_in cfg t)"
    using tok x \<open>t = session_auth x\<close> now by (simp add: signed_in_as_def s1_def)
qed

section \<open>Signing in and out\<close>

definition forget :: "http_request \<Rightarrow> (string \<times> session) list \<Rightarrow> (string \<times> session) list" where
  "forget req t = (case session_token req of Some prev \<Rightarrow> drop_session prev t | None \<Rightarrow> t)"

text \<open>A moment the clock showed.\<close>

definition clock_reads :: "'k ui_env \<Rightarrow> nat \<Rightarrow> bool" where
  "clock_reads U now \<longleftrightarrow> (\<exists>k. now = fst (instant U k))"

lemma clock_reads_fst: "instant U k = (now, k') \<Longrightarrow> clock_reads U now"
  by (auto simp: clock_reads_def intro!: exI [of _ k])

lemma clock_reads_now: "clock_reads U (now_at U s)"
  by (auto simp: clock_reads_def now_at_def)

lemma open_session_table:
  assumes "run_state (open_session U req t) s = (r, s')"
  shows "sessions s' = sessions s \<and> status r \<noteq> 200
    \<or> (\<exists>now. clock_reads U now \<and> sessions s' = forget req (live_sessions now (sessions s)) \<and> status r \<noteq> 200)
    \<or> (\<exists>now token. clock_reads U now \<and> length (forget req (live_sessions now (sessions s))) < MAX_SESSIONS
         \<and> sessions s' = (token, \<lparr> session_auth = t, session_expires = now + SESSION_LIFETIME \<rparr>)
             # drop_session token (forget req (live_sessions now (sessions s)))
         \<and> status r = 200 \<and> extra_headers r = [set_cookie token SESSION_SECONDS])"
proof -
  obtain q w1 where q: "run_state (random_token (host_of U)) (machine_of s) = (q, w1)" by fastforce
  obtain now k where k: "instant U (outside w1) = (now, k)" by fastforce
  define kept where "kept = forget req (live_sessions now (sessions s))"
  show ?thesis
  proof (cases q)
    case (Inl e)
    then show ?thesis
      using assms q by (auto simp: open_session_def run_on_machine refused_def json_response_def)
  next
    case (Inr token)
    have "run_state (open_session U req t) s =
        (if MAX_SESSIONS \<le> length kept
         then (refused 503 ''session capacity reached'', s\<lparr> machine_of := w1\<lparr> outside := k \<rparr>, sessions := kept \<rparr>)
         else ((json_response 200 (JObj
               [(''ok'', JBool True), (''principal'', principal_json U (auth_principal t))]))
               \<lparr> extra_headers := [set_cookie token SESSION_SECONDS] \<rparr>,
           s\<lparr> machine_of := w1\<lparr> outside := k \<rparr>, sessions :=
             (token, \<lparr> session_auth = t, session_expires = now + SESSION_LIFETIME \<rparr>) # drop_session token kept \<rparr>))"
      using q k Inr
      by (auto simp: open_session_def run_on_machine run_asks kept_def forget_def Let_def split: option.splits)
    then show ?thesis
      using assms clock_reads_fst [OF k] by (auto simp: kept_def refused_def json_response_def not_le split: if_splits)
  qed
qed

text \<open>The login form named an administrator's account and had its password.\<close>

definition proved :: "'k ui_env \<Rightarrow> http_request \<Rightarrow> files \<Rightarrow> authentication \<Rightarrow> bool" where
  "proved U req f t \<longleftrightarrow>
     (\<exists>form cfg a. read_login (forms U) (req_body req) = Inr form \<and> stored (ident U) f = Some cfg
        \<and> a \<in> set (accounts cfg) \<and> administrator a \<and> source a = login_source form \<and> username a = login_username form
        \<and> crypt (ident U) (login_password form) (password_hash a) = Some (password_hash a)
        \<and> auth_principal t = \<lparr> prin_source = source a, prin_subject = subject a, prin_username = username a \<rparr>
        \<and> authorized_in cfg t)"

lemma check_password_run:
  assumes "run_state (check_password U f) s = (r, s')"
  shows "sessions s' = sessions s"
    and "\<exists>cache cache' w'. run_state (authenticate (ident U) cache (login_source f) (login_username f) (login_password f)) (machine_of s)
           = ((r, cache'), w') \<and> machine_of s' = w'"
proof -
  obtain q c w where q: "run_state (authenticate (ident U) (unknown_hash s) (login_source f) (login_username f)
      (login_password f)) (machine_of s) = ((q, c), w)"
    by (metis prod.exhaust)
  have e: "r = q \<and> s' = s\<lparr> machine_of := w, unknown_hash := c \<rparr>"
    using assms q by (simp add: check_password_def run_on_machine)
  then show "sessions s' = sessions s" by simp
  show "\<exists>cache cache' w'. run_state (authenticate (ident U) cache (login_source f) (login_username f) (login_password f)) (machine_of s)
           = ((r, cache'), w') \<and> machine_of s' = w'"
    using e q by auto
qed

lemma login_table:
  assumes "run_state (login U req) s = (r, s')"
  shows "sessions s' = sessions s \<and> status r \<noteq> 200
    \<or> (\<exists>t s1. proved U req (files (machine_of s)) t \<and> sessions s1 = sessions s
         \<and> run_state (open_session U req t) s1 = (r, s'))"
proof (cases "read_login (forms U) (req_body req)")
  case (Inl e)
  then show ?thesis using assms by (auto simp: login_def refused_def json_response_def)
next
  case (Inr f)
  obtain busy k where b: "login_busy U (outside (machine_of s)) = (busy, k)" by fastforce
  define s0 where "s0 = s\<lparr> machine_of := (machine_of s)\<lparr> outside := k \<rparr> \<rparr>"
  show ?thesis
  proof (cases busy)
    case True
    then show ?thesis
      using assms Inr b by (auto simp: login_def run_on_machine run_asks refused_def json_response_def)
  next
    case False
    obtain a s1 where c: "run_state (check_password U f) s0 = (a, s1)" by fastforce
    have table: "sessions s1 = sessions s" using check_password_run(1) [OF c] by (simp add: s0_def)
    have rest: "(r, s') = run_state
        (case a of
           Authenticated t \<Rightarrow> State_Monad.bind (on_machine (authorize_administrator (ident U) t))
             (\<lambda>granted. if granted then open_session U req t else ret (refused 401 ''login failed''))
         | Challenge src x \<Rightarrow> ret (json_response 403 (JObj
             [(''ok'', JBool False), (''challenge'', challenge_json src x),
              (''error'', JStr ''additional authentication required'')]))
         | Denied \<Rightarrow> ret (refused 401 ''login failed'')) s1"
      using assms Inr b False c by (simp add: login_def run_on_machine run_asks s0_def)
    show ?thesis
    proof (cases a)
      case (Authenticated t)
      obtain g w2 where g: "run_state (authorize_administrator (ident U) t) (machine_of s1) = (g, w2)" by fastforce
      show ?thesis
      proof (cases g)
        case False
        then show ?thesis
          using rest Authenticated g table by (simp add: run_on_machine refused_def json_response_def)
      next
        case True
        obtain cache cache' where run:
            "run_state (authenticate (ident U) cache (login_source f) (login_username f) (login_password f)) (machine_of s0)
               = ((Authenticated t, cache'), machine_of s1)"
          using check_password_run(2) [OF c] Authenticated by blast
        have same: "files (machine_of s1) = files (machine_of s)"
          using keepsD [OF inert_authenticate run] by (simp add: inert_def s0_def)
        obtain cfg where cfg: "stored (ident U) (files (machine_of s)) = Some cfg" "authorized_in cfg t"
          using authorize_run [of "ident U" t "machine_of s1" w2] g True same by auto
        obtain cfg' acc where "stored (ident U) (files (machine_of s0)) = Some cfg'" "acc \<in> set (accounts cfg')"
            "source acc = login_source f" "username acc = login_username f"
            "crypt (ident U) (login_password f) (password_hash acc) = Some (password_hash acc)"
            "authorized_in cfg' t \<longleftrightarrow> administrator acc"
            "auth_principal t = \<lparr> prin_source = login_source f, prin_subject = subject acc, prin_username = login_username f \<rparr>"
          using authenticated_run [OF run] by blast
        then have "proved U req (files (machine_of s)) t"
          using cfg Inr unfolding proved_def by (auto simp: s0_def intro!: exI [of _ cfg])
        moreover have "run_state (open_session U req t) (s1\<lparr> machine_of := w2 \<rparr>) = (r, s')"
          using rest Authenticated g True by (simp add: run_on_machine)
        ultimately show ?thesis using table by (metis (no_types) server.simps(2) server.update_convs(1) server.surjective)
      qed
    qed (use rest table in \<open>simp_all add: refused_def json_response_def\<close>)
  qed
qed

lemma logout_table:
  assumes "run_state (logout req) s = (r, s')"
  shows "sessions s' = forget req (sessions s) \<and> machine_of s' = machine_of s \<and> status r = 200"
  using assms by (auto simp: logout_def forget_def json_response_def split: option.splits)

section \<open>Events\<close>

text \<open>Who a token signs in, at every later moment.\<close>

type_synonym sign_ins = "nat \<Rightarrow> string \<Rightarrow> authentication option"

datatype session_event =
    Unchanged
  | Signed_out string
  | Signed_in "string option" string authentication nat

fun happens :: "session_event \<Rightarrow> sign_ins \<Rightarrow> sign_ins" where
  "happens Unchanged m = m"
| "happens (Signed_out k) m = (\<lambda>later. (m later)(k := None))"
| "happens (Signed_in prev k t until) m =
     (\<lambda>later. (case prev of Some p \<Rightarrow> (m later)(p := None) | None \<Rightarrow> m later)
       (k := if later < until then Some t else None))"

definition signs :: "'k server \<Rightarrow> sign_ins" where
  "signs s = (\<lambda>later. signed_in_as later (sessions s))"

text \<open>The events of a request and its response: signing in is a POST to the login whose form
  proved the password, and lasts half an hour; signing out a POST to the logout, or a login
  that ends the session it came with but finds no place.\<close>

definition event_allowed :: "'k ui_env \<Rightarrow> http_request \<Rightarrow> files \<Rightarrow> http_response \<Rightarrow> nat \<Rightarrow> session_event \<Rightarrow> bool" where
  "event_allowed U req f r now ev \<longleftrightarrow>
     (case ev of
        Unchanged \<Rightarrow>
          req_method req \<noteq> ''POST'' \<or> status r \<noteq> 200 \<or> plain_path req \<notin> {''/api/login'', ''/api/logout''}
      | Signed_out k \<Rightarrow>
          req_method req = ''POST'' \<and> same_origin_json req \<and> session_token req = Some k
          \<and> (plain_path req = ''/api/logout'' \<and> status r = 200 \<or> plain_path req = ''/api/login'' \<and> status r \<noteq> 200)
      | Signed_in prev k t until \<Rightarrow>
          req_method req = ''POST'' \<and> same_origin_json req \<and> plain_path req = ''/api/login'' \<and> status r = 200
          \<and> proved U req f t \<and> prev = session_token req \<and> until = now + SESSION_LIFETIME
          \<and> extra_headers r = [set_cookie k SESSION_SECONDS])"

lemma happens_cong: "m later = m' later \<Longrightarrow> happens ev m later = happens ev m' later"
  by (cases ev) (simp_all split: option.splits)

lemma signs_forget:
  "now \<le> later \<Longrightarrow> signed_in_as later (forget req (live_sessions now t)) =
     (case session_token req of Some p \<Rightarrow> (signed_in_as later t)(p := None) | None \<Rightarrow> signed_in_as later t)"
  by (simp add: forget_def signed_in_drop signed_in_later split: option.splits)

lemma login_event:
  assumes "run_state (login U req) s = (r, s')" and "req_method req = ''POST''" and "same_origin_json req"
    and "plain_path req = ''/api/login''"
  shows "\<exists>ev now. clock_reads U now \<and> event_allowed U req (files (machine_of s)) r now ev
           \<and> (\<forall>later \<ge> now. signs s' later = happens ev (signs s) later)"
  using login_table [OF assms(1)]
proof (elim disjE exE conjE)
  assume "sessions s' = sessions s" "status r \<noteq> 200"
  then show ?thesis
    by (intro exI [of _ Unchanged] exI [of _ "now_at U s"]) (simp add: event_allowed_def signs_def clock_reads_now)
next
  fix t s1
  assume t: "proved U req (files (machine_of s)) t" and s1: "sessions s1 = sessions s"
    and run: "run_state (open_session U req t) s1 = (r, s')"
  from open_session_table [OF run] show ?thesis
  proof (elim disjE exE conjE)
    assume "sessions s' = sessions s1" "status r \<noteq> 200"
    then show ?thesis
      using s1 by (intro exI [of _ Unchanged] exI [of _ "now_at U s"]) (simp add: event_allowed_def signs_def clock_reads_now)
  next
    fix now assume n: "clock_reads U now" "sessions s' = forget req (live_sessions now (sessions s1))" "status r \<noteq> 200"
    show ?thesis
    proof (cases "session_token req")
      case None
      then show ?thesis
        using n s1 by (intro exI [of _ Unchanged] exI [of _ now])
          (simp add: event_allowed_def signs_def forget_def signed_in_later)
    next
      case (Some k)
      then show ?thesis
        using n s1 assms by (intro exI [of _ "Signed_out k"] exI [of _ now])
          (simp add: event_allowed_def signs_def signs_forget)
    qed
  next
    fix now token
    assume n: "clock_reads U now" "sessions s' = (token, \<lparr> session_auth = t, session_expires = now + SESSION_LIFETIME \<rparr>)
             # drop_session token (forget req (live_sessions now (sessions s1)))"
      and r: "status r = 200" "extra_headers r = [set_cookie token SESSION_SECONDS]"
    have "signs s' later = happens (Signed_in (session_token req) token t (now + SESSION_LIFETIME)) (signs s) later"
      if "now \<le> later" for later
      using that n s1 by (simp add: signs_def signed_in_add signs_forget)
    then show ?thesis
      using r t assms n(1) by (intro exI [of _ "Signed_in (session_token req) token t (now + SESSION_LIFETIME)"] exI [of _ now])
        (simp add: event_allowed_def)
  qed
qed

text \<open>The part of a dispatch before its answer.\<close>

lemma dispatch_cases:
  assumes "run_state (dispatch U req) s = (r, s')"
  obtains (refused) "sessions s' = sessions s" "status r \<noteq> 200"
  | (unsigned) s0 s1 where "sessions s0 = sessions s"
      "run_state (authenticated U req) s0 = (None, s1)" "s' = s1" "status r \<noteq> 200"
  | (answered) s0 a s1 where "sessions s0 = sessions s"
      "run_state (authenticated U req) s0 = (a, s1)" "run_state (answer_page U req a (plain_path req)) s1 = (r, s')"
proof -
  obtain ready k where k: "netd_listens U (outside (machine_of s)) = (ready, k)" by fastforce
  define s0 where "s0 = (if bootstrap_route (plain_path req) \<and> files (machine_of s) OWNED_FILE = None
      then s\<lparr> machine_of := (machine_of s)\<lparr> outside := k \<rparr> \<rparr> else s)"
  define owned where "owned = (files (machine_of s) OWNED_FILE \<noteq> None)"
  obtain a s1 where a: "run_state (authenticated U req) s0 = (a, s1)" by fastforce
  have same: "sessions s0 = sessions s" by (simp add: s0_def)
  have run: "(r, s') =
      (if bootstrap_route (plain_path req) \<and> \<not> owned \<and> \<not> ready then (recovering_response, s0)
       else if req_method req = ''POST'' \<and> is_api (plain_path req) \<and> \<not> same_origin_json req
       then (refused 403 ''same-origin JSON required'', s0)
       else if needs_session owned (plain_path req) \<and> a = None then (sign_in_required owned, s1)
       else run_state (answer_page U req a (plain_path req)) s1)"
  proof (cases "bootstrap_route (plain_path req) \<and> \<not> owned")
    case True
    then have "s0 = s\<lparr> machine_of := (machine_of s)\<lparr> outside := k \<rparr> \<rparr>" by (simp add: s0_def owned_def)
    then have "run_state (dispatch U req) s =
        run_state (if \<not> ready then ret recovering_response
          else if req_method req = ''POST'' \<and> is_api (plain_path req) \<and> \<not> same_origin_json req
          then ret (refused 403 ''same-origin JSON required'')
          else do {
            a \<leftarrow> authenticated U req;
            (if needs_session False (plain_path req) \<and> a = None then ret (sign_in_required False)
             else answer_page U req a (plain_path req)) }) s0"
      using True k by (simp add: dispatch_def Let_def run_on_machine run_asks owned_def)
    then show ?thesis using assms a True by (auto split: if_splits)
  next
    case False
    then have "s0 = s" by (auto simp: s0_def owned_def)
    have "run_state (dispatch U req) s =
        run_state (if req_method req = ''POST'' \<and> is_api (plain_path req) \<and> \<not> same_origin_json req
          then ret (refused 403 ''same-origin JSON required'')
          else do {
            a \<leftarrow> authenticated U req;
            (if needs_session owned (plain_path req) \<and> a = None then ret (sign_in_required owned)
             else answer_page U req a (plain_path req)) }) s0"
      using False unfolding \<open>s0 = s\<close> owned_def
      by (cases "bootstrap_route (plain_path req)"; cases "files (machine_of s) OWNED_FILE")
        (simp_all add: dispatch_def Let_def del: not_None_eq cong: if_cong)
    then show ?thesis using assms a False by (auto split: if_splits)
  qed
  show thesis
  proof (cases "bootstrap_route (plain_path req) \<and> \<not> owned \<and> \<not> ready
      \<or> req_method req = ''POST'' \<and> is_api (plain_path req) \<and> \<not> same_origin_json req")
    case True
    then have "sessions s' = sessions s" "status r \<noteq> 200"
      using run same by (auto simp: recovering_response_def refused_def json_response_def split: if_splits)
    then show thesis by (rule refused)
  next
    case ok: False
    show thesis
    proof (cases "needs_session owned (plain_path req) \<and> a = None")
      case True
      then have "r = sign_in_required owned" "s' = s1" using run ok by (auto split: if_splits)
      then show thesis
        using unsigned [OF same, of s1] a True by (simp add: sign_in_required_def json_response_def)
    next
      case False
      then show thesis
        using run ok by (intro answered [OF same a]) (auto split: if_splits)
    qed
  qed
qed

lemma authenticated_signs:
  assumes "run_state (authenticated U req) s = (a, s')" and "now_at U s \<le> later"
  shows "signs s' later = signs s later"
  using authenticated_table(1) [OF assms(1)] assms(2) by (simp add: signs_def signed_in_later)

section \<open>The table refines the map\<close>

lemma inert_now: "inert_server s s' \<Longrightarrow> files (machine_of s') = files (machine_of s)"
  by (simp add: inert_server_def inert_def)

lemma authenticated_files:
  assumes "run_state (authenticated U req) s = (a, s')"
  shows "files (machine_of s') = files (machine_of s)"
  by (rule inert_now [OF keepsD [OF served_authenticated assms]])

text \<open>An answer that is neither a login nor a logout leaves the table as it was.\<close>

lemma answer_elsewhere:
  assumes "run_state (answer_page U req a path) s = (r, s')"
    and "req_method req \<noteq> ''POST'' \<or> path \<notin> {''/api/login'', ''/api/logout''}"
  shows "sessions s' = sessions s"
  using assms by (auto simp: answer_page_def run_on_machine split: if_splits)

text \<open>What an answered request does to the map: an event at the time it was authenticated, but for
  a login, which reads the clock again.\<close>

lemma unchanged_event:
  assumes "sessions s' = sessions s \<or> sessions s' = sessions s1" and "run_state (authenticated U req) s = (a, s1)"
    and "req_method req \<noteq> ''POST'' \<or> status r \<noteq> 200 \<or> plain_path req \<notin> {''/api/login'', ''/api/logout''}"
  shows "\<exists>ev now. event_allowed U req f r now ev \<and> clock_reads U now
     \<and> (\<forall>later. now_at U s \<le> later \<and> now \<le> later \<longrightarrow> signs s' later = happens ev (signs s) later)"
  using assms authenticated_signs [OF assms(2)] clock_reads_now [of U s]
  by (intro exI [of _ Unchanged] exI [of _ "now_at U s"]) (auto simp: event_allowed_def signs_def)

lemma logout_event:
  assumes run: "run_state (logout req) s1 = (r, s')" and a: "run_state (authenticated U req) s = (a, s1)" "a \<noteq> None"
    and req: "req_method req = ''POST''" "same_origin_json req" "plain_path req = ''/api/logout''"
  shows "\<exists>ev now. event_allowed U req f r now ev \<and> clock_reads U now
     \<and> (\<forall>later. now_at U s \<le> later \<and> now \<le> later \<longrightarrow> signs s' later = happens ev (signs s) later)"
proof -
  obtain k where k: "session_token req = Some k"
    using authenticated_table(2) [OF a(1)] a(2) by (cases a) auto
  have t: "sessions s' = drop_session k (sessions s1)" "status r = 200"
    using logout_table [OF run] k by (simp_all add: forget_def)
  have "signs s' later = happens (Signed_out k) (signs s) later" if "now_at U s \<le> later" for later
    using authenticated_signs [OF a(1) that] t by (simp add: signs_def signed_in_drop)
  then show ?thesis
    using k req t clock_reads_now [of U s]
    by (intro exI [of _ "Signed_out k"] exI [of _ "now_at U s"]) (simp add: event_allowed_def)
qed

lemma answer_event:
  assumes ans: "run_state (answer_page U req a (plain_path req)) s1 = (r, s')"
    and a: "run_state (authenticated U req) s = (a, s1)"
    and ok: "\<not> (req_method req = ''POST'' \<and> is_api (plain_path req) \<and> \<not> same_origin_json req)"
      "\<not> (needs_session True (plain_path req) \<and> a = None)"
  shows "\<exists>ev now. event_allowed U req (files (machine_of s)) r now ev \<and> clock_reads U now
     \<and> (\<forall>later. now_at U s \<le> later \<and> now \<le> later \<longrightarrow> signs s' later = happens ev (signs s) later)"
proof -
  consider (login) "req_method req = ''POST''" "plain_path req = ''/api/login''"
    | (logout) "req_method req = ''POST''" "plain_path req = ''/api/logout''"
    | (elsewhere) "req_method req \<noteq> ''POST'' \<or> plain_path req \<notin> {''/api/login'', ''/api/logout''}"
    by blast
  then show ?thesis
  proof cases
    case login
    then have own: "same_origin_json req" and l: "run_state (login U req) s1 = (r, s')"
      using ok ans bootstrap_not_logout by (auto simp: answer_page_def)
    show ?thesis
      using login_event [OF l login(1) own login(2)] authenticated_signs [OF a] happens_cong [of "signs s1" _ "signs s"]
      unfolding authenticated_files [OF a] by metis
  next
    case logout
    then show ?thesis
      using ok ans bootstrap_not_logout by (intro logout_event [OF _ a]) (auto simp: answer_page_def needs_session_def)
  next
    case elsewhere
    then show ?thesis using unchanged_event [OF _ a] answer_elsewhere [OF ans] by blast
  qed
qed

text \<open>
  C27. The sessions refine a map of who is signed in. On an owned appliance every request is one event of
  it: nothing changes, a token is signed out, or a login that proved an administrator's
  password, sent from the UI's own origin, signs in the token its cookie carries for half an
  hour from the clock's reading. From that moment on the map is the old one with the event.
\<close>

theorem sessions_refine_sign_ins:
  assumes "files (machine_of s) OWNED_FILE \<noteq> None" and "run_state (dispatch U req) s = (r, s')"
  shows "\<exists>ev now. event_allowed U req (files (machine_of s)) r now ev \<and> clock_reads U now
     \<and> (\<forall>later. now_at U s \<le> later \<and> now \<le> later \<longrightarrow> signs s' later = happens ev (signs s) later)"
proof -
  let ?foreign = "req_method req = ''POST'' \<and> is_api (plain_path req) \<and> \<not> same_origin_json req"
  obtain a s1 where a: "run_state (authenticated U req) s = (a, s1)" by fastforce
  have run: "(r, s') =
      (if ?foreign then (refused 403 ''same-origin JSON required'', s)
       else if needs_session True (plain_path req) \<and> a = None then (sign_in_required True, s1)
       else run_state (answer_page U req a (plain_path req)) s1)"
    unfolding assms(2) [symmetric] dispatch_owned [OF assms(1)] a by simp
  show ?thesis
  proof (cases "?foreign \<or> needs_session True (plain_path req) \<and> a = None")
    case True
    then have "sessions s' = sessions s \<or> sessions s' = sessions s1" "status r \<noteq> 200"
      using run by (auto simp: refused_def json_response_def sign_in_required_def split: if_splits)
    then show ?thesis using unchanged_event [OF _ a] by blast
  next
    case False
    then have "run_state (answer_page U req a (plain_path req)) s1 = (r, s')"
      using run by (auto split: if_splits)
    then show ?thesis using answer_event [OF _ a] False by blast
  qed
qed

section \<open>The table is bounded\<close>

definition table_ok :: "(string \<times> session) list \<Rightarrow> bool" where
  "table_ok t \<longleftrightarrow> distinct (map fst t) \<and> length t \<le> MAX_SESSIONS"

lemma length_live: "length (live_sessions now t) \<le> length t"
  by (simp add: live_sessions_def)

lemma length_drop_session: "length (drop_session k t) \<le> length t"
  by (simp add: drop_session_def)

lemma distinct_live: "distinct (map fst t) \<Longrightarrow> distinct (map fst (live_sessions now t))"
  by (simp add: live_sessions_def distinct_filtered)

lemma distinct_drop_session: "distinct (map fst t) \<Longrightarrow> distinct (map fst (drop_session k t))"
  by (simp add: drop_session_def distinct_filtered)

lemma table_live: "table_ok t \<Longrightarrow> table_ok (live_sessions now t)"
  using length_live [of now t] by (simp add: table_ok_def distinct_live)

lemma table_drop: "table_ok t \<Longrightarrow> table_ok (drop_session k t)"
  using length_drop_session [of k t] by (simp add: table_ok_def distinct_drop_session)

lemma table_forget: "table_ok t \<Longrightarrow> table_ok (forget req t)"
  by (simp add: forget_def table_drop split: option.split)

lemma table_add:
  assumes "table_ok t" and "length t < MAX_SESSIONS"
  shows "table_ok ((k, x) # drop_session k t)"
proof -
  have "length (drop_session k t) < MAX_SESSIONS"
    using assms(2) length_drop_session [of k t] by linarith
  then show ?thesis
    using table_drop [OF assms(1)] drop_absent [of k t] by (auto simp: table_ok_def)
qed

lemmas table_rules = table_live table_drop table_forget table_add

lemma table_authenticated:
  "run_state (authenticated U req) s = (a, s') \<Longrightarrow> table_ok (sessions s) \<Longrightarrow> table_ok (sessions s')"
  using authenticated_table(1) [of U req s a s'] by (simp add: table_live split: if_splits)

lemma table_open_session:
  assumes "run_state (open_session U req t) s = (r, s')" and "table_ok (sessions s)"
  shows "table_ok (sessions s')"
  using open_session_table [OF assms(1)] assms(2) by (auto simp: table_rules)

lemma table_login:
  assumes "run_state (login U req) s = (r, s')" and "table_ok (sessions s)"
  shows "table_ok (sessions s')"
  using login_table [OF assms(1)] assms(2) by (auto dest: table_open_session)

lemma table_answer:
  assumes run: "run_state (answer_page U req a path) s = (r, s')" and ok: "table_ok (sessions s)"
  shows "table_ok (sessions s')"
proof -
  consider (login) "req_method req = ''POST''" "path = ''/api/login''"
    | (logout) "req_method req = ''POST''" "path = ''/api/logout''"
    | (elsewhere) "req_method req \<noteq> ''POST'' \<or> path \<notin> {''/api/login'', ''/api/logout''}"
    by blast
  then show ?thesis
  proof cases
    case login
    then show ?thesis using run ok by (auto simp: answer_page_def intro: table_login)
  next
    case logout
    then show ?thesis
      using run ok logout_table [of req s r s'] by (simp add: answer_page_def table_forget)
  next
    case elsewhere
    then show ?thesis using answer_elsewhere [OF run] ok by simp
  qed
qed

text \<open>The server since it started, whatever else happens to the machine between requests.\<close>

inductive ui_reachable :: "'k ui_env \<Rightarrow> 'k server \<Rightarrow> bool" for U where
  started: "sessions s = [] \<Longrightarrow> ui_reachable U s"
| served: "ui_reachable U s \<Longrightarrow> run_state (dispatch U req) s = (r, s') \<Longrightarrow> ui_reachable U s'"
| meanwhile: "ui_reachable U s \<Longrightarrow> ui_reachable U (s\<lparr> machine_of := w \<rparr>)"

text \<open>
  At every moment since the UI started, after any requests, there are at most 1024
  sessions and every token has one: the table cannot grow without bound, and no later entry
  hides behind an earlier one of the same token.
\<close>

theorem sessions_are_bounded:
  assumes "ui_reachable U s"
  shows "length (sessions s) \<le> 1024 \<and> distinct (map fst (sessions s))"
proof -
  have "table_ok (sessions s)"
    using assms
  proof induction
    case (started s)
    then show ?case by (simp add: table_ok_def)
  next
    case (served s req r s')
    from served(2) show ?case
    proof (cases rule: dispatch_cases)
      case (answered s0 a s1)
      then show ?thesis using served(3) by (metis table_authenticated table_answer)
    qed (use served(3) in \<open>auto intro: table_authenticated\<close>)
  qed simp
  then show ?thesis by (simp add: table_ok_def MAX_SESSIONS_def)
qed

end
