(* ===== verification/Ui_Sample.thy ===== *)
theory Ui_Sample
  imports Ui_Sessions Identity_Sample
begin

text \<open>
  The properties of the Web UI on the sample appliance of \<open>Identity_Sample\<close>: drafts of its
  Accepted state, a login, and requests that are refused.
\<close>

section \<open>Drafts\<close>

definition no_change :: section_values where
  "no_change =
     \<lparr> new_routes = None, new_interfaces = None, new_exposure = None, new_services = None,
       new_firewall = None, new_wireguard = None, new_qdiscs = None, new_ipv6 = None \<rparr>"

definition firewall_change :: section_values where
  "firewall_change = no_change\<lparr> new_firewall := Some [''iifname lan0 tcp dport 22 accept''] \<rparr>"

definition tunnel_input :: "string \<Rightarrow> wg_input" where
  "tunnel_input key =
     \<lparr> input_name = ''wg0'', input_key = key, input_port = Some 51820, input_addresses = [''10.7.0.1/24''],
       input_to = ''10.8.0.0/16'', input_via = ''10.7.0.2'' \<rparr>"

definition tunnel_change :: section_values where
  "tunnel_change = no_change\<lparr> new_wireguard := Some [tunnel_input ''k1''] \<rparr>"

definition with_tunnel :: desired_state where
  "with_tunnel = sample_state\<lparr> nft_extra := [''iifname lan0 tcp dport 22 accept''],
     wireguard := [\<lparr> wg_name = ''wg0'', private_key = ''k1'', listen_port = Some 51820, wg_addresses = [''10.7.0.1/24''] \<rparr>],
     routes := routes sample_state @ [\<lparr> route_to = ''10.8.0.0/16'', via = ''10.7.0.2'', route_dev = Some ''wg0'' \<rparr>] \<rparr>"

lemma sample_saves:
  "saves [firewall_change, tunnel_change] (sample_state, []) = Inr (with_tunnel, [''firewall'', ''wireguard'', ''routes''])"
  by code_simp

theorem draft_names_its_changes_witness:
  "saves [firewall_change, tunnel_change] (sample_state, []) = Inr (with_tunnel, [''firewall'', ''wireguard'', ''routes''])
   \<and> unchanged_but [''firewall'', ''wireguard'', ''routes''] sample_state with_tunnel"
  using draft_names_its_changes [OF sample_saves] sample_saves by blast

definition firewall_draft :: draft where
  "firewall_draft =
     \<lparr> draft_base = 1, draft_tag = ''t1'', draft_desired = sample_state\<lparr> nft_extra := [''iifname lan0 tcp dport 22 accept''] \<rparr>,
       draft_sections = [''firewall''], wireguard_edits = [''wg1''] \<rparr>"

definition newer_state :: desired_state where
  "newer_state = with_tunnel\<lparr> revision := 7, nft_extra := [] \<rparr>"

lemma sample_reconciled:
  "reconciled_desired firewall_draft newer_state firewall_change = Inr (with_tunnel\<lparr> revision := 7 \<rparr>)"
  by code_simp

theorem reconciliation_keeps_the_rest_witness:
  "unchanged_but [''firewall''] newer_state (with_tunnel\<lparr> revision := 7 \<rparr>)
   \<and> wireguard (with_tunnel\<lparr> revision := 7 \<rparr>) = wireguard newer_state"
  using reconciliation_keeps_the_rest [OF sample_reconciled]
  by (simp add: effective_sections_def firewall_draft_def newer_state_def)

lemma sample_stored:
  "store_wireguard with_tunnel [tunnel_input '' ''] (wireguard with_tunnel) = Inr with_tunnel"
  "stored_key ''wg0'' (wireguard with_tunnel) = Some ''k1''"
  "trim (input_key (tunnel_input '' '')) = []"
  by code_simp+


section \<open>Exports\<close>

instance network_export_ext :: (countable) countable
  by (rule countable_classI [of "\<lambda>x. to_nat (export_format x, export_version x, network_export.export_desired x, network_export.more x)"])
    (simp add: network_export.equality)

text \<open>A file that is sealed by a line before it.\<close>

definition SEAL :: string where "SEAL = ''age-encryption.org/v1 ''"

definition sample_files :: export_codec where
  "sample_files =
     \<lparr> text_of_export = (\<lambda>x. Inr (unary x)),
       export_of_text = (\<lambda>t. Inr (of_unary (List.drop (length EXPORT_WARNING) t))),
       age_decrypt = (\<lambda>p t. if p = ''pass'' then Inr (List.drop (length SEAL) t) else Inl ''wrong'') \<rparr>"

definition sample_export :: string where
  "sample_export = EXPORT_WARNING @ unary \<lparr> export_format = EXPORT_FORMAT, export_version = 1, network_export.export_desired = sample_state \<rparr>"

lemma ascii_utf8: "list_all (\<lambda>c. byte c < 128) s \<Longrightarrow> is_utf8 s"
  unfolding is_utf8_def by (rule utf8_valid_ascii) (auto simp: list_all_iff)

lemma export_ascii: "list_all (\<lambda>c. byte c < 128) sample_export"
proof -
  have "list_all (\<lambda>c. byte c < 128) EXPORT_WARNING" by code_simp
  then show ?thesis by (auto simp: sample_export_def unary_def byte_def list_all_iff)
qed

lemma sealed_kept: "text_start (SEAL @ sample_export) = SEAL @ sample_export"
proof -
  have "list_all (\<lambda>c. byte c < 128) SEAL" by code_simp
  then have "\<forall>c \<in> set (SEAL @ sample_export). \<not> cont_byte c"
    using export_ascii by (auto simp: list_all_iff cont_byte_def)
  then have "utf8_chars (SEAL @ sample_export) = map (\<lambda>c. [c]) (SEAL @ sample_export)"
    by (rule utf8_chars_ascii)
  moreover have "\<not> white_space [CHR ''a'']" by code_simp
  ultimately show ?thesis by (simp add: text_start_def SEAL_def)
qed

theorem exports_import_back_witness:
  "decode_network_import sample_files sample_export None = Inr sample_state
   \<and> decode_network_import sample_files (SEAL @ sample_export) (Some ''pass'') = Inr sample_state"
proof -
  have reads: "reads_exports sample_files" by (simp add: reads_exports_def sample_files_def)
  have made: "network_export sample_files sample_state = Inr sample_export"
    by (simp add: network_export_def sample_files_def sample_export_def)
  have start: "text_start (SEAL @ sample_export) = SEAL @ sample_export"
    by (rule sealed_kept)
  have sealed: "is_encrypted_export (SEAL @ sample_export)"
    using start by (simp add: is_encrypted_export_def SEAL_def starts_with_def)
  have "age_decrypt sample_files ''pass'' (text_start (SEAL @ sample_export)) = Inr sample_export"
    by (simp add: start sample_files_def)
  from exports_import_back [OF reads made sealed this ascii_utf8 [OF export_ascii]] show ?thesis by simp
qed

section \<open>Interfaces\<close>

definition moved_lan :: "iface list" where
  "moved_lan = [plain_iface ''wan0'' ''wan'' [''203.0.113.2/24''], plain_iface ''lan0'' ''lan'' [''192.168.9.1/24'']]"

theorem interface_edits_keep_services_matching_witness:
  "lan_services_match_interface (store_interface_section
      (sample_state\<lparr> lan_prefix := Some ''192.168.1.0/24'', dhcp_pool := Some ''192.168.1.10-192.168.1.99'' \<rparr>)
      moved_lan [''lan0'']) = Inr ()"
proof -
  have "List.find (has_role ''lan'') moved_lan = Some (plain_iface ''lan0'' ''lan'' [''192.168.9.1/24''])"
    "list_all (\<lambda>a. cidr a \<noteq> None) (iface_addresses (plain_iface ''lan0'' ''lan'' [''192.168.9.1/24'']))"
    by code_simp+
  from interface_edits_keep_services_matching [OF this] show ?thesis by blast
qed

section \<open>Requests\<close>

text \<open>A UI that reads one login from every body, and netd answering nothing.\<close>

definition sample_forms :: ui_forms where
  "sample_forms =
     \<lparr> read_login = (\<lambda>_. Inr \<lparr> login_source = LOCAL_SOURCE, login_username = ''alice'', login_password = ''secret'' \<rparr>),
       read_account = (\<lambda>_. Inl []), read_removal = (\<lambda>_. Inl []), read_setting = (\<lambda>_. Inl []),
       read_confirmation = (\<lambda>_. Inl []), read_routes = (\<lambda>_. Inl []), read_standalone = (\<lambda>_. Inl []),
       read_interfaces = (\<lambda>_. Inl []), read_services = (\<lambda>_. Inl []), read_policy = (\<lambda>_. Inl []),
       read_tunnels = (\<lambda>_. Inl []), read_qdiscs = (\<lambda>_. Inl []), read_ipv6_change = (\<lambda>_. Inl []),
       read_draft_change = (\<lambda>_. Inl []), read_reference = (\<lambda>_. Inl []), read_reconciliation = (\<lambda>_. Inl []),
       read_export = (\<lambda>_. Inl []), read_import = (\<lambda>_. Inl []), read_stage = (\<lambda>_. Inl []),
       read_bootstrap = (\<lambda>_. Inl []), text_of_draft = (\<lambda>_. Inl []), draft_of_text = (\<lambda>_. Inl []) \<rparr>"

definition sample_ui :: "unit ui_env" where
  "sample_ui =
     \<lparr> ident = sample_identity, forms = sample_forms, files_of = sample_files, age_encrypt = (\<lambda>p t k. (Inl [], k)),
       exchange = (\<lambda>sock v. ret (Inl ''connection refused'')), netd_listens = (\<lambda>k. (False, k)),
       toml_value = (\<lambda>_. None), lossy = (\<lambda>t. t), instant = (\<lambda>k. (5, k)), login_busy = (\<lambda>k. (False, k)) \<rparr>"

definition sample_server :: "unit server" where
  "sample_server = \<lparr> machine_of = identity_world two_admins, sessions = [], unknown_hash = None \<rparr>"

definition json_post :: "string \<Rightarrow> http_request" where
  "json_post path = \<lparr> req_method = ''POST'', req_path = path, req_body = ''{}'',
     req_headers = [(''content-type'', ''application/json'')] \<rparr>"

definition foreign_post :: "string \<Rightarrow> http_request" where
  "foreign_post path = (json_post path)\<lparr> req_headers :=
     [(''content-type'', ''application/json''), (''sec-fetch-site'', ''cross-site'')] \<rparr>"

lemma sample_owned: "files (machine_of sample_server) OWNED_FILE \<noteq> None"
  by (simp add: sample_server_def identity_world_def)

lemma no_cookie: "fst (run_state (authenticated sample_ui (json_post path)) s) = None"
  by (simp add: authenticated_def session_token_def header_def json_post_def)

theorem unsigned_requests_change_nothing_witness:
  "inert (identity_world two_admins)
     (machine_of (snd (run_state (dispatch sample_ui (json_post ''/api/draft/apply'')) sample_server)))
   \<and> fst (run_state (dispatch sample_ui (json_post ''/api/draft/apply'')) sample_server)
       \<in> {sign_in_required True, refused 403 ''same-origin JSON required''}"
proof -
  have path: "is_api (plain_path (json_post ''/api/draft/apply''))"
    "plain_path (json_post ''/api/draft/apply'') \<notin> {''/api/bootstrap'', ''/api/login''}"
    by code_simp+
  from unsigned_requests_change_nothing [OF sample_owned no_cookie prod.collapse [symmetric]] path
  show ?thesis by (metis sample_server_def server.simps(1))
qed


text \<open>Alice signs in.\<close>

lemma alice_proves:
  "\<exists>c. run_state (check_password sample_ui \<lparr> login_source = LOCAL_SOURCE, login_username = ''alice'', login_password = ''secret'' \<rparr>)
       sample_server = (Authenticated alice, sample_server\<lparr> unknown_hash := c \<rparr>)"
  using alice_authenticates by (auto simp: check_password_def run_on_machine sample_ui_def sample_server_def)

definition alice_server :: "unit server" where
  "alice_server = snd (run_state (dispatch sample_ui (json_post ''/api/login'')) sample_server)"

lemma alice_signed_in:
  "status (fst (run_state (dispatch sample_ui (json_post ''/api/login'')) sample_server)) = 200"
  "sessions alice_server = [(token_of zeros, \<lparr> session_auth = alice, session_expires = 5 + SESSION_LIFETIME \<rparr>)]"
  "machine_of alice_server = machine_of sample_server"
proof -
  have path: "plain_path (json_post ''/api/login'') = ''/api/login''" "same_origin_json (json_post ''/api/login'')"
    "\<not> needs_session True ''/api/login''" by code_simp+
  have token: "run_state (random_token sample_env) w = (Inr (token_of zeros), w)" for w :: "unit world"
    by (simp add: random_token_def run_asks sample_env_def token_of_def)
  obtain c where c: "run_state (check_password sample_ui
      \<lparr> login_source = LOCAL_SOURCE, login_username = ''alice'', login_password = ''secret'' \<rparr>)
       sample_server = (Authenticated alice, sample_server\<lparr> unknown_hash := c \<rparr>)"
    using alice_proves by blast
  have clock: "run_state (asks (instant sample_ui)) w = (5, w)" "run_state (asks (login_busy sample_ui)) w = (False, w)" for w
    by (simp_all add: run_asks sample_ui_def)
  have ui: "ident sample_ui = sample_identity" "host_of sample_ui = sample_env"
    "read_login (forms sample_ui) t = Inr \<lparr> login_source = LOCAL_SOURCE, login_username = ''alice'', login_password = ''secret'' \<rparr>" for t
    by (simp_all add: sample_ui_def host_of_def sample_forms_def)
  have cookie: "session_token (json_post ''/api/login'') = None"
    by (simp add: session_token_def header_def json_post_def)
  have parts: "machine_of sample_server = identity_world two_admins" "sessions sample_server = []"
    by (simp_all add: sample_server_def)
  have steps: "run_state (on_machine (asks (login_busy sample_ui))) sample_server = (False, sample_server)"
    "run_state (on_machine (authorize_administrator sample_identity alice)) (sample_server\<lparr> unknown_hash := c \<rparr>) =
       (True, sample_server\<lparr> unknown_hash := c \<rparr>)"
    "run_state (on_machine (random_token sample_env)) (sample_server\<lparr> unknown_hash := c \<rparr>) =
       (Inr (token_of zeros), sample_server\<lparr> unknown_hash := c \<rparr>)"
    "run_state (on_machine (asks (instant sample_ui))) (sample_server\<lparr> unknown_hash := c \<rparr>) =
       (5, sample_server\<lparr> unknown_hash := c \<rparr>)"
    using sample_granted token by (simp_all add: run_on_machine clock sample_server_def)
  have "run_state (dispatch sample_ui (json_post ''/api/login'')) sample_server =
      run_state (login sample_ui (json_post ''/api/login'')) sample_server"
    using path cookie
    by (simp add: dispatch_owned [OF sample_owned] authenticated_def answer_page_def json_post_def)
  also have "\<dots> = ((json_response 200 (JObj
               [(''ok'', JBool True), (''principal'', principal_json sample_ui (auth_principal alice))]))
               \<lparr> extra_headers := [set_cookie (token_of zeros) SESSION_SECONDS] \<rparr>,
      sample_server\<lparr> unknown_hash := c,
        sessions := [(token_of zeros, \<lparr> session_auth = alice, session_expires = 5 + SESSION_LIFETIME \<rparr>)] \<rparr>)"
    using c cookie parts
    by (simp add: login_def ui steps open_session_def Let_def MAX_SESSIONS_def drop_session_def)
  finally have run: "run_state (dispatch sample_ui (json_post ''/api/login'')) sample_server =
     ((json_response 200 (JObj
               [(''ok'', JBool True), (''principal'', principal_json sample_ui (auth_principal alice))]))
               \<lparr> extra_headers := [set_cookie (token_of zeros) SESSION_SECONDS] \<rparr>,
      sample_server\<lparr> unknown_hash := c,
        sessions := [(token_of zeros, \<lparr> session_auth = alice, session_expires = 5 + SESSION_LIFETIME \<rparr>)] \<rparr>)" .
  then show "status (fst (run_state (dispatch sample_ui (json_post ''/api/login'')) sample_server)) = 200"
    by (simp add: json_response_def)
  show "sessions alice_server = [(token_of zeros, \<lparr> session_auth = alice, session_expires = 5 + SESSION_LIFETIME \<rparr>)]"
    "machine_of alice_server = machine_of sample_server"
    using run by (simp_all add: alice_server_def)
qed

theorem sessions_refine_sign_ins_witness:
  "\<exists>ev. event_allowed sample_ui (json_post ''/api/login'') (files (machine_of sample_server))
        (fst (run_state (dispatch sample_ui (json_post ''/api/login'')) sample_server)) 5 ev
     \<and> signs alice_server 6 = happens ev (signs sample_server) 6 \<and> signs alice_server 6 (token_of zeros) = Some alice"
proof -
  have clock: "clock_reads sample_ui now \<Longrightarrow> now = 5" "now_at sample_ui sample_server = 5" for now
    by (simp_all add: clock_reads_def now_at_def sample_ui_def)
  obtain ev now where ev: "event_allowed sample_ui (json_post ''/api/login'') (files (machine_of sample_server))
        (fst (run_state (dispatch sample_ui (json_post ''/api/login'')) sample_server)) now ev" "clock_reads sample_ui now"
      "\<forall>later. now_at sample_ui sample_server \<le> later \<and> now \<le> later \<longrightarrow> signs alice_server later = happens ev (signs sample_server) later"
    using sessions_refine_sign_ins [OF sample_owned prod.collapse [symmetric]] unfolding alice_server_def by blast
  have "signs alice_server 6 (token_of zeros) = Some alice"
    by (simp add: signs_def signed_in_as_def alice_signed_in(2) SESSION_LIFETIME_def SESSION_SECONDS_def)
  moreover have "signs alice_server 6 = happens ev (signs sample_server) 6"
    using ev(3) clock(1) [OF ev(2)] clock(2) by simp
  ultimately show ?thesis using ev(1,2) clock(1) by blast
qed

theorem sessions_are_bounded_witness:
  "length (sessions alice_server) \<le> 1024 \<and> distinct (map fst (sessions alice_server))"
proof -
  have "ui_reachable sample_ui sample_server" by (rule started) (simp add: sample_server_def)
  then have "ui_reachable sample_ui alice_server"
    unfolding alice_server_def by (rule ui_reachable.served [OF _ prod.collapse [symmetric]])
  then show ?thesis by (rule sessions_are_bounded)
qed

end
