(* ===== verification/Console_Text.thy ===== *)
theory Console_Text
  imports Identity Desired_Json Live
begin

text \<open>
  What the Appliance console (\<open>src/console.rs\<close>) reads and prints, without effects: lines of
  input, commands, the NICs and UI addresses of the Bootstrap console, and the status of the
  Host image and of a rollback. \<open>Console\<close> runs it.
\<close>

section \<open>Input\<close>

definition is_newline :: "char \<Rightarrow> bool" where
  "is_newline c \<longleftrightarrow> c = CHR 0x0A \<or> c = CHR 0x0D"

text \<open>The first line of what has come in, and what is left; a carriage return takes the newline
  after it along, if that is there.\<close>

definition take_line :: "string \<Rightarrow> (string \<times> string) option" where
  "take_line acc =
     (case dropWhile (\<lambda>c. \<not> is_newline c) acc of
        [] \<Rightarrow> None
      | c # s \<Rightarrow> Some (takeWhile (\<lambda>c. \<not> is_newline c) acc,
                    (case s of [] \<Rightarrow> [] | d # t \<Rightarrow> if c = CHR 0x0D \<and> d = CHR 0x0A then t else s)))"

text \<open>\<open>line.split_once(char::is_whitespace)\<close>\<close>

definition command_of :: "string \<Rightarrow> string \<times> string" where
  "command_of text =
     (let gs = utf8_chars (trim text);
          cmd = takeWhile (\<lambda>g. \<not> white_space g) gs in
      (concat cmd, trim (concat (drop 1 (dropWhile (\<lambda>g. \<not> white_space g) gs)))))"

definition no_arguments :: "string list \<Rightarrow> unit res" where
  "no_arguments args =
     (case args of
        [] \<Rightarrow> Inr ()
      | a # _ \<Rightarrow> Inl (''unexpected argument '' @ a @ '': the Appliance console takes no arguments; ''
                    @ ''configure the appliance and update its Host image in the UI''))"

section \<open>NICs\<close>

record nic =
  nic_name :: string
  nic_addrs :: "ip_addr list"

record nic_list =
  nics :: "nic list"
  opted :: "string option"

definition push_addr :: "ip_addr list \<Rightarrow> json \<Rightarrow> ip_addr list" where
  "push_addr known a =
     (case Option.bind (jstr a) (\<lambda>s. parse_ip (hd (split_on (CHR ''/'') s))) of
        Some ip \<Rightarrow> if ip \<in> set known then known else known @ [ip]
      | None \<Rightarrow> known)"

definition addrs_of_nic :: "json \<Rightarrow> ip_addr list" where
  "addrs_of_nic nic =
     (case Option.bind (jget nic ''addresses'') jarr of Some xs \<Rightarrow> foldl push_addr [] xs | None \<Rightarrow> [])"

definition nic_of_json :: "json \<Rightarrow> nic option" where
  "nic_of_json nic = map_option (\<lambda>n. \<lparr> nic_name = n, nic_addrs = addrs_of_nic nic \<rparr>)
     (Option.bind (jget nic ''name'') jstr)"

definition parse_nic_list :: "json \<Rightarrow> nic_list" where
  "parse_nic_list v =
     \<lparr> nics = List.map_filter nic_of_json (case Option.bind (jget v ''nics'') jarr of Some xs \<Rightarrow> xs | None \<Rightarrow> []),
       opted = Option.bind (Option.bind (jget v ''opt'') (\<lambda>x. jget x ''nic'')) jstr \<rparr>"

definition no_nics :: nic_list where
  "no_nics = \<lparr> nics = [], opted = None \<rparr>"

definition nics_of_reply :: "json res \<Rightarrow> nic_list" where
  "nics_of_reply r =
     (case r of
        Inr v \<Rightarrow> if jget v ''ok'' = Some (JBool False) then no_nics else parse_nic_list v
      | Inl _ \<Rightarrow> no_nics)"

definition nics_key :: "nic list \<Rightarrow> string" where
  "nics_key ns = join_with '';'' (map (\<lambda>n. nic_name n @ ''='' @ join_with '','' (map show_ip (nic_addrs n))) ns)"

section \<open>Where the UI is\<close>

definition is_ula :: "u128 \<Rightarrow> bool" where
  "is_ula a \<longleftrightarrow> ipv6_octets a ! 0 AND 0xFE = 0xFC"

definition ui_reachable :: "ip_addr \<Rightarrow> bool" where
  "ui_reachable addr =
     (case addr of
        V4 a \<Rightarrow>
          if v4_loopback a then False
          else if ipv4_octets a ! 0 = 100 \<and> 64 \<le> ipv4_octets a ! 1 \<and> ipv4_octets a ! 1 \<le> 127 then False
          else v4_private a
      | V6 a \<Rightarrow> if a = 1 then False else is_ula a)"

definition ui_url :: "string \<Rightarrow> ip_addr \<Rightarrow> string option" where
  "ui_url nic addr =
     (if \<not> ui_reachable addr then None
      else case addr of
        V4 a \<Rightarrow> Some (''https://'' @ show_ipv4 a @ ''/'')
      | V6 a \<Rightarrow> if v6_link_local a then Some (''https://['' @ show_ipv6 a @ ''%'' @ nic @ '']/'')
                else Some (''https://['' @ show_ipv6 a @ '']/''))"

definition urls_of :: "nic_list \<Rightarrow> string list" where
  "urls_of l =
     concat (map (\<lambda>n. List.map_filter (ui_url (nic_name n)) (nic_addrs n))
       (filter (\<lambda>n. opted l = Some (nic_name n)) (nics l)))"

definition nic_line :: "nic \<Rightarrow> string" where
  "nic_line n =
     (let addrs = join_with '' '' (map show_ip (nic_addrs n)) in
      if addrs = [] then ''  '' @ nic_name n else ''  '' @ nic_name n @ ''  '' @ addrs)"

text \<open>The lines of the Bootstrap status after its title.\<close>

definition status_lines :: "nic_list \<Rightarrow> string list" where
  "status_lines l =
     [''NICs:''] @ (if nics l = [] then [''  (none)''] else []) @ map nic_line (nics l)
     @ [''Reach the UI:''] @ map (\<lambda>u. ''  '' @ u) (urls_of l)
     @ (if urls_of l = [] then [''  (set ephemeral addressing: static, dhcp, or slaac)''] else [])"

definition BOOTSTRAP_HELP :: "string list" where
  "BOOTSTRAP_HELP =
     [''static <nic> <cidr>  ephemeral IPv4/IPv6'', ''dhcp <nic>            ephemeral DHCPv4'',
      ''slaac <nic>           ephemeral IPv6 RA'', ''status'']"

section \<open>The recovery menu\<close>

definition RECOVERY_BANNER :: string where
  "RECOVERY_BANNER = ''FWOS Appliance console: authenticated recovery''"

definition ADMIN_HELP :: "string list" where
  "ADMIN_HELP =
     [''status            appliance, Accepted Desired state, and Host image status'',
      ''restore-previous  restore the previous Accepted Desired state (network revision); the Host image is unchanged'',
      ''rollback-image    boot the previous Host image at the next reboot; the Accepted Desired state is unchanged.'',
      ''                  Entering it again before rebooting cancels the queued rollback'',
      ''reboot            reboot, activating a staged Host update or a queued Host image rollback'',
      ''help'', ''logout'', ''Configure the appliance and update its Host image in the UI.'']"

definition unlines :: "string list \<Rightarrow> string" where
  "unlines ls = concat (map (\<lambda>l. l @ nl) ls)"

text \<open>\<open>{reply}\<close> of a string of the reply, or nothing.\<close>

definition image_of :: "json \<Rightarrow> string \<Rightarrow> string" where
  "image_of v key = (case jstr (jindex v key) of Some s \<Rightarrow> s | None \<Rightarrow> [])"

definition rollback_lines :: "json \<Rightarrow> string list" where
  "rollback_lines v =
     (if jindex v ''ok'' \<noteq> JBool True
      then [''Host image rollback refused: ''
              @ (case jstr (jindex v ''error'') of Some e \<Rightarrow> e | None \<Rightarrow> ''refused by the Host update program''),
            ''The running Host image and Accepted Desired state are unchanged.'']
      else if jindex v ''rollback_queued'' \<noteq> JBool True
      then [''Host image rollback cancelled: the next boot runs the current Host image '' @ image_of v ''booted'' @ ''.'',
            ''No reboot is required.'']
      else
        [''Host image rollback queued: the next boot runs the previous Host image '' @ image_of v ''rollback'' @ ''.'',
         ''The current Host image '' @ image_of v ''booted''
           @ '' stays active until then; enter rollback-image again before rebooting to cancel.'']
        @ (case jstr (jindex v ''discarded_staged'') of
             Some d \<Rightarrow> [''The staged Host update '' @ d @ '' was discarded.'']
           | None \<Rightarrow> [])
        @ [''Reboot required: enter reboot to boot the previous Host image.'',
           if jindex v ''restores_pre_update_network'' = JBool True
           then ''This Host update was never accepted: the previous Host image restores the network preserved before it.''
           else ''The Accepted Desired state is unchanged; restore-previous restores the previous network revision separately.'',
           ''Current administrator accounts and passwords stay in effect.''])"

definition describe_image_rollback :: "(string \<Rightarrow> json res) \<Rightarrow> string res \<Rightarrow> string" where
  "describe_image_rollback read r =
     (case bindE r (\<lambda>raw. case read raw of
             Inl e \<Rightarrow> Inl (''unreadable Host update program reply: '' @ e) | Inr v \<Rightarrow> Inr v) of
        Inl e \<Rightarrow> unlines [''Host image rollback failed: '' @ e,
                          ''The running Host image and Accepted Desired state are unchanged.'']
      | Inr v \<Rightarrow> unlines (rollback_lines v))"

definition shown_network :: "(json \<Rightarrow> string) \<Rightarrow> json \<Rightarrow> string" where
  "shown_network show v =
     (if jstr (jindex v ''outcome'') = Some ''restored''
      then ''; pre-update network restored as Accepted Desired state revision '' @ show (jindex v ''revision'')
      else if jstr (jindex v ''outcome'') = Some ''unchanged''
      then ''; pre-update network remained the Accepted Desired state (revision '' @ show (jindex v ''revision'') @ '')''
      else if jstr (jindex v ''outcome'') = Some ''failed''
      then ''; pre-update network not restored: ''
             @ (case jstr (jindex v ''error'') of Some e \<Rightarrow> e | None \<Rightarrow> ''unknown error'')
      else [])"

definition shown_outcome :: "json \<Rightarrow> string" where
  "shown_outcome change =
     (case jstr (jindex change ''outcome'') of
        None \<Rightarrow> ''unknown''
      | Some s \<Rightarrow>
          if s = ''rolled_back''
          then ''rolled back ('' @ (case jstr (jindex change ''reason'') of Some r \<Rightarrow> r | None \<Rightarrow> ''no reason recorded'') @ '')''
          else s)"

definition last_host_image_change :: "(json \<Rightarrow> string) \<Rightarrow> json \<Rightarrow> string option" where
  "last_host_image_change show change = do {
     release \<leftarrow> jstr (jindex change ''release'');
     let network = shown_network show (jindex change ''network'');
     Some (case jstr (jindex (jindex change ''manual'') ''to'') of
             Some to \<Rightarrow> ''Last Host image change: manually rolled back from '' @ release @ '' to '' @ to @ network
           | None \<Rightarrow> ''Last Host update: '' @ release @ '' '' @ shown_outcome change @ network) }"

definition deployment_of :: "json \<Rightarrow> string \<Rightarrow> string option" where
  "deployment_of v key = filled (jstr (jindex v key))"

definition host_image_lines :: "(json \<Rightarrow> string) \<Rightarrow> json \<Rightarrow> string list" where
  "host_image_lines show v =
     (let queued = jindex v ''rollback_queued'' = JBool True in
     [''Host image (bootc deployments):'']
     @ List.map_filter (\<lambda>key. map_option (\<lambda>i. ''  '' @ key @ '': '' @ i) (deployment_of v key))
         [''booted'', ''staged'', ''rollback'']
     @ [case deployment_of v ''rollback'' of
          Some p \<Rightarrow> if queued then ''Host image rollback queued: the next boot runs '' @ p
                    else ''Previous Host image available for rollback-image: '' @ p
        | None \<Rightarrow> ''No previous Host image is available for rollback-image'']
     @ (case deployment_of v ''staged'' of
          Some i \<Rightarrow> if queued then [] else [''Host update staged: the next boot runs '' @ i]
        | None \<Rightarrow> [])
     @ (if jindex v ''reboot_required'' = JBool True then [''Reboot required: enter reboot to activate it''] else [])
     @ (case last_host_image_change show (jindex v ''last_update'') of Some l \<Rightarrow> [l] | None \<Rightarrow> []))"

section \<open>TOML\<close>

text \<open>\<open>toml::Value\<close>; what the console does not look at is \<open>T_other\<close>.\<close>

datatype toml =
    T_str string
  | T_int int
  | T_arr "toml list"
  | T_table "(string \<times> toml) list"
  | T_other

definition tget :: "toml \<Rightarrow> string \<Rightarrow> toml option" where
  "tget v key = (case v of T_table kvs \<Rightarrow> map_of kvs key | _ \<Rightarrow> None)"

definition tstr :: "toml \<Rightarrow> string option" where
  "tstr v = (case v of T_str s \<Rightarrow> Some s | _ \<Rightarrow> None)"

definition tint :: "toml \<Rightarrow> int option" where
  "tint v = (case v of T_int n \<Rightarrow> Some n | _ \<Rightarrow> None)"

definition tarr :: "toml \<Rightarrow> toml list option" where
  "tarr v = (case v of T_arr xs \<Rightarrow> Some xs | _ \<Rightarrow> None)"

definition show_int :: "int \<Rightarrow> string" where
  "show_int n = (if n < 0 then ''-'' @ show_nat (nat (- n)) else show_nat (nat n))"

definition toml_field :: "toml \<Rightarrow> string \<Rightarrow> string" where
  "toml_field v key = (case Option.bind (tget v key) tstr of Some s \<Rightarrow> s | None \<Rightarrow> [])"

definition interface_line :: "toml \<Rightarrow> string" where
  "interface_line v =
     ''  '' @ (case Option.bind (tget v ''name'') tstr of Some n \<Rightarrow> n | None \<Rightarrow> ''?'')
     @ (if toml_field v ''role'' = [] then [] else ''  '' @ toml_field v ''role'')
     @ (case Option.bind (tget v ''vlan'') tint of
          None \<Rightarrow> []
        | Some tag \<Rightarrow> ''  vlan '' @ show_int tag
            @ (if toml_field v ''parent'' = [] then [] else '' on '' @ toml_field v ''parent''))"

definition network_lines :: "toml option \<Rightarrow> string list" where
  "network_lines shown =
     (case Option.bind (Option.bind shown (\<lambda>v. tget v ''interfaces'')) tarr of
        Some ifs \<Rightarrow> ''NICs:'' # map interface_line ifs
      | None \<Rightarrow> [])
     @ (case Option.bind (Option.bind shown (\<lambda>v. tget v ''ui_exposure'')) tarr of
          Some es \<Rightarrow> (let names = List.map_filter tstr es in
                      if names = [] then [] else [''UI exposure: '' @ join_with '' '' names])
        | None \<Rightarrow> [])"

definition revision_of :: "toml \<Rightarrow> int option" where
  "revision_of v = Option.bind (tget v ''revision'') tint"

end
