(* ===== verification/Console.thy ===== *)
theory Console
  imports Console_Text
begin

text \<open>
  The Appliance console as a process (\<open>src/console.rs\<close>): the terminal, the Bootstrap console
  before ownership, the login, and the recovery menu. Each of its three loops is one round
  here, which says in which loop the next one is: a console is a machine with a terminal and
  a mode (\<open>console_step\<close>).
\<close>

section \<open>The terminal\<close>

text \<open>\<open>poll\<close> on the terminal, and \<open>read\<close> of what is there; an empty read is the end.\<close>

datatype poll_result =
    Poll_failed string
  | Poll_nothing
  | Poll_hangup
  | Poll_other
  | Poll_ready

datatype input =
    Line string
  | Eof
  | Timeout

text \<open>\<open>tty_write\<close> decides whether a write fails, with which error and after how many bytes,
  \<open>tty_flush\<close> likewise; \<open>tty_settings\<close> are \<open>tcgetattr\<close> and \<open>tcsetattr\<close> of the settings without
  echo, \<open>tty_restore\<close> that of the ones before, whose failure is ignored. \<open>exchange\<close> writes a request to a socket and reads the reply to its end.\<close>

record 'k console_env =
  login_env :: "'k identity_env"
  tty_write :: "string \<Rightarrow> 'k \<Rightarrow> (string \<times> nat) option \<times> 'k"
  tty_flush :: "'k \<Rightarrow> string option \<times> 'k"
  tty_poll :: "int \<Rightarrow> 'k \<Rightarrow> poll_result \<times> 'k"
  tty_read :: "'k \<Rightarrow> string res \<times> 'k"
  tty_settings :: "'k \<Rightarrow> unit res \<times> 'k"
  tty_hide :: "'k \<Rightarrow> unit res \<times> 'k"
  tty_restore :: "'k \<Rightarrow> bool \<times> 'k"
  lossy_text :: "string \<Rightarrow> string"
  console_exchange :: "string \<Rightarrow> json \<Rightarrow> ('k world, string res) state"
  toml_of_text :: "string \<Rightarrow> toml option"
  toml_of_accepted :: "desired_state \<Rightarrow> toml option"
  shown_json :: "json \<Rightarrow> string"
  netns_there :: "string \<Rightarrow> 'k \<Rightarrow> bool \<times> 'k"
  netd_there :: "'k \<Rightarrow> bool \<times> 'k"

text \<open>\<open>line_buffer\<close> is what came in and is not taken yet; \<open>screen\<close> everything written.\<close>

record 'k console =
  on :: "'k world"
  screen :: string
  line_buffer :: string
  echoing :: bool
  known_hash :: "string res option"

type_synonym ('k, 'a) con = "('k console, 'a) state"

definition on_world :: "('k world, 'a) state \<Rightarrow> ('k, 'a) con" where
  "on_world m = State (\<lambda>c. case run_state m (on c) of (a, w) \<Rightarrow> (a, c\<lparr> on := w \<rparr>))"

definition put_screen :: "string \<Rightarrow> ('k, unit) con" where
  "put_screen t = State (\<lambda>c. ((), c\<lparr> screen := screen c @ t \<rparr>))"

definition set_buffer :: "string \<Rightarrow> ('k, unit) con" where
  "set_buffer t = State (\<lambda>c. ((), c\<lparr> line_buffer := t \<rparr>))"

definition set_echo :: "bool \<Rightarrow> ('k, unit) con" where
  "set_echo b = State (\<lambda>c. ((), c\<lparr> echoing := b \<rparr>))"

definition machine_env :: "'k console_env \<Rightarrow> 'k env" where
  "machine_env E = machine (login_env E)"

definition say :: "'k console_env \<Rightarrow> string \<Rightarrow> ('k, unit res) con" where
  "say E t = do {
     r \<leftarrow> on_world (asks (tty_write E t));
     (case r of
        Some (e, n) \<Rightarrow> do { put_screen (take n t); errE e }
      | None \<Rightarrow> do { put_screen t; okE () }) }"

abbreviation say_line :: "'k console_env \<Rightarrow> string \<Rightarrow> ('k, unit res) con" where
  "say_line E t \<equiv> say E (t @ nl)"

definition flush :: "'k console_env \<Rightarrow> ('k, unit res) con" where
  "flush E = do { r \<leftarrow> on_world (asks (tty_flush E)); ret (case r of Some e \<Rightarrow> Inl e | None \<Rightarrow> Inr ()) }"

abbreviation say_flushed :: "'k console_env \<Rightarrow> string \<Rightarrow> ('k, unit res) con" where
  "say_flushed E t \<equiv> seqE (say E t) (flush E)"

definition say_lines :: "'k console_env \<Rightarrow> string list \<Rightarrow> ('k, unit res) con" where
  "say_lines E ls = forE (\<lambda>l. say_line E l) ls"

definition clear_tty :: "'k console_env \<Rightarrow> ('k, unit res) con" where
  "clear_tty E = say_flushed E ([CHR 0x1B] @ ''[2J'' @ [CHR 0x1B] @ ''[H'')"

definition write_prompt :: "'k console_env \<Rightarrow> ('k, unit res) con" where
  "write_prompt E = say_flushed E ''> ''"

text \<open>A line already there is given at once; otherwise what comes in within the time.\<close>

definition give_line :: "'k console_env \<Rightarrow> input \<Rightarrow> ('k, input res) con" where
  "give_line E otherwise = do {
     acc \<leftarrow> gets line_buffer;
     (case take_line acc of
        Some (l, rest) \<Rightarrow> do { set_buffer rest; okE (Line (lossy_text E l)) }
      | None \<Rightarrow> okE otherwise) }"

definition read_more :: "'k console_env \<Rightarrow> ('k, input res) con" where
  "read_more E = do {
     r \<leftarrow> on_world (asks (tty_read E));
     (case r of
        Inl e \<Rightarrow> errE (''read console: '' @ e)
      | Inr bytes \<Rightarrow>
          if bytes = [] then okE Eof
          else do { acc \<leftarrow> gets line_buffer; set_buffer (acc @ bytes); give_line E Timeout }) }"

definition read_line_poll :: "'k console_env \<Rightarrow> int \<Rightarrow> ('k, input res) con" where
  "read_line_poll E timeout = tryE (give_line E Timeout) (\<lambda>i.
     case i of
       Line l \<Rightarrow> okE (Line l)
     | _ \<Rightarrow> do {
         r \<leftarrow> on_world (asks (tty_poll E timeout));
         (case r of
            Poll_failed e \<Rightarrow> errE (''poll console: '' @ e)
          | Poll_nothing \<Rightarrow> okE Timeout
          | Poll_hangup \<Rightarrow> okE Eof
          | Poll_other \<Rightarrow> okE Timeout
          | Poll_ready \<Rightarrow> read_more E) })"

section \<open>Other programs\<close>

definition CONSOLE_NETD :: string where "CONSOLE_NETD = ''/var/lib/fwos/netd.sock''"
definition CONSOLE_UPDATE :: string where "CONSOLE_UPDATE = ''/var/lib/fwos/update.sock''"
definition CONSOLE_HOSTNAME :: string where "CONSOLE_HOSTNAME = ''/var/lib/fwos/hostname''"

definition socket_roundtrip :: "'k console_env \<Rightarrow> string \<Rightarrow> json \<Rightarrow> ('k, string res) con" where
  "socket_roundtrip E sock v = on_world (console_exchange E sock v)"

definition netd_json :: "'k console_env \<Rightarrow> json \<Rightarrow> ('k, json res) con" where
  "netd_json E v = tryE (socket_roundtrip E CONSOLE_NETD v) (\<lambda>raw.
     case json_of_text (codec (machine_env E)) raw of
       Inl e \<Rightarrow> errE (''parse netd reply: '' @ e)
     | Inr reply \<Rightarrow> okE reply)"

definition console_op :: "string \<Rightarrow> json" where
  "console_op name = JObj [(''op'', JStr name)]"

definition update_op :: "'k console_env \<Rightarrow> string \<Rightarrow> ('k, string res) con" where
  "update_op E name = socket_roundtrip E CONSOLE_UPDATE (console_op name)"

definition restore_message :: "'k console_env \<Rightarrow> principal option \<Rightarrow> json" where
  "restore_message E applying =
     JObj [(''op'', JStr ''restore_previous''),
           (''applying'', jopt (json_of_principal (codec (machine_env E))) applying)]"

definition restore_previous_client :: "'k console_env \<Rightarrow> principal option \<Rightarrow> ('k, string res) con" where
  "restore_previous_client E applying = socket_roundtrip E CONSOLE_NETD (restore_message E applying)"

definition list_from_netd :: "'k console_env \<Rightarrow> ('k, nic_list) con" where
  "list_from_netd E = do { r \<leftarrow> netd_json E (console_op ''list''); ret (nics_of_reply r) }"

definition opt_message :: "string \<Rightarrow> string \<Rightarrow> string option \<Rightarrow> json" where
  "opt_message how nic net =
     JObj ([(''op'', JStr ''opt''), (''nic'', JStr nic), (''mode'', JStr how)]
           @ (case net of Some c \<Rightarrow> [(''cidr'', JStr c)] | None \<Rightarrow> []))"

definition netd_opt :: "'k console_env \<Rightarrow> string \<Rightarrow> string \<Rightarrow> string option \<Rightarrow> ('k, unit res) con" where
  "netd_opt E how nic net = tryE (netd_json E (opt_message how nic net)) (\<lambda>reply.
     if jget reply ''ok'' = Some (JBool True) then okE ()
     else errE (case Option.bind (jget reply ''error'') jstr of Some e \<Rightarrow> e | None \<Rightarrow> ''opt failed''))"

section \<open>The Bootstrap console\<close>

definition print_status :: "'k console_env \<Rightarrow> ('k, unit res) con" where
  "print_status E = seqE (say_line E ''FWOS Bootstrap console'') (do {
     l \<leftarrow> list_from_netd E;
     seqE (say_lines E (status_lines l)) (flush E) })"

definition print_help :: "'k console_env \<Rightarrow> ('k, unit res) con" where
  "print_help E = say_flushed E (unlines BOOTSTRAP_HELP)"

definition STATIC_USAGE :: string where "STATIC_USAGE = ''usage: static <nic> <cidr>''"

definition boot_command :: "'k console_env \<Rightarrow> string \<Rightarrow> ('k, unit res) con" where
  "boot_command E text =
     (case split_whitespace text of
        [] \<Rightarrow> print_status E
      | cmd # args \<Rightarrow>
          if cmd = ''status'' then print_status E
          else if cmd = ''help'' then print_help E
          else if cmd = ''static''
          then (case args of
                  nic # net # _ \<Rightarrow> seqE (netd_opt E ''static'' nic (Some net)) (print_status E)
                | _ \<Rightarrow> errE STATIC_USAGE)
          else if cmd = ''dhcp''
          then (case args of
                  nic # _ \<Rightarrow> seqE (netd_opt E ''dhcp'' nic None) (print_status E)
                | [] \<Rightarrow> errE ''usage: dhcp <nic>'')
          else if cmd = ''slaac''
          then (case args of
                  nic # _ \<Rightarrow> seqE (netd_opt E ''slaac'' nic None) (print_status E)
                | [] \<Rightarrow> errE ''usage: slaac <nic>'')
          else say_flushed E (''unknown command'' @ nl))"

definition bootstrapped :: "('k, bool) con" where
  "bootstrapped = on_world (file_exists OWNED_FILE)"

text \<open>The loops a console can be in, and the end of the process.\<close>

datatype mode =
    Bootstrapping string
  | At_login
  | At_password string
  | In_session authentication
  | Ended "unit res"

definition enter_admin :: "'k console_env \<Rightarrow> ('k, mode res) con" where
  "enter_admin E = seqE (clear_tty E) (seqE (say_flushed E (RECOVERY_BANNER @ nl)) (okE At_login))"

definition switch_to_admin :: "'k console_env \<Rightarrow> ('k, mode res) con" where
  "switch_to_admin E = seqE (say_flushed E (''Bootstrap complete.'' @ nl)) (enter_admin E)"

definition traffic_key :: "'k console_env \<Rightarrow> ('k, string) con" where
  "traffic_key E = do { l \<leftarrow> list_from_netd E; ret (nics_key (nics l)) }"

definition start_console :: "'k console_env \<Rightarrow> ('k, mode res) con" where
  "start_console E = do {
     owned \<leftarrow> bootstrapped;
     (if owned then enter_admin E
      else seqE (clear_tty E) (seqE (print_status E) (seqE (write_prompt E)
        (do { key \<leftarrow> traffic_key E; okE (Bootstrapping key) })))) }"

text \<open>A list of NICs that goes empty is not shown.\<close>

definition refresh_status :: "'k console_env \<Rightarrow> string \<Rightarrow> ('k, mode res) con" where
  "refresh_status E key = do {
     now \<leftarrow> traffic_key E;
     (if now = key \<or> now = [] \<and> key \<noteq> [] then okE (Bootstrapping now)
      else seqE (print_status E) (seqE (write_prompt E) (okE (Bootstrapping now)))) }"

definition run_boot_line :: "'k console_env \<Rightarrow> string \<Rightarrow> ('k, mode res) con" where
  "run_boot_line E l = do {
     r \<leftarrow> boot_command E (trim l);
     seqE (case r of Inl e \<Rightarrow> say_flushed E (e @ nl) | Inr _ \<Rightarrow> okE ())
       (seqE (write_prompt E) (do { key \<leftarrow> traffic_key E; okE (Bootstrapping key) })) }"

definition unless_owned :: "'k console_env \<Rightarrow> ('k, mode res) con \<Rightarrow> ('k, mode res) con" where
  "unless_owned E m = do { owned \<leftarrow> bootstrapped; if owned then switch_to_admin E else m }"

definition bootstrap_round :: "'k console_env \<Rightarrow> string \<Rightarrow> ('k, mode res) con" where
  "bootstrap_round E key = unless_owned E (tryE (read_line_poll E 500) (\<lambda>i.
     case i of
       Timeout \<Rightarrow> unless_owned E (refresh_status E key)
     | Eof \<Rightarrow> okE (Ended (Inr ()))
     | Line l \<Rightarrow> unless_owned E (run_boot_line E l)))"

section \<open>The login\<close>

text \<open>\<open>HiddenInput::new\<close> and its drop, which happens however the input ends.\<close>

definition hide_input :: "'k console_env \<Rightarrow> ('k, unit res) con" where
  "hide_input E = do {
     r \<leftarrow> on_world (asks (tty_settings E));
     (case r of
        Inl e \<Rightarrow> errE (''read console terminal settings: '' @ e)
      | Inr _ \<Rightarrow> do {
          h \<leftarrow> on_world (asks (tty_hide E));
          (case h of
             Inl e \<Rightarrow> errE (''hide console input: '' @ e)
           | Inr _ \<Rightarrow> do { set_echo False; okE () }) }) }"

definition show_input :: "'k console_env \<Rightarrow> ('k, unit) con" where
  "show_input E = do {
     restored \<leftarrow> on_world (asks (tty_restore E));
     (if restored then set_echo True else ret ()) }"

text \<open>Input stays hidden while the loop for the password goes on.\<close>

definition hidden_until :: "'k console_env \<Rightarrow> ('k, 'a res) con \<Rightarrow> ('a \<Rightarrow> bool) \<Rightarrow> ('k, 'a res) con" where
  "hidden_until E m goes_on = do {
     r \<leftarrow> m;
     (case r of
        Inr a \<Rightarrow> if goes_on a then ret r else do { show_input E; ret r }
      | Inl e \<Rightarrow> do { show_input E; ret r }) }"

definition ask_password :: "'k console_env \<Rightarrow> string \<Rightarrow> ('k, mode res) con" where
  "ask_password E user = seqE (hide_input E)
     (seqE (hidden_until E (say_flushed E ''password: '') (\<lambda>_. True)) (okE (At_password user)))"

definition login_round :: "'k console_env \<Rightarrow> ('k, mode res) con" where
  "login_round E = seqE (say_flushed E ''admin: '') (tryE (read_line_poll E (- 1)) (\<lambda>i.
     case i of
       Eof \<Rightarrow> okE (Ended (Inr ()))
     | Timeout \<Rightarrow> okE At_login
     | Line l \<Rightarrow> if trim l = [] then okE At_login else ask_password E (trim l)))"

definition prove_identity :: "'k console_env \<Rightarrow> string \<Rightarrow> string \<Rightarrow> ('k, authentication_result) con" where
  "prove_identity E user pw = do {
     cache \<leftarrow> gets known_hash;
     r \<leftarrow> on_world (authenticate (login_env E) cache LOCAL_SOURCE user pw);
     State (\<lambda>c. (fst r, c\<lparr> known_hash := snd r \<rparr>)) }"

definition authorized_now :: "'k console_env \<Rightarrow> authentication \<Rightarrow> ('k, bool) con" where
  "authorized_now E t = on_world (authorize_administrator (login_env E) t)"

section \<open>The recovery status\<close>

definition readable :: "'k console_env \<Rightarrow> string \<Rightarrow> ('k, string option) con" where
  "readable E path = do {
     r \<leftarrow> on_world (read_text (machine_env E) path);
     ret (case r of Inr (Some s) \<Rightarrow> Some s | _ \<Rightarrow> None) }"

definition readable_toml :: "'k console_env \<Rightarrow> string \<Rightarrow> ('k, toml option) con" where
  "readable_toml E path = do { r \<leftarrow> readable E path; ret (Option.bind r (toml_of_text E)) }"

definition exists_file :: "string \<Rightarrow> ('k, bool) con" where
  "exists_file path = on_world (file_exists path)"

definition phase_of :: "json option \<Rightarrow> string option" where
  "phase_of op = Option.bind (Option.bind op (\<lambda>v. jget v ''phase'')) jstr"

text \<open>The Accepted state in the journal, its predecessor's bytes, and the proposed revision.\<close>

definition accepted_in :: "'k console_env \<Rightarrow> json option \<Rightarrow> toml option" where
  "accepted_in E op =
     Option.bind (Option.bind (Option.bind op (\<lambda>v. jget v ''accepted'')) (\<lambda>v. ok_opt (read_desired v))) (toml_of_accepted E)"

definition read_bytes :: "json \<Rightarrow> string option res" where
  "read_bytes v = bindE (read_option (read_vec (read_uint 256 ''u8'')) v) (\<lambda>bs.
     Inr (map_option (map (\<lambda>b :: u8. char_of (unat b))) bs))"

definition predecessor_in :: "'k console_env \<Rightarrow> json option \<Rightarrow> int option" where
  "predecessor_in E op =
     (case Option.bind (Option.bind op (\<lambda>v. jget v ''previous_accepted'')) (\<lambda>v. ok_opt (read_bytes v)) of
        Some (Some bytes) \<Rightarrow>
          if is_utf8 bytes then Option.bind (toml_of_text E bytes) revision_of else None
      | _ \<Rightarrow> None)"

definition proposed_in :: "json option \<Rightarrow> nat" where
  "proposed_in op =
     (case Option.bind (Option.bind (Option.bind op (\<lambda>v. jget v ''proposed'')) (\<lambda>v. jget v ''revision'')) jnum of
        Some n \<Rightarrow> unat n
      | None \<Rightarrow> 0)"

text \<open>What the status says of the Accepted state.\<close>

record standing =
  indeterminate_now :: bool
  recovery_now :: bool
  pending_now :: bool
  journal :: "json option"
  shown_state :: "toml option"

definition recovery_target :: "'k console_env \<Rightarrow> json option \<Rightarrow> bool \<Rightarrow> toml option \<Rightarrow> ('k, toml option) con" where
  "recovery_target E op required desired =
     (case accepted_in E op of
        Some t \<Rightarrow> ret (Some t)
      | None \<Rightarrow> do {
          prev \<leftarrow> readable_toml E APPLY_PREVIOUS;
          (case prev of
             Some t \<Rightarrow> ret (Some t)
           | None \<Rightarrow> do {
               there \<leftarrow> exists_file APPLY_OPERATION;
               ret (if required \<and> \<not> there then desired else None) }) })"

definition look :: "'k console_env \<Rightarrow> ('k, standing) con" where
  "look E = do {
     raw \<leftarrow> readable E APPLY_OPERATION;
     let op = Option.bind raw (\<lambda>t. ok_opt (json_of_text (codec (machine_env E)) t));
     reply \<leftarrow> netd_json E (console_op ''get_desired'');
     let guarded = (case reply of Inr v \<Rightarrow> jindex v ''outcome'' = JStr ''recovery_required'' | Inl _ \<Rightarrow> False);
     let accepted_phase = (phase_of op = Some ''accepted'');
     let pending_phase = (phase_of op = Some ''pending_confirmation'');
     let unclear = (accepted_phase \<and> guarded);
     previous \<leftarrow> exists_file APPLY_PREVIOUS;
     operation \<leftarrow> exists_file APPLY_OPERATION;
     let required = (previous \<or> operation \<and> \<not> accepted_phase \<and> \<not> pending_phase \<or> \<not> accepted_phase \<and> guarded);
     desired \<leftarrow> readable_toml E DESIRED;
     target \<leftarrow> recovery_target E op required desired;
     ret \<lparr> indeterminate_now = unclear, recovery_now = required, pending_now = pending_phase, journal = op,
           shown_state = (if unclear then None else if required then target else desired) \<rparr> }"

definition standing_lines :: "standing \<Rightarrow> string list" where
  "standing_lines s =
     (if recovery_now s then [''Recovery required: interrupted Desired state apply'']
      else if pending_now s
      then [''Apply confirmation pending for network revision '' @ show_nat (proposed_in (journal s))]
      else if indeterminate_now s then [''Apply outcome indeterminate: reboot to resolve Accepted state'']
      else [])
     @ (case Option.bind (shown_state s) revision_of of
          Some n \<Rightarrow> [(if recovery_now s then ''Recovery target Accepted network revision: ''
                     else ''Accepted network revision: '') @ show_int n]
        | None \<Rightarrow> [])"

definition predecessor_now :: "'k console_env \<Rightarrow> standing \<Rightarrow> ('k, int option) con" where
  "predecessor_now E s = do {
     there \<leftarrow> (if recovery_now s then exists_file APPLY_OPERATION else ret False);
     (if there then ret (predecessor_in E (journal s))
      else do { v \<leftarrow> readable_toml E PREVIOUS_ACCEPTED; ret (Option.bind v revision_of) }) }"

definition predecessor_line :: "bool \<Rightarrow> int option \<Rightarrow> string" where
  "predecessor_line unclear p =
     ''Previous accepted network revision: ''
     @ (if unclear then ''(indeterminate)'' else case p of Some n \<Rightarrow> show_int n | None \<Rightarrow> ''(none)'')"

definition hostname_shown :: "'k console_env \<Rightarrow> standing \<Rightarrow> ('k, string option) con" where
  "hostname_shown E s = do {
     r \<leftarrow> readable E CONSOLE_HOSTNAME;
     ret (case filled (map_option trim r) of
            Some n \<Rightarrow> Some n
          | None \<Rightarrow> Option.bind (Option.bind (shown_state s) (\<lambda>v. tget v ''hostname'')) tstr) }"

definition yes_no :: "bool \<Rightarrow> string" where
  "yes_no b = (if b then ''yes'' else ''no'')"

definition say_host_image :: "'k console_env \<Rightarrow> ('k, unit res) con" where
  "say_host_image E = do {
     r \<leftarrow> update_op E ''status'';
     (case r of
        Inl _ \<Rightarrow> okE ()
      | Inr raw \<Rightarrow>
          (case json_of_text (codec (machine_env E)) raw of
             Inl _ \<Rightarrow> okE ()
           | Inr v \<Rightarrow> say E (unlines (host_image_lines (shown_json E) v)))) }"

definition print_admin_status :: "'k console_env \<Rightarrow> ('k, unit res) con" where
  "print_admin_status E = seqE (say_line E RECOVERY_BANNER) (do {
     s \<leftarrow> look E;
     name \<leftarrow> hostname_shown E s;
     seqE (case name of Some n \<Rightarrow> say_line E (''hostname: '' @ n) | None \<Rightarrow> okE ()) (do {
     owned \<leftarrow> bootstrapped;
     seqE (if owned then say_line E ''bootstrapped'' else okE ())
    (seqE (say_lines E (standing_lines s)) (do {
     p \<leftarrow> predecessor_now E s;
     seqE (say_line E (predecessor_line (indeterminate_now s) p))
    (seqE (say_lines E (network_lines (shown_state s))) (do {
     fwd \<leftarrow> on_world (asks (netns_there E ''fwd''));
     seqE (say_line E (''fwd: '' @ yes_no fwd)) (do {
     mgmt \<leftarrow> on_world (asks (netns_there E ''mgmt''));
     seqE (say_line E (''mgmt: '' @ yes_no mgmt)) (do {
     netd \<leftarrow> on_world (asks (netd_there E));
     seqE (say_line E (''netd: '' @ (if netd then ''running'' else ''down'')))
    (seqE (say_host_image E) (flush E)) }) }) })) })) }) })"

section \<open>The recovery menu\<close>

definition write_cmd :: "'k console_env \<Rightarrow> string res \<Rightarrow> ('k, unit res) con" where
  "write_cmd E r =
     seqE (case r of
             Inr reply \<Rightarrow> seqE (say E reply)
               (if reply \<noteq> [] \<and> last reply = CHR 0x0A then okE () else say E nl)
           | Inl e \<Rightarrow> say_line E e)
       (flush E)"

datatype admin_act = Continue | Logout

definition admin_command :: "'k console_env \<Rightarrow> string \<Rightarrow> principal option \<Rightarrow> ('k, admin_act res) con" where
  "admin_command E text who =
     (case command_of text of (cmd, rest) \<Rightarrow>
        if cmd = [] \<or> cmd = ''status'' then seqE (print_admin_status E) (okE Continue)
        else if cmd = ''help'' then seqE (say_flushed E (unlines ADMIN_HELP)) (okE Continue)
        else if cmd = ''logout'' then okE Logout
        else if cmd = ''restore-previous''
        then (if rest \<noteq> [] then seqE (say_flushed E (''usage: restore-previous'' @ nl)) (okE Continue)
              else do { r \<leftarrow> restore_previous_client E who; seqE (write_cmd E r) (okE Continue) })
        else if cmd = ''rollback-image''
        then (if rest \<noteq> [] then seqE (say_flushed E (''usage: rollback-image'' @ nl)) (okE Continue)
              else do {
                r \<leftarrow> update_op E ''rollback'';
                seqE (say_flushed E (describe_image_rollback (json_of_text (codec (machine_env E))) r)) (okE Continue) })
        else if cmd = ''reboot''
        then do { r \<leftarrow> update_op E ''reboot''; seqE (write_cmd E r) (okE Continue) }
        else seqE (say_flushed E (''unknown command'' @ nl)) (okE Continue))"

text \<open>The end of a session goes back to the login, after its flush.\<close>

definition leave_session :: "'k console_env \<Rightarrow> ('k, mode res) con" where
  "leave_session E = seqE (flush E) (okE At_login)"

definition while_authorized ::
    "'k console_env \<Rightarrow> authentication \<Rightarrow> ('k, mode res) con \<Rightarrow> ('k, mode res) con" where
  "while_authorized E t m = do {
     granted \<leftarrow> authorized_now E t;
     (if granted then m
      else seqE (say_line E ''session authorization expired'') (leave_session E)) }"

definition session_round :: "'k console_env \<Rightarrow> authentication \<Rightarrow> ('k, mode res) con" where
  "session_round E t = while_authorized E t (seqE (say_flushed E ''recovery> '')
     (tryE (read_line_poll E (- 1)) (\<lambda>i.
        case i of
          Eof \<Rightarrow> leave_session E
        | Timeout \<Rightarrow> okE (In_session t)
        | Line l \<Rightarrow> while_authorized E t
            (tryE (admin_command E (trim l) (Some (auth_principal t))) (\<lambda>act.
               case act of Continue \<Rightarrow> okE (In_session t) | Logout \<Rightarrow> leave_session E)))))"

definition enter_session :: "'k console_env \<Rightarrow> authentication \<Rightarrow> ('k, mode res) con" where
  "enter_session E t = seqE (print_admin_status E) (okE (In_session t))"

definition answer_login :: "'k console_env \<Rightarrow> string \<Rightarrow> string \<Rightarrow> ('k, mode res) con" where
  "answer_login E user pw = do {
     r \<leftarrow> prove_identity E user pw;
     (case r of
        Authenticated t \<Rightarrow> do {
          granted \<leftarrow> authorized_now E t;
          (if granted then enter_session E t
           else seqE (say_line E ''login failed'') (leave_session E)) }
      | Challenge _ _ \<Rightarrow>
          seqE (say_line E ''additional authentication required; console login unavailable'') (leave_session E)
      | Denied \<Rightarrow> seqE (say_line E ''login failed'') (leave_session E)) }"

definition password_round :: "'k console_env \<Rightarrow> string \<Rightarrow> ('k, mode res) con" where
  "password_round E user =
     tryE (hidden_until E (read_line_poll E (- 1)) (\<lambda>i. i = Timeout)) (\<lambda>i.
       case i of
         Timeout \<Rightarrow> okE (At_password user)
       | Eof \<Rightarrow> seqE (say E nl) (okE (Ended (Inr ())))
       | Line pw \<Rightarrow> seqE (say E nl) (answer_login E user pw))"

section \<open>The process\<close>

definition console_round :: "'k console_env \<Rightarrow> mode \<Rightarrow> ('k, mode res) con" where
  "console_round E m =
     (case m of
        Bootstrapping key \<Rightarrow> bootstrap_round E key
      | At_login \<Rightarrow> login_round E
      | At_password user \<Rightarrow> password_round E user
      | In_session t \<Rightarrow> session_round E t
      | Ended r \<Rightarrow> okE (Ended r))"

definition next_mode :: "mode res \<Rightarrow> mode" where
  "next_mode r = (case r of Inl e \<Rightarrow> Ended (Inl e) | Inr m \<Rightarrow> m)"

text \<open>A console runs beside the other programs, which change the machine between its rounds.\<close>

inductive console_run :: "'k console_env \<Rightarrow> mode \<times> 'k console \<Rightarrow> bool" for E where
  begins: "run_state (start_console E) c = (r, c') \<Longrightarrow> screen c = [] \<Longrightarrow> line_buffer c = [] \<Longrightarrow> echoing c
    \<Longrightarrow> console_run E (next_mode r, c')"
| goes_on: "console_run E (m, c) \<Longrightarrow> run_state (console_round E m) c = (r, c') \<Longrightarrow> console_run E (next_mode r, c')"
| elsewhere: "console_run E (m, c) \<Longrightarrow> console_run E (m, c\<lparr> on := w \<rparr>)"

end
