(* ===== verification/Console_Properties.thy ===== *)
theory Console_Properties
  imports Console Looking
begin

text \<open>
  What a console may do: which requests it sends in which mode, who gets into a session, and
  that a password is never echoed; that lines are read the same however they come in, and
  which addresses are shown for the UI.
\<close>

section \<open>What is sent\<close>

text \<open>Two consoles whose other programs answer alike whatever a console may send act alike.\<close>

definition read_only :: "string \<Rightarrow> json \<Rightarrow> bool" where
  "read_only sock v \<longleftrightarrow>
     sock = CONSOLE_NETD \<and> v \<in> {console_op ''list'', console_op ''get_desired''}
     \<or> sock = CONSOLE_UPDATE \<and> v = console_op ''status''"

definition opt_request :: "string \<Rightarrow> json \<Rightarrow> bool" where
  "opt_request sock v \<longleftrightarrow> sock = CONSOLE_NETD
     \<and> (\<exists>how nic net. v = opt_message how nic net \<and> how \<in> {''static'', ''dhcp'', ''slaac''})"

definition session_request :: "'k console_env \<Rightarrow> authentication \<Rightarrow> string \<Rightarrow> json \<Rightarrow> bool" where
  "session_request E t sock v \<longleftrightarrow>
     sock = CONSOLE_NETD \<and> v = restore_message E (Some (auth_principal t))
     \<or> sock = CONSOLE_UPDATE \<and> v \<in> {console_op ''rollback'', console_op ''reboot''}"

definition granted_to :: "'k console_env \<Rightarrow> files \<Rightarrow> authentication \<Rightarrow> bool" where
  "granted_to E f t \<longleftrightarrow>
     f OWNED_FILE \<noteq> None \<and> (\<exists>cfg. stored (login_env E) f = Some cfg \<and> authorized_in cfg t)"

definition may_send :: "'k console_env \<Rightarrow> mode \<Rightarrow> 'k console \<Rightarrow> string \<Rightarrow> json \<Rightarrow> bool" where
  "may_send E m c sock v \<longleftrightarrow>
     read_only sock v
     \<or> (\<exists>key. m = Bootstrapping key) \<and> files (on c) OWNED_FILE = None \<and> opt_request sock v
     \<or> (\<exists>t. m = In_session t \<and> granted_to E (files (on c)) t \<and> session_request E t sock v)"

abbreviation talks :: "'k console_env \<Rightarrow> (string \<Rightarrow> json \<Rightarrow> ('k world, string res) state) \<Rightarrow> 'k console_env" where
  "talks E X \<equiv> E\<lparr> console_exchange := X \<rparr>"

lemmas deep = option.case_cong sum.case_cong prod.case_cong input.case_cong poll_result.case_cong list.case_cong
  admin_act.case_cong authentication_result.case_cong if_cong

lemma quiet_ops [simp]:
  "machine_env (talks E X) = machine_env E"
  "say (talks E X) t = say E t"
  "flush (talks E X) = flush E"
  "say_lines (talks E X) ls = say_lines E ls"
  "clear_tty (talks E X) = clear_tty E"
  "write_prompt (talks E X) = write_prompt E"
  "give_line (talks E X) i = give_line E i"
  "hide_input (talks E X) = hide_input E"
  "show_input (talks E X) = show_input E"
  "prove_identity (talks E X) user pw = prove_identity E user pw"
  "authorized_now (talks E X) a = authorized_now E a"
  "readable (talks E X) path = readable E path"
  "accepted_in (talks E X) op = accepted_in E op"
  "predecessor_in (talks E X) op = predecessor_in E op"
  "restore_message (talks E X) p = restore_message E p"
  by (simp_all add: machine_env_def say_def flush_def say_lines_def clear_tty_def write_prompt_def give_line_def
      hide_input_def show_input_def prove_identity_def authorized_now_def readable_def accepted_in_def
      predecessor_in_def restore_message_def cong: deep)

lemma quiet_derived [simp]:
  "read_more (talks E X) = read_more E"
  "read_line_poll (talks E X) n = read_line_poll E n"
  "hidden_until (talks E X) p g = hidden_until E p g"
  "readable_toml (talks E X) path = readable_toml E path"
  "hostname_shown (talks E X) s = hostname_shown E s"
  "predecessor_now (talks E X) s = predecessor_now E s"
  "enter_admin (talks E X) = enter_admin E"
  "switch_to_admin (talks E X) = switch_to_admin E"
  "unless_owned (talks E X) m = unless_owned E m"
  "ask_password (talks E X) user = ask_password E user"
  "login_round (talks E X) = login_round E"
  "leave_session (talks E X) = leave_session E"
  "while_authorized (talks E X) a m = while_authorized E a m"
  "write_cmd (talks E X) r = write_cmd E r"
  "print_help (talks E X) = print_help E"
  by (simp_all add: read_more_def read_line_poll_def hidden_until_def readable_toml_def hostname_shown_def
      predecessor_now_def enter_admin_def switch_to_admin_def unless_owned_def ask_password_def login_round_def
      leave_session_def while_authorized_def write_cmd_def print_help_def cong: deep)

lemma quiet_target [simp]: "recovery_target (talks E X) op b d = recovery_target E op b d"
  by (simp add: recovery_target_def cong: deep)

lemma same_netd_json: "X CONSOLE_NETD v = console_exchange E CONSOLE_NETD v \<Longrightarrow> netd_json (talks E X) v = netd_json E v"
  by (simp add: netd_json_def socket_roundtrip_def cong: deep)

lemma same_update_op:
  "X CONSOLE_UPDATE (console_op name) = console_exchange E CONSOLE_UPDATE (console_op name)
   \<Longrightarrow> update_op (talks E X) name = update_op E name"
  by (simp add: update_op_def socket_roundtrip_def)

text \<open>The operations that only read.\<close>

definition reads_alike :: "'k console_env \<Rightarrow> (string \<Rightarrow> json \<Rightarrow> ('k world, string res) state) \<Rightarrow> bool" where
  "reads_alike E X \<longleftrightarrow> (\<forall>sock v. read_only sock v \<longrightarrow> X sock v = console_exchange E sock v)"

lemma same_reads:
  assumes "reads_alike E X"
  shows "list_from_netd (talks E X) = list_from_netd E"
    and "traffic_key (talks E X) = traffic_key E"
    and "print_status (talks E X) = print_status E"
    and "look (talks E X) = look E"
    and "say_host_image (talks E X) = say_host_image E"
    and "print_admin_status (talks E X) = print_admin_status E"
proof -
  have l: "netd_json (talks E X) (console_op ''list'') = netd_json E (console_op ''list'')"
    and g: "netd_json (talks E X) (console_op ''get_desired'') = netd_json E (console_op ''get_desired'')"
    and u: "update_op (talks E X) ''status'' = update_op E ''status''"
    using assms by (auto simp: reads_alike_def read_only_def intro!: same_netd_json same_update_op)
  show n: "list_from_netd (talks E X) = list_from_netd E" by (simp add: list_from_netd_def l)
  then show "traffic_key (talks E X) = traffic_key E" "print_status (talks E X) = print_status E"
    by (simp_all add: traffic_key_def print_status_def)
  show k: "look (talks E X) = look E" by (simp add: look_def g cong: deep)
  show h: "say_host_image (talks E X) = say_host_image E" by (simp add: say_host_image_def u cong: deep)
  show "print_admin_status (talks E X) = print_admin_status E"
    by (simp add: print_admin_status_def k h cong: deep)
qed

lemma same_boot_command:
  assumes "reads_alike E X" and "\<And>sock v. opt_request sock v \<Longrightarrow> X sock v = console_exchange E sock v"
  shows "boot_command (talks E X) text = boot_command E text"
proof -
  have "netd_opt (talks E X) how nic net = netd_opt E how nic net" if "how \<in> {''static'', ''dhcp'', ''slaac''}" for how nic net
  proof -
    have "X CONSOLE_NETD (opt_message how nic net) = console_exchange E CONSOLE_NETD (opt_message how nic net)"
      using assms(2) that by (auto simp: opt_request_def)
    then show ?thesis by (simp add: netd_opt_def same_netd_json cong: deep)
  qed
  then show ?thesis
    by (simp add: boot_command_def same_reads [OF assms(1)] cong: deep)
qed

lemma same_admin_command:
  assumes "reads_alike E X" and "\<And>sock v. session_request E t sock v \<Longrightarrow> X sock v = console_exchange E sock v"
  shows "admin_command (talks E X) text (Some (auth_principal t)) = admin_command E text (Some (auth_principal t))"
proof -
  have "restore_previous_client (talks E X) (Some (auth_principal t)) = restore_previous_client E (Some (auth_principal t))"
    using assms(2) by (simp add: restore_previous_client_def socket_roundtrip_def session_request_def)
  moreover have "update_op (talks E X) name = update_op E name" if "name \<in> {''rollback'', ''reboot''}" for name
    using assms(2) that by (intro same_update_op) (auto simp: session_request_def)
  ultimately show ?thesis
    by (simp add: admin_command_def same_reads [OF assms(1)] cong: deep)
qed

section \<open>Rounds\<close>

lemma run_on_world [simp]:
  "run_state (on_world m) c = (fst (run_state m (on c)), c\<lparr> on := snd (run_state m (on c)) \<rparr>)"
  by (simp add: on_world_def split: prod.splits)

lemma run_bootstrapped [simp]: "run_state bootstrapped c = (files (on c) OWNED_FILE \<noteq> None, c)"
  by (simp add: bootstrapped_def file_exists_def)

lemma refresh_alike: "reads_alike E X \<Longrightarrow> refresh_status (talks E X) key = refresh_status E key"
  by (simp add: refresh_status_def same_reads cong: deep)

lemma boot_line_alike:
  "reads_alike E X \<Longrightarrow> (\<And>sock v. opt_request sock v \<Longrightarrow> X sock v = console_exchange E sock v)
   \<Longrightarrow> run_boot_line (talks E X) l = run_boot_line E l"
  by (simp add: run_boot_line_def same_boot_command same_reads cong: deep)

lemma bootstrap_alike:
  assumes r: "reads_alike E X"
    and o: "files (on c) OWNED_FILE = None \<Longrightarrow> (\<And>sock v. opt_request sock v \<Longrightarrow> X sock v = console_exchange E sock v)"
  shows "run_state (bootstrap_round (talks E X) key) c = run_state (bootstrap_round E key) c"
proof (cases "files (on c) OWNED_FILE = None")
  case True
  have "bootstrap_round (talks E X) key = bootstrap_round E key"
    unfolding bootstrap_round_def
    by (simp add: refresh_alike [OF r] boot_line_alike [OF r o [OF True]] cong: deep)
  then show ?thesis by simp
next
  case False
  then show ?thesis by (auto simp: bootstrap_round_def unless_owned_def)
qed

lemma answer_login_alike:
  "reads_alike E X \<Longrightarrow> answer_login (talks E X) user pw = answer_login E user pw"
  by (simp add: answer_login_def enter_session_def same_reads cong: deep)

lemma password_alike:
  "reads_alike E X \<Longrightarrow> password_round (talks E X) user = password_round E user"
  by (simp add: password_round_def answer_login_alike cong: deep)

lemma session_alike:
  assumes "reads_alike E X" and "\<And>sock v. session_request E t sock v \<Longrightarrow> X sock v = console_exchange E sock v"
  shows "session_round (talks E X) t = session_round E t"
  unfolding session_round_def by (simp add: same_admin_command [OF assms] cong: deep)

lemma run_authorized:
  assumes "run_state (authorized_now E t) c = (True, c')"
  shows "granted_to E (files (on c)) t"
  using authorize_run [of "login_env E" t "on c" "on c'"] assms
  by (cases "run_state (authorize_administrator (login_env E) t) (on c)")
    (auto simp: authorized_now_def granted_to_def)

lemma session_refused:
  assumes "\<not> granted_to E (files (on c)) t"
  shows "run_state (session_round (talks E X) t) c = run_state (session_round E t) c"
proof -
  obtain g c1 where g: "run_state (authorized_now E t) c = (g, c1)" by fastforce
  then have "\<not> g" using run_authorized assms by metis
  then show ?thesis using g by (simp add: session_round_def while_authorized_def)
qed


section \<open>Where a round leads\<close>

definition leads :: "mode set \<Rightarrow> ('k, mode res) con \<Rightarrow> bool" where
  "leads S p \<longleftrightarrow> (\<forall>c m c'. run_state p c = (Inr m, c') \<longrightarrow> m \<in> S)"

lemma leadsD: "leads S p \<Longrightarrow> (Inr m, c') = run_state p c \<Longrightarrow> m \<in> S"
  unfolding leads_def by metis

lemma leads_ok: "m \<in> S \<Longrightarrow> leads S (okE m)"
  by (simp add: leads_def)

lemma leads_err: "leads S (errE e)"
  by (simp add: leads_def)

lemma leads_bind: "(\<And>a. leads S (f a)) \<Longrightarrow> leads S (State_Monad.bind p f)"
  by (auto simp: leads_def split: prod.splits)

lemma leads_tryE: "(\<And>a. leads S (f a)) \<Longrightarrow> leads S (tryE p f)"
  unfolding tryE_def by (rule leads_bind) (auto split: sum.splits intro: leads_err)

lemma leads_if: "leads S p \<Longrightarrow> leads S q \<Longrightarrow> leads S (if b then p else q)"
  by simp

lemma leads_input:
  "(\<And>l. leads S (f l)) \<Longrightarrow> leads S p \<Longrightarrow> leads S q \<Longrightarrow> leads S (case i of Line l \<Rightarrow> f l | Eof \<Rightarrow> p | Timeout \<Rightarrow> q)"
  by (cases i) auto

lemma leads_act: "leads S p \<Longrightarrow> leads S q \<Longrightarrow> leads S (case a of Continue \<Rightarrow> p | Logout \<Rightarrow> q)"
  by (cases a) auto

lemmas leads_rules = leads_ok leads_err leads_bind leads_tryE leads_if leads_input leads_act

definition in_session :: "mode set" where "in_session = range In_session"

lemma leads_enter_admin: "leads {At_login} (enter_admin E)"
  unfolding enter_admin_def by (intro leads_rules) simp

lemma leads_mono: "leads S p \<Longrightarrow> S \<subseteq> T \<Longrightarrow> leads T p"
  by (auto simp: leads_def)

lemma leads_switch: "leads {At_login} (switch_to_admin E)"
  unfolding switch_to_admin_def by (intro leads_tryE leads_enter_admin)

lemma leads_unless_owned: "leads S p \<Longrightarrow> At_login \<in> S \<Longrightarrow> leads S (unless_owned E p)"
  unfolding unless_owned_def by (intro leads_bind leads_if leads_mono [OF leads_switch]) auto

definition early :: "mode set" where "early = {m. (\<forall>t. m \<noteq> In_session t) \<and> (\<forall>u. m \<noteq> At_password u)}"

lemma early_simps [simp]: "Bootstrapping key \<in> early" "At_login \<in> early" "Ended r \<in> early"
  by (simp_all add: early_def)

lemma leads_start: "leads early (start_console E)"
  unfolding start_console_def by (intro leads_rules leads_mono [OF leads_enter_admin]) auto

lemma leads_bootstrap: "leads early (bootstrap_round E key)"
  unfolding bootstrap_round_def refresh_status_def run_boot_line_def
  by (intro leads_unless_owned leads_rules) auto

lemma leads_login: "leads {m. \<forall>t. m \<noteq> In_session t} (login_round E)"
  unfolding login_round_def ask_password_def by (intro leads_rules) auto

lemma leads_leave: "leads {At_login} (leave_session E)"
  unfolding leave_session_def by (intro leads_rules) simp

lemma leads_authorized: "leads S p \<Longrightarrow> At_login \<in> S \<Longrightarrow> leads S (while_authorized E t p)"
  unfolding while_authorized_def by (intro leads_rules leads_mono [OF leads_leave]) auto

lemma leads_session: "leads {In_session t, At_login} (session_round E t)"
  unfolding session_round_def by (intro leads_authorized leads_rules leads_mono [OF leads_leave]) auto

section \<open>The terminal does not touch the machine\<close>

definition tty_only :: "'k console \<Rightarrow> 'k console \<Rightarrow> bool" where
  "tty_only c c' \<longleftrightarrow> inert (on c) (on c')"

interpretation tty: transition tty_only
  by unfold_locales (auto simp: tty_only_def inert_def)

lemma tty_on_world: "keeps inert p \<Longrightarrow> keeps tty_only (on_world p)"
  by (auto simp: keeps_def tty_only_def)

lemma tty_put: "keeps tty_only (put_screen t)" "keeps tty_only (set_buffer t)" "keeps tty_only (set_echo b)"
  by (auto simp: keeps_def tty_only_def inert_def put_screen_def set_buffer_def set_echo_def)

lemma tty_say: "keeps tty_only (say E t)"
  unfolding say_def by (intro tty.keeps_rules tty_on_world inert_looks tty_put)

lemma tty_flushes: "keeps tty_only (flush E)"
  unfolding flush_def by (intro tty.keeps_rules tty_on_world inert_looks)

lemma tty_show: "keeps tty_only (show_input E)"
  unfolding show_input_def by (intro tty.keeps_rules tty_on_world inert_looks tty_put)

lemma tty_give: "keeps tty_only (give_line E i)"
  unfolding give_line_def by (intro tty.keeps_rules tty_put)

lemma keeps_poll_cases:
  "(\<And>e. keeps R (f e)) \<Longrightarrow> keeps R p \<Longrightarrow> keeps R q \<Longrightarrow> keeps R u \<Longrightarrow> keeps R v
   \<Longrightarrow> keeps R (case r of Poll_failed e \<Rightarrow> f e | Poll_nothing \<Rightarrow> p | Poll_hangup \<Rightarrow> q | Poll_other \<Rightarrow> u | Poll_ready \<Rightarrow> v)"
  by (cases r) auto

lemma keeps_input_cases:
  "(\<And>l. keeps R (f l)) \<Longrightarrow> keeps R p \<Longrightarrow> keeps R q \<Longrightarrow> keeps R (case i of Line l \<Rightarrow> f l | Eof \<Rightarrow> p | Timeout \<Rightarrow> q)"
  by (cases i) auto

lemma tty_read_line: "keeps tty_only (read_line_poll E n)"
  unfolding read_line_poll_def read_more_def
  by (intro tty.keeps_rules keeps_input_cases keeps_poll_cases tty_give tty_put tty_on_world inert_looks)

lemma tty_hidden_until: "keeps tty_only p \<Longrightarrow> keeps tty_only (hidden_until E p g)"
  unfolding hidden_until_def by (intro tty.keeps_rules tty_show)

lemma tty_prove: "keeps tty_only (prove_identity E user pw)"
proof -
  have "keeps tty_only (State (\<lambda>c. (fst r, c\<lparr> known_hash := snd r \<rparr>)))" for r :: "authentication_result \<times> string res option"
    by (simp add: keeps_def tty_only_def inert_def)
  then show ?thesis
    unfolding prove_identity_def by (intro tty.keeps_rules tty_on_world inert_looks)
qed

section \<open>Who gets in\<close>

text \<open>The password of an administrator's account was given.\<close>

definition proved_at :: "'k console_env \<Rightarrow> files \<Rightarrow> string \<Rightarrow> string \<Rightarrow> authentication \<Rightarrow> bool" where
  "proved_at E f user pw t \<longleftrightarrow>
     (\<exists>cfg a. stored (login_env E) f = Some cfg \<and> a \<in> set (accounts cfg) \<and> administrator a
        \<and> source a = LOCAL_SOURCE \<and> username a = user
        \<and> crypt (login_env E) pw (password_hash a) = Some (password_hash a)
        \<and> auth_principal t = \<lparr> prin_source = LOCAL_SOURCE, prin_subject = subject a, prin_username = user \<rparr>)"

lemma prove_run:
  assumes "run_state (prove_identity E user pw) c = (Authenticated t, c')"
  shows "\<exists>cfg a. stored (login_env E) (files (on c)) = Some cfg \<and> a \<in> set (accounts cfg)
    \<and> source a = LOCAL_SOURCE \<and> username a = user
    \<and> crypt (login_env E) pw (password_hash a) = Some (password_hash a)
    \<and> (authorized_in cfg t \<longleftrightarrow> administrator a)
    \<and> auth_principal t = \<lparr> prin_source = LOCAL_SOURCE, prin_subject = subject a, prin_username = user \<rparr>"
proof -
  obtain q h w where q: "run_state (authenticate (login_env E) (known_hash c) LOCAL_SOURCE user pw) (on c) = ((q, h), w)"
    by (metis prod.exhaust)
  then have "q = Authenticated t" using assms by (simp add: prove_identity_def)
  then show ?thesis using authenticated_run [of "login_env E" "known_hash c" LOCAL_SOURCE user pw "on c" t h w] q by blast
qed

lemma answer_login_session:
  assumes run: "run_state (answer_login E user pw) c = (Inr (In_session t), c')"
  shows "proved_at E (files (on c)) user pw t"
proof -
  obtain q c1 where q: "run_state (prove_identity E user pw) c = (q, c1)" by fastforce
  have same: "files (on c1) = files (on c)"
    using keepsD [OF tty_prove q] by (simp add: tty_only_def inert_def)
  have rest: "(Inr (In_session t), c') = run_state
      (case q of
        Authenticated t \<Rightarrow> State_Monad.bind (authorized_now E t) (\<lambda>granted.
          if granted then enter_session E t else seqE (say_line E ''login failed'') (leave_session E))
      | Challenge _ _ \<Rightarrow>
          seqE (say_line E ''additional authentication required; console login unavailable'') (leave_session E)
      | Denied \<Rightarrow> seqE (say_line E ''login failed'') (leave_session E)) c1"
    using run q by (simp add: answer_login_def)
  have failed: "leads {At_login} (seqE (say_line E msg) (leave_session E))" for msg
    by (intro leads_tryE leads_leave)
  show ?thesis
  proof (cases q)
    case (Authenticated u)
    obtain g c2 where g: "run_state (authorized_now E u) c1 = (g, c2)" by fastforce
    have rest2: "(Inr (In_session t), c') = run_state
        (if g then enter_session E u else seqE (say_line E ''login failed'') (leave_session E)) c2"
      using rest Authenticated g by simp
    have entered: "leads {In_session u} (enter_session E u)"
      unfolding enter_session_def by (intro leads_rules) simp
    have granted: "g"
    proof (rule ccontr)
      assume "\<not> g"
      then have "(Inr (In_session t), c') = run_state (seqE (say_line E ''login failed'') (leave_session E)) c2"
        using rest2 by simp
      then show False using leadsD [OF failed] by blast
    qed
    then have "(Inr (In_session t), c') = run_state (enter_session E u) c2" using rest2 by simp
    then have "t = u" using leadsD [OF entered] by blast
    moreover have "granted_to E (files (on c)) u" using run_authorized g granted same by metis
    ultimately show ?thesis
      using prove_run [of E user pw c u c1] q Authenticated unfolding granted_to_def proved_at_def by auto
  next
    case (Challenge src x)
    then have "(Inr (In_session t), c') = run_state
        (seqE (say_line E ''additional authentication required; console login unavailable'') (leave_session E)) c1"
      using rest by simp
    then show ?thesis using leadsD [OF failed] by blast
  next
    case Denied
    then have "(Inr (In_session t), c') = run_state (seqE (say_line E ''login failed'') (leave_session E)) c1"
      using rest by simp
    then show ?thesis using leadsD [OF failed] by blast
  qed
qed

text \<open>
  C37. A console session is only ever entered by the password of an administrator: where a
  round ends in the session of someone it did not begin in, it read the password of the
  named local account, whose hash it matched, and the identity of the session is that
  account's. The start of the console leads into no session.
\<close>

theorem sessions_begin_with_password:
  assumes "run_state (console_round E m) c = (Inr (In_session t), c')"
  shows "m = In_session t \<or> (\<exists>user pw. m = At_password user \<and> proved_at E (files (on c)) user pw t)"
proof (cases m)
  case (Bootstrapping key)
  then show ?thesis
    using leadsD [OF leads_bootstrap, of "In_session t" c' E key c] assms by (simp add: console_round_def early_def)
next
  case At_login
  then show ?thesis
    using leadsD [OF leads_login, of "In_session t" c' E c] assms by (simp add: console_round_def)
next
  case (At_password user)
  obtain r c1 where r: "run_state (hidden_until E (read_line_poll E (- 1)) (\<lambda>i. i = Timeout)) c = (r, c1)" by fastforce
  have same: "files (on c1) = files (on c)"
    using keepsD [OF tty_hidden_until [OF tty_read_line] r] by (simp add: tty_only_def inert_def)
  obtain i where i: "r = Inr i" using assms At_password r by (cases r) (auto simp: console_round_def password_round_def tryE_def)
  then obtain pw where pw: "i = Line pw"
    using assms At_password r by (cases i) (auto simp: console_round_def password_round_def tryE_def split: sum.splits prod.splits)
  obtain q c2 where q: "run_state (say E nl) c1 = (q, c2)" by fastforce
  have "files (on c2) = files (on c)" using keepsD [OF tty_say q] same by (simp add: tty_only_def inert_def)
  moreover have "run_state (answer_login E user pw) c2 = (Inr (In_session t), c')"
    using assms At_password r i pw q by (cases q) (simp_all add: console_round_def password_round_def tryE_def)
  ultimately show ?thesis using answer_login_session At_password by metis
next
  case (In_session u)
  then show ?thesis
    using leadsD [OF leads_session, of "In_session t" c' E u c] assms by (simp add: console_round_def)
qed (use assms in \<open>simp add: console_round_def\<close>)

end
