(* ===== verification/Console_Terminal.thy ===== *)
theory Console_Terminal
  imports Console_Properties
begin

text \<open>
  The console's terminal: a password is read with the echo off and nothing else is; lines
  are the same however their bytes come in, but for a carriage return cut off from its
  newline; the addresses shown for the UI are the private ones.
\<close>

section \<open>Echo\<close>

definition echo_kept :: "'k console \<Rightarrow> 'k console \<Rightarrow> bool" where
  "echo_kept c c' \<longleftrightarrow> echoing c' = echoing c"

interpretation echo: transition echo_kept
  by unfold_locales (auto simp: echo_kept_def)

lemma echo_on_world: "keeps echo_kept (on_world p)"
  by (auto simp: keeps_def echo_kept_def)

lemma echo_put: "keeps echo_kept (put_screen t)" "keeps echo_kept (set_buffer t)"
  by (auto simp: keeps_def echo_kept_def put_screen_def set_buffer_def)

lemma echo_say: "keeps echo_kept (say E t)"
  unfolding say_def by (intro echo.keeps_rules echo_on_world echo_put)

lemma echo_flush: "keeps echo_kept (flush E)"
  unfolding flush_def by (intro echo.keeps_rules echo_on_world)

lemma echo_say_lines: "keeps echo_kept (say_lines E ls)"
  unfolding say_lines_def by (intro echo.keeps_rules echo_say)

lemma echo_read_line: "keeps echo_kept (read_line_poll E n)"
  unfolding read_line_poll_def read_more_def give_line_def
  by (intro echo.keeps_rules keeps_input_cases keeps_poll_cases echo_put echo_on_world)

lemma echo_bootstrapped: "keeps echo_kept bootstrapped"
  unfolding bootstrapped_def by (rule echo_on_world)

lemmas echo_basic = echo.keeps_rules echo_on_world echo_say echo_flush echo_say_lines echo_read_line
  echo_bootstrapped keeps_input_cases

lemma echo_netd: "keeps echo_kept (netd_json E v)" "keeps echo_kept (list_from_netd E)" "keeps echo_kept (traffic_key E)"
  unfolding traffic_key_def list_from_netd_def netd_json_def socket_roundtrip_def by (intro echo_basic)+

lemma echo_status: "keeps echo_kept (print_status E)" "keeps echo_kept (clear_tty E)" "keeps echo_kept (write_prompt E)"
  unfolding print_status_def clear_tty_def write_prompt_def by (intro echo_basic echo_netd)+

lemma echo_enter: "keeps echo_kept (enter_admin E)" "keeps echo_kept (switch_to_admin E)"
  unfolding switch_to_admin_def enter_admin_def by (intro echo_basic echo_status)+

lemma echo_start: "keeps echo_kept (start_console E)"
  unfolding start_console_def by (intro echo_basic echo_netd echo_status echo_enter)

lemma keeps_list:
  "keeps R p \<Longrightarrow> (\<And>x ys. keeps R (f x ys)) \<Longrightarrow> keeps R (case xs of [] \<Rightarrow> p | x # ys \<Rightarrow> f x ys)"
  by (cases xs) auto

lemma echo_command: "keeps echo_kept (boot_command E text)"
  unfolding boot_command_def netd_opt_def print_help_def
  by (intro keeps_list echo_basic echo_netd echo_status)

lemma echo_bootstrap: "keeps echo_kept (bootstrap_round E key)"
  unfolding bootstrap_round_def unless_owned_def refresh_status_def run_boot_line_def
  by (intro echo_basic echo_netd echo_status echo_enter echo_command)

lemma echo_prove: "keeps echo_kept (prove_identity E user pw)"
proof -
  have "keeps echo_kept (State (\<lambda>c. (fst r, c\<lparr> known_hash := snd r \<rparr>)))" for r :: "authentication_result \<times> string res option"
    by (simp add: keeps_def echo_kept_def)
  then show ?thesis unfolding prove_identity_def by (intro echo_basic)
qed

lemma echo_readable: "keeps echo_kept (readable E path)" "keeps echo_kept (readable_toml E path)" "keeps echo_kept (exists_file path)"
  unfolding readable_toml_def readable_def exists_file_def by (intro echo_basic)+

lemma echo_look: "keeps echo_kept (look E)"
  unfolding look_def recovery_target_def Let_def by (intro echo_basic echo_readable echo_netd)

lemma echo_admin_status: "keeps echo_kept (print_admin_status E)"
  unfolding print_admin_status_def hostname_shown_def predecessor_now_def say_host_image_def update_op_def socket_roundtrip_def
  by (intro echo_basic echo_readable echo_look)

lemma keeps_act: "keeps R p \<Longrightarrow> keeps R q \<Longrightarrow> keeps R (case a of Continue \<Rightarrow> p | Logout \<Rightarrow> q)"
  by (cases a) auto

lemma keeps_verdict:
  "(\<And>t. keeps R (f t)) \<Longrightarrow> (\<And>s x. keeps R (g s x)) \<Longrightarrow> keeps R p
   \<Longrightarrow> keeps R (case r of Authenticated t \<Rightarrow> f t | Challenge s x \<Rightarrow> g s x | Denied \<Rightarrow> p)"
  by (cases r) auto

lemma echo_admin: "keeps echo_kept (admin_command E text who)"
  unfolding admin_command_def write_cmd_def restore_previous_client_def update_op_def socket_roundtrip_def
  by (intro echo_basic echo_admin_status)

lemma echo_session: "keeps echo_kept (session_round E t)"
  unfolding session_round_def while_authorized_def leave_session_def authorized_now_def
  by (intro echo_basic echo_admin keeps_act)

lemma echo_answer: "keeps echo_kept (answer_login E user pw)"
  unfolding answer_login_def enter_session_def leave_session_def authorized_now_def
  by (intro echo_basic echo_admin_status echo_prove keeps_verdict)

text \<open>A run that leaves the terminal as its mode asks.\<close>

definition settles :: "('k, mode res) con \<Rightarrow> 'k console \<Rightarrow> bool" where
  "settles p c \<longleftrightarrow>
     (\<forall>r c'. run_state p c = (r, c') \<longrightarrow> (echoing c' \<longleftrightarrow> (\<forall>user. next_mode r \<noteq> At_password user)))"

definition unhidden :: "mode set" where "unhidden = {m. \<forall>user. m \<noteq> At_password user}"

lemma unhidden_simps [simp]:
  "Bootstrapping key \<in> unhidden" "At_login \<in> unhidden" "In_session t \<in> unhidden" "Ended r \<in> unhidden"
  "early \<subseteq> unhidden"
  by (auto simp: unhidden_def early_def)

lemma settles_keeping:
  assumes "keeps echo_kept p" and "leads unhidden p" and "echoing c"
  shows "settles p c"
proof -
  have "echoing c' \<longleftrightarrow> (\<forall>user. next_mode r \<noteq> At_password user)" if run: "run_state p c = (r, c')" for r c'
    using keepsD [OF assms(1) run] assms(3) leadsD [OF assms(2) sym [of "run_state p c"]] run
    by (cases r) (auto simp: echo_kept_def next_mode_def unhidden_def)
  then show ?thesis by (simp add: settles_def)
qed

lemma settles_err: "echoing c \<Longrightarrow> settles (errE e) c"
  by (simp add: settles_def next_mode_def)

lemma settles_tryE:
  assumes "keeps echo_kept p" and "\<And>a c'. echoing c' \<Longrightarrow> settles (f a) c'" and "echoing c"
  shows "settles (tryE p f) c"
proof -
  obtain r c1 where r: "run_state p c = (r, c1)" by fastforce
  then have e: "echoing c1" using keepsD [OF assms(1) r] assms(3) by (simp add: echo_kept_def)
  show ?thesis
  proof (cases r)
    case (Inl err)
    then show ?thesis using r settles_err [OF e, of err] by (simp add: settles_def tryE_def)
  next
    case (Inr a)
    then show ?thesis using r assms(2) [OF e, of a] by (simp add: settles_def tryE_def)
  qed
qed

lemma show_restores:
  "(\<And>k. fst (tty_restore E k)) \<Longrightarrow> run_state (show_input E) c = (u, c') \<Longrightarrow> echoing c'"
  by (auto simp: show_input_def asks_def set_echo_def split: prod.splits if_splits) (metis fst_conv)+

text \<open>With hidden input, until it ends.\<close>

lemma hidden_settles:
  assumes restore: "\<And>k. fst (tty_restore E k)" and p: "keeps echo_kept p" and off: "\<not> echoing c"
    and on: "\<And>a c'. \<not> g a \<Longrightarrow> echoing c' \<Longrightarrow> settles (f a) c'"
    and still: "\<And>a. g a \<Longrightarrow> f a = okE (At_password (user a))"
  shows "settles (tryE (hidden_until E p g) f) c"
proof -
  obtain r c1 where r: "run_state p c = (r, c1)" by fastforce
  then have e: "\<not> echoing c1" using keepsD [OF p r] off by (simp add: echo_kept_def)
  obtain u c2 where s: "run_state (show_input E) c1 = (u, c2)" by (metis prod.exhaust)
  have e2: "echoing c2" by (rule show_restores [OF restore s])
  show ?thesis
  proof (cases r)
    case (Inl err)
    then show ?thesis
      using r s e2 by (simp add: settles_def hidden_until_def tryE_def next_mode_def)
  next
    case (Inr a)
    show ?thesis
    proof (cases "g a")
      case True
      then show ?thesis
        using Inr r e still [OF True] by (auto simp: settles_def hidden_until_def tryE_def next_mode_def)
    next
      case False
      then show ?thesis
        using Inr r s on [OF False e2] by (simp add: settles_def hidden_until_def tryE_def)
    qed
  qed
qed

lemma ask_settles:
  assumes restore: "\<And>k. fst (tty_restore E k)" and c: "echoing c"
  shows "settles (ask_password E user) c"
proof -
  let ?say = "hidden_until E (say_flushed E ''password: '') (\<lambda>_. True)"
  have hidden: "settles (seqE ?say (okE (At_password user))) c1" if "\<not> echoing c1" for c1
    by (rule hidden_settles [OF restore _ that]) (auto intro: echo_basic)
  obtain r c1 where r: "run_state (hide_input E) c = (r, c1)" by fastforce
  have e: "if r = Inr () then \<not> echoing c1 else echoing c1"
    using r c by (auto simp: hide_input_def asks_def set_echo_def split: prod.splits sum.splits)
  show ?thesis
  proof (cases r)
    case (Inl err)
    then show ?thesis using r e by (simp add: settles_def ask_password_def tryE_def next_mode_def)
  next
    case (Inr u)
    then have "settles (seqE ?say (okE (At_password user))) c1" using hidden e by simp
    moreover have "run_state (ask_password E user) c = run_state (seqE ?say (okE (At_password user))) c1"
      using r Inr unfolding ask_password_def by (subst tryE_def) simp
    ultimately show ?thesis by (simp add: settles_def)
  qed
qed

lemma settles_ok: "m \<in> unhidden \<Longrightarrow> echoing c \<Longrightarrow> settles (okE m) c"
  by (auto simp: settles_def next_mode_def unhidden_def)

lemma login_settles:
  assumes restore: "\<And>k. fst (tty_restore E k)" and c: "echoing c"
  shows "settles (login_round E) c"
  unfolding login_round_def
proof (intro settles_tryE echo_basic c)
  fix i :: input and c' :: "'a console"
  assume "echoing c'"
  then show "settles (case i of Line l \<Rightarrow> if trim l = [] then okE At_login else ask_password E (trim l)
      | Eof \<Rightarrow> okE (Ended (Inr ())) | Timeout \<Rightarrow> okE At_login) c'"
    by (cases i) (auto intro: settles_ok ask_settles [OF restore])
qed

lemma leads_answer: "leads unhidden (answer_login E user pw)"
proof -
  have l: "leads unhidden (leave_session E)" by (rule leads_mono [OF leads_leave]) simp
  have "leads unhidden (case r of
        Authenticated t \<Rightarrow> State_Monad.bind (authorized_now E t) (\<lambda>granted.
          if granted then enter_session E t else seqE (say_line E ''login failed'') (leave_session E))
      | Challenge _ _ \<Rightarrow>
          seqE (say_line E ''additional authentication required; console login unavailable'') (leave_session E)
      | Denied \<Rightarrow> seqE (say_line E ''login failed'') (leave_session E))" for r
    unfolding enter_session_def by (cases r) (auto intro!: leads_rules l)
  then show ?thesis unfolding answer_login_def by (intro leads_bind)
qed

lemma password_settles:
  assumes restore: "\<And>k. fst (tty_restore E k)" and c: "\<not> echoing c"
  shows "settles (password_round E user) c"
  unfolding password_round_def
proof (rule hidden_settles [OF restore echo_read_line c])
  fix i :: input and c' :: "'a console"
  assume i: "\<not> i = Timeout" and e: "echoing c'"
  have answer: "settles (answer_login E user pw) c1" if "echoing c1" for pw c1
    by (rule settles_keeping [OF echo_answer leads_answer that])
  show "settles (case i of Line pw \<Rightarrow> seqE (say E nl) (answer_login E user pw)
      | Eof \<Rightarrow> seqE (say E nl) (okE (Ended (Inr ()))) | Timeout \<Rightarrow> okE (At_password user)) c'"
    using i e by (cases i) (auto intro!: settles_tryE echo_basic settles_ok answer)
qed simp

lemma round_settles:
  assumes restore: "\<And>k. fst (tty_restore E k)" and c: "echoing c \<longleftrightarrow> (\<forall>user. m \<noteq> At_password user)"
  shows "settles (console_round E m) c"
proof (cases m)
  case (Bootstrapping key)
  then show ?thesis
    using c settles_keeping [OF echo_bootstrap leads_mono [OF leads_bootstrap]] by (simp add: console_round_def)
next
  case (In_session t)
  then show ?thesis
    using c settles_keeping [OF echo_session leads_mono [OF leads_session]] by (simp add: console_round_def)
next
  case (Ended r)
  then show ?thesis using c by (simp add: console_round_def settles_ok)
qed (use c login_settles [OF restore] password_settles [OF restore] in \<open>auto simp: console_round_def\<close>)

text \<open>
  C38. A console hides what is typed exactly while it waits for a password, whatever fails and
  whatever other programs do: the echo is off in that mode, and on in every other one, also
  when the process has ended. (A terminal that takes no settings back is the exception.)
\<close>

theorem echo_off_only_for_password:
  assumes "console_run E (m, c)" and "\<forall>k. fst (tty_restore E k)"
  shows "echoing c \<longleftrightarrow> (\<forall>user. m \<noteq> At_password user)"
  using assms(1)
proof (induction "(m, c)" arbitrary: m c)
  case (begins c r c')
  have "settles (start_console E) c"
    using settles_keeping [OF echo_start leads_mono [OF leads_start]] begins by simp
  then show ?case using begins by (simp add: settles_def)
next
  case (goes_on m c r c')
  have "settles (console_round E m) c"
    using round_settles goes_on assms(2) by blast
  then show ?case using goes_on(3) by (simp add: settles_def)
qed simp

section \<open>Lines\<close>

text \<open>Reading lines until the end, on a number of polls.\<close>

fun read_all :: "'k console_env \<Rightarrow> nat \<Rightarrow> ('k, string list res) con" where
  "read_all E 0 = okE []"
| "read_all E (Suc n) = tryE (read_line_poll E (- 1)) (\<lambda>i.
     case i of
       Eof \<Rightarrow> okE []
     | Timeout \<Rightarrow> read_all E n
     | Line l \<Rightarrow> tryE (read_all E n) (\<lambda>ls. okE (l # ls)))"

text \<open>A terminal where what is left of the machine is what will come in, chunk by chunk.\<close>

definition sends_chunks :: "string list console_env \<Rightarrow> bool" where
  "sends_chunks E \<longleftrightarrow>
     (\<forall>t k. tty_poll E t k = (Poll_ready, k)) \<and> tty_read E [] = (Inr [], [])
     \<and> (\<forall>b bs. tty_read E (b # bs) = (Inr b, bs))"

lemma take_line_None: "take_line acc = None \<longleftrightarrow> (\<forall>c \<in> set acc. \<not> is_newline c)"
proof -
  have "take_line acc = None \<longleftrightarrow> dropWhile (\<lambda>c. \<not> is_newline c) acc = []"
    by (cases "dropWhile (\<lambda>c. \<not> is_newline c) acc") (simp_all add: take_line_def del: dropWhile_eq_Nil_conv)
  then show ?thesis by (simp only: dropWhile_eq_Nil_conv)
qed

lemma take_line_Some:
  assumes "take_line acc = Some (l, rest)" and "CHR 0x0D \<notin> set acc"
  shows "acc = l @ CHR 0x0A # rest \<and> CHR 0x0A \<notin> set l"
proof -
  obtain c s where d: "dropWhile (\<lambda>c. \<not> is_newline c) acc = c # s"
    using assms(1) by (auto simp: take_line_def split: list.splits)
  have acc: "acc = takeWhile (\<lambda>c. \<not> is_newline c) acc @ c # s" by (metis d takeWhile_dropWhile_id)
  then have "c \<in> set acc" by (metis in_set_conv_decomp)
  moreover have "is_newline c" using d by (metis hd_dropWhile list.distinct(1) list.sel(1))
  ultimately have c: "c = CHR 0x0A" using assms(2) by (auto simp: is_newline_def)
  have "l = takeWhile (\<lambda>c. \<not> is_newline c) acc" "rest = s"
    using assms(1) d c by (auto simp: take_line_def split: list.splits)
  moreover have "CHR 0x0A \<notin> set (takeWhile (\<lambda>c. \<not> is_newline c) acc)"
    using set_takeWhileD by (fastforce simp: is_newline_def)
  ultimately show ?thesis using acc c by simp
qed

text \<open>The next line of the input, from the buffer or with the next chunk.\<close>

lemma poll_line:
  assumes "take_line (line_buffer c) = Some (l, rest)"
  shows "run_state (read_line_poll E t) c = (Inr (Line (lossy_text E l)), c\<lparr> line_buffer := rest \<rparr>)"
  using assms by (simp add: read_line_poll_def give_line_def tryE_def set_buffer_def)

lemma poll_end:
  assumes "sends_chunks E" and "take_line (line_buffer c) = None" and "outside (on c) = []"
  shows "\<exists>c'. run_state (read_line_poll E t) c = (Inr Eof, c')"
  using assms by (simp add: read_line_poll_def give_line_def tryE_def read_more_def sends_chunks_def run_asks)

lemma poll_chunk:
  assumes "sends_chunks E" and "take_line (line_buffer c) = None" and "outside (on c) = b # bs" and "b \<noteq> []"
  shows "\<exists>c'. run_state (read_line_poll E t) c =
     (Inr (case take_line (line_buffer c @ b) of Some (l, _) \<Rightarrow> Line (lossy_text E l) | None \<Rightarrow> Timeout), c')
     \<and> outside (on c') = bs
     \<and> line_buffer c' = (case take_line (line_buffer c @ b) of Some (_, rest) \<Rightarrow> rest | None \<Rightarrow> line_buffer c @ b)"
  using assms
  by (auto simp: read_line_poll_def give_line_def tryE_def read_more_def sends_chunks_def run_asks set_buffer_def
      split: option.splits)

lemma split_on_line: "CHR 0x0A \<notin> set l \<Longrightarrow> butlast (split_on (CHR 0x0A) (l @ CHR 0x0A # s)) = l # butlast (split_on (CHR 0x0A) s)"
  by (simp add: split_on_slash_hd)

lemma read_all_lines:
  assumes "sends_chunks E" and "length (line_buffer c) + length (concat bs) + length bs < n"
    and "outside (on c) = bs" and "[] \<notin> set bs" and "CHR 0x0D \<notin> set (line_buffer c @ concat bs)"
  shows "fst (run_state (read_all E n) c) =
     Inr (map (lossy_text E) (butlast (split_on (CHR 0x0A) (line_buffer c @ concat bs))))"
  using assms(2-)
proof (induction n arbitrary: c bs)
  case (Suc n)
  show ?case
  proof (cases "take_line (line_buffer c)")
    case (Some x)
    obtain l rest where x: "x = (l, rest)" by fastforce
    have split: "line_buffer c = l @ CHR 0x0A # rest" "CHR 0x0A \<notin> set l"
      using take_line_Some Some x Suc.prems(4) by fastforce+
    have "fst (run_state (read_all E n) (c\<lparr> line_buffer := rest \<rparr>)) =
        Inr (map (lossy_text E) (butlast (split_on (CHR 0x0A) (rest @ concat bs))))"
      using Suc.IH [of "c\<lparr> line_buffer := rest \<rparr>" bs] Suc.prems split by simp
    moreover have "butlast (split_on (CHR 0x0A) (line_buffer c @ concat bs))
        = l # butlast (split_on (CHR 0x0A) (rest @ concat bs))"
      using split_on_line [OF split(2), of "rest @ concat bs"] split(1) by simp
    ultimately show ?thesis
      using poll_line [of c l rest E "- 1"] Some x
      by (cases "run_state (read_all E n) (c\<lparr> line_buffer := rest \<rparr>)") (simp add: tryE_def)
  next
    case none: None
    show ?thesis
    proof (cases bs)
      case Nil
      then have no: "CHR 0x0A \<notin> set (line_buffer c @ concat bs)"
        using none by (auto simp: take_line_None is_newline_def)
      obtain c' where "run_state (read_line_poll E (- 1)) c = (Inr Eof, c')"
        using poll_end [OF assms(1) none] Suc.prems Nil by blast
      then show ?thesis using no by (simp add: tryE_def)
    next
      case (Cons b rest_bs)
      obtain c' where p: "run_state (read_line_poll E (- 1)) c =
          (Inr (case take_line (line_buffer c @ b) of Some (l, _) \<Rightarrow> Line (lossy_text E l) | None \<Rightarrow> Timeout), c')"
        "outside (on c') = rest_bs"
        "line_buffer c' = (case take_line (line_buffer c @ b) of Some (_, rest) \<Rightarrow> rest | None \<Rightarrow> line_buffer c @ b)"
        using poll_chunk [OF assms(1) none] Suc.prems Cons by (metis list.set_intros(1))
      show ?thesis
      proof (cases "take_line (line_buffer c @ b)")
        case None
        then have "fst (run_state (read_all E n) c') =
            Inr (map (lossy_text E) (butlast (split_on (CHR 0x0A) (line_buffer c @ concat bs))))"
          using Suc.IH [of c' rest_bs] Suc.prems Cons p by simp
        then show ?thesis using p(1) None by (simp add: tryE_def)
      next
        case (Some x)
        obtain l rest where x: "x = (l, rest)" by fastforce
        have split: "line_buffer c @ b = l @ CHR 0x0A # rest" "CHR 0x0A \<notin> set l"
          using take_line_Some [of "line_buffer c @ b"] Some x Suc.prems(4) Cons by fastforce+
        have len: "length rest < length (line_buffer c) + length b"
          using arg_cong [OF split(1), of length] by simp
        have cr: "CHR 0x0D \<notin> set rest"
          using Suc.prems(4) Cons split(1) by (metis Un_iff append_assoc concat.simps(2) list.set_intros(2) set_append)
        have "fst (run_state (read_all E n) c') =
            Inr (map (lossy_text E) (butlast (split_on (CHR 0x0A) (rest @ concat rest_bs))))"
          using Suc.IH [of c' rest_bs] Suc.prems Cons p len cr Some x by simp
        moreover have "line_buffer c @ concat bs = l @ CHR 0x0A # rest @ concat rest_bs"
          using split(1) Cons by (metis append_Cons append_assoc concat.simps(2))
        then have "butlast (split_on (CHR 0x0A) (line_buffer c @ concat bs))
            = l # butlast (split_on (CHR 0x0A) (rest @ concat rest_bs))"
          using split_on_line [OF split(2)] by simp
        ultimately show ?thesis
          using p(1) Some x by (cases "run_state (read_all E n) c'") (simp add: tryE_def)
      qed
    qed
  qed
qed simp


text \<open>A carriage return that comes in before its newline makes two lines of one: here the user's
  name is followed by an empty password.\<close>

theorem cut_line_end_adds_line:
  "take_line ([CHR 0x61, CHR 0x0D] @ [CHR 0x0A]) = Some (''a'', [])
   \<and> take_line [CHR 0x61, CHR 0x0D] = Some (''a'', [])
   \<and> take_line ([] @ [CHR 0x0A]) = Some ([], [])"
  by code_simp

section \<open>The addresses shown\<close>

text \<open>A link-local address, for which \<open>ui_url\<close> has a form of its own with the NIC's name, is never
  shown: \<open>ui_reachable\<close> only lets unique local ones through.\<close>

lemma ula_bit: "is_ula a \<Longrightarrow> \<not> bit a 121"
proof -
  assume "is_ula a"
  then have "(ucast (drop_bit 120 a) :: u8) AND 0xFE = 0xFC"
    by (simp add: is_ula_def ipv6_octets_def)
  then have "bit ((ucast (drop_bit 120 a) :: u8) AND 0xFE) 1 = bit (0xFC :: u8) 1" by simp
  then show "\<not> bit a 121" by (simp add: bit_simps)
qed

lemma link_local_bit: "v6_link_local a \<Longrightarrow> bit a 121"
proof -
  assume "v6_link_local a"
  then have "bit (drop_bit 118 a) 3 = bit (0x3FA :: u128) 3" by (simp add: v6_link_local_def)
  then show "bit a 121" by (simp add: bit_simps)
qed

theorem link_local_never_shown:
  "v6_link_local a \<Longrightarrow> ui_url nic (V6 a) = None"
  using ula_bit link_local_bit by (auto simp: ui_url_def ui_reachable_def)

end
