(* ===== verification/Console_Sample.thy ===== *)
theory Console_Sample
  imports Console_Terminal Identity_Sample
begin

text \<open>
  The properties of the console on the sample appliance of \<open>Identity_Sample\<close>, with a terminal
  that takes every write.
\<close>

definition sample_console_env :: "unit console_env" where
  "sample_console_env =
     \<lparr> login_env = sample_identity, tty_write = (\<lambda>t k. (None, k)), tty_flush = (\<lambda>k. (None, k)),
       tty_poll = (\<lambda>t k. (Poll_nothing, k)), tty_read = (\<lambda>k. (Inr [], k)), tty_settings = (\<lambda>k. (Inr (), k)),
       tty_hide = (\<lambda>k. (Inr (), k)), tty_restore = (\<lambda>k. (True, k)), lossy_text = (\<lambda>t. t),
       console_exchange = (\<lambda>sock v. ret (Inl ''connection refused'')), toml_of_text = (\<lambda>t. None),
       toml_of_accepted = (\<lambda>st. None), shown_json = (\<lambda>v. []), netns_there = (\<lambda>n k. (True, k)),
       netd_there = (\<lambda>k. (False, k)) \<rparr>"

definition sample_console :: "string \<Rightarrow> bool \<Rightarrow> unit console" where
  "sample_console typed shown =
     \<lparr> on = identity_world two_admins, screen = [], line_buffer = typed, echoing = shown, known_hash = None \<rparr>"

section \<open>Runs that cannot fail here\<close>

definition unfailing :: "('s, 'a res) state \<Rightarrow> bool" where
  "unfailing p \<longleftrightarrow> (\<forall>c. \<exists>a c'. run_state p c = (Inr a, c'))"

lemma unfailing_ok: "unfailing (okE a)"
  by (simp add: unfailing_def)

lemma unfailing_bind: "(\<And>a. unfailing (f a)) \<Longrightarrow> unfailing (State_Monad.bind p f)"
  unfolding unfailing_def by (metis (no_types, lifting) prod.exhaust run_state_bind case_prod_conv)

lemma unfailing_tryE:
  assumes "unfailing p" and "\<And>a. unfailing (f a)"
  shows "unfailing (tryE p f)"
  unfolding unfailing_def
proof
  fix c
  obtain a c1 where a: "run_state p c = (Inr a, c1)" using assms(1) unfolding unfailing_def by metis
  obtain b c2 where "run_state (f a) c1 = (Inr b, c2)" using assms(2) unfolding unfailing_def by metis
  then show "\<exists>b c'. run_state (tryE p f) c = (Inr b, c')" using a by (simp add: tryE_def)
qed

lemma unfailing_cases:
  "unfailing p \<Longrightarrow> unfailing q \<Longrightarrow> unfailing (if b then p else q)"
  "unfailing p \<Longrightarrow> (\<And>a. unfailing (f a)) \<Longrightarrow> unfailing (case x of None \<Rightarrow> p | Some a \<Rightarrow> f a)"
  "(\<And>e. unfailing (g e)) \<Longrightarrow> (\<And>a. unfailing (h a)) \<Longrightarrow> unfailing (case y of Inl e \<Rightarrow> g e | Inr a \<Rightarrow> h a)"
  by (auto split: option.split sum.split)

lemma unfailing_forE: "(\<And>x. unfailing (f x)) \<Longrightarrow> unfailing (forE f xs)"
  by (induction xs) (auto intro: unfailing_ok unfailing_tryE)

lemmas unfailing_rules = unfailing_ok unfailing_bind unfailing_tryE unfailing_cases unfailing_forE

lemma say_unfailing: "unfailing (say sample_console_env t)"
  by (simp add: unfailing_def say_def run_asks put_screen_def sample_console_env_def)

lemma flush_unfailing: "unfailing (flush sample_console_env)"
  by (simp add: unfailing_def flush_def run_asks sample_console_env_def)

lemma status_unfailing: "unfailing (print_admin_status sample_console_env)"
  unfolding print_admin_status_def say_lines_def say_host_image_def
  by (intro unfailing_rules say_unfailing flush_unfailing)

section \<open>Instances\<close>


lemma sample_password_round:
  "\<exists>c'. run_state (console_round sample_console_env (At_password ''alice'')) (sample_console (''secret'' @ nl) False)
     = (Inr (In_session alice), c')"
proof -
  let ?E = sample_console_env
  have line: "take_line (''secret'' @ nl) = Some (''secret'', [])" by code_simp
  define c1 where "c1 = (sample_console [] True)\<lparr> screen := nl \<rparr>"
  have on: "on c1 = identity_world two_admins" by (simp add: c1_def sample_console_def)
  have typed: "run_state (hidden_until ?E (read_line_poll ?E (- 1)) (\<lambda>i. i = Timeout)) (sample_console (''secret'' @ nl) False)
      = (Inr (Line ''secret''), sample_console [] True)"
    using poll_line [of "sample_console (''secret'' @ nl) False" "''secret''" "[]" ?E] line
    by (simp add: hidden_until_def show_input_def set_echo_def run_asks sample_console_env_def sample_console_def)
  have said: "run_state (say ?E nl) (sample_console [] True) = (Inr (), c1)"
    by (simp add: say_def run_asks put_screen_def sample_console_env_def sample_console_def c1_def)
  obtain h where "run_state (authenticate sample_identity None LOCAL_SOURCE ''alice'' ''secret'') (identity_world two_admins)
     = ((Authenticated alice, h), identity_world two_admins)" using alice_authenticates by blast
  then have proved: "run_state (prove_identity ?E ''alice'' ''secret'') c1 = (Authenticated alice, c1\<lparr> known_hash := h \<rparr>)"
    by (simp add: prove_identity_def sample_console_env_def c1_def sample_console_def)
  have granted: "run_state (authorized_now ?E alice) (c1\<lparr> known_hash := h \<rparr>) = (True, c1\<lparr> known_hash := h \<rparr>)"
    using sample_granted by (simp add: authorized_now_def sample_console_env_def c1_def sample_console_def)
  obtain c2 where "run_state (print_admin_status ?E) (c1\<lparr> known_hash := h \<rparr>) = (Inr (), c2)"
    using status_unfailing unfolding unfailing_def by (metis unit.exhaust)
  then have "run_state (answer_login ?E ''alice'' ''secret'') c1 = (Inr (In_session alice), c2)"
    using proved granted by (simp add: answer_login_def enter_session_def tryE_def)
  then show ?thesis
    using typed said by (simp add: console_round_def password_round_def tryE_def)
qed

theorem sessions_begin_with_password_witness:
  "\<exists>pw cfg a. stored sample_identity (files (identity_world two_admins)) = Some cfg \<and> a \<in> set (accounts cfg) \<and> administrator a
     \<and> username a = ''alice'' \<and> crypt sample_identity pw (password_hash a) = Some (password_hash a)"
proof -
  obtain c' where run: "run_state (console_round sample_console_env (At_password ''alice'')) (sample_console (''secret'' @ nl) False)
     = (Inr (In_session alice), c')" using sample_password_round by blast
  from sessions_begin_with_password [OF run] show ?thesis
    by (auto simp: proved_at_def sample_console_def sample_console_env_def)
qed

theorem echo_off_only_for_password_witness:
  "echoing (snd (run_state (start_console sample_console_env) (sample_console [] True)))
     = (\<forall>user. next_mode (fst (run_state (start_console sample_console_env) (sample_console [] True))) \<noteq> At_password user)"
proof -
  have "console_run sample_console_env
      (next_mode (fst (run_state (start_console sample_console_env) (sample_console [] True))),
       snd (run_state (start_console sample_console_env) (sample_console [] True)))"
    by (rule begins [OF prod.collapse [symmetric]]) (simp_all add: sample_console_def)
  moreover have "\<forall>k. fst (tty_restore sample_console_env k)" by (simp add: sample_console_env_def)
  ultimately show ?thesis by (rule echo_off_only_for_password)
qed

section \<open>A terminal that sends chunks\<close>

definition chunk_identity :: "string list identity_env" where
  "chunk_identity =
     \<lparr> machine = \<lparr> codec = unary_codecs, io_fault = (\<lambda>op k. (None, k)),
         exec = (\<lambda>argv input k. (Spawn_failed [], k)), urandom = (\<lambda>k. (None, k)),
         boottime_clock = (\<lambda>k. (Inl [], k)), unix_ms = (\<lambda>k. (0, k)), deadline_passed = (\<lambda>k. (False, k)),
         foreign_read = (\<lambda>path k. (Inr None, k)), foreign_write = (\<lambda>path t k. (Inr (), k)),
         foreign_remove = (\<lambda>path k. (Inr (), k)), foreign_dir = (\<lambda>path k. (Inr [], k)) \<rparr>,
       crypt = (\<lambda>pw setting. None), gensalt = (\<lambda>k. (None, k)),
       text_of_config = (\<lambda>c. Inl []), config_of_text = (\<lambda>t. Inl []) \<rparr>"

definition chunk_console_env :: "string list console_env" where
  "chunk_console_env =
     \<lparr> login_env = chunk_identity, tty_write = (\<lambda>t k. (None, k)), tty_flush = (\<lambda>k. (None, k)),
       tty_poll = (\<lambda>t k. (Poll_ready, k)),
       tty_read = (\<lambda>k. case k of [] \<Rightarrow> (Inr [], []) | b # bs \<Rightarrow> (Inr b, bs)), tty_settings = (\<lambda>k. (Inr (), k)),
       tty_hide = (\<lambda>k. (Inr (), k)), tty_restore = (\<lambda>k. (True, k)), lossy_text = (\<lambda>t. t),
       console_exchange = (\<lambda>sock v. ret (Inl ''connection refused'')), toml_of_text = (\<lambda>t. None),
       toml_of_accepted = (\<lambda>st. None), shown_json = (\<lambda>v. []), netns_there = (\<lambda>n k. (True, k)),
       netd_there = (\<lambda>k. (False, k)) \<rparr>"

definition chunk_console :: "string list \<Rightarrow> string list console" where
  "chunk_console bs =
     \<lparr> on = \<lparr> files = Map.empty, recovery_required = False, trail = [], calls = [], outside = bs \<rparr>,
       screen = [], line_buffer = [], echoing = True, known_hash = None \<rparr>"

definition alice_chunks :: "string list" where
  "alice_chunks = [''ali'', ''ce'' @ nl @ ''sec'', ''ret'' @ nl, ''st'']"


end
