(* ===== verification/Network_Startup.thy ===== *)
theory Network_Startup
  imports Commands Policy
begin

text \<open>
  The Network startup program (\<open>src/main.rs\<close>, \<open>src/network_startup.rs\<close>): it makes the network
  namespaces, links them, and moves the Traffic NICs into \<open>fwd\<close> before netd starts. It is one
  thread that changes its own network namespace, so the rest of the machine here also holds
  the namespace the thread is in, and what it did in which one, latest first. A program or a
  write of a file under \<open>/proc/sys/net\<close> acts in that namespace.
\<close>

section \<open>The thread\<close>

type_synonym netns = nat

datatype deed =
    Ran (argv: "string list") (outcome: exec_result)
  | Wrote (path: string) (contents: string) (written: "unit res")

record 'k thread =
  current :: netns
  did :: "(netns \<times> deed) list"
  beyond :: 'k

text \<open>\<open>at_path\<close> is the namespace a path names, \<open>ns_open\<close> the file descriptor of an opened one.\<close>

record 'k startup_env =
  other_calls :: "'k thread env"
  ns_exec :: "netns \<Rightarrow> string list \<Rightarrow> 'k \<Rightarrow> exec_result \<times> 'k"
  ns_write :: "netns \<Rightarrow> string \<Rightarrow> string \<Rightarrow> 'k \<Rightarrow> unit res \<times> 'k"
  at_path :: "string \<Rightarrow> netns"
  ns_open :: "string \<Rightarrow> 'k \<Rightarrow> nat res \<times> 'k"
  ns_enter :: "netns \<Rightarrow> 'k \<Rightarrow> unit res \<times> 'k"
  path_there :: "string \<Rightarrow> 'k \<Rightarrow> bool \<times> 'k"
  process_id :: nat

definition on_beyond :: "('k \<Rightarrow> 'a \<times> 'k) \<Rightarrow> ('k thread world, 'a) state" where
  "on_beyond f = asks (\<lambda>s. case f (beyond s) of (a, k) \<Rightarrow> (a, s\<lparr> beyond := k \<rparr>))"

definition exec_here :: "'k startup_env \<Rightarrow> string list \<Rightarrow> string \<Rightarrow> 'k thread \<Rightarrow> exec_result \<times> 'k thread" where
  "exec_here E args input s =
     (case ns_exec E (current s) args (beyond s) of
        (r, k) \<Rightarrow> (r, s\<lparr> beyond := k, did := (current s, Ran args r) # did s \<rparr>))"

definition write_here :: "'k startup_env \<Rightarrow> string \<Rightarrow> string \<Rightarrow> 'k thread \<Rightarrow> unit res \<times> 'k thread" where
  "write_here E p text s =
     (case ns_write E (current s) p text (beyond s) of
        (r, k) \<Rightarrow> (r, s\<lparr> beyond := k, did := (current s, Wrote p text r) # did s \<rparr>))"

definition thread_env :: "'k startup_env \<Rightarrow> 'k thread env" where
  "thread_env E = (other_calls E)\<lparr> exec := exec_here E, foreign_write := write_here E \<rparr>"

section \<open>Namespaces\<close>

definition HOST_NS :: string where "HOST_NS = ''/proc/1/ns/net''"
definition FWD_NS :: string where "FWD_NS = ''/run/netns/fwd''"
definition MGMT_NS :: string where "MGMT_NS = ''/run/netns/mgmt''"

definition HOST_VETH :: string where "HOST_VETH = ''h0mgmt''"
definition MGMT_VETH :: string where "MGMT_VETH = ''m0mgmt''"
definition HOST_VETH_ADDR :: string where "HOST_VETH_ADDR = ''169.254.127.1/30''"
definition MGMT_VETH_ADDR :: string where "MGMT_VETH_ADDR = ''169.254.127.2/30''"
definition HOST_VETH_GW :: string where "HOST_VETH_GW = ''169.254.127.2''"
definition MGMT_FWD_VETH :: string where "MGMT_FWD_VETH = ''m1mgmt''"
definition FWD_MGMT_ADDR :: string where "FWD_MGMT_ADDR = ''169.254.127.5/30''"
definition MGMT_FWD_ADDR :: string where "MGMT_FWD_ADDR = ''169.254.127.6/30''"
definition FWD_MGMT_GW :: string where "FWD_MGMT_GW = ''169.254.127.5''"
definition FWD_MGMT_GW6 :: string where "FWD_MGMT_GW6 = ''fd53:1:1::5''"
definition FWD_MGMT_ADDR6 :: string where "FWD_MGMT_ADDR6 = ''fd53:1:1::5/64''"

text \<open>An open namespace: which one, and the descriptor. \<open>/proc/self/ns/net\<close> is the thread's own.\<close>

definition open_current :: "'k startup_env \<Rightarrow> string \<Rightarrow> ('k thread, netns \<times> nat) io" where
  "open_current E what = do {
     n \<leftarrow> gets (\<lambda>w. current (outside w));
     r \<leftarrow> on_beyond (ns_open E ''/proc/self/ns/net'');
     ret (case r of Inl e \<Rightarrow> Inl (what @ e) | Inr fd \<Rightarrow> Inr (n, fd)) }"

definition open_ns :: "'k startup_env \<Rightarrow> string \<Rightarrow> string \<Rightarrow> ('k thread, netns \<times> nat) io" where
  "open_ns E p what = do {
     r \<leftarrow> on_beyond (ns_open E p);
     ret (case r of Inl e \<Rightarrow> Inl (what @ e) | Inr fd \<Rightarrow> Inr (at_path E p, fd)) }"

definition setns_net :: "'k startup_env \<Rightarrow> netns \<times> nat \<Rightarrow> ('k thread, unit) io" where
  "setns_net E ns = do {
     r \<leftarrow> on_beyond (ns_enter E (fst ns));
     (case r of
        Inl e \<Rightarrow> errE e
      | Inr _ \<Rightarrow> State (\<lambda>w. (Inr (), w\<lparr> outside := (outside w)\<lparr> current := fst ns \<rparr> \<rparr>))) }"

definition with_netns :: "'k startup_env \<Rightarrow> string \<Rightarrow> ('k thread, 'a) io \<Rightarrow> ('k thread, 'a) io" where
  "with_netns E p f =
     tryE (open_current E ''open current netns: '') (\<lambda>cur.
     tryE (open_ns E p (''open '' @ p @ '': '')) (\<lambda>ns.
     seqE (map_err (\<lambda>e. ''setns '' @ p @ '': '' @ e) (setns_net E ns)) (do {
       r \<leftarrow> f;
       back \<leftarrow> map_err (\<lambda>e. ''setns back: '' @ e) (setns_net E cur);
       ret (case r of
              Inl e \<Rightarrow> Inl e
            | Inr v \<Rightarrow> (case back of Inl e \<Rightarrow> Inl e | Inr _ \<Rightarrow> Inr v)) })))"

definition with_host_net :: "'k startup_env \<Rightarrow> ('k thread, 'a) io \<Rightarrow> ('k thread, 'a) io" where
  "with_host_net E f = with_netns E HOST_NS f"

definition with_mgmt_net :: "'k startup_env \<Rightarrow> ('k thread, 'a) io \<Rightarrow> ('k thread, 'a) io" where
  "with_mgmt_net E f = with_netns E MGMT_NS f"

text \<open>A NIC that is not in \<open>fwd\<close> yet is moved from the host's namespace, to the open descriptor.\<close>

definition netns_path :: "'k startup_env \<Rightarrow> netns \<times> nat \<Rightarrow> string" where
  "netns_path E ns = ''/proc/'' @ show_nat (process_id E) @ ''/fd/'' @ show_nat (snd ns)"

definition move_nic :: "'k startup_env \<Rightarrow> string \<Rightarrow> ('k thread, unit) io" where
  "move_nic E name =
     tryE (open_current E ''open fwd netns: '') (\<lambda>fwd.
     tryE (open_ns E HOST_NS ''open host netns: '') (\<lambda>host.
     seqE (map_err (\<lambda>e. ''setns host: '' @ e) (setns_net E host)) (do {
       moved \<leftarrow> run_ip (thread_env E) [''link'', ''set'', name, ''netns'', netns_path E fwd];
       back \<leftarrow> setns_net E fwd;
       ret (case moved of
              Inl e \<Rightarrow> Inl e
            | Inr _ \<Rightarrow> (case back of Inl e \<Rightarrow> Inl (''setns fwd: '' @ e) | Inr _ \<Rightarrow> Inr ())) })))"

definition ensure_in_fwd :: "'k startup_env \<Rightarrow> string \<Rightarrow> ('k thread, unit) io" where
  "ensure_in_fwd E name =
     tryE (link_exists (thread_env E) name) (\<lambda>there. if there then okE () else move_nic E name)"

section \<open>The fixed links\<close>

definition put_file :: "'k startup_env \<Rightarrow> string \<Rightarrow> string \<Rightarrow> string \<Rightarrow> ('k thread, unit) io" where
  "put_file E p text what = map_err (\<lambda>e. what @ e) (asks (foreign_write (thread_env E) p text))"

definition host_veth_there :: "'k startup_env \<Rightarrow> ('k thread, bool) io" where
  "host_veth_there E =
     tryE (output_of (thread_env E) [''ip'', ''link'', ''show'', ''dev'', HOST_VETH]
             (''ip link show '' @ HOST_VETH @ '': '')) (\<lambda>r. okE (ok r))"

definition ensure_host_mgmt_veth :: "'k startup_env \<Rightarrow> ('k thread, unit) io" where
  "ensure_host_mgmt_veth E =
     seqE (with_host_net E (tryE (host_veth_there E) (\<lambda>there.
       if there then okE ()
       else seqE (run_ip (thread_env E) [''link'', ''add'', HOST_VETH, ''type'', ''veth'', ''peer'', ''name'', MGMT_VETH])
                 (run_ip (thread_env E) [''link'', ''set'', MGMT_VETH, ''netns'', MGMT_NS]))))
    (seqE (with_host_net E
       (seqE (add_addr (thread_env E) HOST_VETH HOST_VETH_ADDR)
             (run_ip (thread_env E) [''link'', ''set'', HOST_VETH, ''up''])))
     (with_mgmt_net E
       (seqE (add_addr (thread_env E) MGMT_VETH MGMT_VETH_ADDR)
             (run_ip (thread_env E) [''link'', ''set'', MGMT_VETH, ''up'']))))"

definition host_default_via_mgmt :: "'k startup_env \<Rightarrow> ('k thread, unit) io" where
  "host_default_via_mgmt E =
     with_host_net E (run_ip (thread_env E) [''route'', ''replace'', ''default'', ''via'', HOST_VETH_GW])"

definition add_fwd_mgmt_veth :: "'k startup_env \<Rightarrow> ('k thread, unit) io" where
  "add_fwd_mgmt_veth E =
     tryE (link_exists (thread_env E) FWD_MGMT_VETH) (\<lambda>there.
       if there then okE ()
       else seqE (run_ip (thread_env E) [''link'', ''add'', FWD_MGMT_VETH, ''type'', ''veth'', ''peer'', ''name'', MGMT_FWD_VETH])
                 (run_ip (thread_env E) [''link'', ''set'', MGMT_FWD_VETH, ''netns'', MGMT_NS]))"

definition ensure_fwd_mgmt_veth :: "'k startup_env \<Rightarrow> ('k thread, unit) io" where
  "ensure_fwd_mgmt_veth E =
     seqE (add_fwd_mgmt_veth E)
    (seqE (add_addr (thread_env E) FWD_MGMT_VETH FWD_MGMT_ADDR)
    (seqE (add_addr (thread_env E) FWD_MGMT_VETH FWD_MGMT_ADDR6)
    (seqE (run_ip (thread_env E) [''link'', ''set'', FWD_MGMT_VETH, ''up''])
    (with_mgmt_net E
      (seqE (add_addr (thread_env E) MGMT_FWD_VETH MGMT_FWD_ADDR)
      (seqE (add_addr (thread_env E) MGMT_FWD_VETH (MGMT_FWD_IP6 @ ''/64''))
            (run_ip (thread_env E) [''link'', ''set'', MGMT_FWD_VETH, ''up''])))))))"

definition IP_FORWARD :: string where "IP_FORWARD = ''/proc/sys/net/ipv4/ip_forward''"

definition mgmt_routes :: "'k startup_env \<Rightarrow> ('k thread, unit) io" where
  "mgmt_routes E =
     seqE (run_ip (thread_env E) [''route'', ''replace'', ''default'', ''via'', FWD_MGMT_GW])
    (seqE (run_ip (thread_env E) [''-6'', ''route'', ''replace'', ''default'', ''via'', FWD_MGMT_GW6])
          (put_file E IP_FORWARD ''1'' ''enable forwarding in mgmt: ''))"

definition setup_plumbing :: "'k startup_env \<Rightarrow> ('k thread, unit) io" where
  "setup_plumbing E =
     seqE (ensure_fwd_mgmt_veth E)
    (seqE (ensure_host_mgmt_veth E)
    (seqE (host_default_via_mgmt E)
    (seqE (with_mgmt_net E (mgmt_routes E))
    (seqE (put_file E IP_FORWARD ''1'' ''enable forwarding in fwd: '')
    (seqE (write_sysctl (thread_env E) ''all'' ''ipv4'' ''rp_filter'' ''2'')
    (seqE (write_sysctl (thread_env E) ''default'' ''ipv4'' ''rp_filter'' ''2'')
    (seqE (write_sysctl (thread_env E) FWD_MGMT_VETH ''ipv4'' ''rp_filter'' ''2'')
    (run_ip (thread_env E) [''route'', ''replace'', ''169.254.127.0/30'', ''via'', MGMT_FWD_IP, ''dev'', FWD_MGMT_VETH]))))))))"

definition claim_nic :: "'k startup_env \<Rightarrow> string \<Rightarrow> ('k thread, unit) io" where
  "claim_nic E name =
     seqE (ensure_in_fwd E name)
    (seqE (lock_unopted (thread_env E) name)
          (run_ip (thread_env E) [''link'', ''set'', name, ''up'']))"

definition claim_traffic_nics :: "'k startup_env \<Rightarrow> ('k thread, unit) io" where
  "claim_traffic_nics E = tryE (with_host_net E (traffic_nic_names (thread_env E))) (\<lambda>names. forE (claim_nic E) names)"

definition prepare_network :: "'k startup_env \<Rightarrow> ('k thread, unit) io" where
  "prepare_network E = with_netns E FWD_NS (seqE (setup_plumbing E) (claim_traffic_nics E))"

section \<open>The program\<close>

definition at_netns :: "string \<Rightarrow> string" where "at_netns name = ''/run/netns/'' @ name"

definition is_there :: "'k startup_env \<Rightarrow> string \<Rightarrow> ('k thread world, bool) state" where
  "is_there E p = on_beyond (path_there E p)"

definition run_status :: "'k startup_env \<Rightarrow> string list \<Rightarrow> string \<Rightarrow> string \<Rightarrow> ('k thread, unit) io" where
  "run_status E args starting failed =
     tryE (output_of (thread_env E) args (starting @ '': '')) (\<lambda>r.
       if ok r then okE () else errE (failed @ '' failed ('' @ status_text r @ '')''))"

definition ensure_netns :: "'k startup_env \<Rightarrow> string \<Rightarrow> ('k thread, unit) io" where
  "ensure_netns E name = do {
     before \<leftarrow> is_there E (at_netns name);
     (if before then okE ()
      else tryE (output_of (thread_env E) [''ip'', ''netns'', ''add'', name] (''ip netns add '' @ name @ '': '')) (\<lambda>r. do {
             after \<leftarrow> (if ok r then ret True else is_there E (at_netns name));
             (if after then okE ()
              else errE (''ip netns add '' @ name @ '' failed ('' @ status_text r @ '')'')) })) }"

definition up_lo :: "'k startup_env \<Rightarrow> string \<Rightarrow> ('k thread, unit) io" where
  "up_lo E name =
     run_status E [''ip'', ''netns'', ''exec'', name, ''ip'', ''link'', ''set'', ''lo'', ''up'']
       (''bring up lo in '' @ name) (''ip link set lo up in '' @ name)"

definition FORWARD_SCRIPT :: string where
  "FORWARD_SCRIPT = ''echo 1 > /proc/sys/net/ipv4/ip_forward; echo 1 > /proc/sys/net/ipv6/conf/all/forwarding''"

definition enable_v4_forward :: "'k startup_env \<Rightarrow> string \<Rightarrow> ('k thread, unit) io" where
  "enable_v4_forward E name =
     run_status E [''ip'', ''netns'', ''exec'', name, ''sh'', ''-eu'', ''-c'', FORWARD_SCRIPT]
       (''ip_forward in '' @ name) (''enable ip_forward in '' @ name)"

definition AUTOCONF_SCRIPT :: string where
  "AUTOCONF_SCRIPT =
     ''echo 0 > /proc/sys/net/ipv6/conf/all/accept_ra; echo 0 > /proc/sys/net/ipv6/conf/default/accept_ra; ''
     @ ''echo 0 > /proc/sys/net/ipv6/conf/all/autoconf; echo 0 > /proc/sys/net/ipv6/conf/default/autoconf; ''
     @ ''echo 2 > /proc/sys/net/ipv4/conf/all/rp_filter; echo 2 > /proc/sys/net/ipv4/conf/default/rp_filter''"

definition lock_autoconf :: "'k startup_env \<Rightarrow> string \<Rightarrow> ('k thread, unit) io" where
  "lock_autoconf E name =
     run_status E [''ip'', ''netns'', ''exec'', name, ''sh'', ''-eu'', ''-c'', AUTOCONF_SCRIPT]
       (''lock autoconf in '' @ name) (''lock autoconf in '' @ name)"

definition make_netns :: "'k startup_env \<Rightarrow> string \<Rightarrow> ('k thread, unit) io" where
  "make_netns E name =
     seqE (ensure_netns E name)
    (seqE (up_lo E name)
    (seqE (enable_v4_forward E name)
          (lock_autoconf E name)))"

definition start_up :: "'k startup_env \<Rightarrow> ('k thread, unit) io" where
  "start_up E = seqE (forE (make_netns E) [''fwd'', ''mgmt'']) (prepare_network E)"

end
