(* ===== verification/Startup_Properties.thy ===== *)
theory Startup_Properties
  imports Network_Startup
begin

text \<open>
  What Network startup does, and where. \<open>doing E n m Q\<close> is the contract of its steps: from the
  namespace \<open>n\<close>, \<open>m\<close> does deeds that satisfy \<open>Q\<close> with its result and, unless it fails, ends in
  \<open>n\<close> again; it ends there also on failure where entering a namespace never fails.
\<close>

section \<open>The contract of a step\<close>

definition place :: "'k thread world \<Rightarrow> netns" where
  "place w = current (outside w)"

definition deeds :: "'k thread world \<Rightarrow> (netns \<times> deed) list" where
  "deeds w = did (outside w)"

definition enters :: "'k startup_env \<Rightarrow> bool" where
  "enters E \<longleftrightarrow> (\<forall>n k. is_ok (fst (ns_enter E n k)))"

type_synonym 'a outcome_of = "'a res \<Rightarrow> (netns \<times> deed) list \<Rightarrow> bool"

definition doing :: "'k startup_env \<Rightarrow> netns \<Rightarrow> ('k thread, 'a) io \<Rightarrow> 'a outcome_of \<Rightarrow> bool" where
  "doing E n m Q \<longleftrightarrow> (\<forall>w r w'. run_state m w = (r, w') \<longrightarrow> place w = n \<longrightarrow>
     (is_ok r \<or> enters E \<longrightarrow> place w' = n) \<and> (\<exists>new. deeds w' = new @ deeds w \<and> Q r new))"

lemma doingI:
  assumes "\<And>w r w'. run_state m w = (r, w') \<Longrightarrow> place w = n \<Longrightarrow>
     (is_ok r \<or> enters E \<longrightarrow> place w' = n) \<and> (\<exists>new. deeds w' = new @ deeds w \<and> Q r new)"
  shows "doing E n m Q"
  using assms unfolding doing_def by blast

lemma doingE:
  assumes "doing E n m Q" and "run_state m w = (r, w')" and "place w = n"
  obtains new where "deeds w' = new @ deeds w" "Q r new" "is_ok r \<or> enters E \<longrightarrow> place w' = n"
  using assms unfolding doing_def by blast

lemma doing_mono: "doing E n m Q \<Longrightarrow> (\<And>r new. Q r new \<Longrightarrow> R r new) \<Longrightarrow> doing E n m R"
  unfolding doing_def by blast

lemma doing_ret: "Q r [] \<Longrightarrow> doing E n (ret r) Q"
  by (auto simp: doing_def)

lemma doing_tryE:
  assumes m: "doing E n m Q" and f: "\<And>a. doing E n (f a) (R a)"
  shows "doing E n (tryE m f) (\<lambda>r new. (\<exists>e. Q (Inl e) new \<and> r = Inl e)
    \<or> (\<exists>a l1 l2. Q (Inr a) l1 \<and> R a r l2 \<and> new = l2 @ l1))"
proof (rule doingI)
  fix w r w' assume run: "run_state (tryE m f) w = (r, w')" and at: "place w = n"
  obtain r1 w1 where m1: "run_state m w = (r1, w1)" by fastforce
  from doingE [OF m m1 at] obtain l1 where l1: "deeds w1 = l1 @ deeds w" "Q r1 l1"
    "is_ok r1 \<or> enters E \<longrightarrow> place w1 = n" .
  show "(is_ok r \<or> enters E \<longrightarrow> place w' = n) \<and> (\<exists>new. deeds w' = new @ deeds w \<and>
     ((\<exists>e. Q (Inl e) new \<and> r = Inl e) \<or> (\<exists>a l1 l2. Q (Inr a) l1 \<and> R a r l2 \<and> new = l2 @ l1)))"
  proof (cases r1)
    case (Inl e)
    then show ?thesis using run m1 l1 by (auto simp: run_tryE)
  next
    case (Inr a)
    then have run2: "run_state (f a) w1 = (r, w')" and at1: "place w1 = n"
      using run m1 l1 by (auto simp: run_tryE)
    from doingE [OF f run2 at1] obtain l2 where
      "deeds w' = l2 @ deeds w1" "R a r l2" "is_ok r \<or> enters E \<longrightarrow> place w' = n" .
    then show ?thesis using l1 Inr by auto
  qed
qed

lemma doing_map_err:
  assumes "doing E n m Q" and "\<And>e new. Q (Inl e) new \<Longrightarrow> R (Inl (g e)) new"
    and "\<And>a new. Q (Inr a) new \<Longrightarrow> R (Inr a) new"
  shows "doing E n (map_err g m) R"
proof (rule doingI)
  fix w r w' assume run: "run_state (map_err g m) w = (r, w')" and at: "place w = n"
  obtain r1 where m1: "run_state m w = (r1, w')" and r: "r = (case r1 of Inl e \<Rightarrow> Inl (g e) | Inr a \<Rightarrow> Inr a)"
    using run by (auto simp: run_map_err split: prod.splits sum.splits)
  from doingE [OF assms(1) m1 at] obtain new where
    "deeds w' = new @ deeds w" "Q r1 new" "is_ok r1 \<or> enters E \<longrightarrow> place w' = n" .
  then show "(is_ok r \<or> enters E \<longrightarrow> place w' = n) \<and> (\<exists>new. deeds w' = new @ deeds w \<and> R r new)"
    using r assms(2,3) by (auto split: sum.splits)
qed

section \<open>Programs and namespaces\<close>

definition succeeded :: "exec_result \<Rightarrow> bool" where
  "succeeded x = (case x of Exited success _ _ _ \<Rightarrow> success | _ \<Rightarrow> False)"

lemma exec_thread [simp]: "exec (thread_env E) = exec_here E"
  "foreign_write (thread_env E) = write_here E"
  by (simp_all add: thread_env_def)

lemma doing_output:
  "doing E n (output_of (thread_env E) args what)
     (\<lambda>r new. \<exists>x. new = [(n, Ran args x)] \<and> (case r of Inl _ \<Rightarrow> exec_error x \<noteq> None | Inr y \<Rightarrow> y = x \<and> exec_error x = None))"
  by (rule doingI)
    (auto simp: output_of_def run_program_def run_asks exec_here_def place_def deeds_def is_ok_def
      split: prod.splits option.splits)

lemma ok_succeeded: "exec_error x = None \<Longrightarrow> ok x = succeeded x"
  by (cases x) (auto simp: exec_error_def succeeded_def)

lemma doing_program:
  assumes f: "\<And>x. exec_error x = None \<Longrightarrow> doing E n (f x) (\<lambda>r new. new = [] \<and> P r x)"
    and err: "\<And>e x. P (Inl e) x"
  shows "doing E n (tryE (output_of (thread_env E) args what) f) (\<lambda>r new. \<exists>x. new = [(n, Ran args x)] \<and> P r x)"
proof (rule doingI)
  fix w r w' assume run: "run_state (tryE (output_of (thread_env E) args what) f) w = (r, w')" and at: "place w = n"
  obtain r1 w1 where m1: "run_state (output_of (thread_env E) args what) w = (r1, w1)" by fastforce
  from doingE [OF doing_output m1 at] obtain x where x: "deeds w1 = [(n, Ran args x)] @ deeds w"
    "case r1 of Inl _ \<Rightarrow> exec_error x \<noteq> None | Inr y \<Rightarrow> y = x \<and> exec_error x = None"
    "is_ok r1 \<or> enters E \<longrightarrow> place w1 = n" by blast
  show "(is_ok r \<or> enters E \<longrightarrow> place w' = n) \<and> (\<exists>new. deeds w' = new @ deeds w \<and>
     (\<exists>x. new = [(n, Ran args x)] \<and> P r x))"
  proof (cases r1)
    case (Inl e)
    then show ?thesis using run m1 x err by (auto simp: run_tryE)
  next
    case (Inr y)
    then have run2: "run_state (f x) w1 = (r, w')" and at1: "place w1 = n" and ex: "exec_error x = None"
      using run m1 x by (auto simp: run_tryE)
    show ?thesis
      by (rule doingE [OF f [OF ex] run2 at1]) (use x in auto)
  qed
qed

lemma doing_run_ip:
  "doing E n (run_ip (thread_env E) args)
     (\<lambda>r new. \<exists>x. new = [(n, Ran (''ip'' # args) x)] \<and> (is_ok r \<longrightarrow> succeeded x))"
  unfolding run_ip_def
  by (rule doing_program) (auto simp: ok_succeeded intro: doing_ret)

lemma doing_add_addr:
  "doing E n (add_addr (thread_env E) dev c)
     (\<lambda>r new. \<exists>x. new = [(n, Ran [''ip'', ''addr'', ''add'', c, ''dev'', dev] x)])"
  unfolding add_addr_def
  by (rule doing_mono [OF doing_program [where P = "\<lambda>_ _. True"]]) (auto intro: doing_ret)

lemma doing_link_exists:
  "doing E n (link_exists (thread_env E) name)
     (\<lambda>r new. \<exists>x. new = [(n, Ran [''ip'', ''link'', ''show'', ''dev'', name] x)] \<and> (r = Inr True \<longrightarrow> succeeded x))"
  unfolding link_exists_def
  by (rule doing_program) (auto simp: ok_succeeded intro: doing_ret)

lemma doing_write:
  "doing E n (map_err g (asks (write_here E p t)))
     (\<lambda>r new. \<exists>y. new = [(n, Wrote p t y)] \<and> (is_ok r \<longrightarrow> is_ok y))"
  by (rule doingI)
    (auto simp: run_map_err run_asks write_here_def place_def deeds_def is_ok_def split: prod.splits sum.splits)

section \<open>Visits to another namespace\<close>

definition enters_at :: "'k startup_env \<Rightarrow> netns \<Rightarrow> ('k thread, unit) io \<Rightarrow> bool" where
  "enters_at E n m \<longleftrightarrow> (\<forall>w r w'. run_state m w = (r, w') \<longrightarrow>
     deeds w' = deeds w \<and> place w' = (if is_ok r then n else place w) \<and> (enters E \<longrightarrow> is_ok r))"

lemma enters_atD:
  "enters_at E n m \<Longrightarrow> run_state m w = (r, w') \<Longrightarrow>
     deeds w' = deeds w \<and> place w' = (if is_ok r then n else place w) \<and> (enters E \<longrightarrow> is_ok r)"
  unfolding enters_at_def by blast

lemma enters_setns:
  assumes "fst ns = n"
  shows "enters_at E n (setns_net E ns)"
  unfolding enters_at_def
proof (intro allI impI)
  fix w r w' assume run: "run_state (setns_net E ns) w = (r, w')"
  obtain r1 k where k: "ns_enter E n (beyond (outside w)) = (r1, k)" by fastforce
  have "enters E \<longrightarrow> is_ok r1" using k by (metis enters_def fst_conv)
  then show "deeds w' = deeds w \<and> place w' = (if is_ok r then n else place w) \<and> (enters E \<longrightarrow> is_ok r)"
    using run k assms
    by (cases r1) (auto simp: setns_net_def on_beyond_def run_asks place_def deeds_def)
qed

lemma enters_map_err: "enters_at E n m \<Longrightarrow> enters_at E n (map_err g m)"
  unfolding enters_at_def by (auto simp: run_map_err split: prod.splits sum.splits) (metis is_ok_simps)+

lemma doing_visit:
  assumes go: "enters_at E m go" and home: "enters_at E n leave" and f: "doing E m f Q"
    and j: "\<And>r b. is_ok (j r b) \<Longrightarrow> is_ok b \<and> is_ok r \<and> R (j r b) r"
  shows "doing E n (seqE go (do { r \<leftarrow> f; b \<leftarrow> leave; ret (j r b) }))
    (\<lambda>r new. new = [] \<and> \<not> is_ok r \<or> (\<exists>r1. Q r1 new \<and> (is_ok r \<longrightarrow> is_ok r1 \<and> R r r1)))"
    (is "doing E n ?m ?P")
proof (rule doingI)
  fix w r w' assume run: "run_state ?m w = (r, w')" and at: "place w = n"
  obtain r1 w1 where r1: "run_state go w = (r1, w1)" by fastforce
  note g = enters_atD [OF go r1]
  show "(is_ok r \<or> enters E \<longrightarrow> place w' = n) \<and> (\<exists>new. deeds w' = new @ deeds w \<and> ?P r new)"
  proof (cases r1)
    case (Inl e)
    then show ?thesis using run r1 g at by (auto simp: run_tryE)
  next
    case (Inr u)
    obtain r2 w2 where r2: "run_state f w1 = (r2, w2)" by fastforce
    obtain r3 w3 where r3: "run_state leave w2 = (r3, w3)" by (metis prod.exhaust)
    have at1: "place w1 = m" using g Inr by simp
    from doingE [OF f r2 at1] obtain new where new: "deeds w2 = new @ deeds w1" "Q r2 new" by blast
    have "r = j r2 r3" "w' = w3" using run r1 r2 r3 Inr by (auto simp: run_tryE)
    then show ?thesis using enters_atD [OF home r3] new g j [of r2 r3] by auto
  qed
qed

lemma doing_open_current:
  "doing E n (open_current E what) (\<lambda>r new. new = [] \<and> (\<forall>h. r = Inr h \<longrightarrow> fst h = n))"
  by (rule doingI)
    (auto simp: open_current_def on_beyond_def run_asks place_def deeds_def split: prod.splits sum.splits)

lemma doing_open_ns:
  "doing E n (open_ns E p what) (\<lambda>r new. new = [] \<and> (\<forall>h. r = Inr h \<longrightarrow> fst h = at_path E p))"
  by (rule doingI)
    (auto simp: open_ns_def on_beyond_def run_asks place_def deeds_def split: prod.splits sum.splits)

text \<open>Where two descriptors are opened first, the rest knows which namespaces they are.\<close>

lemma doing_opened:
  assumes "\<And>a b. fst a = n \<Longrightarrow> fst b = at_path E p \<Longrightarrow> doing E n (f a b) Q"
    and "\<And>e. Q (Inl e) []"
  shows "doing E n (tryE (open_current E what) (\<lambda>a. tryE (open_ns E p what') (f a))) Q"
proof (rule doingI)
  fix w r w' assume run: "run_state (tryE (open_current E what) (\<lambda>a. tryE (open_ns E p what') (f a))) w = (r, w')"
    and at: "place w = n"
  obtain r1 w1 where r1: "run_state (open_current E what) w = (r1, w1)" by fastforce
  from doingE [OF doing_open_current r1 at] have
    a: "deeds w1 = deeds w" "\<forall>h. r1 = Inr h \<longrightarrow> fst h = n" "is_ok r1 \<or> enters E \<longrightarrow> place w1 = n" by auto
  show "(is_ok r \<or> enters E \<longrightarrow> place w' = n) \<and> (\<exists>new. deeds w' = new @ deeds w \<and> Q r new)"
  proof (cases r1)
    case (Inl e)
    then show ?thesis using run r1 a assms(2) by (auto simp: run_tryE)
  next
    case (Inr h)
    then have at1: "place w1 = n" using a by simp
    obtain r2 w2 where r2: "run_state (open_ns E p what') w1 = (r2, w2)" by fastforce
    from doingE [OF doing_open_ns r2 at1] have
      b: "deeds w2 = deeds w" "\<forall>h. r2 = Inr h \<longrightarrow> fst h = at_path E p" "is_ok r2 \<or> enters E \<longrightarrow> place w2 = n"
      using a by auto
    show ?thesis
    proof (cases r2)
      case (Inl e)
      then show ?thesis using run r1 r2 Inr b assms(2) by (auto simp: run_tryE)
    next
      case (Inr h')
      then have run3: "run_state (f h h') w2 = (r, w')" and at2: "place w2 = n"
        using run r1 r2 \<open>r1 = Inr h\<close> b by (auto simp: run_tryE)
      have "doing E n (f h h') Q" using a b Inr \<open>r1 = Inr h\<close> assms(1) by simp
      then show ?thesis
        by (rule doingE [OF _ run3 at2]) (use b in auto)
    qed
  qed
qed

definition visited :: "'a outcome_of \<Rightarrow> 'a outcome_of" where
  "visited Q r new \<longleftrightarrow> new = [] \<and> \<not> is_ok r \<or> (\<exists>r1. Q r1 new \<and> (is_ok r \<longrightarrow> r1 = r))"

lemma doing_with_netns:
  assumes f: "doing E (at_path E p) f Q"
  shows "doing E n (with_netns E p f) (visited Q)"
  unfolding with_netns_def
proof (rule doing_opened)
  fix a b :: "netns \<times> nat" assume ab: "fst a = n" "fst b = at_path E p"
  show "doing E n (seqE (map_err (\<lambda>e. ''setns '' @ p @ '': '' @ e) (setns_net E b)) (do {
     r \<leftarrow> f;
     back \<leftarrow> map_err (\<lambda>e. ''setns back: '' @ e) (setns_net E a);
     ret (case r of Inl e \<Rightarrow> Inl e | Inr v \<Rightarrow> (case back of Inl e \<Rightarrow> Inl e | Inr _ \<Rightarrow> Inr v)) }))
     (visited Q)"
    by (rule doing_mono [OF doing_visit [OF enters_map_err [OF enters_setns [OF ab(2)]]
          enters_map_err [OF enters_setns [OF ab(1)]] f, where R = "\<lambda>r r1. r1 = r"]])
      (auto simp: visited_def is_ok_def split: sum.splits)
qed (simp add: visited_def)

lemma doing_move_nic:
  "doing E n (move_nic E name) (\<lambda>r new. new = [] \<and> \<not> is_ok r \<or>
     (\<exists>x p. new = [(at_path E HOST_NS, Ran [''ip'', ''link'', ''set'', name, ''netns'', p] x)] \<and> (is_ok r \<longrightarrow> succeeded x)))"
  (is "doing E n _ ?Q")
  unfolding move_nic_def
proof (rule doing_opened)
  fix a b :: "netns \<times> nat" assume ab: "fst a = n" "fst b = at_path E HOST_NS"
  show "doing E n (seqE (map_err (\<lambda>e. ''setns host: '' @ e) (setns_net E b)) (do {
       moved \<leftarrow> run_ip (thread_env E) [''link'', ''set'', name, ''netns'', netns_path E a];
       back \<leftarrow> setns_net E a;
       ret (case moved of
              Inl e \<Rightarrow> Inl e
            | Inr _ \<Rightarrow> (case back of Inl e \<Rightarrow> Inl (''setns fwd: '' @ e) | Inr _ \<Rightarrow> Inr ())) })) ?Q"
    by (rule doing_mono [OF doing_visit [OF enters_map_err [OF enters_setns [OF ab(2)]]
          enters_setns [OF ab(1)] doing_run_ip, where R = "\<lambda>r r1. True"]])
      (auto split: sum.split_asm)
qed simp

end
