(* ===== verification/Startup_Claims.thy ===== *)
theory Startup_Claims
  imports Startup_Properties
begin

text \<open>
  Where Network startup does what (\<open>placed\<close>), that a NIC is locked before it is up
  (\<open>locked_first\<close>), and that all Traffic NICs are claimed where it succeeds (\<open>claimed\<close>).
\<close>

section \<open>Places\<close>

definition HOST_RUNS :: "string list list" where
  "HOST_RUNS =
     [[''ip'', ''link'', ''show'', ''dev'', HOST_VETH],
      [''ip'', ''link'', ''add'', HOST_VETH, ''type'', ''veth'', ''peer'', ''name'', MGMT_VETH],
      [''ip'', ''addr'', ''add'', HOST_VETH_ADDR, ''dev'', HOST_VETH],
      [''ip'', ''link'', ''set'', HOST_VETH, ''up''],
      [''ip'', ''route'', ''replace'', ''default'', ''via'', HOST_VETH_GW],
      [''ip'', ''-j'', ''-d'', ''link'', ''show'']]"

definition MGMT_RUNS :: "string list list" where
  "MGMT_RUNS =
     [[''ip'', ''addr'', ''add'', MGMT_VETH_ADDR, ''dev'', MGMT_VETH],
      [''ip'', ''link'', ''set'', MGMT_VETH, ''up''],
      [''ip'', ''addr'', ''add'', MGMT_FWD_ADDR, ''dev'', MGMT_FWD_VETH],
      [''ip'', ''addr'', ''add'', MGMT_FWD_IP6 @ ''/64'', ''dev'', MGMT_FWD_VETH],
      [''ip'', ''link'', ''set'', MGMT_FWD_VETH, ''up''],
      [''ip'', ''route'', ''replace'', ''default'', ''via'', FWD_MGMT_GW],
      [''ip'', ''-6'', ''route'', ''replace'', ''default'', ''via'', FWD_MGMT_GW6]]"

definition FWD_RUNS :: "string list list" where
  "FWD_RUNS =
     [[''ip'', ''link'', ''add'', FWD_MGMT_VETH, ''type'', ''veth'', ''peer'', ''name'', MGMT_FWD_VETH],
      [''ip'', ''link'', ''set'', MGMT_FWD_VETH, ''netns'', MGMT_NS],
      [''ip'', ''addr'', ''add'', FWD_MGMT_ADDR, ''dev'', FWD_MGMT_VETH],
      [''ip'', ''addr'', ''add'', FWD_MGMT_ADDR6, ''dev'', FWD_MGMT_VETH],
      [''ip'', ''route'', ''replace'', ''169.254.127.0/30'', ''via'', MGMT_FWD_IP, ''dev'', FWD_MGMT_VETH]]"

text \<open>The host's namespace only gets its own end of the link, a default route, and NICs moved
  out of it; no sysctl of it is written.\<close>

definition host_deed :: "deed \<Rightarrow> bool" where
  "host_deed d = (case d of
     Ran args _ \<Rightarrow> args \<in> set HOST_RUNS \<or> (\<exists>name p. args = [''ip'', ''link'', ''set'', name, ''netns'', p])
   | Wrote _ _ _ \<Rightarrow> False)"

definition mgmt_deed :: "deed \<Rightarrow> bool" where
  "mgmt_deed d = (case d of Ran args _ \<Rightarrow> args \<in> set MGMT_RUNS | Wrote p t _ \<Rightarrow> p = IP_FORWARD \<and> t = ''1'')"

definition sysctl_path :: "string \<Rightarrow> string \<Rightarrow> string \<Rightarrow> string" where
  "sysctl_path fam nic key = ''/proc/sys/net/'' @ fam @ ''/conf/'' @ nic @ ''/'' @ key"

definition fwd_deed :: "deed \<Rightarrow> bool" where
  "fwd_deed d = (case d of
     Ran args _ \<Rightarrow> args \<in> set FWD_RUNS
       \<or> (\<exists>name. args = [''ip'', ''link'', ''show'', ''dev'', name] \<or> args = [''ip'', ''addr'', ''flush'', ''dev'', name]
            \<or> args = [''ip'', ''link'', ''set'', name, ''up''])
   | Wrote p t _ \<Rightarrow> p = IP_FORWARD \<and> t = ''1'' \<or> (\<exists>fam nic key. p = sysctl_path fam nic key))"

definition makes_netns :: "deed \<Rightarrow> bool" where
  "makes_netns d = (case d of Ran args _ \<Rightarrow> take 2 args = [''ip'', ''netns''] | Wrote _ _ _ \<Rightarrow> False)"

definition placed :: "'k startup_env \<Rightarrow> netns \<Rightarrow> netns \<times> deed \<Rightarrow> bool" where
  "placed E start = (\<lambda>(n, d).
     n = start \<and> makes_netns d \<or> n = at_path E HOST_NS \<and> host_deed d
     \<or> n = at_path E MGMT_NS \<and> mgmt_deed d \<or> n = at_path E FWD_NS \<and> fwd_deed d)"

section \<open>Locked before up\<close>

definition brings_up :: "deed \<Rightarrow> string option" where
  "brings_up d = (case d of
     Ran args _ \<Rightarrow>
       if length args = 5 \<and> take 3 args = [''ip'', ''link'', ''set''] \<and> args ! 4 = ''up'' then Some (args ! 3) else None
   | Wrote _ _ _ \<Rightarrow> None)"

definition plumbing :: "string list" where
  "plumbing = [HOST_VETH, MGMT_VETH, FWD_MGMT_VETH, MGMT_FWD_VETH]"

text \<open>Router advertisements and autoconfiguration are off, and its addresses are gone, in \<open>fwd\<close>.\<close>

definition locked :: "'k startup_env \<Rightarrow> string \<Rightarrow> (netns \<times> deed) list \<Rightarrow> bool" where
  "locked E name ds \<longleftrightarrow>
     (at_path E FWD_NS, Wrote (sysctl_path ''ipv6'' name ''accept_ra'') ''0'' (Inr ())) \<in> set ds
     \<and> (at_path E FWD_NS, Wrote (sysctl_path ''ipv6'' name ''autoconf'') ''0'' (Inr ())) \<in> set ds
     \<and> (at_path E FWD_NS, Wrote (sysctl_path ''ipv4'' name ''rp_filter'') ''2'' (Inr ())) \<in> set ds
     \<and> (\<exists>x. succeeded x \<and> (at_path E FWD_NS, Ran [''ip'', ''addr'', ''flush'', ''dev'', name] x) \<in> set ds)"

fun locked_first :: "'k startup_env \<Rightarrow> (netns \<times> deed) list \<Rightarrow> bool" where
  "locked_first E [] \<longleftrightarrow> True"
| "locked_first E ((n, d) # earlier) \<longleftrightarrow>
     (case brings_up d of Some name \<Rightarrow> name \<in> set plumbing \<or> locked E name earlier | None \<Rightarrow> True)
     \<and> locked_first E earlier"

lemma locked_append: "locked E name a \<or> locked E name b \<Longrightarrow> locked E name (a @ b)"
  unfolding locked_def by (elim disjE conjE exE) auto

lemma locked_first_append: "locked_first E a \<Longrightarrow> locked_first E b \<Longrightarrow> locked_first E (a @ b)"
  by (induction a) (auto split: option.splits intro: locked_append)

definition orderly :: "'k startup_env \<Rightarrow> netns \<Rightarrow> (netns \<times> deed) list \<Rightarrow> bool" where
  "orderly E start ds \<longleftrightarrow> list_all (placed E start) ds \<and> locked_first E ds"

lemma orderly_nil [simp]: "orderly E start []"
  by (simp add: orderly_def)

lemma orderly_append: "orderly E start a \<Longrightarrow> orderly E start b \<Longrightarrow> orderly E start (a @ b)"
  by (simp add: orderly_def locked_first_append)

section \<open>Steps that claim\<close>

text \<open>\<open>achieving E start n m C\<close>: what \<open>m\<close> does from \<open>n\<close> is orderly, and has \<open>C\<close> where it succeeds.\<close>

definition achieving ::
    "'k startup_env \<Rightarrow> netns \<Rightarrow> netns \<Rightarrow> ('k thread, 'a) io \<Rightarrow> ('a \<Rightarrow> (netns \<times> deed) list \<Rightarrow> bool) \<Rightarrow> bool" where
  "achieving E start n m C \<longleftrightarrow>
     doing E n m (\<lambda>r new. orderly E start new \<and> (\<forall>a. r = Inr a \<longrightarrow> C a new))"

abbreviation tidy :: "'k startup_env \<Rightarrow> netns \<Rightarrow> netns \<Rightarrow> ('k thread, 'a) io \<Rightarrow> bool" where
  "tidy E start n m \<equiv> achieving E start n m (\<lambda>_ _. True)"

lemma achieving_mono:
  "achieving E start n m C \<Longrightarrow> (\<And>a new. C a new \<Longrightarrow> D a new) \<Longrightarrow> achieving E start n m D"
  unfolding achieving_def by (erule doing_mono) auto

lemma achieving_ret: "(\<And>a. r = Inr a \<Longrightarrow> C a []) \<Longrightarrow> achieving E start n (ret r) C"
  unfolding achieving_def by (rule doing_ret) auto

lemma achieving_tryE:
  assumes "achieving E start n m C" and "\<And>a. achieving E start n (f a) (D a)"
  shows "achieving E start n (tryE m f) (\<lambda>b new. \<exists>a l1 l2. C a l1 \<and> D a b l2 \<and> new = l2 @ l1)"
  unfolding achieving_def
  by (rule doing_mono [OF doing_tryE [OF assms(1) [unfolded achieving_def] assms(2) [unfolded achieving_def]]])
    (auto intro: orderly_append)

lemma tidy_tryE: "tidy E start n m \<Longrightarrow> (\<And>a. tidy E start n (f a)) \<Longrightarrow> tidy E start n (tryE m f)"
  by (rule achieving_mono [OF achieving_tryE]) auto

lemma tidy_if: "tidy E start n m \<Longrightarrow> tidy E start n m' \<Longrightarrow> tidy E start n (if b then m else m')"
  by simp

lemma achieving_forE:
  assumes "\<And>x. achieving E start n (f x) (\<lambda>_. C x)"
    and up: "\<And>x a b. C x a \<or> C x b \<Longrightarrow> C x (a @ b)"
  shows "achieving E start n (forE f xs) (\<lambda>_ new. \<forall>x \<in> set xs. C x new)"
proof (induction xs)
  case Nil
  show ?case by (simp add: achieving_ret)
next
  case (Cons x xs)
  show ?case
    by (simp, rule achieving_mono [OF achieving_tryE [OF assms(1) Cons.IH]]) (use up in blast)
qed

lemma achieving_with_netns:
  assumes "achieving E start (at_path E p) f C"
  shows "achieving E start n (with_netns E p f) C"
  unfolding achieving_def
  by (rule doing_mono [OF doing_with_netns [OF assms [unfolded achieving_def]]]) (auto simp: visited_def)

lemma tidy_run_ip:
  "(\<And>x. orderly E start [(n, Ran (''ip'' # args) x)]) \<Longrightarrow> tidy E start n (run_ip (thread_env E) args)"
  unfolding achieving_def by (rule doing_mono [OF doing_run_ip]) auto

lemma tidy_add_addr:
  "(\<And>x. orderly E start [(n, Ran [''ip'', ''addr'', ''add'', c, ''dev'', dev] x)])
    \<Longrightarrow> tidy E start n (add_addr (thread_env E) dev c)"
  unfolding achieving_def by (rule doing_mono [OF doing_add_addr]) auto

lemma tidy_write:
  "(\<And>y. orderly E start [(n, Wrote p t y)]) \<Longrightarrow> tidy E start n (map_err g (asks (write_here E p t)))"
  unfolding achieving_def by (rule doing_mono [OF doing_write]) auto

lemma tidy_program:
  "(\<And>x. orderly E start [(n, Ran args x)])
    \<Longrightarrow> (\<And>x. exec_error x = None \<Longrightarrow> doing E n (f x) (\<lambda>_ new. new = []))
    \<Longrightarrow> tidy E start n (tryE (output_of (thread_env E) args what) f)"
  unfolding achieving_def by (rule doing_mono [OF doing_program [where P = "\<lambda>_ _. True"]]) auto

section \<open>The program\<close>

lemmas orderly_one = orderly_def placed_def brings_up_def

lemmas deed_sets = host_deed_def mgmt_deed_def fwd_deed_def HOST_RUNS_def MGMT_RUNS_def FWD_RUNS_def plumbing_def

lemmas tidy_steps = tidy_tryE tidy_if tidy_run_ip tidy_add_addr tidy_write tidy_program achieving_with_netns

lemma doing_okE [simp]: "doing E n (ret r) (\<lambda>_ new. new = [])"
  by (rule doing_ret) simp

lemma tidy_ret [simp]: "tidy E start n (ret r)"
  by (simp add: achieving_ret)

lemma tidy_host_veth: "tidy E start n (ensure_host_mgmt_veth E)"
  unfolding ensure_host_mgmt_veth_def host_veth_there_def with_host_net_def with_mgmt_net_def
  by (intro tidy_steps tidy_ret doing_okE) (auto simp: orderly_one deed_sets)

lemma tidy_host_default: "tidy E start n (host_default_via_mgmt E)"
  unfolding host_default_via_mgmt_def with_host_net_def
  by (intro tidy_steps) (auto simp: orderly_one deed_sets)

lemma tidy_fwd_veth: "tidy E start (at_path E FWD_NS) (ensure_fwd_mgmt_veth E)"
  unfolding ensure_fwd_mgmt_veth_def add_fwd_mgmt_veth_def link_exists_def with_mgmt_net_def
  by (intro tidy_steps tidy_ret doing_okE) (auto simp: orderly_one deed_sets)

lemma tidy_mgmt_routes: "tidy E start (at_path E MGMT_NS) (mgmt_routes E)"
  unfolding mgmt_routes_def put_file_def exec_thread
  by (intro tidy_steps) (auto simp: orderly_one deed_sets)

lemma sysctl_write:
  "write_sysctl (thread_env E) nic fam key val =
     map_err (\<lambda>e. ''write '' @ sysctl_path fam nic key @ '': '' @ e) (asks (write_here E (sysctl_path fam nic key) val))"
  by (simp add: write_sysctl_def sysctl_path_def)

lemma orderly_sysctl: "orderly E start [(at_path E FWD_NS, Wrote (sysctl_path fam nic key) val y)]"
  by (auto simp: orderly_one fwd_deed_def)

lemma tidy_sysctl: "tidy E start (at_path E FWD_NS) (write_sysctl (thread_env E) nic fam key val)"
  unfolding sysctl_write by (intro tidy_write orderly_sysctl)

lemma tidy_plumbing: "tidy E start (at_path E FWD_NS) (setup_plumbing E)"
  unfolding setup_plumbing_def with_mgmt_net_def put_file_def exec_thread
  by (intro tidy_tryE tidy_fwd_veth tidy_host_veth tidy_host_default achieving_with_netns tidy_mgmt_routes
      tidy_write tidy_sysctl tidy_run_ip) (auto simp: orderly_one deed_sets)

section \<open>Claiming the Traffic NICs\<close>

definition in_fwd :: "'k startup_env \<Rightarrow> string \<Rightarrow> (netns \<times> deed) list \<Rightarrow> bool" where
  "in_fwd E name ds \<longleftrightarrow> (\<exists>x. succeeded x \<and>
     ((at_path E FWD_NS, Ran [''ip'', ''link'', ''show'', ''dev'', name] x) \<in> set ds
      \<or> (\<exists>p. (at_path E HOST_NS, Ran [''ip'', ''link'', ''set'', name, ''netns'', p] x) \<in> set ds)))"

definition is_up :: "'k startup_env \<Rightarrow> string \<Rightarrow> (netns \<times> deed) list \<Rightarrow> bool" where
  "is_up E name ds \<longleftrightarrow>
     (\<exists>x. succeeded x \<and> (at_path E FWD_NS, Ran [''ip'', ''link'', ''set'', name, ''up''] x) \<in> set ds)"

definition claimed :: "'k startup_env \<Rightarrow> string \<Rightarrow> (netns \<times> deed) list \<Rightarrow> bool" where
  "claimed E name ds \<longleftrightarrow> in_fwd E name ds \<and> locked E name ds \<and> is_up E name ds"

lemma claimed_append: "claimed E name a \<or> claimed E name b \<Longrightarrow> claimed E name (a @ b)"
proof -
  have "in_fwd E name a \<or> in_fwd E name b \<Longrightarrow> in_fwd E name (a @ b)"
    and "is_up E name a \<or> is_up E name b \<Longrightarrow> is_up E name (a @ b)"
    unfolding in_fwd_def is_up_def by (simp_all only: set_append Un_iff) blast+
  then show "claimed E name a \<or> claimed E name b \<Longrightarrow> claimed E name (a @ b)"
    unfolding claimed_def using locked_append [of E name a b] by blast
qed

lemma achieving_move:
  "achieving E start (at_path E FWD_NS) (move_nic E name) (\<lambda>_. in_fwd E name)"
  unfolding achieving_def
  by (rule doing_mono [OF doing_move_nic]) (auto simp: orderly_one host_deed_def in_fwd_def)

lemma achieving_link_exists:
  "achieving E start (at_path E FWD_NS) (link_exists (thread_env E) name) (\<lambda>there new. there \<longrightarrow> in_fwd E name new)"
  unfolding achieving_def
  by (rule doing_mono [OF doing_link_exists]) (auto simp: orderly_one fwd_deed_def in_fwd_def)

lemma in_fwd_append: "in_fwd E name a \<or> in_fwd E name b \<Longrightarrow> in_fwd E name (a @ b)"
  unfolding in_fwd_def by (simp only: set_append Un_iff) blast

lemma achieving_ensure:
  "achieving E start (at_path E FWD_NS) (ensure_in_fwd E name) (\<lambda>_. in_fwd E name)"
proof -
  have move: "achieving E start (at_path E FWD_NS) (if there then okE () else move_nic E name)
      (\<lambda>_ new. \<not> there \<longrightarrow> in_fwd E name new)" for there
    by (auto intro: achieving_ret achieving_mono [OF achieving_move])
  show ?thesis
    unfolding ensure_in_fwd_def
    by (intro achieving_mono [OF achieving_tryE [OF achieving_link_exists move]]) (auto intro: in_fwd_append)
qed

text \<open>The lock of a NIC, and its last command, which is orderly only after the lock.\<close>

lemma ok_unit: "is_ok y \<Longrightarrow> y = Inr ()"
  by (cases y) auto

lemma achieving_sysctl:
  "achieving E start (at_path E FWD_NS) (write_sysctl (thread_env E) nic fam key val)
     (\<lambda>_ new. new = [(at_path E FWD_NS, Wrote (sysctl_path fam nic key) val (Inr ()))])"
  unfolding achieving_def sysctl_write
  by (rule doing_mono [OF doing_write]) (auto simp: orderly_sysctl dest!: ok_unit)

lemma achieving_flush:
  "achieving E start (at_path E FWD_NS) (run_ip (thread_env E) [''addr'', ''flush'', ''dev'', name])
     (\<lambda>_ new. \<exists>x. succeeded x \<and> new = [(at_path E FWD_NS, Ran [''ip'', ''addr'', ''flush'', ''dev'', name] x)])"
  unfolding achieving_def
  by (rule doing_mono [OF doing_run_ip]) (auto simp: orderly_one fwd_deed_def)

lemma achieving_lock:
  "achieving E start (at_path E FWD_NS) (lock_unopted (thread_env E) name) (\<lambda>_. locked E name)"
  unfolding lock_unopted_def
  by (rule achieving_mono [OF achieving_tryE [OF achieving_sysctl
        achieving_tryE [OF achieving_sysctl achieving_tryE [OF achieving_sysctl achieving_flush]]]])
    (auto simp: locked_def)

lemma orderly_up:
  "locked E name ds \<Longrightarrow> orderly E start ds
    \<Longrightarrow> orderly E start ((at_path E FWD_NS, Ran [''ip'', ''link'', ''set'', name, ''up''] x) # ds)"
  by (simp add: orderly_one fwd_deed_def)

lemma achieving_up:
  assumes "achieving E start (at_path E FWD_NS) m (\<lambda>_. locked E name)"
  shows "achieving E start (at_path E FWD_NS) (seqE m (run_ip (thread_env E) [''link'', ''set'', name, ''up'']))
    (\<lambda>_ new. locked E name new \<and> is_up E name new)"
  unfolding achieving_def
proof (rule doing_mono [OF doing_tryE [OF assms [unfolded achieving_def] doing_run_ip]])
  fix r new
  assume "(\<exists>e. (orderly E start new \<and> (\<forall>a. Inl e = Inr a \<longrightarrow> locked E name new)) \<and> r = Inl e) \<or>
    (\<exists>a l1 l2. (orderly E start l1 \<and> (\<forall>b. Inr a = Inr b \<longrightarrow> locked E name l1)) \<and>
      (\<exists>x. l2 = [(at_path E FWD_NS, Ran (''ip'' # [''link'', ''set'', name, ''up'']) x)] \<and> (is_ok r \<longrightarrow> succeeded x)) \<and>
      new = l2 @ l1)"
  then show "orderly E start new \<and> (\<forall>a. r = Inr a \<longrightarrow> locked E name new \<and> is_up E name new)"
    by (elim disjE exE conjE) (auto simp: orderly_up locked_def is_up_def)
qed

lemma achieving_claim:
  "achieving E start (at_path E FWD_NS) (claim_nic E name) (\<lambda>_. claimed E name)"
proof -
  have "is_up E name a \<Longrightarrow> is_up E name (a @ b)" for a b by (auto simp: is_up_def)
  then show ?thesis
    unfolding claim_nic_def
    by (intro achieving_mono [OF achieving_tryE [OF achieving_ensure achieving_up [OF achieving_lock]]])
      (auto simp: claimed_def intro: in_fwd_append locked_append)
qed

text \<open>What the host's namespace lists.\<close>

definition listed :: "'k startup_env \<Rightarrow> exec_result \<Rightarrow> string list option" where
  "listed E x =
     (case bindE (json_of_text (codec (other_calls E)) (stdout x)) links_of_json of
        Inl _ \<Rightarrow> None
      | Inr links \<Rightarrow> Some (traffic_nics_of links))"

definition listing :: "'k startup_env \<Rightarrow> string list \<Rightarrow> (netns \<times> deed) list \<Rightarrow> bool" where
  "listing E names ds \<longleftrightarrow> (\<exists>x. succeeded x \<and> listed E x = Some names
     \<and> (at_path E HOST_NS, Ran [''ip'', ''-j'', ''-d'', ''link'', ''show''] x) \<in> set ds)"

lemma doing_listing:
  "exec_error x = None \<Longrightarrow> doing E n (if \<not> ok x then errE e
      else (case bindE (json_of_text (codec (thread_env E)) (stdout x)) links_of_json of
               Inl e \<Rightarrow> errE (''parse Traffic NIC metadata: '' @ e)
             | Inr links \<Rightarrow> okE (traffic_nics_of links)))
    (\<lambda>r new. new = [] \<and> (\<forall>names. r = Inr names \<longrightarrow> succeeded x \<and> listed E x = Some names))"
  by (auto simp: ok_succeeded listed_def thread_env_def intro!: doing_ret split: sum.splits)

lemma achieving_listing:
  "achieving E start (at_path E HOST_NS) (traffic_nic_names (thread_env E)) (listing E)"
  unfolding achieving_def traffic_nic_names_def
  by (rule doing_mono [OF doing_program [OF doing_listing]])
    (auto simp: orderly_one host_deed_def HOST_RUNS_def listing_def)

definition claims :: "'k startup_env \<Rightarrow> (netns \<times> deed) list \<Rightarrow> bool" where
  "claims E ds \<longleftrightarrow> (\<exists>names. listing E names ds \<and> list_all (\<lambda>name. claimed E name ds) names)"

lemma claims_append: "claims E a \<or> claims E b \<Longrightarrow> claims E (a @ b)"
proof -
  have "listing E names a \<or> listing E names b \<Longrightarrow> listing E names (a @ b)" for names
    unfolding listing_def by (elim disjE exE conjE) auto
  then show "claims E a \<or> claims E b \<Longrightarrow> claims E (a @ b)"
    unfolding claims_def list_all_iff using claimed_append by metis
qed

lemma achieving_claims:
  "achieving E start (at_path E FWD_NS) (claim_traffic_nics E) (\<lambda>_. claims E)"
proof -
  have "listing E names a \<Longrightarrow> \<forall>name \<in> set names. claimed E name b \<Longrightarrow> claims E (b @ a)" for names a b
    unfolding claims_def list_all_iff listing_def using claimed_append [of E _ b a] by fastforce
  then show ?thesis
    unfolding claim_traffic_nics_def with_host_net_def
    by (intro achieving_mono [OF achieving_tryE [OF achieving_with_netns [OF achieving_listing]
          achieving_forE [OF achieving_claim claimed_append]]]) blast+
qed

lemma achieving_prepare: "achieving E start n (prepare_network E) (\<lambda>_. claims E)"
proof -
  have "achieving E start (at_path E FWD_NS) (seqE (setup_plumbing E) (claim_traffic_nics E)) (\<lambda>_. claims E)"
    by (rule achieving_mono [OF achieving_tryE [OF tidy_plumbing achieving_claims]]) (auto intro: claims_append)
  then show ?thesis unfolding prepare_network_def by (rule achieving_with_netns)
qed

section \<open>Making the namespaces\<close>

lemma doing_is_there: "doing E n (State_Monad.bind (is_there E p) (\<lambda>b. ret (g b))) (\<lambda>_ new. new = [])"
  by (rule doingI) (auto simp: is_there_def on_beyond_def run_asks place_def deeds_def split: prod.splits)

lemma tidy_run_status:
  "take 2 args = [''ip'', ''netns''] \<Longrightarrow> brings_up (Ran args undefined) = None
    \<Longrightarrow> tidy E n n (run_status E args a b)"
  unfolding run_status_def
  by (intro tidy_program) (auto simp: orderly_one makes_netns_def split: if_splits)

lemma tidy_is_there:
  assumes "\<And>b. tidy E n n (f b)"
  shows "tidy E n n (State_Monad.bind (is_there E p) f)"
proof -
  have "tidy E n n (tryE (State_Monad.bind (is_there E p) (\<lambda>b. ret (Inr b))) f)"
    by (intro tidy_tryE assms)
      (use doing_is_there [of E n p Inr] in \<open>auto simp: achieving_def elim!: doing_mono\<close>)
  then show ?thesis by (simp add: tryE_def)
qed

lemma doing_looked_again:
  "doing E n (do { after \<leftarrow> (if ok x then ret True else is_there E p); if after then okE () else errE e })
    (\<lambda>_ new. new = [])"
proof (cases "ok x")
  case False
  have same: "(\<lambda>b. if b then okE () else errE e) = (\<lambda>b. ret (if b then Inr () else Inl e))" by auto
  from doing_is_there [of E n p "\<lambda>b. if b then Inr () else Inl e"] False
  show ?thesis by (simp only: same if_False simp_thms)
qed simp

lemma tidy_ensure_netns: "tidy E n n (ensure_netns E name)"
  unfolding ensure_netns_def
  by (intro tidy_is_there tidy_if tidy_ret tidy_program doing_looked_again)
    (auto simp: orderly_one makes_netns_def)

lemma tidy_make_netns: "tidy E n n (make_netns E name)"
  unfolding make_netns_def up_lo_def enable_v4_forward_def lock_autoconf_def
  by (intro tidy_tryE tidy_ensure_netns tidy_run_status) (auto simp: brings_up_def)

lemma tidy_forE: "(\<And>x. tidy E start n (f x)) \<Longrightarrow> tidy E start n (forE f xs)"
  by (induction xs) (auto intro: tidy_tryE)

lemma achieving_start_up: "achieving E n n (start_up E) (\<lambda>_. claims E)"
  unfolding start_up_def
  by (rule achieving_mono [OF achieving_tryE [OF tidy_forE [OF tidy_make_netns] achieving_prepare]])
    (auto intro: claims_append)

section \<open>Properties\<close>

text \<open>
  C34. Whatever fails, Network startup does everything in its place: the host's namespace
  only gets its end of the management link, a default route and NICs moved out of it; the
  management namespace its two ends, routes and forwarding; everything else is done in
  \<open>fwd\<close>, or makes the namespaces. No NIC but the fixed links is brought up anywhere before
  its router advertisements, autoconfiguration and addresses are off in \<open>fwd\<close>. The thread ends
  where it started, unless entering a namespace again failed, and then it fails.
\<close>

theorem startup_keeps_places:
  assumes "run_state (start_up E) w = (r, w')" and "did (outside w) = []"
  shows "list_all (placed E (current (outside w))) (did (outside w'))
    \<and> locked_first E (did (outside w'))
    \<and> (is_ok r \<or> enters E \<longrightarrow> current (outside w') = current (outside w))"
proof -
  have "place w = current (outside w)" by (simp add: place_def)
  from doingE [OF achieving_start_up [unfolded achieving_def] assms(1) this]
  show ?thesis using assms(2) by (auto simp: deeds_def place_def orderly_def)
qed


end
