(* ===== verification/Startup_Sample.thy ===== *)
theory Startup_Sample
  imports Startup_Claims Sample
begin

text \<open>
  On a machine where nothing fails Network startup succeeds, whatever links there were before;
  and the properties of it on one such machine, with two Traffic NICs.
\<close>

section \<open>Success\<close>

definition shows_link :: "string list \<Rightarrow> bool" where
  "shows_link args \<longleftrightarrow> take 4 args = [''ip'', ''link'', ''show'', ''dev'']"

text \<open>Programs exit, all but questions for a link with success, and the list of links reads.\<close>

definition smooth :: "'k startup_env \<Rightarrow> bool" where
  "smooth E \<longleftrightarrow>
     (\<forall>n args k. exec_error (fst (ns_exec E n args k)) = None \<and> (shows_link args \<or> ok (fst (ns_exec E n args k))))
     \<and> (\<forall>n k. listed E (fst (ns_exec E n [''ip'', ''-j'', ''-d'', ''link'', ''show''] k)) \<noteq> None)
     \<and> (\<forall>n p t k. is_ok (fst (ns_write E n p t k)))
     \<and> (\<forall>p k. is_ok (fst (ns_open E p k))) \<and> enters E"

definition smoothly :: "('s, 'a res) state \<Rightarrow> bool" where
  "smoothly m \<longleftrightarrow> (\<forall>w. is_ok (fst (run_state m w)))"

lemma smoothlyD: "smoothly m \<Longrightarrow> run_state m w = (r, w') \<Longrightarrow> is_ok r"
  unfolding smoothly_def by (metis fst_conv)

lemma smoothly_ok: "smoothly (okE a)"
  by (simp add: smoothly_def)

lemma smoothly_tryE: "smoothly m \<Longrightarrow> (\<And>a. smoothly (f a)) \<Longrightarrow> smoothly (tryE m f)"
  unfolding smoothly_def by (auto simp: run_tryE is_ok_iff split: prod.splits sum.splits) (metis fst_conv sum.distinct(1))

lemma smoothly_if: "smoothly m \<Longrightarrow> smoothly m' \<Longrightarrow> smoothly (if b then m else m')"
  by simp

lemma smoothly_forE: "(\<And>x. smoothly (f x)) \<Longrightarrow> smoothly (forE f xs)"
  by (induction xs) (auto intro: smoothly_ok smoothly_tryE)

lemma smoothly_map_err: "smoothly m \<Longrightarrow> smoothly (map_err g m)"
  unfolding smoothly_def by (auto simp: run_map_err is_ok_iff split: prod.splits sum.splits) (metis fst_conv sum.distinct(1))

lemma smoothly_program:
  assumes "smooth E" and "\<And>x. exec_error x = None \<Longrightarrow> shows_link args \<or> ok x \<Longrightarrow> smoothly (f x)"
  shows "smoothly (tryE (output_of (thread_env E) args what) f)"
  unfolding smoothly_def
proof
  fix w :: "'a thread world"
  obtain x k where x: "ns_exec E (current (outside w)) args (beyond (outside w)) = (x, k)" by fastforce
  have "exec_error x = None \<and> (shows_link args \<or> ok x)" using assms(1) x unfolding smooth_def by (metis fst_conv)
  then show "is_ok (fst (run_state (tryE (output_of (thread_env E) args what) f) w))"
    using assms(2) [of x] x
    by (auto simp: run_tryE output_of_def run_program_def run_asks exec_here_def smoothly_def split: prod.splits)
qed

lemma smoothly_run_ip: "smooth E \<Longrightarrow> \<not> shows_link (''ip'' # args) \<Longrightarrow> smoothly (run_ip (thread_env E) args)"
  unfolding run_ip_def by (rule smoothly_program) (auto intro: smoothly_ok)

lemma smoothly_add_addr: "smooth E \<Longrightarrow> smoothly (add_addr (thread_env E) dev c)"
  unfolding add_addr_def by (rule smoothly_program) (auto intro: smoothly_ok simp: shows_link_def)

lemma smoothly_link_exists: "smooth E \<Longrightarrow> smoothly (link_exists (thread_env E) name)"
  unfolding link_exists_def by (rule smoothly_program) (auto intro: smoothly_ok)

lemma smoothly_run_status: "smooth E \<Longrightarrow> \<not> shows_link args \<Longrightarrow> smoothly (run_status E args a b)"
  unfolding run_status_def by (rule smoothly_program) (auto intro: smoothly_ok)

lemma smoothly_write: "smooth E \<Longrightarrow> smoothly (map_err g (asks (write_here E p t)))"
  unfolding smoothly_def
  by (intro allI, simp add: run_map_err run_asks write_here_def smooth_def is_ok_iff split: prod.splits sum.splits)
    (metis fst_conv sum.distinct(1))

lemma smoothly_traffic_nic_names:
  assumes "smooth E"
  shows "smoothly (traffic_nic_names (thread_env E))"
  unfolding smoothly_def
proof
  fix w :: "'a thread world"
  let ?args = "[''ip'', ''-j'', ''-d'', ''link'', ''show'']"
  obtain x k where x: "ns_exec E (current (outside w)) ?args (beyond (outside w)) = (x, k)" by fastforce
  have "\<not> shows_link ?args" by (simp add: shows_link_def)
  then have "exec_error x = None \<and> ok x \<and> listed E x \<noteq> None"
    using assms x unfolding smooth_def by (metis fst_conv)
  then show "is_ok (fst (run_state (traffic_nic_names (thread_env E)) w))"
    using x
    by (auto simp: traffic_nic_names_def run_tryE output_of_def run_program_def run_asks exec_here_def
        listed_def thread_env_def split: prod.splits sum.splits)
qed

lemma smoothly_setns: "smooth E \<Longrightarrow> smoothly (setns_net E ns)"
proof -
  assume "smooth E"
  then have "enters_at E (fst ns) (setns_net E ns)" "enters E"
    using enters_setns [OF refl] by (simp_all add: smooth_def)
  then show ?thesis unfolding smoothly_def by (metis enters_atD prod.collapse)
qed

lemma smoothly_opened: "smooth E \<Longrightarrow> smoothly (open_ns E p what)" "smooth E \<Longrightarrow> smoothly (open_current E what)"
  unfolding smoothly_def open_ns_def open_current_def on_beyond_def
  by (simp_all add: run_asks smooth_def is_ok_iff split: prod.splits sum.splits) (metis fst_conv sum.distinct(1))+

lemma smoothly_then:
  assumes "smoothly m" and "smoothly b" and "\<And>x y. is_ok x \<Longrightarrow> is_ok y \<Longrightarrow> is_ok (j x y)"
  shows "smoothly (do { r \<leftarrow> m; s \<leftarrow> b; ret (j r s) })"
  using assms unfolding smoothly_def by (auto split: prod.splits) (metis fst_conv)

lemma smoothly_with_netns: "smooth E \<Longrightarrow> smoothly f \<Longrightarrow> smoothly (with_netns E p f)"
  unfolding with_netns_def
  by (intro smoothly_tryE smoothly_opened smoothly_map_err smoothly_setns smoothly_then) (auto simp: is_ok_iff)

lemma smoothly_move_nic: "smooth E \<Longrightarrow> smoothly (move_nic E name)"
  unfolding move_nic_def
  by (intro smoothly_tryE smoothly_opened smoothly_map_err smoothly_setns smoothly_then smoothly_run_ip) (auto simp: is_ok_iff shows_link_def)

lemmas smoothly_steps = smoothly_tryE smoothly_if smoothly_ok smoothly_forE smoothly_run_ip smoothly_add_addr smoothly_link_exists
  smoothly_run_status smoothly_with_netns smoothly_move_nic smoothly_traffic_nic_names

lemma smoothly_prepare: "smooth E \<Longrightarrow> smoothly (prepare_network E)"
proof -
  assume E: "smooth E"
  have sysctl: "smoothly (write_sysctl (thread_env E) nic fam key val)" for nic fam key val
    unfolding sysctl_write by (rule smoothly_write [OF E])
  have veth: "smoothly (host_veth_there E)"
    unfolding host_veth_there_def by (rule smoothly_program [OF E]) (rule smoothly_ok)
  have plumbing: "smoothly (setup_plumbing E)"
    unfolding setup_plumbing_def ensure_fwd_mgmt_veth_def add_fwd_mgmt_veth_def ensure_host_mgmt_veth_def
      host_default_via_mgmt_def mgmt_routes_def with_host_net_def with_mgmt_net_def put_file_def exec_thread
    by (intro smoothly_steps smoothly_write sysctl veth E) (simp_all add: shows_link_def)
  have "smoothly (claim_nic E name)" for name
    unfolding claim_nic_def ensure_in_fwd_def lock_unopted_def
    by (intro smoothly_steps sysctl E) (simp_all add: shows_link_def)
  then show "smoothly (prepare_network E)"
    unfolding prepare_network_def claim_traffic_nics_def with_host_net_def
    by (intro smoothly_steps plumbing E)
qed

lemma smoothly_look_again:
  "smoothly (do { after \<leftarrow> (if ok x then ret True else is_there E p); if after then okE () else errE e })" if "ok x"
  using that by (simp add: smoothly_ok)

lemma smoothly_make_netns: "smooth E \<Longrightarrow> smoothly (make_netns E name)"
proof -
  assume E: "smooth E"
  have "smoothly (tryE (output_of (thread_env E) [''ip'', ''netns'', ''add'', name] what) (\<lambda>r.
      do { after \<leftarrow> (if ok r then ret True else is_there E p); if after then okE () else errE (g r) }))" for what p g
    by (rule smoothly_program [OF E], rule smoothly_look_again) (simp add: shows_link_def)
  then have "smoothly (ensure_netns E name)"
    unfolding ensure_netns_def by (simp add: smoothly_def split: prod.splits)
  then show ?thesis
    unfolding make_netns_def up_lo_def enable_v4_forward_def lock_autoconf_def
    by (intro smoothly_steps E) (simp_all add: shows_link_def)
qed

lemma startup_succeeds: "smooth E \<Longrightarrow> is_ok (fst (run_state (start_up E) w))"
  unfolding start_up_def smoothly_def [symmetric]
  by (metis smoothly_def smoothly_tryE smoothly_forE smoothly_make_netns smoothly_prepare)

section \<open>A machine with two NICs\<close>

text \<open>The list of links is read as two Ethernet NICs and a bridge; no link is in \<open>fwd\<close> yet.\<close>

definition demo_link :: "string \<Rightarrow> (string \<times> json) list \<Rightarrow> json" where
  "demo_link name info =
     JObj [(''ifname'', JStr name), (''link_type'', JStr ''ether''), (''linkinfo'', JObj info)]"

definition demo_links :: json where
  "demo_links = JArr [demo_link ''eth0'' [], demo_link ''eth1'' [], demo_link ''br0'' [(''info_kind'', JStr ''bridge'')]]"

definition demo_exec :: "netns \<Rightarrow> string list \<Rightarrow> unit \<Rightarrow> exec_result \<times> unit" where
  "demo_exec n args k = (Exited (\<not> shows_link args) [] [] [], ())"

definition demo_other :: "unit thread env" where
  "demo_other =
     \<lparr> codec = unary_codecs\<lparr> json_of_text := \<lambda>_. Inr demo_links \<rparr>, io_fault = \<lambda>_ s. (None, s),
        exec = \<lambda>_ _ s. (Spawn_failed [], s), urandom = \<lambda>s. (None, s), boottime_clock = \<lambda>s. (Inl [], s),
        unix_ms = \<lambda>s. (0, s), deadline_passed = \<lambda>s. (True, s), foreign_read = \<lambda>_ s. (Inr None, s),
        foreign_write = \<lambda>_ _ s. (Inl [], s), foreign_remove = \<lambda>_ s. (Inr (), s), foreign_dir = \<lambda>_ s. (Inr [], s) \<rparr>"

definition demo :: "unit startup_env" where
  "demo =
     \<lparr> other_calls = demo_other, ns_exec = demo_exec, ns_write = \<lambda>_ _ _ k. (Inr (), k),
        at_path = \<lambda>p. if p = FWD_NS then 1 else if p = MGMT_NS then 2 else 0,
        ns_open = \<lambda>_ k. (Inr 3, k), ns_enter = \<lambda>_ k. (Inr (), k), path_there = \<lambda>_ k. (False, k),
        process_id = 1 \<rparr>"

definition demo_world :: "unit thread world" where
  "demo_world = \<lparr> files = \<lambda>_. None, recovery_required = False, trail = [], calls = [],
     outside = \<lparr> current = 0, did = [], beyond = () \<rparr> \<rparr>"

definition demo_end :: "unit thread world" where
  "demo_end = snd (run_state (start_up demo) demo_world)"

lemma demo_listed: "listed demo x = Some [''eth0'', ''eth1'']"
proof -
  have "links_of_json demo_links =
      Inr [\<lparr> ifname = ''eth0'', link_type = ''ether'', info_kind = None \<rparr>,
           \<lparr> ifname = ''eth1'', link_type = ''ether'', info_kind = None \<rparr>,
           \<lparr> ifname = ''br0'', link_type = ''ether'', info_kind = Some ''bridge'' \<rparr>]"
    by code_simp
  then show ?thesis
    by (simp add: listed_def demo_def demo_other_def traffic_nics_of_def)
qed

lemma demo_smooth: "smooth demo"
  unfolding smooth_def demo_listed
  by (simp add: demo_def demo_exec_def exec_error_def enters_def)

lemma demo_run: "run_state (start_up demo) demo_world = (Inr (), demo_end)"
  using startup_succeeds [OF demo_smooth, of demo_world]
  by (auto simp: demo_end_def is_ok_iff intro: prod_eqI)

lemma startup_keeps_places_witness:
  "list_all (placed demo 0) (did (outside demo_end)) \<and> locked_first demo (did (outside demo_end))
    \<and> current (outside demo_end) = 0"
  using startup_keeps_places [OF demo_run] by (simp add: demo_world_def)


end
