(* ===== verification/Peers.thy ===== *)
theory Peers
  imports Accountability Looking
begin

text \<open>
  netd as the program the Web UI and the console talk to: what they run on the appliance
  together changes of the Accepted state. \<open>changes c S\<close> relates the world before a run to the
  one after: on an installed appliance, what is Accepted at every moment of the run is what
  was Accepted before, or bears the name of a principal in \<open>S\<close>.
\<close>

section \<open>Changes signed by someone of a set\<close>

definition signed_among :: "codecs \<Rightarrow> principal set \<Rightarrow> durable_state option \<Rightarrow> bool" where
  "signed_among c S x \<longleftrightarrow>
     (\<exists>p \<in> S. signed_by c (Some p) None x \<or> (\<exists>applying. signed_by c applying (Some p) x))"

definition sound_change :: "codecs \<Rightarrow> principal set \<Rightarrow> durable_state option \<Rightarrow> durable_state option \<Rightarrow> bool" where
  "sound_change c S x y \<longleftrightarrow> refreshed x y \<or> signed_among c S y"

lemma signed_among_refreshed: "signed_among c S x \<Longrightarrow> refreshed x y \<Longrightarrow> signed_among c S y"
  unfolding signed_among_def using signed_refreshed by blast

lemma sound_change_trans: "sound_change c S x y \<Longrightarrow> sound_change c S y z \<Longrightarrow> sound_change c S x z"
  unfolding sound_change_def using refreshed_trans signed_among_refreshed by blast

definition changes :: "codecs \<Rightarrow> principal set \<Rightarrow> 'k world \<Rightarrow> 'k world \<Rightarrow> bool" where
  "changes c S w w' \<longleftrightarrow> (installed c (files w) \<longrightarrow> installed c (files w') \<and>
     (\<exists>new. trail w' = new @ trail w
        \<and> (\<forall>f \<in> set (files w' # new). sound_change c S (boot_state c (files w)) (boot_state c f))))"

lemma changes_trans:
  assumes "changes c S w w'" and "changes c S w' w''"
  shows "changes c S w w''"
proof (cases "installed c (files w)")
  case True
  obtain a where a: "trail w' = a @ trail w" "installed c (files w')"
      "\<forall>f \<in> set (files w' # a). sound_change c S (boot_state c (files w)) (boot_state c f)"
    using assms(1) True by (auto simp: changes_def)
  obtain b where b: "trail w'' = b @ trail w'" "installed c (files w'')"
      "\<forall>f \<in> set (files w'' # b). sound_change c S (boot_state c (files w')) (boot_state c f)"
    using assms(2) a(2) by (auto simp: changes_def)
  have "sound_change c S (boot_state c (files w)) (boot_state c f)" if "f \<in> set (files w'' # b @ a)" for f
    using that a(3) b(3) sound_change_trans by (metis Un_iff list.set_intros(1) set_ConsD set_append list.set_intros(2))
  then show ?thesis
    unfolding changes_def using a(1) b(1,2) by (intro impI conjI exI [of _ "b @ a"]) auto
qed (simp add: changes_def)

interpretation chg: transition "changes c S" for c S
proof unfold_locales
  show "changes c S w w" for w by (simp add: changes_def sound_change_def)
qed (rule changes_trans)

lemma changes_kept:
  assumes "kept owned_paths w w'"
  shows "changes c S w w'"
proof -
  obtain new where new: "trail w' = new @ trail w" "\<forall>f \<in> set (files w' # new). \<forall>p \<in> owned_paths. f p = files w p"
    using assms by (auto simp: kept_def)
  have "sound_change c S (boot_state c (files w)) (boot_state c f)" if "f \<in> set (files w' # new)" for f
  proof -
    have "\<forall>p \<in> owned_paths. f p = files w p" using new(2) that by blast
    from others_same(1) [OF this] show ?thesis by (simp add: sound_change_def)
  qed
  moreover have "installed c (files w') = installed c (files w)" using new(2) by (intro others_same(2)) simp
  ultimately show ?thesis unfolding changes_def using new(1) by blast
qed

lemma keeps_changes: "mild m \<Longrightarrow> keeps (changes c S) m"
  unfolding keeps_def using changes_kept by blast

lemma inert_changes: "keeps inert m \<Longrightarrow> keeps (changes c S) m"
  by (auto simp: keeps_def inert_def intro!: changes_kept simp: kept_def)

lemma changes_wider: "keeps (changes c {}) m \<Longrightarrow> keeps (changes c S) m"
  unfolding keeps_def changes_def sound_change_def signed_among_def by (meson empty_iff bexE)

section \<open>netd at the other end of its socket\<close>

text \<open>netd serves the client as a process of its own; the moments of it are those of the machine.\<close>

definition as_process :: "('k world, 'a) state \<Rightarrow> ('k world, 'a) state" where
  "as_process m = State (\<lambda>w. case run_state m (fresh w) of (a, w') \<Rightarrow> (a, w'\<lparr> trail := trail w' @ trail w \<rparr>))"

definition netd_peer :: "'k netd_env \<Rightarrow> (json \<Rightarrow> string) \<Rightarrow> json \<Rightarrow> ('k world, string res) state" where
  "netd_peer N T v = do {
     as_process (expire_pending_confirmation (env_of N));
     r \<leftarrow> as_process (socket_reply N (T v));
     sent \<leftarrow> asks (answer_client N r);
     ret (case sent of Inl e \<Rightarrow> Inl (''read socket: '' @ e) | Inr _ \<Rightarrow> Inr (T r)) }"

text \<open>What a JSON text gives back: the value up to the order of keys, and a principal as it was.\<close>

definition reads_back :: "codecs \<Rightarrow> (json \<Rightarrow> string) \<Rightarrow> (json \<Rightarrow> json) \<Rightarrow> bool" where
  "reads_back c T keysort \<longleftrightarrow>
     (\<forall>v. json_of_text c (T v) = Inr (keysort v))
     \<and> (\<forall>v k. jget (keysort v) k = map_option keysort (jget v k))
     \<and> (\<forall>s. keysort (JStr s) = JStr s)
     \<and> (\<forall>p. principal_of_json c (keysort (json_of_principal c p)) = Inr p)"

lemma as_process_changes:
  assumes "\<And>w r w'. run_state m (fresh w) = (r, w') \<Longrightarrow> installed c (files w) \<Longrightarrow>
      \<forall>f \<in> moments w'. installed c f \<and> sound_change c S (boot_state c (files w)) (boot_state c f)"
  shows "keeps (changes c S) (as_process m)"
proof (rule keepsI)
  fix w r w' assume run: "run_state (as_process m) w = (r, w')"
  then obtain w1 where w1: "run_state m (fresh w) = (r, w1)" "w' = w1\<lparr> trail := trail w1 @ trail w \<rparr>"
    by (auto simp: as_process_def split: prod.splits)
  show "changes c S w w'"
    using assms [OF w1(1)] w1(2) by (auto simp: changes_def moments_def)
qed

lemma expire_changes:
  assumes "lawful (codec E)"
  shows "keeps (changes (codec E) S) (as_process (expire_pending_confirmation E))"
proof (rule as_process_changes)
  fix w :: "'a world" and r w' assume "run_state (expire_pending_confirmation E) (fresh w) = (r, w')" "installed (codec E) (files w)"
  from expire_undisturbed [OF this(1) assms this(2)]
  show "\<forall>f \<in> moments w'. installed (codec E) f \<and> sound_change (codec E) S (boot_state (codec E) (files w)) (boot_state (codec E) f)"
    by (simp add: undisturbed_def all_installed_def unmoved_def sound_change_def)
qed

text \<open>A request is sound for \<open>S\<close> where whatever it is the answer to is signed by one of \<open>S\<close>.\<close>

definition sound_request :: "codecs \<Rightarrow> (json \<Rightarrow> json) \<Rightarrow> principal set \<Rightarrow> json \<Rightarrow> bool" where
  "sound_request c keysort S v \<longleftrightarrow> (\<forall>x. answers_for c (keysort v) x \<longrightarrow> signed_among c S x)"

lemma socket_reply_changes:
  assumes "lawful (codec (env_of N))" and "reads_back (codec (env_of N)) T keysort"
    and "sound_request (codec (env_of N)) keysort S v"
  shows "keeps (changes (codec (env_of N)) S) (as_process (socket_reply N (T v)))"
proof (rule as_process_changes)
  let ?c = "codec (env_of N)"
  fix w :: "'a world" and r w' assume run: "run_state (socket_reply N (T v)) (fresh w) = (r, w')" and i: "installed ?c (files w)"
  have j: "json_of_text ?c (T v) = Inr (keysort v)" using assms(2) by (simp add: reads_back_def)
  show "\<forall>f \<in> moments w'. installed ?c f \<and> sound_change ?c S (boot_state ?c (files w)) (boot_state ?c f)"
  proof (cases "get_str (keysort v) ''op'' = None")
    case True
    then show ?thesis using run j i by (auto simp: socket_reply_def moments_def sound_change_def)
  next
    case False
    then have h: "run_state (handle_cmd N (keysort v)) (fresh w) = (r, w')" using run j by (simp add: socket_reply_def)
    have "all_installed ?c w'" by (rule handle_cmd_installed [OF h assms(1)]) (use i in simp_all)
    moreover have "answered_for ?c (keysort v) (fresh w) w'"
      by (rule handle_cmd_signed [OF h assms(1)]) (use i in simp_all)
    ultimately show ?thesis
      using assms(3) by (auto simp: all_installed_def answered_for_def sound_change_def sound_request_def)
  qed
qed

lemma netd_peer_changes:
  assumes "lawful (codec (env_of N))" and "reads_back (codec (env_of N)) T keysort"
    and "sound_request (codec (env_of N)) keysort S v"
  shows "keeps (changes (codec (env_of N)) S) (netd_peer N T v)"
  unfolding netd_peer_def
  by (intro chg.keeps_rules expire_changes socket_reply_changes inert_changes inert_asks) (fact assms)+

section \<open>Requests\<close>

lemma keysort_op: "reads_back c T keysort \<Longrightarrow> jget v ''op'' = Some (JStr q) \<Longrightarrow> request_op (keysort v) = q"
  by (simp add: request_op_def get_str_def reads_back_def jstr_def)

lemma sound_unchanging:
  "reads_back c T keysort \<Longrightarrow> jget v ''op'' = Some (JStr q) \<Longrightarrow> q \<notin> changing \<Longrightarrow> sound_request c keysort S v"
  using keysort_op [of c T keysort v q] by (auto simp: sound_request_def answers_for_def changing_def)

lemma keysort_principal:
  "reads_back c T keysort \<Longrightarrow> jget v k = Some (json_of_principal c p) \<Longrightarrow> get_principal c (keysort v) k = Some p"
  by (simp add: reads_back_def get_principal_def ok_opt_def)

lemma sound_signed:
  assumes "reads_back c T keysort" and "jget v ''op'' = Some (JStr q)"
    and "q \<noteq> ''confirm_apply'' \<Longrightarrow> jget v ''applying'' = Some (json_of_principal c p)"
    and "q = ''confirm_apply'' \<Longrightarrow> jget v ''confirming'' = Some (json_of_principal c p)"
  shows "sound_request c keysort {p} v"
  using keysort_op [OF assms(1,2)] keysort_principal [OF assms(1)] assms(3,4)
  unfolding sound_request_def answers_for_def signed_among_def by auto

text \<open>The programs agree on the codec, its texts read back, and the Host update program leaves
  the Accepted state and its journals to netd.\<close>

definition one_appliance ::
    "'k netd_env \<Rightarrow> (json \<Rightarrow> string) \<Rightarrow> (json \<Rightarrow> json) \<Rightarrow> (json \<Rightarrow> ('k world, string res) state) \<Rightarrow> codecs \<Rightarrow> bool" where
  "one_appliance N T keysort other d \<longleftrightarrow>
     d = codec (env_of N) \<and> lawful d \<and> reads_back d T keysort \<and> (\<forall>v. mild (other v))"

end
