(* ===== verification/Console_Netd.thy ===== *)
theory Console_Netd
  imports Peers Console_Properties
begin

text \<open>
  The console and netd on one appliance: every exchange on netd's socket is served by netd
  itself, so what a line typed at the console does to the Accepted state is what netd does.
\<close>

section \<open>One appliance\<close>

definition beside_netd ::
    "'k netd_env \<Rightarrow> (json \<Rightarrow> string) \<Rightarrow> (json \<Rightarrow> ('k world, string res) state) \<Rightarrow> 'k console_env \<Rightarrow> 'k console_env" where
  "beside_netd N T other E =
     E\<lparr> console_exchange := \<lambda>sock v. if sock = CONSOLE_NETD then netd_peer N T v else other v \<rparr>"

lemma beside_exchange [simp]:
  "console_exchange (beside_netd N T other E) CONSOLE_NETD = netd_peer N T"
  "console_exchange (beside_netd N T other E) CONSOLE_UPDATE = other"
  by (auto simp: beside_netd_def CONSOLE_NETD_def CONSOLE_UPDATE_def)

lemma beside_env [simp]: "machine_env (beside_netd N T other E) = machine_env E"
  "login_env (beside_netd N T other E) = login_env E"
  by (simp_all add: beside_netd_def machine_env_def)

definition at_machine :: "('k world \<Rightarrow> 'k world \<Rightarrow> bool) \<Rightarrow> 'k console \<Rightarrow> 'k console \<Rightarrow> bool" where
  "at_machine R c c' \<longleftrightarrow> R (on c) (on c')"

interpretation mch: transition "at_machine (changes d S)" for d S
  by unfold_locales (auto simp: at_machine_def chg.refl intro: changes_trans)

abbreviation leaves :: "codecs \<Rightarrow> principal set \<Rightarrow> ('k, 'a) con \<Rightarrow> bool" where
  "leaves d S m \<equiv> keeps (at_machine (changes d S)) m"

lemma leaves_on_world: "keeps (changes d S) m \<Longrightarrow> leaves d S (on_world m)"
  unfolding keeps_def at_machine_def by simp

lemma leaves_tty: "keeps tty_only m \<Longrightarrow> leaves d S m"
  by (auto simp: keeps_def tty_only_def at_machine_def inert_def intro!: changes_kept simp: kept_def)

section \<open>What a console exchanges\<close>

lemma leaves_socket:
  assumes "keeps (changes d S) (console_exchange E sock v)"
  shows "leaves d S (socket_roundtrip E sock v)"
  unfolding socket_roundtrip_def by (rule leaves_on_world [OF assms])

lemma leaves_netd_json:
  assumes "keeps (changes d S) (console_exchange E CONSOLE_NETD v)"
  shows "leaves d S (netd_json E v)"
  unfolding netd_json_def by (intro mch.keeps_rules leaves_socket assms)

lemma leaves_says: "leaves d S (say E t)" "leaves d S (flush E)" "leaves d S (read_line_poll E n)" "leaves d S (show_input E)"
  by (intro leaves_tty tty_say tty_flushes tty_read_line tty_show)+

lemma leaves_say_lines: "leaves d S (say_lines E ls)"
  unfolding say_lines_def by (intro mch.keeps_rules leaves_says)

lemma leaves_reads: "leaves d S (readable E p)" "leaves d S (readable_toml E p)" "leaves d S (exists_file p)"
    "leaves d S bootstrapped" "leaves d S (on_world (asks g))" "leaves d S (authorized_now E t)" "leaves d S (prove_identity E user pw)"
  unfolding readable_toml_def readable_def exists_file_def bootstrapped_def authorized_now_def
  by (intro mch.keeps_rules leaves_on_world inert_changes inert_looks leaves_tty [OF tty_prove])+

lemmas leaves_ops = leaves_says leaves_say_lines leaves_reads

definition status_quiet :: "codecs \<Rightarrow> principal set \<Rightarrow> 'k console_env \<Rightarrow> bool" where
  "status_quiet d S E \<longleftrightarrow> (\<forall>sock v. read_only sock v \<longrightarrow> keeps (changes d S) (console_exchange E sock v))"

lemma status_quietD:
  assumes "status_quiet d S E"
  shows "leaves d S (netd_json E (console_op ''list''))" "leaves d S (netd_json E (console_op ''get_desired''))"
    "leaves d S (update_op E ''status'')"
  unfolding update_op_def
  by (intro leaves_netd_json leaves_socket assms [unfolded status_quiet_def, rule_format], simp add: read_only_def)+

lemma leaves_status:
  assumes "status_quiet d S E"
  shows "leaves d S (print_status E)" "leaves d S (traffic_key E)"
  unfolding print_status_def traffic_key_def list_from_netd_def
  by (intro mch.keeps_rules leaves_ops status_quietD [OF assms])+

lemma leaves_admin_status:
  assumes "status_quiet d S E"
  shows "leaves d S (print_admin_status E)"
  unfolding print_admin_status_def look_def recovery_target_def hostname_shown_def predecessor_now_def say_host_image_def Let_def
  by (intro mch.keeps_rules leaves_ops status_quietD [OF assms])

lemma keeps_act_cases: "keeps R p \<Longrightarrow> keeps R q \<Longrightarrow> keeps R (case a of Continue \<Rightarrow> p | Logout \<Rightarrow> q)"
  by (cases a) auto

lemma leaves_write_cmd: "leaves d S (write_cmd E r)"
  unfolding write_cmd_def by (intro mch.keeps_rules leaves_ops)

lemma leaves_admin_command:
  assumes "status_quiet d S E" and "\<And>sock v. session_request E t sock v \<Longrightarrow> keeps (changes d S) (console_exchange E sock v)"
  shows "leaves d S (admin_command E text (Some (auth_principal t)))"
  unfolding admin_command_def restore_previous_client_def update_op_def
  by (intro mch.keeps_rules leaves_ops leaves_admin_status leaves_write_cmd leaves_socket assms)
    (simp_all add: session_request_def)

lemma leaves_session:
  assumes "status_quiet d S E" and "\<And>sock v. session_request E t sock v \<Longrightarrow> keeps (changes d S) (console_exchange E sock v)"
  shows "leaves d S (session_round E t)"
  unfolding session_round_def while_authorized_def leave_session_def
  by (intro mch.keeps_rules keeps_input_cases keeps_act_cases leaves_ops leaves_admin_command assms) assumption+

lemma leaves_bootstrap:
  assumes "status_quiet d S E" and "\<And>sock v. opt_request sock v \<Longrightarrow> keeps (changes d S) (console_exchange E sock v)"
  shows "leaves d S (bootstrap_round E key)"
proof -
  have opt: "leaves d S (netd_opt E how nic net)" if "how \<in> {''static'', ''dhcp'', ''slaac''}" for how nic net
    unfolding netd_opt_def using that
    by (intro mch.keeps_rules leaves_netd_json assms(2)) (auto simp: opt_request_def)
  have list: "(\<And>x xs. leaves d S (f x xs)) \<Longrightarrow> leaves d S m \<Longrightarrow> leaves d S (case l of [] \<Rightarrow> m | x # xs \<Rightarrow> f x xs)"
    for f m and l :: "string list"
    by (cases l) auto
  have "leaves d S (boot_command E typed)" for typed
    unfolding boot_command_def print_help_def
    by (intro mch.keeps_rules list leaves_ops leaves_status [OF assms(1)] opt) simp_all
  then show ?thesis
    unfolding bootstrap_round_def unless_owned_def switch_to_admin_def enter_admin_def clear_tty_def refresh_status_def
      run_boot_line_def write_prompt_def
    by (intro mch.keeps_rules keeps_input_cases leaves_ops leaves_status [OF assms(1)])
qed

lemma leaves_login: "leaves d S (login_round E)"
  unfolding login_round_def ask_password_def hide_input_def hidden_until_def
  by (intro mch.keeps_rules keeps_input_cases leaves_ops leaves_tty [OF tty_put(3)])

lemma leaves_password: "status_quiet d S E \<Longrightarrow> leaves d S (password_round E user)"
proof -
  assume q: "status_quiet d S E"
  have result: "(\<And>t. leaves d S (f t)) \<Longrightarrow> (\<And>x y. leaves d S (g x y)) \<Longrightarrow> leaves d S m
      \<Longrightarrow> leaves d S (case r of Authenticated t \<Rightarrow> f t | Challenge x y \<Rightarrow> g x y | Denied \<Rightarrow> m)" for f g m r
    by (cases r) auto
  show ?thesis
    unfolding password_round_def answer_login_def enter_session_def leave_session_def hidden_until_def
    by (intro mch.keeps_rules keeps_input_cases result leaves_ops leaves_admin_status [OF q])
qed

section \<open>Who a console changes the Accepted state for\<close>

definition signers :: "'k console_env \<Rightarrow> mode \<Rightarrow> files \<Rightarrow> principal set" where
  "signers E m f = {p. \<exists>t. m = In_session t \<and> granted_to E f t \<and> p = auth_principal t}"

lemma beside_unchanging:
  assumes "one_appliance N T keysort other d" and "sock = CONSOLE_NETD \<or> sock = CONSOLE_UPDATE"
    and "sock = CONSOLE_NETD \<Longrightarrow> sound_request d keysort S v"
  shows "keeps (changes d S) (console_exchange (beside_netd N T other E) sock v)"
  using assms netd_peer_changes [of N T keysort S v] keeps_changes [of "other v"]
  by (auto simp: one_appliance_def)

lemma read_only_quiet: "one_appliance N T keysort other d \<Longrightarrow> status_quiet d S (beside_netd N T other E)"
  unfolding status_quiet_def
proof (intro allI impI)
  fix sock v assume a: "one_appliance N T keysort other d" and r: "read_only sock v"
  show "keeps (changes d S) (console_exchange (beside_netd N T other E) sock v)"
  proof (rule beside_unchanging [OF a])
    assume "sock = CONSOLE_NETD"
    then have "jget v ''op'' \<in> {Some (JStr ''list''), Some (JStr ''get_desired'')}"
      using r by (auto simp: read_only_def console_op_def jget_def CONSOLE_NETD_def CONSOLE_UPDATE_def)
    then show "sound_request d keysort S v"
      using sound_unchanging [of d T keysort v _ S] a by (auto simp: one_appliance_def changing_def)
  qed (use r in \<open>auto simp: read_only_def\<close>)
qed

lemma round_changes:
  assumes a: "one_appliance N T keysort other d" and d: "codec (machine_env E) = d"
    and run: "run_state (console_round (beside_netd N T other E) m) c = (r, c')"
  shows "changes d (signers E m (files (on c))) (on c) (on c')"
proof -
  let ?E = "beside_netd N T other E" and ?S = "signers E m (files (on c))"
  note q = read_only_quiet [OF a]
  have readback: "reads_back d T keysort" using a unfolding one_appliance_def by blast
  have keep: "changes d S (on c) (on c')" if "leaves d S (console_round ?E m)" for S
    using keepsD [OF that run] by (simp add: at_machine_def)
  show ?thesis
  proof (cases m)
    case (Bootstrapping key)
    have "keeps (changes d ?S) (console_exchange ?E sock v)" if o: "opt_request sock v" for sock v
    proof (rule beside_unchanging [OF a])
      have "jget v ''op'' = Some (JStr ''opt'')"
        using o by (auto simp: opt_request_def opt_message_def jget_def)
      then show "sound_request d keysort ?S v"
        by (rule sound_unchanging [OF readback]) (simp add: changing_def)
    qed (use o in \<open>simp add: opt_request_def\<close>)
    then show ?thesis
      using keep [of ?S] leaves_bootstrap [OF q, where key = key] Bootstrapping by (simp add: console_round_def)
  next
    case At_login
    then show ?thesis using keep [of ?S] leaves_login [of d ?S ?E] by (simp add: console_round_def)
  next
    case (At_password user)
    then show ?thesis using keep [of ?S] leaves_password [OF q, where user = user] by (simp add: console_round_def)
  next
    case (In_session t)
    show ?thesis
    proof (cases "granted_to E (files (on c)) t")
      case True
      have S: "?S = {auth_principal t}" using In_session True by (auto simp: signers_def)
      have "keeps (changes d ?S) (console_exchange ?E sock v)" if s: "session_request ?E t sock v" for sock v
      proof (rule beside_unchanging [OF a])
        assume "sock = CONSOLE_NETD"
        then have v: "v = restore_message ?E (Some (auth_principal t))"
          using s by (auto simp: session_request_def CONSOLE_NETD_def CONSOLE_UPDATE_def)
        show "sound_request d keysort ?S v"
          unfolding S v
          by (rule sound_signed [OF readback, where q = "''restore_previous''"]) (auto simp: restore_message_def jget_def jopt_def d)
      qed (use s in \<open>auto simp: session_request_def\<close>)
      then show ?thesis
        using keep [of ?S] leaves_session [OF q, where t = t] In_session by (simp add: console_round_def)
    next
      case False
      obtain g c1 where g: "run_state (authorized_now ?E t) c = (g, c1)" by fastforce
      have "\<not> g" using run_authorized [of ?E t c c1] g False by (auto simp: granted_to_def)
      have l: "leaves d ?S (seqE (say_line ?E ''session authorization expired'') (leave_session ?E))"
        unfolding leave_session_def by (intro mch.keeps_rules leaves_ops)
      have "run_state (seqE (say_line ?E ''session authorization expired'') (leave_session ?E)) c1 = (r, c')"
        using run g \<open>\<not> g\<close> In_session by (simp add: console_round_def session_round_def while_authorized_def)
      from keepsD [OF l this] keepsD [OF leaves_reads(6) g] mch.trans
      show ?thesis unfolding at_machine_def using changes_trans by blast
    qed
  next
    case (Ended x)
    then show ?thesis using run by (simp add: console_round_def chg.refl)
  qed
qed


end
