(* ===== verification/Ui_Netd.thy ===== *)
theory Ui_Netd
  imports Peers Ui_Access Ui_Drafts
begin

text \<open>
  The Web UI and netd on one appliance: what a request to the UI does to the Accepted state is
  what netd does for the requests the UI makes of it. \<open>ui_request U S\<close> are those a page may
  make for the principals of \<open>S\<close>.
\<close>

section \<open>Files of the Web UI are not netd's\<close>

lemma temp_not_owned: "is_temp p \<Longrightarrow> p \<notin> owned_paths"
  using owned_lasting by (auto simp: lasting_def)

lemma ui_files: "IDENTITY_FILE \<notin> owned_paths" "\<not> is_temp IDENTITY_FILE"
proof -
  have "list_all (\<lambda>q. IDENTITY_FILE \<noteq> q)
      [BOOTSTRAPPED, DESIRED, PREVIOUS_ACCEPTED, APPLY_ATTRIBUTION, APPLY_OPERATION, APPLY_PREVIOUS] \<and> \<not> is_temp IDENTITY_FILE"
    by code_simp
  then show "IDENTITY_FILE \<notin> owned_paths" "\<not> is_temp IDENTITY_FILE"
    by (auto simp: owned_paths_def journal_paths_def)
qed

lemma draft_not_owned: "draft_path p \<notin> owned_paths"
proof -
  have "list_all (\<lambda>q. \<not> starts_with DRAFT_DIR q)
      [BOOTSTRAPPED, DESIRED, PREVIOUS_ACCEPTED, APPLY_ATTRIBUTION, APPLY_OPERATION, APPLY_PREVIOUS]"
    by code_simp
  then have "\<not> starts_with DRAFT_DIR q" if "q \<in> owned_paths" for q
    using that by (auto simp: owned_paths_def journal_paths_def)
  moreover have "starts_with DRAFT_DIR (draft_path p)"
    unfolding draft_path_parts starts_with_iff by blast
  ultimately show ?thesis by blast
qed

lemma draft_not_temp: "\<not> is_temp (draft_path p)"
proof
  assume "is_temp (draft_path p)"
  then obtain q where "draft_path p = q @ ''.tmp''" by (auto simp: is_temp_def)
  then have "last (draft_path p) = CHR ''p''" by simp
  moreover have "last (draft_path p) = CHR ''n''" by (simp add: draft_path_parts)
  ultimately show False by simp
qed

lemma same_rename: "p \<notin> S \<Longrightarrow> q \<notin> S \<Longrightarrow> keeps (same_on S) (rename_file E p q)"
proof -
  assume a: "p \<notin> S" "q \<notin> S"
  have "keeps (same_on S) (do { fs \<leftarrow> gets files; set_files (fs(p := None, q := fs p)); okE () })"
    using a by (auto simp: keeps_def set_files_def same_on_def kept_def)
  then show ?thesis unfolding rename_file_def by (rule same.keeps_tryE [OF same_simple_op])
qed

lemma same_unlink: "p \<notin> S \<Longrightarrow> keeps (same_on S) (unlink_file E p)"
  unfolding unlink_file_def by (intro same.keeps_rules same_ops same_set_file)

lemma same_create: "p \<notin> S \<Longrightarrow> keeps (same_on S) (create_new E p)"
  unfolding create_new_def by (intro same.keeps_rules same_ops same_set_file)

lemma same_write_all: "p \<notin> S \<Longrightarrow> keeps (same_on S) (write_all E p raw)"
  unfolding write_all_def fault_def by (intro same.keeps_rules same_asks same_set_file)

lemma calm_write_configuration: "calm (write_configuration X cfg)"
proof -
  have t: "identity_temp token \<notin> owned_paths" for token
    by (rule temp_not_owned) (simp add: is_temp_def identity_temp_def)
  show ?thesis
    unfolding write_configuration_def publish_config_def random_token_def
    by (intro same.keeps_rules same_ops same_create same_write_all same_rename same_unlink t ui_files)
qed

lemma calm_accounts:
  "calm (list_local_administrators X t)" "calm (create_local_administrator X t name pw)"
  "calm (change_local_administrator_password X t name pw)" "calm (remove_local_administrator X t name)"
proof -
  have hash: "calm (hash_password X pw)" for pw
    unfolding hash_password_def by (intro same.keeps_rules same_asks)
  have token: "calm (random_token E)" for E :: "'a env"
    unfolding random_token_def by (intro same.keeps_rules same_asks)
  have config: "calm (read_config X)"
    unfolding read_config_def by (intro same.keeps_rules same_ops)
  show "calm (list_local_administrators X t)" "calm (create_local_administrator X t name pw)"
    "calm (change_local_administrator_password X t name pw)" "calm (remove_local_administrator X t name)"
    unfolding list_local_administrators_def create_local_administrator_def change_local_administrator_password_def
      remove_local_administrator_def as_administrator_def add_administrator_def set_password_def drop_administrator_def
      or_storage_def Let_def
    by (intro same.keeps_rules same_ops hash token config calm_write_configuration)+
qed

section \<open>What pages exchange\<close>

definition ui_request :: "'k ui_env \<Rightarrow> principal set \<Rightarrow> string \<Rightarrow> json \<Rightarrow> bool" where
  "ui_request U S sock v \<longleftrightarrow> sock = UPDATE_SOCK \<or> sock = NETD_SOCK \<and> (\<exists>q. jget v ''op'' = Some (JStr q) \<and>
     (q \<notin> changing
      \<or> (\<exists>p \<in> S. q = ''apply_desired'' \<and> jget v ''applying'' = Some (principal_json U p)
           \<or> q = ''confirm_apply'' \<and> jget v ''confirming'' = Some (principal_json U p))))"

definition obliging :: "codecs \<Rightarrow> principal set \<Rightarrow> 'k ui_env \<Rightarrow> bool" where
  "obliging d S U \<longleftrightarrow> (\<forall>sock v. ui_request U S sock v \<longrightarrow> keeps (changes d S) (exchange U sock v))"

abbreviation sound :: "codecs \<Rightarrow> principal set \<Rightarrow> ('k world, 'a) state \<Rightarrow> bool" where
  "sound d S m \<equiv> keeps (changes d S) m"

lemma sound_exchange: "obliging d S U \<Longrightarrow> ui_request U S sock v \<Longrightarrow> sound d S (exchange U sock v)"
  by (simp add: obliging_def)

lemma sound_socket: "obliging d S U \<Longrightarrow> ui_request U S sock v \<Longrightarrow> sound d S (socket_cmd U sock v)"
  unfolding socket_cmd_def by (intro chg.keeps_rules sound_exchange)

lemma jget_op [simp]: "jget (op_json q kvs) ''op'' = Some (JStr q)"
  by (simp add: op_json_def jget_def)

lemma quiet_request: "q \<notin> changing \<Longrightarrow> ui_request U S NETD_SOCK (op_json q kvs)"
  by (auto simp: ui_request_def)

lemma update_request: "ui_request U S UPDATE_SOCK v"
  by (simp add: ui_request_def)

lemma apply_request_of:
  assumes "p \<in> S"
  shows "ui_request U S NETD_SOCK (apply_message U st base p extra)"
proof -
  have "jget (apply_message U st base p extra) ''applying'' = Some (principal_json U p)"
    by (simp add: apply_message_def op_json_def jget_def)
  then show ?thesis using assms unfolding ui_request_def apply_message_def by auto
qed

lemma unchanging [simp]:
  "''get_desired'' \<notin> changing" "''was_draft_accepted'' \<notin> changing" "''validate_desired'' \<notin> changing"
  "''get_apply_confirmation'' \<notin> changing" "''list'' \<notin> changing" "''qdisc_show'' \<notin> changing" "''ipv6_status'' \<notin> changing"
  by (simp_all add: changing_def)

lemma sound_looks:
  "sound d S (asks f)" "sound d S (file_exists p)" "sound d S (read_file E p)" "sound d S (read_text E p)"
  "sound d S (random_token E)"
  by (intro inert_changes inert_looks)+

lemma sound_calm: "calm m \<Longrightarrow> sound d S m"
  by (rule keeps_changes [OF keeps_kept])

lemma sound_simple_op: "sound d S (simple_op E op)"
  by (rule sound_calm [OF same_simple_op])

lemma sound_draft_files:
  "sound d S (durable_write E (draft_path p) raw)" "sound d S (durable_remove E (draft_path p))"
  by (intro sound_calm same_durable_write same_durable_remove draft_not_owned draft_not_temp owned_lasting)+

lemmas sound_ops = sound_looks sound_simple_op sound_draft_files

lemma sound_gateway: "sound d S m \<Longrightarrow> (\<And>a. sound d S (f a)) \<Longrightarrow> sound d S (or_gateway m f)"
  unfolding or_gateway_def by (intro chg.keeps_rules)

lemma sound_form: "(\<And>a. sound d S (f a)) \<Longrightarrow> sound d S (with_form r bad f)"
  unfolding with_form_def by (intro chg.keeps_rules)

lemma sound_bootstrapped: "sound d S m \<Longrightarrow> sound d S (bootstrapped_only m)"
  unfolding bootstrapped_only_def by (intro chg.keeps_rules sound_ops)

lemma sound_signed_in: "(\<And>t. a = Some t \<Longrightarrow> sound d S (f t)) \<Longrightarrow> sound d S (signed_in a f)"
  unfolding signed_in_def by (cases a) (auto intro: chg.keeps_rules)

lemma sound_operator: "(\<And>t. a = Some t \<Longrightarrow> sound d S (f t)) \<Longrightarrow> sound d S (operator_session a f)"
  unfolding operator_session_def by (intro sound_signed_in sound_bootstrapped)

lemmas sound_shapes = sound_gateway sound_form sound_bootstrapped sound_signed_in sound_operator

section \<open>Pages\<close>

lemma sound_desired: "obliging d S U \<Longrightarrow> sound d S (complete_desired U)"
  unfolding complete_desired_def
  by (intro chg.keeps_rules sound_socket quiet_request) simp_all

lemma sound_snapshot: "sound d S (accepted_snapshot_for_drafting U)"
  unfolding accepted_snapshot_for_drafting_def by (intro chg.keeps_rules sound_ops)

lemma sound_reconciled: "obliging d S U \<Longrightarrow> sound d S (read_draft_reconciled U (draft_path p) own s)"
  unfolding read_draft_reconciled_def read_draft_def clear_accepted_def was_accepted_def
  by (intro chg.keeps_rules sound_ops sound_desired sound_socket quiet_request) simp_all

lemma sound_apply_page:
  assumes "obliging d S U" and "\<And>st. sound d S (send st)"
  shows "sound d S (apply_page U t base store send)"
  unfolding apply_page_def
  by (intro chg.keeps_rules sound_gateway sound_snapshot sound_reconciled sound_desired assms)

lemma sound_submit:
  assumes "obliging d S U" and "p \<in> S"
  shows "sound d S (submit_desired_apply U st base p)" "sound d S (submit_setting U st base p)"
  unfolding submit_desired_apply_def submit_setting_def
  by (intro chg.keeps_rules sound_socket apply_request_of assms)+

lemma sound_section:
  assumes "obliging d S U" and "\<And>t. a = Some t \<Longrightarrow> auth_principal t \<in> S"
  shows "sound d S (section_page U a what form store)"
  unfolding section_page_def
  by (intro sound_shapes chg.keeps_rules sound_apply_page sound_submit assms) assumption

lemma sound_routes:
  assumes "obliging d S U" and "\<And>t. a = Some t \<Longrightarrow> auth_principal t \<in> S"
  shows "sound d S (apply_routes U req a)" "sound d S (save_and_apply_route U req a)"
  unfolding apply_routes_def save_and_apply_route_def apply_route_change_def
  by (intro sound_shapes sound_apply_page sound_submit assms; assumption)+

lemma sound_confirmations:
  assumes "obliging d S U" and "\<And>t. a = Some t \<Longrightarrow> auth_principal t \<in> S"
  shows "sound d S (configure_apply_confirmation U req a)" "sound d S (confirm_apply_page U req a)"
proof -
  show "sound d S (configure_apply_confirmation U req a)"
    unfolding configure_apply_confirmation_def
    by (intro sound_shapes chg.keeps_rules sound_apply_page sound_submit assms) assumption
  have "ui_request U S NETD_SOCK (op_json ''confirm_apply''
      [(''revision'', n), (''confirmation_id'', tok), (''confirming'', principal_json U (auth_principal t))])"
    if "a = Some t" for t n tok
  proof -
    have "jget (op_json ''confirm_apply''
        [(''revision'', n), (''confirmation_id'', tok), (''confirming'', principal_json U (auth_principal t))]) ''confirming''
      = Some (principal_json U (auth_principal t))"
      by (simp add: op_json_def jget_def)
    then show ?thesis using assms(2) [OF that] unfolding ui_request_def by auto
  qed
  then show "sound d S (confirm_apply_page U req a)"
    unfolding confirm_apply_page_def
    by (intro sound_shapes chg.keeps_rules sound_socket assms) assumption+
qed

lemma sound_drafts:
  assumes "obliging d S U" and "\<And>t. a = Some t \<Longrightarrow> auth_principal t \<in> S"
  shows "sound d S (draft_status U a)" "sound d S (save_draft U req a)" "sound d S (apply_draft U req a)"
    "sound d S (reconcile_draft U req a)" "sound d S (export_desired U req a)" "sound d S (import_desired U req a)"
  unfolding draft_status_def save_draft_def save_on_def apply_draft_def conclude_draft_def reconcile_draft_def
    reconcile_on_def export_desired_def encrypt_network_export_def import_desired_def import_on_def store_draft_def
    write_draft_def Let_def
  by (intro sound_shapes chg.keeps_rules sound_ops sound_snapshot sound_reconciled sound_desired sound_socket
      quiet_request apply_request_of assms; (assumption | simp))+

lemma sound_list_nics: "obliging d S U \<Longrightarrow> sound d S (list_nics U)"
  unfolding list_nics_def by (intro chg.keeps_rules sound_socket quiet_request) simp_all

lemma sound_reading_pages:
  assumes "obliging d S U"
  shows "sound d S (routes_page U)" "sound d S (interfaces_page U)" "sound d S (lan_services_page U)"
    "sound d S (firewall_page U)" "sound d S (wireguard_page U)" "sound d S (qdiscs_page U)" "sound d S (ipv6_page U)"
    "sound d S (confirmation_page U)" "sound d S (status_page U a)" "sound d S (static_response U name)"
  unfolding routes_page_def interfaces_page_def lan_services_page_def firewall_page_def wireguard_page_def
    qdiscs_page_def ipv6_page_def confirmation_page_def accepted_page_def status_page_def status_json_def known_hostname_def
  by (intro sound_shapes chg.keeps_rules sound_ops sound_desired sound_list_nics sound_socket quiet_request
      inert_changes [OF inert_static] assms; simp)+

lemma sound_host_update:
  assumes "obliging d S U"
  shows "sound d S (host_update_status U a)" "sound d S (stage_host_update U req a)" "sound d S (reboot_host U a)"
  unfolding host_update_status_def stage_host_update_def reboot_host_def update_action_def Let_def
  by (intro sound_shapes chg.keeps_rules sound_socket update_request assms)+

lemma sound_account_pages:
  "sound d S (administrators U a)" "sound d S (create_administrator U req a)"
  "sound d S (change_administrator_password U req a)" "sound d S (remove_administrator U req a)"
  unfolding administrators_def create_administrator_def change_administrator_password_def remove_administrator_def
    account_page_def account_answer_def
  by (intro chg.keeps_rules sound_form sound_calm calm_accounts)+

text \<open>The first boot is refused on an owned appliance.\<close>

lemma sound_first_boot: "sound d S (bootstrap U body)"
  unfolding keeps_def
proof
  fix w
  show "changes d S w (snd (run_state (bootstrap U body) w))"
  proof (cases "files w OWNED_FILE = None")
    case True
    then have "\<not> installed d (files w)" by (simp add: installed_def OWNED_FILE_def BOOTSTRAPPED_def FWOS_def)
    then show ?thesis by (simp add: changes_def)
  next
    case False
    then show ?thesis by (simp add: bootstrap_owned chg.refl)
  qed
qed

lemma sound_get_page: "obliging d S U \<Longrightarrow> sound d S (get_page U a path)"
  if "\<And>t. a = Some t \<Longrightarrow> auth_principal t \<in> S"
  unfolding get_page_def
  by (intro chg.keeps_if chg.keeps_ret sound_reading_pages sound_account_pages sound_drafts sound_host_update that)

lemma sound_post_page: "obliging d S U \<Longrightarrow> sound d S (post_page U req a path)"
  if "\<And>t. a = Some t \<Longrightarrow> auth_principal t \<in> S"
  unfolding post_page_def apply_interfaces_def apply_lan_services_def apply_firewall_def apply_wireguard_def
    apply_qdiscs_def apply_ipv6_def
  by (intro chg.keeps_if chg.keeps_ret sound_section sound_routes sound_confirmations sound_account_pages sound_drafts
      sound_host_update sound_first_boot that)

section \<open>A request on one appliance\<close>

definition ui_beside_netd ::
    "'k netd_env \<Rightarrow> (json \<Rightarrow> string) \<Rightarrow> (json \<Rightarrow> ('k world, string res) state) \<Rightarrow> 'k ui_env \<Rightarrow> 'k ui_env" where
  "ui_beside_netd N T other U =
     U\<lparr> exchange := \<lambda>sock v. if sock = NETD_SOCK then netd_peer N T v else other v \<rparr>"

lemma ui_beside [simp]: "host_of (ui_beside_netd N T other U) = host_of U"
  "ident (ui_beside_netd N T other U) = ident U" "ui_env.instant (ui_beside_netd N T other U) = ui_env.instant U"
  "principal_json (ui_beside_netd N T other U) = principal_json U"
  by (simp_all add: ui_beside_netd_def host_of_def principal_json_def fun_eq_iff)

lemma beside_authenticated: "authenticated (ui_beside_netd N T other U) req = authenticated U req"
  unfolding authenticated_def ui_beside ..

lemma ui_obliging:
  assumes "one_appliance N T keysort other (codec (host_of U))"
  shows "obliging (codec (host_of U)) S (ui_beside_netd N T other U)"
  unfolding obliging_def
proof (intro allI impI)
  let ?d = "codec (host_of U)" and ?U = "ui_beside_netd N T other U"
  fix sock v assume q: "ui_request ?U S sock v"
  have a: "?d = codec (env_of N)" "lawful ?d" "reads_back ?d T keysort" "mild (other v)"
    using assms unfolding one_appliance_def by blast+
  show "sound ?d S (exchange ?U sock v)"
  proof (cases "sock = NETD_SOCK")
    case False
    then show ?thesis using keeps_changes [OF a(4)] by (simp add: ui_beside_netd_def)
  next
    case True
    then obtain op where op: "jget v ''op'' = Some (JStr op)" and
      p: "op \<notin> changing \<or> (\<exists>p \<in> S. op = ''apply_desired'' \<and> jget v ''applying'' = Some (principal_json U p)
           \<or> op = ''confirm_apply'' \<and> jget v ''confirming'' = Some (principal_json U p))"
      using q by (auto simp: ui_request_def NETD_SOCK_def UPDATE_SOCK_def)
    have "sound_request ?d keysort S v"
    proof (cases "op \<in> changing")
      case False
      then show ?thesis by (rule sound_unchanging [OF a(3) op])
    next
      case c: True
      then obtain p where p: "p \<in> S" "op \<noteq> ''confirm_apply'' \<Longrightarrow> jget v ''applying'' = Some (json_of_principal ?d p)"
          "op = ''confirm_apply'' \<Longrightarrow> jget v ''confirming'' = Some (json_of_principal ?d p)"
        using p by (auto simp: principal_json_def)
      have "sound_request ?d keysort {p} v" by (rule sound_signed [OF a(3) op p(2,3)])
      then show ?thesis using p(1) unfolding sound_request_def signed_among_def by blast
    qed
    then show ?thesis
      using netd_peer_changes [of N T keysort S v] a(1-3) True by (simp add: ui_beside_netd_def)
  qed
qed

lemma answer_changes:
  assumes "obliging d S U" and "\<And>t. a = Some t \<Longrightarrow> auth_principal t \<in> S"
    and "run_state (answer_page U req a path) s = (response, s')"
  shows "changes d S (machine_of s) (machine_of s')"
proof -
  have server: "keeps inert_server m \<Longrightarrow> run_state m s = (response, s') \<Longrightarrow> changes d S (machine_of s) (machine_of s')" for m
    by (drule (1) keepsD) (auto simp: inert_server_def inert_def kept_def intro!: changes_kept)
  have machine: "sound d S m \<Longrightarrow> run_state (on_machine m) s = (response, s') \<Longrightarrow> changes d S (machine_of s) (machine_of s')" for m
    by (auto simp: run_on_machine keeps_def)
  have "keeps inert_server (logout req)"
    unfolding logout_def by (intro served.keeps_rules served_set_sessions)
  note pages = server [OF served_login] server [OF this] machine [OF sound_get_page [OF assms(2,1)]]
    machine [OF sound_post_page [OF assms(2,1)]]
  show ?thesis
    using assms(3) pages chg.refl unfolding answer_page_def
    by (auto split: if_splits)
qed

lemma dispatch_changes:
  assumes "one_appliance N T keysort other (codec (host_of U))"
    and "run_state (dispatch (ui_beside_netd N T other U) req) s = (response, s')"
    and "installed (codec (host_of U)) (files (machine_of s))"
  shows "changes (codec (host_of U)) {p. \<exists>t. fst (run_state (authenticated U req) s) = Some t \<and> p = auth_principal t}
    (machine_of s) (machine_of s')"
proof -
  let ?d = "codec (host_of U)" and ?U = "ui_beside_netd N T other U"
  let ?S = "{p. \<exists>t. fst (run_state (authenticated U req) s) = Some t \<and> p = auth_principal t}"
  have owned: "files (machine_of s) OWNED_FILE \<noteq> None"
    using assms(3) by (simp add: installed_def OWNED_FILE_def BOOTSTRAPPED_def FWOS_def)
  obtain a s1 where a: "run_state (authenticated U req) s = (a, s1)" by fastforce
  have k: "changes ?d ?S (machine_of s) (machine_of s1)"
    using keepsD [OF served_authenticated a]
    by (auto simp: inert_server_def inert_def kept_def intro!: changes_kept)
  have run: "(response, s') =
      (if req_method req = ''POST'' \<and> is_api (plain_path req) \<and> \<not> same_origin_json req
       then (refused 403 ''same-origin JSON required'', s)
       else if needs_session True (plain_path req) \<and> a = None then (sign_in_required True, s1)
       else run_state (answer_page ?U req a (plain_path req)) s1)"
    unfolding assms(2) [symmetric] dispatch_owned [OF owned] beside_authenticated a by simp
  have page: "changes ?d ?S (machine_of s1) (machine_of s')"
    if "run_state (answer_page ?U req a (plain_path req)) s1 = (response, s')"
    by (rule answer_changes [OF ui_obliging [OF assms(1)] _ that]) (use a in auto)
  from run consider "s' = s" | "s' = s1" | "run_state (answer_page ?U req a (plain_path req)) s1 = (response, s')"
    by (auto split: if_splits)
  then show ?thesis
  proof cases
    case 1
    then show ?thesis by (simp add: chg.refl)
  next
    case 2
    then show ?thesis using k by simp
  next
    case 3
    then show ?thesis using changes_trans [OF k page] by blast
  qed
qed


end
