(* ===== verification/Peers_Sample.thy ===== *)
theory Peers_Sample
  imports Console_Netd Ui_Netd Life_Sample Console_Sample Ui_Sample
begin

text \<open>
  The console and the Web UI of the sample appliance with its netd: one machine that keeps a
  previous revision, has two administrators and a Host update program that refuses.
\<close>

section \<open>The appliance\<close>

definition shared_world :: "unit world" where
  "shared_world = kept_world\<lparr> files := (files kept_world)(IDENTITY_FILE \<mapsto> unary two_admins) \<rparr>"

definition refusing :: "json \<Rightarrow> (unit world, string res) state" where
  "refusing v = ret (Inl ''connection refused'')"

lemma shared_reads: "reads_back unary_codecs unary (\<lambda>v. v)"
  by (simp add: reads_back_def unary_codecs_def unary_json_def option.map_ident)

lemma sample_appliance: "one_appliance sample_netd unary (\<lambda>v. v) refusing unary_codecs"
  unfolding one_appliance_def
  by (auto simp: sample_env_of unary_lawful shared_reads refusing_def intro: kept.keeps_ret)

lemma shared_paths:
  "IDENTITY_FILE \<notin> {DESIRED, PREVIOUS_ACCEPTED, APPLY_OPERATION, APPLY_PREVIOUS, APPLY_ATTRIBUTION, BOOTSTRAPPED}"
  "\<not> is_temp IDENTITY_FILE" "OWNED_FILE = BOOTSTRAPPED"
  by code_simp+

lemma shared_files: "files shared_world BOOTSTRAPPED \<noteq> None" "files shared_world APPLY_OPERATION = None"
    "boot_state unary_codecs (files shared_world) \<noteq> None" "trail shared_world = []"
    "files shared_world PREVIOUS_ACCEPTED = Some (unary sample_state)"
    "files shared_world IDENTITY_FILE = Some (unary two_admins)"
    "boot_state unary_codecs (files shared_world) = Some (sample_state\<lparr>revision := 5\<rparr>, Some (unary sample_state), None)"
  using kept_files kept_boot shared_paths unary_toml
  by (auto simp: shared_world_def boot_state_def sample_env_of desired_file_def normal_revision_def)

lemma shared_idle: "idle_with unary_codecs (sample_state\<lparr>revision := 5\<rparr>) shared_world"
proof -
  have "tidy shared_world" using kept_tidy shared_paths by (auto simp: tidy_def shared_world_def)
  then show ?thesis using kept_idle shared_paths by (auto simp: idle_with_def shared_world_def)
qed

lemma sample_codecs [simp]: "codec (machine_env sample_console_env) = unary_codecs"
    "codec (host_of sample_ui) = unary_codecs"
  by (simp_all add: machine_env_def sample_console_env_def host_of_def sample_ui_def)

section \<open>A predecessor restored by netd\<close>

lemma sample_pending:
  assumes "files w APPLY_OPERATION = None"
  shows "run_state (pending_operation sample_env) w = (Inr None, w)"
  using assms by (simp add: pending_operation_def read_file_def fault_def run_asks sample_env_def tryE_def map_err_def)

lemma addresses_revision: "only_addresses x y \<Longrightarrow> revision y = revision x"
  unfolding only_addresses_def by (metis desired_state.select_convs(1) desired_state.surjective desired_state.update_convs)

lemma shared_restores:
  "\<exists>v w'. run_state (restore_previous_request sample_env (Some p)) shared_world = (v, w')
     \<and> (\<exists>st a t. boot_state unary_codecs (files w') = Some (st, a, t) \<and> revision st = 6)"
proof -
  obtain v w' where r: "run_state (restore_previous_request sample_env (Some p)) shared_world = (v, w')" by fastforce
  have "reply_outcome v = Some ''accepted''"
    using restore_previous_accepts [OF sample_faultless _ sample_answers sample_codecs_lawful _ shared_files(1,5) unary_utf8
      _ _ _ _ _ sample_lan_host, of "sample_state\<lparr>revision := 5\<rparr>" "JStr (unary sample_state)" "Some p"]
      unary_encodes shared_idle unary_toml sample_revision sample_valid r by simp
  from restore_previous_is_next_revision [OF r sample_codecs_lawful shared_files(4) this] shared_files(7)
  obtain previous st a t where "boot_state unary_codecs (files w') = Some (st, a, t)"
      "only_addresses (previous\<lparr>revision := 6\<rparr>) st" by auto
  then show ?thesis using r addresses_revision by fastforce
qed

lemma shared_peer:
  "\<exists>r w'. run_state (netd_peer sample_netd unary (restore_message sample_console_env (Some p))) shared_world = (r, w')
     \<and> (\<exists>st a t. boot_state unary_codecs (files w') = Some (st, a, t) \<and> revision st = 6)"
proof -
  let ?v = "restore_message sample_console_env (Some p)"
  obtain v w' where r: "run_state (restore_previous_request sample_env (Some p)) shared_world = (v, w')"
    "\<exists>st a t. boot_state unary_codecs (files w') = Some (st, a, t) \<and> revision st = 6"
    using shared_restores by blast
  have fresh: "fresh shared_world = shared_world" using shared_files(4) by (simp add: fresh_def)
  have expire: "run_state (as_process (expire_pending_confirmation (env_of sample_netd))) shared_world = ((), shared_world)"
    using shared_files by (simp add: as_process_def expire_pending_confirmation_def sample_env_of fresh sample_pending)
  have op: "get_str ?v ''op'' = Some ''restore_previous''" "get_principal unary_codecs ?v ''applying'' = Some p"
    by (simp_all add: restore_message_def get_str_def get_principal_def jget_def jstr_def jopt_def ok_opt_def
        unary_codecs_def unary_json_def)
  have json: "json_of_text unary_codecs (unary ?v) = Inr ?v" by (simp add: unary_codecs_def)
  have "run_state (socket_reply sample_netd (unary ?v)) shared_world = (v, w')"
    using op r(1) json by (simp add: socket_reply_def handle_cmd_def sample_env_of Let_def)
  then have reply: "run_state (as_process (socket_reply sample_netd (unary ?v))) shared_world = (v, w')"
    using shared_files(4) by (simp add: as_process_def fresh)
  show ?thesis
    using expire reply r(2) by (simp add: netd_peer_def run_asks sample_netd_def)
qed

section \<open>Instances\<close>

definition shared_console :: "unit console" where
  "shared_console = (sample_console (''restore-previous'' @ nl) True)\<lparr> on := shared_world \<rparr>"

abbreviation shared_env :: "unit console_env" where
  "shared_env \<equiv> beside_netd sample_netd unary refusing sample_console_env"

lemma shared_terminal:
  "run_state (say shared_env t) c = (Inr (), c\<lparr> screen := screen c @ t \<rparr>)"
  "run_state (flush shared_env) c = (Inr (), c)"
  by (simp_all add: say_def flush_def run_asks put_screen_def sample_console_env_def beside_netd_def)

lemma shared_config: "run_state (read_config sample_identity) shared_world = (Inr two_admins, shared_world)"
  using two_admins_owned shared_files(6)
  by (simp add: read_config_def read_file_def fault_def run_asks sample_env_def owned_config_def valid_config_def tryE_def)

lemma shared_grants:
  assumes "on c = shared_world"
  shows "run_state (authorized_now shared_env alice) c = (True, c)"
proof -
  have "login_env sample_console_env = sample_identity" by (simp add: sample_console_env_def)
  then show ?thesis
    using assms sample_accounts shared_files(1) shared_paths(3) shared_config
    by (auto simp: authorized_now_def authorize_administrator_def file_exists_def)
qed

lemma restoring_round:
  "\<exists>r c'. run_state (console_round shared_env (In_session alice)) shared_console = (r, c')
     \<and> (\<exists>st a t. boot_state unary_codecs (files (on c')) = Some (st, a, t) \<and> revision st = 6)"
proof -
  let ?E = shared_env
  obtain r w' where peer: "run_state (netd_peer sample_netd unary (restore_message sample_console_env (Some (auth_principal alice)))) shared_world = (r, w')"
     "\<exists>st a t. boot_state unary_codecs (files w') = Some (st, a, t) \<and> revision st = 6"
    using shared_peer by blast
  have message: "restore_message ?E who = restore_message sample_console_env who" for who
    by (simp add: restore_message_def)
  have line: "take_line (''restore-previous'' @ nl) = Some (''restore-previous'', [])"
    "command_of (trim ''restore-previous'') = (''restore-previous'', [])" by code_simp+
  have parts: "on shared_console = shared_world" "line_buffer shared_console = ''restore-previous'' @ nl"
    by (simp_all add: shared_console_def sample_console_def)
  have typed: "run_state (read_line_poll ?E (- 1)) (shared_console\<lparr> screen := t \<rparr>)
      = (Inr (Line ''restore-previous''), shared_console\<lparr> screen := t, line_buffer := [] \<rparr>)" for t
    using poll_line [of "shared_console\<lparr> screen := t \<rparr>" "''restore-previous''" "[]" ?E "- 1"] line(1) parts(2)
    by (simp add: beside_netd_def sample_console_env_def)
  have asked: "run_state (restore_previous_client ?E (Some (auth_principal alice))) c = (r, c\<lparr> on := w' \<rparr>)"
    if "on c = shared_world" for c
    using that peer(1) by (simp add: restore_previous_client_def socket_roundtrip_def message)
  have command: "\<exists>c'. run_state (admin_command ?E (trim ''restore-previous'') (Some (auth_principal alice))) c = (Inr Continue, c')
      \<and> on c' = w'" if "on c = shared_world" for c
    using asked [OF that] line(2) by (cases r) (auto simp: admin_command_def write_cmd_def tryE_def shared_terminal)
  let ?c = "shared_console\<lparr> screen := screen shared_console @ ''recovery> '', line_buffer := [] \<rparr>"
  obtain c' where c': "run_state (admin_command ?E (trim ''restore-previous'') (Some (auth_principal alice))) ?c = (Inr Continue, c')"
      "on c' = w'"
    using command [of ?c] parts(1) by auto
  have "run_state (console_round ?E (In_session alice)) shared_console = (Inr (In_session alice), c')"
    using c'(1) typed parts(1)
    by (simp add: console_round_def session_round_def while_authorized_def shared_grants tryE_def shared_terminal)
  then show ?thesis using c'(2) peer(2) by blast
qed

definition restored_console :: "unit console" where
  "restored_console = snd (run_state (console_round shared_env (In_session alice)) shared_console)"


definition cookie_post :: "string \<Rightarrow> http_request" where
  "cookie_post path = (json_post path)\<lparr> req_headers :=
     [(''content-type'', ''application/json''), (''cookie'', SESSION_COOKIE @ ''='' @ token_of zeros)] \<rparr>"

definition shared_server :: "unit server" where
  "shared_server = alice_server\<lparr> machine_of := shared_world \<rparr>"

definition confirmed_server :: "unit server" where
  "confirmed_server = snd (run_state (dispatch (ui_beside_netd sample_netd unary refusing sample_ui)
     (cookie_post ''/api/apply-confirmation/confirm'')) shared_server)"


end
