(* ===== verification/Spec2Isabelle.thy ===== *)
theory Spec2Isabelle
  imports Forwarding Sample Desired_Json Confirm_Sample Identity_Sample Bootstrap_Success
    Update_Sample Life_Sample Ui_Sample Console_Sample
    Startup_Sample Peers_Sample
begin

text \<open>
  A model of the FWOS appliance daemons (\<open>src/*.rs\<close>) and what makes them correct.

  \<^bold>\<open>The program.\<close> \<open>netd\<close> owns the network of the appliance. Its Desired state is a document
  that an administrator changes through the Web UI (directly, or as a private draft that is
  saved, reviewed and applied later) or the console; an apply request validates
  the document, journals the change, programs the live network with the usual Linux programs,
  and commits three files (the Accepted state, its predecessor, and the attribution of who
  applied it) or rolls back. Where the Accepted state asks for confirmation the change waits
  for it until a deadline. After a crash the journal leads back to the Accepted state behind
  a forwarding guard. Bootstrap makes a fresh appliance owned; \<open>identity\<close> keeps the
  administrators. \<open>fwos-update\<close> stages a new Release of the whole system, checks the boot of it
  and rolls it back, with netd's help also the network.

  \<^bold>\<open>Theories.\<close>
  \<^item> \<open>Prelude\<close>: text and list functions of Rust's standard library and their lemmas. \<open>Ip\<close>,
    \<open>Netmask\<close>: addresses, CIDRs, prefixes at their width. \<open>Serde\<close>: what derived
    deserializers do, with the locale of a JSON codec.
  \<^item> \<open>Desired\<close>, \<open>Desired_Json\<close> (\<open>desired.rs\<close>): the document and its JSON. \<open>Bootstrap_Values\<close>
    (\<open>bootstrap_values.rs\<close>), \<open>Lan_Text\<close>, \<open>Policy\<close>, \<open>Validate\<close> (\<open>netd.rs\<close>): validation, the
    firewall policy, and the rulesets; \<open>Forwarding\<close>: what the rulesets accept.
  \<^item> \<open>World\<close>: the machine. A world holds netd's files, the flag \<open>RECOVERY_REQUIRED\<close>, every
    file map there has been (\<open>trail\<close>, what a power loss can find), the programs called, and
    the rest of the machine, of any type; \<open>env\<close> is the environment's answers: faults of each
    file operation, programs, clocks, files of others. A computation is a state monad that
    returns an error or a value. \<open>Durable\<close> (\<open>durable.rs\<close>): the durable write and removal,
    and the contract the components use. \<open>Records\<close>: the journal's types and the codecs.
  \<^item> \<open>Commands\<close> (\<open>network.rs\<close>), \<open>Lan_Services\<close>, \<open>Live\<close>: programming the live network
    (\<open>apply\<close> of \<open>netd.rs\<close>). \<open>Footprint\<close>: the rollback footprint. \<open>Journal\<close>: the journal, the
    guard, the LAN services' readiness, the recovery. \<open>Apply\<close>, \<open>Transaction\<close>: the apply
    request. \<open>Confirm\<close>: confirmation, expiry, previous and preserved revisions, status.
  \<^item> \<open>Identity\<close> (\<open>identity.rs\<close>): accounts, authentication, authorization. \<open>Bootstrap\<close>: the
    selection of a first NIC and the Bootstrap transaction.
  \<^item> \<open>Apply_Properties\<close>, \<open>Recovery\<close>, \<open>Confirm_Properties\<close>, \<open>Restore_Properties\<close>,
    \<open>Identity_Properties\<close>, \<open>Bootstrap_Properties\<close>: safety and functional properties for every
    environment. \<open>Apply_Success\<close>, \<open>Confirm_Success\<close>, \<open>Bootstrap_Success\<close>: that the requests
    succeed on a machine without faults. \<open>Sample\<close>, \<open>Confirm_Sample\<close>, \<open>Identity_Sample\<close>: one
    concrete machine and the instances of the properties on it.

  \<^item> \<open>Resolvers\<close> (\<open>fwd_resolvers.rs\<close>, \<open>host_image.rs\<close>), \<open>Update\<close> (\<open>update.rs\<close>): the Host update.
    \<open>Update_Properties\<close>: the order of its records. \<open>Health_Properties\<close>: what the health check may do.
    \<open>Controller\<close>: the controller's requests and stage threads as a step relation with its
    invariant. \<open>Update_Sample\<close>: instances.

  \<^item> \<open>Ra\<close>, \<open>Ra_Properties\<close>, \<open>Ra_Sample\<close> (\<open>ra.rs\<close>): the advertisement, its schedule, the
    advertiser and the listener for resolvers; that packets read back, the schedule holds, and
    what is advertised and known follows the LANs and the last advertisements.
  \<^item> \<open>Netd\<close>: netd as a process: its start, a round of the main loop, the dispatch of requests, the
    status replies and the IPv6 runtime. \<open>Steady\<close>, \<open>Appliance\<close>: what its operations leave alone and
    keep. \<open>Life\<close>: starts, rounds, requests, power losses and other programs as a step relation,
    whose pieces are those of \<open>run\<close>, with the invariant that there is always an Accepted state to
    boot from. \<open>Life_Sample\<close>: instances.

  \<^item> The Web UI (\<open>ui.rs\<close>). \<open>Ui_Sections\<close>: the sections of a Desired state its pages edit,
    drafts, reconciliation, exports, all pure; \<open>Ui_Drafts\<close>, \<open>Ui_Lan\<close>: what they keep.
    \<open>Ui_Bootstrap\<close>: the first-boot form, and that its checks are netd's. \<open>Http\<close>: requests read
    from a stream in chunks, responses, origins, cookies. \<open>Ui\<close>, \<open>Ui_Pages\<close>, \<open>Ui_Draft_Pages\<close>,
    \<open>Ui_Server\<close>: the pages and the dispatch, as computations on a machine with a table of
    sessions. \<open>Looking\<close>: what only looks at a machine. \<open>Ui_Access\<close>: who is served. \<open>Ui_Sessions\<close>: the table refines a map of who is
    signed in. \<open>Ui_Sample\<close>: instances.
  \<^item> The serial console (\<open>console.rs\<close>). \<open>Console_Text\<close>: its lines, commands and what it shows,
    pure. \<open>Console\<close>: the terminal, the Bootstrap console, the login and the recovery menu: a
    console is in one of five modes, each loop of the code is one round that says the next mode,
    and other programs change the machine between the rounds (\<open>console_run\<close>).
    \<open>Console_Properties\<close>: what it sends in which mode, and that sessions begin with a password.
    \<open>Console_Terminal\<close>: the echo and the lines. \<open>Console_Sample\<close>: instances.

  \<^item> Network startup (\<open>main.rs\<close>, \<open>network_startup.rs\<close>). \<open>Network_Startup\<close>: the program, whose
    thread moves between network namespaces. \<open>Startup_Properties\<close>: the contract of its steps.
    \<open>Startup_Claims\<close>: what is done where and in which order, and that every NIC is claimed.
    \<open>Startup_Sample\<close>: that it succeeds where nothing fails, and an instance.

  \<^item> The programs together. \<open>Accountability\<close>: every change of the Accepted state in the life of
    the appliance is an answer whose attribution names the principal of the request. \<open>Peers\<close>:
    netd at the other end of its socket (\<open>netd_peer\<close>: a round serves one client, after the
    expiry), and what a run changes on a machine they share. \<open>Console_Netd\<close>, \<open>Ui_Netd\<close>: what a
    console or a request to the Web UI changes through netd is signed by the administrator of its
    session. They ask for \<open>one_appliance\<close>: the programs use the same codec, a JSON text reads back
    up to the order of keys, and the Host update program leaves netd's files alone.
    \<open>Peers_Sample\<close>: a console that restores the predecessor through netd.

  \<^bold>\<open>The central abstraction\<close> is \<open>boot_state\<close> of \<open>Transaction\<close>: the Accepted state, predecessor
  and attribution that the next start restores from the files, whatever the journal says. Apply,
  confirm and recover are proved to move it in one step at most, over every file map of the trail.

  \<^bold>\<open>Bounds.\<close> Machine integers are words of their width: revisions and credential versions 64
  bits with the checked addition of the code, clocks with its saturating arithmetic. Loops that
  wait are recursive on a number of rounds: \<open>wait_lan_services\<close> 241 (60 s in steps of at least
  250 ms), \<open>wait_link_local\<close> 25, \<open>wait_expose_cidrs\<close> 41 (8 s in steps of at least 200 ms),
  \<open>health_rounds\<close> 181 looks (180 s, one a second); the
  last one is at the deadline, so the model ends when the code does.

  \<^bold>\<open>Parameters.\<close> What is not under \<open>src/\<close> is a parameter: the kernel's answers, \<open>ip\<close>, \<open>nft\<close>,
  \<open>wg\<close>, \<open>tc\<close>, \<open>dhclient\<close>, libxcrypt, base64 and the serde and TOML codecs of the journal.
  Theorems about decoded files ask that the codecs are lawful (reading gives back what was
  written).

  \<^bold>\<open>Not modelled.\<close> What the mains print and their exit codes.
  Of the Web UI: TLS and its certificate, the listening sockets and connection threads; a request is
  one step, so its locks, which only order requests, have no state. Requests of netd are
  handled one at a time, as in its single thread.
\<close>

end
